(* ===== verification/FV_Prelude.thy ===== *)
theory FV_Prelude
  imports Complex_Main "HOL-Library.Word"
begin

text \<open>
  Shared vocabulary of the development: results of code that can throw, JavaScript numbers and
  strings, and the lemmas on lists, digits and words the component theories use.

  Conventions.
  \<^item> A function that throws returns \<open>'e + 'a\<close>: \<open>Inl\<close> the error, \<open>Inr\<close> the value.
  \<^item> A JavaScript string is represented by the bytes of its UTF-8 encoding, one \<open>char\<close> per byte.
    Equality, concatenation, search and the ASCII character classes of the code's regular
    expressions are the same on both representations; \<open>TextEncoder.encode\<close> is then the identity
    on bytes.
  \<^item> A JavaScript number the code tests with \<open>Number.isInteger\<close> or range checks is a \<open>js_num\<close>;
    numbers that are whole by construction (enum codes, unix seconds, indices) are \<open>int\<close> or
    \<open>nat\<close>; a Uint8Array is a list of 8-bit words.
\<close>

named_theorems result_simps "equations for results of code that can throw"
named_theorems layout_simps "unfolding rules for byte layouts and offsets"

type_synonym byte = "8 word"
type_synonym bytes = "8 word list"

section \<open>Results\<close>

definition bindE :: "'e + 'a \<Rightarrow> ('a \<Rightarrow> 'e + 'b) \<Rightarrow> 'e + 'b" where
  "bindE r f = (case r of Inl e \<Rightarrow> Inl e | Inr x \<Rightarrow> f x)"

definition guardE :: "bool \<Rightarrow> 'e \<Rightarrow> 'e + unit" where
  "guardE b e = (if b then Inr () else Inl e)"

definition isOk :: "'e + 'a \<Rightarrow> bool" where
  "isOk r = (case r of Inl _ \<Rightarrow> False | Inr _ \<Rightarrow> True)"

lemma bindE_simps [simp, result_simps]:
  "bindE (Inl e) f = Inl e"
  "bindE (Inr x) f = f x"
  by (simp_all add: bindE_def)

lemma bindE_eq_Inr [result_simps]:
  "bindE r f = Inr y \<longleftrightarrow> (\<exists>x. r = Inr x \<and> f x = Inr y)"
  by (cases r) auto

lemma bindE_eq_Inl [result_simps]:
  "bindE r f = Inl e \<longleftrightarrow> r = Inl e \<or> (\<exists>x. r = Inr x \<and> f x = Inl e)"
  by (cases r) auto

lemma guardE_eq [simp, result_simps]:
  "guardE b e = Inr u \<longleftrightarrow> b"
  "guardE b e = Inl e' \<longleftrightarrow> \<not> b \<and> e' = e"
  by (auto simp: guardE_def)

lemma guardE_True [simp]: "guardE True e = Inr ()"
  by (simp add: guardE_def)

lemma guardE_False [simp]: "guardE False e = Inl e"
  by (simp add: guardE_def)

lemma isOk_simps [simp]:
  "isOk (Inl e) = False"
  "isOk (Inr x) = True"
  by (simp_all add: isOk_def)

lemma isOk_iff: "isOk r \<longleftrightarrow> (\<exists>x. r = Inr x)"
  by (cases r) auto

section \<open>JavaScript numbers\<close>

datatype js_num = Fin rat | PosInf | NegInf | NaN

abbreviation jn :: "int \<Rightarrow> js_num" where
  "jn n \<equiv> Fin (of_int n)"

text \<open>\<open>Number.isInteger\<close>, \<open><\<close> and \<open>>=\<close> (every comparison with NaN is false), \<open>Math.trunc\<close>.\<close>

fun js_is_integer :: "js_num \<Rightarrow> bool" where
  "js_is_integer (Fin q) = (of_int \<lfloor>q\<rfloor> = q)"
| "js_is_integer _ = False"

fun js_lt :: "js_num \<Rightarrow> js_num \<Rightarrow> bool" where
  "js_lt (Fin a) (Fin b) = (a < b)"
| "js_lt (Fin _) PosInf = True"
| "js_lt NegInf (Fin _) = True"
| "js_lt NegInf PosInf = True"
| "js_lt _ _ = False"

fun js_ge :: "js_num \<Rightarrow> js_num \<Rightarrow> bool" where
  "js_ge (Fin a) (Fin b) = (a \<ge> b)"
| "js_ge PosInf b = (b \<noteq> NaN)"
| "js_ge (Fin _) NegInf = True"
| "js_ge (Fin _) _ = False"
| "js_ge NegInf b = (b = NegInf)"
| "js_ge NaN _ = False"

fun js_floor :: "js_num \<Rightarrow> int" where
  "js_floor (Fin q) = \<lfloor>q\<rfloor>"
| "js_floor _ = 0"

lemma js_is_integer_jn [simp]: "js_is_integer (jn n)"
  by simp

lemma js_is_integerE:
  assumes "js_is_integer x"
  obtains n where "x = jn n"
proof (cases x)
  case (Fin q)
  with assms have "x = jn \<lfloor>q\<rfloor>" by auto
  then show ?thesis by (rule that)
qed (use assms in auto)

lemma js_lt_jn [simp]: "js_lt (jn a) (jn b) \<longleftrightarrow> a < b"
  by simp

lemma js_floor_jn [simp]: "js_floor (jn n) = n"
  by simp

text \<open>Whole numbers in a range, the shape of every integer check in the code.\<close>

lemma js_int_range:
  "js_is_integer x \<and> \<not> js_lt x (jn lo) \<and> \<not> js_lt (jn hi) x \<longleftrightarrow>
   (\<exists>n. x = jn n \<and> lo \<le> n \<and> n \<le> hi)"
proof (cases x)
  case (Fin q)
  show ?thesis
  proof
    assume *: "js_is_integer x \<and> \<not> js_lt x (jn lo) \<and> \<not> js_lt (jn hi) x"
    then obtain n where "x = jn n" by (auto elim: js_is_integerE)
    with * show "\<exists>n. x = jn n \<and> lo \<le> n \<and> n \<le> hi" by auto
  qed (auto)
qed auto

section \<open>Words\<close>

lemma byte_bound: "unat (b :: byte) < 256"
  using unsigned_less [of b] by simp

lemma byte_of_nat: "n < 256 \<Longrightarrow> unat (of_nat n :: byte) = n"
  by (simp add: unsigned_of_nat take_bit_nat_eq_self)

lemma ucast32_byte_eq: "(ucast (a :: byte) :: 32 word) = ucast b \<longleftrightarrow> a = b"
proof
  assume "(ucast a :: 32 word) = ucast b"
  then have "unat (ucast a :: 32 word) = unat (ucast b :: 32 word)" by simp
  then have "unat a = unat b"
    by (simp add: unsigned_ucast_eq take_bit_nat_eq_self order_less_trans [OF byte_bound])
  then show "a = b" by (simp add: word_unat_eq_iff)
qed simp

text \<open>The simplifier writes the number \<open>jn (uint w)\<close> as \<open>Fin (unsigned w)\<close>.\<close>

lemma floor_unsigned [simp]:
  "\<lfloor>unsigned (w :: 'a::len word) :: rat\<rfloor> = uint w" "\<lfloor>unsigned w :: real\<rfloor> = uint w"
  using floor_of_int [of "uint w", where 'a = rat] floor_of_int [of "uint w", where 'a = real] by simp_all

lemma xor_eq_zero: "semiring_bit_operations_class.xor (a :: 32 word) b = 0 \<longleftrightarrow> a = b"
proof
  assume "semiring_bit_operations_class.xor a b = 0"
  then have "semiring_bit_operations_class.xor (semiring_bit_operations_class.xor a b) b = b" by simp
  then show "a = b" by (simp add: xor.assoc)
qed simp

end
