(* ===== verification/FV_Text.thy ===== *)
theory FV_Text
  imports FV_Prelude
begin

text \<open>
  Text helpers: the ASCII classes of the code's regular expressions, decimal numbers
  (\<open>Number.prototype.toString\<close>, \<open>BigInt(...)\<close> on digit strings), padding, searching and
  \<open>String.prototype.trim\<close> on the UTF-8 representation.
\<close>

named_theorems char_class_simps "definitions of the ASCII character classes"

section \<open>Characters\<close>

definition code :: "char \<Rightarrow> nat" where
  "code c = of_char c"

definition is_digit :: "char \<Rightarrow> bool" where [char_class_simps]:
  "is_digit c \<longleftrightarrow> 48 \<le> code c \<and> code c \<le> 57"

definition is_upper :: "char \<Rightarrow> bool" where [char_class_simps]:
  "is_upper c \<longleftrightarrow> 65 \<le> code c \<and> code c \<le> 90"

definition is_lower :: "char \<Rightarrow> bool" where [char_class_simps]:
  "is_lower c \<longleftrightarrow> 97 \<le> code c \<and> code c \<le> 122"

definition is_alnum :: "char \<Rightarrow> bool" where [char_class_simps]:
  "is_alnum c \<longleftrightarrow> is_digit c \<or> is_upper c \<or> is_lower c"

definition is_hex :: "char \<Rightarrow> bool" where [char_class_simps]:
  "is_hex c \<longleftrightarrow> is_digit c \<or> (65 \<le> code c \<and> code c \<le> 70) \<or> (97 \<le> code c \<and> code c \<le> 102)"

definition digit_char :: "nat \<Rightarrow> char" where
  "digit_char d = char_of (48 + d)"

definition to_upper_char :: "char \<Rightarrow> char" where
  "to_upper_char c = (if is_lower c then char_of (code c - 32) else c)"

definition to_lower_char :: "char \<Rightarrow> char" where
  "to_lower_char c = (if is_upper c then char_of (code c + 32) else c)"

lemma code_bound: "code c < 256"
  by (simp add: code_def)

lemma code_char_of: "n < 256 \<Longrightarrow> code (char_of n) = n"
  by (simp add: code_def)

lemma char_of_code [simp]: "char_of (code c) = c"
  by (simp add: code_def)

lemma code_inject [simp]: "code c = code d \<longleftrightarrow> c = d"
  by (simp add: code_def)

lemma code_digit_char: "d < 10 \<Longrightarrow> code (digit_char d) = 48 + d"
  by (simp add: digit_char_def code_char_of)

lemma is_digit_digit_char [simp]: "d < 10 \<Longrightarrow> is_digit (digit_char d)"
  by (simp add: is_digit_def code_digit_char)

lemma digit_char_of_code: "is_digit c \<Longrightarrow> digit_char (code c - 48) = c"
  by (simp add: digit_char_def is_digit_def)

lemma digit_char_eq_0: "d < 10 \<Longrightarrow> digit_char d = CHR ''0'' \<longleftrightarrow> d = 0"
  using code_digit_char [of d] code_inject [of "digit_char d" "CHR ''0''"]
  by (simp add: code_def)

section \<open>Decimal numbers\<close>

fun show_nat :: "nat \<Rightarrow> string" where
  "show_nat n = (if n < 10 then [digit_char n] else show_nat (n div 10) @ [digit_char (n mod 10)])"

declare show_nat.simps [simp del]

definition read_nat :: "string \<Rightarrow> nat" where
  "read_nat s = foldl (\<lambda>a c. 10 * a + (code c - 48)) 0 s"

definition show_int :: "int \<Rightarrow> string" where
  "show_int n = (if n < 0 then CHR ''-'' # show_nat (nat (- n)) else show_nat (nat n))"

lemma read_nat_Nil [simp]: "read_nat [] = 0"
  by (simp add: read_nat_def)

lemma read_nat_snoc: "read_nat (s @ [c]) = 10 * read_nat s + (code c - 48)"
  by (simp add: read_nat_def)

lemma read_nat_append: "read_nat (s @ t) = read_nat s * 10 ^ length t + read_nat t"
proof (induction t rule: rev_induct)
  case (snoc c t)
  have "read_nat (s @ t @ [c]) = 10 * read_nat (s @ t) + (code c - 48)"
    using read_nat_snoc [of "s @ t" c] by simp
  with snoc show ?case by (simp add: read_nat_snoc algebra_simps)
qed simp

lemma read_nat_Cons: "read_nat (c # t) = (code c - 48) * 10 ^ length t + read_nat t"
  using read_nat_append [of "[c]" t] read_nat_snoc [of "[]" c] by simp

lemma read_nat_replicate_0 [simp]: "read_nat (replicate n CHR ''0'') = 0"
  by (induction n) (simp_all add: read_nat_Cons code_def)

lemma show_small:
  "n < 10 \<Longrightarrow> show_nat n = [digit_char n]"
  "10 \<le> n \<Longrightarrow> n < 100 \<Longrightarrow> show_nat n = [digit_char (n div 10), digit_char (n mod 10)]"
  "100 \<le> n \<Longrightarrow> n < 1000 \<Longrightarrow> show_nat n = [digit_char (n div 100), digit_char (n div 10 mod 10), digit_char (n mod 10)]"
proof -
  show 1: "show_nat n = [digit_char n]" if "n < 10" for n using that by (simp add: show_nat.simps [of n])
  show 2: "show_nat n = [digit_char (n div 10), digit_char (n mod 10)]" if "10 \<le> n" "n < 100" for n
    using that 1 [of "n div 10"] by (simp add: show_nat.simps [of n])
  show "show_nat n = [digit_char (n div 100), digit_char (n div 10 mod 10), digit_char (n mod 10)]"
    if "100 \<le> n" "n < 1000"
    using that 2 [of "n div 10"] by (simp add: show_nat.simps [of n] flip: div_mult2_eq)
qed

lemma show_nat_digits: "list_all is_digit (show_nat n)"
proof (induction n rule: show_nat.induct)
  case (1 n)
  then show ?case by (subst show_nat.simps) auto
qed

lemma show_nat_nonempty [simp]: "show_nat n \<noteq> []"
  by (subst show_nat.simps) simp

lemma read_show_nat [simp]: "read_nat (show_nat n) = n"
proof (induction n rule: show_nat.induct)
  case (1 n)
  show ?case
  proof (cases "n < 10")
    case True
    then show ?thesis using read_nat_snoc [of "[]"] by (subst show_nat.simps) (simp add: code_digit_char)
  next
    case False
    with 1 show ?thesis by (subst show_nat.simps) (simp add: read_nat_snoc code_digit_char)
  qed
qed

lemma show_nat_inject [simp]: "show_nat m = show_nat n \<longleftrightarrow> m = n"
  by (metis read_show_nat)

lemma read_nat_bound: "list_all is_digit s \<Longrightarrow> read_nat s < 10 ^ length s"
proof (induction s rule: rev_induct)
  case (snoc c s)
  then have "read_nat s + 1 \<le> 10 ^ length s" and "code c - 48 \<le> 9"
    by (auto simp: is_digit_def)
  then have "10 * read_nat s + (code c - 48) < 10 * 10 ^ length s" by linarith
  then show ?case by (simp add: read_nat_snoc)
qed simp

lemma show_nat_length: "n < 10 ^ k \<Longrightarrow> 0 < k \<Longrightarrow> length (show_nat n) \<le> k"
proof (induction n arbitrary: k rule: show_nat.induct)
  case (1 n)
  show ?case
  proof (cases "n < 10")
    case True
    then show ?thesis using 1(3) by (subst show_nat.simps) simp
  next
    case False
    with 1(2,3) obtain j where j: "k = Suc j" "0 < j"
      by (cases k; cases "k - 1") auto
    with 1(2) have "n div 10 < 10 ^ j" by (simp add: less_mult_imp_div_less)
    with 1(1) False j have "length (show_nat (n div 10)) \<le> j" by blast
    with False j show ?thesis by (subst show_nat.simps) simp
  qed
qed

lemma show_nat_hd_zero: "hd (show_nat n) = CHR ''0'' \<longleftrightarrow> n = 0"
proof (induction n rule: show_nat.induct)
  case (1 n)
  show ?case
  proof (cases "n < 10")
    case True
    then show ?thesis by (subst show_nat.simps) (simp add: digit_char_eq_0)
  next
    case False
    with 1 have "hd (show_nat (n div 10)) \<noteq> CHR ''0''" by simp
    with False show ?thesis by (subst show_nat.simps) (auto simp: hd_append)
  qed
qed

text \<open>A digit string without a leading zero is the decimal print of its value.\<close>

lemma show_read_nat:
  assumes "list_all is_digit s" "s \<noteq> []" "hd s = CHR ''0'' \<Longrightarrow> s = ''0''"
  shows "show_nat (read_nat s) = s"
  using assms
proof (induction s rule: rev_induct)
  case (snoc c s)
  have c: "is_digit c" "code c - 48 < 10"
    using snoc.prems(1) by (auto simp: is_digit_def)
  show ?case
  proof (cases "s = []")
    case True
    then show ?thesis using c read_nat_snoc [of "[]" c]
      by (subst show_nat.simps) (simp add: digit_char_of_code)
  next
    case False
    with snoc.prems(3) have hd: "hd s \<noteq> CHR ''0''" by (auto simp: hd_append)
    with snoc False have IH: "show_nat (read_nat s) = s" by auto
    with hd have "0 < read_nat s" using show_nat_hd_zero [of "read_nat s"] by auto
    then have "\<not> read_nat (s @ [c]) < 10" by (simp add: read_nat_snoc)
    then show ?thesis using c IH
      by (subst show_nat.simps) (simp add: read_nat_snoc digit_char_of_code)
  qed
qed simp

text \<open>Two digit strings of one length compare like their values (\<open><=\<close> on JavaScript strings).\<close>

fun str_le :: "string \<Rightarrow> string \<Rightarrow> bool" where
  "str_le [] _ = True"
| "str_le (_ # _) [] = False"
| "str_le (c # s) (d # t) = (code c < code d \<or> (c = d \<and> str_le s t))"

lemma str_le_digits:
  assumes "list_all is_digit s" "list_all is_digit t" "length s = length t"
  shows "str_le s t \<longleftrightarrow> read_nat s \<le> read_nat t"
  using assms(3,1,2)
proof (induction s t rule: list_induct2)
  case (Cons c s d t)
  have bs: "read_nat s < 10 ^ length t" and bt: "read_nat t < 10 ^ length t"
    using Cons by (auto dest: read_nat_bound)
  have dc: "is_digit c" "is_digit d" using Cons.prems by auto
  consider "code c < code d" | "c = d" | "code d < code c" by (metis code_inject linorder_cases)
  then show ?case
  proof cases
    case 1
    then have "code c - 48 + 1 \<le> code d - 48" using dc by (auto simp: is_digit_def)
    then have "(code c - 48) * 10 ^ length t + 10 ^ length t \<le> (code d - 48) * 10 ^ length t"
      by (metis add_mult_distrib mult_1 mult_le_mono1)
    with 1 bs Cons.hyps show ?thesis by (simp add: read_nat_Cons)
  next
    case 2
    with Cons show ?thesis by (simp add: read_nat_Cons)
  next
    case 3
    then have "code d - 48 + 1 \<le> code c - 48" using dc by (auto simp: is_digit_def)
    then have "(code d - 48) * 10 ^ length t + 10 ^ length t \<le> (code c - 48) * 10 ^ length t"
      by (metis add_mult_distrib mult_1 mult_le_mono1)
    with 3 bt Cons.hyps show ?thesis by (auto simp: read_nat_Cons)
  qed
qed simp

section \<open>Padding, searching, trimming\<close>

definition pad_start :: "nat \<Rightarrow> char \<Rightarrow> string \<Rightarrow> string" where
  "pad_start n c s = replicate (n - length s) c @ s"

definition pad_end :: "nat \<Rightarrow> char \<Rightarrow> string \<Rightarrow> string" where
  "pad_end n c s = s @ replicate (n - length s) c"

definition strip_end :: "char \<Rightarrow> string \<Rightarrow> string" where
  "strip_end c s = rev (dropWhile (\<lambda>x. x = c) (rev s))"

fun starts_with :: "'a list \<Rightarrow> 'a list \<Rightarrow> bool" where
  "starts_with _ [] = True"
| "starts_with [] (_ # _) = False"
| "starts_with (x # xs) (p # ps) = (x = p \<and> starts_with xs ps)"

fun contains :: "string \<Rightarrow> string \<Rightarrow> bool" where
  "contains [] p = (p = [])"
| "contains (c # s) p = (starts_with (c # s) p \<or> contains s p)"

lemma starts_with_append [simp]: "starts_with (p @ s) p"
  by (induction p) auto

lemma starts_with_iff: "starts_with s p \<longleftrightarrow> (\<exists>r. s = p @ r)"
  by (induction s p rule: starts_with.induct) auto

lemma starts_with_take: "starts_with s p \<longleftrightarrow> length p \<le> length s \<and> take (length p) s = p"
  by (induction s p rule: starts_with.induct) auto

lemma contains_iff: "contains s p \<longleftrightarrow> (\<exists>a b. s = a @ p @ b)"
proof (induction s)
  case (Cons c s)
  show ?case
  proof
    assume "contains (c # s) p"
    then consider "starts_with (c # s) p" | "contains s p" by auto
    then show "\<exists>a b. c # s = a @ p @ b"
    proof cases
      case 1
      then show ?thesis using starts_with_iff by (metis append_Nil)
    next
      case 2
      with Cons show ?thesis by (metis append_Cons)
    qed
  next
    assume "\<exists>a b. c # s = a @ p @ b"
    then obtain a b where ab: "c # s = a @ p @ b" by blast
    show "contains (c # s) p"
    proof (cases a)
      case Nil
      with ab have "starts_with (c # s) p" by (simp only: starts_with_iff append_Nil) blast
      then show ?thesis by simp
    next
      case (Cons x a')
      with ab have "s = a' @ p @ b" by simp
      with Cons.IH show ?thesis by auto
    qed
  qed
qed auto

text \<open>
  JavaScript white space and line terminators, as UTF-8 byte sequences: the ASCII ones, U+00A0,
  U+1680, U+2000 to U+200A, U+2028, U+2029, U+202F, U+205F, U+3000 and U+FEFF.
\<close>

fun ws_skip :: "nat list \<Rightarrow> nat" where
  "ws_skip (a # b # c # _) =
     (if a = 32 \<or> (9 \<le> a \<and> a \<le> 13) then 1
      else if a = 194 \<and> b = 160 then 2
      else if a = 225 \<and> b = 154 \<and> c = 128 then 3
      else if a = 226 \<and> b = 128 \<and> (128 \<le> c \<and> c \<le> 138 \<or> c = 168 \<or> c = 169 \<or> c = 175) then 3
      else if a = 226 \<and> b = 129 \<and> c = 159 then 3
      else if a = 227 \<and> b = 128 \<and> c = 128 then 3
      else if a = 239 \<and> b = 187 \<and> c = 191 then 3 else 0)"
| "ws_skip [a, b] =
     (if a = 32 \<or> (9 \<le> a \<and> a \<le> 13) then 1 else if a = 194 \<and> b = 160 then 2 else 0)"
| "ws_skip [a] = (if a = 32 \<or> (9 \<le> a \<and> a \<le> 13) then 1 else 0)"
| "ws_skip [] = 0"

text \<open>The same for the end of a string, read backwards.\<close>

definition ws_skip_rev :: "nat list \<Rightarrow> nat" where
  "ws_skip_rev r =
     (if 1 \<le> length r \<and> ws_skip (rev (take 1 r)) = 1 then 1
      else if 2 \<le> length r \<and> ws_skip (rev (take 2 r)) = 2 then 2
      else if 3 \<le> length r \<and> ws_skip (rev (take 3 r)) = 3 then 3 else 0)"

function trim_left :: "string \<Rightarrow> string" where
  "trim_left s =
     (let k = ws_skip (map code s) in if k = 0 \<or> s = [] then s else trim_left (drop k s))"
  by pat_completeness auto
termination by (relation "measure length") auto

function trim_right_rev :: "string \<Rightarrow> string" where
  "trim_right_rev r =
     (let k = ws_skip_rev (map code r) in if k = 0 \<or> r = [] then r else trim_right_rev (drop k r))"
  by pat_completeness auto
termination by (relation "measure length") auto

declare trim_left.simps [simp del] trim_right_rev.simps [simp del]

definition js_trim :: "string \<Rightarrow> string" where
  "js_trim s = rev (trim_right_rev (rev (trim_left s)))"

text \<open>A string whose first and last bytes are printable ASCII is not changed by \<open>trim\<close>.\<close>

definition is_graph :: "char \<Rightarrow> bool" where [char_class_simps]:
  "is_graph c \<longleftrightarrow> 33 \<le> code c \<and> code c \<le> 126"

lemma ws_skip_graph: "is_graph c \<Longrightarrow> ws_skip (code c # xs) = 0"
  by (cases "code c # xs" rule: ws_skip.cases) (auto simp: is_graph_def)

lemma ws_skip_rev_graph:
  assumes "is_graph c" shows "ws_skip_rev (code c # xs) = 0"
proof -
  have 1: "ws_skip [code c] = 0" using assms by (rule ws_skip_graph)
  have 2: "ws_skip [b, code c] \<noteq> 2" for b using assms by (auto simp: is_graph_def)
  have 3: "ws_skip [a, b, code c] \<noteq> 3" for a b using assms by (auto simp: is_graph_def)
  show ?thesis
    using 1 2 3 by (cases xs rule: ws_skip.cases) (auto simp: ws_skip_rev_def numeral_2_eq_2 numeral_3_eq_3)
qed

lemma js_trim_graph:
  assumes "s \<noteq> []" "is_graph (hd s)" "is_graph (last s)"
  shows "js_trim s = s"
proof -
  obtain c t where s: "s = c # t" using assms by (cases s) auto
  have "trim_left s = s"
    using assms s by (subst trim_left.simps) (simp add: ws_skip_graph)
  moreover obtain d u where r: "rev s = d # u" using assms by (cases "rev s") auto
  moreover have "is_graph d" using r assms(3) by (metis hd_rev list.sel(1))
  then have "trim_right_rev (rev s) = rev s"
    using r by (subst trim_right_rev.simps) (simp add: ws_skip_rev_graph)
  ultimately show ?thesis by (simp add: js_trim_def)
qed

lemma digit_is_graph: "is_digit c \<Longrightarrow> is_graph c"
  by (simp add: is_digit_def is_graph_def)

section \<open>Regular-expression pieces\<close>

text \<open>\<open>\w\<close>, \<open>\s\<close> at the head of a string, and a search for a fixed text followed by a run.\<close>

definition is_word :: "char \<Rightarrow> bool" where [char_class_simps]:
  "is_word c \<longleftrightarrow> is_alnum c \<or> code c = 95"

definition ws_at :: "string \<Rightarrow> nat" where
  "ws_at s = ws_skip (map code (take 3 s))"

fun after_first :: "string \<Rightarrow> (string \<Rightarrow> 'a option) \<Rightarrow> string \<Rightarrow> 'a option" where
  "after_first p k [] = (if p = [] then k [] else None)"
| "after_first p k (c # s) =
     (if starts_with (c # s) p then
        (case k (drop (length p) (c # s)) of Some r \<Rightarrow> Some r | None \<Rightarrow> after_first p k s)
      else after_first p k s)"

definition run1 :: "(char \<Rightarrow> bool) \<Rightarrow> string \<Rightarrow> string option" where
  "run1 P s = (case takeWhile P s of [] \<Rightarrow> None | r \<Rightarrow> Some r)"

text \<open>A maximal non-empty run of \<open>\S\<close>.\<close>

fun non_ws :: "string \<Rightarrow> string" where
  "non_ws [] = []"
| "non_ws (c # s) = (if ws_at (c # s) = 0 then c # non_ws s else [])"

definition lower :: "string \<Rightarrow> string" where
  "lower s = map to_lower_char s"

text \<open>\<open>/p/i.test(s)\<close> for an ASCII text \<open>p\<close> given in lower case.\<close>

definition contains_i :: "string \<Rightarrow> string \<Rightarrow> bool" where
  "contains_i s p = contains (lower s) p"

text \<open>\<open>.replace(/\s+/g, " ")\<close> and \<open>.replace(/[.\s]+$/, "")\<close>.\<close>

function collapse_ws :: "bool \<Rightarrow> string \<Rightarrow> string" where
  "collapse_ws seen [] = []"
| "collapse_ws seen (c # s) =
     (if ws_at (c # s) = 0 then c # collapse_ws False s
      else (if seen then [] else '' '') @ collapse_ws True (drop (ws_at (c # s)) (c # s)))"
  by pat_completeness auto
termination by (relation "measure (length \<circ> snd)") auto

function strip_dots_rev :: "string \<Rightarrow> string" where
  "strip_dots_rev [] = []"
| "strip_dots_rev (c # s) =
     (let k = (if c = CHR ''.'' then 1 else ws_skip_rev (map code (take 3 (c # s))))
      in if k = 0 then c # s else strip_dots_rev (drop k (c # s)))"
  by pat_completeness auto
termination by (relation "measure length") auto

declare collapse_ws.simps [simp del] strip_dots_rev.simps [simp del]

text \<open>The UTF-16 length of a string and \<open>slice(0, n)\<close>; a surrogate pair is not split.\<close>

definition units :: "char \<Rightarrow> nat" where
  "units c = (if 128 \<le> code c \<and> code c < 192 then 0 else if 240 \<le> code c then 2 else 1)"

definition utf16_length :: "string \<Rightarrow> nat" where
  "utf16_length s = sum_list (map units s)"

fun utf16_take :: "nat \<Rightarrow> string \<Rightarrow> string" where
  "utf16_take n [] = []"
| "utf16_take n (c # s) = (if units c \<le> n then c # utf16_take (n - units c) s else [])"

text \<open>The rest of a line: up to a line terminator.\<close>

fun line_rest :: "string \<Rightarrow> string" where
  "line_rest [] = []"
| "line_rest (c # s) =
     (if code c = 10 \<or> code c = 13 \<or>
         (code c = 226 \<and> (case s of d # e # _ \<Rightarrow> code d = 128 \<and> (code e = 168 \<or> code e = 169) | _ \<Rightarrow> False))
      then [] else c # line_rest s)"

section \<open>Lists\<close>

lemma find_Some_iff2: "List.find P xs = Some x \<Longrightarrow> x \<in> set xs \<and> P x"
  by (auto simp: find_Some_iff)

lemma find_filter: "List.find P xs = (case filter P xs of [] \<Rightarrow> None | x # _ \<Rightarrow> Some x)"
  by (induction xs) auto

end
