(* ===== verification/Proof_Enums.thy ===== *)
theory Proof_Enums
  imports FV_Text
begin

text \<open>
  \<open>packages/proof/src/enums.ts\<close>: the u8 codes shared by server, program and web, the inverted
  name tables, and the constants of the scan message.
\<close>

type_synonym enum_table = "(string \<times> int) list"

definition Tamper :: enum_table where
  "Tamper = [(''CLOSED'', 0), (''OPENED_NOW'', 1), (''OPENED_BEFORE'', 2), (''UNKNOWN'', 3)]"

definition Indicator :: enum_table where
  "Indicator = [(''INTACT'', 0), (''TRIGGERED'', 1), (''UNREADABLE'', 2), (''MISSING'', 3)]"

definition Tier :: enum_table where
  "Tier = [(''SIGHTING'', 0), (''SELF'', 1), (''SELF_MEDIA'', 2), (''CERTIFIED'', 3), (''BIRTH'', 4)]"

definition Role :: enum_table where
  "Role = [(''OWNER'', 0), (''SELLER'', 1), (''BUYER'', 2), (''VAULT'', 3), (''PARTNER'', 4)]"

definition Grade :: enum_table where
  "Grade = [(''A'', 0), (''B'', 1), (''C'', 2), (''D'', 3), (''VOID'', 4)]"

definition SealKind :: enum_table where
  "SealKind = [(''BOX'', 0), (''NECK'', 1)]"

definition EventType :: enum_table where
  "EventType =
    [(''MINT'', 0), (''SEAL_ATTACH'', 1), (''SCAN'', 2), (''LIST'', 3), (''RESERVE'', 4),
     (''SHIP'', 5), (''RECEIVE'', 6), (''RELEASE'', 7), (''DISPUTE'', 8), (''SEAL_DEAD'', 9)]"

definition Verdict :: "string list" where
  "Verdict = [''VALID'', ''INVALID'', ''REPLAY'', ''NONCE_INVALID'', ''UNREGISTERED'', ''NO_RESPONSE'']"

definition ENUMS :: "(string \<times> enum_table) list" where
  "ENUMS = [(''tamper'', Tamper), (''indicator'', Indicator), (''tier'', Tier), (''role'', Role),
    (''grade'', Grade), (''seal_kind'', SealKind), (''event'', EventType)]"

text \<open>\<open>o[v] = k\<close> for every entry in order: a later entry with the same code would win.\<close>

definition invert :: "enum_table \<Rightarrow> int \<rightharpoonup> string" where
  "invert t = foldl (\<lambda>out (k, v). out(v \<mapsto> k)) Map.empty t"

definition TamperName :: "int \<rightharpoonup> string" where "TamperName = invert Tamper"
definition IndicatorName :: "int \<rightharpoonup> string" where "IndicatorName = invert Indicator"
definition TierName :: "int \<rightharpoonup> string" where "TierName = invert Tier"
definition RoleName :: "int \<rightharpoonup> string" where "RoleName = invert Role"
definition GradeName :: "int \<rightharpoonup> string" where "GradeName = invert Grade"
definition SealKindName :: "int \<rightharpoonup> string" where "SealKindName = invert SealKind"
definition EventTypeName :: "int \<rightharpoonup> string" where "EventTypeName = invert EventType"

definition HEAT_FIELDS_C :: "int list" where "HEAT_FIELDS_C = [29, 33, 34, 37, 40, 42]"
definition HEAT_DECISIVE_INDEX :: nat where "HEAT_DECISIVE_INDEX = 4"
definition HUMIDITY_THRESHOLD_RH :: int where "HUMIDITY_THRESHOLD_RH = 60"
definition HEAT_THRESHOLD_C :: int where "HEAT_THRESHOLD_C = 40"

definition PDA_SEEDS :: "(string \<times> string) list" where
  "PDA_SEEDS = [(''registry'', ''registry''), (''passport'', ''passport''), (''seal'', ''seal''),
    (''scan'', ''scan''), (''origin'', ''origin'')]"

definition MSG_PREFIX :: string where "MSG_PREFIX = ''FVSCAN1''"
definition MSG_LEN :: nat where "MSG_LEN = 152"
definition BUNDLE_SCHEMA :: string where "BUNDLE_SCHEMA = ''flaconvault.scanproof.v1''"
definition NONCE_TTL_S :: int where "NONCE_TTL_S = 90"
definition KEY_DIV_APP_ID_HEX :: string where "KEY_DIV_APP_ID_HEX = ''D2760000850101''"
definition KEY_DIV_SYS_ID :: string where "KEY_DIV_SYS_ID = ''FlaconVault''"

text \<open>Member access \<open>T.NAME\<close> on a literal table.\<close>

definition member :: "enum_table \<Rightarrow> string \<Rightarrow> int" where
  "member t k = the (map_of t k)"

lemmas enum_tables = Tamper_def Indicator_def Tier_def Role_def Grade_def SealKind_def EventType_def

lemma enum_members [simp]:
  "member Tamper ''CLOSED'' = 0" "member Tamper ''OPENED_NOW'' = 1"
  "member Tamper ''OPENED_BEFORE'' = 2" "member Tamper ''UNKNOWN'' = 3"
  "member Indicator ''INTACT'' = 0" "member Indicator ''TRIGGERED'' = 1"
  "member Indicator ''UNREADABLE'' = 2" "member Indicator ''MISSING'' = 3"
  "member Tier ''SIGHTING'' = 0" "member Tier ''SELF'' = 1" "member Tier ''SELF_MEDIA'' = 2"
  "member Tier ''CERTIFIED'' = 3" "member Tier ''BIRTH'' = 4"
  "member Role ''OWNER'' = 0" "member Role ''SELLER'' = 1" "member Role ''BUYER'' = 2"
  "member Role ''VAULT'' = 3" "member Role ''PARTNER'' = 4"
  "member Grade ''A'' = 0" "member Grade ''B'' = 1" "member Grade ''C'' = 2"
  "member Grade ''D'' = 3" "member Grade ''VOID'' = 4"
  "member SealKind ''BOX'' = 0" "member SealKind ''NECK'' = 1"
  by (simp_all add: member_def enum_tables)

lemma invert_foldl:
  "foldl (\<lambda>out (k, v). out(v \<mapsto> k)) m t v =
   (if v \<in> snd ` set t then map_of (rev (map prod.swap t)) v else m v)"
  by (induction t arbitrary: m rule: rev_induct) (auto simp: case_prod_beta)

text \<open>In a table with distinct codes the inverted table finds exactly the entries.\<close>

lemma invert_Some:
  assumes "distinct (map snd t)"
  shows "invert t v = Some k \<longleftrightarrow> (k, v) \<in> set t"
proof -
  have "distinct (map fst (rev (map prod.swap t)))"
    using assms by (simp add: rev_map [symmetric] comp_def)
  then have "map_of (rev (map prod.swap t)) v = Some k \<longleftrightarrow> (v, k) \<in> set (rev (map prod.swap t))"
    by (simp add: map_of_eq_Some_iff)
  moreover have "(v, k) \<in> set (rev (map prod.swap t)) \<longleftrightarrow> (k, v) \<in> set t"
    by (force simp: image_iff)
  ultimately show ?thesis
    by (force simp: invert_def invert_foldl image_iff)
qed

lemma enum_codes_distinct: "\<forall>(n, t) \<in> set ENUMS. distinct (map fst t) \<and> distinct (map snd t)"
  by (simp add: ENUMS_def enum_tables)

lemma enum_codes_consecutive: "\<forall>(n, t) \<in> set ENUMS. map snd t = map int [0..<length t]"
  by (simp add: ENUMS_def enum_tables upt_rec)

end
