(* ===== verification/FV_Codec.thy ===== *)
theory FV_Codec
  imports FV_Prelude
begin

text \<open>
  The interface every encoder/decoder pair of the program implements. An encoder may refuse an
  input; what it accepts, the decoder gives back up to \<open>norm\<close> (the normal form a value has after a
  trip over the wire). The second locale adds the other direction: what the decoder accepts and
  \<open>wf\<close> holds of, the encoder writes back byte for byte.
\<close>

locale codec =
  fixes enc :: "'a \<Rightarrow> 'e + 'b"
    and dec :: "'b \<Rightarrow> 'f + 'a"
    and norm :: "'a \<Rightarrow> 'a"
  assumes dec_enc: "enc x = Inr y \<Longrightarrow> dec y = Inr (norm x)"
begin

lemma enc_inj:
  assumes "enc x = Inr y" "enc x' = Inr y"
  shows "norm x = norm x'"
  using dec_enc [OF assms(1)] dec_enc [OF assms(2)] by simp

lemma enc_image_decodes: "enc x = Inr y \<Longrightarrow> isOk (dec y)"
  by (simp add: dec_enc)

lemma enc_distinct: "enc x = Inr y \<Longrightarrow> enc x' = Inr y' \<Longrightarrow> norm x \<noteq> norm x' \<Longrightarrow> y \<noteq> y'"
  using enc_inj by blast

end

locale exact_codec = codec +
  fixes wf :: "'a \<Rightarrow> bool"
  assumes enc_dec: "dec y = Inr x \<Longrightarrow> wf x \<Longrightarrow> enc x = Inr y"
begin

lemma dec_inj:
  assumes "dec y = Inr x" "dec y' = Inr x" "wf x"
  shows "y = y'"
  using enc_dec [OF assms(1) assms(3)] enc_dec [OF assms(2) assms(3)] by simp

lemma norm_stable: "dec y = Inr x \<Longrightarrow> wf x \<Longrightarrow> norm x = x"
  using dec_enc [OF enc_dec [of y x]] by simp

end

end
