(* ===== verification/Proof_Bytes.thy ===== *)
theory Proof_Bytes
  imports FV_Text FV_Codec
begin

text \<open>
  \<open>packages/proof/src/bytes.ts\<close>: hex, concatenation, little-endian integers and the constant-time
  comparison. A Uint8Array is a list of 8-bit words; the errors of the whole package are the
  constructors of \<open>proof_error\<close>. \<open>sha256\<close> (\<open>@noble/hashes\<close>) is an argument of what uses it.
\<close>

datatype proof_error =
    BadHex string
  | U8OutOfRange js_num | U16OutOfRange js_num | U32OutOfRange js_num
  | NotIntegral
  | UidLength nat
  | HashLength | FillOutOfRange | MessageLength nat | BadPrefix bytes
  | HeatLevelsLength
  | NonFinite
  | SchemaMismatch
  | SeedLength

section \<open>Hex\<close>

definition hex_val :: "char \<Rightarrow> nat" where
  "hex_val c = (if is_digit c then code c - 48 else if code c \<ge> 97 then code c - 87 else code c - 55)"

definition hex_digit :: "nat \<Rightarrow> char" where
  "hex_digit n = (if n < 10 then char_of (48 + n) else char_of (87 + n))"

fun hex_pairs :: "string \<Rightarrow> bytes" where
  "hex_pairs (a # b # s) = of_nat (16 * hex_val a + hex_val b) # hex_pairs s"
| "hex_pairs _ = []"

definition strip_0x :: "string \<Rightarrow> string" where
  "strip_0x s = (if starts_with s ''0x'' \<or> starts_with s ''0X'' then drop 2 s else s)"

definition hexToBytes :: "string \<Rightarrow> proof_error + bytes" where
  "hexToBytes s = (let h = strip_0x s in
     if length h mod 2 \<noteq> 0 \<or> list_ex (\<lambda>c. \<not> is_hex c) h then Inl (BadHex s)
     else Inr (hex_pairs h))"

definition hex2 :: "byte \<Rightarrow> string" where
  "hex2 b = [hex_digit (unat b div 16), hex_digit (unat b mod 16)]"

definition bytesToHex :: "bytes \<Rightarrow> bool \<Rightarrow> string" where
  "bytesToHex b prefix = (let s = concat (map hex2 b) in if prefix then ''0x'' @ s else s)"

section \<open>Concatenation and integers\<close>

definition concatBytes :: "bytes list \<Rightarrow> bytes" where
  "concatBytes parts = concat parts"

definition utf8 :: "string \<Rightarrow> bytes" where
  "utf8 s = map of_char s"

definition u8 :: "js_num \<Rightarrow> proof_error + bytes" where
  "u8 n = (if \<not> js_is_integer n \<or> js_lt n (jn 0) \<or> js_lt (jn 255) n then Inl (U8OutOfRange n)
           else Inr [word_of_int (js_floor n)])"

text \<open>\<open>DataView.setUintN(_, n, true)\<close>: the low bytes of the integer, least significant first.\<close>

fun le_bytes :: "nat \<Rightarrow> nat \<Rightarrow> bytes" where
  "le_bytes 0 v = []"
| "le_bytes (Suc k) v = of_nat (v mod 256) # le_bytes k (v div 256)"

fun le_val :: "bytes \<Rightarrow> nat" where
  "le_val [] = 0"
| "le_val (b # bs) = unat b + 256 * le_val bs"

definition u16le :: "js_num \<Rightarrow> proof_error + bytes" where
  "u16le n = (if \<not> js_is_integer n \<or> js_lt n (jn 0) \<or> js_lt (jn 0xffff) n then Inl (U16OutOfRange n)
              else Inr (le_bytes 2 (nat (js_floor n))))"

definition u32le :: "js_num \<Rightarrow> proof_error + bytes" where
  "u32le n = (if \<not> js_is_integer n \<or> js_lt n (jn 0) \<or> js_lt (jn 0xffffffff) n then Inl (U32OutOfRange n)
              else Inr (le_bytes 4 (nat (js_floor n))))"

text \<open>
  \<open>number | bigint\<close>. \<open>BigInt(Math.trunc(n))\<close> throws for a non-finite number; \<open>setBigInt64\<close>
  stores the value modulo 2^64.
\<close>

datatype num_or_big = Number js_num | BigNum int

fun to_big :: "num_or_big \<Rightarrow> proof_error + int" where
  "to_big (BigNum v) = Inr v"
| "to_big (Number (Fin q)) = Inr (if q < 0 then \<lceil>q\<rceil> else \<lfloor>q\<rfloor>)"
| "to_big (Number _) = Inl NotIntegral"

definition i64le :: "num_or_big \<Rightarrow> proof_error + bytes" where
  "i64le n = bindE (to_big n) (\<lambda>v. Inr (le_bytes 8 (nat (v mod 2 ^ 64))))"

text \<open>\<open>DataView.getBigInt64(_, true)\<close> on eight bytes.\<close>

definition get_i64 :: "bytes \<Rightarrow> int" where
  "get_i64 bs = (let u = int (le_val bs) in if u \<ge> 2 ^ 63 then u - 2 ^ 64 else u)"

definition wrap_i64 :: "int \<Rightarrow> int" where
  "wrap_i64 v = (let u = v mod 2 ^ 64 in if u \<ge> 2 ^ 63 then u - 2 ^ 64 else u)"

definition sha256Bytes :: "(bytes \<Rightarrow> bytes) \<Rightarrow> bytes \<Rightarrow> bytes" where
  "sha256Bytes sha256 data = sha256 data"

definition sha256Hex :: "(bytes \<Rightarrow> bytes) \<Rightarrow> bytes \<Rightarrow> string" where
  "sha256Hex sha256 data = bytesToHex (sha256 data) False"

definition ZERO32 :: bytes where
  "ZERO32 = replicate 32 0"

text \<open>\<open>d |= a[i] ^ b[i]\<close> over all indices, after the length test.\<close>

unbundle bit_operations_syntax

definition bytesEqual :: "bytes \<Rightarrow> bytes \<Rightarrow> bool" where
  "bytesEqual a b =
     (if length a \<noteq> length b then False
      else foldl (\<lambda>d i. d OR (ucast (a ! i) XOR ucast (b ! i))) (0 :: 32 word) [0..<length a] = 0)"

section \<open>Lemmas on integers\<close>

lemma le_bytes_length [simp, layout_simps]: "length (le_bytes k v) = k"
  by (induction k v rule: le_bytes.induct) auto

lemma le_val_bytes: "le_val (le_bytes k v) = v mod 256 ^ k"
proof (induction k v rule: le_bytes.induct)
  case (2 k v)
  have "unat (of_nat (v mod 256) :: byte) = v mod 256"
    by (simp add: unat_of_nat)
  with 2 show ?case by (simp add: mod_mult2_eq)
qed auto

lemma le_bytes_val [simp]: "le_bytes (length bs) (le_val bs) = bs"
proof (induction bs)
  case (Cons b bs)
  have "unat b < 256" by (rule byte_bound)
  then show ?case using Cons by simp
qed simp

lemma le_val_bound: "le_val bs < 256 ^ length bs"
proof (induction bs)
  case (Cons b bs)
  have "unat b < 256" by (rule byte_bound)
  with Cons show ?case by simp
qed simp

lemma le_bytes_inject:
  assumes "v < 256 ^ k" "w < 256 ^ k"
  shows "le_bytes k v = le_bytes k w \<longleftrightarrow> v = w"
proof
  assume "le_bytes k v = le_bytes k w"
  then have "v mod 256 ^ k = w mod 256 ^ k" by (metis le_val_bytes)
  then show "v = w" using assms by simp
qed simp

lemma wrap_i64_id: "- (2 ^ 63) \<le> v \<Longrightarrow> v < 2 ^ 63 \<Longrightarrow> wrap_i64 v = v"
proof -
  assume "- (2 ^ 63) \<le> v" "v < 2 ^ 63"
  then show ?thesis
  proof (cases "v < 0")
    case True
    with \<open>- (2 ^ 63) \<le> v\<close> have "v mod 2 ^ 64 = v + 2 ^ 64"
      by (intro mod_pos_pos_trivial [of "v + 2 ^ 64" "2 ^ 64", simplified mod_add_self2]) auto
    with True \<open>- (2 ^ 63) \<le> v\<close> show ?thesis by (simp add: wrap_i64_def)
  qed (simp add: wrap_i64_def)
qed

lemma wrap_i64_range: "- (2 ^ 63) \<le> wrap_i64 v \<and> wrap_i64 v < 2 ^ 63"
  using pos_mod_bound [of "2 ^ 64" v] pos_mod_sign [of "2 ^ 64" v]
  by (auto simp: wrap_i64_def Let_def)

lemma get_i64_le_bytes: "get_i64 (le_bytes 8 (nat (v mod 2 ^ 64))) = wrap_i64 v"
proof -
  have "le_val (le_bytes 8 (nat (v mod 2 ^ 64))) = nat (v mod 2 ^ 64)"
    using pos_mod_bound [of "2 ^ 64" v] by (simp add: le_val_bytes nat_less_iff)
  then show ?thesis by (simp add: get_i64_def wrap_i64_def)
qed

lemma le_bytes_get_i64:
  assumes "length bs = 8"
  shows "le_bytes 8 (nat (get_i64 bs mod 2 ^ 64)) = bs"
proof -
  have b: "int (le_val bs) < 2 ^ 64" using le_val_bound [of bs] assms by simp
  have "get_i64 bs mod 2 ^ 64 = int (le_val bs)"
  proof (cases "int (le_val bs) \<ge> 2 ^ 63")
    case True
    then have "get_i64 bs mod 2 ^ 64 = int (le_val bs) mod 2 ^ 64"
      by (simp add: get_i64_def mod_diff_right_eq)
    with b show ?thesis by simp
  qed (use b in \<open>simp add: get_i64_def\<close>)
  then show ?thesis using le_bytes_val [of bs] assms by simp
qed

lemma get_i64_range: "length bs = 8 \<Longrightarrow> - (2 ^ 63) \<le> get_i64 bs \<and> get_i64 bs < 2 ^ 63"
  using le_val_bound [of bs] by (auto simp: get_i64_def Let_def)

text \<open>When the writers succeed, and with what.\<close>

lemma js_reject_iff:
  "\<not> (\<not> js_is_integer n \<or> js_lt n (jn lo) \<or> js_lt (jn hi) n) \<longleftrightarrow> (\<exists>v. n = jn v \<and> lo \<le> v \<and> v \<le> hi)"
  using js_int_range [of n lo hi] by blast

lemma u8_Inr: "u8 n = Inr bs \<longleftrightarrow> (\<exists>v. n = jn v \<and> 0 \<le> v \<and> v \<le> 255 \<and> bs = [word_of_int v])"
  using js_reject_iff [of n 0 255] by (auto simp: u8_def)

lemma u16le_Inr: "u16le n = Inr bs \<longleftrightarrow> (\<exists>v. n = jn v \<and> 0 \<le> v \<and> v \<le> 0xffff \<and> bs = le_bytes 2 (nat v))"
  using js_reject_iff [of n 0 "0xffff"] by (auto simp: u16le_def)

lemma u32le_Inr: "u32le n = Inr bs \<longleftrightarrow> (\<exists>v. n = jn v \<and> 0 \<le> v \<and> v \<le> 0xffffffff \<and> bs = le_bytes 4 (nat v))"
  using js_reject_iff [of n 0 "0xffffffff"] by (auto simp: u32le_def)

lemma i64le_Inr: "i64le n = Inr bs \<longleftrightarrow> (\<exists>v. to_big n = Inr v \<and> bs = le_bytes 8 (nat (v mod 2 ^ 64)))"
  by (auto simp: i64le_def bindE_eq_Inr)

lemma utf8_length [simp, layout_simps]: "length (utf8 s) = length s"
  by (simp add: utf8_def)

lemma utf8_inject: "utf8 s = utf8 t \<longleftrightarrow> s = t"
proof -
  have "inj (of_char :: char \<Rightarrow> byte)"
  proof (rule injI)
    fix c d :: char
    assume "(of_char c :: byte) = of_char d"
    then have "unat (of_char c :: byte) = unat (of_char d :: byte)" by simp
    then have "(of_char c :: nat) = of_char d"
      using byte_of_nat [of "of_char c"] byte_of_nat [of "of_char d"] by (simp add: of_nat_of_char)
    then show "c = d" by simp
  qed
  then show ?thesis by (auto simp: utf8_def inj_map_eq_map)
qed

lemma u8_length: "u8 n = Inr b \<Longrightarrow> length b = 1"
  by (auto simp: u8_Inr)

section \<open>Lemmas on hex\<close>

lemma hex_digit_hex: "n < 16 \<Longrightarrow> is_hex (hex_digit n) \<and> hex_val (hex_digit n) = n"
  by (auto simp: hex_digit_def hex_val_def is_hex_def is_digit_def code_char_of)

lemma is_hex_val: "is_hex c \<Longrightarrow> hex_val c < 16"
  by (auto simp: is_hex_def is_digit_def hex_val_def)

lemma hex_digit_lower: "is_hex c \<Longrightarrow> hex_digit (hex_val c) = to_lower_char c"
  by (auto simp: is_hex_def is_digit_def hex_val_def hex_digit_def to_lower_char_def is_upper_def)

lemma hex2_simps: "length (hex2 b) = 2" "list_all is_hex (hex2 b)"
proof -
  have "unat b < 256" by (rule byte_bound)
  then have "unat b div 16 < 16" by simp
  then show "list_all is_hex (hex2 b)" by (simp add: hex2_def hex_digit_hex)
qed (simp add: hex2_def)

lemma hex_pairs_hex2: "hex_pairs (hex2 b @ s) = b # hex_pairs s"
proof -
  have "unat b < 256" by (rule byte_bound)
  then have "unat b div 16 < 16" by simp
  then have "16 * hex_val (hex_digit (unat b div 16)) + hex_val (hex_digit (unat b mod 16)) = unat b"
    by (simp add: hex_digit_hex)
  then show ?thesis by (simp add: hex2_def)
qed

lemma hex_pairs_concat: "hex_pairs (concat (map hex2 bs)) = bs"
  by (induction bs) (simp_all add: hex_pairs_hex2)

lemma concat_hex2:
  "length (concat (map hex2 bs)) = 2 * length bs"
  "list_all is_hex (concat (map hex2 bs))"
  by (induction bs) (simp_all add: hex2_simps)

lemma hex2_pair:
  assumes "is_hex a" "is_hex b"
  shows "hex2 (of_nat (16 * hex_val a + hex_val b)) = [to_lower_char a, to_lower_char b]"
proof -
  have "hex_val a < 16" "hex_val b < 16" using assms by (auto dest: is_hex_val)
  then have "unat (of_nat (16 * hex_val a + hex_val b) :: byte) = 16 * hex_val a + hex_val b"
    by (intro byte_of_nat) simp
  with \<open>hex_val b < 16\<close> show ?thesis
    using assms by (simp add: hex2_def hex_digit_lower)
qed

lemma concat_hex2_pairs:
  "length h mod 2 = 0 \<Longrightarrow> list_all is_hex h \<Longrightarrow> concat (map hex2 (hex_pairs h)) = map to_lower_char h"
proof (induction h rule: hex_pairs.induct)
  case (1 a b s)
  then show ?case by (simp add: hex2_pair del: of_nat_add of_nat_mult)
qed auto

lemma strip_0x_hex2: "strip_0x (''0x'' @ s) = s"
  by (simp add: strip_0x_def)

lemma strip_0x_hex: "list_all is_hex s \<Longrightarrow> strip_0x s = s"
  by (cases s; cases "tl s") (auto simp: strip_0x_def is_hex_def is_digit_def code_def)

lemma hexToBytes_Inr:
  "hexToBytes s = Inr b \<longleftrightarrow>
   length (strip_0x s) mod 2 = 0 \<and> list_all is_hex (strip_0x s) \<and> b = hex_pairs (strip_0x s)"
  by (auto simp: hexToBytes_def Let_def list_all_iff list_ex_iff)

lemma strip_0x_bytesToHex: "strip_0x (bytesToHex b p) = concat (map hex2 b)"
  using concat_hex2(2) [of b] strip_0x_hex
  by (cases p) (simp_all add: bytesToHex_def strip_0x_hex2 del: append_Cons append_Nil)

lemma hex_roundtrip: "hexToBytes (bytesToHex b p) = Inr b"
  using concat_hex2 [of b] unfolding hexToBytes_Inr strip_0x_bytesToHex by (simp add: hex_pairs_concat)

lemma hex_back: "hexToBytes s = Inr b \<Longrightarrow> bytesToHex b False = map to_lower_char (strip_0x s)"
  by (auto simp: hexToBytes_Inr bytesToHex_def concat_hex2_pairs)

lemma bytesToHex_length: "length (bytesToHex b p) = 2 * length b + (if p then 2 else 0)"
  by (simp add: bytesToHex_def concat_hex2)

interpretation hex: codec "\<lambda>b. Inr (bytesToHex b True) :: proof_error + string" hexToBytes "\<lambda>b. b"
  by unfold_locales (auto simp: hex_roundtrip)

section \<open>Comparison\<close>

lemma or_fold_zero:
  "foldl (\<lambda>d i. d OR f i) (z :: 32 word) xs = 0 \<longleftrightarrow> z = 0 \<and> (\<forall>i \<in> set xs. f i = 0)"
proof (induction xs arbitrary: z)
  case (Cons x xs)
  show ?case unfolding foldl.simps Cons [of "z OR f x"] or_eq_0_iff by auto
qed simp

lemma bytesEqual_iff: "bytesEqual a b \<longleftrightarrow> a = b"
proof (cases "length a = length b")
  case True
  then have "bytesEqual a b \<longleftrightarrow> (\<forall>i \<in> {0..<length a}. a ! i = b ! i)"
    unfolding bytesEqual_def or_fold_zero xor_eq_zero ucast32_byte_eq set_upt by simp
  with True show ?thesis by (auto intro: nth_equalityI)
qed (auto simp: bytesEqual_def)

section \<open>Properties\<close>

text \<open>Hex round trip. What \<open>bytesToHex\<close> prints, with or without the prefix, \<open>hexToBytes\<close>
  reads back; and whatever \<open>hexToBytes\<close> reads, in either letter case and with any of the prefixes,
  \<open>bytesToHex\<close> prints as the lower-case form of the digits.\<close>

theorem hex_codec:
  "hexToBytes (bytesToHex b p) = Inr b \<and>
   hexToBytes s = (if length (strip_0x s) mod 2 = 0 \<and> list_all is_hex (strip_0x s)
                   then Inr (hex_pairs (strip_0x s)) else Inl (BadHex s)) \<and>
   bytesToHex (case hexToBytes s of Inr d \<Rightarrow> d | Inl _ \<Rightarrow> []) False =
     (case hexToBytes s of Inr _ \<Rightarrow> map to_lower_char (strip_0x s) | Inl _ \<Rightarrow> [])"
  using hex_roundtrip [of b p] hex_back [of s]
  by (auto simp: hexToBytes_def Let_def list_all_iff list_ex_iff bytesToHex_def split: sum.splits)

end
