(* ===== verification/Proof_Message.thy ===== *)
theory Proof_Message
  imports Proof_Enums Proof_Bytes
begin

text \<open>
  \<open>packages/proof/src/message.ts\<close>: the 152-byte scan message the server signs, its parser, and the
  hashes it carries; and \<open>programs/flacon/src/message.rs\<close>, the reconstruction the program compares
  it with.
\<close>

section \<open>Hashes\<close>

definition serialHash :: "(bytes \<Rightarrow> bytes) \<Rightarrow> string \<Rightarrow> bytes" where
  "serialHash sha256 serial = sha256 (utf8 serial)"

datatype uid_arg = UidHex string | UidBytes bytes

definition uidHash :: "(bytes \<Rightarrow> bytes) \<Rightarrow> uid_arg \<Rightarrow> proof_error + bytes" where
  "uidHash sha256 uid =
     bindE (case uid of UidHex s \<Rightarrow> hexToBytes s | UidBytes b \<Rightarrow> Inr b)
       (\<lambda>b. if length b \<noteq> 7 then Inl (UidLength (length b)) else Inr (sha256 b))"

definition bindingHash :: "(bytes \<Rightarrow> bytes) \<Rightarrow> string \<Rightarrow> string \<Rightarrow> bytes \<Rightarrow> bytes" where
  "bindingHash sha256 serial batchCode firstSealUidHash =
     sha256 (concatBytes [utf8 serial, utf8 batchCode, firstSealUidHash])"

section \<open>The message\<close>

record scan_fields =
  sf_serialHash :: bytes
  sf_uidHash :: bytes
  sf_counter :: js_num
  sf_tamper :: js_num
  sf_uv :: js_num
  sf_hum :: js_num
  sf_heat :: js_num
  sf_fill :: js_num
  sf_mediaHash :: bytes
  sf_nonce :: bytes
  sf_ts :: num_or_big

definition buildScanMessage :: "scan_fields \<Rightarrow> proof_error + bytes" where
  "buildScanMessage f =
     bindE (guardE (\<not> (length (sf_serialHash f) \<noteq> 32 \<or> length (sf_uidHash f) \<noteq> 32 \<or>
                       length (sf_mediaHash f) \<noteq> 32 \<or> length (sf_nonce f) \<noteq> 32)) HashLength) (\<lambda>_.
     bindE (guardE (\<not> (js_lt (sf_fill f) (jn 0) \<or> js_lt (jn 100) (sf_fill f))) FillOutOfRange) (\<lambda>_.
     bindE (u32le (sf_counter f)) (\<lambda>counter.
     bindE (u8 (sf_tamper f)) (\<lambda>tamper.
     bindE (u8 (sf_uv f)) (\<lambda>uv.
     bindE (u8 (sf_hum f)) (\<lambda>hum.
     bindE (u8 (sf_heat f)) (\<lambda>heat.
     bindE (u8 (sf_fill f)) (\<lambda>fill.
     bindE (i64le (sf_ts f)) (\<lambda>ts.
     let msg = concatBytes [utf8 MSG_PREFIX, sf_serialHash f, sf_uidHash f, counter,
                 tamper, uv, hum, heat, fill, sf_mediaHash f, sf_nonce f, ts]
     in if length msg \<noteq> MSG_LEN then Inl (MessageLength (length msg)) else Inr msg)))))))))"

definition slice :: "nat \<Rightarrow> nat \<Rightarrow> 'a list \<Rightarrow> 'a list" where
  "slice a b xs = take (b - a) (drop a xs)"

text \<open>
  \<open>TextDecoder\<close> output equals the ASCII prefix exactly when the seven bytes do. A read byte is a
  number, the timestamp a bigint.
\<close>

definition byte_num :: "byte \<Rightarrow> js_num" where
  "byte_num b = jn (uint b)"

definition parseScanMessage :: "bytes \<Rightarrow> proof_error + scan_fields" where
  "parseScanMessage msg =
     (if length msg \<noteq> MSG_LEN then Inl (MessageLength (length msg))
      else if slice 0 7 msg \<noteq> utf8 MSG_PREFIX then Inl (BadPrefix (slice 0 7 msg))
      else Inr \<lparr>
        sf_serialHash = slice 7 39 msg,
        sf_uidHash = slice 39 71 msg,
        sf_counter = jn (int (le_val (slice 71 75 msg))),
        sf_tamper = byte_num (msg ! 75), sf_uv = byte_num (msg ! 76), sf_hum = byte_num (msg ! 77),
        sf_heat = byte_num (msg ! 78), sf_fill = byte_num (msg ! 79),
        sf_mediaHash = slice 80 112 msg,
        sf_nonce = slice 112 144 msg,
        sf_ts = BigNum (get_i64 (slice 144 152 msg)) \<rparr>)"

definition scanMessageHex :: "scan_fields \<Rightarrow> proof_error + string" where
  "scanMessageHex f = bindE (buildScanMessage f) (\<lambda>m. Inr (bytesToHex m False))"

section \<open>Layout\<close>

text \<open>What \<open>concatBytes\<close> puts where, for twelve parts of the message's sizes.\<close>

definition layout :: "bytes \<Rightarrow> bytes \<Rightarrow> bytes \<Rightarrow> byte \<Rightarrow> byte \<Rightarrow> byte \<Rightarrow> byte \<Rightarrow> byte \<Rightarrow> bytes \<Rightarrow> bytes \<Rightarrow> bytes \<Rightarrow> bytes" where
  "layout sh uh c t u h e f mh n ts =
     utf8 MSG_PREFIX @ sh @ uh @ c @ [t, u, h, e, f] @ mh @ n @ ts"

lemma prefix_length [simp, layout_simps]: "length MSG_PREFIX = 7"
  by (simp add: MSG_PREFIX_def)

lemma layout_length:
  "length sh = 32 \<Longrightarrow> length uh = 32 \<Longrightarrow> length c = 4 \<Longrightarrow> length mh = 32 \<Longrightarrow> length n = 32 \<Longrightarrow> length ts = 8 \<Longrightarrow>
   length (layout sh uh c t u h e f mh n ts) = 152"
  by (simp add: layout_def)

lemma layout_slices:
  fixes t u h e f :: byte
  assumes "length sh = 32" "length uh = 32" "length c = 4" "length mh = 32" "length n = 32" "length ts = 8"
  defines "m \<equiv> layout sh uh c t u h e f mh n ts"
  shows "slice 0 7 m = utf8 MSG_PREFIX" "slice 7 39 m = sh" "slice 39 71 m = uh" "slice 71 75 m = c"
    "m ! 75 = t" "m ! 76 = u" "m ! 77 = h" "m ! 78 = e" "m ! 79 = f"
    "slice 80 112 m = mh" "slice 112 144 m = n" "slice 144 152 m = ts"
  using assms(1-6) unfolding m_def layout_def slice_def
  by (simp_all add: nth_append)

text \<open>Every 152-byte list with the prefix is a layout of its slices.\<close>

lemma layout_of_slices:
  assumes "length m = 152" "slice 0 7 m = utf8 MSG_PREFIX"
  shows "layout (slice 7 39 m) (slice 39 71 m) (slice 71 75 m) (m ! 75) (m ! 76) (m ! 77) (m ! 78) (m ! 79)
    (slice 80 112 m) (slice 112 144 m) (slice 144 152 m) = m"
proof -
  have cut: "take k (drop a m) @ drop (a + k) m = drop a m" for a k
    by (metis append_take_drop_id drop_drop add.commute)
  have five: "drop 75 m = m ! 75 # m ! 76 # m ! 77 # m ! 78 # m ! 79 # drop 80 m"
    using assms(1) by (simp add: Cons_nth_drop_Suc [symmetric] eval_nat_numeral)
  have "utf8 MSG_PREFIX = take 7 m" using assms(2) by (simp add: slice_def)
  moreover have "slice 144 152 m = drop 144 m" using assms(1) by (simp add: slice_def)
  ultimately show ?thesis
    using cut [of 32 7] cut [of 32 39] cut [of 4 71] cut [of 32 80] cut [of 32 112] append_take_drop_id [of 7 m] five
    by (simp add: layout_def slice_def)
qed

lemma slice_length [simp]: "a \<le> b \<Longrightarrow> b \<le> length xs \<Longrightarrow> length (slice a b xs) = b - a"
  by (simp add: slice_def)

section \<open>What the builder accepts\<close>

definition sf_hashes_ok :: "scan_fields \<Rightarrow> bool" where
  "sf_hashes_ok f \<longleftrightarrow> length (sf_serialHash f) = 32 \<and> length (sf_uidHash f) = 32 \<and>
     length (sf_mediaHash f) = 32 \<and> length (sf_nonce f) = 32"

definition num_in :: "int \<Rightarrow> int \<Rightarrow> js_num \<Rightarrow> bool" where
  "num_in lo hi n \<longleftrightarrow> js_is_integer n \<and> lo \<le> js_floor n \<and> js_floor n \<le> hi"

lemma num_in_iff: "num_in lo hi n \<longleftrightarrow> (\<exists>v. n = jn v \<and> lo \<le> v \<and> v \<le> hi)"
  by (auto simp: num_in_def elim!: js_is_integerE)

lemma num_in_jn [simp]: "num_in lo hi (jn v) \<longleftrightarrow> lo \<le> v \<and> v \<le> hi"
  by (auto simp: num_in_iff)

lemma num_in_unsigned [simp]: "num_in lo hi (Fin (unsigned w)) \<longleftrightarrow> lo \<le> uint w \<and> uint w \<le> hi"
  using num_in_jn [of lo hi "uint w"] by simp

definition sf_ok :: "scan_fields \<Rightarrow> bool" where
  "sf_ok f \<longleftrightarrow> sf_hashes_ok f \<and> num_in 0 (2 ^ 32 - 1) (sf_counter f) \<and>
     num_in 0 255 (sf_tamper f) \<and> num_in 0 255 (sf_uv f) \<and> num_in 0 255 (sf_hum f) \<and>
     num_in 0 255 (sf_heat f) \<and> num_in 0 100 (sf_fill f) \<and> isOk (to_big (sf_ts f))"

definition sf_byte :: "js_num \<Rightarrow> byte" where
  "sf_byte n = word_of_int (js_floor n)"

definition sf_ts_int :: "scan_fields \<Rightarrow> int" where
  "sf_ts_int f = (case to_big (sf_ts f) of Inr v \<Rightarrow> v | Inl _ \<Rightarrow> 0)"

definition message_of :: "scan_fields \<Rightarrow> bytes" where
  "message_of f = layout (sf_serialHash f) (sf_uidHash f) (le_bytes 4 (nat (js_floor (sf_counter f))))
     (sf_byte (sf_tamper f)) (sf_byte (sf_uv f)) (sf_byte (sf_hum f)) (sf_byte (sf_heat f)) (sf_byte (sf_fill f))
     (sf_mediaHash f) (sf_nonce f) (le_bytes 8 (nat (sf_ts_int f mod 2 ^ 64)))"

lemma build_concat:
  assumes "sf_hashes_ok f" "length ts = 8" "length c = 4"
  shows "concatBytes [utf8 MSG_PREFIX, sf_serialHash f, sf_uidHash f, c, [t], [u], [h], [e], [l],
      sf_mediaHash f, sf_nonce f, ts]
    = layout (sf_serialHash f) (sf_uidHash f) c t u h e l (sf_mediaHash f) (sf_nonce f) ts"
  by (simp add: concatBytes_def layout_def)

lemma u8_num: "u8 n = (if num_in 0 255 n then Inr [sf_byte n] else Inl (U8OutOfRange n))"
proof -
  have "num_in 0 255 n \<longleftrightarrow> \<not> (\<not> js_is_integer n \<or> js_lt n (jn 0) \<or> js_lt (jn 255) n)"
    using js_reject_iff [of n 0 255] by (simp only: num_in_iff)
  then show ?thesis by (simp only: u8_def sf_byte_def if_not_P) simp
qed

lemma u32le_num:
  "u32le n = (if num_in 0 (2 ^ 32 - 1) n then Inr (le_bytes 4 (nat (js_floor n))) else Inl (U32OutOfRange n))"
proof -
  have "num_in 0 (2 ^ 32 - 1) n \<longleftrightarrow> \<not> (\<not> js_is_integer n \<or> js_lt n (jn 0) \<or> js_lt (jn 0xffffffff) n)"
    using js_reject_iff [of n 0 "0xffffffff"] by (simp only: num_in_iff) simp
  then show ?thesis by (simp only: u32le_def if_not_P) simp
qed

lemma fill_num: "num_in 0 100 n \<longleftrightarrow> num_in 0 255 n \<and> \<not> (js_lt n (jn 0) \<or> js_lt (jn 100) n)"
  by (auto simp: num_in_iff)

lemma build_ok:
  assumes "sf_ok f"
  shows "buildScanMessage f = Inr (message_of f)"
proof -
  from assms obtain v where ts: "to_big (sf_ts f) = Inr v" by (auto simp: sf_ok_def isOk_iff)
  have f: "num_in 0 255 (sf_fill f)" "\<not> (js_lt (sf_fill f) (jn 0) \<or> js_lt (jn 100) (sf_fill f))"
    using assms by (auto simp only: sf_ok_def fill_num)
  have "length (message_of f) = MSG_LEN"
    using assms by (simp add: message_of_def layout_length sf_ok_def sf_hashes_ok_def MSG_LEN_def)
  moreover have "concatBytes [utf8 MSG_PREFIX, sf_serialHash f, sf_uidHash f,
      le_bytes 4 (nat (js_floor (sf_counter f))), [sf_byte (sf_tamper f)], [sf_byte (sf_uv f)],
      [sf_byte (sf_hum f)], [sf_byte (sf_heat f)], [sf_byte (sf_fill f)], sf_mediaHash f, sf_nonce f,
      le_bytes 8 (nat (v mod 2 ^ 64))] = message_of f"
    using assms ts by (simp add: build_concat message_of_def sf_ok_def sf_ts_int_def)
  ultimately show ?thesis
    using assms f ts
    by (simp add: buildScanMessage_def sf_ok_def sf_hashes_ok_def u8_num u32le_num i64le_def Let_def)
qed

lemma build_Inr_ok: "buildScanMessage f = Inr m \<Longrightarrow> sf_ok f"
  by (auto simp: buildScanMessage_def bindE_eq_Inr sf_ok_def sf_hashes_ok_def u8_num u32le_num i64le_def
      fill_num isOk_iff split: if_splits)

lemma build_Inr: "buildScanMessage f = Inr m \<longleftrightarrow> sf_ok f \<and> m = message_of f"
  using build_ok build_Inr_ok by fastforce

text \<open>The form a field set has after the wire: the timestamp as the bigint of its low 64 bits.\<close>

definition wire_form :: "scan_fields \<Rightarrow> scan_fields" where
  "wire_form f = f \<lparr> sf_ts := BigNum (wrap_i64 (sf_ts_int f)) \<rparr>"

lemma byte_num_sf_byte: "num_in 0 255 n \<Longrightarrow> byte_num (sf_byte n) = n"
  by (auto simp: num_in_iff byte_num_def sf_byte_def uint_word_of_int)

lemma message_of_wire: "message_of (wire_form f) = message_of f"
proof -
  have "wrap_i64 v mod 2 ^ 64 = v mod 2 ^ 64" for v
    by (auto simp: wrap_i64_def Let_def mod_diff_right_eq)
  then show ?thesis by (simp add: message_of_def wire_form_def sf_ts_int_def)
qed

lemma parse_message_of:
  assumes "sf_ok f"
  shows "parseScanMessage (message_of f) = Inr (wire_form f)"
proof -
  have len: "length (sf_serialHash f) = 32" "length (sf_uidHash f) = 32" "length (sf_mediaHash f) = 32"
    "length (sf_nonce f) = 32"
    using assms by (auto simp: sf_ok_def sf_hashes_ok_def)
  have nums: "num_in 0 255 (sf_tamper f)" "num_in 0 255 (sf_uv f)" "num_in 0 255 (sf_hum f)"
    "num_in 0 255 (sf_heat f)" "num_in 0 255 (sf_fill f)"
    using assms by (auto simp only: sf_ok_def fill_num)
  obtain c where c: "sf_counter f = jn c" "0 \<le> c" "c \<le> 2 ^ 32 - 1"
    using assms by (auto simp: sf_ok_def num_in_iff)
  then have "le_val (le_bytes 4 (nat c)) = nat c"
    by (simp add: le_val_bytes nat_less_iff)
  with c have ctr: "jn (int (le_val (le_bytes 4 (nat (js_floor (sf_counter f)))))) = sf_counter f"
    by simp
  have w: "wire_form f = \<lparr> sf_serialHash = sf_serialHash f, sf_uidHash = sf_uidHash f,
      sf_counter = sf_counter f, sf_tamper = sf_tamper f, sf_uv = sf_uv f, sf_hum = sf_hum f,
      sf_heat = sf_heat f, sf_fill = sf_fill f, sf_mediaHash = sf_mediaHash f, sf_nonce = sf_nonce f,
      sf_ts = BigNum (wrap_i64 (sf_ts_int f)) \<rparr>"
    by (cases f) (simp add: wire_form_def sf_ts_int_def)
  show ?thesis
    using len nums ctr get_i64_le_bytes [of "sf_ts_int f"] unfolding w
    by (simp add: parseScanMessage_def message_of_def layout_length MSG_LEN_def layout_slices byte_num_sf_byte)
qed

lemma byte_num_facts [simp]:
  "js_floor (byte_num b) = uint b" "js_is_integer (byte_num b)"
  by (simp_all only: byte_num_def js_floor_jn js_is_integer_jn)

lemma sf_byte_byte_num [simp]: "sf_byte (byte_num b) = b"
  by (simp add: sf_byte_def)

lemma uint_byte: "0 \<le> uint (b :: byte)" "uint (b :: byte) \<le> 255"
  using uint_lt2p [of b] by simp_all

lemma num_in_byte [simp]: "num_in 0 255 (byte_num b)"
  by (simp add: num_in_def uint_byte)

lemma parse_Inr:
  assumes "parseScanMessage m = Inr f"
  shows "length m = 152" "message_of f = m" "sf_ok f \<longleftrightarrow> uint (m ! 79) \<le> 100" "wire_form f = f"
proof -
  have m: "length m = 152" "slice 0 7 m = utf8 MSG_PREFIX"
    using assms by (auto simp: parseScanMessage_def MSG_LEN_def split: if_splits)
  have f: "f = \<lparr> sf_serialHash = slice 7 39 m, sf_uidHash = slice 39 71 m,
      sf_counter = jn (int (le_val (slice 71 75 m))),
      sf_tamper = byte_num (m ! 75), sf_uv = byte_num (m ! 76), sf_hum = byte_num (m ! 77),
      sf_heat = byte_num (m ! 78), sf_fill = byte_num (m ! 79),
      sf_mediaHash = slice 80 112 m, sf_nonce = slice 112 144 m,
      sf_ts = BigNum (get_i64 (slice 144 152 m)) \<rparr>"
    using assms by (auto simp: parseScanMessage_def split: if_splits)
  have c: "le_bytes 4 (le_val (slice 71 75 m)) = slice 71 75 m" "le_val (slice 71 75 m) < 2 ^ 32"
    using m le_bytes_val [of "slice 71 75 m"] le_val_bound [of "slice 71 75 m"] by simp_all
  have t: "le_bytes 8 (nat (get_i64 (slice 144 152 m) mod 2 ^ 64)) = slice 144 152 m"
    using m by (intro le_bytes_get_i64) simp
  have r: "- (2 ^ 63) \<le> get_i64 (slice 144 152 m) \<and> get_i64 (slice 144 152 m) < 2 ^ 63"
    using m by (intro get_i64_range) simp
  show "length m = 152" by (rule m)
  show "message_of f = m"
    using layout_of_slices [OF m] c t by (simp add: message_of_def f sf_ts_int_def del: of_int_of_nat_eq)
  show "sf_ok f \<longleftrightarrow> uint (m ! 79) \<le> 100"
    using m c(2) by (auto simp: sf_ok_def sf_hashes_ok_def f num_in_def uint_byte)
  show "wire_form f = f"
    using r by (simp add: wire_form_def f sf_ts_int_def wrap_i64_id)
qed

interpretation message: exact_codec buildScanMessage parseScanMessage wire_form sf_ok
  by unfold_locales (auto simp: build_Inr parse_message_of dest: parse_Inr)

section \<open>Properties\<close>

lemma scan_message_build:
  "buildScanMessage f =
    (if \<not> sf_hashes_ok f then Inl HashLength
     else if js_lt (sf_fill f) (jn 0) \<or> js_lt (jn 100) (sf_fill f) then Inl FillOutOfRange
     else if \<not> num_in 0 (2 ^ 32 - 1) (sf_counter f) then Inl (U32OutOfRange (sf_counter f))
     else case List.find (\<lambda>n. \<not> num_in 0 255 n) [sf_tamper f, sf_uv f, sf_hum f, sf_heat f, sf_fill f] of
       Some n \<Rightarrow> Inl (U8OutOfRange n)
     | None \<Rightarrow> if isOk (to_big (sf_ts f)) then Inr (message_of f) else Inl NotIntegral)"
proof (cases "sf_ok f")
  case True
  then show ?thesis by (simp add: build_ok sf_ok_def fill_num)
next
  case False
  have bad: "to_big (sf_ts f) = Inl NotIntegral" if "\<not> isOk (to_big (sf_ts f))"
    using that by (cases "sf_ts f" rule: to_big.cases) auto
  define P where "P n \<longleftrightarrow> num_in 0 255 n" for n
  define C where "C \<longleftrightarrow> num_in 0 (2 ^ 32 - 1) (sf_counter f)"
  define F where "F \<longleftrightarrow> js_lt (sf_fill f) (jn 0) \<or> js_lt (jn 100) (sf_fill f)"
  have no: "\<not> (sf_hashes_ok f \<and> C \<and> P (sf_tamper f) \<and> P (sf_uv f) \<and> P (sf_hum f) \<and> P (sf_heat f) \<and>
      (P (sf_fill f) \<and> \<not> F) \<and> isOk (to_big (sf_ts f)))"
    using False unfolding sf_ok_def P_def C_def F_def fill_num by blast
  show ?thesis
    unfolding buildScanMessage_def u8_num u32le_num i64le_def P_def [symmetric] C_def [symmetric] F_def [symmetric]
    using no bad by (auto simp: sf_hashes_ok_def guardE_def)
qed

text \<open>C1: scan message round trip. A message \<open>buildScanMessage\<close> returns is 152 bytes long and
  \<open>parseScanMessage\<close> reads every field back (the timestamp modulo 2^64); so two field sets with the
  same bytes have the same fields.\<close>

theorem scan_message_roundtrip:
  assumes "buildScanMessage f = Inr m"
  shows "length m = MSG_LEN \<and> parseScanMessage m = Inr (wire_form f) \<and>
    (buildScanMessage g = Inr m \<longleftrightarrow> sf_ok g \<and> wire_form g = wire_form f)"
proof -
  have "parseScanMessage m = Inr (wire_form f)" using assms by (rule message.dec_enc)
  moreover from this have "length m = MSG_LEN" using parse_Inr(1) by (simp add: MSG_LEN_def)
  moreover have "sf_ok g \<Longrightarrow> wire_form g = wire_form f \<Longrightarrow> message_of g = message_of f"
    using message_of_wire by metis
  ultimately show ?thesis
    using message.enc_inj [OF assms] build_Inr assms by metis
qed

definition sample_fields :: scan_fields where
  "sample_fields = \<lparr>sf_serialHash = replicate 32 1, sf_uidHash = replicate 32 2, sf_counter = jn 7,
     sf_tamper = jn 0, sf_uv = jn 1, sf_hum = jn 2, sf_heat = jn 0, sf_fill = jn 95,
     sf_mediaHash = replicate 32 0, sf_nonce = replicate 32 9, sf_ts = BigNum 1760000000\<rparr>"

lemma sample_fields_ok: "sf_ok sample_fields"
  by (simp add: sf_ok_def sf_hashes_ok_def sample_fields_def num_in_def)

theorem scan_message_roundtrip_witness:
  "parseScanMessage (message_of sample_fields) = Inr (wire_form sample_fields)"
  using scan_message_roundtrip [OF build_ok [OF sample_fields_ok]] by blast

text \<open>What \<open>parseScanMessage\<close> accepts, \<open>buildScanMessage\<close> writes back byte for byte, unless the
  fill byte is above 100, which the parser lets through and the builder refuses; and the parser
  accepts exactly the 152-byte strings that start with the prefix.\<close>

theorem scan_message_reparse:
  assumes "parseScanMessage m = Inr f"
  shows "buildScanMessage f = (if uint (m ! 79) \<le> 100 then Inr m else Inl FillOutOfRange)"
proof (cases "uint (m ! 79) \<le> 100")
  case True
  then show ?thesis using parse_Inr [OF assms] build_ok by simp
next
  case False
  have "sf_fill f = byte_num (m ! 79)" "sf_hashes_ok f"
    using assms by (auto simp: parseScanMessage_def sf_hashes_ok_def MSG_LEN_def split: if_splits)
  moreover from this have "js_lt (jn 100) (sf_fill f)"
    using False by (simp only: byte_num_def js_lt_jn)
  ultimately show ?thesis
    using False by (simp add: scan_message_build del: js_lt.simps)
qed

theorem scan_message_reparse_witness:
  "buildScanMessage (wire_form sample_fields) = Inr (message_of sample_fields)"
proof -
  have p: "parseScanMessage (message_of sample_fields) = Inr (wire_form sample_fields)"
    using parse_message_of sample_fields_ok by blast
  have "message_of sample_fields ! 79 = 95"
    by (simp add: message_of_def layout_slices sample_fields_def sf_byte_def)
  then show ?thesis using scan_message_reparse [OF p] by simp
qed

text \<open>When \<open>buildScanMessage\<close> throws, and with which error: the checks in the order of the code.
  The final length test is dead, so \<open>MessageLength\<close> never comes out of the builder.\<close>

theorem scan_message_errors:
  "buildScanMessage f =
    (if \<not> sf_hashes_ok f then Inl HashLength
     else if js_lt (sf_fill f) (jn 0) \<or> js_lt (jn 100) (sf_fill f) then Inl FillOutOfRange
     else if \<not> num_in 0 (2 ^ 32 - 1) (sf_counter f) then Inl (U32OutOfRange (sf_counter f))
     else case List.find (\<lambda>n. \<not> num_in 0 255 n) [sf_tamper f, sf_uv f, sf_hum f, sf_heat f, sf_fill f] of
       Some n \<Rightarrow> Inl (U8OutOfRange n)
     | None \<Rightarrow> if isOk (to_big (sf_ts f)) then Inr (message_of f) else Inl NotIntegral)"
  by (rule scan_message_build)

end
