(* ===== verification/Proof_Grade.thy ===== *)
theory Proof_Grade
  imports Proof_Enums Proof_Bytes
begin

text \<open>
  \<open>packages/proof/src/grade.ts\<close>: the grade of a scan and the 6-bit mask of the heat fields.
\<close>

record grade_input =
  gi_verdict :: string
  gi_tamper :: js_num
  gi_heat :: js_num
  gi_hum :: js_num
  gi_fill :: js_num
  gi_sealDead :: "bool option"

record grade_result =
  gr_grade :: int
  gr_review :: bool

definition computeGrade :: "grade_input \<Rightarrow> grade_result" where
  "computeGrade i =
    (let reviewRecommended = (gi_heat i = jn (member Indicator ''UNREADABLE'') \<or>
                              gi_hum i = jn (member Indicator ''UNREADABLE''))
     in if gi_verdict i \<noteq> ''VALID'' \<or> gi_tamper i = jn (member Tamper ''OPENED_NOW'') \<or>
           gi_tamper i = jn (member Tamper ''OPENED_BEFORE'') \<or> gi_sealDead i = Some True
        then \<lparr>gr_grade = member Grade ''VOID'', gr_review = reviewRecommended\<rparr>
        else if gi_heat i = jn (member Indicator ''TRIGGERED'') \<or> gi_hum i = jn (member Indicator ''TRIGGERED'')
        then \<lparr>gr_grade = member Grade ''C'', gr_review = reviewRecommended\<rparr>
        else if js_ge (gi_fill i) (jn 90) then \<lparr>gr_grade = member Grade ''A'', gr_review = reviewRecommended\<rparr>
        else if js_ge (gi_fill i) (jn 60) then \<lparr>gr_grade = member Grade ''B'', gr_review = reviewRecommended\<rparr>
        else \<lparr>gr_grade = member Grade ''D'', gr_review = reviewRecommended\<rparr>)"

text \<open>A number is truthy unless it is 0 or NaN; the shifts and ors stay below 64.\<close>

definition truthy :: "js_num \<Rightarrow> bool" where
  "truthy v \<longleftrightarrow> v \<noteq> jn 0 \<and> v \<noteq> NaN"

unbundle bit_operations_syntax

definition heatLevelsToMask :: "js_num list \<Rightarrow> proof_error + int" where
  "heatLevelsToMask levels =
     (if length levels \<noteq> 6 then Inl HeatLevelsLength
      else Inr (foldl (\<lambda>m (i, v). if truthy v then m OR push_bit i 1 else m) 0 (enumerate 0 levels)))"

text \<open>\<open>(mask >> i) & 1\<close> for a whole \<open>mask\<close>; the 32-bit conversion does not touch bits 0 to 5.\<close>

definition maskToHeatLevels :: "int \<Rightarrow> int list" where
  "maskToHeatLevels m = map (\<lambda>i. drop_bit i m AND 1) [0..<6]"

section \<open>Masks\<close>

definition level_bit :: "js_num \<Rightarrow> int" where
  "level_bit v = (if truthy v then 1 else 0)"

lemma fold_mask:
  assumes "heatLevelsToMask levels = Inr m"
  shows "length levels = 6" "bit m i \<longleftrightarrow> i < 6 \<and> truthy (levels ! i)" "0 \<le> m"
proof -
  have gen: "bit (foldl (\<lambda>m (i, v). if truthy v then m OR push_bit i 1 else m) z (enumerate k vs)) i \<longleftrightarrow>
      bit z i \<or> (k \<le> i \<and> i < k + length vs \<and> truthy (vs ! (i - k)))" for z :: int and k vs
  proof (induction vs arbitrary: z k)
    case (Cons v vs)
    let ?z = "if truthy v then z OR push_bit k 1 else z"
    have "bit ?z i \<longleftrightarrow> bit z i \<or> (truthy v \<and> i = k)"
      by (auto simp: bit_or_iff bit_exp_iff)
    moreover have "(k \<le> i \<and> i < k + length (v # vs) \<and> truthy ((v # vs) ! (i - k))) \<longleftrightarrow>
        (truthy v \<and> i = k) \<or> (Suc k \<le> i \<and> i < Suc k + length vs \<and> truthy (vs ! (i - Suc k)))"
      by (cases "i = k") (auto simp: nth_Cons' Suc_le_eq)
    ultimately show ?case
      using Cons [of ?z "Suc k"] by simp
  qed auto
  have pos: "0 \<le> foldl (\<lambda>m (i, v). if truthy v then m OR push_bit i 1 else m) z (enumerate k vs)"
    if "0 \<le> z" for z :: int and k vs
    using that by (induction vs arbitrary: z k) (auto simp: or_nonnegative_int_iff)
  show "length levels = 6" "bit m i \<longleftrightarrow> i < 6 \<and> truthy (levels ! i)" "0 \<le> m"
    using assms gen [of 0 0 levels] pos [of 0 0 levels]
    by (auto simp: heatLevelsToMask_def split: if_splits)
qed

lemma maskToHeatLevels_nth: "i < 6 \<Longrightarrow> maskToHeatLevels m ! i = of_bool (bit m i)"
  by (simp add: maskToHeatLevels_def and_one_eq bit_iff_odd_drop_bit mod_2_eq_odd)

lemma maskToHeatLevels_length [simp]: "length (maskToHeatLevels m) = 6"
  by (simp add: maskToHeatLevels_def)

lemma mask_levels:
  assumes "heatLevelsToMask levels = Inr m"
  shows "maskToHeatLevels m = map level_bit levels"
  using fold_mask [OF assms] by (intro nth_equalityI) (auto simp: maskToHeatLevels_nth level_bit_def)

lemma mask_bound:
  assumes "heatLevelsToMask levels = Inr m"
  shows "m < 64"
proof -
  have "m = take_bit 6 m"
    by (rule bit_eqI) (use fold_mask(2) [OF assms] in \<open>auto simp: bit_take_bit_iff\<close>)
  then have "m < 2 ^ 6" by (metis take_bit_int_less_exp)
  then show ?thesis by simp
qed

lemma levels_mask:
  assumes "0 \<le> m" "m < 64"
  shows "heatLevelsToMask (map jn (maskToHeatLevels m)) = Inr m"
proof -
  obtain m' where m': "heatLevelsToMask (map jn (maskToHeatLevels m)) = Inr m'"
    by (simp add: heatLevelsToMask_def)
  have lo: "take_bit 6 m = m" using assms by (simp add: take_bit_int_eq_self)
  have "m' = m"
  proof (rule bit_eqI)
    fix i
    show "bit m' i \<longleftrightarrow> bit m i"
    proof (cases "i < 6")
      case True
      then show ?thesis
        using fold_mask(2) [OF m', of i] by (auto simp: maskToHeatLevels_nth truthy_def)
    next
      case False
      then have "\<not> bit m i" using bit_take_bit_iff [of 6 m i] lo by auto
      with False show ?thesis using fold_mask(2) [OF m', of i] by simp
    qed
  qed
  with m' show ?thesis by simp
qed

interpretation mask: codec heatLevelsToMask
  "\<lambda>m. Inr (map jn (maskToHeatLevels m)) :: proof_error + js_num list"
  "map (\<lambda>v. jn (level_bit v))"
  by unfold_locales (auto simp: mask_levels)

section \<open>Properties\<close>

text \<open>Heat mask round trip. A mask \<open>heatLevelsToMask\<close> returns fits the program's 6 bits, and
  \<open>maskToHeatLevels\<close> gives the six levels back as 0 or 1; every 6-bit mask is reached this way.\<close>

theorem heat_mask_roundtrip:
  "(case heatLevelsToMask levels of
      Inr m \<Rightarrow> length levels = 6 \<and> 0 \<le> m \<and> m < 64 \<and> maskToHeatLevels m = map level_bit levels \<and>
              maskToHeatLevels m ! HEAT_DECISIVE_INDEX = level_bit (levels ! 4)
    | Inl e \<Rightarrow> length levels \<noteq> 6) \<and>
   heatLevelsToMask (map jn (maskToHeatLevels (k mod 64))) = Inr (k mod 64)"
proof -
  have "heatLevelsToMask (map jn (maskToHeatLevels (k mod 64))) = Inr (k mod 64)"
    by (rule levels_mask) simp_all
  moreover have "(case heatLevelsToMask levels of
      Inr m \<Rightarrow> length levels = 6 \<and> 0 \<le> m \<and> m < 64 \<and> maskToHeatLevels m = map level_bit levels \<and>
              maskToHeatLevels m ! HEAT_DECISIVE_INDEX = level_bit (levels ! 4)
    | Inl e \<Rightarrow> length levels \<noteq> 6)"
  proof (cases "heatLevelsToMask levels")
    case (Inl e)
    then show ?thesis by (simp add: heatLevelsToMask_def split: if_splits)
  next
    case (Inr m)
    show ?thesis
      using mask_levels [OF Inr] mask_bound [OF Inr] fold_mask(1,3) [OF Inr]
      by (simp add: Inr HEAT_DECISIVE_INDEX_def)
  qed
  ultimately show ?thesis by blast
qed

end
