(* ===== verification/Program_Flacon.thy ===== *)
theory Program_Flacon
  imports Proof_Message Proof_Grade
begin

text \<open>
  The parts of the Anchor program \<open>programs/flacon\<close> the TypeScript code has to agree with:
  \<open>message.rs\<close>, \<open>grade.rs\<close>, \<open>ed25519.rs\<close>, the account structs of \<open>state.rs\<close>, and the handlers
  \<open>mint_passport\<close>, \<open>attach_seal\<close>, \<open>record_scan\<close> and \<open>mark_seal_dead\<close>. Integers keep their width;
  an \<open>i64\<close> is a 64-bit word read with \<open>sint\<close>.

  Passports, seals and scan proofs live at program-derived addresses of their seeds. The model keys
  them by those seeds: the serial hash, the UID hash, and UID hash with counter.
\<close>

type_synonym pubkey = bytes

section \<open>Constants and errors\<close>

definition MAX_COUNTER :: "32 word" where "MAX_COUNTER = 0x00FFFFFF"
definition MAX_SCAN_TS_SKEW_S :: int where "MAX_SCAN_TS_SKEW_S = 600"
definition MAX_SEALS_PER_PASSPORT :: byte where "MAX_SEALS_PER_PASSPORT = 2"

abbreviation (input) "GRADE_A \<equiv> 0 :: byte"
abbreviation (input) "GRADE_B \<equiv> 1 :: byte"
abbreviation (input) "GRADE_C \<equiv> 2 :: byte"
abbreviation (input) "GRADE_D \<equiv> 3 :: byte"
abbreviation (input) "GRADE_VOID \<equiv> 4 :: byte"

datatype flacon_error =
    Unauthorized | NotPartner | DuplicateServerKey | ServerKeysFull | InvalidKeyValidity
  | DuplicatePartner | PartnersFull | InvalidSiteId | DuplicateSite | SitesFull
  | InvalidSealKind | SealCountOverflow | SealPassportMismatch | SealDead | PassportVoid
  | CounterNotIncreasing
  | InvalidInstructionsSysvar | MissingEd25519Instruction | MalformedEd25519Instruction
  | UnknownServerKey | ServerKeyMismatch | ServerKeyNotValidAtTs | MessageMismatch
  | InvalidRole | InvalidTier | TierNotAllowedForRole | SiteIdNotAllowed | UnknownSite
  | InvalidIndicator | InvalidFill | InvalidHeatLevels | HeatInconsistent
  | ScanCountOverflow
  | NotIssuerOrAuthority | TooManySeals | ServerKeyNotValidNow | StaleScanTimestamp
  | CounterOutOfRange | PartnerNotFound | ServerKeyAlreadyRevoked | NotUpgradeAuthority
  | AssetMismatch | InvalidAsset | AssetNotOwnedByIssuer

section \<open>The message\<close>

record rust_fields =
  rf_serial_hash :: bytes
  rf_uid_hash :: bytes
  rf_counter :: "32 word"
  rf_tamper :: byte
  rf_uv :: byte
  rf_hum :: byte
  rf_heat :: byte
  rf_fill :: byte
  rf_media_hash :: bytes
  rf_nonce :: bytes
  rf_ts :: "64 word"

definition copy_at :: "nat \<Rightarrow> bytes \<Rightarrow> bytes \<Rightarrow> bytes" where
  "copy_at off src m = take off m @ src @ drop (off + length src) m"

definition build_scan_message :: "rust_fields \<Rightarrow> bytes" where
  "build_scan_message f =
    (let m = replicate 152 0;
         m = copy_at 0 (utf8 MSG_PREFIX) m;
         m = copy_at 7 (rf_serial_hash f) m;
         m = copy_at 39 (rf_uid_hash f) m;
         m = copy_at 71 (le_bytes 4 (unat (rf_counter f))) m;
         m = m[75 := rf_tamper f];
         m = m[76 := rf_uv f];
         m = m[77 := rf_hum f];
         m = m[78 := rf_heat f];
         m = m[79 := rf_fill f];
         m = copy_at 80 (rf_media_hash f) m;
         m = copy_at 112 (rf_nonce f) m
     in copy_at 144 (le_bytes 8 (unat (rf_ts f))) m)"

section \<open>The Ed25519 instruction\<close>

definition u16_at :: "bytes \<Rightarrow> nat \<Rightarrow> flacon_error + nat" where
  "u16_at d off = (if off + 2 \<le> length d then Inr (le_val (take 2 (drop off d)))
                   else Inl MalformedEd25519Instruction)"

definition index_ok :: "nat \<Rightarrow> nat \<Rightarrow> bool" where
  "index_ok idx own_index \<longleftrightarrow> idx = 0xffff \<or> idx = own_index"

definition get_range :: "bytes \<Rightarrow> nat \<Rightarrow> nat \<Rightarrow> flacon_error + bytes" where
  "get_range d a n = (if a + n \<le> length d then Inr (take n (drop a d)) else Inl MalformedEd25519Instruction)"

definition parse_single_ed25519 :: "bytes \<Rightarrow> nat \<Rightarrow> flacon_error + (bytes \<times> bytes)" where
  "parse_single_ed25519 d own_index =
    bindE (guardE (16 \<le> length d) MalformedEd25519Instruction) (\<lambda>_.
    bindE (guardE (d ! 0 = 1) MalformedEd25519Instruction) (\<lambda>_.
    bindE (u16_at d 2) (\<lambda>signature_offset.
    bindE (u16_at d 4) (\<lambda>signature_ix.
    bindE (u16_at d 6) (\<lambda>public_key_offset.
    bindE (u16_at d 8) (\<lambda>public_key_ix.
    bindE (u16_at d 10) (\<lambda>message_offset.
    bindE (u16_at d 12) (\<lambda>message_size.
    bindE (u16_at d 14) (\<lambda>message_ix.
    bindE (guardE (index_ok signature_ix own_index \<and> index_ok public_key_ix own_index \<and>
                   index_ok message_ix own_index) MalformedEd25519Instruction) (\<lambda>_.
    bindE (guardE (message_size = 152) MalformedEd25519Instruction) (\<lambda>_.
    bindE (get_range d public_key_offset 32) (\<lambda>pubkey.
    bindE (get_range d message_offset message_size) (\<lambda>msg.
    bindE (guardE (signature_offset + 64 \<le> length d) MalformedEd25519Instruction) (\<lambda>_.
    Inr (pubkey, msg)))))))))))))))"

section \<open>Grades\<close>

definition grade_from_fill :: "byte \<Rightarrow> byte" where
  "grade_from_fill fill = (if 90 \<le> fill then GRADE_A else if 60 \<le> fill then GRADE_B else GRADE_D)"

definition is_opened :: "byte \<Rightarrow> bool" where
  "is_opened tamper \<longleftrightarrow> tamper = 1 \<or> tamper = 2"

definition is_triggered :: "byte \<Rightarrow> byte \<Rightarrow> bool" where
  "is_triggered heat hum \<longleftrightarrow> heat = 1 \<or> hum = 1"

definition grade_of :: "byte \<Rightarrow> byte \<Rightarrow> byte \<Rightarrow> byte \<Rightarrow> byte" where
  "grade_of tamper heat hum fill =
    (if is_opened tamper then GRADE_VOID else if is_triggered heat hum then GRADE_C
     else grade_from_fill fill)"

definition passport_after_scan :: "byte \<Rightarrow> bool \<Rightarrow> byte \<Rightarrow> byte \<Rightarrow> byte \<Rightarrow> byte \<Rightarrow> byte \<times> bool" where
  "passport_after_scan old_grade old_void tamper heat hum fill =
    (if old_void \<or> old_grade = GRADE_VOID \<or> is_opened tamper then (GRADE_VOID, True)
     else if old_grade = GRADE_C \<or> is_triggered heat hum then (GRADE_C, False)
     else (grade_from_fill fill, False))"

definition grade_with_flags :: "bool \<Rightarrow> bool \<Rightarrow> byte \<Rightarrow> byte \<Rightarrow> byte \<Rightarrow> byte \<Rightarrow> byte" where
  "grade_with_flags verdict_valid seal_dead tamper heat hum fill =
    (if \<not> verdict_valid \<or> seal_dead then GRADE_VOID else grade_of tamper heat hum fill)"

section \<open>Accounts\<close>

record server_key =
  sk_key_id :: byte
  sk_pubkey :: pubkey
  sk_valid_from :: "64 word"
  sk_valid_to :: "64 word"

record registry =
  rg_authority :: pubkey
  rg_server_keys :: "server_key list"
  rg_partners :: "pubkey list"
  rg_sites :: "16 word list"

record passport =
  pp_serial_hash :: bytes
  pp_binding_hash :: bytes
  pp_asset :: pubkey
  pp_issuer :: pubkey
  pp_grade :: byte
  pp_scan_count :: "32 word"
  pp_seal_count :: byte
  pp_void :: bool
  pp_created_at :: "64 word"

record seal =
  sl_passport :: bytes
  sl_kind :: byte
  sl_uid_hash :: bytes
  sl_last_counter :: "32 word"
  sl_dead :: bool
  sl_attached_at :: "64 word"

record scan_args =
  sa_counter :: "32 word"
  sa_tier :: byte
  sa_role :: byte
  sa_tamper :: byte
  sa_uv :: byte
  sa_hum :: byte
  sa_heat :: byte
  sa_heat_levels :: byte
  sa_fill :: byte
  sa_site_id :: "16 word"
  sa_media_hash :: bytes
  sa_bundle_hash :: bytes
  sa_nonce :: bytes
  sa_ts :: "64 word"
  sa_server_key_id :: byte

record scan_proof =
  sp_seal :: bytes
  sp_args :: scan_args
  sp_attester :: pubkey

definition is_valid_at :: "server_key \<Rightarrow> int \<Rightarrow> bool" where
  "is_valid_at k t \<longleftrightarrow> t \<ge> sint (sk_valid_from k) \<and> (sk_valid_to k = 0 \<or> t \<le> sint (sk_valid_to k))"

definition is_partner :: "registry \<Rightarrow> pubkey \<Rightarrow> bool" where
  "is_partner r k \<longleftrightarrow> k \<in> set (rg_partners r)"

definition may_manage_passport :: "registry \<Rightarrow> pubkey \<Rightarrow> passport \<Rightarrow> bool" where
  "may_manage_passport r k p \<longleftrightarrow> rg_authority r = k \<or> (pp_issuer p = k \<and> is_partner r k)"

definition server_key_of :: "registry \<Rightarrow> byte \<Rightarrow> server_key option" where
  "server_key_of r kid = List.find (\<lambda>k. sk_key_id k = kid) (rg_server_keys r)"

definition is_voided :: "passport \<Rightarrow> bool" where
  "is_voided p \<longleftrightarrow> pp_void p \<or> pp_grade p = GRADE_VOID"

section \<open>Handlers\<close>

definition check_key_and_freshness :: "server_key \<Rightarrow> 64 word \<Rightarrow> 64 word \<Rightarrow> flacon_error + unit" where
  "check_key_and_freshness k ts now =
    bindE (guardE (is_valid_at k (sint ts)) ServerKeyNotValidAtTs) (\<lambda>_.
    bindE (guardE (is_valid_at k (sint now)) ServerKeyNotValidNow) (\<lambda>_.
    let d = sint ts - sint now in
    guardE (- (2 ^ 63) \<le> d \<and> d < 2 ^ 63 \<and> \<bar>d\<bar> \<le> MAX_SCAN_TS_SKEW_S) StaleScanTimestamp))"

text \<open>The instruction before \<open>record_scan\<close>: its index and, when it is the precompile's, its data.\<close>

record scan_env =
  se_prev :: "(nat \<times> bytes option) option"
  se_now :: "64 word"
  se_attester :: pubkey

unbundle bit_operations_syntax

definition check_fields :: "registry \<Rightarrow> pubkey \<Rightarrow> scan_args \<Rightarrow> flacon_error + unit" where
  "check_fields r attester a =
    bindE (guardE (sa_role a \<le> 4) InvalidRole) (\<lambda>_.
    bindE (guardE (sa_tier a \<le> 4) InvalidTier) (\<lambda>_.
    let role_is_pro = (sa_role a = 3 \<or> sa_role a = 4) in
    bindE (guardE (role_is_pro \<or> sa_tier a \<le> 2) TierNotAllowedForRole) (\<lambda>_.
    bindE (guardE (\<not> (role_is_pro \<or> sa_tier a \<ge> 3) \<or> is_partner r attester) NotPartner) (\<lambda>_.
    bindE (guardE (sa_site_id a = 0 \<or> role_is_pro) SiteIdNotAllowed) (\<lambda>_.
    bindE (guardE (sa_site_id a = 0 \<or> sa_site_id a \<in> set (rg_sites r)) UnknownSite) (\<lambda>_.
    bindE (guardE (sa_tamper a \<le> 3 \<and> sa_uv a \<le> 3 \<and> sa_hum a \<le> 3 \<and> sa_heat a \<le> 3) InvalidIndicator) (\<lambda>_.
    bindE (guardE (sa_fill a \<le> 100) InvalidFill) (\<lambda>_.
    bindE (guardE (sa_heat_levels a < push_bit 6 1) InvalidHeatLevels) (\<lambda>_.
    guardE (\<not> (sa_heat a = 0 \<or> sa_heat a = 1) \<or> sa_heat a = (drop_bit 4 (sa_heat_levels a) AND 1))
      HeatInconsistent)))))))))"

definition args_fields :: "passport \<Rightarrow> seal \<Rightarrow> scan_args \<Rightarrow> rust_fields" where
  "args_fields p s a =
    \<lparr>rf_serial_hash = pp_serial_hash p, rf_uid_hash = sl_uid_hash s, rf_counter = sa_counter a,
     rf_tamper = sa_tamper a, rf_uv = sa_uv a, rf_hum = sa_hum a, rf_heat = sa_heat a, rf_fill = sa_fill a,
     rf_media_hash = sa_media_hash a, rf_nonce = sa_nonce a, rf_ts = sa_ts a\<rparr>"

definition record_scan ::
  "registry \<Rightarrow> scan_env \<Rightarrow> passport \<Rightarrow> seal \<Rightarrow> scan_args \<Rightarrow> flacon_error + (scan_proof \<times> seal \<times> passport)" where
  "record_scan r env p s a =
    bindE (case se_prev env of
             Some (i, Some d) \<Rightarrow> parse_single_ed25519 d i
           | _ \<Rightarrow> Inl MissingEd25519Instruction) (\<lambda>(pubkey, msg).
    bindE (case server_key_of r (sa_server_key_id a) of None \<Rightarrow> Inl UnknownServerKey | Some k \<Rightarrow> Inr k) (\<lambda>k.
    bindE (guardE (pubkey = sk_pubkey k) ServerKeyMismatch) (\<lambda>_.
    bindE (check_key_and_freshness k (sa_ts a) (se_now env)) (\<lambda>_.
    bindE (guardE (msg = build_scan_message (args_fields p s a)) MessageMismatch) (\<lambda>_.
    bindE (guardE (sl_passport s = pp_serial_hash p) SealPassportMismatch) (\<lambda>_.
    bindE (guardE (\<not> sl_dead s) SealDead) (\<lambda>_.
    bindE (guardE (\<not> is_voided p) PassportVoid) (\<lambda>_.
    bindE (guardE (sl_last_counter s < sa_counter a) CounterNotIncreasing) (\<lambda>_.
    bindE (guardE (sa_counter a \<le> MAX_COUNTER) CounterOutOfRange) (\<lambda>_.
    bindE (check_fields r (se_attester env) a) (\<lambda>_.
    let (new_grade, new_void) = passport_after_scan (pp_grade p) (pp_void p) (sa_tamper a) (sa_heat a) (sa_hum a) (sa_fill a)
    in bindE (guardE (pp_scan_count p \<noteq> - 1) ScanCountOverflow) (\<lambda>_.
    Inr (\<lparr>sp_seal = sl_uid_hash s, sp_args = a, sp_attester = se_attester env\<rparr>,
         s\<lparr>sl_last_counter := sa_counter a\<rparr>,
         p\<lparr>pp_scan_count := pp_scan_count p + 1, pp_grade := new_grade, pp_void := new_void\<rparr>)))))))))))))"

definition mark_seal_dead ::
  "registry \<Rightarrow> pubkey \<Rightarrow> passport \<Rightarrow> seal \<Rightarrow> flacon_error + (seal \<times> passport)" where
  "mark_seal_dead r signer p s =
    bindE (guardE (sl_passport s = pp_serial_hash p) SealPassportMismatch) (\<lambda>_.
    bindE (guardE (may_manage_passport r signer p) NotIssuerOrAuthority) (\<lambda>_.
    bindE (guardE (\<not> sl_dead s) SealDead) (\<lambda>_.
    Inr (s\<lparr>sl_dead := True\<rparr>, p\<lparr>pp_void := True, pp_grade := GRADE_VOID\<rparr>))))"

definition attach_seal ::
  "registry \<Rightarrow> pubkey \<Rightarrow> 64 word \<Rightarrow> bytes \<Rightarrow> byte \<Rightarrow> passport \<Rightarrow> flacon_error + (seal \<times> passport)" where
  "attach_seal r signer now uid_hash kind p =
    bindE (guardE (may_manage_passport r signer p) NotIssuerOrAuthority) (\<lambda>_.
    bindE (guardE (kind = 0 \<or> kind = 1) InvalidSealKind) (\<lambda>_.
    bindE (guardE (\<not> is_voided p) PassportVoid) (\<lambda>_.
    bindE (guardE (pp_seal_count p < MAX_SEALS_PER_PASSPORT) TooManySeals) (\<lambda>_.
    bindE (guardE (pp_seal_count p \<noteq> - 1) SealCountOverflow) (\<lambda>_.
    Inr (\<lparr>sl_passport = pp_serial_hash p, sl_kind = kind, sl_uid_hash = uid_hash, sl_last_counter = 0,
          sl_dead = False, sl_attached_at = now\<rparr>,
         p\<lparr>pp_seal_count := pp_seal_count p + 1\<rparr>))))))"

text \<open>An unchecked account: address, owning program, data. A Core \<open>AssetV1\<close> starts with key byte 1.\<close>

record raw_account =
  ra_key :: pubkey
  ra_owner :: pubkey
  ra_data :: bytes

definition MPL_CORE_PROGRAM_ID :: pubkey where
  "MPL_CORE_PROGRAM_ID = [175, 84, 171, 16, 189, 151, 165, 66, 160, 158, 247, 179, 152, 137, 221, 12,
    211, 148, 164, 204, 233, 223, 166, 205, 201, 126, 190, 45, 35, 91, 167, 72]"

definition is_core_asset :: "pubkey \<Rightarrow> bytes \<Rightarrow> bool" where
  "is_core_asset owner_program d \<longleftrightarrow> owner_program = MPL_CORE_PROGRAM_ID \<and> d \<noteq> [] \<and> hd d = 1"

definition core_asset_owner :: "pubkey \<Rightarrow> bytes \<Rightarrow> pubkey option" where
  "core_asset_owner owner_program d =
     (if \<not> is_core_asset owner_program d \<or> length d < 33 then None else Some (take 32 (drop 1 d)))"

definition check_mint_asset :: "pubkey \<Rightarrow> bytes \<Rightarrow> pubkey \<Rightarrow> flacon_error + unit" where
  "check_mint_asset owner_program d issuer =
     (case core_asset_owner owner_program d of
        None \<Rightarrow> Inl InvalidAsset
      | Some k \<Rightarrow> guardE (k = issuer) AssetNotOwnedByIssuer)"

definition mint_passport ::
  "registry \<Rightarrow> pubkey \<Rightarrow> 64 word \<Rightarrow> bytes \<Rightarrow> bytes \<Rightarrow> pubkey \<Rightarrow> raw_account \<Rightarrow> flacon_error + passport" where
  "mint_passport r issuer now serial_hash binding_hash asset core_asset =
    bindE (guardE (rg_authority r = issuer \<or> is_partner r issuer) NotPartner) (\<lambda>_.
    bindE (guardE (ra_key core_asset = asset) AssetMismatch) (\<lambda>_.
    bindE (check_mint_asset (ra_owner core_asset) (ra_data core_asset) issuer) (\<lambda>_.
    Inr \<lparr>pp_serial_hash = serial_hash, pp_binding_hash = binding_hash, pp_asset = asset, pp_issuer = issuer,
         pp_grade = GRADE_A, pp_scan_count = 0, pp_seal_count = 0, pp_void = False, pp_created_at = now\<rparr>)))"

end
