(* ===== verification/Flacon_Agreement.thy ===== *)
theory Flacon_Agreement
  imports Program_Flacon
begin

text \<open>
  What the two implementations of the scan message and of the grade rule owe each other, and the
  life of a passport on chain: the bytes \<open>buildScanMessage\<close> signs are the bytes \<open>record_scan\<close>
  rebuilds, \<open>computeGrade\<close> is the Rust rule, and the accepted scans of a passport form a history in
  which counters only rise and VOID and C are never lost.
\<close>

section \<open>The rebuilt message\<close>

lemma copy_at_front:
  assumes "length xs = off" "length src \<le> n"
  shows "copy_at off src (xs @ replicate n 0) = (xs @ src) @ replicate (n - length src) 0"
  using assms by (simp add: copy_at_def)

lemma update_front:
  assumes "length xs = off" "0 < n"
  shows "(xs @ replicate n 0)[off := v] = (xs @ [v]) @ replicate (n - 1) (0 :: byte)"
  using assms by (cases n) (simp_all add: list_update_append)

definition rust_fields_ok :: "rust_fields \<Rightarrow> bool" where
  "rust_fields_ok f \<longleftrightarrow> length (rf_serial_hash f) = 32 \<and> length (rf_uid_hash f) = 32 \<and>
     length (rf_media_hash f) = 32 \<and> length (rf_nonce f) = 32"

lemma build_scan_message_layout:
  assumes "rust_fields_ok f"
  shows "build_scan_message f = layout (rf_serial_hash f) (rf_uid_hash f) (le_bytes 4 (unat (rf_counter f)))
    (rf_tamper f) (rf_uv f) (rf_hum f) (rf_heat f) (rf_fill f) (rf_media_hash f) (rf_nonce f)
    (le_bytes 8 (unat (rf_ts f)))"
  using assms copy_at_front [of "[]" 0 "utf8 MSG_PREFIX" 152]
  by (simp add: build_scan_message_def rust_fields_ok_def copy_at_front update_front layout_def
      del: append_assoc)

text \<open>The server-side field set a Rust field set stands for.\<close>

definition ts_fields :: "rust_fields \<Rightarrow> scan_fields" where
  "ts_fields f = \<lparr>sf_serialHash = rf_serial_hash f, sf_uidHash = rf_uid_hash f,
     sf_counter = jn (uint (rf_counter f)), sf_tamper = byte_num (rf_tamper f), sf_uv = byte_num (rf_uv f),
     sf_hum = byte_num (rf_hum f), sf_heat = byte_num (rf_heat f), sf_fill = byte_num (rf_fill f),
     sf_mediaHash = rf_media_hash f, sf_nonce = rf_nonce f, sf_ts = BigNum (sint (rf_ts f))\<rparr>"

lemma sint_mod_64: "nat (sint (w :: 64 word) mod 2 ^ 64) = unat w"
proof -
  have "sint w mod 2 ^ 64 = uint w"
    using uint_sint [of w] by (simp add: take_bit_eq_mod)
  then show ?thesis by simp
qed

lemma ts_fields_ok:
  assumes "rust_fields_ok f" "rf_fill f \<le> 100"
  shows "sf_ok (ts_fields f)"
proof -
  have "uint (rf_fill f) \<le> 100" using assms(2) by (simp add: word_le_def)
  moreover have "uint (rf_counter f) \<le> 2 ^ 32 - 1" using uint_lt2p [of "rf_counter f"] by simp
  ultimately show ?thesis
    using assms(1) by (simp add: sf_ok_def sf_hashes_ok_def ts_fields_def rust_fields_ok_def uint_byte
        num_in_def [of _ _ "byte_num _"])
qed

lemma message_of_ts_fields:
  assumes "rust_fields_ok f"
  shows "message_of (ts_fields f) = build_scan_message f"
  using assms sint_mod_64 [of "rf_ts f"]
  by (simp add: message_of_def build_scan_message_layout ts_fields_def sf_ts_int_def)

lemma wrap_sint: "wrap_i64 (sint (w :: 64 word)) = sint w"
  using sint_ge [of w] sint_lt [of w] by (intro wrap_i64_id) simp_all

section \<open>Accepting a scan\<close>

lemma record_scan_Inr:
  assumes "record_scan r env p s a = Inr (sp, s', p')"
  obtains i d k where "se_prev env = Some (i, Some d)"
    "server_key_of r (sa_server_key_id a) = Some k"
    "parse_single_ed25519 d i = Inr (sk_pubkey k, build_scan_message (args_fields p s a))"
    "check_key_and_freshness k (sa_ts a) (se_now env) = Inr ()"
    "sl_passport s = pp_serial_hash p" "\<not> sl_dead s" "\<not> is_voided p"
    "sl_last_counter s < sa_counter a" "sa_counter a \<le> MAX_COUNTER"
    "check_fields r (se_attester env) a = Inr ()" "pp_scan_count p \<noteq> - 1"
    "sp = \<lparr>sp_seal = sl_uid_hash s, sp_args = a, sp_attester = se_attester env\<rparr>"
    "s' = s\<lparr>sl_last_counter := sa_counter a\<rparr>"
    "p' = p\<lparr>pp_scan_count := pp_scan_count p + 1,
       pp_grade := fst (passport_after_scan (pp_grade p) (pp_void p) (sa_tamper a) (sa_heat a) (sa_hum a) (sa_fill a)),
       pp_void := snd (passport_after_scan (pp_grade p) (pp_void p) (sa_tamper a) (sa_heat a) (sa_hum a) (sa_fill a))\<rparr>"
  using assms by (auto simp: record_scan_def bindE_eq_Inr case_prod_beta split: option.splits prod.splits)

lemma check_fields_bounds:
  assumes "check_fields r k a = Inr u"
  shows "sa_fill a \<le> 100" "sa_tamper a \<le> 3" "sa_heat a \<le> 3" "sa_hum a \<le> 3" "sa_heat_levels a < 64"
  using assms by (auto simp: check_fields_def Let_def bindE_eq_Inr)

section \<open>Grades\<close>

definition grade_input_of :: "bool \<Rightarrow> bool \<Rightarrow> byte \<Rightarrow> byte \<Rightarrow> byte \<Rightarrow> byte \<Rightarrow> grade_input" where
  "grade_input_of valid dead tamper heat hum fill =
     \<lparr>gi_verdict = (if valid then ''VALID'' else ''INVALID''), gi_tamper = byte_num tamper,
      gi_heat = byte_num heat, gi_hum = byte_num hum, gi_fill = byte_num fill, gi_sealDead = Some dead\<rparr>"

lemma byte_num_eq: "byte_num b = jn n \<longleftrightarrow> uint b = n"
proof
  assume "byte_num b = jn n"
  then have "js_floor (byte_num b) = js_floor (jn n)" by simp
  then show "uint b = n" by (simp only: byte_num_facts js_floor_jn)
qed (simp add: byte_num_def)

lemma byte_num_ge: "js_ge (byte_num b) (jn n) \<longleftrightarrow> n \<le> uint b"
  unfolding byte_num_def js_ge.simps of_int_le_iff ..

lemma uint_eq_numeral:
  "uint (b :: byte) = 0 \<longleftrightarrow> b = 0" "uint b = 1 \<longleftrightarrow> b = 1" "uint b = 2 \<longleftrightarrow> b = 2"
  "60 \<le> uint b \<longleftrightarrow> 60 \<le> b" "90 \<le> uint b \<longleftrightarrow> 90 \<le> b"
  by (simp_all add: word_le_def word_uint_eq_iff)

lemma computeGrade_byte:
  "gr_grade (computeGrade (grade_input_of valid dead tamper heat hum fill)) =
     uint (grade_with_flags valid dead tamper heat hum fill)"
  unfolding computeGrade_def grade_input_of_def grade_with_flags_def grade_of_def is_opened_def
    is_triggered_def grade_from_fill_def Let_def
  by (simp add: byte_num_eq [of _ 1, simplified] byte_num_eq [of _ 2, simplified] byte_num_ge [of _ 60, simplified]
      byte_num_ge [of _ 90, simplified] uint_eq_numeral)

section \<open>Properties\<close>

text \<open>C2: the server and the program agree on the signed bytes. For 32-byte hashes and a fill up to
  100, \<open>buildScanMessage\<close> of the TypeScript package returns exactly the array \<open>build_scan_message\<close> of
  the program fills.\<close>

theorem program_message_agrees:
  assumes "rust_fields_ok f" "rf_fill f \<le> 100"
  shows "buildScanMessage (ts_fields f) = Inr (build_scan_message f)"
  using build_ok [OF ts_fields_ok [OF assms]] message_of_ts_fields [OF assms(1)] by simp

definition sample_rust :: rust_fields where
  "sample_rust = \<lparr>rf_serial_hash = replicate 32 1, rf_uid_hash = replicate 32 2, rf_counter = 7, rf_tamper = 0,
     rf_uv = 1, rf_hum = 2, rf_heat = 0, rf_fill = 95, rf_media_hash = replicate 32 0, rf_nonce = replicate 32 9,
     rf_ts = 1760000000\<rparr>"

theorem program_message_agrees_witness:
  "buildScanMessage (ts_fields sample_rust) = Inr (build_scan_message sample_rust)"
  by (rule program_message_agrees) (simp_all add: rust_fields_ok_def sample_rust_def)

text \<open>\<open>computeGrade\<close> is the program's grade rule on every byte input, also for a scan that is not valid or of a dead seal.\<close>

lemma grade_rules_agree:
  "gr_grade (computeGrade (grade_input_of valid dead tamper heat hum fill)) = uint (grade_with_flags valid dead tamper heat hum fill)"
  by (simp add: computeGrade_byte)

lemma grade_after_scan:
  "uint (fst (passport_after_scan old void tamper heat hum fill)) =
    (if void \<or> old = GRADE_VOID then 4
     else let g = gr_grade (computeGrade (grade_input_of True False tamper heat hum fill))
          in if old = GRADE_C \<and> g \<noteq> 4 then 2 else g)"
  by (simp add: computeGrade_byte passport_after_scan_def grade_with_flags_def grade_of_def
      grade_from_fill_def Let_def)

lemma void_after_scan:
  "\<not> void \<Longrightarrow> snd (passport_after_scan old void tamper heat hum fill) \<longleftrightarrow>
    fst (passport_after_scan old void tamper heat hum fill) = GRADE_VOID"
  by (simp add: passport_after_scan_def grade_from_fill_def)

end
