(* ===== verification/Flacon_History.thy ===== *)
theory Flacon_History
  imports Flacon_Agreement
begin

text \<open>
  The registry program's accounts as a transition system: \<open>mint_passport\<close>, \<open>attach_seal\<close>,
  \<open>record_scan\<close> and \<open>mark_seal_dead\<close> on the passports, seals and scan proofs, and what holds in every
  reachable state. A scan proof of an accepted counter is never initialised twice, although the
  account is \<open>init_if_needed\<close>.
\<close>

record world =
  w_passports :: "bytes \<rightharpoonup> passport"
  w_seals :: "bytes \<rightharpoonup> seal"
  w_proofs :: "bytes \<times> 32 word \<rightharpoonup> scan_proof"

definition empty_world :: world where
  "empty_world = \<lparr>w_passports = Map.empty, w_seals = Map.empty, w_proofs = Map.empty\<rparr>"

inductive flacon_step :: "world \<Rightarrow> world \<Rightarrow> bool" where
  mint: "w_passports w sh = None \<Longrightarrow> mint_passport r issuer now sh bh asset chk = Inr p \<Longrightarrow>
    flacon_step w (w\<lparr>w_passports := (w_passports w)(sh \<mapsto> p)\<rparr>)"
| attach: "w_passports w sh = Some p \<Longrightarrow> w_seals w uh = None \<Longrightarrow>
    attach_seal r signer now uh kind p = Inr (s, p') \<Longrightarrow>
    flacon_step w (w\<lparr>w_passports := (w_passports w)(sh \<mapsto> p'), w_seals := (w_seals w)(uh \<mapsto> s)\<rparr>)"
| scan: "w_passports w sh = Some p \<Longrightarrow> w_seals w uh = Some s \<Longrightarrow>
    record_scan r env p s a = Inr (sp, s', p') \<Longrightarrow>
    flacon_step w (w\<lparr>w_passports := (w_passports w)(sh \<mapsto> p'), w_seals := (w_seals w)(uh \<mapsto> s'),
                     w_proofs := (w_proofs w)((uh, sa_counter a) \<mapsto> sp)\<rparr>)"
| dead: "w_passports w sh = Some p \<Longrightarrow> w_seals w uh = Some s \<Longrightarrow>
    mark_seal_dead r signer p s = Inr (s', p') \<Longrightarrow>
    flacon_step w (w\<lparr>w_passports := (w_passports w)(sh \<mapsto> p'), w_seals := (w_seals w)(uh \<mapsto> s')\<rparr>)"

inductive flacon_reach :: "world \<Rightarrow> bool" where
  init: "flacon_reach empty_world"
| step: "flacon_reach w \<Longrightarrow> flacon_step w w' \<Longrightarrow> flacon_reach w'"

inductive_cases flacon_stepE: "flacon_step w w'"

text \<open>What every operation keeps.\<close>

definition passport_ok :: "passport \<Rightarrow> bool" where
  "passport_ok p \<longleftrightarrow> pp_void p = (pp_grade p = GRADE_VOID) \<and> pp_grade p \<le> 4 \<and> pp_seal_count p \<le> 2"

definition proof_of :: "world \<Rightarrow> bytes \<Rightarrow> (bytes \<times> 32 word) set" where
  "proof_of w sh = {k \<in> dom (w_proofs w). \<exists>s. w_seals w (fst k) = Some s \<and> sl_passport s = sh}"

definition passports_ok :: "world \<Rightarrow> bool" where
  "passports_ok w \<longleftrightarrow> (\<forall>sh p. w_passports w sh = Some p \<longrightarrow> pp_serial_hash p = sh \<and> passport_ok p)"

definition seals_ok :: "world \<Rightarrow> bool" where
  "seals_ok w \<longleftrightarrow> (\<forall>uh s. w_seals w uh = Some s \<longrightarrow> sl_uid_hash s = uh \<and> sl_last_counter s \<le> MAX_COUNTER \<and>
     (\<exists>p. w_passports w (sl_passport s) = Some p \<and> (sl_dead s \<longrightarrow> pp_void p)))"

definition proofs_ok :: "world \<Rightarrow> bool" where
  "proofs_ok w \<longleftrightarrow> finite (dom (w_proofs w)) \<and>
     (\<forall>uh c sp. w_proofs w (uh, c) = Some sp \<longrightarrow> sp_seal sp = uh \<and> sa_counter (sp_args sp) = c \<and>
        (\<exists>s. w_seals w uh = Some s \<and> 0 < c \<and> c \<le> sl_last_counter s))"

definition counts_ok :: "world \<Rightarrow> bool" where
  "counts_ok w \<longleftrightarrow> (\<forall>sh p. w_passports w sh = Some p \<longrightarrow> card (proof_of w sh) = unat (pp_scan_count p))"

definition world_ok :: "world \<Rightarrow> bool" where
  "world_ok w \<longleftrightarrow> passports_ok w \<and> seals_ok w \<and> proofs_ok w \<and> counts_ok w"

lemmas world_ok_defs = passports_ok_def seals_ok_def proofs_ok_def counts_ok_def

lemma world_okD:
  assumes "world_ok w"
  shows "w_passports w sh = Some p \<Longrightarrow> pp_serial_hash p = sh \<and> passport_ok p"
    "w_seals w uh = Some s \<Longrightarrow> sl_uid_hash s = uh \<and> sl_last_counter s \<le> MAX_COUNTER"
    "w_seals w uh = Some s \<Longrightarrow> \<exists>p. w_passports w (sl_passport s) = Some p \<and> (sl_dead s \<longrightarrow> pp_void p)"
    "w_proofs w (uh, c) = Some sp \<Longrightarrow> sp_seal sp = uh \<and> sa_counter (sp_args sp) = c"
    "w_proofs w (uh, c) = Some sp \<Longrightarrow> \<exists>s. w_seals w uh = Some s \<and> 0 < c \<and> c \<le> sl_last_counter s"
    "finite (dom (w_proofs w))"
    "w_passports w sh = Some p \<Longrightarrow> card (proof_of w sh) = unat (pp_scan_count p)"
  using assms unfolding world_ok_def world_ok_defs by blast+

lemma passport_ok_scan:
  "passport_ok p \<Longrightarrow> \<not> is_voided p \<Longrightarrow>
   passport_ok (p\<lparr>pp_scan_count := c, pp_grade := fst (passport_after_scan (pp_grade p) (pp_void p) t h u f),
     pp_void := snd (passport_after_scan (pp_grade p) (pp_void p) t h u f)\<rparr>)"
  by (auto simp: passport_ok_def passport_after_scan_def grade_from_fill_def is_voided_def)

text \<open>A used counter is never accepted again: the key of the new proof is free.\<close>

lemma record_scan_fresh:
  assumes "world_ok w" "w_seals w uh = Some s" "record_scan r env p s a = Inr (sp, s', p')"
  shows "(uh, sa_counter a) \<notin> dom (w_proofs w)"
proof
  assume "(uh, sa_counter a) \<in> dom (w_proofs w)"
  then obtain sp' where "w_proofs w (uh, sa_counter a) = Some sp'" by auto
  with assms(1,2) have "sa_counter a \<le> sl_last_counter s"
    using world_okD(5) by fastforce
  moreover have "sl_last_counter s < sa_counter a" using assms(3) by (rule record_scan_Inr)
  ultimately show False by simp
qed

text \<open>How the set of a passport's proofs moves.\<close>

lemma proof_of_same_seals:
  assumes "w_proofs w' = w_proofs w"
    "\<And>uh c. (uh, c) \<in> dom (w_proofs w) \<Longrightarrow>
      map_option sl_passport (w_seals w' uh) = map_option sl_passport (w_seals w uh)"
  shows "proof_of w' sh = proof_of w sh"
proof -
  have "(\<exists>s. w_seals w' uh = Some s \<and> sl_passport s = sh) \<longleftrightarrow>
      (\<exists>s. w_seals w uh = Some s \<and> sl_passport s = sh)" if "(uh, c) \<in> dom (w_proofs w)" for uh c
    using assms(2) [OF that] by (cases "w_seals w uh"; cases "w_seals w' uh") auto
  with assms(1) show ?thesis unfolding proof_of_def by auto blast+
qed

lemma proof_of_empty:
  assumes "world_ok w" "w_passports w sh = None"
  shows "proof_of w sh = {}"
  using world_okD(3) [OF assms(1)] assms(2) unfolding proof_of_def by fastforce

text \<open>An operation replaces one passport and one seal of it; the seal is new or was its already.\<close>

definition put :: "bytes \<Rightarrow> passport \<Rightarrow> bytes \<Rightarrow> seal \<Rightarrow> world \<Rightarrow> world" where
  "put sh p uh s w = w\<lparr>w_passports := (w_passports w)(sh \<mapsto> p), w_seals := (w_seals w)(uh \<mapsto> s)\<rparr>"

lemma put_simps [simp]:
  "w_passports (put sh p uh s w) = (w_passports w)(sh \<mapsto> p)"
  "w_seals (put sh p uh s w) = (w_seals w)(uh \<mapsto> s)"
  "w_proofs (put sh p uh s w) = w_proofs w"
  by (simp_all add: put_def)

definition replaces :: "world \<Rightarrow> bytes \<Rightarrow> passport \<Rightarrow> bytes \<Rightarrow> seal \<Rightarrow> bool" where
  "replaces w sh p' uh s' \<longleftrightarrow>
     pp_serial_hash p' = sh \<and> passport_ok p' \<and> sl_uid_hash s' = uh \<and> sl_last_counter s' \<le> MAX_COUNTER \<and>
     sl_passport s' = sh \<and> (sl_dead s' \<longrightarrow> pp_void p') \<and>
     (\<exists>p. w_passports w sh = Some p \<and> (pp_void p \<longrightarrow> pp_void p')) \<and>
     (\<forall>s. w_seals w uh = Some s \<longrightarrow> sl_passport s = sh \<and> sl_last_counter s \<le> sl_last_counter s')"

lemma put_ok:
  assumes w: "world_ok w" and r: "replaces w sh p' uh s'"
  shows "passports_ok (put sh p' uh s' w)" "seals_ok (put sh p' uh s' w)" "proofs_ok (put sh p' uh s' w)"
    "proof_of (put sh p' uh s' w) sh' = proof_of w sh'"
proof -
  show "passports_ok (put sh p' uh s' w)"
    using world_okD(1) [OF w] r by (auto simp: passports_ok_def replaces_def)
  show "seals_ok (put sh p' uh s' w)"
    unfolding seals_ok_def
  proof (intro allI impI)
    fix u t assume t: "w_seals (put sh p' uh s' w) u = Some t"
    show "sl_uid_hash t = u \<and> sl_last_counter t \<le> MAX_COUNTER \<and>
        (\<exists>p. w_passports (put sh p' uh s' w) (sl_passport t) = Some p \<and> (sl_dead t \<longrightarrow> pp_void p))"
    proof (cases "u = uh")
      case True
      with t r show ?thesis by (auto simp: replaces_def)
    next
      case False
      with t have "w_seals w u = Some t" by simp
      with world_okD(2,3) [OF w] obtain q where "sl_uid_hash t = u" "sl_last_counter t \<le> MAX_COUNTER"
        "w_passports w (sl_passport t) = Some q" "sl_dead t \<longrightarrow> pp_void q" by blast
      with r show ?thesis by (auto simp: replaces_def)
    qed
  qed
  show "proofs_ok (put sh p' uh s' w)"
    unfolding proofs_ok_def
  proof (intro conjI allI impI)
    fix u c sp assume sp: "w_proofs (put sh p' uh s' w) (u, c) = Some sp"
    then show "sp_seal sp = u" "sa_counter (sp_args sp) = c" using world_okD(4) [OF w] by auto
    obtain s where "w_seals w u = Some s" "0 < c" "c \<le> sl_last_counter s"
      using world_okD(5) [OF w, of u c sp] sp by auto
    then show "\<exists>s. w_seals (put sh p' uh s' w) u = Some s \<and> 0 < c \<and> c \<le> sl_last_counter s"
      using r by (cases "u = uh") (auto simp: replaces_def)
  qed (use world_okD(6) [OF w] in simp)
  show "proof_of (put sh p' uh s' w) sh' = proof_of w sh'"
  proof (rule proof_of_same_seals)
    fix u c assume "(u, c) \<in> dom (w_proofs w)"
    then obtain s where "w_seals w u = Some s" using world_okD(5) [OF w] by blast
    then show "map_option sl_passport (w_seals (put sh p' uh s' w) u) = map_option sl_passport (w_seals w u)"
      using r by (auto simp: replaces_def)
  qed simp
qed

lemma world_ok_put:
  assumes w: "world_ok w" and r: "replaces w sh p' uh s'"
    and n: "w_passports w sh = Some p" "pp_scan_count p' = pp_scan_count p"
  shows "world_ok (put sh p' uh s' w)"
  using put_ok [OF w r] world_okD(7) [OF w] n by (auto simp: world_ok_def counts_ok_def)

lemma world_ok_mint:
  assumes "world_ok w" "w_passports w sh = None" "mint_passport r issuer now sh bh asset chk = Inr p"
  shows "world_ok (w\<lparr>w_passports := (w_passports w)(sh \<mapsto> p)\<rparr>)" (is "world_ok ?w")
proof -
  have p: "pp_serial_hash p = sh" "passport_ok p" "pp_scan_count p = 0"
    using assms(3) by (auto simp: mint_passport_def bindE_eq_Inr passport_ok_def)
  have same: "proof_of ?w sh' = proof_of w sh'" for sh'
    by (rule proof_of_same_seals) auto
  have "seals_ok ?w"
    using assms(1,2) by (fastforce simp: world_ok_def seals_ok_def)
  then show ?thesis
    using assms(1) p same proof_of_empty [OF assms(1,2)]
    by (auto simp: world_ok_def passports_ok_def proofs_ok_def counts_ok_def)
qed

lemma attach_replaces:
  assumes w: "world_ok w" "w_passports w sh = Some p" "w_seals w uh = None"
    and a: "attach_seal r signer now uh kind p = Inr (s, p')"
  shows "replaces w sh p' uh s \<and> pp_scan_count p' = pp_scan_count p"
proof -
  have "pp_seal_count p + 1 \<le> (2 :: byte)" if "pp_seal_count p < 2"
    using that by (simp add: inc_le)
  then show ?thesis
    using a world_okD(1) [OF w(1,2)] w(2,3)
    by (auto simp: attach_seal_def bindE_eq_Inr passport_ok_def MAX_SEALS_PER_PASSPORT_def replaces_def
        MAX_COUNTER_def)
qed

lemma dead_replaces:
  assumes w: "world_ok w" "w_passports w sh = Some p" "w_seals w uh = Some s"
    and d: "mark_seal_dead r signer p s = Inr (s', p')"
  shows "replaces w sh p' uh s' \<and> pp_scan_count p' = pp_scan_count p"
  using d world_okD(1) [OF w(1,2)] world_okD(2) [OF w(1,3)] w(2,3)
  by (auto simp: mark_seal_dead_def bindE_eq_Inr passport_ok_def replaces_def)

lemma scan_replaces:
  assumes w: "world_ok w" "w_passports w sh = Some p" "w_seals w uh = Some s"
    and a: "record_scan r env p s a = Inr (sp, s', p')"
  shows "replaces w sh p' uh s'"
  using a
proof (rule record_scan_Inr)
  assume *: "sl_passport s = pp_serial_hash p" "\<not> is_voided p" "\<not> sl_dead s" "sl_last_counter s < sa_counter a"
    "sa_counter a \<le> MAX_COUNTER" "s' = s\<lparr>sl_last_counter := sa_counter a\<rparr>"
    "p' = p\<lparr>pp_scan_count := pp_scan_count p + 1,
       pp_grade := fst (passport_after_scan (pp_grade p) (pp_void p) (sa_tamper a) (sa_heat a) (sa_hum a) (sa_fill a)),
       pp_void := snd (passport_after_scan (pp_grade p) (pp_void p) (sa_tamper a) (sa_heat a) (sa_hum a) (sa_fill a))\<rparr>"
  have "passport_ok p'" unfolding *(7) using world_okD(1) [OF w(1,2)] *(2) by (blast intro: passport_ok_scan)
  then show ?thesis
    using world_okD(1) [OF w(1,2)] world_okD(2) [OF w(1,3)] w(2,3) * unfolding replaces_def is_voided_def by simp
qed

lemma unat_inc: "(c :: 32 word) \<noteq> - 1 \<Longrightarrow> unat (c + 1) = Suc (unat c)"
  using unatSuc [of c] by (simp add: add.commute add_eq_0_iff)

lemma inc_32: "(c :: 32 word) \<noteq> - 1 \<Longrightarrow> c \<le> c + 1"
  by (simp add: word_le_nat_alt unat_inc)

lemma proofs_ok_add:
  assumes "proofs_ok w" "w_seals w uh = Some s" "0 < c" "c \<le> sl_last_counter s"
    "sp_seal sp = uh" "sa_counter (sp_args sp) = c"
  shows "proofs_ok (w\<lparr>w_proofs := (w_proofs w)((uh, c) \<mapsto> sp)\<rparr>)"
  unfolding proofs_ok_def
proof (intro conjI allI impI)
  fix u d q assume q: "w_proofs (w\<lparr>w_proofs := (w_proofs w)((uh, c) \<mapsto> sp)\<rparr>) (u, d) = Some q"
  then have "(u, d) = (uh, c) \<and> q = sp \<or> w_proofs w (u, d) = Some q" by (auto split: if_splits)
  then show "sp_seal q = u" "sa_counter (sp_args q) = d"
    "\<exists>s. w_seals (w\<lparr>w_proofs := (w_proofs w)((uh, c) \<mapsto> sp)\<rparr>) u = Some s \<and> 0 < d \<and> d \<le> sl_last_counter s"
    using assms unfolding proofs_ok_def by auto
qed (use assms(1) in \<open>simp add: proofs_ok_def\<close>)

lemma world_ok_scan:
  assumes w: "world_ok w" "w_passports w sh = Some p" "w_seals w uh = Some s"
    and a: "record_scan r env p s a = Inr (sp, s', p')"
  shows "world_ok (put sh p' uh s' w \<lparr>w_proofs := (w_proofs w)((uh, sa_counter a) \<mapsto> sp)\<rparr>)" (is "world_ok ?w")
proof -
  let ?k = "(uh, sa_counter a)" and ?v = "put sh p' uh s' w"
  note rep = scan_replaces [OF w a] and fresh = record_scan_fresh [OF w(1,3) a]
  note put = put_ok [OF w(1) rep]
  from a obtain new: "sp = \<lparr>sp_seal = sl_uid_hash s, sp_args = a, sp_attester = se_attester env\<rparr>"
    "s' = s\<lparr>sl_last_counter := sa_counter a\<rparr>" "sl_last_counter s < sa_counter a"
    "pp_scan_count p' = pp_scan_count p + 1" "pp_scan_count p \<noteq> - 1"
    by (rule record_scan_Inr) simp
  have pos: "0 < sa_counter a"
    using new(3) by (metis word_gt_0 word_not_simps(1))
  have "proofs_ok ?w"
    using proofs_ok_add [OF put(3), of uh s' "sa_counter a" sp] new(1,2) pos world_okD(2) [OF w(1,3)] by simp
  moreover have "passports_ok ?w" "seals_ok ?w"
    using put(1,2) by (simp_all add: passports_ok_def seals_ok_def)
  moreover have "counts_ok ?w"
    unfolding counts_ok_def
  proof (intro allI impI)
    fix sh' q assume q: "w_passports ?w sh' = Some q"
    have "sl_passport s' = sh" using rep by (simp add: replaces_def)
    then have "proof_of ?w sh' = (if sh' = sh then insert ?k (proof_of ?v sh') else proof_of ?v sh')"
      by (auto simp: proof_of_def)
    then have split: "proof_of ?w sh' = (if sh' = sh then insert ?k (proof_of w sh') else proof_of w sh')"
      by (simp add: put(4))
    have "finite (proof_of w sh')" using world_okD(6) [OF w(1)] by (simp add: proof_of_def)
    moreover have "?k \<notin> proof_of w sh'" using fresh by (auto simp: proof_of_def)
    moreover have "unat (pp_scan_count p + 1) = Suc (unat (pp_scan_count p))"
      using new(5) by (rule unat_inc)
    ultimately show "card (proof_of ?w sh') = unat (pp_scan_count q)"
      using q split world_okD(7) [OF w(1)] w(2) new(4) by (auto split: if_splits)
  qed
  ultimately show ?thesis by (simp add: world_ok_def)
qed

lemma flacon_step_ok:
  assumes "world_ok w" "flacon_step w w'"
  shows "world_ok w'"
  using assms(2)
proof cases
  case (mint sh r issuer now bh asset chk p)
  then show ?thesis using world_ok_mint assms(1) by blast
next
  case (attach sh p uh r signer now kind s p')
  then show ?thesis
    using attach_replaces [OF assms(1) attach(2-4)] world_ok_put [OF assms(1)] by (simp add: put_def)
next
  case (scan sh p uh s r env a sp s' p')
  then show ?thesis using world_ok_scan [OF assms(1) scan(2-4)] by (simp add: put_def)
next
  case (dead sh p uh s r signer s' p')
  then show ?thesis
    using dead_replaces [OF assms(1) dead(2-4)] world_ok_put [OF assms(1)] by (simp add: put_def)
qed

lemma empty_world_ok: "world_ok empty_world"
  by (simp add: world_ok_def world_ok_defs empty_world_def)

lemma flacon_reach_ok: "flacon_reach w \<Longrightarrow> world_ok w"
  by (induction rule: flacon_reach.induct) (auto intro: empty_world_ok flacon_step_ok)

section \<open>Sticky grades\<close>

text \<open>How a passport may look after any one step.\<close>

definition evolves :: "passport \<Rightarrow> passport \<Rightarrow> bool" where
  "evolves p q \<longleftrightarrow> pp_serial_hash q = pp_serial_hash p \<and> pp_issuer q = pp_issuer p \<and>
     pp_asset q = pp_asset p \<and> pp_binding_hash q = pp_binding_hash p \<and>
     (is_voided p \<longrightarrow> is_voided q \<and> pp_scan_count q = pp_scan_count p) \<and>
     (pp_grade p = GRADE_C \<longrightarrow> pp_grade q = GRADE_C \<or> is_voided q) \<and>
     pp_scan_count p \<le> pp_scan_count q"

lemma evolves_refl: "evolves p p"
  by (auto simp: evolves_def)

lemma evolves_trans: "evolves p q \<Longrightarrow> evolves q r \<Longrightarrow> evolves p r"
  unfolding evolves_def by (auto intro: order_trans)

lemma scan_evolves:
  assumes "record_scan r env p s a = Inr (sp, s', p')"
  shows "evolves p p'"
proof -
  from assms obtain "\<not> is_voided p" "pp_scan_count p \<noteq> - 1"
    "p' = p\<lparr>pp_scan_count := pp_scan_count p + 1,
       pp_grade := fst (passport_after_scan (pp_grade p) (pp_void p) (sa_tamper a) (sa_heat a) (sa_hum a) (sa_fill a)),
       pp_void := snd (passport_after_scan (pp_grade p) (pp_void p) (sa_tamper a) (sa_heat a) (sa_hum a) (sa_fill a))\<rparr>"
    by (rule record_scan_Inr)
  then show ?thesis
    by (simp add: evolves_def inc_32 passport_after_scan_def is_voided_def)
qed

lemma attach_evolves: "attach_seal r signer now uh kind p = Inr (s, p') \<Longrightarrow> evolves p p'"
  by (auto simp: attach_seal_def bindE_eq_Inr evolves_def is_voided_def)

lemma dead_evolves: "mark_seal_dead r signer p s = Inr (s', p') \<Longrightarrow> evolves p p'"
  by (auto simp: mark_seal_dead_def bindE_eq_Inr evolves_def is_voided_def)

lemma flacon_step_evolves:
  assumes "flacon_step w w'" "w_passports w sh = Some p"
  shows "\<exists>q. w_passports w' sh = Some q \<and> evolves p q"
  using assms(1)
proof cases
  case (mint sh' r issuer now bh asset chk p')
  then show ?thesis using assms(2) evolves_refl by auto
next
  case (attach sh' p1 uh r signer now kind s p')
  then show ?thesis using attach_evolves [OF attach(4)] assms(2) evolves_refl by auto
next
  case (scan sh' p1 uh s r env a sp s' p')
  then show ?thesis using scan_evolves [OF scan(4)] assms(2) evolves_refl by auto
next
  case (dead sh' p1 uh s r signer s' p')
  then show ?thesis using dead_evolves [OF dead(4)] assms(2) evolves_refl by auto
qed

lemma flacon_steps_evolve:
  "flacon_step\<^sup>*\<^sup>* w w' \<Longrightarrow> w_passports w sh = Some p \<Longrightarrow> \<exists>q. w_passports w' sh = Some q \<and> evolves p q"
proof (induction rule: rtranclp_induct)
  case base
  then show ?case using evolves_refl by blast
next
  case (step w1 w2)
  then show ?case using flacon_step_evolves evolves_trans by blast
qed

lemma proofs_grow:
  assumes "flacon_reach w" "flacon_step w w'"
  shows "w_proofs w \<subseteq>\<^sub>m w_proofs w'"
  using assms(2)
proof cases
  case (scan sh p uh s r env a sp s' p')
  then show ?thesis
    using record_scan_fresh [OF flacon_reach_ok [OF assms(1)] scan(3,4)]
    by (auto simp: map_le_def domIff)
qed auto

text \<open>The Ed25519 instruction data the client library lays out: header, key, signature, message.\<close>

definition ed_ix_data :: "bytes \<Rightarrow> bytes \<Rightarrow> bytes \<Rightarrow> bytes" where
  "ed_ix_data pk sg msg = [1, 0] @ le_bytes 2 48 @ le_bytes 2 65535 @ le_bytes 2 16 @ le_bytes 2 65535 @
     le_bytes 2 112 @ le_bytes 2 152 @ le_bytes 2 65535 @ pk @ sg @ msg"

lemma parse_ed_ix_data:
  assumes "length pk = 32" "length sg = 64" "length msg = 152"
  shows "parse_single_ed25519 (ed_ix_data pk sg msg) i = Inr (pk, msg)"
proof -
  have v: "le_val (le_bytes 2 48) = 48" "le_val (le_bytes 2 65535) = 65535" "le_val (le_bytes 2 16) = 16"
    "le_val (le_bytes 2 112) = 112" "le_val (le_bytes 2 152) = 152"
    by (simp_all add: le_val_bytes)
  have u: "u16_at (ed_ix_data pk sg msg) 2 = Inr 48" "u16_at (ed_ix_data pk sg msg) 4 = Inr 65535"
    "u16_at (ed_ix_data pk sg msg) 6 = Inr 16" "u16_at (ed_ix_data pk sg msg) 8 = Inr 65535"
    "u16_at (ed_ix_data pk sg msg) 10 = Inr 112" "u16_at (ed_ix_data pk sg msg) 12 = Inr 152"
    "u16_at (ed_ix_data pk sg msg) 14 = Inr 65535"
    using assms v by (simp_all add: u16_at_def ed_ix_data_def del: le_bytes.simps)
  show ?thesis
    using assms unfolding parse_single_ed25519_def u
    by (simp add: index_ok_def get_range_def ed_ix_data_def del: le_bytes.simps)
qed

section \<open>A first scan\<close>

definition demo_key :: pubkey where "demo_key = replicate 32 5"
definition demo_registry :: registry where
  "demo_registry = \<lparr>rg_authority = replicate 32 1,
     rg_server_keys = [\<lparr>sk_key_id = 1, sk_pubkey = demo_key, sk_valid_from = 0, sk_valid_to = 0\<rparr>],
     rg_partners = [], rg_sites = []\<rparr>"
definition demo_passport :: passport where
  "demo_passport = \<lparr>pp_serial_hash = replicate 32 3, pp_binding_hash = replicate 32 4, pp_asset = replicate 32 8,
     pp_issuer = replicate 32 1, pp_grade = GRADE_A, pp_scan_count = 0, pp_seal_count = 1, pp_void = False,
     pp_created_at = 100\<rparr>"
definition demo_seal :: seal where
  "demo_seal = \<lparr>sl_passport = replicate 32 3, sl_kind = 0, sl_uid_hash = replicate 32 6, sl_last_counter = 0,
     sl_dead = False, sl_attached_at = 100\<rparr>"
definition demo_args :: scan_args where
  "demo_args = \<lparr>sa_counter = 5, sa_tier = 1, sa_role = 2, sa_tamper = 0, sa_uv = 3, sa_hum = 3, sa_heat = 1,
     sa_heat_levels = 16, sa_fill = 80, sa_site_id = 0, sa_media_hash = replicate 32 0,
     sa_bundle_hash = replicate 32 7, sa_nonce = replicate 32 9, sa_ts = 1000, sa_server_key_id = 1\<rparr>"
definition demo_env :: scan_env where
  "demo_env = \<lparr>se_prev = Some (0, Some (ed_ix_data demo_key (replicate 64 0)
     (build_scan_message (args_fields demo_passport demo_seal demo_args)))), se_now = 1010,
     se_attester = replicate 32 2\<rparr>"

lemmas demo_defs = demo_registry_def demo_passport_def demo_seal_def demo_args_def

lemma demo_scan:
  "record_scan demo_registry demo_env demo_passport demo_seal demo_args =
     Inr (\<lparr>sp_seal = replicate 32 6, sp_args = demo_args, sp_attester = replicate 32 2\<rparr>,
       demo_seal\<lparr>sl_last_counter := 5\<rparr>, demo_passport\<lparr>pp_scan_count := 1, pp_grade := GRADE_C\<rparr>)"
proof -
  let ?m = "build_scan_message (args_fields demo_passport demo_seal demo_args)"
  have "rust_fields_ok (args_fields demo_passport demo_seal demo_args)"
    by (simp add: rust_fields_ok_def args_fields_def demo_defs)
  then have "length ?m = 152"
    by (simp add: build_scan_message_layout layout_length rust_fields_ok_def)
  then have p: "parse_single_ed25519 (ed_ix_data demo_key (replicate 64 0) ?m) 0 = Inr (demo_key, ?m)"
    by (intro parse_ed_ix_data) (simp_all add: demo_key_def)
  have k: "server_key_of demo_registry (sa_server_key_id demo_args) =
      Some \<lparr>sk_key_id = 1, sk_pubkey = demo_key, sk_valid_from = 0, sk_valid_to = 0\<rparr>"
    by (simp add: server_key_of_def demo_defs)
  have f: "check_fields demo_registry (replicate 32 2) demo_args = Inr ()"
    by (simp add: check_fields_def demo_defs word_le_def)
  have t: "check_key_and_freshness \<lparr>sk_key_id = 1, sk_pubkey = demo_key, sk_valid_from = 0, sk_valid_to = 0\<rparr>
      (sa_ts demo_args) 1010 = Inr ()"
    by (simp add: check_key_and_freshness_def is_valid_at_def demo_defs MAX_SCAN_TS_SKEW_S_def)
  show ?thesis
    unfolding record_scan_def demo_env_def
    by (simp add: p k f t del: server_key.simps)
      (simp add: demo_defs is_voided_def MAX_COUNTER_def passport_after_scan_def is_opened_def is_triggered_def)
qed

definition minted :: world where
  "minted = empty_world \<lparr>w_passports := [replicate 32 3 \<mapsto> demo_passport\<lparr>pp_seal_count := 0\<rparr>]\<rparr>"
definition sealed :: world where
  "sealed = put (replicate 32 3) demo_passport (replicate 32 6) demo_seal minted"
definition scanned :: world where
  "scanned = put (replicate 32 3) (demo_passport\<lparr>pp_scan_count := 1, pp_grade := GRADE_C\<rparr>) (replicate 32 6)
     (demo_seal\<lparr>sl_last_counter := 5\<rparr>) sealed
     \<lparr>w_proofs := [(replicate 32 6, 5) \<mapsto>
        \<lparr>sp_seal = replicate 32 6, sp_args = demo_args, sp_attester = replicate 32 2\<rparr>]\<rparr>"

lemma minted_reach: "flacon_reach minted"
proof -
  have m: "mint_passport demo_registry (replicate 32 1) 100 (replicate 32 3) (replicate 32 4) (replicate 32 8)
      \<lparr>ra_key = replicate 32 8, ra_owner = MPL_CORE_PROGRAM_ID, ra_data = 1 # replicate 32 1 @ [0]\<rparr>
      = Inr (demo_passport\<lparr>pp_seal_count := 0\<rparr>)"
    by (simp add: mint_passport_def demo_defs check_mint_asset_def core_asset_owner_def is_core_asset_def)
  have "flacon_step empty_world minted"
    using flacon_step.mint [OF _ m, of empty_world] by (simp add: minted_def empty_world_def)
  then show ?thesis by (rule flacon_reach.step [OF flacon_reach.init])
qed

lemma sealed_reach: "flacon_reach sealed"
proof -
  have a: "attach_seal demo_registry (replicate 32 1) 100 (replicate 32 6) 0 (demo_passport\<lparr>pp_seal_count := 0\<rparr>)
      = Inr (demo_seal, demo_passport)"
    by (simp add: attach_seal_def demo_defs may_manage_passport_def is_voided_def MAX_SEALS_PER_PASSPORT_def)
  have "flacon_step minted sealed"
    using flacon_step.attach [OF _ _ a, of minted "replicate 32 3"]
    by (simp add: minted_def sealed_def put_def empty_world_def)
  then show ?thesis by (rule flacon_reach.step [OF minted_reach])
qed

lemma scan_step: "flacon_step sealed scanned"
  using flacon_step.scan [OF _ _ demo_scan, of sealed "replicate 32 3" "replicate 32 6"]
  by (simp add: scanned_def sealed_def put_def minted_def empty_world_def demo_args_def)

lemma scanned_reach: "flacon_reach scanned"
  by (rule flacon_reach.step [OF sealed_reach scan_step])

section \<open>Properties\<close>

text \<open>C6: a scan the program accepts was signed for exactly the fields of its message: \<open>parseScanMessage\<close> of the
  message in the Ed25519 instruction gives back the passport's serial hash, the seal's UID hash, counter, tamper, UV,
  humidity, heat, fill, media hash, nonce and time of the arguments, and the key that signed it is the registry's key of
  that id, valid at the signed time and now. Tier, role, heat levels, site and bundle hash are not part of the signed
  message; they are checked only by the program's own rules. The stored proof holds these very arguments, under the
  attester and the seal of the accounts.\<close>

theorem record_scan_signed:
  assumes "record_scan r env p s a = Inr res"
    and "length (pp_serial_hash p) = 32" "length (sl_uid_hash s) = 32"
    and "length (sa_media_hash a) = 32" "length (sa_nonce a) = 32"
  shows "\<exists>i d k msg. se_prev env = Some (i, Some d) \<and> parse_single_ed25519 d i = Inr (sk_pubkey k, msg) \<and>
    server_key_of r (sa_server_key_id a) = Some k \<and>
    is_valid_at k (sint (sa_ts a)) \<and> is_valid_at k (sint (se_now env)) \<and>
    \<bar>sint (sa_ts a) - sint (se_now env)\<bar> \<le> MAX_SCAN_TS_SKEW_S \<and>
    parseScanMessage msg = Inr (ts_fields (args_fields p s a)) \<and>
    check_fields r (se_attester env) a = Inr () \<and>
    fst res = \<lparr>sp_seal = sl_uid_hash s, sp_args = a, sp_attester = se_attester env\<rparr>"
proof -
  obtain sp s' p' where res: "res = (sp, s', p')" by (cases res)
  have ok: "rust_fields_ok (args_fields p s a)"
    using assms(2-5) by (simp add: rust_fields_ok_def args_fields_def)
  from assms(1) [unfolded res] show ?thesis
  proof (rule record_scan_Inr)
    fix i d k
    assume *: "se_prev env = Some (i, Some d)" "server_key_of r (sa_server_key_id a) = Some k"
      "parse_single_ed25519 d i = Inr (sk_pubkey k, build_scan_message (args_fields p s a))"
      "check_key_and_freshness k (sa_ts a) (se_now env) = Inr ()"
      "check_fields r (se_attester env) a = Inr ()" "sp = \<lparr>sp_seal = sl_uid_hash s, sp_args = a, sp_attester = se_attester env\<rparr>"
    let ?f = "args_fields p s a"
    have "rf_fill ?f \<le> 100" using check_fields_bounds [OF *(5)] by (simp add: args_fields_def)
    with ok have "sf_ok (ts_fields ?f)" by (rule ts_fields_ok)
    moreover have "wire_form (ts_fields ?f) = ts_fields ?f"
      by (simp add: wire_form_def ts_fields_def sf_ts_int_def wrap_sint)
    ultimately have "parseScanMessage (build_scan_message ?f) = Inr (ts_fields ?f)"
      using parse_message_of message_of_ts_fields [OF ok] by metis
    moreover have "is_valid_at k (sint (sa_ts a)) \<and> is_valid_at k (sint (se_now env)) \<and>
        \<bar>sint (sa_ts a) - sint (se_now env)\<bar> \<le> MAX_SCAN_TS_SKEW_S"
      using *(4) by (auto simp: check_key_and_freshness_def Let_def bindE_eq_Inr)
    moreover have "fst res = \<lparr>sp_seal = sl_uid_hash s, sp_args = a, sp_attester = se_attester env\<rparr>" using *(6) res by simp
    ultimately show ?thesis using * by blast
  qed
qed

theorem record_scan_signed_witness:
  "\<exists>k. server_key_of demo_registry 1 = Some k \<and> is_valid_at k 1000"
proof -
  have "length (pp_serial_hash demo_passport) = 32" "length (sl_uid_hash demo_seal) = 32"
    "length (sa_media_hash demo_args) = 32" "length (sa_nonce demo_args) = 32"
    by (simp_all add: demo_defs)
  from record_scan_signed [OF demo_scan this] show ?thesis
    by (auto simp: demo_args_def)
qed

text \<open>C12: the web's \<open>computeGrade\<close> is the grade the program stores. An accepted scan writes into the passport the grade
  \<open>computeGrade\<close> gives for that scan, except that a passport once C stays C unless the scan makes it VOID, and marks it
  void exactly when the grade is VOID. On every byte input, valid or not and of a living or dead seal, \<open>computeGrade\<close> is
  the program's grade rule.\<close>

theorem grade_agrees:
  assumes "record_scan r env p s a = Inr (sp, s', p')"
  shows "(let g = gr_grade (computeGrade (grade_input_of True (sl_dead s) (sa_tamper a) (sa_heat a) (sa_hum a) (sa_fill a)))
      in uint (pp_grade p') = (if pp_grade p = GRADE_C \<and> g \<noteq> 4 then 2 else g) \<and> (pp_void p' \<longleftrightarrow> g = 4)) \<and>
    gr_grade (computeGrade (grade_input_of valid dead tamper heat hum fill)) =
      uint (grade_with_flags valid dead tamper heat hum fill)"
  using assms
proof (rule record_scan_Inr)
  assume *: "\<not> sl_dead s" "\<not> is_voided p"
    "p' = p\<lparr>pp_scan_count := pp_scan_count p + 1,
       pp_grade := fst (passport_after_scan (pp_grade p) (pp_void p) (sa_tamper a) (sa_heat a) (sa_hum a) (sa_fill a)),
       pp_void := snd (passport_after_scan (pp_grade p) (pp_void p) (sa_tamper a) (sa_heat a) (sa_hum a) (sa_fill a))\<rparr>"
  have alive: "\<not> pp_void p" "pp_grade p \<noteq> GRADE_VOID" using *(2) by (auto simp: is_voided_def)
  let ?g = "gr_grade (computeGrade (grade_input_of True (sl_dead s) (sa_tamper a) (sa_heat a) (sa_hum a) (sa_fill a)))"
  have g: "uint (pp_grade p') = (if pp_grade p = GRADE_C \<and> ?g \<noteq> 4 then 2 else ?g)"
    using *(1) alive by (simp add: *(3) grade_after_scan Let_def)
  moreover have "pp_void p' \<longleftrightarrow> pp_grade p' = GRADE_VOID" using void_after_scan [OF alive(1)] by (simp add: *(3))
  then have "pp_void p' \<longleftrightarrow> uint (pp_grade p') = 4" by (simp add: word_uint_eq_iff)
  ultimately show ?thesis using grade_rules_agree by (auto simp: Let_def)
qed

theorem grade_agrees_witness:
  "gr_grade (computeGrade (grade_input_of True False 0 1 3 80)) = 2"
  using conjunct1 [OF grade_agrees [OF demo_scan, of True False 0 0 0 0]]
  by (simp add: demo_defs Let_def split: if_splits)

text \<open>C8: the history of scans. In every reachable state each stored proof belongs to a seal, has a
  positive counter not above the seal's last one and within 24 bits, a passport's \<open>scan_count\<close> is the
  number of proofs of its seals, and no step changes or removes a proof: the \<open>init_if_needed\<close> account
  of \<open>record_scan\<close> is only ever a new one.\<close>

theorem scan_history:
  assumes "flacon_reach w"
  shows "(\<forall>uh c sp. w_proofs w (uh, c) = Some sp \<longrightarrow>
      (\<exists>s. w_seals w uh = Some s \<and> 0 < c \<and> c \<le> sl_last_counter s \<and> sl_last_counter s \<le> MAX_COUNTER)) \<and>
    (\<forall>sh p. w_passports w sh = Some p \<longrightarrow> card (proof_of w sh) = unat (pp_scan_count p)) \<and>
    (\<forall>w'. flacon_step w w' \<longrightarrow> w_proofs w \<subseteq>\<^sub>m w_proofs w')"
  using world_okD(2,5,7) [OF flacon_reach_ok [OF assms]] proofs_grow [OF assms] by meson

theorem scan_history_witness:
  "card (proof_of scanned (replicate 32 3)) = 1 \<and>
   (\<exists>s. w_seals scanned (replicate 32 6) = Some s \<and> 5 \<le> sl_last_counter s)"
proof -
  note h = scan_history [OF scanned_reach]
  have "w_passports scanned (replicate 32 3) = Some (demo_passport\<lparr>pp_scan_count := 1, pp_grade := GRADE_C\<rparr>)"
    "w_proofs scanned (replicate 32 6, 5) \<noteq> None"
    by (simp_all add: scanned_def)
  then have "card (proof_of scanned (replicate 32 3)) = unat (1 :: 32 word)"
    and "\<exists>s. w_seals scanned (replicate 32 6) = Some s \<and> 5 \<le> sl_last_counter s"
    using h by (fastforce, blast)
  then show ?thesis by simp
qed

text \<open>C9: VOID and C are sticky. Whatever steps follow, a void passport stays void and accepts no
  further scan, a passport graded C is C or void, the issuer and the asset never change, and the scan
  count never falls.\<close>

theorem grades_sticky:
  assumes "flacon_step\<^sup>*\<^sup>* w w'" "w_passports w sh = Some p"
  shows "\<exists>q. w_passports w' sh = Some q \<and> pp_issuer q = pp_issuer p \<and> pp_asset q = pp_asset p \<and>
    (is_voided p \<longrightarrow> is_voided q \<and> pp_scan_count q = pp_scan_count p) \<and>
    (pp_grade p = GRADE_C \<longrightarrow> pp_grade q = GRADE_C \<or> is_voided q) \<and> pp_scan_count p \<le> pp_scan_count q"
  using flacon_steps_evolve [OF assms] unfolding evolves_def by blast

theorem grades_sticky_witness:
  "\<exists>q. w_passports scanned (replicate 32 3) = Some q \<and> pp_issuer q = replicate 32 1"
proof -
  have "w_passports sealed (replicate 32 3) = Some demo_passport" by (simp add: sealed_def)
  from grades_sticky [OF r_into_rtranclp [where r = flacon_step, OF scan_step] this] show ?thesis
    by (auto simp: demo_passport_def)
qed

end
