(* ===== verification/Escrow_Rules.thy ===== *)
theory Escrow_Rules
  imports FV_Text "HOL-Library.Signed_Division"
begin

text \<open>
  \<open>apps/web/src/lib/escrow-rules.ts\<close>: serial numbers and app paths, USDC amounts, the windows of an
  order, which scan may stand for a step and which actions the order page offers. Unix seconds and
  states are \<open>int\<close>, BigInt amounts are \<open>int\<close> with JavaScript's truncating division.
\<close>

section \<open>Constants\<close>

datatype order_state =
  LISTED | RESERVED | PRESHIP_SCANNED | SHIPPED | RECEIPT_SCANNED | RELEASED | MISMATCH | DISPUTE | CANCELLED

primrec OrderState :: "order_state \<Rightarrow> int" where
  "OrderState LISTED = 0" | "OrderState RESERVED = 1" | "OrderState PRESHIP_SCANNED = 2"
| "OrderState SHIPPED = 3" | "OrderState RECEIPT_SCANNED = 4" | "OrderState RELEASED = 5"
| "OrderState MISMATCH = 6" | "OrderState DISPUTE = 7" | "OrderState CANCELLED = 8"

definition MIN_DISPUTE_AFTER_S :: int where "MIN_DISPUTE_AFTER_S = 60 * 60"
definition MAX_DISPUTE_AFTER_S :: int where "MAX_DISPUTE_AFTER_S = 60 * 24 * 60 * 60"
definition SCAN_TS_SKEW_S :: int where "SCAN_TS_SKEW_S = 600"
definition MICRO :: int where "MICRO = 1000000"
definition U64_MAX :: int where "U64_MAX = 18446744073709551615"

text \<open>States are ordered by their codes.\<close>

instantiation order_state :: linorder
begin

definition less_eq_order_state :: "order_state \<Rightarrow> order_state \<Rightarrow> bool" where
  "s \<le> t \<longleftrightarrow> OrderState s \<le> OrderState t"

definition less_order_state :: "order_state \<Rightarrow> order_state \<Rightarrow> bool" where
  "s < t \<longleftrightarrow> OrderState s < OrderState t"

lemma OrderState_inject [simp]: "OrderState s = OrderState t \<longleftrightarrow> s = t"
  by (cases s; cases t) simp_all

instance
  by standard (auto simp: less_eq_order_state_def less_order_state_def)

end

section \<open>Serials and paths\<close>

definition serial_char :: "char \<Rightarrow> bool" where
  "serial_char c \<longleftrightarrow> is_alnum c \<or> c = CHR ''.'' \<or> c = CHR ''_'' \<or> c = CHR ''-''"

definition isValidSerial :: "string \<Rightarrow> bool" where
  "isValidSerial s \<longleftrightarrow> s \<noteq> [] \<and> is_alnum (hd s) \<and> list_all serial_char (tl s) \<and>
     2 \<le> length (tl s) \<and> length (tl s) \<le> 63"

definition normalizeSerial :: "string \<Rightarrow> string" where
  "normalizeSerial s = js_trim s"

definition uri_unreserved :: "char \<Rightarrow> bool" where
  "uri_unreserved c \<longleftrightarrow> is_alnum c \<or> c \<in> set ''-_.!~*()'' \<or> code c = 39"

definition hex_upper :: "nat \<Rightarrow> char" where
  "hex_upper n = (if n < 10 then char_of (48 + n) else char_of (55 + n))"

definition percent :: "char \<Rightarrow> string" where
  "percent c = [CHR 0x25, hex_upper (code c div 16), hex_upper (code c mod 16)]"

definition encodeURIComponent :: "string \<Rightarrow> string" where
  "encodeURIComponent s = concat (map (\<lambda>c. if uri_unreserved c then [c] else percent c) s)"

definition passportPath :: "string \<Rightarrow> string" where
  "passportPath serial = ''/p/'' @ encodeURIComponent serial"

definition marketPassportPath :: "string \<Rightarrow> string" where
  "marketPassportPath serial = ''/market/'' @ encodeURIComponent serial"

definition orderPath :: "string \<Rightarrow> string" where
  "orderPath orderPda = ''/market/o/'' @ encodeURIComponent orderPda"

definition coreAssetUri :: "string \<Rightarrow> string \<Rightarrow> string" where
  "coreAssetUri verifyUrl serial =
     strip_end (CHR ''/'') verifyUrl @ ''/api/passport/'' @ encodeURIComponent serial @ ''/metadata.json''"

section \<open>Amounts\<close>

text \<open>The groups of \<open>/^(\d{1,13})(?:\.(\d{1,6}))?$/\<close>: whole part and, when present, decimals.\<close>

definition price_match :: "string \<Rightarrow> (string \<times> string option) option" where
  "price_match t =
    (let w = takeWhile is_digit t; r = dropWhile is_digit t
     in if \<not> (1 \<le> length w \<and> length w \<le> 13) then None
        else case r of
          [] \<Rightarrow> Some (w, None)
        | c # f \<Rightarrow> if c = CHR ''.'' \<and> 1 \<le> length f \<and> length f \<le> 6 \<and> list_all is_digit f
                   then Some (w, Some f) else None)"

definition parsePriceUsdc :: "string \<Rightarrow> int option" where
  "parsePriceUsdc input =
    (case price_match (js_trim input) of
       None \<Rightarrow> None
     | Some (m1, m2) \<Rightarrow>
         let base = int (read_nat m1) * MICRO +
                    int (read_nat (pad_end 6 (CHR ''0'') (case m2 of None \<Rightarrow> [] | Some f \<Rightarrow> f)))
         in if base \<le> 0 \<or> U64_MAX < base then None else Some base)"

definition formatUsdc :: "int \<Rightarrow> string" where
  "formatUsdc base =
    (let whole = base sdiv MICRO; frac = base smod MICRO
     in if frac = 0 then show_int whole
        else show_int whole @ ''.'' @ strip_end (CHR ''0'') (pad_start 6 (CHR ''0'') (show_int frac)))"

section \<open>Windows and scans\<close>

definition effectiveWindow :: "int \<Rightarrow> int" where
  "effectiveWindow disputeAfterS = min (max disputeAfterS MIN_DISPUTE_AFTER_S) MAX_DISPUTE_AFTER_S"

definition isTerminal :: "int \<Rightarrow> bool" where
  "isTerminal state \<longleftrightarrow> state = OrderState RELEASED \<or> state = OrderState DISPUTE \<or> state = OrderState CANCELLED"

record order_like =
  ol_state :: int
  ol_reservedAt :: int
  ol_shippedAt :: int
  ol_disputeAfterS :: int
  ol_assetDeposited :: bool

record viewer =
  vw_isSeller :: bool
  vw_isBuyer :: bool
  vw_isAdmin :: bool
  vw_sealDead :: bool

definition shipDeadline :: "order_like \<Rightarrow> int" where
  "shipDeadline o' = ol_reservedAt o' + effectiveWindow (ol_disputeAfterS o')"

definition receiptDeadline :: "order_like \<Rightarrow> int" where
  "receiptDeadline o' = ol_shippedAt o' + effectiveWindow (ol_disputeAfterS o')"

datatype escrow_action =
    A_reserve | A_cancel | A_preShip | A_ship | A_receipt | A_release
  | A_refundNotShipped | A_releaseAfterTimeout | A_disputeSealDead | A_adminRefund | A_resolve | A_close

datatype order_scan_step = PreShip | Receipt

definition scanFitsStep :: "order_like \<Rightarrow> order_scan_step \<Rightarrow> int \<Rightarrow> bool" where
  "scanFitsStep o' stp scanTs =
    (let stepAt = (case stp of PreShip \<Rightarrow> ol_reservedAt o' | Receipt \<Rightarrow> ol_shippedAt o')
     in scanTs \<ge> stepAt - SCAN_TS_SKEW_S)"

text \<open>An indicator of a scan bundle is \<open>unknown\<close>: a number, or anything else (\<open>None\<close>).\<close>

definition indicatorProblem :: "string \<Rightarrow> js_num option \<Rightarrow> string option" where
  "indicatorProblem name v =
    (if v = Some (jn 0) \<or> v = Some (jn 1) then None
     else if v = Some (jn 2) then Some (name @ '' unreadable'')
     else Some (name @ '' not read''))"

fun join :: "string \<Rightarrow> string list \<Rightarrow> string" where
  "join sep [] = []"
| "join sep [s] = s"
| "join sep (s # t # ss) = s @ sep @ join sep (t # ss)"

definition scanUsableForOrder :: "(js_num option \<times> js_num option) option \<Rightarrow> string + unit" where
  "scanUsableForOrder indicators =
    (let heat = Option.bind indicators fst; humidity = Option.bind indicators snd;
         problems = List.map_filter id [indicatorProblem ''heat'' heat, indicatorProblem ''humidity'' humidity]
     in if problems \<noteq> [] then Inl (join '', '' problems) else Inr ())"

record step_scan =
  ss_key :: string
  ss_ts :: int
  ss_unusable :: "string option"

record 'a scan_choice =
  sc_offered :: "'a list"
  sc_chosen :: "'a option"
  sc_olderHidden :: int
  sc_undecided :: int

definition stepScanChoice ::
  "order_like option \<Rightarrow> order_scan_step option \<Rightarrow> 'x step_scan_scheme list \<Rightarrow> string \<Rightarrow> 'x step_scan_scheme scan_choice" where
  "stepScanChoice o' stp scans choice =
    (let offered = (case (o', stp) of (Some ord, Some st) \<Rightarrow> filter (\<lambda>s. scanFitsStep ord st (ss_ts s)) scans | _ \<Rightarrow> []);
         usable = filter (\<lambda>s. ss_unusable s = None) offered
     in \<lparr>sc_offered = offered,
         sc_chosen = (case List.find (\<lambda>s. ss_key s = choice) usable of
                        Some s \<Rightarrow> Some s
                      | None \<Rightarrow> (case usable of [] \<Rightarrow> None | u # _ \<Rightarrow> Some u)),
         sc_olderHidden = int (length scans) - int (length offered),
         sc_undecided = int (length offered) - int (length usable)\<rparr>)"

datatype admin_reason = NotReceived | SealDeadReason

definition buyerNeedsAdmin :: "order_like \<Rightarrow> viewer \<Rightarrow> (admin_reason \<times> int) option" where
  "buyerNeedsAdmin o' v =
    (if ol_state o' \<noteq> OrderState SHIPPED \<or> \<not> vw_isBuyer v then None
     else Some (if vw_sealDead v then SealDeadReason else NotReceived, receiptDeadline o'))"

definition push_if :: "bool \<Rightarrow> 'a \<Rightarrow> 'a list \<Rightarrow> 'a list" where
  "push_if b x xs = (if b then xs @ [x] else xs)"

definition availableActions :: "order_like \<Rightarrow> viewer \<Rightarrow> int \<Rightarrow> escrow_action list" where
  "availableActions o' v now =
    (let preShipping = (ol_state o' = OrderState RESERVED \<or> ol_state o' = OrderState PRESHIP_SCANNED);
         refundable = (preShipping \<or> ol_state o' = OrderState SHIPPED);
         a = [];
         a = push_if (ol_state o' = OrderState LISTED) (if vw_isSeller v then A_cancel else A_reserve) a;
         a = push_if (ol_state o' = OrderState RESERVED \<and> vw_isSeller v) A_preShip a;
         a = push_if (ol_state o' = OrderState PRESHIP_SCANNED \<and> vw_isSeller v) A_ship a;
         a = push_if (ol_state o' = OrderState SHIPPED \<and> vw_isBuyer v) A_receipt a;
         a = push_if (ol_state o' = OrderState RECEIPT_SCANNED) A_release a;
         a = push_if (preShipping \<and> vw_isBuyer v \<and> now > shipDeadline o') A_refundNotShipped a;
         a = push_if (ol_state o' = OrderState SHIPPED \<and> now > receiptDeadline o') A_releaseAfterTimeout a;
         a = push_if (preShipping \<and> vw_isBuyer v \<and> vw_sealDead v) A_disputeSealDead a;
         a = push_if (refundable \<and> vw_isAdmin v) A_adminRefund a;
         a = push_if (ol_state o' = OrderState MISMATCH \<and> vw_isAdmin v) A_resolve a
     in push_if (isTerminal (ol_state o') \<and> vw_isSeller v) A_close a)"

section \<open>Lemmas\<close>

lemma set_push_if [simp]: "set (push_if b x xs) = set xs \<union> (if b then {x} else {})"
  by (simp add: push_if_def)

lemma effectiveWindow_range: "MIN_DISPUTE_AFTER_S \<le> effectiveWindow d \<and> effectiveWindow d \<le> MAX_DISPUTE_AFTER_S"
  by (simp add: effectiveWindow_def MIN_DISPUTE_AFTER_S_def MAX_DISPUTE_AFTER_S_def)

lemma effectiveWindow_id: "MIN_DISPUTE_AFTER_S \<le> d \<Longrightarrow> d \<le> MAX_DISPUTE_AFTER_S \<Longrightarrow> effectiveWindow d = d"
  by (simp add: effectiveWindow_def)

lemma hex_upper_code: "n < 16 \<Longrightarrow> code (hex_upper n) = (if n < 10 then 48 + n else 55 + n)"
  by (simp add: hex_upper_def code_char_of)

lemma valid_serial_plain: "isValidSerial s \<Longrightarrow> encodeURIComponent s = s"
proof -
  have id: "concat (map (\<lambda>c. if uri_unreserved c then [c] else percent c) t) = t"
    if "list_all serial_char t" for t
    using that by (induction t) (auto simp: serial_char_def uri_unreserved_def)
  assume "isValidSerial s"
  then have "list_all serial_char s"
    by (cases s) (auto simp: isValidSerial_def serial_char_def)
  then show ?thesis by (simp add: encodeURIComponent_def id)
qed

text \<open>Stripping and padding back.\<close>

lemma strip_end_append: "strip_end c s @ replicate (length s - length (strip_end c s)) c = s"
proof -
  let ?r = "rev s"
  have "takeWhile (\<lambda>x. x = c) ?r = replicate (length (takeWhile (\<lambda>x. x = c) ?r)) c"
    by (metis (full_types) replicate_eqI set_takeWhileD)
  moreover have "rev (dropWhile (\<lambda>x. x = c) ?r) @ rev (takeWhile (\<lambda>x. x = c) ?r) = s"
    by (metis rev_append rev_rev_ident takeWhile_dropWhile_id)
  moreover have "length (takeWhile (\<lambda>x. x = c) ?r) = length s - length (dropWhile (\<lambda>x. x = c) ?r)"
    by (metis add_diff_cancel_right' length_append length_rev takeWhile_dropWhile_id)
  ultimately show ?thesis by (metis strip_end_def length_rev rev_replicate)
qed

lemma pad_end_strip_end: "length s = n \<Longrightarrow> pad_end n c (strip_end c s) = s"
  using strip_end_append [of c s] by (simp add: pad_end_def)

lemma strip_end_length: "length (strip_end c s) \<le> length s"
  using length_dropWhile_le [of _ "rev s"] by (simp add: strip_end_def)

lemma strip_end_Nil: "strip_end c s = [] \<longleftrightarrow> (\<forall>x \<in> set s. x = c)"
  by (auto simp: strip_end_def dropWhile_eq_Nil_conv)

lemma strip_end_set: "set (strip_end c s) \<subseteq> set s"
  by (auto simp: strip_end_def dest: set_dropWhileD)

lemma takeWhile_digits:
  assumes "list_all is_digit w" "\<not> is_digit c"
  shows "takeWhile is_digit (w @ c # f) = w" "dropWhile is_digit (w @ c # f) = c # f"
  using assms by (induction w) auto

lemma digits_only:
  assumes "list_all is_digit w"
  shows "takeWhile is_digit w = w" "dropWhile is_digit w = []"
  using assms by (induction w) auto

lemma price_match_whole:
  "list_all is_digit w \<Longrightarrow> price_match w = (if 1 \<le> length w \<and> length w \<le> 13 then Some (w, None) else None)"
  by (simp add: price_match_def digits_only)

lemma price_match_decimals:
  assumes "list_all is_digit w" "list_all is_digit f" "1 \<le> length f" "length f \<le> 6"
  shows "price_match (w @ ''.'' @ f) = (if 1 \<le> length w \<and> length w \<le> 13 then Some (w, Some f) else None)"
proof -
  have "\<not> is_digit (CHR ''.'')" by (simp add: is_digit_def code_def)
  then show ?thesis using assms takeWhile_digits [OF assms(1), of "CHR ''.''" f]
    by (simp add: price_match_def)
qed

lemma show_nat_length_gt: "10 ^ k \<le> n \<Longrightarrow> k < length (show_nat n)"
proof (rule ccontr)
  assume n: "10 ^ k \<le> n" and "\<not> k < length (show_nat n)"
  then have "(10 :: nat) ^ length (show_nat n) \<le> 10 ^ k" by (simp add: power_increasing)
  moreover have "n < 10 ^ length (show_nat n)" using read_nat_bound [OF show_nat_digits, of n] by simp
  ultimately show False using n by linarith
qed

lemma show_nat_13: "1 \<le> length (show_nat n) \<and> length (show_nat n) \<le> 13 \<longleftrightarrow> n < 10 ^ 13"
  using show_nat_length [of n 13] show_nat_length_gt [of 13 n] show_nat_nonempty [of n]
  by (cases "n < 10 ^ 13") (auto simp: Suc_le_eq)

lemma pad_start_digits:
  "list_all is_digit s \<Longrightarrow> list_all is_digit (pad_start n (CHR ''0'') s)"
  by (auto simp: pad_start_def list_all_iff is_digit_def code_def)

lemma read_pad_start: "read_nat (pad_start n (CHR ''0'') s) = read_nat s"
  by (simp add: pad_start_def read_nat_append)

text \<open>The text of a positive amount, split at the point.\<close>

lemma formatUsdc_nat:
  fixes b :: nat
  defines "w \<equiv> show_nat (b div 1000000)"
  defines "f \<equiv> strip_end (CHR ''0'') (pad_start 6 (CHR ''0'') (show_nat (b mod 1000000)))"
  shows "formatUsdc (int b) = (if b mod 1000000 = 0 then w else w @ ''.'' @ f)"
    and "list_all is_digit f" "length f \<le> 6"
    and "b mod 1000000 \<noteq> 0 \<Longrightarrow> 1 \<le> length f"
    and "b mod 1000000 \<noteq> 0 \<Longrightarrow> read_nat (pad_end 6 (CHR ''0'') f) = b mod 1000000"
proof -
  let ?p = "pad_start 6 (CHR ''0'') (show_nat (b mod 1000000))"
  have len: "length ?p = 6"
    using show_nat_length [of "b mod 1000000" 6] by (simp add: pad_start_def)
  have dig: "list_all is_digit ?p" by (rule pad_start_digits [OF show_nat_digits])
  have "int b sdiv MICRO = int (b div 1000000)" "int b smod MICRO = int (b mod 1000000)"
    by (simp_all add: MICRO_def signed_divide_int_def signed_modulo_int_def sgn_if zdiv_int zmod_int)
  then show "formatUsdc (int b) = (if b mod 1000000 = 0 then w else w @ ''.'' @ f)"
    by (simp add: formatUsdc_def w_def f_def show_int_def flip: of_nat_eq_0_iff)
  show "list_all is_digit f" using dig strip_end_set [of "CHR ''0''" ?p] by (auto simp: f_def list_all_iff)
  show "length f \<le> 6" using strip_end_length [of "CHR ''0''" ?p] len by (simp add: f_def)
  show r: "read_nat (pad_end 6 (CHR ''0'') f) = b mod 1000000"
    using pad_end_strip_end [OF len, of "CHR ''0''"] by (simp add: f_def read_pad_start)
  show "1 \<le> length f" if "b mod 1000000 \<noteq> 0"
  proof (rule ccontr)
    assume "\<not> 1 \<le> length f"
    then have "f = []" by (cases f) auto
    with r that show False by (simp add: pad_end_def)
  qed
qed

lemma format_graph:
  "formatUsdc (int b) \<noteq> []" "js_trim (formatUsdc (int b)) = formatUsdc (int b)"
proof -
  let ?w = "show_nat (b div 1000000)"
  let ?f = "strip_end (CHR ''0'') (pad_start 6 (CHR ''0'') (show_nat (b mod 1000000)))"
  note fn = formatUsdc_nat [of b]
  show ne: "formatUsdc (int b) \<noteq> []" by (simp add: fn(1))
  have "is_digit (hd (formatUsdc (int b)))"
    using show_nat_digits [of "b div 1000000"] by (cases ?w) (auto simp: fn(1))
  moreover have "is_digit (last (formatUsdc (int b)))"
    using show_nat_digits [of "b div 1000000"] fn(2,4)
    by (cases "b mod 1000000 = 0") (auto simp: fn(1) list_all_iff)
  ultimately show "js_trim (formatUsdc (int b)) = formatUsdc (int b)"
    using ne by (intro js_trim_graph) (auto dest: digit_is_graph)
qed

lemma parse_format:
  "parsePriceUsdc (formatUsdc (int b)) = (if 0 < b \<and> b < 10 ^ 19 then Some (int b) else None)"
proof -
  let ?w = "show_nat (b div 1000000)"
  let ?f = "strip_end (CHR ''0'') (pad_start 6 (CHR ''0'') (show_nat (b mod 1000000)))"
  note fn = formatUsdc_nat [of b]
  have w: "list_all is_digit ?w" by (rule show_nat_digits)
  have lim: "b div 1000000 < 10 ^ 13 \<longleftrightarrow> b < 10 ^ 19"
    by (simp add: div_less_iff_less_mult)
  have val: "int (b div 1000000) * MICRO + int (b mod 1000000) = int b"
    unfolding MICRO_def by (metis div_mult_mod_eq of_nat_add of_nat_mult of_nat_numeral)
  have rng: "b < 10 ^ 19 \<Longrightarrow> int b \<le> U64_MAX" by (simp add: U64_MAX_def)
  show ?thesis
  proof (cases "b mod 1000000 = 0")
    case True
    have "price_match (js_trim (formatUsdc (int b))) = (if b < 10 ^ 19 then Some (?w, None) else None)"
      unfolding format_graph(2) unfolding fn(1) if_P [OF True] price_match_whole [OF w] show_nat_13 lim ..
    moreover have "read_nat (pad_end 6 (CHR ''0'') []) = 0" by (simp add: pad_end_def)
    ultimately show ?thesis
      using val True rng by (auto simp: parsePriceUsdc_def Let_def)
  next
    case False
    have "price_match (js_trim (formatUsdc (int b))) = (if b < 10 ^ 19 then Some (?w, Some ?f) else None)"
      unfolding format_graph(2) unfolding fn(1) if_not_P [OF False] price_match_decimals [OF w fn(2) fn(4) [OF False] fn(3)]
        show_nat_13 lim ..
    then show ?thesis
      using val False rng fn(5) [OF False] by (auto simp: parsePriceUsdc_def Let_def)
  qed
qed

lemma price_match_Some:
  assumes "price_match t = Some (w, m)"
  shows "list_all is_digit w" "1 \<le> length w" "length w \<le> 13"
    "\<And>f. m = Some f \<Longrightarrow> list_all is_digit f \<and> 1 \<le> length f \<and> length f \<le> 6"
  using assms by (auto simp: price_match_def Let_def list_all_iff dest: set_takeWhileD split: if_splits list.splits)

lemma parse_range:
  assumes "parsePriceUsdc t = Some b"
  shows "0 < b" "b < 10 ^ 19"
proof -
  from assms obtain w m where m: "price_match (js_trim t) = Some (w, m)"
    and b: "b = int (read_nat w) * MICRO + int (read_nat (pad_end 6 (CHR ''0'') (case m of None \<Rightarrow> [] | Some f \<Rightarrow> f)))"
    and "0 < b"
    by (auto simp: parsePriceUsdc_def Let_def split: option.splits prod.splits if_splits)
  let ?d = "pad_end 6 (CHR ''0'') (case m of None \<Rightarrow> [] | Some f \<Rightarrow> f)"
  have "list_all is_digit ?d" "length ?d = 6"
    using price_match_Some(4) [OF m]
    by (auto simp: pad_end_def list_all_iff is_digit_def code_def split: option.splits)
  then have "read_nat ?d < 10 ^ 6" by (metis read_nat_bound)
  moreover have "read_nat w < 10 ^ length w" using price_match_Some(1) [OF m] by (rule read_nat_bound)
  then have "read_nat w < 10 ^ 13"
    using price_match_Some(3) [OF m] by (meson less_le_trans one_le_numeral power_increasing)
  ultimately have "int (read_nat w) \<le> 10 ^ 13 - 1" "int (read_nat ?d) \<le> 10 ^ 6 - 1" by simp_all
  then show "b < 10 ^ 19" using b by (simp add: MICRO_def)
  show "0 < b" by fact
qed

section \<open>Properties\<close>

text \<open>USDC amounts. Printing a u64 amount and parsing it back gives the amount, as long as it is
  below 10^19 base units; \<open>parsePriceUsdc\<close> accepts only amounts from 1 to 10^19 - 1. Its 13-digit
  limit therefore makes the u64 test dead, and amounts from 10^19 up to u64 are refused although
  they fit.\<close>

theorem price_roundtrip:
  "parsePriceUsdc (formatUsdc (int b)) = (if 0 < b \<and> b < 10 ^ 19 then Some (int b) else None) \<and>
   (case parsePriceUsdc t of
      Some c \<Rightarrow> 0 < c \<and> c < 10 ^ 19 \<and> c \<le> U64_MAX \<and> parsePriceUsdc (formatUsdc c) = Some c
    | None \<Rightarrow> True)"
proof -
  have "0 < c \<and> c < 10 ^ 19 \<and> c \<le> U64_MAX \<and> parsePriceUsdc (formatUsdc c) = Some c" if "parsePriceUsdc t = Some c" for c
    using parse_range [OF that] parse_format [of "nat c"] by (simp add: U64_MAX_def nat_less_iff)
  then show ?thesis using parse_format [of b] by (auto split: option.splits)
qed

text \<open>The scans offered for a step. \<open>stepScanChoice\<close> offers exactly the scans that are not older than
  the step, in their order; it only ever chooses an offered scan whose indicators are decided, keeps
  the user's pick when that is such a scan, chooses one whenever there is one, and its two counters
  with the selectable scans add up to the wallet's scans.\<close>

theorem step_scan_choice:
  fixes scans :: "'x step_scan_scheme list" and o' :: order_like and st :: order_scan_step and choice :: string
  defines "r \<equiv> stepScanChoice (Some o') (Some st) scans choice"
  shows "set (sc_offered r) = {s \<in> set scans. scanFitsStep o' st (ss_ts s)} \<and>
    (case sc_chosen r of
       Some s \<Rightarrow> s \<in> set scans \<and> scanFitsStep o' st (ss_ts s) \<and> ss_unusable s = None \<and>
         ((\<exists>u \<in> set (sc_offered r). ss_unusable u = None \<and> ss_key u = choice) \<longrightarrow> ss_key s = choice)
     | None \<Rightarrow> \<forall>s \<in> set (sc_offered r). ss_unusable s \<noteq> None) \<and>
    sc_olderHidden r + sc_undecided r + int (length (filter (\<lambda>s. ss_unusable s = None) (sc_offered r))) = int (length scans) \<and>
    0 \<le> sc_olderHidden r \<and> 0 \<le> sc_undecided r"
proof -
  define off where "off = filter (\<lambda>s. scanFitsStep o' st (ss_ts s)) scans"
  define us where "us = filter (\<lambda>s. ss_unusable s = None) off"
  have r: "sc_offered r = off" "sc_olderHidden r = int (length scans) - int (length off)"
    "sc_undecided r = int (length off) - int (length us)"
    "sc_chosen r = (case List.find (\<lambda>s. ss_key s = choice) us of Some s \<Rightarrow> Some s
      | None \<Rightarrow> (case us of [] \<Rightarrow> None | u # _ \<Rightarrow> Some u))"
    unfolding r_def stepScanChoice_def Let_def off_def us_def prod.case option.case by (simp_all only: scan_choice.select_convs)
  have len: "length off \<le> length scans" "length us \<le> length off"
    unfolding off_def us_def by (rule length_filter_le)+
  have off_set: "set off = {s \<in> set scans. scanFitsStep o' st (ss_ts s)}"
    by (simp add: off_def)
  have us_set: "s \<in> set us \<longleftrightarrow> s \<in> set off \<and> ss_unusable s = None" for s
    by (auto simp: us_def)
  have chosen: "case sc_chosen r of
       Some s \<Rightarrow> s \<in> set us \<and> ((\<exists>u \<in> set us. ss_key u = choice) \<longrightarrow> ss_key s = choice)
     | None \<Rightarrow> us = []"
  proof (cases "List.find (\<lambda>s. ss_key s = choice) us")
    case None
    then have no: "\<not> (\<exists>u \<in> set us. ss_key u = choice)" using None unfolding find_None_iff by blast
    show ?thesis
      unfolding r(4) None option.case by (cases us) (use no in simp_all)
  next
    case (Some s)
    then have "s \<in> set us \<and> ss_key s = choice" by (rule find_Some_iff2)
    then show ?thesis unfolding r(4) Some option.case by blast
  qed
  have sums: "sc_olderHidden r + sc_undecided r + int (length us) = int (length scans)"
    "0 \<le> sc_olderHidden r" "0 \<le> sc_undecided r"
    using len unfolding r(2,3) by linarith+
  have fin: "case sc_chosen r of
       Some s \<Rightarrow> s \<in> set scans \<and> scanFitsStep o' st (ss_ts s) \<and> ss_unusable s = None \<and>
         ((\<exists>u \<in> set off. ss_unusable u = None \<and> ss_key u = choice) \<longrightarrow> ss_key s = choice)
     | None \<Rightarrow> \<forall>s \<in> set off. ss_unusable s \<noteq> None"
  proof (cases "sc_chosen r")
    case None
    then have "us = []" using chosen by simp
    then have "\<forall>s. \<not> (s \<in> set off \<and> ss_unusable s = None)" using us_set by simp
    then show ?thesis unfolding None option.case by simp
  next
    case (Some s)
    have s: "s \<in> set us" "(\<exists>u \<in> set us. ss_key u = choice) \<longrightarrow> ss_key s = choice"
      using chosen unfolding Some option.case by (rule conjunct1, rule conjunct2)
    have "s \<in> set off" "ss_unusable s = None" using s(1) unfolding us_set by (rule conjunct1, rule conjunct2)
    moreover from this(1) have "s \<in> set scans" "scanFitsStep o' st (ss_ts s)" unfolding off_set by simp_all
    moreover have "(\<exists>u \<in> set off. ss_unusable u = None \<and> ss_key u = choice) \<longrightarrow> ss_key s = choice"
      using s(2) us_set by (metis (no_types))
    ultimately show ?thesis unfolding Some option.case by (intro conjI)
  qed
  show ?thesis
    unfolding r(1) us_def [symmetric] by (intro conjI off_set fin sums)
qed

definition sample_order :: order_like where
  "sample_order = \<lparr>ol_state = 1, ol_reservedAt = 1000, ol_shippedAt = 0, ol_disputeAfterS = 604800, ol_assetDeposited = False\<rparr>"

definition sample_scan :: step_scan where
  "sample_scan = \<lparr>ss_key = ''b'', ss_ts = 399, ss_unusable = None\<rparr>"

theorem step_scan_choice_witness:
  "sc_offered (stepScanChoice (Some sample_order) (Some PreShip) [sample_scan] ''b'') = []"
proof -
  have "\<not> scanFitsStep sample_order PreShip (ss_ts sample_scan)"
    by (simp add: scanFitsStep_def sample_order_def sample_scan_def SCAN_TS_SKEW_S_def)
  then have "set (sc_offered (stepScanChoice (Some sample_order) (Some PreShip) [sample_scan] ''b'')) = {}"
    using conjunct1 [OF step_scan_choice [of sample_order PreShip "[sample_scan]" "''b''"]] by auto
  then show ?thesis by simp
qed

end
