(* ===== verification/Escrow_Program.thy ===== *)
theory Escrow_Program
  imports Escrow_Rules Program_Flacon
begin

text \<open>
  The Anchor program \<open>programs/escrow\<close> as the web app's rules see it: \<open>rules.rs\<close>, the \<open>Order\<close>
  account and every handler of \<open>list.rs\<close>, \<open>reserve.rs\<close>, \<open>scans.rs\<close> and \<open>settle.rs\<close>, over one Order
  address with its USDC vault, the token balances and the owner of the Core asset. \<open>i64\<close> times are
  \<open>int\<close> with the checked and saturating operations written out. The SPL token program and Metaplex
  Core are represented by what the handlers rely on: a transfer moves an amount the source holds, a
  Core transfer needs the current owner's authority.
\<close>

section \<open>Errors and accounts\<close>

datatype escrow_error =
    InvalidState | InvalidPrice | InvalidDisputeWindow | PassportVoid | NotSeller | NotBuyer
  | SellerCannotBuy | Unauthorized | WrongMint | ScanSealMismatch | SealPassportMismatch
  | ScanAttesterMismatch | SellerScanMismatch | ReceiptScanNotNewer | DisputeWindowNotElapsed
  | SealNotDead | AssetMismatch | AssetAlreadyDeposited | MissingAssetAccounts | InvalidCoreProgram
  | InvalidAsset | MathOverflow | PriceChanged | NotPassportOwner | ReceiptMatched | WrongTokenOwner
  | ScanBeforeOrderStep | DeadSealAfterShipping

datatype escrow_fail = Escrow escrow_error | TokenFailed | CoreFailed | AccountFailed

definition FILL_TOLERANCE :: nat where "FILL_TOLERANCE = 5"

definition I64_MAX :: int where "I64_MAX = 2 ^ 63 - 1"
definition I64_MIN :: int where "I64_MIN = - (2 ^ 63)"

definition default_pubkey :: pubkey where "default_pubkey = replicate 32 0"

record order_acc =
  od_passport :: pubkey
  od_seller :: pubkey
  od_buyer :: pubkey
  od_asset :: pubkey
  od_price :: nat
  od_state :: order_state
  od_listed_at :: int
  od_reserved_at :: int
  od_shipped_at :: int
  od_seller_scan :: pubkey
  od_buyer_scan :: pubkey
  od_dispute_after_s :: int
  od_asset_deposited :: bool

definition is_funded :: "order_state \<Rightarrow> bool" where
  "is_funded s \<longleftrightarrow> s \<in> {RESERVED, PRESHIP_SCANNED, SHIPPED, RECEIPT_SCANNED, MISMATCH}"

definition is_terminal :: "order_state \<Rightarrow> bool" where
  "is_terminal s \<longleftrightarrow> s \<in> {RELEASED, DISPUTE, CANCELLED}"

record escrow_config =
  cf_admin :: pubkey
  cf_usdc_mint :: pubkey
  cf_dispute_after_s :: int

section \<open>Rules\<close>

definition effective_window :: "int \<Rightarrow> int" where
  "effective_window d = (if d < MIN_DISPUTE_AFTER_S then MIN_DISPUTE_AFTER_S
     else if MAX_DISPUTE_AFTER_S < d then MAX_DISPUTE_AFTER_S else d)"

definition check_window :: "int \<Rightarrow> escrow_error + unit" where
  "check_window d = guardE (MIN_DISPUTE_AFTER_S \<le> d \<and> d \<le> MAX_DISPUTE_AFTER_S) InvalidDisputeWindow"

definition elapsed :: "int \<Rightarrow> int \<Rightarrow> int \<Rightarrow> escrow_error + bool" where
  "elapsed start d now =
    (let deadline = start + effective_window d
     in if deadline < I64_MIN \<or> I64_MAX < deadline then Inl MathOverflow else Inr (now > deadline))"

definition admin_may_refund :: "order_state \<Rightarrow> bool" where
  "admin_may_refund s \<longleftrightarrow> s \<in> {RESERVED, PRESHIP_SCANNED, SHIPPED}"

datatype dispute_reason = REASON_ADMIN | REASON_TIMEOUT | REASON_SEAL_DEAD | REASON_MISMATCH

definition buyer_dispute_reason ::
  "order_state \<Rightarrow> bool option \<Rightarrow> int \<Rightarrow> int \<Rightarrow> int \<Rightarrow> escrow_error + dispute_reason" where
  "buyer_dispute_reason st seal_dead reserved_at d now =
    (if st = RECEIPT_SCANNED then Inl ReceiptMatched
     else case seal_dead of
       Some dead \<Rightarrow>
         bindE (guardE dead SealNotDead) (\<lambda>_.
         bindE (guardE (st \<noteq> SHIPPED) DeadSealAfterShipping) (\<lambda>_.
         bindE (guardE (st = RESERVED \<or> st = PRESHIP_SCANNED) InvalidState) (\<lambda>_. Inr REASON_SEAL_DEAD)))
     | None \<Rightarrow>
         bindE (guardE (st = RESERVED \<or> st = PRESHIP_SCANNED) InvalidState) (\<lambda>_.
         bindE (elapsed reserved_at d now) (\<lambda>e.
         bindE (guardE e DisputeWindowNotElapsed) (\<lambda>_. Inr REASON_TIMEOUT))))"

definition check_release_after_timeout :: "order_state \<Rightarrow> int \<Rightarrow> int \<Rightarrow> int \<Rightarrow> escrow_error + unit" where
  "check_release_after_timeout st shipped_at d now =
    bindE (guardE (st = SHIPPED) InvalidState) (\<lambda>_.
    bindE (elapsed shipped_at d now) (\<lambda>e. guardE e DisputeWindowNotElapsed))"

definition check_seller :: "pubkey \<Rightarrow> pubkey \<Rightarrow> pubkey option \<Rightarrow> bool \<Rightarrow> escrow_error + unit" where
  "check_seller seller issuer asset_owner issuer_active =
    guardE (case asset_owner of Some owner \<Rightarrow> owner = seller | None \<Rightarrow> issuer = seller \<and> issuer_active)
      NotPassportOwner"

definition check_scan_not_before :: "int \<Rightarrow> int \<Rightarrow> escrow_error + unit" where
  "check_scan_not_before scan_ts step_at =
    (let earliest = max I64_MIN (step_at - MAX_SCAN_TS_SKEW_S)
     in guardE (scan_ts \<ge> earliest) ScanBeforeOrderStep)"

section \<open>One order and its money\<close>

record market =
  mk_order :: "order_acc option"
  mk_vault :: "nat option"
  mk_usdc :: "pubkey \<Rightarrow> nat"
  mk_asset_owner :: "pubkey option"
  mk_in_collection :: bool

definition errE :: "escrow_error + 'a \<Rightarrow> escrow_fail + 'a" where
  "errE r = (case r of Inl e \<Rightarrow> Inl (Escrow e) | Inr x \<Rightarrow> Inr x)"

definition need :: "bool \<Rightarrow> escrow_error \<Rightarrow> escrow_fail + unit" where
  "need b e = guardE b (Escrow e)"

definition with_order :: "market \<Rightarrow> (order_acc \<Rightarrow> escrow_fail + 'a) \<Rightarrow> escrow_fail + 'a" where
  "with_order m f = (case mk_order m of None \<Rightarrow> Inl AccountFailed | Some o' \<Rightarrow> f o')"

text \<open>\<open>token::transfer\<close> into the vault, \<open>drain_vault\<close>, and the Core transfer.\<close>

definition fund_vault :: "pubkey \<Rightarrow> nat \<Rightarrow> market \<Rightarrow> escrow_fail + market" where
  "fund_vault payer amount m =
    (if mk_usdc m payer < amount then Inl TokenFailed
     else Inr (m\<lparr>mk_usdc := (mk_usdc m)(payer := mk_usdc m payer - amount),
                 mk_vault := Some ((case mk_vault m of None \<Rightarrow> 0 | Some v \<Rightarrow> v) + amount)\<rparr>))"

definition drain_vault :: "pubkey \<Rightarrow> market \<Rightarrow> escrow_fail + market" where
  "drain_vault recipient m =
    (case mk_vault m of
       None \<Rightarrow> Inl AccountFailed
     | Some amount \<Rightarrow> Inr (m\<lparr>mk_usdc := (mk_usdc m)(recipient := mk_usdc m recipient + amount), mk_vault := None\<rparr>))"

text \<open>Metaplex Core is not part of the repository. What the program relies on: \<open>TransferV1\<close> moves an asset for its owner, and
  refuses an asset that belongs to a collection when, as here (\<open>mpl_core.rs\<close>), no collection account is passed.\<close>

definition transfer_v1 :: "pubkey \<Rightarrow> pubkey \<Rightarrow> market \<Rightarrow> escrow_fail + market" where
  "transfer_v1 authority new_owner m =
    (if mk_asset_owner m = Some authority \<and> \<not> mk_in_collection m then Inr (m\<lparr>mk_asset_owner := Some new_owner\<rparr>) else Inl CoreFailed)"

text \<open>\<open>accs\<close> is the asset account when the optional asset and Core program accounts are passed.\<close>

definition return_asset ::
  "pubkey \<Rightarrow> order_acc \<Rightarrow> pubkey option \<Rightarrow> pubkey \<Rightarrow> market \<Rightarrow> escrow_fail + market" where
  "return_asset oid o' accs new_owner m =
    (if \<not> od_asset_deposited o' then Inr m
     else case accs of
       None \<Rightarrow> Inl (Escrow MissingAssetAccounts)
     | Some a \<Rightarrow> bindE (need (a = od_asset o') AssetMismatch) (\<lambda>_. transfer_v1 oid new_owner m))"

section \<open>Handlers\<close>

definition check_seller_of :: "pubkey \<Rightarrow> passport \<Rightarrow> pubkey option \<Rightarrow> registry \<Rightarrow> escrow_error + unit" where
  "check_seller_of seller p asset_owner r =
    check_seller seller (pp_issuer p) asset_owner (rg_authority r = pp_issuer p \<or> is_partner r (pp_issuer p))"

definition handle_list ::
  "escrow_config \<Rightarrow> registry \<Rightarrow> pubkey \<Rightarrow> passport \<Rightarrow> pubkey \<Rightarrow> int \<Rightarrow> nat \<Rightarrow> market \<Rightarrow> escrow_fail + market" where
  "handle_list cfg r passport_key p seller now price m =
    bindE (guardE (mk_order m = None) AccountFailed) (\<lambda>_.
    bindE (need (price > 0) InvalidPrice) (\<lambda>_.
    bindE (need (\<not> pp_void p \<and> pp_grade p \<noteq> GRADE_VOID) PassportVoid) (\<lambda>_.
    bindE (errE (check_seller_of seller p (mk_asset_owner m) r)) (\<lambda>_.
    Inr (m\<lparr>mk_order := Some \<lparr>od_passport = passport_key, od_seller = seller, od_buyer = default_pubkey,
      od_asset = pp_asset p, od_price = price, od_state = LISTED, od_listed_at = now, od_reserved_at = 0,
      od_shipped_at = 0, od_seller_scan = default_pubkey, od_buyer_scan = default_pubkey,
      od_dispute_after_s = effective_window (cf_dispute_after_s cfg), od_asset_deposited = False\<rparr>\<rparr>)))))"

definition handle_deposit_asset :: "pubkey \<Rightarrow> pubkey \<Rightarrow> market \<Rightarrow> escrow_fail + market" where
  "handle_deposit_asset oid seller m = with_order m (\<lambda>o'.
    bindE (need (od_seller o' = seller) NotSeller) (\<lambda>_.
    bindE (need (od_state o' = LISTED) InvalidState) (\<lambda>_.
    bindE (need (\<not> od_asset_deposited o') AssetAlreadyDeposited) (\<lambda>_.
    bindE (transfer_v1 seller oid m) (\<lambda>m.
    Inr (m\<lparr>mk_order := Some (o'\<lparr>od_asset_deposited := True\<rparr>)\<rparr>))))))"

definition handle_cancel :: "pubkey \<Rightarrow> pubkey \<Rightarrow> pubkey option \<Rightarrow> market \<Rightarrow> escrow_fail + market" where
  "handle_cancel oid seller accs m = with_order m (\<lambda>o'.
    bindE (need (od_seller o' = seller) NotSeller) (\<lambda>_.
    bindE (need (od_state o' = LISTED) InvalidState) (\<lambda>_.
    bindE (return_asset oid o' accs seller m) (\<lambda>m.
    Inr (m\<lparr>mk_order := Some (o'\<lparr>od_state := CANCELLED, od_asset_deposited := False\<rparr>)\<rparr>)))))"

definition handle_close_order :: "pubkey \<Rightarrow> market \<Rightarrow> escrow_fail + market" where
  "handle_close_order seller m = with_order m (\<lambda>o'.
    bindE (need (od_seller o' = seller) NotSeller) (\<lambda>_.
    bindE (need (is_terminal (od_state o')) InvalidState) (\<lambda>_.
    Inr (m\<lparr>mk_order := None\<rparr>))))"

definition handle_reserve ::
  "registry \<Rightarrow> pubkey \<Rightarrow> passport \<Rightarrow> pubkey \<Rightarrow> int \<Rightarrow> nat \<Rightarrow> market \<Rightarrow> escrow_fail + market" where
  "handle_reserve r passport_key p buyer now expected_price m = with_order m (\<lambda>o'.
    bindE (need (passport_key = od_passport o') SealPassportMismatch) (\<lambda>_.
    bindE (need (od_state o' = LISTED) InvalidState) (\<lambda>_.
    bindE (need (buyer \<noteq> od_seller o') SellerCannotBuy) (\<lambda>_.
    bindE (need (od_price o' = expected_price) PriceChanged) (\<lambda>_.
    bindE (need (\<not> pp_void p \<and> pp_grade p \<noteq> GRADE_VOID) PassportVoid) (\<lambda>_.
    bindE (if \<not> od_asset_deposited o' then errE (check_seller_of (od_seller o') p (mk_asset_owner m) r) else Inr ()) (\<lambda>_.
    bindE (fund_vault buyer (od_price o') m) (\<lambda>m.
    Inr (m\<lparr>mk_order := Some (o'\<lparr>od_buyer := buyer, od_reserved_at := now, od_state := RESERVED\<rparr>)\<rparr>)))))))))"

text \<open>A scan proof account and the seal it was made on, with their addresses.\<close>

definition check_scan ::
  "order_acc \<Rightarrow> scan_proof \<Rightarrow> pubkey \<Rightarrow> seal \<Rightarrow> pubkey \<Rightarrow> int \<Rightarrow> escrow_error + unit" where
  "check_scan o' sp seal_key s expected_attester not_before =
    bindE (guardE (sp_seal sp = seal_key) ScanSealMismatch) (\<lambda>_.
    bindE (guardE (sl_passport s = od_passport o') SealPassportMismatch) (\<lambda>_.
    bindE (guardE (sp_attester sp = expected_attester) ScanAttesterMismatch) (\<lambda>_.
    check_scan_not_before (sint (sa_ts (sp_args sp))) not_before)))"

definition handle_record_pre_ship_scan ::
  "pubkey \<Rightarrow> pubkey \<Rightarrow> scan_proof \<Rightarrow> pubkey \<Rightarrow> seal \<Rightarrow> market \<Rightarrow> escrow_fail + market" where
  "handle_record_pre_ship_scan seller sp_key sp seal_key s m = with_order m (\<lambda>o'.
    bindE (need (od_seller o' = seller) NotSeller) (\<lambda>_.
    bindE (need (od_state o' = RESERVED) InvalidState) (\<lambda>_.
    bindE (errE (check_scan o' sp seal_key s (od_seller o') (od_reserved_at o'))) (\<lambda>_.
    Inr (m\<lparr>mk_order := Some (o'\<lparr>od_seller_scan := sp_key, od_state := PRESHIP_SCANNED\<rparr>)\<rparr>)))))"

definition handle_ship :: "pubkey \<Rightarrow> int \<Rightarrow> market \<Rightarrow> escrow_fail + market" where
  "handle_ship seller now m = with_order m (\<lambda>o'.
    bindE (need (od_seller o' = seller) NotSeller) (\<lambda>_.
    bindE (need (od_state o' = PRESHIP_SCANNED) InvalidState) (\<lambda>_.
    Inr (m\<lparr>mk_order := Some (o'\<lparr>od_shipped_at := now, od_state := SHIPPED\<rparr>)\<rparr>))))"

definition abs_diff :: "byte \<Rightarrow> byte \<Rightarrow> nat" where
  "abs_diff a b = (if a < b then unat b - unat a else unat a - unat b)"

definition scans_match :: "scan_proof \<Rightarrow> scan_proof \<Rightarrow> bool" where
  "scans_match b s \<longleftrightarrow> sa_heat (sp_args b) = sa_heat (sp_args s) \<and> sa_hum (sp_args b) = sa_hum (sp_args s) \<and>
     abs_diff (sa_fill (sp_args b)) (sa_fill (sp_args s)) \<le> FILL_TOLERANCE"

definition handle_record_receipt_scan ::
  "pubkey \<Rightarrow> pubkey \<Rightarrow> scan_proof \<Rightarrow> pubkey \<Rightarrow> seal \<Rightarrow> pubkey \<Rightarrow> scan_proof \<Rightarrow> market \<Rightarrow> escrow_fail + market" where
  "handle_record_receipt_scan buyer sp_key sp seal_key s seller_scan_key seller_scan m = with_order m (\<lambda>o'.
    bindE (need (od_buyer o' = buyer) NotBuyer) (\<lambda>_.
    bindE (need (seller_scan_key = od_seller_scan o') SellerScanMismatch) (\<lambda>_.
    bindE (need (od_state o' = SHIPPED) InvalidState) (\<lambda>_.
    bindE (errE (check_scan o' sp seal_key s (od_buyer o') (od_shipped_at o'))) (\<lambda>_.
    bindE (need (sp_seal sp = sp_seal seller_scan \<longrightarrow> sa_counter (sp_args seller_scan) < sa_counter (sp_args sp))
      ReceiptScanNotNewer) (\<lambda>_.
    Inr (m\<lparr>mk_order := Some (o'\<lparr>od_buyer_scan := sp_key,
      od_state := if scans_match sp seller_scan then RECEIPT_SCANNED else MISMATCH\<rparr>)\<rparr>)))))))"

definition settle_to_seller :: "pubkey \<Rightarrow> order_acc \<Rightarrow> pubkey option \<Rightarrow> market \<Rightarrow> escrow_fail + market" where
  "settle_to_seller oid o' accs m =
    bindE (drain_vault (od_seller o') m) (\<lambda>m.
    bindE (return_asset oid o' accs (od_buyer o') m) (\<lambda>m.
    Inr (m\<lparr>mk_order := Some (o'\<lparr>od_state := RELEASED, od_asset_deposited := False\<rparr>)\<rparr>)))"

definition handle_release :: "pubkey \<Rightarrow> pubkey option \<Rightarrow> market \<Rightarrow> escrow_fail + market" where
  "handle_release oid accs m = with_order m (\<lambda>o'.
    bindE (need (od_state o' = RECEIPT_SCANNED) InvalidState) (\<lambda>_. settle_to_seller oid o' accs m))"

definition handle_release_after_timeout :: "pubkey \<Rightarrow> pubkey option \<Rightarrow> int \<Rightarrow> market \<Rightarrow> escrow_fail + market" where
  "handle_release_after_timeout oid accs now m = with_order m (\<lambda>o'.
    bindE (errE (check_release_after_timeout (od_state o') (od_shipped_at o') (od_dispute_after_s o') now)) (\<lambda>_.
    settle_to_seller oid o' accs m))"

definition handle_dispute ::
  "pubkey \<Rightarrow> escrow_config \<Rightarrow> pubkey \<Rightarrow> seal option \<Rightarrow> pubkey option \<Rightarrow> int \<Rightarrow> market \<Rightarrow> escrow_fail + market" where
  "handle_dispute oid cfg signer sl accs now m = with_order m (\<lambda>o'.
    bindE (if signer = cf_admin cfg then
             bindE (need (admin_may_refund (od_state o')) InvalidState) (\<lambda>_. Inr REASON_ADMIN)
           else if signer = od_buyer o' then
             bindE (case sl of
                 Some s \<Rightarrow> bindE (need (sl_passport s = od_passport o') SealPassportMismatch) (\<lambda>_. Inr (Some (sl_dead s)))
               | None \<Rightarrow> Inr None) (\<lambda>seal_dead.
             errE (buyer_dispute_reason (od_state o') seal_dead (od_reserved_at o') (od_dispute_after_s o') now))
           else Inl (Escrow Unauthorized)) (\<lambda>reason.
    bindE (drain_vault (od_buyer o') m) (\<lambda>m.
    bindE (return_asset oid o' accs (od_seller o') m) (\<lambda>m.
    Inr (m\<lparr>mk_order := Some (o'\<lparr>od_state := DISPUTE, od_asset_deposited := False\<rparr>)\<rparr>)))))"

definition handle_resolve ::
  "pubkey \<Rightarrow> escrow_config \<Rightarrow> pubkey \<Rightarrow> bool \<Rightarrow> pubkey \<Rightarrow> pubkey option \<Rightarrow> market \<Rightarrow> escrow_fail + market" where
  "handle_resolve oid cfg admin to_seller token_owner accs m = with_order m (\<lambda>o'.
    bindE (need (cf_admin cfg = admin) Unauthorized) (\<lambda>_.
    bindE (need (od_state o' = MISMATCH) InvalidState) (\<lambda>_.
    bindE (need (token_owner = (if to_seller then od_seller o' else od_buyer o')) WrongTokenOwner) (\<lambda>_.
    bindE (drain_vault token_owner m) (\<lambda>m.
    bindE (return_asset oid o' accs (if to_seller then od_buyer o' else od_seller o') m) (\<lambda>m.
    Inr (m\<lparr>mk_order := Some (o'\<lparr>od_state := if to_seller then RELEASED else DISPUTE,
                                  od_asset_deposited := False\<rparr>)\<rparr>)))))))"

section \<open>Configuration\<close>

text \<open>\<open>config\<close> is the account before (none: \<open>init\<close> creates it), \<open>upgrade_authority\<close> the program's.\<close>

definition handle_init_config ::
  "pubkey option \<Rightarrow> pubkey \<Rightarrow> pubkey \<Rightarrow> int \<Rightarrow> escrow_config option \<Rightarrow> escrow_fail + escrow_config" where
  "handle_init_config upgrade_authority admin usdc_mint d cfg =
    bindE (guardE (cfg = None) AccountFailed) (\<lambda>_.
    bindE (need (upgrade_authority = Some admin) Unauthorized) (\<lambda>_.
    bindE (errE (check_window d)) (\<lambda>_.
    Inr \<lparr>cf_admin = admin, cf_usdc_mint = usdc_mint, cf_dispute_after_s = d\<rparr>)))"

definition handle_set_dispute_window :: "pubkey \<Rightarrow> int \<Rightarrow> escrow_config \<Rightarrow> escrow_fail + escrow_config" where
  "handle_set_dispute_window admin d cfg =
    bindE (need (cf_admin cfg = admin) Unauthorized) (\<lambda>_.
    bindE (errE (check_window d)) (\<lambda>_. Inr (cfg\<lparr>cf_dispute_after_s := d\<rparr>)))"

end
