(* ===== verification/Escrow_Market.thy ===== *)
theory Escrow_Market
  imports Escrow_Program
begin

text \<open>
  The escrow handlers as a transition system around one Order address: which states follow which,
  where the buyer's USDC and the deposited asset are in every reachable state, who is paid, and that
  \<open>availableActions\<close> of the web app offers exactly what the program accepts.
\<close>

section \<open>Steps\<close>

text \<open>
  Between two instructions of the order anything else may happen: balances change, somebody sends
  USDC to an existing vault, and the asset's owner (not the order) gives the asset away.
\<close>

definition outside :: "pubkey \<Rightarrow> market \<Rightarrow> market \<Rightarrow> bool" where
  "outside oid m m' \<longleftrightarrow> mk_order m' = mk_order m \<and>
     (case mk_vault m of None \<Rightarrow> mk_vault m' = None | Some v \<Rightarrow> (\<exists>v' \<ge> v. mk_vault m' = Some v')) \<and>
     (mk_asset_owner m = Some oid \<longrightarrow> mk_asset_owner m' = Some oid)"

inductive market_step :: "pubkey \<Rightarrow> market \<Rightarrow> market \<Rightarrow> bool" for oid where
  list: "handle_list cfg r pk p seller now price m = Inr m' \<Longrightarrow> market_step oid m m'"
| deposit: "handle_deposit_asset oid seller m = Inr m' \<Longrightarrow> market_step oid m m'"
| cancel: "handle_cancel oid seller accs m = Inr m' \<Longrightarrow> market_step oid m m'"
| close: "handle_close_order seller m = Inr m' \<Longrightarrow> market_step oid m m'"
| reserve: "handle_reserve r pk p buyer now price m = Inr m' \<Longrightarrow> buyer \<noteq> default_pubkey \<Longrightarrow> market_step oid m m'"
| pre_ship: "handle_record_pre_ship_scan seller spk sp slk s m = Inr m' \<Longrightarrow> market_step oid m m'"
| ship: "handle_ship seller now m = Inr m' \<Longrightarrow> market_step oid m m'"
| receipt: "handle_record_receipt_scan buyer spk sp slk s ssk ss m = Inr m' \<Longrightarrow> market_step oid m m'"
| release: "handle_release oid accs m = Inr m' \<Longrightarrow> market_step oid m m'"
| timeout: "handle_release_after_timeout oid accs now m = Inr m' \<Longrightarrow> market_step oid m m'"
| dispute: "handle_dispute oid cfg signer sl accs now m = Inr m' \<Longrightarrow> market_step oid m m'"
| resolve: "handle_resolve oid cfg admin to_seller tok accs m = Inr m' \<Longrightarrow> market_step oid m m'"
| env: "outside oid m m' \<Longrightarrow> market_step oid m m'"

inductive market_reach :: "pubkey \<Rightarrow> market \<Rightarrow> bool" for oid where
  init: "mk_order m = None \<Longrightarrow> mk_vault m = None \<Longrightarrow> market_reach oid m"
| step: "market_reach oid m \<Longrightarrow> market_step oid m m' \<Longrightarrow> market_reach oid m'"

lemmas handler_defs = handle_list_def handle_deposit_asset_def handle_cancel_def handle_close_order_def
  handle_reserve_def handle_record_pre_ship_scan_def handle_ship_def handle_record_receipt_scan_def
  handle_release_def handle_release_after_timeout_def handle_dispute_def handle_resolve_def

lemma need_simps [simp]:
  "need b e = Inr u \<longleftrightarrow> b" "need b e = Inl f \<longleftrightarrow> \<not> b \<and> f = Escrow e"
  by (auto simp: need_def)

lemma errE_Inr [simp]: "errE r = Inr x \<longleftrightarrow> r = Inr x"
  by (cases r) (simp_all add: errE_def)

lemma with_order_Inr: "with_order m f = Inr x \<longleftrightarrow> (\<exists>o'. mk_order m = Some o' \<and> f o' = Inr x)"
  by (simp add: with_order_def split: option.splits)

lemma drain_Inr:
  "drain_vault k m = Inr m' \<longleftrightarrow>
   (\<exists>v. mk_vault m = Some v \<and> m' = m\<lparr>mk_usdc := (mk_usdc m)(k := mk_usdc m k + v), mk_vault := None\<rparr>)"
  by (auto simp: drain_vault_def split: option.splits)

lemma transfer_Inr:
  "transfer_v1 a n m = Inr m' \<longleftrightarrow> mk_asset_owner m = Some a \<and> \<not> mk_in_collection m \<and> m' = m\<lparr>mk_asset_owner := Some n\<rparr>"
  by (auto simp: transfer_v1_def)

lemma return_Inr:
  "return_asset oid o' accs n m = Inr m' \<longleftrightarrow>
    (if od_asset_deposited o' then accs = Some (od_asset o') \<and> mk_asset_owner m = Some oid \<and> \<not> mk_in_collection m \<and>
       m' = m\<lparr>mk_asset_owner := Some n\<rparr> else m' = m)"
  by (auto simp: return_asset_def bindE_eq_Inr transfer_Inr split: option.splits)

text \<open>Every handler that settles an order is one of these two payouts.\<close>

definition paid_out :: "pubkey \<Rightarrow> market \<Rightarrow> order_acc \<Rightarrow> order_state \<Rightarrow> pubkey \<Rightarrow> pubkey \<Rightarrow> market \<Rightarrow> bool" where
  "paid_out oid m o' st usdc_to asset_to m' \<longleftrightarrow>
     (\<exists>v. mk_vault m = Some v \<and> mk_vault m' = None \<and>
        mk_usdc m' = (mk_usdc m)(usdc_to := mk_usdc m usdc_to + v)) \<and>
     mk_order m' = Some (o'\<lparr>od_state := st, od_asset_deposited := False\<rparr>) \<and>
     (if od_asset_deposited o' then mk_asset_owner m = Some oid \<and> mk_asset_owner m' = Some asset_to
      else mk_asset_owner m' = mk_asset_owner m)"

lemma payout:
  assumes "drain_vault k m = Inr m1" "return_asset oid o' accs n m1 = Inr m2"
  shows "paid_out oid m o' st k n (m2\<lparr>mk_order := Some (o'\<lparr>od_state := st, od_asset_deposited := False\<rparr>)\<rparr>)"
proof (cases "od_asset_deposited o'")
  case True
  then show ?thesis using assms by (auto simp: drain_Inr return_Inr paid_out_def)
next
  case False
  then show ?thesis using assms by (auto simp: drain_Inr return_Inr paid_out_def)
qed

lemma settle_Inr:
  "settle_to_seller oid o' accs m = Inr m' \<Longrightarrow> paid_out oid m o' RELEASED (od_seller o') (od_buyer o') m'"
  by (auto simp: settle_to_seller_def bindE_eq_Inr intro: payout)

lemma release_Inr:
  assumes "handle_release oid accs m = Inr m'"
  obtains o' where "mk_order m = Some o'" "od_state o' = RECEIPT_SCANNED"
    "paid_out oid m o' RELEASED (od_seller o') (od_buyer o') m'"
  using assms by (auto simp: handle_release_def with_order_Inr bindE_eq_Inr dest: settle_Inr)

lemma elapsed_Inr: "elapsed s d now = Inr b \<Longrightarrow> b \<longleftrightarrow> now > s + effective_window d"
  by (auto simp: elapsed_def Let_def split: if_splits)

lemma timeout_Inr:
  assumes "handle_release_after_timeout oid accs now m = Inr m'"
  obtains o' where "mk_order m = Some o'" "od_state o' = SHIPPED"
    "now > od_shipped_at o' + effective_window (od_dispute_after_s o')"
    "paid_out oid m o' RELEASED (od_seller o') (od_buyer o') m'"
  using assms by (auto simp: handle_release_after_timeout_def check_release_after_timeout_def with_order_Inr
      bindE_eq_Inr dest!: settle_Inr elapsed_Inr)

text \<open>Why a buyer may take the money back.\<close>

definition refund_right :: "order_acc \<Rightarrow> seal option \<Rightarrow> int \<Rightarrow> bool" where
  "refund_right o' sl now \<longleftrightarrow> (od_state o' = RESERVED \<or> od_state o' = PRESHIP_SCANNED) \<and>
     (case sl of Some s \<Rightarrow> sl_dead s \<and> sl_passport s = od_passport o'
      | None \<Rightarrow> now > od_reserved_at o' + effective_window (od_dispute_after_s o'))"

lemma buyer_reason_Inr:
  "buyer_dispute_reason st sd ra d now = Inr rs \<Longrightarrow>
   (st = RESERVED \<or> st = PRESHIP_SCANNED) \<and> (case sd of Some b \<Rightarrow> b | None \<Rightarrow> now > ra + effective_window d)"
  by (auto simp: buyer_dispute_reason_def bindE_eq_Inr split: if_splits option.splits dest: elapsed_Inr)

lemma dispute_Inr:
  assumes "handle_dispute oid cfg signer sl accs now m = Inr m'"
  obtains o' where "mk_order m = Some o'"
    "signer = cf_admin cfg \<and> admin_may_refund (od_state o') \<or>
     signer = od_buyer o' \<and> refund_right o' sl now"
    "paid_out oid m o' DISPUTE (od_buyer o') (od_seller o') m'"
proof -
  from assms obtain o' rs m1 m2 where o': "mk_order m = Some o'"
    and rs: "(if signer = cf_admin cfg then
             bindE (need (admin_may_refund (od_state o')) InvalidState) (\<lambda>_. Inr REASON_ADMIN)
           else if signer = od_buyer o' then
             bindE (case sl of
                 Some s \<Rightarrow> bindE (need (sl_passport s = od_passport o') SealPassportMismatch) (\<lambda>_. Inr (Some (sl_dead s)))
               | None \<Rightarrow> Inr None) (\<lambda>seal_dead.
             errE (buyer_dispute_reason (od_state o') seal_dead (od_reserved_at o') (od_dispute_after_s o') now))
           else Inl (Escrow Unauthorized)) = Inr rs"
    and m: "drain_vault (od_buyer o') m = Inr m1" "return_asset oid o' accs (od_seller o') m1 = Inr m2"
      "m' = m2\<lparr>mk_order := Some (o'\<lparr>od_state := DISPUTE, od_asset_deposited := False\<rparr>)\<rparr>"
    unfolding handle_dispute_def with_order_Inr bindE_eq_Inr [of _ "\<lambda>_. _"] bindE_eq_Inr [of "drain_vault _ _"]
      bindE_eq_Inr [of "return_asset _ _ _ _ _"] by auto
  have "signer = cf_admin cfg \<and> admin_may_refund (od_state o') \<or> signer = od_buyer o' \<and> refund_right o' sl now"
    using rs by (cases sl) (auto simp: bindE_eq_Inr refund_right_def split: if_splits dest: buyer_reason_Inr)
  with o' payout [OF m(1,2)] m(3) that show ?thesis by blast
qed

lemma resolve_Inr:
  assumes "handle_resolve oid cfg admin to_seller tok accs m = Inr m'"
  obtains o' where "mk_order m = Some o'" "od_state o' = MISMATCH" "admin = cf_admin cfg"
    "to_seller \<and> paid_out oid m o' RELEASED (od_seller o') (od_buyer o') m' \<or>
     \<not> to_seller \<and> paid_out oid m o' DISPUTE (od_buyer o') (od_seller o') m'"
  using assms
  by (auto simp: handle_resolve_def with_order_Inr bindE_eq_Inr split: if_splits dest: payout)

section \<open>The invariant\<close>

definition order_ok :: "pubkey \<Rightarrow> market \<Rightarrow> order_acc \<Rightarrow> bool" where
  "order_ok oid m o' \<longleftrightarrow>
     (if is_funded (od_state o') then \<exists>v \<ge> od_price o'. mk_vault m = Some v else mk_vault m = None) \<and>
     (od_asset_deposited o' \<longrightarrow> mk_asset_owner m = Some oid) \<and> 0 < od_price o' \<and>
     (is_terminal (od_state o') \<longrightarrow> \<not> od_asset_deposited o') \<and>
     (od_state o' = LISTED \<longrightarrow> od_buyer o' = default_pubkey) \<and>
     (is_funded (od_state o') \<longrightarrow> od_buyer o' \<noteq> od_seller o' \<and> od_buyer o' \<noteq> default_pubkey)"

definition market_ok :: "pubkey \<Rightarrow> market \<Rightarrow> bool" where
  "market_ok oid m \<longleftrightarrow> (case mk_order m of None \<Rightarrow> mk_vault m = None | Some o' \<Rightarrow> order_ok oid m o')"

lemma market_ok_Some: "market_ok oid m \<Longrightarrow> mk_order m = Some o' \<Longrightarrow> order_ok oid m o'"
  by (simp add: market_ok_def)

lemma funded_simps [simp]:
  "\<not> is_funded LISTED" "is_funded RESERVED" "is_funded PRESHIP_SCANNED" "is_funded SHIPPED"
  "is_funded RECEIPT_SCANNED" "is_funded MISMATCH" "\<not> is_funded RELEASED" "\<not> is_funded DISPUTE" "\<not> is_funded CANCELLED"
  by (simp_all add: is_funded_def)

lemma terminal_simps [simp]:
  "\<not> is_terminal LISTED" "\<not> is_terminal RESERVED" "\<not> is_terminal PRESHIP_SCANNED" "\<not> is_terminal SHIPPED"
  "\<not> is_terminal RECEIPT_SCANNED" "\<not> is_terminal MISMATCH" "is_terminal RELEASED" "is_terminal DISPUTE" "is_terminal CANCELLED"
  by (simp_all add: is_terminal_def)

lemma paid_out_ok:
  assumes "market_ok oid m" "mk_order m = Some o'" "paid_out oid m o' st a b m'" "st = RELEASED \<or> st = DISPUTE"
  shows "market_ok oid m'"
  using assms by (auto simp: market_ok_def order_ok_def paid_out_def split: if_splits)

lemma cancel_Inr:
  assumes "handle_cancel oid seller accs m = Inr m'"
  obtains o' where "mk_order m = Some o'" "od_state o' = LISTED" "seller = od_seller o'"
    "mk_order m' = Some (o'\<lparr>od_state := CANCELLED, od_asset_deposited := False\<rparr>)" "mk_vault m' = mk_vault m"
    "mk_usdc m' = mk_usdc m"
    "mk_asset_owner m' = (if od_asset_deposited o' then Some seller else mk_asset_owner m)"
proof -
  from assms obtain o' m1 where o': "mk_order m = Some o'" "od_state o' = LISTED" "seller = od_seller o'"
    and r: "return_asset oid o' accs seller m = Inr m1"
    and m': "m' = m1\<lparr>mk_order := Some (o'\<lparr>od_state := CANCELLED, od_asset_deposited := False\<rparr>)\<rparr>"
    by (auto simp: handle_cancel_def with_order_Inr bindE_eq_Inr)
  show ?thesis
    using r by (cases "od_asset_deposited o'") (auto simp: return_Inr m' intro!: that [OF o'])
qed

lemma reserve_Inr:
  assumes "handle_reserve r pk p buyer now price m = Inr m'"
  obtains o' where "mk_order m = Some o'" "od_state o' = LISTED" "buyer \<noteq> od_seller o'" "od_price o' = price"
    "price \<le> mk_usdc m buyer" "\<not> is_voided p" "pk = od_passport o'"
    "m' = m\<lparr>mk_usdc := (mk_usdc m)(buyer := mk_usdc m buyer - price),
            mk_vault := Some ((case mk_vault m of None \<Rightarrow> 0 | Some v \<Rightarrow> v) + price),
            mk_order := Some (o'\<lparr>od_buyer := buyer, od_reserved_at := now, od_state := RESERVED\<rparr>)\<rparr>"
  using assms by (auto simp: handle_reserve_def with_order_Inr bindE_eq_Inr fund_vault_def is_voided_def split: if_splits)

text \<open>A link of the scans into the order leaves money and asset alone.\<close>

definition relabel :: "market \<Rightarrow> order_acc \<Rightarrow> order_acc \<Rightarrow> market \<Rightarrow> bool" where
  "relabel m o' o'' m' \<longleftrightarrow> mk_order m = Some o' \<and> m' = m\<lparr>mk_order := Some o''\<rparr> \<and>
     od_price o'' = od_price o' \<and> od_buyer o'' = od_buyer o' \<and> od_seller o'' = od_seller o' \<and>
     od_passport o'' = od_passport o' \<and> od_asset o'' = od_asset o' \<and>
     od_asset_deposited o'' = od_asset_deposited o' \<and> od_dispute_after_s o'' = od_dispute_after_s o'"

lemma pre_ship_Inr:
  assumes "handle_record_pre_ship_scan seller spk sp slk s m = Inr m'"
  obtains o' where "relabel m o' (o'\<lparr>od_seller_scan := spk, od_state := PRESHIP_SCANNED\<rparr>) m'"
    "od_state o' = RESERVED" "check_scan o' sp slk s (od_seller o') (od_reserved_at o') = Inr ()" "seller = od_seller o'"
  using assms by (auto simp: handle_record_pre_ship_scan_def with_order_Inr bindE_eq_Inr relabel_def)

lemma ship_Inr:
  assumes "handle_ship seller now m = Inr m'"
  obtains o' where "relabel m o' (o'\<lparr>od_shipped_at := now, od_state := SHIPPED\<rparr>) m'"
    "od_state o' = PRESHIP_SCANNED" "seller = od_seller o'"
  using assms by (auto simp: handle_ship_def with_order_Inr bindE_eq_Inr relabel_def)

lemma receipt_Inr:
  assumes "handle_record_receipt_scan buyer spk sp slk s ssk ss m = Inr m'"
  obtains o' where
    "relabel m o' (o'\<lparr>od_buyer_scan := spk, od_state := if scans_match sp ss then RECEIPT_SCANNED else MISMATCH\<rparr>) m'"
    "od_state o' = SHIPPED" "check_scan o' sp slk s (od_buyer o') (od_shipped_at o') = Inr ()"
    "buyer = od_buyer o'" "ssk = od_seller_scan o'"
    "sp_seal sp = sp_seal ss \<longrightarrow> sa_counter (sp_args ss) < sa_counter (sp_args sp)"
  using assms by (auto simp: handle_record_receipt_scan_def with_order_Inr bindE_eq_Inr relabel_def)

lemma relabel_ok:
  assumes "market_ok oid m" "relabel m o' o'' m'" "is_funded (od_state o')" "is_funded (od_state o'')"
  shows "market_ok oid m'"
proof -
  have "od_state o'' \<noteq> LISTED \<and> \<not> is_terminal (od_state o'')" using assms(4) by (auto simp: is_terminal_def)
  then show ?thesis using assms by (auto simp: market_ok_def order_ok_def relabel_def)
qed

lemma market_step_ok:
  assumes "market_ok oid m" "market_step oid m m'"
  shows "market_ok oid m'"
  using assms(2)
proof cases
  case (list cfg r pk p seller now price)
  then show ?thesis
    using assms(1) by (auto simp: handle_list_def bindE_eq_Inr market_ok_def order_ok_def)
next
  case (deposit seller)
  then show ?thesis
    using assms(1) by (auto simp: handle_deposit_asset_def with_order_Inr bindE_eq_Inr transfer_Inr market_ok_def order_ok_def)
next
  case (cancel seller accs)
  then show ?thesis using assms(1) by (auto simp: market_ok_def order_ok_def elim!: cancel_Inr)
next
  case (close seller)
  then show ?thesis
    using assms(1)
    by (auto simp: handle_close_order_def with_order_Inr bindE_eq_Inr market_ok_def order_ok_def is_terminal_def split: if_splits)
next
  case (reserve r pk p buyer now price)
  from reserve(1) show ?thesis
    by (rule reserve_Inr) (use assms(1) reserve(2) in \<open>auto simp: market_ok_def order_ok_def\<close>)
next
  case (pre_ship seller spk sp slk s)
  then show ?thesis by (auto elim!: pre_ship_Inr intro: relabel_ok [OF assms(1)])
next
  case (ship seller now)
  then show ?thesis by (auto elim!: ship_Inr intro: relabel_ok [OF assms(1)])
next
  case (receipt buyer spk sp slk s ssk ss)
  then show ?thesis by (auto elim!: receipt_Inr intro: relabel_ok [OF assms(1)])
next
  case (release accs)
  then show ?thesis by (auto elim!: release_Inr intro: paid_out_ok [OF assms(1)])
next
  case (timeout accs now)
  then show ?thesis by (auto elim!: timeout_Inr intro: paid_out_ok [OF assms(1)])
next
  case (dispute cfg signer sl accs now)
  then show ?thesis by (auto elim!: dispute_Inr intro: paid_out_ok [OF assms(1)])
next
  case (resolve cfg admin to_seller tok accs)
  then show ?thesis by (auto elim!: resolve_Inr intro: paid_out_ok [OF assms(1)])
next
  case env
  then show ?thesis
    using assms(1) by (auto simp: outside_def market_ok_def order_ok_def split: option.splits if_splits; force)
qed

lemma market_reach_ok: "market_reach oid m \<Longrightarrow> market_ok oid m"
proof (induction rule: market_reach.induct)
  case (init m)
  then show ?case by (simp add: market_ok_def)
qed (rule market_step_ok)

section \<open>Which states follow which\<close>

definition follows :: "order_state \<Rightarrow> order_state list" where
  "follows s = (case s of
     LISTED \<Rightarrow> [RESERVED, CANCELLED]
   | RESERVED \<Rightarrow> [PRESHIP_SCANNED, DISPUTE]
   | PRESHIP_SCANNED \<Rightarrow> [SHIPPED, DISPUTE]
   | SHIPPED \<Rightarrow> [RECEIPT_SCANNED, MISMATCH, RELEASED, DISPUTE]
   | RECEIPT_SCANNED \<Rightarrow> [RELEASED]
   | MISMATCH \<Rightarrow> [RELEASED, DISPUTE]
   | _ \<Rightarrow> [])"

text \<open>What no step of a living order changes.\<close>

definition same_deal :: "order_acc \<Rightarrow> order_acc \<Rightarrow> bool" where
  "same_deal o' o'' \<longleftrightarrow> od_passport o'' = od_passport o' \<and> od_seller o'' = od_seller o' \<and>
     od_asset o'' = od_asset o' \<and> od_price o'' = od_price o' \<and> od_dispute_after_s o'' = od_dispute_after_s o' \<and>
     (od_state o' \<noteq> LISTED \<longrightarrow> od_buyer o'' = od_buyer o')"

lemma step_order:
  assumes "market_step oid m m'" "mk_order m = Some o'" "mk_order m' = Some o''"
  shows "same_deal o' o'' \<and> (od_state o'' = od_state o' \<or> od_state o'' \<in> set (follows (od_state o')))"
  using assms(1)
proof cases
  case (list cfg r pk p seller now price)
  then show ?thesis using assms(2) by (auto simp: handle_list_def bindE_eq_Inr)
next
  case (deposit seller)
  then show ?thesis
    using assms(2,3) by (auto simp: handle_deposit_asset_def with_order_Inr bindE_eq_Inr transfer_Inr same_deal_def)
next
  case (cancel seller accs)
  then show ?thesis using assms(2,3) by (auto simp: same_deal_def follows_def elim!: cancel_Inr)
next
  case (close seller)
  then show ?thesis using assms(2,3) by (auto simp: handle_close_order_def with_order_Inr bindE_eq_Inr)
next
  case (reserve r pk p buyer now price)
  from reserve(1) show ?thesis
    by (rule reserve_Inr) (use assms(2,3) in \<open>auto simp: same_deal_def follows_def\<close>)
next
  case (pre_ship seller spk sp slk s)
  then show ?thesis using assms(2,3) by (auto simp: same_deal_def follows_def relabel_def elim!: pre_ship_Inr)
next
  case (ship seller now)
  then show ?thesis using assms(2,3) by (auto simp: same_deal_def follows_def relabel_def elim!: ship_Inr)
next
  case (receipt buyer spk sp slk s ssk ss)
  from receipt(1) show ?thesis
    by (rule receipt_Inr) (use assms(2,3) in \<open>auto simp: same_deal_def follows_def relabel_def split: if_splits\<close>)
next
  case (release accs)
  then show ?thesis using assms(2,3) by (auto simp: same_deal_def follows_def paid_out_def elim!: release_Inr)
next
  case (timeout accs now)
  then show ?thesis using assms(2,3) by (auto simp: same_deal_def follows_def paid_out_def elim!: timeout_Inr)
next
  case (dispute cfg signer sl accs now)
  then show ?thesis
    using assms(2,3)
    by (auto simp: same_deal_def follows_def paid_out_def refund_right_def admin_may_refund_def elim!: dispute_Inr)
next
  case (resolve cfg admin to_seller tok accs)
  then show ?thesis using assms(2,3) by (auto simp: same_deal_def follows_def paid_out_def elim!: resolve_Inr)
next
  case env
  then show ?thesis using assms(2,3) by (auto simp: outside_def same_deal_def)
qed

text \<open>A funded order ends in one way: its whole vault goes to one of the two parties.\<close>

lemma settlement:
  assumes "market_step oid m m'" "mk_order m = Some o'" "is_funded (od_state o')"
    "\<And>o''. mk_order m' = Some o'' \<Longrightarrow> \<not> is_funded (od_state o'')"
  shows "paid_out oid m o' RELEASED (od_seller o') (od_buyer o') m' \<or>
         paid_out oid m o' DISPUTE (od_buyer o') (od_seller o') m'"
  using assms(1)
proof cases
  case (list cfg r pk p seller now price)
  then show ?thesis using assms(2) by (auto simp: handle_list_def bindE_eq_Inr)
next
  case (deposit seller)
  then show ?thesis
    using assms(2,3) by (auto simp: handle_deposit_asset_def with_order_Inr bindE_eq_Inr)
next
  case (cancel seller accs)
  then show ?thesis using assms(2,3) by (auto elim!: cancel_Inr)
next
  case (close seller)
  then show ?thesis
    using assms(2,3) by (auto simp: handle_close_order_def with_order_Inr bindE_eq_Inr is_terminal_def)
next
  case (reserve r pk p buyer now price)
  then show ?thesis using assms(2,3) by (auto elim!: reserve_Inr)
next
  case (pre_ship seller spk sp slk s)
  then show ?thesis using assms(2,4) by (fastforce simp: relabel_def elim!: pre_ship_Inr)
next
  case (ship seller now)
  then show ?thesis using assms(2,4) by (fastforce simp: relabel_def elim!: ship_Inr)
next
  case (receipt buyer spk sp slk s ssk ss)
  from receipt(1) show ?thesis
    by (rule receipt_Inr) (use assms(2,4) in \<open>auto simp: relabel_def split: if_splits\<close>)
next
  case (release accs)
  then show ?thesis using assms(2) by (auto elim!: release_Inr)
next
  case (timeout accs now)
  then show ?thesis using assms(2) by (auto elim!: timeout_Inr)
next
  case (dispute cfg signer sl accs now)
  from dispute(1) show ?thesis by (rule dispute_Inr) (use assms(2) in auto)
next
  case (resolve cfg admin to_seller tok accs)
  from resolve(1) show ?thesis by (rule resolve_Inr) (use assms(2) in auto)
next
  case env
  then show ?thesis using assms(2-4) by (auto simp: outside_def)
qed

section \<open>What the app offers\<close>

definition like :: "order_acc \<Rightarrow> order_like" where
  "like o' = \<lparr>ol_state = OrderState (od_state o'), ol_reservedAt = od_reserved_at o',
     ol_shippedAt = od_shipped_at o', ol_disputeAfterS = od_dispute_after_s o',
     ol_assetDeposited = od_asset_deposited o'\<rparr>"

definition viewer_of :: "escrow_config \<Rightarrow> order_acc \<Rightarrow> pubkey \<Rightarrow> bool \<Rightarrow> viewer" where
  "viewer_of cfg o' key dead = \<lparr>vw_isSeller = (od_seller o' = key),
     vw_isBuyer = (od_buyer o' \<noteq> default_pubkey \<and> od_buyer o' = key),
     vw_isAdmin = (cf_admin cfg = key), vw_sealDead = dead\<rparr>"

text \<open>
  The program accepts an action of wallet \<open>key\<close> on an order when some state of the other accounts and
  some remaining arguments let the instruction succeed; for the two refunds of a buyer the dispute
  is taken as the buyer's, and the seal passed is one whose dead flag the page read.
\<close>

definition accepts_in :: "pubkey \<Rightarrow> escrow_config \<Rightarrow> order_acc \<Rightarrow> pubkey \<Rightarrow> bool \<Rightarrow> int \<Rightarrow> market \<Rightarrow> escrow_action \<Rightarrow> bool" where
  "accepts_in oid cfg o' key dead now m a = (case a of
     A_reserve \<Rightarrow> \<exists>r pk p price. isOk (handle_reserve r pk p key now price m)
   | A_cancel \<Rightarrow> \<exists>accs. isOk (handle_cancel oid key accs m)
   | A_preShip \<Rightarrow> \<exists>spk sp slk s. isOk (handle_record_pre_ship_scan key spk sp slk s m)
   | A_ship \<Rightarrow> isOk (handle_ship key now m)
   | A_receipt \<Rightarrow> \<exists>spk sp slk s ssk ss. isOk (handle_record_receipt_scan key spk sp slk s ssk ss m)
   | A_release \<Rightarrow> \<exists>accs. isOk (handle_release oid accs m)
   | A_refundNotShipped \<Rightarrow> \<exists>accs. key = od_buyer o' \<and> isOk (handle_dispute oid cfg key None accs now m)
   | A_releaseAfterTimeout \<Rightarrow> \<exists>accs. isOk (handle_release_after_timeout oid accs now m)
   | A_disputeSealDead \<Rightarrow> \<exists>accs s. key = od_buyer o' \<and> sl_dead s = dead \<and>
       isOk (handle_dispute oid cfg key (Some s) accs now m)
   | A_adminRefund \<Rightarrow> \<exists>sl accs. key = cf_admin cfg \<and> isOk (handle_dispute oid cfg key sl accs now m)
   | A_resolve \<Rightarrow> \<exists>to_seller tok accs. isOk (handle_resolve oid cfg key to_seller tok accs m)
   | A_close \<Rightarrow> isOk (handle_close_order key m))"

definition program_accepts :: "pubkey \<Rightarrow> escrow_config \<Rightarrow> order_acc \<Rightarrow> pubkey \<Rightarrow> bool \<Rightarrow> int \<Rightarrow> escrow_action \<Rightarrow> bool" where
  "program_accepts oid cfg o' key dead now a \<longleftrightarrow>
     (\<exists>m. mk_order m = Some o' \<and> market_ok oid m \<and> accepts_in oid cfg o' key dead now m a)"

definition times_ok :: "order_acc \<Rightarrow> bool" where
  "times_ok o' \<longleftrightarrow> 0 \<le> od_reserved_at o' \<and> od_reserved_at o' + MAX_DISPUTE_AFTER_S \<le> I64_MAX \<and>
     0 \<le> od_shipped_at o' \<and> od_shipped_at o' + MAX_DISPUTE_AFTER_S \<le> I64_MAX"

lemma effective_window_eq: "effective_window d = effectiveWindow d"
  by (auto simp: effective_window_def effectiveWindow_def MIN_DISPUTE_AFTER_S_def MAX_DISPUTE_AFTER_S_def)

text \<open>A market around a given order in which every payment is possible.\<close>

definition easy :: "pubkey \<Rightarrow> order_acc \<Rightarrow> market" where
  "easy oid o' = \<lparr>mk_order = Some o', mk_vault = (if is_funded (od_state o') then Some (od_price o') else None),
     mk_usdc = (\<lambda>_. od_price o'), mk_asset_owner = Some (if od_asset_deposited o' then oid else od_seller o'),
     mk_in_collection = False\<rparr>"

lemma easy_simps [simp]:
  "mk_order (easy oid o') = Some o'" "mk_usdc (easy oid o') k = od_price o'"
  "mk_vault (easy oid o') = (if is_funded (od_state o') then Some (od_price o') else None)"
  "mk_asset_owner (easy oid o') = Some (if od_asset_deposited o' then oid else od_seller o')"
  "\<not> mk_in_collection (easy oid o')"
  by (simp_all add: easy_def)

lemma easy_ok: "order_ok oid m o' \<Longrightarrow> market_ok oid (easy oid o')"
  by (auto simp: market_ok_def order_ok_def)

definition all_accs :: "order_acc \<Rightarrow> pubkey option" where
  "all_accs o' = Some (od_asset o')"

lemma easy_return: "mk_asset_owner m = Some (if od_asset_deposited o' then oid else od_seller o') \<Longrightarrow> \<not> mk_in_collection m \<Longrightarrow>
    isOk (bindE (return_asset oid o' (all_accs o') k m) (\<lambda>m. Inr (f m)))"
  by (auto simp: return_asset_def all_accs_def transfer_v1_def need_def)

lemma elapsed_ok: "0 \<le> t \<Longrightarrow> t + MAX_DISPUTE_AFTER_S \<le> I64_MAX \<Longrightarrow> elapsed t d now = Inr (now > t + effective_window d)"
  using effectiveWindow_range [of d]
  by (auto simp: elapsed_def Let_def effective_window_eq I64_MAX_def I64_MIN_def MIN_DISPUTE_AFTER_S_def)

text \<open>A scan that satisfies every check of a step.\<close>

definition late_args :: scan_args where
  "late_args = \<lparr>sa_counter = 1, sa_tier = 0, sa_role = 0, sa_tamper = 0, sa_uv = 0, sa_hum = 0, sa_heat = 0,
     sa_heat_levels = 0, sa_fill = 0, sa_site_id = 0, sa_media_hash = [], sa_bundle_hash = [], sa_nonce = [],
     sa_ts = 0x7FFFFFFFFFFFFFFF, sa_server_key_id = 0\<rparr>"

lemma late_scan:
  assumes "t \<le> I64_MAX"
  shows "check_scan o' \<lparr>sp_seal = k, sp_args = late_args, sp_attester = a\<rparr> k
    \<lparr>sl_passport = od_passport o', sl_kind = 0, sl_uid_hash = [], sl_last_counter = 0, sl_dead = False, sl_attached_at = 0\<rparr>
    a t = Inr ()"
  using assms by (simp add: check_scan_def check_scan_not_before_def late_args_def I64_MAX_def I64_MIN_def MAX_SCAN_TS_SKEW_S_def)

text \<open>The set of offered actions, one condition each.\<close>

lemma offered_iff:
  "a \<in> set (availableActions (like o') (viewer_of cfg o' key dead) now) \<longleftrightarrow> (case a of
     A_reserve \<Rightarrow> od_state o' = LISTED \<and> od_seller o' \<noteq> key
   | A_cancel \<Rightarrow> od_state o' = LISTED \<and> od_seller o' = key
   | A_preShip \<Rightarrow> od_state o' = RESERVED \<and> od_seller o' = key
   | A_ship \<Rightarrow> od_state o' = PRESHIP_SCANNED \<and> od_seller o' = key
   | A_receipt \<Rightarrow> od_state o' = SHIPPED \<and> od_buyer o' \<noteq> default_pubkey \<and> od_buyer o' = key
   | A_release \<Rightarrow> od_state o' = RECEIPT_SCANNED
   | A_refundNotShipped \<Rightarrow> (od_state o' = RESERVED \<or> od_state o' = PRESHIP_SCANNED) \<and>
       od_buyer o' \<noteq> default_pubkey \<and> od_buyer o' = key \<and> now > od_reserved_at o' + effective_window (od_dispute_after_s o')
   | A_releaseAfterTimeout \<Rightarrow> od_state o' = SHIPPED \<and> now > od_shipped_at o' + effective_window (od_dispute_after_s o')
   | A_disputeSealDead \<Rightarrow> (od_state o' = RESERVED \<or> od_state o' = PRESHIP_SCANNED) \<and>
       od_buyer o' \<noteq> default_pubkey \<and> od_buyer o' = key \<and> dead
   | A_adminRefund \<Rightarrow> admin_may_refund (od_state o') \<and> cf_admin cfg = key
   | A_resolve \<Rightarrow> od_state o' = MISMATCH \<and> cf_admin cfg = key
   | A_close \<Rightarrow> is_terminal (od_state o') \<and> od_seller o' = key)"
  unfolding availableActions_def Let_def like_def viewer_of_def set_push_if shipDeadline_def receiptDeadline_def
    isTerminal_def effective_window_eq admin_may_refund_def is_terminal_def
  by (cases a) (simp_all only: order_like.simps viewer.simps OrderState_inject escrow_action.case,
      auto split: if_splits)

lemma accepts_sound:
  assumes "mk_order m = Some o'" "market_ok oid m" "accepts_in oid cfg o' key dead now m a"
    "cf_admin cfg \<noteq> od_buyer o'"
  shows "a \<in> set (availableActions (like o') (viewer_of cfg o' key dead) now)"
proof -
  have funded: "is_funded (od_state o') \<longrightarrow> od_buyer o' \<noteq> default_pubkey"
    using market_ok_Some [OF assms(2,1)] by (simp add: order_ok_def)
  show ?thesis
  proof (cases a)
    case A_reserve
    then obtain r pk p price m' where "handle_reserve r pk p key now price m = Inr m'"
      using assms(3) by (auto simp: accepts_in_def isOk_iff)
    then show ?thesis using assms(1) A_reserve by (elim reserve_Inr) (simp add: offered_iff)
  next
    case A_cancel
    then obtain accs m' where "handle_cancel oid key accs m = Inr m'"
      using assms(3) by (auto simp: accepts_in_def isOk_iff)
    then show ?thesis using assms(1) A_cancel by (elim cancel_Inr) (simp add: offered_iff)
  next
    case A_preShip
    then obtain spk sp slk s m' where "handle_record_pre_ship_scan key spk sp slk s m = Inr m'"
      using assms(3) by (auto simp: accepts_in_def isOk_iff)
    then show ?thesis using assms(1) A_preShip by (elim pre_ship_Inr) (simp add: offered_iff relabel_def)
  next
    case A_ship
    then obtain m' where "handle_ship key now m = Inr m'"
      using assms(3) by (auto simp: accepts_in_def isOk_iff)
    then show ?thesis using assms(1) A_ship by (elim ship_Inr) (simp add: offered_iff relabel_def)
  next
    case A_receipt
    then obtain spk sp slk s ssk ss m' where "handle_record_receipt_scan key spk sp slk s ssk ss m = Inr m'"
      using assms(3) by (auto simp: accepts_in_def isOk_iff)
    then show ?thesis using assms(1) funded A_receipt by (elim receipt_Inr) (simp add: offered_iff relabel_def)
  next
    case A_release
    then obtain accs m' where "handle_release oid accs m = Inr m'"
      using assms(3) by (auto simp: accepts_in_def isOk_iff)
    then show ?thesis using assms(1) A_release by (elim release_Inr) (simp add: offered_iff)
  next
    case A_refundNotShipped
    then obtain accs m' where "key = od_buyer o'" "handle_dispute oid cfg key None accs now m = Inr m'"
      using assms(3) by (auto simp: accepts_in_def isOk_iff)
    then show ?thesis using assms(1,4) funded A_refundNotShipped
      by (elim dispute_Inr) (auto simp: offered_iff refund_right_def)
  next
    case A_releaseAfterTimeout
    then obtain accs m' where "handle_release_after_timeout oid accs now m = Inr m'"
      using assms(3) by (auto simp: accepts_in_def isOk_iff)
    then show ?thesis using assms(1) A_releaseAfterTimeout by (elim timeout_Inr) (simp add: offered_iff)
  next
    case A_disputeSealDead
    then obtain accs s m' where "key = od_buyer o'" "sl_dead s = dead" "handle_dispute oid cfg key (Some s) accs now m = Inr m'"
      using assms(3) by (auto simp: accepts_in_def isOk_iff)
    then show ?thesis using assms(1,4) funded A_disputeSealDead
      by (elim dispute_Inr) (auto simp: offered_iff refund_right_def)
  next
    case A_adminRefund
    then obtain sl accs m' where "key = cf_admin cfg" "handle_dispute oid cfg key sl accs now m = Inr m'"
      using assms(3) by (auto simp: accepts_in_def isOk_iff)
    then show ?thesis using assms(1,4) A_adminRefund by (elim dispute_Inr) (auto simp: offered_iff)
  next
    case A_resolve
    then obtain ts tok accs m' where "handle_resolve oid cfg key ts tok accs m = Inr m'"
      using assms(3) by (auto simp: accepts_in_def isOk_iff)
    then show ?thesis using assms(1) A_resolve by (elim resolve_Inr) (auto simp: offered_iff)
  next
    case A_close
    then show ?thesis
      using assms(1,3) by (auto simp: accepts_in_def isOk_iff offered_iff handle_close_order_def with_order_Inr bindE_eq_Inr)
  qed
qed

text \<open>Conversely each offered action succeeds around the order.\<close>

definition fair_passport :: "order_acc \<Rightarrow> passport" where
  "fair_passport o' = \<lparr>pp_serial_hash = [], pp_binding_hash = [], pp_asset = od_asset o', pp_issuer = od_seller o',
     pp_grade = GRADE_A, pp_scan_count = 0, pp_seal_count = 0, pp_void = False, pp_created_at = 0\<rparr>"

definition late_proof :: "pubkey \<Rightarrow> scan_proof" where
  "late_proof a = \<lparr>sp_seal = [1], sp_args = late_args, sp_attester = a\<rparr>"

definition own_seal :: "order_acc \<Rightarrow> bool \<Rightarrow> seal" where
  "own_seal o' dead = \<lparr>sl_passport = od_passport o', sl_kind = 0, sl_uid_hash = [], sl_last_counter = 0,
     sl_dead = dead, sl_attached_at = 0\<rparr>"

lemma late_check: "t \<le> I64_MAX \<Longrightarrow> check_scan o' (late_proof a) [1] (own_seal o' False) a t = Inr ()"
  using late_scan [of t o' "[1]" a] by (simp add: late_proof_def own_seal_def)

lemma easy_settle:
  "is_funded (od_state o') \<Longrightarrow> isOk (settle_to_seller oid o' (all_accs o') (easy oid o'))"
  unfolding settle_to_seller_def
  by (simp add: drain_vault_def easy_return)

lemma easy_refund:
  "is_funded (od_state o') \<Longrightarrow>
   isOk (bindE (drain_vault k (easy oid o')) (\<lambda>m. bindE (return_asset oid o' (all_accs o') n m) (\<lambda>m. Inr (f m))))"
  by (simp add: drain_vault_def easy_return)

lemma accepts_complete:
  assumes "order_ok oid m o'" "times_ok o'" "a \<in> set (availableActions (like o') (viewer_of cfg o' key dead) now)"
    "cf_admin cfg \<noteq> od_buyer o'"
  shows "accepts_in oid cfg o' key dead now (easy oid o') a"
proof -
  note off = assms(3) [unfolded offered_iff]
  have t: "od_reserved_at o' \<le> I64_MAX" "od_shipped_at o' \<le> I64_MAX"
    "elapsed (od_reserved_at o') (od_dispute_after_s o') now = Inr (now > od_reserved_at o' + effective_window (od_dispute_after_s o'))"
    "elapsed (od_shipped_at o') (od_dispute_after_s o') now = Inr (now > od_shipped_at o' + effective_window (od_dispute_after_s o'))"
    using assms(2) by (auto simp: times_ok_def MAX_DISPUTE_AFTER_S_def elapsed_ok)
  show ?thesis
  proof (cases a)
    case A_reserve
    have "isOk (handle_reserve r (od_passport o') (fair_passport o') key now (od_price o') (easy oid o'))" for r
      using off A_reserve
      by (auto simp: handle_reserve_def with_order_def fair_passport_def fund_vault_def need_def errE_def
          check_seller_of_def check_seller_def)
    then have "\<exists>r pk p price. isOk (handle_reserve r pk p key now price (easy oid o'))" by blast
    then show ?thesis using A_reserve by (simp add: accepts_in_def)
  next
    case A_cancel
    have "isOk (handle_cancel oid key (all_accs o') (easy oid o'))"
      using off A_cancel by (simp add: handle_cancel_def with_order_def need_def easy_return)
    then show ?thesis using A_cancel by (auto simp: accepts_in_def)
  next
    case A_preShip
    have "isOk (handle_record_pre_ship_scan key [] (late_proof key) [1] (own_seal o' False) (easy oid o'))"
      using off A_preShip late_check [OF t(1)]
      by (auto simp: handle_record_pre_ship_scan_def with_order_def need_def errE_def)
    then have "\<exists>spk sp slk s. isOk (handle_record_pre_ship_scan key spk sp slk s (easy oid o'))" by blast
    then show ?thesis using A_preShip by (simp add: accepts_in_def)
  next
    case A_ship
    then show ?thesis using off by (simp add: accepts_in_def handle_ship_def with_order_def need_def)
  next
    case A_receipt
    have "isOk (handle_record_receipt_scan key [] (late_proof key) [1] (own_seal o' False) (od_seller_scan o')
        ((late_proof key)\<lparr>sp_seal := [2]\<rparr>) (easy oid o'))"
      using off A_receipt late_check [OF t(2)]
      by (auto simp: handle_record_receipt_scan_def with_order_def need_def errE_def late_proof_def)
    then have "\<exists>spk sp slk s ssk ss. isOk (handle_record_receipt_scan key spk sp slk s ssk ss (easy oid o'))" by blast
    then show ?thesis using A_receipt by (simp add: accepts_in_def)
  next
    case A_release
    have "isOk (handle_release oid (all_accs o') (easy oid o'))"
      using off A_release easy_settle by (simp add: handle_release_def with_order_def need_def)
    then show ?thesis using A_release by (auto simp: accepts_in_def)
  next
    case A_refundNotShipped
    have "is_funded (od_state o')" using off A_refundNotShipped by auto
    then have "isOk (handle_dispute oid cfg key None (all_accs o') now (easy oid o'))"
      using off A_refundNotShipped t(3) assms(4)
      by (auto simp: easy_refund handle_dispute_def with_order_def need_def errE_def buyer_dispute_reason_def)
    then show ?thesis using A_refundNotShipped off by (auto simp: accepts_in_def)
  next
    case A_releaseAfterTimeout
    have "isOk (handle_release_after_timeout oid (all_accs o') now (easy oid o'))"
      using off A_releaseAfterTimeout t(4) easy_settle
      by (simp add: handle_release_after_timeout_def check_release_after_timeout_def with_order_def errE_def)
    then show ?thesis using A_releaseAfterTimeout by (auto simp: accepts_in_def)
  next
    case A_disputeSealDead
    have "is_funded (od_state o')" using off A_disputeSealDead by auto
    then have "isOk (handle_dispute oid cfg key (Some (own_seal o' dead)) (all_accs o') now (easy oid o'))"
      using off A_disputeSealDead assms(4)
      by (auto simp: easy_refund handle_dispute_def with_order_def need_def errE_def buyer_dispute_reason_def own_seal_def)
    then show ?thesis using A_disputeSealDead off
      by (auto simp: accepts_in_def own_seal_def intro!: exI [of _ "own_seal o' dead"] exI [of _ "all_accs o'"])
  next
    case A_adminRefund
    have "is_funded (od_state o')" using off A_adminRefund by (auto simp: admin_may_refund_def)
    then have "isOk (handle_dispute oid cfg key None (all_accs o') now (easy oid o'))"
      using off A_adminRefund by (auto simp: easy_refund handle_dispute_def with_order_def need_def)
    then show ?thesis using A_adminRefund off by (auto simp: accepts_in_def)
  next
    case A_resolve
    have "isOk (handle_resolve oid cfg key True (od_seller o') (all_accs o') (easy oid o'))"
      using off A_resolve by (auto simp: easy_refund handle_resolve_def with_order_def need_def)
    then show ?thesis using A_resolve by (auto simp: accepts_in_def)
  next
    case A_close
    then show ?thesis using off by (simp add: accepts_in_def handle_close_order_def with_order_def need_def)
  qed
qed

section \<open>Examples\<close>

lemma one_byte_not_default [simp]: "[x] \<noteq> default_pubkey"
  by (auto simp: default_pubkey_def dest: arg_cong [where f = length])

definition demo_order :: order_acc where
  "demo_order = \<lparr>od_passport = [7], od_seller = [1], od_buyer = [2], od_asset = [3], od_price = 480000000,
     od_state = RESERVED, od_listed_at = 100, od_reserved_at = 200, od_shipped_at = 0,
     od_seller_scan = default_pubkey, od_buyer_scan = default_pubkey, od_dispute_after_s = 604800,
     od_asset_deposited = False\<rparr>"

definition demo_config :: escrow_config where
  "demo_config = \<lparr>cf_admin = [9], cf_usdc_mint = [8], cf_dispute_after_s = 604800\<rparr>"

definition demo_pass :: passport where
  "demo_pass = \<lparr>pp_serial_hash = [], pp_binding_hash = [], pp_asset = [3], pp_issuer = [1],
     pp_grade = GRADE_A, pp_scan_count = 0, pp_seal_count = 0, pp_void = False, pp_created_at = 0\<rparr>"

definition demo_reg :: registry where
  "demo_reg = \<lparr>rg_authority = [0], rg_server_keys = [], rg_partners = [], rg_sites = []\<rparr>"

definition demo_start :: market where
  "demo_start = \<lparr>mk_order = None, mk_vault = None, mk_usdc = (\<lambda>k. if k = [2] then 500000000 else 0),
     mk_asset_owner = Some [1], mk_in_collection = False\<rparr>"

definition demo_listed :: market where
  "demo_listed = demo_start\<lparr>mk_order := Some (demo_order\<lparr>od_buyer := default_pubkey, od_state := LISTED, od_reserved_at := 0\<rparr>)\<rparr>"

definition demo_reserved :: market where
  "demo_reserved = demo_listed\<lparr>mk_usdc := (mk_usdc demo_listed)([2] := 20000000),
     mk_vault := Some 480000000, mk_order := Some demo_order\<rparr>"

definition demo_refunded :: market where
  "demo_refunded = demo_reserved\<lparr>mk_usdc := (mk_usdc demo_reserved)([2] := 500000000), mk_vault := None,
     mk_order := Some (demo_order\<lparr>od_state := DISPUTE, od_asset_deposited := False\<rparr>)\<rparr>"

lemmas demo_market_defs = demo_order_def demo_config_def demo_pass_def demo_reg_def demo_start_def demo_listed_def
  demo_reserved_def demo_refunded_def

lemma demo_list_step: "market_step [5] demo_start demo_listed"
proof (rule market_step.list)
  show "handle_list demo_config demo_reg [7] demo_pass [1] 100 480000000 demo_start = Inr demo_listed"
    by (simp add: handle_list_def demo_market_defs need_def errE_def check_seller_of_def check_seller_def
        effective_window_def MIN_DISPUTE_AFTER_S_def MAX_DISPUTE_AFTER_S_def)
qed

lemma demo_reserve_step: "market_step [5] demo_listed demo_reserved"
proof (rule market_step.reserve)
  show "handle_reserve demo_reg [7] demo_pass [2] 200 480000000 demo_listed = Inr demo_reserved"
    by (simp add: handle_reserve_def with_order_def demo_market_defs need_def errE_def check_seller_of_def
        check_seller_def fund_vault_def)
  show "([2] :: pubkey) \<noteq> default_pubkey" by simp
qed

lemma demo_refund_step: "market_step [5] demo_reserved demo_refunded"
proof (rule market_step.dispute)
  show "handle_dispute [5] demo_config [2] None None 700000 demo_reserved = Inr demo_refunded"
    by (simp add: handle_dispute_def with_order_def demo_market_defs need_def errE_def buyer_dispute_reason_def
        elapsed_def effective_window_def MIN_DISPUTE_AFTER_S_def MAX_DISPUTE_AFTER_S_def I64_MAX_def I64_MIN_def
        drain_vault_def return_asset_def)
qed

lemma demo_reserved_reach: "market_reach [5] demo_reserved"
proof -
  have "market_reach [5] demo_start" by (rule market_reach.init) (simp_all add: demo_start_def)
  then show ?thesis by (intro market_reach.step [OF market_reach.step [OF _ demo_list_step] demo_reserve_step])
qed

section \<open>Properties\<close>

text \<open>C3: the order page offers what the program accepts. For every action, \<open>availableActions\<close> on the
  order as the page sees it, the connected wallet and the clock contains the action exactly when the
  program's handler accepts it from that wallet at that time, in some state of the accounts the page
  does not look at. (The admin of the escrow is taken not to be the order's buyer: the program gives
  an admin's dispute precedence over the buyer's.)\<close>

theorem offered_actions_accepted:
  assumes "market_ok oid m" "mk_order m = Some o'" "times_ok o'" "cf_admin cfg \<noteq> od_buyer o'"
  shows "a \<in> set (availableActions (like o') (viewer_of cfg o' key dead) now) \<longleftrightarrow>
    program_accepts oid cfg o' key dead now a"
proof -
  have ok: "order_ok oid m o'" by (rule market_ok_Some [OF assms(1,2)])
  show ?thesis
    unfolding program_accepts_def
    using accepts_sound [OF _ _ _ assms(4)] accepts_complete [OF ok assms(3) _ assms(4)] easy_ok [OF ok] easy_simps(1)
    by blast
qed

theorem offered_actions_accepted_witness:
  "program_accepts [5] demo_config demo_order [2] False 700000 A_refundNotShipped \<and>
   \<not> program_accepts [5] demo_config demo_order [2] False 600000 A_refundNotShipped"
proof -
  have t: "times_ok demo_order" by (simp add: times_ok_def demo_order_def MAX_DISPUTE_AFTER_S_def I64_MAX_def)
  have a: "cf_admin demo_config \<noteq> od_buyer demo_order" by (simp add: demo_market_defs)
  have o': "mk_order demo_reserved = Some demo_order" by (simp add: demo_reserved_def)
  note iff = offered_actions_accepted [OF market_reach_ok [OF demo_reserved_reach] o' t a]
  show ?thesis
    unfolding iff [symmetric] offered_iff
    by (simp add: demo_order_def effective_window_def MIN_DISPUTE_AFTER_S_def MAX_DISPUTE_AFTER_S_def)
qed

text \<open>C5: custody. In every reachable state a vault exists exactly while the order is funded and holds at
  least the price, the buyer of a funded order is not its seller, and a deposited asset belongs to
  the Order address.\<close>

theorem escrow_custody:
  assumes "market_reach oid m"
  shows "case mk_order m of
      None \<Rightarrow> mk_vault m = None
    | Some o' \<Rightarrow> (if is_funded (od_state o') then \<exists>v \<ge> od_price o'. mk_vault m = Some v else mk_vault m = None) \<and>
        (od_asset_deposited o' \<longrightarrow> mk_asset_owner m = Some oid) \<and>
        (is_funded (od_state o') \<longrightarrow> od_buyer o' \<noteq> od_seller o')"
  using market_reach_ok [OF assms] by (auto simp: market_ok_def order_ok_def split: option.splits)

theorem escrow_custody_witness: "\<exists>v \<ge> 480000000. mk_vault demo_reserved = Some v"
  using escrow_custody [OF demo_reserved_reach]
  by (auto simp: demo_reserved_def demo_order_def)

text \<open>C4: settlement. When a step ends a funded order, its whole vault, at least the price, goes to the
  seller and the deposited asset to the buyer (RELEASED), or the vault goes back to the buyer and the
  asset to the seller (DISPUTE); nobody else is paid. Until then no step changes seller, buyer, price,
  passport, asset or window, and states only move along \<open>follows\<close>.\<close>

theorem escrow_settlement:
  assumes "market_reach oid m" "market_step oid m m'" "mk_order m = Some o'" "is_funded (od_state o')"
  shows "\<exists>o''. mk_order m' = Some o'' \<and> same_deal o' o'' \<and>
    (od_state o'' = od_state o' \<or> od_state o'' \<in> set (follows (od_state o'))) \<and>
    (\<not> is_funded (od_state o'') \<longrightarrow>
      (\<exists>v payee asset_to. mk_vault m = Some v \<and> od_price o' \<le> v \<and>
         (od_state o'', payee, asset_to) \<in> {(RELEASED, od_seller o', od_buyer o'), (DISPUTE, od_buyer o', od_seller o')} \<and>
         mk_usdc m' = (mk_usdc m)(payee := mk_usdc m payee + v) \<and> mk_vault m' = None \<and>
         (od_asset_deposited o' \<longrightarrow> mk_asset_owner m' = Some asset_to)))"
proof -
  have ok: "order_ok oid m o'" by (rule market_ok_Some [OF market_reach_ok [OF assms(1)] assms(3)])
  then obtain v where v: "mk_vault m = Some v" "od_price o' \<le> v" using assms(4) by (auto simp: order_ok_def)
  show ?thesis
  proof (cases "\<exists>o''. mk_order m' = Some o'' \<and> is_funded (od_state o'')")
    case True
    then show ?thesis using step_order [OF assms(2,3)] by blast
  next
    case False
    then have "paid_out oid m o' RELEASED (od_seller o') (od_buyer o') m' \<or>
         paid_out oid m o' DISPUTE (od_buyer o') (od_seller o') m'"
      using settlement [OF assms(2-4)] by blast
    then obtain st payee asset_to where p: "paid_out oid m o' st payee asset_to m'"
      and st: "(st, payee, asset_to) \<in> {(RELEASED, od_seller o', od_buyer o'), (DISPUTE, od_buyer o', od_seller o')}"
      by blast
    let ?o = "o'\<lparr>od_state := st, od_asset_deposited := False\<rparr>"
    have "mk_order m' = Some ?o" "mk_usdc m' = (mk_usdc m)(payee := mk_usdc m payee + v)" "mk_vault m' = None"
      "od_asset_deposited o' \<longrightarrow> mk_asset_owner m' = Some asset_to"
      using p v(1) by (auto simp: paid_out_def split: if_splits)
    moreover have "od_state ?o = st" by simp
    ultimately show ?thesis using step_order [OF assms(2,3), of ?o] st v by blast
  qed
qed

theorem escrow_settlement_witness:
  "\<exists>o''. mk_order demo_refunded = Some o'' \<and> same_deal demo_order o''"
proof -
  have "mk_order demo_reserved = Some demo_order" "is_funded (od_state demo_order)"
    by (simp_all add: demo_reserved_def demo_order_def)
  from escrow_settlement [OF demo_reserved_reach demo_refund_step this] show ?thesis by blast
qed

text \<open>\<open>scanFitsStep\<close> and \<open>effectiveWindow\<close> are the program's rules: a scan the page offers for a step
  is one \<open>check_scan_not_before\<close> lets through, and the deadlines use the program's clamped window, which
  lies between one hour and sixty days and leaves every window in that range as it is.\<close>

theorem page_rules_are_program_rules:
  assumes "I64_MIN \<le> scanTs"
  shows "(scanFitsStep (like o') PreShip scanTs \<longleftrightarrow> isOk (check_scan_not_before scanTs (od_reserved_at o'))) \<and>
    (scanFitsStep (like o') Receipt scanTs \<longleftrightarrow> isOk (check_scan_not_before scanTs (od_shipped_at o'))) \<and>
    effectiveWindow d = effective_window d \<and> isOk (check_window (effectiveWindow d)) \<and>
    (isOk (check_window d) \<longleftrightarrow> effectiveWindow d = d)"
  using assms
  by (auto simp: scanFitsStep_def like_def check_scan_not_before_def SCAN_TS_SKEW_S_def MAX_SCAN_TS_SKEW_S_def
      guardE_def effective_window_eq check_window_def effectiveWindow_def MIN_DISPUTE_AFTER_S_def MAX_DISPUTE_AFTER_S_def)

theorem page_rules_are_program_rules_witness:
  "scanFitsStep (like demo_order) PreShip 1000 \<longleftrightarrow> isOk (check_scan_not_before 1000 200)"
  using page_rules_are_program_rules [of 1000 demo_order] by (simp add: I64_MIN_def demo_order_def)

end
