(* ===== verification/FV_Json.thy ===== *)
theory FV_Json
  imports FV_Text
begin

text \<open>
  JSON values as JavaScript sees them after \<open>JSON.parse\<close>, member access and the \<open>typeof\<close> tests the
  code uses. An object is the association list of its own properties in insertion order; reading a
  missing property gives \<open>undefined\<close>, here \<open>None\<close>.
\<close>

datatype json = JNull | JBool bool | JNum js_num | JStr string | JArr "json list" | JObj "(string \<times> json) list"

fun jget :: "json \<Rightarrow> string \<Rightarrow> json option" where
  "jget (JObj ps) k = map_of ps k"
| "jget _ k = None"

text \<open>\<open>a ?? b\<close>: the first operand that is neither null nor undefined.\<close>

fun nullish :: "json option \<Rightarrow> bool" where
  "nullish None = True"
| "nullish (Some JNull) = True"
| "nullish _ = False"

definition coalesce :: "json option \<Rightarrow> json option \<Rightarrow> json option" where
  "coalesce a b = (if nullish a then b else a)"

fun jstring :: "json option \<Rightarrow> string option" where
  "jstring (Some (JStr s)) = Some s"
| "jstring _ = None"

fun jnumber :: "json option \<Rightarrow> js_num option" where
  "jnumber (Some (JNum n)) = Some n"
| "jnumber _ = None"

fun jbool :: "json option \<Rightarrow> bool option" where
  "jbool (Some (JBool b)) = Some b"
| "jbool _ = None"

fun is_object :: "json option \<Rightarrow> bool" where
  "is_object (Some (JObj _)) = True"
| "is_object (Some (JArr _)) = True"
| "is_object _ = False"

fun jtruthy :: "json option \<Rightarrow> bool" where
  "jtruthy None = False"
| "jtruthy (Some JNull) = False"
| "jtruthy (Some (JBool b)) = b"
| "jtruthy (Some (JNum n)) = (n \<noteq> jn 0 \<and> n \<noteq> NaN)"
| "jtruthy (Some (JStr s)) = (s \<noteq> [])"
| "jtruthy (Some _) = True"

section \<open>JSON.stringify\<close>

text \<open>
  The text of a whole number below 10^21 is its decimal digits; the shortest decimal of any other
  finite number is the argument \<open>fmt\<close>. A number that is not finite is written \<open>null\<close>.
\<close>

definition num_text :: "(rat \<Rightarrow> string) \<Rightarrow> js_num \<Rightarrow> string" where
  "num_text fmt n = (case n of
     Fin q \<Rightarrow> if of_int \<lfloor>q\<rfloor> = q \<and> \<bar>q\<bar> < 10 ^ 21 then show_int \<lfloor>q\<rfloor> else fmt q
   | _ \<Rightarrow> ''null'')"

definition hex_digit :: "nat \<Rightarrow> char" where
  "hex_digit d = (if d < 10 then digit_char d else char_of (87 + d))"

definition esc_char :: "char \<Rightarrow> string" where
  "esc_char c =
    (if code c = 34 then [CHR 0x5C, CHR 0x22]
     else if code c = 92 then [CHR 0x5C, CHR 0x5C]
     else if code c = 8 then [CHR 0x5C, CHR ''b'']
     else if code c = 9 then [CHR 0x5C, CHR ''t'']
     else if code c = 10 then [CHR 0x5C, CHR ''n'']
     else if code c = 12 then [CHR 0x5C, CHR ''f'']
     else if code c = 13 then [CHR 0x5C, CHR ''r'']
     else if code c < 32 then [CHR 0x5C, CHR ''u'', CHR ''0'', CHR ''0'', hex_digit (code c div 16), hex_digit (code c mod 16)]
     else [c])"

definition quote :: "string \<Rightarrow> string" where
  "quote s = CHR 0x22 # concat (map esc_char s) @ [CHR 0x22]"

fun comma_sep :: "string list \<Rightarrow> string" where
  "comma_sep [] = []"
| "comma_sep [s] = s"
| "comma_sep (s # t # ss) = s @ CHR '','' # comma_sep (t # ss)"

fun stringify :: "(rat \<Rightarrow> string) \<Rightarrow> json \<Rightarrow> string" where
  "stringify fmt JNull = ''null''"
| "stringify fmt (JBool b) = (if b then ''true'' else ''false'')"
| "stringify fmt (JNum n) = num_text fmt n"
| "stringify fmt (JStr s) = quote s"
| "stringify fmt (JArr xs) = ''['' @ comma_sep (map (stringify fmt) xs) @ '']''"
| "stringify fmt (JObj ps) =
     ''{'' @ comma_sep (map (\<lambda>(k, v). quote k @ '':'' @ stringify fmt v) ps) @ ''}''"

end
