(* ===== verification/Web_Flacon.thy ===== *)
theory Web_Flacon
  imports Flacon_History FV_Json
begin

text \<open>
  \<open>apps/web/src/lib/flacon.ts\<close>: program-derived addresses, reading passports, seals and Core assets from
  raw account data, and \<open>buildRecordScanTx\<close>, which turns the verifier's answer into the transaction
  \<open>[Ed25519 verification, record_scan]\<close>.

  \<open>findProgramAddressSync\<close>, the RPC and the constants of web3.js are arguments (\<open>chain_lib\<close>, an account
  lookup); what \<open>Ed25519Program.createInstructionWithPublicKey\<close> lays out is \<open>ed_ix_data\<close>.
\<close>

record chain_lib =
  cl_find :: "bytes list \<Rightarrow> pubkey \<Rightarrow> pubkey"
  cl_ata :: "pubkey \<Rightarrow> pubkey \<Rightarrow> pubkey"
  cl_system :: pubkey
  cl_token :: pubkey
  cl_sysvar_instructions :: pubkey
  cl_program :: pubkey

record account_info =
  ai_owner :: pubkey
  ai_data :: bytes

definition seed_of :: "string \<Rightarrow> bytes" where
  "seed_of k = utf8 (the (map_of PDA_SEEDS k))"

definition registryPda :: "chain_lib \<Rightarrow> pubkey" where
  "registryPda L = cl_find L [seed_of ''registry''] (cl_program L)"

definition passportPda :: "chain_lib \<Rightarrow> bytes \<Rightarrow> pubkey" where
  "passportPda L sh = cl_find L [seed_of ''passport'', sh] (cl_program L)"

definition sealPda :: "chain_lib \<Rightarrow> bytes \<Rightarrow> pubkey" where
  "sealPda L uh = cl_find L [seed_of ''seal'', uh] (cl_program L)"

text \<open>\<open>setUint32\<close> stores a number modulo 2^32.\<close>

definition scanPda :: "chain_lib \<Rightarrow> pubkey \<Rightarrow> int \<Rightarrow> pubkey" where
  "scanPda L sl counter = cl_find L [seed_of ''scan'', sl, le_bytes 4 (nat (counter mod 2 ^ 32))] (cl_program L)"

definition WEB_MAX_SEALS_PER_PASSPORT :: int where "WEB_MAX_SEALS_PER_PASSPORT = 2"
definition WEB_MAX_SCAN_TS_SKEW_S :: int where "WEB_MAX_SCAN_TS_SKEW_S = 600"

section \<open>Reading accounts\<close>

record passport_chain =
  pc_pubkey :: pubkey
  pc_asset :: pubkey
  pc_issuer :: pubkey
  pc_grade :: int
  pc_scanCount :: int
  pc_sealCount :: int
  pc_void :: bool

definition fetchPassportChain ::
  "chain_lib \<Rightarrow> (pubkey \<Rightarrow> account_info option) \<Rightarrow> pubkey \<Rightarrow> passport_chain option" where
  "fetchPassportChain L getAccountInfo pda =
    (case getAccountInfo pda of
       None \<Rightarrow> None
     | Some info \<Rightarrow>
         if ai_owner info \<noteq> cl_program L \<or> length (ai_data info) < 143 then None
         else let d = ai_data info in
           Some \<lparr>pc_pubkey = pda, pc_asset = slice 72 104 d, pc_issuer = slice 104 136 d,
                 pc_grade = uint (d ! 136), pc_scanCount = int (le_val (slice 137 141 d)),
                 pc_sealCount = uint (d ! 141), pc_void = (d ! 142 = 1)\<rparr>)"

record seal_state =
  sx_uidHash :: string
  sx_pda :: pubkey
  sx_exists :: bool
  sx_dead :: bool
  sx_passport :: "pubkey option"

definition fetchSealState :: "chain_lib \<Rightarrow> string \<Rightarrow> pubkey \<Rightarrow> account_info option \<Rightarrow> seal_state" where
  "fetchSealState L uid pda info =
    (let ok = (case info of Some i \<Rightarrow> length (ai_data i) \<ge> 78 \<and> ai_owner i = cl_program L | None \<Rightarrow> False);
         d = (case info of Some i \<Rightarrow> ai_data i | None \<Rightarrow> [])
     in \<lparr>sx_uidHash = uid, sx_pda = pda, sx_exists = ok, sx_dead = (ok \<and> d ! 77 = 1),
         sx_passport = (if ok then Some (slice 8 40 d) else None)\<rparr>)"

fun map_err :: "('a \<Rightarrow> 'e + 'b) \<Rightarrow> 'a list \<Rightarrow> 'e + 'b list" where
  "map_err f [] = Inr []"
| "map_err f (x # xs) = bindE (f x) (\<lambda>y. bindE (map_err f xs) (\<lambda>ys. Inr (y # ys)))"

definition fetchSealStates ::
  "chain_lib \<Rightarrow> (pubkey list \<Rightarrow> account_info option list) \<Rightarrow> string list \<Rightarrow> proof_error + seal_state list" where
  "fetchSealStates L getMultipleAccountsInfo uidHashesHex =
    bindE (map_err (\<lambda>h. bindE (hexToBytes h) (\<lambda>b. Inr (sealPda L b))) uidHashesHex) (\<lambda>pdas.
    let infos = (if pdas \<noteq> [] then getMultipleAccountsInfo pdas else [])
    in Inr (map (\<lambda>i. fetchSealState L (uidHashesHex ! i) (pdas ! i) (if i < length infos then infos ! i else None))
             [0..<length uidHashesHex]))"

record core_asset_info =
  cx_owner :: pubkey
  cx_inCollection :: bool

definition fetchCoreAsset :: "(pubkey \<Rightarrow> account_info option) \<Rightarrow> pubkey \<Rightarrow> core_asset_info option" where
  "fetchCoreAsset getAccountInfo asset =
    (case getAccountInfo asset of
       None \<Rightarrow> None
     | Some info \<Rightarrow>
         if ai_owner info \<noteq> MPL_CORE_PROGRAM_ID \<or> length (ai_data info) < 34 \<or> ai_data info ! 0 \<noteq> 1 then None
         else Some \<lparr>cx_owner = slice 1 33 (ai_data info), cx_inCollection = (ai_data info ! 33 = 2)\<rparr>)"

section \<open>The record_scan transaction\<close>

record verify_response =
  vr_verdict :: string
  vr_counter :: int
  vr_serverSig :: "string option"
  vr_serverPubkey :: string
  vr_keyId :: int
  vr_msgHex :: string
  vr_heatLevels :: "js_num list option"
  vr_bundleHash :: string

record record_scan_args =
  ra_counter :: js_num
  ra_tier :: int
  ra_role :: int
  ra_tamper :: js_num
  ra_uv :: js_num
  ra_hum :: js_num
  ra_heat :: js_num
  ra_heatLevels :: int
  ra_fill :: js_num
  ra_siteId :: int
  ra_mediaHash :: bytes
  ra_bundleHash :: bytes
  ra_nonce :: bytes
  ra_ts :: int
  ra_serverKeyId :: int

record scan_tx =
  tx_ed_pubkey :: bytes
  tx_ed_message :: bytes
  tx_ed_signature :: bytes
  tx_args :: record_scan_args
  tx_accounts :: "(string \<times> pubkey) list"
  tx_feePayer :: pubkey
  tx_scanProof :: pubkey

datatype build_error = NoServerSignature string | Proof proof_error

definition proofE :: "proof_error + 'a \<Rightarrow> build_error + 'a" where
  "proofE r = (case r of Inl e \<Rightarrow> Inl (Proof e) | Inr x \<Rightarrow> Inr x)"

definition buildRecordScanTx ::
  "chain_lib \<Rightarrow> pubkey \<Rightarrow> verify_response \<Rightarrow> int \<Rightarrow> int \<Rightarrow> int option \<Rightarrow> build_error + scan_tx" where
  "buildRecordScanTx L attester v tier role siteId =
    bindE (case vr_serverSig v of Some s \<Rightarrow> if s = [] then Inl (NoServerSignature (vr_verdict v)) else Inr s
             | None \<Rightarrow> Inl (NoServerSignature (vr_verdict v))) (\<lambda>serverSig.
    bindE (proofE (hexToBytes (vr_msgHex v))) (\<lambda>msg.
    bindE (proofE (parseScanMessage msg)) (\<lambda>m.
    let sl = sealPda L (sf_uidHash m);
        pp = passportPda L (sf_serialHash m);
        scanProof = scanPda L sl (js_floor (sf_counter m));
        heatLevels = (case vr_heatLevels v of Some l \<Rightarrow> l | None \<Rightarrow> replicate 6 (jn 0)) in
    bindE (proofE (heatLevelsToMask heatLevels)) (\<lambda>mask.
    bindE (proofE (hexToBytes (vr_bundleHash v))) (\<lambda>bundleHash.
    bindE (proofE (hexToBytes (vr_serverPubkey v))) (\<lambda>pubkey.
    bindE (proofE (hexToBytes serverSig)) (\<lambda>signature.
    Inr \<lparr>tx_ed_pubkey = pubkey, tx_ed_message = msg, tx_ed_signature = signature,
      tx_args = \<lparr>ra_counter = sf_counter m, ra_tier = tier, ra_role = role, ra_tamper = sf_tamper m,
        ra_uv = sf_uv m, ra_hum = sf_hum m, ra_heat = sf_heat m, ra_heatLevels = mask, ra_fill = sf_fill m,
        ra_siteId = (case siteId of Some s \<Rightarrow> s | None \<Rightarrow> 0), ra_mediaHash = sf_mediaHash m,
        ra_bundleHash = bundleHash, ra_nonce = sf_nonce m, ra_ts = sf_ts_int m, ra_serverKeyId = vr_keyId v\<rparr>,
      tx_accounts = [(''registry'', registryPda L), (''passport'', pp), (''seal'', sl),
        (''scanProof'', scanProof), (''attester'', attester), (''instructions'', cl_sysvar_instructions L),
        (''systemProgram'', cl_system L)],
      tx_feePayer = attester, tx_scanProof = scanProof\<rparr>)))))))"

section \<open>Lemmas\<close>

text \<open>The Borsh encoding of a passport account: discriminator, then the fields in order.\<close>

definition borsh_passport :: "bytes \<Rightarrow> byte \<Rightarrow> passport \<Rightarrow> bytes" where
  "borsh_passport disc bump p = disc @ pp_serial_hash p @ pp_binding_hash p @ pp_asset p @ pp_issuer p @ [pp_grade p] @
     le_bytes 4 (unat (pp_scan_count p)) @ [pp_seal_count p, if pp_void p then 1 else 0] @
     le_bytes 8 (unat (pp_created_at p)) @ [bump]"

definition passport_sizes :: "passport \<Rightarrow> bool" where
  "passport_sizes p \<longleftrightarrow> length (pp_serial_hash p) = 32 \<and> length (pp_binding_hash p) = 32 \<and>
     length (pp_asset p) = 32 \<and> length (pp_issuer p) = 32"

definition borsh_seal :: "bytes \<Rightarrow> byte \<Rightarrow> seal \<Rightarrow> bytes" where
  "borsh_seal disc bump s = disc @ sl_passport s @ [sl_kind s] @ sl_uid_hash s @ le_bytes 4 (unat (sl_last_counter s)) @
     [if sl_dead s then 1 else 0] @ le_bytes 8 (unat (sl_attached_at s)) @ [bump]"

lemma le_val_word32: "le_val (le_bytes 4 (unat (w :: 32 word))) = unat w"
  using unsigned_less [of w, where 'a = nat] by (simp add: le_val_bytes)

text \<open>The instruction arguments as the program receives them (Borsh truncates nothing here).\<close>

definition program_args :: "record_scan_args \<Rightarrow> scan_args" where
  "program_args a = \<lparr>sa_counter = word_of_int (js_floor (ra_counter a)), sa_tier = word_of_int (ra_tier a),
     sa_role = word_of_int (ra_role a), sa_tamper = sf_byte (ra_tamper a), sa_uv = sf_byte (ra_uv a),
     sa_hum = sf_byte (ra_hum a), sa_heat = sf_byte (ra_heat a), sa_heat_levels = word_of_int (ra_heatLevels a),
     sa_fill = sf_byte (ra_fill a), sa_site_id = word_of_int (ra_siteId a), sa_media_hash = ra_mediaHash a,
     sa_bundle_hash = ra_bundleHash a, sa_nonce = ra_nonce a, sa_ts = word_of_int (ra_ts a),
     sa_server_key_id = word_of_int (ra_serverKeyId a)\<rparr>"

lemma proofE_Inr [simp]: "proofE r = Inr x \<longleftrightarrow> r = Inr x"
  by (cases r) (simp_all add: proofE_def)

text \<open>A parsed message, read back from the transaction's arguments.\<close>

lemma parse_fields_form:
  assumes "parseScanMessage msg = Inr m"
  shows "sf_counter m = jn (int (le_val (slice 71 75 msg)))" "le_val (slice 71 75 msg) < 2 ^ 32"
    "sf_tamper m = byte_num (msg ! 75)" "sf_uv m = byte_num (msg ! 76)" "sf_hum m = byte_num (msg ! 77)"
    "sf_heat m = byte_num (msg ! 78)" "sf_fill m = byte_num (msg ! 79)"
    "sf_ts m = BigNum (get_i64 (slice 144 152 msg))" "sf_hashes_ok m"
  using assms le_val_bound [of "slice 71 75 msg"]
  by (auto simp: parseScanMessage_def sf_hashes_ok_def MSG_LEN_def split: if_splits)

lemma sint_i64: "- (2 ^ 63) \<le> v \<Longrightarrow> v < 2 ^ 63 \<Longrightarrow> sint (word_of_int v :: 64 word) = v"
  by (simp add: signed_of_int signed_take_bit_int_eq_self)

lemma tx_Inr:
  assumes "buildRecordScanTx L att v tier role site = Inr t"
  obtains m mask where "parseScanMessage (tx_ed_message t) = Inr m"
    "hexToBytes (vr_msgHex v) = Inr (tx_ed_message t)"
    "tx_args t = \<lparr>ra_counter = sf_counter m, ra_tier = tier, ra_role = role, ra_tamper = sf_tamper m,
        ra_uv = sf_uv m, ra_hum = sf_hum m, ra_heat = sf_heat m, ra_heatLevels = mask, ra_fill = sf_fill m,
        ra_siteId = (case site of Some s \<Rightarrow> s | None \<Rightarrow> 0), ra_mediaHash = sf_mediaHash m,
        ra_bundleHash = ra_bundleHash (tx_args t), ra_nonce = sf_nonce m, ra_ts = sf_ts_int m,
        ra_serverKeyId = vr_keyId v\<rparr>"
    "tx_accounts t = [(''registry'', registryPda L), (''passport'', passportPda L (sf_serialHash m)),
       (''seal'', sealPda L (sf_uidHash m)), (''scanProof'', tx_scanProof t), (''attester'', att),
       (''instructions'', cl_sysvar_instructions L), (''systemProgram'', cl_system L)]"
    "heatLevelsToMask (case vr_heatLevels v of Some l \<Rightarrow> l | None \<Rightarrow> replicate 6 (jn 0)) = Inr mask"
  using assms by (auto simp: buildRecordScanTx_def bindE_eq_Inr Let_def split: option.splits if_splits)

text \<open>The field set the program rebuilds from those arguments is the parsed one.\<close>

lemma ts_fields_of_tx:
  assumes m: "parseScanMessage msg = Inr m"
    and a: "ra_counter a = sf_counter m" "ra_tamper a = sf_tamper m" "ra_uv a = sf_uv m" "ra_hum a = sf_hum m"
      "ra_heat a = sf_heat m" "ra_fill a = sf_fill m" "ra_mediaHash a = sf_mediaHash m" "ra_nonce a = sf_nonce m"
      "ra_ts a = sf_ts_int m"
    and k: "pp_serial_hash p = sf_serialHash m" "sl_uid_hash s = sf_uidHash m"
  shows "ts_fields (args_fields p s (program_args a)) = m"
    and "rust_fields_ok (args_fields p s (program_args a))"
proof -
  note f = parse_fields_form [OF m]
  have len: "length (slice 144 152 msg) = 8" using parse_Inr(1) [OF m] by simp
  have ts: "sint (word_of_int (sf_ts_int m) :: 64 word) = sf_ts_int m"
    using get_i64_range [OF len] f(8) by (simp add: sf_ts_int_def sint_i64)
  have c: "jn (uint (word_of_int (js_floor (sf_counter m)) :: 32 word)) = sf_counter m"
    unfolding f(1) js_floor_jn using f(2) by (simp only: uint_word_of_int) simp
  have "sf_ts m = BigNum (sf_ts_int m)" using f(8) by (simp add: sf_ts_int_def)
  then show "ts_fields (args_fields p s (program_args a)) = m"
    unfolding ts_fields_def args_fields_def program_args_def
    using a k ts c f(3-7) by (intro scan_fields.equality) simp_all
  show "rust_fields_ok (args_fields p s (program_args a))"
    using f(9) a k by (simp add: rust_fields_ok_def args_fields_def program_args_def sf_hashes_ok_def)
qed

section \<open>Properties\<close>

text \<open>C7: the transaction the app builds carries the message the program rebuilds. When
  \<open>buildRecordScanTx\<close> succeeds on a verifier answer, the arguments it puts into \<open>record_scan\<close> and the
  passport and seal of the message's hashes make \<open>build_scan_message\<close> return the signed bytes of the
  first instruction exactly, so the \<open>MessageMismatch\<close> check cannot fail; the Ed25519 instruction parses
  to the server's key and those bytes; and the accounts are the addresses of exactly these hashes.\<close>

theorem record_scan_tx_matches:
  assumes t: "buildRecordScanTx L att v tier role site = Inr t"
    and k: "pp_serial_hash p = slice 7 39 (tx_ed_message t)" "sl_uid_hash s = slice 39 71 (tx_ed_message t)"
  shows "build_scan_message (args_fields p s (program_args (tx_args t))) = tx_ed_message t \<and>
    (length (tx_ed_pubkey t) = 32 \<and> length (tx_ed_signature t) = 64 \<longrightarrow>
      parse_single_ed25519 (ed_ix_data (tx_ed_pubkey t) (tx_ed_signature t) (tx_ed_message t)) i =
        Inr (tx_ed_pubkey t, tx_ed_message t)) \<and>
    map_of (tx_accounts t) ''passport'' = Some (passportPda L (pp_serial_hash p)) \<and>
      map_of (tx_accounts t) ''seal'' = Some (sealPda L (sl_uid_hash s)) \<and>
      0 \<le> ra_heatLevels (tx_args t) \<and> ra_heatLevels (tx_args t) < 64"
proof -
  from t obtain m mask where m: "parseScanMessage (tx_ed_message t) = Inr m"
    and a: "tx_args t = \<lparr>ra_counter = sf_counter m, ra_tier = tier, ra_role = role, ra_tamper = sf_tamper m,
        ra_uv = sf_uv m, ra_hum = sf_hum m, ra_heat = sf_heat m, ra_heatLevels = mask, ra_fill = sf_fill m,
        ra_siteId = (case site of Some s \<Rightarrow> s | None \<Rightarrow> 0), ra_mediaHash = sf_mediaHash m,
        ra_bundleHash = ra_bundleHash (tx_args t), ra_nonce = sf_nonce m, ra_ts = sf_ts_int m,
        ra_serverKeyId = vr_keyId v\<rparr>"
    and acc: "tx_accounts t = [(''registry'', registryPda L), (''passport'', passportPda L (sf_serialHash m)),
       (''seal'', sealPda L (sf_uidHash m)), (''scanProof'', tx_scanProof t), (''attester'', att),
       (''instructions'', cl_sysvar_instructions L), (''systemProgram'', cl_system L)]"
    and mask: "heatLevelsToMask (case vr_heatLevels v of Some l \<Rightarrow> l | None \<Rightarrow> replicate 6 (jn 0)) = Inr mask"
    by (rule tx_Inr)
  have h: "sf_serialHash m = slice 7 39 (tx_ed_message t)" "sf_uidHash m = slice 39 71 (tx_ed_message t)"
    using m by (auto simp: parseScanMessage_def split: if_splits)
  have args: "ra_counter (tx_args t) = sf_counter m" "ra_tamper (tx_args t) = sf_tamper m" "ra_uv (tx_args t) = sf_uv m"
    "ra_hum (tx_args t) = sf_hum m" "ra_heat (tx_args t) = sf_heat m" "ra_fill (tx_args t) = sf_fill m"
    "ra_mediaHash (tx_args t) = sf_mediaHash m" "ra_nonce (tx_args t) = sf_nonce m" "ra_ts (tx_args t) = sf_ts_int m"
    "ra_heatLevels (tx_args t) = mask"
    by (subst a, simp)+
  have f: "ts_fields (args_fields p s (program_args (tx_args t))) = m" "rust_fields_ok (args_fields p s (program_args (tx_args t)))"
    using ts_fields_of_tx [OF m args(1-9), of p s] k h by simp_all
  have 1: "build_scan_message (args_fields p s (program_args (tx_args t))) = tx_ed_message t"
    using message_of_ts_fields [OF f(2)] parse_Inr(2) [OF m] f(1) by simp
  have 2: "parse_single_ed25519 (ed_ix_data (tx_ed_pubkey t) (tx_ed_signature t) (tx_ed_message t)) i =
        Inr (tx_ed_pubkey t, tx_ed_message t)" if "length (tx_ed_pubkey t) = 32" "length (tx_ed_signature t) = 64"
    using parse_ed_ix_data [OF that] parse_Inr(1) [OF m] by simp
  have 3: "map_of (tx_accounts t) ''passport'' = Some (passportPda L (pp_serial_hash p)) \<and>
      map_of (tx_accounts t) ''seal'' = Some (sealPda L (sl_uid_hash s)) \<and>
      0 \<le> ra_heatLevels (tx_args t) \<and> ra_heatLevels (tx_args t) < 64"
    using k h mask_bound [OF mask] fold_mask(3) [OF mask] by (simp add: acc args(10))
  from 1 2 3 show ?thesis by blast
qed

definition sample_lib :: chain_lib where
  "sample_lib = \<lparr>cl_find = (\<lambda>seeds prog. concat seeds), cl_ata = (\<lambda>o' m. o'), cl_system = replicate 32 0,
     cl_token = replicate 32 1, cl_sysvar_instructions = replicate 32 2, cl_program = replicate 32 3\<rparr>"

definition sample_response :: verify_response where
  "sample_response = \<lparr>vr_verdict = ''VALID'', vr_counter = 7, vr_serverSig = Some (bytesToHex (replicate 64 5) True),
     vr_serverPubkey = bytesToHex (replicate 32 4) True, vr_keyId = 1,
     vr_msgHex = bytesToHex (message_of sample_fields) False, vr_heatLevels = None,
     vr_bundleHash = bytesToHex (replicate 32 6) True\<rparr>"

lemma sample_tx:
  obtains t where "buildRecordScanTx sample_lib [9] sample_response 1 2 None = Inr t"
    "tx_ed_message t = message_of sample_fields" "tx_ed_pubkey t = replicate 32 4" "tx_ed_signature t = replicate 64 5"
proof -
  have ne: "bytesToHex (replicate 64 5) True \<noteq> []" by (simp add: bytesToHex_def)
  obtain mask where mask: "heatLevelsToMask (replicate 6 (jn 0)) = Inr mask" by (simp add: heatLevelsToMask_def)
  show ?thesis
    using that ne mask parse_message_of [OF sample_fields_ok]
    by (simp add: buildRecordScanTx_def sample_response_def hex_roundtrip proofE_def Let_def)
qed

theorem record_scan_tx_matches_witness:
  "\<exists>(p :: passport) (s :: seal) (t :: scan_tx).
     build_scan_message (args_fields p s (program_args (tx_args t))) = message_of sample_fields"
proof -
  obtain t where t: "buildRecordScanTx sample_lib [9] sample_response 1 2 None = Inr t"
    "tx_ed_message t = message_of sample_fields" by (rule sample_tx)
  define p where "p = demo_passport\<lparr>pp_serial_hash := slice 7 39 (tx_ed_message t)\<rparr>"
  define s where "s = demo_seal\<lparr>sl_uid_hash := slice 39 71 (tx_ed_message t)\<rparr>"
  have "build_scan_message (args_fields p s (program_args (tx_args t))) = tx_ed_message t"
    using record_scan_tx_matches [OF t(1), of p s] by (simp add: p_def s_def)
  then show ?thesis using t(2) by metis
qed

text \<open>\<open>fetchPassportChain\<close> reads a passport account the way the program writes it: on the Borsh bytes
  of any passport it returns its asset, issuer, grade, scan count, seal count and void flag.\<close>

theorem passport_account_read:
  assumes "passport_sizes p" "length disc = 8"
    and "getAccountInfo k = Some \<lparr>ai_owner = cl_program L, ai_data = borsh_passport disc bump p\<rparr>"
  shows "fetchPassportChain L getAccountInfo k = Some \<lparr>pc_pubkey = k, pc_asset = pp_asset p, pc_issuer = pp_issuer p,
    pc_grade = uint (pp_grade p), pc_scanCount = int (unat (pp_scan_count p)), pc_sealCount = uint (pp_seal_count p),
    pc_void = pp_void p\<rparr>"
proof -
  let ?d = "borsh_passport disc bump p"
  have d: "length ?d = 152" "slice 72 104 ?d = pp_asset p" "slice 104 136 ?d = pp_issuer p"
    "?d ! 136 = pp_grade p" "slice 137 141 ?d = le_bytes 4 (unat (pp_scan_count p))"
    "?d ! 141 = pp_seal_count p" "?d ! 142 = (if pp_void p then 1 else 0)"
    using assms(1,2) by (simp_all add: borsh_passport_def passport_sizes_def slice_def nth_append del: le_bytes.simps)
  show ?thesis
    using assms(3) d by (simp add: fetchPassportChain_def le_val_word32 del: le_bytes.simps)
qed

theorem passport_account_read_witness:
  "\<exists>c. fetchPassportChain sample_lib (\<lambda>k. Some \<lparr>ai_owner = replicate 32 3,
     ai_data = borsh_passport (replicate 8 7) 255 demo_passport\<rparr>) [1] = Some c \<and> pc_issuer c = replicate 32 1"
proof -
  have "passport_sizes demo_passport" by (simp add: passport_sizes_def demo_passport_def)
  from passport_account_read [OF this, of "replicate 8 7" "\<lambda>k. Some \<lparr>ai_owner = replicate 32 3,
     ai_data = borsh_passport (replicate 8 7) 255 demo_passport\<rparr>" "[1]" sample_lib 255]
  show ?thesis by (simp add: sample_lib_def demo_passport_def)
qed

end
