(* ===== verification/Idl_Types.thy ===== *)
theory Idl_Types
  imports FV_Text
begin

text \<open>
  The shape of an Anchor IDL as \<open>packages/proof/src/idl\<close> stores it (camel-case names, the \<open>docs\<close>
  strings left out), Borsh sizes of its types, and the offsets of an account's fields after the
  8-byte discriminator.
\<close>

datatype idl_type =
  U8 | U16 | U32 | U64 | I64 | Bool | Pubkey | Bytes | Array idl_type nat | Vec idl_type | Defined string

datatype idl_seed = SeedConst "nat list" | SeedArg string | SeedAccount string "string option"

record idl_account =
  ia_name :: string
  ia_writable :: bool
  ia_signer :: bool
  ia_optional :: bool
  ia_address :: "string option"
  ia_seeds :: "idl_seed list option"
  ia_program :: "nat list option"
  ia_relations :: "string list"

record idl_instruction =
  ii_name :: string
  ii_discriminator :: "nat list"
  ii_accounts :: "idl_account list"
  ii_args :: "(string \<times> idl_type) list"

record idl_typedef =
  it_name :: string
  it_fields :: "(string \<times> idl_type) list"

record idl_error =
  ie_code :: nat
  ie_name :: string
  ie_msg :: string

record idl_constant =
  ic_name :: string
  ic_type :: idl_type
  ic_value :: string

record idl =
  idl_address :: string
  idl_instructions :: "idl_instruction list"
  idl_accounts :: "(string \<times> nat list) list"
  idl_events :: "(string \<times> nat list) list"
  idl_errors :: "idl_error list"
  idl_types :: "idl_typedef list"
  idl_constants :: "idl_constant list"

definition idl_acc :: "string \<Rightarrow> bool \<Rightarrow> bool \<Rightarrow> bool \<Rightarrow> idl_account" where
  "idl_acc n w s opt = \<lparr>ia_name = n, ia_writable = w, ia_signer = s, ia_optional = opt, ia_address = None,
     ia_seeds = None, ia_program = None, ia_relations = []\<rparr>"

text \<open>Borsh sizes of the fixed-size types; a defined type is looked up, \<open>fuel\<close> bounds the nesting.\<close>

fun idl_size :: "nat \<Rightarrow> idl_typedef list \<Rightarrow> idl_type \<Rightarrow> nat option" where
  "idl_size fuel ts U8 = Some 1"
| "idl_size fuel ts U16 = Some 2"
| "idl_size fuel ts U32 = Some 4"
| "idl_size fuel ts U64 = Some 8"
| "idl_size fuel ts I64 = Some 8"
| "idl_size fuel ts Bool = Some 1"
| "idl_size fuel ts Pubkey = Some 32"
| "idl_size fuel ts Bytes = None"
| "idl_size fuel ts (Vec t) = None"
| "idl_size fuel ts (Array t n) = map_option (\<lambda>k. n * k) (idl_size fuel ts t)"
| "idl_size 0 ts (Defined n) = None"
| "idl_size (Suc fuel) ts (Defined n) =
     (case List.find (\<lambda>t. it_name t = n) ts of
        None \<Rightarrow> None
      | Some t \<Rightarrow> foldr (\<lambda>(_, ty) rest. case (idl_size fuel ts ty, rest) of (Some a, Some b) \<Rightarrow> Some (a + b) | _ \<Rightarrow> None)
                    (it_fields t) (Some 0))"

text \<open>Offset of a field counted from the start of the account data (8 = after the discriminator).\<close>

fun offset_in :: "idl_typedef list \<Rightarrow> nat \<Rightarrow> (string \<times> idl_type) list \<Rightarrow> string \<Rightarrow> nat option" where
  "offset_in ts o' [] f = None"
| "offset_in ts o' ((n, ty) # fs) f =
     (if n = f then Some o' else
      case idl_size (Suc (Suc 0)) ts ty of None \<Rightarrow> None | Some k \<Rightarrow> offset_in ts (o' + k) fs f)"

definition field_offset :: "idl \<Rightarrow> string \<Rightarrow> string \<Rightarrow> nat option" where
  "field_offset i ty f =
     (case List.find (\<lambda>t. it_name t = ty) (idl_types i) of
        None \<Rightarrow> None | Some t \<Rightarrow> offset_in (idl_types i) 8 (it_fields t) f)"

definition account_size :: "idl \<Rightarrow> string \<Rightarrow> nat option" where
  "account_size i ty = map_option (\<lambda>k. 8 + k) (idl_size (Suc (Suc 0)) (idl_types i) (Defined ty))"

definition constant_value :: "idl \<Rightarrow> string \<Rightarrow> string option" where
  "constant_value i n = map_option ic_value (List.find (\<lambda>c. ic_name c = n) (idl_constants i))"

definition instruction :: "idl \<Rightarrow> string \<Rightarrow> idl_instruction option" where
  "instruction i n = List.find (\<lambda>x. ii_name x = n) (idl_instructions i)"

text \<open>An anchor error: code and message as a wallet shows them.\<close>

definition error_of :: "idl \<Rightarrow> nat \<Rightarrow> idl_error option" where
  "error_of i c = List.find (\<lambda>e. ie_code e = c) (idl_errors i)"

end
