(* ===== verification/Escrow_Idl.thy ===== *)
theory Escrow_Idl
  imports Idl_Types
begin

text \<open>
  \<open>packages/proof/src/idl/escrow.ts\<close>, entry by entry: the instructions with their accounts, the account
  and event discriminators, the error table, the types and the constants of the escrow program. The
  \<open>docs\<close> strings are left out; a non-ASCII character of a message is written as its UTF-8 bytes.
\<close>

section \<open>Instructions\<close>

definition escrow_ix_cancel :: idl_instruction where
  "escrow_ix_cancel = \<lparr>ii_name = ''cancel'',
    ii_discriminator = [232, 219, 223, 41, 219, 236, 220, 190],
    ii_accounts = [
      (idl_acc ''order'' True False False)\<lparr>ia_seeds := Some [SeedConst [111, 114, 100, 101, 114], SeedAccount ''order.passport'' (Some ''order''), SeedAccount ''order.seller'' (Some ''order'')]\<rparr>,
      (idl_acc ''seller'' True True False)\<lparr>ia_relations := [''order'']\<rparr>,
      idl_acc ''asset'' True False True,
      idl_acc ''mplCoreProgram'' False False True,
      (idl_acc ''systemProgram'' False False False)\<lparr>ia_address := Some ''11111111111111111111111111111111''\<rparr>],
    ii_args = []\<rparr>"

definition escrow_ix_closeOrder :: idl_instruction where
  "escrow_ix_closeOrder = \<lparr>ii_name = ''closeOrder'',
    ii_discriminator = [90, 103, 209, 28, 7, 63, 168, 4],
    ii_accounts = [
      (idl_acc ''order'' True False False)\<lparr>ia_seeds := Some [SeedConst [111, 114, 100, 101, 114], SeedAccount ''order.passport'' (Some ''order''), SeedAccount ''order.seller'' (Some ''order'')]\<rparr>,
      (idl_acc ''seller'' True True False)\<lparr>ia_relations := [''order'']\<rparr>],
    ii_args = []\<rparr>"

definition escrow_ix_depositAsset :: idl_instruction where
  "escrow_ix_depositAsset = \<lparr>ii_name = ''depositAsset'',
    ii_discriminator = [107, 93, 89, 87, 226, 203, 154, 19],
    ii_accounts = [
      (idl_acc ''order'' True False False)\<lparr>ia_seeds := Some [SeedConst [111, 114, 100, 101, 114], SeedAccount ''order.passport'' (Some ''order''), SeedAccount ''order.seller'' (Some ''order'')]\<rparr>,
      (idl_acc ''seller'' True True False)\<lparr>ia_relations := [''order'']\<rparr>,
      idl_acc ''asset'' True False False,
      (idl_acc ''mplCoreProgram'' False False False)\<lparr>ia_address := Some ''CoREENxT6tW1HoK8ypY1SxRMZTcVPm7R94rH4PZNhX7d''\<rparr>,
      (idl_acc ''systemProgram'' False False False)\<lparr>ia_address := Some ''11111111111111111111111111111111''\<rparr>],
    ii_args = []\<rparr>"

definition escrow_ix_dispute :: idl_instruction where
  "escrow_ix_dispute = \<lparr>ii_name = ''dispute'',
    ii_discriminator = [216, 92, 128, 146, 202, 85, 135, 73],
    ii_accounts = [
      (idl_acc ''config'' False False False)\<lparr>ia_seeds := Some [SeedConst [99, 111, 110, 102, 105, 103]]\<rparr>,
      (idl_acc ''order'' True False False)\<lparr>ia_seeds := Some [SeedConst [111, 114, 100, 101, 114], SeedAccount ''order.passport'' (Some ''order''), SeedAccount ''order.seller'' (Some ''order'')]\<rparr>,
      (idl_acc ''vault'' True False False)\<lparr>ia_seeds := Some [SeedConst [118, 97, 117, 108, 116], SeedAccount ''order'' None]\<rparr>,
      idl_acc ''buyerToken'' True False False,
      idl_acc ''buyer'' True False False,
      idl_acc ''seller'' False False False,
      idl_acc ''signer'' True True False,
      idl_acc ''seal'' False False True,
      idl_acc ''asset'' True False True,
      idl_acc ''mplCoreProgram'' False False True,
      (idl_acc ''tokenProgram'' False False False)\<lparr>ia_address := Some ''TokenkegQfeZyiNwAJbNbGKPFXCWuBvf9Ss623VQ5DA''\<rparr>,
      (idl_acc ''systemProgram'' False False False)\<lparr>ia_address := Some ''11111111111111111111111111111111''\<rparr>],
    ii_args = []\<rparr>"

definition escrow_ix_initConfig :: idl_instruction where
  "escrow_ix_initConfig = \<lparr>ii_name = ''initConfig'',
    ii_discriminator = [23, 235, 115, 232, 168, 96, 1, 231],
    ii_accounts = [
      (idl_acc ''config'' True False False)\<lparr>ia_seeds := Some [SeedConst [99, 111, 110, 102, 105, 103]]\<rparr>,
      idl_acc ''admin'' True True False,
      idl_acc ''usdcMint'' False False False,
      (idl_acc ''systemProgram'' False False False)\<lparr>ia_address := Some ''11111111111111111111111111111111''\<rparr>,
      (idl_acc ''program'' False False False)\<lparr>ia_address := Some ''9vabByStbAqKH6sM6fuf8HhfGZbV3993Ncp3uZScexKL''\<rparr>,
      idl_acc ''programData'' False False False],
    ii_args = [(''disputeAfterS'', I64)]\<rparr>"

definition escrow_ix_list :: idl_instruction where
  "escrow_ix_list = \<lparr>ii_name = ''list'',
    ii_discriminator = [54, 174, 193, 67, 17, 41, 132, 38],
    ii_accounts = [
      (idl_acc ''config'' False False False)\<lparr>ia_seeds := Some [SeedConst [99, 111, 110, 102, 105, 103]]\<rparr>,
      idl_acc ''passport'' False False False,
      (idl_acc ''order'' True False False)\<lparr>ia_seeds := Some [SeedConst [111, 114, 100, 101, 114], SeedAccount ''passport'' None, SeedAccount ''seller'' None]\<rparr>,
      idl_acc ''seller'' True True False,
      (idl_acc ''systemProgram'' False False False)\<lparr>ia_address := Some ''11111111111111111111111111111111''\<rparr>,
      idl_acc ''asset'' False False False,
      (idl_acc ''registry'' False False False)\<lparr>ia_seeds := Some [SeedConst [114, 101, 103, 105, 115, 116, 114, 121]],
        ia_program := Some [98, 108, 109, 16, 130, 102, 18, 115, 0, 222, 123, 19, 243, 219, 185, 85, 27, 118, 26, 151, 165, 135, 66, 155, 73, 126, 45, 144, 154, 70, 27, 41]\<rparr>],
    ii_args = [(''price'', U64)]\<rparr>"

definition escrow_ix_recordPreShipScan :: idl_instruction where
  "escrow_ix_recordPreShipScan = \<lparr>ii_name = ''recordPreShipScan'',
    ii_discriminator = [112, 252, 169, 209, 191, 114, 140, 158],
    ii_accounts = [
      (idl_acc ''order'' True False False)\<lparr>ia_seeds := Some [SeedConst [111, 114, 100, 101, 114], SeedAccount ''order.passport'' (Some ''order''), SeedAccount ''order.seller'' (Some ''order'')]\<rparr>,
      (idl_acc ''seller'' False True False)\<lparr>ia_relations := [''order'']\<rparr>,
      idl_acc ''scanProof'' False False False,
      idl_acc ''seal'' False False False],
    ii_args = []\<rparr>"

definition escrow_ix_recordReceiptScan :: idl_instruction where
  "escrow_ix_recordReceiptScan = \<lparr>ii_name = ''recordReceiptScan'',
    ii_discriminator = [192, 183, 232, 178, 90, 45, 91, 74],
    ii_accounts = [
      (idl_acc ''order'' True False False)\<lparr>ia_seeds := Some [SeedConst [111, 114, 100, 101, 114], SeedAccount ''order.passport'' (Some ''order''), SeedAccount ''order.seller'' (Some ''order'')]\<rparr>,
      (idl_acc ''buyer'' False True False)\<lparr>ia_relations := [''order'']\<rparr>,
      idl_acc ''scanProof'' False False False,
      idl_acc ''seal'' False False False,
      idl_acc ''sellerScan'' False False False],
    ii_args = []\<rparr>"

definition escrow_ix_release :: idl_instruction where
  "escrow_ix_release = \<lparr>ii_name = ''release'',
    ii_discriminator = [253, 249, 15, 206, 28, 127, 193, 241],
    ii_accounts = [
      (idl_acc ''config'' False False False)\<lparr>ia_seeds := Some [SeedConst [99, 111, 110, 102, 105, 103]]\<rparr>,
      (idl_acc ''order'' True False False)\<lparr>ia_seeds := Some [SeedConst [111, 114, 100, 101, 114], SeedAccount ''order.passport'' (Some ''order''), SeedAccount ''order.seller'' (Some ''order'')]\<rparr>,
      (idl_acc ''vault'' True False False)\<lparr>ia_seeds := Some [SeedConst [118, 97, 117, 108, 116], SeedAccount ''order'' None]\<rparr>,
      idl_acc ''sellerToken'' True False False,
      idl_acc ''buyer'' True False False,
      idl_acc ''caller'' True True False,
      idl_acc ''asset'' True False True,
      idl_acc ''mplCoreProgram'' False False True,
      (idl_acc ''tokenProgram'' False False False)\<lparr>ia_address := Some ''TokenkegQfeZyiNwAJbNbGKPFXCWuBvf9Ss623VQ5DA''\<rparr>,
      (idl_acc ''systemProgram'' False False False)\<lparr>ia_address := Some ''11111111111111111111111111111111''\<rparr>],
    ii_args = []\<rparr>"

definition escrow_ix_releaseAfterTimeout :: idl_instruction where
  "escrow_ix_releaseAfterTimeout = \<lparr>ii_name = ''releaseAfterTimeout'',
    ii_discriminator = [102, 1, 6, 82, 208, 207, 32, 7],
    ii_accounts = [
      (idl_acc ''config'' False False False)\<lparr>ia_seeds := Some [SeedConst [99, 111, 110, 102, 105, 103]]\<rparr>,
      (idl_acc ''order'' True False False)\<lparr>ia_seeds := Some [SeedConst [111, 114, 100, 101, 114], SeedAccount ''order.passport'' (Some ''order''), SeedAccount ''order.seller'' (Some ''order'')]\<rparr>,
      (idl_acc ''vault'' True False False)\<lparr>ia_seeds := Some [SeedConst [118, 97, 117, 108, 116], SeedAccount ''order'' None]\<rparr>,
      idl_acc ''sellerToken'' True False False,
      idl_acc ''buyer'' True False False,
      idl_acc ''caller'' True True False,
      idl_acc ''asset'' True False True,
      idl_acc ''mplCoreProgram'' False False True,
      (idl_acc ''tokenProgram'' False False False)\<lparr>ia_address := Some ''TokenkegQfeZyiNwAJbNbGKPFXCWuBvf9Ss623VQ5DA''\<rparr>,
      (idl_acc ''systemProgram'' False False False)\<lparr>ia_address := Some ''11111111111111111111111111111111''\<rparr>],
    ii_args = []\<rparr>"

definition escrow_ix_reserve :: idl_instruction where
  "escrow_ix_reserve = \<lparr>ii_name = ''reserve'',
    ii_discriminator = [92, 99, 244, 209, 28, 65, 213, 157],
    ii_accounts = [
      (idl_acc ''config'' False False False)\<lparr>ia_seeds := Some [SeedConst [99, 111, 110, 102, 105, 103]]\<rparr>,
      (idl_acc ''order'' True False False)\<lparr>ia_seeds := Some [SeedConst [111, 114, 100, 101, 114], SeedAccount ''order.passport'' (Some ''order''), SeedAccount ''order.seller'' (Some ''order'')]\<rparr>,
      idl_acc ''buyer'' True True False,
      idl_acc ''buyerToken'' True False False,
      idl_acc ''usdcMint'' False False False,
      (idl_acc ''vault'' True False False)\<lparr>ia_seeds := Some [SeedConst [118, 97, 117, 108, 116], SeedAccount ''order'' None]\<rparr>,
      (idl_acc ''tokenProgram'' False False False)\<lparr>ia_address := Some ''TokenkegQfeZyiNwAJbNbGKPFXCWuBvf9Ss623VQ5DA''\<rparr>,
      (idl_acc ''systemProgram'' False False False)\<lparr>ia_address := Some ''11111111111111111111111111111111''\<rparr>,
      idl_acc ''passport'' False False False,
      idl_acc ''asset'' False False False,
      (idl_acc ''registry'' False False False)\<lparr>ia_seeds := Some [SeedConst [114, 101, 103, 105, 115, 116, 114, 121]],
        ia_program := Some [98, 108, 109, 16, 130, 102, 18, 115, 0, 222, 123, 19, 243, 219, 185, 85, 27, 118, 26, 151, 165, 135, 66, 155, 73, 126, 45, 144, 154, 70, 27, 41]\<rparr>],
    ii_args = [(''expectedPrice'', U64)]\<rparr>"

definition escrow_ix_resolve :: idl_instruction where
  "escrow_ix_resolve = \<lparr>ii_name = ''resolve'',
    ii_discriminator = [246, 150, 236, 206, 108, 63, 58, 10],
    ii_accounts = [
      (idl_acc ''config'' False False False)\<lparr>ia_seeds := Some [SeedConst [99, 111, 110, 102, 105, 103]]\<rparr>,
      (idl_acc ''order'' True False False)\<lparr>ia_seeds := Some [SeedConst [111, 114, 100, 101, 114], SeedAccount ''order.passport'' (Some ''order''), SeedAccount ''order.seller'' (Some ''order'')]\<rparr>,
      (idl_acc ''vault'' True False False)\<lparr>ia_seeds := Some [SeedConst [118, 97, 117, 108, 116], SeedAccount ''order'' None]\<rparr>,
      idl_acc ''recipientToken'' True False False,
      idl_acc ''buyer'' True False False,
      idl_acc ''seller'' False False False,
      (idl_acc ''admin'' True True False)\<lparr>ia_relations := [''config'']\<rparr>,
      idl_acc ''asset'' True False True,
      idl_acc ''mplCoreProgram'' False False True,
      (idl_acc ''tokenProgram'' False False False)\<lparr>ia_address := Some ''TokenkegQfeZyiNwAJbNbGKPFXCWuBvf9Ss623VQ5DA''\<rparr>,
      (idl_acc ''systemProgram'' False False False)\<lparr>ia_address := Some ''11111111111111111111111111111111''\<rparr>],
    ii_args = [(''toSeller'', Bool)]\<rparr>"

definition escrow_ix_setDisputeWindow :: idl_instruction where
  "escrow_ix_setDisputeWindow = \<lparr>ii_name = ''setDisputeWindow'',
    ii_discriminator = [125, 232, 78, 47, 233, 47, 47, 237],
    ii_accounts = [
      (idl_acc ''config'' True False False)\<lparr>ia_seeds := Some [SeedConst [99, 111, 110, 102, 105, 103]]\<rparr>,
      (idl_acc ''admin'' False True False)\<lparr>ia_relations := [''config'']\<rparr>],
    ii_args = [(''disputeAfterS'', I64)]\<rparr>"

definition escrow_ix_ship :: idl_instruction where
  "escrow_ix_ship = \<lparr>ii_name = ''ship'',
    ii_discriminator = [174, 78, 207, 150, 205, 74, 165, 217],
    ii_accounts = [
      (idl_acc ''order'' True False False)\<lparr>ia_seeds := Some [SeedConst [111, 114, 100, 101, 114], SeedAccount ''order.passport'' (Some ''order''), SeedAccount ''order.seller'' (Some ''order'')]\<rparr>,
      (idl_acc ''seller'' False True False)\<lparr>ia_relations := [''order'']\<rparr>],
    ii_args = []\<rparr>"

section \<open>Accounts and events\<close>

definition escrow_accounts :: "(string \<times> nat list) list" where
  "escrow_accounts = [
    (''escrowConfig'', [138, 174, 227, 187, 239, 148, 1, 44]),
    (''order'', [134, 173, 223, 185, 77, 86, 28, 51])]"

definition escrow_events :: "(string \<times> nat list) list" where
  "escrow_events = [
    (''assetDeposited'', [97, 219, 56, 126, 243, 136, 59, 195]),
    (''configInitialized'', [181, 49, 200, 156, 19, 167, 178, 91]),
    (''disputeWindowUpdated'', [217, 172, 82, 208, 102, 92, 69, 196]),
    (''orderCancelled'', [108, 56, 128, 68, 168, 113, 168, 239]),
    (''orderClosed'', [237, 77, 101, 123, 72, 43, 149, 123]),
    (''orderDisputed'', [186, 104, 120, 36, 95, 130, 173, 128]),
    (''orderListed'', [235, 55, 154, 70, 133, 71, 114, 30]),
    (''orderReleased'', [171, 232, 93, 217, 184, 222, 234, 29]),
    (''orderReserved'', [31, 26, 190, 19, 176, 19, 69, 154]),
    (''orderResolved'', [24, 66, 224, 205, 6, 30, 63, 51]),
    (''orderShipped'', [200, 225, 83, 123, 179, 86, 221, 24]),
    (''preShipScanRecorded'', [228, 148, 141, 200, 112, 5, 58, 250]),
    (''receiptScanRecorded'', [192, 0, 126, 169, 221, 228, 135, 157])]"

section \<open>Errors\<close>

definition escrow_errors_1 :: "idl_error list" where
  "escrow_errors_1 = [
    \<lparr>ie_code = 6000, ie_name = ''invalidState'',
      ie_msg = ''Order is not in the required state for this instruction''\<rparr>,
    \<lparr>ie_code = 6001, ie_name = ''invalidPrice'',
      ie_msg = ''price must be > 0''\<rparr>,
    \<lparr>ie_code = 6002, ie_name = ''invalidDisputeWindow'',
      ie_msg = ''dispute_after_s must be between MIN_DISPUTE_AFTER_S (1 h) and MAX_DISPUTE_AFTER_S (60 days)''\<rparr>,
    \<lparr>ie_code = 6003, ie_name = ''passportVoid'',
      ie_msg = ''Passport is void''\<rparr>,
    \<lparr>ie_code = 6004, ie_name = ''notSeller'',
      ie_msg = (''Signer is not the order'' @ [CHR 0x27] @ ''s seller'')\<rparr>,
    \<lparr>ie_code = 6005, ie_name = ''notBuyer'',
      ie_msg = (''Signer is not the order'' @ [CHR 0x27] @ ''s buyer'')\<rparr>,
    \<lparr>ie_code = 6006, ie_name = ''sellerCannotBuy'',
      ie_msg = ''Seller cannot buy their own listing''\<rparr>,
    \<lparr>ie_code = 6007, ie_name = ''unauthorized'',
      ie_msg = ''Signer is neither the escrow admin nor an entitled party''\<rparr>,
    \<lparr>ie_code = 6008, ie_name = ''wrongMint'',
      ie_msg = ''Token account mint does not match the escrow USDC mint''\<rparr>,
    \<lparr>ie_code = 6009, ie_name = ''scanSealMismatch'',
      ie_msg = ''ScanProof does not belong to the given seal''\<rparr>,
    \<lparr>ie_code = 6010, ie_name = ''sealPassportMismatch'',
      ie_msg = (''Seal does not belong to the order'' @ [CHR 0x27] @ ''s passport'')\<rparr>,
    \<lparr>ie_code = 6011, ie_name = ''scanAttesterMismatch'',
      ie_msg = ''ScanProof attester is not the expected party''\<rparr>,
    \<lparr>ie_code = 6012, ie_name = ''sellerScanMismatch'',
      ie_msg = ''Given seller ScanProof is not the one recorded on the order''\<rparr>,
    \<lparr>ie_code = 6013, ie_name = ''receiptScanNotNewer'',
      ie_msg = ''Receipt scan on the same seal must have a higher counter than the pre-ship scan''\<rparr>,
    \<lparr>ie_code = 6014, ie_name = ''disputeWindowNotElapsed'',
      ie_msg = ''Dispute window after shipping has not elapsed yet''\<rparr>,
    \<lparr>ie_code = 6015, ie_name = ''sealNotDead'',
      ie_msg = ''Seal is not dead''\<rparr>,
    \<lparr>ie_code = 6016, ie_name = ''assetMismatch'',
      ie_msg = (''Asset account does not match the order'' @ [CHR 0x27] @ ''s asset'')\<rparr>,
    \<lparr>ie_code = 6017, ie_name = ''assetAlreadyDeposited'',
      ie_msg = ''Asset already deposited''\<rparr>,
    \<lparr>ie_code = 6018, ie_name = ''missingAssetAccounts'',
      ie_msg = ''Asset custody requires the asset and mpl-core program accounts''\<rparr>,
    \<lparr>ie_code = 6019, ie_name = ''invalidCoreProgram'',
      ie_msg = ''Not the Metaplex Core program''\<rparr>]"

definition escrow_errors_2 :: "idl_error list" where
  "escrow_errors_2 = [
    \<lparr>ie_code = 6020, ie_name = ''invalidAsset'',
      ie_msg = ''Asset account is not owned by Metaplex Core''\<rparr>,
    \<lparr>ie_code = 6021, ie_name = ''mathOverflow'',
      ie_msg = ''Arithmetic overflow''\<rparr>,
    \<lparr>ie_code = 6022, ie_name = ''priceChanged'',
      ie_msg = (''The order'' @ [CHR 0x27] @ ''s price differs from the price the buyer agreed to'')\<rparr>,
    \<lparr>ie_code = 6023, ie_name = ''notPassportOwner'',
      ie_msg = (''Seller is not the owner of the passport'' @ [CHR 0x27] @ ''s Core asset (or, without a Core asset, its issuer while still a partner)'')\<rparr>,
    \<lparr>ie_code = 6024, ie_name = ''receiptMatched'',
      ie_msg = ''The receipt scan matched the shipping scan: release the order instead of disputing it''\<rparr>,
    \<lparr>ie_code = 6025, ie_name = ''wrongTokenOwner'',
      ie_msg = ''Token account does not belong to the expected recipient''\<rparr>,
    \<lparr>ie_code = 6026, ie_name = ''scanBeforeOrderStep'',
      ie_msg = ''The scan is older than this order step: do a new scan after the reservation (shipping scan) or after shipping (receipt scan)''\<rparr>,
    \<lparr>ie_code = 6027, ie_name = ''deadSealAfterShipping'',
      ie_msg = ''The order is shipped: a dead seal is settled by the escrow admin, not by the buyer''\<rparr>]"

section \<open>Types\<close>

definition escrow_type_assetDeposited :: idl_typedef where
  "escrow_type_assetDeposited = \<lparr>it_name = ''assetDeposited'',
    it_fields = [(''order'', Pubkey), (''asset'', Pubkey), (''ts'', I64)]\<rparr>"

definition escrow_type_configInitialized :: idl_typedef where
  "escrow_type_configInitialized = \<lparr>it_name = ''configInitialized'',
    it_fields = [(''config'', Pubkey), (''admin'', Pubkey), (''usdcMint'', Pubkey), (''disputeAfterS'', I64)]\<rparr>"

definition escrow_type_disputeWindowUpdated :: idl_typedef where
  "escrow_type_disputeWindowUpdated = \<lparr>it_name = ''disputeWindowUpdated'',
    it_fields = [(''disputeAfterS'', I64)]\<rparr>"

definition escrow_type_escrowConfig :: idl_typedef where
  "escrow_type_escrowConfig = \<lparr>it_name = ''escrowConfig'',
    it_fields = [(''admin'', Pubkey), (''usdcMint'', Pubkey), (''disputeAfterS'', I64), (''bump'', U8)]\<rparr>"

definition escrow_type_order :: idl_typedef where
  "escrow_type_order = \<lparr>it_name = ''order'',
    it_fields = [(''passport'', Pubkey), (''seller'', Pubkey), (''buyer'', Pubkey), (''asset'', Pubkey),
      (''price'', U64), (''state'', U8), (''listedAt'', I64), (''reservedAt'', I64),
      (''shippedAt'', I64), (''sellerScan'', Pubkey), (''buyerScan'', Pubkey),
      (''disputeAfterS'', I64), (''assetDeposited'', Bool), (''bump'', U8), (''vaultBump'', U8)]\<rparr>"

definition escrow_type_orderCancelled :: idl_typedef where
  "escrow_type_orderCancelled = \<lparr>it_name = ''orderCancelled'',
    it_fields = [(''order'', Pubkey), (''seller'', Pubkey), (''ts'', I64)]\<rparr>"

definition escrow_type_orderClosed :: idl_typedef where
  "escrow_type_orderClosed = \<lparr>it_name = ''orderClosed'',
    it_fields = [(''order'', Pubkey), (''seller'', Pubkey), (''finalState'', U8)]\<rparr>"

definition escrow_type_orderDisputed :: idl_typedef where
  "escrow_type_orderDisputed = \<lparr>it_name = ''orderDisputed'',
    it_fields = [(''order'', Pubkey), (''by'', Pubkey), (''reason'', U8), (''previousState'', U8),
      (''refunded'', U64), (''assetReturned'', Bool), (''ts'', I64)]\<rparr>"

definition escrow_type_orderListed :: idl_typedef where
  "escrow_type_orderListed = \<lparr>it_name = ''orderListed'',
    it_fields = [(''order'', Pubkey), (''passport'', Pubkey), (''seller'', Pubkey), (''asset'', Pubkey),
      (''price'', U64), (''disputeAfterS'', I64), (''ts'', I64)]\<rparr>"

definition escrow_type_orderReleased :: idl_typedef where
  "escrow_type_orderReleased = \<lparr>it_name = ''orderReleased'',
    it_fields = [(''order'', Pubkey), (''seller'', Pubkey), (''buyer'', Pubkey), (''amount'', U64),
      (''assetTransferred'', Bool), (''ts'', I64)]\<rparr>"

definition escrow_type_orderReserved :: idl_typedef where
  "escrow_type_orderReserved = \<lparr>it_name = ''orderReserved'',
    it_fields = [(''order'', Pubkey), (''buyer'', Pubkey), (''price'', U64), (''vault'', Pubkey), (''ts'', I64)]\<rparr>"

definition escrow_type_orderResolved :: idl_typedef where
  "escrow_type_orderResolved = \<lparr>it_name = ''orderResolved'',
    it_fields = [(''order'', Pubkey), (''admin'', Pubkey), (''toSeller'', Bool), (''amount'', U64),
      (''assetTransferred'', Bool), (''ts'', I64)]\<rparr>"

definition escrow_type_orderShipped :: idl_typedef where
  "escrow_type_orderShipped = \<lparr>it_name = ''orderShipped'',
    it_fields = [(''order'', Pubkey), (''ts'', I64)]\<rparr>"

definition escrow_type_passport :: idl_typedef where
  "escrow_type_passport = \<lparr>it_name = ''passport'',
    it_fields = [(''serialHash'', Array U8 32), (''bindingHash'', Array U8 32), (''asset'', Pubkey),
      (''issuer'', Pubkey), (''grade'', U8), (''scanCount'', U32), (''sealCount'', U8),
      (''void'', Bool), (''createdAt'', I64), (''bump'', U8)]\<rparr>"

definition escrow_type_preShipScanRecorded :: idl_typedef where
  "escrow_type_preShipScanRecorded = \<lparr>it_name = ''preShipScanRecorded'',
    it_fields = [(''order'', Pubkey), (''scanProof'', Pubkey), (''counter'', U32), (''ts'', I64)]\<rparr>"

definition escrow_type_receiptScanRecorded :: idl_typedef where
  "escrow_type_receiptScanRecorded = \<lparr>it_name = ''receiptScanRecorded'',
    it_fields = [(''order'', Pubkey), (''scanProof'', Pubkey), (''counter'', U32), (''matched'', Bool),
      (''sellerFill'', U8), (''buyerFill'', U8), (''sellerHeat'', U8), (''buyerHeat'', U8),
      (''sellerHum'', U8), (''buyerHum'', U8), (''ts'', I64)]\<rparr>"

definition escrow_type_registry :: idl_typedef where
  "escrow_type_registry = \<lparr>it_name = ''registry'',
    it_fields = [(''authority'', Pubkey), (''serverKeys'', Vec (Defined ''serverKey'')),
      (''partners'', Vec Pubkey), (''sites'', Vec (Defined ''site'')), (''bump'', U8)]\<rparr>"

definition escrow_type_scanProof :: idl_typedef where
  "escrow_type_scanProof = \<lparr>it_name = ''scanProof'',
    it_fields = [(''seal'', Pubkey), (''counter'', U32), (''tier'', U8), (''role'', U8), (''tamper'', U8),
      (''uv'', U8), (''hum'', U8), (''heat'', U8), (''heatLevels'', U8), (''fill'', U8),
      (''siteId'', U16), (''mediaHash'', Array U8 32), (''bundleHash'', Array U8 32),
      (''attester'', Pubkey), (''serverKeyId'', U8), (''ts'', I64), (''bump'', U8)]\<rparr>"

definition escrow_type_seal :: idl_typedef where
  "escrow_type_seal = \<lparr>it_name = ''seal'',
    it_fields = [(''passport'', Pubkey), (''kind'', U8), (''uidHash'', Array U8 32), (''lastCounter'', U32),
      (''dead'', Bool), (''attachedAt'', I64), (''bump'', U8)]\<rparr>"

definition escrow_type_serverKey :: idl_typedef where
  "escrow_type_serverKey = \<lparr>it_name = ''serverKey'',
    it_fields = [(''keyId'', U8), (''pubkey'', Array U8 32), (''validFrom'', I64), (''validTo'', I64)]\<rparr>"

definition escrow_type_site :: idl_typedef where
  "escrow_type_site = \<lparr>it_name = ''site'',
    it_fields = [(''siteId'', U16), (''label'', Array U8 32)]\<rparr>"

section \<open>Constants\<close>

definition escrow_constants_1 :: "idl_constant list" where
  "escrow_constants_1 = [
    \<lparr>ic_name = ''configSeed'', ic_type = Bytes, ic_value = ''[99, 111, 110, 102, 105, 103]''\<rparr>,
    \<lparr>ic_name = ''defaultDisputeAfterS'', ic_type = I64, ic_value = ''604800''\<rparr>,
    \<lparr>ic_name = ''disputeReasonAdmin'', ic_type = U8, ic_value = ''0''\<rparr>,
    \<lparr>ic_name = ''disputeReasonMismatch'', ic_type = U8, ic_value = ''3''\<rparr>,
    \<lparr>ic_name = ''disputeReasonSealDead'', ic_type = U8, ic_value = ''2''\<rparr>,
    \<lparr>ic_name = ''disputeReasonTimeout'', ic_type = U8, ic_value = ''1''\<rparr>,
    \<lparr>ic_name = ''fillTolerance'', ic_type = U8, ic_value = ''5''\<rparr>,
    \<lparr>ic_name = ''maxDisputeAfterS'', ic_type = I64, ic_value = ''5184000''\<rparr>,
    \<lparr>ic_name = ''minDisputeAfterS'', ic_type = I64, ic_value = ''3600''\<rparr>,
    \<lparr>ic_name = ''mplCoreProgramId'', ic_type = Pubkey, ic_value = ''CoREENxT6tW1HoK8ypY1SxRMZTcVPm7R94rH4PZNhX7d''\<rparr>,
    \<lparr>ic_name = ''orderSeed'', ic_type = Bytes, ic_value = ''[111, 114, 100, 101, 114]''\<rparr>,
    \<lparr>ic_name = ''orderStateCancelled'', ic_type = U8, ic_value = ''8''\<rparr>,
    \<lparr>ic_name = ''orderStateDispute'', ic_type = U8, ic_value = ''7''\<rparr>,
    \<lparr>ic_name = ''orderStateListed'', ic_type = U8, ic_value = ''0''\<rparr>,
    \<lparr>ic_name = ''orderStateMismatch'', ic_type = U8, ic_value = ''6''\<rparr>,
    \<lparr>ic_name = ''orderStatePreshipScanned'', ic_type = U8, ic_value = ''2''\<rparr>,
    \<lparr>ic_name = ''orderStateReceiptScanned'', ic_type = U8, ic_value = ''4''\<rparr>,
    \<lparr>ic_name = ''orderStateReleased'', ic_type = U8, ic_value = ''5''\<rparr>,
    \<lparr>ic_name = ''orderStateReserved'', ic_type = U8, ic_value = ''1''\<rparr>,
    \<lparr>ic_name = ''orderStateShipped'', ic_type = U8, ic_value = ''3''\<rparr>]"

definition escrow_constants_2 :: "idl_constant list" where
  "escrow_constants_2 = [
    \<lparr>ic_name = ''vaultSeed'', ic_type = Bytes, ic_value = ''[118, 97, 117, 108, 116]''\<rparr>]"

section \<open>The IDL\<close>

definition escrow_idl :: idl where
  "escrow_idl = \<lparr>idl_address = ''9vabByStbAqKH6sM6fuf8HhfGZbV3993Ncp3uZScexKL'',
    idl_instructions = [escrow_ix_cancel, escrow_ix_closeOrder, escrow_ix_depositAsset, escrow_ix_dispute,
      escrow_ix_initConfig, escrow_ix_list, escrow_ix_recordPreShipScan, escrow_ix_recordReceiptScan,
      escrow_ix_release, escrow_ix_releaseAfterTimeout, escrow_ix_reserve, escrow_ix_resolve,
      escrow_ix_setDisputeWindow, escrow_ix_ship],
    idl_accounts = escrow_accounts, idl_events = escrow_events,
    idl_errors = escrow_errors_1 @ escrow_errors_2,
    idl_types = [escrow_type_assetDeposited, escrow_type_configInitialized, escrow_type_disputeWindowUpdated,
      escrow_type_escrowConfig, escrow_type_order, escrow_type_orderCancelled,
      escrow_type_orderClosed, escrow_type_orderDisputed, escrow_type_orderListed,
      escrow_type_orderReleased, escrow_type_orderReserved, escrow_type_orderResolved,
      escrow_type_orderShipped, escrow_type_passport, escrow_type_preShipScanRecorded,
      escrow_type_receiptScanRecorded, escrow_type_registry, escrow_type_scanProof, escrow_type_seal,
      escrow_type_serverKey, escrow_type_site],
    idl_constants = escrow_constants_1 @ escrow_constants_2\<rparr>"

lemmas escrow_instruction_defs =
  escrow_ix_cancel_def escrow_ix_closeOrder_def escrow_ix_depositAsset_def escrow_ix_dispute_def
  escrow_ix_initConfig_def escrow_ix_list_def escrow_ix_recordPreShipScan_def
  escrow_ix_recordReceiptScan_def escrow_ix_release_def escrow_ix_releaseAfterTimeout_def
  escrow_ix_reserve_def escrow_ix_resolve_def escrow_ix_setDisputeWindow_def escrow_ix_ship_def

lemmas escrow_type_defs =
  escrow_type_assetDeposited_def escrow_type_configInitialized_def
  escrow_type_disputeWindowUpdated_def escrow_type_escrowConfig_def escrow_type_order_def
  escrow_type_orderCancelled_def escrow_type_orderClosed_def escrow_type_orderDisputed_def
  escrow_type_orderListed_def escrow_type_orderReleased_def escrow_type_orderReserved_def
  escrow_type_orderResolved_def escrow_type_orderShipped_def escrow_type_passport_def
  escrow_type_preShipScanRecorded_def escrow_type_receiptScanRecorded_def escrow_type_registry_def
  escrow_type_scanProof_def escrow_type_seal_def escrow_type_serverKey_def escrow_type_site_def

lemmas escrow_table_defs =
  escrow_accounts_def escrow_events_def escrow_errors_1_def escrow_errors_2_def escrow_constants_1_def
  escrow_constants_2_def

end
