(* ===== verification/Escrow_Client.thy ===== *)
theory Escrow_Client
  imports Web_Flacon Escrow_Market Idl_Types Escrow_Idl "HOL-Library.Multiset"
begin

text \<open>
  \<open>apps/web/src/lib/escrow-ix.ts\<close>, the instruction builders of the escrow, and \<open>escrow.ts\<close>, the app's view
  of config and orders. A builder's result is the method name, its arguments, the accounts by name
  (an optional account may be null) and the instruction sent before it.
\<close>

section \<open>Addresses\<close>

record program =
  pr_lib :: chain_lib
  pr_id :: pubkey

definition configPdaOf :: "chain_lib \<Rightarrow> pubkey \<Rightarrow> pubkey" where
  "configPdaOf L programId = cl_find L [utf8 ''config''] programId"

definition orderPdaOf :: "chain_lib \<Rightarrow> pubkey \<Rightarrow> pubkey \<Rightarrow> pubkey \<Rightarrow> pubkey" where
  "orderPdaOf L programId pp_key seller = cl_find L [utf8 ''order'', pp_key, seller] programId"

definition vaultPdaOf :: "chain_lib \<Rightarrow> pubkey \<Rightarrow> pubkey \<Rightarrow> pubkey" where
  "vaultPdaOf L programId ord = cl_find L [utf8 ''vault'', ord] programId"

definition registryPdaOf :: "chain_lib \<Rightarrow> pubkey \<Rightarrow> pubkey" where
  "registryPdaOf L flaconProgramId = cl_find L [utf8 ''registry''] flaconProgramId"

definition ata :: "chain_lib \<Rightarrow> pubkey \<Rightarrow> pubkey \<Rightarrow> pubkey" where
  "ata L owner mint = cl_ata L mint owner"

datatype pre_ix = CreateAtaIdempotent (ca_payer: pubkey) (ca_account: pubkey) (ca_owner: pubkey) (ca_mint: pubkey)

definition ensureAtaIx :: "chain_lib \<Rightarrow> pubkey \<Rightarrow> pubkey \<Rightarrow> pubkey \<Rightarrow> pre_ix" where
  "ensureAtaIx L payer owner mint = CreateAtaIdempotent payer (ata L owner mint) owner mint"

section \<open>Builders\<close>

record ix_order =
  ix_pubkey :: pubkey
  ix_passport :: pubkey
  ix_seller :: pubkey
  ix_buyer :: "pubkey option"
  ix_asset :: pubkey
  ix_priceBase :: int
  ix_sellerScan :: "pubkey option"
  ix_assetDeposited :: bool

datatype ix_arg = ArgInt int | ArgBool bool

record ix_call =
  ic_method :: string
  ic_args :: "ix_arg list"
  ic_accounts :: "(string \<times> pubkey option) list"
  ic_pre :: "pre_ix list"

definition custody :: "'a ix_order_scheme \<Rightarrow> (string \<times> pubkey option) list" where
  "custody o' = (if ix_assetDeposited o'
     then [(''asset'', Some (ix_asset o')), (''mplCoreProgram'', Some MPL_CORE_PROGRAM_ID)]
     else [(''asset'', None), (''mplCoreProgram'', None)])"

definition releaseAccounts :: "program \<Rightarrow> 'a ix_order_scheme \<Rightarrow> pubkey \<Rightarrow> pubkey \<Rightarrow> (string \<times> pubkey option) list" where
  "releaseAccounts p o' caller usdcMint =
    [(''config'', Some (configPdaOf (pr_lib p) (pr_id p))), (''order'', Some (ix_pubkey o')),
     (''vault'', Some (vaultPdaOf (pr_lib p) (pr_id p) (ix_pubkey o'))),
     (''sellerToken'', Some (ata (pr_lib p) (ix_seller o') usdcMint)), (''buyer'', ix_buyer o'),
     (''caller'', Some caller)] @ custody o' @
    [(''tokenProgram'', Some (cl_token (pr_lib p))), (''systemProgram'', Some (cl_system (pr_lib p)))]"

datatype payout_path = P_release | P_releaseAfterTimeout | P_dispute | P_resolve

text \<open>\<open>o.buyer!\<close> may be null at run time; \<open>ata(null, mint)\<close> throws, so a builder that needs the token
  account of a missing owner has no result.\<close>

definition payoutRecipient :: "'a ix_order_scheme \<Rightarrow> payout_path \<Rightarrow> bool \<Rightarrow> pubkey option" where
  "payoutRecipient o' path toSeller =
    (if path = P_release \<or> path = P_releaseAfterTimeout then Some (ix_seller o')
     else if path = P_resolve \<and> toSeller then Some (ix_seller o')
     else ix_buyer o')"

definition with_pre :: "program \<Rightarrow> pubkey \<Rightarrow> pubkey option \<Rightarrow> pubkey \<Rightarrow> ix_call \<Rightarrow> ix_call option" where
  "with_pre p payer recipient mint c =
     map_option (\<lambda>r. c\<lparr>ic_pre := [ensureAtaIx (pr_lib p) payer r mint]\<rparr>) recipient"

definition ix_list :: "program \<Rightarrow> pubkey \<Rightarrow> pubkey \<Rightarrow> int \<Rightarrow> pubkey \<Rightarrow> pubkey \<Rightarrow> ix_call" where
  "ix_list p pp_key seller priceBase asset reg =
    \<lparr>ic_method = ''list'', ic_args = [ArgInt priceBase],
     ic_accounts = [(''config'', Some (configPdaOf (pr_lib p) (pr_id p))), (''passport'', Some pp_key),
       (''order'', Some (orderPdaOf (pr_lib p) (pr_id p) pp_key seller)), (''seller'', Some seller),
       (''systemProgram'', Some (cl_system (pr_lib p))), (''asset'', Some asset), (''registry'', Some reg)],
     ic_pre = []\<rparr>"

definition ix_depositAsset :: "program \<Rightarrow> pubkey \<Rightarrow> pubkey \<Rightarrow> pubkey \<Rightarrow> ix_call" where
  "ix_depositAsset p ord seller asset =
    \<lparr>ic_method = ''depositAsset'', ic_args = [],
     ic_accounts = [(''order'', Some ord), (''seller'', Some seller), (''asset'', Some asset),
       (''mplCoreProgram'', Some MPL_CORE_PROGRAM_ID), (''systemProgram'', Some (cl_system (pr_lib p)))],
     ic_pre = []\<rparr>"

definition ix_cancel :: "program \<Rightarrow> 'a ix_order_scheme \<Rightarrow> ix_call" where
  "ix_cancel p o' =
    \<lparr>ic_method = ''cancel'', ic_args = [],
     ic_accounts = [(''order'', Some (ix_pubkey o')), (''seller'', Some (ix_seller o'))] @ custody o' @
       [(''systemProgram'', Some (cl_system (pr_lib p)))],
     ic_pre = []\<rparr>"

definition ix_closeOrder :: "program \<Rightarrow> 'a ix_order_scheme \<Rightarrow> ix_call" where
  "ix_closeOrder p o' =
    \<lparr>ic_method = ''closeOrder'', ic_args = [],
     ic_accounts = [(''order'', Some (ix_pubkey o')), (''seller'', Some (ix_seller o'))], ic_pre = []\<rparr>"

definition ix_reserve ::
  "program \<Rightarrow> 'a ix_order_scheme \<Rightarrow> pubkey \<Rightarrow> pubkey \<Rightarrow> pubkey \<Rightarrow> int option \<Rightarrow> ix_call" where
  "ix_reserve p o' buyer usdcMint reg expectedPrice =
    \<lparr>ic_method = ''reserve'',
     ic_args = [ArgInt (case expectedPrice of Some e \<Rightarrow> e | None \<Rightarrow> ix_priceBase o')],
     ic_accounts = [(''config'', Some (configPdaOf (pr_lib p) (pr_id p))), (''order'', Some (ix_pubkey o')),
       (''buyer'', Some buyer), (''buyerToken'', Some (ata (pr_lib p) buyer usdcMint)), (''usdcMint'', Some usdcMint),
       (''vault'', Some (vaultPdaOf (pr_lib p) (pr_id p) (ix_pubkey o'))),
       (''tokenProgram'', Some (cl_token (pr_lib p))), (''systemProgram'', Some (cl_system (pr_lib p))),
       (''passport'', Some (ix_passport o')), (''asset'', Some (ix_asset o')), (''registry'', Some reg)],
     ic_pre = []\<rparr>"

definition ix_preShip :: "program \<Rightarrow> 'a ix_order_scheme \<Rightarrow> pubkey \<Rightarrow> pubkey \<Rightarrow> ix_call" where
  "ix_preShip p o' scanProof sl =
    \<lparr>ic_method = ''recordPreShipScan'', ic_args = [],
     ic_accounts = [(''order'', Some (ix_pubkey o')), (''seller'', Some (ix_seller o')), (''scanProof'', Some scanProof),
       (''seal'', Some sl)], ic_pre = []\<rparr>"

definition ix_ship :: "program \<Rightarrow> 'a ix_order_scheme \<Rightarrow> ix_call" where
  "ix_ship p o' =
    \<lparr>ic_method = ''ship'', ic_args = [],
     ic_accounts = [(''order'', Some (ix_pubkey o')), (''seller'', Some (ix_seller o'))], ic_pre = []\<rparr>"

definition ix_receipt :: "program \<Rightarrow> 'a ix_order_scheme \<Rightarrow> pubkey \<Rightarrow> pubkey \<Rightarrow> ix_call" where
  "ix_receipt p o' scanProof sl =
    \<lparr>ic_method = ''recordReceiptScan'', ic_args = [],
     ic_accounts = [(''order'', Some (ix_pubkey o')), (''buyer'', ix_buyer o'), (''scanProof'', Some scanProof),
       (''seal'', Some sl), (''sellerScan'', ix_sellerScan o')], ic_pre = []\<rparr>"

definition ix_release :: "program \<Rightarrow> 'a ix_order_scheme \<Rightarrow> pubkey \<Rightarrow> pubkey \<Rightarrow> ix_call option" where
  "ix_release p o' caller usdcMint =
     with_pre p caller (payoutRecipient o' P_release False) usdcMint
       \<lparr>ic_method = ''release'', ic_args = [], ic_accounts = releaseAccounts p o' caller usdcMint, ic_pre = []\<rparr>"

definition ix_releaseAfterTimeout :: "program \<Rightarrow> 'a ix_order_scheme \<Rightarrow> pubkey \<Rightarrow> pubkey \<Rightarrow> ix_call option" where
  "ix_releaseAfterTimeout p o' caller usdcMint =
     with_pre p caller (payoutRecipient o' P_releaseAfterTimeout False) usdcMint
       \<lparr>ic_method = ''releaseAfterTimeout'', ic_args = [], ic_accounts = releaseAccounts p o' caller usdcMint, ic_pre = []\<rparr>"

definition ix_dispute :: "program \<Rightarrow> 'a ix_order_scheme \<Rightarrow> pubkey \<Rightarrow> pubkey \<Rightarrow> pubkey option \<Rightarrow> ix_call option" where
  "ix_dispute p o' signer usdcMint sl =
    (case ix_buyer o' of None \<Rightarrow> None | Some buyer \<Rightarrow>
     with_pre p signer (payoutRecipient o' P_dispute False) usdcMint
     \<lparr>ic_method = ''dispute'', ic_args = [],
      ic_accounts = [(''config'', Some (configPdaOf (pr_lib p) (pr_id p))), (''order'', Some (ix_pubkey o')),
        (''vault'', Some (vaultPdaOf (pr_lib p) (pr_id p) (ix_pubkey o'))),
        (''buyerToken'', Some (ata (pr_lib p) buyer usdcMint)), (''buyer'', Some buyer), (''seller'', Some (ix_seller o')),
        (''signer'', Some signer), (''seal'', sl)] @ custody o' @
        [(''tokenProgram'', Some (cl_token (pr_lib p))), (''systemProgram'', Some (cl_system (pr_lib p)))],
      ic_pre = []\<rparr>)"

definition ix_resolve :: "program \<Rightarrow> 'a ix_order_scheme \<Rightarrow> pubkey \<Rightarrow> pubkey \<Rightarrow> bool \<Rightarrow> ix_call option" where
  "ix_resolve p o' admin usdcMint toSeller =
    (case payoutRecipient o' P_resolve toSeller of None \<Rightarrow> None | Some recipient \<Rightarrow>
     with_pre p admin (Some recipient) usdcMint
     \<lparr>ic_method = ''resolve'', ic_args = [ArgBool toSeller],
      ic_accounts = [(''config'', Some (configPdaOf (pr_lib p) (pr_id p))), (''order'', Some (ix_pubkey o')),
        (''vault'', Some (vaultPdaOf (pr_lib p) (pr_id p) (ix_pubkey o'))),
        (''recipientToken'', Some (ata (pr_lib p) recipient usdcMint)), (''buyer'', ix_buyer o'),
        (''seller'', Some (ix_seller o')), (''admin'', Some admin)] @ custody o' @
        [(''tokenProgram'', Some (cl_token (pr_lib p))), (''systemProgram'', Some (cl_system (pr_lib p)))],
      ic_pre = []\<rparr>)"

section \<open>The app's view (escrow.ts)\<close>

definition orderStateLabel :: "int \<Rightarrow> string option" where
  "orderStateLabel = map_of (zip [0, 1, 2, 3, 4, 5, 6, 7, 8]
     [''Listed'', ''Reserved'', ''Shipping scan recorded'', ''Shipped'', ''Receipt scan recorded'',
      ''Released'', ''Mismatch'', ''Dispute'', ''Cancelled''])"

datatype tone = Tone_ok | Tone_warn | Tone_bad | Tone_none

definition orderStateTone :: "int \<Rightarrow> tone" where
  "orderStateTone s = (if s = OrderState RELEASED then Tone_ok
     else if s = OrderState MISMATCH \<or> s = OrderState DISPUTE then Tone_bad
     else if s = OrderState CANCELLED then Tone_none else Tone_warn)"

definition WEB_FILL_TOLERANCE :: int where "WEB_FILL_TOLERANCE = 5"

record escrow_config_view =
  ec_admin :: pubkey
  ec_usdcMint :: pubkey
  ec_disputeAfterS :: int

record order_view = ix_order +
  ov_priceUsdc :: string
  ov_state :: int
  ov_listedAt :: int
  ov_reservedAt :: int
  ov_shippedAt :: int
  ov_buyerScan :: "pubkey option"
  ov_disputeAfterS :: int

definition nz :: "pubkey \<Rightarrow> pubkey option" where
  "nz k = (if k = default_pubkey then None else Some k)"

text \<open>The decoded account is the program's \<open>Order\<close>; \<open>priceUsdc\<close> is kept as the text its number is read from.\<close>

definition toView :: "pubkey \<Rightarrow> order_acc \<Rightarrow> order_view" where
  "toView k a = \<lparr>ix_pubkey = k, ix_passport = od_passport a, ix_seller = od_seller a, ix_buyer = nz (od_buyer a),
     ix_asset = od_asset a, ix_priceBase = int (od_price a), ix_sellerScan = nz (od_seller_scan a),
     ix_assetDeposited = od_asset_deposited a, ov_priceUsdc = formatUsdc (int (od_price a)),
     ov_state = OrderState (od_state a), ov_listedAt = od_listed_at a, ov_reservedAt = od_reserved_at a,
     ov_shippedAt = od_shipped_at a, ov_buyerScan = nz (od_buyer_scan a), ov_disputeAfterS = od_dispute_after_s a\<rparr>"

definition fetchConfig :: "chain_lib \<Rightarrow> pubkey \<Rightarrow> (pubkey \<Rightarrow> escrow_config option) \<Rightarrow> escrow_config_view option" where
  "fetchConfig L programId fetchNullable =
     map_option (\<lambda>c. \<lparr>ec_admin = cf_admin c, ec_usdcMint = cf_usdc_mint c, ec_disputeAfterS = cf_dispute_after_s c\<rparr>)
       (fetchNullable (configPdaOf L programId))"

definition fetchOrder :: "(pubkey \<Rightarrow> order_acc option) \<Rightarrow> pubkey \<Rightarrow> order_view option" where
  "fetchOrder fetchNullable k = map_option (toView k) (fetchNullable k)"

text \<open>A memcmp filter: offset and the bytes the account data must hold there.\<close>

definition order_filters :: "pubkey option \<Rightarrow> (nat \<times> bytes) list" where
  "order_filters pp_key = (case pp_key of None \<Rightarrow> [] | Some k \<Rightarrow> [(8, k)])"

definition fetchOrders ::
  "((nat \<times> bytes) list \<Rightarrow> (pubkey \<times> order_acc) list) \<Rightarrow> pubkey option \<Rightarrow> order_view list" where
  "fetchOrders getAll pp_key =
     sort_key (\<lambda>v. - ov_listedAt v) (map (\<lambda>(k, a). toView k a) (getAll (order_filters pp_key)))"

definition app_list :: "program \<Rightarrow> pubkey \<Rightarrow> pubkey \<Rightarrow> int \<Rightarrow> pubkey \<Rightarrow> ix_call" where
  "app_list p pp_key seller priceBase asset = ix_list p pp_key seller priceBase asset (registryPda (pr_lib p))"

definition app_reserve :: "program \<Rightarrow> order_view \<Rightarrow> pubkey \<Rightarrow> pubkey \<Rightarrow> int option \<Rightarrow> ix_call" where
  "app_reserve p o' buyer usdcMint expectedPrice =
     ix_reserve p o' buyer usdcMint (registryPda (pr_lib p))
       (Some (case expectedPrice of Some e \<Rightarrow> e | None \<Rightarrow> ix_priceBase o'))"

section \<open>Lemmas\<close>

text \<open>What \<open>accountsStrict\<close> and Anchor ask of a call: the instruction's accounts, each once, null only
  for optional ones, and one argument per parameter.\<close>

definition call_matches :: "idl \<Rightarrow> ix_call \<Rightarrow> bool" where
  "call_matches i c = (case instruction i (ic_method c) of
     None \<Rightarrow> False
   | Some x \<Rightarrow> distinct (map fst (ic_accounts c)) \<and>
       set (map fst (ic_accounts c)) = set (map ia_name (ii_accounts x)) \<and>
       (\<forall>(n, k) \<in> set (ic_accounts c). k = None \<longrightarrow> (\<exists>a \<in> set (ii_accounts x). ia_name a = n \<and> ia_optional a)) \<and>
       length (ic_args c) = length (ii_args x))"

lemma escrow_instructions:
  "instruction escrow_idl ''list'' = Some escrow_ix_list"
  "instruction escrow_idl ''depositAsset'' = Some escrow_ix_depositAsset"
  "instruction escrow_idl ''cancel'' = Some escrow_ix_cancel"
  "instruction escrow_idl ''closeOrder'' = Some escrow_ix_closeOrder"
  "instruction escrow_idl ''reserve'' = Some escrow_ix_reserve"
  "instruction escrow_idl ''recordPreShipScan'' = Some escrow_ix_recordPreShipScan"
  "instruction escrow_idl ''ship'' = Some escrow_ix_ship"
  "instruction escrow_idl ''recordReceiptScan'' = Some escrow_ix_recordReceiptScan"
  "instruction escrow_idl ''release'' = Some escrow_ix_release"
  "instruction escrow_idl ''releaseAfterTimeout'' = Some escrow_ix_releaseAfterTimeout"
  "instruction escrow_idl ''dispute'' = Some escrow_ix_dispute"
  "instruction escrow_idl ''resolve'' = Some escrow_ix_resolve"
  by (simp_all add: instruction_def escrow_idl_def escrow_instruction_defs)

text \<open>The value of an IDL seed, from the accounts of the call and the fields of the decoded order.\<close>

definition pda_seed_bytes :: "(string \<times> pubkey option) list \<Rightarrow> (string \<Rightarrow> bytes option) \<Rightarrow> idl_seed \<Rightarrow> bytes option" where
  "pda_seed_bytes accs field s = (case s of
     SeedConst bs \<Rightarrow> Some (map of_nat bs)
   | SeedArg _ \<Rightarrow> None
   | SeedAccount n None \<Rightarrow> Option.bind (map_of accs n) id
   | SeedAccount n (Some ty) \<Rightarrow> field n)"

text \<open>Every account the IDL gives seeds for is the address derived from those seeds, under the program
  itself or the one the IDL names.\<close>

definition pdas_match :: "program \<Rightarrow> idl \<Rightarrow> (string \<Rightarrow> bytes option) \<Rightarrow> ix_call \<Rightarrow> bool" where
  "pdas_match p i field c = (case instruction i (ic_method c) of
     None \<Rightarrow> False
   | Some x \<Rightarrow> list_all (\<lambda>a. case ia_seeds a of
         None \<Rightarrow> True
       | Some ss \<Rightarrow> list_all (\<lambda>s. pda_seed_bytes (ic_accounts c) field s \<noteq> None) ss \<and>
           map_of (ic_accounts c) (ia_name a) =
             Some (Some (cl_find (pr_lib p) (map (\<lambda>s. the (pda_seed_bytes (ic_accounts c) field s)) ss)
               (case ia_program a of None \<Rightarrow> pr_id p | Some bs \<Rightarrow> map of_nat bs)))) (ii_accounts x))"

definition call_ok :: "program \<Rightarrow> (string \<Rightarrow> bytes option) \<Rightarrow> ix_call option \<Rightarrow> bool" where
  "call_ok p field r = (case r of None \<Rightarrow> False | Some c \<Rightarrow> call_matches escrow_idl c \<and> pdas_match p escrow_idl field c)"

text \<open>The fields of an order that the IDL's seeds name.\<close>

definition order_field :: "'a ix_order_scheme \<Rightarrow> string \<Rightarrow> bytes option" where
  "order_field o' n = (if n = ''order.passport'' then Some (ix_passport o')
     else if n = ''order.seller'' then Some (ix_seller o') else None)"

lemmas call_simps = call_ok_def call_matches_def pdas_match_def escrow_instructions escrow_instruction_defs idl_acc_def
  pda_seed_bytes_def order_field_def custody_def with_pre_def payoutRecipient_def configPdaOf_def orderPdaOf_def
  vaultPdaOf_def registryPdaOf_def releaseAccounts_def

lemma seed_texts:
 "utf8 ''config'' = map of_nat [99, 111, 110, 102, 105, 103]"
 "utf8 ''order'' = map of_nat [111, 114, 100, 101, 114]"
 "utf8 ''vault'' = map of_nat [118, 97, 117, 108, 116]"
 "utf8 ''registry'' = map of_nat [114, 101, 103, 105, 115, 116, 114, 121]"
  by (simp_all add: utf8_def)

text \<open>The id of the flacon program in the escrow's IDL.\<close>

definition flacon_program_bytes :: pubkey where
  "flacon_program_bytes = map of_nat [98, 108, 109, 16, 130, 102, 18, 115, 0, 222, 123, 19, 243, 219, 185, 85, 27, 118,
     26, 151, 165, 135, 66, 155, 73, 126, 45, 144, 154, 70, 27, 41]"

lemma listing_calls_ok:
  assumes "ix_pubkey o' = orderPdaOf (pr_lib p) (pr_id p) (ix_passport o') (ix_seller o')"
    and "reg = registryPdaOf (pr_lib p) flacon_program_bytes"
  shows "call_ok p (order_field o') (Some (ix_list p (ix_passport o') (ix_seller o') price asset reg))"
    and "call_ok p (order_field o') (Some (ix_depositAsset p (ix_pubkey o') (ix_seller o') (ix_asset o')))"
    and "call_ok p (order_field o') (Some (ix_cancel p o'))"
    and "call_ok p (order_field o') (Some (ix_closeOrder p o'))"
    and "call_ok p (order_field o') (Some (ix_reserve p o' b mint reg e))"
  using assms
  by (simp_all add: call_simps seed_texts flacon_program_bytes_def ix_list_def ix_depositAsset_def ix_cancel_def
      ix_closeOrder_def ix_reserve_def insert_commute)

lemma scan_calls_ok:
  assumes "ix_pubkey o' = orderPdaOf (pr_lib p) (pr_id p) (ix_passport o') (ix_seller o')"
    and "ix_buyer o' = Some b" "ix_sellerScan o' = Some s"
  shows "call_ok p (order_field o') (Some (ix_preShip p o' sp sl))"
    and "call_ok p (order_field o') (Some (ix_ship p o'))"
    and "call_ok p (order_field o') (Some (ix_receipt p o' sp sl))"
  using assms by (simp_all add: call_simps seed_texts ix_preShip_def ix_ship_def ix_receipt_def insert_commute)

lemma payout_calls_ok:
  assumes "ix_pubkey o' = orderPdaOf (pr_lib p) (pr_id p) (ix_passport o') (ix_seller o')"
    and "ix_buyer o' = Some b"
  shows "call_ok p (order_field o') (ix_release p o' caller mint)"
    and "call_ok p (order_field o') (ix_releaseAfterTimeout p o' caller mint)"
    and "call_ok p (order_field o') (ix_dispute p o' caller mint sl)"
    and "call_ok p (order_field o') (ix_resolve p o' caller mint to_seller)"
  using assms
  by (simp_all add: call_simps seed_texts ix_release_def ix_releaseAfterTimeout_def ix_dispute_def ix_resolve_def
      insert_commute)

definition pays_via :: "program \<Rightarrow> pubkey \<Rightarrow> string \<Rightarrow> ix_call option \<Rightarrow> market \<Rightarrow> market \<Rightarrow> bool" where
  "pays_via p mint acct c m m' \<longleftrightarrow> (\<exists>k payer r v. c = Some k \<and>
     ic_pre k = [CreateAtaIdempotent payer (ata (pr_lib p) r mint) r mint] \<and>
     map_of (ic_accounts k) acct = Some (Some (ata (pr_lib p) r mint)) \<and>
     mk_vault m = Some v \<and> mk_vault m' = None \<and> mk_usdc m' = (mk_usdc m)(r := mk_usdc m r + v))"

lemma toView_simps [simp]: "ix_seller (toView k a) = od_seller a" "ix_buyer (toView k a) = nz (od_buyer a)"
  "ix_assetDeposited (toView k a) = od_asset_deposited a" "ix_pubkey (toView k a) = k" "ix_passport (toView k a) = od_passport a"
  "ix_priceBase (toView k a) = int (od_price a)" "ov_listedAt (toView k a) = od_listed_at a"
  by (simp_all add: toView_def)

text \<open>The data of an order account: discriminator and the Borsh fields of \<open>Order\<close>, without the two bumps.\<close>

definition order_data :: "order_acc \<Rightarrow> bytes" where
  "order_data a = map of_nat [134, 173, 223, 185, 77, 86, 28, 51] @ od_passport a @ od_seller a @ od_buyer a @ od_asset a @
     le_bytes 8 (od_price a) @ [of_int (OrderState (od_state a))] @ le_bytes 8 (nat (od_listed_at a mod 2 ^ 64)) @
     le_bytes 8 (nat (od_reserved_at a mod 2 ^ 64)) @ le_bytes 8 (nat (od_shipped_at a mod 2 ^ 64)) @
     od_seller_scan a @ od_buyer_scan a @ le_bytes 8 (nat (od_dispute_after_s a mod 2 ^ 64)) @
     [of_bool (od_asset_deposited a)]"

text \<open>\<open>getProgramAccounts\<close>: the accounts whose data holds each filter's bytes at its offset.\<close>

definition rpc_orders :: "(pubkey \<times> order_acc) list \<Rightarrow> (nat \<times> bytes) list \<Rightarrow> (pubkey \<times> order_acc) list" where
  "rpc_orders all fs = filter (\<lambda>(_, a). list_all (\<lambda>(off, bs). slice off (off + length bs) (order_data a) = bs) fs) all"

section \<open>Properties\<close>

text \<open>C10: every builder of \<open>escrowIx\<close> makes a call of the program's IDL. For an order at its own
  address (and, where the step has them, a buyer and a recorded seller scan), the call names an
  instruction of the IDL, passes each of its accounts exactly once, null only for optional accounts,
  has its number of arguments, and every account the IDL derives from seeds (config, order, vault,
  the flacon registry) is the address of those seeds under the right program.\<close>

theorem escrow_calls_match_idl:
  assumes "ix_pubkey o' = orderPdaOf (pr_lib p) (pr_id p) (ix_passport o') (ix_seller o')"
    and "reg = registryPdaOf (pr_lib p) flacon_program_bytes"
    and "ix_buyer o' = Some b" "ix_sellerScan o' = Some s"
  shows "list_all (call_ok p (order_field o'))
    [Some (ix_list p (ix_passport o') (ix_seller o') price asset reg),
     Some (ix_depositAsset p (ix_pubkey o') (ix_seller o') (ix_asset o')),
     Some (ix_cancel p o'), Some (ix_closeOrder p o'), Some (ix_reserve p o' buyer mint reg expected),
     Some (ix_preShip p o' scan sl), Some (ix_ship p o'), Some (ix_receipt p o' scan sl),
     ix_release p o' caller mint, ix_releaseAfterTimeout p o' caller mint,
     ix_dispute p o' caller mint slk, ix_resolve p o' caller mint to_seller]"
  by (simp add: listing_calls_ok [OF assms(1,2)] scan_calls_ok [OF assms(1,3,4)] payout_calls_ok [OF assms(1,3)])

definition demo_lib :: chain_lib where
  "demo_lib = \<lparr>cl_find = (\<lambda>ss k. concat ss @ k), cl_ata = (@), cl_system = [0], cl_token = [6],
     cl_sysvar_instructions = [7], cl_program = flacon_program_bytes\<rparr>"

definition demo_prog :: program where
  "demo_prog = \<lparr>pr_lib = demo_lib, pr_id = [4]\<rparr>"

definition demo_view :: order_view where
  "demo_view = toView (orderPdaOf demo_lib [4] [7] [1]) (demo_order\<lparr>od_seller_scan := [11]\<rparr>)"

lemma demo_view_simps [simp]: "ix_pubkey demo_view = orderPdaOf (pr_lib demo_prog) (pr_id demo_prog) (ix_passport demo_view) (ix_seller demo_view)"
  "ix_buyer demo_view = Some [2]" "ix_sellerScan demo_view = Some [11]"
  by (simp_all add: demo_view_def toView_def demo_order_def demo_prog_def nz_def)

theorem escrow_calls_match_idl_witness:
  "call_ok demo_prog (order_field demo_view) (ix_dispute demo_prog demo_view [9] [8] None)"
  using escrow_calls_match_idl [of demo_view demo_prog "registryPdaOf (pr_lib demo_prog) flacon_program_bytes" "[2]" "[11]"]
  by simp

text \<open>C11: the client prepares the token account the program pays into. Whenever the program's
  handler settles an order, the call built for that path first creates the recipient's token account,
  passes exactly that account, and the vault's whole balance goes to its owner, the recipient
  \<open>payoutRecipient\<close> names.\<close>

theorem payouts_reach_recipient:
  assumes "mk_order m = Some a" "od_buyer a \<noteq> default_pubkey"
  shows "(handle_release oid accs m = Inr m' \<longrightarrow>
       pays_via p mint ''sellerToken'' (ix_release p (toView oid a) caller mint) m m') \<and>
    (handle_release_after_timeout oid accs now m = Inr m' \<longrightarrow>
       pays_via p mint ''sellerToken'' (ix_releaseAfterTimeout p (toView oid a) caller mint) m m') \<and>
    (handle_dispute oid cfg caller sl accs now m = Inr m' \<longrightarrow>
       pays_via p mint ''buyerToken'' (ix_dispute p (toView oid a) caller mint slk) m m') \<and>
    (handle_resolve oid cfg caller to_seller owner accs m = Inr m' \<longrightarrow>
       payoutRecipient (toView oid a) P_resolve to_seller = Some owner \<and>
       pays_via p mint ''recipientToken'' (ix_resolve p (toView oid a) caller mint to_seller) m m')"
proof (intro conjI impI)
  have b: "nz (od_buyer a) = Some (od_buyer a)" using assms(2) by (simp add: nz_def)
  note defs = pays_via_def paid_out_def with_pre_def payoutRecipient_def ensureAtaIx_def b
  show "pays_via p mint ''sellerToken'' (ix_release p (toView oid a) caller mint) m m'"
    if "handle_release oid accs m = Inr m'"
    using that assms(1) by (auto elim!: release_Inr simp: defs ix_release_def releaseAccounts_def)
  show "pays_via p mint ''sellerToken'' (ix_releaseAfterTimeout p (toView oid a) caller mint) m m'"
    if "handle_release_after_timeout oid accs now m = Inr m'"
    using that assms(1) by (auto elim!: timeout_Inr simp: defs ix_releaseAfterTimeout_def releaseAccounts_def)
  show "pays_via p mint ''buyerToken'' (ix_dispute p (toView oid a) caller mint slk) m m'"
    if "handle_dispute oid cfg caller sl accs now m = Inr m'"
    using that assms(1) by (auto elim!: dispute_Inr simp: defs ix_dispute_def)
  assume r: "handle_resolve oid cfg caller to_seller owner accs m = Inr m'"
  show "payoutRecipient (toView oid a) P_resolve to_seller = Some owner"
    using r assms(1) by (auto simp: handle_resolve_def with_order_def bindE_eq_Inr defs)
  show "pays_via p mint ''recipientToken'' (ix_resolve p (toView oid a) caller mint to_seller) m m'"
    using r assms(1) by (auto elim!: resolve_Inr simp: defs ix_resolve_def)
qed
theorem payouts_reach_recipient_witness:
  "pays_via demo_prog [8] ''buyerToken'' (ix_dispute demo_prog (toView [5] demo_order) [9] [8] None)
     demo_reserved demo_refunded"
proof -
  have "handle_dispute [5] demo_config [9] None None 300 demo_reserved = Inr demo_refunded"
    by (simp add: handle_dispute_def with_order_def demo_market_defs admin_may_refund_def drain_vault_def
        return_asset_def need_def fun_upd_twist)
  then show ?thesis
    using payouts_reach_recipient [where m = demo_reserved and a = demo_order and oid = "[5]" and accs = None
        and m' = demo_refunded and p = demo_prog and mint = "[8]" and caller = "[9]" and cfg = demo_config and sl = None
        and slk = None and now = 300]
    by (simp add: demo_reserved_def demo_order_def)
qed

text \<open>\<open>fetchOrders\<close> lists exactly the matching orders, newest first. Against an RPC that filters
  account data by \<open>memcmp\<close>, the filter at offset 8, which is the offset of \<open>passport\<close> in the IDL's
  layout of an order, selects the orders of the given passport, and no filter selects all of them.\<close>

theorem orders_of_passport:
  assumes "\<forall>x \<in> set all. length (od_passport (snd x)) = 32" "length pp_key = 32"
  shows "mset (fetchOrders (rpc_orders all) (Some pp_key)) =
      mset (map (\<lambda>(k, a). toView k a) (filter (\<lambda>x. od_passport (snd x) = pp_key) all)) \<and>
    mset (fetchOrders (rpc_orders all) None) = mset (map (\<lambda>(k, a). toView k a) all) \<and>
    sorted_wrt (\<lambda>v w. ov_listedAt w \<le> ov_listedAt v) (fetchOrders (rpc_orders all) f) \<and>
    field_offset escrow_idl ''order'' ''passport'' = Some 8"
proof (intro conjI)
  have "rpc_orders all [(8, pp_key)] = filter (\<lambda>x. od_passport (snd x) = pp_key) all"
    unfolding rpc_orders_def
    by (rule filter_cong) (use assms in \<open>auto simp: slice_def order_data_def\<close>)
  then show "mset (fetchOrders (rpc_orders all) (Some pp_key)) =
      mset (map (\<lambda>(k, a). toView k a) (filter (\<lambda>x. od_passport (snd x) = pp_key) all))"
    by (simp add: fetchOrders_def order_filters_def)
  show "mset (fetchOrders (rpc_orders all) None) = mset (map (\<lambda>(k, a). toView k a) all)"
    by (simp add: fetchOrders_def order_filters_def rpc_orders_def)
  show "sorted_wrt (\<lambda>v w. ov_listedAt w \<le> ov_listedAt v) (fetchOrders (rpc_orders all) f)"
    using sorted_sort_key [of "\<lambda>v. - ov_listedAt v"]
    by (simp add: fetchOrders_def sorted_map)
  show "field_offset escrow_idl ''order'' ''passport'' = Some 8"
    by (simp add: field_offset_def escrow_idl_def escrow_type_defs)
qed
theorem orders_of_passport_witness:
  "mset (fetchOrders (rpc_orders [([5], demo_order\<lparr>od_passport := replicate 32 7\<rparr>), ([6], demo_order\<lparr>od_passport := replicate 32 9\<rparr>)])
     (Some (replicate 32 7))) = {#toView [5] (demo_order\<lparr>od_passport := replicate 32 7\<rparr>)#}"
  using orders_of_passport [of "[([5], demo_order\<lparr>od_passport := replicate 32 7\<rparr>), ([6], demo_order\<lparr>od_passport := replicate 32 9\<rparr>)]"
      "replicate 32 7"] by simp

end
