(* ===== verification/Flacon_Idl.thy ===== *)
theory Flacon_Idl
  imports Idl_Types
begin

text \<open>
  \<open>packages/proof/src/idl/flacon.ts\<close>, entry by entry: the instructions with their accounts, the account
  and event discriminators, the error table, the types and the constants of the flacon program. The
  \<open>docs\<close> strings are left out; a non-ASCII character of a message is written as its UTF-8 bytes.
\<close>

section \<open>Instructions\<close>

definition flacon_ix_addPartner :: idl_instruction where
  "flacon_ix_addPartner = \<lparr>ii_name = ''addPartner'',
    ii_discriminator = [180, 111, 45, 157, 241, 187, 234, 88],
    ii_accounts = [
      (idl_acc ''registry'' True False False)\<lparr>ia_seeds := Some [SeedConst [114, 101, 103, 105, 115, 116, 114, 121]]\<rparr>,
      (idl_acc ''authority'' False True False)\<lparr>ia_relations := [''registry'']\<rparr>],
    ii_args = [(''partner'', Pubkey)]\<rparr>"

definition flacon_ix_addServerKey :: idl_instruction where
  "flacon_ix_addServerKey = \<lparr>ii_name = ''addServerKey'',
    ii_discriminator = [235, 66, 203, 219, 31, 171, 8, 8],
    ii_accounts = [
      (idl_acc ''registry'' True False False)\<lparr>ia_seeds := Some [SeedConst [114, 101, 103, 105, 115, 116, 114, 121]]\<rparr>,
      (idl_acc ''authority'' False True False)\<lparr>ia_relations := [''registry'']\<rparr>],
    ii_args = [(''keyId'', U8), (''pubkey'', Array U8 32), (''validFrom'', I64), (''validTo'', I64)]\<rparr>"

definition flacon_ix_addSite :: idl_instruction where
  "flacon_ix_addSite = \<lparr>ii_name = ''addSite'',
    ii_discriminator = [170, 68, 156, 76, 219, 176, 127, 211],
    ii_accounts = [
      (idl_acc ''registry'' True False False)\<lparr>ia_seeds := Some [SeedConst [114, 101, 103, 105, 115, 116, 114, 121]]\<rparr>,
      (idl_acc ''authority'' False True False)\<lparr>ia_relations := [''registry'']\<rparr>],
    ii_args = [(''siteId'', U16), (''label'', Array U8 32)]\<rparr>"

definition flacon_ix_attachSeal :: idl_instruction where
  "flacon_ix_attachSeal = \<lparr>ii_name = ''attachSeal'',
    ii_discriminator = [61, 26, 102, 251, 202, 190, 43, 208],
    ii_accounts = [
      (idl_acc ''registry'' False False False)\<lparr>ia_seeds := Some [SeedConst [114, 101, 103, 105, 115, 116, 114, 121]]\<rparr>,
      (idl_acc ''passport'' True False False)\<lparr>ia_seeds := Some [SeedConst [112, 97, 115, 115, 112, 111, 114, 116], SeedAccount ''passport.serialHash'' (Some ''passport'')]\<rparr>,
      (idl_acc ''seal'' True False False)\<lparr>ia_seeds := Some [SeedConst [115, 101, 97, 108], SeedArg ''uidHash'']\<rparr>,
      idl_acc ''signer'' True True False,
      (idl_acc ''systemProgram'' False False False)\<lparr>ia_address := Some ''11111111111111111111111111111111''\<rparr>],
    ii_args = [(''uidHash'', Array U8 32), (''kind'', U8)]\<rparr>"

definition flacon_ix_initRegistry :: idl_instruction where
  "flacon_ix_initRegistry = \<lparr>ii_name = ''initRegistry'',
    ii_discriminator = [131, 22, 4, 103, 24, 94, 163, 239],
    ii_accounts = [
      (idl_acc ''registry'' True False False)\<lparr>ia_seeds := Some [SeedConst [114, 101, 103, 105, 115, 116, 114, 121]]\<rparr>,
      idl_acc ''authority'' True True False,
      (idl_acc ''systemProgram'' False False False)\<lparr>ia_address := Some ''11111111111111111111111111111111''\<rparr>,
      (idl_acc ''program'' False False False)\<lparr>ia_address := Some ''7dCr825ibTyE6Y5oPHP2RCmUi5qFPCaKdZmE9TYeAcWL''\<rparr>,
      idl_acc ''programData'' False False False],
    ii_args = []\<rparr>"

definition flacon_ix_markSealDead :: idl_instruction where
  "flacon_ix_markSealDead = \<lparr>ii_name = ''markSealDead'',
    ii_discriminator = [65, 179, 161, 140, 252, 105, 7, 85],
    ii_accounts = [
      (idl_acc ''registry'' False False False)\<lparr>ia_seeds := Some [SeedConst [114, 101, 103, 105, 115, 116, 114, 121]]\<rparr>,
      (idl_acc ''passport'' True False False)\<lparr>ia_seeds := Some [SeedConst [112, 97, 115, 115, 112, 111, 114, 116], SeedAccount ''passport.serialHash'' (Some ''passport'')]\<rparr>,
      (idl_acc ''seal'' True False False)\<lparr>ia_seeds := Some [SeedConst [115, 101, 97, 108], SeedAccount ''seal.uidHash'' (Some ''seal'')]\<rparr>,
      idl_acc ''signer'' False True False],
    ii_args = []\<rparr>"

definition flacon_ix_mintPassport :: idl_instruction where
  "flacon_ix_mintPassport = \<lparr>ii_name = ''mintPassport'',
    ii_discriminator = [191, 229, 65, 107, 110, 33, 228, 202],
    ii_accounts = [
      (idl_acc ''registry'' False False False)\<lparr>ia_seeds := Some [SeedConst [114, 101, 103, 105, 115, 116, 114, 121]]\<rparr>,
      (idl_acc ''passport'' True False False)\<lparr>ia_seeds := Some [SeedConst [112, 97, 115, 115, 112, 111, 114, 116], SeedArg ''serialHash'']\<rparr>,
      idl_acc ''issuer'' True True False,
      (idl_acc ''systemProgram'' False False False)\<lparr>ia_address := Some ''11111111111111111111111111111111''\<rparr>,
      idl_acc ''coreAsset'' False False False],
    ii_args = [(''serialHash'', Array U8 32), (''bindingHash'', Array U8 32), (''asset'', Pubkey)]\<rparr>"

definition flacon_ix_recordScan :: idl_instruction where
  "flacon_ix_recordScan = \<lparr>ii_name = ''recordScan'',
    ii_discriminator = [84, 105, 74, 98, 184, 80, 165, 253],
    ii_accounts = [
      (idl_acc ''registry'' False False False)\<lparr>ia_seeds := Some [SeedConst [114, 101, 103, 105, 115, 116, 114, 121]]\<rparr>,
      (idl_acc ''passport'' True False False)\<lparr>ia_seeds := Some [SeedConst [112, 97, 115, 115, 112, 111, 114, 116], SeedAccount ''passport.serialHash'' (Some ''passport'')]\<rparr>,
      (idl_acc ''seal'' True False False)\<lparr>ia_seeds := Some [SeedConst [115, 101, 97, 108], SeedAccount ''seal.uidHash'' (Some ''seal'')]\<rparr>,
      (idl_acc ''scanProof'' True False False)\<lparr>ia_seeds := Some [SeedConst [115, 99, 97, 110], SeedAccount ''seal'' None, SeedArg ''args.counter'']\<rparr>,
      idl_acc ''attester'' True True False,
      (idl_acc ''instructions'' False False False)\<lparr>ia_address := Some ''Sysvar1nstructions1111111111111111111111111''\<rparr>,
      (idl_acc ''systemProgram'' False False False)\<lparr>ia_address := Some ''11111111111111111111111111111111''\<rparr>],
    ii_args = [(''args'', Defined ''recordScanArgs'')]\<rparr>"

definition flacon_ix_removePartner :: idl_instruction where
  "flacon_ix_removePartner = \<lparr>ii_name = ''removePartner'',
    ii_discriminator = [205, 64, 184, 235, 182, 107, 63, 15],
    ii_accounts = [
      (idl_acc ''registry'' True False False)\<lparr>ia_seeds := Some [SeedConst [114, 101, 103, 105, 115, 116, 114, 121]]\<rparr>,
      (idl_acc ''authority'' False True False)\<lparr>ia_relations := [''registry'']\<rparr>],
    ii_args = [(''partner'', Pubkey)]\<rparr>"

definition flacon_ix_revokeServerKey :: idl_instruction where
  "flacon_ix_revokeServerKey = \<lparr>ii_name = ''revokeServerKey'',
    ii_discriminator = [115, 174, 199, 96, 252, 37, 5, 67],
    ii_accounts = [
      (idl_acc ''registry'' True False False)\<lparr>ia_seeds := Some [SeedConst [114, 101, 103, 105, 115, 116, 114, 121]]\<rparr>,
      (idl_acc ''authority'' False True False)\<lparr>ia_relations := [''registry'']\<rparr>],
    ii_args = [(''keyId'', U8)]\<rparr>"

definition flacon_ix_transferAuthority :: idl_instruction where
  "flacon_ix_transferAuthority = \<lparr>ii_name = ''transferAuthority'',
    ii_discriminator = [48, 169, 76, 72, 229, 180, 55, 161],
    ii_accounts = [
      (idl_acc ''registry'' True False False)\<lparr>ia_seeds := Some [SeedConst [114, 101, 103, 105, 115, 116, 114, 121]]\<rparr>,
      (idl_acc ''authority'' False True False)\<lparr>ia_relations := [''registry'']\<rparr>,
      idl_acc ''newAuthority'' False True False],
    ii_args = []\<rparr>"

section \<open>Accounts and events\<close>

definition flacon_accounts :: "(string \<times> nat list) list" where
  "flacon_accounts = [
    (''passport'', [18, 61, 245, 239, 6, 15, 18, 34]),
    (''registry'', [47, 174, 110, 246, 184, 182, 252, 218]),
    (''scanProof'', [208, 136, 45, 119, 131, 191, 85, 170]),
    (''seal'', [162, 149, 250, 10, 100, 125, 36, 168])]"

definition flacon_events :: "(string \<times> nat list) list" where
  "flacon_events = [
    (''authorityTransferred'', [245, 109, 179, 54, 135, 92, 22, 64]),
    (''partnerAdded'', [118, 219, 220, 117, 186, 162, 106, 164]),
    (''partnerRemoved'', [178, 6, 204, 239, 88, 105, 43, 91]),
    (''passportMinted'', [196, 50, 69, 108, 203, 51, 9, 146]),
    (''registryInitialized'', [144, 138, 62, 105, 58, 38, 100, 177]),
    (''scanRecorded'', [21, 215, 87, 213, 12, 213, 49, 171]),
    (''sealAttached'', [204, 46, 119, 37, 164, 144, 64, 31]),
    (''sealMarkedDead'', [42, 123, 197, 68, 98, 46, 127, 157]),
    (''serverKeyAdded'', [82, 41, 116, 202, 180, 59, 33, 89]),
    (''serverKeyRevoked'', [107, 233, 32, 172, 165, 208, 93, 46]),
    (''siteAdded'', [57, 141, 195, 149, 88, 67, 53, 161])]"

section \<open>Errors\<close>

definition flacon_errors_1 :: "idl_error list" where
  "flacon_errors_1 = [
    \<lparr>ie_code = 6000, ie_name = ''unauthorized'',
      ie_msg = ''Signer is not the registry authority''\<rparr>,
    \<lparr>ie_code = 6001, ie_name = ''notPartner'',
      ie_msg = ''Signer is not a registered partner''\<rparr>,
    \<lparr>ie_code = 6002, ie_name = ''duplicateServerKey'',
      ie_msg = ''A server key with this key_id already exists''\<rparr>,
    \<lparr>ie_code = 6003, ie_name = ''serverKeysFull'',
      ie_msg = ''Registry holds the maximum number of server keys''\<rparr>,
    \<lparr>ie_code = 6004, ie_name = ''invalidKeyValidity'',
      ie_msg = ''valid_to must be 0 (open-ended) or >= valid_from''\<rparr>,
    \<lparr>ie_code = 6005, ie_name = ''duplicatePartner'',
      ie_msg = ''Partner already registered''\<rparr>,
    \<lparr>ie_code = 6006, ie_name = ''partnersFull'',
      ie_msg = ''Registry holds the maximum number of partners''\<rparr>,
    \<lparr>ie_code = 6007, ie_name = ''invalidSiteId'',
      ie_msg = (''site_id 0 is reserved for '' @ [CHR 0x27] @ ''no site'' @ [CHR 0x27])\<rparr>,
    \<lparr>ie_code = 6008, ie_name = ''duplicateSite'',
      ie_msg = ''A site with this site_id already exists''\<rparr>,
    \<lparr>ie_code = 6009, ie_name = ''sitesFull'',
      ie_msg = ''Registry holds the maximum number of sites''\<rparr>,
    \<lparr>ie_code = 6010, ie_name = ''invalidSealKind'',
      ie_msg = ''Seal kind must be 0 (BOX) or 1 (NECK); 2 (LOOP) is reserved''\<rparr>,
    \<lparr>ie_code = 6011, ie_name = ''sealCountOverflow'',
      ie_msg = ''Passport seal_count overflow''\<rparr>,
    \<lparr>ie_code = 6012, ie_name = ''sealPassportMismatch'',
      ie_msg = ''Seal does not belong to this passport''\<rparr>,
    \<lparr>ie_code = 6013, ie_name = ''sealDead'',
      ie_msg = (''Seal is dead (no longer answers) '' @ [CHR 0xE2, CHR 0x80, CHR 0x94] @ '' no further scans'')\<rparr>,
    \<lparr>ie_code = 6014, ie_name = ''passportVoid'',
      ie_msg = ''Passport is void''\<rparr>,
    \<lparr>ie_code = 6015, ie_name = ''counterNotIncreasing'',
      ie_msg = (''Counter must be greater than the seal'' @ [CHR 0x27] @ ''s last counter'')\<rparr>,
    \<lparr>ie_code = 6016, ie_name = ''invalidInstructionsSysvar'',
      ie_msg = ''Instructions sysvar account mismatch''\<rparr>,
    \<lparr>ie_code = 6017, ie_name = ''missingEd25519Instruction'',
      ie_msg = ''The instruction before record_scan must be an Ed25519Program instruction''\<rparr>,
    \<lparr>ie_code = 6018, ie_name = ''malformedEd25519Instruction'',
      ie_msg = ''Ed25519 instruction data is malformed (expects exactly one signature over a 152-byte message)''\<rparr>,
    \<lparr>ie_code = 6019, ie_name = ''unknownServerKey'',
      ie_msg = ''No server key with this key_id in the registry''\<rparr>]"

definition flacon_errors_2 :: "idl_error list" where
  "flacon_errors_2 = [
    \<lparr>ie_code = 6020, ie_name = ''serverKeyMismatch'',
      ie_msg = ''Ed25519 public key does not match the registry server key''\<rparr>,
    \<lparr>ie_code = 6021, ie_name = ''serverKeyNotValidAtTs'',
      ie_msg = ''Server key is not valid at the given ts''\<rparr>,
    \<lparr>ie_code = 6022, ie_name = ''messageMismatch'',
      ie_msg = ''Signed message does not match the reconstruction from the arguments''\<rparr>,
    \<lparr>ie_code = 6023, ie_name = ''invalidRole'',
      ie_msg = ''role must be 0..=4''\<rparr>,
    \<lparr>ie_code = 6024, ie_name = ''invalidTier'',
      ie_msg = ''tier must be 0..=4''\<rparr>,
    \<lparr>ie_code = 6025, ie_name = ''tierNotAllowedForRole'',
      ie_msg = ''OWNER/SELLER/BUYER may attest at most tier 2 (SELF_MEDIA)''\<rparr>,
    \<lparr>ie_code = 6026, ie_name = ''siteIdNotAllowed'',
      ie_msg = ''site_id may only be set for role VAULT or PARTNER''\<rparr>,
    \<lparr>ie_code = 6027, ie_name = ''unknownSite'',
      ie_msg = ''site_id is not registered''\<rparr>,
    \<lparr>ie_code = 6028, ie_name = ''invalidIndicator'',
      ie_msg = ''tamper/uv/hum/heat codes must be 0..=3''\<rparr>,
    \<lparr>ie_code = 6029, ie_name = ''invalidFill'',
      ie_msg = ''fill must be 0..=100''\<rparr>,
    \<lparr>ie_code = 6030, ie_name = ''invalidHeatLevels'',
      ie_msg = ''heat_levels must be a 6-bit mask (< 64)''\<rparr>,
    \<lparr>ie_code = 6031, ie_name = ''heatInconsistent'',
      ie_msg = ''heat must equal bit 4 of heat_levels when heat is INTACT or TRIGGERED''\<rparr>,
    \<lparr>ie_code = 6032, ie_name = ''scanCountOverflow'',
      ie_msg = ''Passport scan_count overflow''\<rparr>,
    \<lparr>ie_code = 6033, ie_name = ''notIssuerOrAuthority'',
      ie_msg = ''Signer is neither the passport issuer (a current partner) nor the registry authority''\<rparr>,
    \<lparr>ie_code = 6034, ie_name = ''tooManySeals'',
      ie_msg = ''Passport already holds the maximum number of seals''\<rparr>,
    \<lparr>ie_code = 6035, ie_name = ''serverKeyNotValidNow'',
      ie_msg = ''Server key is not valid at the current cluster time (expired or revoked)''\<rparr>,
    \<lparr>ie_code = 6036, ie_name = ''staleScanTimestamp'',
      ie_msg = ''Signed ts is more than MAX_SCAN_TS_SKEW_S away from the cluster clock''\<rparr>,
    \<lparr>ie_code = 6037, ie_name = ''counterOutOfRange'',
      ie_msg = ''counter is above the 24-bit NTAG counter range''\<rparr>,
    \<lparr>ie_code = 6038, ie_name = ''partnerNotFound'',
      ie_msg = ''Partner is not registered''\<rparr>,
    \<lparr>ie_code = 6039, ie_name = ''serverKeyAlreadyRevoked'',
      ie_msg = ''Server key is already expired or revoked''\<rparr>]"

definition flacon_errors_3 :: "idl_error list" where
  "flacon_errors_3 = [
    \<lparr>ie_code = 6040, ie_name = ''notUpgradeAuthority'',
      ie_msg = (''Signer is not the program'' @ [CHR 0x27] @ ''s upgrade authority'')\<rparr>,
    \<lparr>ie_code = 6041, ie_name = ''assetMismatch'',
      ie_msg = ''Asset account does not match the asset argument''\<rparr>,
    \<lparr>ie_code = 6042, ie_name = ''invalidAsset'',
      ie_msg = ''Asset account is not a Metaplex Core asset''\<rparr>,
    \<lparr>ie_code = 6043, ie_name = ''assetNotOwnedByIssuer'',
      ie_msg = ''The Core asset must be owned by the issuer when the passport is minted''\<rparr>]"

section \<open>Types\<close>

definition flacon_type_authorityTransferred :: idl_typedef where
  "flacon_type_authorityTransferred = \<lparr>it_name = ''authorityTransferred'',
    it_fields = [(''previous'', Pubkey), (''newAuthority'', Pubkey)]\<rparr>"

definition flacon_type_partnerAdded :: idl_typedef where
  "flacon_type_partnerAdded = \<lparr>it_name = ''partnerAdded'',
    it_fields = [(''partner'', Pubkey)]\<rparr>"

definition flacon_type_partnerRemoved :: idl_typedef where
  "flacon_type_partnerRemoved = \<lparr>it_name = ''partnerRemoved'',
    it_fields = [(''partner'', Pubkey)]\<rparr>"

definition flacon_type_passport :: idl_typedef where
  "flacon_type_passport = \<lparr>it_name = ''passport'',
    it_fields = [(''serialHash'', Array U8 32), (''bindingHash'', Array U8 32), (''asset'', Pubkey),
      (''issuer'', Pubkey), (''grade'', U8), (''scanCount'', U32), (''sealCount'', U8),
      (''void'', Bool), (''createdAt'', I64), (''bump'', U8)]\<rparr>"

definition flacon_type_passportMinted :: idl_typedef where
  "flacon_type_passportMinted = \<lparr>it_name = ''passportMinted'',
    it_fields = [(''passport'', Pubkey), (''serialHash'', Array U8 32), (''bindingHash'', Array U8 32),
      (''asset'', Pubkey), (''issuer'', Pubkey), (''createdAt'', I64)]\<rparr>"

definition flacon_type_recordScanArgs :: idl_typedef where
  "flacon_type_recordScanArgs = \<lparr>it_name = ''recordScanArgs'',
    it_fields = [(''counter'', U32), (''tier'', U8), (''role'', U8), (''tamper'', U8), (''uv'', U8),
      (''hum'', U8), (''heat'', U8), (''heatLevels'', U8), (''fill'', U8), (''siteId'', U16),
      (''mediaHash'', Array U8 32), (''bundleHash'', Array U8 32), (''nonce'', Array U8 32),
      (''ts'', I64), (''serverKeyId'', U8)]\<rparr>"

definition flacon_type_registry :: idl_typedef where
  "flacon_type_registry = \<lparr>it_name = ''registry'',
    it_fields = [(''authority'', Pubkey), (''serverKeys'', Vec (Defined ''serverKey'')),
      (''partners'', Vec Pubkey), (''sites'', Vec (Defined ''site'')), (''bump'', U8)]\<rparr>"

definition flacon_type_registryInitialized :: idl_typedef where
  "flacon_type_registryInitialized = \<lparr>it_name = ''registryInitialized'',
    it_fields = [(''registry'', Pubkey), (''authority'', Pubkey)]\<rparr>"

definition flacon_type_scanProof :: idl_typedef where
  "flacon_type_scanProof = \<lparr>it_name = ''scanProof'',
    it_fields = [(''seal'', Pubkey), (''counter'', U32), (''tier'', U8), (''role'', U8), (''tamper'', U8),
      (''uv'', U8), (''hum'', U8), (''heat'', U8), (''heatLevels'', U8), (''fill'', U8),
      (''siteId'', U16), (''mediaHash'', Array U8 32), (''bundleHash'', Array U8 32),
      (''attester'', Pubkey), (''serverKeyId'', U8), (''ts'', I64), (''bump'', U8)]\<rparr>"

definition flacon_type_scanRecorded :: idl_typedef where
  "flacon_type_scanRecorded = \<lparr>it_name = ''scanRecorded'',
    it_fields = [(''passport'', Pubkey), (''seal'', Pubkey), (''scanProof'', Pubkey), (''attester'', Pubkey),
      (''counter'', U32), (''tier'', U8), (''role'', U8), (''tamper'', U8), (''uv'', U8),
      (''hum'', U8), (''heat'', U8), (''heatLevels'', U8), (''fill'', U8), (''siteId'', U16),
      (''grade'', U8), (''scanCount'', U32), (''serverKeyId'', U8), (''ts'', I64)]\<rparr>"

definition flacon_type_seal :: idl_typedef where
  "flacon_type_seal = \<lparr>it_name = ''seal'',
    it_fields = [(''passport'', Pubkey), (''kind'', U8), (''uidHash'', Array U8 32), (''lastCounter'', U32),
      (''dead'', Bool), (''attachedAt'', I64), (''bump'', U8)]\<rparr>"

definition flacon_type_sealAttached :: idl_typedef where
  "flacon_type_sealAttached = \<lparr>it_name = ''sealAttached'',
    it_fields = [(''passport'', Pubkey), (''seal'', Pubkey), (''uidHash'', Array U8 32), (''kind'', U8),
      (''sealCount'', U8), (''attachedAt'', I64)]\<rparr>"

definition flacon_type_sealMarkedDead :: idl_typedef where
  "flacon_type_sealMarkedDead = \<lparr>it_name = ''sealMarkedDead'',
    it_fields = [(''passport'', Pubkey), (''seal'', Pubkey), (''by'', Pubkey), (''ts'', I64)]\<rparr>"

definition flacon_type_serverKey :: idl_typedef where
  "flacon_type_serverKey = \<lparr>it_name = ''serverKey'',
    it_fields = [(''keyId'', U8), (''pubkey'', Array U8 32), (''validFrom'', I64), (''validTo'', I64)]\<rparr>"

definition flacon_type_serverKeyAdded :: idl_typedef where
  "flacon_type_serverKeyAdded = \<lparr>it_name = ''serverKeyAdded'',
    it_fields = [(''keyId'', U8), (''pubkey'', Array U8 32), (''validFrom'', I64), (''validTo'', I64)]\<rparr>"

definition flacon_type_serverKeyRevoked :: idl_typedef where
  "flacon_type_serverKeyRevoked = \<lparr>it_name = ''serverKeyRevoked'',
    it_fields = [(''keyId'', U8), (''validTo'', I64)]\<rparr>"

definition flacon_type_site :: idl_typedef where
  "flacon_type_site = \<lparr>it_name = ''site'',
    it_fields = [(''siteId'', U16), (''label'', Array U8 32)]\<rparr>"

definition flacon_type_siteAdded :: idl_typedef where
  "flacon_type_siteAdded = \<lparr>it_name = ''siteAdded'',
    it_fields = [(''siteId'', U16), (''label'', Array U8 32)]\<rparr>"

section \<open>Constants\<close>

definition flacon_constants_1 :: "idl_constant list" where
  "flacon_constants_1 = [
    \<lparr>ic_name = ''eventDispute'', ic_type = U8, ic_value = ''8''\<rparr>,
    \<lparr>ic_name = ''eventList'', ic_type = U8, ic_value = ''3''\<rparr>,
    \<lparr>ic_name = ''eventMint'', ic_type = U8, ic_value = ''0''\<rparr>,
    \<lparr>ic_name = ''eventReceive'', ic_type = U8, ic_value = ''6''\<rparr>,
    \<lparr>ic_name = ''eventRelease'', ic_type = U8, ic_value = ''7''\<rparr>,
    \<lparr>ic_name = ''eventReserve'', ic_type = U8, ic_value = ''4''\<rparr>,
    \<lparr>ic_name = ''eventScan'', ic_type = U8, ic_value = ''2''\<rparr>,
    \<lparr>ic_name = ''eventSealAttach'', ic_type = U8, ic_value = ''1''\<rparr>,
    \<lparr>ic_name = ''eventSealDead'', ic_type = U8, ic_value = ''9''\<rparr>,
    \<lparr>ic_name = ''eventShip'', ic_type = U8, ic_value = ''5''\<rparr>,
    \<lparr>ic_name = ''gradeA'', ic_type = U8, ic_value = ''0''\<rparr>,
    \<lparr>ic_name = ''gradeB'', ic_type = U8, ic_value = ''1''\<rparr>,
    \<lparr>ic_name = ''gradeC'', ic_type = U8, ic_value = ''2''\<rparr>,
    \<lparr>ic_name = ''gradeD'', ic_type = U8, ic_value = ''3''\<rparr>,
    \<lparr>ic_name = ''gradeFillAMin'', ic_type = U8, ic_value = ''90''\<rparr>,
    \<lparr>ic_name = ''gradeFillBMin'', ic_type = U8, ic_value = ''60''\<rparr>,
    \<lparr>ic_name = ''gradeVoid'', ic_type = U8, ic_value = ''4''\<rparr>,
    \<lparr>ic_name = ''heatDecisiveIndex'', ic_type = U8, ic_value = ''4''\<rparr>,
    \<lparr>ic_name = ''indicatorIntact'', ic_type = U8, ic_value = ''0''\<rparr>,
    \<lparr>ic_name = ''indicatorMissing'', ic_type = U8, ic_value = ''3''\<rparr>]"

definition flacon_constants_2 :: "idl_constant list" where
  "flacon_constants_2 = [
    \<lparr>ic_name = ''indicatorTriggered'', ic_type = U8, ic_value = ''1''\<rparr>,
    \<lparr>ic_name = ''indicatorUnreadable'', ic_type = U8, ic_value = ''2''\<rparr>,
    \<lparr>ic_name = ''maxCounter'', ic_type = U32, ic_value = ''16777215''\<rparr>,
    \<lparr>ic_name = ''maxPartners'', ic_type = U8, ic_value = ''16''\<rparr>,
    \<lparr>ic_name = ''maxScanTsSkewS'', ic_type = I64, ic_value = ''600''\<rparr>,
    \<lparr>ic_name = ''maxSealsPerPassport'', ic_type = U8, ic_value = ''2''\<rparr>,
    \<lparr>ic_name = ''maxServerKeys'', ic_type = U8, ic_value = ''8''\<rparr>,
    \<lparr>ic_name = ''maxSites'', ic_type = U8, ic_value = ''16''\<rparr>,
    \<lparr>ic_name = ''mplCoreProgramId'', ic_type = Pubkey, ic_value = ''CoREENxT6tW1HoK8ypY1SxRMZTcVPm7R94rH4PZNhX7d''\<rparr>,
    \<lparr>ic_name = ''msgLen'', ic_type = U16, ic_value = ''152''\<rparr>,
    \<lparr>ic_name = ''msgPrefix'', ic_type = Bytes, ic_value = ''[70, 86, 83, 67, 65, 78, 49]''\<rparr>,
    \<lparr>ic_name = ''originSeed'', ic_type = Bytes, ic_value = ''[111, 114, 105, 103, 105, 110]''\<rparr>,
    \<lparr>ic_name = ''passportSeed'', ic_type = Bytes, ic_value = ''[112, 97, 115, 115, 112, 111, 114, 116]''\<rparr>,
    \<lparr>ic_name = ''registrySeed'', ic_type = Bytes, ic_value = ''[114, 101, 103, 105, 115, 116, 114, 121]''\<rparr>,
    \<lparr>ic_name = ''roleBuyer'', ic_type = U8, ic_value = ''2''\<rparr>,
    \<lparr>ic_name = ''roleOwner'', ic_type = U8, ic_value = ''0''\<rparr>,
    \<lparr>ic_name = ''rolePartner'', ic_type = U8, ic_value = ''4''\<rparr>,
    \<lparr>ic_name = ''roleSeller'', ic_type = U8, ic_value = ''1''\<rparr>,
    \<lparr>ic_name = ''roleVault'', ic_type = U8, ic_value = ''3''\<rparr>,
    \<lparr>ic_name = ''scanSeed'', ic_type = Bytes, ic_value = ''[115, 99, 97, 110]''\<rparr>]"

definition flacon_constants_3 :: "idl_constant list" where
  "flacon_constants_3 = [
    \<lparr>ic_name = ''sealKindBox'', ic_type = U8, ic_value = ''0''\<rparr>,
    \<lparr>ic_name = ''sealKindNeck'', ic_type = U8, ic_value = ''1''\<rparr>,
    \<lparr>ic_name = ''sealSeed'', ic_type = Bytes, ic_value = ''[115, 101, 97, 108]''\<rparr>,
    \<lparr>ic_name = ''tamperClosed'', ic_type = U8, ic_value = ''0''\<rparr>,
    \<lparr>ic_name = ''tamperOpenedBefore'', ic_type = U8, ic_value = ''2''\<rparr>,
    \<lparr>ic_name = ''tamperOpenedNow'', ic_type = U8, ic_value = ''1''\<rparr>,
    \<lparr>ic_name = ''tamperUnknown'', ic_type = U8, ic_value = ''3''\<rparr>,
    \<lparr>ic_name = ''tierBirth'', ic_type = U8, ic_value = ''4''\<rparr>,
    \<lparr>ic_name = ''tierCertified'', ic_type = U8, ic_value = ''3''\<rparr>,
    \<lparr>ic_name = ''tierSelf'', ic_type = U8, ic_value = ''1''\<rparr>,
    \<lparr>ic_name = ''tierSelfMedia'', ic_type = U8, ic_value = ''2''\<rparr>,
    \<lparr>ic_name = ''tierSighting'', ic_type = U8, ic_value = ''0''\<rparr>]"

section \<open>The IDL\<close>

definition flacon_idl :: idl where
  "flacon_idl = \<lparr>idl_address = ''7dCr825ibTyE6Y5oPHP2RCmUi5qFPCaKdZmE9TYeAcWL'',
    idl_instructions = [flacon_ix_addPartner, flacon_ix_addServerKey, flacon_ix_addSite, flacon_ix_attachSeal,
      flacon_ix_initRegistry, flacon_ix_markSealDead, flacon_ix_mintPassport, flacon_ix_recordScan,
      flacon_ix_removePartner, flacon_ix_revokeServerKey, flacon_ix_transferAuthority],
    idl_accounts = flacon_accounts, idl_events = flacon_events,
    idl_errors = flacon_errors_1 @ flacon_errors_2 @ flacon_errors_3,
    idl_types = [flacon_type_authorityTransferred, flacon_type_partnerAdded, flacon_type_partnerRemoved,
      flacon_type_passport, flacon_type_passportMinted, flacon_type_recordScanArgs,
      flacon_type_registry, flacon_type_registryInitialized, flacon_type_scanProof,
      flacon_type_scanRecorded, flacon_type_seal, flacon_type_sealAttached,
      flacon_type_sealMarkedDead, flacon_type_serverKey, flacon_type_serverKeyAdded,
      flacon_type_serverKeyRevoked, flacon_type_site, flacon_type_siteAdded],
    idl_constants = flacon_constants_1 @ flacon_constants_2 @ flacon_constants_3\<rparr>"

lemmas flacon_instruction_defs =
  flacon_ix_addPartner_def flacon_ix_addServerKey_def flacon_ix_addSite_def flacon_ix_attachSeal_def
  flacon_ix_initRegistry_def flacon_ix_markSealDead_def flacon_ix_mintPassport_def
  flacon_ix_recordScan_def flacon_ix_removePartner_def flacon_ix_revokeServerKey_def
  flacon_ix_transferAuthority_def

lemmas flacon_type_defs =
  flacon_type_authorityTransferred_def flacon_type_partnerAdded_def flacon_type_partnerRemoved_def
  flacon_type_passport_def flacon_type_passportMinted_def flacon_type_recordScanArgs_def
  flacon_type_registry_def flacon_type_registryInitialized_def flacon_type_scanProof_def
  flacon_type_scanRecorded_def flacon_type_seal_def flacon_type_sealAttached_def
  flacon_type_sealMarkedDead_def flacon_type_serverKey_def flacon_type_serverKeyAdded_def
  flacon_type_serverKeyRevoked_def flacon_type_site_def flacon_type_siteAdded_def

lemmas flacon_table_defs =
  flacon_accounts_def flacon_events_def flacon_errors_1_def flacon_errors_2_def flacon_errors_3_def
  flacon_constants_1_def flacon_constants_2_def flacon_constants_3_def

end
