(* ===== verification/Web_Errors.thy ===== *)
theory Web_Errors
  imports FV_Json
begin

text \<open>
  \<open>apps/web/src/lib/errors.ts\<close>: the verifier's HTTP errors, the tables of machine codes and program
  errors, and the sentence shown for an error. A thrown value is an \<open>ApiError\<close>, a \<open>TxFailedError\<close> or
  anything else, given by its \<open>name\<close> and its message. \<open>JSON.parse\<close> and \<open>Date.parse\<close> are arguments; a
  sentence is upper-cased at an ASCII initial. A machine code that names a property every JavaScript
  object inherits (\<open>constructor\<close>, ...) is outside the table lookup of the model.
\<close>

section \<open>Error values\<close>

record api_error =
  ae_path :: string
  ae_status :: int
  ae_detail :: "string option"
  ae_code :: "string option"
  ae_retryAfter :: "rat option"

datatype js_error = ApiErr api_error | TxFailed string string | OtherErr string string

definition api_error_message :: "api_error \<Rightarrow> string" where
  "api_error_message e = ae_path e @ '': '' @
     (case ae_detail e of Some d \<Rightarrow> d | None \<Rightarrow> ''HTTP '' @ show_int (ae_status e))"

definition tx_failed_message :: "string \<Rightarrow> string" where
  "tx_failed_message reason = ''The transaction failed on chain: '' @ reason"

definition retryAfterSeconds :: "(string \<Rightarrow> rat option) \<Rightarrow> string option \<Rightarrow> rat \<Rightarrow> rat option" where
  "retryAfterSeconds parse_date header now =
    (case header of
       None \<Rightarrow> None
     | Some raw \<Rightarrow>
         let h = js_trim raw in
         if h = [] then None
         else if list_all is_digit h \<and> length h \<le> 9 then Some (of_nat (read_nat h))
         else case parse_date h of
             None \<Rightarrow> None
           | Some ms \<Rightarrow> Some (max 0 (of_int \<lceil>(ms - now) / 1000\<rceil>)))"

text \<open>\<open>/^[a-z][a-z0-9_]*$/\<close>\<close>

definition machine_code :: "string \<Rightarrow> bool" where
  "machine_code s \<longleftrightarrow> s \<noteq> [] \<and> is_lower (hd s) \<and>
     list_all (\<lambda>c. is_lower c \<or> is_digit c \<or> code c = 95) (tl s)"

fun join_with :: "string \<Rightarrow> string list \<Rightarrow> string" where
  "join_with sep [] = []"
| "join_with sep [s] = s"
| "join_with sep (s # t # ss) = s @ sep @ join_with sep (t # ss)"

text \<open>
  One entry of FastAPI's list of validation errors. \<open>loc\<close> and \<open>msg\<close> hold strings, booleans and whole
  numbers, which a template or \<open>join\<close> prints as their text (null as nothing in \<open>join\<close>).
\<close>

definition loc_part :: "json \<Rightarrow> string" where
  "loc_part l = (case l of JStr s \<Rightarrow> s | JNum n \<Rightarrow> show_int (js_floor n)
     | JBool b \<Rightarrow> if b then ''true'' else ''false'' | _ \<Rightarrow> [])"

definition validation_line :: "json \<Rightarrow> string" where
  "validation_line x =
    (let loc = (case jget x ''loc'' of
                  Some (JArr ls) \<Rightarrow> join_with ''.'' (map loc_part (filter (\<lambda>l. l \<noteq> JStr ''body'') ls))
                | _ \<Rightarrow> []);
         msg = (case jget x ''msg'' of None \<Rightarrow> ''invalid'' | Some JNull \<Rightarrow> ''invalid'' | Some v \<Rightarrow> loc_part v)
     in (if loc \<noteq> [] then loc @ '': '' else []) @ msg)"

definition apiError ::
  "(string \<Rightarrow> json option) \<Rightarrow> (string \<Rightarrow> rat option) \<Rightarrow> rat \<Rightarrow> string \<Rightarrow> int \<Rightarrow> string option \<Rightarrow> string option \<Rightarrow> api_error" where
  "apiError parse_json parse_date now path status body retry_header =
    (let text = (case body of Some t \<Rightarrow> t | None \<Rightarrow> []);
         (detail, cd) =
           (case parse_json text of
              Some j \<Rightarrow>
                let d = coalesce (coalesce (jget j ''detail'') (jget j ''error'')) (jget j ''message'') in
                (case d of
                   Some (JStr s) \<Rightarrow> (Some s, None)
                 | Some (JArr xs) \<Rightarrow> (Some (join_with ''; '' (map validation_line xs)), None)
                 | Some (JObj ps) \<Rightarrow>
                     let c = jstring (map_of ps ''code'') in
                     (case jstring (map_of ps ''message'') of
                        Some m \<Rightarrow> Some m
                      | None \<Rightarrow> (case jstring (map_of ps ''detail'') of Some m \<Rightarrow> Some m | None \<Rightarrow> c), c)
                 | _ \<Rightarrow> (None, None))
            | None \<Rightarrow>
                let t = js_trim text in
                (if t \<noteq> [] \<and> \<not> starts_with t ''<'' then Some (utf16_take 160 t) else None, None));
         cd = (if (cd = None \<or> cd = Some []) \<and> (case detail of Some d \<Rightarrow> d \<noteq> [] \<and> machine_code d | None \<Rightarrow> False)
               then detail else cd)
     in \<lparr>ae_path = path, ae_status = status, ae_detail = detail, ae_code = cd,
         ae_retryAfter = retryAfterSeconds parse_date retry_header now\<rparr>)"

section \<open>Tables\<close>

definition CODES :: "(string \<times> string) list" where
  "CODES = [
    (''tx_not_visible'',
      ''The network has not shown the transaction yet. Try again in a few seconds.''),
    (''tx_failed'',
      ''The transaction failed on chain.''),
    (''tx_mismatch'',
      ''The transaction does not match this action (other wallet, passport or instruction).''),
    (''busy'',
      ''The verification server is busy checking other transactions. Wait a few seconds, then try again.''),
    (''nonce_invalid'',
      ''The scan session has expired or was already used. Start a new session.''),
    (''not_issuer'',
      ''Only the wallet that issued this passport can do this.''),
    (''event_confirmed'',
      ''This entry is already confirmed with another transaction.''),
    (''chain_not_configured'',
      ''The verification server has no chain connection configured, so it cannot confirm transactions right now.''),
    (''rpc_unavailable'',
      ''The verification server cannot reach the Solana network right now. Try again later.''),
    (''rate_limited'',
      ''Too many requests from this connection. Wait a minute, then try again.''),
    (''report_limited'',
      ''A report for this seal is already open (from the last 24 hours), or too many reports came from this connection. Try again later.''),
    (''media_nonce_invalid'',
      ''The scan session of these photos has expired or was already used. Restart the scan.''),
    (''media_limited'',
      ''This connection has uploaded too many photos for now. Try again later.''),
    (''media_busy'',
      ''The verification server is receiving too many photos right now. Try again in a few minutes.''),
    (''storage_full'',
      ''The verification server cannot store photos right now (its storage is full). Try again later.''),
    (''resume_not_found'',
      ''This signed scan is no longer waiting to be anchored (already anchored or expired). Open the passport or start a new scan.''),
    (''not_partner'',
      (''Certified scans and the vault/partner roles are signed only for a wallet registered as a FlaconVault partner. Connect the partner wallet before '' @ [CHR 0xE2, CHR 0x80, CHR 0x9C] @ ''Get signature'' @ [CHR 0xE2, CHR 0x80, CHR 0x9D] @ '' (on iPhone Safari: via WalletConnect). Without a partner wallet, open the scan without certification and scan as owner.'')),
    (''request_too_large'',
      ''The request is too large for the verification server.'')]"

definition WAIT_CODES :: "string list" where
  "WAIT_CODES = [''busy'', ''rate_limited'', ''report_limited'', ''media_limited'', ''media_busy'']"

definition js_round :: "rat \<Rightarrow> int" where
  "js_round x = \<lfloor>x + 1 / 2\<rfloor>"

definition waitText :: "rat \<Rightarrow> string" where
  "waitText seconds =
    (if seconds \<le> 90 then ''about '' @ show_int (max 1 (js_round seconds)) @ '' second'' @
       (if js_round seconds = 1 then [] else ''s'')
     else if seconds \<le> 90 * 60 then ''about '' @ show_int (js_round (seconds / 60)) @ '' minutes''
     else ''about '' @ show_int (js_round (seconds / 3600)) @ '' hour'' @
       (if js_round (seconds / 3600) = 1 then [] else ''s''))"

record program_error =
  pe_name :: string
  pe_msg :: string
  pe_text :: string

definition FLACON_PROGRAM_ERRORS :: "program_error list" where
  "FLACON_PROGRAM_ERRORS = [
    \<lparr>pe_name = ''NotPartner'', pe_msg = ''Signer is not a registered partner'',
      pe_text = ''This wallet is not a registered FlaconVault partner, so it cannot do this.''\<rparr>,
    \<lparr>pe_name = ''SealPassportMismatch'', pe_msg = ''Seal does not belong to'',
      pe_text = ''This seal does not belong to this passport.''\<rparr>,
    \<lparr>pe_name = ''SealDead'', pe_msg = ''Seal is dead (no longer answers)'',
      pe_text = ''This seal is marked as not responding on chain: no further scans can be anchored.''\<rparr>,
    \<lparr>pe_name = ''PassportVoid'', pe_msg = ''Passport is void'',
      pe_text = ''This passport is void (opened or dead seal, or grade VOID): no further scans, seals or sales.''\<rparr>,
    \<lparr>pe_name = ''CounterNotIncreasing'', pe_msg = (''greater than the seal'' @ [CHR 0x27] @ ''s last counter''),
      pe_text = ''A newer tap of this seal is already anchored. Tap the seal again and do a new scan.''\<rparr>,
    \<lparr>pe_name = ''ServerKeyNotValidAtTs'', pe_msg = ''not valid at the given ts'',
      pe_text = (''The verification server'' @ [CHR 0x27] @ ''s key was not valid when it signed this scan. Do a new scan.'')\<rparr>,
    \<lparr>pe_name = ''TierNotAllowedForRole'', pe_msg = ''may attest at most tier 2'',
      pe_text = ''Owners, sellers and buyers can anchor scans up to tier 2 (with photo); certified tiers need the vault or partner role.''\<rparr>,
    \<lparr>pe_name = ''SiteIdNotAllowed'', pe_msg = ''site_id may only be set for role'',
      pe_text = ''A site can only be given for the vault or partner role.''\<rparr>,
    \<lparr>pe_name = ''UnknownSite'', pe_msg = ''site_id is not registered'',
      pe_text = ''This site is not registered in the FlaconVault registry.''\<rparr>,
    \<lparr>pe_name = ''NotIssuerOrAuthority'', pe_msg = ''Signer is neither the passport issuer'',
      pe_text = ''Only the issuer of this passport (while a partner) or the registry authority can do this.''\<rparr>,
    \<lparr>pe_name = ''TooManySeals'', pe_msg = ''maximum number of seals'',
      pe_text = ''This passport already has the maximum number of seals (one box, one neck).''\<rparr>,
    \<lparr>pe_name = ''ServerKeyNotValidNow'', pe_msg = ''not valid at the current cluster time'',
      pe_text = (''The verification server'' @ [CHR 0x27] @ ''s signing key is no longer valid. Start a new scan.'')\<rparr>,
    \<lparr>pe_name = ''StaleScanTimestamp'', pe_msg = ''Signed ts is more than'',
      pe_text = ''The server signature has expired (older than 10 minutes). Scan again.''\<rparr>,
    \<lparr>pe_name = ''CounterOutOfRange'', pe_msg = ''24-bit NTAG counter range'',
      pe_text = (''The seal'' @ [CHR 0x27] @ ''s tap counter is out of range; this seal cannot be anchored any more.'')\<rparr>,
    \<lparr>pe_name = ''PartnerNotFound'', pe_msg = ''Partner is not registered'',
      pe_text = ''This wallet is not a registered partner.''\<rparr>,
    \<lparr>pe_name = ''ServerKeyAlreadyRevoked'', pe_msg = ''already expired or revoked'',
      pe_text = ''This server key is already expired or revoked.''\<rparr>,
    \<lparr>pe_name = ''NotUpgradeAuthority'', pe_msg = ''upgrade authority'',
      pe_text = (''Only the program'' @ [CHR 0x27] @ ''s upgrade authority can do this.'')\<rparr>,
    \<lparr>pe_name = ''AssetMismatch'', pe_msg = ''Asset account does not match the'',
      pe_text = ''The Core asset does not match this passport.''\<rparr>,
    \<lparr>pe_name = ''InvalidAsset'', pe_msg = ''Asset account is not'',
      pe_text = ''The account is not a Metaplex Core asset.''\<rparr>,
    \<lparr>pe_name = ''AssetNotOwnedByIssuer'', pe_msg = ''must be owned by the issuer'',
      pe_text = ''The Core asset must belong to the wallet that issues the passport.''\<rparr>]"

definition ESCROW_PROGRAM_ERRORS :: "program_error list" where
  "ESCROW_PROGRAM_ERRORS = [
    \<lparr>pe_name = ''InvalidState'', pe_msg = ''Order is not in the required state'',
      pe_text = ''The order has already moved on to another step. Reload the order.''\<rparr>,
    \<lparr>pe_name = ''NotSeller'', pe_msg = (''Signer is not the order'' @ [CHR 0x27] @ ''s seller''),
      pe_text = (''Only the seller of this order can do this. Connect the seller'' @ [CHR 0x27] @ ''s wallet.'')\<rparr>,
    \<lparr>pe_name = ''NotBuyer'', pe_msg = (''Signer is not the order'' @ [CHR 0x27] @ ''s buyer''),
      pe_text = (''Only the buyer of this order can do this. Connect the buyer'' @ [CHR 0x27] @ ''s wallet.'')\<rparr>,
    \<lparr>pe_name = ''SellerCannotBuy'', pe_msg = ''Seller cannot buy their own listing'',
      pe_text = ''You cannot buy your own listing.''\<rparr>,
    \<lparr>pe_name = ''WrongMint'', pe_msg = ''does not match the escrow USDC mint'',
      pe_text = (''That token account does not hold the escrow'' @ [CHR 0x27] @ ''s USDC.'')\<rparr>,
    \<lparr>pe_name = ''ScanSealMismatch'', pe_msg = ''ScanProof does not belong to the given seal'',
      pe_text = ''That scan was made on another seal.''\<rparr>,
    \<lparr>pe_name = ''ScanAttesterMismatch'', pe_msg = ''ScanProof attester is not the expected party'',
      pe_text = (''That scan was anchored by another wallet: the shipping scan must be the seller'' @ [CHR 0x27] @ ''s own, the receipt scan the buyer'' @ [CHR 0x27] @ ''s own.'')\<rparr>,
    \<lparr>pe_name = ''SellerScanMismatch'', pe_msg = ''not the one recorded on the order'',
      pe_text = ''The shipping scan does not match the one recorded on the order. Reload the order.''\<rparr>,
    \<lparr>pe_name = ''ReceiptScanNotNewer'', pe_msg = ''higher counter than the pre-ship scan'',
      pe_text = ''The receipt scan must be a newer tap of the seal than the shipping scan. Do a new scan after receiving the bottle.''\<rparr>,
    \<lparr>pe_name = ''DisputeWindowNotElapsed'', pe_msg = ''has not elapsed yet'',
      pe_text = ''The waiting period has not ended yet. Try again after the deadline shown on the order.''\<rparr>,
    \<lparr>pe_name = ''SealNotDead'', pe_msg = ''Seal is not dead'',
      pe_text = ''The seal still answers on chain, so this refund is not possible.''\<rparr>,
    \<lparr>pe_name = ''AssetAlreadyDeposited'', pe_msg = ''Asset already deposited'',
      pe_text = ''The Core asset is already in escrow custody.''\<rparr>,
    \<lparr>pe_name = ''PriceChanged'', pe_msg = ''price differs from the price the buyer agreed'',
      pe_text = ''The price of this listing has changed. Reload the order and check the new price.''\<rparr>,
    \<lparr>pe_name = ''NotPassportOwner'', pe_msg = ''Seller is not the owner'',
      pe_text = (''Only the owner of the passport'' @ [CHR 0x27] @ ''s Core asset can list it (without a Core asset: its issuer, while still a partner).'')\<rparr>,
    \<lparr>pe_name = ''ReceiptMatched'', pe_msg = ''receipt scan matched'',
      pe_text = ''The receipt scan matched the shipping scan, so the order is released instead of disputed.''\<rparr>,
    \<lparr>pe_name = ''WrongTokenOwner'', pe_msg = ''does not belong to the expected recipient'',
      pe_text = ''The USDC account does not belong to the expected recipient.''\<rparr>,
    \<lparr>pe_name = ''ScanBeforeOrderStep'', pe_msg = ''older than this order step'',
      pe_text = ''This scan was made before the reservation (shipping scan) or before shipping (receipt scan). Do a new scan and record that one.''\<rparr>,
    \<lparr>pe_name = ''DeadSealAfterShipping'', pe_msg = ''a dead seal is settled by the escrow admin'',
      pe_text = ''The order is shipped: only the escrow admin can refund it now. Contact the admin before the receipt deadline.''\<rparr>]"

definition PROGRAM_ERRORS :: "program_error list" where
  "PROGRAM_ERRORS = FLACON_PROGRAM_ERRORS @ ESCROW_PROGRAM_ERRORS"

section \<open>Sentences\<close>

text \<open>\<open>/Error Code: (\w+)/.exec(m)?.[1]\<close>\<close>

definition error_code_in :: "string \<Rightarrow> string option" where
  "error_code_in m = after_first ''Error Code: '' (run1 is_word) m"

text \<open>\<open>/Error Message: ([^."\]]+)/.exec(m)?.[1]\<close>\<close>

definition error_message_in :: "string \<Rightarrow> string option" where
  "error_message_in m = after_first ''Error Message: '' (run1 (\<lambda>c. code c \<noteq> 46 \<and> code c \<noteq> 34 \<and> code c \<noteq> 93)) m"

definition programError :: "string \<Rightarrow> string option" where
  "programError m =
    (let cd = error_code_in m;
         hit = (case List.find (\<lambda>p. Some (pe_name p) = cd) PROGRAM_ERRORS of
                  Some p \<Rightarrow> Some p
                | None \<Rightarrow> List.find (\<lambda>p. contains m (pe_msg p)) PROGRAM_ERRORS)
     in map_option pe_text hit)"

definition sentence :: "string \<Rightarrow> string" where
  "sentence s =
    (let t = collapse_ws False (js_trim s) in
     case t of [] \<Rightarrow> []
     | c # r \<Rightarrow> (to_upper_char c # r) @ (if last t \<in> set ''.!?'' then [] else ''.''))"

definition ADMIN_TOKEN_TEXT :: string where
  "ADMIN_TOKEN_TEXT = ''The verification server refused the admin token. Enter the FV_ADMIN_TOKEN of this verifier; a verifier without FV_ADMIN_TOKEN set refuses this action.''"

definition strip_dots :: "string \<Rightarrow> string" where
  "strip_dots d = rev (strip_dots_rev (rev d))"

text \<open>\<open>/belongs to (\S+)/\<close>\<close>

definition belongs_to :: "string \<Rightarrow> string option" where
  "belongs_to d = after_first ''belongs to '' (\<lambda>r. case non_ws r of [] \<Rightarrow> None | w \<Rightarrow> Some w) d"

definition from_verify :: "int \<Rightarrow> string \<Rightarrow> string option" where
  "from_verify status d =
    (if status = 409 then
       (case belongs_to d of
          Some w \<Rightarrow> Some (''This seal belongs to a different passport ('' @ w @ '').'')
        | None \<Rightarrow> Some ''This seal belongs to a different passport.'')
     else if status = 422 then
       Some (if contains_i d ''mediahash'' then ''This tier needs a photo of the card. Photograph the card and try again.''
             else if contains_i d ''heat'' then ''The indicator reading is inconsistent. Photograph the card again.''
             else ''The server rejected the scan data. Restart the scan.'')
     else None)"

definition from_media :: "int \<Rightarrow> string \<Rightarrow> string option" where
  "from_media status d =
    (if status = 422 then Some ''No photo arrived at the server. Photograph the card again.''
     else if status = 411 then Some ''The photo upload was refused because the browser did not send its size. Try again, or use another browser.''
     else if status = 413 then
       Some (if contains_i d ''per session'' then ''This scan session already holds the most photos it can take (6). Restart the scan for a new session.''
             else if contains_i d ''each file'' then ''A photo is larger than the server accepts (8 MB). Photograph the card again.''
             else ''The photos are too large or too many for one upload. Photograph the card again.'')
     else if status = 415 then Some ''The photo format was not accepted (JPEG, PNG or WebP only). Photograph the card again.''
     else None)"

definition from_input :: "string \<Rightarrow> string option" where
  "from_input d =
    (if starts_with (lower d) ''invalid serial'' then
       Some (''The serial number is not valid: 3'' @ [CHR 0xE2, CHR 0x80, CHR 0x93] @ ''64 characters, letters and digits, plus '' @ [CHR 0x27] @ ''.'' @ [CHR 0x27] @ '', '' @ [CHR 0x27] @ ''_'' @ [CHR 0x27] @ '' or '' @ [CHR 0x27] @ ''-'' @ [CHR 0x27] @ ''.'')
     else if starts_with (lower d) ''txsig must be'' then
       Some ''The transaction signature is malformed. Reload the page and try again.''
     else if starts_with (lower d) ''attester must be a base58 pubkey'' \<or>
             starts_with (lower d) ''actor must be a base58 pubkey'' then
       Some ''The wallet address was not accepted. Reconnect the wallet and try again.''
     else None)"

definition from_status :: "int \<Rightarrow> string \<Rightarrow> string" where
  "from_status status d =
    (if status = 403 \<and> lower (js_trim d) = ''admin token required'' then ADMIN_TOKEN_TEXT
     else if status = 404 then (if d \<noteq> [] then sentence d else ''Not found.'')
     else if status = 429 then ''Too many requests. Wait a few seconds, then try again.''
     else if status \<ge> 500 then ''The verification server had a problem (HTTP '' @ show_int status @ ''). Try again in a moment.''
     else if status = 422 \<or> status = 409 \<or> status = 400 \<or> status = 403 then
       (if d \<noteq> [] then ''The server refused this: '' @ strip_dots d @ ''.''
        else ''The server refused this request (HTTP '' @ show_int status @ '').'')
     else if d \<noteq> [] then sentence d else ''Request failed (HTTP '' @ show_int status @ '').'')"

definition or_else :: "'a option \<Rightarrow> 'a option \<Rightarrow> 'a option" where
  "or_else a b = (case a of Some x \<Rightarrow> Some x | None \<Rightarrow> b)"

definition fromApi :: "api_error \<Rightarrow> string" where
  "fromApi e =
    (case Option.bind (ae_code e) (map_of CODES) of
       Some t \<Rightarrow>
         (case ae_retryAfter e of
            Some s \<Rightarrow> if s > 0 \<and> the (ae_code e) \<in> set WAIT_CODES
                      then t @ '' The server asks to wait '' @ waitText s @ ''.'' else t
          | None \<Rightarrow> t)
     | None \<Rightarrow>
         let d = (case ae_detail e of Some x \<Rightarrow> x | None \<Rightarrow> []);
             st = ae_status e in
         case or_else (if st = 422 then from_input d else None)
             (or_else (if starts_with (ae_path e) ''/api/verify'' then from_verify st d else None)
                      (if starts_with (ae_path e) ''/api/media'' then from_media st d else None)) of
           Some t \<Rightarrow> t
         | None \<Rightarrow> from_status st d)"

text \<open>\<open>/a.*b/i\<close> for lower-case ASCII texts, and \<open>/0x1\b/i\<close>.\<close>

definition then_on_line :: "string \<Rightarrow> string \<Rightarrow> string \<Rightarrow> bool" where
  "then_on_line m a b \<longleftrightarrow>
     after_first a (\<lambda>r. if contains (line_rest r) b then Some () else None) (lower m) \<noteq> None"

definition hex_one :: "string \<Rightarrow> bool" where
  "hex_one m \<longleftrightarrow>
     after_first ''0x1'' (\<lambda>r. case r of [] \<Rightarrow> Some () | c # _ \<Rightarrow> if is_word c then None else Some ()) (lower m) \<noteq> None"

definition any_of :: "string \<Rightarrow> string list \<Rightarrow> bool" where
  "any_of m ps \<longleftrightarrow> list_ex (contains_i m) ps"

definition refused_text :: "string \<Rightarrow> string" where
  "refused_text msg = ''The program refused the transaction: '' @ js_trim msg @ ''.''"

definition friendly_other :: "string \<Rightarrow> string \<Rightarrow> string" where
  "friendly_other name m =
    (if name = ''NotAllowedError'' \<and> \<not> any_of m [''wallet'', ''transaction'', ''sign'']
     then ''Permission denied by the browser. Allow it in the site settings and try again.''
     else if name = ''TimeoutError'' then ''The server did not answer in time. Check the connection and try again.''
     else case (if error_code_in m \<noteq> None then or_else (programError m) (map_option refused_text (error_message_in m)) else None) of
       Some t \<Rightarrow> t
     | None \<Rightarrow>
       if contains_i m ''error: insufficient funds'' then ''This wallet does not hold enough tokens (USDC) for this payment.''
       else if any_of m [''prior credit'', ''insufficient lamports'', ''insufficient sol''] \<or> hex_one m
       then ''This wallet has no SOL on devnet for the fee. Get devnet SOL (for example from faucet.solana.com), then try again.''
       else if any_of m [''rejected'', ''declined'', ''cancel'', ''abgelehnt'']
       then ''Signature rejected or cancelled in the wallet app. Press again and confirm in the wallet.''
       else if any_of m [''not connected'', ''no wallet''] \<or> then_on_line m ''wallet'' ''connect''
       then ''Wallet is no longer connected. Reconnect above.''
       else if any_of m [''chunkloaderror'', ''loading chunk'', ''dynamically imported module'']
       then ''Page is outdated (new version online). Reload the page and retry.''
       else if any_of m [''429'', ''too many requests'']
       then ''Devnet RPC overloaded (429). Wait 10 seconds, then press again.''
       else if any_of m [''blockhash not found'', ''blockheight exceeded'', ''block height exceeded'', ''has expired'']
       then ''The transaction expired before it was confirmed. Press again and confirm promptly in the wallet.''
       else if any_of m [''failed to fetch'', ''load failed'', ''networkerror'', ''network request failed'']
       then ''The server is unreachable. Check the connection and try again.''
       else case programError m of
         Some t \<Rightarrow> t
       | None \<Rightarrow> case error_message_in m of
           Some msg \<Rightarrow> refused_text msg
         | None \<Rightarrow> case after_first ''Transaction simulation failed: '' (run1 (\<lambda>c. c \<noteq> CHR ''.'')) m of
             Some s \<Rightarrow> ''The transaction would fail: '' @ js_trim s @ ''.''
           | None \<Rightarrow> if utf16_length m > 300 then utf16_take 300 m @ [CHR 0xE2, CHR 0x80, CHR 0xA6] else m)"

definition friendly :: "js_error \<Rightarrow> string" where
  "friendly e = (case e of
     ApiErr a \<Rightarrow> fromApi a
   | TxFailed sig reason \<Rightarrow>
       (case programError reason of
          Some p \<Rightarrow> ''The transaction failed on chain: '' @ p
        | None \<Rightarrow> tx_failed_message reason)
   | OtherErr name m \<Rightarrow> friendly_other name m)"

lemma codes_machine: "list_all (\<lambda>(c, t). c \<noteq> [] \<and> machine_code c) CODES"
  by (simp add: CODES_def machine_code_def is_lower_def is_digit_def code_def)

lemma codes_found: "map_of CODES c = Some t \<Longrightarrow> c \<noteq> [] \<and> machine_code c"
  using codes_machine map_of_SomeD unfolding list_all_iff by fastforce

lemma error_names_distinct: "distinct (map pe_name PROGRAM_ERRORS)"
  by (simp add: PROGRAM_ERRORS_def FLACON_PROGRAM_ERRORS_def ESCROW_PROGRAM_ERRORS_def)

lemma find_by_key:
  "distinct (map f xs) \<Longrightarrow> x \<in> set xs \<Longrightarrow> List.find (\<lambda>y. Some (f y) = Some (f x)) xs = Some x"
  by (induction xs) (auto simp: rev_image_eqI)

lemma programError_named:
  "p \<in> set PROGRAM_ERRORS \<Longrightarrow> error_code_in m = Some (pe_name p) \<Longrightarrow> programError m = Some (pe_text p)"
  using find_by_key [OF error_names_distinct] by (simp add: programError_def)

section \<open>Properties\<close>

text \<open>C13: an error that names itself is shown by its own text. When the simulation log names an Anchor
  error of the table (\<open>Error Code: <Name>\<close>), the sentence is that entry's text, whatever else the log
  says: no guess from the words of the log (cancel, expired, 0x1, ...) gets in before it. Only the name of the
  thrown error is looked at first: a browser's \<open>TimeoutError\<close>, and its \<open>NotAllowedError\<close> when the message has none of
  the words wallet, transaction and sign, keep their own sentences. A transaction that landed and failed
  is always shown by the entry's text.\<close>

theorem program_error_named:
  assumes "p \<in> set PROGRAM_ERRORS" "error_code_in m = Some (pe_name p)"
  shows "friendly (OtherErr name m) =
      (if name = ''NotAllowedError'' \<and> \<not> any_of m [''wallet'', ''transaction'', ''sign'']
       then ''Permission denied by the browser. Allow it in the site settings and try again.''
       else if name = ''TimeoutError'' then ''The server did not answer in time. Check the connection and try again.''
       else pe_text p) \<and>
    friendly (TxFailed sig m) = ''The transaction failed on chain: '' @ pe_text p"
  using programError_named [OF assms(1,2)] assms(2)
  by (simp add: friendly_def friendly_other_def or_else_def)

theorem program_error_named_witness:
  "friendly (OtherErr ''SendTransactionError'' ''Instruction: Cancel. Error Code: SealDead. Error Number: 6013.'') =
   ''This seal is marked as not responding on chain: no further scans can be anchored.''"
proof -
  have c: "error_code_in ''Instruction: Cancel. Error Code: SealDead. Error Number: 6013.'' = Some ''SealDead''"
    by (simp add: error_code_in_def run1_def char_class_simps code_def)
  have "\<exists>p \<in> set PROGRAM_ERRORS. pe_name p = ''SealDead'' \<and>
      pe_text p = ''This seal is marked as not responding on chain: no further scans can be anchored.''"
    by (simp add: PROGRAM_ERRORS_def FLACON_PROGRAM_ERRORS_def)
  then obtain p where "p \<in> set PROGRAM_ERRORS" "pe_name p = ''SealDead''"
    "pe_text p = ''This seal is marked as not responding on chain: no further scans can be anchored.''" by blast
  then show ?thesis using program_error_named [of p _ "''SendTransactionError''"] c by simp
qed

text \<open>A machine code of the verifier decides the sentence. However FastAPI wraps it (\<open>detail\<close> the
  code itself or an object with \<open>code\<close>), and whatever path and status the response has, a known code
  gives its sentence; only the waiting codes add the server's Retry-After, and only when it is
  positive.\<close>

theorem machine_code_sentence:
  assumes "parse_json body = Some (JObj ps)" "map_of ps ''detail'' = Some d"
    and "d = JStr c \<or> d = JObj qs \<and> map_of qs ''code'' = Some (JStr c)"
    and "map_of CODES c = Some t"
  shows "friendly (ApiErr (apiError parse_json parse_date now path status (Some body) header)) =
    (case retryAfterSeconds parse_date header now of
       Some s \<Rightarrow> if s > 0 \<and> c \<in> set WAIT_CODES then t @ '' The server asks to wait '' @ waitText s @ ''.'' else t
     | None \<Rightarrow> t)"
proof -
  have c: "c \<noteq> []" "machine_code c" using codes_found [OF assms(4)] by auto
  have "ae_code (apiError parse_json parse_date now path status (Some body) header) = Some c"
    using assms(3)
  proof
    assume "d = JStr c"
    then show ?thesis using assms(1,2) c by (simp add: apiError_def coalesce_def)
  next
    assume "d = JObj qs \<and> map_of qs ''code'' = Some (JStr c)"
    then show ?thesis using assms(1,2) c by (simp add: apiError_def coalesce_def Let_def split: option.splits)
  qed
  moreover have "ae_retryAfter (apiError parse_json parse_date now path status (Some body) header) =
      retryAfterSeconds parse_date header now"
    by (simp add: apiError_def Let_def split: option.splits prod.splits)
  ultimately show ?thesis using assms(4) by (simp add: friendly_def fromApi_def split: option.splits)
qed

theorem machine_code_sentence_witness:
  "friendly (ApiErr (apiError (\<lambda>_. Some (JObj [(''detail'', JObj [(''code'', JStr ''busy'')])])) (\<lambda>_. None) 0
     ''/api/events/confirm'' 503 (Some ''...'') (Some ''5''))) =
   ''The verification server is busy checking other transactions. Wait a few seconds, then try again. The server asks to wait about 5 seconds.''"
proof -
  have "retryAfterSeconds (\<lambda>_. None) (Some ''5'') 0 = Some 5"
    by (simp add: retryAfterSeconds_def js_trim_graph is_graph_def is_digit_def code_def read_nat_def)
  moreover have "waitText 5 = ''about 5 seconds''"
  proof -
    have "\<lfloor>11 / 2 :: rat\<rfloor> = 5" by (simp add: floor_eq_iff)
    then show ?thesis
      by (simp add: waitText_def js_round_def show_int_def show_nat.simps [of 5] digit_char_def char_of_def bit_0)
  qed
  ultimately show ?thesis
    using machine_code_sentence [of "\<lambda>_. Some (JObj [(''detail'', JObj [(''code'', JStr ''busy'')])])" "''...''"
      "[(''detail'', JObj [(''code'', JStr ''busy'')])]" "JObj [(''code'', JStr ''busy'')]" "''busy''"
      "[(''code'', JStr ''busy'')]" _ "\<lambda>_. None" 0 "''/api/events/confirm''" 503 "Some ''5''"]
    by (simp add: CODES_def WAIT_CODES_def)
qed
end
