(* ===== verification/Idl_Facts.thy ===== *)
theory Idl_Facts
  imports Flacon_Idl Escrow_Idl Escrow_Program Web_Flacon Web_Errors
begin

text \<open>
  Checks on the two IDLs: discriminators identify instructions, accounts and events, the error tables
  are the Rust enums with their codes, the account layouts have the sizes and offsets the Rust
  sources assert, and the constants agree with the enums of the proof package, of the programs and of
  the web app.
\<close>

section \<open>Well-formed tables\<close>

definition discriminators :: "idl \<Rightarrow> nat list list" where
  "discriminators i = map ii_discriminator (idl_instructions i) @ map snd (idl_accounts i) @ map snd (idl_events i)"

definition well_formed_idl :: "idl \<Rightarrow> bool" where
  "well_formed_idl i \<longleftrightarrow>
     distinct (map ii_discriminator (idl_instructions i)) \<and> distinct (map snd (idl_accounts i)) \<and>
     distinct (map snd (idl_events i)) \<and>
     list_all (\<lambda>d. length d = 8 \<and> list_all (\<lambda>b. b < 256) d) (discriminators i) \<and>
     distinct (map ii_name (idl_instructions i)) \<and> distinct (map it_name (idl_types i)) \<and>
     list_all (\<lambda>x. distinct (map ia_name (ii_accounts x))) (idl_instructions i) \<and>
     list_all (\<lambda>(n, _). n \<in> set (map it_name (idl_types i))) (idl_accounts i @ idl_events i) \<and>
     map ie_code (idl_errors i) = [6000..<6000 + length (idl_errors i)] \<and>
     distinct (map ie_name (idl_errors i)) \<and> distinct (map ie_msg (idl_errors i))"

lemma wf_flacon: "well_formed_idl flacon_idl"
  unfolding well_formed_idl_def
proof (intro conjI)
  show "distinct (map ii_discriminator (idl_instructions flacon_idl))"
    by (simp add: flacon_idl_def flacon_instruction_defs)
  show "distinct (map snd (idl_accounts flacon_idl))" by (simp add: flacon_idl_def flacon_table_defs)
  show "distinct (map snd (idl_events flacon_idl))" by (simp add: flacon_idl_def flacon_table_defs)
  show "list_all (\<lambda>d. length d = 8 \<and> list_all (\<lambda>b. b < 256) d) (discriminators flacon_idl)"
    by (simp add: discriminators_def flacon_idl_def flacon_instruction_defs flacon_table_defs)
  show "distinct (map ii_name (idl_instructions flacon_idl))"
    by (simp add: flacon_idl_def flacon_instruction_defs)
  show "distinct (map it_name (idl_types flacon_idl))" by (simp add: flacon_idl_def flacon_type_defs)
  show "list_all (\<lambda>x. distinct (map ia_name (ii_accounts x))) (idl_instructions flacon_idl)"
    by (simp add: flacon_idl_def flacon_instruction_defs idl_acc_def)
  show "list_all (\<lambda>(n, _). n \<in> set (map it_name (idl_types flacon_idl))) (idl_accounts flacon_idl @ idl_events flacon_idl)"
    by (simp add: flacon_idl_def flacon_type_defs flacon_table_defs)
  show "map ie_code (idl_errors flacon_idl) = [6000..<6000 + length (idl_errors flacon_idl)]"
    by (simp add: flacon_idl_def flacon_table_defs)
  show "distinct (map ie_name (idl_errors flacon_idl))" by (simp add: flacon_idl_def flacon_table_defs)
  show "distinct (map ie_msg (idl_errors flacon_idl))" by (simp add: flacon_idl_def flacon_table_defs)
qed

lemma wf_escrow: "well_formed_idl escrow_idl"
  unfolding well_formed_idl_def
proof (intro conjI)
  show "distinct (map ii_discriminator (idl_instructions escrow_idl))"
    by (simp add: escrow_idl_def escrow_instruction_defs)
  show "distinct (map snd (idl_accounts escrow_idl))" by (simp add: escrow_idl_def escrow_table_defs)
  show "distinct (map snd (idl_events escrow_idl))" by (simp add: escrow_idl_def escrow_table_defs)
  show "list_all (\<lambda>d. length d = 8 \<and> list_all (\<lambda>b. b < 256) d) (discriminators escrow_idl)"
    by (simp add: discriminators_def escrow_idl_def escrow_instruction_defs escrow_table_defs)
  show "distinct (map ii_name (idl_instructions escrow_idl))"
    by (simp add: escrow_idl_def escrow_instruction_defs)
  show "distinct (map it_name (idl_types escrow_idl))" by (simp add: escrow_idl_def escrow_type_defs)
  show "list_all (\<lambda>x. distinct (map ia_name (ii_accounts x))) (idl_instructions escrow_idl)"
    by (simp add: escrow_idl_def escrow_instruction_defs idl_acc_def)
  show "list_all (\<lambda>(n, _). n \<in> set (map it_name (idl_types escrow_idl))) (idl_accounts escrow_idl @ idl_events escrow_idl)"
    by (simp add: escrow_idl_def escrow_type_defs escrow_table_defs)
  show "map ie_code (idl_errors escrow_idl) = [6000..<6000 + length (idl_errors escrow_idl)]"
    by (simp add: escrow_idl_def escrow_table_defs)
  show "distinct (map ie_name (idl_errors escrow_idl))" by (simp add: escrow_idl_def escrow_table_defs)
  show "distinct (map ie_msg (idl_errors escrow_idl))" by (simp add: escrow_idl_def escrow_table_defs)
qed

section \<open>Layouts\<close>

lemma order_layout:
  "map (field_offset escrow_idl ''order'')
     [''passport'', ''seller'', ''buyer'', ''asset'', ''price'', ''state'', ''listedAt'', ''reservedAt'', ''shippedAt'',
      ''sellerScan'', ''buyerScan'', ''disputeAfterS'', ''assetDeposited'', ''bump'', ''vaultBump''] =
   map Some [8, 40, 72, 104, 136, 144, 145, 153, 161, 169, 201, 233, 241, 242, 243]"
  by (simp add: field_offset_def escrow_idl_def escrow_type_defs)

lemma config_layout:
  "map (field_offset escrow_idl ''escrowConfig'') [''admin'', ''usdcMint'', ''disputeAfterS'', ''bump''] = map Some [8, 40, 72, 80]"
  by (simp add: field_offset_def escrow_idl_def escrow_type_defs)

lemma passport_layout:
  "map (field_offset flacon_idl ''passport'')
     [''serialHash'', ''bindingHash'', ''asset'', ''issuer'', ''grade'', ''scanCount'', ''sealCount'', ''void'', ''createdAt'', ''bump''] =
   map Some [8, 40, 72, 104, 136, 137, 141, 142, 143, 151]"
  by (simp add: field_offset_def flacon_idl_def flacon_type_defs)

lemma seal_layout:
  "map (field_offset flacon_idl ''seal'') [''passport'', ''kind'', ''uidHash'', ''lastCounter'', ''dead'', ''attachedAt'', ''bump''] =
   map Some [8, 40, 41, 73, 77, 78, 86]"
  by (simp add: field_offset_def flacon_idl_def flacon_type_defs)

lemma account_sizes:
  "account_size escrow_idl ''order'' = Some 244" "account_size escrow_idl ''escrowConfig'' = Some 81"
  "account_size flacon_idl ''passport'' = Some 152" "account_size flacon_idl ''seal'' = Some 87"
  "account_size flacon_idl ''scanProof'' = Some 160"
  by (simp_all add: account_size_def escrow_idl_def escrow_type_defs flacon_idl_def flacon_type_defs)

section \<open>Constants\<close>

text \<open>\<open>GRADE_VOID\<close> of the Rust sources is \<open>gradeVoid\<close> in the camel-case IDL.\<close>

fun camel :: "bool \<Rightarrow> string \<Rightarrow> string" where
  "camel up [] = []"
| "camel up (c # s) = (if c = CHR ''_'' then camel True s else (if up then c else to_lower_char c) # camel False s)"

definition const_int :: "idl \<Rightarrow> string \<Rightarrow> int option" where
  "const_int i n = map_option (\<lambda>v. int (read_nat v)) (constant_value i n)"

definition table_agrees :: "idl \<Rightarrow> string \<Rightarrow> enum_table \<Rightarrow> bool" where
  "table_agrees i pre t \<longleftrightarrow> list_all (\<lambda>(k, v). const_int i (pre @ camel True k) = Some v) t"

definition bytes_text :: "bytes \<Rightarrow> string" where
  "bytes_text bs = ''['' @ join_with '', '' (map (\<lambda>b. show_nat (unat b)) bs) @ '']''"

lemmas const_simps = table_agrees_def const_int_def constant_value_def read_nat_def to_lower_char_def is_upper_def code_def
  char_of_def bit_0

lemma tables_agree:
  "table_agrees flacon_idl ''tamper'' Tamper" "table_agrees flacon_idl ''indicator'' Indicator"
  "table_agrees flacon_idl ''tier'' Tier" "table_agrees flacon_idl ''role'' Role"
  "table_agrees flacon_idl ''grade'' Grade" "table_agrees flacon_idl ''sealKind'' SealKind"
  "table_agrees flacon_idl ''event'' EventType"
  by (simp_all add: const_simps enum_tables flacon_idl_def flacon_table_defs)

lemma order_states_agree:
  "map (\<lambda>s. const_int escrow_idl (''orderState'' @ s))
     [''Listed'', ''Reserved'', ''PreshipScanned'', ''Shipped'', ''ReceiptScanned'', ''Released'', ''Mismatch'',
      ''Dispute'', ''Cancelled''] =
   map (\<lambda>s. Some (OrderState s))
     [LISTED, RESERVED, PRESHIP_SCANNED, SHIPPED, RECEIPT_SCANNED, RELEASED, MISMATCH, DISPUTE, CANCELLED]"
  by (simp add: const_simps escrow_idl_def escrow_table_defs)

lemma limits_agree:
  "const_int flacon_idl ''maxCounter'' = Some (uint MAX_COUNTER)"
  "const_int flacon_idl ''maxSealsPerPassport'' = Some (uint MAX_SEALS_PER_PASSPORT)"
  "const_int flacon_idl ''maxScanTsSkewS'' = Some MAX_SCAN_TS_SKEW_S"
  "const_int flacon_idl ''msgLen'' = Some (int MSG_LEN)"
  "const_int flacon_idl ''heatDecisiveIndex'' = Some (int HEAT_DECISIVE_INDEX)"
  "const_int escrow_idl ''fillTolerance'' = Some (int FILL_TOLERANCE)"
  "const_int escrow_idl ''minDisputeAfterS'' = Some MIN_DISPUTE_AFTER_S"
  "const_int escrow_idl ''maxDisputeAfterS'' = Some MAX_DISPUTE_AFTER_S"
  by (simp_all add: const_simps escrow_idl_def escrow_table_defs flacon_idl_def flacon_table_defs MAX_COUNTER_def
    MAX_SEALS_PER_PASSPORT_def MAX_SCAN_TS_SKEW_S_def MSG_LEN_def HEAT_DECISIVE_INDEX_def FILL_TOLERANCE_def
    MIN_DISPUTE_AFTER_S_def MAX_DISPUTE_AFTER_S_def)

lemma seeds_agree:
  "list_all (\<lambda>k. constant_value flacon_idl (k @ ''Seed'') = Some (bytes_text (seed_of k)))
     [''registry'', ''passport'', ''seal'', ''scan'', ''origin'']"
  "constant_value flacon_idl ''msgPrefix'' = Some (bytes_text (utf8 MSG_PREFIX))"
  "list_all (\<lambda>k. constant_value escrow_idl (k @ ''Seed'') = Some (bytes_text (utf8 k))) [''config'', ''order'', ''vault'']"
  by (simp_all add: constant_value_def flacon_idl_def flacon_table_defs escrow_idl_def escrow_table_defs bytes_text_def
     seed_of_def PDA_SEEDS_def utf8_def MSG_PREFIX_def show_small digit_char_def char_of_def bit_0)
section \<open>Properties\<close>

text \<open>Both IDLs are well formed. Discriminators are eight bytes and tell instructions, accounts and
  events apart, names are unique, every account and event has its type, and the error codes are
  consecutive from 6000 with distinct names and messages.\<close>

theorem idls_well_formed: "well_formed_idl flacon_idl \<and> well_formed_idl escrow_idl"
  using wf_flacon wf_escrow by blast

text \<open>The account layouts of the IDLs are the ones the Rust sources document and the clients read at
  fixed offsets: sizes with the discriminator, and the offset of every field.\<close>

theorem account_layouts:
  "account_size escrow_idl ''order'' = Some 244 \<and> account_size escrow_idl ''escrowConfig'' = Some 81 \<and>
   account_size flacon_idl ''passport'' = Some 152 \<and> account_size flacon_idl ''seal'' = Some 87 \<and>
   account_size flacon_idl ''scanProof'' = Some 160 \<and>
   map (field_offset escrow_idl ''order'')
     [''passport'', ''seller'', ''buyer'', ''asset'', ''price'', ''state'', ''listedAt'', ''reservedAt'', ''shippedAt'',
      ''sellerScan'', ''buyerScan'', ''disputeAfterS'', ''assetDeposited'', ''bump'', ''vaultBump''] =
     map Some [8, 40, 72, 104, 136, 144, 145, 153, 161, 169, 201, 233, 241, 242, 243] \<and>
   map (field_offset escrow_idl ''escrowConfig'') [''admin'', ''usdcMint'', ''disputeAfterS'', ''bump''] = map Some [8, 40, 72, 80] \<and>
   map (field_offset flacon_idl ''passport'')
     [''serialHash'', ''bindingHash'', ''asset'', ''issuer'', ''grade'', ''scanCount'', ''sealCount'', ''void'', ''createdAt'', ''bump''] =
     map Some [8, 40, 72, 104, 136, 137, 141, 142, 143, 151] \<and>
   map (field_offset flacon_idl ''seal'') [''passport'', ''kind'', ''uidHash'', ''lastCounter'', ''dead'', ''attachedAt'', ''bump''] =
     map Some [8, 40, 41, 73, 77, 78, 86]"
  by (intro conjI account_sizes order_layout config_layout passport_layout seal_layout)

text \<open>The constants in the IDLs are the ones the code uses. Every entry of the proof package's
  enum tables is the program's constant of that name, so are the order states of the app, the counter,
  seal, skew, fill and window limits, and the PDA seeds and the message prefix as bytes.\<close>

theorem constants_agree:
  "table_agrees flacon_idl ''tamper'' Tamper \<and> table_agrees flacon_idl ''indicator'' Indicator \<and>
   table_agrees flacon_idl ''tier'' Tier \<and> table_agrees flacon_idl ''role'' Role \<and>
   table_agrees flacon_idl ''grade'' Grade \<and> table_agrees flacon_idl ''sealKind'' SealKind \<and>
   table_agrees flacon_idl ''event'' EventType \<and>
   map (\<lambda>s. const_int escrow_idl (''orderState'' @ s))
     [''Listed'', ''Reserved'', ''PreshipScanned'', ''Shipped'', ''ReceiptScanned'', ''Released'', ''Mismatch'',
      ''Dispute'', ''Cancelled''] =
   map (\<lambda>s. Some (OrderState s))
     [LISTED, RESERVED, PRESHIP_SCANNED, SHIPPED, RECEIPT_SCANNED, RELEASED, MISMATCH, DISPUTE, CANCELLED] \<and>
   const_int flacon_idl ''maxCounter'' = Some (uint MAX_COUNTER) \<and>
   const_int flacon_idl ''maxSealsPerPassport'' = Some (uint MAX_SEALS_PER_PASSPORT) \<and>
   const_int flacon_idl ''maxScanTsSkewS'' = Some MAX_SCAN_TS_SKEW_S \<and>
   const_int flacon_idl ''msgLen'' = Some (int MSG_LEN) \<and>
   const_int flacon_idl ''heatDecisiveIndex'' = Some (int HEAT_DECISIVE_INDEX) \<and>
   const_int escrow_idl ''fillTolerance'' = Some (int FILL_TOLERANCE) \<and>
   const_int escrow_idl ''minDisputeAfterS'' = Some MIN_DISPUTE_AFTER_S \<and>
   const_int escrow_idl ''maxDisputeAfterS'' = Some MAX_DISPUTE_AFTER_S \<and>
   constant_value flacon_idl ''msgPrefix'' = Some (bytes_text (utf8 MSG_PREFIX)) \<and>
   list_all (\<lambda>k. constant_value flacon_idl (k @ ''Seed'') = Some (bytes_text (seed_of k)))
     [''registry'', ''passport'', ''seal'', ''scan'', ''origin''] \<and>
   list_all (\<lambda>k. constant_value escrow_idl (k @ ''Seed'') = Some (bytes_text (utf8 k))) [''config'', ''order'', ''vault'']"
  by (intro conjI tables_agree order_states_agree limits_agree seeds_agree)

end
