(* ===== verification/Idl_Errors.thy ===== *)
theory Idl_Errors
  imports Idl_Facts
begin

text \<open>
  The texts of \<open>errors.ts\<close> belong to errors of the programs: every entry of \<open>PROGRAM_ERRORS\<close> is matched
  with the errors of the two IDLs it explains.
\<close>

text \<open>An entry of \<open>PROGRAM_ERRORS\<close> explains an error of a program: Anchor logs the error under its Rust
  name, the camel-case name with a capital, and the entry's \<open>msg\<close> is a part of the program's message.\<close>

definition explains :: "program_error \<Rightarrow> idl_error \<Rightarrow> bool" where
  "explains p e \<longleftrightarrow> (case ie_name e of [] \<Rightarrow> False | c # r \<Rightarrow> pe_name p = to_upper_char c # r) \<and>
     contains (ie_msg e) (pe_msg p)"

text \<open>Position in \<open>PROGRAM_ERRORS\<close> and position in the program's error table.\<close>

definition explained_flacon :: "(nat \<times> nat) list" where
  "explained_flacon =
    [(0, 1), (1, 12), (2, 13), (3, 14), (4, 15), (5, 21), (6, 25), (7, 26), (8, 27), (9, 33), (10, 34), (11, 35), 
     (12, 36), (13, 37), (14, 38), (15, 39), (16, 40), (17, 41), (18, 42), (19, 43)]"

definition explained_escrow :: "(nat \<times> nat) list" where
  "explained_escrow =
    [(1, 10), (3, 3), (17, 16), (18, 20), (20, 0), (21, 4), (22, 5), (23, 6), (24, 8), (25, 9), (26, 11), (27, 12), 
     (28, 13), (29, 14), (30, 15), (31, 17), (32, 22), (33, 23), (34, 24), (35, 25), (36, 26), (37, 27)]"

lemma explained_flacon_ok:
  "list_all (\<lambda>(p, e). explains (PROGRAM_ERRORS ! p) (idl_errors flacon_idl ! e)) explained_flacon"
  by (simp add: explains_def explained_flacon_def to_upper_char_def is_lower_def code_def char_of_def bit_0 PROGRAM_ERRORS_def
      FLACON_PROGRAM_ERRORS_def flacon_idl_def flacon_table_defs)

lemma explained_escrow_ok:
  "list_all (\<lambda>(p, e). explains (PROGRAM_ERRORS ! p) (idl_errors escrow_idl ! e)) explained_escrow"
  by (simp add: explains_def explained_escrow_def to_upper_char_def is_lower_def code_def char_of_def bit_0 PROGRAM_ERRORS_def
      FLACON_PROGRAM_ERRORS_def ESCROW_PROGRAM_ERRORS_def escrow_idl_def escrow_table_defs)

lemma explained_all:
  "list_all (\<lambda>p. p \<in> set (map fst (explained_flacon @ explained_escrow))) [0..<length PROGRAM_ERRORS]"
  by (simp add: explained_flacon_def explained_escrow_def PROGRAM_ERRORS_def FLACON_PROGRAM_ERRORS_def ESCROW_PROGRAM_ERRORS_def)

section \<open>Property\<close>

text \<open>The table of program errors is about the programs' errors. Every entry of \<open>PROGRAM_ERRORS\<close>
  has the log name and a part of the message of an error of the flacon or the escrow program, and an
  entry both programs use has one \<open>msg\<close> that is a part of both messages.\<close>

theorem program_errors_explained:
  "list_all (\<lambda>(p, e). explains (PROGRAM_ERRORS ! p) (idl_errors flacon_idl ! e)) explained_flacon \<and>
   list_all (\<lambda>(p, e). explains (PROGRAM_ERRORS ! p) (idl_errors escrow_idl ! e)) explained_escrow \<and>
   list_all (\<lambda>p. p \<in> set (map fst (explained_flacon @ explained_escrow))) [0..<length PROGRAM_ERRORS]"
  by (intro conjI explained_flacon_ok explained_escrow_ok explained_all)

end
