(* ===== verification/Web_Tx.thy ===== *)
theory Web_Tx
  imports Web_Flacon Web_Errors
begin

text \<open>
  A transaction as the RPC returns it (\<open>VersionedTransactionResponse\<close>), and what both searches of the
  web app ask of one: \<open>txCreates\<close> of \<open>send-tx.ts\<close> and \<open>isReserveOf\<close> of \<open>blink-confirm.ts\<close>. Their
  common promise is the locale \<open>tx_matcher\<close>.
\<close>

section \<open>Transactions\<close>

record compiled_ix =
  ci_program :: nat
  ci_accounts :: "nat list"
  ci_data :: bytes

record tx_meta =
  tm_err :: bool
  tm_loaded :: "pubkey list"

record chain_tx =
  ct_meta :: "tx_meta option"
  ct_v0 :: bool
  ct_static :: "pubkey list"
  ct_required_signatures :: nat
  ct_instructions :: "compiled_ix list"

text \<open>\<open>getAccountKeys\<close>: the static keys, for a v0 message followed by the loaded ones; \<open>keys.get(i)\<close>.\<close>

definition account_keys :: "chain_tx \<Rightarrow> pubkey list" where
  "account_keys t = ct_static t @
     (if ct_v0 t then (case ct_meta t of Some m \<Rightarrow> tm_loaded m | None \<Rightarrow> []) else [])"

definition key_at :: "pubkey list \<Rightarrow> nat \<Rightarrow> pubkey option" where
  "key_at ks i = (if i < length ks then Some (ks ! i) else None)"

definition nat_at :: "nat list \<Rightarrow> nat \<Rightarrow> nat option" where
  "nat_at xs i = (if i < length xs then Some (xs ! i) else None)"

definition signed_by :: "chain_tx \<Rightarrow> pubkey \<Rightarrow> bool" where
  "signed_by t k \<longleftrightarrow> list_ex (\<lambda>i. key_at (account_keys t) i = Some k) [0..<ct_required_signatures t]"

text \<open>The transaction is known to have failed.\<close>

definition tx_failed :: "chain_tx \<Rightarrow> bool" where
  "tx_failed t \<longleftrightarrow> (case ct_meta t of Some m \<Rightarrow> tm_err m | None \<Rightarrow> False)"

definition txCreates :: "pubkey \<Rightarrow> pubkey \<Rightarrow> bytes list \<Rightarrow> pubkey option \<Rightarrow> chain_tx \<Rightarrow> bool" where
  "txCreates account programId discriminators signer t =
    (if tx_failed t then False
     else if (case signer of Some s \<Rightarrow> \<not> signed_by t s | None \<Rightarrow> False) then False
     else list_ex (\<lambda>ix. key_at (account_keys t) (ci_program ix) = Some programId \<and>
         (discriminators = [] \<or> list_ex (starts_with (ci_data ix)) discriminators) \<and>
         list_ex (\<lambda>i. key_at (account_keys t) i = Some account) (ci_accounts ix)) (ct_instructions t))"

record reserve_query =
  rq_programId :: pubkey
  rq_order :: pubkey
  rq_buyer :: pubkey
  rq_discriminator :: bytes
  rq_orderIndex :: nat
  rq_buyerIndex :: nat

definition isReserveOf :: "reserve_query \<Rightarrow> chain_tx option \<Rightarrow> bool" where
  "isReserveOf q t' = (case t' of None \<Rightarrow> False | Some t \<Rightarrow>
     (case ct_meta t of None \<Rightarrow> False | Some m \<Rightarrow>
       if tm_err m then False
       else if \<not> signed_by t (rq_buyer q) then False
       else list_ex (\<lambda>ix. key_at (account_keys t) (ci_program ix) = Some (rq_programId q) \<and>
           starts_with (ci_data ix) (rq_discriminator q) \<and>
           Option.bind (nat_at (ci_accounts ix) (rq_orderIndex q)) (key_at (account_keys t)) = Some (rq_order q) \<and>
           Option.bind (nat_at (ci_accounts ix) (rq_buyerIndex q)) (key_at (account_keys t)) = Some (rq_buyer q))
         (ct_instructions t)))"

section \<open>What a match promises\<close>

text \<open>
  A test that picks a transaction out of a history: what it accepts did not fail, runs an instruction
  of the program and carries the required signatures.
\<close>

locale tx_matcher =
  fixes matches :: "chain_tx \<Rightarrow> bool"
    and prog :: pubkey
    and who :: "pubkey set"
  assumes match_ok: "matches t \<Longrightarrow> \<not> tx_failed t"
    and match_runs: "matches t \<Longrightarrow> \<exists>ix \<in> set (ct_instructions t). key_at (account_keys t) (ci_program ix) = Some prog"
    and match_signed: "matches t \<Longrightarrow> k \<in> who \<Longrightarrow> signed_by t k"
begin

definition genuine :: "chain_tx \<Rightarrow> bool" where
  "genuine t \<longleftrightarrow> \<not> tx_failed t \<and> (\<forall>k \<in> who. signed_by t k) \<and>
     (\<exists>ix \<in> set (ct_instructions t). key_at (account_keys t) (ci_program ix) = Some prog)"

lemma match_genuine: "matches t \<Longrightarrow> genuine t"
  using match_ok match_runs match_signed by (auto simp: genuine_def)

text \<open>The first match of a search over signatures.\<close>

lemma first_match:
  assumes "List.find (\<lambda>s. case tx_of s of None \<Rightarrow> False | Some t \<Rightarrow> matches t) sigs = Some s"
  shows "\<exists>t older newer. sigs = older @ s # newer \<and> tx_of s = Some t \<and> genuine t \<and>
    (\<forall>s' \<in> set older. case tx_of s' of None \<Rightarrow> True | Some t' \<Rightarrow> \<not> matches t')"
proof -
  from assms obtain i where i: "i < length sigs" "s = sigs ! i"
    "case tx_of s of None \<Rightarrow> False | Some t \<Rightarrow> matches t"
    "\<forall>j < i. \<not> (case tx_of (sigs ! j) of None \<Rightarrow> False | Some t \<Rightarrow> matches t)"
    by (auto simp: find_Some_iff)
  then obtain t where t: "tx_of s = Some t" "matches t" by (auto split: option.splits)
  have "sigs = take i sigs @ s # drop (Suc i) sigs" using i(1,2) by (simp add: id_take_nth_drop)
  moreover have "\<forall>s' \<in> set (take i sigs). case tx_of s' of None \<Rightarrow> True | Some t' \<Rightarrow> \<not> matches t'"
    using i(1,4) by (auto simp: in_set_conv_nth split: option.splits)
  ultimately show ?thesis using t match_genuine by blast
qed

end

lemma txCreates_iff:
  "txCreates account prog ds signer t \<longleftrightarrow> \<not> tx_failed t \<and> (\<forall>s \<in> set_option signer. signed_by t s) \<and>
     (\<exists>ix \<in> set (ct_instructions t). key_at (account_keys t) (ci_program ix) = Some prog \<and>
        (ds = [] \<or> (\<exists>d \<in> set ds. starts_with (ci_data ix) d)) \<and>
        (\<exists>i \<in> set (ci_accounts ix). key_at (account_keys t) i = Some account))"
  by (auto simp: txCreates_def list_ex_iff split: option.splits)

interpretation creates: tx_matcher "txCreates account prog ds signer" prog "set_option signer"
  for account prog ds signer
  by unfold_locales (auto simp: txCreates_iff)

interpretation reserves: tx_matcher "\<lambda>t. isReserveOf q (Some t)" "rq_programId q" "{rq_buyer q}" for q
  by unfold_locales (auto simp: isReserveOf_def tx_failed_def list_ex_iff split: option.splits if_splits)

end
