(* ===== verification/Web_Send.thy ===== *)
theory Web_Send
  imports Web_Tx
begin

text \<open>
  \<open>apps/web/src/lib/send-tx.ts\<close>: sending a transaction as v0 and confirming it, the text of a failure,
  and the search for the transaction that created an account. The RPC and the wallet are arguments;
  what they answer at the i-th call is a function of i. An error a call throws is a \<open>thrown\<close>.
\<close>

section \<open>Errors\<close>

record thrown =
  th_error :: js_error
  th_inner :: "string option"
  th_logs :: "string list"

fun js_message :: "js_error \<Rightarrow> string" where
  "js_message (ApiErr e) = api_error_message e"
| "js_message (TxFailed sig r) = tx_failed_message r"
| "js_message (OtherErr n m) = m"

fun js_name :: "js_error \<Rightarrow> string" where
  "js_name (ApiErr e) = ''ApiError''"
| "js_name (TxFailed sig r) = ''TxFailedError''"
| "js_name (OtherErr n m) = n"

definition errText :: "thrown \<Rightarrow> string" where
  "errText e =
    (let parts = [js_message (th_error e), (case th_inner e of Some m \<Rightarrow> m | None \<Rightarrow> [])] @ th_logs e;
         t = join_with '' '' (filter (\<lambda>s. s \<noteq> []) parts)
     in if t \<noteq> [] then t else js_name (th_error e))"

definition plain :: "js_error \<Rightarrow> thrown" where
  "plain e = \<lparr>th_error = e, th_inner = None, th_logs = []\<rparr>"

text \<open>\<open>.{0,n}(p|q)\<close> at the head of a line.\<close>

fun gap_to :: "nat \<Rightarrow> string list \<Rightarrow> string \<Rightarrow> bool" where
  "gap_to n ps [] = False"
| "gap_to n ps (c # s) =
     (list_ex (starts_with (c # s)) ps \<or> (units c \<le> n \<and> gap_to (n - units c) ps s))"

definition BLOCKHASH_GONE :: "string \<Rightarrow> bool" where
  "BLOCKHASH_GONE m \<longleftrightarrow>
     any_of m [''blockhash not found'', ''blockhashnotfound'', ''block height exceeded'', ''blockheight exceeded''] \<or>
     after_first ''blockhash'' (\<lambda>r. if gap_to 20 [''expired'', ''invalid''] (line_rest r) then Some () else None) (lower m) \<noteq> None"

datatype tx_error = ErrText string | ErrInstruction int json | ErrObject json

fun show_hex :: "nat \<Rightarrow> string" where
  "show_hex n = (if n < 16 then [hex_digit n] else show_hex (n div 16) @ [hex_digit (n mod 16)])"

declare show_hex.simps [simp del]

text \<open>The program's own error number, a u32.\<close>

definition custom_code :: "json \<Rightarrow> int option" where
  "custom_code inner = map_option js_floor (jnumber (jget inner ''Custom''))"

definition describeTxError :: "(rat \<Rightarrow> string) \<Rightarrow> tx_error \<Rightarrow> string" where
  "describeTxError fmt e = (case e of
     ErrText s \<Rightarrow> s
   | ErrObject j \<Rightarrow> stringify fmt j
   | ErrInstruction idx inner \<Rightarrow>
       (case custom_code inner of
          Some c \<Rightarrow> ''instruction '' @ show_int (idx + 1) @ '' returned error '' @ show_int c @
                    '' (0x'' @ show_hex (nat c) @ '')''
        | None \<Rightarrow> ''instruction '' @ show_int (idx + 1) @ '' failed ('' @
                    (case inner of JStr s \<Rightarrow> s | _ \<Rightarrow> stringify fmt inner) @ '')''))"

text \<open>\<open>/Error Message: (.+?)\.?$/\<close>\<close>

definition logged_message :: "string \<Rightarrow> string option" where
  "logged_message l = after_first ''Error Message: ''
     (\<lambda>r. if r = [] \<or> line_rest r \<noteq> r then None
           else Some (if 2 \<le> length r \<and> last r = CHR ''.'' then butlast r else r)) l"

definition log_reason :: "string \<Rightarrow> string option" where
  "log_reason l = (case logged_message l of
     Some m \<Rightarrow> Some m
   | None \<Rightarrow> if contains_i l ''insufficient lamports'' then Some ''insufficient SOL'' else None)"

text \<open>\<open>logs\<close> is what \<open>getTransaction\<close> gives: it throws, or returns log lines (none for null).\<close>

definition failureReason :: "(rat \<Rightarrow> string) \<Rightarrow> thrown + string list \<Rightarrow> tx_error \<Rightarrow> string" where
  "failureReason fmt logs e =
    (let reason = describeTxError fmt e in
     case logs of
       Inl _ \<Rightarrow> reason
     | Inr ls \<Rightarrow>
         (case List.find (\<lambda>m. m \<noteq> None \<and> m \<noteq> Some []) (map log_reason ls) of
            Some (Some msg) \<Rightarrow> msg @ '' '' @ [CHR 0xE2, CHR 0x80, CHR 0x94] @ '' '' @ reason
          | _ \<Rightarrow> reason))"

section \<open>Confirming\<close>

record sig_status =
  ss_err :: "tx_error option"
  ss_confirmation :: "string option"

text \<open>The status polls still to make, by their number; the last status seen.\<close>

fun poll_loop :: "(nat \<Rightarrow> thrown + sig_status option) \<Rightarrow> nat list \<Rightarrow> sig_status option \<Rightarrow> sig_status option" where
  "poll_loop poll [] seen = seen"
| "poll_loop poll (i # is) seen = (case poll i of
     Inl _ \<Rightarrow> poll_loop poll is seen
   | Inr None \<Rightarrow> poll_loop poll is seen
   | Inr (Some st) \<Rightarrow>
       if ss_err st \<noteq> None \<or> ss_confirmation st = Some ''confirmed'' \<or> ss_confirmation st = Some ''finalized''
       then Some st else poll_loop poll is (Some st))"

definition lookupStatus :: "(nat \<Rightarrow> thrown + sig_status option) \<Rightarrow> sig_status option" where
  "lookupStatus poll = poll_loop poll [0..<5] None"

text \<open>What the RPC says about one signature.\<close>

record rpc_view =
  rv_confirm :: "thrown + tx_error option"
  rv_poll :: "nat \<Rightarrow> thrown + sig_status option"
  rv_logs :: "thrown + string list"

definition confirmLanded :: "(rat \<Rightarrow> string) \<Rightarrow> rpc_view \<Rightarrow> string \<Rightarrow> thrown + string" where
  "confirmLanded fmt v sig =
    (let failed = (\<lambda>e. Inl (plain (TxFailed sig (failureReason fmt (rv_logs v) e)))) in
     case rv_confirm v of
       Inr None \<Rightarrow> Inr sig
     | Inr (Some e) \<Rightarrow> failed e
     | Inl confirmError \<Rightarrow>
         (case th_error confirmError of TxFailed s r \<Rightarrow> Inl confirmError
          | _ \<Rightarrow>
            (case lookupStatus (rv_poll v) of
               Some st \<Rightarrow> (case ss_err st of Some e \<Rightarrow> failed e | None \<Rightarrow> Inr sig)
             | None \<Rightarrow> Inl (plain (OtherErr ''Error'' (''Transaction '' @ take 12 sig @ [CHR 0xE2, CHR 0x80, CHR 0xA6] @
                 '' was not confirmed: '' @ errText confirmError))))))"

section \<open>Sending\<close>

text \<open>The v0 message: payer, blockhash and the instructions of the legacy transaction.\<close>

record 'i v0_message =
  vm_payer :: pubkey
  vm_blockhash :: string
  vm_instructions :: "'i list"

record ('i, 's) wallet_env =
  we_publicKey :: "pubkey option"
  we_blockhash :: "nat \<Rightarrow> thrown + string"
  we_signTransaction :: "(nat \<Rightarrow> 'i v0_message \<Rightarrow> thrown + 's) option"
  we_sendRaw :: "nat \<Rightarrow> 's \<Rightarrow> thrown + string"
  we_sendTransaction :: "nat \<Rightarrow> 'i v0_message \<Rightarrow> thrown + string"
  we_view :: "string \<Rightarrow> rpc_view"

definition signAndSend :: "('i, 's) wallet_env \<Rightarrow> pubkey \<Rightarrow> 'i list \<Rightarrow> nat \<Rightarrow> thrown + string" where
  "signAndSend w payer ixs n =
    bindE (we_blockhash w n) (\<lambda>blockhash.
    let msg = \<lparr>vm_payer = payer, vm_blockhash = blockhash, vm_instructions = ixs\<rparr> in
    case we_signTransaction w of
      Some sign \<Rightarrow> bindE (sign n msg) (we_sendRaw w n)
    | None \<Rightarrow> we_sendTransaction w n msg)"

definition sendAsV0 :: "(rat \<Rightarrow> string) \<Rightarrow> ('i, 's) wallet_env \<Rightarrow> 'i list \<Rightarrow> thrown + string" where
  "sendAsV0 fmt w ixs =
    (case we_publicKey w of
       None \<Rightarrow> Inl (plain (OtherErr ''Error'' ''Wallet not connected''))
     | Some payer \<Rightarrow>
         bindE (case signAndSend w payer ixs 0 of
                  Inr s \<Rightarrow> Inr s
                | Inl e \<Rightarrow> if \<not> BLOCKHASH_GONE (errText e) then Inl e else signAndSend w payer ixs 1) (\<lambda>sig.
         confirmLanded fmt (we_view w sig) sig))"

section \<open>Recovery\<close>

record tx_expectation =
  ex_programId :: "pubkey option"
  ex_instruction :: "string list"
  ex_signer :: "pubkey option"

definition anchorDiscriminator :: "(bytes \<Rightarrow> bytes) \<Rightarrow> string \<Rightarrow> bytes" where
  "anchorDiscriminator sha256 name = take 8 (sha256 (utf8 (''global:'' @ name)))"

definition SIG_PAGE :: nat where "SIG_PAGE = 250"
definition SIG_WINDOW :: nat where "SIG_WINDOW = 1000"
definition TX_BATCH :: nat where "TX_BATCH = 10"

text \<open>
  \<open>rs_sigs\<close> is \<open>getSignaturesForAddress\<close> (limit, before) with the error flag of each signature,
  \<open>rs_batch\<close> is \<open>getTransactions\<close> where the connection has it.
\<close>

record rpc_search =
  rs_sigs :: "nat \<Rightarrow> string option \<Rightarrow> thrown + (string \<times> bool) list"
  rs_batch :: "(string list \<Rightarrow> thrown + chain_tx option list) option"
  rs_tx :: "string \<Rightarrow> thrown + chain_tx option"

fun one_by_one :: "(string \<Rightarrow> thrown + chain_tx option) \<Rightarrow> string list \<Rightarrow> thrown + chain_tx option list" where
  "one_by_one get [] = Inr []"
| "one_by_one get (s # ss) = bindE (get s) (\<lambda>t. bindE (one_by_one get ss) (\<lambda>ts. Inr (t # ts)))"

definition fetchTransactions :: "rpc_search \<Rightarrow> string list \<Rightarrow> thrown + chain_tx option list" where
  "fetchTransactions r sigs =
    (case (if length sigs > 1 then rs_batch r else None) of
       Some batch \<Rightarrow> (case batch sigs of Inr ts \<Rightarrow> Inr ts | Inl _ \<Rightarrow> one_by_one (rs_tx r) sigs)
     | None \<Rightarrow> one_by_one (rs_tx r) sigs)"

text \<open>The paging loop: whether the history was read to its end, and the successful signatures, newest first.\<close>

function collect_sigs ::
  "(nat \<Rightarrow> string option \<Rightarrow> thrown + (string \<times> bool) list) \<Rightarrow> nat \<Rightarrow> string option \<Rightarrow> string list \<Rightarrow> thrown + bool \<times> string list" where
  "collect_sigs get seen before ok =
    (if SIG_WINDOW \<le> seen then Inr (False, ok)
     else let limit = min SIG_PAGE (SIG_WINDOW - seen) in
       case get limit before of
         Inl e \<Rightarrow> Inl e
       | Inr sigs \<Rightarrow>
           let ok = ok @ map fst (filter (\<lambda>(_, err). \<not> err) sigs) in
           if length sigs < limit then Inr (True, ok)
           else collect_sigs get (seen + length sigs) (Some (fst (last sigs))) ok)"
  by pat_completeness auto
termination
  by (relation "measure (\<lambda>(_, seen, _, _). SIG_WINDOW - seen)") (auto simp: SIG_PAGE_def)

declare collect_sigs.simps [simp del]

definition hit_in :: "(chain_tx \<Rightarrow> bool) \<Rightarrow> string list \<Rightarrow> chain_tx option list \<Rightarrow> string option" where
  "hit_in P chunk txs =
     map_option fst (List.find (\<lambda>(_, t). case t of Some tx \<Rightarrow> P tx | None \<Rightarrow> False) (zip chunk txs))"

function search_batches ::
  "rpc_search \<Rightarrow> (chain_tx \<Rightarrow> bool) \<Rightarrow> string list \<Rightarrow> thrown + string option" where
  "search_batches r P sigs =
    (if sigs = [] then Inr None
     else bindE (fetchTransactions r (take TX_BATCH sigs)) (\<lambda>txs.
       case hit_in P (take TX_BATCH sigs) txs of
         Some s \<Rightarrow> Inr (Some s)
       | None \<Rightarrow> search_batches r P (drop TX_BATCH sigs)))"
  by pat_completeness auto
termination
  by (relation "measure (\<lambda>(_, _, s). length s)") (auto simp: TX_BATCH_def)

declare search_batches.simps [simp del]

text \<open>\<open>default_program\<close> is the configured \<open>PROGRAM_ID\<close>, null when it is empty.\<close>

definition creatingSignature ::
  "(bytes \<Rightarrow> bytes) \<Rightarrow> pubkey option \<Rightarrow> rpc_search \<Rightarrow> pubkey \<Rightarrow> tx_expectation \<Rightarrow> thrown + string option" where
  "creatingSignature sha256 default_program r account expect =
    (case (case ex_programId expect of Some p \<Rightarrow> Some p | None \<Rightarrow> default_program) of
       None \<Rightarrow> Inr None
     | Some programId \<Rightarrow>
         let discriminators = map (anchorDiscriminator sha256) (ex_instruction expect) in
         bindE (collect_sigs (rs_sigs r) 0 None []) (\<lambda>(complete, ok).
         if \<not> complete then Inr None
         else search_batches r (txCreates account programId discriminators (ex_signer expect)) (rev ok)))"

definition SCAN_PROOF_DISCRIMINATOR :: bytes where
  "SCAN_PROOF_DISCRIMINATOR = [208, 136, 45, 119, 131, 191, 85, 170]"

definition SCAN_PROOF_ATTESTER_OFFSET :: nat where
  "SCAN_PROOF_ATTESTER_OFFSET = 8 + 32 + 4 + 8 + 2 + 32 + 32"

definition scanProofAttester :: "account_info option \<Rightarrow> pubkey \<Rightarrow> pubkey option" where
  "scanProofAttester info programId = (case info of
     None \<Rightarrow> None
   | Some a \<Rightarrow>
       if ai_owner a \<noteq> programId then None
       else if length (ai_data a) < SCAN_PROOF_ATTESTER_OFFSET + 32 \<or>
               \<not> starts_with (ai_data a) SCAN_PROOF_DISCRIMINATOR then None
       else Some (slice SCAN_PROOF_ATTESTER_OFFSET (SCAN_PROOF_ATTESTER_OFFSET + 32) (ai_data a)))"

section \<open>Lemmas\<close>

definition statuses :: "(nat \<Rightarrow> thrown + sig_status option) \<Rightarrow> nat list \<Rightarrow> sig_status list" where
  "statuses poll is = concat (map (\<lambda>i. case poll i of Inr (Some st) \<Rightarrow> [st] | _ \<Rightarrow> []) is)"

definition definitive :: "sig_status \<Rightarrow> bool" where
  "definitive st \<longleftrightarrow> ss_err st \<noteq> None \<or> ss_confirmation st = Some ''confirmed'' \<or> ss_confirmation st = Some ''finalized''"

lemma statuses_Cons:
  "statuses poll (i # is) = (case poll i of Inr (Some st) \<Rightarrow> [st] | _ \<Rightarrow> []) @ statuses poll is"
  by (simp add: statuses_def)

lemma poll_loop_statuses:
  "poll_loop poll is seen = (case List.find definitive (statuses poll is) of
     Some st \<Rightarrow> Some st | None \<Rightarrow> if statuses poll is = [] then seen else Some (last (statuses poll is)))"
proof (induction "is" arbitrary: seen)
  case (Cons i "is")
  show ?case
  proof (cases "poll i")
    case (Inr r)
    then show ?thesis
      by (cases r) (simp_all add: Cons statuses_Cons definitive_def split: option.split)
  qed (simp add: Cons statuses_Cons split: option.split)
qed (simp add: statuses_def)

text \<open>The status the five polls add up to: the first definitive one, else the last one seen.\<close>

definition settled_status :: "rpc_view \<Rightarrow> sig_status option" where
  "settled_status v =
    (let sts = statuses (rv_poll v) [0..<5] in
     case List.find definitive sts of Some st \<Rightarrow> Some st | None \<Rightarrow> if sts = [] then None else Some (last sts))"

lemma lookupStatus_settled: "lookupStatus (rv_poll v) = settled_status v"
  by (simp add: lookupStatus_def poll_loop_statuses settled_status_def Let_def)

definition sent :: "('i, 's) wallet_env \<Rightarrow> 'i list \<Rightarrow> string \<Rightarrow> bool" where
  "sent w ixs sig \<longleftrightarrow> (\<exists>payer. we_publicKey w = Some payer \<and>
     (signAndSend w payer ixs 0 = Inr sig \<or>
      (\<exists>e. signAndSend w payer ixs 0 = Inl e \<and> BLOCKHASH_GONE (errText e) \<and> signAndSend w payer ixs 1 = Inr sig)))"

definition confirm_lost :: "rpc_view \<Rightarrow> bool" where
  "confirm_lost v \<longleftrightarrow> (case rv_confirm v of Inl e \<Rightarrow> (case th_error e of TxFailed _ _ \<Rightarrow> False | _ \<Rightarrow> True) | Inr _ \<Rightarrow> False)"

definition landed :: "rpc_view \<Rightarrow> bool" where
  "landed v \<longleftrightarrow> rv_confirm v = Inr None \<or>
     (confirm_lost v \<and> (case settled_status v of Some st \<Rightarrow> ss_err st = None | None \<Rightarrow> False))"

definition failed_with :: "rpc_view \<Rightarrow> tx_error \<Rightarrow> bool" where
  "failed_with v e \<longleftrightarrow> rv_confirm v = Inr (Some e) \<or>
     (confirm_lost v \<and> (case settled_status v of Some st \<Rightarrow> ss_err st = Some e | None \<Rightarrow> False))"

lemma confirmLanded_Inr: "confirmLanded fmt v sig = Inr s \<longleftrightarrow> s = sig \<and> landed v"
  by (auto simp: confirmLanded_def landed_def confirm_lost_def lookupStatus_settled Let_def
      split: sum.splits option.splits js_error.splits)

lemma confirmLanded_failed:
  "failed_with v e \<Longrightarrow> confirmLanded fmt v sig = Inl (plain (TxFailed sig (failureReason fmt (rv_logs v) e)))"
  by (auto simp: confirmLanded_def failed_with_def confirm_lost_def lookupStatus_settled Let_def
      split: sum.splits option.splits js_error.splits)

text \<open>What the RPC promises about an address with history \<open>hist\<close>, newest first: a page holds the
  \<open>limit\<close> entries older than \<open>before\<close>, and a transaction is the same by itself and in a batch.\<close>

definition older :: "(string \<times> bool) list \<Rightarrow> string option \<Rightarrow> (string \<times> bool) list" where
  "older hist before = (case before of None \<Rightarrow> hist | Some s \<Rightarrow> tl (dropWhile (\<lambda>x. fst x \<noteq> s) hist))"

definition serves :: "rpc_search \<Rightarrow> (string \<times> bool) list \<Rightarrow> (string \<Rightarrow> chain_tx option) \<Rightarrow> bool" where
  "serves r hist tx_of \<longleftrightarrow> (\<forall>limit before. rs_sigs r limit before = Inr (take limit (older hist before))) \<and>
     (\<forall>s. rs_tx r s = Inr (tx_of s)) \<and>
     (case rs_batch r of None \<Rightarrow> True
      | Some b \<Rightarrow> (\<forall>sigs. case b sigs of Inl _ \<Rightarrow> True | Inr ts \<Rightarrow> ts = map tx_of sigs))"

definition successes :: "(string \<times> bool) list \<Rightarrow> string list" where
  "successes h = map fst (filter (\<lambda>(_, err). \<not> err) h)"

lemma older_nth:
  assumes "distinct (map fst hist)" "n < length hist"
  shows "older hist (Some (fst (hist ! n))) = drop (Suc n) hist"
  using assms
proof (induction hist arbitrary: n)
  case (Cons x hist)
  then show ?case
    by (cases n) (auto simp: older_def dest: nth_mem)
qed simp

lemma last_take_drop: "0 < n \<Longrightarrow> s + n \<le> length xs \<Longrightarrow> last (take n (drop s xs)) = xs ! (s + n - 1)"
  by (simp add: last_conv_nth)

lemma take_split: "k \<le> n \<Longrightarrow> take n (drop s xs) = take k (drop s xs) @ take (n - k) (drop (k + s) xs)"
  using take_add [of k "n - k" "drop s xs"] by simp

lemma collect_sigs_serves:
  assumes "serves r hist tx_of" "distinct (map fst hist)"
  shows "older hist before = drop seen hist \<Longrightarrow> seen \<le> length hist \<Longrightarrow> seen \<le> SIG_WINDOW \<Longrightarrow>
    collect_sigs (rs_sigs r) seen before ok =
      Inr (length hist < SIG_WINDOW, ok @ successes (take (SIG_WINDOW - seen) (drop seen hist)))"
proof (induction "SIG_WINDOW - seen" arbitrary: seen before ok rule: less_induct)
  case less
  let ?limit = "min SIG_PAGE (SIG_WINDOW - seen)"
  have page: "rs_sigs r ?limit before = Inr (take ?limit (drop seen hist))"
    using assms(1) less.prems(1) by (simp add: serves_def)
  show ?case
  proof (cases "SIG_WINDOW \<le> seen")
    case True
    then show ?thesis using less.prems by (subst collect_sigs.simps) (simp add: successes_def)
  next
    case False
    show ?thesis
    proof (cases "length hist - seen < ?limit")
      case True
      then have "length hist < SIG_WINDOW" "take (SIG_WINDOW - seen) (drop seen hist) = drop seen hist"
        "take ?limit (drop seen hist) = drop seen hist"
        using less.prems by auto
      then show ?thesis using False True page
        by (simp add: collect_sigs.simps [of _ seen] Let_def successes_def)
    next
      case F2: False
      obtain L where L: "?limit = L" "0 < L" "seen + L \<le> length hist" "L \<le> SIG_WINDOW - seen"
        using False F2 less.prems by (simp add: SIG_PAGE_def SIG_WINDOW_def min_def split: if_splits)
      have "seen + L \<le> SIG_WINDOW" "SIG_WINDOW - (seen + L) < SIG_WINDOW - seen" using False L by auto
      moreover have "older hist (Some (fst (last (take L (drop seen hist))))) = drop (seen + L) hist"
        using older_nth [OF assms(2), of "seen + L - 1"] L by (simp add: last_take_drop)
      moreover have "take (SIG_WINDOW - seen) (drop seen hist) =
          take L (drop seen hist) @ take (SIG_WINDOW - (seen + L)) (drop (seen + L) hist)"
        using take_split [OF L(4), of seen hist] by (simp add: add.commute)
      ultimately show ?thesis
        using False L page less.hyps [of "seen + L" "Some (fst (last (take L (drop seen hist))))"]
        by (simp add: collect_sigs.simps [of _ seen] Let_def successes_def)
    qed
  qed
qed

lemma fetch_serves: "serves r hist tx_of \<Longrightarrow> fetchTransactions r sigs = Inr (map tx_of sigs)"
proof -
  assume r: "serves r hist tx_of"
  have "one_by_one (rs_tx r) sigs = Inr (map tx_of sigs)"
    using r by (induction sigs) (simp_all add: serves_def)
  with r show ?thesis
    by (auto simp: fetchTransactions_def serves_def split: option.splits sum.splits)
qed

lemma hit_in_map:
  "hit_in P sigs (map tx_of sigs) = List.find (\<lambda>s. case tx_of s of Some t \<Rightarrow> P t | None \<Rightarrow> False) sigs"
  by (induction sigs) (auto simp: hit_in_def)

lemma find_append: "List.find P (xs @ ys) = (case List.find P xs of Some x \<Rightarrow> Some x | None \<Rightarrow> List.find P ys)"
  by (induction xs) auto

lemma search_serves:
  assumes "serves r hist tx_of"
  shows "search_batches r P sigs = Inr (List.find (\<lambda>s. case tx_of s of Some t \<Rightarrow> P t | None \<Rightarrow> False) sigs)"
proof (induction sigs rule: length_induct)
  case (1 sigs)
  show ?case
  proof (cases "sigs = []")
    case True
    then show ?thesis by (simp add: search_batches.simps)
  next
    case False
    then have "length (drop TX_BATCH sigs) < length sigs" by (simp add: TX_BATCH_def)
    with 1 False show ?thesis
      using find_append [of _ "take TX_BATCH sigs" "drop TX_BATCH sigs"]
      by (simp add: search_batches.simps [of _ _ sigs] fetch_serves [OF assms] hit_in_map split: option.split)
  qed
qed

definition creates_expected :: "(bytes \<Rightarrow> bytes) \<Rightarrow> pubkey \<Rightarrow> pubkey \<Rightarrow> tx_expectation \<Rightarrow> chain_tx \<Rightarrow> bool" where
  "creates_expected sha256 account programId expect =
     txCreates account programId (map (anchorDiscriminator sha256) (ex_instruction expect)) (ex_signer expect)"

section \<open>Properties\<close>

text \<open>C15: \<open>sendAsV0\<close> returns a signature exactly when it was sent and landed. It was sent at the first
  attempt, or at the one retry, which happens only after an expired blockhash; and it landed: the
  confirmation said so, or the confirmation was lost and the settled status (the first definitive one
  of five polls, else the last one seen) has no error. A transaction that was sent and failed on chain
  is reported as \<open>TxFailedError\<close> with its signature and reason, never as sent.\<close>

theorem send_reports_landing:
  "(sendAsV0 fmt w ixs = Inr sig \<longleftrightarrow> sent w ixs sig \<and> landed (we_view w sig)) \<and>
   (sent w ixs sig \<and> failed_with (we_view w sig) e \<longrightarrow>
      sendAsV0 fmt w ixs = Inl (plain (TxFailed sig (failureReason fmt (rv_logs (we_view w sig)) e))))"
proof (intro conjI impI)
  show "sendAsV0 fmt w ixs = Inr sig \<longleftrightarrow> sent w ixs sig \<and> landed (we_view w sig)"
    by (auto simp: sendAsV0_def sent_def bindE_eq_Inr confirmLanded_Inr split: option.splits sum.splits if_splits)
  assume "sent w ixs sig \<and> failed_with (we_view w sig) e"
  then show "sendAsV0 fmt w ixs = Inl (plain (TxFailed sig (failureReason fmt (rv_logs (we_view w sig)) e)))"
    by (auto simp: sendAsV0_def sent_def confirmLanded_failed split: option.splits)
qed

text \<open>\<open>creatingSignature\<close> finds the transaction that created the account. Against an RPC that pages
  through the address's history, a history of fewer than 1000 signatures is searched completely and
  the oldest successful transaction that passes \<open>txCreates\<close> is returned, whatever else touched the
  address and however batches fail; from 1000 signatures on the answer is null. What is returned did
  not fail, runs the program and carries the expected signature.\<close>

theorem creating_signature:
  assumes "serves r hist tx_of" "distinct (map fst hist)" "ex_programId expect = Some programId"
  shows "creatingSignature sha256 dflt r account expect =
      Inr (if length hist < 1000
           then List.find (\<lambda>s. case tx_of s of None \<Rightarrow> False | Some t \<Rightarrow> creates_expected sha256 account programId expect t) (rev (successes hist)) else None) \<and>
    (creatingSignature sha256 dflt r account expect = Inr (Some s) \<longrightarrow>
      (\<exists>t older newer. rev (successes hist) = older @ s # newer \<and> tx_of s = Some t \<and> \<not> tx_failed t \<and>
        (\<forall>k \<in> set_option (ex_signer expect). signed_by t k) \<and>
        (\<forall>s' \<in> set older. case tx_of s' of None \<Rightarrow> True | Some t' \<Rightarrow> \<not> creates_expected sha256 account programId expect t')))"
proof -
  have eq: "creatingSignature sha256 dflt r account expect =
      Inr (if length hist < 1000
           then List.find (\<lambda>s. case tx_of s of None \<Rightarrow> False | Some t \<Rightarrow> creates_expected sha256 account programId expect t) (rev (successes hist)) else None)"
    using collect_sigs_serves [OF assms(1,2), of None 0 "[]"] assms(3) search_serves [OF assms(1)]
    by (simp add: creatingSignature_def older_def SIG_WINDOW_def Let_def creates_expected_def cong: option.case_cong)
  show ?thesis
    unfolding eq
  proof (intro conjI impI refl, goal_cases)
    case 1
    then have "List.find (\<lambda>s. case tx_of s of None \<Rightarrow> False | Some t \<Rightarrow> creates_expected sha256 account programId expect t)
        (rev (successes hist)) = Some s" by (simp split: if_splits)
    from creates.first_match [OF this [unfolded creates_expected_def]]
    show ?case unfolding creates_expected_def creates.genuine_def by blast
  qed
qed

definition demo_tx :: chain_tx where
  "demo_tx = \<lparr>ct_meta = Some \<lparr>tm_err = False, tm_loaded = []\<rparr>, ct_v0 = True, ct_static = [[1], [2], [3]],
     ct_required_signatures = 1,
     ct_instructions = [\<lparr>ci_program = 2, ci_accounts = [0, 1], ci_data = [7, 7]\<rparr>]\<rparr>"

definition demo_history :: "(string \<times> bool) list" where
  "demo_history = [(''dust'', False), (''create'', False), (''failed'', True), (''gift'', False)]"

definition demo_lookup :: "string \<Rightarrow> chain_tx option" where
  "demo_lookup s = (if s = ''create'' then Some demo_tx
     else if s = ''gift'' then Some (demo_tx\<lparr>ct_instructions := []\<rparr>) else None)"

definition demo_search :: rpc_search where
  "demo_search = \<lparr>rs_sigs = (\<lambda>limit before. Inr (take limit (older demo_history before))),
     rs_batch = None, rs_tx = (\<lambda>s. Inr (demo_lookup s))\<rparr>"

theorem creating_signature_witness:
  "creatingSignature (\<lambda>_. []) None demo_search [2]
     \<lparr>ex_programId = Some [3], ex_instruction = [], ex_signer = Some [1]\<rparr> = Inr (Some ''create'')"
proof -
  have "serves demo_search demo_history demo_lookup" by (simp add: serves_def demo_search_def)
  moreover have "distinct (map fst demo_history)" by (simp add: demo_history_def)
  ultimately show ?thesis
    using creating_signature [of demo_search demo_history demo_lookup
        "\<lparr>ex_programId = Some [3], ex_instruction = [], ex_signer = Some [1]\<rparr>" "[3]"]
    by (simp add: demo_history_def demo_lookup_def successes_def creates_expected_def txCreates_iff tx_failed_def signed_by_def demo_tx_def
        account_keys_def key_at_def)
qed

text \<open>A wallet whose first blockhash has expired, and whose second attempt fails on chain.\<close>

definition demo_wallet :: "(nat, nat) wallet_env" where
  "demo_wallet = \<lparr>we_publicKey = Some [1], we_blockhash = (\<lambda>_. Inr ''h''), we_signTransaction = None,
     we_sendRaw = (\<lambda>_ _. Inr []),
     we_sendTransaction = (\<lambda>n _. if n = 0 then Inl (plain (OtherErr ''Error'' ''blockhash not found'')) else Inr ''sig''),
     we_view = (\<lambda>_. \<lparr>rv_confirm = Inr (Some (ErrText ''AccountInUse'')), rv_poll = (\<lambda>_. Inr None), rv_logs = Inr []\<rparr>)\<rparr>"

theorem send_reports_landing_witness:
  "sendAsV0 (\<lambda>_. []) demo_wallet [7] = Inl (plain (TxFailed ''sig'' ''AccountInUse''))"
proof -
  have "BLOCKHASH_GONE (errText (plain (OtherErr ''Error'' ''blockhash not found'')))"
    by (simp add: BLOCKHASH_GONE_def errText_def plain_def any_of_def contains_i_def lower_def to_lower_char_def
        char_class_simps code_def)
  then have "sent demo_wallet [7] ''sig''"
    by (simp add: sent_def demo_wallet_def signAndSend_def)
  moreover have "failed_with (we_view demo_wallet ''sig'') (ErrText ''AccountInUse'')"
    by (simp add: failed_with_def demo_wallet_def)
  ultimately show ?thesis
    using send_reports_landing [of "\<lambda>_. []" demo_wallet "[7]" "''sig''" "ErrText ''AccountInUse''"]
    by (simp add: failureReason_def describeTxError_def demo_wallet_def)
qed

end
