(* ===== verification/Web_Blink.thy ===== *)
theory Web_Blink
  imports Web_Send Escrow_Client "HOL-Library.AList"
begin

text \<open>
  The Blink (Solana Action) that reserves an order: \<open>blink-confirm.ts\<close> (rate limiter, client address,
  the bounded verifier post) and the routes \<open>api/actions/verify-buy\<close> and \<open>verify-buy/confirm\<close>. Times
  are milliseconds; the i-th reading of the clock and the i-th answer of a server are functions of i.
\<close>

section \<open>Rate limiter\<close>

record bucket =
  bk_tokens :: rat
  bk_at :: rat

record limiter =
  lm_capacity :: rat
  lm_perMinute :: rat
  lm_maxKeys :: nat
  lm_buckets :: "(string \<times> bucket) list"

definition limiter_take :: "limiter \<Rightarrow> string \<Rightarrow> rat \<Rightarrow> bool \<times> limiter" where
  "limiter_take l k nowMs =
    (let bs = lm_buckets l;
         b = (case map_of bs k of Some b \<Rightarrow> b | None \<Rightarrow> \<lparr>bk_tokens = lm_capacity l, bk_at = nowMs\<rparr>);
         refill = ((nowMs - bk_at b) / 60000) * lm_perMinute l;
         tokens = min (lm_capacity l) (bk_tokens b + max 0 refill)
     in if tokens < 1 then (False, l\<lparr>lm_buckets := AList.update k \<lparr>bk_tokens = tokens, bk_at = nowMs\<rparr> bs\<rparr>)
        else let bs = (if map_of bs k = None \<and> length bs \<ge> lm_maxKeys l then [] else bs)
             in (True, l\<lparr>lm_buckets := AList.update k \<lparr>bk_tokens = tokens - 1, bk_at = nowMs\<rparr> bs\<rparr>))"

text \<open>\<open>split(",")[0]\<close>, and a header that is set and not blank after trimming.\<close>

definition non_blank :: "string option \<Rightarrow> string option" where
  "non_blank h = (case h of None \<Rightarrow> None | Some s \<Rightarrow> if js_trim s = [] then None else Some (js_trim s))"

definition clientIp :: "string option \<Rightarrow> string option \<Rightarrow> string" where
  "clientIp forwarded real_ip =
    (case non_blank (map_option (takeWhile (\<lambda>c. c \<noteq> CHR '','')) forwarded) of
       Some ip \<Rightarrow> ip
     | None \<Rightarrow> (case non_blank real_ip of Some ip \<Rightarrow> ip | None \<Rightarrow> ''unknown''))"

section \<open>Posting until a deadline\<close>

datatype post_outcome = Post_ok | Post_rate_limited | Post_failed | Post_timeout

text \<open>Attempt i reads the clock at 2i (before the post) and 2i + 1 (after it); a post may throw.\<close>

partial_function (option) post_until ::
  "(nat \<Rightarrow> thrown + bool \<times> int) \<Rightarrow> (nat \<Rightarrow> rat) \<Rightarrow> rat \<Rightarrow> rat \<Rightarrow> nat \<Rightarrow> (thrown + post_outcome) option" where
  "post_until post now deadlineMs retryDelayMs i =
    (if now (2 * i) \<ge> deadlineMs then Some (Inr Post_timeout)
     else case post i of
       Inl e \<Rightarrow> Some (Inl e)
     | Inr (ok, status) \<Rightarrow>
         if ok then Some (Inr Post_ok)
         else if status = 429 then Some (Inr Post_rate_limited)
         else if status \<noteq> 503 then Some (Inr Post_failed)
         else if now (2 * i + 1) + retryDelayMs \<ge> deadlineMs then Some (Inr Post_timeout)
         else post_until post now deadlineMs retryDelayMs (Suc i))"

definition postUntil ::
  "(nat \<Rightarrow> thrown + bool \<times> int) \<Rightarrow> (nat \<Rightarrow> rat) \<Rightarrow> rat \<Rightarrow> rat \<Rightarrow> (thrown + post_outcome) option" where
  "postUntil post now deadlineMs retryDelayMs = post_until post now deadlineMs retryDelayMs 0"

text \<open>\<open>getTransaction\<close> (null when it throws) until it is visible or \<open>untilMs\<close> comes near.\<close>

partial_function (option) landed_tx ::
  "(nat \<Rightarrow> chain_tx option) \<Rightarrow> (nat \<Rightarrow> rat) \<Rightarrow> rat \<Rightarrow> nat \<Rightarrow> chain_tx option option" where
  "landed_tx get now untilMs i =
    (if get i \<noteq> None \<or> now i + 1000 \<ge> untilMs then Some (get i) else landed_tx get now untilMs (Suc i))"

section \<open>The Action (route.ts)\<close>

text \<open>
  What the routes get from outside: the public-key parser, the chain reads, the verifier's answers and
  the passport address of a serial.
\<close>

record blink_env =
  be_origin :: string
  be_key :: "string \<Rightarrow> thrown + pubkey"
  be_base58 :: "pubkey \<Rightarrow> string"
  be_fetchOrder :: "pubkey \<Rightarrow> thrown + order_view option"
  be_fetchOrders :: "pubkey \<Rightarrow> thrown + order_view list"
  be_passportKey :: "string \<Rightarrow> pubkey"
  be_passports :: "thrown + string list"
  be_passport :: "string \<Rightarrow> thrown + (string \<times> string \<times> bool \<times> int) option"
  be_config :: "thrown + escrow_config_view option"
  be_blockhash :: "thrown + string"
  be_program :: program

definition LISTED_STATE :: "order_view \<Rightarrow> bool" where
  "LISTED_STATE o' \<longleftrightarrow> ov_state o' = OrderState LISTED"

text \<open>An order, or why there is none.\<close>

definition resolveOrder :: "blink_env \<Rightarrow> string option \<Rightarrow> string option \<Rightarrow> thrown + string + order_view" where
  "resolveOrder e orderParam serialParam =
    (if orderParam \<noteq> None \<and> orderParam \<noteq> Some [] then
       (case be_key e (the orderParam) of
          Inl _ \<Rightarrow> Inr (Inl ''Invalid order address.'')
        | Inr k \<Rightarrow> bindE (be_fetchOrder e k) (\<lambda>r. Inr (case r of
            None \<Rightarrow> Inl ''This order does not exist (any more).''
          | Some o' \<Rightarrow> if LISTED_STATE o' then Inr o' else Inl ''This order is no longer available.'')))
     else let serial = (case serialParam of Some s \<Rightarrow> s | None \<Rightarrow> []) in
       if \<not> isValidSerial serial then Inr (Inl ''Unknown passport.'')
       else bindE (be_fetchOrders e (be_passportKey e serial)) (\<lambda>os.
         let listed = filter LISTED_STATE os in
         Inr (case listed of
           [o'] \<Rightarrow> Inr o'
         | [] \<Rightarrow> Inl ''No active listing for this passport at the moment.''
         | _ \<Rightarrow> Inl ''Several listings for this passport: open the market page and choose one.'')))"

definition find_serial :: "blink_env \<Rightarrow> string list \<Rightarrow> order_view \<Rightarrow> string option" where
  "find_serial e serials o' = List.find (\<lambda>s. isValidSerial s \<and> be_passportKey e s = ix_passport o') serials"

definition grade_name :: "int \<Rightarrow> string" where
  "grade_name g = (if g = 0 then ''A'' else if g = 1 then ''B'' else if g = 2 then ''C'' else if g = 3 then ''D''
     else if g = 4 then ''VOID'' else ''undefined'')"

definition passportTitle :: "blink_env \<Rightarrow> order_view \<Rightarrow> thrown + string option" where
  "passportTitle e o' =
    bindE (be_passports e) (\<lambda>serials.
    case find_serial e serials o' of
      None \<Rightarrow> Inr None
    | Some s \<Rightarrow> bindE (be_passport e s) (\<lambda>p. Inr (map_option (\<lambda>(brand, name, void, grade).
        brand @ ('' '' @ [CHR 0xC2, CHR 0xB7] @ '' '') @ name @ ('' '' @ [CHR 0xC2, CHR 0xB7] @ '' Grade '') @ grade_name (if void then 4 else grade)) p)))"

record action_view =
  av_title :: string
  av_description :: string
  av_label :: string
  av_href :: "string option"

definition blink_get :: "blink_env \<Rightarrow> string option \<Rightarrow> string option \<Rightarrow> action_view" where
  "blink_get e orderParam serialParam =
    (let base = \<lparr>av_title = (''FlaconVault '' @ [CHR 0xC2, CHR 0xB7] @ '' Reserve passport''),
       av_description = ''Sealed bottle with passport. USDC goes into the escrow vault and is released only after a matching receipt scan.'',
       av_label = ''Not available'', av_href = None\<rparr> in
     case resolveOrder e orderParam serialParam of
       Inl _ \<Rightarrow> base
     | Inr (Inl why) \<Rightarrow> base\<lparr>av_description := why\<rparr>
     | Inr (Inr o') \<Rightarrow>
         (case passportTitle e o' of
            Inl _ \<Rightarrow> base
          | Inr t \<Rightarrow> base\<lparr>av_title := (case t of Some x \<Rightarrow> if x \<noteq> [] then x else av_title base | None \<Rightarrow> av_title base),
              av_label := (''Reserve '' @ [CHR 0xC2, CHR 0xB7] @ '' '') @ formatUsdc (ix_priceBase o') @ '' USDC'',
              av_href := Some (be_origin e @ ''/api/actions/verify-buy?order='' @
                encodeURIComponent (be_base58 e (ix_pubkey o')) @ ''&price='' @ show_int (ix_priceBase o'))\<rparr>))"

datatype blink_ix = PreIx pre_ix | CallIx ix_call

record blink_tx =
  bt_instructions :: "blink_ix list"
  bt_feePayer :: pubkey
  bt_blockhash :: string
  bt_message :: string
  bt_next :: string

datatype 'a action_answer = Refused string int | Answer 'a

text \<open>\<open>/^\d{1,20}$/\<close> on the price parameter, else the order's price.\<close>

definition expected_price :: "string option \<Rightarrow> order_view \<Rightarrow> int" where
  "expected_price priceParam o' = (case priceParam of
     Some t \<Rightarrow> if t \<noteq> [] \<and> length t \<le> 20 \<and> list_all is_digit t then int (read_nat t) else ix_priceBase o'
   | None \<Rightarrow> ix_priceBase o')"

definition caught :: "thrown + 'a action_answer \<Rightarrow> 'a action_answer" where
  "caught r = (case r of Inl e \<Rightarrow> Refused (js_message (th_error e)) 400 | Inr a \<Rightarrow> a)"

definition blink_post ::
  "blink_env \<Rightarrow> thrown + string \<Rightarrow> string option \<Rightarrow> string option \<Rightarrow> string option \<Rightarrow> blink_tx action_answer" where
  "blink_post e body orderParam serialParam priceParam = caught (
    bindE body (\<lambda>account.
    bindE (be_key e account) (\<lambda>buyer.
    bindE (be_config e) (\<lambda>config.
    case config of None \<Rightarrow> Inr (Refused ''Escrow not configured'' 400) | Some cfg \<Rightarrow>
    bindE (resolveOrder e orderParam serialParam) (\<lambda>r.
    case r of Inl why \<Rightarrow> Inr (Refused why 400) | Inr o' \<Rightarrow>
    if ix_seller o' = buyer then Inr (Refused ''This is your own listing.'' 400)
    else let expected = expected_price priceParam o';
             ix = app_reserve (be_program e) o' buyer (ec_usdcMint cfg) (Some expected) in
    bindE (be_blockhash e) (\<lambda>blockhash.
    Inr (Answer \<lparr>bt_instructions = [PreIx (ensureAtaIx (pr_lib (be_program e)) buyer buyer (ec_usdcMint cfg)), CallIx ix],
      bt_feePayer = buyer, bt_blockhash = blockhash,
      bt_message = (''Reservation '' @ [CHR 0xC2, CHR 0xB7] @ '' '') @ formatUsdc expected @ '' USDC into the escrow vault'',
      bt_next = be_origin e @ ''/api/actions/verify-buy/confirm?order='' @
        encodeURIComponent (be_base58 e (ix_pubkey o'))\<rparr>)))))))"

section \<open>The confirm callback (confirm/route.ts)\<close>

definition base58_char :: "char \<Rightarrow> bool" where
  "base58_char c \<longleftrightarrow> is_alnum c \<and> c \<notin> set ''0OIl''"

definition SIG_RE :: "string \<Rightarrow> bool" where
  "SIG_RE s \<longleftrightarrow> 64 \<le> length s \<and> length s \<le> 90 \<and> list_all base58_char s"

definition BUDGET_MS :: rat where "BUDGET_MS = 9000"
definition TX_LOOKUP_MS :: rat where "TX_LOOKUP_MS = 4000"
definition RETRY_MS :: rat where "RETRY_MS = 1500"

definition start_limiter :: limiter where
  "start_limiter = \<lparr>lm_capacity = 10, lm_perMinute = 10, lm_maxKeys = 10000, lm_buckets = []\<rparr>"

text \<open>The \<open>reserve\<close> instruction as the IDL lists it.\<close>

definition reserve_position :: "string \<Rightarrow> nat" where
  "reserve_position n = length (takeWhile (\<lambda>a. ia_name a \<noteq> n) (ii_accounts escrow_ix_reserve))"

record event_body =
  eb_serial :: string
  eb_type :: int
  eb_txSig :: string
  eb_actor :: string
  eb_price :: string
  eb_order :: string

text \<open>One request: client address, body (account and signature), order parameter, the RPC and the verifier.\<close>

record confirm_env = blink_env +
  ce_started :: rat
  ce_forwarded :: "string option"
  ce_realIp :: "string option"
  ce_body :: "thrown + string option \<times> string option"
  ce_order :: "string option"
  ce_getTx :: "string \<Rightarrow> nat \<Rightarrow> chain_tx option"
  ce_txClock :: "nat \<Rightarrow> rat"
  ce_post :: "event_body \<Rightarrow> nat \<Rightarrow> thrown + bool \<times> int"
  ce_postClock :: "nat \<Rightarrow> rat"

datatype completed_view = Completed (dn_title: string) (dn_description: string)

text \<open>\<open>orderKey\<close>'s reserve instruction, bought by \<open>actor\<close>.\<close>

definition reserve_of :: "confirm_env \<Rightarrow> pubkey \<Rightarrow> pubkey \<Rightarrow> reserve_query" where
  "reserve_of e orderKey actor =
    \<lparr>rq_programId = pr_id (be_program e), rq_order = orderKey, rq_buyer = actor,
     rq_discriminator = map of_nat (ii_discriminator escrow_ix_reserve),
     rq_orderIndex = reserve_position ''order'', rq_buyerIndex = reserve_position ''buyer''\<rparr>"

text \<open>After the check: read the order, find its serial, post the RESERVE event. The answer and the event posted.\<close>

definition record_reservation ::
  "confirm_env \<Rightarrow> pubkey \<Rightarrow> pubkey \<Rightarrow> string \<Rightarrow> (thrown + completed_view action_answer \<times> event_body option) option" where
  "record_reservation e orderKey actor sig =
    (case be_fetchOrder e orderKey of Inl x \<Rightarrow> Some (Inl x)
    | Inr None \<Rightarrow> Some (Inr (Refused ''Unknown order'' 400, None))
    | Inr (Some o') \<Rightarrow>
      (case be_passports e of Inl x \<Rightarrow> Some (Inl x) | Inr serials \<Rightarrow>
       let reserved = (''Reserved '' @ [CHR 0xC2, CHR 0xB7] @ '' '') @ formatUsdc (ix_priceBase o') @ '' USDC are in the escrow vault.'';
           serial = (case find_serial (blink_env.truncate e) serials o' of None \<Rightarrow> [] | Some s \<Rightarrow> s);
           b = \<lparr>eb_serial = serial, eb_type = member EventType ''RESERVE'', eb_txSig = sig,
                eb_actor = be_base58 e actor, eb_price = formatUsdc (ix_priceBase o'),
                eb_order = be_base58 e orderKey\<rparr>
       in if serial = []
          then Some (Inr (Answer (Completed ''Reserved'' (reserved @ '' The passport history will catch up later.'')), None))
          else map_option (\<lambda>r. case r of
              Inl x \<Rightarrow> Inr (Refused (js_message (th_error x)) 400, Some b)
            | Inr out \<Rightarrow> Inr (Answer (Completed ''Reserved'' (reserved @
                (if out = Post_ok then '' Next: the seller records the shipping scan and ships.''
                 else '' The reservation is on chain; the passport history entry could not be written right now.''))), Some b))
            (postUntil (ce_post e b) (ce_postClock e) (ce_started e + BUDGET_MS) RETRY_MS)))"

definition confirm_request :: "confirm_env \<Rightarrow> (thrown + completed_view action_answer \<times> event_body option) option" where
  "confirm_request e =
    (case ce_body e of Inl x \<Rightarrow> Some (Inl x) | Inr (account, signature) \<Rightarrow>
    (case be_key e (case ce_order e of Some s \<Rightarrow> s | None \<Rightarrow> []) of Inl x \<Rightarrow> Some (Inl x) | Inr orderKey \<Rightarrow>
    (case be_key e (case account of Some s \<Rightarrow> s | None \<Rightarrow> []) of Inl x \<Rightarrow> Some (Inl x) | Inr actor \<Rightarrow>
    let sig = (case signature of None \<Rightarrow> [] | Some s \<Rightarrow> s) in
    if sig = [] \<or> \<not> SIG_RE sig then Some (Inr (Refused ''Missing transaction signature'' 400, None))
    else Option.bind (landed_tx (ce_getTx e sig) (ce_txClock e) (ce_started e + TX_LOOKUP_MS) 0) (\<lambda>tx.
    if tx = None then Some (Inr (Answer (Completed ''Reservation sent''
        ''The network has not shown the transaction yet. Open the order page to follow the reservation.''), None))
    else if \<not> isReserveOf (reserve_of e orderKey actor) tx
    then Some (Inr (Answer (Completed ''No reservation found''
        ''This transaction is not a reservation of this order by this wallet. Nothing was recorded.''), None))
    else record_reservation e orderKey actor sig))))"

definition blink_confirm ::
  "confirm_env \<Rightarrow> limiter \<Rightarrow> (completed_view action_answer \<times> event_body option \<times> limiter) option" where
  "blink_confirm e l =
    (let (granted, l') = limiter_take l (clientIp (ce_forwarded e) (ce_realIp e)) (ce_started e) in
     if \<not> granted then Some (Refused ''Too many requests. Open the order page instead.'' 429, None, l')
     else map_option (\<lambda>r. case r of
         Inl x \<Rightarrow> (Refused (js_message (th_error x)) 400, None, l')
       | Inr (a, b) \<Rightarrow> (a, b, l')) (confirm_request e))"

end
