(* ===== verification/Blink_Facts.thy ===== *)
theory Blink_Facts
  imports Web_Blink
begin

text \<open>
  What the Blink routes promise: the rate the limiter lets a client through at, the end of both waiting
  loops, and what the confirm callback may make the verifier record.
\<close>


section \<open>The rate of the limiter\<close>

fun limiter_run :: "limiter \<Rightarrow> (string \<times> rat) list \<Rightarrow> bool list" where
  "limiter_run l [] = []"
| "limiter_run l ((k, t) # rs) = (let (g, l') = limiter_take l k t in g # limiter_run l' rs)"

definition limiter_ok :: "limiter \<Rightarrow> rat \<Rightarrow> bool" where
  "limiter_ok l t \<longleftrightarrow> 1 \<le> lm_capacity l \<and> 0 \<le> lm_perMinute l \<and> distinct (map fst (lm_buckets l)) \<and>
     (\<forall>k b. map_of (lm_buckets l) k = Some b \<longrightarrow> 0 \<le> bk_tokens b \<and> bk_at b \<le> t)"

text \<open>Tokens a client has at time \<open>t\<close>.\<close>

definition avail :: "limiter \<Rightarrow> string \<Rightarrow> rat \<Rightarrow> rat" where
  "avail l k t = (case map_of (lm_buckets l) k of None \<Rightarrow> lm_capacity l
     | Some b \<Rightarrow> min (lm_capacity l) (bk_tokens b + max 0 (((t - bk_at b) / 60000) * lm_perMinute l)))"

text \<open>A grant to a new client when the table is full empties the table first.\<close>

definition clears :: "limiter \<Rightarrow> string \<Rightarrow> rat \<Rightarrow> bool" where
  "clears l k t \<longleftrightarrow> fst (limiter_take l k t) \<and> map_of (lm_buckets l) k = None \<and> lm_maxKeys l \<le> length (lm_buckets l)"

fun clearings :: "limiter \<Rightarrow> (string \<times> rat) list \<Rightarrow> nat" where
  "clearings l [] = 0"
| "clearings l ((k, t) # rs) = (if clears l k t then 1 else 0) + clearings (snd (limiter_take l k t)) rs"

definition room :: "limiter \<Rightarrow> string set \<Rightarrow> bool" where
  "room l ks \<longleftrightarrow> finite ks \<and> card (fst ` set (lm_buckets l) \<union> ks) \<le> lm_maxKeys l"

lemma take_same:
  "limiter_take l k t = (g, l') \<Longrightarrow> lm_capacity l' = lm_capacity l \<and> lm_perMinute l' = lm_perMinute l \<and> lm_maxKeys l' = lm_maxKeys l"
  by (auto simp: limiter_take_def Let_def split: if_splits)

lemma take_bucket:
  assumes "limiter_take l k t = (g, l')" "limiter_ok l t"
  shows "lm_buckets l' = AList.update k \<lparr>bk_tokens = avail l k t - (if g then 1 else 0), bk_at = t\<rparr>
      (if clears l k t then [] else lm_buckets l) \<and>
    (g \<longleftrightarrow> 1 \<le> avail l k t)"
  using assms
  by (cases "map_of (lm_buckets l) k")
    (auto simp: limiter_take_def clears_def Let_def avail_def limiter_ok_def min_less_iff_disj split: if_splits)

lemma avail_nonneg: "limiter_ok l t \<Longrightarrow> 0 \<le> avail l k t"
  by (auto simp: avail_def limiter_ok_def split: option.splits)

lemma min_refill: "0 \<le> y \<Longrightarrow> min c (s + max 0 (x + y)) \<le> min c (s + max 0 x) + (y::rat)"
  by (auto simp: min_def max_def)

lemma avail_later:
  assumes "limiter_ok l t" "t \<le> t'"
  shows "avail l k t' \<le> avail l k t + lm_perMinute l * (t' - t) / 60000"
proof (cases "map_of (lm_buckets l) k")
  case (Some b)
  let ?x = "((t - bk_at b) / 60000) * lm_perMinute l" and ?y = "lm_perMinute l * (t' - t) / 60000"
  have e: "((t' - bk_at b) / 60000) * lm_perMinute l = ?x + ?y" by (simp add: field_simps)
  have "0 \<le> ?y" using assms by (simp add: limiter_ok_def)
  from min_refill [OF this, of "lm_capacity l" "bk_tokens b" ?x] show ?thesis
    by (simp only: avail_def Some option.case e)
qed (use assms in \<open>simp add: avail_def limiter_ok_def\<close>)

lemma avail_le: "avail l k t \<le> lm_capacity l"
  by (simp add: avail_def split: option.split)

lemma take_ok:
  assumes "limiter_take l k t = (g, l')" "limiter_ok l t" "t \<le> t'"
  shows "limiter_ok l' t' \<and>
    avail l' j t \<le> avail l j t - (if g \<and> j = k then 1 else 0) + (if clears l k t then lm_capacity l else 0)"
proof -
  note b = take_bucket [OF assms(1,2)] and s = take_same [OF assms(1)]
  have nn: "0 \<le> avail l k t - (if g then 1 else 0)" using b avail_nonneg [OF assms(2)] by auto
  have "distinct (map fst (lm_buckets l'))"
    using b assms(2) by (simp add: limiter_ok_def distinct_update)
  moreover have "0 \<le> bk_tokens x \<and> bk_at x \<le> t'" if "map_of (lm_buckets l') i = Some x" for i x
  proof (cases "i = k")
    case True
    with that b nn assms(3) show ?thesis by (auto simp: update_Some_unfold)
  next
    case False
    with that b have "map_of (lm_buckets l) i = Some x" by (auto simp: update_conv' split: if_splits)
    with assms(2,3) show ?thesis unfolding limiter_ok_def by force
  qed
  ultimately have "limiter_ok l' t'" using s assms(2) by (simp add: limiter_ok_def)
  moreover have "avail l' j t \<le> avail l j t - (if g \<and> j = k then 1 else 0) + (if clears l k t then lm_capacity l else 0)"
  proof (cases "j = k")
    case True
    have "0 \<le> lm_capacity l" using assms(2) by (simp add: limiter_ok_def)
    then show ?thesis using b s True by (auto simp: avail_def update_conv')
  next
    case False
    have "avail l' j t = (if clears l k t then lm_capacity l else avail l j t)"
      using b s False by (cases "map_of (lm_buckets l) j") (simp_all add: avail_def update_conv' split del: if_split split: if_splits)
    then show ?thesis using False avail_nonneg [OF assms(2), of j] by simp
  qed
  ultimately show ?thesis by blast
qed

lemma run_bound:
  assumes "sorted (map snd reqs)" "\<forall>x \<in> set reqs. t0 \<le> snd x \<and> snd x \<le> T" "t0 \<le> T"
    and "limiter_ok l t0"
  shows "of_nat (length (filter (\<lambda>(g, k', _). g \<and> k' = k) (zip (limiter_run l reqs) reqs))) \<le>
    avail l k t0 + of_nat (clearings l reqs) * lm_capacity l + lm_perMinute l * (T - t0) / 60000"
  using assms
proof (induction reqs arbitrary: l t0)
  case Nil
  have "0 \<le> lm_perMinute l * (T - t0) / 60000" using Nil by (simp add: limiter_ok_def)
  with avail_nonneg [OF Nil(4)] show ?case by (simp add: add_nonneg_nonneg)
next
  case (Cons r reqs)
  obtain k1 t1 where r: "r = (k1, t1)" by (cases r)
  obtain g l' where st: "limiter_take l k1 t1 = (g, l')" by fastforce
  have ok1: "limiter_ok l t1" using Cons.prems r by (force simp: limiter_ok_def)
  have t01: "t0 \<le> t1" "t1 \<le> T" using Cons.prems r by auto
  note step = take_ok [OF st ok1 order_refl, of k]
  have "of_nat (length (filter (\<lambda>(g, k', _). g \<and> k' = k) (zip (limiter_run l' reqs) reqs))) \<le>
      avail l' k t1 + of_nat (clearings l' reqs) * lm_capacity l' + lm_perMinute l' * (T - t1) / 60000"
    using Cons.prems r step t01 by (intro Cons.IH) auto
  moreover have "avail l k t1 \<le> avail l k t0 + lm_perMinute l * (t1 - t0) / 60000"
    by (rule avail_later [OF Cons.prems(4) t01(1)])
  moreover have "lm_perMinute l' = lm_perMinute l" "lm_capacity l' = lm_capacity l" using take_same [OF st] by simp_all
  moreover have "lm_perMinute l * (t1 - t0) / 60000 + lm_perMinute l * (T - t1) / 60000 = lm_perMinute l * (T - t0) / 60000"
    by (simp add: field_simps)
  moreover have "of_nat (clearings l (r # reqs)) * lm_capacity l =
      (if clears l k1 t1 then lm_capacity l else 0) + of_nat (clearings l' reqs) * lm_capacity l"
    using r st by (simp add: algebra_simps)
  ultimately show ?case using step r st by (auto split: if_splits)
qed

lemma room_never_clears:
  assumes "limiter_ok l t" "room l ks" "k \<in> ks"
  shows "\<not> clears l k t"
proof
  assume a: "clears l k t"
  then have "k \<notin> fst ` set (lm_buckets l)" by (simp add: clears_def map_of_eq_None_iff)
  then have "card (insert k (fst ` set (lm_buckets l))) = Suc (length (lm_buckets l))"
    using assms(1) distinct_card [of "map fst (lm_buckets l)"] by (simp add: limiter_ok_def)
  moreover have "card (insert k (fst ` set (lm_buckets l))) \<le> card (fst ` set (lm_buckets l) \<union> ks)"
    using assms(2,3) by (intro card_mono) (auto simp: room_def)
  ultimately show False using a assms(2) by (simp add: room_def clears_def)
qed

lemma room_clearings:
  "sorted (map snd reqs) \<Longrightarrow> \<forall>x \<in> set reqs. t0 \<le> snd x \<Longrightarrow> limiter_ok l t0 \<Longrightarrow> room l ks \<Longrightarrow> fst ` set reqs \<subseteq> ks \<Longrightarrow>
    clearings l reqs = 0"
proof (induction reqs arbitrary: l t0)
  case (Cons r reqs)
  obtain k1 t1 where r: "r = (k1, t1)" by (cases r)
  obtain g l' where st: "limiter_take l k1 t1 = (g, l')" by fastforce
  have ok1: "limiter_ok l t1" using Cons.prems r by (force simp: limiter_ok_def)
  have k1: "k1 \<in> ks" using Cons.prems r by simp
  note c = room_never_clears [OF ok1 Cons.prems(4) k1]
  have "room l' ks"
    using Cons.prems(4) k1 take_bucket [OF st ok1] take_same [OF st] c by (simp add: room_def dom_update insert_absorb)
  then have "clearings l' reqs = 0"
    using Cons.prems r take_ok [OF st ok1 order_refl] by (intro Cons.IH [of t1]) auto
  then show ?case using r st c by simp
qed simp

definition grants :: "limiter \<Rightarrow> (string \<times> rat) list \<Rightarrow> string \<Rightarrow> nat" where
  "grants l reqs k = length (filter (\<lambda>(g, k', _). g \<and> k' = k) (zip (limiter_run l reqs) reqs))"

text \<open>C17: the rate of the limiter. Whatever requests arrive between t0 and T in the order of their times, from whatever
  clients, one client is let through at most \<open>capacity\<close> times plus \<open>perMinute\<close> for each minute, plus \<open>capacity\<close> for each time
  the full table was emptied for a new client. While the clients, with those in the table, are at most \<open>maxKeys\<close>, it is never
  emptied.
\<close>

theorem limiter_rate:
  assumes "sorted (map snd reqs)" "\<forall>x \<in> set reqs. t0 \<le> snd x \<and> snd x \<le> T" "t0 \<le> T"
    and "limiter_ok l t0"
  shows "of_nat (grants l reqs k) \<le> (1 + of_nat (clearings l reqs)) * lm_capacity l + lm_perMinute l * (T - t0) / 60000 \<and>
    (room l (fst ` set reqs) \<longrightarrow> clearings l reqs = 0)"
  using run_bound [OF assms, of k] avail_le [of l k t0] room_clearings [OF assms(1) _ assms(4), of "fst ` set reqs"] assms(2)
  unfolding grants_def by (auto simp: algebra_simps)

text \<open>A full table, emptied by a second client: the first is let through twice in the same moment.\<close>

definition small_limiter :: limiter where
  "small_limiter = \<lparr>lm_capacity = 1, lm_perMinute = 0, lm_maxKeys = 1, lm_buckets = []\<rparr>"

theorem limiter_rate_witness:
  "grants start_limiter [(''9.9.9.9'', 0), (''9.9.9.9'', 60000)] ''9.9.9.9'' = 2 \<and>
   (of_nat (grants start_limiter [(''9.9.9.9'', 0), (''9.9.9.9'', 60000)] ''9.9.9.9'') :: rat) \<le> 20 \<and>
   (let rs = [(''1.1.1.1'', 0), (''2.2.2.2'', 0), (''1.1.1.1'', 0)]
    in grants small_limiter rs ''1.1.1.1'' = 2 \<and> clearings small_limiter rs = 2 \<and> (of_nat (grants small_limiter rs ''1.1.1.1'') :: rat) \<le> 3)"
proof -
  let ?rs = "[(''9.9.9.9'', 0), (''9.9.9.9'', 60000)]" and ?qs = "[(''1.1.1.1'', 0), (''2.2.2.2'', 0), (''1.1.1.1'', 0)]"
  have "(of_nat (grants start_limiter ?rs ''9.9.9.9'') :: rat)
     \<le> (1 + of_nat (clearings start_limiter ?rs)) * lm_capacity start_limiter + lm_perMinute start_limiter * (60000 - 0) / 60000"
    by (rule limiter_rate [THEN conjunct1]) (simp_all add: limiter_ok_def start_limiter_def)
  moreover have "(of_nat (grants small_limiter ?qs ''1.1.1.1'') :: rat)
     \<le> (1 + of_nat (clearings small_limiter ?qs)) * lm_capacity small_limiter + lm_perMinute small_limiter * (0 - 0) / 60000"
    by (rule limiter_rate [THEN conjunct1]) (simp_all add: limiter_ok_def small_limiter_def)
  ultimately show ?thesis
    by (simp add: grants_def start_limiter_def small_limiter_def limiter_take_def clears_def Let_def)
qed

section \<open>Both waits end\<close>

text \<open>A clock that does not run backwards and has advanced by the delay after each sleep.\<close>

definition retry_clock :: "(nat \<Rightarrow> rat) \<Rightarrow> rat \<Rightarrow> bool" where
  "retry_clock now delay \<longleftrightarrow> 0 < delay \<and> (\<forall>i. now (2 * i) \<le> now (2 * i + 1) \<and> now (2 * i + 1) + delay \<le> now (2 * Suc i))"

definition poll_clock :: "(nat \<Rightarrow> rat) \<Rightarrow> rat \<Rightarrow> bool" where
  "poll_clock now delay \<longleftrightarrow> 0 < delay \<and> (\<forall>i. now i + delay \<le> now (Suc i))"

lemma rat_steps: "0 < (d::rat) \<Longrightarrow> \<exists>n. b \<le> a + of_nat n * d"
proof -
  assume "0 < d"
  then obtain n where "b - a < of_nat n * d" using ex_less_of_nat_mult by blast
  then show ?thesis by (intro exI [of _ n]) linarith
qed

lemma post_until_ends:
  assumes "retry_clock now delay" "deadline \<le> now (2 * i) + of_nat n * delay"
  shows "\<exists>r. post_until post now deadline delay i = Some r \<and>
    (r = Inr Post_ok \<longrightarrow> (\<exists>k s. i \<le> k \<and> post k = Inr (True, s) \<and> now (2 * k) < deadline))"
  using assms(2)
proof (induction n arbitrary: i)
  case 0
  then show ?case by (subst post_until.simps) simp
next
  case (Suc n)
  have "now (2 * i) + delay \<le> now (2 * Suc i)"
    using assms(1) unfolding retry_clock_def by (meson add_right_mono order_trans)
  with Suc.prems have "deadline \<le> now (2 * Suc i) + of_nat n * delay"
    by (simp add: algebra_simps)
  from Suc.IH [OF this] obtain r where r: "post_until post now deadline delay (Suc i) = Some r"
    "r = Inr Post_ok \<longrightarrow> (\<exists>k s. Suc i \<le> k \<and> post k = Inr (True, s) \<and> now (2 * k) < deadline)" by blast
  then have "r = Inr Post_ok \<longrightarrow> (\<exists>k s. i \<le> k \<and> post k = Inr (True, s) \<and> now (2 * k) < deadline)"
    by (meson Suc_leD)
  with r(1) show ?case
    by (subst post_until.simps) (auto split: sum.split)
qed

lemma landed_tx_ends:
  assumes "poll_clock now delay" "untilMs \<le> now i + of_nat n * delay"
  shows "\<exists>k. landed_tx get now untilMs i = Some (get k)"
  using assms(2)
proof (induction n arbitrary: i)
  case 0
  then show ?case by (subst landed_tx.simps) auto
next
  case (Suc n)
  have "now i + delay \<le> now (Suc i)" using assms(1) by (simp add: poll_clock_def)
  with Suc.prems have "untilMs \<le> now (Suc i) + of_nat n * delay" by (simp add: algebra_simps)
  from Suc.IH [OF this] show ?case by (subst landed_tx.simps) auto
qed

lemma landed_tx_total: "poll_clock now delay \<Longrightarrow> \<exists>k. landed_tx get now untilMs i = Some (get k)"
  using rat_steps [of delay untilMs "now i"] landed_tx_ends by (auto simp: poll_clock_def)

lemma post_until_total:
  assumes "retry_clock now delay"
  shows "\<exists>r. postUntil post now deadline delay = Some r \<and>
    (r = Inr Post_ok \<longrightarrow> (\<exists>k s. post k = Inr (True, s) \<and> now (2 * k) < deadline))"
proof -
  obtain n where "deadline \<le> now (2 * 0) + of_nat n * delay"
    using rat_steps [of delay] assms unfolding retry_clock_def by blast
  from post_until_ends [OF assms this] show ?thesis unfolding postUntil_def by blast
qed

text \<open>C18: \<open>postUntil\<close> always returns: whatever the verifier answers, on a clock that advances by the retry delay
  over each sleep the loop ends, and it reports success only when some post before the deadline succeeded.
\<close>

theorem post_until_returns:
  assumes "retry_clock now delay"
  shows "\<exists>r. postUntil post now deadline delay = Some r \<and>
    (r = Inr Post_ok \<longrightarrow> (\<exists>k s. post k = Inr (True, s) \<and> now (2 * k) < deadline))"
  by (rule post_until_total [OF assms])

theorem post_until_returns_witness:
  "\<exists>r. postUntil (\<lambda>_. Inr (False, 503)) (\<lambda>i. 1500 * of_nat i) 9000 1500 = Some r \<and> r \<noteq> Inr Post_ok"
  using post_until_returns [of "\<lambda>i. 1500 * of_nat i" 1500 "\<lambda>_. Inr (False, 503)" 9000]
  by (auto simp: retry_clock_def algebra_simps)

section \<open>What the callback records\<close>

lemma record_reservation_ends:
  assumes "retry_clock (ce_postClock e) RETRY_MS"
  shows "record_reservation e k a s \<noteq> None"
  using post_until_total [OF assms]
  by (auto simp: record_reservation_def Let_def split: sum.split option.split)

lemma confirm_request_ends:
  assumes "poll_clock (ce_txClock e) d" "retry_clock (ce_postClock e) RETRY_MS"
  shows "confirm_request e \<noteq> None"
proof -
  have "\<forall>s u. \<exists>t. landed_tx (ce_getTx e s) (ce_txClock e) u 0 = Some t"
    using landed_tx_total [OF assms(1)] by blast
  then obtain f where "\<And>s u. landed_tx (ce_getTx e s) (ce_txClock e) u 0 = Some (f s u)" by metis
  moreover have "\<forall>k a s. \<exists>r. record_reservation e k a s = Some r"
    using record_reservation_ends [OF assms(2)] by blast
  then obtain h where "\<And>k a s. record_reservation e k a s = Some (h k a s)" by metis
  ultimately show ?thesis by (auto simp: confirm_request_def Let_def split: sum.splits prod.splits)
qed

lemma posted_event:
  "(case z of Inl x \<Rightarrow> Inr (f x, Some b) | Inr out \<Rightarrow> Inr (g out, Some b)) = (Inr (r, Some b') :: thrown + _) \<Longrightarrow> b' = b"
  by (cases z) auto

lemma record_event:
  "record_reservation e k a s = Some (Inr (r, Some b)) \<Longrightarrow>
    eb_txSig b = s \<and> eb_actor b = be_base58 e a \<and> eb_order b = be_base58 e k \<and> eb_serial b \<noteq> []"
  unfolding record_reservation_def
  by (cases "be_fetchOrder e k"; cases "be_passports e")
    (auto simp: Let_def dest!: posted_event split: option.splits if_splits)

lemma landed_tx_read:
  assumes "poll_clock (ce_txClock e) d" "landed_tx get (ce_txClock e) u 0 = Some tx"
  shows "\<exists>i. tx = get i"
  using landed_tx_total [OF assms(1), of get u 0] assms(2) by auto

text \<open>C16: the confirm callback always answers, and what it makes the verifier record is guarded: an event is posted
  only when the limiter let the client through, the signature has the base58 form, and a transaction read back
  under that signature is a \<open>reserve\<close> of the order the event names, signed by the actor it names.
\<close>

theorem confirm_guard:
  assumes "poll_clock (ce_txClock e) d" "retry_clock (ce_postClock e) RETRY_MS"
  shows "\<exists>r b l'. blink_confirm e l = Some (r, b, l') \<and>
    (case b of None \<Rightarrow> True | Some ev \<Rightarrow>
       fst (limiter_take l (clientIp (ce_forwarded e) (ce_realIp e)) (ce_started e)) \<and> SIG_RE (eb_txSig ev) \<and>
       (\<exists>k a i. isReserveOf (reserve_of e k a) (ce_getTx e (eb_txSig ev) i) \<and>
          eb_order ev = be_base58 e k \<and> eb_actor ev = be_base58 e a))"
proof -
  obtain x where x: "confirm_request e = Some x" using confirm_request_ends [OF assms] by blast
  have "SIG_RE (eb_txSig ev) \<and> (\<exists>k a i. isReserveOf (reserve_of e k a) (ce_getTx e (eb_txSig ev) i) \<and>
      eb_order ev = be_base58 e k \<and> eb_actor ev = be_base58 e a)" if "x = Inr (r, Some ev)" for r ev
    using x that
    by (auto simp: confirm_request_def Let_def bind_eq_Some_conv split: sum.splits if_splits
        dest!: record_event landed_tx_read [OF assms(1)]) blast
  with x show ?thesis
    by (auto simp: blink_confirm_def Let_def split: prod.split sum.split option.split)
qed

definition demo_sig :: string where
  "demo_sig = replicate 64 (CHR ''5'')"

definition demo_reserve_tx :: chain_tx where
  "demo_reserve_tx = \<lparr>ct_meta = Some \<lparr>tm_err = False, tm_loaded = []\<rparr>, ct_v0 = True,
     ct_static = [[2], [5], [4]], ct_required_signatures = 1,
     ct_instructions = [\<lparr>ci_program = 2,
       ci_accounts = (replicate (length (ii_accounts escrow_ix_reserve)) 0)[reserve_position ''order'' := 1],
       ci_data = map of_nat (ii_discriminator escrow_ix_reserve)\<rparr>]\<rparr>"

definition demo_confirm :: confirm_env where
  "demo_confirm = \<lparr>be_origin = [], be_key = (\<lambda>s. Inr (if s = ''order'' then [5] else [2])), be_base58 = (\<lambda>_. ''k''),
     be_fetchOrder = (\<lambda>_. Inr (Some demo_view)), be_fetchOrders = (\<lambda>_. Inr []), be_passportKey = (\<lambda>_. ix_passport demo_view),
     be_passports = Inr [''FV-0001-0001''], be_passport = (\<lambda>_. Inr None), be_config = Inr None, be_blockhash = Inr [],
     be_program = demo_prog, ce_started = 0, ce_forwarded = None, ce_realIp = None,
     ce_body = Inr (Some ''buyer'', Some demo_sig), ce_order = Some ''order'', ce_getTx = (\<lambda>_ _. Some demo_reserve_tx),
     ce_txClock = (\<lambda>i. 1000 * of_nat i), ce_post = (\<lambda>_ _. Inr (True, 200)), ce_postClock = (\<lambda>i. 1500 * of_nat i)\<rparr>"

lemma demo_clocks: "poll_clock (ce_txClock demo_confirm) 1000" "retry_clock (ce_postClock demo_confirm) RETRY_MS"
  by (simp_all add: poll_clock_def retry_clock_def demo_confirm_def RETRY_MS_def algebra_simps)

lemma reserve_positions: "reserve_position ''order'' = 1" "reserve_position ''buyer'' = 2"
  by (simp_all add: reserve_position_def escrow_ix_reserve_def idl_acc_def)

lemma starts_with_refl: "starts_with xs xs"
  by (induction xs) simp_all

lemma demo_reserve: "isReserveOf (reserve_of demo_confirm [5] [2]) (Some demo_reserve_tx)"
proof -
  have "length (ii_accounts escrow_ix_reserve) = 11" by (simp add: escrow_ix_reserve_def)
  then show ?thesis
  by (simp add: isReserveOf_def demo_reserve_tx_def reserve_of_def demo_confirm_def demo_prog_def signed_by_def account_keys_def key_at_def
      reserve_positions nat_at_def starts_with_refl)
qed

lemma demo_sig_ok: "SIG_RE demo_sig" "demo_sig \<noteq> []"
  by (simp_all add: SIG_RE_def demo_sig_def base58_char_def list_all_iff char_class_simps code_def)

lemma demo_landed: "landed_tx (ce_getTx demo_confirm demo_sig) (ce_txClock demo_confirm) u 0 = Some (Some demo_reserve_tx)"
    by (subst landed_tx.simps) (simp add: demo_confirm_def)

lemma demo_serial: "find_serial (blink_env.truncate demo_confirm) [''FV-0001-0001''] demo_view = Some ''FV-0001-0001''"
      by (simp add: find_serial_def blink_env.truncate_def demo_confirm_def isValidSerial_def serial_char_def char_class_simps code_def)

lemma demo_post: "postUntil (ce_post demo_confirm b) (ce_postClock demo_confirm) BUDGET_MS RETRY_MS = Some (Inr Post_ok)"
      unfolding postUntil_def by (subst post_until.simps) (simp add: demo_confirm_def BUDGET_MS_def)

lemma demo_reads: "be_fetchOrder demo_confirm [5] = Inr (Some demo_view)" "be_passports demo_confirm = Inr [''FV-0001-0001'']"
      "ce_started demo_confirm = 0" "ce_body demo_confirm = Inr (Some ''buyer'', Some demo_sig)" "ce_order demo_confirm = Some ''order''"
    "be_key demo_confirm ''order'' = Inr [5]" "be_key demo_confirm ''buyer'' = Inr [2]"
  by (simp_all add: demo_confirm_def)

lemma demo_record: "\<exists>r b. record_reservation demo_confirm [5] [2] demo_sig = Some (Inr (r, Some b))"
  by (simp add: record_reservation_def Let_def demo_reads demo_serial demo_post)

lemma demo_request: "\<exists>r b. confirm_request demo_confirm = Some (Inr (r, Some b))"
  using demo_record by (simp add: confirm_request_def demo_reads demo_sig_ok demo_landed demo_reserve)

lemma demo_posts: "\<exists>r b l'. blink_confirm demo_confirm start_limiter = Some (r, Some b, l')"
proof -
  have "fst (limiter_take start_limiter k t)" for k t
    by (simp add: limiter_take_def start_limiter_def Let_def)
  then show ?thesis
    using demo_request by (force simp: blink_confirm_def Let_def split_def)
qed

theorem confirm_guard_witness:
  "\<exists>r ev l'. blink_confirm demo_confirm start_limiter = Some (r, Some ev, l') \<and> SIG_RE (eb_txSig ev) \<and>
    (\<exists>k a. isReserveOf (reserve_of demo_confirm k a) (Some demo_reserve_tx) \<and>
       eb_order ev = be_base58 demo_confirm k \<and> eb_actor ev = be_base58 demo_confirm a)"
proof -
  have tx: "ce_getTx demo_confirm s i = Some demo_reserve_tx" for s i by (simp add: demo_confirm_def)
  show ?thesis using confirm_guard [OF demo_clocks, of start_limiter] demo_posts by (auto simp: tx)
qed

end
