(* ===== verification/Vision_Color.thy ===== *)
theory Vision_Color
  imports Proof_Bytes Complex_Main
begin

text \<open>
  \<open>packages/vision/src/color.ts\<close>: colours, the white balance of a group of patches and the choice
  between the two reference colours of a field. Numbers are reals: the model leaves out rounding.
\<close>

type_synonym rgb = "real \<times> real \<times> real"
type_synonym lab = "real \<times> real \<times> real"

text \<open>The reference colours are \<open>#rrggbb\<close>; a two-digit slice is read base 16.\<close>

definition hex_pair :: "string \<Rightarrow> nat \<Rightarrow> real" where
  "hex_pair h i = of_nat (foldl (\<lambda>n c. 16 * n + hex_val c) 0 (take 2 (drop i h)))"

text \<open>\<open>replace("#", "")\<close> drops the first number sign.\<close>

definition hexToRgb :: "string \<Rightarrow> rgb" where
  "hexToRgb hex = (let h = takeWhile (\<lambda>c. c \<noteq> CHR ''#'') hex @ tl (dropWhile (\<lambda>c. c \<noteq> CHR ''#'') hex)
     in (hex_pair h 0, hex_pair h 2, hex_pair h 4))"

definition srgbToLinear :: "real \<Rightarrow> real" where
  "srgbToLinear c = (let v = c / 255 in if v \<le> 0.04045 then v / 12.92 else ((v + 0.055) / 1.055) powr 2.4)"

definition lab_f :: "real \<Rightarrow> real" where
  "lab_f t = (if t > 0.008856 then root 3 t else 7.787 * t + 16 / 116)"

definition rgbToLab :: "rgb \<Rightarrow> lab" where
  "rgbToLab = (\<lambda>(r, g, b).
    let R = srgbToLinear r; G = srgbToLinear g; B = srgbToLinear b;
        X = (R * 0.4124564 + G * 0.3575761 + B * 0.1804375) / 0.95047;
        Y = (R * 0.2126729 + G * 0.7151522 + B * 0.072175) / 1;
        Z = (R * 0.0193339 + G * 0.119192 + B * 0.9503041) / 1.08883;
        fx = lab_f X; fy = lab_f Y; fz = lab_f Z
    in (116 * fy - 16, 500 * (fx - fy), 200 * (fy - fz)))"

definition deltaE :: "lab \<Rightarrow> lab \<Rightarrow> real" where
  "deltaE = (\<lambda>(a0, a1, a2) (b0, b1, b2). sqrt ((a0 - b0)\<^sup>2 + (a1 - b1)\<^sup>2 + (a2 - b2)\<^sup>2))"

definition clamp255 :: "real \<Rightarrow> real" where
  "clamp255 v = max 0 (min 255 v)"

section \<open>White balance\<close>

definition channels :: "rgb \<Rightarrow> real list" where
  "channels = (\<lambda>(r, g, b). [r, g, b])"

text \<open>Gain and offset of a channel.\<close>

definition gain :: "real \<Rightarrow> real \<Rightarrow> real \<Rightarrow> real \<Rightarrow> real \<times> real" where
  "gain tgrey twhite grey white =
    (let span = white - grey in
     if span < 12 then (1, 0) else let a = (twhite - tgrey) / span in (a, tgrey - a * grey))"

definition map_channel :: "real \<times> real \<Rightarrow> real \<Rightarrow> real" where
  "map_channel = (\<lambda>(a, b) c. clamp255 (a * c + b))"

record white_balance =
  wb_ok :: bool
  wb_apply :: "rgb \<Rightarrow> rgb"

definition makeWhiteBalance :: "rgb \<Rightarrow> rgb \<Rightarrow> real \<times> real \<Rightarrow> white_balance" where
  "makeWhiteBalance grey white target =
    (case (grey, white, target) of ((g0, g1, g2), (w0, w1, w2), (tg, tw)) \<Rightarrow>
     \<lparr>wb_ok = w0 - g0 \<ge> 12 \<and> w1 - g1 \<ge> 12 \<and> w2 - g2 \<ge> 12,
      wb_apply = (\<lambda>(c0, c1, c2). (map_channel (gain tg tw g0 w0) c0, map_channel (gain tg tw g1 w1) c1,
        map_channel (gain tg tw g2 w2) c2))\<rparr>)"

definition DEFAULT_TARGET :: "real \<times> real" where
  "DEFAULT_TARGET = (118, 255)"

section \<open>Classification\<close>

record classified =
  cl_level :: int
  cl_confidence :: real
  cl_dIntact :: real
  cl_dTriggered :: real

definition classify :: "rgb \<Rightarrow> rgb \<Rightarrow> rgb \<Rightarrow> classified" where
  "classify sample intact triggered =
    (let s = rgbToLab sample;
         dIntact = deltaE s (rgbToLab intact);
         dTriggered = deltaE s (rgbToLab triggered);
         margin = \<bar>dIntact - dTriggered\<bar>;
         confidence = 1 / (1 + exp (- (margin - 6) / 2))
     in \<lparr>cl_level = (if dTriggered < dIntact then 1 else 0),
         cl_confidence = (if min dIntact dTriggered > 35 then min confidence 0.3 else confidence),
         cl_dIntact = dIntact, cl_dTriggered = dTriggered\<rparr>)"

section \<open>Lemmas\<close>

text \<open>A usable balance sends the two references to their targets.\<close>

lemma gain_exact:
  assumes "12 \<le> w - g" "0 \<le> tg" "tg \<le> 255" "0 \<le> tw" "tw \<le> 255"
  shows "map_channel (gain tg tw g w) g = tg" "map_channel (gain tg tw g w) w = tw"
proof -
  let ?a = "(tw - tg) / (w - g)"
  have "?a * w + (tg - ?a * g) = ?a * (w - g) + tg" by (simp only: right_diff_distrib)
  also have "\<dots> = tw" using assms by simp
  finally show "map_channel (gain tg tw g w) w = tw"
    using assms by (simp add: map_channel_def gain_def Let_def clamp255_def)
  show "map_channel (gain tg tw g w) g = tg"
    using assms by (simp add: map_channel_def gain_def Let_def clamp255_def)
qed

lemma white_balance_exact:
  assumes "wb_ok (makeWhiteBalance grey white (tg, tw))" "0 \<le> tg" "tg \<le> 255" "0 \<le> tw" "tw \<le> 255"
  shows "wb_apply (makeWhiteBalance grey white (tg, tw)) grey = (tg, tg, tg)"
    "wb_apply (makeWhiteBalance grey white (tg, tw)) white = (tw, tw, tw)"
  using assms by (auto simp: makeWhiteBalance_def gain_exact split: prod.splits)

text \<open>The sigmoid stays below one; a sample far from both references is never sure.\<close>

lemma classify_level: "cl_level (classify s i t) \<in> {0, 1}"
  by (simp add: classify_def Let_def)

lemma classify_confidence: "0 < cl_confidence (classify s i t)" "cl_confidence (classify s i t) < 1"
  by (auto simp: classify_def Let_def add_pos_pos divide_simps min_def)

lemma classify_far:
  "35 < min (cl_dIntact (classify s i t)) (cl_dTriggered (classify s i t)) \<Longrightarrow> cl_confidence (classify s i t) \<le> 0.3"
  by (auto simp: classify_def Let_def min_def)

end
