(* ===== verification/Vision_Verdict.thy ===== *)
theory Vision_Verdict
  imports Vision_Color Proof_Grade
begin

text \<open>
  The verdicts of \<open>packages/vision/src/pipeline.ts\<close> on measured fields: the consistency of the heat strip,
  the heat verdict with glare, and the verdict of a one-field indicator; what they promise.
\<close>

section \<open>Readings\<close>

record field_reading =
  fr_level :: int
  fr_confidence :: real
  fr_dIntact :: real
  fr_dTriggered :: real
  fr_rgb :: rgb
  fr_clipped :: "real option"
  fr_glare :: bool

record group_quality =
  gq_greyL :: real
  gq_whiteL :: real
  gq_ok :: bool

record quality =
  ql_markerPx :: real
  ql_qrUsed :: bool
  ql_anchors :: "string list"
  ql_heat :: group_quality
  ql_hum :: group_quality
  ql_mode :: "string option"

record card_votes =
  vt_frames :: nat
  vt_found :: nat
  vt_heat :: nat
  vt_humidity :: nat
  vt_uv :: nat

record 'w card_reading =
  cr_found :: bool
  cr_reason :: "string option"
  cr_heatLevels :: "int list"
  cr_heatFields :: "field_reading list"
  cr_heat :: int
  cr_humidity :: int
  cr_humidityField :: "field_reading option"
  cr_uv :: int
  cr_uvField :: "field_reading option"
  cr_conf_heat :: real
  cr_conf_humidity :: real
  cr_quality :: quality
  cr_homography :: "real list option"
  cr_warped :: "'w option"
  cr_ms :: real
  cr_votes :: "card_votes option"

definition INTACT :: int where "INTACT = member Indicator ''INTACT''"
definition TRIGGERED :: int where "TRIGGERED = member Indicator ''TRIGGERED''"
definition UNREADABLE :: int where "UNREADABLE = member Indicator ''UNREADABLE''"
definition MISSING :: int where "MISSING = member Indicator ''MISSING''"

lemma indicator_codes [simp]: "INTACT = 0" "TRIGGERED = 1" "UNREADABLE = 2" "MISSING = 3"
  by (simp_all add: INTACT_def TRIGGERED_def UNREADABLE_def MISSING_def)

definition CONFIDENCE_THRESHOLD :: real where "CONFIDENCE_THRESHOLD = 0.85"
definition RING_MAX_RATIO :: real where "RING_MAX_RATIO = 0.6"
definition GLARE_MAX_FRACTION :: real where "GLARE_MAX_FRACTION = 0.15"

definition no_quality :: group_quality where
  "no_quality = \<lparr>gq_greyL = 0, gq_whiteL = 0, gq_ok = False\<rparr>"

definition notFoundReading :: "string \<Rightarrow> real \<Rightarrow> 'w card_reading" where
  "notFoundReading reason ms =
    \<lparr>cr_found = False, cr_reason = Some reason, cr_heatLevels = [0, 0, 0, 0, 0, 0], cr_heatFields = [],
     cr_heat = MISSING, cr_humidity = MISSING, cr_humidityField = None, cr_uv = MISSING, cr_uvField = None,
     cr_conf_heat = 0, cr_conf_humidity = 0,
     cr_quality = \<lparr>ql_markerPx = 0, ql_qrUsed = False, ql_anchors = [], ql_heat = no_quality, ql_hum = no_quality, ql_mode = None\<rparr>,
     cr_homography = None, cr_warped = None, cr_ms = ms, cr_votes = None\<rparr>"

definition isDecided :: "int \<Rightarrow> bool" where
  "isDecided indicator \<longleftrightarrow> indicator = INTACT \<or> indicator = TRIGGERED"

section \<open>The heat strip\<close>

record heat_layout =
  hl_temp :: real
  hl_decisive :: bool

definition sure :: "field_reading \<Rightarrow> bool" where
  "sure f \<longleftrightarrow> CONFIDENCE_THRESHOLD \<le> fr_confidence f"

text \<open>The fields whose level is known, with their temperature: a missing field or one with glare has none.\<close>

definition known_fields :: "field_reading list \<Rightarrow> heat_layout list \<Rightarrow> (real \<times> int \<times> bool) list" where
  "known_fields fs layout =
    map (\<lambda>(l, f). (hl_temp l, fr_level f, sure f)) (filter (\<lambda>(l, f). \<not> fr_glare f) (zip layout fs))"

definition heatFieldsConsistent :: "field_reading list \<Rightarrow> heat_layout list \<Rightarrow> bool" where
  "heatFieldsConsistent fs layout =
    (let f = known_fields fs layout in
     \<not> list_ex (\<lambda>(tc, lc, sc). list_ex (\<lambda>(th, lh, sh). tc < th \<and> lc = 0 \<and> lh = 1 \<and> (sc \<or> sh)) f) f)"

record heat_result =
  hr_heat :: int
  hr_heatLevels :: "int list"
  hr_confidence :: real
  hr_consistent :: bool
  hr_glare :: bool

definition decisive_index :: "heat_layout list \<Rightarrow> nat" where
  "decisive_index layout = (case List.find (\<lambda>i. hl_decisive (layout ! i)) [0..<length layout] of
     Some i \<Rightarrow> i | None \<Rightarrow> HEAT_DECISIVE_INDEX)"

text \<open>The level of a field: its own, or under glare the one the decided verdict fixes.\<close>

definition field_level :: "heat_layout list \<Rightarrow> nat \<Rightarrow> int \<Rightarrow> field_reading \<Rightarrow> nat \<Rightarrow> int option" where
  "field_level layout d measured f i =
    (if \<not> fr_glare f then Some (fr_level f)
     else if i = d then None
     else let hotter = hl_temp (layout ! i) > hl_temp (layout ! d) in
       if hotter \<and> measured = INTACT then Some 0
       else if \<not> hotter \<and> measured = TRIGGERED then Some 1
       else None)"

text \<open>\<open>None\<close>: the code reads a property of a field or layout entry that is not there, and throws.\<close>

definition heatVerdict :: "field_reading list \<Rightarrow> heat_layout list \<Rightarrow> bool \<Rightarrow> heat_result option" where
  "heatVerdict fs layout wbOk =
    (let d = decisive_index layout;
         decisive = fs ! d;
         consistent = heatFieldsConsistent fs layout;
         usable = wbOk \<and> consistent
     in if usable \<and> length fs \<le> d then None
        else let measured = (if \<not> usable \<or> fr_glare decisive \<or> \<not> sure decisive then UNREADABLE else fr_level decisive)
        in if list_ex (\<lambda>i. fr_glare (fs ! i) \<and> i \<noteq> d \<and> (length layout \<le> i \<or> length layout \<le> d)) [0..<length fs] then None
        else let levels = map (\<lambda>i. field_level layout d measured (fs ! i) i) [0..<length fs];
                 glare = usable \<and> (fr_glare decisive \<or> (isDecided measured \<and> None \<in> set levels));
                 heat = (if glare then UNREADABLE else measured)
             in Some \<lparr>hr_heat = heat,
                  hr_heatLevels = (if isDecided heat then map the levels else [0, 0, 0, 0, 0, 0]),
                  hr_confidence = (if usable \<and> \<not> glare then fr_confidence decisive else 0),
                  hr_consistent = consistent, hr_glare = glare\<rparr>)"

definition fieldVerdict :: "field_reading \<Rightarrow> bool \<Rightarrow> int \<times> real" where
  "fieldVerdict field wbOk =
    (if \<not> wbOk then (UNREADABLE, 0)
     else (if \<not> sure field then UNREADABLE else fr_level field, fr_confidence field))"

section \<open>What the verdicts promise\<close>

lemma decisive_index_bound: "decisive_index layout < length layout \<or> decisive_index layout = HEAT_DECISIVE_INDEX"
  by (auto simp: decisive_index_def dest: find_Some_iff2 split: option.splits)

lemma consistent_pair:
  assumes "heatFieldsConsistent fs layout" "i < length fs" "i < length layout" "j < length fs" "j < length layout"
    and "\<not> fr_glare (fs ! i)" "\<not> fr_glare (fs ! j)" "hl_temp (layout ! i) < hl_temp (layout ! j)"
    and "fr_level (fs ! i) = 0" "fr_level (fs ! j) = 1"
  shows "\<not> sure (fs ! i) \<and> \<not> sure (fs ! j)"
proof -
  have known: "(hl_temp (layout ! k), fr_level (fs ! k), sure (fs ! k)) \<in> set (known_fields fs layout)"
    if "k < length fs" "k < length layout" "\<not> fr_glare (fs ! k)" for k
  proof -
    have "(layout ! k, fs ! k) \<in> set (zip layout fs)"
      using that by (auto simp: in_set_zip)
    with that show ?thesis unfolding known_fields_def by force
  qed
  from known [of i] known [of j] assms show ?thesis
    unfolding heatFieldsConsistent_def Let_def list_ex_iff by fastforce
qed

text \<open>Levels of a layout with one entry per field, each level zero or one.\<close>

definition strip_fields :: "field_reading list \<Rightarrow> heat_layout list \<Rightarrow> bool" where
  "strip_fields fs layout \<longleftrightarrow> length fs = length layout \<and> decisive_index layout < length layout \<and>
     (\<forall>f \<in> set fs. fr_level f = 0 \<or> fr_level f = 1)"

text \<open>A pair of levels that a real strip cannot show: a triggered field above an intact one.\<close>

definition inverted :: "heat_layout list \<Rightarrow> int list \<Rightarrow> nat \<Rightarrow> nat \<Rightarrow> bool" where
  "inverted layout levels i j \<longleftrightarrow> hl_temp (layout ! i) < hl_temp (layout ! j) \<and> levels ! i = 0 \<and> levels ! j = 1"

lemma heat_verdict_total: "strip_fields fs layout \<Longrightarrow> heatVerdict fs layout wb \<noteq> None"
  by (auto simp: heatVerdict_def strip_fields_def Let_def list_ex_iff)

lemma heat_verdict_decided:
  assumes "heatVerdict fs layout wb = Some r" "isDecided (hr_heat r)" "strip_fields fs layout"
  defines "d \<equiv> decisive_index layout"
  shows "wb" "heatFieldsConsistent fs layout" "hr_consistent r" "\<not> hr_glare r"
    "sure (fs ! d)" "\<not> fr_glare (fs ! d)" "fr_level (fs ! d) = hr_heat r" "hr_confidence r = fr_confidence (fs ! d)"
    "length (hr_heatLevels r) = length fs"
    "i < length fs \<Longrightarrow> field_level layout d (hr_heat r) (fs ! i) i = Some (hr_heatLevels r ! i)"
proof -
  define u where "u = (wb \<and> heatFieldsConsistent fs layout)"
  define m where "m = (if \<not> u \<or> fr_glare (fs ! d) \<or> \<not> sure (fs ! d) then UNREADABLE else fr_level (fs ! d))"
  define L where "L = map (\<lambda>i. field_level layout d m (fs ! i) i) [0..<length fs]"
  define g where "g = (u \<and> (fr_glare (fs ! d) \<or> (isDecided m \<and> None \<in> set L)))"
  have r: "r = \<lparr>hr_heat = (if g then UNREADABLE else m), hr_heatLevels = (if isDecided (if g then UNREADABLE else m) then map the L else [0, 0, 0, 0, 0, 0]),
     hr_confidence = (if u \<and> \<not> g then fr_confidence (fs ! d) else 0),
     hr_consistent = heatFieldsConsistent fs layout, hr_glare = g\<rparr>"
    using assms(1) unfolding heatVerdict_def Let_def d_def [symmetric] u_def [symmetric] m_def [symmetric] L_def [symmetric] g_def [symmetric]
    by (auto split: if_split_asm)
  have ng: "\<not> g" and m: "isDecided m" using assms(2) by (auto simp: r isDecided_def split: if_splits)
  then have u: "u" "sure (fs ! d)" "\<not> fr_glare (fs ! d)" "m = fr_level (fs ! d)"
    by (auto simp: m_def isDecided_def split: if_splits)
  show "wb" "heatFieldsConsistent fs layout" "hr_consistent r" "\<not> hr_glare r"
    "sure (fs ! d)" "\<not> fr_glare (fs ! d)" "fr_level (fs ! d) = hr_heat r" "hr_confidence r = fr_confidence (fs ! d)"
    "length (hr_heatLevels r) = length fs"
    using u ng m by (simp_all add: r L_def u_def)
  assume i: "i < length fs"
  have "None \<notin> set L" using ng u m by (simp add: g_def)
  with i have "L ! i \<noteq> None" by (metis (no_types, lifting) L_def length_map length_upt minus_nat.diff_0 nth_mem)
  with i m ng show "field_level layout d (hr_heat r) (fs ! i) i = Some (hr_heatLevels r ! i)"
    by (auto simp: r L_def)
qed

text \<open>C23: the heat verdict is safe. When it is decided, the white balance was usable, the fields consistent, the
  decisive field confident and free of glare; the levels are zeros and ones, the decisive one is the verdict, and
  where they show a triggered field above an intact one both were measured without glare by unsure fields: filling
  in a field hidden by glare never makes the strip impossible.
\<close>

theorem heat_verdict_safe:
  assumes "heatVerdict fs layout wb = Some r" "isDecided (hr_heat r)" "strip_fields fs layout"
  shows "wb \<and> heatFieldsConsistent fs layout \<and> sure (fs ! decisive_index layout) \<and>
    \<not> fr_glare (fs ! decisive_index layout) \<and> fr_level (fs ! decisive_index layout) = hr_heat r \<and>
    hr_confidence r = fr_confidence (fs ! decisive_index layout) \<and>
    hr_heatLevels r ! decisive_index layout = hr_heat r \<and> set (hr_heatLevels r) \<subseteq> {0, 1} \<and>
    (\<forall>i < length fs. \<forall>j < length fs. inverted layout (hr_heatLevels r) i j \<longrightarrow>
       \<not> fr_glare (fs ! i) \<and> \<not> fr_glare (fs ! j) \<and> \<not> sure (fs ! i) \<and> \<not> sure (fs ! j))"
proof -
  let ?d = "decisive_index layout"
  note f = heat_verdict_decided [OF assms]
  have len: "length fs = length layout" "?d < length fs"
    and lv: "\<And>i. i < length fs \<Longrightarrow> fr_level (fs ! i) = 0 \<or> fr_level (fs ! i) = 1"
    using assms(3) by (auto simp: strip_fields_def)
  have own: "hr_heatLevels r ! i = fr_level (fs ! i)" if "i < length fs" "\<not> fr_glare (fs ! i)" for i
    using f(10) [OF that(1)] that by (simp add: field_level_def)
  have filled: "(hl_temp (layout ! i) > hl_temp (layout ! ?d) \<and> hr_heat r = 0 \<and> hr_heatLevels r ! i = 0) \<or>
      (hl_temp (layout ! i) \<le> hl_temp (layout ! ?d) \<and> hr_heat r = 1 \<and> hr_heatLevels r ! i = 1)"
    if "i < length fs" "fr_glare (fs ! i)" for i
    using f(10) [OF that(1)] that by (auto simp: field_level_def Let_def split: if_splits)
  have "hr_heatLevels r ! i \<in> {0, 1}" if "i < length fs" for i
    using own [OF that] filled [OF that] lv [OF that] by (cases "fr_glare (fs ! i)") auto
  then have "set (hr_heatLevels r) \<subseteq> {0, 1}" using f(9) by (metis in_set_conv_nth subsetI)
  moreover have "hr_heatLevels r ! ?d = hr_heat r" using own [OF len(2)] f(6,7) by simp
  moreover have "\<not> fr_glare (fs ! i) \<and> \<not> fr_glare (fs ! j) \<and> \<not> sure (fs ! i) \<and> \<not> sure (fs ! j)"
    if ij: "i < length fs" "j < length fs" and inv: "inverted layout (hr_heatLevels r) i j" for i j
  proof -
    note pair = consistent_pair [OF f(2)]
    have no: "\<not> (hl_temp (layout ! a) < hl_temp (layout ! b) \<and> fr_level (fs ! a) = 0 \<and> fr_level (fs ! b) = 1)"
      if "a < length fs" "b < length fs" "\<not> fr_glare (fs ! a)" "\<not> fr_glare (fs ! b)" "a = ?d \<or> b = ?d" for a b
      using pair [of a b] that len(1) f(5) by auto
    have gi: "\<not> fr_glare (fs ! i)"
    proof
      assume g: "fr_glare (fs ! i)"
      with filled [OF ij(1) g] inv have c: "hl_temp (layout ! ?d) < hl_temp (layout ! i)" "hr_heat r = 0"
        by (auto simp: inverted_def)
      show False
      proof (cases "fr_glare (fs ! j)")
        case True
        with filled [OF ij(2) True] inv c show False by (auto simp: inverted_def)
      next
        case False
        with no [OF len(2) ij(2) f(6) False] own [OF ij(2) False] inv c f(7) show False by (auto simp: inverted_def)
      qed
    qed
    moreover have "\<not> fr_glare (fs ! j)"
    proof
      assume g: "fr_glare (fs ! j)"
      with filled [OF ij(2) g] inv have c: "hl_temp (layout ! j) \<le> hl_temp (layout ! ?d)" "hr_heat r = 1"
        by (auto simp: inverted_def)
      with no [OF ij(1) len(2) gi f(6)] own [OF ij(1) gi] inv f(7) show False by (auto simp: inverted_def)
    qed
    ultimately show ?thesis using pair [of i j] ij len(1) inv own by (auto simp: inverted_def)
  qed
  ultimately show ?thesis using f by auto
qed

text \<open>Without a usable balance, or with inconsistent fields, nothing is decided and no level is reported.\<close>

lemma heat_verdict_void:
  assumes "heatVerdict fs layout wb = Some r" "\<not> (wb \<and> heatFieldsConsistent fs layout)"
  shows "hr_heat r = UNREADABLE \<and> hr_heatLevels r = [0, 0, 0, 0, 0, 0] \<and> hr_confidence r = 0 \<and> \<not> hr_glare r"
  using assms by (auto simp: heatVerdict_def Let_def isDecided_def split: if_splits)

lemma heat_verdict_undecided:
  "heatVerdict fs layout wb = Some r \<Longrightarrow> \<not> isDecided (hr_heat r) \<Longrightarrow> hr_heatLevels r = [0, 0, 0, 0, 0, 0]"
  by (auto simp: heatVerdict_def Let_def split: if_splits)

lemma field_verdict_void: "\<not> wb \<Longrightarrow> fieldVerdict f wb = (UNREADABLE, 0)"
  by (simp add: fieldVerdict_def)

definition demo_field :: "int \<Rightarrow> bool \<Rightarrow> field_reading" where
  "demo_field level glare = \<lparr>fr_level = level, fr_confidence = (if glare then 0 else 0.95), fr_dIntact = 0, fr_dTriggered = 0,
     fr_rgb = (0, 0, 0), fr_clipped = None, fr_glare = glare\<rparr>"

definition demo_layout :: "heat_layout list" where
  "demo_layout = map (\<lambda>t. \<lparr>hl_temp = of_int t, hl_decisive = t = 40\<rparr>) HEAT_FIELDS_C"

text \<open>A highlight on the 33 degree field of a triggered strip.\<close>

definition demo_fields :: "field_reading list" where
  "demo_fields = [demo_field 1 False, demo_field 0 True, demo_field 1 False, demo_field 1 False, demo_field 1 False, demo_field 0 False]"

definition demo_verdict :: heat_result where
  "demo_verdict = \<lparr>hr_heat = 1, hr_heatLevels = [1, 1, 1, 1, 1, 0], hr_confidence = 0.95, hr_consistent = True, hr_glare = False\<rparr>"

lemma demo_heat: "heatVerdict demo_fields demo_layout True = Some demo_verdict" "strip_fields demo_fields demo_layout"
  "decisive_index demo_layout = 4"
proof -
  have i: "decisive_index demo_layout = 4"
    by (simp add: decisive_index_def demo_layout_def HEAT_FIELDS_C_def upt_rec)
  have c: "heatFieldsConsistent demo_fields demo_layout"
    by (simp add: heatFieldsConsistent_def known_fields_def demo_fields_def demo_layout_def HEAT_FIELDS_C_def demo_field_def)
  show "strip_fields demo_fields demo_layout"
    unfolding strip_fields_def i by (auto simp: demo_fields_def demo_field_def demo_layout_def HEAT_FIELDS_C_def)
  show "heatVerdict demo_fields demo_layout True = Some demo_verdict"
    by (simp only: heatVerdict_def i c Let_def) (simp add: demo_fields_def demo_layout_def demo_field_def HEAT_FIELDS_C_def field_level_def
        sure_def CONFIDENCE_THRESHOLD_def isDecided_def demo_verdict_def upt_rec)
  show "decisive_index demo_layout = 4" by (rule i)
qed

theorem heat_verdict_safe_witness:
  "hr_heatLevels demo_verdict ! 4 = 1 \<and> \<not> inverted demo_layout (hr_heatLevels demo_verdict) 1 5 \<and> sure (demo_fields ! 4)"
  using heat_verdict_safe [OF demo_heat(1) _ demo_heat(2)]
  by (simp add: demo_verdict_def isDecided_def demo_heat(3) inverted_def)

end
