(* ===== verification/Vision_Frame.thy ===== *)
theory Vision_Frame
  imports Vision_Verdict
begin

text \<open>
  \<open>packages/vision/src/frame.ts\<close>: the card window as a quadrilateral. What OpenCV answers about a
  contour (area, box, perimeter, polygon, points) is data of the model; the selection and the
  refinement of the corners are the code's.
\<close>

type_synonym pt = "real \<times> real"

definition dist_pt :: "pt \<Rightarrow> pt \<Rightarrow> real" where
  "dist_pt p q = sqrt ((fst q - fst p)\<^sup>2 + (snd q - snd p)\<^sup>2)"

definition atan2 :: "real \<Rightarrow> real \<Rightarrow> real" where
  "atan2 y x = Arg (Complex x y)"

text \<open>The first index with the least sum of coordinates.\<close>

definition first_least :: "pt list \<Rightarrow> nat" where
  "first_least ps = (case ps of [] \<Rightarrow> 0 | _ \<Rightarrow>
     foldl (\<lambda>b i. if fst (ps ! i) + snd (ps ! i) < fst (ps ! b) + snd (ps ! b) then i else b) 0 [1..<length ps])"

definition centre4 :: "pt list \<Rightarrow> pt" where
  "centre4 ps = (sum_list (map fst ps) / 4, sum_list (map snd ps) / 4)"

definition orderQuad :: "pt list \<Rightarrow> pt list" where
  "orderQuad ps =
    (let c = centre4 ps;
         byAngle = sort_key (\<lambda>p. atan2 (snd p - snd c) (fst p - fst c)) ps;
         start = first_least byAngle
     in map (\<lambda>i. byAngle ! ((start + i) mod 4)) [0..<4])"

text \<open>A line is a direction and a point.\<close>

type_synonym line = "real \<times> real \<times> real \<times> real"

definition lineIntersect :: "line \<Rightarrow> line \<Rightarrow> pt option" where
  "lineIntersect = (\<lambda>(a0, a1, a2, a3) (b0, b1, b2, b3).
    let d = a0 * b1 - a1 * b0 in
    if \<bar>d\<bar> < 1 / 10 ^ 9 then None
    else let t = ((b2 - a2) * b1 - (b3 - a3) * b0) / d in Some (a2 + a0 * t, a3 + a1 * t))"

definition cardOrientations :: "pt list \<Rightarrow> pt list list" where
  "cardOrientations quad = [quad, [quad ! 2, quad ! 3, quad ! 0, quad ! 1]]"

record contour =
  cn_area :: real
  cn_box :: "int \<times> int \<times> int \<times> int"
  cn_perimeter :: real
  cn_approx :: "real \<Rightarrow> pt list"
  cn_convex :: bool
  cn_points :: "pt list"
  cn_moments :: "real \<times> real \<times> real"
  cn_min_rect :: "(real \<times> real) \<times> (real \<times> real) \<times> real"

section \<open>Choosing the window\<close>

text \<open>The quadrilateral of a contour and its score, when the contour can be the card window.\<close>

definition quad_candidate :: "int \<Rightarrow> int \<Rightarrow> real \<Rightarrow> contour \<Rightarrow> (pt list \<times> real) option" where
  "quad_candidate rows cols aspect c =
    (let imgArea = of_int (rows * cols); area = cn_area c in
     if area < 0.02 * imgArea \<or> area > 0.7 * imgArea then None
     else case cn_box c of (bx, by', bw, bh) \<Rightarrow>
     if bx \<le> 1 \<or> by' \<le> 1 \<or> bx + bw \<ge> cols - 1 \<or> by' + bh \<ge> rows - 1 then None
     else let approx = cn_approx c (0.03 * cn_perimeter c) in
     if length approx \<noteq> 4 \<or> \<not> cn_convex c then None
     else let q = orderQuad approx;
              top = (dist_pt (q ! 0) (q ! 1) + dist_pt (q ! 3) (q ! 2)) / 2;
              side = (dist_pt (q ! 0) (q ! 3) + dist_pt (q ! 1) (q ! 2)) / 2;
              quad = (if side > top then [q ! 1, q ! 2, q ! 3, q ! 0] else q);
              w = max top side; h = min top side;
              ar = w / max 1 h;
              fill = area / max 1 (w * h);
              sc = \<bar>ar - aspect\<bar> / aspect + (1 - fill) * 2 - min 1 (area / imgArea)
          in if \<bar>ar - aspect\<bar> / aspect < 0.25 \<and> fill > 0.85 then Some (quad, sc) else None)"

text \<open>The loop keeps the first candidate with the least score.\<close>

fun best_quad :: "int \<Rightarrow> int \<Rightarrow> real \<Rightarrow> contour list \<Rightarrow> (pt list \<times> real \<times> contour) option \<Rightarrow> (pt list \<times> real \<times> contour) option" where
  "best_quad rows cols aspect [] best = best"
| "best_quad rows cols aspect (c # cs) best =
    (case quad_candidate rows cols aspect c of
       None \<Rightarrow> best_quad rows cols aspect cs best
     | Some (quad, sc) \<Rightarrow>
         best_quad rows cols aspect cs
           (if (case best of None \<Rightarrow> True | Some (_, s, _) \<Rightarrow> sc < s) then Some (quad, sc, c) else best))"

section \<open>Refining the corners\<close>

definition near_side :: "pt \<Rightarrow> pt \<Rightarrow> pt \<Rightarrow> bool" where
  "near_side p0 p1 p =
    (let len = dist_pt p0 p1;
         ux = (fst p1 - fst p0) / len; uy = (snd p1 - snd p0) / len;
         t = (fst p - fst p0) * ux + (snd p - snd p0) * uy;
         d = \<bar>(fst p - fst p0) * uy - (snd p - snd p0) * ux\<bar>
     in t > 0.12 * len \<and> t < 0.88 * len \<and> d < 0.02 * len + 2)"

definition side_line :: "(pt list \<Rightarrow> line) \<Rightarrow> pt list \<Rightarrow> pt list \<Rightarrow> nat \<Rightarrow> line option" where
  "side_line fitLine q pts s =
    (let sel = filter (near_side (q ! s) (q ! ((s + 1) mod 4))) pts in
     if 2 * length sel < 20 then None else Some (fitLine sel))"

definition refine_quad :: "(pt list \<Rightarrow> line) \<Rightarrow> pt list \<Rightarrow> pt list \<Rightarrow> pt list" where
  "refine_quad fitLine q pts =
    (let lines = map (side_line fitLine q pts) [0..<4] in
     if list_all (\<lambda>l. l \<noteq> None) lines
     then let corners = map (\<lambda>s. lineIntersect (the (lines ! ((s + 3) mod 4))) (the (lines ! s))) [0..<4]
          in if list_all (\<lambda>p. p \<noteq> None) corners then map the corners else q
     else q)"

definition detectCardQuad :: "(pt list \<Rightarrow> line) \<Rightarrow> int \<Rightarrow> int \<Rightarrow> contour list \<Rightarrow> real \<Rightarrow> pt list option" where
  "detectCardQuad fitLine rows cols contours aspect =
    map_option (\<lambda>(q, _, c). refine_quad fitLine q (cn_points c)) (best_quad rows cols aspect contours None)"

section \<open>Lemmas\<close>

lemma orderQuad_length: "length (orderQuad ps) = 4"
  by (simp add: orderQuad_def Let_def)

lemma quad_candidate_length: "quad_candidate rows cols aspect c = Some (q, s) \<Longrightarrow> length q = 4"
  by (auto simp: quad_candidate_def Let_def orderQuad_length split: prod.splits if_splits)

lemma best_quad_least:
  assumes "best_quad rows cols aspect cs best = Some (q, s, c)"
  shows "(best = Some (q, s, c) \<or> (c \<in> set cs \<and> quad_candidate rows cols aspect c = Some (q, s))) \<and>
    (case best of None \<Rightarrow> True | Some (_, s', _) \<Rightarrow> s \<le> s') \<and>
    (\<forall>c' \<in> set cs. case quad_candidate rows cols aspect c' of None \<Rightarrow> True | Some (_, s') \<Rightarrow> s \<le> s')"
  using assms
proof (induction cs arbitrary: best)
  case (Cons c' cs)
  show ?case
  proof (cases "quad_candidate rows cols aspect c'")
    case None
    with Cons.prems Cons.IH [of best] show ?thesis by auto
  next
    case (Some r)
    obtain q' s' where r: "r = (q', s')" by (cases r)
    define b where "b = (if (case best of None \<Rightarrow> True | Some (_, s, _) \<Rightarrow> s' < s) then Some (q', s', c') else best)"
    have "best_quad rows cols aspect cs b = Some (q, s, c)" using Cons.prems Some r by (simp add: b_def)
    note ih = Cons.IH [OF this]
    show ?thesis
    proof (cases "case best of None \<Rightarrow> True | Some (_, s, _) \<Rightarrow> s' < s")
      case True
      with ih Some r show ?thesis by (auto simp: b_def split: option.splits prod.splits)
    next
      case False
      then obtain q0 s0 c0 where "best = Some (q0, s0, c0)" "s0 \<le> s'" by (auto split: option.splits prod.splits)
      with ih False Some r show ?thesis by (auto simp: b_def)
    qed
  qed
qed simp

lemma refine_quad_length: "length q = 4 \<Longrightarrow> length (refine_quad f q pts) = 4"
  by (simp add: refine_quad_def Let_def)

text \<open>The window has four corners.\<close>

lemma detectCardQuad_length:
  assumes "detectCardQuad f rows cols cs aspect = Some q"
  shows "length q = 4"
proof -
  obtain q0 s c where b: "best_quad rows cols aspect cs None = Some (q0, s, c)" "q = refine_quad f q0 (cn_points c)"
    using assms by (auto simp: detectCardQuad_def)
  with best_quad_least [OF b(1)] show ?thesis
    using quad_candidate_length refine_quad_length by fastforce
qed

text \<open>A half turn of the corner order is its own inverse.\<close>

lemma cardOrientations_turn:
  "length q = 4 \<Longrightarrow> cardOrientations (cardOrientations q ! 1) ! 1 = q"
  by (cases q; cases "tl q"; cases "tl (tl q)"; cases "tl (tl (tl q))") (auto simp: cardOrientations_def)

end
