(* ===== verification/Vision_Combine.thy ===== *)
theory Vision_Combine
  imports Vision_Verdict
begin

text \<open>
  \<open>packages/vision/src/combine.ts\<close>: the readings of several frames of one card become the reading that
  is signed. An indicator needs a majority of all captured frames.
\<close>

definition frameCounts :: "'w card_reading \<Rightarrow> bool" where
  "frameCounts r \<longleftrightarrow> cr_found r \<and> (ql_mode (cr_quality r) \<noteq> Some ''frame'' \<or> ''heat-label'' \<in> set (ql_anchors (cr_quality r)))"

text \<open>The map of counts is walked in the order its keys were first seen, as the votes are here.\<close>

definition majority :: "int list \<Rightarrow> nat \<Rightarrow> int" where
  "majority votes quorum =
    (if votes \<noteq> [] \<and> list_all (\<lambda>v. v = MISSING) votes then MISSING
     else case List.find (\<lambda>v. count_list votes v \<ge> max 1 quorum) votes of
       Some v \<Rightarrow> v | None \<Rightarrow> UNREADABLE)"

definition mean :: "real list \<Rightarrow> real" where
  "mean xs = (if xs = [] then 0 else sum_list xs / of_nat (length xs))"

fun join_commas :: "string list \<Rightarrow> string" where
  "join_commas [] = []"
| "join_commas [s] = s"
| "join_commas (s # t # ss) = s @ '', '' @ join_commas (t # ss)"

definition joinList :: "string list \<Rightarrow> string" where
  "joinList xs = (if length xs < 2 then concat xs else join_commas (butlast xs) @ '' and '' @ last xs)"

text \<open>\<open>reduce\<close>: the first of the best, by agreement and then by confidence.\<close>

definition score :: "int \<Rightarrow> int \<Rightarrow> int \<Rightarrow> 'w card_reading \<Rightarrow> nat" where
  "score heat humidity uv r = (if cr_heat r = heat then 4 else 0) + (if cr_humidity r = humidity then 2 else 0) +
     (if cr_uv r = uv then 1 else 0)"

definition conf :: "'w card_reading \<Rightarrow> real" where
  "conf r = cr_conf_heat r + cr_conf_humidity r"

definition better :: "int \<Rightarrow> int \<Rightarrow> int \<Rightarrow> 'w card_reading \<Rightarrow> 'w card_reading \<Rightarrow> 'w card_reading" where
  "better heat humidity uv best r =
    (let s = score heat humidity uv in
     if s r > s best \<or> (s r = s best \<and> conf r > conf best) then r else best)"

definition representative :: "int \<Rightarrow> int \<Rightarrow> int \<Rightarrow> 'w card_reading list \<Rightarrow> 'w card_reading" where
  "representative heat humidity uv voters = foldl (better heat humidity uv) (hd voters) (tl voters)"

definition combined_levels :: "int \<Rightarrow> 'w card_reading list \<Rightarrow> int list" where
  "combined_levels heat agreeHeat =
    (if isDecided heat
     then (map (\<lambda>i. if length (filter (\<lambda>r. i < length (cr_heatLevels r) \<and> cr_heatLevels r ! i = 1) agreeHeat) * 2 > length agreeHeat
                 then 1 else 0) [0..<6])[HEAT_DECISIVE_INDEX := (if heat = TRIGGERED then 1 else 0)]
     else [0, 0, 0, 0, 0, 0])"

definition share :: "nat \<Rightarrow> real list \<Rightarrow> real" where
  "share frames confs = mean confs * (of_nat (length confs) / of_nat frames)"

definition undecided_names :: "'w card_reading list \<Rightarrow> nat \<Rightarrow> int \<Rightarrow> int \<Rightarrow> int \<Rightarrow> string list" where
  "undecided_names voters quorum heat humidity uv =
    (let undecided = (\<lambda>v pick. v = UNREADABLE \<and> length (filter (\<lambda>r. pick r = v) voters) < quorum \<and>
           list_ex (\<lambda>r. pick r \<noteq> UNREADABLE) voters)
     in (if undecided heat cr_heat then [''heat''] else []) @
        (if undecided humidity cr_humidity then [''humidity''] else []) @
        (if undecided uv cr_uv then [''UV''] else []))"

definition combineReadings :: "'w card_reading list \<Rightarrow> nat \<Rightarrow> 'w card_reading" where
  "combineReadings readings captured =
    (let ms = sum_list (map cr_ms readings);
         frames = max captured (length readings);
         voters = filter frameCounts readings;
         noVotes = \<lparr>vt_frames = frames, vt_found = 0, vt_heat = 0, vt_humidity = 0, vt_uv = 0\<rparr>
     in if readings = [] then (notFoundReading ''No frames to read'' 0)\<lparr>cr_votes := Some noVotes\<rparr>
        else if voters = [] then
          let seen = List.find cr_found readings;
              base = (case seen of Some r \<Rightarrow> r | None \<Rightarrow> hd readings)
          in base\<lparr>cr_found := False,
               cr_reason := (if seen \<noteq> None then Some ''The heat label was not recognized in any frame: hold the card flat and fully in view, avoid glare''
                             else case cr_reason base of Some t \<Rightarrow> Some t | None \<Rightarrow> Some ''Card not detected''),
               cr_heat := MISSING, cr_humidity := MISSING, cr_uv := MISSING, cr_heatLevels := [0, 0, 0, 0, 0, 0],
               cr_conf_heat := 0, cr_conf_humidity := 0, cr_ms := ms, cr_votes := Some noVotes\<rparr>
        else
          let quorum = frames div 2 + 1;
              heat = majority (map cr_heat voters) quorum;
              humidity = majority (map cr_humidity voters) quorum;
              uv = majority (map cr_uv voters) quorum;
              agreeHeat = filter (\<lambda>r. cr_heat r = heat) voters;
              agreeHum = filter (\<lambda>r. cr_humidity r = humidity) voters;
              agreeUv = filter (\<lambda>r. cr_uv r = uv) voters;
              rep = representative heat humidity uv voters;
              undecided = undecided_names voters quorum heat humidity uv
          in rep\<lparr>cr_reason := (if undecided = [] then cr_reason rep
                  else if length voters < quorum
                  then Some (''Only '' @ show_nat (length voters) @ '' of '' @ show_nat frames @
                    '' frames could be read: hold the card steady and fully in view, then retake the photos'')
                  else Some (''Frames disagree on '' @ joinList undecided @ '' ('' @ show_nat (length voters) @ '' of '' @
                    show_nat frames @ '' frames counted): retake the photos'')),
               cr_heat := heat, cr_humidity := humidity, cr_uv := uv, cr_heatLevels := combined_levels heat agreeHeat,
               cr_conf_heat := (if isDecided heat then share frames (map cr_conf_heat agreeHeat) else 0),
               cr_conf_humidity := (if isDecided humidity then share frames (map cr_conf_humidity agreeHum) else 0),
               cr_ms := ms,
               cr_votes := Some \<lparr>vt_frames = frames, vt_found = length voters, vt_heat = length agreeHeat,
                 vt_humidity = length agreeHum, vt_uv = length agreeUv\<rparr>\<rparr>)"

section \<open>What the vote promises\<close>

text \<open>The vote as the first value with enough votes.\<close>

definition winner :: "int list \<Rightarrow> nat \<Rightarrow> int option" where
  "winner votes quorum = List.find (\<lambda>v. count_list votes v \<ge> max 1 quorum) votes"

lemma majority_winner:
  "majority votes quorum = (if votes \<noteq> [] \<and> list_all (\<lambda>v. v = MISSING) votes then MISSING
     else case winner votes quorum of Some v \<Rightarrow> v | None \<Rightarrow> UNREADABLE)"
  by (simp only: majority_def winner_def)

lemma winner_count: "winner votes quorum = Some v \<Longrightarrow> v \<in> set votes \<and> max 1 quorum \<le> count_list votes v"
  unfolding winner_def by (drule find_Some_iff2)

lemma majority_decided:
  assumes "isDecided (majority votes quorum)"
  shows "max 1 quorum \<le> count_list votes (majority votes quorum)"
proof -
  have "winner votes quorum = Some (majority votes quorum)"
    using assms by (auto simp: majority_winner isDecided_def split: if_splits option.splits)
  from winner_count [OF this] show ?thesis by simp
qed

lemma count_filter: "count_list (map f xs) v = length (filter (\<lambda>x. f x = v) xs)"
  by (induction xs) auto

lemma majority_unique:
  assumes "length votes < 2 * quorum" "quorum \<le> count_list votes v" "v \<noteq> MISSING \<or> \<not> list_all (\<lambda>x. x = MISSING) votes"
  shows "majority votes quorum = v"
proof -
  have two: "w = v" if "quorum \<le> count_list votes w" for w
  proof (rule ccontr)
    assume "w \<noteq> v"
    then have "count_list votes w + count_list votes v \<le> length votes"
      by (induction votes) auto
    with that assms(1,2) show False by simp
  qed
  have pos: "0 < quorum" using assms(1) by simp
  then have v: "v \<in> set votes" using assms(2) count_notin [of v votes] by fastforce
  moreover have "max 1 quorum = quorum" using pos by simp
  ultimately have "winner votes quorum \<noteq> None"
    using assms(2) unfolding winner_def find_None_iff by metis
  then obtain w where w: "winner votes quorum = Some w" by blast
  moreover from winner_count [OF w] two have "w = v" by simp
  ultimately show ?thesis using assms(3) v by (auto simp: majority_winner list_all_iff)
qed

lemma combined_levels_decided:
  "isDecided heat \<Longrightarrow> length (combined_levels heat rs) = 6 \<and> combined_levels heat rs ! HEAT_DECISIVE_INDEX = heat \<and>
     set (combined_levels heat rs) \<subseteq> {0, 1}"
  by (auto simp: combined_levels_def isDecided_def HEAT_DECISIVE_INDEX_def upt_rec)

lemma combined_levels_undecided: "\<not> isDecided heat \<Longrightarrow> combined_levels heat rs = [0, 0, 0, 0, 0, 0]"
  by (simp add: combined_levels_def)

lemma combine_cases:
  obtains "filter frameCounts rs = []" "\<not> isDecided (cr_heat (combineReadings rs n))"
      "\<not> isDecided (cr_humidity (combineReadings rs n))" "\<not> isDecided (cr_uv (combineReadings rs n))"
      "cr_heatLevels (combineReadings rs n) = [0, 0, 0, 0, 0, 0]"
  | "filter frameCounts rs \<noteq> []"
      "cr_heat (combineReadings rs n) = majority (map cr_heat (filter frameCounts rs)) (max n (length rs) div 2 + 1)"
      "cr_humidity (combineReadings rs n) = majority (map cr_humidity (filter frameCounts rs)) (max n (length rs) div 2 + 1)"
      "cr_uv (combineReadings rs n) = majority (map cr_uv (filter frameCounts rs)) (max n (length rs) div 2 + 1)"
      "cr_heatLevels (combineReadings rs n) = combined_levels (cr_heat (combineReadings rs n))
         (filter (\<lambda>r. cr_heat r = cr_heat (combineReadings rs n)) (filter frameCounts rs))"
proof (cases "filter frameCounts rs = []")
  case True
  then show ?thesis
    by (intro that(1)) (simp_all add: combineReadings_def notFoundReading_def isDecided_def Let_def)
next
  case False
  then have "rs \<noteq> []" by auto
  with False show ?thesis
    by (intro that(2)) (simp_all add: combineReadings_def Let_def)
qed

text \<open>C22: a decided indicator of the combined reading was read so by more than half of all captured frames, each of
  them anchored; frames that found no card count against it. A decided heat verdict reports six levels of zero or
  one with the verdict at the decisive field; an undecided one reports none.
\<close>

theorem combined_needs_majority:
  "(isDecided (cr_heat (combineReadings rs captured)) \<longrightarrow>
      max captured (length rs) < 2 * length (filter (\<lambda>r. frameCounts r \<and> cr_heat r = cr_heat (combineReadings rs captured)) rs) \<and>
      cr_heatLevels (combineReadings rs captured) ! HEAT_DECISIVE_INDEX = cr_heat (combineReadings rs captured) \<and>
      length (cr_heatLevels (combineReadings rs captured)) = 6 \<and> set (cr_heatLevels (combineReadings rs captured)) \<subseteq> {0, 1}) \<and>
   (\<not> isDecided (cr_heat (combineReadings rs captured)) \<longrightarrow> cr_heatLevels (combineReadings rs captured) = [0, 0, 0, 0, 0, 0]) \<and>
   (isDecided (cr_humidity (combineReadings rs captured)) \<longrightarrow>
      max captured (length rs) < 2 * length (filter (\<lambda>r. frameCounts r \<and> cr_humidity r = cr_humidity (combineReadings rs captured)) rs)) \<and>
   (isDecided (cr_uv (combineReadings rs captured)) \<longrightarrow>
      max captured (length rs) < 2 * length (filter (\<lambda>r. frameCounts r \<and> cr_uv r = cr_uv (combineReadings rs captured)) rs))"
proof (cases rule: combine_cases [of rs captured])
  case 1
  then show ?thesis by simp
next
  case 2
  have quorum: "max captured (length rs) < 2 * length (filter (\<lambda>r. frameCounts r \<and> f r = v) rs)"
    if "isDecided v" "v = majority (map f (filter frameCounts rs)) (max captured (length rs) div 2 + 1)" for f and v
    using majority_decided [of "map f (filter frameCounts rs)" "max captured (length rs) div 2 + 1"] that
    by (simp add: count_filter) linarith
  show ?thesis
    using quorum [OF _ 2(2)] quorum [OF _ 2(3)] quorum [OF _ 2(4)]
    by (intro conjI impI) (simp_all add: 2(5) combined_levels_decided combined_levels_undecided)
qed

definition demo_frame :: "int \<Rightarrow> nat card_reading" where
  "demo_frame heat = (notFoundReading '''' 0)\<lparr>cr_found := True, cr_heat := heat, cr_heatLevels := [1, 1, 1, 1, 1, 0]\<rparr>"

definition demo_frames :: "nat card_reading list" where
  "demo_frames = [demo_frame 1, demo_frame 2, demo_frame 1, demo_frame 1, notFoundReading '''' 0]"

lemma demo_frames_len: "length demo_frames = 5"
  by (simp add: demo_frames_def)

lemma demo_combined: "cr_heat (combineReadings demo_frames 5) = 1"
  by (simp add: combineReadings_def demo_frames_def demo_frame_def notFoundReading_def frameCounts_def majority_def Let_def)

theorem combined_needs_majority_witness:
  "cr_heat (combineReadings demo_frames 5) = 1 \<and>
   5 < 2 * length (filter (\<lambda>r. frameCounts r \<and> cr_heat r = 1) demo_frames) \<and>
   cr_heatLevels (combineReadings demo_frames 5) ! 4 = 1"
  using combined_needs_majority [of demo_frames 5] demo_combined
  by (simp add: isDecided_def demo_frames_len HEAT_DECISIVE_INDEX_def)

end
