(* ===== verification/Vision_Card.thy ===== *)
theory Vision_Card
  imports Vision_Frame Vision_Combine FV_Json
begin

text \<open>
  \<open>packages/vision/src/pipeline.ts\<close>: reading a card from an image, with the marker (\<open>readCard\<close>) and in
  its holder (\<open>readCardFrame\<close>). The image is known through the answers of OpenCV, the fields of
  \<open>cv_view\<close>; 'm is the type of a warped card. An exception is an error text (\<open>Inl\<close>). Handles that
  are deleted, the debug log and the clock (one elapsed time) are left out.
\<close>

section \<open>Layout\<close>

record roi_mm =
  ro_x :: real
  ro_y :: real
  ro_w :: real
  ro_h :: real

record field_layout = heat_layout +
  fl_roi :: roi_mm

record frame_layout =
  fm_window :: roi_mm
  fm_strip :: roi_mm
  fm_reference_colors :: "string \<Rightarrow> string option"
  fm_white_ref :: roi_mm
  fm_black_ref :: "real \<times> real \<times> real \<times> real"
  fm_humidity :: "real \<times> real \<times> real"
  fm_uv :: roi_mm
  fm_fields :: "field_layout list"

record card_config =
  cc_px_per_mm :: real
  cc_reference_colors :: "string \<Rightarrow> string option"
  cc_humidity :: "real \<times> real \<times> real \<times> real"
  cc_aruco :: "real \<times> real \<times> real"
  cc_qr :: "real \<times> real \<times> real"
  cc_qr_symbol :: "(real \<times> real \<times> real) option"
  cc_patches :: "real \<times> real \<times> real"
  cc_group :: "string \<Rightarrow> real"
  cc_fields :: "field_layout list"
  cc_frame :: "frame_layout option"

definition CARD_W_MM :: real where "CARD_W_MM = 66"
definition CARD_H_MM :: real where "CARD_H_MM = 34"
definition ARUCO_ID :: int where "ARUCO_ID = 7"

text \<open>\<open>Math.round\<close>.\<close>

definition js_round :: "real \<Rightarrow> int" where
  "js_round x = \<lfloor>x + 1 / 2\<rfloor>"

definition square_corners :: "real \<times> real \<times> real \<Rightarrow> pt list" where
  "square_corners = (\<lambda>(x, y, sz). [(x, y), (x + sz, y), (x + sz, y + sz), (x, y + sz)])"

definition markerCornersMm :: "card_config \<Rightarrow> pt list" where
  "markerCornersMm cfg = square_corners (cc_aruco cfg)"

definition qrCornersMm :: "card_config \<Rightarrow> pt list" where
  "qrCornersMm cfg = square_corners (case cc_qr_symbol cfg of Some s \<Rightarrow> s
     | None \<Rightarrow> (case cc_qr cfg of (x, y, sz) \<Rightarrow> (x + (sz - 5.055) / 2, y + (sz - 5.055) / 2, 5.055)))"

definition patchRectsMm :: "card_config \<Rightarrow> string \<Rightarrow> roi_mm list" where
  "patchRectsMm cfg g = (case cc_patches cfg of (sz, gap, y) \<Rightarrow>
     let inset = sz * 0.2 in
     map (\<lambda>i. \<lparr>ro_x = cc_group cfg g + of_nat i * (sz + gap) + inset, ro_y = y + inset, ro_w = sz * 0.6, ro_h = sz * 0.6\<rparr>) [0..<4])"

record anchor_feature =
  af_name :: string
  af_mm :: pt
  af_areaMm2 :: real
  af_windowMm :: real

definition anchorFeaturesMm :: "card_config \<Rightarrow> nat \<Rightarrow> anchor_feature list" where
  "anchorFeaturesMm cfg stage = (case (cc_patches cfg, cc_humidity cfg) of ((sz, gap, y), (cx, cy, r, _)) \<Rightarrow>
     let c = (\<lambda>x0 i. (x0 + i * (sz + gap) + sz / 2, y + sz / 2));
         dot = \<lparr>af_name = ''hum-dot'', af_mm = (cx, cy), af_areaMm2 = pi * r * r, af_windowMm = r + 3.5\<rparr>;
         patch = (\<lambda>n g i. \<lparr>af_name = n, af_mm = c (cc_group cfg g) i, af_areaMm2 = sz * sz, af_windowMm = 2.5\<rparr>)
     in if stage = 0 then [dot]
        else [dot, patch ''heat-black'' ''heat'' 1, patch ''uv-blue'' ''uv'' 1, patch ''hum-blue'' ''hum'' 0, patch ''hum-pink'' ''hum'' 1])"

definition rectCornersMm :: "roi_mm \<Rightarrow> pt list" where
  "rectCornersMm r = [(ro_x r, ro_y r), (ro_x r + ro_w r, ro_y r), (ro_x r + ro_w r, ro_y r + ro_h r), (ro_x r, ro_y r + ro_h r)]"

section \<open>What OpenCV answers\<close>

record 'm cv_view =
  cv_markers :: "(int \<times> pt list) list"
  cv_homography :: "pt list \<Rightarrow> pt list \<Rightarrow> real list option"
  cv_invert :: "real list \<Rightarrow> real list"
  cv_qr :: "(bool \<times> pt list) option"
  cv_warp :: "real list \<Rightarrow> 'm"
  cv_size :: "'m \<Rightarrow> int \<times> int"
  cv_mean_rect :: "'m \<Rightarrow> int \<times> int \<times> int \<times> int \<Rightarrow> rgb"
  cv_mean_circle :: "'m \<Rightarrow> int \<times> int \<Rightarrow> int \<Rightarrow> rgb"
  cv_mean_ring :: "'m \<Rightarrow> int \<times> int \<Rightarrow> int \<Rightarrow> int \<Rightarrow> rgb"
  cv_dark :: "'m \<Rightarrow> 'm"
  cv_clip :: "'m \<Rightarrow> 'm"
  cv_blobs :: "'m \<Rightarrow> int \<times> int \<times> int \<times> int \<Rightarrow> real \<Rightarrow> contour list"
  cv_dots :: "'m \<Rightarrow> real \<Rightarrow> contour list"
  cv_strips :: "'m \<Rightarrow> contour list"
  cv_gray_size :: "int \<times> int"
  cv_gray_contours :: "contour list"
  cv_fitLine :: "pt list \<Rightarrow> line"
  cv_elapsed :: real

definition meanRect :: "'m cv_view \<Rightarrow> 'm \<Rightarrow> roi_mm \<Rightarrow> real \<Rightarrow> rgb" where
  "meanRect v m r s = cv_mean_rect v m (js_round (ro_x r * s), js_round (ro_y r * s),
     max 1 (js_round (ro_w r * s)), max 1 (js_round (ro_h r * s)))"

definition meanCircle :: "'m cv_view \<Rightarrow> 'm \<Rightarrow> real \<Rightarrow> real \<Rightarrow> real \<Rightarrow> rgb" where
  "meanCircle v m cx cy r = cv_mean_circle v m (js_round cx, js_round cy) (max 1 (js_round r))"

definition meanAnnulus :: "'m cv_view \<Rightarrow> 'm \<Rightarrow> real \<Rightarrow> real \<Rightarrow> real \<Rightarrow> real \<Rightarrow> rgb" where
  "meanAnnulus v m cx cy r0 r1 = cv_mean_ring v m (js_round cx, js_round cy) (max 1 (js_round r0)) (max 1 (js_round r1))"

definition applyH :: "real list \<Rightarrow> pt \<Rightarrow> pt" where
  "applyH h = (\<lambda>(x, y). let w = h ! 6 * x + h ! 7 * y + h ! 8 in
     ((h ! 0 * x + h ! 1 * y + h ! 2) / w, (h ! 3 * x + h ! 4 * y + h ! 5) / w))"

definition homography :: "'m cv_view \<Rightarrow> pt list \<Rightarrow> pt list \<Rightarrow> string + real list" where
  "homography v src dst = (case cv_homography v src dst of
     None \<Rightarrow> Inl ''Homography could not be estimated (degenerate points)'' | Some h \<Rightarrow> Inr h)"

text \<open>The first contour with the least score among those that have one.\<close>

fun best_of :: "(contour \<Rightarrow> ('a \<times> real) option) \<Rightarrow> contour list \<Rightarrow> ('a \<times> real) option \<Rightarrow> ('a \<times> real) option" where
  "best_of f [] best = best"
| "best_of f (c # cs) best =
     best_of f cs (case f c of None \<Rightarrow> best
       | Some (x, s) \<Rightarrow> if (case best of None \<Rightarrow> True | Some (_, s0) \<Rightarrow> s < s0) then Some (x, s) else best)"

definition locateBlob :: "'m cv_view \<Rightarrow> 'm \<Rightarrow> real \<Rightarrow> real \<Rightarrow> real \<Rightarrow> real \<Rightarrow> real \<Rightarrow> pt option" where
  "locateBlob v dark cxPx cyPx winPx areaPx thresh =
    (case cv_size v dark of (cols, rows) \<Rightarrow>
     let x0 = max 0 (js_round (cxPx - winPx)); y0 = max 0 (js_round (cyPx - winPx));
         x1 = min cols (js_round (cxPx + winPx)); y1 = min rows (js_round (cyPx + winPx))
     in if x1 - x0 < 4 \<or> y1 - y0 < 4 then None
        else map_option fst (best_of (\<lambda>c. case cn_box c of (bx, by', bw, bh) \<Rightarrow>
           let touches = bx \<le> 0 \<or> by' \<le> 0 \<or> bx + bw \<ge> x1 - x0 \<or> by' + bh \<ge> y1 - y0 in
           if \<not> touches \<and> cn_area c > 0.35 * areaPx \<and> cn_area c < 1.7 * areaPx
           then (case cn_moments c of (m00, m10, m01) \<Rightarrow>
             let p = (of_int x0 + m10 / m00, of_int y0 + m01 / m00) in
             Some (p, \<bar>cn_area c - areaPx\<bar> / areaPx + dist_pt (cxPx, cyPx) p / winPx))
           else None) (cv_blobs v dark (x0, y0, x1 - x0, y1 - y0) thresh) None))"

definition locateDot :: "'m cv_view \<Rightarrow> 'm \<Rightarrow> real \<Rightarrow> real \<Rightarrow> real \<Rightarrow> real \<Rightarrow> pt option" where
  "locateDot v dark cxPx cyPx areaPx thresh =
    map_option fst (best_of (\<lambda>c.
      if cn_area c > 0.55 * areaPx \<and> cn_area c < 1.6 * areaPx
      then let circ = (if cn_perimeter c > 0 then 4 * pi * cn_area c / (cn_perimeter c * cn_perimeter c) else 0) in
        if circ > 0.8 then (case cn_moments c of (m00, m10, m01) \<Rightarrow>
          let p = (m10 / m00, m01 / m00) in Some (p, dist_pt (cxPx, cyPx) p / sqrt areaPx + (1 - circ) * 5))
        else None
      else None) (cv_dots v dark thresh) None)"

text \<open>The four corners of a turned rectangle, ordered TL, TR, BR, BL, if there is one in each quadrant.\<close>

definition strip_corners :: "(real \<times> real) \<times> (real \<times> real) \<times> real \<Rightarrow> pt list option" where
  "strip_corners = (\<lambda>((x0, y0), (width, height), angle).
    let ang = angle * pi / 180; cs = cos ang; sn = sin ang; hw = width / 2; hh = height / 2;
        pts = map (\<lambda>(x, y). (x0 + x * cs - y * sn, y0 + x * sn + y * cs)) [(- hw, - hh), (hw, - hh), (hw, hh), (- hw, hh)];
        (cx, cy) = centre4 pts;
        pick = (\<lambda>left up. List.find (\<lambda>p. (fst p < cx) = left \<and> (snd p < cy) = up) pts)
    in case (pick True True, pick False True, pick False False, pick True False) of
         (Some p1, Some p2, Some p3, Some p4) \<Rightarrow> Some [p1, p2, p3, p4]
       | _ \<Rightarrow> None)"

definition locateStripQuad :: "'m cv_view \<Rightarrow> 'm \<Rightarrow> roi_mm \<Rightarrow> real \<Rightarrow> pt list option" where
  "locateStripQuad v warped expect S =
    (let expArea = ro_w expect * ro_h expect * S * S;
         ecx = (ro_x expect + ro_w expect / 2) * S; ecy = (ro_y expect + ro_h expect / 2) * S
     in map_option fst (best_of (\<lambda>c.
       if cn_area c > 0.45 * expArea \<and> cn_area c < 1.6 * expArea
       then (case cn_min_rect c of (centre, (width, height), angle) \<Rightarrow>
         let w = max width height; h = min width height;
             ar = w / max 1 h; expAr = max (ro_w expect) (ro_h expect) / min (ro_w expect) (ro_h expect);
             d = dist_pt (ecx, ecy) centre / S;
             sc = \<bar>ar - expAr\<bar> / expAr + d / 10 + \<bar>cn_area c - expArea\<bar> / expArea
         in if \<bar>ar - expAr\<bar> / expAr < 0.2 \<and> d < 6
            then map_option (\<lambda>ps. (ps, sc)) (strip_corners (centre, (width, height), angle)) else None)
       else None) (cv_strips v warped) None))"

section \<open>Fields\<close>

definition read_field :: "rgb \<Rightarrow> classified \<Rightarrow> real option \<Rightarrow> bool \<Rightarrow> field_reading" where
  "read_field rgb c clipped glare =
    \<lparr>fr_level = cl_level c, fr_confidence = (if glare then 0 else cl_confidence c), fr_dIntact = cl_dIntact c,
     fr_dTriggered = cl_dTriggered c, fr_rgb = rgb, fr_clipped = clipped, fr_glare = glare\<rparr>"

definition lightness :: "rgb \<Rightarrow> real" where
  "lightness c = fst (rgbToLab c)"

text \<open>Reading a property of a missing field or entry throws a \<open>TypeError\<close>.\<close>

definition verdict_or_throw :: "field_reading list \<Rightarrow> field_layout list \<Rightarrow> bool \<Rightarrow> string + heat_result" where
  "verdict_or_throw fs layout wbOk =
    (case heatVerdict fs (map heat_layout.truncate layout) wbOk of None \<Rightarrow> Inl ''TypeError'' | Some r \<Rightarrow> Inr r)"

section \<open>The card in its holder\<close>

record frame_balance =
  fb_apply :: "rgb \<Rightarrow> rgb"
  fb_ok :: bool
  fb_ringDark :: bool

definition frameWhiteBalance :: "rgb \<Rightarrow> rgb \<Rightarrow> frame_balance" where
  "frameWhiteBalance black white =
    (case (black, white) of ((b0, b1, b2), (w0, w1, w2)) \<Rightarrow>
     let ringDark = b0 \<le> RING_MAX_RATIO * w0 \<and> b1 \<le> RING_MAX_RATIO * w1 \<and> b2 \<le> RING_MAX_RATIO * w2;
         wb = makeWhiteBalance black white (17, 255)
     in \<lparr>fb_apply = wb_apply wb, fb_ok = wb_ok wb \<and> ringDark, fb_ringDark = ringDark\<rparr>)"

definition to_px :: "real \<Rightarrow> pt \<Rightarrow> pt" where
  "to_px S p = (fst p * S, snd p * S)"

text \<open>The rounds still to do; the homography, refined on the label while it is found.\<close>

fun label_rounds :: "'m cv_view \<Rightarrow> frame_layout \<Rightarrow> real \<Rightarrow> nat \<Rightarrow> bool \<Rightarrow> real list \<Rightarrow> string + bool \<times> real list" where
  "label_rounds v fm S 0 onLabel h = Inr (onLabel, h)"
| "label_rounds v fm S (Suc n) onLabel h =
    (case locateStripQuad v (cv_warp v h) (fm_strip fm) S of
       None \<Rightarrow> Inr (onLabel, h)
     | Some label \<Rightarrow>
         bindE (homography v (map (applyH (cv_invert v h)) label) (map (to_px S) (rectCornersMm (fm_strip fm))))
           (label_rounds v fm S n True))"

text \<open>Both corner orders in turn: the coarse homography of the first, and the one the label anchored.\<close>

fun try_orientations ::
  "'m cv_view \<Rightarrow> frame_layout \<Rightarrow> real \<Rightarrow> pt list list \<Rightarrow> real list option \<Rightarrow> string + real list option \<times> real list option" where
  "try_orientations v fm S [] coarse = Inr (coarse, None)"
| "try_orientations v fm S (q # qs) coarse =
    bindE (homography v q (map (to_px S) (rectCornersMm (fm_window fm)))) (\<lambda>h.
    let coarse = (case coarse of None \<Rightarrow> Some h | Some c \<Rightarrow> Some c) in
    bindE (label_rounds v fm S 2 False h) (\<lambda>(onLabel, h').
    if onLabel then Inr (coarse, Some h') else try_orientations v fm S qs coarse))"

definition reference_colour :: "card_config \<Rightarrow> frame_layout \<Rightarrow> string \<Rightarrow> string + rgb" where
  "reference_colour cfg fm k =
    (case (case fm_reference_colors fm k of Some c \<Rightarrow> Some c | None \<Rightarrow> cc_reference_colors cfg k) of
       None \<Rightarrow> Inl ''TypeError'' | Some c \<Rightarrow> Inr (hexToRgb c))"

definition sample_field ::
  "card_config \<Rightarrow> frame_layout \<Rightarrow> frame_balance \<Rightarrow> string \<Rightarrow> string \<Rightarrow> rgb \<Rightarrow> real \<Rightarrow> string + field_reading" where
  "sample_field cfg fm wb intact triggered rgb clipped =
    bindE (reference_colour cfg fm intact) (\<lambda>ci. bindE (reference_colour cfg fm triggered) (\<lambda>ct.
    Inr (read_field rgb (classify (fb_apply wb rgb) ci ct) (Some clipped) (clipped > GLARE_MAX_FRACTION))))"

fun traverse :: "('a \<Rightarrow> 'e + 'b) \<Rightarrow> 'a list \<Rightarrow> 'e + 'b list" where
  "traverse f [] = Inr []"
| "traverse f (x # xs) = bindE (f x) (\<lambda>y. bindE (traverse f xs) (\<lambda>ys. Inr (y # ys)))"

definition frame_reading ::
  "'m cv_view \<Rightarrow> bool \<Rightarrow> real list \<Rightarrow> real \<Rightarrow> string list \<Rightarrow> group_quality \<Rightarrow> string option \<Rightarrow> heat_result \<Rightarrow> field_reading list \<Rightarrow>
    int \<times> real \<Rightarrow> field_reading option \<Rightarrow> int \<Rightarrow> field_reading option \<Rightarrow> 'm card_reading" where
  "frame_reading v preview H winPx anchors g reason hv fs hum humField uv uvField =
    \<lparr>cr_found = True, cr_reason = reason, cr_heatLevels = hr_heatLevels hv, cr_heatFields = fs, cr_heat = hr_heat hv,
     cr_humidity = fst hum, cr_humidityField = humField, cr_uv = uv, cr_uvField = uvField,
     cr_conf_heat = hr_confidence hv, cr_conf_humidity = snd hum,
     cr_quality = \<lparr>ql_markerPx = winPx, ql_qrUsed = False, ql_anchors = anchors, ql_heat = g, ql_hum = g, ql_mode = Some ''frame''\<rparr>,
     cr_homography = Some H, cr_warped = (if preview then Some (cv_warp v H) else None), cr_ms = cv_elapsed v, cr_votes = None\<rparr>"

definition void_heat :: heat_result where
  "void_heat = \<lparr>hr_heat = UNREADABLE, hr_heatLevels = [0, 0, 0, 0, 0, 0], hr_confidence = 0, hr_consistent = True, hr_glare = False\<rparr>"

text \<open>The white balance of an anchored card: card white against ring black.\<close>

definition white_ref :: "'m cv_view \<Rightarrow> frame_layout \<Rightarrow> real \<Rightarrow> 'm \<Rightarrow> rgb" where
  "white_ref v fm S warped = meanRect v warped (fm_white_ref fm) S"

definition black_ref :: "'m cv_view \<Rightarrow> frame_layout \<Rightarrow> real \<Rightarrow> 'm \<Rightarrow> rgb" where
  "black_ref v fm S warped = (case fm_black_ref fm of (cx, cy, r0, r1) \<Rightarrow> meanAnnulus v warped (cx * S) (cy * S) (r0 * S) (r1 * S))"

definition heat_fields ::
  "'m cv_view \<Rightarrow> card_config \<Rightarrow> frame_layout \<Rightarrow> frame_balance \<Rightarrow> 'm \<Rightarrow> string + field_reading list" where
  "heat_fields v cfg fm wb warped = (let S = cc_px_per_mm cfg in
    traverse (\<lambda>f. sample_field cfg fm wb ''heat_intact'' ''heat_triggered''
      (meanRect v warped (fl_roi f) S) (fst (meanRect v (cv_clip v warped) (fl_roi f) S) / 255)) (fm_fields fm))"

definition humidity_field ::
  "'m cv_view \<Rightarrow> card_config \<Rightarrow> frame_layout \<Rightarrow> frame_balance \<Rightarrow> 'm \<Rightarrow> string + field_reading" where
  "humidity_field v cfg fm wb warped = (let S = cc_px_per_mm cfg; (hx, hy, hr) = fm_humidity fm in
    sample_field cfg fm wb ''humidity_intact'' ''humidity_triggered'' (meanCircle v warped (hx * S) (hy * S) (hr * S))
      (fst (meanCircle v (cv_clip v warped) (hx * S) (hy * S) (hr * S)) / 255))"

definition uv_field ::
  "'m cv_view \<Rightarrow> card_config \<Rightarrow> frame_layout \<Rightarrow> frame_balance \<Rightarrow> 'm \<Rightarrow> string + field_reading" where
  "uv_field v cfg fm wb warped = (let S = cc_px_per_mm cfg in
    sample_field cfg fm wb ''uv_intact'' ''uv_triggered'' (meanRect v warped (fm_uv fm) S)
      (fst (meanRect v (cv_clip v warped) (fm_uv fm) S) / 255))"

definition glare_on :: "heat_result \<Rightarrow> int \<Rightarrow> field_reading \<Rightarrow> int \<Rightarrow> field_reading \<Rightarrow> string list" where
  "glare_on hv hum humidityField uv uvField =
    (if hr_glare hv then [''the heat strip''] else []) @
    (if hum = UNREADABLE \<and> fr_glare humidityField then [''the humidity dot''] else []) @
    (if uv = UNREADABLE \<and> fr_glare uvField then [''the UV window''] else [])"

definition frame_report ::
  "'m cv_view \<Rightarrow> bool \<Rightarrow> real list \<Rightarrow> real \<Rightarrow> rgb \<Rightarrow> rgb \<Rightarrow> frame_balance \<Rightarrow> field_reading list \<Rightarrow> heat_result \<Rightarrow>
    field_reading \<Rightarrow> field_reading \<Rightarrow> 'm card_reading" where
  "frame_report v preview H winPx black white wb heatFields hv humidityField uvField =
    (let usable = fb_ok wb \<and> hr_consistent hv;
         hum = fieldVerdict humidityField usable;
         uv = fieldVerdict uvField usable;
         glareOn = glare_on hv (fst hum) humidityField (fst uv) uvField;
         reason = (if \<not> fb_ok wb then Some ''White balance failed (glare or exposure): card white and ring black are too close''
           else if \<not> hr_consistent hv then Some ''Heat fields are inconsistent (a hotter field is black while a cooler one is white), so the card may be misregistered: retake the photo''
           else if glareOn \<noteq> [] then Some (''Glare on '' @ joinList glareOn @ '': tilt the card away from the light and retake the photo'')
           else None)
     in frame_reading v preview H winPx [''heat-label'']
          \<lparr>gq_greyL = lightness black, gq_whiteL = lightness white, gq_ok = fb_ok wb\<rparr>
          reason hv heatFields hum (Some humidityField) (fst uv) (Some uvField))"

definition readAnchored ::
  "'m cv_view \<Rightarrow> card_config \<Rightarrow> frame_layout \<Rightarrow> bool \<Rightarrow> real \<Rightarrow> real list \<Rightarrow> string + 'm card_reading" where
  "readAnchored v cfg fm preview winPx H =
    (let S = cc_px_per_mm cfg; warped = cv_warp v H;
         white = white_ref v fm S warped; black = black_ref v fm S warped;
         wb = frameWhiteBalance black white
     in bindE (heat_fields v cfg fm wb warped) (\<lambda>heatFields.
        bindE (verdict_or_throw heatFields (fm_fields fm) (fb_ok wb)) (\<lambda>hv.
        bindE (humidity_field v cfg fm wb warped) (\<lambda>humidityField.
        bindE (uv_field v cfg fm wb warped) (\<lambda>uvField.
        Inr (frame_report v preview H winPx black white wb heatFields hv humidityField uvField))))))"

definition readCardFrame :: "'m cv_view \<Rightarrow> card_config \<Rightarrow> frame_layout \<Rightarrow> bool \<Rightarrow> string + 'm card_reading" where
  "readCardFrame v cfg fm preview =
    (case detectCardQuad (cv_fitLine v) (fst (cv_gray_size v)) (snd (cv_gray_size v)) (cv_gray_contours v)
         (ro_w (fm_window fm) / ro_h (fm_window fm)) of
       None \<Rightarrow> Inr (notFoundReading ''Card not detected (no card window in frame)'' (cv_elapsed v))
     | Some quad \<Rightarrow>
       let winPx = (dist_pt (quad ! 0) (quad ! 1) + dist_pt (quad ! 3) (quad ! 2)) / 2 in
       bindE (try_orientations v fm (cc_px_per_mm cfg) (cardOrientations quad) None) (\<lambda>(coarse, anchored).
       case anchored of
         None \<Rightarrow> Inr (frame_reading v preview (the coarse) winPx [] no_quality
           (Some ''Heat label not found: hold the card flat and fully in view, avoid glare'')
           void_heat [] (UNREADABLE, 0) None UNREADABLE None)
       | Some H \<Rightarrow> readAnchored v cfg fm preview winPx H))"

section \<open>The card with its marker\<close>

definition side_mean :: "pt list \<Rightarrow> real" where
  "side_mean q = sum_list (map (\<lambda>i. dist_pt (q ! i) (q ! ((i + 1) mod 4))) [0..<4]) / 4"

definition qr_plausible :: "card_config \<Rightarrow> pt list \<Rightarrow> pt list \<Rightarrow> bool" where
  "qr_plausible cfg marker qr =
    (let markerPx = side_mean marker; asz = snd (snd (cc_aruco cfg));
         qrMm = qrCornersMm cfg; mkMm = markerCornersMm cfg;
         cm = centre4 marker; cq = centre4 qr;
         expRatio = (fst (qrMm ! 1) - fst (qrMm ! 0)) / asz;
         xAxis = ((fst (marker ! 1) - fst (marker ! 0)) / markerPx, (snd (marker ! 1) - snd (marker ! 0)) / markerPx);
         yAxis = ((fst (marker ! 3) - fst (marker ! 0)) / markerPx, (snd (marker ! 3) - snd (marker ! 0)) / markerPx);
         dx = ((fst cq - fst cm) * fst xAxis + (snd cq - snd cm) * snd xAxis) / markerPx;
         dy = ((fst cq - fst cm) * fst yAxis + (snd cq - snd cm) * snd yAxis) / markerPx;
         expDx = (fst (centre4 qrMm) - fst (centre4 mkMm)) / asz;
         expDy = (snd (centre4 qrMm) - snd (centre4 mkMm)) / asz
     in \<bar>side_mean qr / markerPx - expRatio\<bar> < 0.12 \<and> dist_pt (expDx, expDy) (dx, dy) < 0.2)"

text \<open>
  Points of the homography, whether the QR symbol is among them, and the homography. When the second
  estimate throws, its points and the flag stay.
\<close>

definition with_qr :: "'m cv_view \<Rightarrow> card_config \<Rightarrow> pt list \<Rightarrow> real list \<Rightarrow> pt list \<times> pt list \<times> bool \<times> real list" where
  "with_qr v cfg marker H =
    (let S = cc_px_per_mm cfg; dst = map (to_px S) (markerCornersMm cfg) in
     case cv_qr v of
       None \<Rightarrow> (marker, dst, False, H)
     | Some (ok, qr) \<Rightarrow>
         if ok \<and> length qr = 4 \<and> qr_plausible cfg marker qr
         then let src2 = marker @ qr; dst2 = dst @ map (to_px S) (qrCornersMm cfg) in
              (src2, dst2, True, case homography v src2 dst2 of Inl _ \<Rightarrow> H | Inr H2 \<Rightarrow> H2)
         else (marker, dst, False, H))"

definition locate_anchor :: "'m cv_view \<Rightarrow> 'm \<Rightarrow> real \<Rightarrow> nat \<Rightarrow> real \<Rightarrow> anchor_feature \<Rightarrow> pt option" where
  "locate_anchor v dark S rd thresh f =
    (let (ex, ey) = to_px S (af_mm f) in
     if af_name f = ''hum-dot'' \<and> rd = 0 then locateDot v dark ex ey (af_areaMm2 f * S * S) thresh
     else locateBlob v dark ex ey (af_windowMm f * S) (af_areaMm2 f * S * S) thresh)"

text \<open>The anchors found in the card warped by \<open>H\<close>: in the image, on the card, and their names.\<close>

definition anchor_hits :: "'m cv_view \<Rightarrow> card_config \<Rightarrow> nat \<Rightarrow> real list \<Rightarrow> (pt \<times> pt \<times> string) list" where
  "anchor_hits v cfg rd H =
    (let S = cc_px_per_mm cfg; warped = cv_warp v H; dark = cv_dark v warped;
         (w0, w1, w2) = meanRect v warped (patchRectsMm cfg ''heat'' ! 3) S;
         thresh = min 200 (255 - min w0 (min w1 w2) + 45);
         hi = cv_invert v H
     in concat (map (\<lambda>f. case locate_anchor v dark S rd thresh f of
             None \<Rightarrow> [] | Some p \<Rightarrow> [(applyH hi p, to_px S (af_mm f), af_name f)])
          (anchorFeaturesMm cfg (if rd = 0 then 0 else 1))))"

text \<open>The rounds still to do; the last homography and the anchors it rests on.\<close>

fun anchor_rounds ::
  "'m cv_view \<Rightarrow> card_config \<Rightarrow> pt list \<Rightarrow> pt list \<Rightarrow> nat list \<Rightarrow> real list \<times> string list \<Rightarrow> string + real list \<times> string list" where
  "anchor_rounds v cfg src dst [] st = Inr st"
| "anchor_rounds v cfg src dst (rd # rds) st =
    (let hits = anchor_hits v cfg rd (fst st) in
     if hits = [] then Inr st
     else bindE (homography v (src @ map fst hits) (dst @ map (fst \<circ> snd) hits)) (\<lambda>H2.
       anchor_rounds v cfg src dst rds (H2, map (snd \<circ> snd) hits)))"

record patch_set =
  ps_intact :: rgb
  ps_triggered :: rgb
  ps_grey :: rgb
  ps_white :: rgb

definition patches :: "'m cv_view \<Rightarrow> card_config \<Rightarrow> 'm \<Rightarrow> string \<Rightarrow> patch_set" where
  "patches v cfg warped g =
    (let m = map (\<lambda>r. meanRect v warped r (cc_px_per_mm cfg)) (patchRectsMm cfg g) in
     \<lparr>ps_intact = m ! 0, ps_triggered = m ! 1, ps_grey = m ! 2, ps_white = m ! 3\<rparr>)"

definition marker_field :: "white_balance \<Rightarrow> patch_set \<Rightarrow> rgb \<Rightarrow> field_reading" where
  "marker_field wb ps rgb =
     read_field rgb (classify (wb_apply wb rgb) (wb_apply wb (ps_intact ps)) (wb_apply wb (ps_triggered ps))) None False"

definition patch_quality :: "white_balance \<Rightarrow> patch_set \<Rightarrow> group_quality" where
  "patch_quality wb ps = \<lparr>gq_greyL = lightness (ps_grey ps), gq_whiteL = lightness (ps_white ps), gq_ok = wb_ok wb\<rparr>"

text \<open>Steps 2 to 6 of \<open>readCard\<close>, for the corners of the marker.\<close>

definition readCardMarker :: "'m cv_view \<Rightarrow> card_config \<Rightarrow> pt list \<Rightarrow> bool \<Rightarrow> string + 'm card_reading" where
  "readCardMarker v cfg marker preview =
    (let S = cc_px_per_mm cfg in
     bindE (homography v marker (map (to_px S) (markerCornersMm cfg))) (\<lambda>H0.
     let (src, dst, qrUsed, H1) = with_qr v cfg marker H0 in
     bindE (anchor_rounds v cfg src dst [0, 1, 2] (H1, [])) (\<lambda>(H, anchors).
     let warped = cv_warp v H;
         heatP = patches v cfg warped ''heat''; humP = patches v cfg warped ''hum'';
         wbHeat = makeWhiteBalance (ps_grey heatP) (ps_white heatP) DEFAULT_TARGET;
         wbHum = makeWhiteBalance (ps_grey humP) (ps_white humP) DEFAULT_TARGET;
         heatFields = map (\<lambda>f. marker_field wbHeat heatP (meanRect v warped (fl_roi f) S)) (cc_fields cfg)
     in bindE (verdict_or_throw heatFields (cc_fields cfg) (wb_ok wbHeat)) (\<lambda>hv.
        let (hx, hy, _, hr) = cc_humidity cfg;
            humidityField = marker_field wbHum humP (meanCircle v warped (hx * S) (hy * S) (hr * S));
            hum = fieldVerdict humidityField (wb_ok wbHum)
        in Inr \<lparr>cr_found = True,
             cr_reason = (if \<not> wb_ok wbHeat \<or> \<not> wb_ok wbHum then Some ''White balance failed (glare or exposure on the reference patches)''
               else if \<not> hr_consistent hv then Some ''Heat fields are inconsistent (a hotter field is black while a cooler one is white): retake the photo''
               else None),
             cr_heatLevels = hr_heatLevels hv, cr_heatFields = heatFields, cr_heat = hr_heat hv,
             cr_humidity = fst hum, cr_humidityField = Some humidityField, cr_uv = MISSING, cr_uvField = None,
             cr_conf_heat = hr_confidence hv, cr_conf_humidity = snd hum,
             cr_quality = \<lparr>ql_markerPx = side_mean marker, ql_qrUsed = qrUsed, ql_anchors = anchors,
               ql_heat = patch_quality wbHeat heatP, ql_hum = patch_quality wbHum humP, ql_mode = Some ''marker''\<rparr>,
             cr_homography = Some H, cr_warped = (if preview then Some warped else None), cr_ms = cv_elapsed v, cr_votes = None\<rparr>))))"

text \<open>The first marker with the id, else the frame mode when the layout has one.\<close>

definition join_ids :: "int list \<Rightarrow> string" where
  "join_ids ids = comma_sep (map show_int ids)"

definition readCard :: "'m cv_view \<Rightarrow> card_config \<Rightarrow> bool \<Rightarrow> string + 'm card_reading" where
  "readCard v cfg preview =
    (case map_of (cv_markers v) ARUCO_ID of
       Some marker \<Rightarrow> readCardMarker v cfg marker preview
     | None \<Rightarrow> (case cc_frame cfg of
         Some fm \<Rightarrow> readCardFrame v cfg fm preview
       | None \<Rightarrow> Inr (notFoundReading (if cv_markers v \<noteq> []
           then ''Marker '' @ join_ids (map fst (cv_markers v)) @ '' found, but not ID '' @ show_int ARUCO_ID
           else ''Card not detected'') (cv_elapsed v))))"

section \<open>Fail closed\<close>

lemma traverse_Inr: "traverse f xs = Inr ys \<Longrightarrow> length ys = length xs \<and> (\<forall>y \<in> set ys. \<exists>x \<in> set xs. f x = Inr y)"
  by (induction xs arbitrary: ys) (auto simp: bindE_eq_Inr, blast)

lemma sample_field_level: "sample_field cfg fm wb i t rgb c = Inr f \<Longrightarrow> fr_level f = 0 \<or> fr_level f = 1"
  by (auto simp: sample_field_def bindE_eq_Inr read_field_def) (metis classify_level insertE singletonD)

lemma sample_field_glare: "sample_field cfg fm wb i t rgb c = Inr f \<Longrightarrow> fr_glare f \<Longrightarrow> \<not> sure f"
  by (auto simp: sample_field_def bindE_eq_Inr read_field_def sure_def CONFIDENCE_THRESHOLD_def)

lemma field_verdict_decided: "isDecided (fst (fieldVerdict f wb)) \<Longrightarrow> wb \<and> sure f"
  by (auto simp: fieldVerdict_def isDecided_def split: if_splits)

lemma verdict_or_throw_Inr:
  "verdict_or_throw fs layout wb = Inr r \<longleftrightarrow> heatVerdict fs (map heat_layout.truncate layout) wb = Some r"
  by (auto simp: verdict_or_throw_def split: option.split)

lemma heat_verdict_usable:
  "heatVerdict fs layout wb = Some r \<Longrightarrow> isDecided (hr_heat r) \<Longrightarrow> wb \<and> hr_consistent r"
  by (auto simp: heatVerdict_def Let_def isDecided_def split: if_splits)

lemma fields_glare:
  "humidity_field v cfg fm wb m = Inr f \<Longrightarrow> fr_glare f \<Longrightarrow> \<not> sure f"
  "uv_field v cfg fm wb m = Inr f \<Longrightarrow> fr_glare f \<Longrightarrow> \<not> sure f"
  by (auto simp: humidity_field_def uv_field_def Let_def dest: sample_field_glare split: prod.splits)

lemma frame_report_simps [simp]:
  "cr_heat (frame_report v p H w b wh wb fs hv hf uf) = hr_heat hv"
  "cr_heatLevels (frame_report v p H w b wh wb fs hv hf uf) = hr_heatLevels hv"
  "cr_heatFields (frame_report v p H w b wh wb fs hv hf uf) = fs"
  "cr_humidity (frame_report v p H w b wh wb fs hv hf uf) = fst (fieldVerdict hf (fb_ok wb \<and> hr_consistent hv))"
  "cr_uv (frame_report v p H w b wh wb fs hv hf uf) = fst (fieldVerdict uf (fb_ok wb \<and> hr_consistent hv))"
  "cr_humidityField (frame_report v p H w b wh wb fs hv hf uf) = Some hf"
  "cr_uvField (frame_report v p H w b wh wb fs hv hf uf) = Some uf"
  "ql_anchors (cr_quality (frame_report v p H w b wh wb fs hv hf uf)) = [''heat-label'']"
  "gq_ok (ql_heat (cr_quality (frame_report v p H w b wh wb fs hv hf uf))) = fb_ok wb"
  "frameCounts (frame_report v p H w b wh wb fs hv hf uf)"
  by (simp_all add: frame_report_def frame_reading_def Let_def frameCounts_def)

text \<open>A homography the heat label gave: the label was located in the card warped by an earlier one, and maps onto its place.\<close>

definition label_anchored :: "'m cv_view \<Rightarrow> frame_layout \<Rightarrow> real \<Rightarrow> real list \<Rightarrow> bool" where
  "label_anchored v fm S H \<longleftrightarrow> (\<exists>h label. locateStripQuad v (cv_warp v h) (fm_strip fm) S = Some label \<and>
     homography v (map (applyH (cv_invert v h)) label) (map (to_px S) (rectCornersMm (fm_strip fm))) = Inr H)"

lemma label_rounds_anchored:
  "label_rounds v fm S n b h = Inr (c, H) \<Longrightarrow> c = b \<and> H = h \<or> c \<and> label_anchored v fm S H"
proof (induction n arbitrary: b h)
  case (Suc n)
  show ?case
  proof (cases "locateStripQuad v (cv_warp v h) (fm_strip fm) S")
    case (Some label)
    with Suc.prems(1) obtain h' where h': "homography v (map (applyH (cv_invert v h)) label) (map (to_px S) (rectCornersMm (fm_strip fm))) = Inr h'"
      "label_rounds v fm S n True h' = Inr (c, H)" by (auto simp: bindE_eq_Inr)
    then have "label_anchored v fm S h'" using Some by (auto simp: label_anchored_def)
    with Suc.IH [OF h'(2)] show ?thesis by blast
  qed (use Suc.prems in simp)
qed simp

lemma try_orientations_anchored:
  "try_orientations v fm S qs coarse = Inr (c, Some H) \<Longrightarrow> label_anchored v fm S H"
proof (induction qs arbitrary: coarse)
  case (Cons q qs)
  then show ?case
    by (auto simp: bindE_eq_Inr Let_def split: if_splits dest: label_rounds_anchored)
qed simp

text \<open>What any decided indicator of a holder reading rests on: the label's homography, under which the card was warped, and
  the white balance of that warped card.\<close>

definition anchored_reading :: "'m cv_view \<Rightarrow> card_config \<Rightarrow> frame_layout \<Rightarrow> 'm card_reading \<Rightarrow> bool" where
  "anchored_reading v cfg fm r \<longleftrightarrow>
     (\<exists>H. cr_homography r = Some H \<and> label_anchored v fm (cc_px_per_mm cfg) H \<and>
        fb_ok (frameWhiteBalance (black_ref v fm (cc_px_per_mm cfg) (cv_warp v H)) (white_ref v fm (cc_px_per_mm cfg) (cv_warp v H)))) \<and>
     ''heat-label'' \<in> set (ql_anchors (cr_quality r)) \<and> frameCounts r \<and> gq_ok (ql_heat (cr_quality r)) \<and>
     heatFieldsConsistent (cr_heatFields r) (map heat_layout.truncate (fm_fields fm))"

text \<open>A confident field without glare that shows the level.\<close>

definition shows_level :: "field_reading \<Rightarrow> int \<Rightarrow> bool" where
  "shows_level f level \<longleftrightarrow> sure f \<and> \<not> fr_glare f \<and> fr_level f = level"

definition fails_closed :: "'m cv_view \<Rightarrow> card_config \<Rightarrow> frame_layout \<Rightarrow> 'm card_reading \<Rightarrow> bool" where
  "fails_closed v cfg fm r \<longleftrightarrow>
    (if isDecided (cr_heat r) \<or> isDecided (cr_humidity r) \<or> isDecided (cr_uv r) then anchored_reading v cfg fm r else True) \<and>
    (if isDecided (cr_heat r) then (let d = decisive_index (map heat_layout.truncate (fm_fields fm))
       in d < length (cr_heatFields r) \<and> shows_level (cr_heatFields r ! d) (cr_heat r))
     else cr_heatLevels r = [0, 0, 0, 0, 0, 0]) \<and>
    (if isDecided (cr_humidity r) then (case cr_humidityField r of Some f \<Rightarrow> shows_level f (cr_humidity r) | None \<Rightarrow> False) else True) \<and>
    (if isDecided (cr_uv r) then (case cr_uvField r of Some f \<Rightarrow> shows_level f (cr_uv r) | None \<Rightarrow> False) else True)"

lemma heat_fields_read:
  assumes "heat_fields v cfg fm wb m = Inr fs"
  shows "length fs = length (fm_fields fm)" "\<forall>f \<in> set fs. fr_level f = 0 \<or> fr_level f = 1"
  using assms traverse_Inr sample_field_level unfolding heat_fields_def Let_def by blast+

lemma heat_verdict_index:
  "heatVerdict fs layout wb = Some r \<Longrightarrow> isDecided (hr_heat r) \<Longrightarrow> decisive_index layout < length fs"
  by (auto simp: heatVerdict_def Let_def isDecided_def split: if_splits)

lemma heat_shows:
  assumes "heat_fields v cfg fm wb m = Inr fs"
    and "heatVerdict fs (map heat_layout.truncate (fm_fields fm)) ok = Some hv" "isDecided (hr_heat hv)"
  shows "decisive_index (map heat_layout.truncate (fm_fields fm)) < length fs"
    "shows_level (fs ! decisive_index (map heat_layout.truncate (fm_fields fm))) (hr_heat hv)"
proof -
  let ?l = "map heat_layout.truncate (fm_fields fm)"
  show i: "decisive_index ?l < length fs" by (rule heat_verdict_index [OF assms(2,3)])
  have "strip_fields fs ?l" using i heat_fields_read [OF assms(1)] by (simp add: strip_fields_def)
  from heat_verdict_decided(5,6,7) [OF assms(2,3) this] show "shows_level (fs ! decisive_index ?l) (hr_heat hv)"
    by (simp add: shows_level_def)
qed

lemma field_shows: "isDecided (fst (fieldVerdict f wb)) \<Longrightarrow> \<not> fr_glare f \<Longrightarrow> shows_level f (fst (fieldVerdict f wb))"
  by (auto simp: shows_level_def fieldVerdict_def isDecided_def split: if_splits)

lemma field_decided_no_glare:
  "humidity_field v cfg fm wb m = Inr f \<Longrightarrow> isDecided (fst (fieldVerdict f ok)) \<Longrightarrow> shows_level f (fst (fieldVerdict f ok))"
  "uv_field v cfg fm wb m = Inr f \<Longrightarrow> isDecided (fst (fieldVerdict f ok)) \<Longrightarrow> shows_level f (fst (fieldVerdict f ok))"
  using field_verdict_decided fields_glare field_shows by metis+

lemma readAnchored_closed:
  assumes "readAnchored v cfg fm preview w H = Inr r" "label_anchored v fm (cc_px_per_mm cfg) H"
  shows "fails_closed v cfg fm r"
proof -
  define b where "b = black_ref v fm (cc_px_per_mm cfg) (cv_warp v H)"
  define wh where "wh = white_ref v fm (cc_px_per_mm cfg) (cv_warp v H)"
  define wb where "wb = frameWhiteBalance b wh"
  obtain fs hv humF uvF where fs: "heat_fields v cfg fm wb (cv_warp v H) = Inr fs"
    and hvS: "heatVerdict fs (map heat_layout.truncate (fm_fields fm)) (fb_ok wb) = Some hv"
    and hum: "humidity_field v cfg fm wb (cv_warp v H) = Inr humF" and uv: "uv_field v cfg fm wb (cv_warp v H) = Inr uvF"
    and r: "r = frame_report v preview H w b wh wb fs hv humF uvF"
    using assms(1) unfolding readAnchored_def Let_def b_def [symmetric] wh_def [symmetric] wb_def [symmetric]
    by (auto simp: bindE_eq_Inr verdict_or_throw_Inr)
  have bal: "fb_ok (frameWhiteBalance (black_ref v fm (cc_px_per_mm cfg) (cv_warp v H)) (white_ref v fm (cc_px_per_mm cfg) (cv_warp v H))) = fb_ok wb"
    by (simp add: wb_def b_def wh_def)
  have H: "cr_homography r = Some H" by (simp add: r frame_report_def frame_reading_def Let_def)
  have cons: "hr_consistent hv = heatFieldsConsistent fs (map heat_layout.truncate (fm_fields fm))"
    using hvS by (auto simp: heatVerdict_def Let_def split: if_splits)
  have "fb_ok wb \<and> hr_consistent hv"
    if "isDecided (cr_heat r) \<or> isDecided (cr_humidity r) \<or> isDecided (cr_uv r)"
    using that heat_verdict_usable [OF hvS] field_verdict_decided by (auto simp: r)
  then have "anchored_reading v cfg fm r"
    if "isDecided (cr_heat r) \<or> isDecided (cr_humidity r) \<or> isDecided (cr_uv r)"
    using that assms(2) cons H bal unfolding anchored_reading_def by (auto simp: r)
  then show ?thesis
    using heat_shows [OF fs hvS] heat_verdict_undecided [OF hvS] field_decided_no_glare(1) [OF hum] field_decided_no_glare(2) [OF uv]
    unfolding fails_closed_def Let_def by (simp add: r)
qed

lemma unread_closed:
  "fails_closed v cfg fm (notFoundReading s ms)"
  "fails_closed v cfg fm (frame_reading v p H w as g s' void_heat fs (UNREADABLE, 0) h UNREADABLE u)"
  by (simp_all add: fails_closed_def notFoundReading_def frame_reading_def void_heat_def isDecided_def)

lemma readCardFrame_closed:
  "readCardFrame v cfg fm preview = Inr r \<Longrightarrow> fails_closed v cfg fm r"
  by (auto simp: readCardFrame_def Let_def bindE_eq_Inr unread_closed [simplified] split: option.splits
      dest: readAnchored_closed try_orientations_anchored)

text \<open>C21: a card in its holder is read fail-closed. Whatever the image, if the reading decides any of heat, humidity and UV,
  then the heat label was located in the card and gave the homography the card was measured under, the white balance of the
  card warped by it was usable, and the heat fields are consistent. A decided heat verdict is the level of the decisive
  field, a decided humidity or UV verdict the level of its own field, each confident and free of glare; and heat levels are
  reported only with a decided heat verdict.
\<close>

theorem frame_reading_fails_closed:
  assumes "readCardFrame v cfg fm preview = Inr r"
  shows "(isDecided (cr_heat r) \<or> isDecided (cr_humidity r) \<or> isDecided (cr_uv r) \<longrightarrow> anchored_reading v cfg fm r) \<and>
    (isDecided (cr_heat r) \<longrightarrow> (let d = decisive_index (map heat_layout.truncate (fm_fields fm))
       in d < length (cr_heatFields r) \<and> shows_level (cr_heatFields r ! d) (cr_heat r))) \<and>
    (isDecided (cr_humidity r) \<longrightarrow> (\<exists>f. cr_humidityField r = Some f \<and> shows_level f (cr_humidity r))) \<and>
    (isDecided (cr_uv r) \<longrightarrow> (\<exists>f. cr_uvField r = Some f \<and> shows_level f (cr_uv r))) \<and>
    (\<not> isDecided (cr_heat r) \<longrightarrow> cr_heatLevels r = [0, 0, 0, 0, 0, 0])"
  using readCardFrame_closed [OF assms] unfolding fails_closed_def
  by (auto split: if_splits option.splits)

end
