(* ===== verification/Vision_Demo.thy ===== *)
theory Vision_Demo
  imports Vision_Card
begin

text \<open>
  A card in its holder that is read to the end: a square window turned by 45 degrees, one heat field of the intact colour, the
  label where it is expected. It shows that the hypotheses of \<open>frame_reading_fails_closed\<close> hold where something is decided.
\<close>

section \<open>The image\<close>

definition demo_roi :: roi_mm where
  "demo_roi = \<lparr>ro_x = 0, ro_y = 0, ro_w = 20, ro_h = 10\<rparr>"

definition demo_frame :: frame_layout where
  "demo_frame = \<lparr>fm_window = \<lparr>ro_x = 0, ro_y = 0, ro_w = 50, ro_h = 50\<rparr>, fm_strip = demo_roi,
     fm_reference_colors = (\<lambda>k. Some (if k \<in> {''heat_intact'', ''humidity_intact'', ''uv_intact''} then ''#ffffff'' else ''#000000'')),
     fm_white_ref = demo_roi, fm_black_ref = (0, 0, 1, 2), fm_humidity = (0, 0, 1), fm_uv = demo_roi,
     fm_fields = [\<lparr>hl_temp = 40, hl_decisive = True, fl_roi = demo_roi\<rparr>]\<rparr>"

definition demo_card :: card_config where
  "demo_card = \<lparr>cc_px_per_mm = 1, cc_reference_colors = (\<lambda>_. None), cc_humidity = (0, 0, 0, 0), cc_aruco = (0, 0, 0), cc_qr = (0, 0, 0),
     cc_qr_symbol = None, cc_patches = (0, 0, 0), cc_group = (\<lambda>_. 0), cc_fields = [], cc_frame = Some demo_frame\<rparr>"

definition window_contour :: contour where
  "window_contour = \<lparr>cn_area = 80000, cn_box = (300, 300, 401, 401), cn_perimeter = 1132,
     cn_approx = (\<lambda>_. [(700, 500), (500, 700), (300, 500), (500, 300)]), cn_convex = True, cn_points = [], cn_moments = (0, 0, 0),
     cn_min_rect = ((0, 0), (0, 0), 0)\<rparr>"

definition label_contour :: contour where
  "label_contour = \<lparr>cn_area = 200, cn_box = (0, 0, 20, 10), cn_perimeter = 60, cn_approx = (\<lambda>_. []), cn_convex = True, cn_points = [],
     cn_moments = (0, 0, 0), cn_min_rect = ((10, 5), (20, 10), 0)\<rparr>"

text \<open>The warped card is white everywhere but for the black ring; nothing in it is clipped.\<close>

definition demo_view :: "bool cv_view" where
  "demo_view = \<lparr>cv_markers = [], cv_homography = (\<lambda>_ _. Some [1, 0, 0, 0, 1, 0, 0, 0, 1]), cv_invert = (\<lambda>h. h), cv_qr = None,
     cv_warp = (\<lambda>_. True), cv_size = (\<lambda>_. (1000, 1000)), cv_mean_rect = (\<lambda>m _. if m then (255, 255, 255) else (0, 0, 0)),
     cv_mean_circle = (\<lambda>m _ _. if m then (255, 255, 255) else (0, 0, 0)), cv_mean_ring = (\<lambda>_ _ _ _. (0, 0, 0)), cv_dark = (\<lambda>m. m),
     cv_clip = (\<lambda>_. False), cv_blobs = (\<lambda>_ _ _. []), cv_dots = (\<lambda>_ _. []), cv_strips = (\<lambda>_. [label_contour]),
     cv_gray_size = (1000, 1000), cv_gray_contours = [window_contour], cv_fitLine = (\<lambda>_. (0, 0, 0, 0)), cv_elapsed = 0\<rparr>"

section \<open>The window\<close>

lemma axis_angles:
  "atan2 0 200 = 0" "atan2 200 0 = pi / 2" "atan2 0 (- 200) = pi" "atan2 (- 200) 0 = - pi / 2"
proof -
  have e: "Complex 200 0 = of_real 200" "Complex 0 200 = of_real 200 * \<i>" "Complex (- 200) 0 = of_real (- 200)" "Complex 0 (- 200) = of_real 200 * (- \<i>)"
    by (simp_all add: complex_eq_iff)
  have c: "cis (- pi / 2) = - \<i>" by (simp add: complex_eq_iff)
  show "atan2 0 200 = 0" unfolding atan2_def by (rule cis_Arg_unique) (simp_all add: sgn_eq complex_eq_iff cmod_def)
  show "atan2 200 0 = pi / 2" unfolding atan2_def by (rule cis_Arg_unique) (simp_all add: sgn_eq complex_eq_iff cmod_def)
  show "atan2 0 (- 200) = pi" unfolding atan2_def by (rule cis_Arg_unique) (simp_all add: sgn_eq complex_eq_iff cmod_def)
  show "atan2 (- 200) 0 = - pi / 2"
  proof -
    have b: "- pi < - pi / 2" "- pi / 2 \<le> pi" using pi_gt_zero by linarith+
    show ?thesis unfolding atan2_def by (rule cis_Arg_unique) (use b in \<open>simp_all add: sgn_eq complex_eq_iff cmod_def\<close>)
  qed
qed

lemma demo_window:
  "orderQuad [(700, 500), (500, 700), (300, 500), (500, 300)] = [(500, 300), (700, 500), (500, 700), (300, 500)]"
proof -
  have c: "centre4 [(700, 500), (500, 700), (300, 500), (500, 300)] = (500, 500)" by (simp add: centre4_def)
  have "- pi / 2 < 0" "- pi / 2 < pi / 2" "0 < pi / 2" "pi / 2 < pi" using pi_gt_zero by linarith+
  moreover have "(pi \<le> - (pi / 2)) = False" using pi_gt_zero by (intro Eq_FalseI [THEN meta_eq_to_obj_eq]) linarith
  ultimately have s: "sort_key (\<lambda>p. atan2 (snd p - 500) (fst p - 500)) [(700, 500), (500, 700), (300, 500), (500, 300)] =
      [(500, 300), (700, 500), (500, 700), (300, 500)]"
    by (simp add: axis_angles)
  have "first_least [(500, 300), (700, 500), (500, 700), (300, 500 :: real)] = 0"
    by (simp add: first_least_def upt_rec)
  then show ?thesis unfolding orderQuad_def Let_def c fst_conv snd_conv s by (simp add: upt_rec)
qed

lemma demo_side: "dist_pt (500, 300) (700, 500) = sqrt 80000" "dist_pt (300, 500) (500, 700) = sqrt 80000"
  "dist_pt (500, 300) (300, 500) = sqrt 80000" "dist_pt (700, 500) (500, 700) = sqrt 80000"
  by (simp_all add: dist_pt_def)

lemma demo_quad:
  "detectCardQuad (cv_fitLine demo_view) 1000 1000 (cv_gray_contours demo_view) 1 = Some [(500, 300), (700, 500), (500, 700), (300, 500)]"
proof -
  have sq: "1 \<le> sqrt 80000" "sqrt 80000 * sqrt 80000 = 80000" by simp_all
  have "\<exists>sc. quad_candidate 1000 1000 1 window_contour = Some ([(500, 300), (700, 500), (500, 700), (300, 500)], sc)"
    using sq by (simp add: quad_candidate_def window_contour_def demo_window demo_side Let_def max_def)
  then obtain sc where "quad_candidate 1000 1000 1 window_contour = Some ([(500, 300), (700, 500), (500, 700), (300, 500)], sc)" by blast
  moreover have "refine_quad f q [] = q" for f q
    by (simp add: refine_quad_def side_line_def Let_def upt_rec)
  ultimately show ?thesis
    by (simp add: detectCardQuad_def demo_view_def) (simp add: window_contour_def)
qed

section \<open>The label and the fields\<close>

lemma demo_label: "locateStripQuad demo_view m demo_roi 1 = Some [(0, 0), (20, 0), (20, 10), (0, 10)]"
proof -
  have "strip_corners ((10, 5), (20, 10), 0) = Some [(0, 0), (20, 0), (20, 10), (0, 10)]"
    by (simp add: strip_corners_def centre4_def Let_def)
  then show ?thesis
    by (simp add: locateStripQuad_def demo_view_def label_contour_def demo_roi_def dist_pt_def Let_def)
qed

lemma white_is_intact:
  "cl_level (classify (255, 255, 255) (255, 255, 255) (0, 0, 0)) = 0"
  "0.85 \<le> cl_confidence (classify (255, 255, 255) (255, 255, 255) (0, 0, 0))"
proof -
  have "srgbToLinear 255 = 1" "srgbToLinear 0 = 0" by (simp_all add: srgbToLinear_def)
  moreover have "1 \<le> lab_f (0.2126729 + 0.7151522 + 0.072175)" by (simp add: lab_f_def)
  moreover have "lab_f 0 = 16 / 116" by (simp add: lab_f_def)
  ultimately have L: "100 \<le> fst (rgbToLab (255, 255, 255))" "fst (rgbToLab (0, 0, 0)) = 0"
    by (simp_all add: rgbToLab_def Let_def)
  define d where "d = deltaE (rgbToLab (255, 255, 255)) (rgbToLab (0, 0, 0))"
  obtain w0 w1 w2 b0 b1 b2 where lab: "rgbToLab (255, 255, 255) = (w0, w1, w2)" "rgbToLab (0, 0, 0) = (b0, b1, b2)"
    by (metis prod.exhaust)
  have "\<bar>w0 - b0\<bar> \<le> d" unfolding d_def lab deltaE_def by (simp add: real_le_rsqrt)
  then have d: "100 \<le> d" using L lab by simp
  have z: "deltaE (rgbToLab (255, 255, 255)) (rgbToLab (255, 255, 255)) = 0" by (simp add: lab deltaE_def)
  show "cl_level (classify (255, 255, 255) (255, 255, 255) (0, 0, 0)) = 0"
    using d by (simp add: classify_def Let_def z d_def [symmetric])
  have "48 \<le> exp (47 :: real)" using exp_ge_add_one_self [of 47] by simp
  then have "exp (- (47::real)) \<le> 1 / 48" by (simp add: exp_minus inverse_eq_divide divide_simps)
  moreover have "exp (- ((d - 6) / 2)) \<le> exp (- 47)" using d by simp
  ultimately have "exp (- ((d - 6) / 2)) \<le> 1 / 48" by linarith
  then have "0.85 \<le> 1 / (1 + exp (- ((d - 6) / 2)))" by (simp add: divide_simps add_pos_pos)
  moreover have "cl_confidence (classify (255, 255, 255) (255, 255, 255) (0, 0, 0)) = 1 / (1 + exp (- ((d - 6) / 2)))"
    using d by (simp add: classify_def Let_def z d_def [symmetric] minus_divide_left)
  ultimately show "0.85 \<le> cl_confidence (classify (255, 255, 255) (255, 255, 255) (0, 0, 0))" by simp
qed

lemma demo_anchored:
  "try_orientations demo_view demo_frame 1 (cardOrientations q) None = Inr (Some [1, 0, 0, 0, 1, 0, 0, 0, 1], Some [1, 0, 0, 0, 1, 0, 0, 0, 1])"
proof -
  have h: "homography demo_view a b = Inr [1, 0, 0, 0, 1, 0, 0, 0, 1]" for a b by (simp add: homography_def demo_view_def)
  have "fm_strip demo_frame = demo_roi" by (simp add: demo_frame_def)
  then show ?thesis by (simp add: cardOrientations_def h demo_label eval_nat_numeral)
qed

text \<open>Each field is the intact colour itself, so it is read intact, surely and without glare.\<close>

definition demo_heat_field :: field_reading where
  "demo_heat_field = read_field (255, 255, 255) (classify (255, 255, 255) (255, 255, 255) (0, 0, 0)) (Some 0) False"

lemma demo_balance:
  "fb_ok (frameWhiteBalance (0, 0, 0) (255, 255, 255))"
  "fb_apply (frameWhiteBalance (0, 0, 0) (255, 255, 255)) (255, 255, 255) = (255, 255, 255)"
  by (simp_all add: frameWhiteBalance_def makeWhiteBalance_def RING_MAX_RATIO_def gain_exact)

lemma demo_colours:
  "reference_colour demo_card demo_frame k = Inr (if k \<in> {''heat_intact'', ''humidity_intact'', ''uv_intact''} then (255, 255, 255) else (0, 0, 0))"
proof -
  have "hexToRgb ''#ffffff'' = (255, 255, 255)" "hexToRgb ''#000000'' = (0, 0, 0)"
    by (simp_all add: hexToRgb_def hex_pair_def hex_val_def is_digit_def code_def eval_nat_numeral)
  then show ?thesis by (simp add: reference_colour_def demo_frame_def)
qed

lemma demo_sampled:
  "sample_field demo_card demo_frame (frameWhiteBalance (0, 0, 0) (255, 255, 255)) i t (255, 255, 255) 0 = Inr demo_heat_field"
  if "i \<in> {''heat_intact'', ''humidity_intact'', ''uv_intact''}" "t \<notin> {''heat_intact'', ''humidity_intact'', ''uv_intact''}"
  using that by (simp add: sample_field_def demo_colours demo_balance demo_heat_field_def GLARE_MAX_FRACTION_def)

lemma demo_heat_fields:
  "heat_fields demo_view demo_card demo_frame (frameWhiteBalance (0, 0, 0) (255, 255, 255)) True = Inr [demo_heat_field]"
  "humidity_field demo_view demo_card demo_frame (frameWhiteBalance (0, 0, 0) (255, 255, 255)) True = Inr demo_heat_field"
  "uv_field demo_view demo_card demo_frame (frameWhiteBalance (0, 0, 0) (255, 255, 255)) True = Inr demo_heat_field"
  by (simp_all add: heat_fields_def humidity_field_def uv_field_def Let_def meanRect_def meanCircle_def demo_view_def demo_sampled)
    (simp_all add: demo_frame_def demo_sampled [unfolded demo_frame_def])

lemma demo_field_facts:
  "fr_level demo_heat_field = 0" "sure demo_heat_field" "\<not> fr_glare demo_heat_field"
  using white_is_intact by (simp_all add: demo_heat_field_def read_field_def sure_def CONFIDENCE_THRESHOLD_def)

lemma demo_heat_verdict:
  "\<exists>hv. heatVerdict [demo_heat_field] [\<lparr>hl_temp = 40, hl_decisive = True\<rparr>] True = Some hv \<and> hr_heat hv = 0 \<and> hr_consistent hv"
proof -
  have d: "decisive_index [\<lparr>hl_temp = 40, hl_decisive = True\<rparr>] = 0" by (simp add: decisive_index_def upt_rec)
  have c: "heatFieldsConsistent [demo_heat_field] [\<lparr>hl_temp = 40, hl_decisive = True\<rparr>]"
    by (simp add: heatFieldsConsistent_def known_fields_def demo_field_facts)
  show ?thesis
    by (simp add: heatVerdict_def d c Let_def demo_field_facts field_level_def upt_rec isDecided_def)
qed

section \<open>The reading\<close>

lemma demo_read: "\<exists>r. readCardFrame demo_view demo_card demo_frame False = Inr r \<and> cr_heat r = 0 \<and> cr_humidity r = 0 \<and> cr_uv r = 0"
proof -
  let ?H = "[1, 0, 0, 0, 1, 0, 0, 0, 1 :: real]"
  have f: "ro_w (fm_window demo_frame) / ro_h (fm_window demo_frame) = 1" "cc_px_per_mm demo_card = 1" "cv_gray_size demo_view = (1000, 1000)"
    "cv_warp demo_view ?H = True" "map heat_layout.truncate (fm_fields demo_frame) = [\<lparr>hl_temp = 40, hl_decisive = True\<rparr>]"
    by (simp_all add: demo_frame_def demo_card_def demo_view_def heat_layout.truncate_def)
  have ref: "white_ref demo_view demo_frame 1 True = (255, 255, 255)" "black_ref demo_view demo_frame 1 True = (0, 0, 0)"
    by (simp_all add: white_ref_def black_ref_def meanRect_def meanAnnulus_def demo_view_def demo_frame_def)
  obtain hv where hv: "heatVerdict [demo_heat_field] [\<lparr>hl_temp = 40, hl_decisive = True\<rparr>] True = Some hv" "hr_heat hv = 0" "hr_consistent hv"
    using demo_heat_verdict by blast
  have v: "verdict_or_throw [demo_heat_field] (fm_fields demo_frame) True = Inr hv" by (simp add: verdict_or_throw_Inr f hv)
  have "\<exists>r. readAnchored demo_view demo_card demo_frame False w ?H = Inr r \<and> cr_heat r = 0 \<and> cr_humidity r = 0 \<and> cr_uv r = 0" for w
    unfolding readAnchored_def Let_def f ref
    by (simp add: demo_heat_fields demo_balance v hv fieldVerdict_def demo_field_facts)
  then show ?thesis
    unfolding readCardFrame_def f fst_conv snd_conv demo_quad option.case Let_def demo_anchored by simp
qed

theorem frame_reading_fails_closed_witness:
  "\<exists>r. readCardFrame demo_view demo_card demo_frame False = Inr r \<and> cr_heat r = 0 \<and> cr_humidity r = 0 \<and>
     anchored_reading demo_view demo_card demo_frame r \<and> (\<exists>f. cr_humidityField r = Some f \<and> shows_level f 0)"
proof -
  obtain r where r: "readCardFrame demo_view demo_card demo_frame False = Inr r" "cr_heat r = 0" "cr_humidity r = 0"
    using demo_read by blast
  have "isDecided 0" by (simp add: isDecided_def)
  with frame_reading_fails_closed [OF r(1)] r show ?thesis by simp
qed

end
