(* ===== verification/Proof_Canonical.thy ===== *)
theory Proof_Canonical
  imports FV_Json Proof_Bytes "HOL-Library.List_Lexorder" "HOL-Library.Multiset"
begin

text \<open>
  \<open>packages/proof/src/canonical.ts\<close>, \<open>bundle.ts\<close> and \<open>sign.ts\<close>: canonical JSON, the text and the hash of a
  bundle, ed25519 as the other code calls it. The schema check of zod, SHA-256 and the curve are
  parameters. The canonical text determines the value up to the order of object members.
\<close>

section \<open>Canonical text\<close>

text \<open>A string as UTF-16 code units, the order \<open>sort()\<close> compares keys in.\<close>

fun utf16 :: "string \<Rightarrow> nat list" where
  "utf16 [] = []"
| "utf16 (c # s) =
    (let n = code c; cont = (\<lambda>i. code (nth (s @ replicate 3 (CHR 0x80)) i) - 128) in
     if n < 128 then n # utf16 s
     else if n < 224 then ((n - 192) * 64 + cont 0) # utf16 (drop 1 s)
     else if n < 240 then ((n - 224) * 4096 + cont 0 * 64 + cont 1) # utf16 (drop 2 s)
     else let cp = (n - 240) * 262144 + cont 0 * 4096 + cont 1 * 64 + cont 2 - 65536 in
       (55296 + cp div 1024) # (56320 + cp mod 1024) # utf16 (drop 3 s))"

fun sequence :: "('e + 'a) list \<Rightarrow> 'e + 'a list" where
  "sequence [] = Inr []"
| "sequence (r # rs) = bindE r (\<lambda>x. bindE (sequence rs) (\<lambda>xs. Inr (x # xs)))"

definition sort_members :: "(string \<times> 'a) list \<Rightarrow> (string \<times> 'a) list" where
  "sort_members ps = sort_key (\<lambda>p. utf16 (fst p)) ps"

lemma set_sort_members [simp]: "set (sort_members ps) = set ps"
  by (simp add: sort_members_def)

lemma mset_sort_members [simp]: "mset (sort_members ps) = mset ps"
  by (simp add: sort_members_def)

definition NON_FINITE :: string where "NON_FINITE = ''non-finite number in bundle''"

function canonicalize :: "(rat \<Rightarrow> string) \<Rightarrow> json \<Rightarrow> string + string" where
  "canonicalize fmt JNull = Inr ''null''"
| "canonicalize fmt (JBool b) = Inr (if b then ''true'' else ''false'')"
| "canonicalize fmt (JNum n) = (case n of Fin q \<Rightarrow> Inr (num_text fmt n) | _ \<Rightarrow> Inl NON_FINITE)"
| "canonicalize fmt (JStr s) = Inr (quote s)"
| "canonicalize fmt (JArr xs) = bindE (sequence (map (canonicalize fmt) xs)) (\<lambda>ts. Inr (''['' @ comma_sep ts @ '']''))"
| "canonicalize fmt (JObj ps) =
     bindE (sequence (map (\<lambda>(k, v). bindE (canonicalize fmt v) (\<lambda>t. Inr (quote k @ '':'' @ t))) (sort_members ps)))
       (\<lambda>ts. Inr (''{'' @ comma_sep ts @ ''}''))"
  by pat_completeness auto
termination
  by (relation "measure (\<lambda>(_, v). size v)") (auto simp: less_Suc_eq_le intro: size_list_estimation')

definition canonicalBundle :: "(json \<Rightarrow> string + json) \<Rightarrow> (rat \<Rightarrow> string) \<Rightarrow> json \<Rightarrow> string + string" where
  "canonicalBundle parse fmt b = bindE (parse b) (canonicalize fmt)"

definition bundleHash :: "(bytes \<Rightarrow> bytes) \<Rightarrow> (json \<Rightarrow> string + json) \<Rightarrow> (rat \<Rightarrow> string) \<Rightarrow> json \<Rightarrow> string + bytes" where
  "bundleHash sha256 parse fmt b = bindE (canonicalBundle parse fmt b) (\<lambda>t. Inr (sha256 (utf8 t)))"

section \<open>Signing\<close>

text \<open>A seed is bytes or their hex text.\<close>

datatype seed = SeedBytes bytes | SeedHex string

datatype sign_error = SeedHexError proof_error | SeedLength string

definition seed_bytes :: "seed \<Rightarrow> sign_error + bytes" where
  "seed_bytes s = (case s of SeedBytes b \<Rightarrow> Inr b
     | SeedHex t \<Rightarrow> (case hexToBytes t of Inl e \<Rightarrow> Inl (SeedHexError e) | Inr b \<Rightarrow> Inr b))"

definition ed25519PublicKey :: "(bytes \<Rightarrow> bytes) \<Rightarrow> seed \<Rightarrow> sign_error + bytes" where
  "ed25519PublicKey get_public seed = bindE (seed_bytes seed) (\<lambda>s.
     if length s \<noteq> 32 then Inl (SeedLength ''seed must be 32 bytes'') else Inr (get_public s))"

definition ed25519Sign :: "(bytes \<Rightarrow> bytes \<Rightarrow> bytes) \<Rightarrow> bytes \<Rightarrow> seed \<Rightarrow> sign_error + bytes" where
  "ed25519Sign sign msg seed = bindE (seed_bytes seed) (\<lambda>s. Inr (sign msg s))"

text \<open>\<open>None\<close>: the library throws.\<close>

definition ed25519Verify :: "(bytes \<Rightarrow> bytes \<Rightarrow> bytes \<Rightarrow> bool option) \<Rightarrow> bytes \<Rightarrow> bytes \<Rightarrow> bytes \<Rightarrow> bool" where
  "ed25519Verify verify sig msg pk = (case verify sig msg pk of Some b \<Rightarrow> b | None \<Rightarrow> False)"

section \<open>The text of a value determines it\<close>

definition num_char :: "char \<Rightarrow> bool" where
  "num_char c \<longleftrightarrow> is_digit c \<or> c = CHR ''-''"

text \<open>What may follow a value in canonical text.\<close>

definition delim :: "string \<Rightarrow> bool" where
  "delim r \<longleftrightarrow> (case r of [] \<Rightarrow> True | c # _ \<Rightarrow> c = CHR '','' \<or> c = CHR '']'' \<or> c = CHR ''}'')"

definition decodes :: "('a \<Rightarrow> string) \<Rightarrow> 'a \<Rightarrow> 'a \<Rightarrow> bool" where
  "decodes f x y \<longleftrightarrow> (\<forall>r r'. delim r \<longrightarrow> delim r' \<longrightarrow> f x @ r = f y @ r' \<longrightarrow> x = y \<and> r = r')"

lemma decodesD: "decodes f x y \<Longrightarrow> f x @ r = f y @ r' \<Longrightarrow> delim r \<Longrightarrow> delim r' \<Longrightarrow> x = y \<and> r = r'"
  by (simp add: decodes_def)

lemma delim_simps [simp]: "delim []" "delim (CHR '','' # r)" "delim (CHR '']'' # r)" "delim (CHR ''}'' # r)"
  by (simp_all add: delim_def)

lemma comma_sep_Cons: "comma_sep (s # ss) = s @ (if ss = [] then [] else CHR '','' # comma_sep ss)"
  by (cases ss) simp_all

lemma decode_list:
  assumes "\<And>x y. x \<in> set xs \<Longrightarrow> P y \<Longrightarrow> decodes f x y" "\<And>x. P x \<Longrightarrow> hd (f x) \<noteq> e \<and> f x \<noteq> []"
    and "e = CHR '']'' \<or> e = CHR ''}''" "\<And>x. x \<in> set xs \<Longrightarrow> P x" "\<And>y. y \<in> set ys \<Longrightarrow> P y"
    and "comma_sep (map f xs) @ e # r = comma_sep (map f ys) @ e # r'"
  shows "xs = ys \<and> r = r'"
  using assms(1,4-6)
proof (induction xs arbitrary: ys)
  case Nil
  show ?case
  proof (cases ys)
    case (Cons y ys')
    then have y: "hd (f y) \<noteq> e" "f y \<noteq> []" using assms(2) [of y] Nil.prems(3) by auto
    then obtain c cs where "f y = c # cs" by (cases "f y") auto
    with Cons Nil.prems(4) y show ?thesis by (simp add: comma_sep_Cons)
  qed (use Nil in simp)
next
  case (Cons x xs)
  have x: "hd (f x) \<noteq> e" "f x \<noteq> []" using assms(2) [of x] Cons.prems(2) by auto
  show ?case
  proof (cases ys)
    case Nil
    obtain c cs where "f x = c # cs" using x by (cases "f x") auto
    with Nil Cons.prems(4) x show ?thesis by (simp add: comma_sep_Cons)
  next
    case C: (Cons y ys')
    define q where "q zs s = (if zs = [] then e # s else CHR '','' # comma_sep (map f zs) @ e # s)" for zs s
    have sep: "comma_sep (map f (z # zs)) @ e # s = f z @ q zs s" for z zs s
      by (simp add: comma_sep_Cons q_def)
    have d: "delim (q zs s)" for zs s using assms(3) by (auto simp: q_def)
    have "P y" using Cons.prems(3) C by simp
    moreover have "f x @ q xs r = f y @ q ys' r'" using Cons.prems(4) C by (simp only: sep)
    ultimately have xy: "x = y" "q xs r = q ys' r'" using decodesD [OF Cons.prems(1) [of x y] _ d d] by simp_all
    have c: "e \<noteq> CHR '',''" using assms(3) by auto
    show ?thesis
    proof (cases "xs = [] \<or> ys' = []")
      case True
      with xy C c show ?thesis by (cases "xs = []"; cases "ys' = []") (simp_all add: q_def)
    next
      case False
      with xy(2) have rest: "comma_sep (map f xs) @ e # r = comma_sep (map f ys') @ e # r'" by (simp add: q_def)
      have "xs = ys' \<and> r = r'"
        using Cons.prems(1-3) C by (intro Cons.IH rest) auto
      with xy(1) C show ?thesis by simp
    qed
  qed
qed

text \<open>The character an escape stands for.\<close>

definition unescape :: "char \<Rightarrow> char" where
  "unescape e = (if e = CHR ''b'' then char_of (8::nat) else if e = CHR ''t'' then char_of (9::nat) else if e = CHR ''n'' then char_of (10::nat)
     else if e = CHR ''f'' then char_of (12::nat) else if e = CHR ''r'' then char_of (13::nat) else e)"

lemma code_eq_char: "code c = n \<Longrightarrow> c = char_of n"
  by (metis char_of_code)

lemma digit_code: "d < 16 \<Longrightarrow> code (FV_Json.hex_digit d) = (if d < 10 then 48 + d else 87 + d)"
  by (simp add: FV_Json.hex_digit_def code_digit_char code_char_of)

lemma digit_inj:
  assumes "c < 16" "d < 16" "FV_Json.hex_digit c = FV_Json.hex_digit d"
  shows "c = d"
proof -
  have "(if c < 10 then 48 + c else 87 + c) = (if d < 10 then 48 + d else 87 + d)"
    using digit_code [OF assms(1)] digit_code [OF assms(2)] assms(3) by simp
  then show ?thesis using assms(1,2) by (simp split: if_splits)
qed

definition esc_kind :: "char \<Rightarrow> bool" where
  "esc_kind c \<longleftrightarrow> (esc_char c = [c] \<and> c \<noteq> CHR 0x5C \<and> c \<noteq> CHR 0x22) \<or>
    (\<exists>e. esc_char c = [CHR 0x5C, e] \<and> e \<noteq> CHR ''u'' \<and> c = unescape e) \<or>
    (esc_char c = [CHR 0x5C, CHR ''u'', CHR ''0'', CHR ''0'', FV_Json.hex_digit (code c div 16), FV_Json.hex_digit (code c mod 16)] \<and> code c < 32)"

lemma esc_short: "esc_char c = [CHR 0x5C, e] \<Longrightarrow> e \<noteq> CHR ''u'' \<Longrightarrow> c = unescape e \<Longrightarrow> esc_kind c"
  unfolding esc_kind_def by blast

lemma esc_kinds: "esc_kind c"
proof -
  consider "code c = 34" | "code c = 92" | "code c = 8" | "code c = 9" | "code c = 10" | "code c = 12" | "code c = 13"
    | "code c < 32" "code c \<notin> {8, 9, 10, 12, 13}" | "32 \<le> code c" "code c \<noteq> 34" "code c \<noteq> 92" by fastforce
  then show ?thesis
  proof cases
    case 1
    with code_eq_char [OF 1] show ?thesis by (intro esc_short [of c "CHR 0x22"]) (simp_all add: esc_char_def unescape_def char_of_def bit_0)
  next
    case 2
    with code_eq_char [OF 2] show ?thesis by (intro esc_short [of c "CHR 0x5C"]) (simp_all add: esc_char_def unescape_def char_of_def bit_0)
  next
    case 3
    with code_eq_char [OF 3] show ?thesis by (intro esc_short [of c "CHR ''b''"]) (simp_all add: esc_char_def unescape_def)
  next
    case 4
    with code_eq_char [OF 4] show ?thesis by (intro esc_short [of c "CHR ''t''"]) (simp_all add: esc_char_def unescape_def)
  next
    case 5
    with code_eq_char [OF 5] show ?thesis by (intro esc_short [of c "CHR ''n''"]) (simp_all add: esc_char_def unescape_def)
  next
    case 6
    with code_eq_char [OF 6] show ?thesis by (intro esc_short [of c "CHR ''f''"]) (simp_all add: esc_char_def unescape_def)
  next
    case 7
    with code_eq_char [OF 7] show ?thesis by (intro esc_short [of c "CHR ''r''"]) (simp_all add: esc_char_def unescape_def)
  next
    case 8
    then show ?thesis by (simp add: esc_kind_def esc_char_def)
  next
    case 9
    then show ?thesis by (auto simp: esc_kind_def esc_char_def code_def)
  qed
qed

text \<open>The escapes are told apart by their first characters; none starts with the closing quote.\<close>

lemma esc_char_quote: "hd (esc_char c) \<noteq> CHR 0x22" "esc_char c \<noteq> []"
  using esc_kinds [of c] by (auto simp: esc_kind_def)

lemma esc_char_decode:
  assumes "esc_char c @ x = esc_char d @ y"
  shows "c = d \<and> x = y"
proof -
  have hex: "c = d" if "code c < 32" "code d < 32" "FV_Json.hex_digit (code c div 16) = FV_Json.hex_digit (code d div 16)"
    "FV_Json.hex_digit (code c mod 16) = FV_Json.hex_digit (code d mod 16)"
  proof -
    have "code c div 16 = code d div 16" "code c mod 16 = code d mod 16"
      using that by (auto intro: digit_inj)
    then have "code c = code d" by (metis div_mult_mod_eq)
    then show ?thesis by simp
  qed
  show ?thesis
    using assms esc_kinds [of c] esc_kinds [of d] hex unfolding esc_kind_def by (elim disjE exE conjE) simp_all
qed

lemma chars_decode:
  "concat (map esc_char s) @ CHR 0x22 # r = concat (map esc_char t) @ CHR 0x22 # r' \<Longrightarrow> s = t \<and> r = r'"
proof (induction s arbitrary: t)
  case Nil
  show ?case
  proof (cases t)
    case (Cons d t')
    obtain x xs where "esc_char d = x # xs" using esc_char_quote(2) [of d] by (cases "esc_char d") auto
    with Cons Nil esc_char_quote(1) [of d] show ?thesis by simp
  qed (use Nil in simp)
next
  case (Cons c s)
  show ?case
  proof (cases t)
    case Nil
    obtain x xs where "esc_char c = x # xs" using esc_char_quote(2) [of c] by (cases "esc_char c") auto
    with Nil Cons.prems esc_char_quote(1) [of c] show ?thesis by simp
  next
    case t: (Cons d t')
    with Cons.prems have "esc_char c @ concat (map esc_char s) @ CHR 0x22 # r = esc_char d @ concat (map esc_char t') @ CHR 0x22 # r'"
      by simp
    note cd = esc_char_decode [OF this]
    have "s = t' \<and> r = r'" by (rule Cons.IH [OF conjunct2 [OF cd]])
    with conjunct1 [OF cd] t show ?thesis by simp
  qed
qed

lemma quote_decode:
  assumes "quote s @ r = quote t @ r'"
  shows "s = t \<and> r = r'"
proof (rule chars_decode)
  show "concat (map esc_char s) @ CHR 0x22 # r = concat (map esc_char t) @ CHR 0x22 # r'"
    using assms by (simp add: quote_def)
qed

lemma num_decode:
  assumes "list_all num_char s" "list_all num_char t" "s @ r = t @ r'" "delim r" "delim r'"
  shows "s = t \<and> r = r'"
proof -
  have tw: "takeWhile num_char (u @ q) = u" if "list_all num_char u" "delim q" for u q
    using that by (induction u) (auto simp: delim_def num_char_def char_class_simps code_def split: list.splits)
  from tw [OF assms(1,4)] tw [OF assms(2,5)] assms(3) show ?thesis by auto
qed


section \<open>Values with whole numbers\<close>

text \<open>
  What the schema of a bundle lets through: whole numbers (written with their digits), distinct ASCII keys.
\<close>

fun plain_json :: "json \<Rightarrow> bool" where
  "plain_json (JNum n) = (case n of Fin q \<Rightarrow> of_int \<lfloor>q\<rfloor> = q \<and> \<bar>q\<bar> < 10 ^ 21 | _ \<Rightarrow> False)"
| "plain_json (JArr xs) = list_all plain_json xs"
| "plain_json (JObj ps) = (distinct (map fst ps) \<and> list_all (\<lambda>p. list_all (\<lambda>c. code c < 128) (fst p)) ps \<and>
     list_all (\<lambda>p. plain_json (snd p)) ps)"
| "plain_json _ = True"

text \<open>Members sorted at every level.\<close>

fun sorted_json :: "json \<Rightarrow> json" where
  "sorted_json (JArr xs) = JArr (map sorted_json xs)"
| "sorted_json (JObj ps) = JObj (sort_members (map (\<lambda>(k, v). (k, sorted_json v)) ps))"
| "sorted_json JNull = JNull"
| "sorted_json (JBool b) = JBool b"
| "sorted_json (JNum n) = JNum n"
| "sorted_json (JStr s) = JStr s"

text \<open>The same value: arrays element by element, objects as sets of members.\<close>

inductive same_json :: "json \<Rightarrow> json \<Rightarrow> bool" where
  same_null: "same_json JNull JNull"
| same_bool: "same_json (JBool b) (JBool b)"
| same_num: "same_json (JNum n) (JNum n)"
| same_str: "same_json (JStr s) (JStr s)"
| same_arr: "list_all2 same_json xs ys \<Longrightarrow> same_json (JArr xs) (JArr ys)"
| same_obj: "mset ps' = mset ps \<Longrightarrow> mset qs' = mset qs \<Longrightarrow>
    list_all2 (\<lambda>p q. fst p = fst q \<and> same_json (snd p) (snd q)) ps' qs' \<Longrightarrow> same_json (JObj ps) (JObj qs)"

lemma utf16_ascii: "list_all (\<lambda>c. code c < 128) s \<Longrightarrow> utf16 s = map code s"
  by (induction s) (simp_all add: Let_def)

lemma utf16_inj:
  assumes "list_all (\<lambda>c. code c < 128) s" "list_all (\<lambda>c. code c < 128) t" "utf16 s = utf16 t"
  shows "s = t"
proof -
  have "map code s = map code t" using assms by (simp add: utf16_ascii)
  moreover have "inj code" by (rule injI) simp
  ultimately show ?thesis by simp
qed

lemma insort_map: "insort_key g (f x) (map f xs) = map f (insort_key (\<lambda>x. g (f x)) x xs)"
  by (induction xs) simp_all

lemma sort_map: "sort_key g (map f xs) = map f (sort_key (\<lambda>x. g (f x)) xs)"
  by (induction xs) (simp_all add: insort_map)

lemma sort_members_map: "sort_members (map (\<lambda>(k, v). (k, f v)) ps) = map (\<lambda>(k, v). (k, f v)) (sort_members ps)"
  by (simp add: sort_members_def sort_map split_def)

lemmas sort_members_map' = sort_members_map [unfolded split_def]

lemma sequence_map: "(\<And>x. x \<in> set xs \<Longrightarrow> f x = Inr (g x)) \<Longrightarrow> sequence (map f xs) = Inr (map g xs)"
  by (induction xs) simp_all

lemma canonicalize_sorted: "plain_json v \<Longrightarrow> canonicalize fmt v = Inr (stringify fmt (sorted_json v))"
proof (induction fmt v rule: canonicalize.induct)
  case (3 fmt n)
  then show ?case by (auto split: js_num.splits)
next
  case (5 fmt xs)
  then have "sequence (map (canonicalize fmt) xs) = Inr (map (\<lambda>v. stringify fmt (sorted_json v)) xs)"
    by (intro sequence_map) (simp add: list_all_iff)
  then show ?case by (simp add: comp_def)
next
  case (6 fmt ps)
  have "sequence (map (\<lambda>(k, v). bindE (canonicalize fmt v) (\<lambda>t. Inr (quote k @ '':'' @ t))) (sort_members ps)) =
      Inr (map (\<lambda>(k, v). quote k @ '':'' @ stringify fmt (sorted_json v)) (sort_members ps))"
  proof (intro sequence_map)
    fix p assume p: "p \<in> set (sort_members ps)"
    obtain k v where kv: "p = (k, v)" by (cases p)
    with p 6(2) have "plain_json v" by (force simp: list_all_iff)
    with 6(1) [OF p kv [symmetric]] kv show "(case p of (k, v) \<Rightarrow> bindE (canonicalize fmt v) (\<lambda>t. Inr (quote k @ '':'' @ t))) =
        Inr (case p of (k, v) \<Rightarrow> quote k @ '':'' @ stringify fmt (sorted_json v))" by simp
  qed
  then show ?case by (simp add: sort_members_map' comp_def split_def)
qed simp_all

lemma sort_members_distinct [simp]: "distinct (map fst (sort_members ps)) \<longleftrightarrow> distinct (map fst ps)"
  by (rule mset_eq_imp_distinct_iff) simp

lemma sorted_json_plain: "plain_json v \<Longrightarrow> plain_json (sorted_json v)"
proof (induction v rule: sorted_json.induct)
  case (2 ps)
  then have "distinct (map fst (map (\<lambda>(k, v). (k, sorted_json v)) ps))" by (simp add: comp_def split_def)
  with 2 show ?case by (force simp: list_all_iff)
qed (auto simp: list_all_iff)

text \<open>Values decode.\<close>

lemma number_text: "plain_json (JNum n) \<Longrightarrow> \<exists>i. n = jn i \<and> stringify fmt (JNum n) = show_int i"
  by (auto simp: num_text_def split: js_num.splits)

lemma show_int_chars: "list_all num_char (show_int i)"
  using show_nat_digits [of "nat i"] show_nat_digits [of "nat (- i)"]
  by (auto simp: show_int_def num_char_def list_all_iff)

lemma show_int_inj: "show_int i = show_int j \<Longrightarrow> i = j"
proof -
  have d: "hd (show_nat n) \<noteq> CHR ''-''" for n
    using show_nat_digits [of n] by (cases "show_nat n") (auto simp: char_class_simps code_def)
  assume "show_int i = show_int j"
  then show "i = j"
    using d [of "nat i"] d [of "nat j"] by (auto simp: show_int_def split: if_splits) (metis list.sel(1))+
qed

text \<open>The first character tells the kinds of values apart.\<close>

fun json_kind :: "json \<Rightarrow> nat" where
  "json_kind JNull = 0"
| "json_kind (JBool b) = (if b then 1 else 2)"
| "json_kind (JNum n) = 3"
| "json_kind (JStr s) = 4"
| "json_kind (JArr xs) = 5"
| "json_kind (JObj ps) = 6"

definition first_kind :: "char \<Rightarrow> nat" where
  "first_kind c = (if c = CHR ''n'' then 0 else if c = CHR ''t'' then 1 else if c = CHR ''f'' then 2 else if c = CHR 0x22 then 4
     else if c = CHR ''['' then 5 else if c = CHR ''{'' then 6 else if num_char c then 3 else 7)"

lemma num_char_kind: "num_char c \<Longrightarrow> first_kind c = 3"
  by (auto simp: first_kind_def num_char_def char_class_simps code_def)

lemma show_int_nonempty: "show_int i \<noteq> []"
  by (simp add: show_int_def)

lemma stringify_first:
  assumes "plain_json v"
  shows "stringify fmt v \<noteq> []" "first_kind (hd (stringify fmt v)) = json_kind v"
proof -
  have "stringify fmt v \<noteq> [] \<and> first_kind (hd (stringify fmt v)) = json_kind v"
  proof (cases v)
    case (JNum n)
    with assms number_text [of n fmt] obtain i where i: "stringify fmt v = show_int i" by auto
    have "num_char (hd (show_int i))"
      using show_int_chars [of i] show_int_nonempty [of i] by (cases "show_int i") auto
    with i JNum show ?thesis by (simp add: num_char_kind show_int_nonempty)
  qed (simp_all add: first_kind_def quote_def)
  then show "stringify fmt v \<noteq> []" "first_kind (hd (stringify fmt v)) = json_kind v" by simp_all
qed

lemma same_kind:
  assumes "plain_json v" "plain_json w" "stringify fmt v @ r = stringify fmt w @ r'"
  shows "json_kind v = json_kind w"
proof -
  have "hd (stringify fmt v @ r) = hd (stringify fmt w @ r')" using assms(3) by simp
  then show ?thesis using stringify_first [OF assms(1), of fmt] stringify_first [OF assms(2), of fmt] by simp
qed

lemma decodesI:
  assumes "plain_json v" "plain_json w"
    and "\<And>r r'. json_kind v = json_kind w \<Longrightarrow> stringify fmt v @ r = stringify fmt w @ r' \<Longrightarrow> delim r \<Longrightarrow> delim r' \<Longrightarrow> v = w \<and> r = r'"
  shows "decodes (stringify fmt) v w"
  using assms same_kind unfolding decodes_def by blast

lemma stringify_close: "plain_json v \<Longrightarrow> hd (stringify fmt v) \<noteq> CHR '']'' \<and> hd (stringify fmt v) \<noteq> CHR ''}''"
proof -
  assume "plain_json v"
  from stringify_first(2) [OF this, of fmt] have "first_kind (hd (stringify fmt v)) \<noteq> 7" by (cases v) auto
  then show ?thesis by (auto simp: first_kind_def num_char_def char_class_simps code_def)
qed

definition member_text :: "(rat \<Rightarrow> string) \<Rightarrow> string \<times> json \<Rightarrow> string" where
  "member_text fmt = (\<lambda>(k, v). quote k @ '':'' @ stringify fmt v)"

lemma member_decodes:
  assumes "decodes (stringify fmt) (snd p) (snd q)"
  shows "decodes (member_text fmt) p q"
proof -
  have "p = q \<and> r = r'" if "delim r" "delim r'" "member_text fmt p @ r = member_text fmt q @ r'" for r r'
  proof -
    have "quote (fst p) @ CHR '':'' # stringify fmt (snd p) @ r = quote (fst q) @ CHR '':'' # stringify fmt (snd q) @ r'"
      using that(3) by (simp add: member_text_def split_def)
    note k = quote_decode [OF this]
    then have "stringify fmt (snd p) @ r = stringify fmt (snd q) @ r'" by simp
    from decodesD [OF assms this that(1,2)] k show ?thesis by (simp add: prod_eq_iff)
  qed
  then show ?thesis by (simp add: decodes_def)
qed

lemma stringify_decodes: "plain_json v \<Longrightarrow> plain_json w \<Longrightarrow> decodes (stringify fmt) v w"
proof (induction v arbitrary: w rule: sorted_json.induct)
  case (1 xs)
  show ?case
  proof (rule decodesI [OF 1(2,3)])
    fix r r' assume k: "json_kind (JArr xs) = json_kind w" and eq: "stringify fmt (JArr xs) @ r = stringify fmt w @ r'"
    from k obtain ys where w: "w = JArr ys" by (cases w) (auto split: if_splits)
    have "xs = ys \<and> r = r'"
    proof (rule decode_list [where e = "CHR '']''" and P = plain_json and f = "stringify fmt"])
      show "comma_sep (map (stringify fmt) xs) @ CHR '']'' # r = comma_sep (map (stringify fmt) ys) @ CHR '']'' # r'"
        using eq w by simp
    qed (use 1 w in \<open>auto simp: list_all_iff stringify_close stringify_first(1)\<close>)
    with w show "JArr xs = w \<and> r = r'" by simp
  qed
next
  case (2 ps)
  show ?case
  proof (rule decodesI [OF 2(2,3)])
    fix r r' assume k: "json_kind (JObj ps) = json_kind w" and eq: "stringify fmt (JObj ps) @ r = stringify fmt w @ r'"
    from k obtain qs where w: "w = JObj qs" by (cases w) (auto split: if_splits)
    have "ps = qs \<and> r = r'"
    proof (rule decode_list [where e = "CHR ''}''" and P = "\<lambda>p. plain_json (snd p)" and f = "member_text fmt"])
      show "comma_sep (map (member_text fmt) ps) @ CHR ''}'' # r = comma_sep (map (member_text fmt) qs) @ CHR ''}'' # r'"
        using eq w by (simp add: member_text_def)
      show "hd (member_text fmt p) \<noteq> CHR ''}'' \<and> member_text fmt p \<noteq> []" for p
        by (simp add: member_text_def quote_def split_def)
      show "decodes (member_text fmt) p q" if p: "p \<in> set ps" and q: "plain_json (snd q)" for p q
      proof (rule member_decodes)
        have "plain_json (snd p)" using 2(2) p by (simp add: list_all_iff)
        then show "decodes (stringify fmt) (snd p) (snd q)" using 2(1) [of p "fst p" "snd p" "snd q"] p q by simp
      qed
    qed (use 2 w in \<open>auto simp: list_all_iff\<close>)
    with w show "JObj ps = w \<and> r = r'" by simp
  qed
next
  case 3
  show ?case
    by (rule decodesI [OF 3]) (cases w; simp split: if_splits)
next
  case (4 b)
  show ?case
    by (rule decodesI [OF 4]) (cases w; simp split: if_splits)
next
  case (5 n)
  show ?case
  proof (rule decodesI [OF 5])
    fix r r' assume k: "json_kind (JNum n) = json_kind w" and eq: "stringify fmt (JNum n) @ r = stringify fmt w @ r'" and d: "delim r" "delim r'"
    from k obtain m where w: "w = JNum m" by (cases w) (auto split: if_splits)
    obtain i where i: "n = jn i" "stringify fmt (JNum n) = show_int i" using number_text 5(1) by blast
    obtain j where j: "m = jn j" "stringify fmt (JNum m) = show_int j" using number_text 5(2) w by blast
    have "show_int i = show_int j \<and> r = r'"
      using eq i j w d by (intro num_decode show_int_chars) auto
    with i j w show "JNum n = w \<and> r = r'" by (auto dest: show_int_inj)
  qed
next
  case (6 s)
  show ?case
  proof (rule decodesI [OF 6])
    fix r r' assume k: "json_kind (JStr s) = json_kind w" and eq: "stringify fmt (JStr s) @ r = stringify fmt w @ r'"
    from k obtain t where w: "w = JStr t" by (cases w) (auto split: if_splits)
    with eq have "quote s @ r = quote t @ r'" by simp
    from quote_decode [OF this] w show "JStr s = w \<and> r = r'" by simp
  qed
qed

lemma sort_members_perm:
  assumes "mset ps = mset qs" "distinct (map fst ps)" "list_all (\<lambda>p. list_all (\<lambda>c. code c < 128) (fst p)) ps"
  shows "sort_members ps = sort_members qs"
proof -
  have "inj_on (\<lambda>p. utf16 (fst p)) (set ps)"
  proof (rule inj_onI)
    fix x y assume xy: "x \<in> set ps" "y \<in> set ps" "utf16 (fst x) = utf16 (fst y)"
    then have "fst x = fst y" using assms(3) utf16_inj by (auto simp: list_all_iff)
    with xy assms(2) show "x = y" by (auto simp: distinct_map inj_on_def)
  qed
  then show ?thesis
    unfolding sort_members_def using assms(1) by (intro sort_key_inj_key_eq) auto
qed

lemma same_sorted: "same_json v w \<Longrightarrow> plain_json v \<Longrightarrow> plain_json w \<Longrightarrow> sorted_json v = sorted_json w"
proof (induction rule: same_json.induct)
  case (same_arr xs ys)
  then show ?case by (auto simp: list_all2_conv_all_nth list_all_length intro!: nth_equalityI)
next
  case (same_obj ps' ps qs' qs)
  have sets: "set ps' = set ps" "set qs' = set qs" using same_obj(1,2) mset_eq_setD by blast+
  have "map (\<lambda>(k, v). (k, sorted_json v)) ps' = map (\<lambda>(k, v). (k, sorted_json v)) qs'"
  proof (rule nth_equalityI)
    show "length (map (\<lambda>(k, v). (k, sorted_json v)) ps') = length (map (\<lambda>(k, v). (k, sorted_json v)) qs')"
      using same_obj(3) by (simp add: list_all2_lengthD)
    fix i assume "i < length (map (\<lambda>(k, v). (k, sorted_json v)) ps')"
    then have i: "i < length ps'" "i < length qs'" using same_obj(3) by (simp_all add: list_all2_lengthD)
    then have "ps' ! i \<in> set ps" "qs' ! i \<in> set qs" using sets nth_mem by metis+
    then have "plain_json (snd (ps' ! i))" "plain_json (snd (qs' ! i))" using same_obj(4,5) by (auto simp: list_all_iff)
    with same_obj(3) i show "map (\<lambda>(k, v). (k, sorted_json v)) ps' ! i = map (\<lambda>(k, v). (k, sorted_json v)) qs' ! i"
      by (auto simp: list_all2_conv_all_nth split_def)
  qed
  then have "mset (map (\<lambda>(k, v). (k, sorted_json v)) ps) = mset (map (\<lambda>(k, v). (k, sorted_json v)) qs)"
    using same_obj(1,2) by (metis mset_map)
  moreover have "distinct (map fst (map (\<lambda>(k, v). (k, sorted_json v)) ps))"
    using same_obj(4) by (simp add: comp_def split_def)
  moreover have "list_all (\<lambda>p. list_all (\<lambda>c. code c < 128) (fst p)) (map (\<lambda>(k, v). (k, sorted_json v)) ps)"
    using same_obj(4) by (auto simp: list_all_iff)
  ultimately show ?case by (simp add: sort_members_perm)
qed simp_all

lemma sorted_same: "sorted_json v = sorted_json w \<Longrightarrow> same_json v w"
proof (induction v arbitrary: w rule: sorted_json.induct)
  case (1 xs)
  from 1(2) obtain ys where w: "w = JArr ys" by (cases w) auto
  with 1(2) have eq: "map sorted_json xs = map sorted_json ys" by simp
  have "list_all2 same_json xs ys"
    unfolding list_all2_conv_all_nth
  proof (intro conjI allI impI)
    show len: "length xs = length ys" using eq map_eq_imp_length_eq by blast
    fix i assume i: "i < length xs"
    with eq len have "sorted_json (xs ! i) = sorted_json (ys ! i)" by (metis nth_map)
    with 1(1) i show "same_json (xs ! i) (ys ! i)" by simp
  qed
  then show ?case unfolding w by (rule same_arr)
next
  case (2 ps)
  from 2(2) obtain qs where w: "w = JObj qs" by (cases w) auto
  define f where "f = (\<lambda>(k :: string, v). (k, sorted_json v))"
  have eq: "map f (sort_members ps) = map f (sort_members qs)" using 2(2) w by (simp add: sort_members_map f_def)
  have "list_all2 (\<lambda>p q. fst p = fst q \<and> same_json (snd p) (snd q)) (sort_members ps) (sort_members qs)"
    unfolding list_all2_conv_all_nth
  proof (intro conjI allI impI)
    show len: "length (sort_members ps) = length (sort_members qs)" using eq map_eq_imp_length_eq by blast
    fix i assume i: "i < length (sort_members ps)"
    have "map f (sort_members ps) ! i = map f (sort_members qs) ! i" using eq by simp
    then have fi: "f (sort_members ps ! i) = f (sort_members qs ! i)" using i len by simp
    then show "fst (sort_members ps ! i) = fst (sort_members qs ! i)" by (simp add: f_def split_def)
    have m: "sort_members ps ! i \<in> set ps" using nth_mem [OF i] by simp
    have "sorted_json (snd (sort_members ps ! i)) = sorted_json (snd (sort_members qs ! i))"
      using fi by (simp add: f_def split_def)
    with 2(1) [OF m prod.collapse] show "same_json (snd (sort_members ps ! i)) (snd (sort_members qs ! i))" by blast
  qed
  then show ?case unfolding w by (intro same_obj [of "sort_members ps" ps "sort_members qs" qs]) simp_all
next
  case (3 w)
  then show ?case by (cases w) (auto intro: same_json.intros)
next
  case (4 b w)
  then show ?case by (cases w) (auto intro: same_json.intros)
next
  case (5 n w)
  then show ?case by (cases w) (auto intro: same_json.intros)
next
  case (6 s w)
  then show ?case by (cases w) (auto intro: same_json.intros)
qed

text \<open>Every number in the value is finite.\<close>

fun finite_json :: "json \<Rightarrow> bool" where
  "finite_json (JNum n) = (case n of Fin q \<Rightarrow> True | _ \<Rightarrow> False)"
| "finite_json (JArr xs) = list_all finite_json xs"
| "finite_json (JObj ps) = list_all (\<lambda>(k, v). finite_json v) ps"
| "finite_json v = True"

lemma sequence_fails:
  "(\<forall>r \<in> set rs. r = Inl e \<or> (\<exists>x. r = Inr x)) \<Longrightarrow>
    (case sequence rs of Inl e' \<Rightarrow> e' = e \<and> Inl e \<in> set rs | Inr xs \<Rightarrow> Inl e \<notin> set rs)"
proof (induction rs)
  case (Cons r rs)
  then show ?case by (cases r; cases "sequence rs") auto
qed simp

lemma canonicalize_defined:
  "canonicalize fmt v = (if finite_json v then Inr (projr (canonicalize fmt v)) else Inl NON_FINITE)"
proof (induction fmt v rule: canonicalize.induct)
  case (3 fmt n)
  then show ?case by (cases n) simp_all
next
  case (5 fmt xs)
  have e: "canonicalize fmt x = Inl NON_FINITE \<longleftrightarrow> \<not> finite_json x" "canonicalize fmt x = Inl NON_FINITE \<or> (\<exists>t. canonicalize fmt x = Inr t)"
    if "x \<in> set xs" for x using 5 [OF that] by (auto split: if_splits)
  have "\<forall>r \<in> set (map (canonicalize fmt) xs). r = Inl NON_FINITE \<or> (\<exists>x. r = Inr x)" using e(2) by simp
  from sequence_fails [OF this] show ?case
    using e(1) by (cases "sequence (map (canonicalize fmt) xs)") (force simp: list_all_iff image_iff)+
next
  case (6 fmt ps)
  let ?m = "\<lambda>(k, v). bindE (canonicalize fmt v) (\<lambda>t. Inr (quote k @ '':'' @ t))"
  have e: "?m p = Inl NON_FINITE \<longleftrightarrow> \<not> finite_json (snd p)" "?m p = Inl NON_FINITE \<or> (\<exists>t. ?m p = Inr t)" if "p \<in> set ps" for p
  proof -
    have "p \<in> set (sort_members ps)" using that by simp
    from 6 [OF this prod.collapse]
    consider t where "canonicalize fmt (snd p) = Inr t" "finite_json (snd p)"
      | "canonicalize fmt (snd p) = Inl NON_FINITE" "\<not> finite_json (snd p)" by metis
    then have "(?m p = Inl NON_FINITE \<longleftrightarrow> \<not> finite_json (snd p)) \<and> (?m p = Inl NON_FINITE \<or> (\<exists>t. ?m p = Inr t))"
      by cases (simp_all add: split_def)
    then show "?m p = Inl NON_FINITE \<longleftrightarrow> \<not> finite_json (snd p)" "?m p = Inl NON_FINITE \<or> (\<exists>t. ?m p = Inr t)" by blast+
  qed
  have s: "set (map ?m (sort_members ps)) = ?m ` set ps" by simp
  have "\<forall>r \<in> set (map ?m (sort_members ps)). r = Inl NON_FINITE \<or> (\<exists>x. r = Inr x)" using e(2) by simp
  from sequence_fails [OF this] have "case sequence (map ?m (sort_members ps)) of
      Inl x \<Rightarrow> x = NON_FINITE \<and> Inl NON_FINITE \<in> ?m ` set ps | Inr xs \<Rightarrow> Inl NON_FINITE \<notin> ?m ` set ps"
    unfolding s .
  moreover have "Inl NON_FINITE \<in> ?m ` set ps \<longleftrightarrow> \<not> finite_json (JObj ps)"
    using e(1) by (force simp: list_all_iff image_iff)
  ultimately show ?case by (cases "sequence (map ?m (sort_members ps))") auto
qed simp_all

text \<open>C20: canonical text commits to the content. \<open>canonicalize\<close> succeeds on exactly the values all of whose numbers are
  finite, and throws \<open>non-finite number in bundle\<close> on every other. For values as the bundle schema lets them through, two
  values have the same canonical text exactly when they are the same up to the order of the members of their objects, at
  every level; so has the text that is hashed.
\<close>

theorem canonical_commits:
  assumes "plain_json v" "plain_json w"
  shows "(\<forall>u. isOk (canonicalize fmt u) \<longleftrightarrow> finite_json u) \<and>
    (\<forall>u. canonicalize fmt u = Inl NON_FINITE \<longleftrightarrow> \<not> finite_json u) \<and>
    isOk (canonicalize fmt v) \<and> (canonicalize fmt v = canonicalize fmt w \<longleftrightarrow> same_json v w)"
proof -
  have def: "isOk (canonicalize fmt u) \<longleftrightarrow> finite_json u" "canonicalize fmt u = Inl NON_FINITE \<longleftrightarrow> \<not> finite_json u" for u
    by (subst canonicalize_defined; simp)+
  have "stringify fmt (sorted_json v) = stringify fmt (sorted_json w) \<longleftrightarrow> sorted_json v = sorted_json w"
    using decodesD [OF stringify_decodes [OF assms [THEN sorted_json_plain]], of fmt "[]" "[]"] by auto
  moreover have "sorted_json v = sorted_json w \<longleftrightarrow> same_json v w"
    using same_sorted sorted_same assms by blast
  ultimately show ?thesis using assms def by (simp add: canonicalize_sorted)
qed

definition demo_members :: "(string \<times> json) list" where
  "demo_members = [(''serial'', JStr ''FV-1''), (''fill'', JNum (jn 80)), (''media'', JArr [JNull, JBool True])]"

theorem canonical_commits_witness:
  "canonicalize (\<lambda>_. []) (JObj demo_members) = canonicalize (\<lambda>_. []) (JObj (rev demo_members))"
proof -
  have "plain_json (JObj demo_members)" "plain_json (JObj (rev demo_members))"
    by (simp_all add: demo_members_def code_def)
  moreover have "same_json (JObj demo_members) (JObj (rev demo_members))"
    by (rule same_obj [of demo_members _ demo_members])
      (simp_all add: demo_members_def same_str same_num same_arr same_null same_bool)
  ultimately show ?thesis using canonical_commits by blast
qed

end
