(* ===== verification/Web_Pending.thy ===== *)
theory Web_Pending
  imports FV_Json Web_Send "HOL-Library.AList"
begin

text \<open>
  \<open>apps/web/src/lib/pending-events.ts\<close>: escrow transactions that landed but whose history entry has not
  reached the verifier, kept per order in the browser's storage. An entry is the JSON object that is
  stored. \<open>JSON.parse\<close> is a parameter (\<open>None\<close>: it throws). The list refines a map from signatures.
\<close>

section \<open>The browser's storage\<close>

text \<open>A blocked storage throws on every access; \<open>setItem\<close> throws when the value does not fit.\<close>

record kv_store =
  kv_items :: "string \<rightharpoonup> string"
  kv_blocked :: bool
  kv_fits :: "string \<Rightarrow> bool"

definition getItem :: "kv_store \<Rightarrow> string \<Rightarrow> unit + string option" where
  "getItem s k = (if kv_blocked s then Inl () else Inr (kv_items s k))"

text \<open>The store after a call that may throw, with the error caught.\<close>

definition setItem :: "kv_store \<Rightarrow> string \<Rightarrow> string \<Rightarrow> kv_store" where
  "setItem s k v = (if kv_blocked s \<or> \<not> kv_fits s v then s else s\<lparr>kv_items := (kv_items s)(k \<mapsto> v)\<rparr>)"

definition removeItem :: "kv_store \<Rightarrow> string \<Rightarrow> kv_store" where
  "removeItem s k = (if kv_blocked s then s else s\<lparr>kv_items := (kv_items s)(k := None)\<rparr>)"

section \<open>Entries\<close>

definition pendingKey :: "string \<Rightarrow> string" where
  "pendingKey order = ''fv.pendingEvent.'' @ order"

definition isPending :: "json \<Rightarrow> bool" where
  "isPending v \<longleftrightarrow> (case jstring (jget v ''sig'') of Some s \<Rightarrow> s \<noteq> [] | None \<Rightarrow> False) \<and>
     jnumber (jget v ''type'') \<noteq> None \<and> is_object (jget v ''payload'')"

definition sig_of :: "json \<Rightarrow> string" where
  "sig_of v = (case jstring (jget v ''sig'') of Some s \<Rightarrow> s | None \<Rightarrow> [])"

definition parsePending :: "(string \<Rightarrow> json option) \<Rightarrow> string option \<Rightarrow> json list" where
  "parsePending parse raw = (case raw of None \<Rightarrow> [] | Some t \<Rightarrow>
     if t = [] then []
     else (case parse t of
         None \<Rightarrow> []
       | Some v \<Rightarrow> filter isPending (case v of JArr xs \<Rightarrow> xs | _ \<Rightarrow> [v])))"

definition withPending :: "json list \<Rightarrow> json \<Rightarrow> json list" where
  "withPending ps p = (if list_ex (\<lambda>x. sig_of x = sig_of p) ps
     then map (\<lambda>x. if sig_of x = sig_of p then p else x) ps else ps @ [p])"

definition withoutPending :: "json list \<Rightarrow> string \<Rightarrow> json list" where
  "withoutPending ps s = filter (\<lambda>x. sig_of x \<noteq> s) ps"

definition loadPending :: "(string \<Rightarrow> json option) \<Rightarrow> string \<Rightarrow> kv_store option \<Rightarrow> json list" where
  "loadPending parse order kv = (case kv of
     None \<Rightarrow> parsePending parse None
   | Some s \<Rightarrow> (case getItem s (pendingKey order) of Inl _ \<Rightarrow> [] | Inr raw \<Rightarrow> parsePending parse raw))"

definition savePending :: "(rat \<Rightarrow> string) \<Rightarrow> string \<Rightarrow> json list \<Rightarrow> kv_store option \<Rightarrow> kv_store option" where
  "savePending fmt order ps kv = map_option (\<lambda>s.
     if ps \<noteq> [] then setItem s (pendingKey order) (stringify fmt (JArr ps)) else removeItem s (pendingKey order)) kv"

definition rememberPending ::
  "(string \<Rightarrow> json option) \<Rightarrow> (rat \<Rightarrow> string) \<Rightarrow> string \<Rightarrow> json \<Rightarrow> kv_store option \<Rightarrow> json list \<times> kv_store option" where
  "rememberPending parse fmt order p kv =
    (let ps = withPending (loadPending parse order kv) p in (ps, savePending fmt order ps kv))"

definition forgetPending ::
  "(string \<Rightarrow> json option) \<Rightarrow> (rat \<Rightarrow> string) \<Rightarrow> string \<Rightarrow> string \<Rightarrow> kv_store option \<Rightarrow> json list \<times> kv_store option" where
  "forgetPending parse fmt order s kv =
    (let ps = withoutPending (loadPending parse order kv) s in (ps, savePending fmt order ps kv))"

text \<open>What is left and the first error, over the entries still to post.\<close>

fun flush_loop ::
  "(json \<Rightarrow> thrown option) \<Rightarrow> (thrown \<Rightarrow> bool) \<Rightarrow> json list \<Rightarrow> json list \<times> thrown option \<Rightarrow> json list \<times> thrown option" where
  "flush_loop post settled [] st = st"
| "flush_loop post settled (p # ps) (left, err) =
    flush_loop post settled ps
      (case post p of
         None \<Rightarrow> (withoutPending left (sig_of p), err)
       | Some e \<Rightarrow> if settled e then (withoutPending left (sig_of p), err)
                   else (left, if err = None then Some e else err))"

definition flushPending ::
  "json list \<Rightarrow> (json \<Rightarrow> thrown option) \<Rightarrow> (thrown \<Rightarrow> bool) \<Rightarrow> json list \<times> thrown option" where
  "flushPending ps post settled = flush_loop post settled ps (ps, None)"

section \<open>A store that keeps what it is given\<close>

locale key_value =
  fixes ok :: "'s \<Rightarrow> bool"
    and look :: "'s \<Rightarrow> string \<Rightarrow> string option"
    and put :: "'s \<Rightarrow> string \<Rightarrow> string \<Rightarrow> 's"
    and del :: "'s \<Rightarrow> string \<Rightarrow> 's"
  assumes put_ok: "ok s \<Longrightarrow> ok (put s k v)"
    and del_ok: "ok s \<Longrightarrow> ok (del s k)"
    and look_put: "ok s \<Longrightarrow> look (put s k v) k' = (if k' = k then Some v else look s k')"
    and look_del: "ok s \<Longrightarrow> look (del s k) k' = (if k' = k then None else look s k')"
begin

text \<open>Writing a list under its key, or removing the key when it is empty.\<close>

definition store :: "('a list \<Rightarrow> string) \<Rightarrow> 's \<Rightarrow> string \<Rightarrow> 'a list \<Rightarrow> 's" where
  "store enc s k xs = (if xs \<noteq> [] then put s k (enc xs) else del s k)"

lemma store_ok: "ok s \<Longrightarrow> ok (store enc s k xs)"
  by (simp add: store_def put_ok del_ok)

lemma look_store:
  "ok s \<Longrightarrow> look (store enc s k xs) k' = (if k' = k then if xs \<noteq> [] then Some (enc xs) else None else look s k')"
  by (simp add: store_def look_put look_del)

end

definition kv_ok :: "kv_store \<Rightarrow> bool" where
  "kv_ok s \<longleftrightarrow> \<not> kv_blocked s \<and> (\<forall>v. kv_fits s v)"

interpretation kv: key_value kv_ok kv_items setItem removeItem
  by unfold_locales (simp_all add: kv_ok_def setItem_def removeItem_def)

section \<open>The list as a map of signatures\<close>

definition abs_pending :: "json list \<Rightarrow> string \<rightharpoonup> json" where
  "abs_pending ps = map_of (map (\<lambda>p. (sig_of p, p)) ps)"

definition one_per_sig :: "json list \<Rightarrow> bool" where
  "one_per_sig ps \<longleftrightarrow> distinct (map sig_of ps) \<and> list_all isPending ps"

text \<open>\<open>JSON.parse\<close> reads back what \<open>JSON.stringify\<close> wrote for this list.\<close>

definition reads_back :: "(string \<Rightarrow> json option) \<Rightarrow> (rat \<Rightarrow> string) \<Rightarrow> json list \<Rightarrow> bool" where
  "reads_back parse fmt ps \<longleftrightarrow> parse (stringify fmt (JArr ps)) = Some (JArr ps)"

lemma abs_pending_None: "abs_pending ps s = None \<longleftrightarrow> s \<notin> sig_of ` set ps"
  by (simp add: abs_pending_def map_of_eq_None_iff image_image)

lemma replace_sigs: "map sig_of (map (\<lambda>x. if sig_of x = sig_of p then p else x) ps) = map sig_of ps"
  by (induction ps) auto

lemma abs_snoc: "sig_of p \<notin> sig_of ` set ps \<Longrightarrow> abs_pending (ps @ [p]) = (abs_pending ps)(sig_of p \<mapsto> p)"
  by (induction ps) (auto simp: abs_pending_def fun_eq_iff)

lemma with_abs: "abs_pending (withPending ps p) = (abs_pending ps)(sig_of p \<mapsto> p)"
proof (cases "sig_of p \<in> sig_of ` set ps")
  case True
  have "map_of (map (\<lambda>x. (sig_of x, x)) (map (\<lambda>x. if sig_of x = sig_of p then p else x) ps)) s =
      ((map_of (map (\<lambda>x. (sig_of x, x)) ps))(sig_of p \<mapsto> p)) s" if "sig_of p \<in> sig_of ` set ps \<or> s \<noteq> sig_of p" for s
    using that by (induction ps) auto
  with True have "map_of (map (\<lambda>x. (sig_of x, x)) (map (\<lambda>x. if sig_of x = sig_of p then p else x) ps)) =
      (map_of (map (\<lambda>x. (sig_of x, x)) ps))(sig_of p \<mapsto> p)" by blast
  with True show ?thesis
    by (auto simp: withPending_def abs_pending_def list_ex_iff)
next
  case False
  then have "\<forall>x \<in> set ps. sig_of x \<noteq> sig_of p" by (metis image_eqI)
  then have "\<not> list_ex (\<lambda>x. sig_of x = sig_of p) ps" unfolding list_ex_iff by blast
  with False show ?thesis by (simp add: withPending_def abs_snoc)
qed

lemma without_abs: "abs_pending (withoutPending ps s) = (abs_pending ps)(s := None)"
  by (induction ps) (auto simp: withoutPending_def abs_pending_def fun_eq_iff)

lemma with_ok: "one_per_sig ps \<Longrightarrow> isPending p \<Longrightarrow> one_per_sig (withPending ps p)"
  by (auto simp: one_per_sig_def withPending_def replace_sigs [unfolded list.map_comp, simplified] list_all_iff list_ex_iff
      simp del: map_map simp: replace_sigs)

lemma without_ok: "one_per_sig ps \<Longrightarrow> one_per_sig (withoutPending ps s)"
  by (auto simp: one_per_sig_def withoutPending_def list_all_iff distinct_map intro: inj_on_subset)

lemma load_stored:
  assumes "kv_ok s" "reads_back parse fmt ps" "list_all isPending ps"
  shows "savePending fmt order ps (Some s) = Some (kv.store (\<lambda>ps. stringify fmt (JArr ps)) s (pendingKey order) ps)"
    "loadPending parse order (savePending fmt order ps (Some s)) = ps"
    "order' \<noteq> order \<Longrightarrow> loadPending parse order' (savePending fmt order ps (Some s)) = loadPending parse order' (Some s)"
proof -
  show eq: "savePending fmt order ps (Some s) = Some (kv.store (\<lambda>ps. stringify fmt (JArr ps)) s (pendingKey order) ps)"
    by (simp add: savePending_def kv.store_def)
  have up: "\<not> kv_blocked (kv.store (\<lambda>ps. stringify fmt (JArr ps)) s (pendingKey order) ps)" "\<not> kv_blocked s"
    using kv.store_ok [OF assms(1)] assms(1) by (auto simp: kv_ok_def)
  show "loadPending parse order (savePending fmt order ps (Some s)) = ps"
    unfolding eq using up assms
    by (simp add: loadPending_def getItem_def kv.look_store parsePending_def reads_back_def list_all_iff)
  assume "order' \<noteq> order"
  then have "pendingKey order' \<noteq> pendingKey order" by (simp add: pendingKey_def)
  then show "loadPending parse order' (savePending fmt order ps (Some s)) = loadPending parse order' (Some s)"
    unfolding eq using up assms(1) by (simp add: loadPending_def getItem_def kv.look_store)
qed

text \<open>The map the store holds for an order.\<close>

definition stored :: "(string \<Rightarrow> json option) \<Rightarrow> kv_store \<Rightarrow> string \<Rightarrow> string \<rightharpoonup> json" where
  "stored parse s order = abs_pending (loadPending parse order (Some s))"

text \<open>C19: the stored list refines a map from signatures to entries, one per order. In a store that accepts what it is
  given, remembering an entry is the update of its signature in the map of its order and forgetting is the deletion;
  every other signature and every other order is as before, what the call returns is what is loaded next, and
  signatures stay unique. So a second landed action never overwrites one that is not posted yet.
\<close>

theorem pending_refines_map:
  assumes "kv_ok s" "one_per_sig (loadPending parse order (Some s))" "isPending p"
    and "reads_back parse fmt (withPending (loadPending parse order (Some s)) p)"
    and "reads_back parse fmt (withoutPending (loadPending parse order (Some s)) sg)"
  shows "(\<exists>s'. rememberPending parse fmt order p (Some s) = (loadPending parse order (Some s'), Some s') \<and> kv_ok s' \<and>
      one_per_sig (loadPending parse order (Some s')) \<and>
      stored parse s' = (stored parse s)(order := (stored parse s order)(sig_of p \<mapsto> p))) \<and>
    (\<exists>s'. forgetPending parse fmt order sg (Some s) = (loadPending parse order (Some s'), Some s') \<and> kv_ok s' \<and>
      one_per_sig (loadPending parse order (Some s')) \<and>
      stored parse s' = (stored parse s)(order := (stored parse s order)(sg := None)))"
proof -
  have *: "\<exists>s'. (ps, savePending fmt order ps (Some s)) = (loadPending parse order (Some s'), Some s') \<and> kv_ok s' \<and>
      one_per_sig (loadPending parse order (Some s')) \<and> stored parse s' = (stored parse s)(order := abs_pending ps)"
    if "one_per_sig ps" "reads_back parse fmt ps" for ps
  proof -
    have all: "list_all isPending ps" using that by (simp add: one_per_sig_def)
    note l = load_stored [OF assms(1) that(2) all]
    let ?s = "kv.store (\<lambda>ps. stringify fmt (JArr ps)) s (pendingKey order) ps"
    have "loadPending parse order (Some ?s) = ps" using l(1,2) by simp
    moreover have "stored parse ?s = (stored parse s)(order := abs_pending ps)"
      using l(1,2) l(3) by (auto simp: stored_def fun_eq_iff)
    ultimately show ?thesis using l(1) kv.store_ok [OF assms(1)] that by auto
  qed
  from * [OF with_ok [OF assms(2,3)] assms(4)] * [OF without_ok [OF assms(2)] assms(5)] show ?thesis
    by (simp add: rememberPending_def forgetPending_def Let_def with_abs without_abs stored_def)
qed

definition demo_entry :: "string \<Rightarrow> json" where
  "demo_entry s = JObj [(''sig'', JStr s), (''type'', JNum (jn 4)), (''payload'', JObj [])]"

definition demo_parse :: "(rat \<Rightarrow> string) \<Rightarrow> string \<Rightarrow> json option" where
  "demo_parse fmt t = (if t = stringify fmt (JArr [demo_entry ''a'']) then Some (JArr [demo_entry ''a''])
     else if t = stringify fmt (JArr []) then Some (JArr []) else None)"

definition demo_kv :: kv_store where
  "demo_kv = \<lparr>kv_items = Map.empty, kv_blocked = False, kv_fits = (\<lambda>_. True)\<rparr>"

theorem pending_refines_map_witness:
  "\<exists>s'. rememberPending (demo_parse (\<lambda>_. [])) (\<lambda>_. []) ''o'' (demo_entry ''a'') (Some demo_kv) = (loadPending (demo_parse (\<lambda>_. [])) ''o'' (Some s'), Some s') \<and>
     stored (demo_parse (\<lambda>_. [])) s' ''o'' ''a'' = Some (demo_entry ''a'')"
proof -
  have load: "loadPending (demo_parse (\<lambda>_. [])) ''o'' (Some demo_kv) = []"
    by (simp add: loadPending_def demo_kv_def getItem_def parsePending_def)
  have "kv_ok demo_kv" "isPending (demo_entry ''a'')" "one_per_sig []"
    by (simp_all add: kv_ok_def demo_kv_def isPending_def demo_entry_def one_per_sig_def)
  moreover have "reads_back (demo_parse (\<lambda>_. [])) (\<lambda>_. []) (withPending [] (demo_entry ''a''))" "reads_back (demo_parse (\<lambda>_. [])) (\<lambda>_. []) (withoutPending [] ''b'')"
    by (auto simp: reads_back_def withPending_def withoutPending_def demo_parse_def demo_entry_def)
  ultimately show ?thesis
    using pending_refines_map [of demo_kv "demo_parse (\<lambda>_. [])" "''o''" "demo_entry ''a''" "\<lambda>_. []" "''b''"] load
    by (auto simp: sig_of_def demo_entry_def)
qed

section \<open>Flushing\<close>

text \<open>An entry that needs no more posting: it was posted, or its error says so.\<close>

definition moot :: "(json \<Rightarrow> thrown option) \<Rightarrow> (thrown \<Rightarrow> bool) \<Rightarrow> json \<Rightarrow> bool" where
  "moot post settled p \<longleftrightarrow> (case post p of None \<Rightarrow> True | Some e \<Rightarrow> settled e)"

lemma flush_loop_eq:
  "flush_loop post settled ps (left, err) =
    (filter (\<lambda>x. \<forall>p \<in> set ps. sig_of p = sig_of x \<longrightarrow> \<not> moot post settled p) left,
     if err \<noteq> None then err
     else Option.bind (List.find (\<lambda>p. \<not> moot post settled p) ps) post)"
proof (induction ps arbitrary: left err)
  case (Cons p ps)
  show ?case
  proof (cases "post p")
    case None
    then show ?thesis by (auto simp: Cons moot_def withoutPending_def intro!: filter_cong)
  next
    case (Some e)
    then show ?thesis by (auto simp: Cons moot_def withoutPending_def intro!: filter_cong)
  qed
qed simp

text \<open>
  Flushing posts every entry on its own. What is left are exactly the entries whose post failed without being
  settled, in their order, and the error reported is the one of the first of them; an entry that keeps failing
  holds back no other.
\<close>

theorem flush_leaves_failures:
  assumes "one_per_sig ps"
  shows "flushPending ps post settled =
    (filter (\<lambda>p. \<not> moot post settled p) ps, Option.bind (List.find (\<lambda>p. \<not> moot post settled p) ps) post)"
proof -
  have "filter (\<lambda>x. \<forall>p \<in> set ps. sig_of p = sig_of x \<longrightarrow> \<not> moot post settled p) ps = filter (\<lambda>p. \<not> moot post settled p) ps"
    using assms by (intro filter_cong) (auto simp: one_per_sig_def distinct_map inj_on_def)
  then show ?thesis by (simp add: flushPending_def flush_loop_eq)
qed

lemma demo_one: "one_per_sig [demo_entry ''a'', demo_entry ''b'']"
  by (simp add: one_per_sig_def sig_of_def isPending_def demo_entry_def)

theorem flush_leaves_failures_witness:
  "fst (flushPending [demo_entry ''a'', demo_entry ''b'']
     (\<lambda>p. if p = demo_entry ''a'' then Some (plain (OtherErr ''Error'' ''offline'')) else None) (\<lambda>_. False)) = [demo_entry ''a'']"
  using flush_leaves_failures [OF demo_one] by (simp add: moot_def demo_entry_def)

end
