(* ===== verification/Web_Handoff.thy ===== *)
theory Web_Handoff
  imports Escrow_Rules
begin

text \<open>
  \<open>apps/web/src/lib/handoff.ts\<close>: a tap that opens in one tab and is taken over by the tab that scans. The
  clocks, the redirect targets, and taking the pending tap: under a lock, or by a claim that is checked again
  later, as a step relation over the storage the tabs share. What a slot of the storage holds is the value
  itself; times are seconds for the clocks and milliseconds for the claims.
\<close>

section \<open>Clocks\<close>

record session_clock =
  sc_deadline :: rat
  sc_offset :: rat

record session_times =
  st_expiresAt :: rat
  st_ttl :: "rat option"
  st_issuedAt :: "rat option"

definition ADOPT_WINDOW_S :: rat where "ADOPT_WINDOW_S = 180"
definition ARRIVAL_MARGIN_S :: rat where "ARRIVAL_MARGIN_S = 2"
definition ADOPT_MARGIN_S :: rat where "ADOPT_MARGIN_S = 10"

definition sessionClock :: "session_times \<Rightarrow> rat \<Rightarrow> session_clock" where
  "sessionClock s deviceNow =
    (let ttl = (case st_ttl s of Some t \<Rightarrow> t
           | None \<Rightarrow> (case st_issuedAt s of Some i \<Rightarrow> st_expiresAt s - i | None \<Rightarrow> 90));
         issued = (case st_issuedAt s of Some i \<Rightarrow> i | None \<Rightarrow> st_expiresAt s - ttl)
     in \<lparr>sc_deadline = deviceNow + ttl - ARRIVAL_MARGIN_S, sc_offset = issued - deviceNow\<rparr>)"

datatype limited_by = By_session | By_tap

definition adoptDeadline :: "rat \<Rightarrow> session_clock \<Rightarrow> rat \<times> limited_by" where
  "adoptDeadline tapServerTs clock =
    (let tapDeadline = tapServerTs + ADOPT_WINDOW_S - ADOPT_MARGIN_S - sc_offset clock in
     if tapDeadline < sc_deadline clock then (tapDeadline, By_tap) else (sc_deadline clock, By_session))"

definition secondsLeft :: "rat \<Rightarrow> rat \<Rightarrow> int" where
  "secondsLeft deadline deviceNow = max 0 \<lfloor>deadline - deviceNow + 1 / 2\<rfloor>"

section \<open>Where a tap goes\<close>

text \<open>\<open>/^\/scan(\?[^#\s]*)?$/\<close>\<close>

definition query_text :: "string \<Rightarrow> bool" where
  "query_text q \<longleftrightarrow> CHR ''#'' \<notin> set q \<and> list_all (\<lambda>i. ws_at (drop i q) = 0) [0..<length q]"

definition scan_path :: "string \<Rightarrow> bool" where
  "scan_path u \<longleftrightarrow> u = ''/scan'' \<or> (starts_with u ''/scan?'' \<and> query_text (drop 6 u))"

definition safeScanUrl :: "string option \<Rightarrow> string" where
  "safeScanUrl u = (case u of Some s \<Rightarrow> if scan_path s then s else ''/scan'' | None \<Rightarrow> ''/scan'')"

definition short_number :: "string \<Rightarrow> bool" where
  "short_number v \<longleftrightarrow> v \<noteq> [] \<and> length v \<le> 5 \<and> list_all is_digit v"

fun ampersands :: "string list \<Rightarrow> string" where
  "ampersands [] = []"
| "ampersands [s] = s"
| "ampersands (s # t # ss) = s @ CHR ''&'' # ampersands (t # ss)"

definition scanUrlFor :: "(string \<Rightarrow> string option) \<Rightarrow> string" where
  "scanUrlFor params =
    (let q = ampersands (concat (map (\<lambda>k. case params k of
         Some v \<Rightarrow> if short_number v then [k @ ''='' @ v] else [] | None \<Rightarrow> []) [''tier'', ''role'', ''site'']))
     in if q \<noteq> [] then ''/scan?'' @ q else ''/scan'')"

record tag_params =
  tp_uid :: string
  tp_ctr :: string
  tp_cmac :: string
  tp_piccData :: "string option"
  tp_enc :: "string option"

record scan_session = session_clock +
  ss_nonce :: string
  ss_expiresAt :: rat
  ss_scanUrl :: "string option"

datatype gate_action = Handoff (ga_back: "string option") | Verify (ga_url: string)

definition set_text :: "string option \<Rightarrow> string option" where
  "set_text s = (case s of Some [] \<Rightarrow> None | _ \<Rightarrow> s)"

definition tapGateAction :: "tag_params \<Rightarrow> scan_session option \<Rightarrow> bool \<Rightarrow> string \<Rightarrow> gate_action" where
  "tapGateAction params session ownedHere verifyUrl = (case session of
     Some s \<Rightarrow> Handoff (if ownedHere then Some (safeScanUrl (ss_scanUrl s)) else None)
   | None \<Rightarrow>
       let q = (case set_text (tp_piccData params) of
           Some p \<Rightarrow> ''picc_data='' @ encodeURIComponent p @ ''&cmac='' @ encodeURIComponent (tp_cmac params) @
             (case set_text (tp_enc params) of Some x \<Rightarrow> ''&enc='' @ encodeURIComponent x | None \<Rightarrow> [])
         | None \<Rightarrow> ''uid='' @ encodeURIComponent (tp_uid params) @ ''&ctr='' @ encodeURIComponent (tp_ctr params) @
             ''&cmac='' @ encodeURIComponent (tp_cmac params))
       in Verify (verifyUrl @ ''/t?'' @ q))"

text \<open>Any tab sees the running session; the tab that started it is its owner.\<close>

definition active_session :: "scan_session option \<Rightarrow> rat \<Rightarrow> scan_session option" where
  "active_session slot deviceNow = (case slot of Some s \<Rightarrow> if sc_deadline s > deviceNow then Some s else None | None \<Rightarrow> None)"

definition ownedHere :: "string option \<Rightarrow> scan_session \<Rightarrow> bool" where
  "ownedHere owner s \<longleftrightarrow> owner = Some (ss_nonce s)"

section \<open>Taking the pending tap\<close>

record tap_handoff = tag_params +
  th_ts :: nat
  th_id :: string

definition fresh_tap :: "nat \<Rightarrow> tap_handoff \<Rightarrow> tap_handoff option" where
  "fresh_tap now t = (if now < th_ts t + 3 * 60 * 1000 then Some t else None)"

text \<open>Inside the lock nothing runs in between: the tap taken, and the slot after it.\<close>

definition takeLocked :: "nat \<Rightarrow> tap_handoff option \<Rightarrow> tap_handoff option \<times> tap_handoff option" where
  "takeLocked now slot = (case slot of None \<Rightarrow> (None, None) | Some t \<Rightarrow> (fresh_tap now t, None))"

text \<open>How far one call of \<open>takeClaimed\<close> is. \<open>Claimed\<close> and \<open>Checking\<close> carry the time they began.\<close>

datatype phase =
    Start
  | Read_tap tap_handoff
  | Claimed tap_handoff nat
  | Checking tap_handoff nat
  | Checked tap_handoff nat
  | Dropped tap_handoff nat
  | Took tap_handoff "tap_handoff option"
  | Gave_up

record tabs =
  tb_now :: nat
  tb_handoff :: "tap_handoff option"
  tb_claim :: "(string \<times> nat) option"
  tb_used :: "string set"
  tb_phase :: "nat \<Rightarrow> phase"
  tb_late :: bool

definition SETTLE_MS :: nat where "SETTLE_MS = 60"

definition goes :: "tabs \<Rightarrow> nat \<Rightarrow> phase \<Rightarrow> tabs" where
  "goes s i p = s\<lparr>tb_phase := (tb_phase s)(i := p)\<rparr>"

text \<open>The call is in the task after the pause, since \<open>c\<close>.\<close>

definition holds :: "tabs \<Rightarrow> nat \<Rightarrow> nat \<Rightarrow> bool" where
  "holds s i c \<longleftrightarrow> (\<exists>t. tb_phase s i = Checking t c \<or> tb_phase s i = Checked t c)"

text \<open>
  One access of one call to the storage, a tap stored by \<open>/t\<close> under a new id, or any amount of time passing. The last
  field of the state records whether some call deleted its tap a whole pause or more after it had checked its claim: the
  two are one task, so only a tab that the browser suspends between them does that.
\<close>

inductive tab_step :: "tabs \<Rightarrow> tabs \<Rightarrow> bool" where
  read_none: "tb_phase s i = Start \<Longrightarrow> tb_handoff s = None \<Longrightarrow> tab_step s (goes s i Gave_up)"
| read_tap: "tb_phase s i = Start \<Longrightarrow> tb_handoff s = Some t \<Longrightarrow> tab_step s (goes s i (Read_tap t))"
| write_claim: "tb_phase s i = Read_tap t \<Longrightarrow>
    tab_step s ((goes s i (Claimed t (tb_now s)))\<lparr>tb_claim := Some (th_id t, i)\<rparr>)"
| check_claim: "tb_phase s i = Claimed t w \<Longrightarrow> w + SETTLE_MS \<le> tb_now s \<Longrightarrow>
    tab_step s (goes s i (if (case tb_claim s of Some (_, by') \<Rightarrow> by' = i | None \<Rightarrow> False) then Checking t (tb_now s) else Gave_up))"
| check_tap: "tb_phase s i = Checking t c \<Longrightarrow>
    tab_step s (goes s i (if (case tb_handoff s of Some t' \<Rightarrow> th_id t' = th_id t | None \<Rightarrow> False) then Checked t c else Gave_up))"
| drop_tap: "tb_phase s i = Checked t c \<Longrightarrow>
    tab_step s ((goes s i (Dropped t c))\<lparr>tb_handoff := None, tb_late := tb_late s \<or> c + SETTLE_MS \<le> tb_now s\<rparr>)"
| drop_claim: "tb_phase s i = Dropped t c \<Longrightarrow>
    tab_step s ((goes s i (Took t (fresh_tap (tb_now s) t)))\<lparr>tb_claim := None\<rparr>)"
| set_tap: "th_id t \<notin> tb_used s \<Longrightarrow> tab_step s (s\<lparr>tb_handoff := Some t, tb_used := insert (th_id t) (tb_used s)\<rparr>)"
| tick: "tab_step s (s\<lparr>tb_now := tb_now s + d\<rparr>)"

definition start_tabs :: tabs where
  "start_tabs = \<lparr>tb_now = 0, tb_handoff = None, tb_claim = None, tb_used = {}, tb_phase = (\<lambda>_. Start), tb_late = False\<rparr>"

inductive reach :: "tabs \<Rightarrow> bool" where
  reach_start: "reach start_tabs"
| reach_step: "reach s \<Longrightarrow> tab_step s s' \<Longrightarrow> reach s'"

text \<open>The tap a call works on, and whether the call has deleted it.\<close>

fun tap_of :: "phase \<Rightarrow> tap_handoff option" where
  "tap_of (Read_tap t) = Some t"
| "tap_of (Claimed t _) = Some t"
| "tap_of (Checking t _) = Some t"
| "tap_of (Checked t _) = Some t"
| "tap_of (Dropped t _) = Some t"
| "tap_of (Took t _) = Some t"
| "tap_of _ = None"

fun gone :: "phase \<Rightarrow> string \<Rightarrow> bool" where
  "gone (Dropped t _) x = (th_id t = x)"
| "gone (Took t _) x = (th_id t = x)"
| "gone _ x = False"

definition ids_used :: "tabs \<Rightarrow> bool" where
  "ids_used s \<longleftrightarrow> (\<forall>t. tb_handoff s = Some t \<longrightarrow> th_id t \<in> tb_used s) \<and>
     (\<forall>i t. tap_of (tb_phase s i) = Some t \<longrightarrow> th_id t \<in> tb_used s)"

text \<open>A claim of another call that is still in place was written after the check of any call that holds its own; so the
  checks of two calls that both hold theirs are a whole pause apart.\<close>

definition claim_times :: "tabs \<Rightarrow> bool" where
  "claim_times s \<longleftrightarrow> (\<forall>i c. holds s i c \<longrightarrow> c \<le> tb_now s \<and>
     (\<forall>j t w x. j \<noteq> i \<longrightarrow> tb_phase s j = Claimed t w \<longrightarrow> tb_claim s = Some (x, j) \<longrightarrow> c \<le> w))"

definition apart :: "tabs \<Rightarrow> bool" where
  "apart s \<longleftrightarrow> (\<forall>i j c d. holds s i c \<longrightarrow> holds s j d \<longrightarrow> i \<noteq> j \<longrightarrow> c + SETTLE_MS \<le> d \<or> d + SETTLE_MS \<le> c)"

definition gone_once :: "tabs \<Rightarrow> bool" where
  "gone_once s \<longleftrightarrow> tb_late s \<or> (\<forall>i x. gone (tb_phase s i) x \<longrightarrow>
     (case tb_handoff s of Some t \<Rightarrow> th_id t \<noteq> x | None \<Rightarrow> True) \<and>
     (\<forall>j. j \<noteq> i \<longrightarrow> \<not> gone (tb_phase s j) x) \<and>
     (\<forall>j t c. tb_phase s j = Checked t c \<longrightarrow> th_id t = x \<longrightarrow> c + SETTLE_MS \<le> tb_now s))"

lemma phase_goes [simp]: "tb_phase (goes s i p) j = (if j = i then p else tb_phase s j)"
  "tb_now (goes s i p) = tb_now s" "tb_handoff (goes s i p) = tb_handoff s" "tb_claim (goes s i p) = tb_claim s"
  "tb_used (goes s i p) = tb_used s" "tb_late (goes s i p) = tb_late s"
  by (simp_all add: goes_def)

lemma holds_simps [simp]:
  "holds (goes s i p) j c = (if j = i then (\<exists>t. p = Checking t c \<or> p = Checked t c) else holds s j c)"
  "holds (s\<lparr>tb_claim := cl\<rparr>) j c = holds s j c" "holds (s\<lparr>tb_handoff := h\<rparr>) j c = holds s j c"
  "holds (s\<lparr>tb_handoff := h, tb_used := u\<rparr>) j c = holds s j c" "holds (s\<lparr>tb_now := n\<rparr>) j c = holds s j c"
  "holds (s\<lparr>tb_handoff := h, tb_late := b\<rparr>) j c = holds s j c"
  by (simp_all add: holds_def)

lemma ids_usedD: "ids_used s \<Longrightarrow> tb_phase s i = p \<Longrightarrow> tap_of p = Some t \<Longrightarrow> th_id t \<in> tb_used s"
  by (auto simp: ids_used_def)

lemma gone_used: "ids_used s \<Longrightarrow> gone (tb_phase s i) x \<Longrightarrow> x \<in> tb_used s"
  by (cases "tb_phase s i") (auto dest: ids_usedD)

lemma ids_used_goes:
  "ids_used s \<Longrightarrow> (\<And>t. tap_of p = Some t \<Longrightarrow> th_id t \<in> tb_used s) \<Longrightarrow> ids_used (goes s i p)"
  by (simp add: ids_used_def)

lemma ids_used_step: "tab_step s s' \<Longrightarrow> ids_used s \<Longrightarrow> ids_used s'"
proof (induction rule: tab_step.induct)
  case (read_tap s i t)
  then show ?case by (intro ids_used_goes) (auto simp: ids_used_def)
next
  case (write_claim s i t)
  then have "ids_used (goes s i (Claimed t (tb_now s)))" by (intro ids_used_goes) (auto dest: ids_usedD)
  then show ?case by (simp add: ids_used_def)
next
  case (drop_tap s i t c)
  then have "ids_used (goes s i (Dropped t c))" by (intro ids_used_goes) (auto dest: ids_usedD)
  then show ?case by (simp add: ids_used_def)
next
  case (drop_claim s i t c)
  then have "ids_used (goes s i (Took t (fresh_tap (tb_now s) t)))" by (intro ids_used_goes) (auto dest: ids_usedD)
  then show ?case by (simp add: ids_used_def)
next
  case (set_tap t s)
  then show ?case by (auto simp: ids_used_def)
next
  case (tick s d)
  then show ?case by (simp add: ids_used_def)
qed (auto intro!: ids_used_goes dest: ids_usedD split: if_splits)

lemma claim_timesD:
  assumes "claim_times s" "holds s i c"
  shows "c \<le> tb_now s"
    "j \<noteq> i \<Longrightarrow> tb_phase s j = Claimed t w \<Longrightarrow> tb_claim s = Some (x, j) \<Longrightarrow> c \<le> w"
  using assms unfolding claim_times_def by blast+

lemma claim_timesI:
  assumes "\<And>i c. holds s i c \<Longrightarrow> c \<le> tb_now s"
    "\<And>i c j t w x. holds s i c \<Longrightarrow> j \<noteq> i \<Longrightarrow> tb_phase s j = Claimed t w \<Longrightarrow> tb_claim s = Some (x, j) \<Longrightarrow> c \<le> w"
  shows "claim_times s"
  using assms unfolding claim_times_def by blast

lemma holds_phase: "tb_phase s i = Checking t c \<Longrightarrow> holds s i c" "tb_phase s i = Checked t c \<Longrightarrow> holds s i c"
  by (simp_all add: holds_def)

lemma claim_times_step: "tab_step s s' \<Longrightarrow> claim_times s \<Longrightarrow> claim_times s'"
proof (induction rule: tab_step.induct)
  case (check_claim s i t w)
  note D = claim_timesD [OF check_claim(3)]
  show ?case
    by (rule claim_timesI) (auto dest: D(1) D(2) split: if_splits option.splits)
next
  case (check_tap s i t c)
  note D = claim_timesD [OF check_tap(2)] and H = holds_phase(1) [OF check_tap(1)]
  show ?case
    using D(1) [OF H] D(2) [OF H] by (intro claim_timesI) (auto dest: D(1) D(2) split: if_splits option.splits)
next
  case (tick s d)
  then show ?case
    by (intro claim_timesI) (auto dest: claim_timesD(1,2) intro: trans_le_add1)
qed (rule claim_timesI; auto dest: claim_timesD(1,2) split: if_splits)+

lemma apart_step: "tab_step s s' \<Longrightarrow> claim_times s \<Longrightarrow> apart s \<Longrightarrow> apart s'"
proof (induction rule: tab_step.induct)
  case (check_claim s i t w)
  have later: "c + SETTLE_MS \<le> tb_now s" if own: "tb_claim s = Some (x, i)" and k: "holds s k c" "k \<noteq> i" for x k c
    using claim_timesD(2) [OF check_claim(3) k(1) k(2) [symmetric] check_claim(1) own] check_claim(2) by simp
  then show ?case using check_claim(4) unfolding apart_def by (auto split: if_splits option.splits)
next
  case (check_tap s i t c)
  then show ?case using holds_phase(1) [OF check_tap(1)] unfolding apart_def by (auto split: if_splits option.splits)
qed (auto simp: apart_def split: if_splits)

text \<open>A call that still could delete the tap another has just deleted in time had checked its claim a whole pause before.\<close>

lemma stale_holder:
  assumes "claim_times s" "apart s" "holds s i c" "tb_now s < c + SETTLE_MS" "holds s j d" "j \<noteq> i"
  shows "d + SETTLE_MS \<le> tb_now s"
  using assms claim_timesD(1) [OF assms(1,3)] claim_timesD(1) [OF assms(1,5)] unfolding apart_def by fastforce

lemma gone_onceD:
  assumes "gone_once s" "\<not> tb_late s" "gone (tb_phase s i) x"
  shows "\<forall>t. tb_handoff s = Some t \<longrightarrow> th_id t \<noteq> x" "j \<noteq> i \<Longrightarrow> \<not> gone (tb_phase s j) x"
    "tb_phase s j = Checked t c \<Longrightarrow> th_id t = x \<Longrightarrow> c + SETTLE_MS \<le> tb_now s"
  using assms unfolding gone_once_def by (auto split: option.splits)

lemma gone_onceI:
  assumes "\<And>i x t. \<not> tb_late s \<Longrightarrow> gone (tb_phase s i) x \<Longrightarrow> tb_handoff s = Some t \<Longrightarrow> th_id t \<noteq> x"
    "\<And>i j x. \<not> tb_late s \<Longrightarrow> gone (tb_phase s i) x \<Longrightarrow> j \<noteq> i \<Longrightarrow> \<not> gone (tb_phase s j) x"
    "\<And>i j x t c. \<not> tb_late s \<Longrightarrow> gone (tb_phase s i) x \<Longrightarrow> tb_phase s j = Checked t c \<Longrightarrow> th_id t = x \<Longrightarrow> c + SETTLE_MS \<le> tb_now s"
  shows "gone_once s"
proof (cases "tb_late s")
  case False
  have "case tb_handoff s of Some t \<Rightarrow> th_id t \<noteq> x | None \<Rightarrow> True" if "gone (tb_phase s i) x" for i x
    using assms(1) [OF False that] by (cases "tb_handoff s") simp_all
  then show ?thesis using assms(2,3) [OF False] unfolding gone_once_def by blast
qed (simp add: gone_once_def)

lemma gone_once_step:
  "tab_step s s' \<Longrightarrow> ids_used s \<Longrightarrow> claim_times s \<Longrightarrow> apart s \<Longrightarrow> gone_once s \<Longrightarrow> gone_once s'"
proof (induction rule: tab_step.induct)
  case (set_tap t s)
  note D = gone_onceD [OF set_tap(5)]
  show ?case
    by (rule gone_onceI) (use set_tap(1) in \<open>auto dest: D gone_used [OF set_tap(2)]\<close>)
next
  case (drop_tap s i t c)
  note D = gone_onceD [OF drop_tap(5)] and H = holds_phase(2) [OF drop_tap(1)]
  show ?case
  proof (cases "tb_late s \<or> c + SETTLE_MS \<le> tb_now s")
    case True
    then show ?thesis by (auto simp: gone_once_def)
  next
    case False
    have new: "\<not> gone (tb_phase s j) (th_id t)" for j using False D(3) [OF _ _ drop_tap(1) refl] by blast
    have stale: "d + SETTLE_MS \<le> tb_now s" if "tb_phase s j = Checked t' d" "j \<noteq> i" for j t' d
      using stale_holder [OF drop_tap(3,4) H _ holds_phase(2) [OF that(1)] that(2)] False by simp
    show ?thesis
      by (rule gone_onceI) (use False new stale in \<open>auto dest: D split: if_splits\<close>)
  qed
next
  case (check_tap s i t c)
  note D = gone_onceD [OF check_tap(5)]
  show ?case
    by (rule gone_onceI) (auto dest: D split: if_splits option.splits)
next
  case (drop_claim s i t c)
  note D = gone_onceD [OF drop_claim(5)]
  have g: "gone (tb_phase s i) (th_id t)" using drop_claim(1) by simp
  show ?case
    by (rule gone_onceI) (use g in \<open>auto dest: D(1) D(2) D(3) split: if_splits\<close>)
next
  case (tick s d)
  note D = gone_onceD [OF tick(4)]
  show ?case
    by (rule gone_onceI) (auto dest: D intro: trans_le_add1)
qed (rule gone_onceI; auto dest: gone_onceD split: if_splits)+

lemma reach_inv: "reach s \<Longrightarrow> ids_used s \<and> claim_times s \<and> apart s \<and> gone_once s"
proof (induction rule: reach.induct)
  case reach_start
  show ?case by (simp add: ids_used_def claim_times_def apart_def gone_once_def start_tabs_def holds_def)
next
  case (reach_step s s')
  then show ?case using ids_used_step claim_times_step apart_step gone_once_step by blast
qed

text \<open>C14: a tap is taken at most once unless a tab is suspended in the middle of its last task. In every interleaving of the
  storage accesses of any number of calls of \<open>takeClaimed\<close>, of taps stored in between and of time, two calls took the same
  tap only if some call deleted a tap a whole pause or more after it had checked its claim.
\<close>

theorem tap_taken_once:
  assumes "reach s" "tb_phase s i = Took t r" "tb_phase s j = Took t' r'" "i \<noteq> j" "th_id t = th_id t'"
  shows "tb_late s"
  using reach_inv [OF assms(1)] gone_onceD(2) [of s i "th_id t" j] assms(2-5) by auto

text \<open>A call that nothing disturbs takes the tap.\<close>

lemma undisturbed_take:
  assumes "reach s" "tb_phase s i = Start" "\<And>j c. \<not> holds s j c" "th_id t \<notin> tb_used s"
  shows "\<exists>s'. reach s' \<and> tb_phase s' i = Took t (fresh_tap (tb_now s + SETTLE_MS) t) \<and> (\<forall>j. j \<noteq> i \<longrightarrow> tb_phase s' j = tb_phase s j) \<and>
    (\<forall>j c. \<not> holds s' j c) \<and> tb_used s' = insert (th_id t) (tb_used s)"
proof -
  define s1 where "s1 = s\<lparr>tb_handoff := Some t, tb_used := insert (th_id t) (tb_used s)\<rparr>"
  define s2 where "s2 = goes s1 i (Read_tap t)"
  define s3 where "s3 = (goes s2 i (Claimed t (tb_now s2)))\<lparr>tb_claim := Some (th_id t, i)\<rparr>"
  define s4 where "s4 = s3\<lparr>tb_now := tb_now s3 + SETTLE_MS\<rparr>"
  define s5 where "s5 = goes s4 i (Checking t (tb_now s4))"
  define s6 where "s6 = goes s5 i (Checked t (tb_now s4))"
  define s7 where "s7 = (goes s6 i (Dropped t (tb_now s4)))\<lparr>tb_handoff := None, tb_late := tb_late s6 \<or> tb_now s4 + SETTLE_MS \<le> tb_now s6\<rparr>"
  define s8 where "s8 = (goes s7 i (Took t (fresh_tap (tb_now s7) t)))\<lparr>tb_claim := None\<rparr>"
  note d = s1_def s2_def s3_def s4_def s5_def s6_def s7_def s8_def
  have h: "\<not> holds s3 j c" for j c using assms(3) by (simp add: d)
  have "reach s1" using assms(1) set_tap [OF assms(4)] reach_step by (simp add: s1_def)
  moreover have "tab_step s1 s2" unfolding s2_def by (rule read_tap) (use assms in \<open>simp_all add: s1_def\<close>)
  moreover have "tab_step s2 s3" unfolding s3_def by (rule write_claim) (simp add: s2_def)
  moreover have "tab_step s3 s4" unfolding s4_def by (rule tick)
  moreover have "tab_step s4 s5"
    using check_claim [of s4 i t "tb_now s2"] by (simp add: s5_def) (simp add: s4_def s3_def)
  moreover have "tab_step s5 s6"
    using check_tap [of s5 i t "tb_now s4"] by (simp add: s6_def) (simp add: s5_def s4_def s3_def s2_def s1_def)
  moreover have "tab_step s6 s7" unfolding s7_def by (rule drop_tap) (simp add: s6_def)
  moreover have "tab_step s7 s8" unfolding s8_def by (rule drop_claim) (simp add: s7_def)
  ultimately have "reach s8" by (meson reach_step)
  moreover have "tb_phase s8 i = Took t (fresh_tap (tb_now s + SETTLE_MS) t)" "\<And>j. j \<noteq> i \<Longrightarrow> tb_phase s8 j = tb_phase s j"
    "\<And>j c. \<not> holds s8 j c" "tb_used s8 = insert (th_id t) (tb_used s)"
    using assms(3) by (simp_all add: d)
  ultimately show ?thesis by blast
qed

definition demo_tap :: "string \<Rightarrow> tap_handoff" where
  "demo_tap x = \<lparr>tp_uid = ''04'', tp_ctr = ''01'', tp_cmac = ''ff'', tp_piccData = None, tp_enc = None, th_ts = 0, th_id = x\<rparr>"

text \<open>Why the pause has to be kept: call 0 checks its claim and its tap and is suspended; call 1 claims the tap, waits, checks and
  takes it; call 0 goes on and takes it as well.\<close>

lemma suspended_call_takes_again:
  "\<exists>s r r'. reach s \<and> tb_phase s 0 = Took (demo_tap ''a'') r \<and> tb_phase s 1 = Took (demo_tap ''a'') r'"
proof -
  let ?t = "demo_tap ''a''"
  define s1 where "s1 = start_tabs\<lparr>tb_handoff := Some ?t, tb_used := insert (th_id ?t) (tb_used start_tabs)\<rparr>"
  define s2 where "s2 = (goes (goes s1 0 (Read_tap ?t)) 0 (Claimed ?t 0))\<lparr>tb_claim := Some (th_id ?t, 0)\<rparr>"
  define s3 where "s3 = s2\<lparr>tb_now := tb_now s2 + 60\<rparr>"
  define s4 where "s4 = goes (goes s3 0 (Checking ?t 60)) 0 (Checked ?t 60)"
  define s5 where "s5 = (goes (goes s4 1 (Read_tap ?t)) 1 (Claimed ?t 60))\<lparr>tb_claim := Some (th_id ?t, 1)\<rparr>"
  define s6 where "s6 = s5\<lparr>tb_now := tb_now s5 + 60\<rparr>"
  define s7 where "s7 = goes (goes s6 1 (Checking ?t 120)) 1 (Checked ?t 120)"
  define s8 where "s8 = (goes s7 1 (Dropped ?t 120))\<lparr>tb_handoff := None, tb_late := tb_late s7 \<or> 120 + SETTLE_MS \<le> tb_now s7\<rparr>"
  define s9 where "s9 = (goes s8 0 (Dropped ?t 60))\<lparr>tb_handoff := None, tb_late := tb_late s8 \<or> 60 + SETTLE_MS \<le> tb_now s8\<rparr>"
  define s10 where "s10 = (goes s9 1 (Took ?t (fresh_tap (tb_now s9) ?t)))\<lparr>tb_claim := None\<rparr>"
  define s11 where "s11 = (goes s10 0 (Took ?t (fresh_tap (tb_now s10) ?t)))\<lparr>tb_claim := None\<rparr>"
  note d = s1_def s2_def s3_def s4_def s5_def s6_def s7_def s8_def s9_def s10_def s11_def start_tabs_def SETTLE_MS_def
  have "reach s1" using reach_step [OF reach_start set_tap [of ?t]] by (simp add: d)
  moreover have "tab_step s1 (goes s1 0 (Read_tap ?t))" by (rule read_tap) (simp_all add: d)
  moreover have "tab_step (goes s1 0 (Read_tap ?t)) s2"
    using write_claim [of "goes s1 0 (Read_tap ?t)" 0 ?t] by (simp add: s2_def) (simp add: s1_def start_tabs_def)
  moreover have "tab_step s2 s3" unfolding s3_def by (rule tick)
  moreover have "tab_step s3 (goes s3 0 (Checking ?t 60))" using check_claim [of s3 0 ?t 0] by (simp add: d)
  moreover have "tab_step (goes s3 0 (Checking ?t 60)) s4" using check_tap [of "goes s3 0 (Checking ?t 60)" 0 ?t 60] by (simp add: d)
  moreover have "tab_step s4 (goes s4 1 (Read_tap ?t))" by (rule read_tap) (simp_all add: d)
  moreover have "tab_step (goes s4 1 (Read_tap ?t)) s5" using write_claim [of "goes s4 1 (Read_tap ?t)" 1 ?t] by (simp add: d)
  moreover have "tab_step s5 s6" unfolding s6_def by (rule tick)
  moreover have "tab_step s6 (goes s6 1 (Checking ?t 120))" using check_claim [of s6 1 ?t 60] by (simp add: d)
  moreover have "tab_step (goes s6 1 (Checking ?t 120)) s7" using check_tap [of "goes s6 1 (Checking ?t 120)" 1 ?t 120] by (simp add: d)
  moreover have "tab_step s7 s8" unfolding s8_def by (rule drop_tap) (simp add: s7_def)
  moreover have "tab_step s8 s9" unfolding s9_def by (rule drop_tap) (simp add: d)
  moreover have "tab_step s9 s10" unfolding s10_def by (rule drop_claim) (simp add: d)
  moreover have "tab_step s10 s11" unfolding s11_def by (rule drop_claim) (simp add: s10_def s9_def)
  ultimately have "reach s11" by (meson reach_step)
  moreover have "tb_phase s11 0 = Took ?t (fresh_tap (tb_now s10) ?t)" "tb_phase s11 1 = Took ?t (fresh_tap (tb_now s9) ?t)"
    by (simp_all add: s11_def s10_def)
  ultimately show ?thesis by blast
qed

theorem tap_taken_once_witness:
  "\<exists>s r r'. reach s \<and> tb_phase s 0 = Took (demo_tap ''a'') r \<and> tb_phase s 1 = Took (demo_tap ''a'') r' \<and> tb_late s"
  using suspended_call_takes_again tap_taken_once [of _ 0 "demo_tap ''a''" _ 1 "demo_tap ''a''"] by (metis zero_neq_one)

text \<open>The page never follows a stored value to another origin.\<close>

lemma safe_scan_url: "starts_with (safeScanUrl u) ''/scan''"
  by (auto simp: safeScanUrl_def scan_path_def starts_with_iff split: option.split)

text \<open>An adopted tap ends no later than its session.\<close>

lemma adopt_deadline_bound: "fst (adoptDeadline ts clock) \<le> sc_deadline clock"
  by (simp add: adoptDeadline_def Let_def)

end
