(* ===== verification/Web_Format.thy ===== *)
theory Web_Format
  imports Proof_Canonical Proof_Message Web_Errors Escrow_Rules Program_Flacon Web_Handoff "HOL-Library.Product_Lexorder"
begin

text \<open>
  \<open>apps/web/src/lib/format.ts\<close>: the words of the passport page, its timeline, and the live check that decodes
  the passport account and compares it with the verifier. Addresses and hashes are ASCII. A number in a
  payload is printed by \<open>num_text\<close>.
\<close>

section \<open>Words\<close>

definition short :: "nat \<Rightarrow> string option \<Rightarrow> string" where
  "short n s = (case set_text s of
     Some t \<Rightarrow> take n t @ [CHR 0xE2, CHR 0x80, CHR 0xA6] @ drop (length t - n) t | None \<Rightarrow> [CHR 0xE2, CHR 0x80, CHR 0x93])"

definition CLUSTER :: string where "CLUSTER = ''devnet''"

definition txUrl :: "string \<Rightarrow> string" where
  "txUrl sig = ''https://explorer.solana.com/tx/'' @ sig @ ''?cluster='' @ CLUSTER"

definition addrUrl :: "string \<Rightarrow> string" where
  "addrUrl a = ''https://explorer.solana.com/address/'' @ a @ ''?cluster='' @ CLUSTER"

definition isTestPassport :: "string option \<Rightarrow> bool" where
  "isTestPassport brand \<longleftrightarrow> lower (js_trim (case brand of Some b \<Rightarrow> b | None \<Rightarrow> [])) = ''test''"

definition gradeLetter :: "int option \<Rightarrow> string" where
  "gradeLetter g = (case g of None \<Rightarrow> [CHR 0xE2, CHR 0x80, CHR 0x93] | Some i \<Rightarrow> (case GradeName i of Some n \<Rightarrow> n | None \<Rightarrow> ''?''))"

datatype tone = Tone_ok | Tone_warn | Tone_bad | Tone_none

definition gradeTone :: "int option \<Rightarrow> tone" where
  "gradeTone g =
    (if g = Some (member Grade ''A'') \<or> g = Some (member Grade ''B'') then Tone_ok
     else if g = Some (member Grade ''C'') \<or> g = Some (member Grade ''D'') then Tone_warn
     else if g = Some (member Grade ''VOID'') then Tone_bad else Tone_none)"

definition gradeSentence :: "int \<Rightarrow> string option" where
  "gradeSentence g = (if g = member Grade ''C'' \<or> g = member Grade ''D''
     then Some ''The indicator documents the handling, not the condition of the contents.'' else None)"

definition roleLabel :: "js_num \<Rightarrow> string option" where
  "roleLabel r =
    (if r = jn (member Role ''OWNER'') then Some ''Owner'' else if r = jn (member Role ''SELLER'') then Some ''Seller''
     else if r = jn (member Role ''BUYER'') then Some ''Buyer'' else if r = jn (member Role ''VAULT'') then Some ''Vault''
     else if r = jn (member Role ''PARTNER'') then Some ''Partner'' else None)"

definition passportHref :: "string \<Rightarrow> string" where
  "passportHref serial = ''/p/'' @ encodeURIComponent serial"

datatype indicator_kind = Heat | Humidity | Uv

definition indicatorText :: "indicator_kind \<Rightarrow> int \<Rightarrow> string \<times> string \<times> tone" where
  "indicatorText kind c =
    (let intact = member Indicator ''INTACT''; triggered = member Indicator ''TRIGGERED''; unreadable = member Indicator ''UNREADABLE'' in
     case kind of
       Uv \<Rightarrow>
         (if c = intact then (''Light'', ''no UV exposure recorded'', Tone_ok)
          else if c = triggered then (''Light'', (''UV exposure recorded '' @ [CHR 0xE2, CHR 0x80, CHR 0x94] @ '' fragrance compounds age under light''), Tone_warn)
          else if c = unreadable then (''Light'', (''unreadable '' @ [CHR 0xE2, CHR 0x80, CHR 0x94] @ '' review recommended''), Tone_none)
          else (''Light'', ''no reading yet'', Tone_none))
     | _ \<Rightarrow>
         (let name = (if kind = Heat then ''Heat'' else ''Humidity'') in
          if c = intact then (name, (if kind = Heat then (''below 40 '' @ [CHR 0xC2, CHR 0xB0] @ ''C'') else ''below 60 % RH''), Tone_ok)
          else if c = triggered
          then (name, (if kind = Heat then (''above 40 '' @ [CHR 0xC2, CHR 0xB0] @ ''C recorded '' @ [CHR 0xE2, CHR 0x80, CHR 0x94] @ '' the temperature at which cosmetics and pharma test for accelerated ageing'')
                 else (''above 60 % RH recorded '' @ [CHR 0xE2, CHR 0x80, CHR 0x94] @ '' the limit for carton and label'')), Tone_warn)
          else if c = unreadable then (name, (''unreadable '' @ [CHR 0xE2, CHR 0x80, CHR 0x94] @ '' review recommended''), Tone_none)
          else (name, ''no reading yet'', Tone_none)))"

datatype seal_status = Seal_intact | Seal_no_response | Seal_opened

definition sealStatusText :: "seal_status \<Rightarrow> string \<times> tone" where
  "sealStatusText s = (case s of
     Seal_intact \<Rightarrow> ((''Seal responding '' @ [CHR 0xC2, CHR 0xB7] @ '' no break recorded''), Tone_ok)
   | Seal_no_response \<Rightarrow> (''Seal not responding'', Tone_bad)
   | Seal_opened \<Rightarrow> (''Seal opened'', Tone_bad))"

definition effectiveVerdict :: "string \<Rightarrow> bool option \<Rightarrow> string" where
  "effectiveVerdict verdict sealDead = (if verdict = ''VALID'' \<and> sealDead = Some True then ''NO_RESPONSE'' else verdict)"

definition tapLanding :: "string \<Rightarrow> bool option \<Rightarrow> string option \<Rightarrow> string option \<Rightarrow> string \<times> string option" where
  "tapLanding v sealDead tapId k =
    (let verdict = effectiveVerdict v sealDead in
     if verdict \<noteq> ''VALID'' then (verdict, None)
     else (verdict, Some (case (set_text k, set_text tapId) of
         (Some key, Some i) \<Rightarrow> ''/scan?adopt='' @ encodeURIComponent i @ ''&k='' @ encodeURIComponent key
       | _ \<Rightarrow> ''/scan'')))"

definition count_or_question :: "int option \<Rightarrow> string" where
  "count_or_question c = (case c of Some i \<Rightarrow> show_int i | None \<Rightarrow> ''?'')"

definition verdictText :: "string \<Rightarrow> int option \<Rightarrow> string \<times> tone \<times> string" where
  "verdictText v counter =
    (if v = ''VALID'' then ((''Seal genuine '' @ [CHR 0xC2, CHR 0xB7] @ '' Tap '') @ count_or_question counter, Tone_ok,
       ''The chip has authenticated itself cryptographically. The counter is the number of taps this seal has seen.'')
     else if v = ''REPLAY'' then (''Repeated tap'', Tone_bad,
       ''This tap data has been submitted before. A genuine seal counts up on every tap.'')
     else if v = ''INVALID'' then (''Signature invalid'', Tone_bad,
       (''The chip'' @ [CHR 0x27] @ ''s checksum does not match. This is not a FlaconVault seal, or the URL was altered.''))
     else if v = ''UNREGISTERED'' then ((''Chip genuine, but not assigned to a passport '' @ [CHR 0xC2, CHR 0xB7] @ '' Tap '') @ count_or_question counter, Tone_warn,
       ''The chip is a valid NTAG 424 DNA, but there is no passport for it yet.'')
     else if v = ''NO_RESPONSE'' then (''Seal not responding'', Tone_bad,
       (''No seal found '' @ [CHR 0xE2, CHR 0x80, CHR 0x94] @ '' seal removed, antenna separated or out of range. No release without a valid scan.''))
     else if v = ''NONCE_INVALID'' then (''Session expired'', Tone_warn,
       ''The scan took longer than 90 seconds. Please start again.'')
     else (v, Tone_none, []))"

section \<open>The timeline\<close>

datatype event_status = Pending | Confirmed | Failed | Reported

record passport_event =
  ev_id :: int
  ev_type :: int
  ev_ts :: int
  ev_actorLabel :: "string option"
  ev_status :: event_status
  ev_sealUidHash :: "string option"
  ev_payload :: json

definition str_of :: "(rat \<Rightarrow> string) \<Rightarrow> json option \<Rightarrow> string option" where
  "str_of fmt v = (case v of Some (JStr s) \<Rightarrow> Some s | Some (JNum n) \<Rightarrow> Some (num_text fmt n) | _ \<Rightarrow> None)"

definition indicatorWord :: "json option \<Rightarrow> string option" where
  "indicatorWord c =
    (if c = Some (JNum (jn (member Indicator ''INTACT''))) then Some ''ok''
     else if c = Some (JNum (jn (member Indicator ''TRIGGERED''))) then Some ''triggered''
     else if c = Some (JNum (jn (member Indicator ''UNREADABLE''))) then Some ''unreadable'' else None)"

definition isSeedEvent :: "passport_event \<Rightarrow> bool" where
  "isSeedEvent e \<longleftrightarrow> jget (ev_payload e) ''seed'' = Some (JBool True)"

definition opt_list :: "'a option \<Rightarrow> 'a list" where
  "opt_list v = (case v of Some x \<Rightarrow> [x] | None \<Rightarrow> [])"

definition set_words :: "string option list \<Rightarrow> string list" where
  "set_words ws = concat (map (\<lambda>w. opt_list (set_text w)) ws)"

definition no_label :: "passport_event \<Rightarrow> bool" where
  "no_label e \<longleftrightarrow> set_text (ev_actorLabel e) = None"

definition mint_details :: "(rat \<Rightarrow> string) \<Rightarrow> passport_event \<Rightarrow> string list" where
  "mint_details fmt e =
    (if no_label e then map (\<lambda>l. (''Partner '' @ [CHR 0xE2, CHR 0x80, CHR 0x9C]) @ l @ [CHR 0xE2, CHR 0x80, CHR 0x9D]) (set_words [str_of fmt (jget (ev_payload e) ''issuerLabel'')]) else []) @
    map (\<lambda>b. ''Batch '' @ b) (set_words [str_of fmt (jget (ev_payload e) ''batch'')])"

definition seal_line :: "(rat \<Rightarrow> string) \<Rightarrow> passport_event \<Rightarrow> string \<times> string list" where
  "seal_line fmt e =
    (let p = ev_payload e; h = (case ev_sealUidHash e of Some s \<Rightarrow> s | None \<Rightarrow> []) in
     ((if jget p ''kind'' = Some (JNum (jn 0)) \<or> jget p ''kindName'' = Some (JStr ''BOX'') then ''Box seal attached'' else ''Neck seal attached''),
      [''Chip '' @ (case str_of fmt (jget p ''uidTail'') of Some t \<Rightarrow> t
         | None \<Rightarrow> [CHR 0xE2, CHR 0x80, CHR 0xA6] @ map to_upper_char (drop (length h - 4) h))]))"

text \<open>A number of the payload, else of its attester.\<close>

definition scan_number :: "passport_event \<Rightarrow> string \<Rightarrow> js_num option" where
  "scan_number e k = (case jnumber (jget (ev_payload e) k) of
     Some n \<Rightarrow> Some n
   | None \<Rightarrow> jnumber (Option.bind (jget (ev_payload e) ''attester'') (\<lambda>a. jget a k)))"

definition scan_title :: "(rat \<Rightarrow> string) \<Rightarrow> passport_event \<Rightarrow> string" where
  "scan_title fmt e =
    (let p = ev_payload e; tier = scan_number e ''tier''; purpose = jget p ''purpose''; kind = jget p ''kind'';
         confirmed = (ev_status e = Confirmed);
         t0 = (if tier = Some (jn (member Tier ''BIRTH'')) \<or> purpose = Some (JStr ''BIRTH'') then ''Birth scan''
           else if tier = Some (jn (member Tier ''CERTIFIED'')) then ''Certification scan''
           else if tier = Some (jn (member Tier ''SIGHTING'')) \<or> tier = None then ''Sighting''
           else ''Scan tier '' @ num_text fmt (the tier));
         t1 = (if \<not> confirmed \<and> tier \<noteq> None \<and> js_ge (the tier) (jn (member Tier ''CERTIFIED'')) then (''Scan '' @ [CHR 0xC2, CHR 0xB7] @ '' certification claimed'') else t0);
         t2 = (if purpose = Some (JStr ''PRE_SHIP'') \<or> kind = Some (JStr ''pre_ship'') then ''Shipping scan'' else t1)
     in if purpose = Some (JStr ''RECEIPT'') \<or> kind = Some (JStr ''receipt'') then ''Receipt scan'' else t2)"

definition wallet_label :: "js_num \<Rightarrow> string" where
  "wallet_label r = (case roleLabel r of Some l \<Rightarrow> l | None \<Rightarrow> ''Wallet'')"

definition scan_details :: "(rat \<Rightarrow> string) \<Rightarrow> passport_event \<Rightarrow> string list" where
  "scan_details fmt e =
    (let p = ev_payload e; tier = scan_number e ''tier''; role = scan_number e ''role''; confirmed = (ev_status e = Confirmed);
         ind = (\<lambda>k. indicatorWord (Option.bind (jget p ''indicators'') (\<lambda>i. jget i k)))
     in (case role of
           Some r \<Rightarrow> if no_label e then [if \<not> confirmed \<and> js_ge r (jn (member Role ''VAULT'')) then wallet_label r @ '' (claimed)'' else wallet_label r] else []
         | None \<Rightarrow> []) @
        (case jnumber (jget p ''counter'') of Some c \<Rightarrow> [''Counter '' @ num_text fmt c] | None \<Rightarrow> []) @
        (if tier \<noteq> None \<and> js_ge (the tier) (jn (member Tier ''SELF''))
         then map (\<lambda>w. ''Heat '' @ w) (opt_list (ind ''heat'')) @ map (\<lambda>w. ''Humidity '' @ w) (opt_list (ind ''humidity'')) @
           (case jnumber (jget p ''fill'') of Some f \<Rightarrow> [''Fill level '' @ num_text fmt f @ '' %''] | None \<Rightarrow> [])
         else []) @
        (if jget p ''match'' = Some (JBool True) then [''matching''] else []) @
        (if jget p ''reviewRecommended'' = Some (JBool True) then [''Review recommended''] else []))"

definition price_text :: "(rat \<Rightarrow> string) \<Rightarrow> json \<Rightarrow> string option" where
  "price_text fmt p = str_of fmt (coalesce (jget p ''priceUsdc'') (jget p ''price''))"

definition currency_text :: "(rat \<Rightarrow> string) \<Rightarrow> json \<Rightarrow> string" where
  "currency_text fmt p = (case str_of fmt (jget p ''currency'') of Some c \<Rightarrow> c | None \<Rightarrow> ''USDC'')"

definition lineOf :: "(rat \<Rightarrow> string) \<Rightarrow> passport_event \<Rightarrow> string \<times> string list" where
  "lineOf fmt e =
    (let p = ev_payload e; t = ev_type e; is_type = (\<lambda>n. t = member EventType n) in
     if is_type ''MINT'' then (''Birth certificate'', mint_details fmt e)
     else if is_type ''SEAL_ATTACH'' then seal_line fmt e
     else if is_type ''SCAN'' then (scan_title fmt e, scan_details fmt e)
     else if is_type ''LIST'' then (''Listed'', map (\<lambda>x. x @ '' '' @ currency_text fmt p) (set_words [price_text fmt p]))
     else if is_type ''RESERVE'' then (''Reserved'', map (\<lambda>x. x @ '' '' @ currency_text fmt p @ '' in escrow'') (set_words [price_text fmt p]))
     else if is_type ''SHIP'' then (''Shipped'', set_words [str_of fmt (jget p ''carrier''),
        map_option (\<lambda>n. ''Shipping scan counter '' @ num_text fmt n) (jnumber (jget p ''preShipScanCounter''))])
     else if is_type ''RECEIVE'' then (''Received'', set_words [
        (if jget p ''match'' = Some (JBool True) then Some ''Receipt scan matching'' else if jget p ''match'' = Some (JBool False) then Some ''Mismatch'' else None),
        map_option (\<lambda>n. (''Fill level '' @ [CHR 0xC2, CHR 0xB1]) @ num_text fmt n @ '' %'') (jnumber (jget p ''fillDelta''))])
     else if is_type ''RELEASE'' then (''Released'', set_words [
        Some ((case price_text fmt p of Some x \<Rightarrow> x | None \<Rightarrow> ''?'') @ '' '' @ currency_text fmt p @ ('' '' @ [CHR 0xE2, CHR 0x86, CHR 0x92] @ '' seller'')),
        map_option (\<lambda>_. (''Passport '' @ [CHR 0xE2, CHR 0x86, CHR 0x92] @ '' buyer'')) (set_text (str_of fmt (jget p ''passportTo''))),
        str_of fmt (jget p ''reason'')])
     else if is_type ''DISPUTE'' then (''Dispute'', set_words [str_of fmt (jget p ''reason'')])
     else if is_type ''SEAL_DEAD'' then
       (if ev_status e = Confirmed then (''Seal not responding'', [''Passport VOID''])
        else (''Seal reported as not responding'', [''report only, the passport is unchanged'']))
     else (''Event '' @ show_int t, []))"

definition eventLine :: "(rat \<Rightarrow> string) \<Rightarrow> passport_event \<Rightarrow> string \<times> string list" where
  "eventLine fmt e = (case lineOf fmt e of (title, details) \<Rightarrow>
     (title, if isSeedEvent e then details @ [''demo data''] else details))"

definition MAX_REPORTS_SHOWN :: nat where "MAX_REPORTS_SHOWN = 3"

record visible_events =
  ve_shown :: "passport_event list"
  ve_failed :: nat
  ve_reportsHidden :: int

text \<open>Newest first, then the larger id: the comparison of the sort as a key.\<close>

definition visibleEvents :: "passport_event list \<Rightarrow> visible_events" where
  "visibleEvents es =
    (let reports = sort_key (\<lambda>e. (- ev_ts e, - ev_id e)) (filter (\<lambda>e. ev_status e = Reported) es);
         keep = set (map ev_id (take MAX_REPORTS_SHOWN reports))
     in \<lparr>ve_shown = filter (\<lambda>e. ev_status e \<noteq> Failed \<and> (ev_status e \<noteq> Reported \<or> ev_id e \<in> keep)) es,
         ve_failed = length (filter (\<lambda>e. ev_status e = Failed) es),
         ve_reportsHidden = int (length reports) - int (card keep)\<rparr>)"

section \<open>The live check\<close>

definition PASSPORT_DISCRIMINATOR :: bytes where
  "PASSPORT_DISCRIMINATOR = [18, 61, 245, 239, 6, 15, 18, 34]"

record chain_passport =
  cp_grade :: int
  cp_scanCount :: int
  cp_sealCount :: int
  cp_void :: bool
  cp_createdAt :: int

definition decodePassportAccount :: "bytes \<Rightarrow> chain_passport option" where
  "decodePassportAccount d =
    (if length d < 8 + 32 * 4 + 15 \<or> take 8 d \<noteq> PASSPORT_DISCRIMINATOR then None
     else let o' = 8 + 32 * 4 in Some
       \<lparr>cp_grade = uint (d ! o'), cp_scanCount = int (le_val (slice (o' + 1) (o' + 5) d)), cp_sealCount = uint (d ! (o' + 5)),
        cp_void = (d ! (o' + 6) = 1), cp_createdAt = get_i64 (slice (o' + 7) (o' + 15) d)\<rparr>)"

record live_check =
  lc_matches :: bool
  lc_text :: string

definition liveCheckVerdict :: "chain_passport \<Rightarrow> int \<Rightarrow> int option \<Rightarrow> live_check" where
  "liveCheckVerdict chain server_grade onChainScanCount =
    (let chainGrade = (if cp_void chain then member Grade ''VOID'' else cp_grade chain);
         diffs = (if chainGrade \<noteq> server_grade
             then [''grade '' @ gradeLetter (Some chainGrade) @ '' on chain, '' @ gradeLetter (Some server_grade) @ '' on the server''] else []) @
           (case onChainScanCount of
              Some n \<Rightarrow> if cp_scanCount chain \<noteq> n
                then [show_int (cp_scanCount chain) @ '' anchored '' @ (if cp_scanCount chain = 1 then ''scan'' else ''scans'') @
                      '' on chain, '' @ show_int n @ '' on the server''] else []
            | None \<Rightarrow> [])
     in if diffs \<noteq> [] then \<lparr>lc_matches = False, lc_text = ''differs from the server: '' @ join_with ''; '' diffs\<rparr>
        else if onChainScanCount = None
        then \<lparr>lc_matches = True, lc_text = ''grade matches the server (the server reports no anchored-scan count)''\<rparr>
        else \<lparr>lc_matches = True, lc_text = ''matches the server''\<rparr>)"

end
