(* ===== verification/Web_Verify_Api.thy ===== *)
theory Web_Verify_Api
  imports FV_Json Web_Send Web_Handoff Proof_Message
begin

text \<open>
  \<open>apps/web/src/lib/verify-api.ts\<close>: how an event post is retried, what is asked of the verifier and what its
  answer says. The server's answer to the i-th post is a function of i; SHA-256 is a parameter; the
  query of a tag URL is given as its parsed parameters.
\<close>

section \<open>Retries of an event post\<close>

definition EVENT_RETRIES :: nat where "EVENT_RETRIES = 5"
definition EVENT_RETRY_MS :: rat where "EVENT_RETRY_MS = 2500"
definition BUSY_RETRY_MS :: rat where "BUSY_RETRY_MS = 2000"
definition MAX_RETRY_WAIT_S :: rat where "MAX_RETRY_WAIT_S = 5"

definition eventRetryDelay :: "js_error \<Rightarrow> nat \<Rightarrow> rat option" where
  "eventRetryDelay err attempt =
    (if attempt \<ge> EVENT_RETRIES then None
     else case err of ApiErr e \<Rightarrow>
       let after = ae_retryAfter e in
       if ae_status e = 503 \<and> ae_code e = Some ''tx_not_visible'' then Some EVENT_RETRY_MS
       else if ae_status e = 503 \<and> ae_code e = Some ''busy''
       then Some (case after of Some a \<Rightarrow> if a > 0 then min a MAX_RETRY_WAIT_S * 1000 else BUSY_RETRY_MS | None \<Rightarrow> BUSY_RETRY_MS)
       else if ae_status e = 429 \<and> ae_code e = Some ''rate_limited''
       then (case after of Some a \<Rightarrow> if a > 0 \<and> a \<le> MAX_RETRY_WAIT_S then Some (a * 1000) else None | None \<Rightarrow> None)
       else None
     | _ \<Rightarrow> None)"

text \<open>The result, the number of posts made and the waits between them.\<close>

function events_loop :: "(nat \<Rightarrow> js_error + json) \<Rightarrow> nat \<Rightarrow> (js_error + json) \<times> nat \<times> rat list" where
  "events_loop post attempt =
    (case post attempt of
       Inr r \<Rightarrow> (Inr r, Suc attempt, [])
     | Inl e \<Rightarrow> (case eventRetryDelay e attempt of
         None \<Rightarrow> (Inl e, Suc attempt, [])
       | Some delay \<Rightarrow> (let (r, n, ws) = events_loop post (Suc attempt) in (r, n, delay # ws))))"
  by pat_completeness auto
termination
  by (relation "measure (\<lambda>(_, a). EVENT_RETRIES - a)") (auto simp: eventRetryDelay_def split: if_splits)

declare events_loop.simps [simp del]

definition without_ts :: "(string \<times> json) list \<Rightarrow> (string \<times> json) list" where
  "without_ts body = filter (\<lambda>p. fst p \<noteq> ''ts'') body"

text \<open>\<open>post body i\<close>: the answer to the i-th post of that body.\<close>

definition events :: "(json \<Rightarrow> nat \<Rightarrow> js_error + json) \<Rightarrow> (string \<times> json) list \<Rightarrow> (js_error + json) \<times> nat \<times> rat list" where
  "events post body = events_loop (post (JObj (without_ts body))) 0"

section \<open>Photos\<close>

record uploaded_media =
  um_nonce :: string
  um_mediaHash :: string
  um_sha256 :: string

definition sameHex :: "string \<Rightarrow> string \<Rightarrow> bool" where
  "sameHex a b \<longleftrightarrow> map to_lower_char (strip_0x a) = map to_lower_char (strip_0x b)"

definition PHOTO_HASH_DIFFERS :: string where
  "PHOTO_HASH_DIFFERS = ''The server computed a different hash for the photos. Photograph the card again.''"

definition uploadMediaOnce ::
  "uploaded_media option \<Rightarrow> string \<Rightarrow> string \<Rightarrow> js_error + string \<Rightarrow> js_error + uploaded_media" where
  "uploadMediaOnce cached nonce mediaHash upload =
    (case (case cached of Some c \<Rightarrow> if sameHex (um_nonce c) nonce \<and> sameHex (um_mediaHash c) mediaHash then Some c else None | None \<Rightarrow> None) of
       Some c \<Rightarrow> Inr c
     | None \<Rightarrow> bindE upload (\<lambda>sha.
         if \<not> sameHex sha mediaHash then Inl (OtherErr ''Error'' PHOTO_HASH_DIFFERS)
         else Inr \<lparr>um_nonce = nonce, um_mediaHash = mediaHash, um_sha256 = sha\<rparr>))"

section \<open>The verify request\<close>

record card_input =
  ci_heat :: int
  ci_humidity :: int
  ci_uv :: int
  ci_heatLevels :: "int list"

record verify_input =
  vi_tag :: tag_params
  vi_simulator :: bool
  vi_tapId :: "int option"
  vi_tapToken :: "string option"
  vi_nonce :: string
  vi_role :: int
  vi_tier :: int
  vi_reading :: "card_input option"
  vi_fill :: int
  vi_mediaHash :: "string option"
  vi_serial :: "string option"
  vi_country :: "string option"
  vi_city :: "string option"
  vi_attester :: "string option"
  vi_platform :: string

definition decidedHeat :: "int \<Rightarrow> bool" where
  "decidedHeat h \<longleftrightarrow> h = 0 \<or> h = 1"

definition jint :: "int \<Rightarrow> json" where
  "jint i = JNum (jn i)"

text \<open>A member that is undefined is not sent; a null is.\<close>

definition opt_member :: "string \<Rightarrow> string option \<Rightarrow> (string \<times> json) list" where
  "opt_member k v = (case v of Some s \<Rightarrow> [(k, JStr s)] | None \<Rightarrow> [])"

definition or_null :: "string option \<Rightarrow> json" where
  "or_null v = (case v of Some s \<Rightarrow> JStr s | None \<Rightarrow> JNull)"

definition verifyBody :: "verify_input \<Rightarrow> json" where
  "verifyBody i =
    (let adopted = vi_tapId i \<noteq> None; t = vi_tag i; r = vi_reading i;
         ind = (\<lambda>f. case r of Some c \<Rightarrow> f c | None \<Rightarrow> 3)
     in JObj (
       (if adopted then [] else opt_member ''uid'' (set_text (Some (tp_uid t))) @ opt_member ''ctr'' (set_text (Some (tp_ctr t))) @ [(''cmac'', JStr (tp_cmac t))]) @
       opt_member ''piccData'' (tp_piccData t) @ opt_member ''enc'' (tp_enc t) @
       (case vi_tapId i of Some n \<Rightarrow> [(''tapId'', jint n)] | None \<Rightarrow> []) @
       (if adopted then opt_member ''tapToken'' (vi_tapToken i) else []) @
       [(''nonce'', JStr (vi_nonce i)), (''role'', jint (vi_role i)), (''tier'', jint (vi_tier i)),
        (''indicators'', JObj [(''heat'', jint (ind ci_heat)), (''humidity'', jint (ind ci_humidity)), (''uv'', jint (ind ci_uv))]),
        (''heatLevels'', JArr (map jint (case r of Some c \<Rightarrow> if decidedHeat (ci_heat c) then take 6 (ci_heatLevels c) else [0, 0, 0, 0, 0, 0]
           | None \<Rightarrow> [0, 0, 0, 0, 0, 0]))),
        (''fill'', jint (vi_fill i))] @
       opt_member ''mediaHash'' (vi_mediaHash i) @ opt_member ''serial'' (vi_serial i) @
       [(''location'', JObj [(''country'', or_null (set_text (vi_country i))),
           (''city'', or_null (set_text (map_option js_trim (vi_city i))))]),
        (''attester'', or_null (vi_attester i)),
        (''platform'', JStr (if vi_simulator i then ''SIMULATOR'' else vi_platform i))]))"

section \<open>What was signed\<close>

record signed_attester =
  sg_pubkey :: "string option"
  sg_tier :: "js_num option"
  sg_role :: "js_num option"

definition signedAttester :: "json option \<Rightarrow> signed_attester" where
  "signedAttester bundle =
    (let a = (\<lambda>k. Option.bind (Option.bind bundle (\<lambda>b. jget b ''attester'')) (\<lambda>x. jget x k)) in
     \<lparr>sg_pubkey = set_text (jstring (a ''pubkey'')), sg_tier = jnumber (a ''tier''), sg_role = jnumber (a ''role'')\<rparr>)"

definition attesterMismatch :: "json option \<Rightarrow> string \<Rightarrow> string option" where
  "attesterMismatch bundle wallet =
    (case sg_pubkey (signedAttester bundle) of
       Some signedFor \<Rightarrow> if signedFor \<noteq> wallet then Some signedFor else None
     | None \<Rightarrow> None)"

record signed_summary =
  sm_serial :: "string option"
  sm_counter :: js_num
  sm_heat :: js_num
  sm_humidity :: js_num
  sm_uv :: js_num
  sm_fill :: js_num
  sm_photos :: bool
  sm_place :: "string option"

definition place_text :: "json option \<Rightarrow> string option" where
  "place_text bundle =
    (let loc = (\<lambda>k. Option.bind (Option.bind bundle (\<lambda>b. jget b ''location'')) (\<lambda>x. jget x k));
         parts = filter (\<lambda>s. s \<noteq> []) (map js_trim (List.map_filter jstring [loc ''city'', loc ''country'']))
     in set_text (Some (join_with '', '' parts)))"

definition signedScanSummary ::
  "(bytes \<Rightarrow> bytes) \<Rightarrow> string option \<Rightarrow> string option \<Rightarrow> json option \<Rightarrow> signed_summary option" where
  "signedScanSummary sha256 msgHex serial bundle =
    (case set_text msgHex of None \<Rightarrow> None | Some h \<Rightarrow>
      (case bindE (hexToBytes h) parseScanMessage of
         Inl _ \<Rightarrow> None
       | Inr m \<Rightarrow> Some
          \<lparr>sm_serial = (case set_text serial of Some s \<Rightarrow> if bytesEqual (serialHash sha256 s) (sf_serialHash m) then Some s else None | None \<Rightarrow> None),
           sm_counter = sf_counter m, sm_heat = sf_heat m, sm_humidity = sf_hum m, sm_uv = sf_uv m, sm_fill = sf_fill m,
           sm_photos = (\<not> bytesEqual (sf_mediaHash m) ZERO32), sm_place = place_text bundle\<rparr>))"

section \<open>Tag URLs\<close>

definition upper :: "string \<Rightarrow> string" where
  "upper s = map to_upper_char s"

text \<open>\<open>/^([0-9a-f]{14})x([0-9a-f]{6})x([0-9a-f]{16})$/i\<close>\<close>

definition tag_writer :: "string \<Rightarrow> (string \<times> string \<times> string) option" where
  "tag_writer s = (if length s = 38 \<and> to_lower_char (s ! 14) = CHR ''x'' \<and> to_lower_char (s ! 21) = CHR ''x'' \<and>
       list_all is_hex (take 14 s) \<and> list_all is_hex (slice 15 21 s) \<and> list_all is_hex (drop 22 s)
     then Some (take 14 s, slice 15 21 s, drop 22 s) else None)"

definition parseTagUrl :: "(string \<Rightarrow> string option) option \<Rightarrow> tag_params option" where
  "parseTagUrl query = (case query of None \<Rightarrow> None | Some q \<Rightarrow>
    (case (set_text (q ''picc_data''), set_text (q ''cmac'')) of
       (Some piccData, Some cmacEnc) \<Rightarrow>
         Some \<lparr>tp_uid = [], tp_ctr = [], tp_cmac = upper cmacEnc, tp_piccData = Some (upper piccData),
           tp_enc = map_option upper (q ''enc'')\<rparr>
     | _ \<Rightarrow>
       (let (uid, ctr, cmac) = (case tag_writer (case q ''uid'' of Some u \<Rightarrow> u | None \<Rightarrow> []) of
            Some (u, c, m) \<Rightarrow> (Some u, Some c, Some m) | None \<Rightarrow> (q ''uid'', q ''ctr'', q ''cmac''))
        in case (set_text uid, set_text ctr, set_text cmac) of
             (Some u, Some c, Some m) \<Rightarrow> Some \<lparr>tp_uid = upper u, tp_ctr = upper c, tp_cmac = upper m, tp_piccData = None, tp_enc = None\<rparr>
           | _ \<Rightarrow> None)))"

definition sha256_hex_parts :: "(bytes \<Rightarrow> bytes) \<Rightarrow> bytes list \<Rightarrow> string" where
  "sha256_hex_parts sha256 parts = bytesToHex (sha256 (concat parts)) True"

section \<open>Properties\<close>

lemma retry_delay_bound: "eventRetryDelay e a = Some d \<Longrightarrow> a < EVENT_RETRIES \<and> 0 < d \<and> d \<le> 5000"
  by (auto simp: eventRetryDelay_def Let_def EVENT_RETRY_MS_def BUSY_RETRY_MS_def MAX_RETRY_WAIT_S_def min_def
      split: if_splits js_error.splits option.splits)

text \<open>The attempt the loop ends with.\<close>

definition ends_at :: "(nat \<Rightarrow> js_error + json) \<Rightarrow> nat \<Rightarrow> bool" where
  "ends_at post k \<longleftrightarrow> (case post k of Inr _ \<Rightarrow> True | Inl e \<Rightarrow> eventRetryDelay e k = None)"

lemma events_loop_ends:
  assumes "a \<le> EVENT_RETRIES"
  shows "\<exists>k ws. events_loop post a = (post k, Suc k, ws) \<and> a \<le> k \<and> k \<le> EVENT_RETRIES \<and> ends_at post k \<and>
    (\<forall>i. a \<le> i \<longrightarrow> i < k \<longrightarrow> \<not> ends_at post i) \<and> length ws = k - a \<and> sum_list ws \<le> 5000 * of_nat (k - a)"
  using assms
proof (induction post a rule: events_loop.induct)
  case (1 post a)
  show ?case
  proof (cases "ends_at post a")
    case True
    then have "events_loop post a = (post a, Suc a, [])"
      by (subst events_loop.simps) (auto simp: ends_at_def split: sum.splits)
    with True 1(2) show ?thesis by (intro exI [of _ a]) simp
  next
    case False
    then obtain e d where e: "post a = Inl e" "eventRetryDelay e a = Some d" by (auto simp: ends_at_def split: sum.splits)
    note b = retry_delay_bound [OF e(2)]
    then have "Suc a \<le> EVENT_RETRIES" by simp
    from 1(1) [OF e this] obtain k ws where k: "events_loop post (Suc a) = (post k, Suc k, ws)" "Suc a \<le> k" "k \<le> EVENT_RETRIES"
      "ends_at post k" "\<forall>i. Suc a \<le> i \<longrightarrow> i < k \<longrightarrow> \<not> ends_at post i" "length ws = k - Suc a" "sum_list ws \<le> 5000 * of_nat (k - Suc a)"
      by blast
    have "events_loop post a = (post k, Suc k, d # ws)"
      by (subst events_loop.simps) (simp add: e k(1))
    moreover have "\<forall>i. a \<le> i \<longrightarrow> i < k \<longrightarrow> \<not> ends_at post i"
      using k(5) False by (metis le_antisym not_less_eq_eq)
    moreover have "sum_list (d # ws) \<le> 5000 * of_nat (k - a)"
      using k(2,7) b by (simp add: of_nat_diff algebra_simps)
    ultimately show ?thesis using k by (intro exI [of _ k] exI [of _ "d # ws"]) (simp add: Suc_diff_Suc)
  qed
qed

text \<open>Posting an event always ends. Whatever the verifier answers there are at most six posts and at most 25 seconds
  of waiting between them; the result is the answer to the last post, and the posts before it are exactly those
  whose answer asks for another attempt. No post carries a \<open>ts\<close>.
\<close>

theorem events_end:
  "\<exists>k ws. events post body = (post (JObj (without_ts body)) k, Suc k, ws) \<and> k \<le> 5 \<and> sum_list ws \<le> 25000 \<and>
     ends_at (post (JObj (without_ts body))) k \<and> list_all (\<lambda>i. \<not> ends_at (post (JObj (without_ts body))) i) [0..<k] \<and>
     map_of (without_ts body) ''ts'' = None"
proof -
  obtain k ws where k: "events post body = (post (JObj (without_ts body)) k, Suc k, ws)" "k \<le> 5"
    "ends_at (post (JObj (without_ts body))) k" "\<forall>i. i < k \<longrightarrow> \<not> ends_at (post (JObj (without_ts body))) i"
    "sum_list ws \<le> 5000 * of_nat k"
    using events_loop_ends [of 0 "post (JObj (without_ts body))"] by (auto simp: events_def EVENT_RETRIES_def)
  moreover have "of_nat k \<le> (of_nat 5 :: rat)" using k(2) by (simp only: of_nat_le_iff)
  then have "sum_list ws \<le> 25000" using k(5) by simp
  moreover have "map_of (without_ts body) ''ts'' = None" by (auto simp: without_ts_def map_of_eq_None_iff)
  ultimately show ?thesis by (intro exI [of _ k] exI [of _ ws]) (simp add: list_all_iff)
qed

text \<open>
  The anchor step shows what is signed. For the hex of any message the builder makes, the summary shows exactly
  its counter, indicators and fill, the serial only if its hash is the one in the message, and photos exactly when
  the media hash is not zero; text that is no scan message has no summary.
\<close>

theorem signed_summary_shows_message:
  "(case buildScanMessage f of
      Inl _ \<Rightarrow> True
    | Inr m \<Rightarrow> signedScanSummary sha256 (Some (bytesToHex m p)) serial bundle = Some
        \<lparr>sm_serial = (case set_text serial of Some s \<Rightarrow> if serialHash sha256 s = sf_serialHash f then Some s else None | None \<Rightarrow> None),
         sm_counter = sf_counter f, sm_heat = sf_heat f, sm_humidity = sf_hum f, sm_uv = sf_uv f, sm_fill = sf_fill f,
         sm_photos = (sf_mediaHash f \<noteq> ZERO32), sm_place = place_text bundle\<rparr>) \<and>
   (signedScanSummary sha256 (Some h) serial bundle \<noteq> None) = (\<exists>b g. hexToBytes h = Inr b \<and> parseScanMessage b = Inr g)"
proof
  show "case buildScanMessage f of
      Inl _ \<Rightarrow> True
    | Inr m \<Rightarrow> signedScanSummary sha256 (Some (bytesToHex m p)) serial bundle = Some
        \<lparr>sm_serial = (case set_text serial of Some s \<Rightarrow> if serialHash sha256 s = sf_serialHash f then Some s else None | None \<Rightarrow> None),
         sm_counter = sf_counter f, sm_heat = sf_heat f, sm_humidity = sf_hum f, sm_uv = sf_uv f, sm_fill = sf_fill f,
         sm_photos = (sf_mediaHash f \<noteq> ZERO32), sm_place = place_text bundle\<rparr>"
  proof (cases "buildScanMessage f")
    case (Inr m)
    then have m: "sf_ok f" "m = message_of f" by (simp_all add: build_Inr)
    have p: "parseScanMessage m = Inr (wire_form f)" unfolding m(2) by (rule parse_message_of [OF m(1)])
    then have "length m = MSG_LEN" by (simp add: parseScanMessage_def split: if_splits)
    then have "bytesToHex m p \<noteq> []" by (auto simp: bytesToHex_def hex2_def MSG_LEN_def Let_def)
    then have "set_text (Some (bytesToHex m p)) = Some (bytesToHex m p)"
      by (cases "bytesToHex m p") (simp_all add: set_text_def)
    with Inr p show ?thesis
      by (simp add: signedScanSummary_def hex_roundtrip wire_form_def bytesEqual_iff cong: option.case_cong)
  qed simp
  show "(signedScanSummary sha256 (Some h) serial bundle \<noteq> None) = (\<exists>b g. hexToBytes h = Inr b \<and> parseScanMessage b = Inr g)"
  proof (cases h)
    case Nil
    have "hexToBytes [] = Inr []" by (simp add: hexToBytes_def strip_0x_def)
    with Nil show ?thesis by (simp add: signedScanSummary_def set_text_def parseScanMessage_def MSG_LEN_def)
  next
    case (Cons c s)
    then show ?thesis
      by (cases "hexToBytes h") (auto simp: signedScanSummary_def set_text_def split: sum.splits)
  qed
qed

text \<open>Retrying "Get signature" for the same session and photos uploads nothing and keeps the stored upload.\<close>

lemma upload_reused:
  "sameHex (um_nonce c) nonce \<Longrightarrow> sameHex (um_mediaHash c) h \<Longrightarrow> uploadMediaOnce (Some c) nonce h u = Inr c"
  by (simp add: uploadMediaOnce_def)

lemma upload_checked: "uploadMediaOnce None nonce h u = Inr m \<Longrightarrow> sameHex (um_sha256 m) h \<and> um_nonce m = nonce"
  by (auto simp: uploadMediaOnce_def bindE_eq_Inr split: if_splits)

end
