(* ===== verification/Web_Scan.thy ===== *)
theory Web_Scan
  imports Web_Format Web_Verify_Api
begin

text \<open>
  \<open>apps/web/src/lib/anchor-scan.ts\<close> and \<open>scan-steps.ts\<close>: one press on "Sign and send" and the rules of the
  scan page that depend only on step, tier and role. The wallet, RPC and verifier calls of a press are its
  arguments (\<open>anchor_deps\<close>); \<open>base58\<close> is the text of a key.
\<close>

section \<open>The anchor step\<close>

definition refused :: "string \<Rightarrow> thrown" where
  "refused msg = plain (OtherErr ''AnchorRefused'' msg)"

datatype anchor_plan = Plan_send | Plan_recover | Plan_refuse string

definition anchorPlan :: "(pubkey \<Rightarrow> string) \<Rightarrow> account_info option \<Rightarrow> pubkey \<Rightarrow> pubkey \<Rightarrow> anchor_plan" where
  "anchorPlan base58 info wallet programId =
    (case scanProofAttester info programId of
       None \<Rightarrow> Plan_send
     | Some b \<Rightarrow> if b \<noteq> wallet
         then Plan_refuse (''This scan is already anchored by another wallet ('' @ short 4 (Some (base58 b)) @ ''). It cannot be anchored twice.'')
         else Plan_recover)"

definition resetsTxSig :: "thrown \<Rightarrow> bool" where
  "resetsTxSig e = (case th_error e of
     ApiErr a \<Rightarrow> ae_code a = Some ''tx_failed'' \<or> ae_code a = Some ''tx_mismatch''
   | _ \<Rightarrow> False)"

definition needsOwnScanConfirmation :: "bool \<Rightarrow> json option \<Rightarrow> bool" where
  "needsOwnScanConfirmation was_resumed bundle \<longleftrightarrow> was_resumed \<and> sg_pubkey (signedAttester bundle) = None"

record 'tx anchor_deps =
  ad_bundle :: "json option"
  ad_wallet :: pubkey
  ad_programId :: pubkey
  ad_landedSig :: "string option"
  ad_resumed :: bool
  ad_ownScanConfirmed :: bool
  ad_build :: "thrown + ('tx \<times> pubkey)"
  ad_accountInfo :: "pubkey \<Rightarrow> thrown + account_info option"
  ad_findCreating :: "pubkey \<Rightarrow> tx_expectation \<Rightarrow> thrown + string option"
  ad_send :: "'tx \<Rightarrow> thrown + string"
  ad_confirm :: "string \<Rightarrow> thrown + unit"

text \<open>The calls of a press that leave the page: a transaction handed to the wallet and a signature posted.\<close>

datatype 'tx anchor_call = Call_send 'tx | Call_confirm string

datatype anchor_outcome = Anchored string | Not_anchored thrown "string option"

text \<open>
  The first half of the try block: the signature, or the error with the value the variable \<open>sig\<close> has
  when it is thrown. A press that finds no transaction has overwritten it with that empty answer.
\<close>

definition recovered_sig :: "'tx anchor_deps \<Rightarrow> pubkey \<Rightarrow> (thrown \<times> string option) + string" where
  "recovered_sig d scanProof =
    (case ad_findCreating d scanProof \<lparr>ex_programId = Some (ad_programId d), ex_instruction = [''record_scan''], ex_signer = Some (ad_wallet d)\<rparr> of
       Inl e \<Rightarrow> Inl (e, ad_landedSig d)
     | Inr found \<Rightarrow> (case set_text found of
         Some s \<Rightarrow> Inr s
       | None \<Rightarrow> Inl (refused ''This scan is anchored on chain, but its transaction was not found yet. Try again in a moment.'', found)))"

definition new_sig :: "(pubkey \<Rightarrow> string) \<Rightarrow> 'tx anchor_deps \<Rightarrow> ((thrown \<times> string option) + string) \<times> 'tx anchor_call list" where
  "new_sig base58 d =
    (case ad_build d of Inl e \<Rightarrow> (Inl (e, ad_landedSig d), []) | Inr (tx, scanProof) \<Rightarrow>
    (case ad_accountInfo d scanProof of Inl e \<Rightarrow> (Inl (e, ad_landedSig d), []) | Inr info \<Rightarrow>
    (case anchorPlan base58 info (ad_wallet d) (ad_programId d) of
       Plan_refuse m \<Rightarrow> (Inl (refused m, ad_landedSig d), [])
     | Plan_recover \<Rightarrow> (recovered_sig d scanProof, [])
     | Plan_send \<Rightarrow>
         ((case ad_send d tx of Inl e \<Rightarrow> Inl (e, ad_landedSig d) | Inr s \<Rightarrow> Inr s), [Call_send tx]))))"

definition failed_with_sig :: "thrown \<Rightarrow> string option \<Rightarrow> anchor_outcome" where
  "failed_with_sig e s = Not_anchored e (if resetsTxSig e then None else s)"

definition confirmed_sig :: "'tx anchor_deps \<Rightarrow> string \<Rightarrow> anchor_outcome" where
  "confirmed_sig d s = (case ad_confirm d s of Inl e \<Rightarrow> failed_with_sig e (Some s) | Inr _ \<Rightarrow> Anchored s)"

definition anchorScan :: "(pubkey \<Rightarrow> string) \<Rightarrow> 'tx anchor_deps \<Rightarrow> anchor_outcome \<times> 'tx anchor_call list" where
  "anchorScan base58 d =
    (case set_text (attesterMismatch (ad_bundle d) (base58 (ad_wallet d))) of
       Some signed_for \<Rightarrow> (Not_anchored (refused (''This scan was signed for wallet '' @ short 4 (Some signed_for) @
           ''. Switch back to that wallet (header) to anchor it.'')) (ad_landedSig d), [])
     | None \<Rightarrow>
       if needsOwnScanConfirmation (ad_resumed d) (ad_bundle d) \<and> \<not> ad_ownScanConfirmed d
       then (Not_anchored (refused ''Confirm first that this is your own scan: anchor only a scan you made yourself.'') (ad_landedSig d), [])
       else (case set_text (ad_landedSig d) of
         Some s \<Rightarrow> (confirmed_sig d s, [Call_confirm s])
       | None \<Rightarrow> (case new_sig base58 d of
           (Inl (e, s), calls) \<Rightarrow> (failed_with_sig e s, calls)
         | (Inr s, calls) \<Rightarrow> (confirmed_sig d s, calls @ [Call_confirm s]))))"

section \<open>Steps, tiers and roles\<close>

datatype scan_step = St_session | St_tap | St_preview | St_camera | St_read | St_verify | St_tx | St_done | St_dead

definition timedStep :: "scan_step \<Rightarrow> bool" where
  "timedStep s \<longleftrightarrow> s \<noteq> St_tx \<and> s \<noteq> St_done \<and> s \<noteq> St_dead"

definition cameraOn :: "scan_step \<Rightarrow> bool \<Rightarrow> bool" where
  "cameraOn s expired \<longleftrightarrow> s = St_camera \<and> \<not> expired"

definition needsPartnerWallet :: "int \<Rightarrow> int \<Rightarrow> bool" where
  "needsPartnerWallet tier role \<longleftrightarrow> tier \<ge> member Tier ''CERTIFIED'' \<or> role = member Role ''VAULT'' \<or> role = member Role ''PARTNER''"

definition roleChoices :: "bool \<Rightarrow> int list" where
  "roleChoices certified = (if certified then [member Role ''VAULT'', member Role ''PARTNER'']
     else [member Role ''OWNER'', member Role ''SELLER'', member Role ''BUYER''])"

definition initialRole :: "js_num \<Rightarrow> bool \<Rightarrow> int" where
  "initialRole qRole certified =
    (case qRole of
       Fin q \<Rightarrow> if of_int \<lfloor>q\<rfloor> = q \<and> \<lfloor>q\<rfloor> \<in> set (roleChoices certified) then \<lfloor>q\<rfloor>
         else if certified then member Role ''PARTNER'' else member Role ''OWNER''
     | _ \<Rightarrow> if certified then member Role ''PARTNER'' else member Role ''OWNER'')"

definition UNCERTIFIED_SCAN_HREF :: string where "UNCERTIFIED_SCAN_HREF = ''/scan''"

definition uncertifiedScanLink :: "js_error \<Rightarrow> bool \<Rightarrow> string option" where
  "uncertifiedScanLink e certified = (case e of
     ApiErr a \<Rightarrow> if certified \<and> ae_code a = Some ''not_partner'' then Some UNCERTIFIED_SCAN_HREF else None
   | _ \<Rightarrow> None)"

record wallet_options =
  we_connected :: bool
  we_ios :: bool
  we_injectedWallet :: bool
  we_walletConnect :: bool

record wallet_gate =
  wg_canConnect :: bool
  wg_title :: string
  wg_text :: string

definition GATE_WHY :: string where
  "GATE_WHY = (''A certified scan is signed for the partner wallet that is connected when you press '' @ [CHR 0xE2, CHR 0x80, CHR 0x9C] @ ''Get signature'' @ [CHR 0xE2, CHR 0x80, CHR 0x9D] @ '', and only that wallet can anchor it.'')"

definition partnerWalletGate :: "int \<Rightarrow> int \<Rightarrow> wallet_options \<Rightarrow> wallet_gate option" where
  "partnerWalletGate tier role env =
    (if \<not> needsPartnerWallet tier role \<or> we_connected env then None
     else if we_ios env \<and> \<not> we_injectedWallet env then
       (if we_walletConnect env
        then Some \<lparr>wg_canConnect = True, wg_title = ''Connect the partner wallet first'', wg_text = GATE_WHY @
          ('' Safari on iPhone has no wallet extension: press '' @ [CHR 0xE2, CHR 0x80, CHR 0x9C] @ ''Select Wallet'' @ [CHR 0xE2, CHR 0x80, CHR 0x9D] @ '', choose WalletConnect and approve in your wallet app, then return to this tab. Tapping the seal reloads this page; if the wallet then shows '' @ [CHR 0xE2, CHR 0x80, CHR 0x9C] @ ''Connect'' @ [CHR 0xE2, CHR 0x80, CHR 0x9D] @ '', press it once to resume the connection.'')\<rparr>
        else Some \<lparr>wg_canConnect = False, wg_title = ''This browser cannot sign a certified scan'', wg_text = GATE_WHY @
          ('' Safari on iPhone has no wallet extension and this site has no WalletConnect set up, so no partner wallet can be connected here. Use Android Chrome with the partner'' @ [CHR 0x27] @ ''s wallet app, or ask the operator to enable WalletConnect.'')\<rparr>)
     else Some \<lparr>wg_canConnect = True, wg_title = ''Connect the partner wallet first'', wg_text = GATE_WHY @
        '' Connect it here, best before you start: the session runs for 90 seconds from the tap.''\<rparr>)"

definition iosSignHint :: "bool \<Rightarrow> bool \<Rightarrow> string option \<Rightarrow> string" where
  "iosSignHint walletConnect canResume signedFor =
    (let only = (case set_text signedFor of
         Some w \<Rightarrow> '' This scan is signed for wallet '' @ short 4 (Some w) @ '': only that wallet can anchor it.''
       | None \<Rightarrow> [])
     in if walletConnect \<and> canResume
        then (''Connect your wallet below with WalletConnect and sign here, or continue in the wallet app'' @ [CHR 0x27] @ ''s browser, where you sign directly.'') @ only
        else if walletConnect then ''Connect your wallet below with WalletConnect and sign here.'' @ only
        else if canResume
        then (''Safari has no wallet extension: the scan continues in the wallet app'' @ [CHR 0x27] @ ''s browser, where you sign directly.'') @ only
        else ''Safari has no wallet extension and this site has no WalletConnect set up, so this scan cannot be signed in this browser.'')"

text \<open>A reading: whether the card was found, heat and humidity.\<close>

definition escrowScanWarning :: "int \<Rightarrow> (bool \<times> int \<times> int) option \<Rightarrow> string option" where
  "escrowScanWarning role reading =
    (if role \<noteq> member Role ''SELLER'' \<and> role \<noteq> member Role ''BUYER'' then None
     else case scanUsableForOrder (case reading of
            Some (found, heat, humidity) \<Rightarrow> if found then Some (Some (jn heat), Some (jn humidity)) else None
          | None \<Rightarrow> None) of
       Inr _ \<Rightarrow> None
     | Inl reason \<Rightarrow> Some ((''This scan cannot be recorded as an order'' @ [CHR 0x27] @ ''s '') @
         (if role = member Role ''SELLER'' then ''shipping scan'' else ''receipt scan'') @ '' ('' @ reason @
         ''): the escrow compares heat and humidity, so both must be read as intact or triggered. '' @
         (if reading \<noteq> None then ''Photograph the card again.'' else ''Restart and photograph the card.'')))"

section \<open>Presses\<close>

text \<open>The page keeps \<open>landedSig\<close> as \<open>txSig\<close> for the next press; an anchored scan leaves the step.\<close>

fun presses :: "(pubkey \<Rightarrow> string) \<Rightarrow> 'tx anchor_deps list \<Rightarrow> string option \<Rightarrow> (anchor_outcome \<times> 'tx anchor_call list) list" where
  "presses base58 [] sig = []"
| "presses base58 (d # ds) sig =
     (let r = anchorScan base58 (d\<lparr>ad_landedSig := sig\<rparr>) in
      r # (case fst r of Anchored s \<Rightarrow> [] | Not_anchored e l \<Rightarrow> presses base58 ds l))"

definition may_anchor :: "(pubkey \<Rightarrow> string) \<Rightarrow> 'tx anchor_deps \<Rightarrow> bool" where
  "may_anchor base58 d \<longleftrightarrow>
    set_text (attesterMismatch (ad_bundle d) (base58 (ad_wallet d))) = None \<and>
    \<not> (needsOwnScanConfirmation (ad_resumed d) (ad_bundle d) \<and> \<not> ad_ownScanConfirmed d)"

text \<open>The transaction a press sends: the built one, when the wallet may anchor, no signature is kept and no ScanProof is there.\<close>

definition to_send :: "(pubkey \<Rightarrow> string) \<Rightarrow> 'tx anchor_deps \<Rightarrow> 'tx option" where
  "to_send base58 d =
    (case ad_build d of
       Inr (tx, scanProof) \<Rightarrow>
         if may_anchor base58 d \<and> set_text (ad_landedSig d) = None \<and>
            (\<exists>info. ad_accountInfo d scanProof = Inr info \<and> scanProofAttester info (ad_programId d) = None)
         then Some tx else None
     | Inl _ \<Rightarrow> None)"

definition landed_send :: "'tx anchor_deps \<Rightarrow> 'tx anchor_call list \<Rightarrow> bool" where
  "landed_send d calls \<longleftrightarrow> (\<exists>tx s. Call_send tx \<in> set calls \<and> ad_send d tx = Inr s)"

definition confirmed_in :: "'tx anchor_call list \<Rightarrow> string set" where
  "confirmed_in calls = {s. Call_confirm s \<in> set calls}"

definition reset_by :: "anchor_outcome \<Rightarrow> bool" where
  "reset_by r = (case r of Not_anchored e _ \<Rightarrow> resetsTxSig e | Anchored _ \<Rightarrow> False)"

lemma anchorScan_may: "\<not> may_anchor base58 d \<Longrightarrow> \<exists>m. anchorScan base58 d = (Not_anchored (refused m) (ad_landedSig d), [])"
  by (cases "set_text (attesterMismatch (ad_bundle d) (base58 (ad_wallet d)))") (auto simp: anchorScan_def may_anchor_def)

lemma anchorScan_kept:
  "may_anchor base58 d \<Longrightarrow> set_text (ad_landedSig d) = Some s \<Longrightarrow> anchorScan base58 d = (confirmed_sig d s, [Call_confirm s])"
  by (auto simp: anchorScan_def may_anchor_def)

lemma anchorScan_new:
  "may_anchor base58 d \<Longrightarrow> set_text (ad_landedSig d) = None \<Longrightarrow> anchorScan base58 d =
     (case new_sig base58 d of (Inl (e, s), calls) \<Rightarrow> (failed_with_sig e s, calls)
      | (Inr s, calls) \<Rightarrow> (confirmed_sig d s, calls @ [Call_confirm s]))"
  by (auto simp: anchorScan_def may_anchor_def)

lemma new_sig_sends: "Call_send tx \<in> set (snd (new_sig base58 d)) \<longleftrightarrow>
  (\<exists>sp info. ad_build d = Inr (tx, sp) \<and> ad_accountInfo d sp = Inr info \<and> scanProofAttester info (ad_programId d) = None)"
  by (auto simp: new_sig_def anchorPlan_def split: sum.splits option.splits if_splits)

lemma new_sig_confirms: "Call_confirm s \<notin> set (snd (new_sig base58 d))"
  by (auto simp: new_sig_def split: sum.splits anchor_plan.splits)

text \<open>Where a signature comes from: a send that answered, or a transaction found for this wallet's ScanProof.\<close>

definition obtained :: "'tx anchor_deps \<Rightarrow> string \<Rightarrow> bool" where
  "obtained d s \<longleftrightarrow> (\<exists>tx sp info. ad_build d = Inr (tx, sp) \<and> ad_accountInfo d sp = Inr info \<and>
     (scanProofAttester info (ad_programId d) = None \<and> ad_send d tx = Inr s \<or>
      scanProofAttester info (ad_programId d) = Some (ad_wallet d) \<and>
        ad_findCreating d sp \<lparr>ex_programId = Some (ad_programId d), ex_instruction = [''record_scan''], ex_signer = Some (ad_wallet d)\<rparr> = Inr (Some s)))"

lemma set_text_Some: "set_text x = Some s \<longleftrightarrow> x = Some s \<and> s \<noteq> []"
  by (auto simp: set_text_def split: option.splits list.splits if_splits)

lemma new_sig_obtained: "fst (new_sig base58 d) = Inr s \<Longrightarrow> obtained d s"
  by (auto simp: new_sig_def obtained_def anchorPlan_def recovered_sig_def set_text_Some split: sum.splits option.splits if_splits)

lemma new_sig_obtained_pair: "new_sig base58 d = (Inr s, calls) \<Longrightarrow> obtained d s"
  by (rule new_sig_obtained [of base58]) simp

lemma new_sig_fails:
  "new_sig base58 d = (Inl (e, s), calls) \<Longrightarrow> set_text (ad_landedSig d) = None \<Longrightarrow> set_text s = None \<and> \<not> landed_send d calls"
  by (auto simp: new_sig_def recovered_sig_def landed_send_def split: sum.splits option.splits anchor_plan.splits)

lemma new_sig_once: "length (filter (\<lambda>c. case c of Call_send _ \<Rightarrow> True | _ \<Rightarrow> False) (snd (new_sig base58 d))) \<le> 1"
  by (auto simp: new_sig_def split: sum.splits anchor_plan.splits)

text \<open>A press with a kept signature only confirms it, and keeps it unless the server disowns it.\<close>

lemma press_kept:
  assumes "set_text (ad_landedSig d) = Some s"
  shows "confirmed_in (snd (anchorScan base58 d)) \<subseteq> {s} \<and> \<not> landed_send d (snd (anchorScan base58 d)) \<and>
    (\<forall>e l. fst (anchorScan base58 d) = Not_anchored e l \<longrightarrow> \<not> resetsTxSig e \<longrightarrow> l = Some s)"
proof (cases "may_anchor base58 d")
  case True
  then show ?thesis using assms
    by (auto simp: anchorScan_kept confirmed_in_def landed_send_def confirmed_sig_def failed_with_sig_def split: sum.splits)
next
  case False
  from anchorScan_may [OF this] obtain m where "anchorScan base58 d = (Not_anchored (refused m) (ad_landedSig d), [])" by blast
  then show ?thesis using assms by (auto simp: confirmed_in_def landed_send_def set_text_Some)
qed

text \<open>A press without one either ends without a signature, or obtains one, sends at most that one and confirms it.\<close>

lemma press_new:
  assumes "set_text (ad_landedSig d) = None"
  shows "(\<exists>e l. fst (anchorScan base58 d) = Not_anchored e l \<and> set_text l = None \<and>
       confirmed_in (snd (anchorScan base58 d)) = {} \<and> \<not> landed_send d (snd (anchorScan base58 d))) \<or>
    (\<exists>s. obtained d s \<and> may_anchor base58 d \<and> fst (anchorScan base58 d) = confirmed_sig d s \<and> confirmed_in (snd (anchorScan base58 d)) = {s})"
proof (cases "may_anchor base58 d")
  case may: True
  show ?thesis
  proof (cases "fst (new_sig base58 d)")
    case (Inl r)
    obtain e s calls where n: "new_sig base58 d = (Inl (e, s), calls)" using Inl by (cases r, cases "new_sig base58 d") auto
    have "confirmed_in calls = {}" using new_sig_confirms [of _ base58 d] n by (auto simp: confirmed_in_def)
    with new_sig_fails [OF n assms] show ?thesis
      by (intro disjI1) (simp add: anchorScan_new [OF may assms] n failed_with_sig_def set_text_def)
  next
    case (Inr s)
    then obtain calls where n: "new_sig base58 d = (Inr s, calls)" by (cases "new_sig base58 d") auto
    have "confirmed_in (calls @ [Call_confirm s]) = {s}" using new_sig_confirms [of _ base58 d] n by (auto simp: confirmed_in_def)
    with new_sig_obtained [OF Inr] may show ?thesis
      by (intro disjI2) (simp add: anchorScan_new [OF may assms] n)
  qed
next
  case False
  from anchorScan_may [OF this] obtain m where "anchorScan base58 d = (Not_anchored (refused m) (ad_landedSig d), [])" by blast
  then show ?thesis using assms by (auto simp: confirmed_in_def landed_send_def)
qed

lemma anchorScan_sends: "Call_send tx \<in> set (snd (anchorScan base58 d)) \<longleftrightarrow> to_send base58 d = Some tx"
proof (cases "may_anchor base58 d")
  case may: True
  show ?thesis
  proof (cases "set_text (ad_landedSig d)")
    case None
    have "Call_send tx \<in> set (snd (anchorScan base58 d)) \<longleftrightarrow> Call_send tx \<in> set (snd (new_sig base58 d))"
      by (simp add: anchorScan_new [OF may None] split: prod.split sum.split)
    then show ?thesis using may None by (auto simp: new_sig_sends to_send_def split: sum.splits)
  next
    case (Some s)
    then show ?thesis using may by (simp add: anchorScan_kept to_send_def split: sum.splits)
  qed
next
  case False
  from anchorScan_may [OF this] obtain m where "anchorScan base58 d = (Not_anchored (refused m) (ad_landedSig d), [])" by blast
  then show ?thesis using False by (simp add: to_send_def split: sum.splits)
qed

lemma anchorScan_anchored:
  "fst (anchorScan base58 d) = Anchored s \<Longrightarrow>
     may_anchor base58 d \<and> ad_confirm d s = Inr () \<and> (set_text (ad_landedSig d) = Some s \<or> obtained d s)"
  by (cases "may_anchor base58 d"; cases "set_text (ad_landedSig d)")
    (auto simp: anchorScan_kept anchorScan_new confirmed_sig_def failed_with_sig_def dest: anchorScan_may new_sig_obtained_pair
      split: sum.splits prod.splits)

definition run_confirms :: "(anchor_outcome \<times> 'tx anchor_call list) list \<Rightarrow> string set" where
  "run_confirms rs = (\<Union>r \<in> set rs. confirmed_in (snd r))"

definition run_sends :: "'tx anchor_deps list \<Rightarrow> (anchor_outcome \<times> 'tx anchor_call list) list \<Rightarrow> nat" where
  "run_sends ds rs = length (filter (\<lambda>(d, r). landed_send d (snd r)) (zip ds rs))"

lemma landed_send_upd: "landed_send (d\<lparr>ad_landedSig := x\<rparr>) cs = landed_send d cs"
  by (simp add: landed_send_def)

lemma presses_kept:
  assumes "set_text sig = Some s" "\<forall>r \<in> set (presses base58 ds sig). \<not> reset_by (fst r)"
  shows "run_confirms (presses base58 ds sig) \<subseteq> {s} \<and> run_sends ds (presses base58 ds sig) = 0"
  using assms
proof (induction ds arbitrary: sig)
  case (Cons d ds)
  let ?d = "d\<lparr>ad_landedSig := sig\<rparr>" let ?r = "anchorScan base58 ?d"
  have k: "confirmed_in (snd ?r) \<subseteq> {s}" "\<not> landed_send d (snd ?r)"
    "\<And>e l. fst ?r = Not_anchored e l \<Longrightarrow> \<not> resetsTxSig e \<Longrightarrow> l = Some s"
    using press_kept [of ?d s base58] Cons.prems(1) by (auto simp: landed_send_upd)
  show ?case
  proof (cases "fst ?r")
    case (Anchored t)
    then show ?thesis using k by (simp add: run_confirms_def run_sends_def Let_def)
  next
    case (Not_anchored e l)
    have "\<not> resetsTxSig e" using Cons.prems(2) Not_anchored by (simp add: Let_def reset_by_def)
    with k(3) Not_anchored have "l = Some s" by blast
    moreover have "s \<noteq> []" using Cons.prems(1) by (simp add: set_text_Some)
    ultimately have "run_confirms (presses base58 ds l) \<subseteq> {s} \<and> run_sends ds (presses base58 ds l) = 0"
      using Cons.prems(2) Not_anchored by (intro Cons.IH) (auto simp: Let_def set_text_Some)
    then show ?thesis using k Not_anchored by (simp add: run_confirms_def run_sends_def Let_def)
  qed
qed (simp add: run_confirms_def run_sends_def)

text \<open>A wallet and an RPC answer with signatures, never with the empty text.\<close>

definition answers_signatures :: "'tx anchor_deps \<Rightarrow> bool" where
  "answers_signatures d \<longleftrightarrow> (\<forall>s. obtained d s \<longrightarrow> s \<noteq> [])"

lemma obtained_upd: "obtained (d\<lparr>ad_landedSig := x\<rparr>) s = obtained d s"
  by (simp add: obtained_def)

lemma presses_new:
  assumes "set_text sig = None" "\<forall>d \<in> set ds. answers_signatures d" "\<forall>r \<in> set (presses base58 ds sig). \<not> reset_by (fst r)"
  shows "(\<exists>s. run_confirms (presses base58 ds sig) \<subseteq> {s}) \<and> run_sends ds (presses base58 ds sig) \<le> 1"
  using assms
proof (induction ds arbitrary: sig)
  case (Cons d ds)
  let ?d = "d\<lparr>ad_landedSig := sig\<rparr>" let ?r = "anchorScan base58 ?d"
  have "set_text (ad_landedSig ?d) = None" using Cons.prems(1) by simp
  from press_new [OF this, of base58] show ?case
  proof (elim disjE exE conjE)
    fix e l
    assume n: "fst ?r = Not_anchored e l" "set_text l = None" "confirmed_in (snd ?r) = {}" "\<not> landed_send ?d (snd ?r)"
    have "(\<exists>s. run_confirms (presses base58 ds l) \<subseteq> {s}) \<and> run_sends ds (presses base58 ds l) \<le> 1"
      using Cons.prems(2,3) n(1) by (intro Cons.IH n(2)) (auto simp: Let_def)
    with n show ?case by (simp add: run_confirms_def run_sends_def Let_def landed_send_upd)
  next
    fix s
    assume o: "obtained ?d s" "fst ?r = confirmed_sig ?d s" "confirmed_in (snd ?r) = {s}"
    have "s \<noteq> []" using o(1) Cons.prems(2) by (simp add: obtained_upd answers_signatures_def)
    show ?case
    proof (cases "fst ?r")
      case (Anchored t)
      then show ?thesis using o(3) by (auto simp: run_confirms_def run_sends_def Let_def)
    next
      case (Not_anchored e l)
      have "\<not> resetsTxSig e" using Cons.prems(3) Not_anchored by (simp add: Let_def reset_by_def)
      then have "l = Some s" using o(2) Not_anchored by (auto simp: confirmed_sig_def failed_with_sig_def split: sum.splits)
      have "run_confirms (presses base58 ds l) \<subseteq> {s} \<and> run_sends ds (presses base58 ds l) = 0"
        using Cons.prems(3) Not_anchored \<open>l = Some s\<close> \<open>s \<noteq> []\<close> by (intro presses_kept) (auto simp: Let_def set_text_Some)
      then show ?thesis using o(3) Not_anchored by (auto simp: run_confirms_def run_sends_def Let_def)
    qed
  qed
qed (simp add: run_confirms_def run_sends_def)

text \<open>A scan is anchored once, by the wallet it was signed for. A press sends a transaction exactly when that wallet is
  connected, an unsigned resumed scan is confirmed as the user's own, no signature is kept and no ScanProof is at its
  address; a scan is anchored only after the server confirmed a signature that was kept, sent, or found as the transaction
  by which this wallet created the ScanProof. Over any number of presses, in any order of failures, at most one
  transaction lands and only one signature is ever posted, as long as the server does not answer that the signature
  failed or belongs to something else.
\<close>

theorem anchored_once:
  assumes "\<forall>d \<in> set ds. answers_signatures d" "\<forall>r \<in> set (presses base58 ds sig). \<not> reset_by (fst r)"
  shows "(Call_send tx \<in> set (snd (anchorScan base58 d))) = (to_send base58 d = Some tx) \<and>
    (fst (anchorScan base58 d) = Anchored s \<longrightarrow>
       may_anchor base58 d \<and> ad_confirm d s = Inr () \<and> (set_text (ad_landedSig d) = Some s \<or> obtained d s)) \<and>
    (\<exists>s. run_confirms (presses base58 ds sig) \<subseteq> {s}) \<and>
    run_sends ds (presses base58 ds sig) \<le> (if set_text sig = None then 1 else 0)"
  using presses_new [OF _ assms(1,2)] presses_kept [OF _ assms(2)]
  by (cases "set_text sig") (auto simp: anchorScan_sends dest: anchorScan_anchored)

text \<open>Send, a lost confirmation, then a retry.\<close>

definition sample_press :: "(thrown + unit) \<Rightarrow> nat anchor_deps" where
  "sample_press c = \<lparr>ad_bundle = None, ad_wallet = [1], ad_programId = [2], ad_landedSig = None, ad_resumed = False, ad_ownScanConfirmed = False,
     ad_build = Inr (5, [3]), ad_accountInfo = (\<lambda>_. Inr None), ad_findCreating = (\<lambda>_ _. Inr None), ad_send = (\<lambda>_. Inr ''sig''), ad_confirm = (\<lambda>_. c)\<rparr>"

lemma sample_presses:
  "presses (\<lambda>_. ''w'') [sample_press (Inl (refused ''x'')), sample_press (Inr ())] None =
    [(Not_anchored (refused ''x'') (Some ''sig''), [Call_send 5, Call_confirm ''sig'']), (Anchored ''sig'', [Call_confirm ''sig''])]"
  by (simp add: sample_press_def anchorScan_def attesterMismatch_def signedAttester_def set_text_def needsOwnScanConfirmation_def
      new_sig_def anchorPlan_def scanProofAttester_def confirmed_sig_def failed_with_sig_def resetsTxSig_def refused_def plain_def)

theorem anchored_once_witness:
  "run_sends [sample_press (Inl (refused ''x'')), sample_press (Inr ())]
     (presses (\<lambda>_. ''w'') [sample_press (Inl (refused ''x'')), sample_press (Inr ())] None) \<le> 1 \<and>
   to_send (\<lambda>_. ''w'') (sample_press (Inr ())) = Some 5"
proof -
  have a: "\<forall>d \<in> set [sample_press (Inl (refused ''x'')), sample_press (Inr ())]. answers_signatures d"
    by (simp add: answers_signatures_def obtained_def sample_press_def)
  have r: "\<forall>r \<in> set (presses (\<lambda>_. ''w'') [sample_press (Inl (refused ''x'')), sample_press (Inr ())] None). \<not> reset_by (fst r)"
    unfolding sample_presses by (simp add: reset_by_def resetsTxSig_def refused_def plain_def)
  have "Call_send 5 \<in> set (snd (anchorScan (\<lambda>_. ''w'') (sample_press (Inr ()))))"
    by (simp add: sample_press_def anchorScan_def attesterMismatch_def signedAttester_def set_text_def needsOwnScanConfirmation_def
      new_sig_def anchorPlan_def scanProofAttester_def)
  with anchored_once [OF a r, of 5 "sample_press (Inr ())"] show ?thesis by (simp add: set_text_def)
qed

end
