(* ===== verification/Flacon_Registry.thy ===== *)
theory Flacon_Registry
  imports Program_Flacon
begin

text \<open>
  The administration of the program's registry: \<open>init_registry.rs\<close> and \<open>registry_admin.rs\<close>. The
  registry account is a transition system over the commands of its authority; its invariant is the
  capacity and uniqueness of keys, partners and sites, and its safety property is that a revoked
  server key never anchors a scan again.
\<close>

section \<open>State and events\<close>

definition MAX_SERVER_KEYS :: nat where "MAX_SERVER_KEYS = 8"
definition MAX_PARTNERS :: nat where "MAX_PARTNERS = 16"
definition MAX_SITES :: nat where "MAX_SITES = 16"

text \<open>The account with the label of each site, in the order of the site ids.\<close>

record registry_account = registry +
  rg_labels :: "bytes list"
  rg_bump :: byte

datatype registry_event =
    RegistryInitialized pubkey pubkey
  | ServerKeyAdded byte pubkey "64 word" "64 word"
  | ServerKeyRevoked byte "64 word"
  | PartnerAdded pubkey
  | PartnerRemoved pubkey
  | AuthorityTransferred pubkey pubkey
  | SiteAdded "16 word" bytes

type_synonym admin_result = "flacon_error + (registry_account \<times> registry_event)"

section \<open>Handlers\<close>

text \<open>The program account's ProgramData address, the ProgramData account and its upgrade authority.\<close>

record program_accounts =
  pa_registry :: pubkey
  pa_programdata_address :: "pubkey option"
  pa_program_data :: pubkey
  pa_upgrade_authority :: "pubkey option"

definition handle_init_registry :: "program_accounts \<Rightarrow> pubkey \<Rightarrow> byte \<Rightarrow> admin_result" where
  "handle_init_registry a authority bump =
    bindE (guardE (pa_programdata_address a = Some (pa_program_data a)) NotUpgradeAuthority) (\<lambda>_.
    bindE (guardE (pa_upgrade_authority a = Some authority) NotUpgradeAuthority) (\<lambda>_.
    Inr (\<lparr>rg_authority = authority, rg_server_keys = [], rg_partners = [], rg_sites = [],
          rg_labels = [], rg_bump = bump\<rparr>,
         RegistryInitialized (pa_registry a) authority)))"

text \<open>The account constraint \<open>has_one = authority\<close> of every command.\<close>

definition admin_registry :: "registry_account \<Rightarrow> pubkey \<Rightarrow> flacon_error + unit" where
  "admin_registry r signer = guardE (rg_authority r = signer) Unauthorized"

definition handle_add_server_key ::
  "registry_account \<Rightarrow> byte \<Rightarrow> pubkey \<Rightarrow> 64 word \<Rightarrow> 64 word \<Rightarrow> admin_result" where
  "handle_add_server_key r kid pk vf vt =
    bindE (guardE (vt = 0 \<or> sint vf \<le> sint vt) InvalidKeyValidity) (\<lambda>_.
    bindE (guardE (server_key_of (registry.truncate r) kid = None) DuplicateServerKey) (\<lambda>_.
    bindE (guardE (length (rg_server_keys r) < MAX_SERVER_KEYS) ServerKeysFull) (\<lambda>_.
    Inr (r\<lparr>rg_server_keys := rg_server_keys r @
              [\<lparr>sk_key_id = kid, sk_pubkey = pk, sk_valid_from = vf, sk_valid_to = vt\<rparr>]\<rparr>,
         ServerKeyAdded kid pk vf vt))))"

definition handle_add_partner :: "registry_account \<Rightarrow> pubkey \<Rightarrow> admin_result" where
  "handle_add_partner r k =
    bindE (guardE (\<not> is_partner (registry.truncate r) k) DuplicatePartner) (\<lambda>_.
    bindE (guardE (length (rg_partners r) < MAX_PARTNERS) PartnersFull) (\<lambda>_.
    Inr (r\<lparr>rg_partners := rg_partners r @ [k]\<rparr>, PartnerAdded k)))"

definition has_site :: "registry_account \<Rightarrow> 16 word \<Rightarrow> bool" where
  "has_site r s \<longleftrightarrow> s \<in> set (rg_sites r)"

definition handle_add_site :: "registry_account \<Rightarrow> 16 word \<Rightarrow> bytes \<Rightarrow> admin_result" where
  "handle_add_site r s label =
    bindE (guardE (s \<noteq> 0) InvalidSiteId) (\<lambda>_.
    bindE (guardE (\<not> has_site r s) DuplicateSite) (\<lambda>_.
    bindE (guardE (length (rg_sites r) < MAX_SITES) SitesFull) (\<lambda>_.
    Inr (r\<lparr>rg_sites := rg_sites r @ [s], rg_labels := rg_labels r @ [label]\<rparr>, SiteAdded s label))))"

text \<open>\<open>i64::saturating_sub(1)\<close> and \<open>max(1)\<close> on the clock.\<close>

definition saturating_pred :: "64 word \<Rightarrow> 64 word" where
  "saturating_pred w = (if sint w = - (2 ^ 63) then w else w - 1)"

definition revoked_valid_to :: "64 word \<Rightarrow> 64 word \<Rightarrow> flacon_error + 64 word" where
  "revoked_valid_to cur now =
    bindE (guardE (cur = 0 \<or> sint now \<le> sint cur) ServerKeyAlreadyRevoked) (\<lambda>_.
    Inr (if sint (saturating_pred now) < 1 then 1 else saturating_pred now))"

text \<open>\<open>server_key_mut\<close>: the first entry with the id is changed in place.\<close>

fun set_valid_to :: "byte \<Rightarrow> 64 word \<Rightarrow> server_key list \<Rightarrow> server_key list" where
  "set_valid_to kid vt [] = []"
| "set_valid_to kid vt (k # ks) =
     (if sk_key_id k = kid then k\<lparr>sk_valid_to := vt\<rparr> # ks else k # set_valid_to kid vt ks)"

definition handle_revoke_server_key :: "registry_account \<Rightarrow> 64 word \<Rightarrow> byte \<Rightarrow> admin_result" where
  "handle_revoke_server_key r now kid =
    bindE (case server_key_of (registry.truncate r) kid of None \<Rightarrow> Inl UnknownServerKey | Some k \<Rightarrow> Inr k) (\<lambda>k.
    bindE (revoked_valid_to (sk_valid_to k) now) (\<lambda>vt.
    Inr (r\<lparr>rg_server_keys := set_valid_to kid vt (rg_server_keys r)\<rparr>, ServerKeyRevoked kid vt)))"

definition handle_remove_partner :: "registry_account \<Rightarrow> pubkey \<Rightarrow> admin_result" where
  "handle_remove_partner r k =
    bindE (guardE (is_partner (registry.truncate r) k) PartnerNotFound) (\<lambda>_.
    Inr (r\<lparr>rg_partners := remove1 k (rg_partners r)\<rparr>, PartnerRemoved k))"

definition handle_transfer_authority :: "registry_account \<Rightarrow> pubkey \<Rightarrow> admin_result" where
  "handle_transfer_authority r k =
    Inr (r\<lparr>rg_authority := k\<rparr>, AuthorityTransferred (rg_authority r) k)"

section \<open>Commands\<close>

datatype admin_cmd =
    AddServerKey byte pubkey "64 word" "64 word"
  | RevokeServerKey byte
  | AddPartner pubkey
  | RemovePartner pubkey
  | AddSite "16 word" bytes
  | TransferAuthority pubkey

fun handle_admin :: "registry_account \<Rightarrow> 64 word \<Rightarrow> admin_cmd \<Rightarrow> admin_result" where
  "handle_admin r now (AddServerKey kid pk vf vt) = handle_add_server_key r kid pk vf vt"
| "handle_admin r now (RevokeServerKey kid) = handle_revoke_server_key r now kid"
| "handle_admin r now (AddPartner k) = handle_add_partner r k"
| "handle_admin r now (RemovePartner k) = handle_remove_partner r k"
| "handle_admin r now (AddSite s l) = handle_add_site r s l"
| "handle_admin r now (TransferAuthority k) = handle_transfer_authority r k"

definition run_admin :: "registry_account \<Rightarrow> pubkey \<Rightarrow> 64 word \<Rightarrow> admin_cmd \<Rightarrow> admin_result" where
  "run_admin r signer now c = bindE (admin_registry r signer) (\<lambda>_. handle_admin r now c)"

text \<open>Accepted commands, each at a clock that does not run backwards.\<close>

inductive admin_steps :: "64 word \<Rightarrow> registry_account \<Rightarrow> 64 word \<Rightarrow> registry_account \<Rightarrow> bool" where
  idle: "sint t \<le> sint t' \<Longrightarrow> admin_steps t r t' r"
| cmd: "admin_steps t r t' r' \<Longrightarrow> run_admin r' signer t' c = Inr (r'', e) \<Longrightarrow> sint t' \<le> sint t'' \<Longrightarrow>
    admin_steps t r t'' r''"

section \<open>Invariant\<close>

definition registry_ok :: "registry_account \<Rightarrow> bool" where
  "registry_ok r \<longleftrightarrow>
     distinct (map sk_key_id (rg_server_keys r)) \<and> length (rg_server_keys r) \<le> MAX_SERVER_KEYS \<and>
     distinct (rg_partners r) \<and> length (rg_partners r) \<le> MAX_PARTNERS \<and>
     distinct (rg_sites r) \<and> 0 \<notin> set (rg_sites r) \<and> length (rg_sites r) \<le> MAX_SITES \<and>
     length (rg_labels r) = length (rg_sites r)"

lemma server_key_of_keys: "server_key_of (registry.truncate r) kid = List.find (\<lambda>k. sk_key_id k = kid) (rg_server_keys r)"
  by (simp add: server_key_of_def registry.truncate_def)

lemma is_partner_of: "is_partner (registry.truncate r) k \<longleftrightarrow> k \<in> set (rg_partners r)"
  by (simp add: is_partner_def registry.truncate_def)

lemma server_key_free:
  "List.find (\<lambda>k. sk_key_id k = kid) ks = None \<longleftrightarrow> kid \<notin> set (map sk_key_id ks)"
  by (auto simp: find_None_iff)

lemma set_valid_to_ids [simp]: "map sk_key_id (set_valid_to kid vt ks) = map sk_key_id ks"
  by (induction ks) auto

lemma set_valid_to_length [simp]: "length (set_valid_to kid vt ks) = length ks"
  by (induction ks) auto

lemma admin_keeps_registry_ok:
  assumes "run_admin r signer now c = Inr (r', e)" "registry_ok r"
  shows "registry_ok r'"
  using assms
  by (cases c)
    (auto simp: run_admin_def result_simps registry_ok_def handle_add_server_key_def handle_add_partner_def
      handle_add_site_def handle_revoke_server_key_def handle_remove_partner_def handle_transfer_authority_def
      has_site_def is_partner_of server_key_of_keys server_key_free length_remove1 distinct_remove1
      split: option.splits)

lemma admin_steps_registry_ok: "admin_steps t r t' r' \<Longrightarrow> registry_ok r \<Longrightarrow> registry_ok r'"
  by (induction rule: admin_steps.induct) (auto intro: admin_keeps_registry_ok)

section \<open>A revoked key\<close>

text \<open>The entry of the id ended before the time \<open>t\<close>.\<close>

definition key_ended :: "registry_account \<Rightarrow> byte \<Rightarrow> int \<Rightarrow> bool" where
  "key_ended r kid t \<longleftrightarrow> (case server_key_of (registry.truncate r) kid of None \<Rightarrow> False
     | Some k \<Rightarrow> sk_valid_to k \<noteq> 0 \<and> sint (sk_valid_to k) < t)"

lemma key_ended_mono: "key_ended r kid t \<Longrightarrow> t \<le> t' \<Longrightarrow> key_ended r kid t'"
  by (auto simp: key_ended_def split: option.splits)

lemma find_set_valid_to:
  "List.find (\<lambda>k. sk_key_id k = kid) (set_valid_to kid' vt ks) =
     map_option (\<lambda>k. if kid' = kid then k\<lparr>sk_valid_to := vt\<rparr> else k) (List.find (\<lambda>k. sk_key_id k = kid) ks)"
  by (induction ks) (auto simp: option.map_ident)

lemma find_append_keys: "List.find P (xs @ ys) = (case List.find P xs of None \<Rightarrow> List.find P ys | Some x \<Rightarrow> Some x)"
  by (induction xs) auto

lemma sint_pred:
  fixes w :: "64 word"
  assumes "- (2 ^ 63) < sint w"
  shows "sint (w - 1) = sint w - 1"
proof -
  have "sint w < 2 ^ 63" using sint_lt [of w] by simp
  with assms show ?thesis by (simp add: sint_word_ariths signed_take_bit_int_eq_self)
qed

lemma revoked_in_the_past:
  assumes "revoked_valid_to cur now = Inr vt" "1 < sint now"
  shows "vt \<noteq> 0 \<and> sint vt = sint now - 1"
  using assms sint_pred [of now] by (auto simp: revoked_valid_to_def saturating_pred_def result_simps)

text \<open>No later command brings an ended key back: a second revocation is refused, an id is never added twice.\<close>

lemma admin_keeps_key_ended:
  assumes "run_admin r signer now c = Inr (r', e)" "key_ended r kid (sint now)"
  shows "key_ended r' kid (sint now)"
  using assms
  by (cases c)
    (auto simp: run_admin_def result_simps key_ended_def server_key_of_keys find_set_valid_to find_append_keys
      handle_add_server_key_def handle_add_partner_def handle_add_site_def handle_revoke_server_key_def
      handle_remove_partner_def handle_transfer_authority_def revoked_valid_to_def split: option.splits if_splits)

lemma admin_steps_key_ended:
  "admin_steps t r t' r' \<Longrightarrow> key_ended r kid (sint t) \<Longrightarrow> key_ended r' kid (sint t')"
proof (induction rule: admin_steps.induct)
  case (cmd t r t' r' signer c r'' e t'')
  then show ?case using admin_keeps_key_ended key_ended_mono by blast
qed (auto intro: key_ended_mono)

lemma revoke_ends_key:
  assumes "run_admin r signer now (RevokeServerKey kid) = Inr (r', e)" "1 < sint now"
  shows "key_ended r' kid (sint now)"
  using assms revoked_in_the_past
  by (fastforce simp: run_admin_def result_simps handle_revoke_server_key_def key_ended_def server_key_of_keys
      find_set_valid_to split: option.splits)

lemma ended_key_records_nothing:
  assumes "key_ended r (sa_server_key_id a) (sint (se_now env))"
  shows "\<not> isOk (record_scan (registry.truncate r) env p s a)"
  using assms
  by (auto simp: isOk_iff record_scan_def result_simps key_ended_def check_key_and_freshness_def is_valid_at_def
      Let_def split: option.splits)

text \<open>C28: Once the authority has revoked a server key, no scan is recorded under its id any more: whatever
  commands the authority runs afterwards (adding keys, revoking again, handing over the registry), at every
  later clock \<open>record_scan\<close> with that key id is an error, for every passport, seal and argument.\<close>

theorem revoked_key_never_scans:
  assumes "run_admin r signer now (RevokeServerKey kid) = Inr (r1, e)" "1 < sint now"
    and "admin_steps now r1 later r2"
    and "sa_server_key_id a = kid" "se_now env = later"
  shows "\<not> isOk (record_scan (registry.truncate r2) env p s a)"
  using assms by (intro ended_key_records_nothing) (auto intro: admin_steps_key_ended revoke_ends_key)

definition demo_registry_account :: registry_account where
  "demo_registry_account = \<lparr>rg_authority = [7], rg_server_keys = [\<lparr>sk_key_id = 1, sk_pubkey = [9], sk_valid_from = 0, sk_valid_to = 0\<rparr>],
     rg_partners = [], rg_sites = [], rg_labels = [], rg_bump = 255\<rparr>"

definition demo_scan_args :: scan_args where
  "demo_scan_args = \<lparr>sa_counter = 5, sa_tier = 1, sa_role = 0, sa_tamper = 0, sa_uv = 3, sa_hum = 3, sa_heat = 3,
     sa_heat_levels = 0, sa_fill = 90, sa_site_id = 0, sa_media_hash = [], sa_bundle_hash = [], sa_nonce = [],
     sa_ts = 1000, sa_server_key_id = 1\<rparr>"

definition demo_revoked :: registry_account where
  "demo_revoked = demo_registry_account\<lparr>rg_server_keys := [\<lparr>sk_key_id = 1, sk_pubkey = [9], sk_valid_from = 0, sk_valid_to = 999\<rparr>]\<rparr>"

text \<open>Revoked at 1000, the key is not even back after a second key was added at the same clock.\<close>

theorem revoked_key_never_scans_witness:
  "\<not> isOk (record_scan (registry.truncate
       (demo_revoked\<lparr>rg_server_keys := rg_server_keys demo_revoked @
          [\<lparr>sk_key_id = 2, sk_pubkey = [8], sk_valid_from = 0, sk_valid_to = 0\<rparr>]\<rparr>))
     \<lparr>se_prev = None, se_now = 1001, se_attester = [7]\<rparr>
     \<lparr>pp_serial_hash = [1], pp_binding_hash = [], pp_asset = [], pp_issuer = [7], pp_grade = 0, pp_scan_count = 0,
      pp_seal_count = 1, pp_void = False, pp_created_at = 0\<rparr>
     \<lparr>sl_passport = [1], sl_kind = 0, sl_uid_hash = [2], sl_last_counter = 0, sl_dead = False, sl_attached_at = 0\<rparr>
     demo_scan_args)"
proof (rule revoked_key_never_scans [where kid = 1 and r = demo_registry_account and signer = "[7]" and now = 1000
      and e = "ServerKeyRevoked 1 999" and later = 1001])
  show "run_admin demo_registry_account [7] 1000 (RevokeServerKey 1) = Inr (demo_revoked, ServerKeyRevoked 1 999)"
    by (simp add: run_admin_def admin_registry_def handle_revoke_server_key_def server_key_of_keys demo_registry_account_def
        demo_revoked_def revoked_valid_to_def saturating_pred_def)
  have *: "run_admin demo_revoked [7] 1000 (AddServerKey 2 [8] 0 0) =
      Inr (demo_revoked\<lparr>rg_server_keys := rg_server_keys demo_revoked @
          [\<lparr>sk_key_id = 2, sk_pubkey = [8], sk_valid_from = 0, sk_valid_to = 0\<rparr>]\<rparr>, ServerKeyAdded 2 [8] 0 0)"
    by (simp add: run_admin_def admin_registry_def handle_add_server_key_def server_key_of_keys demo_registry_account_def
        demo_revoked_def MAX_SERVER_KEYS_def)
  show "admin_steps 1000 demo_revoked 1001 (demo_revoked\<lparr>rg_server_keys := rg_server_keys demo_revoked @
          [\<lparr>sk_key_id = 2, sk_pubkey = [8], sk_valid_from = 0, sk_valid_to = 0\<rparr>]\<rparr>)"
    by (rule admin_steps.cmd [OF admin_steps.idle *]) simp_all
qed (simp_all add: demo_scan_args_def)

end
