(* ===== verification/FV_Number.thy ===== *)
theory FV_Number
  imports FV_Text
begin

text \<open>
  \<open>Number(string)\<close>: the numeric literal grammar of ECMAScript and the rounding of its value to a
  binary64 number (53 significant bits, ties to even, gradual underflow, overflow to Infinity).
  A zero has no sign in \<open>js_num\<close>; the code never tells -0 from 0.
\<close>

section \<open>Rounding\<close>

fun bit_len :: "nat \<Rightarrow> nat" where
  "bit_len n = (if n = 0 then 0 else Suc (bit_len (n div 2)))"

declare bit_len.simps [simp del]

definition two_pow :: "int \<Rightarrow> rat" where
  "two_pow k = (if 0 \<le> k then 2 ^ nat k else 1 / 2 ^ nat (- k))"

definition round_even :: "rat \<Rightarrow> int" where
  "round_even q = (let f = \<lfloor>q\<rfloor>; d = q - of_int f in
     if d < 1 / 2 then f else if d > 1 / 2 then f + 1 else if even f then f else f + 1)"

text \<open>The binary exponent of a positive number.\<close>

definition bin_exponent :: "rat \<Rightarrow> int" where
  "bin_exponent q = (let (n, d) = quotient_of q; e = int (bit_len (nat n)) - int (bit_len (nat d))
     in if two_pow e \<le> q then e else e - 1)"

definition to_double :: "rat \<Rightarrow> js_num" where
  "to_double q =
    (if q = 0 then Fin 0
     else let a = \<bar>q\<bar>; u = two_pow (max (bin_exponent a) (- 1022) - 52); m = of_int (round_even (a / u)) * u
     in if 2 ^ 1024 \<le> m then (if 0 < q then PosInf else NegInf) else Fin (if 0 < q then m else - m))"

section \<open>Literals\<close>

definition int_pow10 :: "int \<Rightarrow> rat" where
  "int_pow10 k = (if 0 \<le> k then 10 ^ nat k else 1 / 10 ^ nat (- k))"

fun split_sign :: "string \<Rightarrow> bool \<times> string" where
  "split_sign [] = (False, [])"
| "split_sign (c # s) = (if c = CHR ''-'' then (True, s) else if c = CHR ''+'' then (False, s) else (False, c # s))"

definition digits_of :: "(char \<Rightarrow> bool) \<Rightarrow> string \<Rightarrow> bool" where
  "digits_of P s \<longleftrightarrow> s \<noteq> [] \<and> list_all P s"

definition exponent_part :: "string \<Rightarrow> int option" where
  "exponent_part s = (case s of [] \<Rightarrow> Some 0
     | c # t \<Rightarrow> if c \<noteq> CHR ''e'' \<and> c \<noteq> CHR ''E'' then None
         else let (neg, d) = split_sign t in
           if digits_of is_digit d then Some (if neg then - int (read_nat d) else int (read_nat d)) else None)"

definition decimal_value :: "string \<Rightarrow> rat option" where
  "decimal_value s =
    (let i = takeWhile is_digit s; r = dropWhile is_digit s;
         dot = (case r of c # t \<Rightarrow> c = CHR ''.'' | [] \<Rightarrow> False);
         f = (if dot then takeWhile is_digit (tl r) else []);
         e = (if dot then dropWhile is_digit (tl r) else r)
     in if i = [] \<and> f = [] then None
        else map_option (\<lambda>k. of_nat (read_nat (i @ f)) * int_pow10 (k - int (length f))) (exponent_part e))"

definition char_val :: "char \<Rightarrow> nat" where
  "char_val c = (if is_digit c then code c - 48 else if code c \<ge> 97 then code c - 87 else code c - 55)"

definition read_base :: "nat \<Rightarrow> string \<Rightarrow> nat" where
  "read_base b s = foldl (\<lambda>a c. b * a + char_val c) 0 s"

definition radix_value :: "nat \<Rightarrow> (char \<Rightarrow> bool) \<Rightarrow> string \<Rightarrow> js_num" where
  "radix_value b P s = (if digits_of P s then to_double (of_nat (read_base b s)) else NaN)"

definition js_number :: "string \<Rightarrow> js_num" where
  "js_number str =
    (let s = js_trim str; p = take 2 s; r = drop 2 s in
     if s = [] then Fin 0
     else if p = ''0x'' \<or> p = ''0X'' then radix_value 16 is_hex r
     else if p = ''0o'' \<or> p = ''0O'' then radix_value 8 (\<lambda>c. is_digit c \<and> code c < 56) r
     else if p = ''0b'' \<or> p = ''0B'' then radix_value 2 (\<lambda>c. is_digit c \<and> code c < 50) r
     else let (neg, t) = split_sign s in
       if t = ''Infinity'' then (if neg then NegInf else PosInf)
       else case decimal_value t of None \<Rightarrow> NaN | Some q \<Rightarrow> to_double (if neg then - q else q))"

text \<open>\<open>Number(x)\<close> of a string that may be null: null is 0.\<close>

definition js_number_or_null :: "string option \<Rightarrow> js_num" where
  "js_number_or_null v = (case v of None \<Rightarrow> Fin 0 | Some s \<Rightarrow> js_number s)"

section \<open>Whole numbers are exact up to 2^53\<close>

lemma bit_len_0 [simp]: "bit_len 0 = 0"
  by (simp add: bit_len.simps [of 0])

lemma bit_len_1 [simp]: "bit_len (Suc 0) = 1"
  by (subst bit_len.simps) simp

lemma bit_len_bounds: "n < 2 ^ bit_len n \<and> (0 < n \<longrightarrow> 2 ^ (bit_len n - 1) \<le> n)"
proof (induction n rule: bit_len.induct)
  case (1 n)
  show ?case
  proof (cases "n = 0")
    case False
    with 1 have IH: "n div 2 < 2 ^ bit_len (n div 2)" "0 < n div 2 \<longrightarrow> 2 ^ (bit_len (n div 2) - 1) \<le> n div 2"
      by auto
    show ?thesis
    proof (cases "n div 2 = 0")
      case True
      with False have "n = 1" by auto
      then show ?thesis by simp
    next
      case 2: False
      then obtain k where k: "bit_len (n div 2) = Suc k" using bit_len.simps [of "n div 2"] by auto
      with IH False 2 show ?thesis by (subst (1 2) bit_len.simps) (auto simp: bit_len.simps [of n])
    qed
  qed (simp add: bit_len.simps [of 0])
qed

lemma round_even_int [simp]: "round_even (of_int n) = n"
  by (simp add: round_even_def)

lemma bin_exponent_nat:
  assumes "0 < n" shows "bin_exponent (of_nat n) = int (bit_len n) - 1"
proof -
  have q: "quotient_of (of_nat n) = (int n, 1)"
    using quotient_of_int [of "int n"] by simp
  have "bit_len n \<noteq> 0" using assms by (simp add: bit_len.simps [of n])
  moreover have "of_nat n < (2 :: rat) ^ bit_len n"
    using bit_len_bounds [of n] by (metis of_nat_less_iff of_nat_numeral of_nat_power)
  moreover have "(2 :: rat) ^ (bit_len n - 1) \<le> of_nat n"
    using bit_len_bounds [of n] assms by (metis of_nat_le_iff of_nat_numeral of_nat_power)
  ultimately show ?thesis
    by (auto simp: bin_exponent_def q two_pow_def nat_diff_distrib split: if_splits)
qed

lemma to_double_nat:
  assumes "n \<le> 2 ^ 53" shows "to_double (of_nat n) = Fin (of_nat n)"
proof (cases "n = 0")
  case False
  define e where "e = bit_len n - 1"
  have be: "bit_len n = Suc e" "2 ^ e \<le> n" "bin_exponent (of_nat n) = int e"
    using False bit_len_bounds [of n] by (simp_all add: e_def bin_exponent_nat bit_len.simps [of n])
  have e53: "e \<le> 53" using be(2) assms power_increasing_iff [of "2 :: nat" e 53] by linarith
  obtain m :: nat where m: "of_nat n / two_pow (int e - 52) = of_int (int m)" "of_int (int m) * two_pow (int e - 52) = of_nat n"
  proof (cases "e = 53")
    case True
    with be(2) assms have "n = 2 ^ 53" by simp
    with True show ?thesis using that [of "2 ^ 52"] by (simp add: two_pow_def)
  next
    case False
    with e53 have "e \<le> 52" by simp
    then have "two_pow (int e - 52) = 1 / 2 ^ (52 - e)" by (auto simp: two_pow_def nat_diff_distrib)
    then show ?thesis using that [of "n * 2 ^ (52 - e)"] by simp
  qed
  have "(of_nat n :: rat) \<le> of_nat (2 ^ 53)" using assms of_nat_mono by blast
  then have big: "\<not> (2 :: rat) ^ 1024 \<le> of_nat n" by simp
  have "round_even (of_nat n / two_pow (int e - 52)) = int m" using m(1) round_even_int [of "int m"] by simp
  with False big m(2) show ?thesis by (simp add: to_double_def be(3) Let_def)
qed (simp add: to_double_def)

lemma to_double_int: "\<bar>n\<bar> \<le> 2 ^ 53 \<Longrightarrow> to_double (of_int n) = jn n"
proof (cases "0 \<le> n")
  case True
  assume "\<bar>n\<bar> \<le> 2 ^ 53"
  with True show ?thesis using to_double_nat [of "nat n"] by simp
next
  case False
  assume "\<bar>n\<bar> \<le> 2 ^ 53"
  with False have "to_double (of_int (- n)) = Fin (of_int (- n))" using to_double_nat [of "nat (- n)"] by simp
  with False show ?thesis by (auto simp: to_double_def Let_def split: if_splits)
qed

text \<open>Decimal digits without a sign, and their value.\<close>

lemma number_digits:
  assumes "list_all is_digit s" "s \<noteq> []"
  shows "js_number s = to_double (of_nat (read_nat s))"
proof -
  have "is_graph (hd s)" "is_graph (last s)" using assms by (auto simp: list_all_iff digit_is_graph)
  then have t: "js_trim s = s" using assms by (simp add: js_trim_graph)
  have d: "is_digit c" if "c \<in> set s" for c using assms that by (auto simp: list_all_iff)
  have no: "CHR ''x'' \<notin> set s" "CHR ''X'' \<notin> set s" "CHR ''o'' \<notin> set s" "CHR ''O'' \<notin> set s" "CHR ''b'' \<notin> set s"
    "CHR ''B'' \<notin> set s" "CHR ''I'' \<notin> set s" "CHR ''-'' \<notin> set s" "CHR ''+'' \<notin> set s"
    using d by (fastforce simp: is_digit_def code_def)+
  have p: "c \<in> set s" if "take 2 s = [a, c]" for a c
    using that set_take_subset [of 2 s] by auto
  have sg: "split_sign s = (False, s)" using no(8,9) by (cases s) auto
  have inf: "s \<noteq> ''Infinity''" using no(7) by auto
  have tw: "takeWhile is_digit s = s" "dropWhile is_digit s = []" using d by (auto simp: takeWhile_eq_all_conv dropWhile_eq_Nil_conv)
  have "decimal_value s = Some (of_nat (read_nat s))"
    using assms by (simp add: decimal_value_def tw exponent_part_def int_pow10_def)
  then show ?thesis
    using assms p no inf by (auto simp: js_number_def t sg Let_def)
qed

lemma number_show_nat: "n \<le> 2 ^ 53 \<Longrightarrow> js_number (show_nat n) = jn (int n)"
  by (simp add: number_digits show_nat_digits to_double_nat)

end
