(* ===== verification/Script_Cli.thy ===== *)
theory Script_Cli
  imports Flacon_Registry FV_Number Escrow_Rules Idl_Types Web_Send
begin

text \<open>
  \<open>scripts/lib/cli.ts\<close>: the plumbing of the operator scripts. URLs and arguments are checked before
  anything is sent, the verifier key of the registry is planned, an event is posted with the 503 retry
  and the transaction that created an account is searched. An error is a constructor of \<open>cli_error\<close>
  (one per \<open>throw\<close>, with the values its message prints); the RPC, \<open>fetch\<close>, \<open>PublicKey\<close> and the key
  derivation are arguments. An argument list is a string list, a missing argument is None.
\<close>

datatype cli_error =
    BadSerialArg "string option" | BadUidArg "string option" | BrandAndNameRequired | BatchRequired
  | AssetRequired | BadAssetArg string | BadKind | BadVerifyUrl string
  | NoKeyChosen | SeveralKeysChosen | TestKeyNotLocal | BadEnvSeed | EnvHoldsTestKey | BadServerPubkey | CliHoldsTestKey
  | BadKeyId "string option" | BadTimestamp string | BadValidity | BadPubkeyHex | Usage | BadPartner "string option"
  | OnlyRevoked string | RegistryFull | RotateFirst string string int
  | NoInstruction string | NoAccount string string | NoPassportAccount

section \<open>Arguments and URLs\<close>

definition arg_at :: "string list \<Rightarrow> nat \<Rightarrow> string option" where
  "arg_at argv i = (if i < length argv then Some (argv ! i) else None)"

fun position_of :: "string \<Rightarrow> string list \<Rightarrow> nat option" where
  "position_of x [] = None"
| "position_of x (y # ys) = (if x = y then Some 0 else map_option Suc (position_of x ys))"

definition or_empty :: "string option \<Rightarrow> string" where
  "or_empty v = (case v of Some s \<Rightarrow> s | None \<Rightarrow> [])"

definition SERIAL_RE :: "string \<Rightarrow> bool" where
  "SERIAL_RE s \<longleftrightarrow> s \<noteq> [] \<and> is_alnum (hd s) \<and>
     list_all (\<lambda>c. is_alnum c \<or> c \<in> {CHR ''.'', CHR ''_'', CHR ''-''}) (tl s) \<and> 2 \<le> length (tl s) \<and> length (tl s) \<le> 63"

definition UID_RE :: "string \<Rightarrow> bool" where
  "UID_RE s \<longleftrightarrow> length s = 14 \<and> list_all is_hex s"

definition HEX32_RE :: "string \<Rightarrow> bool" where
  "HEX32_RE s \<longleftrightarrow> length s = 64 \<and> list_all is_hex s"

definition http_rest :: "string \<Rightarrow> string option" where
  "http_rest s = (if starts_with s ''https://'' then Some (drop 8 s)
     else if starts_with s ''http://'' then Some (drop 7 s) else None)"

text \<open>\<open>(:\d+)?(\/|$)\<close>\<close>

definition slash_or_end :: "string \<Rightarrow> bool" where
  "slash_or_end s \<longleftrightarrow> s = [] \<or> hd s = CHR ''/''"

definition port_then_end :: "string \<Rightarrow> bool" where
  "port_then_end s \<longleftrightarrow> slash_or_end s \<or>
     (s \<noteq> [] \<and> hd s = CHR '':'' \<and> takeWhile is_digit (tl s) \<noteq> [] \<and> slash_or_end (dropWhile is_digit (tl s)))"

definition isLocalUrl :: "string \<Rightarrow> bool" where
  "isLocalUrl url = (case http_rest url of None \<Rightarrow> False
     | Some r \<Rightarrow> list_ex (\<lambda>h. starts_with r h \<and> port_then_end (drop (length h) r))
                   [''localhost'', ''127.0.0.1'', ''[::1]''])"

definition DEFAULT_VERIFY_URL :: string where
  "DEFAULT_VERIFY_URL = ''https://verify.flaconvault.com''"

definition strip_slash :: "string \<Rightarrow> string" where
  "strip_slash s = (if s \<noteq> [] \<and> last s = CHR ''/'' then butlast s else s)"

definition verifyUrl :: "string option \<Rightarrow> string option \<Rightarrow> string" where
  "verifyUrl env arg = strip_slash (case arg of Some u \<Rightarrow> u | None \<Rightarrow> (case env of Some u \<Rightarrow> u | None \<Rightarrow> DEFAULT_VERIFY_URL))"

text \<open>\<open>path_join\<close> is \<open>path.join\<close>, \<open>home\<close> is \<open>os.homedir()\<close>.\<close>

definition expandHome :: "(string \<Rightarrow> string \<Rightarrow> string) \<Rightarrow> string \<Rightarrow> string \<Rightarrow> string" where
  "expandHome path_join home p = (if starts_with p ''~'' then path_join home (drop 1 p) else p)"

text \<open>The first of the two IDL files that exists.\<close>

definition loadIdl :: "(string \<Rightarrow> idl option) \<Rightarrow> string \<Rightarrow> string + idl" where
  "loadIdl read name =
    (case List.find (\<lambda>p. read p \<noteq> None) [''target/idl/'' @ name @ ''.json'', ''packages/proof/src/idl/'' @ name @ ''.json''] of
       Some p \<Rightarrow> Inr (the (read p))
     | None \<Rightarrow> Inl (name @ ('' IDL not found '' @ [CHR 0xE2, CHR 0x80, CHR 0x94] @ '' run `anchor build` first'')))"

definition BPF_LOADER_UPGRADEABLE :: string where
  "BPF_LOADER_UPGRADEABLE = ''BPFLoaderUpgradeab1e11111111111111111111111''"

definition programDataOf :: "(bytes list \<Rightarrow> pubkey \<Rightarrow> pubkey) \<Rightarrow> pubkey \<Rightarrow> pubkey \<Rightarrow> pubkey" where
  "programDataOf find_pda loader programId = find_pda [programId] loader"

section \<open>Posting an event\<close>

record post_response =
  pr_status :: int
  pr_json :: "thrown + json"
  pr_text :: "thrown + string"

definition response_ok :: "post_response \<Rightarrow> bool" where
  "response_ok r \<longleftrightarrow> 200 \<le> pr_status r \<and> pr_status r \<le> 299"

definition post_failure :: "int \<Rightarrow> string \<Rightarrow> thrown" where
  "post_failure status text = plain (OtherErr ''Error'' (''/api/events '' @ show_int status @ '' '' @ utf16_take 300 text))"

text \<open>\<open>fetch i\<close> answers the i-th request; the result comes with the number of requests made.\<close>

function postEvent :: "(nat \<Rightarrow> thrown + post_response) \<Rightarrow> nat \<Rightarrow> nat \<Rightarrow> (thrown + json) \<times> nat" where
  "postEvent fetch retries attempt =
    (case fetch attempt of
       Inl e \<Rightarrow> (Inl e, Suc attempt)
     | Inr r \<Rightarrow>
         if response_ok r then (pr_json r, Suc attempt)
         else (case pr_text r of
             Inl e \<Rightarrow> (Inl e, Suc attempt)
           | Inr text \<Rightarrow>
               if pr_status r = 503 \<and> attempt < retries then postEvent fetch retries (Suc attempt)
               else (Inl (post_failure (pr_status r) text), Suc attempt)))"
  by pat_completeness auto
termination by (relation "measure (\<lambda>(_, n, a). n - a)") auto

declare postEvent.simps [simp del]

section \<open>The transaction that created an account\<close>

record creating_expectation =
  ce_programId :: pubkey
  ce_discriminator :: bytes
  ce_accountIndex :: nat
  ce_signer :: "pubkey option"

fun find_index :: "('a \<Rightarrow> bool) \<Rightarrow> 'a list \<Rightarrow> nat option" where
  "find_index P [] = None"
| "find_index P (x # xs) = (if P x then Some 0 else map_option Suc (find_index P xs))"

definition expectationFromIdl ::
  "idl \<Rightarrow> pubkey \<Rightarrow> string \<Rightarrow> string \<Rightarrow> pubkey option \<Rightarrow> cli_error + creating_expectation" where
  "expectationFromIdl i programId ixName accountName signer =
    (case instruction i ixName of
       None \<Rightarrow> Inl (NoInstruction ixName)
     | Some ix \<Rightarrow> (case find_index (\<lambda>a. ia_name a = accountName) (ii_accounts ix) of
         None \<Rightarrow> Inl (NoAccount accountName ixName)
       | Some k \<Rightarrow> Inr \<lparr>ce_programId = programId, ce_discriminator = map of_nat (ii_discriminator ix),
                         ce_accountIndex = k, ce_signer = signer\<rparr>))"

definition txCreatesAccount :: "chain_tx option \<Rightarrow> pubkey \<Rightarrow> creating_expectation \<Rightarrow> bool" where
  "txCreatesAccount t' account e = (case t' of None \<Rightarrow> False | Some t \<Rightarrow>
     (case ct_meta t of None \<Rightarrow> False | Some m \<Rightarrow>
       if tm_err m then False
       else if (case ce_signer e of Some s \<Rightarrow> \<not> signed_by t s | None \<Rightarrow> False) then False
       else list_ex (\<lambda>ix. key_at (account_keys t) (ci_program ix) = Some (ce_programId e) \<and>
           starts_with (ci_data ix) (ce_discriminator e) \<and>
           Option.bind (nat_at (ci_accounts ix) (ce_accountIndex e)) (key_at (account_keys t)) = Some account)
         (ct_instructions t)))"

text \<open>The paging loop, then the search from the oldest signature.\<close>

function sig_window ::
  "(nat \<Rightarrow> string option \<Rightarrow> thrown + (string \<times> bool) list) \<Rightarrow> nat \<Rightarrow> nat \<Rightarrow> string option \<Rightarrow> string list \<Rightarrow>
   thrown + string list option" where
  "sig_window get m seen before ok =
    (if m \<le> seen then Inr None
     else let limit = min 1000 (m - seen) in
       bindE (get limit before) (\<lambda>page.
         let ok = ok @ map fst (filter (\<lambda>(_, err). \<not> err) page) in
         if length page < limit then Inr (Some ok)
         else sig_window get m (seen + length page) (if page = [] then before else Some (fst (last page))) ok))"
  by pat_completeness auto
termination by (relation "measure (\<lambda>(_, m, seen, _, _). m - seen)") auto

declare sig_window.simps [simp del]

fun first_created :: "(string \<Rightarrow> thrown + chain_tx option) \<Rightarrow> (chain_tx option \<Rightarrow> bool) \<Rightarrow> string list \<Rightarrow> thrown + string option" where
  "first_created get P [] = Inr None"
| "first_created get P (s # ss) = bindE (get s) (\<lambda>t. if P t then Inr (Some s) else first_created get P ss)"

definition cliCreatingSignature ::
  "(nat \<Rightarrow> string option \<Rightarrow> thrown + (string \<times> bool) list) \<Rightarrow> (string \<Rightarrow> thrown + chain_tx option) \<Rightarrow>
   pubkey \<Rightarrow> creating_expectation \<Rightarrow> nat \<Rightarrow> thrown + string option" where
  "cliCreatingSignature sigs tx account expect m =
    bindE (sig_window sigs m 0 None []) (\<lambda>ok. case ok of
      None \<Rightarrow> Inr None
    | Some ok \<Rightarrow> first_created tx (\<lambda>t. txCreatesAccount t account expect) (rev ok))"

section \<open>Core assets\<close>

definition PASSPORT_ASSET_OFFSET :: nat where
  "PASSPORT_ASSET_OFFSET = 8 + 32 + 32"

definition B58 :: string where
  "B58 = ''123456789ABCDEFGHJKLMNPQRSTUVWXYZabcdefghijkmnopqrstuvwxyz''"

fun b58_digits :: "nat \<Rightarrow> string" where
  "b58_digits n = (if n = 0 then [] else b58_digits (n div 58) @ [B58 ! (n mod 58)])"

declare b58_digits.simps [simp del]

definition be_val :: "bytes \<Rightarrow> nat" where
  "be_val bs = foldl (\<lambda>a b. 256 * a + unat b) 0 bs"

definition bs58encode :: "bytes \<Rightarrow> string" where
  "bs58encode bs = map (\<lambda>_. CHR ''1'') (takeWhile (\<lambda>b. b = 0) bs) @ b58_digits (be_val bs)"

text \<open>\<open>search\<close> is \<open>getProgramAccounts\<close> with memcmp filters (offset, base58 text).\<close>

definition passportsUsingAsset ::
  "(pubkey \<Rightarrow> (nat \<times> string) list \<Rightarrow> thrown + pubkey list) \<Rightarrow> (pubkey \<Rightarrow> string) \<Rightarrow> pubkey \<Rightarrow> idl \<Rightarrow> pubkey \<Rightarrow>
   cli_error + (thrown + pubkey list)" where
  "passportsUsingAsset search toBase58 programId i asset =
    (case map_of (idl_accounts i) ''Passport'' of
       None \<Rightarrow> Inl NoPassportAccount
     | Some d \<Rightarrow> Inr (search programId [(0, bs58encode (map of_nat d)), (PASSPORT_ASSET_OFFSET, toBase58 asset)]))"

definition existingAssetProblem ::
  "(pubkey \<Rightarrow> string) \<Rightarrow> pubkey \<Rightarrow> pubkey option \<Rightarrow> pubkey \<Rightarrow> pubkey list \<Rightarrow> string option" where
  "existingAssetProblem b58 asset core_owner wallet usedBy =
    (case core_owner of
       None \<Rightarrow> Some (b58 asset @ '' is not a Metaplex Core asset (mint_passport would refuse it); pass \"new\" to mint one'')
     | Some k \<Rightarrow>
         if k \<noteq> wallet then Some (''the Core asset '' @ b58 asset @ '' belongs to '' @ b58 k @
            '', not this wallet; pass \"new\" to mint one'')
         else if usedBy \<noteq> [] then Some (''the Core asset '' @ b58 asset @ '' already backs passport '' @
            join_with '', '' (map b58 usedBy) @ ''; pass \"new\" to mint one'')
         else None)"

section \<open>Seals of a seed passport\<close>

record seed_seal =
  ss_uid :: string
  ss_kind :: int
  ss_isdead :: bool

datatype seal_op = SealAttach string int | SealMarkDead string

definition sealSeedPlan :: "seed_seal list \<Rightarrow> seal_op list" where
  "sealSeedPlan seals = map (\<lambda>s. SealAttach (ss_uid s) (ss_kind s)) seals @
     map (\<lambda>s. SealMarkDead (ss_uid s)) (filter ss_isdead seals)"

section \<open>bind-chip\<close>

record bind_args =
  ba_serial :: string
  ba_uid :: string
  ba_brand :: string
  ba_name :: string
  ba_batch :: string
  ba_asset :: "pubkey option"
  ba_kind :: int
  ba_verify :: string

text \<open>\<open>ba_asset\<close> is None for \<open>new\<close>; \<open>pk\<close> is the \<open>PublicKey\<close> constructor.\<close>

definition parse_asset :: "(string \<Rightarrow> pubkey option) \<Rightarrow> string \<Rightarrow> cli_error + pubkey option" where
  "parse_asset pk a = (if a = ''new'' then Inr None
     else case pk a of Some k \<Rightarrow> Inr (Some k) | None \<Rightarrow> Inl (BadAssetArg a))"

definition parse_kind :: "string option \<Rightarrow> cli_error + int" where
  "parse_kind v = (let k = js_number (case v of Some s \<Rightarrow> s | None \<Rightarrow> ''1'') in
     if k = jn 0 then Inr 0 else if k = jn 1 then Inr 1 else Inl BadKind)"

definition parseBindChipArgs ::
  "(string \<Rightarrow> pubkey option) \<Rightarrow> string option \<Rightarrow> string list \<Rightarrow> cli_error + bind_args" where
  "parseBindChipArgs pk env argv =
    (let serial = js_trim (or_empty (arg_at argv 0)); uid = or_empty (arg_at argv 1);
         brand = js_trim (or_empty (arg_at argv 2)); name = js_trim (or_empty (arg_at argv 3));
         verify = verifyUrl env (arg_at argv 7)
     in bindE (guardE (SERIAL_RE serial) (BadSerialArg (arg_at argv 0))) (\<lambda>_.
        bindE (guardE (UID_RE uid) (BadUidArg (arg_at argv 1))) (\<lambda>_.
        bindE (guardE (brand \<noteq> [] \<and> name \<noteq> []) BrandAndNameRequired) (\<lambda>_.
        bindE (case arg_at argv 4 of None \<Rightarrow> Inl BatchRequired | Some b \<Rightarrow> Inr b) (\<lambda>batch.
        bindE (guardE (or_empty (arg_at argv 5) \<noteq> []) AssetRequired) (\<lambda>_.
        bindE (parse_asset pk (or_empty (arg_at argv 5))) (\<lambda>asset.
        bindE (parse_kind (arg_at argv 6)) (\<lambda>kind.
        bindE (guardE (http_rest verify \<noteq> None) (BadVerifyUrl verify)) (\<lambda>_.
        Inr \<lparr>ba_serial = serial, ba_uid = map to_upper_char uid, ba_brand = brand, ba_name = name,
             ba_batch = batch, ba_asset = asset, ba_kind = kind, ba_verify = verify\<rparr>)))))))))"

section \<open>The verifier key\<close>

record key_request =
  kr_argv :: "string list"
  kr_url :: string
  kr_envSeedHex :: "string option"
  kr_vectorsPubkeyHex :: string
  kr_derive :: "string \<Rightarrow> string"

text \<open>The value after the first occurrence of a flag.\<close>

definition flag_value :: "string list \<Rightarrow> string \<Rightarrow> string option" where
  "flag_value argv n = (case position_of n argv of Some i \<Rightarrow> arg_at argv (Suc i) | None \<Rightarrow> None)"

definition chooseServerKey :: "key_request \<Rightarrow> cli_error + string" where
  "chooseServerKey r =
    (let has = (\<lambda>n. n \<in> set (kr_argv r));
         chosen = length (filter id [has ''--server-pubkey'', has ''--server-pubkey-from-env'', has ''--test-key'']);
         test = lower (kr_vectorsPubkeyHex r)
     in if chosen = 0 then Inl NoKeyChosen
        else if chosen > 1 then Inl SeveralKeysChosen
        else if has ''--test-key'' then
          (if \<not> isLocalUrl (kr_url r) then Inl TestKeyNotLocal else Inr test)
        else if has ''--server-pubkey-from-env'' then
          (case map_option js_trim (kr_envSeedHex r) of
             None \<Rightarrow> Inl BadEnvSeed
           | Some seed \<Rightarrow>
               if seed = [] \<or> \<not> HEX32_RE seed then Inl BadEnvSeed
               else let hex = lower (kr_derive r seed) in
                 if hex = test \<and> \<not> isLocalUrl (kr_url r) then Inl EnvHoldsTestKey else Inr hex)
        else let cli = or_empty (flag_value (kr_argv r) ''--server-pubkey'') in
          if \<not> HEX32_RE cli then Inl BadServerPubkey
          else if lower cli = test \<and> \<not> isLocalUrl (kr_url r) then Inl CliHoldsTestKey
          else Inr (lower cli))"

text \<open>\<open>/^\d{1,3}$/\<close> and at most 255.\<close>

definition key_id_text :: "string option \<Rightarrow> cli_error + int" where
  "key_id_text v = (let s = or_empty v in
     if s = [] \<or> length s > 3 \<or> \<not> list_all is_digit s \<or> read_nat s > 255 then Inl (BadKeyId v)
     else Inr (int (read_nat s)))"

definition parseKeyIdFlag :: "string list \<Rightarrow> int \<Rightarrow> cli_error + int" where
  "parseKeyIdFlag argv def = (if position_of ''--key-id'' argv = None then Inr def
     else key_id_text (flag_value argv ''--key-id''))"

record registry_key =
  rk_keyId :: int
  rk_pubkeyHex :: string
  rk_validFrom :: int
  rk_validTo :: int

datatype key_status = KeyValid | KeyEnded | KeyNotYet

definition keyStatus :: "registry_key \<Rightarrow> int \<Rightarrow> key_status" where
  "keyStatus k now = (if rk_validTo k \<noteq> 0 \<and> rk_validTo k < now then KeyEnded
     else if now < rk_validFrom k then KeyNotYet else KeyValid)"

definition status_text :: "key_status \<Rightarrow> string" where
  "status_text s = (case s of KeyValid \<Rightarrow> ''valid'' | KeyEnded \<Rightarrow> ''revoked or expired'' | KeyNotYet \<Rightarrow> ''not yet valid'')"

definition CLI_MAX_SERVER_KEYS :: nat where "CLI_MAX_SERVER_KEYS = 8"

datatype key_plan = PlanSkip int string | PlanAdd int string

definition key_tag :: "int \<Rightarrow> registry_key \<Rightarrow> string" where
  "key_tag now k = ''key_id '' @ show_int (rk_keyId k) @ '' ['' @ status_text (keyStatus k now) @ '']''"

text \<open>The next unused id from \<open>wanted\<close> up to 255, then from 0; -1 when all are used.\<close>

definition next_free :: "registry_key list \<Rightarrow> int \<Rightarrow> int" where
  "next_free keys wanted =
    (case List.find (\<lambda>i. i \<notin> rk_keyId ` set keys) ([wanted..255] @ [0..wanted - 1]) of Some i \<Rightarrow> i | None \<Rightarrow> -1)"

definition usable_key :: "registry_key list \<Rightarrow> string \<Rightarrow> int \<Rightarrow> registry_key option" where
  "usable_key keys hex now =
    (let mine = filter (\<lambda>k. lower (rk_pubkeyHex k) = hex) keys in
     case List.find (\<lambda>k. keyStatus k now = KeyValid) mine of
       Some k \<Rightarrow> Some k | None \<Rightarrow> List.find (\<lambda>k. keyStatus k now = KeyNotYet) mine)"

definition planServerKey :: "registry_key list \<Rightarrow> string \<Rightarrow> int \<Rightarrow> int \<Rightarrow> cli_error + key_plan" where
  "planServerKey keys chosenHex wantedId now =
    (let hex = lower chosenHex; tag = key_tag now;
         wanted = List.find (\<lambda>k. rk_keyId k = wantedId) keys;
         mine = filter (\<lambda>k. lower (rk_pubkeyHex k) = hex) keys
     in case usable_key keys hex now of
          Some u \<Rightarrow> Inr (PlanSkip (rk_keyId u) (''this key is registered as '' @ tag u @
            (if rk_keyId u = wantedId then []
             else case wanted of Some w \<Rightarrow> ''; '' @ tag w @ '' holds '' @ rk_pubkeyHex w
                  | None \<Rightarrow> ''; key_id '' @ show_int wantedId @ '' is unused'')))
        | None \<Rightarrow>
            if mine \<noteq> [] then Inl (OnlyRevoked (join_with '', '' (map tag mine)))
            else (case wanted of
                None \<Rightarrow> if CLI_MAX_SERVER_KEYS \<le> length keys then Inl RegistryFull
                        else Inr (PlanAdd wantedId (''key_id '' @ show_int wantedId @ '' is unused''))
              | Some w \<Rightarrow>
                  if keyStatus w now = KeyValid then Inl (RotateFirst (tag w) hex (next_free keys wantedId))
                  else if CLI_MAX_SERVER_KEYS \<le> length keys then Inl RegistryFull
                  else let free = next_free keys wantedId in
                    Inr (PlanAdd free (tag w @ '' holds an old key; the new key goes to key_id '' @ show_int free @
                      '' (set FV_SERVER_KEY_ID='' @ show_int free @ '' on the verifier)''))))"

section \<open>server-key and partner arguments\<close>

datatype server_key_cmd = KeyAdd string int int int | KeyRevoke int | KeyList

definition unix_flag :: "string list \<Rightarrow> string \<Rightarrow> int \<Rightarrow> cli_error + int" where
  "unix_flag argv flag def = (if position_of flag argv = None then Inr def
     else let v = or_empty (flag_value argv flag) in
       if v = [] \<or> length v > 12 \<or> \<not> list_all is_digit v then Inl (BadTimestamp flag) else Inr (int (read_nat v)))"

definition parseServerKeyArgs :: "string list \<Rightarrow> cli_error + server_key_cmd" where
  "parseServerKeyArgs argv =
    (if arg_at argv 0 = Some ''add'' then
       (let hex = lower (or_empty (arg_at argv 1)) in
        bindE (guardE (HEX32_RE hex) BadPubkeyHex) (\<lambda>_.
        bindE (unix_flag argv ''--valid-from'' 0) (\<lambda>validFrom.
        bindE (unix_flag argv ''--valid-to'' 0) (\<lambda>validTo.
        bindE (guardE (\<not> (validTo \<noteq> 0 \<and> validTo < validFrom)) BadValidity) (\<lambda>_.
        bindE (key_id_text (arg_at argv 2)) (\<lambda>keyId. Inr (KeyAdd hex keyId validFrom validTo)))))))
     else if arg_at argv 0 = Some ''revoke'' then bindE (key_id_text (arg_at argv 1)) (\<lambda>k. Inr (KeyRevoke k))
     else if arg_at argv 0 = Some ''list'' then Inr KeyList
     else Inl Usage)"

datatype partner_cmd = PartnerAdd pubkey | PartnerRemove pubkey | PartnerList

definition parsePartnerArgs :: "(string \<Rightarrow> pubkey option) \<Rightarrow> string list \<Rightarrow> cli_error + partner_cmd" where
  "parsePartnerArgs pk argv =
    (if arg_at argv 0 = Some ''list'' then Inr PartnerList
     else if arg_at argv 0 \<noteq> Some ''add'' \<and> arg_at argv 0 \<noteq> Some ''remove'' then Inl Usage
     else case pk (or_empty (arg_at argv 1)) of
         None \<Rightarrow> Inl (BadPartner (arg_at argv 1))
       | Some k \<Rightarrow> Inr (if arg_at argv 0 = Some ''add'' then PartnerAdd k else PartnerRemove k))"

end
