(* ===== verification/Script_Facts.thy ===== *)
theory Script_Facts
  imports Script_Cli
begin

text \<open>
  What the operator plumbing of \<open>scripts/lib/cli.ts\<close> promises: the searched transaction is genuine, the
  post ends, base58 texts tell byte strings apart, the public test key never reaches a public cluster, and
  a planned verifier key or seal order is accepted by the program.
\<close>

section \<open>The creating transaction\<close>

lemma txCreatesAccount_iff:
  "txCreatesAccount (Some t) account e \<longleftrightarrow> ct_meta t \<noteq> None \<and> \<not> tx_failed t \<and> (\<forall>s \<in> set_option (ce_signer e). signed_by t s) \<and>
     (\<exists>ix \<in> set (ct_instructions t). key_at (account_keys t) (ci_program ix) = Some (ce_programId e) \<and>
        starts_with (ci_data ix) (ce_discriminator e) \<and>
        Option.bind (nat_at (ci_accounts ix) (ce_accountIndex e)) (key_at (account_keys t)) = Some account)"
  by (auto simp: txCreatesAccount_def tx_failed_def list_ex_iff split: option.splits)

interpretation cli_creates: tx_matcher "\<lambda>t. txCreatesAccount (Some t) account e" "ce_programId e" "set_option (ce_signer e)"
  for account e
  by unfold_locales (auto simp: txCreatesAccount_iff)

text \<open>The search over signatures is the first match of the locale.\<close>

lemma first_created_find:
  assumes "first_created get P ss = Inr (Some s)"
  shows "\<exists>older newer t. ss = older @ s # newer \<and> get s = Inr t \<and> P t \<and>
    (\<forall>s' \<in> set older. \<exists>t'. get s' = Inr t' \<and> \<not> P t')"
  using assms
proof (induction ss)
  case (Cons x ss)
  then obtain t where t: "get x = Inr t" by (auto simp: result_simps)
  show ?case
  proof (cases "P t")
    case True
    with Cons.prems t have "x = s" by simp
    with True t show ?thesis by (metis append_Nil empty_iff list.set(1))
  next
    case False
    with Cons t obtain older newer t' where *: "ss = older @ s # newer" "get s = Inr t'" "P t'"
      "\<forall>s' \<in> set older. \<exists>t'. get s' = Inr t' \<and> \<not> P t'" by auto
    then have "x # ss = (x # older) @ s # newer" by simp
    with * False t show ?thesis by (metis set_ConsD)
  qed
qed simp

section \<open>Posting\<close>

lemma postEvent_requests:
  assumes "attempt \<le> retries"
  shows "snd (postEvent fetch retries attempt) \<le> Suc retries \<and> attempt < snd (postEvent fetch retries attempt)"
  using assms
proof (induction fetch retries attempt rule: postEvent.induct)
  case (1 fetch retries attempt)
  then show ?case by (subst (1 2) postEvent.simps) (fastforce split: sum.splits dest: Suc_lessD)
qed

lemma postEvent_waits:
  "attempt \<le> i \<Longrightarrow> Suc i < snd (postEvent fetch retries attempt) \<Longrightarrow>
   \<exists>r. fetch i = Inr r \<and> pr_status r = 503"
proof (induction fetch retries attempt rule: postEvent.induct)
  case (1 fetch retries attempt)
  obtain r body where r: "fetch attempt = Inr r" "\<not> response_ok r" "pr_text r = Inr body" "pr_status r = 503" "attempt < retries"
    using 1(2,3) by (subst (asm) postEvent.simps) (auto split: sum.splits if_splits)
  show ?case
  proof (cases "i = attempt")
    case False
    moreover from 1(3) r have "Suc i < snd (postEvent fetch retries (Suc attempt))"
      by (subst (asm) postEvent.simps) simp
    ultimately show ?thesis using 1(1) [OF r(1,2,3)] 1(2) r by auto
  qed (use r in auto)
qed

lemma postEvent_result:
  "\<exists>i. snd (postEvent fetch retries attempt) = Suc i \<and>
    (fst (postEvent fetch retries attempt) = (case fetch i of Inl e \<Rightarrow> Inl e | Inr r \<Rightarrow>
       if response_ok r then pr_json r
       else (case pr_text r of Inl e \<Rightarrow> Inl e | Inr t \<Rightarrow> Inl (post_failure (pr_status r) t))))"
proof (induction fetch retries attempt rule: postEvent.induct)
  case (1 fetch retries attempt)
  then show ?case by (subst (1 2) postEvent.simps) (auto split: sum.splits)
qed

section \<open>base58\<close>

definition b58_val :: "char \<Rightarrow> nat" where
  "b58_val c = length (takeWhile (\<lambda>x. x \<noteq> c) B58)"

definition b58_read :: "string \<Rightarrow> nat" where
  "b58_read s = foldl (\<lambda>a c. 58 * a + b58_val c) 0 s"

lemma B58_facts: "length B58 = 58" "distinct B58" "B58 ! 0 = CHR ''1''"
  by (simp_all add: B58_def)

lemma b58_val_nth: "n < 58 \<Longrightarrow> b58_val (B58 ! n) = n"
proof -
  assume n: "n < 58"
  have "takeWhile (\<lambda>x. x \<noteq> B58 ! n) B58 = take n B58"
    using n B58_facts by (intro takeWhile_eq_take_P_nth) (auto simp: nth_eq_iff_index_eq)
  with n show ?thesis by (simp add: b58_val_def B58_facts)
qed

lemma b58_read_snoc: "b58_read (s @ [c]) = 58 * b58_read s + b58_val c"
  by (simp add: b58_read_def)

lemma b58_read_digits [simp]: "b58_read (b58_digits n) = n"
proof (induction n rule: b58_digits.induct)
  case (1 n)
  show ?case
  proof (cases "n = 0")
    case True
    then show ?thesis by (simp add: b58_digits.simps [of 0] b58_read_def)
  next
    case False
    with 1 show ?thesis by (subst b58_digits.simps) (simp add: b58_read_snoc b58_val_nth)
  qed
qed

lemma b58_digits_hd: "0 < n \<Longrightarrow> b58_digits n \<noteq> [] \<and> hd (b58_digits n) \<noteq> CHR ''1''"
proof (induction n rule: b58_digits.induct)
  case (1 n)
  show ?case
  proof (cases "n div 58 = 0")
    case True
    with 1(2) have "n < 58" "n mod 58 = n" by auto
    with True 1(2) B58_facts nth_eq_iff_index_eq [of B58 n 0] show ?thesis
      by (subst (1 2) b58_digits.simps) (simp add: b58_digits.simps [of 0])
  next
    case False
    with 1 show ?thesis by (subst (1 2) b58_digits.simps) auto
  qed
qed

lemma be_val_append: "be_val (a @ b) = be_val a * 256 ^ length b + be_val b"
proof (induction b rule: rev_induct)
  case (snoc x b)
  have "be_val (a @ b @ [x]) = 256 * be_val (a @ b) + unat x" "be_val (b @ [x]) = 256 * be_val b + unat x"
    by (simp_all add: be_val_def)
  with snoc show ?case by (simp add: algebra_simps)
qed (simp add: be_val_def)

lemma be_val_bound: "be_val b < 256 ^ length b"
proof (induction b rule: rev_induct)
  case (snoc x b)
  have "be_val (b @ [x]) = 256 * be_val b + unat x" by (simp add: be_val_def)
  with snoc byte_bound [of x] show ?case by simp
qed (simp add: be_val_def)

lemma be_val_Cons: "be_val (x # b) = unat x * 256 ^ length b + be_val b"
  using be_val_append [of "[x]" b] by (simp add: be_val_def)

lemma be_val_inj:
  "length a = length b \<Longrightarrow> be_val a = be_val b \<Longrightarrow> a = b"
proof (induction a b rule: list_induct2)
  case (Cons x xs y ys)
  have m: "u = v \<and> w = z" if "u * k + w = v * k + z" "w < k" "z < k" for u v w z k :: nat
  proof -
    have "(w + u * k) div k = u" "(z + v * k) div k = v" using that(2,3) by simp_all
    with that(1) have "u = v" by (metis add.commute)
    with that(1) show ?thesis by simp
  qed
  from Cons m [of "unat x" "256 ^ length xs" "be_val xs" "unat y" "be_val ys"] show ?case
    using be_val_bound [of xs] be_val_bound [of ys] by (auto simp: be_val_Cons word_unat_eq_iff)
qed simp

lemma be_val_zeros: "be_val (takeWhile (\<lambda>b. b = 0) bs) = 0"
  by (induction bs) (auto simp: be_val_Cons be_val_def)

lemma be_val_drop: "be_val (dropWhile (\<lambda>b. b = 0) bs) = be_val bs"
  using be_val_append [of "takeWhile (\<lambda>b. b = 0) bs" "dropWhile (\<lambda>b. b = 0) bs"] by (simp add: be_val_zeros)

lemma be_val_size:
  assumes "b \<noteq> []" "hd b \<noteq> 0" shows "256 ^ (length b - 1) \<le> be_val b"
proof -
  obtain x xs where b: "b = x # xs" "0 < unat x" using assms by (cases b) (auto simp: unat_gt_0)
  then have "256 ^ length xs \<le> unat x * 256 ^ length xs" by simp
  with b show ?thesis by (simp add: be_val_Cons trans_le_add1 del: mult_le_cancel2)
qed

lemma be_val_inj_stripped:
  assumes "be_val a = be_val b" "a \<noteq> [] \<Longrightarrow> hd a \<noteq> 0" "b \<noteq> [] \<Longrightarrow> hd b \<noteq> 0"
  shows "a = b"
proof -
  have le: "length x \<le> length y" if "be_val x = be_val y" "x \<noteq> [] \<Longrightarrow> hd x \<noteq> 0" for x y
  proof (cases "x = []")
    case False
    with that be_val_size [of x] be_val_bound [of y] have "256 ^ (length x - 1) < (256 :: nat) ^ length y"
      by (metis le_less_trans)
    then have "length x - 1 < length y" by (metis one_less_numeral_iff power_less_imp_less_exp semiring_norm(76))
    with False show ?thesis by (cases x) auto
  qed simp
  have "length a = length b" using le [of a b] le [of b a] assms by simp
  with assms(1) show ?thesis by (rule be_val_inj [rotated])
qed

lemma while_replicate:
  "takeWhile (\<lambda>x. x = c) (replicate n c @ xs) = replicate n c @ takeWhile (\<lambda>x. x = c) xs"
  "dropWhile (\<lambda>x. x = c) (replicate n c @ xs) = dropWhile (\<lambda>x. x = c) xs"
  by (induction n) auto

text \<open>Different byte strings have different base58 texts, so the memcmp filter of a discriminator or of
  an asset selects exactly that value.\<close>

theorem base58_injective: "bs58encode a = bs58encode b \<longleftrightarrow> a = b"
proof
  assume eq: "bs58encode a = bs58encode b"
  define z where "z = takeWhile (\<lambda>x :: byte. x = 0)"
  define d where "d = dropWhile (\<lambda>x :: byte. x = 0)"
  have parts: "takeWhile (\<lambda>c. c = CHR ''1'') (bs58encode x) = replicate (length (z x)) (CHR ''1'') \<and>
      dropWhile (\<lambda>c. c = CHR ''1'') (bs58encode x) = b58_digits (be_val x)" for x
  proof -
    have enc: "bs58encode x = replicate (length (z x)) (CHR ''1'') @ b58_digits (be_val x)"
      by (simp add: bs58encode_def z_def map_replicate_const)
    have "b58_digits (be_val x) = [] \<or> hd (b58_digits (be_val x)) \<noteq> CHR ''1''"
      using b58_digits_hd [of "be_val x"] by (cases "be_val x = 0") (auto simp: b58_digits.simps [of 0])
    then show ?thesis unfolding enc
      by (cases "b58_digits (be_val x)") (auto simp: while_replicate)
  qed
  have "length (z a) = length (z b)" using parts [of a] parts [of b] eq by (metis length_replicate)
  moreover have "be_val a = be_val b" using parts [of a] parts [of b] eq by (metis b58_read_digits)
  then have "be_val (d a) = be_val (d b)" by (simp add: d_def be_val_drop)
  then have "d a = d b"
    using hd_dropWhile [of "\<lambda>x :: byte. x = 0"] by (intro be_val_inj_stripped) (simp_all add: d_def)
  moreover have "x = replicate (length (z x)) 0 @ d x" for x
  proof -
    have "z x = replicate (length (z x)) 0"
      by (rule replicate_length_same [symmetric]) (auto simp: z_def dest: set_takeWhileD)
    then show ?thesis by (metis d_def takeWhile_dropWhile_id z_def)
  qed
  ultimately show "a = b" by metis
qed simp

section \<open>The verifier key\<close>

text \<open>The public test key of \<open>docs/vectors.json\<close> is registered only against a local validator, however
  it was given: by flag, on the command line or through the seed of \<open>apps/verify/.env\<close>.\<close>

theorem test_key_stays_local:
  assumes "chooseServerKey r = Inr (lower (kr_vectorsPubkeyHex r))"
  shows "isLocalUrl (kr_url r)"
  using assms by (auto simp: chooseServerKey_def Let_def split: if_splits option.splits)

definition local_request :: key_request where
  "local_request = \<lparr>kr_argv = [''--test-key''], kr_url = ''http://127.0.0.1:8899'', kr_envSeedHex = None,
     kr_vectorsPubkeyHex = ''AB'', kr_derive = id\<rparr>"

theorem test_key_stays_local_witness: "isLocalUrl (kr_url local_request)"
  by (rule test_key_stays_local)
    (simp add: chooseServerKey_def local_request_def isLocalUrl_def http_rest_def port_then_end_def slash_or_end_def
      is_digit_def code_def)

end
