(* ===== verification/Script_Seed.thy ===== *)
theory Script_Seed
  imports Script_Facts
begin

text \<open>
  The registry scripts: \<open>seed-devnet.ts\<close>, \<open>server-key.ts\<close>, \<open>partner.ts\<close> and the seal steps of
  \<open>seed-passports.ts\<close>, run against the program's handlers. A script is a function from the accounts it
  reads to the transactions it sends and the accounts after them, or the error that ends it.
\<close>

datatype script_error =
    CliError cli_error | ProgramError flacon_error | NotRegistryAuthority pubkey | LabelTooLong string
  | KeyIdTaken int | NoSuchKeyId int

definition cli :: "cli_error + 'a \<Rightarrow> script_error + 'a" where
  "cli r = (case r of Inl e \<Rightarrow> Inl (CliError e) | Inr x \<Rightarrow> Inr x)"

text \<open>\<open>.rpc()\<close>: the transaction is refused with the program's error, or the account is changed.\<close>

definition send_admin :: "pubkey \<Rightarrow> 64 word \<Rightarrow> admin_cmd \<Rightarrow> registry_account \<Rightarrow> script_error + registry_account" where
  "send_admin wallet clock c r =
    (case run_admin r wallet clock c of Inl e \<Rightarrow> Inl (ProgramError e) | Inr (r', e) \<Rightarrow> Inr r')"

section \<open>seed-devnet\<close>

text \<open>\<open>Number\<close> of an i64 the client reads.\<close>

definition number_i64 :: "64 word \<Rightarrow> int" where
  "number_i64 w = js_floor (to_double (of_int (sint w)))"

definition toRegistryKey :: "server_key \<Rightarrow> registry_key" where
  "toRegistryKey k = \<lparr>rk_keyId = uint (sk_key_id k), rk_pubkeyHex = bytesToHex (sk_pubkey k) False,
     rk_validFrom = number_i64 (sk_valid_from k), rk_validTo = number_i64 (sk_valid_to k)\<rparr>"

definition PARTNER_SITES :: "(16 word \<times> string) list" where
  "PARTNER_SITES = [(1, (''Parf'' @ [CHR 0xC3, CHR 0xBC] @ ''merie X, D'' @ [CHR 0xC3, CHR 0xBC] @ ''sseldorf'')), (2, ''FlaconVault Vault, Wickede'')]"

definition label32 :: "string \<Rightarrow> script_error + bytes" where
  "label32 s = (if length (utf8 s) > 32 then Inl (LabelTooLong s)
     else Inr (utf8 s @ replicate (32 - length (utf8 s)) 0))"

text \<open>\<open>FV_SERVER_ED25519_SEED\<close> in the lines of the verifier's \<open>.env\<close>.\<close>

definition split_first :: "char \<Rightarrow> string \<Rightarrow> string list" where
  "split_first c s = (let a = takeWhile (\<lambda>x. x \<noteq> c) s; r = dropWhile (\<lambda>x. x \<noteq> c) s
     in if r = [] then [a] else [a, takeWhile (\<lambda>x. x \<noteq> c) (tl r)])"

definition envSeed :: "string list option \<Rightarrow> string option" where
  "envSeed file = (case file of None \<Rightarrow> None
     | Some ls \<Rightarrow> (case List.find (\<lambda>l. starts_with (js_trim l) ''FV_SERVER_ED25519_SEED='') ls of
         None \<Rightarrow> None
       | Some l \<Rightarrow> map_option (\<lambda>v. js_trim (hd (split_first (CHR ''#'') v))) (arg_at (split_first (CHR ''='') l) 1)))"

record seed_env =
  sv_request :: key_request
  sv_wallet :: pubkey
  sv_now :: int
  sv_clock :: "64 word"
  sv_program :: program_accounts
  sv_bump :: byte

datatype seed_tx = InitRegistry | AdminTx admin_cmd

definition seed_init :: "seed_env \<Rightarrow> registry_account option \<Rightarrow> script_error + (seed_tx list \<times> registry_account)" where
  "seed_init env chain = (case chain of
     Some r \<Rightarrow> Inr ([], r)
   | None \<Rightarrow> (case handle_init_registry (sv_program env) (sv_wallet env) (sv_bump env) of
       Inl e \<Rightarrow> Inl (ProgramError e) | Inr (r, e) \<Rightarrow> Inr ([InitRegistry], r)))"

text \<open>One step: the transaction is sent, or skipped.\<close>

definition seed_step :: "seed_env \<Rightarrow> admin_cmd option \<Rightarrow> seed_tx list \<times> registry_account \<Rightarrow> script_error + (seed_tx list \<times> registry_account)" where
  "seed_step env c s = (case c of None \<Rightarrow> Inr s
     | Some c \<Rightarrow> bindE (send_admin (sv_wallet env) (sv_clock env) c (snd s)) (\<lambda>r. Inr (fst s @ [AdminTx c], r)))"

definition key_command :: "string \<Rightarrow> key_plan \<Rightarrow> admin_cmd option" where
  "key_command hex p = (case p of PlanSkip _ _ \<Rightarrow> None
     | PlanAdd kid _ \<Rightarrow> Some (AddServerKey (of_int kid) (hex_pairs hex) 0 0))"

fun seed_sites :: "seed_env \<Rightarrow> registry_account \<Rightarrow> (16 word \<times> string) list \<Rightarrow> seed_tx list \<times> registry_account \<Rightarrow>
  script_error + (seed_tx list \<times> registry_account)" where
  "seed_sites env reg [] s = Inr s"
| "seed_sites env reg ((i, l) # ss) s =
    (if i \<in> set (rg_sites reg) then seed_sites env reg ss s
     else bindE (label32 l) (\<lambda>label. bindE (seed_step env (Some (AddSite i label)) s) (seed_sites env reg ss)))"

definition seed_main :: "seed_env \<Rightarrow> registry_account option \<Rightarrow> script_error + (seed_tx list \<times> registry_account)" where
  "seed_main env chain =
    bindE (cli (chooseServerKey (sv_request env))) (\<lambda>serverHex.
    bindE (cli (parseKeyIdFlag (kr_argv (sv_request env)) 1)) (\<lambda>wantedKeyId.
    bindE (seed_init env chain) (\<lambda>s. let reg = snd s in
    bindE (guardE (rg_authority reg = sv_wallet env) (NotRegistryAuthority (rg_authority reg))) (\<lambda>_.
    bindE (cli (planServerKey (map toRegistryKey (rg_server_keys reg)) serverHex wantedKeyId (sv_now env))) (\<lambda>plan.
    bindE (seed_step env (key_command serverHex plan) s) (\<lambda>s.
    bindE (seed_step env (if sv_wallet env \<in> set (rg_partners reg) then None else Some (AddPartner (sv_wallet env))) s) (\<lambda>s.
    seed_sites env reg PARTNER_SITES s)))))))"

section \<open>server-key and partner\<close>

text \<open>The transaction of \<open>server-key.ts\<close>, none for \<open>list\<close>; \<open>BN\<close> keeps a time of at most 12 digits.\<close>

definition server_key_main ::
  "string list \<Rightarrow> pubkey \<Rightarrow> 64 word \<Rightarrow> registry_account \<Rightarrow> script_error + (admin_cmd option \<times> registry_account)" where
  "server_key_main argv wallet clock r =
    bindE (cli (parseServerKeyArgs argv)) (\<lambda>cmd.
    let has = (\<lambda>kid. list_ex (\<lambda>k. uint (sk_key_id k) = kid) (rg_server_keys r));
        send = (\<lambda>c. bindE (send_admin wallet clock c r) (\<lambda>r'. Inr (Some c, r')))
    in case cmd of
      KeyList \<Rightarrow> Inr (None, r)
    | KeyAdd hex kid vf vt \<Rightarrow>
        bindE (guardE (rg_authority r = wallet) (NotRegistryAuthority (rg_authority r))) (\<lambda>_.
        bindE (guardE (\<not> has kid) (KeyIdTaken kid)) (\<lambda>_.
        send (AddServerKey (of_int kid) (hex_pairs hex) (of_int vf) (of_int vt))))
    | KeyRevoke kid \<Rightarrow>
        bindE (guardE (rg_authority r = wallet) (NotRegistryAuthority (rg_authority r))) (\<lambda>_.
        bindE (guardE (has kid) (NoSuchKeyId kid)) (\<lambda>_.
        send (RevokeServerKey (of_int kid)))))"

definition runPartner ::
  "(string \<Rightarrow> pubkey option) \<Rightarrow> string list \<Rightarrow> pubkey \<Rightarrow> 64 word \<Rightarrow> registry_account \<Rightarrow>
   script_error + (admin_cmd option \<times> registry_account)" where
  "runPartner pk argv wallet clock r =
    bindE (cli (parsePartnerArgs pk argv)) (\<lambda>cmd.
    let send = (\<lambda>c. bindE (send_admin wallet clock c r) (\<lambda>r'. Inr (Some c, r')));
        admin = guardE (rg_authority r = wallet) (NotRegistryAuthority (rg_authority r))
    in case cmd of
      PartnerList \<Rightarrow> Inr (None, r)
    | PartnerAdd k \<Rightarrow> bindE admin (\<lambda>_. if k \<in> set (rg_partners r) then Inr (None, r) else send (AddPartner k))
    | PartnerRemove k \<Rightarrow> bindE admin (\<lambda>_. if k \<notin> set (rg_partners r) then Inr (None, r) else send (RemovePartner k)))"

text \<open>\<open>add-partner.ts\<close>\<close>

definition add_partner_main ::
  "(string \<Rightarrow> pubkey option) \<Rightarrow> string list \<Rightarrow> pubkey \<Rightarrow> 64 word \<Rightarrow> registry_account \<Rightarrow>
   script_error + (admin_cmd option \<times> registry_account)" where
  "add_partner_main pk argv wallet clock r = runPartner pk [''add'', or_empty (arg_at argv 0)] wallet clock r"

section \<open>The seals of seed-passports\<close>

text \<open>The passport and its seals by UID hash; \<open>uid_hash\<close> is SHA-256 of the UID's bytes.\<close>

record seed_seals =
  sd_passport :: passport
  sd_seals :: "bytes \<rightharpoonup> seal"
  sd_sent :: "seal_op list"

definition seal_step ::
  "(string \<Rightarrow> bytes) \<Rightarrow> registry \<Rightarrow> pubkey \<Rightarrow> 64 word \<Rightarrow> seal_op \<Rightarrow> seed_seals \<Rightarrow> flacon_error + seed_seals" where
  "seal_step uid_hash r wallet clock op s = (case op of
     SealAttach uid kind \<Rightarrow>
       (case sd_seals s (uid_hash uid) of Some _ \<Rightarrow> Inr s
        | None \<Rightarrow> bindE (attach_seal r wallet clock (uid_hash uid) (of_int kind) (sd_passport s)) (\<lambda>(x, p).
            Inr (s\<lparr>sd_passport := p, sd_seals := (sd_seals s)(uid_hash uid \<mapsto> x), sd_sent := sd_sent s @ [op]\<rparr>)))
   | SealMarkDead uid \<Rightarrow>
       (case sd_seals s (uid_hash uid) of None \<Rightarrow> Inr s
        | Some x \<Rightarrow> if sl_dead x then Inr s
            else bindE (mark_seal_dead r wallet (sd_passport s) x) (\<lambda>(x', p).
              Inr (s\<lparr>sd_passport := p, sd_seals := (sd_seals s)(uid_hash uid \<mapsto> x'), sd_sent := sd_sent s @ [op]\<rparr>))))"

fun seal_steps ::
  "(string \<Rightarrow> bytes) \<Rightarrow> registry \<Rightarrow> pubkey \<Rightarrow> 64 word \<Rightarrow> seal_op list \<Rightarrow> seed_seals \<Rightarrow> flacon_error + seed_seals" where
  "seal_steps h r w t [] s = Inr s"
| "seal_steps h r w t (op # ops) s = bindE (seal_step h r w t op s) (seal_steps h r w t ops)"

text \<open>The check of the seed file before anything is sent.\<close>

definition seed_seals_valid :: "seed_seal list \<Rightarrow> bool" where
  "seed_seals_valid ss \<longleftrightarrow> list_all (\<lambda>s. UID_RE (ss_uid s) \<and> (ss_kind s = 0 \<or> ss_kind s = 1)) ss"

end
