(* ===== verification/Seed_Facts.thy ===== *)
theory Seed_Facts
  imports Script_Seed
begin

text \<open>
  The scripts against the program: a planned verifier key is accepted and valid, the registry seed reaches
  its fixed point from a fresh deployment, and the seal order of a seed passport is accepted in full.
\<close>

section \<open>Key texts\<close>

lemma lower_append [simp]: "lower (a @ b) = lower a @ lower b"
  by (simp add: lower_def)

lemma lower_hex_digit [simp]: "n < 16 \<Longrightarrow> to_lower_char (Proof_Bytes.hex_digit n) = Proof_Bytes.hex_digit n"
  by (auto simp: Proof_Bytes.hex_digit_def to_lower_char_def is_upper_def code_char_of)

lemma lower_hex2: "lower (hex2 b) = hex2 b"
proof -
  have "unat b < 256" by (rule byte_bound)
  then show ?thesis by (simp add: hex2_def lower_def div_less_iff_less_mult)
qed

lemma lower_bytesToHex [simp]: "lower (bytesToHex b False) = bytesToHex b False"
  unfolding bytesToHex_def Let_def if_False by (induction b) (simp_all add: lower_hex2, simp add: lower_def)

lemma lower_lower [simp]: "lower (lower s) = lower s"
  by (auto simp: lower_def to_lower_char_def is_upper_def code_char_of code_bound)

lemma hex_lower_char: "is_hex c \<Longrightarrow> is_hex (to_lower_char c)"
  by (auto simp: to_lower_char_def is_hex_def is_digit_def is_upper_def code_char_of code_bound)

lemma HEX32_lower: "HEX32_RE s \<Longrightarrow> HEX32_RE (lower s)"
  by (auto simp: HEX32_RE_def lower_def list_all_iff hex_lower_char)

lemma bytesToHex_pairs: "HEX32_RE h \<Longrightarrow> bytesToHex (hex_pairs h) False = lower h"
  by (simp add: HEX32_RE_def bytesToHex_def concat_hex2_pairs lower_def)

lemma hex_pairs_bytesToHex: "hex_pairs (bytesToHex b False) = b"
  by (simp add: bytesToHex_def hex_pairs_concat)

section \<open>Planning the key\<close>

lemma usable_key_None:
  "usable_key keys hex now = None \<longleftrightarrow> (\<forall>k \<in> set keys. lower (rk_pubkeyHex k) = hex \<longrightarrow> keyStatus k now = KeyEnded)"
proof -
  have "s = KeyEnded \<longleftrightarrow> s \<noteq> KeyValid \<and> s \<noteq> KeyNotYet" for s by (cases s) auto
  then show ?thesis
    by (force simp: usable_key_def find_None_iff Let_def dest: find_Some_iff2 split: option.split)
qed

lemma usable_key_Some:
  "usable_key keys hex now = Some k \<Longrightarrow> k \<in> set keys \<and> lower (rk_pubkeyHex k) = hex \<and> keyStatus k now \<noteq> KeyEnded"
  by (auto simp: usable_key_def Let_def split: option.splits dest!: find_Some_iff2)

lemma next_free_spec:
  assumes "length keys < 256" "0 \<le> wanted" "wanted \<le> 255"
  shows "0 \<le> next_free keys wanted \<and> next_free keys wanted \<le> 255 \<and> next_free keys wanted \<notin> rk_keyId ` set keys"
proof -
  let ?ids = "[wanted..255] @ [0..wanted - 1]"
  have ids: "set ?ids = {0..255}" using assms by auto
  have "card (rk_keyId ` set keys) < 256"
    using card_image_le [of "set keys" rk_keyId] card_length [of keys] assms(1) by simp
  then have "\<not> {0..255} \<subseteq> rk_keyId ` set keys"
    using card_mono [of "rk_keyId ` set keys" "{0..255 :: int}"] by auto
  then have "List.find (\<lambda>i. i \<notin> rk_keyId ` set keys) ?ids \<noteq> None"
    unfolding find_None_iff using ids by blast
  then obtain i where i: "List.find (\<lambda>i. i \<notin> rk_keyId ` set keys) ?ids = Some i" by blast
  then have "i \<in> set ?ids \<and> i \<notin> rk_keyId ` set keys" by (rule find_Some_iff2)
  with i ids show ?thesis by (simp add: next_free_def)
qed

text \<open>An added key: its id is unused and there is room.\<close>

lemma plan_add:
  assumes "planServerKey keys hex wanted now = Inr (PlanAdd kid msg)" "0 \<le> wanted" "wanted \<le> 255"
  shows "0 \<le> kid \<and> kid \<le> 255 \<and> kid \<notin> rk_keyId ` set keys \<and> length keys < 8"
  using assms next_free_spec [of keys wanted]
  by (auto simp: planServerKey_def Let_def CLI_MAX_SERVER_KEYS_def find_None_iff split: option.splits if_splits)

lemma plan_skip:
  assumes "planServerKey keys hex wanted now = Inr (PlanSkip kid msg)"
  shows "\<exists>k. usable_key keys (lower hex) now = Some k \<and> kid = rk_keyId k"
  using assms by (auto simp: planServerKey_def Let_def split: option.splits if_splits)

lemma plan_usable: "usable_key keys (lower hex) now = Some k \<Longrightarrow> \<exists>msg. planServerKey keys hex wanted now = Inr (PlanSkip (rk_keyId k) msg)"
  by (simp add: planServerKey_def Let_def)

lemma parsed_key_id: "parseKeyIdFlag argv 1 = Inr k \<Longrightarrow> 0 \<le> k \<and> k \<le> 255"
  by (auto simp: parseKeyIdFlag_def key_id_text_def Let_def split: if_splits)

text \<open>What a registered key must look like for the numbers of the client to be exact.\<close>

definition exact_times :: "registry_account \<Rightarrow> bool" where
  "exact_times r \<longleftrightarrow> list_all (\<lambda>k. \<bar>sint (sk_valid_from k)\<bar> \<le> 2 ^ 53 \<and> \<bar>sint (sk_valid_to k)\<bar> \<le> 2 ^ 53) (rg_server_keys r)"

lemma number_i64_exact: "\<bar>sint w\<bar> \<le> 2 ^ 53 \<Longrightarrow> number_i64 w = sint w"
  unfolding number_i64_def by (simp only: to_double_int js_floor_jn)

lemma number_i64_0 [simp]: "number_i64 0 = 0"
  using number_i64_exact [of 0] by simp

text \<open>\<open>keyStatus\<close> is the program's \<open>is_valid_at\<close>.\<close>

lemma sint_eq_0: "sint (w :: 64 word) = 0 \<longleftrightarrow> w = 0"
  by (metis signed_0 signed_word_eqI)

lemma keyStatus_program:
  assumes "\<bar>sint (sk_valid_from k)\<bar> \<le> 2 ^ 53" "\<bar>sint (sk_valid_to k)\<bar> \<le> 2 ^ 53"
  shows "keyStatus (toRegistryKey k) now = KeyValid \<longleftrightarrow> is_valid_at k now"
  using assms by (auto simp: keyStatus_def toRegistryKey_def number_i64_exact is_valid_at_def sint_eq_0)

lemma uint_of_int_byte: "0 \<le> k \<Longrightarrow> k \<le> 255 \<Longrightarrow> uint (of_int k :: byte) = k"
  by (simp add: unsigned_of_int take_bit_int_eq_self)

lemma key_id_unused:
  assumes "0 \<le> kid" "kid \<le> 255" "kid \<notin> rk_keyId ` set (map toRegistryKey ks)"
  shows "(of_int kid :: byte) \<notin> sk_key_id ` set ks"
  using assms uint_of_int_byte [of kid] by (auto simp: toRegistryKey_def image_iff)

lemma add_key_accepted:
  assumes "rg_authority r = wallet" "of_int kid \<notin> sk_key_id ` set (rg_server_keys r)" "length (rg_server_keys r) < 8"
  shows "send_admin wallet clock (AddServerKey (of_int kid) pk 0 0) r =
    Inr (r\<lparr>rg_server_keys := rg_server_keys r @
          [\<lparr>sk_key_id = of_int kid, sk_pubkey = pk, sk_valid_from = 0, sk_valid_to = 0\<rparr>]\<rparr>)"
  using assms
  by (force simp: send_admin_def run_admin_def admin_registry_def handle_add_server_key_def server_key_of_keys
      MAX_SERVER_KEYS_def find_None_iff guardE_def image_iff)

lemma find_distinct_ids:
  "distinct (map sk_key_id ks) \<Longrightarrow> k \<in> set ks \<Longrightarrow> List.find (\<lambda>x. sk_key_id x = sk_key_id k) ks = Some k"
  by (induction ks) (auto simp: image_iff)

text \<open>What seed-devnet does about a verifier key is right by the program's rules: a key it adds is accepted by
  \<open>add_server_key\<close> under the planned id and then signs validly at every time from 1970 on; a key it keeps is
  registered under that id with exactly these bytes and has not ended, and when it is called valid the program
  accepts it now.\<close>

theorem key_plan_accepted:
  assumes "registry_ok r" "rg_authority r = wallet" "exact_times r" "HEX32_RE hex" "0 \<le> wanted" "wanted \<le> 255"
    and plan: "planServerKey (map toRegistryKey (rg_server_keys r)) hex wanted now = Inr plan"
  shows "case plan of
      PlanAdd kid msg \<Rightarrow> (\<exists>r' k. send_admin wallet clock (AddServerKey (of_int kid) (hex_pairs hex) 0 0) r = Inr r' \<and>
        server_key_of (registry.truncate r') (of_int kid) = Some k \<and> sk_pubkey k = hex_pairs hex \<and>
        (\<forall>t \<ge> 0. is_valid_at k t))
    | PlanSkip kid msg \<Rightarrow> (\<exists>k. server_key_of (registry.truncate r) (of_int kid) = Some k \<and>
        bytesToHex (sk_pubkey k) False = lower hex \<and>
        (is_valid_at k now \<or> (now < sint (sk_valid_from k) \<and> (sk_valid_to k = 0 \<or> now \<le> sint (sk_valid_to k)))))"
proof (cases plan)
  case (PlanAdd kid msg)
  with plan plan_add assms(5,6) have k: "0 \<le> kid" "kid \<le> 255" "length (rg_server_keys r) < 8"
    "kid \<notin> rk_keyId ` set (map toRegistryKey (rg_server_keys r))" by fastforce+
  from key_id_unused [OF k(1,2,4)] have fresh: "of_int kid \<notin> sk_key_id ` set (rg_server_keys r)" .
  then have "List.find (\<lambda>k. sk_key_id k = of_int kid) (rg_server_keys r) = None"
    by (force simp: find_None_iff image_iff)
  with add_key_accepted [OF assms(2) fresh k(3)] show ?thesis
    by (simp add: PlanAdd server_key_of_keys find_append_keys is_valid_at_def)
next
  case (PlanSkip kid msg)
  with plan plan_skip obtain u where u: "usable_key (map toRegistryKey (rg_server_keys r)) (lower hex) now = Some u" "kid = rk_keyId u"
    by blast
  from usable_key_Some [OF u(1)] obtain k where k: "k \<in> set (rg_server_keys r)" "u = toRegistryKey k"
    "lower (rk_pubkeyHex u) = lower hex" "keyStatus u now \<noteq> KeyEnded" by auto
  have id: "(of_int kid :: byte) = sk_key_id k" using u(2) k(2) by (simp add: toRegistryKey_def)
  have times: "\<bar>sint (sk_valid_from k)\<bar> \<le> 2 ^ 53" "\<bar>sint (sk_valid_to k)\<bar> \<le> 2 ^ 53"
    using assms(3) k(1) by (auto simp: exact_times_def list_all_iff)
  have "server_key_of (registry.truncate r) (of_int kid) = Some k"
    using assms(1) k(1) by (simp add: server_key_of_keys id find_distinct_ids registry_ok_def)
  moreover have "bytesToHex (sk_pubkey k) False = lower hex" using k(2,3) by (simp add: toRegistryKey_def)
  moreover have "is_valid_at k now \<or> (now < sint (sk_valid_from k) \<and> (sk_valid_to k = 0 \<or> now \<le> sint (sk_valid_to k)))"
    using k(2,4) times
    by (auto simp: keyStatus_def toRegistryKey_def number_i64_exact is_valid_at_def sint_eq_0 split: if_splits)
  ultimately show ?thesis by (simp add: PlanSkip)
qed

theorem key_plan_accepted_witness:
  "\<exists>r' k. send_admin [7] 2000 (AddServerKey 2 (hex_pairs (replicate 64 CHR ''a'')) 0 0) demo_revoked = Inr r' \<and>
     server_key_of (registry.truncate r') 2 = Some k \<and> sk_pubkey k = hex_pairs (replicate 64 CHR ''a'') \<and>
     (\<forall>t \<ge> 0. is_valid_at k t)"
proof -
  let ?keys = "map toRegistryKey (rg_server_keys demo_revoked)"
  have chars: "char_of (48 :: nat) = CHR ''0''" "char_of (57 :: nat) = CHR ''9''" by code_simp+
  have k: "?keys = [\<lparr>rk_keyId = 1, rk_pubkeyHex = ''09'', rk_validFrom = 0, rk_validTo = 999\<rparr>]"
    by (simp add: demo_revoked_def toRegistryKey_def number_i64_exact bytesToHex_def hex2_def Proof_Bytes.hex_digit_def chars)
  have hex: "HEX32_RE (replicate 64 CHR ''a'')" by (simp add: HEX32_RE_def list_all_iff char_class_simps code_def)
  have upto: "[1..255] = 1 # 2 # [3..(255 :: int)]" using upto_rec1 [of 1 255] upto_rec1 [of 2 255] by simp
  have low: "lower (replicate 64 CHR ''a'') = replicate 64 CHR ''a''" "lower ''09'' = ''09''"
    by (simp_all add: lower_def to_lower_char_def is_upper_def code_def map_replicate)
  have ne: "''09'' \<noteq> replicate 64 CHR ''a''" by (simp add: numeral_eq_Suc)
  have "\<exists>msg. planServerKey ?keys (replicate 64 CHR ''a'') 1 2000 = Inr (PlanAdd 2 msg)"
    unfolding k using ne
    by (simp add: planServerKey_def usable_key_def Let_def keyStatus_def low CLI_MAX_SERVER_KEYS_def next_free_def upto)
  then obtain msg where "planServerKey ?keys (replicate 64 CHR ''a'') 1 2000 = Inr (PlanAdd 2 msg)" ..
  then show ?thesis
    using key_plan_accepted [of demo_revoked "[7]" "replicate 64 CHR ''a''" 1 2000 "PlanAdd 2 msg" 2000] hex
    by (simp add: demo_revoked_def demo_registry_account_def registry_ok_def exact_times_def MAX_SERVER_KEYS_def)
qed

section \<open>The registry seed\<close>

definition key_texts_ok :: "key_request \<Rightarrow> bool" where
  "key_texts_ok r \<longleftrightarrow> HEX32_RE (kr_vectorsPubkeyHex r) \<and> (\<forall>seed. HEX32_RE (kr_derive r seed))"

lemma chosen_hex:
  assumes "chooseServerKey r = Inr hex" "key_texts_ok r"
  shows "HEX32_RE hex \<and> lower hex = hex"
  using assms HEX32_lower by (auto simp: chooseServerKey_def key_texts_ok_def Let_def split: if_splits option.splits)

text \<open>What a seeded registry holds.\<close>

definition seeded :: "seed_env \<Rightarrow> string \<Rightarrow> registry_account \<Rightarrow> bool" where
  "seeded env hex r \<longleftrightarrow> rg_authority r = sv_wallet env \<and> sv_wallet env \<in> set (rg_partners r) \<and>
     fst ` set PARTNER_SITES \<subseteq> set (rg_sites r) \<and>
     usable_key (map toRegistryKey (rg_server_keys r)) hex (sv_now env) \<noteq> None"

lemma cli_eq_Inr [simp]: "cli r = Inr x \<longleftrightarrow> r = Inr x"
  by (auto simp: cli_def split: sum.splits)

lemma cli_Inr [simp]: "cli (Inr x) = Inr x"
  by (simp add: cli_def)

lemma send_admin_Inr:
  "send_admin w t c r = Inr r' \<Longrightarrow> \<exists>e. handle_admin r t c = Inr (r', e) \<and> rg_authority r = w"
  by (auto simp: send_admin_def run_admin_def admin_registry_def result_simps guardE_def split: sum.splits if_splits)

lemma seed_sites_effect:
  assumes "seed_sites env reg ss s = Inr s'" "set (rg_sites reg) \<subseteq> set (rg_sites (snd s))"
  shows "rg_authority (snd s') = rg_authority (snd s) \<and> rg_partners (snd s') = rg_partners (snd s) \<and>
    rg_server_keys (snd s') = rg_server_keys (snd s) \<and> set (rg_sites (snd s)) \<union> fst ` set ss \<subseteq> set (rg_sites (snd s'))"
  using assms
proof (induction env reg ss s rule: seed_sites.induct)
  case (2 env reg i l ss s)
  show ?case
  proof (cases "i \<in> set (rg_sites reg)")
    case True
    with 2 show ?thesis by auto
  next
    case False
    with 2(3) obtain label s1 where l: "label32 l = Inr label" "seed_step env (Some (AddSite i label)) s = Inr s1"
      "seed_sites env reg ss s1 = Inr s'" by (auto simp: result_simps)
    from l(2) obtain e where "handle_add_site (snd s) i label = Inr (snd s1, e)"
      by (auto simp: seed_step_def result_simps dest: send_admin_Inr)
    then have s1: "snd s1 = (snd s)\<lparr>rg_sites := rg_sites (snd s) @ [i], rg_labels := rg_labels (snd s) @ [label]\<rparr>"
      by (auto simp: handle_add_site_def result_simps)
    then have "set (rg_sites reg) \<subseteq> set (rg_sites (snd s1))" using 2(4) by auto
    from 2(2) [OF False l(3) this] s1 show ?thesis by auto
  qed
qed simp

lemma seed_sites_skip:
  "fst ` set ss \<subseteq> set (rg_sites reg) \<Longrightarrow> seed_sites env reg ss s = Inr s"
  by (induction ss) auto

lemma seed_key_step:
  assumes "planServerKey (map toRegistryKey (rg_server_keys r)) hex wanted now = Inr plan" "HEX32_RE hex" "lower hex = hex"
    "0 \<le> now" "seed_step env (key_command hex plan) (txs, r) = Inr s"
  shows "rg_authority (snd s) = rg_authority r \<and> rg_partners (snd s) = rg_partners r \<and> rg_sites (snd s) = rg_sites r \<and>
    usable_key (map toRegistryKey (rg_server_keys (snd s))) hex now \<noteq> None"
proof (cases plan)
  case (PlanAdd kid msg)
  with assms(5) obtain e where "handle_add_server_key r (of_int kid) (hex_pairs hex) 0 0 = Inr (snd s, e)"
    by (auto simp: seed_step_def key_command_def result_simps dest: send_admin_Inr)
  then have s: "snd s = r\<lparr>rg_server_keys := rg_server_keys r @
      [\<lparr>sk_key_id = of_int kid, sk_pubkey = hex_pairs hex, sk_valid_from = 0, sk_valid_to = 0\<rparr>]\<rparr>"
    by (auto simp: handle_add_server_key_def result_simps)
  define k where "k = toRegistryKey \<lparr>sk_key_id = of_int kid, sk_pubkey = hex_pairs hex, sk_valid_from = 0, sk_valid_to = 0\<rparr>"
  have "lower (rk_pubkeyHex k) = hex" "keyStatus k now \<noteq> KeyEnded"
    using assms(2,3,4) by (simp_all add: k_def toRegistryKey_def bytesToHex_pairs keyStatus_def)
  moreover have "k \<in> set (map toRegistryKey (rg_server_keys (snd s)))" by (simp add: s k_def)
  ultimately have "usable_key (map toRegistryKey (rg_server_keys (snd s))) hex now \<noteq> None"
    unfolding usable_key_None by blast
  with s show ?thesis by simp
next
  case (PlanSkip kid msg)
  with assms(1,3) plan_skip obtain k where "usable_key (map toRegistryKey (rg_server_keys r)) hex now = Some k" by fastforce
  with PlanSkip assms(5) show ?thesis by (auto simp: seed_step_def key_command_def)
qed

lemma seed_main_seeds:
  assumes "seed_main env chain = Inr (txs, r)" "chooseServerKey (sv_request env) = Inr hex" "key_texts_ok (sv_request env)" "0 \<le> sv_now env"
  shows "seeded env hex r"
proof -
  from chosen_hex [OF assms(2,3)] have hex: "HEX32_RE hex" "lower hex = hex" by auto
  from assms(1,2) obtain wanted s plan s1 s2 where main:
    "rg_authority (snd s) = sv_wallet env"
    "planServerKey (map toRegistryKey (rg_server_keys (snd s))) hex wanted (sv_now env) = Inr plan"
    "seed_step env (key_command hex plan) s = Inr s1"
    "seed_step env (if sv_wallet env \<in> set (rg_partners (snd s)) then None else Some (AddPartner (sv_wallet env))) s1 = Inr s2"
    "seed_sites env (snd s) PARTNER_SITES s2 = Inr (txs, r)"
    by (auto simp: seed_main_def result_simps Let_def)
  from seed_key_step [OF main(2) hex assms(4), of env "fst s" s1] main(3)
  have s1: "rg_authority (snd s1) = sv_wallet env" "rg_partners (snd s1) = rg_partners (snd s)" "rg_sites (snd s1) = rg_sites (snd s)"
    "usable_key (map toRegistryKey (rg_server_keys (snd s1))) hex (sv_now env) \<noteq> None"
    using main(1) by simp_all
  have s2: "rg_authority (snd s2) = sv_wallet env" "sv_wallet env \<in> set (rg_partners (snd s2))"
    "rg_sites (snd s2) = rg_sites (snd s)" "rg_server_keys (snd s2) = rg_server_keys (snd s1)"
    using main(4) s1
    by (auto simp: seed_step_def result_simps handle_add_partner_def split: if_splits dest!: send_admin_Inr)
  from seed_sites_effect [OF main(5)] s1 s2 show ?thesis by (auto simp: seeded_def)
qed

lemma seeded_fixed:
  assumes "seeded env hex r" "chooseServerKey (sv_request env) = Inr hex" "lower hex = hex"
    "parseKeyIdFlag (kr_argv (sv_request env)) 1 = Inr wanted"
  shows "seed_main env (Some r) = Inr ([], r)"
proof -
  from assms(1) obtain k where "usable_key (map toRegistryKey (rg_server_keys r)) (lower hex) (sv_now env) = Some k"
    using assms(3) by (auto simp: seeded_def)
  from plan_usable [OF this, of wanted] obtain msg where
    "planServerKey (map toRegistryKey (rg_server_keys r)) hex wanted (sv_now env) = Inr (PlanSkip (rk_keyId k) msg)" by blast
  with assms show ?thesis
    by (simp add: seed_main_def seed_init_def seeded_def Let_def seed_step_def key_command_def seed_sites_skip)
qed

lemma labels_fit: "list_all (\<lambda>(i, l). isOk (label32 l)) PARTNER_SITES"
  by (simp add: PARTNER_SITES_def label32_def utf8_length)

text \<open>The deployment the program accepts \<open>init_registry\<close> from.\<close>

definition fresh_deployment :: "seed_env \<Rightarrow> bool" where
  "fresh_deployment env \<longleftrightarrow> pa_programdata_address (sv_program env) = Some (pa_program_data (sv_program env)) \<and>
     pa_upgrade_authority (sv_program env) = Some (sv_wallet env)"

lemma seed_fresh:
  assumes "fresh_deployment env" "chooseServerKey (sv_request env) = Inr hex"
    "parseKeyIdFlag (kr_argv (sv_request env)) 1 = Inr wanted"
  shows "isOk (seed_main env None)"
proof -
  have plan: "planServerKey [] hex wanted now = Inr (PlanAdd wanted (''key_id '' @ show_int wanted @ '' is unused''))" for now
    by (simp add: planServerKey_def usable_key_def Let_def CLI_MAX_SERVER_KEYS_def)
  show ?thesis
    using assms
    by (simp add: seed_main_def seed_init_def handle_init_registry_def fresh_deployment_def guardE_def Let_def plan
        seed_step_def key_command_def add_key_accepted send_admin_def run_admin_def admin_registry_def
        handle_add_server_key_def handle_add_partner_def handle_add_site_def server_key_of_keys is_partner_of
        MAX_SERVER_KEYS_def MAX_PARTNERS_def MAX_SITES_def has_site_def PARTNER_SITES_def label32_def)
qed

text \<open>C29: seed-devnet makes progress and stops: from a fresh deployment whose upgrade authority is the wallet it
  always reaches the seeded registry (wallet as authority and partner, both sites, the chosen key usable),
  and after any run that succeeded a second run sends nothing and changes nothing.\<close>

theorem seed_devnet_converges:
  assumes "key_texts_ok (sv_request env)" "0 \<le> sv_now env"
    and "chooseServerKey (sv_request env) = Inr hex" "parseKeyIdFlag (kr_argv (sv_request env)) 1 = Inr wanted"
  shows "(fresh_deployment env \<longrightarrow> isOk (seed_main env None)) \<and>
    (\<forall>chain txs r. seed_main env chain = Inr (txs, r) \<longrightarrow> seeded env hex r \<and> seed_main env (Some r) = Inr ([], r))"
  using assms seed_fresh seed_main_seeds seeded_fixed chosen_hex by blast

definition demo_seed_env :: seed_env where
  "demo_seed_env = \<lparr>sv_request = \<lparr>kr_argv = [''--server-pubkey'', replicate 64 CHR ''b''], kr_url = ''https://api.devnet.solana.com'',
       kr_envSeedHex = None, kr_vectorsPubkeyHex = replicate 64 CHR ''a'', kr_derive = (\<lambda>_. replicate 64 CHR ''c'')\<rparr>,
     sv_wallet = [7], sv_now = 1000, sv_clock = 1000,
     sv_program = \<lparr>pa_registry = [1], pa_programdata_address = Some [2], pa_program_data = [2], pa_upgrade_authority = Some [7]\<rparr>,
     sv_bump = 255\<rparr>"

lemma demo_seed_env_simps:
  "chooseServerKey (sv_request demo_seed_env) = Inr (replicate 64 CHR ''b'')"
  "parseKeyIdFlag (kr_argv (sv_request demo_seed_env)) 1 = Inr 1"
  "key_texts_ok (sv_request demo_seed_env)" "fresh_deployment demo_seed_env" "sv_now demo_seed_env = 1000"
proof -
  have hex: "HEX32_RE (replicate 64 c)" if "c \<in> {CHR ''a'', CHR ''b'', CHR ''c''}" for c
    using that by (auto simp: HEX32_RE_def list_all_iff char_class_simps code_def)
  have lower: "lower (replicate 64 c) = replicate 64 c" if "c \<in> {CHR ''a'', CHR ''b'', CHR ''c''}" for c
    using that by (auto simp: lower_def to_lower_char_def is_upper_def code_def map_replicate)
  have ne: "replicate 64 CHR ''b'' \<noteq> replicate 64 CHR ''a''" by (simp add: replicate_eq_replicate)
  have nf: "replicate 64 CHR ''b'' \<noteq> CHR ''-'' # t" for t by (simp add: numeral_eq_Suc)
  show "chooseServerKey (sv_request demo_seed_env) = Inr (replicate 64 CHR ''b'')"
    using hex [of "CHR ''b''"] ne nf [symmetric] lower [of "CHR ''a''"] lower [of "CHR ''b''"]
    by (simp add: chooseServerKey_def demo_seed_env_def Let_def flag_value_def arg_at_def or_empty_def)
  show "parseKeyIdFlag (kr_argv (sv_request demo_seed_env)) 1 = Inr 1"
    using nf [symmetric] by (simp add: parseKeyIdFlag_def demo_seed_env_def)
  show "key_texts_ok (sv_request demo_seed_env)" using hex by (simp add: key_texts_ok_def demo_seed_env_def)
qed (simp_all add: fresh_deployment_def demo_seed_env_def)

theorem seed_devnet_converges_witness:
  "isOk (seed_main demo_seed_env None) \<and> (\<exists>txs r. seed_main demo_seed_env None = Inr (txs, r) \<and> seed_main demo_seed_env (Some r) = Inr ([], r))"
  using seed_devnet_converges [of demo_seed_env "replicate 64 CHR ''b''" 1] demo_seed_env_simps
  by (auto simp: isOk_iff)

section \<open>The seals of a seed passport\<close>

lemma seal_steps_append: "seal_steps h r w t (a @ b) s = bindE (seal_steps h r w t a s) (seal_steps h r w t b)"
proof (induction a arbitrary: s)
  case (Cons op a)
  then show ?case by (cases "seal_step h r w t op s") simp_all
qed simp

definition fresh_seal :: "(string \<Rightarrow> bytes) \<Rightarrow> 64 word \<Rightarrow> passport \<Rightarrow> seed_seal \<Rightarrow> seal" where
  "fresh_seal h t p x = \<lparr>sl_passport = pp_serial_hash p, sl_kind = of_int (ss_kind x), sl_uid_hash = h (ss_uid x),
     sl_last_counter = 0, sl_dead = False, sl_attached_at = t\<rparr>"

definition add_seals :: "(string \<Rightarrow> bytes) \<Rightarrow> 64 word \<Rightarrow> passport \<Rightarrow> seed_seal list \<Rightarrow> (bytes \<rightharpoonup> seal) \<Rightarrow> (bytes \<rightharpoonup> seal)" where
  "add_seals h t p xs m = fold (\<lambda>x m. m(h (ss_uid x) \<mapsto> fresh_seal h t p x)) xs m"

lemma attach_all:
  assumes "may_manage_passport r w (sd_passport s)" "\<not> is_voided (sd_passport s)" "seed_seals_valid xs"
    "unat (pp_seal_count (sd_passport s)) + length xs \<le> 2" "distinct (map (\<lambda>x. h (ss_uid x)) xs)"
    "\<forall>x \<in> set xs. sd_seals s (h (ss_uid x)) = None"
  shows "seal_steps h r w t (map (\<lambda>x. SealAttach (ss_uid x) (ss_kind x)) xs) s =
    Inr (s\<lparr>sd_passport := (sd_passport s)\<lparr>pp_seal_count := pp_seal_count (sd_passport s) + of_nat (length xs)\<rparr>,
           sd_seals := add_seals h t (sd_passport s) xs (sd_seals s),
           sd_sent := sd_sent s @ map (\<lambda>x. SealAttach (ss_uid x) (ss_kind x)) xs\<rparr>)"
  using assms
proof (induction xs arbitrary: s)
  case (Cons x xs)
  let ?p = "sd_passport s"
  have lt: "pp_seal_count ?p < MAX_SEALS_PER_PASSPORT" "pp_seal_count ?p \<noteq> - 1"
    using Cons.prems(4) by (auto simp: word_less_nat_alt MAX_SEALS_PER_PASSPORT_def unsigned_minus_1_eq_mask mask_eq_exp_minus_1)
  have count: "unat (pp_seal_count ?p + 1) = Suc (unat (pp_seal_count ?p))"
    using Cons.prems(4) by (simp add: unat_word_ariths)
  let ?s = "s\<lparr>sd_passport := ?p\<lparr>pp_seal_count := pp_seal_count ?p + 1\<rparr>,
     sd_seals := (sd_seals s)(h (ss_uid x) \<mapsto> fresh_seal h t ?p x), sd_sent := sd_sent s @ [SealAttach (ss_uid x) (ss_kind x)]\<rparr>"
  have "seal_step h r w t (SealAttach (ss_uid x) (ss_kind x)) s = Inr ?s"
    using Cons.prems lt
    by (auto simp: seal_step_def attach_seal_def seed_seals_valid_def fresh_seal_def guardE_def)
  moreover have "add_seals h t ?p (x # xs) (sd_seals s) = add_seals h t ?p xs ((sd_seals s)(h (ss_uid x) \<mapsto> fresh_seal h t ?p x))"
    by (simp add: add_seals_def)
  moreover have "add_seals h t (?p\<lparr>pp_seal_count := c\<rparr>) xs m = add_seals h t ?p xs m" for c m
    by (simp add: add_seals_def fresh_seal_def)
  moreover have "seed_seals_valid xs" "may_manage_passport r w (sd_passport ?s)" "\<not> is_voided (sd_passport ?s)"
    using Cons.prems by (simp_all add: may_manage_passport_def is_voided_def seed_seals_valid_def)
  moreover have "unat (pp_seal_count (sd_passport ?s)) + length xs \<le> 2" using Cons.prems(4) count by simp
  moreover have "distinct (map (\<lambda>x. h (ss_uid x)) xs)" "\<forall>z \<in> set xs. sd_seals ?s (h (ss_uid z)) = None"
    using Cons.prems(5,6) by (auto simp: image_iff)
  moreover note Cons.IH [of ?s]
  ultimately show ?case by (simp del: fun_upd_apply add: add.assoc)
qed (simp add: add_seals_def)

lemma add_seals_other: "u \<notin> set (map (\<lambda>x. h (ss_uid x)) xs) \<Longrightarrow> add_seals h t p xs m u = m u"
  unfolding add_seals_def by (induction xs arbitrary: m) auto

lemma add_seals_at:
  "distinct (map (\<lambda>x. h (ss_uid x)) xs) \<Longrightarrow> x \<in> set xs \<Longrightarrow> add_seals h t p xs m (h (ss_uid x)) = Some (fresh_seal h t p x)"
proof (induction xs arbitrary: m)
  case (Cons y xs)
  have step: "add_seals h t p (y # xs) m = add_seals h t p xs (m(h (ss_uid y) \<mapsto> fresh_seal h t p y))"
    by (simp add: add_seals_def)
  show ?case
  proof (cases "x \<in> set xs")
    case True
    with Cons show ?thesis unfolding step by simp
  next
    case False
    with Cons.prems have "x = y" "h (ss_uid y) \<notin> set (map (\<lambda>x. h (ss_uid x)) xs)" by auto
    then show ?thesis unfolding step by (simp add: add_seals_other)
  qed
qed simp

definition kill_seals :: "(string \<Rightarrow> bytes) \<Rightarrow> seed_seal list \<Rightarrow> (bytes \<rightharpoonup> seal) \<Rightarrow> (bytes \<rightharpoonup> seal)" where
  "kill_seals h xs m = (\<lambda>u. map_option (\<lambda>s. if u \<in> set (map (\<lambda>x. h (ss_uid x)) xs) then s\<lparr>sl_dead := True\<rparr> else s) (m u))"

lemma mark_all:
  assumes "may_manage_passport r w (sd_passport s)" "distinct (map (\<lambda>x. h (ss_uid x)) xs)"
    "\<forall>x \<in> set xs. \<exists>y. sd_seals s (h (ss_uid x)) = Some y \<and> \<not> sl_dead y \<and> sl_passport y = pp_serial_hash (sd_passport s)"
  shows "seal_steps h r w t (map (\<lambda>x. SealMarkDead (ss_uid x)) xs) s =
    Inr (s\<lparr>sd_passport := (if xs = [] then sd_passport s else (sd_passport s)\<lparr>pp_void := True, pp_grade := GRADE_VOID\<rparr>),
           sd_seals := kill_seals h xs (sd_seals s), sd_sent := sd_sent s @ map (\<lambda>x. SealMarkDead (ss_uid x)) xs\<rparr>)"
  using assms
proof (induction xs arbitrary: s)
  case Nil
  have "kill_seals h [] m = m" for m by (simp add: kill_seals_def option.map_ident)
  then show ?case by simp
next
  case (Cons x xs)
  let ?u = "h (ss_uid x)" and ?p = "sd_passport s"
  from Cons.prems(3) obtain y where y: "sd_seals s ?u = Some y" "\<not> sl_dead y" "sl_passport y = pp_serial_hash ?p" by auto
  let ?s = "s\<lparr>sd_passport := ?p\<lparr>pp_void := True, pp_grade := GRADE_VOID\<rparr>,
     sd_seals := (sd_seals s)(?u \<mapsto> y\<lparr>sl_dead := True\<rparr>), sd_sent := sd_sent s @ [SealMarkDead (ss_uid x)]\<rparr>"
  have "seal_step h r w t (SealMarkDead (ss_uid x)) s = Inr ?s"
    using Cons.prems y by (simp add: seal_step_def mark_seal_dead_def guardE_def)
  moreover have "kill_seals h xs ((sd_seals s)(?u \<mapsto> y\<lparr>sl_dead := True\<rparr>)) = kill_seals h (x # xs) (sd_seals s)"
    using Cons.prems(2) y by (auto simp: kill_seals_def fun_eq_iff)
  moreover have "\<forall>z \<in> set xs. h (ss_uid z) \<noteq> ?u" using Cons.prems(2) by (auto simp: image_iff)
  then have pre: "\<forall>z \<in> set xs. \<exists>y'. sd_seals ?s (h (ss_uid z)) = Some y' \<and> \<not> sl_dead y' \<and> sl_passport y' = pp_serial_hash (sd_passport ?s)"
    using Cons.prems(3) by simp
  have "may_manage_passport r w (sd_passport ?s)" "distinct (map (\<lambda>x. h (ss_uid x)) xs)"
    using Cons.prems(1,2) by (simp_all add: may_manage_passport_def)
  note IH = Cons.IH [OF this pre]
  ultimately show ?case
    using IH by (simp del: fun_upd_apply)
qed

text \<open>Every step of a finished plan is skipped on a second run.\<close>

lemma seal_steps_done:
  assumes "\<forall>op \<in> set ops. case op of
      SealAttach uid kind \<Rightarrow> sd_seals s (h uid) \<noteq> None
    | SealMarkDead uid \<Rightarrow> (case sd_seals s (h uid) of None \<Rightarrow> True | Some y \<Rightarrow> sl_dead y)"
  shows "seal_steps h r w t ops s = Inr s"
  using assms
proof (induction ops)
  case (Cons op ops)
  then have "seal_step h r w t op s = Inr s" by (auto simp: seal_step_def split: seal_op.splits option.splits)
  with Cons show ?case by simp
qed simp

text \<open>The seals of a seed passport reach the chain whatever their order in the file: for a live passport with
  room for them, whose seals are new and the wallet may manage, the program accepts every step of
  \<open>sealSeedPlan\<close>. Afterwards each seal is attached to the passport and dead exactly when the seed says so, the
  passport is void exactly when one is dead, and a second run sends nothing.\<close>

theorem seal_plan_accepted:
  assumes "may_manage_passport r w p" "\<not> is_voided p" "seed_seals_valid xs" "unat (pp_seal_count p) + length xs \<le> 2"
    and "distinct (map (\<lambda>x. h (ss_uid x)) xs)" "\<forall>x \<in> set xs. m (h (ss_uid x)) = None"
  shows "\<exists>s. seal_steps h r w t (sealSeedPlan xs) \<lparr>sd_passport = p, sd_seals = m, sd_sent = []\<rparr> = Inr s \<and>
    sd_sent s = sealSeedPlan xs \<and>
    (\<forall>x \<in> set xs. \<exists>y. sd_seals s (h (ss_uid x)) = Some y \<and> sl_passport y = pp_serial_hash p \<and>
       sl_kind y = of_int (ss_kind x) \<and> sl_dead y = ss_isdead x) \<and>
    is_voided (sd_passport s) = list_ex ss_isdead xs \<and>
    seal_steps h r w t (sealSeedPlan xs) s = Inr s"
proof -
  let ?s = "\<lparr>sd_passport = p, sd_seals = m, sd_sent = []\<rparr>" and ?ds = "filter ss_isdead xs"
  let ?p = "p\<lparr>pp_seal_count := pp_seal_count p + of_nat (length xs)\<rparr>"
  let ?m = "add_seals h t p xs m"
  let ?s1 = "\<lparr>sd_passport = ?p, sd_seals = ?m, sd_sent = map (\<lambda>x. SealAttach (ss_uid x) (ss_kind x)) xs\<rparr>"
  let ?s2 = "?s1\<lparr>sd_passport := (if ?ds = [] then ?p else ?p\<lparr>pp_void := True, pp_grade := GRADE_VOID\<rparr>),
     sd_seals := kill_seals h ?ds ?m, sd_sent := sealSeedPlan xs\<rparr>"
  have "seal_steps h r w t (map (\<lambda>x. SealAttach (ss_uid x) (ss_kind x)) xs) ?s = Inr ?s1"
    using attach_all [of r w ?s xs h t] assms by simp
  moreover have "seal_steps h r w t (map (\<lambda>x. SealMarkDead (ss_uid x)) ?ds) ?s1 = Inr ?s2"
    using mark_all [of r w ?s1 h ?ds t] assms(1,5) add_seals_at [OF assms(5), of _ t p m]
    by (simp add: may_manage_passport_def distinct_map_filter fresh_seal_def sealSeedPlan_def)
  ultimately have run: "seal_steps h r w t (sealSeedPlan xs) ?s = Inr ?s2"
    by (simp add: sealSeedPlan_def seal_steps_append)
  have inj: "h (ss_uid x) \<in> set (map (\<lambda>x. h (ss_uid x)) ?ds) \<longleftrightarrow> ss_isdead x" if "x \<in> set xs" for x
    using assms(5) that by (auto simp: distinct_map inj_on_def image_iff)
  have seal: "sd_seals ?s2 (h (ss_uid x)) = Some (if ss_isdead x then (fresh_seal h t p x)\<lparr>sl_dead := True\<rparr> else fresh_seal h t p x)"
    if "x \<in> set xs" for x
    using inj [OF that] add_seals_at [OF assms(5) that, of t p m] by (simp add: kill_seals_def)
  have "seal_steps h r w t (sealSeedPlan xs) ?s2 = Inr ?s2"
    by (rule seal_steps_done) (use seal in \<open>auto simp: sealSeedPlan_def\<close>)
  moreover have "is_voided (sd_passport ?s2) = list_ex ss_isdead xs"
    using assms(2) by (auto simp: is_voided_def list_ex_iff filter_empty_conv)
  moreover have "\<forall>x \<in> set xs. \<exists>y. sd_seals ?s2 (h (ss_uid x)) = Some y \<and> sl_passport y = pp_serial_hash p \<and>
       sl_kind y = of_int (ss_kind x) \<and> sl_dead y = ss_isdead x"
    using seal by (simp add: fresh_seal_def)
  ultimately show ?thesis using run by (intro exI [of _ ?s2]) simp
qed

definition demo_seed_seals :: "seed_seal list" where
  "demo_seed_seals = [\<lparr>ss_uid = ''04AAAAAAAAAAAA'', ss_kind = 0, ss_isdead = True\<rparr>,
     \<lparr>ss_uid = ''04BBBBBBBBBBBB'', ss_kind = 1, ss_isdead = False\<rparr>]"

definition demo_seed_passport :: passport where
  "demo_seed_passport = \<lparr>pp_serial_hash = [1], pp_binding_hash = [], pp_asset = [], pp_issuer = [7], pp_grade = 0,
     pp_scan_count = 0, pp_seal_count = 0, pp_void = False, pp_created_at = 0\<rparr>"

text \<open>The first seal listed is the dead one.\<close>

theorem seal_plan_accepted_witness:
  "\<exists>s. seal_steps utf8 (registry.truncate demo_registry_account) [7] 1000 (sealSeedPlan demo_seed_seals)
      \<lparr>sd_passport = demo_seed_passport, sd_seals = Map.empty, sd_sent = []\<rparr> = Inr s \<and> is_voided (sd_passport s)"
  using seal_plan_accepted [of "registry.truncate demo_registry_account" "[7]" demo_seed_passport demo_seed_seals utf8 Map.empty 1000]
  by (auto simp: demo_seed_seals_def demo_seed_passport_def demo_registry_account_def may_manage_passport_def is_voided_def
      seed_seals_valid_def UID_RE_def char_class_simps code_def utf8_inject registry.truncate_def)

end
