(* ===== verification/Web_Small.thy ===== *)
theory Web_Small
  imports Web_Handoff FV_Number Web_Send
begin

text \<open>
  The small library files of the web app: \<open>wallet-links.ts\<close> (resuming a signed scan in a wallet's browser, the
  auto-connect policy), \<open>config.ts\<close>, \<open>api.ts\<close> (server-side reads), \<open>demo.ts\<close>, \<open>retry.ts\<close>, \<open>middleware.ts\<close>
  and \<open>dev-wallet.ts\<close>. What the browser holds (user agent, storage, location, environment) is an argument.
\<close>

section \<open>wallet-links.ts\<close>

record resume_ref =
  rr_eventId :: int
  rr_token :: string

record resume_link = resume_ref +
  rl_tier :: int
  rl_role :: int
  rl_siteId :: int

definition token_char :: "char \<Rightarrow> bool" where
  "token_char c \<longleftrightarrow> is_alnum c \<or> c = CHR ''_'' \<or> c = CHR ''-''"

definition TOKEN_RE :: "string \<Rightarrow> bool" where
  "TOKEN_RE s \<longleftrightarrow> 16 \<le> length s \<and> length s \<le> 128 \<and> list_all token_char s"

definition resume_encode :: "resume_ref \<Rightarrow> string" where
  "resume_encode r = show_int (rr_eventId r) @ ''.'' @ rr_token r"

definition MAX_SAFE_INTEGER :: int where
  "MAX_SAFE_INTEGER = 9007199254740991"

text \<open>\<open>/^(\d{1,15})\.([A-Za-z0-9_-]+)$/\<close>: the digits end at the first dot.\<close>

definition resume_decode :: "string option \<Rightarrow> resume_ref option" where
  "resume_decode v =
    (let s = (case v of Some s \<Rightarrow> s | None \<Rightarrow> []); d = takeWhile is_digit s; r = dropWhile is_digit s; t = drop 1 r in
     if d = [] \<or> length d > 15 \<or> r = [] \<or> hd r \<noteq> CHR ''.'' \<or> t = [] \<or> \<not> list_all token_char t \<or> \<not> TOKEN_RE t then None
     else let n = int (read_nat d) in
       if n \<le> MAX_SAFE_INTEGER \<and> n > 0 then Some \<lparr>rr_eventId = n, rr_token = t\<rparr> else None)"

text \<open>The query as \<open>URLSearchParams\<close> writes it: digits, letters, dot, underscore and hyphen stay as they are.\<close>

definition resumeUrl :: "string \<Rightarrow> resume_link \<Rightarrow> string" where
  "resumeUrl origin st = origin @ ''/scan?resume='' @ resume_encode (resume_ref.truncate st) @
     ''&tier='' @ show_int (rl_tier st) @ ''&role='' @ show_int (rl_role st) @
     (if rl_siteId st \<noteq> 0 then ''&site='' @ show_int (rl_siteId st) else [])"

record browse_links =
  bl_phantom :: string
  bl_solflare :: string

definition walletBrowseLinks :: "string \<Rightarrow> string \<Rightarrow> browse_links" where
  "walletBrowseLinks origin target =
    (let ref = encodeURIComponent origin; t = encodeURIComponent target in
     \<lparr>bl_phantom = ''https://phantom.com/ul/browse/'' @ t @ ''?ref='' @ ref,
      bl_solflare = ''https://solflare.com/ul/v1/browse/'' @ t @ ''?ref='' @ ref\<rparr>)"

definition isIOS :: "string option \<Rightarrow> bool" where
  "isIOS userAgent = (case userAgent of None \<Rightarrow> False
     | Some ua \<Rightarrow> list_ex (contains_i ua) [''iphone'', ''ipad'', ''ipod''])"

text \<open>\<open>/^Dev[- ]wallet|Mobile Wallet Adapter|Burner|WalletConnect/i\<close>\<close>

definition stand_in :: "string \<Rightarrow> bool" where
  "stand_in name \<longleftrightarrow> starts_with (lower name) ''dev-wallet'' \<or> starts_with (lower name) ''dev wallet'' \<or>
     list_ex (contains_i name) [''mobile wallet adapter'', ''burner'', ''walletconnect'']"

definition noInjectedWallet :: "(string \<times> bool) list \<Rightarrow> bool" where
  "noInjectedWallet names \<longleftrightarrow> \<not> list_ex (\<lambda>(name, installed). installed \<and> \<not> stand_in name) names"

text \<open>The policy keeps whether the page-load attempt is still to come; answers for a sequence of attempts.\<close>

definition auto_connect :: "string \<Rightarrow> string option \<Rightarrow> bool \<Rightarrow> string \<Rightarrow> bool \<times> bool" where
  "auto_connect walletConnectName rememberedAtLoad pageLoadAttempt adapterName =
    (let atLoad = pageLoadAttempt \<and> Some adapterName = rememberedAtLoad in
     (\<not> (atLoad \<and> adapterName = walletConnectName), False))"

fun autoConnectPolicy :: "string \<Rightarrow> string option \<Rightarrow> bool \<Rightarrow> string list \<Rightarrow> bool list" where
  "autoConnectPolicy wc rem attempt [] = []"
| "autoConnectPolicy wc rem attempt (n # ns) =
     (case auto_connect wc rem attempt n of (b, attempt') \<Rightarrow> b # autoConnectPolicy wc rem attempt' ns)"

section \<open>config.ts\<close>

fun firstSet :: "string option list \<Rightarrow> string" where
  "firstSet [] = []"
| "firstSet (v # vs) = (case v of
     Some s \<Rightarrow> if js_trim s \<noteq> [] then js_trim s else firstSet vs
   | None \<Rightarrow> firstSet vs)"

definition noTrailingSlash :: "string \<Rightarrow> string" where
  "noTrailingSlash u = (if u \<noteq> [] \<and> last u = CHR ''/'' then butlast u else u)"

record env_urls =
  eu_verifyUrl :: "string option"
  eu_publicVerifyUrl :: "string option"
  eu_solanaRpc :: "string option"
  eu_canonicalOrigin :: "string option"

record app_urls =
  au_verifyUrl :: string
  au_publicVerifyUrl :: string
  au_solanaRpc :: string
  au_canonicalOrigin :: string

definition resolveUrls :: "env_urls \<Rightarrow> app_urls" where
  "resolveUrls env =
    \<lparr>au_verifyUrl = noTrailingSlash (firstSet [eu_verifyUrl env, eu_publicVerifyUrl env, Some ''http://localhost:8787'']),
     au_publicVerifyUrl = noTrailingSlash (firstSet [eu_publicVerifyUrl env, Some ''http://localhost:8787'']),
     au_solanaRpc = firstSet [eu_solanaRpc env, Some ''https://api.devnet.solana.com''],
     au_canonicalOrigin = noTrailingSlash (firstSet [eu_canonicalOrigin env, Some ''https://app.flaconvault.com''])\<rparr>"

definition DEV_SIMULATOR :: "string option \<Rightarrow> bool" where
  "DEV_SIMULATOR env \<longleftrightarrow> env = Some ''true''"

section \<open>api.ts\<close>

datatype 'a api_result = Api_ok 'a | Api_missing | Api_error string

text \<open>What a fetch gives: an exception (name and message, None for a value without one), or a response whose body may not parse.\<close>

record fetch_error =
  fe_name :: string
  fe_message :: "string option"
  fe_text :: string

record 'a fetch_response =
  fr_status :: int
  fr_json :: "fetch_error + 'a"

definition fetch_failed :: "fetch_error \<Rightarrow> 'a api_result" where
  "fetch_failed e = Api_error (if fe_name e = ''TimeoutError'' \<or> fe_name e = ''AbortError'' then ''timeout''
     else case fe_message e of Some m \<Rightarrow> m | None \<Rightarrow> fe_text e)"

definition api_get :: "fetch_error + 'a fetch_response \<Rightarrow> 'a api_result" where
  "api_get r = (case r of
     Inl e \<Rightarrow> fetch_failed e
   | Inr a \<Rightarrow>
       if fr_status a = 404 then Api_missing
       else if \<not> (200 \<le> fr_status a \<and> fr_status a \<le> 299)
       then Api_error (''HTTP '' @ show_int (fr_status a))
       else (case fr_json a of Inl e \<Rightarrow> fetch_failed e | Inr x \<Rightarrow> Api_ok x))"

definition MAX_TAP_ID :: string where
  "MAX_TAP_ID = ''9223372036854775807''"

definition validTapId :: "string option \<Rightarrow> bool" where
  "validTapId v = (case v of None \<Rightarrow> False
     | Some s \<Rightarrow> s \<noteq> [] \<and> is_digit (hd s) \<and> hd s \<noteq> CHR ''0'' \<and> list_all is_digit (tl s) \<and> length (tl s) \<le> 18 \<and>
         (length s < length MAX_TAP_ID \<or> str_le s MAX_TAP_ID))"

definition getTap :: "(string \<Rightarrow> fetch_error + 'a fetch_response) \<Rightarrow> string \<Rightarrow> 'a api_result" where
  "getTap fetch s = (if validTapId (Some s) then api_get (fetch (''/api/tap/'' @ encodeURIComponent s)) else Api_missing)"

definition getPassport :: "(string \<Rightarrow> fetch_error + 'a fetch_response) \<Rightarrow> string \<Rightarrow> 'a api_result" where
  "getPassport fetch serial = api_get (fetch (''/api/passport/'' @ encodeURIComponent serial))"

definition getPassports :: "(string \<Rightarrow> fetch_error + 'a fetch_response) \<Rightarrow> 'a api_result" where
  "getPassports fetch = api_get (fetch ''/api/passports'')"

definition getAttester :: "(string \<Rightarrow> fetch_error + 'a fetch_response) \<Rightarrow> string \<Rightarrow> 'a api_result" where
  "getAttester fetch k = api_get (fetch (''/api/attester/'' @ encodeURIComponent k))"

definition getHealth :: "(string \<Rightarrow> fetch_error + 'a fetch_response) \<Rightarrow> 'a api_result" where
  "getHealth fetch = api_get (fetch ''/health'')"

section \<open>demo.ts, middleware.ts, retry.ts\<close>

text \<open>\<open>item\<close> is the stored flag; None for a storage that throws.\<close>

definition demoMode :: "string option \<Rightarrow> string option \<Rightarrow> string option option \<Rightarrow> bool" where
  "demoMode env hostname item \<longleftrightarrow> DEV_SIMULATOR env \<and> (case hostname of None \<Rightarrow> False
     | Some h \<Rightarrow> h \<in> {''localhost'', ''127.0.0.1'', ''[::1]''} \<or> item = Some (Some ''1''))"

definition setDemoMode :: "bool \<Rightarrow> (string \<Rightarrow> string option) option \<Rightarrow> (string \<Rightarrow> string option) option" where
  "setDemoMode on store = map_option (\<lambda>m. if on then m(''fv.demo'' \<mapsto> ''1'') else m(''fv.demo'' := None)) store"

definition OLD_HOST :: string where
  "OLD_HOST = ''flaconvault.vercel.app''"

definition keepsOrigin :: "string \<Rightarrow> string \<Rightarrow> bool" where
  "keepsOrigin method pathname \<longleftrightarrow> method = ''OPTIONS'' \<or> pathname = ''/actions.json'' \<or> pathname = ''/api/actions'' \<or>
     starts_with pathname ''/api/actions/''"

text \<open>The address redirected to (308), None when the request passes; \<open>url\<close> resolves a path against an origin.\<close>

definition middleware :: "(string \<Rightarrow> string \<Rightarrow> string) \<Rightarrow> string option \<Rightarrow> string \<Rightarrow> string option \<Rightarrow> string \<Rightarrow> string \<Rightarrow> string option" where
  "middleware url env method host pathname search =
    (let newOrigin = (case env of Some o' \<Rightarrow> o' | None \<Rightarrow> []); h = (case host of Some h \<Rightarrow> h | None \<Rightarrow> []) in
     if newOrigin = [] \<or> h \<noteq> OLD_HOST \<or> keepsOrigin method pathname then None
     else Some (url (pathname @ search) newOrigin))"

datatype retry_call = Refresh | Reset

definition retryBoundary :: "retry_call list" where
  "retryBoundary = [Refresh, Reset]"

definition cn :: "string option list \<Rightarrow> string" where
  "cn parts = join_with '' '' (filter (\<lambda>s. s \<noteq> []) (map (\<lambda>p. case p of Some s \<Rightarrow> s | None \<Rightarrow> []) parts))"

section \<open>dev-wallet.ts\<close>

text \<open>
  The demo wallet: its key pair, whether a connect is running, and the stored secret. \<open>parse\<close> reads a stored
  key pair, \<open>fresh\<close> is \<open>Keypair.generate\<close>, \<open>writable\<close> says whether the storage takes an item.
\<close>

record 'k dev_wallet =
  dw_keypair :: "'k option"
  dw_connecting :: bool
  dw_stored :: "'k option"
  dw_emitted :: "'k option list"

definition dev_load :: "'k \<Rightarrow> bool \<Rightarrow> 'k dev_wallet \<Rightarrow> 'k \<times> 'k dev_wallet" where
  "dev_load fresh writable w = (case dw_stored w of
     Some k \<Rightarrow> (k, w)
   | None \<Rightarrow> (fresh, if writable then w\<lparr>dw_stored := Some fresh\<rparr> else w))"

definition dev_connect :: "'k \<Rightarrow> bool \<Rightarrow> 'k dev_wallet \<Rightarrow> 'k dev_wallet" where
  "dev_connect fresh writable w =
    (if dw_connecting w then w
     else let (k, w) = (case dw_keypair w of Some k \<Rightarrow> (k, w) | None \<Rightarrow> dev_load fresh writable w) in
       w\<lparr>dw_keypair := Some k, dw_emitted := dw_emitted w @ [Some k], dw_connecting := False\<rparr>)"

definition dev_disconnect :: "'k dev_wallet \<Rightarrow> 'k dev_wallet" where
  "dev_disconnect w = w\<lparr>dw_keypair := None, dw_emitted := dw_emitted w @ [None]\<rparr>"

definition dev_sign :: "('k \<Rightarrow> 'tx \<Rightarrow> 'tx) \<Rightarrow> ('k \<Rightarrow> 'tx \<Rightarrow> 'tx) \<Rightarrow> bool \<Rightarrow> 'k dev_wallet \<Rightarrow> 'tx \<Rightarrow> string + 'tx" where
  "dev_sign sign partial_sign versioned w tx = (case dw_keypair w of
     None \<Rightarrow> Inl ''Dev wallet not connected''
   | Some k \<Rightarrow> Inr (if versioned then sign k tx else partial_sign k tx))"

section \<open>Facts\<close>

lemma show_nat_takeWhile: "takeWhile is_digit (show_nat n @ CHR ''.'' # t) = show_nat n"
  "dropWhile is_digit (show_nat n @ CHR ''.'' # t) = CHR ''.'' # t"
proof -
  have d: "\<forall>c \<in> set (show_nat n). is_digit c" using show_nat_digits [of n] by (simp add: list_all_iff)
  have "\<not> is_digit (CHR ''.'')" by (simp add: is_digit_def code_def)
  with d show "takeWhile is_digit (show_nat n @ CHR ''.'' # t) = show_nat n"
    "dropWhile is_digit (show_nat n @ CHR ''.'' # t) = CHR ''.'' # t"
    by (simp_all add: takeWhile_append2 dropWhile_append2)
qed

lemma resume_decode_encode:
  assumes "0 < rr_eventId r" "rr_eventId r < 10 ^ 15" "TOKEN_RE (rr_token r)"
  shows "resume_decode (Some (resume_encode r)) = Some r"
proof -
  define n where "n = nat (rr_eventId r)"
  have n: "rr_eventId r = int n" "0 < n" "n < 10 ^ 15" using assms(1,2) by (auto simp: n_def)
  have t: "list_all token_char (rr_token r)" "rr_token r \<noteq> []" using assms(3) by (auto simp: TOKEN_RE_def)
  have "resume_encode r = show_nat n @ CHR ''.'' # rr_token r"
    using n by (simp add: resume_encode_def show_int_def)
  moreover have "length (show_nat n) \<le> 15" using n(3) by (intro show_nat_length) auto
  ultimately show ?thesis
    using n t assms(3) by (cases r) (simp add: resume_decode_def show_nat_takeWhile MAX_SAFE_INTEGER_def Let_def is_digit_def code_def)
qed

lemma resume_decode_Some:
  assumes "resume_decode (Some s) = Some r"
  shows "0 < rr_eventId r \<and> rr_eventId r < 10 ^ 15 \<and> TOKEN_RE (rr_token r)"
proof -
  let ?d = "takeWhile is_digit s"
  have d: "list_all is_digit ?d" by (auto simp: list_all_iff dest: set_takeWhileD)
  from assms have "length ?d \<le> 15" "rr_eventId r = int (read_nat ?d)" "0 < rr_eventId r" "TOKEN_RE (rr_token r)"
    by (auto simp: resume_decode_def Let_def split: if_splits)
  moreover have "read_nat ?d < 10 ^ 15"
    using read_nat_bound [OF d] calculation(1) power_increasing [of "length ?d" 15 "10 :: nat"] by linarith
  ultimately show ?thesis by simp
qed

text \<open>A link that resumes a signed scan in a wallet's browser is read back exactly: every event id of at most fifteen
  digits with a well-formed token survives the round trip, and whatever a link holds, an accepted reference has a
  positive id in that range and a token of 16 to 128 url-safe characters.\<close>

theorem resume_link_roundtrip:
  "(if 0 < rr_eventId r \<and> rr_eventId r < 10 ^ 15 \<and> TOKEN_RE (rr_token r)
    then resume_decode (Some (resume_encode r)) = Some r else True) \<and>
   (case resume_decode (Some s) of None \<Rightarrow> True
    | Some q \<Rightarrow> 0 < rr_eventId q \<and> rr_eventId q < 10 ^ 15 \<and> TOKEN_RE (rr_token q))"
  using resume_decode_encode [of r] resume_decode_Some [of s] by (auto split: option.split)

lemma str_le_max: "length s = 19 \<Longrightarrow> list_all is_digit s \<Longrightarrow> str_le s MAX_TAP_ID \<longleftrightarrow> read_nat s \<le> 9223372036854775807"
proof -
  assume s: "length s = 19" "list_all is_digit s"
  have m: "list_all is_digit MAX_TAP_ID" "length MAX_TAP_ID = 19" "read_nat MAX_TAP_ID = 9223372036854775807"
    by (simp_all add: MAX_TAP_ID_def is_digit_def code_def read_nat_def)
  show ?thesis using str_le_digits [OF s(2) m(1)] s(1) m(2,3) by simp
qed

lemma read_nat_hd: "s \<noteq> [] \<Longrightarrow> list_all is_digit s \<Longrightarrow> hd s \<noteq> CHR ''0'' \<Longrightarrow> 0 < read_nat s"
proof -
  assume s: "s \<noteq> []" "list_all is_digit s" "hd s \<noteq> CHR ''0''"
  then obtain c t where c: "s = c # t" "is_digit c" "c \<noteq> CHR ''0''" by (cases s) auto
  then have "code c \<noteq> 48" using code_inject [of c "CHR ''0''"] by (simp add: code_def)
  with c show ?thesis by (simp add: read_nat_Cons is_digit_def)
qed

lemma valid_tap_id_complete: "1 \<le> n \<Longrightarrow> n < 2 ^ 63 \<Longrightarrow> validTapId (Some (show_nat n))"
proof -
  assume n: "1 \<le> n" "n < 2 ^ 63"
  then have len: "length (show_nat n) \<le> 19" by (intro show_nat_length) auto
  have d: "list_all is_digit (show_nat n)" by (rule show_nat_digits)
  then have "is_digit (hd (show_nat n))" "list_all is_digit (tl (show_nat n))"
    by (cases "show_nat n"; simp)+
  moreover have "hd (show_nat n) \<noteq> CHR ''0''" using n by (simp add: show_nat_hd_zero)
  moreover have "length (show_nat n) < 19 \<or> str_le (show_nat n) MAX_TAP_ID"
    using len n str_le_max [OF _ d] by (cases "length (show_nat n) = 19") auto
  moreover have "length MAX_TAP_ID = 19" by (simp add: MAX_TAP_ID_def)
  moreover have "length (tl (show_nat n)) \<le> 18" using len by simp
  ultimately show ?thesis using show_nat_nonempty [of n] by (simp add: validTapId_def del: length_tl)
qed

lemma valid_tap_id_sound:
  assumes "validTapId (Some s)"
  shows "1 \<le> read_nat s \<and> read_nat s < 2 ^ 63 \<and> show_nat (read_nat s) = s"
proof -
  from assms have s: "s \<noteq> []" "list_all is_digit s" "hd s \<noteq> CHR ''0''" "length s \<le> 19"
    "length s < 19 \<or> str_le s MAX_TAP_ID"
    by (cases s; auto simp: validTapId_def MAX_TAP_ID_def)+
  have "read_nat s \<le> 9223372036854775807"
  proof (cases "length s = 19")
    case True
    with s str_le_max [OF True s(2)] show ?thesis by auto
  next
    case False
    with s(4) have "length s \<le> 18" by simp
    then have "(10 :: nat) ^ length s \<le> 10 ^ 18" by (rule power_increasing) simp
    with read_nat_bound [OF s(2)] show ?thesis by simp
  qed
  with read_nat_hd [OF s(1,2,3)] show_read_nat [OF s(2,1)] s(3) show ?thesis by simp
qed

text \<open>A tap id is accepted exactly when it is the decimal print of a whole number from 1 to 2^63 - 1, the ids of
  the verifier's database; the code decides it by comparing strings.\<close>

theorem tap_id_range: "validTapId (Some s) \<longleftrightarrow> (\<exists>n \<in> {1..<2 ^ 63}. s = show_nat n)"
  using valid_tap_id_complete valid_tap_id_sound by (metis atLeastLessThan_iff)

text \<open>A setting is never blank, and 404 is the only answer that means "missing".\<close>

lemma firstSet_set: "js_trim d \<noteq> [] \<Longrightarrow> firstSet (vs @ [Some d]) \<noteq> []"
  by (induction vs) (auto split: option.split)

lemma missing_iff: "api_get r = Api_missing \<longleftrightarrow> (\<exists>a. r = Inr a \<and> fr_status a = 404)"
  by (auto simp: api_get_def fetch_failed_def split: sum.splits)

lemma blinks_keep_origin: "starts_with p ''/api/actions/'' \<Longrightarrow> middleware url env m h p q = None"
  by (simp add: middleware_def keepsOrigin_def)

end
