(* ===== verification/Scan_Page.thy ===== *)
theory Scan_Page
  imports Web_Small Vision_Combine Web_Scan
begin

text \<open>
  \<open>apps/web/src/components/scan-flow.tsx\<close>: the scan page as a state machine. The state is the component's
  \<open>useState\<close> and \<open>useRef\<close> values; a handler that awaits something is split into what it does when it is
  called, which leaves a \<open>flight\<close> with the values its closure captured, and what it does with the answer.
  Other handlers may run in between, as they may in the browser. The answers of the verifier, the camera, the
  card reader and the wallet are arguments; \<open>now\<close> is the device clock in seconds.
\<close>

section \<open>Data\<close>

record page_session = session_times +
  ps_nonce :: string

record page_clock =
  pk_deadline :: rat
  pk_offset :: rat
  pk_limitedBy :: limited_by

record preview =
  pv_verdict :: string
  pv_counter :: "int option"
  pv_serial :: "string option"
  pv_uidHash :: "string option"
  pv_sealKind :: "int option"
  pv_sealDead :: "bool option"

record tap_view = preview +
  tv_tapId :: int
  tv_ts :: rat
  tv_uid :: "string option"

record scan_tag = tag_params +
  tg_simulator :: bool
  tg_serial :: "string option"
  tg_tapId :: "int option"
  tg_tapToken :: "string option"

record verify_result =
  vr_verdict :: string
  vr_eventId :: "int option"
  vr_resumeToken :: "string option"
  vr_counter :: "int option"
  vr_grade :: "int option"
  vr_serial :: "string option"
  vr_msgHex :: "string option"
  vr_bundle :: "json option"
  vr_serverSig :: "string option"
  vr_keyId :: "int option"

text \<open>The running session as other tabs see it in localStorage.\<close>

record stored_session = scan_session +
  sf_ttl :: "rat option"
  sf_issuedAt :: "rat option"

text \<open>The photos taken: how many frames and the hash over them.\<close>

record photo_set =
  fo_count :: nat
  fo_mediaHash :: string

record sim_tag =
  st_uid :: string
  st_serial :: "string option"
  st_counter :: int
  st_alive :: bool

text \<open>The page's address and environment, fixed while it is open.\<close>

record scan_config =
  cf_qRole :: js_num
  cf_qTier :: js_num
  cf_qSite :: js_num
  cf_hasTier :: bool
  cf_resume :: "string option"
  cf_adopt :: "(string \<times> string option) option"
  cf_scanUrl :: string
  cf_origin :: string
  cf_platform :: string
  cf_ios :: bool
  cf_walletConnect :: bool
  cf_programId :: "pubkey option"
  cf_demo :: bool
  cf_serverSim :: bool
  cf_base58 :: "pubkey \<Rightarrow> string"
  cf_sha256 :: "bytes \<Rightarrow> bytes"

definition is_certified :: "scan_config \<Rightarrow> bool" where
  "is_certified cf \<longleftrightarrow> cf_qTier cf = jn (member Tier ''CERTIFIED'') \<or> cf_qTier cf = jn (member Tier ''BIRTH'')"

definition defaultRole :: "scan_config \<Rightarrow> int" where
  "defaultRole cf = initialRole (cf_qRole cf) (is_certified cf)"

definition siteId :: "scan_config \<Rightarrow> int" where
  "siteId cf = (if is_certified cf \<and> js_is_integer (cf_qSite cf) \<and> js_lt (jn 0) (cf_qSite cf) then js_floor (cf_qSite cf) else 0)"

text \<open>The answers still awaited, with what the closures captured.\<close>

record verify_call =
  vc_input :: verify_input
  vc_frames :: "photo_set option"
  vc_cached :: "uploaded_media option"

record send_call =
  sn_verify :: verify_result
  sn_wallet :: pubkey
  sn_txSig :: "string option"
  sn_resumed :: bool
  sn_ownScan :: bool
  sn_tier :: int
  sn_role :: int

record report_call =
  rp_serial :: string
  rp_session :: "page_session option"
  rp_actor :: "string option"
  rp_uidHash :: "string option"
  rp_source :: string

datatype flight =
    F_session
  | F_preview scan_tag
  | F_resume resume_ref
  | F_adopt "string option"
  | F_sim sim_tag
  | F_capture "string option"
  | F_reading nat
  | F_verify verify_call
  | F_send send_call
  | F_report report_call
  | F_airdrop

text \<open>What left the page for the verifier or the chain, in order.\<close>

datatype page_post = Posted_verify verify_input | Posted_report string string | Pressed_send send_call

record 'w scan_page =
  pg_step :: scan_step
  pg_session :: "page_session option"
  pg_clock :: "page_clock option"
  pg_left :: int
  pg_tag :: "scan_tag option"
  pg_preview :: "preview option"
  pg_frames :: "photo_set option"
  pg_reading :: "'w card_reading option"
  pg_fill :: int
  pg_role :: int
  pg_city :: string
  pg_country :: string
  pg_verify :: "verify_result option"
  pg_txSig :: "string option"
  pg_resumedScan :: bool
  pg_ownScan :: bool
  pg_busy :: "string option"
  pg_error :: "string option"
  pg_errorLink :: "(string \<times> string \<times> string) option"
  pg_nfcState :: string
  pg_deadSerial :: string
  pg_camReady :: bool
  pg_tierOverride :: "int option"
  pg_uploaded :: "uploaded_media option"
  pg_deadNonceSpent :: "string option"
  pg_capturing :: bool
  pg_nfcOn :: bool
  pg_shared :: "stored_session option"
  pg_started :: bool
  pg_wallet :: "pubkey option"
  pg_injected :: bool
  pg_flights :: "flight list"
  pg_posts :: "page_post list"

definition initial_page :: "scan_config \<Rightarrow> stored_session option \<Rightarrow> 'w scan_page" where
  "initial_page cf stored =
    \<lparr>pg_step = St_session, pg_session = None, pg_clock = None, pg_left = NONCE_TTL_S, pg_tag = None, pg_preview = None,
     pg_frames = None, pg_reading = None, pg_fill = 92, pg_role = defaultRole cf, pg_city = [], pg_country = [],
     pg_verify = None, pg_txSig = None, pg_resumedScan = False, pg_ownScan = False, pg_busy = None, pg_error = None,
     pg_errorLink = None, pg_nfcState = [], pg_deadSerial = [], pg_camReady = False, pg_tierOverride = None,
     pg_uploaded = None, pg_deadNonceSpent = None, pg_capturing = False, pg_nfcOn = False, pg_shared = stored,
     pg_started = False, pg_wallet = None, pg_injected = False, pg_flights = [], pg_posts = []\<rparr>"

section \<open>Derived values\<close>

definition page_tier :: "scan_config \<Rightarrow> 'w scan_page \<Rightarrow> int" where
  "page_tier cf p = (case pg_tierOverride p of Some t \<Rightarrow> t
     | None \<Rightarrow> if is_certified cf then js_floor (cf_qTier cf)
         else if pg_frames p \<noteq> None then member Tier ''SELF_MEDIA'' else member Tier ''SELF'')"

definition page_gate :: "scan_config \<Rightarrow> 'w scan_page \<Rightarrow> wallet_gate option" where
  "page_gate cf p = partnerWalletGate (page_tier cf p) (pg_role p)
     \<lparr>we_connected = (pg_wallet p \<noteq> None), we_ios = cf_ios cf, we_injectedWallet = pg_injected p,
      we_walletConnect = cf_walletConnect cf\<rparr>"

definition expired :: "'w scan_page \<Rightarrow> bool" where
  "expired p \<longleftrightarrow> pg_session p \<noteq> None \<and> pg_clock p \<noteq> None \<and> pg_left p \<le> 0 \<and> timedStep (pg_step p)"

text \<open>The signed bundle decides tier and role of the transaction; its codes are whole numbers.\<close>

definition verify_bundle :: "'w scan_page \<Rightarrow> json option" where
  "verify_bundle p = Option.bind (pg_verify p) vr_bundle"

definition txTier :: "scan_config \<Rightarrow> 'w scan_page \<Rightarrow> int" where
  "txTier cf p = (case sg_tier (signedAttester (verify_bundle p)) of Some t \<Rightarrow> js_floor t | None \<Rightarrow> page_tier cf p)"

definition txRole :: "'w scan_page \<Rightarrow> int" where
  "txRole p = (case sg_role (signedAttester (verify_bundle p)) of Some r \<Rightarrow> js_floor r | None \<Rightarrow> pg_role p)"

definition ownScanNeeded :: "'w scan_page \<Rightarrow> bool" where
  "ownScanNeeded p = needsOwnScanConfirmation (pg_resumedScan p) (verify_bundle p)"

definition nonceCode :: "string \<Rightarrow> string" where
  "nonceCode nonce = map to_upper_char (take 6 (if starts_with nonce ''0x'' then drop 2 nonce else nonce))"

section \<open>Handlers\<close>

definition with_flight :: "flight \<Rightarrow> 'w scan_page \<Rightarrow> 'w scan_page" where
  "with_flight f p = p\<lparr>pg_flights := pg_flights p @ [f]\<rparr>"

definition arrived :: "flight \<Rightarrow> 'w scan_page \<Rightarrow> 'w scan_page" where
  "arrived f p = p\<lparr>pg_flights := remove1 f (pg_flights p)\<rparr>"

definition failed :: "js_error \<Rightarrow> 'w scan_page \<Rightarrow> 'w scan_page" where
  "failed e p = p\<lparr>pg_error := Some (friendly e), pg_busy := None\<rparr>"

definition verdict_step :: "string \<Rightarrow> scan_step" where
  "verdict_step v = (if v = ''NO_RESPONSE'' then St_dead else St_preview)"

definition signed_step :: "verify_result \<Rightarrow> scan_step" where
  "signed_step v = (if vr_verdict v = ''VALID'' then St_tx else St_verify)"

definition adoptSession ::
  "scan_config \<Rightarrow> rat \<Rightarrow> page_session \<Rightarrow> (rat \<times> limited_by) option \<Rightarrow> bool \<Rightarrow> 'w scan_page \<Rightarrow> 'w scan_page" where
  "adoptSession cf now s override share_it p =
    (let base = sessionClock (session_times.truncate s) now;
         c = \<lparr>pk_deadline = (case override of Some (d, _) \<Rightarrow> d | None \<Rightarrow> sc_deadline base),
              pk_offset = sc_offset base,
              pk_limitedBy = (case override of Some (_, l) \<Rightarrow> l | None \<Rightarrow> By_session)\<rparr>
     in p\<lparr>pg_session := Some s, pg_clock := Some c, pg_left := secondsLeft (pk_deadline c) now, pg_uploaded := None,
          pg_shared := (if share_it then Some \<lparr>sc_deadline = pk_deadline c, sc_offset = pk_offset c, ss_nonce = ps_nonce s,
             ss_expiresAt = st_expiresAt s, ss_scanUrl = Some (cf_scanUrl cf), sf_ttl = st_ttl s, sf_issuedAt = st_issuedAt s\<rparr> else pg_shared p)\<rparr>)"

definition startSession :: "scan_config \<Rightarrow> 'w scan_page \<Rightarrow> 'w scan_page" where
  "startSession cf p = with_flight F_session
    (p\<lparr>pg_error := None, pg_tag := None, pg_preview := None, pg_frames := None, pg_reading := None, pg_verify := None,
       pg_txSig := None, pg_tierOverride := None, pg_role := defaultRole cf, pg_nfcState := [], pg_deadSerial := [],
       pg_resumedScan := False, pg_ownScan := False\<rparr>)"

definition session_answer :: "scan_config \<Rightarrow> rat \<Rightarrow> js_error + page_session \<Rightarrow> 'w scan_page \<Rightarrow> 'w scan_page" where
  "session_answer cf now r p = (case r of
     Inl e \<Rightarrow> p\<lparr>pg_error := Some (friendly e)\<rparr>
   | Inr s \<Rightarrow> (adoptSession cf now s None True p)\<lparr>pg_step := St_tap\<rparr>)"

definition onTag :: "scan_tag \<Rightarrow> 'w scan_page \<Rightarrow> 'w scan_page" where
  "onTag t p = with_flight (F_preview t) (p\<lparr>pg_tag := Some t, pg_busy := Some ''preview''\<rparr>)"

definition preview_answer :: "js_error + preview \<Rightarrow> 'w scan_page \<Rightarrow> 'w scan_page" where
  "preview_answer r p = (case r of
     Inl e \<Rightarrow> failed e p
   | Inr v \<Rightarrow>
       let verdict = effectiveVerdict (pv_verdict v) (pv_sealDead v) in
       p\<lparr>pg_preview := Some (v\<lparr>pv_verdict := verdict\<rparr>), pg_step := verdict_step verdict, pg_busy := None\<rparr>)"

text \<open>The session this tab had started before the sticker link reloaded it.\<close>

definition take_up_session :: "scan_config \<Rightarrow> rat \<Rightarrow> string option \<Rightarrow> 'w scan_page \<Rightarrow> 'w scan_page" where
  "take_up_session cf now owner p =
    (case (active_session (map_option scan_session.truncate (pg_shared p)) now, pg_shared p) of
       (Some a, Some f) \<Rightarrow>
         if cf_resume cf \<noteq> None \<or> cf_adopt cf \<noteq> None \<or> \<not> ownedHere owner a then p
         else p\<lparr>pg_session := Some \<lparr>st_expiresAt = ss_expiresAt f, st_ttl = Some (case sf_ttl f of Some t \<Rightarrow> t | None \<Rightarrow> of_int NONCE_TTL_S),
                  st_issuedAt = sf_issuedAt f, ps_nonce = ss_nonce f\<rparr>,
                pg_clock := Some \<lparr>pk_deadline = sc_deadline a, pk_offset = sc_offset a, pk_limitedBy = By_session\<rparr>,
                pg_left := secondsLeft (sc_deadline a) now, pg_nfcState := ''Session resumed'', pg_step := St_tap\<rparr>
     | _ \<Rightarrow> p)"

definition resume_by_link :: "string \<Rightarrow> 'w scan_page \<Rightarrow> 'w scan_page" where
  "resume_by_link r p = (case resume_decode (Some r) of
     None \<Rightarrow> p\<lparr>pg_error := Some ''This resume link is invalid. Start a new scan.''\<rparr>
   | Some ref \<Rightarrow> with_flight (F_resume ref) (p\<lparr>pg_busy := Some ''resume''\<rparr>))"

definition resume_answer :: "scan_config \<Rightarrow> js_error + verify_result \<Rightarrow> 'w scan_page \<Rightarrow> 'w scan_page" where
  "resume_answer cf r p = (case r of
     Inl e \<Rightarrow> failed e p
   | Inr v \<Rightarrow>
       let signed = signedAttester (vr_bundle v) in
       p\<lparr>pg_verify := Some v, pg_resumedScan := True, pg_ownScan := False,
         pg_role := (case sg_role signed of Some x \<Rightarrow> js_floor x | None \<Rightarrow> defaultRole cf),
         pg_tierOverride := (case sg_tier signed of Some x \<Rightarrow> Some (js_floor x)
           | None \<Rightarrow> if cf_hasTier cf \<and> js_is_integer (cf_qTier cf) then Some (js_floor (cf_qTier cf)) else None),
         pg_step := signed_step v, pg_busy := None\<rparr>)"

definition adopt_link :: "string option \<Rightarrow> 'w scan_page \<Rightarrow> 'w scan_page" where
  "adopt_link k p = with_flight (F_adopt k) (p\<lparr>pg_error := None\<rparr>)"

definition hex6 :: "int \<Rightarrow> string" where
  "hex6 c = map to_upper_char (pad_start 6 (CHR ''0'') (show_hex (nat c)))"

definition adopt_answer ::
  "scan_config \<Rightarrow> rat \<Rightarrow> string option \<Rightarrow> js_error + (page_session \<times> tap_view) \<Rightarrow> 'w scan_page \<Rightarrow> 'w scan_page" where
  "adopt_answer cf now k r p = (case r of
     Inl e \<Rightarrow> p\<lparr>pg_error := Some (''Tap could not be handed over: '' @ friendly e)\<rparr>
   | Inr (s, t) \<Rightarrow>
       let ad = adoptDeadline (tv_ts t) (sessionClock (session_times.truncate s) now);
           p = adoptSession cf now s (Some ad) True p;
           verdict = effectiveVerdict (pv_verdict t) (pv_sealDead t);
           v = (preview.truncate t)\<lparr>pv_verdict := verdict\<rparr>
       in if secondsLeft (fst ad) now \<le> 0
          then p\<lparr>pg_preview := Some (v\<lparr>pv_verdict := ''TAP_TOO_OLD''\<rparr>), pg_step := St_preview,
                 pg_nfcState := (''This tap is older than 3 minutes '' @ [CHR 0xE2, CHR 0x80, CHR 0x94] @ '' please tap the seal again'')\<rparr>
          else p\<lparr>pg_tag := Some \<lparr>tp_uid = (case tv_uid t of Some u \<Rightarrow> u | None \<Rightarrow> []),
                   tp_ctr = (case pv_counter t of Some c \<Rightarrow> hex6 c | None \<Rightarrow> []), tp_cmac = [], tp_piccData = None, tp_enc = None,
                   tg_simulator = False, tg_serial = pv_serial t, tg_tapId = Some (tv_tapId t), tg_tapToken = k\<rparr>,
                 pg_preview := Some v, pg_nfcState := ''Tap handed over'', pg_step := verdict_step verdict\<rparr>)"

definition tag_of :: "tag_params \<Rightarrow> bool \<Rightarrow> string option \<Rightarrow> scan_tag" where
  "tag_of t sim serial = \<lparr>tp_uid = tp_uid t, tp_ctr = tp_ctr t, tp_cmac = tp_cmac t, tp_piccData = tp_piccData t, tp_enc = tp_enc t,
     tg_simulator = sim, tg_serial = serial, tg_tapId = None, tg_tapToken = None\<rparr>"

text \<open>\<open>pick\<close>: a tap taken from the handoff.\<close>

definition handoff_tap :: "tag_params \<Rightarrow> 'w scan_page \<Rightarrow> 'w scan_page" where
  "handoff_tap t p = onTag (tag_of t False None) (p\<lparr>pg_nfcState := ''Tap handed over from the browser''\<rparr>)"

definition simTap :: "sim_tag \<Rightarrow> 'w scan_page \<Rightarrow> 'w scan_page" where
  "simTap t p = with_flight (F_sim t) (p\<lparr>pg_busy := Some (''tap-'' @ st_uid t)\<rparr>)"

text \<open>The simulated chip's answer: None when it does not respond, else the parsed URL (None when unreadable).\<close>

definition sim_answer :: "sim_tag \<Rightarrow> js_error + tag_params option option \<Rightarrow> 'w scan_page \<Rightarrow> 'w scan_page" where
  "sim_answer t r p = (case r of
     Inl e \<Rightarrow> failed e p
   | Inr None \<Rightarrow> p\<lparr>pg_tag := Some \<lparr>tp_uid = st_uid t, tp_ctr = [], tp_cmac = [], tp_piccData = None, tp_enc = None,
         tg_simulator = True, tg_serial = st_serial t, tg_tapId = None, tg_tapToken = None\<rparr>,
       pg_deadSerial := (case st_serial t of Some s \<Rightarrow> s | None \<Rightarrow> []), pg_step := St_dead, pg_busy := None\<rparr>
   | Inr (Some None) \<Rightarrow> failed (OtherErr ''Error'' ''Simulator URL unreadable'') p
   | Inr (Some (Some u)) \<Rightarrow> onTag (tag_of u True (st_serial t)) p)"

text \<open>\<open>startNfc\<close>: no reader in this browser, a refused scan, or the reader is on.\<close>

definition startNfc :: "bool \<Rightarrow> js_error + unit \<Rightarrow> 'w scan_page \<Rightarrow> 'w scan_page" where
  "startNfc supported r p =
    (if \<not> supported then p\<lparr>pg_nfcState := ''WebNFC only in Android Chrome. iPhone: tapping the seal opens /t.''\<rparr>
     else case r of
       Inl e \<Rightarrow> p\<lparr>pg_nfcState := ''NFC: '' @ friendly e\<rparr>
     | Inr _ \<Rightarrow> p\<lparr>pg_nfcOn := True, pg_nfcState := (''Ready '' @ [CHR 0xE2, CHR 0x80, CHR 0x94] @ '' hold the seal to the phone '' @ [CHR 0xE2, CHR 0x80, CHR 0xA6])\<rparr>)"

text \<open>\<open>onreading\<close>: the first candidate text that is a sticker link, or the records seen.\<close>

definition nfc_reading :: "tag_params option \<Rightarrow> string list \<Rightarrow> 'w scan_page \<Rightarrow> 'w scan_page" where
  "nfc_reading parsed seen p = (case parsed of
     Some t \<Rightarrow> (onTag (tag_of t False None) p)\<lparr>pg_nfcOn := False,
       pg_nfcState := (if tp_piccData t \<noteq> None \<and> tp_piccData t \<noteq> Some [] then ''Read: encrypted tap''
         else (''Read: '' @ [CHR 0xE2, CHR 0x80, CHR 0xA6]) @ drop (length (tp_uid t) - 4) (tp_uid t) @ ('' '' @ [CHR 0xC2, CHR 0xB7] @ '' counter '') @ show_nat (read_base 16 (tp_ctr t)))\<rparr>
   | None \<Rightarrow> p\<lparr>pg_nfcOn := False,
       pg_nfcState := ''Chrome could not read the chip ('' @ (if seen = [] then ''empty'' else join_with '' | '' seen) @
         (''). NFC reader stopped '' @ [CHR 0xE2, CHR 0x80, CHR 0x94] @ '' now simply hold the seal to the phone: Android opens the link, '' @ [CHR 0xE2, CHR 0x80, CHR 0x9C] @ ''Tap handed over'' @ [CHR 0xE2, CHR 0x80, CHR 0x9D] @ '', then return to this tab.'')\<rparr>)"

definition seal_not_responding :: "'w scan_page \<Rightarrow> 'w scan_page" where
  "seal_not_responding p = p\<lparr>pg_nfcOn := False, pg_tag := None, pg_preview := None, pg_step := St_dead\<rparr>"

section \<open>Photo and reading\<close>

definition runCapture :: "'w scan_page \<Rightarrow> 'w scan_page" where
  "runCapture p = (if pg_capturing p then p
     else with_flight (F_capture (map_option ps_nonce (pg_session p)))
       (p\<lparr>pg_capturing := True, pg_busy := Some ''capture'', pg_error := None\<rparr>))"

text \<open>
  The frames grabbed (how many) with the hash of their JPEGs, or why there are none. Without a session
  \<open>processFrames\<close> returns at once.
\<close>

definition capture_answer :: "string option \<Rightarrow> js_error + photo_set \<Rightarrow> 'w scan_page \<Rightarrow> 'w scan_page" where
  "capture_answer nonce r p = (case r of
     Inl e \<Rightarrow> (failed e p)\<lparr>pg_capturing := False\<rparr>
   | Inr f \<Rightarrow>
       if nonce = None then p\<lparr>pg_capturing := False, pg_busy := None\<rparr>
       else with_flight (F_reading (fo_count f))
         (p\<lparr>pg_frames := Some f, pg_reading := None, pg_step := St_read, pg_busy := Some ''read''\<rparr>))"

definition reading_answer :: "nat \<Rightarrow> js_error + 'w card_reading list \<Rightarrow> 'w scan_page \<Rightarrow> 'w scan_page" where
  "reading_answer n r p = (case r of
     Inl e \<Rightarrow> (failed e p)\<lparr>pg_capturing := False\<rparr>
   | Inr readings \<Rightarrow> p\<lparr>pg_reading := Some (combineReadings readings n), pg_capturing := False, pg_busy := None\<rparr>)"

definition skipCamera :: "'w scan_page \<Rightarrow> 'w scan_page" where
  "skipCamera p = p\<lparr>pg_frames := None, pg_reading := None, pg_step := St_read\<rparr>"

section \<open>Signature\<close>

definition reading_input :: "'w card_reading option \<Rightarrow> card_input option" where
  "reading_input r = (case r of None \<Rightarrow> None
     | Some c \<Rightarrow> if cr_found c then Some \<lparr>ci_heat = cr_heat c, ci_humidity = cr_humidity c, ci_uv = cr_uv c,
         ci_heatLevels = cr_heatLevels c\<rparr> else None)"

definition page_input :: "scan_config \<Rightarrow> scan_tag \<Rightarrow> page_session \<Rightarrow> 'w scan_page \<Rightarrow> verify_input" where
  "page_input cf t s p =
    \<lparr>vi_tag = tag_params.truncate t, vi_simulator = tg_simulator t, vi_tapId = tg_tapId t, vi_tapToken = tg_tapToken t,
     vi_nonce = ps_nonce s, vi_role = pg_role p, vi_tier = page_tier cf p, vi_reading = reading_input (pg_reading p),
     vi_fill = pg_fill p, vi_mediaHash = None, vi_serial = Option.bind (pg_preview p) pv_serial,
     vi_country = Some (pg_country p), vi_city = Some (pg_city p), vi_attester = map_option (cf_base58 cf) (pg_wallet p),
     vi_platform = cf_platform cf\<rparr>"

definition requestSignature :: "scan_config \<Rightarrow> 'w scan_page \<Rightarrow> 'w scan_page" where
  "requestSignature cf p = (case (pg_tag p, pg_session p) of
     (Some t, Some s) \<Rightarrow>
       (case page_gate cf p of
          Some g \<Rightarrow> p\<lparr>pg_error := Some (wg_text g)\<rparr>
        | None \<Rightarrow> with_flight (F_verify \<lparr>vc_input = page_input cf t s p, vc_frames = pg_frames p, vc_cached = pg_uploaded p\<rparr>)
            (p\<lparr>pg_busy := Some ''verify'', pg_error := None\<rparr>))
   | _ \<Rightarrow> p)"

definition verify_failed :: "scan_config \<Rightarrow> js_error \<Rightarrow> 'w scan_page \<Rightarrow> 'w scan_page" where
  "verify_failed cf e p = (failed e p)\<lparr>pg_errorLink :=
     (case uncertifiedScanLink e (is_certified cf) of
        Some href \<Rightarrow> Some (friendly e, href, ''Scan without certification'') | None \<Rightarrow> None)\<rparr>"

text \<open>The upload, when there are photos; then the post of the request and what the verifier answers to it.\<close>

definition verify_answer ::
  "scan_config \<Rightarrow> verify_call \<Rightarrow> js_error + string \<Rightarrow> (verify_input \<Rightarrow> js_error + verify_result) \<Rightarrow> 'w scan_page \<Rightarrow> 'w scan_page" where
  "verify_answer cf c upload answer p =
    (let up = (case vc_frames c of None \<Rightarrow> Inr None
         | Some f \<Rightarrow> map_sum id Some (uploadMediaOnce (vc_cached c) (vi_nonce (vc_input c)) (fo_mediaHash f) upload))
     in case up of
       Inl e \<Rightarrow> verify_failed cf e p
     | Inr m \<Rightarrow>
         let input = (vc_input c)\<lparr>vi_mediaHash := map_option um_sha256 m\<rparr>;
             p = p\<lparr>pg_uploaded := (case m of Some x \<Rightarrow> Some x | None \<Rightarrow> pg_uploaded p),
                   pg_posts := pg_posts p @ [Posted_verify input]\<rparr>
         in case answer input of
           Inl e \<Rightarrow> verify_failed cf e p
         | Inr v \<Rightarrow> p\<lparr>pg_verify := Some v, pg_step := signed_step v, pg_busy := None\<rparr>)"

section \<open>Anchoring\<close>

definition sendTx :: "scan_config \<Rightarrow> 'w scan_page \<Rightarrow> 'w scan_page" where
  "sendTx cf p = (case (pg_verify p, pg_wallet p) of
     (Some v, Some me) \<Rightarrow>
       let c = \<lparr>sn_verify = v, sn_wallet = me, sn_txSig = pg_txSig p, sn_resumed = pg_resumedScan p, sn_ownScan = pg_ownScan p,
                sn_tier = txTier cf p, sn_role = txRole p\<rparr>
       in with_flight (F_send c) (p\<lparr>pg_error := None, pg_busy := Some ''tx'', pg_posts := pg_posts p @ [Pressed_send c]\<rparr>)
   | _ \<Rightarrow> p)"

text \<open>The RPC, the wallet and the verifier in \<open>env\<close>; what the page passes itself comes from the closure.\<close>

definition send_deps :: "pubkey \<Rightarrow> send_call \<Rightarrow> 'tx anchor_deps \<Rightarrow> 'tx anchor_deps" where
  "send_deps pid c env = env\<lparr>ad_bundle := vr_bundle (sn_verify c), ad_wallet := sn_wallet c, ad_programId := pid,
     ad_landedSig := sn_txSig c, ad_resumed := sn_resumed c, ad_ownScanConfirmed := sn_ownScan c\<rparr>"

definition PROGRAM_UNSET :: js_error where
  "PROGRAM_UNSET = OtherErr ''Error'' ''NEXT_PUBLIC_PROGRAM_ID not set''"

definition send_answer :: "scan_config \<Rightarrow> send_call \<Rightarrow> 'tx anchor_deps \<Rightarrow> 'w scan_page \<Rightarrow> 'w scan_page" where
  "send_answer cf c env p = (case cf_programId cf of
     None \<Rightarrow> failed PROGRAM_UNSET p
   | Some pid \<Rightarrow>
       (case fst (anchorScan (cf_base58 cf) (send_deps pid c env)) of
          Anchored s \<Rightarrow> p\<lparr>pg_txSig := Some s, pg_step := St_done, pg_busy := None\<rparr>
        | Not_anchored e l \<Rightarrow> p\<lparr>pg_txSig := l, pg_busy := None,
            pg_error := Some (case th_error e of
              OtherErr n m \<Rightarrow> if n = ''AnchorRefused'' then m else friendly (th_error e)
            | _ \<Rightarrow> friendly (th_error e))\<rparr>))"

definition airdrop :: "'w scan_page \<Rightarrow> 'w scan_page" where
  "airdrop p = (case pg_wallet p of None \<Rightarrow> p | Some _ \<Rightarrow> with_flight F_airdrop (p\<lparr>pg_busy := Some ''airdrop''\<rparr>))"

definition airdrop_answer :: "js_error + unit \<Rightarrow> 'w scan_page \<Rightarrow> 'w scan_page" where
  "airdrop_answer r p = (case r of
     Inl e \<Rightarrow> p\<lparr>pg_error := Some (''Airdrop: '' @ friendly e), pg_busy := None\<rparr>
   | Inr _ \<Rightarrow> p\<lparr>pg_busy := None\<rparr>)"

section \<open>A seal that does not respond\<close>

definition report_serial :: "'w scan_page \<Rightarrow> string" where
  "report_serial p = js_trim (case Option.bind (pg_preview p) pv_serial of Some s \<Rightarrow> s
     | None \<Rightarrow> (case Option.bind (pg_tag p) tg_serial of Some s \<Rightarrow> s | None \<Rightarrow> pg_deadSerial p))"

text \<open>The session whose nonce the report may still use.\<close>

definition report_session :: "rat \<Rightarrow> 'w scan_page \<Rightarrow> page_session option" where
  "report_session now p = (case (pg_session p, pg_clock p) of
     (Some s, Some c) \<Rightarrow> if Some (ps_nonce s) = pg_deadNonceSpent p \<or> secondsLeft (pk_deadline c) now \<le> 2 then None else Some s
   | _ \<Rightarrow> None)"

definition reportDead :: "scan_config \<Rightarrow> rat \<Rightarrow> 'w scan_page \<Rightarrow> 'w scan_page" where
  "reportDead cf now p =
    (let serial = report_serial p in
     if serial = [] then p\<lparr>pg_error := Some (friendly (OtherErr ''Error'' ''Enter the passport serial number'')), pg_busy := None\<rparr>
     else with_flight (F_report \<lparr>rp_serial = serial, rp_session = report_session now p,
            rp_actor = map_option (cf_base58 cf) (pg_wallet p), rp_uidHash = Option.bind (pg_preview p) pv_uidHash,
            rp_source = (case pg_tag p of Some t \<Rightarrow> if tg_simulator t then ''simulator'' else ''nfc'' | None \<Rightarrow> ''manual'')\<rparr>)
       (p\<lparr>pg_busy := Some ''dead'', pg_error := None\<rparr>))"

text \<open>A new session when one is needed, then the post; \<open>post\<close> is the verifier's answer to it.\<close>

definition report_post :: "report_call \<Rightarrow> page_session \<Rightarrow> js_error + unit \<Rightarrow> 'w scan_page \<Rightarrow> 'w scan_page" where
  "report_post c s post p =
    (let p = p\<lparr>pg_deadNonceSpent := Some (ps_nonce s)\<rparr> in
     case post of
       Inl e \<Rightarrow> failed e p
     | Inr _ \<Rightarrow> p\<lparr>pg_posts := pg_posts p @ [Posted_report (rp_serial c) (ps_nonce s)],
                  pg_deadSerial := rp_serial c, pg_step := St_done, pg_busy := None\<rparr>)"

definition report_answer ::
  "scan_config \<Rightarrow> rat \<Rightarrow> report_call \<Rightarrow> js_error + page_session \<Rightarrow> js_error + unit \<Rightarrow> 'w scan_page \<Rightarrow> 'w scan_page" where
  "report_answer cf now c session post p = (case rp_session c of
     Some s \<Rightarrow> report_post c s post p
   | None \<Rightarrow> (case session of
       Inl e \<Rightarrow> failed e p
     | Inr s \<Rightarrow> report_post c s post (adoptSession cf now s None False p)))"

section \<open>Effects that follow a change of step\<close>

text \<open>
  The session is withdrawn from the other tabs once the timed part is over, the NFC reader is released when the
  tap step is left, and the camera stops with its step.
\<close>

definition settle :: "'w scan_page \<Rightarrow> 'w scan_page" where
  "settle p = p\<lparr>pg_shared := (if \<not> timedStep (pg_step p) \<or> expired p then None else pg_shared p),
     pg_nfcOn := (pg_nfcOn p \<and> pg_step p = St_tap \<and> \<not> expired p),
     pg_camReady := (pg_camReady p \<and> cameraOn (pg_step p) (expired p))\<rparr>"

definition tick :: "rat \<Rightarrow> 'w scan_page \<Rightarrow> 'w scan_page" where
  "tick now p = (case pg_clock p of
     Some c \<Rightarrow> if timedStep (pg_step p) then p\<lparr>pg_left := secondsLeft (pk_deadline c) now\<rparr> else p
   | None \<Rightarrow> p)"

end
