(* ===== verification/Scan_Flow.thy ===== *)
theory Scan_Flow
  imports Scan_Page
begin

text \<open>
  What the scan page shows (the JSX of \<open>scan-flow.tsx\<close> as a list of texts, links and buttons, layout left out)
  and what can happen to it: a button it offers is pressed, an answer arrives, a tap is handed over, time passes.
  A press is possible exactly when the page shows the button enabled.
\<close>

section \<open>The view\<close>

datatype page_action =
    Do_start | Do_nfc | Do_not_responding | Do_sim sim_tag | Do_camera | Do_skip | Do_capture | Do_synth bool
  | Do_sign | Do_send | Do_airdrop | Do_report | Do_own_scan

datatype ui =
    Heading int string string
  | Say string
  | Follow string string
  | Press page_action string bool
  | Wallet_button

definition shown_if :: "bool \<Rightarrow> ui list \<Rightarrow> ui list" where
  "shown_if b xs = (if b then xs else [])"

definition countdown_view :: "'w scan_page \<Rightarrow> ui list" where
  "countdown_view p = (case pg_session p of
     Some s \<Rightarrow> shown_if (timedStep (pg_step p)) [Say (''Session '' @ nonceCode (ps_nonce s)),
       Say (if expired p then ''expired'' else show_int (pg_left p) @ '' s'')]
   | None \<Rightarrow> [])"

definition by_tap :: "'w scan_page \<Rightarrow> bool" where
  "by_tap p \<longleftrightarrow> (case pg_clock p of Some c \<Rightarrow> pk_limitedBy c = By_tap | None \<Rightarrow> False)"

definition expired_view :: "'w scan_page \<Rightarrow> ui list" where
  "expired_view p = shown_if (expired p)
     [Say (if by_tap p then ''Tap too old'' else ''Session expired''),
      Say (if by_tap p then ''The server accepts a tap from the seal page for 3 minutes. Please restart and tap the seal again.''
           else ''Tap, photo and signature must happen within 90 seconds. Please restart.''),
      Press Do_start ''Restart'' True]"

definition error_view :: "'w scan_page \<Rightarrow> ui list" where
  "error_view p = (case pg_error p of
     Some e \<Rightarrow> shown_if (e \<noteq> []) (Say e # (case pg_errorLink p of
         Some (text, href, label) \<Rightarrow> shown_if (text = e) [Follow href label] | None \<Rightarrow> []))
   | None \<Rightarrow> [])"

definition PRE_SIGNATURE :: "scan_step list" where
  "PRE_SIGNATURE = [St_session, St_tap, St_preview, St_camera, St_read]"

definition gate_view :: "scan_config \<Rightarrow> 'w scan_page \<Rightarrow> ui list" where
  "gate_view cf p = (case page_gate cf p of
     Some g \<Rightarrow> shown_if (\<not> expired p \<and> pg_busy p \<noteq> Some ''resume'' \<and> pg_step p \<in> set PRE_SIGNATURE)
       ([Say (wg_title g), Say (wg_text g)] @ shown_if (wg_canConnect g \<and> pg_step p \<noteq> St_session) [Wallet_button])
   | None \<Rightarrow> [])"

definition session_view :: "scan_config \<Rightarrow> 'w scan_page \<Rightarrow> ui list" where
  "session_view cf p = shown_if (pg_step p = St_session)
     (Heading 1 ''Witness a scan'' ''Tap, photo of the card, server signature, transaction. All in one 90-second session; the session code is overlaid on the photo.'' #
      (if pg_busy p = Some ''resume'' then [Say (''Loading the signed scan '' @ [CHR 0xE2, CHR 0x80, CHR 0xA6])]
       else [Press Do_start ''Start session'' (page_gate cf p = None)] @
         shown_if (case page_gate cf p of Some g \<Rightarrow> wg_canConnect g | None \<Rightarrow> True) [Wallet_button]) @
      shown_if (cf_programId cf = None) [Say (''Note: no program ID set '' @ [CHR 0xE2, CHR 0x80, CHR 0x94] @ '' the anchor step is disabled.'')])"

definition sim_row :: "'w scan_page \<Rightarrow> sim_tag \<Rightarrow> ui list" where
  "sim_row p t = [Say (st_uid t), Say ((case st_serial t of Some s \<Rightarrow> s | None \<Rightarrow> ''not registered'') @ ('' '' @ [CHR 0xC2, CHR 0xB7] @ '' counter '') @ show_int (st_counter t)),
     Press (Do_sim t) ''Tap'' (pg_busy p = None)]"

definition tap_step_view :: "scan_config \<Rightarrow> sim_tag list \<Rightarrow> 'w scan_page \<Rightarrow> ui list" where
  "tap_step_view cf tags p = shown_if (pg_step p = St_tap \<and> \<not> expired p)
     ([Heading 2 ''Tap the seal'' ''The chip returns a URL with UID, counter and checksum. Only the server can verify the checksum.'',
       Say ''WebNFC (Android Chrome)'', Press Do_nfc ''Start NFC reading'' True, Press Do_not_responding ''Seal not responding'' True,
       Say (if pg_nfcState p \<noteq> [] then pg_nfcState p else
         (''Session running '' @ [CHR 0xE2, CHR 0x80, CHR 0x94] @ '' simply hold the seal to the phone. The phone opens the seal link and the tap is handed over here; then return to this tab.''))] @
      shown_if (cf_demo cf \<and> cf_serverSim cf) (Say ''Inject a virtual tap'' # concat (map (sim_row p) tags) @
        shown_if (tags = []) [Say (''No virtual tags '' @ [CHR 0xE2, CHR 0x80, CHR 0x94] @ '' create them in the simulator.'')]))"

definition page_verdict :: "preview \<Rightarrow> string \<times> tone \<times> string" where
  "page_verdict v = (if pv_verdict v = ''TAP_TOO_OLD''
     then (''Tap too old'', Tone_warn, ''The seal was tapped more than 3 minutes ago. Tap it again to start the check.'')
     else verdictText (pv_verdict v) (pv_counter v))"

definition preview_view :: "scan_config \<Rightarrow> 'w scan_page \<Rightarrow> ui list" where
  "preview_view cf p = (case pg_preview p of
     Some v \<Rightarrow> shown_if (pg_step p = St_preview \<and> \<not> expired p)
       ([Heading 3 ''Seal checked'' [], Say (fst (page_verdict v)), Say (snd (snd (page_verdict v)))] @
        (case set_text (pv_serial v) of Some s \<Rightarrow> [Say (''Passport '' @ s @ ('' '' @ [CHR 0xC2, CHR 0xB7] @ '' '') @ (if pv_sealKind v = Some 0 then ''Box seal'' else ''Neck seal''))]
         | None \<Rightarrow> []) @
        shown_if (pv_verdict v = ''VALID'') [Press Do_camera ''Continue to camera'' True] @
        shown_if (pv_verdict v = ''VALID'' \<and> \<not> is_certified cf) [Press Do_skip ''Without photo (tier 1)'' True] @
        shown_if (pv_verdict v \<noteq> ''VALID'') [Press Do_start ''Restart'' True])
   | None \<Rightarrow> [])"

definition camera_view :: "scan_config \<Rightarrow> 'w scan_page \<Rightarrow> ui list" where
  "camera_view cf p = shown_if (pg_step p = St_camera \<and> \<not> expired p)
     ([Heading 4 ''Photograph the card'' ''Place the card in its holder fully inside the frame. Five frames; the session code is overlaid. Keep faces and personal items out of the picture: the photos become part of the public scan record.'',
       Say (case pg_session p of Some s \<Rightarrow> nonceCode (ps_nonce s) | None \<Rightarrow> []),
       Press Do_capture ''Capture 5 frames'' (pg_busy p = None \<and> pg_camReady p)] @
      shown_if (\<not> is_certified cf) [Press Do_skip ''Without photo (tier 1)'' True] @
      shown_if (cf_demo cf) [Press (Do_synth False) ''Test image: intact'' (pg_busy p = None),
        Press (Do_synth True) (''Test image: 40 '' @ [CHR 0xC2, CHR 0xB0] @ ''C triggered'') (pg_busy p = None)] @
      shown_if (\<not> pg_camReady p) [Say (''Waiting for the camera '' @ [CHR 0xE2, CHR 0x80, CHR 0xA6])])"

definition indicator_pill :: "indicator_kind \<Rightarrow> int \<Rightarrow> string" where
  "indicator_pill k c = (case indicatorText k c of (label, detail, tone) \<Rightarrow> label @ '': '' @ detail)"

definition undecided_reading :: "'w card_reading \<Rightarrow> bool" where
  "undecided_reading r \<longleftrightarrow> cr_heat r = UNREADABLE \<or> cr_humidity r = UNREADABLE"

definition reading_view :: "'w card_reading \<Rightarrow> ui list" where
  "reading_view r =
    (if \<not> cr_found r
     then [Say ''Card not recognized'', Say ((case cr_reason r of Some t \<Rightarrow> t | None \<Rightarrow> ''undefined'') @
       ''. Photograph again or continue without a reading (indicators MISSING).'')]
     else [Say (indicator_pill Heat (cr_heat r)), Say (indicator_pill Humidity (cr_humidity r)),
       Say (if cr_uv r = MISSING then ''Light: not fitted'' else indicator_pill Uv (cr_uv r))] @
       shown_if (undecided_reading r) [Say ''Inspection recommended'',
         Say (rev (strip_dots_rev (rev (case cr_reason r of Some t \<Rightarrow> t | None \<Rightarrow> ''The card could not be read reliably''))) @
           (case cr_votes r of Some v \<Rightarrow> ('' '' @ [CHR 0xC2, CHR 0xB7] @ '' heat agreed in '') @ show_nat (vt_heat v) @ '' of '' @ show_nat (vt_frames v) @ '' frames'' | None \<Rightarrow> []) @
           ''. Photograph again for a full reading.'')])"

definition escrow_warning :: "'w scan_page \<Rightarrow> string option" where
  "escrow_warning p = (if pg_step p = St_read
     then escrowScanWarning (pg_role p) (map_option (\<lambda>r. (cr_found r, cr_heat r, cr_humidity r)) (pg_reading p)) else None)"

definition read_view :: "scan_config \<Rightarrow> 'w scan_page \<Rightarrow> ui list" where
  "read_view cf p = shown_if (pg_step p = St_read \<and> \<not> expired p)
     (Heading 5 ''Indicators'' (if pg_frames p \<noteq> None
        then (''Read from the frames: card outline '' @ [CHR 0xE2, CHR 0x86, CHR 0x92] @ '' rectification '' @ [CHR 0xE2, CHR 0x86, CHR 0x92] @ '' white balance '' @ [CHR 0xE2, CHR 0x86, CHR 0x92] @ '' colour distance; each indicator needs 3 of 5 frames to agree.'')
        else ''Without photo: indicators count as not read (MISSING), tier 1.'') #
      shown_if (pg_busy p = Some ''read'') [Say (''Reading the card '' @ [CHR 0xE2, CHR 0x80, CHR 0xA6])] @
      (case pg_reading p of Some r \<Rightarrow> reading_view r | None \<Rightarrow> []) @
      (case escrow_warning p of Some w \<Rightarrow> shown_if (pg_busy p \<noteq> Some ''read'') [Say w] | None \<Rightarrow> []) @
      [Say (''Fill level '' @ show_int (pg_fill p) @ '' %'')] @
      shown_if (is_certified cf) [Say (''Tier '' @ show_int (js_floor (cf_qTier cf)) @ ('' '' @ [CHR 0xC2, CHR 0xB7] @ '' Site '') @ show_int (siteId cf))] @
      [Press Do_sign ''Get signature'' (pg_busy p = None \<and> page_gate cf p = None)] @
      shown_if (pg_frames p \<noteq> None) [Press Do_camera ''Photograph again'' (pg_busy p = None)])"

definition verify_view :: "'w scan_page \<Rightarrow> ui list" where
  "verify_view p = (case pg_verify p of
     Some v \<Rightarrow> shown_if (pg_step p = St_verify)
       [Heading 6 (fst (verdictText (vr_verdict v) (vr_counter v))) (snd (snd (verdictText (vr_verdict v) (vr_counter v)))),
        Press Do_start ''Restart'' True]
   | None \<Rightarrow> [])"

definition resume_links :: "scan_config \<Rightarrow> 'w scan_page \<Rightarrow> browse_links option" where
  "resume_links cf p = (case pg_verify p of None \<Rightarrow> None
     | Some v \<Rightarrow> (case (vr_eventId v, set_text (vr_resumeToken v)) of
         (Some i, Some t) \<Rightarrow> if i = 0 then None else Some (walletBrowseLinks (cf_origin cf)
           (resumeUrl (cf_origin cf) \<lparr>rr_eventId = i, rr_token = t, rl_tier = txTier cf p, rl_role = txRole p, rl_siteId = siteId cf\<rparr>))
       | _ \<Rightarrow> None))"

definition ios_view :: "scan_config \<Rightarrow> 'w scan_page \<Rightarrow> ui list" where
  "ios_view cf p = shown_if (pg_wallet p = None \<and> cf_ios cf \<and> \<not> pg_injected p)
     ([Say ''Sign with your wallet app'',
       Say (iosSignHint (cf_walletConnect cf) (resume_links cf p \<noteq> None) (sg_pubkey (signedAttester (verify_bundle p))))] @
      (case resume_links cf p of Some l \<Rightarrow> [Follow (bl_phantom l) ''Continue in Phantom'', Follow (bl_solflare l) ''Continue in Solflare'']
       | None \<Rightarrow> []))"

definition wrong_wallet_view :: "scan_config \<Rightarrow> 'w scan_page \<Rightarrow> ui list" where
  "wrong_wallet_view cf p = (case (sg_pubkey (signedAttester (verify_bundle p)), pg_wallet p) of
     (Some k, Some w) \<Rightarrow> shown_if (k \<noteq> cf_base58 cf w) [Say (''Signed for wallet '' @ short 4 (Some k) @
        ('' '' @ [CHR 0xE2, CHR 0x80, CHR 0x94] @ '' switch to that wallet in the header to anchor this scan.''))]
   | _ \<Rightarrow> [])"

text \<open>What the signed message says is being anchored; its numbers are whole bytes and a 32-bit counter. The passport's name, fetched
  for display, is left out.\<close>

definition summary_view :: "scan_config \<Rightarrow> verify_result \<Rightarrow> ui list" where
  "summary_view cf v = (case signedScanSummary (cf_sha256 cf) (vr_msgHex v) (vr_serial v) (vr_bundle v) of
     None \<Rightarrow> []
   | Some m \<Rightarrow> [Say ''You are anchoring this scan'', Say (''Passport '' @ (case sm_serial m of Some s \<Rightarrow> s | None \<Rightarrow> ''unknown'')),
       Say (''Seal tap counter '' @ show_int (js_floor (sm_counter m))), Say (indicator_pill Heat (js_floor (sm_heat m))),
       Say (indicator_pill Humidity (js_floor (sm_humidity m))), Say (indicator_pill Uv (js_floor (sm_uv m))), Say (''Fill level '' @ show_int (js_floor (sm_fill m)) @ '' %''),
       Say (''Photos '' @ (if sm_photos m then ''card photos attached'' else ''none''))] @
       (case set_text (sm_place m) of Some t \<Rightarrow> [Say (''Place '' @ t)] | None \<Rightarrow> []))"

definition tx_view :: "scan_config \<Rightarrow> 'w scan_page \<Rightarrow> ui list" where
  "tx_view cf p = (case pg_verify p of
     Some v \<Rightarrow> shown_if (pg_step p = St_tx)
       ([Heading 6 (''Server signed '' @ [CHR 0xE2, CHR 0x80, CHR 0x94] @ '' now anchor it'') (''Server verdict '' @ vr_verdict v @ ('' '' @ [CHR 0xC2, CHR 0xB7] @ '' counter '') @ count_or_question (vr_counter v) @
           ('' '' @ [CHR 0xC2, CHR 0xB7] @ '' Grade '') @ gradeLetter (vr_grade v) @ '' preliminary. The transaction contains the Ed25519 check of the server signature and record_scan.'')] @
        summary_view cf v @
        shown_if (ownScanNeeded p) [Say ''Anchor only a scan you made yourself'', Press Do_own_scan ''This is my own scan of this bottle.'' True] @
        ios_view cf p @ wrong_wallet_view cf p @
        (if pg_wallet p = None then [Wallet_button]
         else [Press Do_send (if set_text (pg_txSig p) \<noteq> None then ''Retry confirmation with the server'' else ''Sign and send with wallet'')
             (pg_busy p = None \<and> cf_programId cf \<noteq> None \<and> \<not> (ownScanNeeded p \<and> \<not> pg_ownScan p))] @
           (case set_text (pg_txSig p) of Some s \<Rightarrow> [Follow (txUrl s) (''Transaction landed '' @ [CHR 0xC2, CHR 0xB7] @ '' explorer'')] | None \<Rightarrow> []) @
           shown_if (cf_demo cf) [Press Do_airdrop ''1 SOL airdrop (test)'' (pg_busy p = None)]))
   | None \<Rightarrow> [])"

definition DEAD_REPORT_TITLE :: string where
  "DEAD_REPORT_TITLE = (''Seal not responding '' @ [CHR 0xE2, CHR 0x80, CHR 0x94] @ '' report recorded'')"

definition done_view :: "'w scan_page \<Rightarrow> ui list" where
  "done_view p = shown_if (pg_step p = St_done)
     (Heading 7 (if set_text (pg_txSig p) \<noteq> None then ''Scan anchored'' else DEAD_REPORT_TITLE) [] #
      (case (set_text (pg_txSig p), pg_verify p) of
         (Some s, Some v) \<Rightarrow> [Say (''Grade '' @ gradeLetter (vr_grade v) @ ('' '' @ [CHR 0xC2, CHR 0xB7] @ '' counter '') @ count_or_question (vr_counter v))] @
           (case gradeSentence (case vr_grade v of Some g \<Rightarrow> g | None \<Rightarrow> 0) of Some t \<Rightarrow> [Say t] | None \<Rightarrow> []) @
           [Follow (txUrl s) ''Transaction in explorer'']
       | (Some s, None) \<Rightarrow> []
       | (None, _) \<Rightarrow> [Say ''Your SEAL_DEAD report is recorded as unverified. A partner checks the seal and confirms it on chain; the report alone does not change the passport.'']) @
      (case pg_reading p of Some r \<Rightarrow> shown_if (cr_found r) [Say (indicator_pill Heat (cr_heat r)), Say (indicator_pill Humidity (cr_humidity r))]
       | None \<Rightarrow> []) @
      (let serial = (case Option.bind (pg_verify p) vr_serial of Some s \<Rightarrow> s | None \<Rightarrow> pg_deadSerial p)
       in shown_if (serial \<noteq> []) [Follow (passportHref serial) ''View passport'']) @
      [Press Do_start ''New scan'' True])"

definition dead_view :: "'w scan_page \<Rightarrow> ui list" where
  "dead_view p =
    (let known = (Option.bind (pg_preview p) pv_sealDead = Some True) in
     shown_if (pg_step p = St_dead)
       ((if known then Heading 3 ''Seal recorded as not responding'' ''This seal is already marked as not responding on chain, so the passport is void. There is nothing more to report.''
         else Heading 3 ''No seal found'' ''Seal separated, removed or out of range. Your report is recorded as unverified; a partner checks the seal and confirms it on chain.'') #
        Say ''Seal not responding'' #
        (case set_text (Option.bind (pg_preview p) pv_serial) of Some s \<Rightarrow> [Follow (passportHref s) s] | None \<Rightarrow> []) @
        shown_if (\<not> known) [Press Do_report ''Report (SEAL_DEAD)'' (pg_busy p = None)] @
        [Press Do_start (if known then ''New scan'' else ''Cancel'') True]))"

definition step_number :: "scan_step \<Rightarrow> int" where
  "step_number s = (case s of St_session \<Rightarrow> 1 | St_tap \<Rightarrow> 2 | St_preview \<Rightarrow> 3 | St_camera \<Rightarrow> 4 | St_read \<Rightarrow> 5
     | St_verify \<Rightarrow> 6 | St_tx \<Rightarrow> 6 | St_done \<Rightarrow> 7 | St_dead \<Rightarrow> 3)"

definition page_view :: "scan_config \<Rightarrow> sim_tag list \<Rightarrow> 'w scan_page \<Rightarrow> ui list" where
  "page_view cf tags p = countdown_view p @ expired_view p @ error_view p @ gate_view cf p @ session_view cf p @
     tap_step_view cf tags p @ preview_view cf p @ camera_view cf p @ read_view cf p @ verify_view p @ tx_view cf p @
     done_view p @ dead_view p @
     [Say (''Step '' @ show_int (step_number (pg_step p)) @ ('' '' @ [CHR 0xC2, CHR 0xB7] @ '' Tier '') @
       show_int (if pg_step p = St_tx \<or> pg_step p = St_done then txTier cf p else page_tier cf p) @ ('' '' @ [CHR 0xC2, CHR 0xB7] @ '' Wallet '') @
       (case pg_wallet p of Some k \<Rightarrow> take 4 (cf_base58 cf k) @ [CHR 0xE2, CHR 0x80, CHR 0xA6] | None \<Rightarrow> ''not connected''))]"

definition offered :: "scan_config \<Rightarrow> sim_tag list \<Rightarrow> 'w scan_page \<Rightarrow> page_action \<Rightarrow> bool" where
  "offered cf tags p a \<longleftrightarrow> list_ex (\<lambda>u. case u of Press b l e \<Rightarrow> b = a \<and> e | _ \<Rightarrow> False) (page_view cf tags p)"

section \<open>Steps\<close>

text \<open>The effects of the first render: the running session, a resume link, an adopted tap.\<close>

definition mount :: "scan_config \<Rightarrow> rat \<Rightarrow> string option \<Rightarrow> 'w scan_page \<Rightarrow> 'w scan_page" where
  "mount cf now owner p =
    (let p = take_up_session cf now owner p;
         p = (case set_text (cf_resume cf) of Some r \<Rightarrow> resume_by_link r p | None \<Rightarrow> p);
         p = (case cf_adopt cf of Some (i, k) \<Rightarrow> if i \<noteq> [] then adopt_link k p else p | None \<Rightarrow> p)
     in p\<lparr>pg_started := True\<rparr>)"

text \<open>A pressed button. \<open>supported\<close> and \<open>nfc\<close> are what WebNFC answers at once.\<close>

fun pressed :: "scan_config \<Rightarrow> rat \<Rightarrow> bool \<Rightarrow> js_error + unit \<Rightarrow> page_action \<Rightarrow> 'w scan_page \<Rightarrow> 'w scan_page" where
  "pressed cf now supported nfc Do_start p = startSession cf p"
| "pressed cf now supported nfc Do_nfc p = startNfc supported nfc p"
| "pressed cf now supported nfc Do_not_responding p = seal_not_responding p"
| "pressed cf now supported nfc (Do_sim t) p = simTap t p"
| "pressed cf now supported nfc Do_camera p = p\<lparr>pg_step := St_camera\<rparr>"
| "pressed cf now supported nfc Do_skip p = skipCamera p"
| "pressed cf now supported nfc Do_capture p = runCapture p"
| "pressed cf now supported nfc (Do_synth b) p = runCapture p"
| "pressed cf now supported nfc Do_sign p = requestSignature cf p"
| "pressed cf now supported nfc Do_send p = sendTx cf p"
| "pressed cf now supported nfc Do_airdrop p = airdrop p"
| "pressed cf now supported nfc Do_report p = reportDead cf now p"
| "pressed cf now supported nfc Do_own_scan p = p\<lparr>pg_ownScan := \<not> pg_ownScan p\<rparr>"

text \<open>The inputs of the read step and of the dead-seal step.\<close>

definition read_shown :: "'w scan_page \<Rightarrow> bool" where
  "read_shown p \<longleftrightarrow> pg_step p = St_read \<and> \<not> expired p"

definition serial_asked :: "'w scan_page \<Rightarrow> bool" where
  "serial_asked p \<longleftrightarrow> pg_step p = St_dead \<and> Option.bind (pg_preview p) pv_sealDead \<noteq> Some True \<and>
     set_text (case Option.bind (pg_preview p) pv_serial of Some s \<Rightarrow> Some s | None \<Rightarrow> Option.bind (pg_tag p) tg_serial) = None"

inductive edited :: "scan_config \<Rightarrow> 'w scan_page \<Rightarrow> 'w scan_page \<Rightarrow> bool" for cf p where
  fill: "read_shown p \<Longrightarrow> 0 \<le> n \<Longrightarrow> n \<le> 100 \<Longrightarrow> edited cf p (p\<lparr>pg_fill := n\<rparr>)"
| role: "read_shown p \<Longrightarrow> r \<in> set (roleChoices (is_certified cf)) \<Longrightarrow> edited cf p (p\<lparr>pg_role := r\<rparr>)"
| country: "read_shown p \<Longrightarrow> edited cf p (p\<lparr>pg_country := take 2 (filter is_upper (map to_upper_char s))\<rparr>)"
| city: "read_shown p \<Longrightarrow> edited cf p (p\<lparr>pg_city := utf16_take 80 s\<rparr>)"
| serial: "serial_asked p \<Longrightarrow> edited cf p (p\<lparr>pg_deadSerial := s\<rparr>)"

text \<open>An answer to a call in flight.\<close>

inductive answered :: "scan_config \<Rightarrow> flight \<Rightarrow> 'w scan_page \<Rightarrow> 'w scan_page \<Rightarrow> bool" for cf where
  session: "answered cf F_session p (session_answer cf now r p)"
| preview: "answered cf (F_preview t) p (preview_answer r p)"
| resume: "answered cf (F_resume ref) p (resume_answer cf r p)"
| adopt: "answered cf (F_adopt k) p (adopt_answer cf now k r p)"
| sim: "answered cf (F_sim t) p (sim_answer t r p)"
| capture: "answered cf (F_capture nonce) p (capture_answer nonce r p)"
| reading: "answered cf (F_reading n) p (reading_answer n r p)"
| verified: "answered cf (F_verify c) p (verify_answer cf c upload answer p)"
| sent: "answered cf (F_send c) p (send_answer cf c (env :: nat anchor_deps) p)"
| reported: "answered cf (F_report c) p (report_answer cf now c s post p)"
| dropped: "answered cf F_airdrop p (airdrop_answer r p)"

inductive page_step :: "scan_config \<Rightarrow> 'w scan_page \<Rightarrow> 'w scan_page \<Rightarrow> bool" for cf where
  mounted: "\<not> pg_started p \<Longrightarrow> page_step cf p (settle (mount cf now owner p))"
| press: "pg_started p \<Longrightarrow> offered cf tags p a \<Longrightarrow> page_step cf p (settle (pressed cf now supported nfc a p))"
| answer: "f \<in> set (pg_flights p) \<Longrightarrow> answered cf f (arrived f p) p' \<Longrightarrow> page_step cf p (settle p')"
| handed: "pg_started p \<Longrightarrow> pg_step p = St_tap \<Longrightarrow> \<not> expired p \<Longrightarrow> page_step cf p (settle (handoff_tap t p))"
| nfc: "pg_nfcOn p \<Longrightarrow> page_step cf p (settle (nfc_reading t seen p))"
| edit: "edited cf p p' \<Longrightarrow> page_step cf p p'"
| camera: "cameraOn (pg_step p) (expired p) \<Longrightarrow> page_step cf p (p\<lparr>pg_camReady := True\<rparr>)"
| camera_fails: "cameraOn (pg_step p) (expired p) \<Longrightarrow> page_step cf p (p\<lparr>pg_error := Some (''Camera: '' @ friendly e)\<rparr>)"
| wallet: "page_step cf p (p\<lparr>pg_wallet := w, pg_injected := i\<rparr>)"
| time: "page_step cf p (settle (tick now p))"

inductive page_steps :: "scan_config \<Rightarrow> 'w scan_page \<Rightarrow> 'w scan_page \<Rightarrow> bool" for cf where
  refl: "page_steps cf p p"
| next_step: "page_steps cf p p' \<Longrightarrow> page_step cf p' p'' \<Longrightarrow> page_steps cf p p''"

definition page_reach :: "scan_config \<Rightarrow> 'w scan_page \<Rightarrow> bool" where
  "page_reach cf p \<longleftrightarrow> (\<exists>stored. page_steps cf (initial_page cf stored) p)"

end
