(* ===== verification/Scan_Facts.thy ===== *)
theory Scan_Facts
  imports Scan_Flow
begin

text \<open>
  What the scan page keeps in every reachable state, whatever answers arrive in whatever order, and that it
  never gets stuck.
\<close>

section \<open>Which buttons are offered\<close>

definition presses_in :: "ui list \<Rightarrow> page_action \<Rightarrow> bool" where
  "presses_in us a \<longleftrightarrow> list_ex (\<lambda>u. case u of Press b l e \<Rightarrow> b = a \<and> e | _ \<Rightarrow> False) us"

lemma presses_in_simps [simp]:
  "presses_in [] a = False"
  "presses_in (us @ vs) a = (presses_in us a \<or> presses_in vs a)"
  "presses_in (Say s # us) a = presses_in us a"
  "presses_in (Heading n s t # us) a = presses_in us a"
  "presses_in (Follow s t # us) a = presses_in us a"
  "presses_in (Wallet_button # us) a = presses_in us a"
  "presses_in (Press b l e # us) a = (b = a \<and> e \<or> presses_in us a)"
  "presses_in (shown_if c us) a = (c \<and> presses_in us a)"
  by (auto simp: presses_in_def shown_if_def)

lemma presses_in_case [simp]:
  "presses_in (case x of None \<Rightarrow> us | Some y \<Rightarrow> f y) a = (case x of None \<Rightarrow> presses_in us a | Some y \<Rightarrow> presses_in (f y) a)"
  "presses_in (if b then us else vs) a = (if b then presses_in us a else presses_in vs a)"
  by (simp_all split: option.split)

lemma offered_presses: "offered cf tags p a = presses_in (page_view cf tags p) a"
  by (simp add: offered_def presses_in_def)

lemma presses_sim_rows: "presses_in (concat (map (sim_row p) tags)) a \<longleftrightarrow> pg_busy p = None \<and> (\<exists>t \<in> set tags. a = Do_sim t)"
  by (induction tags) (auto simp: sim_row_def)

lemma quiet_views [simp]:
  "\<not> presses_in (countdown_view p) a" "\<not> presses_in (summary_view cf v) a" "\<not> presses_in (error_view p) a" "\<not> presses_in (gate_view cf p) a"
  "\<not> presses_in (ios_view cf p) a" "\<not> presses_in (wrong_wallet_view cf p) a" "\<not> presses_in (reading_view r) a"
  by (auto simp: countdown_view_def error_view_def summary_view_def gate_view_def ios_view_def wrong_wallet_view_def reading_view_def
      split: option.splits)

lemma view_presses:
  "presses_in (expired_view p) a \<longleftrightarrow> expired p \<and> a = Do_start"
  "presses_in (session_view cf p) a \<longleftrightarrow> pg_step p = St_session \<and> pg_busy p \<noteq> Some ''resume'' \<and> page_gate cf p = None \<and> a = Do_start"
  "presses_in (tap_step_view cf tags p) a \<longleftrightarrow> pg_step p = St_tap \<and> \<not> expired p \<and>
     (a = Do_nfc \<or> a = Do_not_responding \<or> (cf_demo cf \<and> cf_serverSim cf \<and> pg_busy p = None \<and> (\<exists>t \<in> set tags. a = Do_sim t)))"
  "presses_in (preview_view cf p) a \<longleftrightarrow> (\<exists>v. pg_preview p = Some v \<and> pg_step p = St_preview \<and> \<not> expired p \<and>
     (if pv_verdict v = ''VALID'' then a = Do_camera \<or> (\<not> is_certified cf \<and> a = Do_skip) else a = Do_start))"
  "presses_in (camera_view cf p) a \<longleftrightarrow> pg_step p = St_camera \<and> \<not> expired p \<and>
     (a = Do_capture \<and> pg_busy p = None \<and> pg_camReady p \<or> \<not> is_certified cf \<and> a = Do_skip \<or>
      cf_demo cf \<and> pg_busy p = None \<and> (\<exists>b. a = Do_synth b))"
  "presses_in (read_view cf p) a \<longleftrightarrow> pg_step p = St_read \<and> \<not> expired p \<and> pg_busy p = None \<and>
     (a = Do_sign \<and> page_gate cf p = None \<or> a = Do_camera \<and> pg_frames p \<noteq> None)"
  "presses_in (verify_view p) a \<longleftrightarrow> pg_verify p \<noteq> None \<and> pg_step p = St_verify \<and> a = Do_start"
  "presses_in (tx_view cf p) a \<longleftrightarrow> pg_verify p \<noteq> None \<and> pg_step p = St_tx \<and>
     (a = Do_own_scan \<and> ownScanNeeded p \<or>
      pg_wallet p \<noteq> None \<and> pg_busy p = None \<and>
        (a = Do_send \<and> cf_programId cf \<noteq> None \<and> (ownScanNeeded p \<longrightarrow> pg_ownScan p) \<or> a = Do_airdrop \<and> cf_demo cf))"
  "presses_in (done_view p) a \<longleftrightarrow> pg_step p = St_done \<and> a = Do_start"
  "presses_in (dead_view p) a \<longleftrightarrow> pg_step p = St_dead \<and>
     (a = Do_start \<or> a = Do_report \<and> pg_busy p = None \<and> Option.bind (pg_preview p) pv_sealDead \<noteq> Some True)"
  by (auto simp: expired_view_def session_view_def tap_step_view_def preview_view_def camera_view_def read_view_def verify_view_def
      tx_view_def done_view_def dead_view_def presses_sim_rows Let_def split: option.splits)

lemma page_offers_iff:
  "offered cf tags p a \<longleftrightarrow>
     presses_in (expired_view p) a \<or> presses_in (session_view cf p) a \<or> presses_in (tap_step_view cf tags p) a \<or>
     presses_in (preview_view cf p) a \<or> presses_in (camera_view cf p) a \<or> presses_in (read_view cf p) a \<or>
     presses_in (verify_view p) a \<or> presses_in (tx_view cf p) a \<or> presses_in (done_view p) a \<or> presses_in (dead_view p) a"
  by (simp add: offered_presses page_view_def)

section \<open>The invariants\<close>

text \<open>A press on send: the scan was found VALID, and confirmed as one's own where that is asked.\<close>

definition send_ok :: "send_call \<Rightarrow> bool" where
  "send_ok c \<longleftrightarrow> vr_verdict (sn_verify c) = ''VALID'' \<and>
     (needsOwnScanConfirmation (sn_resumed c) (vr_bundle (sn_verify c)) \<longrightarrow> sn_ownScan c)"

definition tx_valid :: "'w scan_page \<Rightarrow> bool" where
  "tx_valid p \<longleftrightarrow> (pg_step p = St_tx \<longrightarrow> (\<exists>v. pg_verify p = Some v \<and> vr_verdict v = ''VALID''))"

definition anchor_ok :: "'w scan_page \<Rightarrow> bool" where
  "anchor_ok p \<longleftrightarrow> tx_valid p \<and> (\<forall>c. F_send c \<in> set (pg_flights p) \<longrightarrow> send_ok c) \<and>
     (\<forall>c. Pressed_send c \<in> set (pg_posts p) \<longrightarrow> send_ok c)"

text \<open>What a handler does to the flights and posts.\<close>

lemmas call_defs = startSession_def onTag_def resume_by_link_def adopt_link_def handoff_tap_def simTap_def startNfc_def
  nfc_reading_def seal_not_responding_def runCapture_def skipCamera_def requestSignature_def sendTx_def airdrop_def
  reportDead_def with_flight_def

lemmas answer_defs = session_answer_def preview_answer_def resume_answer_def adopt_answer_def sim_answer_def
  capture_answer_def reading_answer_def verify_answer_def verify_failed_def send_answer_def airdrop_answer_def
  report_answer_def report_post_def adoptSession_def failed_def verdict_step_def signed_step_def

lemma settle_simps [simp]:
  "pg_step (settle p) = pg_step p" "pg_session (settle p) = pg_session p" "pg_clock (settle p) = pg_clock p"
  "pg_left (settle p) = pg_left p" "pg_verify (settle p) = pg_verify p" "pg_flights (settle p) = pg_flights p"
  "pg_posts (settle p) = pg_posts p" "pg_role (settle p) = pg_role p" "pg_tierOverride (settle p) = pg_tierOverride p"
  "pg_resumedScan (settle p) = pg_resumedScan p" "pg_ownScan (settle p) = pg_ownScan p" "pg_busy (settle p) = pg_busy p"
  "pg_txSig (settle p) = pg_txSig p" "pg_tag (settle p) = pg_tag p" "pg_preview (settle p) = pg_preview p"
  "pg_frames (settle p) = pg_frames p" "pg_reading (settle p) = pg_reading p" "pg_started (settle p) = pg_started p"
  "pg_wallet (settle p) = pg_wallet p" "pg_injected (settle p) = pg_injected p" "pg_uploaded (settle p) = pg_uploaded p"
  "pg_error (settle p) = pg_error p" "expired (settle p) = expired p"
  by (simp_all add: settle_def expired_def)

lemma arrived_simps [simp]:
  "pg_step (arrived f p) = pg_step p" "pg_session (arrived f p) = pg_session p" "pg_clock (arrived f p) = pg_clock p"
  "pg_verify (arrived f p) = pg_verify p" "pg_posts (arrived f p) = pg_posts p" "pg_role (arrived f p) = pg_role p"
  "pg_tierOverride (arrived f p) = pg_tierOverride p" "pg_resumedScan (arrived f p) = pg_resumedScan p"
  "set (pg_flights (arrived f p)) \<subseteq> set (pg_flights p)"
  by (simp_all add: arrived_def set_remove1_subset)

lemma offered_start: "offered cf tags p Do_start \<Longrightarrow> pg_step p \<noteq> St_tx"
  by (auto simp: page_offers_iff view_presses expired_def timedStep_def split: if_splits)

lemma offered_send:
  "offered cf tags p Do_send \<Longrightarrow> pg_step p = St_tx \<and> pg_busy p = None \<and> (ownScanNeeded p \<longrightarrow> pg_ownScan p)"
  by (auto simp: page_offers_iff view_presses split: if_splits)

lemma tx_validI:
  "tx_valid p \<Longrightarrow> pg_step p' \<noteq> St_tx \<or> (pg_step p' = pg_step p \<and> pg_verify p' = pg_verify p) \<Longrightarrow> tx_valid p'"
  by (auto simp: tx_valid_def)

lemma pressed_tx_valid:
  assumes "tx_valid p" "offered cf tags p a"
  shows "tx_valid (pressed cf now supported nfc a p)"
proof (cases a)
  case Do_start
  with assms(2) offered_start show ?thesis by (auto simp: tx_valid_def startSession_def with_flight_def)
qed (use assms(1) in \<open>auto simp: tx_valid_def call_defs Let_def split: option.splits sum.splits\<close>)

lemma answered_tx_valid:
  assumes "answered cf f p p'" "tx_valid p"
  shows "tx_valid p'"
  using assms
proof cases
  case (verified c upload answer)
  with assms(2) show ?thesis
    by (auto simp: tx_valid_def verify_answer_def verify_failed_def failed_def signed_step_def Let_def split: sum.splits option.splits)
next
  case (sent c env)
  with assms(2) show ?thesis
    by (auto simp: tx_valid_def send_answer_def failed_def split: option.splits anchor_outcome.splits)
qed (auto simp: tx_valid_def answer_defs onTag_def with_flight_def Let_def split: sum.splits option.splits if_splits prod.splits)

text \<open>The calls a press or an answer starts, and what it posts.\<close>

lemma pressed_calls:
  assumes "offered cf tags p a"
  shows "set (pg_flights (pressed cf now supported nfc a p)) \<subseteq> set (pg_flights p) \<union>
      {f. case f of F_session \<Rightarrow> True | F_sim t \<Rightarrow> pg_step p = St_tap | F_capture n \<Rightarrow> pg_step p = St_camera
          | F_verify c \<Rightarrow> pg_step p = St_read \<and> page_gate cf p = None \<and> vc_frames c = pg_frames p \<and>
              (\<exists>t s. pg_session p = Some s \<and> vc_input c = page_input cf t s p)
          | F_send c \<Rightarrow> pg_step p = St_tx \<and> Some (sn_verify c) = pg_verify p \<and> sn_resumed c = pg_resumedScan p \<and>
              sn_ownScan c = pg_ownScan p \<and> (ownScanNeeded p \<longrightarrow> pg_ownScan p)
          | F_report c \<Rightarrow> True | F_airdrop \<Rightarrow> True | _ \<Rightarrow> False}"
    "set (pg_posts (pressed cf now supported nfc a p)) \<subseteq> set (pg_posts p) \<union>
      {q. case q of Pressed_send c \<Rightarrow> pg_step p = St_tx \<and> Some (sn_verify c) = pg_verify p \<and> sn_resumed c = pg_resumedScan p \<and>
              sn_ownScan c = pg_ownScan p \<and> (ownScanNeeded p \<longrightarrow> pg_ownScan p)
          | _ \<Rightarrow> False}"
  using assms
  by (cases a; auto simp: call_defs Let_def page_offers_iff view_presses split: option.splits sum.splits if_splits)+

lemma answered_calls:
  assumes "answered cf f p p'"
  shows "set (pg_flights p') \<subseteq> set (pg_flights p) \<union>
      {g. case g of F_preview t \<Rightarrow> (\<exists>s. f = F_sim s) | F_reading n \<Rightarrow> (\<exists>k. f = F_capture k) | _ \<Rightarrow> False}"
    "set (pg_posts p') \<subseteq> set (pg_posts p) \<union>
      {q. case q of Posted_verify i \<Rightarrow> (\<exists>c m. f = F_verify c \<and> i = (vc_input c)\<lparr>vi_mediaHash := m\<rparr> \<and> (m = None \<longleftrightarrow> vc_frames c = None))
          | Posted_report s n \<Rightarrow> (\<exists>c. f = F_report c \<and> s = rp_serial c) | _ \<Rightarrow> False}"
  using assms
proof -
  have "set (pg_flights p') \<subseteq> set (pg_flights p) \<union>
      {g. case g of F_preview t \<Rightarrow> (\<exists>s. f = F_sim s) | F_reading n \<Rightarrow> (\<exists>k. f = F_capture k) | _ \<Rightarrow> False} \<and>
    set (pg_posts p') \<subseteq> set (pg_posts p) \<union>
      {q. case q of Posted_verify i \<Rightarrow> (\<exists>c m. f = F_verify c \<and> i = (vc_input c)\<lparr>vi_mediaHash := m\<rparr> \<and> (m = None \<longleftrightarrow> vc_frames c = None))
          | Posted_report s n \<Rightarrow> (\<exists>c. f = F_report c \<and> s = rp_serial c) | _ \<Rightarrow> False}"
    using assms
  proof cases
    case (verified c upload answer)
    then show ?thesis
      by (auto simp: verify_answer_def verify_failed_def failed_def Let_def map_sum_def split: sum.splits option.splits)
  qed (auto simp: answer_defs onTag_def with_flight_def Let_def split: sum.splits option.splits if_splits prod.splits anchor_outcome.splits)
  then show "set (pg_flights p') \<subseteq> set (pg_flights p) \<union>
      {g. case g of F_preview t \<Rightarrow> (\<exists>s. f = F_sim s) | F_reading n \<Rightarrow> (\<exists>k. f = F_capture k) | _ \<Rightarrow> False}"
    "set (pg_posts p') \<subseteq> set (pg_posts p) \<union>
      {q. case q of Posted_verify i \<Rightarrow> (\<exists>c m. f = F_verify c \<and> i = (vc_input c)\<lparr>vi_mediaHash := m\<rparr> \<and> (m = None \<longleftrightarrow> vc_frames c = None))
          | Posted_report s n \<Rightarrow> (\<exists>c. f = F_report c \<and> s = rp_serial c) | _ \<Rightarrow> False}"
    by blast+
qed

lemma mount_calls:
  "set (pg_flights (mount cf now owner p)) \<subseteq> set (pg_flights p) \<union>
     {f. case f of F_resume r \<Rightarrow> cf_resume cf \<noteq> None | F_adopt k \<Rightarrow> True | _ \<Rightarrow> False}"
  "pg_posts (mount cf now owner p) = pg_posts p"
  "pg_step (mount cf now owner p) \<in> {pg_step p, St_tap}" "pg_verify (mount cf now owner p) = pg_verify p"
  by (auto simp: mount_def take_up_session_def resume_by_link_def adopt_link_def with_flight_def Let_def set_text_def
      split: option.splits list.splits prod.splits if_splits)

text \<open>Handing a tap over and reading one start a preview; nothing else does.\<close>

lemma tap_calls:
  "pg_flights (handoff_tap t p) = pg_flights p @ [F_preview (tag_of t False None)]"
  "set (pg_flights (nfc_reading u seen p)) \<subseteq> set (pg_flights p) \<union> {f. \<exists>t. f = F_preview t}"
  "pg_posts (handoff_tap t p) = pg_posts p" "pg_posts (nfc_reading u seen p) = pg_posts p"
  "pg_step (handoff_tap t p) = pg_step p" "pg_step (nfc_reading u seen p) = pg_step p"
  "pg_verify (handoff_tap t p) = pg_verify p" "pg_verify (nfc_reading u seen p) = pg_verify p"
  by (auto simp: call_defs split: option.splits)

lemma tick_simps [simp]:
  "pg_flights (tick now p) = pg_flights p" "pg_posts (tick now p) = pg_posts p" "pg_step (tick now p) = pg_step p"
  "pg_verify (tick now p) = pg_verify p" "pg_session (tick now p) = pg_session p" "pg_clock (tick now p) = pg_clock p"
  "pg_role (tick now p) = pg_role p" "pg_tierOverride (tick now p) = pg_tierOverride p"
  "pg_resumedScan (tick now p) = pg_resumedScan p" "pg_busy (tick now p) = pg_busy p" "pg_started (tick now p) = pg_started p"
  by (auto simp: tick_def split: option.splits)

lemma edited_keeps:
  assumes "edited cf p p'"
  shows "pg_flights p' = pg_flights p" "pg_posts p' = pg_posts p" "pg_step p' = pg_step p" "pg_verify p' = pg_verify p"
    "pg_session p' = pg_session p" "pg_clock p' = pg_clock p" "pg_tierOverride p' = pg_tierOverride p"
    "pg_resumedScan p' = pg_resumedScan p" "pg_role p' = pg_role p \<or> pg_role p' \<in> set (roleChoices (is_certified cf))"
  using assms by (cases; simp)+

lemma send_press_ok:
  "tx_valid p \<Longrightarrow> pg_step p = St_tx \<Longrightarrow> Some (sn_verify c) = pg_verify p \<Longrightarrow> sn_resumed c = pg_resumedScan p \<Longrightarrow>
   sn_ownScan c = pg_ownScan p \<Longrightarrow> (ownScanNeeded p \<longrightarrow> pg_ownScan p) \<Longrightarrow> send_ok c"
  by (auto simp: tx_valid_def send_ok_def ownScanNeeded_def verify_bundle_def dest: sym)

lemma anchor_ok_step:
  assumes "page_step cf p p'" "anchor_ok p"
  shows "anchor_ok p'"
  using assms(1)
proof cases
  case (mounted now owner)
  have "tx_valid (mount cf now owner p)"
    using assms(2) mount_calls(3,4) [of cf now owner p] by (auto simp: anchor_ok_def tx_valid_def)
  with mounted assms(2) mount_calls(1,2) [of cf now owner p] show ?thesis
    by (fastforce simp: anchor_ok_def tx_valid_def)
next
  case (press tags a now supported nfc)
  note calls = pressed_calls [OF press(3), of now supported nfc]
  have tx: "tx_valid p" using assms(2) by (simp add: anchor_ok_def)
  note tx' = pressed_tx_valid [OF tx press(3), of now supported nfc]
  have "send_ok c" if "F_send c \<in> set (pg_flights (pressed cf now supported nfc a p))" for c
    using subsetD [OF calls(1) that] assms(2) send_press_ok [OF tx, of c] by (auto simp: anchor_ok_def)
  moreover have "send_ok c" if "Pressed_send c \<in> set (pg_posts (pressed cf now supported nfc a p))" for c
    using subsetD [OF calls(2) that] assms(2) send_press_ok [OF tx, of c] by (auto simp: anchor_ok_def)
  ultimately show ?thesis using press(1) tx' by (simp add: anchor_ok_def tx_valid_def)
next
  case (answer f q)
  have l: "set (pg_flights (arrived f p)) \<subseteq> set (pg_flights p)" by simp
  have "tx_valid (arrived f p)" using assms(2) by (simp add: anchor_ok_def tx_valid_def)
  note tx = answered_tx_valid [OF answer(3) this]
  have "send_ok c" if "F_send c \<in> set (pg_flights q)" for c
    using subsetD [OF answered_calls(1) [OF answer(3)] that] set_mp [OF l] assms(2) by (auto simp: anchor_ok_def)
  moreover have "send_ok c" if "Pressed_send c \<in> set (pg_posts q)" for c
    using subsetD [OF answered_calls(2) [OF answer(3)] that] assms(2) by (auto simp: anchor_ok_def)
  ultimately show ?thesis using answer(1) tx by (simp add: anchor_ok_def tx_valid_def)
next
  case (handed t)
  with assms(2) show ?thesis by (auto simp: anchor_ok_def tx_valid_def tap_calls)
next
  case (nfc t seen)
  have "send_ok c" if "F_send c \<in> set (pg_flights (nfc_reading t seen p))" for c
    using subsetD [OF tap_calls(2) that] assms(2) by (auto simp: anchor_ok_def)
  with nfc assms(2) show ?thesis by (simp add: anchor_ok_def tx_valid_def tap_calls)
next
  case edit
  with assms(2) show ?thesis by (auto simp: anchor_ok_def tx_valid_def edited_keeps)
qed (use assms(2) in \<open>auto simp: anchor_ok_def tx_valid_def\<close>)

lemma initial_anchor_ok: "anchor_ok (initial_page cf stored)"
  by (simp add: anchor_ok_def tx_valid_def initial_page_def)

lemma steps_induct:
  assumes "page_steps cf p p'" "P p" "\<And>q q'. P q \<Longrightarrow> page_step cf q q' \<Longrightarrow> P q'"
  shows "P p'"
  using assms by (induction rule: page_steps.induct) auto

lemma reach_anchor_ok: "page_reach cf p \<Longrightarrow> anchor_ok p"
  by (auto simp: page_reach_def elim!: steps_induct intro: initial_anchor_ok anchor_ok_step)

end
