(* ===== verification/Scan_Requests.thy ===== *)
theory Scan_Requests
  imports Scan_Facts Program_Flacon
begin

text \<open>
  What the scan page asks of the verifier: role, tier and wallet of every request it posts, as the flacon program
  accepts them.
\<close>

section \<open>What is asked of the verifier\<close>

text \<open>Role, tier and wallet of a request: \<open>photos\<close> says whether card photos go with it.\<close>

definition request_ok :: "scan_config \<Rightarrow> verify_input \<Rightarrow> bool \<Rightarrow> bool" where
  "request_ok cf i photos \<longleftrightarrow> vi_role i \<in> set (roleChoices (is_certified cf)) \<and>
     vi_tier i = (if is_certified cf then js_floor (cf_qTier cf) else if photos then member Tier ''SELF_MEDIA'' else member Tier ''SELF'') \<and>
     (needsPartnerWallet (vi_tier i) (vi_role i) \<longrightarrow> vi_attester i \<noteq> None) \<and> 0 \<le> vi_fill i \<and> vi_fill i \<le> 100"

definition flight_ok :: "scan_config \<Rightarrow> 'w scan_page \<Rightarrow> flight \<Rightarrow> bool" where
  "flight_ok cf p f \<longleftrightarrow> (case f of
     F_resume _ \<Rightarrow> False
   | F_verify c \<Rightarrow> pg_session p \<noteq> None \<and> request_ok cf (vc_input c) (vc_frames c \<noteq> None)
   | F_preview _ \<Rightarrow> pg_session p \<noteq> None | F_sim _ \<Rightarrow> pg_session p \<noteq> None
   | F_capture _ \<Rightarrow> pg_session p \<noteq> None | F_reading _ \<Rightarrow> pg_session p \<noteq> None
   | _ \<Rightarrow> True)"

definition post_ok :: "scan_config \<Rightarrow> page_post \<Rightarrow> bool" where
  "post_ok cf q \<longleftrightarrow> (case q of Posted_verify i \<Rightarrow> request_ok cf i (vi_mediaHash i \<noteq> None) | _ \<Rightarrow> True)"

definition in_session :: "scan_step \<Rightarrow> bool" where
  "in_session s \<longleftrightarrow> s \<in> {St_tap, St_preview, St_camera, St_read, St_verify}"

definition page_ok :: "scan_config \<Rightarrow> 'w scan_page \<Rightarrow> bool" where
  "page_ok cf p \<longleftrightarrow> (pg_session p = None \<longleftrightarrow> pg_clock p = None) \<and> (in_session (pg_step p) \<longrightarrow> pg_session p \<noteq> None) \<and>
     (pg_nfcOn p \<longrightarrow> pg_step p = St_tap) \<and>
     pg_role p \<in> set (roleChoices (is_certified cf)) \<and> pg_tierOverride p = None \<and> \<not> pg_resumedScan p \<and>
     0 \<le> pg_fill p \<and> pg_fill p \<le> 100 \<and>
     (\<forall>f \<in> set (pg_flights p). flight_ok cf p f) \<and> (\<forall>q \<in> set (pg_posts p). post_ok cf q)"

lemma roles: "roleChoices c = (if c then [3, 4] else [0, 1, 2])"
  by (simp add: roleChoices_def Role_def member_def)

lemma tiers: "member Tier ''SELF'' = 1" "member Tier ''SELF_MEDIA'' = 2" "member Tier ''CERTIFIED'' = 3" "member Tier ''BIRTH'' = 4"
  by (simp_all add: Tier_def member_def)

lemma initialRole_choice: "initialRole q c \<in> set (roleChoices c)"
  by (auto simp: initialRole_def roles Role_def member_def split: js_num.splits)

lemma defaultRole_choice: "defaultRole cf \<in> set (roleChoices (is_certified cf))"
  by (simp add: defaultRole_def initialRole_choice)

lemma initial_page_ok: "page_ok cf (initial_page cf stored)"
  by (simp add: page_ok_def initial_page_def in_session_def defaultRole_choice)

text \<open>What a press or an answer does to session, clock, role and tier.\<close>

lemma pressed_fields:
  "pg_session (pressed cf now supported nfc a p) = pg_session p" "pg_clock (pressed cf now supported nfc a p) = pg_clock p"
  "pg_role (pressed cf now supported nfc a p) \<in> {pg_role p, defaultRole cf}"
  "pg_tierOverride (pressed cf now supported nfc a p) \<in> {pg_tierOverride p, None}"
  "pg_resumedScan (pressed cf now supported nfc a p) \<in> {pg_resumedScan p, False}"
  "pg_fill (pressed cf now supported nfc a p) = pg_fill p"
  by (cases a; auto simp: call_defs Let_def split: option.splits sum.splits)+

lemma pressed_step:
  assumes "offered cf tags p a"
  shows "pg_step (pressed cf now supported nfc a p) = pg_step p \<or> pg_step (pressed cf now supported nfc a p) = St_dead \<or>
    in_session (pg_step p)"
  using assms
  by (cases a) (auto simp: call_defs Let_def page_offers_iff view_presses in_session_def split: option.splits sum.splits if_splits)

lemma answered_fields:
  assumes "answered cf f p p'"
  shows "pg_session p = None \<longleftrightarrow> pg_clock p = None \<Longrightarrow> pg_session p' = None \<longleftrightarrow> pg_clock p' = None"
    "pg_session p \<noteq> None \<Longrightarrow> pg_session p' \<noteq> None"
    "(\<forall>r. f \<noteq> F_resume r) \<Longrightarrow> pg_role p' = pg_role p \<and> pg_tierOverride p' = pg_tierOverride p \<and> pg_resumedScan p' = pg_resumedScan p"
    "(\<forall>r. f \<noteq> F_resume r) \<Longrightarrow> in_session (pg_step p') \<Longrightarrow> pg_session p' \<noteq> None \<or> pg_step p' = pg_step p \<or>
       (case f of F_session \<Rightarrow> False | F_adopt _ \<Rightarrow> False | F_send _ \<Rightarrow> False | F_report _ \<Rightarrow> False | F_airdrop \<Rightarrow> False | _ \<Rightarrow> True)"
    "pg_fill p' = pg_fill p"
  using assms
  by (cases; auto simp: answer_defs onTag_def with_flight_def Let_def in_session_def map_sum_def
      split: sum.splits option.splits if_splits prod.splits anchor_outcome.splits)+

lemma page_tier_free: "pg_tierOverride p = None \<Longrightarrow> page_tier cf p =
    (if is_certified cf then js_floor (cf_qTier cf) else if pg_frames p \<noteq> None then member Tier ''SELF_MEDIA'' else member Tier ''SELF'')"
  by (simp add: page_tier_def)

lemma gate_wallet: "page_gate cf p = None \<Longrightarrow> needsPartnerWallet (page_tier cf p) (pg_role p) \<Longrightarrow> pg_wallet p \<noteq> None"
  by (auto simp: page_gate_def partnerWalletGate_def split: if_splits)

lemma sign_request_ok:
  "page_gate cf p = None \<Longrightarrow> pg_tierOverride p = None \<Longrightarrow> pg_role p \<in> set (roleChoices (is_certified cf)) \<Longrightarrow>
   0 \<le> pg_fill p \<Longrightarrow> pg_fill p \<le> 100 \<Longrightarrow> request_ok cf (page_input cf t s p) (pg_frames p \<noteq> None)"
  using gate_wallet [of cf p] by (simp add: request_ok_def page_input_def page_tier_free [symmetric]) (simp add: page_tier_free)

lemma request_ok_media [simp]: "request_ok cf (i\<lparr>vi_mediaHash := m\<rparr>) b = request_ok cf i b"
  by (simp add: request_ok_def)

lemma flight_ok_simps [simp]:
  "flight_ok cf p F_session" "flight_ok cf p (F_preview t) = (pg_session p \<noteq> None)" "\<not> flight_ok cf p (F_resume r)"
  "flight_ok cf p (F_adopt k)" "flight_ok cf p (F_sim s) = (pg_session p \<noteq> None)"
  "flight_ok cf p (F_capture n) = (pg_session p \<noteq> None)" "flight_ok cf p (F_reading m) = (pg_session p \<noteq> None)"
  "flight_ok cf p (F_verify c) = (pg_session p \<noteq> None \<and> request_ok cf (vc_input c) (vc_frames c \<noteq> None))"
  "flight_ok cf p (F_send d)" "flight_ok cf p (F_report q)" "flight_ok cf p F_airdrop"
  by (simp_all add: flight_ok_def)

lemma flight_ok_session: "flight_ok cf p f \<Longrightarrow> pg_session p \<noteq> None \<longrightarrow> pg_session p' \<noteq> None \<Longrightarrow> flight_ok cf p' f"
  by (cases f) (auto simp: flight_ok_def)

text \<open>The parts of the invariant that are not about calls and posts.\<close>

definition fields_ok :: "scan_config \<Rightarrow> 'w scan_page \<Rightarrow> bool" where
  "fields_ok cf p \<longleftrightarrow> (pg_session p = None \<longleftrightarrow> pg_clock p = None) \<and> (in_session (pg_step p) \<longrightarrow> pg_session p \<noteq> None) \<and>
     pg_role p \<in> set (roleChoices (is_certified cf)) \<and> pg_tierOverride p = None \<and> \<not> pg_resumedScan p \<and>
     0 \<le> pg_fill p \<and> pg_fill p \<le> 100"

lemma fields_ok_update [simp]:
  "fields_ok cf (p\<lparr>pg_camReady := b\<rparr>) = fields_ok cf p" "fields_ok cf (p\<lparr>pg_error := e\<rparr>) = fields_ok cf p"
  "fields_ok cf (p\<lparr>pg_wallet := w, pg_injected := i\<rparr>) = fields_ok cf p"
  by (simp_all add: fields_ok_def)

lemma fields_okD:
  assumes "fields_ok cf p"
  shows "in_session (pg_step p) \<Longrightarrow> pg_session p \<noteq> None" "pg_role p \<in> set (roleChoices (is_certified cf))"
    "pg_tierOverride p = None" "\<not> pg_resumedScan p" "0 \<le> pg_fill p" "pg_fill p \<le> 100"
    "pg_session p = None \<longleftrightarrow> pg_clock p = None"
  using assms unfolding fields_ok_def by blast+

lemma page_ok_iff: "page_ok cf p \<longleftrightarrow> fields_ok cf p \<and> (pg_nfcOn p \<longrightarrow> pg_step p = St_tap) \<and>
    (\<forall>f \<in> set (pg_flights p). flight_ok cf p f) \<and> (\<forall>q \<in> set (pg_posts p). post_ok cf q)"
  by (auto simp: page_ok_def fields_ok_def)

lemma fields_ok_settle [simp]: "fields_ok cf (settle p) = fields_ok cf p"
  by (simp add: fields_ok_def settle_def)

lemma flight_ok_settle [simp]: "flight_ok cf (settle p) f = flight_ok cf p f"
  by (cases f) (simp_all add: flight_ok_def)

lemma fields_ok_arrived [simp]: "fields_ok cf (arrived f p) = fields_ok cf p"
  by (simp add: fields_ok_def arrived_def)

lemma settle_nfc: "pg_nfcOn (settle p) \<Longrightarrow> pg_step (settle p) = St_tap"
  by (simp add: settle_def)

lemma page_ok_settle:
  "fields_ok cf p \<Longrightarrow> \<forall>f \<in> set (pg_flights p). flight_ok cf p f \<Longrightarrow> \<forall>q \<in> set (pg_posts p). post_ok cf q \<Longrightarrow> page_ok cf (settle p)"
  using settle_nfc [of p] by (simp add: page_ok_iff)

lemma mount_fields:
  assumes "cf_resume cf = None" "fields_ok cf p"
  shows "fields_ok cf (mount cf now owner p)" "pg_session p \<noteq> None \<longrightarrow> pg_session (mount cf now owner p) \<noteq> None"
  using assms by (auto simp: fields_ok_def mount_def take_up_session_def adopt_link_def with_flight_def Let_def set_text_def
      split: option.splits prod.splits if_splits)

lemma pressed_fields_ok:
  assumes "fields_ok cf p" "offered cf tags p a"
  shows "fields_ok cf (pressed cf now supported nfc a p)"
proof -
  let ?q = "pressed cf now supported nfc a p"
  note pf = pressed_fields [of cf now supported nfc a p] and ok = fields_okD [OF assms(1)]
  have "pg_session p \<noteq> None" if "in_session (pg_step ?q)"
    using pressed_step [OF assms(2), of now supported nfc] ok(1) that by (auto simp: in_session_def)
  then have a: "in_session (pg_step ?q) \<longrightarrow> pg_session p \<noteq> None" by blast
  have b: "pg_role ?q \<in> set (roleChoices (is_certified cf))" using pf(3) ok(2) defaultRole_choice [of cf] by auto
  have c: "pg_tierOverride ?q = None" using pf(4) ok(3) by auto
  have d: "\<not> pg_resumedScan ?q" using pf(5) ok(4) by auto
  show ?thesis unfolding fields_ok_def pf(1,2,6) by (intro conjI a b c d ok(5-7))
qed

lemma pressed_flights_ok:
  assumes "fields_ok cf p" "offered cf tags p a" "g \<in> set (pg_flights (pressed cf now supported nfc a p))" "g \<notin> set (pg_flights p)"
  shows "flight_ok cf p g"
proof -
  have s: "pg_session p \<noteq> None" if "in_session (pg_step p)" using fields_okD(1) [OF assms(1) that] .
  note c = subsetD [OF pressed_calls(1) [OF assms(2)] assms(3)]
  show ?thesis
  proof (cases g)
    case (F_verify v)
    with c assms(4) obtain t s where v: "pg_step p = St_read" "page_gate cf p = None" "vc_frames v = pg_frames p"
      "pg_session p = Some s" "vc_input v = page_input cf t s p" by auto
    note ok = fields_okD [OF assms(1)]
    show ?thesis unfolding F_verify flight_ok_simps v(3,5)
      using sign_request_ok [OF v(2) ok(3,2,5,6)] v(4) by blast
  qed (use c s assms(4) in \<open>auto simp: in_session_def\<close>)
qed

lemma pressed_ok:
  assumes "page_ok cf p" "offered cf tags p a"
  shows "page_ok cf (settle (pressed cf now supported nfc a p))"
proof (rule page_ok_settle)
  let ?q = "pressed cf now supported nfc a p"
  have f: "fields_ok cf p" using assms(1) by (simp add: page_ok_iff)
  show "fields_ok cf ?q" using f assms(2) by (rule pressed_fields_ok)
  have s: "pg_session p \<noteq> None \<longrightarrow> pg_session ?q \<noteq> None" by (simp add: pressed_fields)
  show "\<forall>g \<in> set (pg_flights ?q). flight_ok cf ?q g"
    using pressed_flights_ok [OF f assms(2)] assms(1) flight_ok_session [OF _ s] unfolding page_ok_iff by metis
  show "\<forall>q \<in> set (pg_posts ?q). post_ok cf q"
  proof
    fix q assume q: "q \<in> set (pg_posts ?q)"
    show "post_ok cf q"
      using subsetD [OF pressed_calls(2) [OF assms(2)] q] assms(1) by (cases q) (auto simp: page_ok_iff post_ok_def)
  qed
qed

lemma answered_ok:
  assumes "page_ok cf p" "answered cf f (arrived f p) q" "f \<in> set (pg_flights p)"
  shows "page_ok cf (settle q)"
proof (rule page_ok_settle)
  have ff: "flight_ok cf p f" using assms(1,3) by (simp add: page_ok_iff)
  have no: "\<forall>r. f \<noteq> F_resume r" using ff by auto
  have f: "fields_ok cf (arrived f p)" using assms(1) by (simp add: page_ok_iff)
  note af = answered_fields [OF assms(2)]
  have s: "pg_session p \<noteq> None \<longrightarrow> pg_session q \<noteq> None" using af(2) by simp
  have c: "pg_session q = None \<longleftrightarrow> pg_clock q = None" using af(1) fields_okD(7) [OF f] by simp
  have i: "pg_session q \<noteq> None" if "in_session (pg_step q)"
  proof (cases "pg_session p")
    case None
    with ff fields_okD(1) [OF f] af(4) [OF no that] show ?thesis using that by (cases f) auto
  next
    case (Some x)
    with s show ?thesis by simp
  qed
  show "fields_ok cf q" using c i fields_okD [OF f] af(3) [OF no] af(5) unfolding fields_ok_def by simp
  have l: "g \<in> set (pg_flights p)" if "g \<in> set (pg_flights (arrived f p))" for g
    using that arrived_simps(9) by blast
  show "\<forall>g \<in> set (pg_flights q). flight_ok cf q g"
  proof
    fix g assume g: "g \<in> set (pg_flights q)"
    have "flight_ok cf p g"
    proof (cases "g \<in> set (pg_flights p)")
      case True
      with assms(1) show ?thesis by (simp add: page_ok_iff)
    next
      case False
      with subsetD [OF answered_calls(1) [OF assms(2)] g] l ff show ?thesis by (cases g) auto
    qed
    then show "flight_ok cf q g" using s by (rule flight_ok_session)
  qed
  show "\<forall>r \<in> set (pg_posts q). post_ok cf r"
  proof
    fix r assume r: "r \<in> set (pg_posts q)"
    show "post_ok cf r"
      using subsetD [OF answered_calls(2) [OF assms(2)] r] assms(1) ff by (cases r) (auto simp: page_ok_iff post_ok_def)
  qed
qed

lemma preview_ok:
  assumes "page_ok cf p" "pg_session p \<noteq> None" "fields_ok cf q" "pg_session q = pg_session p" "pg_posts q = pg_posts p"
    "set (pg_flights q) \<subseteq> set (pg_flights p) \<union> {f. \<exists>t. f = F_preview t}"
  shows "page_ok cf (settle q)"
proof (rule page_ok_settle [OF assms(3)])
  show "\<forall>f \<in> set (pg_flights q). flight_ok cf q f"
    using assms by (auto simp: page_ok_iff flight_ok_def split: flight.splits)
  show "\<forall>r \<in> set (pg_posts q). post_ok cf r" using assms by (simp add: page_ok_iff)
qed

lemma page_ok_same:
  assumes "page_ok cf p" "fields_ok cf q" "pg_flights q = pg_flights p" "pg_posts q = pg_posts p" "pg_session q = pg_session p"
    "pg_step q = pg_step p" "pg_nfcOn q = pg_nfcOn p"
  shows "page_ok cf q"
proof -
  have "flight_ok cf q g = flight_ok cf p g" for g by (cases g) (simp_all add: assms(5))
  with assms show ?thesis by (simp add: page_ok_iff)
qed

lemma edited_fields_ok:
  assumes "edited cf p p'" "fields_ok cf p"
  shows "fields_ok cf p'"
proof -
  note k = edited_keeps [OF assms(1)] and ok = fields_okD [OF assms(2)]
  have fill: "0 \<le> pg_fill p' \<and> pg_fill p' \<le> 100" using assms(1) ok(5,6) by (cases; simp)
  have s: "in_session (pg_step p) \<longrightarrow> pg_session p \<noteq> None" using ok(1) by blast
  have r: "pg_role p' \<in> set (roleChoices (is_certified cf))" using k(9) ok(2) by metis
  show ?thesis unfolding fields_ok_def k(3,5-8) by (intro conjI ok s r fill [THEN conjunct1] fill [THEN conjunct2])
qed

lemma page_ok_step:
  assumes "cf_resume cf = None" "page_ok cf p" "page_step cf p p'"
  shows "page_ok cf p'"
  using assms(3)
proof cases
  case (mounted now owner)
  have f: "fields_ok cf p" using assms(2) by (simp add: page_ok_iff)
  note mf = mount_fields [OF assms(1) f, of now owner]
  have "flight_ok cf (mount cf now owner p) g" if "g \<in> set (pg_flights (mount cf now owner p))" for g
  proof -
    have "flight_ok cf p g"
      using subsetD [OF mount_calls(1) that] assms(1,2) by (cases g) (auto simp: page_ok_iff flight_ok_def)
    then show ?thesis using flight_ok_session [OF _ mf(2)] by simp
  qed
  with mf(1) assms(2) show ?thesis unfolding mounted(1) by (intro page_ok_settle) (auto simp: page_ok_iff mount_calls)
next
  case (handed t)
  have s: "pg_session p \<noteq> None" using handed(3) assms(2) by (intro fields_okD(1)) (auto simp: page_ok_iff in_session_def)
  have "fields_ok cf (handoff_tap t p) = fields_ok cf p" by (simp add: fields_ok_def call_defs)
  with assms(2) show ?thesis unfolding handed(1)
    by (intro preview_ok [OF assms(2) s]) (auto simp: page_ok_iff call_defs)
next
  case (nfc t seen)
  have s: "pg_session p \<noteq> None" using nfc(2) assms(2) by (intro fields_okD(1)) (auto simp: page_ok_iff in_session_def)
  have "fields_ok cf (nfc_reading t seen p) = fields_ok cf p"
    by (simp add: fields_ok_def nfc_reading_def onTag_def with_flight_def split: option.split)
  moreover have "pg_session (nfc_reading t seen p) = pg_session p"
    by (simp add: nfc_reading_def onTag_def with_flight_def split: option.split)
  ultimately show ?thesis unfolding nfc(1) using assms(2)
    by (intro preview_ok [OF assms(2) s] tap_calls) (simp_all add: page_ok_iff)
next
  case edit
  have "fields_ok cf p" using assms(2) by (simp add: page_ok_iff)
  then have "fields_ok cf p'" by (rule edited_fields_ok [OF edit])
  moreover have "pg_nfcOn p' = pg_nfcOn p" using edit by cases simp_all
  ultimately show ?thesis using assms(2) edited_keeps [OF edit] by (intro page_ok_same [of cf p p']) simp_all
next
  case (press tags a now supported nfc)
  then show ?thesis using pressed_ok [OF assms(2)] by simp
next
  case (answer f q)
  then show ?thesis using answered_ok [OF assms(2)] by simp
next
  case camera
  then show ?thesis using assms(2) by (intro page_ok_same [of cf p p']) (simp_all add: page_ok_iff)
next
  case camera_fails
  then show ?thesis using assms(2) by (intro page_ok_same [of cf p p']) (simp_all add: page_ok_iff)
next
  case wallet
  then show ?thesis using assms(2) by (intro page_ok_same [of cf p p']) (simp_all add: page_ok_iff)
next
  case (time now)
  have "flight_ok cf (tick now p) g = flight_ok cf p g" for g by (cases g) simp_all
  moreover have "pg_fill (tick now p) = pg_fill p" by (simp add: tick_def split: option.splits)
  ultimately show ?thesis
    unfolding time(1) using assms(2) by (intro page_ok_settle) (auto simp: page_ok_iff fields_ok_def)
qed

lemma reach_page_ok: "cf_resume cf = None \<Longrightarrow> page_reach cf p \<Longrightarrow> page_ok cf p"
  by (auto simp: page_reach_def elim!: steps_induct intro: initial_page_ok page_ok_step)

section \<open>Accepted by the program\<close>

lemma check_fields_front:
  assumes "sa_role a \<le> 4" "sa_tier a \<le> 4" "(sa_role a = 3 \<or> sa_role a = 4) \<or> sa_tier a \<le> 2" "sa_fill a \<le> 100" "sa_site_id a = 0"
  shows "check_fields r w a \<notin> {Inl InvalidRole, Inl InvalidTier, Inl TierNotAllowedForRole, Inl InvalidFill}"
    "check_fields r w a = Inl NotPartner \<longleftrightarrow> ((sa_role a = 3 \<or> sa_role a = 4) \<or> sa_tier a \<ge> 3) \<and> \<not> is_partner r w"
proof -
  have b: "bindE (guardE c e) f = (if c then f () else Inl e)" for c e and f :: "unit \<Rightarrow> flacon_error + unit"
    by (simp add: guardE_def)
  have g: "guardE c e \<noteq> Inl e'" if "e \<noteq> e'" for c and e e' :: flacon_error using that by (simp add: guardE_def)
  show "check_fields r w a \<notin> {Inl InvalidRole, Inl InvalidTier, Inl TierNotAllowedForRole, Inl InvalidFill}"
    using assms by (simp add: check_fields_def b g)
  show "check_fields r w a = Inl NotPartner \<longleftrightarrow> ((sa_role a = 3 \<or> sa_role a = 4) \<or> sa_tier a \<ge> 3) \<and> \<not> is_partner r w"
    using assms by (simp add: check_fields_def b g)
qed

end
