(* ===== verification/Scan_Live.thy ===== *)
theory Scan_Live
  imports Scan_Requests
begin

text \<open>
  The scan page never gets stuck: from every page reached without a resume link a scan can be carried to its end. With a
  resume link, and when a new session is refused, it shows the wrong thing or nothing at all.
\<close>

section \<open>Busy and started\<close>

lemma pressed_busy:
  "pg_busy p \<noteq> Some ''resume'' \<Longrightarrow> pg_busy (pressed cf now supported nfc a p) \<noteq> Some ''resume''"
  by (cases a) (auto simp: call_defs Let_def split: option.splits sum.splits)

lemma answered_busy:
  assumes "answered cf f p p'" "pg_busy p \<noteq> Some ''resume''"
  shows "pg_busy p' \<noteq> Some ''resume''"
  using assms
  by (cases; auto simp: answer_defs onTag_def with_flight_def Let_def map_sum_def
      split: sum.splits option.splits if_splits prod.splits anchor_outcome.splits)

lemma mount_busy:
  "cf_resume cf = None \<Longrightarrow> pg_busy (mount cf now owner p) = pg_busy p"
  by (auto simp: mount_def take_up_session_def adopt_link_def with_flight_def Let_def set_text_def
      split: option.splits prod.splits if_splits)

lemma busy_step:
  assumes "cf_resume cf = None" "pg_busy p \<noteq> Some ''resume''" "page_step cf p p'"
  shows "pg_busy p' \<noteq> Some ''resume''"
  using assms(3)
proof cases
  case (answer f q)
  have "pg_busy (arrived f p) \<noteq> Some ''resume''" using assms(2) by (simp add: arrived_def)
  with answered_busy [OF answer(3)] show ?thesis by (simp add: answer(1))
next
  case edit
  then show ?thesis using assms(2) by (cases) simp_all
next
  case (nfc t seen)
  then show ?thesis using assms(2) by (simp add: call_defs split: option.split)
qed (use assms pressed_busy in \<open>simp_all add: mount_busy call_defs\<close>)

lemma reach_busy: "cf_resume cf = None \<Longrightarrow> page_reach cf p \<Longrightarrow> pg_busy p \<noteq> Some ''resume''"
  unfolding page_reach_def by (elim exE steps_induct) (auto dest: busy_step simp: initial_page_def)

text \<open>A busy page waits for an answer that ends the wait.\<close>

definition ends_wait :: "flight \<Rightarrow> bool" where
  "ends_wait f \<longleftrightarrow> (case f of F_session \<Rightarrow> False | F_adopt k \<Rightarrow> False | _ \<Rightarrow> True)"

definition busy_waits :: "'w scan_page \<Rightarrow> bool" where
  "busy_waits p \<longleftrightarrow> pg_busy p = None \<or> (\<exists>f \<in> set (pg_flights p). ends_wait f)"

lemma pressed_waits: "busy_waits p \<Longrightarrow> busy_waits (pressed cf now supported nfc a p)"
  by (cases a) (auto simp: busy_waits_def ends_wait_def call_defs Let_def split: option.splits sum.splits)

lemma answered_waits:
  assumes "answered cf f p p'" "ends_wait f \<or> busy_waits p"
  shows "busy_waits p'"
  using assms
  by (cases; auto simp: busy_waits_def ends_wait_def answer_defs onTag_def with_flight_def Let_def map_sum_def
      split: sum.splits option.splits if_splits prod.splits anchor_outcome.splits)

lemma waits_arrived: "busy_waits p \<Longrightarrow> ends_wait f \<or> busy_waits (arrived f p)"
  by (auto simp: busy_waits_def arrived_def) (metis in_set_remove1)

lemma waits_step:
  assumes "cf_resume cf = None" "busy_waits p" "page_step cf p p'"
  shows "busy_waits p'"
  using assms(3)
proof cases
  case (mounted now owner)
  have "set (pg_flights p) \<subseteq> set (pg_flights (mount cf now owner p))"
    by (auto simp: mount_def take_up_session_def resume_by_link_def adopt_link_def with_flight_def Let_def set_text_def
        split: option.splits list.splits prod.splits if_splits)
  then show ?thesis using mounted assms(1,2) by (auto simp: busy_waits_def mount_busy)
next
  case (press tags a now supported nfc)
  then show ?thesis using pressed_waits [OF assms(2)] by (simp add: busy_waits_def)
next
  case (answer f q)
  then show ?thesis using answered_waits [OF answer(3) waits_arrived [OF assms(2)]] by (simp add: busy_waits_def)
next
  case edit
  then show ?thesis using assms(2) by (cases) (simp_all add: busy_waits_def)
next
  case (nfc t seen)
  then show ?thesis using assms(2) by (auto simp: busy_waits_def ends_wait_def call_defs split: option.split)
qed (use assms(2) in \<open>auto simp: busy_waits_def ends_wait_def call_defs\<close>)

lemma reach_waits: "cf_resume cf = None \<Longrightarrow> page_reach cf p \<Longrightarrow> busy_waits p"
proof -
  assume r: "cf_resume cf = None" "page_reach cf p"
  have "busy_waits (initial_page cf stored)" for stored by (simp add: initial_page_def busy_waits_def)
  then show ?thesis using r(2) waits_step [OF r(1)] unfolding page_reach_def by (metis steps_induct)
qed

section \<open>Restart\<close>

lemma steps_trans: "page_steps cf p q \<Longrightarrow> page_steps cf q r \<Longrightarrow> page_steps cf p r"
  by (rotate_tac, induction rule: page_steps.induct) (auto intro: page_steps.intros)

lemma step_steps: "page_step cf p q \<Longrightarrow> page_steps cf p q"
  by (blast intro: page_steps.intros)

lemma steps_reach: "page_reach cf p \<Longrightarrow> page_steps cf p q \<Longrightarrow> page_reach cf q"
  by (auto simp: page_reach_def intro: steps_trans)

text \<open>Enough time later the session is over.\<close>

lemma run_out:
  assumes "pg_clock p = Some c" "pg_session p \<noteq> None" "timedStep (pg_step p)"
  shows "expired (tick (pk_deadline c) p)"
  using assms by (auto simp: tick_def expired_def secondsLeft_def)

lemma started_ok: "\<exists>q. page_steps cf p q \<and> pg_started q \<and> (pg_step p \<noteq> St_tx \<longrightarrow> pg_step q \<noteq> St_tx)"
proof (cases "pg_started p")
  case True
  then show ?thesis by (blast intro: page_steps.refl)
next
  case False
  have "pg_started (settle (mount cf 0 None p))" by (simp add: mount_def Let_def)
  moreover have "pg_step (settle (mount cf 0 None p)) \<in> {pg_step p, St_tap}" using mount_calls(3) by simp
  ultimately show ?thesis using step_steps [OF page_step.mounted [OF False, of cf 0 None]] by (metis insertE scan_step.distinct singletonD)
qed

lemma free_gate: "\<not> is_certified cf \<Longrightarrow> fields_ok cf p \<Longrightarrow> page_gate cf p = None"
  using fields_okD(2,3) [of cf p]
  by (auto simp: page_gate_def partnerWalletGate_def needsPartnerWallet_def page_tier_free roles)

text \<open>A button that starts a new session is shown, at the latest when the running one is over.\<close>

lemma can_restart:
  assumes "page_ok cf p" "pg_started p" "pg_busy p \<noteq> Some ''resume''" "\<not> is_certified cf" "pg_step p \<noteq> St_tx"
  shows "\<exists>q. page_steps cf p q \<and> pg_started q \<and> offered cf [] q Do_start"
proof (cases "pg_step p \<in> {St_session, St_done, St_dead}")
  case True
  have "fields_ok cf p" using assms(1) by (simp add: page_ok_iff)
  with True assms(3,4) have "offered cf [] p Do_start" by (auto simp: page_offers_iff view_presses free_gate)
  with assms(2) show ?thesis by (blast intro: page_steps.refl)
next
  case False
  have f: "fields_ok cf p" using assms(1) by (simp add: page_ok_iff)
  have t: "in_session (pg_step p)" "timedStep (pg_step p)"
    using False assms(5) by (cases "pg_step p"; simp add: in_session_def timedStep_def)+
  obtain c where c: "pg_clock p = Some c" "pg_session p \<noteq> None" using fields_okD(1,7) [OF f] t(1) by auto
  let ?q = "settle (tick (pk_deadline c) p)"
  have "expired ?q" using run_out [OF c t(2)] by simp
  then have "offered cf [] ?q Do_start" by (simp add: page_offers_iff view_presses)
  moreover have "pg_started ?q" using assms(2) by simp
  ultimately show ?thesis using step_steps [OF page_step.time] by blast
qed

section \<open>From the start to the end\<close>

definition sample_session :: page_session where
  "sample_session = \<lparr>st_expiresAt = 90, st_ttl = Some 90, st_issuedAt = Some 0, ps_nonce = ''0a''\<rparr>"

definition sample_tap :: tag_params where
  "sample_tap = \<lparr>tp_uid = ''04'', tp_ctr = ''000001'', tp_cmac = ''00'', tp_piccData = None, tp_enc = None\<rparr>"

definition valid_preview :: preview where
  "valid_preview = \<lparr>pv_verdict = ''VALID'', pv_counter = Some 1, pv_serial = None, pv_uidHash = None, pv_sealKind = None, pv_sealDead = None\<rparr>"

definition valid_result :: verify_result where
  "valid_result = \<lparr>vr_verdict = ''VALID'', vr_eventId = None, vr_resumeToken = None, vr_counter = Some 1, vr_grade = None, vr_serial = None,
     vr_msgHex = None, vr_bundle = None, vr_serverSig = None, vr_keyId = None\<rparr>"

definition in_tap :: "scan_config \<Rightarrow> 'w scan_page \<Rightarrow> bool" where
  "in_tap cf p \<longleftrightarrow> pg_started p \<and> pg_step p = St_tap \<and> \<not> expired p \<and> pg_txSig p = None"

lemma session_started:
  assumes "pg_started p" "offered cf [] p Do_start"
  shows "\<exists>q. page_steps cf p q \<and> in_tap cf q"
proof -
  let ?p = "settle (startSession cf p)"
  let ?q = "settle (session_answer cf 0 (Inr sample_session) (arrived F_session ?p))"
  have "page_step cf p ?p" using page_step.press [OF assms, of 0 False "Inr ()"] by simp
  moreover have "page_step cf ?p ?q"
    by (rule page_step.answer [of F_session]) (simp_all add: startSession_def with_flight_def answered.session)
  moreover have "in_tap cf ?q"
    using assms(1) by (simp add: in_tap_def session_answer_def adoptSession_def startSession_def with_flight_def arrived_def settle_def
      expired_def secondsLeft_def sessionClock_def sample_session_def session_times.truncate_def ARRIVAL_MARGIN_S_def timedStep_def Let_def)
  ultimately show ?thesis by (blast intro: page_steps.intros)
qed

lemma tapped:
  assumes "in_tap cf p"
  shows "\<exists>q. page_steps cf p q \<and> pg_started q \<and> pg_step q = St_preview \<and> \<not> expired q \<and> pg_txSig q = None \<and>
    pg_busy q = None \<and> pg_preview q = Some valid_preview \<and> pg_tag q \<noteq> None"
proof -
  let ?t = "tag_of sample_tap False None"
  let ?p = "settle (handoff_tap sample_tap p)"
  let ?q = "settle (preview_answer (Inr valid_preview) (arrived (F_preview ?t) ?p))"
  note defs = handoff_tap_def onTag_def with_flight_def
  have "page_step cf p ?p" using assms by (intro page_step.handed) (simp_all add: in_tap_def)
  moreover have "page_step cf ?p ?q"
    by (rule page_step.answer [of "F_preview ?t"]) (simp_all add: defs answered.preview)
  moreover have "pg_started ?q \<and> pg_step ?q = St_preview \<and> \<not> expired ?q \<and> pg_txSig ?q = None \<and> pg_busy ?q = None \<and>
      pg_preview ?q = Some valid_preview \<and> pg_tag ?q \<noteq> None"
    using assms by (auto simp: in_tap_def preview_answer_def valid_preview_def effectiveVerdict_def verdict_step_def defs arrived_def
      settle_def expired_def timedStep_def Let_def)
  ultimately show ?thesis by (blast intro: page_steps.intros)
qed

lemma signed_valid:
  assumes "pg_started p" "pg_step p = St_read" "\<not> expired p" "pg_busy p = None" "pg_tag p = Some t" "pg_session p = Some s"
    "pg_frames p = None" "page_gate cf p = None"
  shows "\<exists>q. page_steps cf p q \<and> pg_started q \<and> pg_step q = St_tx \<and> pg_txSig q = pg_txSig p \<and> pg_busy q = None \<and>
    pg_verify q = Some valid_result \<and> (\<exists>i. Posted_verify i \<in> set (pg_posts q))"
proof -
  define c where "c = \<lparr>vc_input = page_input cf t s p, vc_frames = None, vc_cached = pg_uploaded p\<rparr>"
  let ?q = "settle (requestSignature cf p)"
  have sign: "page_step cf p ?q"
    using page_step.press [of p cf "[]" Do_sign 0 False "Inr ()"] assms by (simp add: page_offers_iff view_presses)
  have q: "requestSignature cf p = with_flight (F_verify c) (p\<lparr>pg_busy := Some ''verify'', pg_error := None\<rparr>)"
    unfolding requestSignature_def assms(5-8) c_def by simp
  let ?r = "settle (verify_answer cf c (Inr ''ok'') (\<lambda>_. Inr valid_result) (arrived (F_verify c) ?q))"
  have c: "vc_frames c = None" by (simp add: c_def)
  have "page_step cf ?q ?r"
    by (rule page_step.answer [of "F_verify c"]) (simp_all add: q with_flight_def answered.verified)
  moreover have "pg_started ?r \<and> pg_step ?r = St_tx \<and> pg_txSig ?r = pg_txSig p \<and> pg_busy ?r = None \<and> pg_verify ?r = Some valid_result \<and>
      (\<exists>i. Posted_verify i \<in> set (pg_posts ?r))"
    using assms(1) by (auto simp: verify_answer_def c q with_flight_def signed_step_def valid_result_def arrived_def Let_def)
  ultimately show ?thesis using sign by (blast intro: page_steps.intros)
qed

lemma asked:
  assumes "page_reach cf p" "cf_resume cf = None" "\<not> is_certified cf" "pg_started p" "pg_step p = St_preview" "\<not> expired p"
    "pg_txSig p = None" "pg_busy p = None" "pg_preview p = Some valid_preview" "pg_tag p = Some t"
  shows "\<exists>q. page_steps cf p q \<and> pg_started q \<and> pg_step q = St_tx \<and> pg_txSig q = None \<and> pg_busy q = None \<and>
    pg_verify q = Some valid_result \<and> (\<exists>i. Posted_verify i \<in> set (pg_posts q))"
proof -
  let ?p = "settle (skipCamera p)"
  have skip: "page_step cf p ?p"
    using page_step.press [of p cf "[]" Do_skip 0 False "Inr ()"] assms by (simp add: page_offers_iff view_presses valid_preview_def)
  then have reach: "page_reach cf ?p" using assms(1) by (blast intro: steps_reach step_steps)
  have read: "pg_started ?p" "pg_step ?p = St_read" "\<not> expired ?p" "pg_busy ?p = None" "pg_tag ?p = Some t"
    "pg_frames ?p = None" "pg_txSig ?p = None"
    using assms by (simp_all add: skipCamera_def expired_def timedStep_def)
  have f: "fields_ok cf ?p" using reach_page_ok [OF assms(2) reach] by (simp add: page_ok_iff)
  obtain s where s: "pg_session ?p = Some s" using fields_okD(1) [OF f] read(2) by (auto simp: in_session_def)
  show ?thesis
    using signed_valid [OF read(1-5) s read(6) free_gate [OF assms(3) f]] steps_trans [OF step_steps [OF skip]] read(7) by metis
qed

text \<open>The wallets that may anchor the scan the page shows: the one it was signed for, or any.\<close>

definition wallet_fits :: "scan_config \<Rightarrow> 'w scan_page \<Rightarrow> pubkey \<Rightarrow> bool" where
  "wallet_fits cf p k \<longleftrightarrow> (case sg_pubkey (signedAttester (verify_bundle p)) of Some s \<Rightarrow> cf_base58 cf k = s | None \<Rightarrow> True)"

lemma press_anchors:
  assumes "wallet_fits cf p k" "pg_verify p = Some v" "sn_verify c = v" "sn_wallet c = k" "sn_resumed c = False"
  shows "\<exists>s. fst (anchorScan (cf_base58 cf) (send_deps pid c (sample_press (Inr ())))) = Anchored s"
proof -
  have m: "attesterMismatch (vr_bundle v) (cf_base58 cf k) = None"
    using assms(1,2) by (auto simp: wallet_fits_def verify_bundle_def attesterMismatch_def split: option.splits)
  have n: "set_text None = None" by (simp add: set_text_def)
  show ?thesis using assms m n
    by (cases "set_text (sn_txSig c)")
      (simp_all add: send_deps_def sample_press_def anchorScan_def needsOwnScanConfirmation_def new_sig_def anchorPlan_def
        scanProofAttester_def confirmed_sig_def)
qed

lemma anchored:
  assumes "cf_programId cf = Some pid" "pg_started p" "pg_step p = St_tx" "pg_busy p = None" "pg_verify p = Some v"
    "\<not> pg_resumedScan p" "wallet_fits cf p k"
  shows "\<exists>q. page_steps cf p q \<and> pg_step q = St_done \<and> pg_txSig q \<noteq> None"
proof -
  let ?p = "p\<lparr>pg_wallet := Some k, pg_injected := True\<rparr>"
  let ?c = "\<lparr>sn_verify = v, sn_wallet = k, sn_txSig = pg_txSig p, sn_resumed = False, sn_ownScan = pg_ownScan p,
    sn_tier = txTier cf ?p, sn_role = txRole ?p\<rparr>"
  let ?q = "settle (sendTx cf ?p)"
  let ?r = "settle (send_answer cf ?c (sample_press (Inr ())) (arrived (F_send ?c) ?q))"
  have w: "page_step cf p ?p" by (rule page_step.wallet)
  have "offered cf [] ?p Do_send"
    using assms by (simp add: page_offers_iff view_presses ownScanNeeded_def needsOwnScanConfirmation_def)
  then have q: "page_step cf ?p ?q"
    using page_step.press [of ?p cf "[]" Do_send 0 False "Inr ()"] assms(2) by simp
  have "F_send ?c \<in> set (pg_flights ?q)" using assms(5,6) by (simp add: sendTx_def with_flight_def Let_def)
  then have r: "page_step cf ?q ?r" by (rule page_step.answer) (rule answered.sent)
  obtain s where "fst (anchorScan (cf_base58 cf) (send_deps pid ?c (sample_press (Inr ())))) = Anchored s"
    using press_anchors [OF assms(7,5), of ?c pid] by (metis send_call.select_convs(1,2,4))
  then have "pg_step ?r = St_done \<and> pg_txSig ?r = Some s" by (simp add: send_answer_def assms(1))
  then show ?thesis using steps_trans [OF steps_trans [OF step_steps [OF w] step_steps [OF q]] step_steps [OF r]] by blast
qed

lemma restart_and_ask:
  assumes "page_reach cf p" "cf_resume cf = None" "\<not> is_certified cf" "pg_step p \<noteq> St_tx"
  shows "\<exists>q. page_steps cf p q \<and> pg_started q \<and> pg_step q = St_tx \<and> pg_txSig q = None \<and> pg_busy q = None \<and>
    pg_verify q = Some valid_result \<and> (\<exists>i. Posted_verify i \<in> set (pg_posts q))"
proof -
  obtain a where a: "page_steps cf p a" "pg_started a" "pg_step a \<noteq> St_tx" using started_ok [of cf p] assms(4) by blast
  have ra: "page_reach cf a" using steps_reach [OF assms(1) a(1)] .
  obtain b where b: "page_steps cf a b" "pg_started b" "offered cf [] b Do_start"
    using can_restart [OF reach_page_ok [OF assms(2) ra] a(2) reach_busy [OF assms(2) ra] assms(3) a(3)] by blast
  obtain c where c: "page_steps cf b c" "in_tap cf c" using session_started [OF b(2,3)] by blast
  obtain d t where d: "page_steps cf c d" "pg_started d" "pg_step d = St_preview" "\<not> expired d" "pg_txSig d = None"
    "pg_busy d = None" "pg_preview d = Some valid_preview" "pg_tag d = Some t" using tapped [OF c(2)] by blast
  have rd: "page_reach cf d" using steps_reach ra b(1) c(1) d(1) by blast
  show ?thesis
    using asked [OF rd assms(2,3) d(2-8)] steps_trans [OF a(1) steps_trans [OF b(1) steps_trans [OF c(1) d(1)]]] steps_trans by metis
qed

lemma restart_and_finish:
  assumes "page_reach cf p" "cf_resume cf = None" "\<not> is_certified cf" "cf_programId cf \<noteq> None" "pg_step p \<noteq> St_tx"
  shows "\<exists>q. page_steps cf p q \<and> pg_step q = St_done \<and> pg_txSig q \<noteq> None"
proof -
  obtain e where e: "page_steps cf p e" "pg_started e" "pg_step e = St_tx" "pg_txSig e = None" "pg_busy e = None"
    "pg_verify e = Some valid_result" using restart_and_ask [OF assms(1-3,5)] by blast
  have re: "page_reach cf e" using steps_reach [OF assms(1) e(1)] .
  have "\<not> pg_resumedScan e" using reach_page_ok [OF assms(2) re] by (simp add: page_ok_iff fields_ok_def)
  moreover have "wallet_fits cf e []"
    using e(6) by (simp add: wallet_fits_def verify_bundle_def valid_result_def signedAttester_def set_text_def)
  ultimately obtain f where "page_steps cf e f" "pg_step f = St_done" "pg_txSig f \<noteq> None"
    using assms(4) anchored [OF _ e(2,3,5,6)] by blast
  then show ?thesis using steps_trans [OF e(1)] by blast
qed

section \<open>From the anchor step\<close>

text \<open>Some answer ends the wait of a busy anchor step: the page is done, or it waits for nothing and shows the same scan.\<close>

definition at_anchor :: "verify_result \<Rightarrow> 'w scan_page \<Rightarrow> bool" where
  "at_anchor v p \<longleftrightarrow> pg_started p \<and> pg_step p = St_tx \<and> pg_busy p = None \<and> pg_verify p = Some v"

definition at_end :: "'w scan_page \<Rightarrow> bool" where
  "at_end p \<longleftrightarrow> pg_step p = St_done \<and> pg_txSig p \<noteq> None"

lemma wait_over:
  assumes "ends_wait f" "flight_ok cf p f" "pg_started p" "pg_step p = St_tx" "pg_verify p = Some v" "cf_programId cf \<noteq> None"
  shows "\<exists>q. answered cf f (arrived f p) q \<and> (at_end (settle q) \<or> at_anchor v (settle q))"
proof -
  let ?p = "arrived f p" and ?e = "OtherErr ''Error'' ''offline''"
  note defs = at_anchor_def at_end_def answer_defs arrived_def
  show ?thesis
  proof (cases f)
    case (F_preview t)
    then show ?thesis using assms answered.preview [of cf t ?p "Inl ?e"] by (intro exI conjI) (auto simp: defs)
  next
    case (F_sim t)
    then show ?thesis using assms answered.sim [of cf t ?p "Inl ?e"] by (intro exI conjI) (auto simp: defs)
  next
    case (F_capture n)
    then show ?thesis using assms answered.capture [of cf n ?p "Inl ?e"] by (intro exI conjI) (auto simp: defs)
  next
    case (F_reading n)
    then show ?thesis using assms answered.reading [of cf n ?p "Inl ?e"] by (intro exI conjI) (auto simp: defs)
  next
    case (F_verify c)
    have "at_anchor v (settle (verify_answer cf c (Inl ?e) (\<lambda>_. Inl ?e) ?p))"
      using assms by (auto simp: defs Let_def split: option.split sum.split)
    then show ?thesis using F_verify answered.verified [of cf c ?p "Inl ?e" "\<lambda>_. Inl ?e"] by blast
  next
    case (F_send c)
    have "at_end (settle (send_answer cf c (sample_press (Inr ())) ?p)) \<or> at_anchor v (settle (send_answer cf c (sample_press (Inr ())) ?p))"
      using assms by (auto simp: defs split: option.splits anchor_outcome.splits)
    then show ?thesis using F_send answered.sent by blast
  next
    case (F_report c)
    have "at_anchor v (settle (report_answer cf 0 c (Inl ?e) (Inl ?e) ?p))"
      using assms by (cases "rp_session c") (simp_all add: defs Let_def)
    then show ?thesis using F_report answered.reported [of cf c ?p 0 "Inl ?e" "Inl ?e"] by blast
  next
    case F_airdrop
    then show ?thesis using assms answered.dropped [of cf ?p "Inr ()"] by (intro exI conjI) (auto simp: defs)
  qed (use assms(1,2) in \<open>auto simp: ends_wait_def flight_ok_def\<close>)
qed

lemma started_tx: "\<exists>q. page_steps cf p q \<and> pg_started q \<and> pg_step q \<in> {pg_step p, St_tap} \<and> pg_verify q = pg_verify p"
proof (cases "pg_started p")
  case True
  then show ?thesis by (blast intro: page_steps.refl)
next
  case False
  let ?q = "settle (mount cf 0 None p)"
  have "pg_started ?q \<and> pg_step ?q \<in> {pg_step p, St_tap} \<and> pg_verify ?q = pg_verify p"
    using mount_calls(3,4) [of cf 0 None p] by (simp add: mount_def Let_def)
  then show ?thesis using step_steps [OF page_step.mounted [OF False, of cf 0 None]] by blast
qed

lemma finish_anchor_step:
  assumes "page_reach cf p" "cf_resume cf = None" "cf_programId cf = Some pid" "pg_started p" "pg_step p = St_tx" "wallet_fits cf p k"
  shows "\<exists>q. page_steps cf p q \<and> at_end q"
proof -
  obtain v where v: "pg_verify p = Some v" using reach_anchor_ok [OF assms(1)] assms(5) by (auto simp: anchor_ok_def tx_valid_def)
  have ready: "\<exists>q. page_steps cf r q \<and> at_end q" if "page_reach cf r" "at_anchor v r" for r
  proof -
    have "\<not> pg_resumedScan r" using reach_page_ok [OF assms(2) that(1)] by (simp add: page_ok_iff fields_ok_def)
    moreover have "wallet_fits cf r k" using assms(6) v that(2) by (simp add: wallet_fits_def verify_bundle_def at_anchor_def)
    ultimately show ?thesis using anchored [OF assms(3), of r v k] that(2) by (auto simp: at_anchor_def at_end_def)
  qed
  show ?thesis
  proof (cases "pg_busy p = None")
    case True
    then show ?thesis using ready [OF assms(1)] assms(4,5) v by (simp add: at_anchor_def)
  next
    case False
    then obtain f where f: "f \<in> set (pg_flights p)" "ends_wait f"
      using reach_waits [OF assms(2,1)] by (auto simp: busy_waits_def)
    have "flight_ok cf p f" using reach_page_ok [OF assms(2,1)] f(1) by (simp add: page_ok_iff)
    then obtain q where q: "answered cf f (arrived f p) q" "at_end (settle q) \<or> at_anchor v (settle q)"
      using wait_over [OF f(2) _ assms(4,5) v] assms(3) by auto
    have s: "page_steps cf p (settle q)" by (rule step_steps [OF page_step.answer [OF f(1) q(1)]])
    then show ?thesis using q(2) ready [OF steps_reach [OF assms(1) s]] steps_trans by blast
  qed
qed

section \<open>The page's properties\<close>

text \<open>C25: In every reachable state of the scan page, whatever answers came in whatever order, the anchor step shows a
  scan the verifier found VALID, and every press on "Sign and send" so far was for such a scan, with the user's
  word that it is his own whenever it came from a link and was signed for no wallet.\<close>

theorem anchor_step_safe:
  assumes "page_reach cf p"
  shows "(if pg_step p = St_tx then map_option vr_verdict (pg_verify p) = Some ''VALID'' else True) \<and>
    list_all (\<lambda>q. case q of Pressed_send c \<Rightarrow> vr_verdict (sn_verify c) = ''VALID'' \<and>
        (needsOwnScanConfirmation (sn_resumed c) (vr_bundle (sn_verify c)) \<le> sn_ownScan c)
      | _ \<Rightarrow> True) (pg_posts p)"
  using reach_anchor_ok [OF assms]
  by (auto simp: anchor_ok_def tx_valid_def send_ok_def list_all_iff split: page_post.split)

text \<open>C27: A page that was not opened through a resume link only ever asks for scans the flacon program accepts as far as the
  page decides: with the role, tier and fill level of any request it posts and no site, \<open>check_fields\<close> never refuses role,
  tier or fill level, and refuses the attester exactly when the scan is a certified one and he is no registered partner; and a
  request of the pro tier or role names the wallet that is to anchor it.\<close>

theorem scan_requests_admissible:
  assumes "page_reach cf p" "cf_resume cf = None" "Posted_verify i \<in> set (pg_posts p)"
    "sa_role a = word_of_int (vi_role i)" "sa_tier a = word_of_int (vi_tier i)" "sa_fill a = word_of_int (vi_fill i)" "sa_site_id a = 0"
  shows "check_fields r w a \<notin> {Inl InvalidRole, Inl InvalidTier, Inl TierNotAllowedForRole, Inl InvalidFill} \<and>
    (check_fields r w a = Inl NotPartner) = (is_certified cf \<and> \<not> is_partner r w) \<and>
    (vi_attester i \<noteq> None \<or> \<not> is_certified cf)"
proof -
  have ok: "request_ok cf i (vi_mediaHash i \<noteq> None)"
    using reach_page_ok [OF assms(2,1)] assms(3) by (auto simp: page_ok_iff post_ok_def)
  have "0 \<le> vi_fill i" "vi_fill i \<le> 100" using ok by (simp_all add: request_ok_def)
  then have "uint (sa_fill a) \<le> 100" unfolding assms(6) by (simp add: uint_word_of_int)
  then have fill: "sa_fill a \<le> 100" by (simp add: word_le_def)
  show ?thesis
  proof (cases "is_certified cf")
    case True
    then have t: "js_floor (cf_qTier cf) = 3 \<or> js_floor (cf_qTier cf) = 4"
      by (auto simp: is_certified_def)
    with ok True have "vi_role i = 3 \<or> vi_role i = 4" "vi_tier i = 3 \<or> vi_tier i = 4" "vi_attester i \<noteq> None"
      by (auto simp: request_ok_def roles needsPartnerWallet_def)
    moreover from this have "sa_role a = 3 \<or> sa_role a = 4" "sa_role a \<le> 4" "sa_tier a \<le> 4" unfolding assms(4,5) by auto
    ultimately show ?thesis using check_fields_front [of a r w] fill assms(7) True by blast
  next
    case False
    with ok have "vi_role i \<in> {0, 1, 2}" "vi_tier i \<in> {1, 2}" by (auto simp: request_ok_def roles)
    then have "sa_role a \<in> {0, 1, 2}" "sa_tier a \<in> {1, 2}" unfolding assms(4,5) by auto
    then have "\<not> (sa_role a = 3 \<or> sa_role a = 4)" "sa_role a \<le> 4" "sa_tier a \<le> 4" "sa_tier a \<le> 2" "\<not> sa_tier a \<ge> 3" by (auto simp: word_le_nat_alt)
    then show ?thesis using check_fields_front [of a r w] fill assms(7) False by blast
  qed
qed

text \<open>C26: The scan page never gets stuck, in a build that names a program: from every page that was not opened through a resume
  link, whatever has failed before, a free scan can be carried to its anchored end with buttons the page offers, answers that
  may come and enough time. This includes the page a failed, refused or unconfirmed transaction left at the anchor step, as
  long as the wallet that scan was signed for, if it was signed for one, can be connected.\<close>

theorem scan_can_finish:
  assumes "page_reach cf p" "cf_resume cf = None" "\<not> is_certified cf" "cf_programId cf \<noteq> None"
    "pg_step p = St_tx \<Longrightarrow> \<exists>k. wallet_fits cf p k"
  shows "\<exists>q. page_steps cf p q \<and> pg_step q = St_done \<and> pg_txSig q \<noteq> None"
proof (cases "pg_step p = St_tx")
  case False
  then show ?thesis using restart_and_finish [OF assms(1-4)] by blast
next
  case True
  obtain k where k: "wallet_fits cf p k" using assms(5) True by blast
  obtain q where q: "page_steps cf p q" "pg_started q" "pg_step q \<in> {St_tx, St_tap}" "pg_verify q = pg_verify p"
    using started_tx [of cf p] True by auto
  have r: "page_reach cf q" by (rule steps_reach [OF assms(1) q(1)])
  have "wallet_fits cf q k" using k q(4) by (simp add: wallet_fits_def verify_bundle_def)
  then have "\<exists>r. page_steps cf q r \<and> at_end r"
    using finish_anchor_step [OF r assms(2) _ q(2)] restart_and_finish [OF r assms(2-4)] q(3) assms(4) by (auto simp: at_end_def)
  then show ?thesis using steps_trans [OF q(1)] by (auto simp: at_end_def)
qed

section \<open>A page that was reached\<close>

definition demo_config :: scan_config where
  "demo_config = \<lparr>cf_qRole = jn 0, cf_qTier = jn 0, cf_qSite = jn 0, cf_hasTier = False, cf_resume = None, cf_adopt = None,
     cf_scanUrl = ''/scan'', cf_origin = ''https://flacon.example'', cf_platform = ''web'', cf_ios = False, cf_walletConnect = False,
     cf_programId = Some [2], cf_demo = False, cf_serverSim = False, cf_base58 = (\<lambda>_. ''w''), cf_sha256 = (\<lambda>b. b)\<rparr>"

lemma initial_reach: "page_reach cf (initial_page cf stored)"
  by (auto simp: page_reach_def intro: page_steps.refl)

lemma demo_free [simp]: "\<not> is_certified demo_config" "cf_resume demo_config = None" "cf_programId demo_config = Some [2]"
  by (simp_all add: demo_config_def is_certified_def)

theorem scan_can_finish_witness:
  "\<exists>q. page_steps demo_config (initial_page demo_config None :: nat scan_page) q \<and> pg_step q = St_done \<and> pg_txSig q \<noteq> None"
  by (rule scan_can_finish [OF initial_reach]) (simp_all add: initial_page_def)

lemma demo_asked:
  "\<exists>q i. page_reach demo_config (q :: nat scan_page) \<and> pg_step q = St_tx \<and> Posted_verify i \<in> set (pg_posts q)"
  using restart_and_ask [of demo_config "initial_page demo_config None"] initial_reach steps_reach
  by (fastforce simp: initial_page_def)

theorem anchor_step_safe_witness:
  "\<exists>q. page_reach demo_config (q :: nat scan_page) \<and> pg_step q = St_tx \<and> map_option vr_verdict (pg_verify q) = Some ''VALID''"
proof -
  obtain q :: "nat scan_page" where q: "page_reach demo_config q" "pg_step q = St_tx" using demo_asked by blast
  with anchor_step_safe [OF q(1)] show ?thesis by auto
qed

definition asked_args :: "verify_input \<Rightarrow> scan_args" where
  "asked_args i = \<lparr>sa_counter = 1, sa_tier = word_of_int (vi_tier i), sa_role = word_of_int (vi_role i), sa_tamper = 0, sa_uv = 3,
     sa_hum = 3, sa_heat = 3, sa_heat_levels = 0, sa_fill = word_of_int (vi_fill i), sa_site_id = 0, sa_media_hash = [],
     sa_bundle_hash = [], sa_nonce = [], sa_ts = 0, sa_server_key_id = 0\<rparr>"

theorem scan_requests_admissible_witness:
  "\<exists>(q :: nat scan_page) i. page_reach demo_config q \<and> Posted_verify i \<in> set (pg_posts q) \<and>
     check_fields \<lparr>rg_authority = [], rg_server_keys = [], rg_partners = [], rg_sites = []\<rparr> [1] (asked_args i) \<noteq> Inl NotPartner"
proof -
  obtain q :: "nat scan_page" and i where q: "page_reach demo_config q" "Posted_verify i \<in> set (pg_posts q)" using demo_asked by blast
  have "check_fields \<lparr>rg_authority = [], rg_server_keys = [], rg_partners = [], rg_sites = []\<rparr> [1] (asked_args i) \<noteq> Inl NotPartner"
    using scan_requests_admissible [OF q(1) _ q(2), of "asked_args i"] by (simp add: asked_args_def)
  with q show ?thesis by blast
qed

section \<open>When a new session is refused\<close>

text \<open>\<open>startSession\<close> forgets the scan before it has a session, and the step stays where it was.\<close>

definition refused_restart :: "scan_config \<Rightarrow> rat \<Rightarrow> js_error \<Rightarrow> 'w scan_page \<Rightarrow> 'w scan_page" where
  "refused_restart cf now e p = settle (session_answer cf now (Inl e) (arrived F_session (settle (startSession cf p))))"

lemmas restart_defs = refused_restart_def session_answer_def arrived_def startSession_def with_flight_def settle_def

text \<open>When the verifier refuses the new session asked for at the end of an anchored scan, the page claims that a report of a
  dead seal was recorded, though it posted none.\<close>

theorem refused_restart_claims_report:
  assumes "page_reach cf p" "pg_step p = St_done" "offered cf tags p Do_start"
  shows "Heading 7 DEAD_REPORT_TITLE [] \<in> set (page_view cf tags (refused_restart cf now e p)) \<and>
    pg_posts (refused_restart cf now e p) = pg_posts p"
proof -
  have "Heading 7 DEAD_REPORT_TITLE [] \<in> set (done_view (refused_restart cf now e p))"
    using assms(2) by (simp add: restart_defs done_view_def shown_if_def set_text_def)
  moreover have "pg_posts (refused_restart cf now e p) = pg_posts p" by (simp add: restart_defs)
  ultimately show ?thesis by (simp add: page_view_def)
qed

text \<open>A scan from a resume link that was not found VALID has no session: after a refused restart no button is left.\<close>

theorem refused_restart_leaves_nothing:
  assumes "pg_step p = St_verify" "pg_session p = None"
  shows "\<not> offered cf tags (refused_restart cf now e p) a"
  using assms by (simp add: page_offers_iff view_presses restart_defs expired_def)

end
