(* ===== verification/Script_Core.thy ===== *)
theory Script_Core
  imports Script_Cli Escrow_Client Escrow_Program
begin

text \<open>
  \<open>scripts/lib/core.ts\<close> and \<open>scripts/lib/spl.ts\<close>: Metaplex Core and SPL Token instructions built by hand, their readers,
  and the small transactions around them; the escrow program's own Core transfer (\<open>mpl_core.rs\<close>). A script is a run: what
  it sent so far, with its error or result.
\<close>

section \<open>Runs\<close>

type_synonym ('l, 'e, 'a) run = "'l list \<times> ('e + 'a)"

definition give :: "'a \<Rightarrow> ('l, 'e, 'a) run" where
  "give x = ([], Inr x)"

definition refuse :: "'e \<Rightarrow> ('l, 'e, 'a) run" where
  "refuse e = ([], Inl e)"

definition andThen :: "('l, 'e, 'a) run \<Rightarrow> ('a \<Rightarrow> ('l, 'e, 'b) run) \<Rightarrow> ('l, 'e, 'b) run" where
  "andThen r f = (case snd r of Inl e \<Rightarrow> (fst r, Inl e) | Inr x \<Rightarrow> (fst r @ fst (f x), snd (f x)))"

definition check :: "bool \<Rightarrow> 'e \<Rightarrow> ('l, 'e, unit) run" where
  "check b e = (if b then give () else refuse e)"

definition attempt :: "('f \<Rightarrow> 'e) \<Rightarrow> 'f + 'a \<Rightarrow> ('l, 'e, 'a) run" where
  "attempt g r = ([], case r of Inl f \<Rightarrow> Inl (g f) | Inr x \<Rightarrow> Inr x)"

text \<open>Something sent; it is in the log whether or not it is answered.\<close>

definition sent :: "('f \<Rightarrow> 'e) \<Rightarrow> 'l \<Rightarrow> 'f + 'a \<Rightarrow> ('l, 'e, 'a) run" where
  "sent g l r = ([l], case r of Inl f \<Rightarrow> Inl (g f) | Inr x \<Rightarrow> Inr x)"

lemma run_simps [simp]:
  "andThen (give x) f = f x" "andThen (refuse e) f = refuse e"
  "snd (give x) = Inr x" "snd (refuse e) = Inl e" "fst (give x) = []" "fst (refuse e) = []"
  "check True e = give ()" "check False e = refuse e"
  "attempt g (Inl f') = refuse (g f')" "attempt g (Inr x) = give x"
  by (simp_all add: give_def refuse_def andThen_def check_def attempt_def)

lemma andThen_sent [simp]:
  "andThen (sent g l (Inl f')) k = ([l], Inl (g f'))"
  "andThen (sent g l (Inr x)) k = (l # fst (k x), snd (k x))"
  by (simp_all add: andThen_def sent_def)

lemma snd_andThen: "snd (andThen r f) = Inr y \<longleftrightarrow> (\<exists>x. snd r = Inr x \<and> snd (f x) = Inr y)"
  by (auto simp: andThen_def split: sum.splits)

lemma fst_andThen: "fst (andThen r f) = fst r @ (case snd r of Inl e \<Rightarrow> [] | Inr x \<Rightarrow> fst (f x))"
  by (auto simp: andThen_def split: sum.splits)

section \<open>Instructions\<close>

record account_meta =
  am_pubkey :: pubkey
  am_signer :: bool
  am_writable :: bool

record raw_ix =
  rx_program :: pubkey
  rx_keys :: "account_meta list"
  rx_data :: bytes

definition meta :: "pubkey \<Rightarrow> bool \<Rightarrow> bool \<Rightarrow> account_meta" where
  "meta k s w = \<lparr>am_pubkey = k, am_signer = s, am_writable = w\<rparr>"

text \<open>An absent optional account of Metaplex Core.\<close>

definition core_none :: account_meta where
  "core_none = meta MPL_CORE_PROGRAM_ID False False"

definition KEY_ASSET_V1 :: byte where "KEY_ASSET_V1 = 1"
definition UPDATE_AUTHORITY_COLLECTION :: byte where "UPDATE_AUTHORITY_COLLECTION = 2"

text \<open>\<open>writeUInt32LE\<close>: the length of a text fits whenever the text does.\<close>

definition borshString :: "string \<Rightarrow> bytes" where
  "borshString s = le_bytes 4 (length (utf8 s)) @ utf8 s"

definition createCoreAssetIx :: "pubkey \<Rightarrow> pubkey \<Rightarrow> pubkey \<Rightarrow> pubkey option \<Rightarrow> string \<Rightarrow> string \<Rightarrow> raw_ix" where
  "createCoreAssetIx sys asset payer owner name uri =
    \<lparr>rx_program = MPL_CORE_PROGRAM_ID,
     rx_keys = [meta asset True True, core_none, core_none, meta payer True True,
       (case owner of Some k \<Rightarrow> meta k False False | None \<Rightarrow> core_none), core_none, meta sys False False, core_none],
     rx_data = [0, 0] @ borshString name @ borshString uri @ [0]\<rparr>"

definition transferCoreAssetIx :: "pubkey \<Rightarrow> pubkey \<Rightarrow> pubkey \<Rightarrow> pubkey \<Rightarrow> pubkey \<Rightarrow> raw_ix" where
  "transferCoreAssetIx sys asset payer owner newOwner =
    \<lparr>rx_program = MPL_CORE_PROGRAM_ID,
     rx_keys = [meta asset False True, core_none, meta payer True True, meta owner True False, meta newOwner False False,
       meta sys False False, core_none],
     rx_data = [14, 0]\<rparr>"

definition burnCoreAssetIx :: "pubkey \<Rightarrow> pubkey \<Rightarrow> pubkey \<Rightarrow> pubkey \<Rightarrow> raw_ix" where
  "burnCoreAssetIx sys asset payer owner =
    \<lparr>rx_program = MPL_CORE_PROGRAM_ID,
     rx_keys = [meta asset False True, core_none, meta payer True True, meta owner True False, meta sys False False, core_none],
     rx_data = [12, 0]\<rparr>"

definition parseCoreAsset :: "account_info option \<Rightarrow> core_asset_info option" where
  "parseCoreAsset info = (case info of
     None \<Rightarrow> None
   | Some i \<Rightarrow>
       if ai_owner i \<noteq> MPL_CORE_PROGRAM_ID \<or> length (ai_data i) < 34 \<or> ai_data i ! 0 \<noteq> KEY_ASSET_V1 then None
       else Some \<lparr>cx_owner = slice 1 33 (ai_data i), cx_inCollection = (ai_data i ! 33 = UPDATE_AUTHORITY_COLLECTION)\<rparr>)"

lemma parseCoreAsset_None [simp]: "parseCoreAsset None = None"
  by (simp add: parseCoreAsset_def)

definition scriptFetchCoreAsset :: "(pubkey \<Rightarrow> account_info option) \<Rightarrow> pubkey \<Rightarrow> core_asset_info option" where
  "scriptFetchCoreAsset getAccountInfo asset = parseCoreAsset (getAccountInfo asset)"

text \<open>The escrow program's call: \<open>transfer_v1\<close> of \<open>mpl_core.rs\<close>, up to the invocation.\<close>

record core_transfer =
  ct_asset :: pubkey
  ct_asset_program :: pubkey
  ct_payer :: pubkey
  ct_authority :: pubkey
  ct_new_owner :: pubkey
  ct_system :: pubkey
  ct_core_program :: pubkey

definition TRANSFER_V1_DISCRIMINATOR :: byte where "TRANSFER_V1_DISCRIMINATOR = 14"

definition core_transfer_ix :: "core_transfer \<Rightarrow> escrow_error + raw_ix" where
  "core_transfer_ix t =
    bindE (guardE (ct_core_program t = MPL_CORE_PROGRAM_ID) InvalidCoreProgram) (\<lambda>_.
    bindE (guardE (ct_asset_program t = MPL_CORE_PROGRAM_ID) InvalidAsset) (\<lambda>_.
    Inr \<lparr>rx_program = MPL_CORE_PROGRAM_ID,
         rx_keys = [meta (ct_asset t) False True, meta MPL_CORE_PROGRAM_ID False False, meta (ct_payer t) True True,
           meta (ct_authority t) True False, meta (ct_new_owner t) False False, meta (ct_system t) False False,
           meta MPL_CORE_PROGRAM_ID False False],
         rx_data = [TRANSFER_V1_DISCRIMINATOR, 0]\<rparr>))"

section \<open>SPL Token\<close>

definition MINT_SIZE :: nat where "MINT_SIZE = 82"
definition USDC_DECIMALS :: byte where "USDC_DECIMALS = 6"

text \<open>\<open>writeBigUInt64LE\<close> throws outside its range.\<close>

datatype spl_error = U64Range int | SplThrown thrown

definition u64le :: "int \<Rightarrow> spl_error + bytes" where
  "u64le n = (if n < 0 \<or> 2 ^ 64 \<le> n then Inl (U64Range n) else Inr (le_bytes 8 (nat n)))"

text \<open>The associated token program's address.\<close>

definition ASSOCIATED_TOKEN_PROGRAM_ID :: string where
  "ASSOCIATED_TOKEN_PROGRAM_ID = ''ATokenGPvbdGVxr1b2hvZbsiqW5xWH25efTNsLJA8knL''"

definition ataAddress :: "(bytes list \<Rightarrow> pubkey \<Rightarrow> pubkey) \<Rightarrow> pubkey \<Rightarrow> pubkey \<Rightarrow> pubkey \<Rightarrow> pubkey \<Rightarrow> pubkey" where
  "ataAddress find_pda token ata_program owner mint = find_pda [owner, token, mint] ata_program"

text \<open>A transaction of the scripts: the instructions of other programs, or a created account, with its signers.\<close>

datatype spl_ix = CreateAccount pubkey pubkey nat int pubkey | RawIx raw_ix | Lamports pubkey pubkey int

record spl_tx =
  sx_ixs :: "spl_ix list"
  sx_signers :: "pubkey list"

definition initializeMint2 :: "byte \<Rightarrow> pubkey \<Rightarrow> bytes" where
  "initializeMint2 decimals authority = [20, decimals] @ authority @ [0]"

definition createMint ::
  "(spl_tx \<Rightarrow> thrown + string) \<Rightarrow> pubkey \<Rightarrow> pubkey \<Rightarrow> pubkey \<Rightarrow> thrown + int \<Rightarrow> pubkey \<Rightarrow> byte \<Rightarrow> (spl_tx, spl_error, pubkey) run" where
  "createMint send token mint payer rent authority decimals =
    andThen (attempt SplThrown rent) (\<lambda>lamports.
    let tx = \<lparr>sx_ixs = [CreateAccount payer mint MINT_SIZE lamports token,
                RawIx \<lparr>rx_program = token, rx_keys = [meta mint False True], rx_data = initializeMint2 decimals authority\<rparr>],
              sx_signers = [payer, mint]\<rparr>
    in andThen (sent SplThrown tx (send tx)) (\<lambda>_. give mint))"

definition createAtaIdempotentIx :: "chain_lib \<Rightarrow> pubkey \<Rightarrow> pubkey \<Rightarrow> pubkey \<Rightarrow> pubkey \<Rightarrow> raw_ix" where
  "createAtaIdempotentIx L ata_program payer owner mint =
    \<lparr>rx_program = ata_program,
     rx_keys = [meta payer True True, meta (ataAddress (cl_find L) (cl_token L) ata_program owner mint) False True,
       meta owner False False, meta mint False False, meta (cl_system L) False False, meta (cl_token L) False False],
     rx_data = [1]\<rparr>"

definition ensureAta ::
  "(spl_tx \<Rightarrow> thrown + string) \<Rightarrow> (pubkey \<Rightarrow> thrown + account_info option) \<Rightarrow> chain_lib \<Rightarrow> pubkey \<Rightarrow> pubkey \<Rightarrow> pubkey \<Rightarrow> pubkey \<Rightarrow>
   (spl_tx, spl_error, pubkey) run" where
  "ensureAta send get L ata_program payer owner mint =
    (let a = ataAddress (cl_find L) (cl_token L) ata_program owner mint;
         tx = \<lparr>sx_ixs = [RawIx (createAtaIdempotentIx L ata_program payer owner mint)], sx_signers = [payer]\<rparr>
     in andThen (attempt SplThrown (get a)) (\<lambda>info.
        if info = None then andThen (sent SplThrown tx (send tx)) (\<lambda>_. give a) else give a))"

definition mintToIx :: "pubkey \<Rightarrow> pubkey \<Rightarrow> pubkey \<Rightarrow> pubkey \<Rightarrow> int \<Rightarrow> spl_error + raw_ix" where
  "mintToIx token mint dest authority amount = bindE (u64le amount) (\<lambda>b.
    Inr \<lparr>rx_program = token, rx_keys = [meta mint False True, meta dest False True, meta authority True False], rx_data = 7 # b\<rparr>)"

definition mintTo ::
  "(spl_tx \<Rightarrow> thrown + string) \<Rightarrow> pubkey \<Rightarrow> pubkey \<Rightarrow> pubkey \<Rightarrow> pubkey \<Rightarrow> pubkey \<Rightarrow> int \<Rightarrow> (spl_tx, spl_error, unit) run" where
  "mintTo send token payer mint dest authority amount =
    andThen (attempt id (mintToIx token mint dest authority amount)) (\<lambda>ix.
    let tx = \<lparr>sx_ixs = [RawIx ix], sx_signers = (if authority = payer then [payer] else [payer, authority])\<rparr>
    in andThen (sent SplThrown tx (send tx)) (\<lambda>_. give ()))"

definition transferIx :: "pubkey \<Rightarrow> pubkey \<Rightarrow> pubkey \<Rightarrow> pubkey \<Rightarrow> int \<Rightarrow> spl_error + raw_ix" where
  "transferIx token source dest owner amount = bindE (u64le amount) (\<lambda>b.
    Inr \<lparr>rx_program = token, rx_keys = [meta source False True, meta dest False True, meta owner True False], rx_data = 3 # b\<rparr>)"

text \<open>\<open>getTokenAccountBalance\<close> throws when there is no account; the amount is a decimal text.\<close>

definition tokenBalance :: "thrown + string \<Rightarrow> int" where
  "tokenBalance r = (case r of Inl e \<Rightarrow> 0 | Inr a \<Rightarrow> if a \<noteq> [] \<and> list_all is_digit a then int (read_nat a) else 0)"

definition le_value :: "bytes \<Rightarrow> nat" where
  "le_value b = foldr (\<lambda>x v. unat x + 256 * v) b 0"

definition mintAuthority :: "account_info option \<Rightarrow> pubkey option" where
  "mintAuthority info = (case info of
     None \<Rightarrow> None
   | Some i \<Rightarrow> if length (ai_data i) < 36 then None
       else if le_value (slice 0 4 (ai_data i)) = 1 then Some (slice 4 36 (ai_data i)) else None)"

section \<open>Facts\<close>

text \<open>The transfer instruction the scripts build is, account by account and byte by byte, the one the escrow program
  invokes for the same parties; the program checks that both the Core program and the asset's owner program are Metaplex
  Core.\<close>

theorem core_transfer_agrees:
  "core_transfer_ix t =
    (if ct_core_program t \<noteq> MPL_CORE_PROGRAM_ID then Inl InvalidCoreProgram
     else if ct_asset_program t \<noteq> MPL_CORE_PROGRAM_ID then Inl InvalidAsset
     else Inr (transferCoreAssetIx (ct_system t) (ct_asset t) (ct_payer t) (ct_authority t) (ct_new_owner t)))"
  by (simp add: core_transfer_ix_def transferCoreAssetIx_def core_none_def TRANSFER_V1_DISCRIMINATOR_def guardE_def)

lemma parseCoreAsset_owner:
  "map_option cx_owner (parseCoreAsset (Some i)) = (if length (ai_data i) = 33 then None else core_asset_owner (ai_owner i) (ai_data i))"
proof -
  have "slice 1 33 d = take 32 (drop 1 d)" for d :: bytes by (simp add: slice_def)
  then show ?thesis
    by (cases "ai_data i") (auto simp: parseCoreAsset_def core_asset_owner_def is_core_asset_def KEY_ASSET_V1_def)
qed

text \<open>Web page, scripts and program read the same owner of a Core asset: the script's reader is the page's, and the
  program reads its owner from every account the scripts accept and from no other but those of exactly 33 bytes.\<close>

theorem core_asset_readers_agree:
  "parseCoreAsset (get k) = fetchCoreAsset get k \<and>
   map_option cx_owner (parseCoreAsset (Some i)) =
     (if length (ai_data i) = 33 then None else core_asset_owner (ai_owner i) (ai_data i))"
  unfolding parseCoreAsset_owner
  by (simp add: parseCoreAsset_def fetchCoreAsset_def KEY_ASSET_V1_def UPDATE_AUTHORITY_COLLECTION_def split: option.split)

end
