(* ===== verification/Script_Ops.thy ===== *)
theory Script_Ops
  imports Script_Core Script_Facts Web_Handoff
begin

text \<open>
  The operator scripts that send transactions for one bottle: \<open>list-order.ts\<close>, \<open>bind-chip.ts\<close>, \<open>core-transfer.ts\<close>,
  \<open>seed-escrow.ts\<close> and \<open>fund-dev-wallet.ts\<close>. A script is a run over what it reads from the chain; its log holds what it sent
  and posted, in order.
\<close>

section \<open>What the scripts send\<close>

datatype ops_sent =
    Tx_calls "ix_call list"
  | Tx_core raw_ix
  | Tx_mint bytes bytes pubkey
  | Tx_attach bytes int
  | Tx_spl spl_tx
  | Tx_init_config int pubkey
  | Tx_set_window int
  | Posted_event string json

datatype ops_error =
    Ops_cli cli_error | Ops_thrown thrown | Ops_spl spl_error
  | ListUsage | BadPriceArg "string option" | NotOnChain string | VoidPassport string
  | AssetBelongsTo pubkey pubkey | OnlyIssuer pubkey | IssuerInactive pubkey
  | NotPartnerWallet pubkey | AssetProblem string | IssuedBy string pubkey | NoCreatingTx string | SealElsewhere string pubkey
  | TransferUsage | NotCoreAsset pubkey | AssetInCollection pubkey
  | SeedSerial string | SeedSeal string string | NoSeals string
  | WindowRange | BadPublicKey | ConfigMissing | NotFinite

text \<open>What every script has: the wallet, the chain's addresses and accounts, and who answers its calls.\<close>

record ops_env =
  oe_wallet :: pubkey
  oe_lib :: chain_lib
  oe_flacon :: pubkey
  oe_escrow :: pubkey
  oe_sha256 :: "bytes \<Rightarrow> bytes"
  oe_base58 :: "pubkey \<Rightarrow> string"
  oe_pk :: "string \<Rightarrow> pubkey option"
  oe_verifyEnv :: "string option"
  oe_account :: "pubkey \<Rightarrow> account_info option"
  oe_passport :: "pubkey \<Rightarrow> passport option"
  oe_seal :: "pubkey \<Rightarrow> seal option"
  oe_registry :: registry
  oe_send :: "ops_sent \<Rightarrow> thrown + string"
  oe_post :: "string \<Rightarrow> json \<Rightarrow> thrown + json"

definition send_tx :: "ops_env \<Rightarrow> ops_sent \<Rightarrow> (ops_sent, ops_error, string) run" where
  "send_tx e t = sent Ops_thrown t (oe_send e t)"

definition post_event :: "ops_env \<Rightarrow> string \<Rightarrow> json \<Rightarrow> (ops_sent, ops_error, json) run" where
  "post_event e verify body = sent Ops_thrown (Posted_event verify body) (oe_post e verify body)"

definition some_or :: "'e \<Rightarrow> 'a option \<Rightarrow> ('l, 'e, 'a) run" where
  "some_or e x = (case x of None \<Rightarrow> refuse e | Some y \<Rightarrow> give y)"

section \<open>list-order\<close>

definition is_flag :: "string \<Rightarrow> bool" where
  "is_flag x \<longleftrightarrow> starts_with x ''--''"

text \<open>Who may list: the owner of the Core asset, or without one the issuer while he is still active.\<close>

definition list_right :: "ops_env \<Rightarrow> passport \<Rightarrow> core_asset_info option \<Rightarrow> (ops_sent, ops_error, unit) run" where
  "list_right e p core = (case core of
     Some c \<Rightarrow> check (cx_owner c = oe_wallet e) (AssetBelongsTo (pp_asset p) (cx_owner c))
   | None \<Rightarrow>
       andThen (check (pp_issuer p = oe_wallet e) (OnlyIssuer (pp_issuer p))) (\<lambda>_.
       check (rg_authority (oe_registry e) = oe_wallet e \<or> oe_wallet e \<in> set (rg_partners (oe_registry e)))
         (IssuerInactive (oe_wallet e))))"

definition list_event :: "ops_env \<Rightarrow> string \<Rightarrow> string \<Rightarrow> int \<Rightarrow> pubkey \<Rightarrow> json" where
  "list_event e serial tx price ord = JObj [(''serial'', JStr serial), (''type'', JNum (jn 3)), (''txSig'', JStr tx),
     (''actor'', JStr (oe_base58 e (oe_wallet e))),
     (''payload'', JObj [(''priceUsdc'', JNum (js_number (formatUsdc price))), (''currency'', JStr ''USDC''),
        (''market'', JStr ''flaconvault''), (''order'', JStr (oe_base58 e ord))])]"

definition list_passport :: "ops_env \<Rightarrow> string \<Rightarrow> pubkey" where
  "list_passport e serial = cl_find (oe_lib e) [utf8 ''passport'', oe_sha256 e (utf8 serial)] (oe_flacon e)"

definition list_arg :: "string list \<Rightarrow> nat \<Rightarrow> string option" where
  "list_arg argv i = arg_at (filter (\<lambda>x. \<not> is_flag x) argv) i"

definition list_serial :: "string list \<Rightarrow> string" where
  "list_serial argv = js_trim (or_empty (list_arg argv 0))"

definition list_order :: "ops_env \<Rightarrow> string list \<Rightarrow> (ops_sent, ops_error, unit) run" where
  "list_order e argv =
    (let serial = list_serial argv; pr = \<lparr>pr_lib = oe_lib e, pr_id = oe_escrow e\<rparr>;
         key = list_passport e serial; ord = orderPdaOf (oe_lib e) (oe_escrow e) key (oe_wallet e);
         reg = registryPdaOf (oe_lib e) (oe_flacon e)
     in andThen (check (SERIAL_RE serial) ListUsage) (\<lambda>_.
        andThen (some_or (BadPriceArg (list_arg argv 1)) (parsePriceUsdc (or_empty (list_arg argv 1)))) (\<lambda>price.
        let verify = verifyUrl (oe_verifyEnv e) (list_arg argv 2) in
        andThen (some_or (NotOnChain serial) (oe_passport e key)) (\<lambda>p.
        andThen (check (\<not> (pp_void p \<or> pp_grade p = 4)) (VoidPassport serial)) (\<lambda>_.
        let core = scriptFetchCoreAsset (oe_account e) (pp_asset p) in
        andThen (list_right e p core) (\<lambda>_.
        let deposit = (case core of Some c \<Rightarrow> \<not> cx_inCollection c \<and> ''--no-deposit'' \<notin> set argv | None \<Rightarrow> False);
            calls = [ix_list pr key (oe_wallet e) price (pp_asset p) reg] @
              (if deposit then [ix_depositAsset pr ord (oe_wallet e) (pp_asset p)] else [])
        in andThen (send_tx e (Tx_calls calls)) (\<lambda>tx.
           if ''--no-event'' \<in> set argv then give ()
           else andThen (post_event e verify (list_event e serial tx price ord)) (\<lambda>_. give ()))))))))"

section \<open>bind-chip\<close>

text \<open>Besides: the key of a new asset, the passports found for an asset, the flacon IDL, the search for a creating transaction.\<close>

record bind_env = ops_env +
  be_new :: pubkey
  be_search :: "pubkey \<Rightarrow> (nat \<times> string) list \<Rightarrow> thrown + pubkey list"
  be_idl :: idl
  be_created :: "pubkey \<Rightarrow> creating_expectation \<Rightarrow> thrown + string option"

definition uid_bytes :: "string \<Rightarrow> bytes" where
  "uid_bytes u = (case hexToBytes u of Inr b \<Rightarrow> b | Inl _ \<Rightarrow> [])"

definition bind_seal_address :: "bind_env \<Rightarrow> bytes \<Rightarrow> pubkey" where
  "bind_seal_address e h = cl_find (oe_lib e) [utf8 ''seal'', h] (oe_flacon e)"

definition chip_binding :: "bind_env \<Rightarrow> bind_args \<Rightarrow> bytes" where
  "chip_binding e a = oe_sha256 e (utf8 (ba_serial a) @ utf8 (ba_batch a) @ oe_sha256 e (uid_bytes (ba_uid a)))"

definition bind_asset :: "bind_env \<Rightarrow> bind_args \<Rightarrow> (ops_sent, ops_error, pubkey) run" where
  "bind_asset e a = (case ba_asset a of
     None \<Rightarrow> andThen (send_tx (ops_env.truncate e) (Tx_core (createCoreAssetIx (cl_system (oe_lib e)) (be_new e) (oe_wallet e) None
         (utf16_take 64 (ba_brand a @ '' '' @ ba_name a @ ('' '' @ [CHR 0xC2, CHR 0xB7] @ '' '') @ ba_serial a)) (coreAssetUri (ba_verify a) (ba_serial a)))))
       (\<lambda>_. give (be_new e))
   | Some k \<Rightarrow>
       let core = scriptFetchCoreAsset (oe_account e) k in
       andThen (if core = None then give []
         else andThen (attempt Ops_cli (passportsUsingAsset (be_search e) (oe_base58 e) (oe_flacon e) (be_idl e) k)) (attempt Ops_thrown))
       (\<lambda>used. case existingAssetProblem (oe_base58 e) k (map_option cx_owner core) (oe_wallet e) used of
          Some t \<Rightarrow> refuse (AssetProblem t) | None \<Rightarrow> give k))"

text \<open>The transaction that created an account, which this wallet must have signed.\<close>

definition find_created :: "bind_env \<Rightarrow> string \<Rightarrow> string \<Rightarrow> pubkey \<Rightarrow> string \<Rightarrow> (ops_sent, ops_error, string) run" where
  "find_created e ix acc account what =
    andThen (attempt Ops_cli (expectationFromIdl (be_idl e) (oe_flacon e) ix acc (Some (oe_wallet e)))) (\<lambda>x.
    andThen (attempt Ops_thrown (be_created e account x)) (some_or (NoCreatingTx what)))"

definition bind_passport :: "bind_env \<Rightarrow> bind_args \<Rightarrow> (ops_sent, ops_error, string \<times> pubkey \<times> bytes) run" where
  "bind_passport e a =
    (let h = oe_sha256 e (utf8 (ba_serial a)); key = list_passport (ops_env.truncate e) (ba_serial a) in
     case oe_passport e key of
       None \<Rightarrow> andThen (bind_asset e a) (\<lambda>asset.
         andThen (send_tx (ops_env.truncate e) (Tx_mint h (chip_binding e a) asset)) (\<lambda>tx. give (tx, asset, chip_binding e a)))
     | Some p \<Rightarrow>
         andThen (check (pp_issuer p = oe_wallet e) (IssuedBy (ba_serial a) (pp_issuer p))) (\<lambda>_.
         andThen (find_created e ''mint_passport'' ''passport'' key (ba_serial a)) (\<lambda>tx. give (tx, pp_asset p, pp_binding_hash p))))"

definition bind_seal :: "bind_env \<Rightarrow> bind_args \<Rightarrow> (ops_sent, ops_error, string \<times> int) run" where
  "bind_seal e a =
    (let h = oe_sha256 e (uid_bytes (ba_uid a)); key = bind_seal_address e h in
     case oe_seal e key of
       None \<Rightarrow> andThen (send_tx (ops_env.truncate e) (Tx_attach h (ba_kind a))) (\<lambda>tx. give (tx, ba_kind a))
     | Some s \<Rightarrow>
         andThen (check (cl_find (oe_lib e) [utf8 ''passport'', sl_passport s] (oe_flacon e) = list_passport (ops_env.truncate e) (ba_serial a))
           (SealElsewhere (ba_uid a) (sl_passport s))) (\<lambda>_.
         andThen (find_created e ''attach_seal'' ''seal'' key (ba_uid a)) (\<lambda>tx. give (tx, uint (sl_kind s)))))"

definition mint_event :: "bind_env \<Rightarrow> bind_args \<Rightarrow> string \<Rightarrow> pubkey \<Rightarrow> bytes \<Rightarrow> json" where
  "mint_event e a tx asset binding = JObj [(''serial'', JStr (ba_serial a)), (''type'', JNum (jn 0)), (''txSig'', JStr tx),
     (''actor'', JStr (oe_base58 e (oe_wallet e))),
     (''payload'', JObj [(''brand'', JStr (ba_brand a)), (''name'', JStr (ba_name a)), (''batch'', JStr (ba_batch a)),
        (''asset'', JStr (oe_base58 e asset)), (''issuerLabel'', JStr (''Parf'' @ [CHR 0xC3, CHR 0xBC] @ ''merie X, D'' @ [CHR 0xC3, CHR 0xBC] @ ''sseldorf'')), (''siteId'', JNum (jn 1)),
        (''bindingHash'', JStr (bytesToHex binding True))])]"

definition attach_event :: "bind_env \<Rightarrow> bind_args \<Rightarrow> string \<Rightarrow> int \<Rightarrow> json" where
  "attach_event e a tx kind = JObj [(''serial'', JStr (ba_serial a)), (''type'', JNum (jn 1)), (''txSig'', JStr tx),
     (''actor'', JStr (oe_base58 e (oe_wallet e))),
     (''payload'', JObj [(''uid'', JStr (ba_uid a)), (''kind'', JNum (jn kind)), (''siteId'', JNum (jn 1))])]"

definition bind_checked :: "bind_env \<Rightarrow> bind_args \<Rightarrow> (ops_sent, ops_error, unit) run" where
  "bind_checked e a =
    andThen (check (oe_wallet e \<in> set (rg_partners (oe_registry e)) \<or> rg_authority (oe_registry e) = oe_wallet e)
      (NotPartnerWallet (oe_wallet e))) (\<lambda>_.
    andThen (bind_passport e a) (\<lambda>(tx, asset, binding).
    andThen (post_event (ops_env.truncate e) (ba_verify a) (mint_event e a tx asset binding)) (\<lambda>_.
    andThen (bind_seal e a) (\<lambda>(tx, kind).
    andThen (post_event (ops_env.truncate e) (ba_verify a) (attach_event e a tx kind)) (\<lambda>_. give ())))))"

definition bind_chip :: "bind_env \<Rightarrow> string list \<Rightarrow> (ops_sent, ops_error, unit) run" where
  "bind_chip e argv = andThen (attempt Ops_cli (parseBindChipArgs (oe_pk e) (oe_verifyEnv e) argv)) (bind_checked e)"

section \<open>seed-passports\<close>

record seed_passport =
  sd_serial :: string
  sd_batch :: "string option"
  sd_brand :: "string option"
  sd_name :: "string option"
  sd_asset :: "string option"
  sd_seals :: "seed_seal list"

text \<open>The whole seed is checked before anything is sent.\<close>

fun seed_checked :: "seed_passport list \<Rightarrow> (ops_sent, ops_error, unit) run" where
  "seed_checked [] = give ()"
| "seed_checked (p # ps) =
    (if \<not> SERIAL_RE (sd_serial p) then refuse (SeedSerial (sd_serial p))
     else case List.find (\<lambda>s. \<not> UID_RE (ss_uid s) \<or> (ss_kind s \<noteq> 0 \<and> ss_kind s \<noteq> 1)) (sd_seals p) of
         Some s \<Rightarrow> refuse (SeedSeal (ss_uid s) (sd_serial p))
       | None \<Rightarrow> seed_checked ps)"

text \<open>The seed's asset when it can be used, else None.\<close>

definition seed_asset :: "bind_env \<Rightarrow> seed_passport \<Rightarrow> (ops_sent, ops_error, pubkey option) run" where
  "seed_asset e p = (case Option.bind (set_text (sd_asset p)) (oe_pk e) of
     None \<Rightarrow> give None
   | Some k \<Rightarrow>
       let core = scriptFetchCoreAsset (oe_account e) k in
       andThen (if core = None then give []
         else andThen (attempt Ops_cli (passportsUsingAsset (be_search e) (oe_base58 e) (oe_flacon e) (be_idl e) k)) (attempt Ops_thrown))
       (\<lambda>used. give (if existingAssetProblem (oe_base58 e) k (map_option cx_owner core) (oe_wallet e) used = None then Some k else None)))"

definition seed_new_asset :: "bind_env \<Rightarrow> seed_passport \<Rightarrow> raw_ix" where
  "seed_new_asset e p = createCoreAssetIx (cl_system (oe_lib e)) (be_new e) (oe_wallet e) None
     (utf16_take 64 (js_trim (or_empty (sd_brand p) @ '' '' @ or_empty (sd_name p) @ ('' '' @ [CHR 0xC2, CHR 0xB7] @ '' '') @ sd_serial p)))
     (coreAssetUri (verifyUrl (oe_verifyEnv e) None) (sd_serial p))"

definition seed_mint :: "bind_env \<Rightarrow> seed_passport \<Rightarrow> (ops_sent, ops_error, unit) run" where
  "seed_mint e p = (case sd_seals p of
     [] \<Rightarrow> refuse (NoSeals (sd_serial p))
   | first # _ \<Rightarrow>
       let h = oe_sha256 e (utf8 (sd_serial p));
           binding = oe_sha256 e (utf8 (sd_serial p) @ utf8 (or_empty (sd_batch p)) @ oe_sha256 e (uid_bytes (ss_uid first)))
       in case oe_passport e (list_passport (ops_env.truncate e) (sd_serial p)) of
            Some _ \<Rightarrow> give ()
          | None \<Rightarrow>
              andThen (seed_asset e p) (\<lambda>a.
              andThen (case a of Some k \<Rightarrow> give k
                | None \<Rightarrow> andThen (send_tx (ops_env.truncate e) (Tx_core (seed_new_asset e p))) (\<lambda>_. give (be_new e))) (\<lambda>asset.
              andThen (send_tx (ops_env.truncate e) (Tx_mint h binding asset)) (\<lambda>_. give ()))))"

section \<open>core-transfer\<close>

definition core_transfer_main :: "ops_env \<Rightarrow> string list \<Rightarrow> (ops_sent, ops_error, unit) run" where
  "core_transfer_main e argv =
    andThen (some_or TransferUsage (oe_pk e (or_empty (arg_at argv 0)))) (\<lambda>asset.
    andThen (some_or TransferUsage (oe_pk e (or_empty (arg_at argv 1)))) (\<lambda>newOwner.
    andThen (some_or (NotCoreAsset asset) (scriptFetchCoreAsset (oe_account e) asset)) (\<lambda>core.
    andThen (check (\<not> cx_inCollection core) (AssetInCollection asset)) (\<lambda>_.
    andThen (check (cx_owner core = oe_wallet e) (AssetBelongsTo asset (cx_owner core))) (\<lambda>_.
    if cx_owner core = newOwner then give ()
    else andThen (send_tx e (Tx_core (transferCoreAssetIx (cl_system (oe_lib e)) asset (oe_wallet e) (oe_wallet e) newOwner)))
      (\<lambda>_. give ()))))))"

section \<open>seed-escrow\<close>

definition DEFAULT_DISPUTE_AFTER_S :: int where "DEFAULT_DISPUTE_AFTER_S = 7 * 24 * 60 * 60"
definition SCRIPT_MIN_DISPUTE_AFTER_S :: int where "SCRIPT_MIN_DISPUTE_AFTER_S = 60 * 60"
definition SCRIPT_MAX_DISPUTE_AFTER_S :: int where "SCRIPT_MAX_DISPUTE_AFTER_S = 60 * 24 * 60 * 60"
definition SEED_USDC :: int where "SEED_USDC = 1000 * 1000000"

record seed_escrow_env = ops_env +
  se_window :: "string option"
  se_mintEnv :: "string option"
  se_config :: "escrow_config option"
  se_ata_program :: pubkey
  se_newMint :: pubkey
  se_rent :: "thrown + int"
  se_mintAccount :: "pubkey \<Rightarrow> account_info option"
  se_balance :: "pubkey \<Rightarrow> thrown + string"

text \<open>\<open>Number(process.env.FV_DISPUTE_AFTER_S ?? DEFAULT)\<close>, refused unless a whole number in the range.\<close>

definition dispute_window :: "string option \<Rightarrow> (ops_sent, ops_error, int) run" where
  "dispute_window v =
    (let n = (case v of None \<Rightarrow> jn DEFAULT_DISPUTE_AFTER_S | Some t \<Rightarrow> js_number t)
     in if \<not> js_is_integer n \<or> js_floor n < SCRIPT_MIN_DISPUTE_AFTER_S \<or> js_floor n > SCRIPT_MAX_DISPUTE_AFTER_S
        then refuse WindowRange else give (js_floor n))"

definition spl_run :: "(spl_tx, spl_error, 'a) run \<Rightarrow> (ops_sent, ops_error, 'a) run" where
  "spl_run r = (map Tx_spl (fst r), map_sum Ops_spl id (snd r))"

text \<open>The mint of the deal: the configured one, the asked one, or a new test mint.\<close>

definition seed_config :: "seed_escrow_env \<Rightarrow> int \<Rightarrow> (ops_sent, ops_error, pubkey) run" where
  "seed_config e d =
    (let ev = ops_env.truncate e; send = (\<lambda>t. oe_send e (Tx_spl t)) in
     case se_config e of
       Some c \<Rightarrow>
         if cf_dispute_after_s c \<noteq> d \<and> cf_admin c = oe_wallet e
         then andThen (send_tx ev (Tx_set_window d)) (\<lambda>_. give (cf_usdc_mint c)) else give (cf_usdc_mint c)
     | None \<Rightarrow>
         andThen (case set_text (se_mintEnv e) of
             Some t \<Rightarrow> some_or BadPublicKey (oe_pk e t)
           | None \<Rightarrow> spl_run (createMint send (cl_token (oe_lib e)) (se_newMint e) (oe_wallet e) (se_rent e) (oe_wallet e) USDC_DECIMALS))
         (\<lambda>mint. andThen (send_tx ev (Tx_init_config d mint)) (\<lambda>_. give mint)))"

text \<open>The wallet's account is filled up to 1000 test USDC when the wallet may mint.\<close>

definition seed_top_up :: "seed_escrow_env \<Rightarrow> pubkey \<Rightarrow> (ops_sent, ops_error, unit) run" where
  "seed_top_up e mint =
    (let send = (\<lambda>t. oe_send e (Tx_spl t)) in
     andThen (spl_run (ensureAta send (\<lambda>k. Inr (oe_account e k)) (oe_lib e) (se_ata_program e) (oe_wallet e) (oe_wallet e) mint)) (\<lambda>a.
     let bal = tokenBalance (se_balance e a)
     in if mintAuthority (se_mintAccount e mint) = Some (oe_wallet e) \<and> bal < SEED_USDC
        then spl_run (mintTo send (cl_token (oe_lib e)) (oe_wallet e) mint a (oe_wallet e) (SEED_USDC - bal))
        else give ()))"

definition seed_escrow :: "seed_escrow_env \<Rightarrow> (ops_sent, ops_error, unit) run" where
  "seed_escrow e = andThen (dispute_window (se_window e)) (\<lambda>d. andThen (seed_config e d) (seed_top_up e))"

section \<open>fund-dev-wallet\<close>

text \<open>\<open>Math.round(x * f)\<close>; an infinite amount throws when it is encoded.\<close>

definition scaled :: "js_num \<Rightarrow> int \<Rightarrow> int option" where
  "scaled x f = (case x of Fin q \<Rightarrow> (case to_double (q * of_int f) of Fin y \<Rightarrow> Some \<lfloor>y + 1 / 2\<rfloor> | _ \<Rightarrow> None) | _ \<Rightarrow> None)"

definition fund_mint :: "seed_escrow_env \<Rightarrow> (ops_sent, ops_error, pubkey) run" where
  "fund_mint e = (case set_text (se_mintEnv e) of
     Some t \<Rightarrow> some_or BadPublicKey (oe_pk e t)
   | None \<Rightarrow> (case oe_account e (configPdaOf (oe_lib e) (oe_escrow e)) of
       None \<Rightarrow> refuse ConfigMissing
     | Some i \<Rightarrow> give (slice 40 72 (ai_data i))))"

definition fund_main :: "seed_escrow_env \<Rightarrow> string list \<Rightarrow> (ops_sent, ops_error, unit) run" where
  "fund_main e argv =
    (let sol = js_number (case arg_at argv 1 of Some t \<Rightarrow> t | None \<Rightarrow> ''0.05'');
         usdc = js_number (case arg_at argv 2 of Some t \<Rightarrow> t | None \<Rightarrow> ''500'');
         send = (\<lambda>t. oe_send e (Tx_spl t)); tx = (\<lambda>ixs. \<lparr>sx_ixs = ixs, sx_signers = [oe_wallet e]\<rparr>)
     in andThen (some_or BadPublicKey (Option.bind (arg_at argv 0) (oe_pk e))) (\<lambda>target.
        andThen (fund_mint e) (\<lambda>mint.
        andThen (if js_lt (jn 0) sol
            then andThen (some_or NotFinite (scaled sol 1000000000)) (\<lambda>n.
              andThen (send_tx (ops_env.truncate e) (Tx_spl (tx [Lamports (oe_wallet e) target n]))) (\<lambda>_. give ()))
            else give ()) (\<lambda>_.
        if js_lt (jn 0) usdc
        then andThen (spl_run (ensureAta send (\<lambda>k. Inr (oe_account e k)) (oe_lib e) (se_ata_program e) (oe_wallet e) target mint)) (\<lambda>a.
          andThen (some_or NotFinite (scaled usdc 1000000)) (\<lambda>n.
          spl_run (mintTo send (cl_token (oe_lib e)) (oe_wallet e) mint a (oe_wallet e) n)))
        else give ()))))"

end
