(* ===== verification/Ops_Facts.thy ===== *)
theory Ops_Facts
  imports Script_Ops Flacon_Idl
begin

text \<open>
  What the operator scripts send is what the programs accept: \<open>list-order.ts\<close> against the escrow program, \<open>bind-chip.ts\<close>
  against the flacon program, \<open>seed-escrow.ts\<close> against the escrow configuration.
\<close>

section \<open>Logs of runs\<close>

lemma fst_sent [simp]: "fst (sent g l r) = [l]"
  by (simp add: sent_def)

lemma fst_check [simp]: "fst (check b e) = []"
  by (simp add: check_def)

lemma snd_check: "snd (check b e) = Inr u \<longleftrightarrow> b"
  by (simp add: check_def)

lemma fst_some_or [simp]: "fst (some_or e x) = []"
  by (simp add: some_or_def split: option.split)

lemma snd_some_or [simp]: "snd (some_or e x) = Inr y \<longleftrightarrow> x = Some y"
  by (simp add: some_or_def split: option.split)

lemma fst_attempt [simp]: "fst (attempt g r) = []"
  by (simp add: attempt_def)

lemma snd_attempt [simp]: "snd (attempt g r) = Inr y \<longleftrightarrow> r = Inr y"
  by (simp add: attempt_def split: sum.split)

lemma in_andThen: "l \<in> set (fst (andThen r f)) \<longleftrightarrow> l \<in> set (fst r) \<or> (\<exists>x. snd r = Inr x \<and> l \<in> set (fst (f x)))"
  by (auto simp: fst_andThen split: sum.splits)

lemma in_send [simp]: "l \<in> set (fst (send_tx e t)) \<longleftrightarrow> l = t" "l \<in> set (fst (post_event e v j)) \<longleftrightarrow> l = Posted_event v j"
  by (auto simp: send_tx_def post_event_def)

lemmas log_simps = in_andThen snd_check fst_check

section \<open>list-order\<close>

text \<open>The market over the account at the address of the asset: its owner as the program reads him, and whether it is in a
  collection. Byte 33 of a Core \<open>AssetV1\<close> is the kind of its update authority, 2 for a collection; no such account ends
  before it.\<close>

definition asset_seen :: "account_info option \<Rightarrow> market \<Rightarrow> bool" where
  "asset_seen i m \<longleftrightarrow> (case i of
     None \<Rightarrow> mk_asset_owner m = None
   | Some a \<Rightarrow> length (ai_data a) \<noteq> 33 \<and> mk_asset_owner m = core_asset_owner (ai_owner a) (ai_data a) \<and>
       (mk_in_collection m \<longleftrightarrow> 33 < length (ai_data a) \<and> ai_data a ! 33 = 2))"

lemma seen_owner: "asset_seen (get k) m \<Longrightarrow> mk_asset_owner m = map_option cx_owner (scriptFetchCoreAsset get k)"
  by (cases "get k") (auto simp: asset_seen_def scriptFetchCoreAsset_def parseCoreAsset_owner)

lemma seen_collection:
  "asset_seen (get k) m \<Longrightarrow> scriptFetchCoreAsset get k = Some c \<Longrightarrow> cx_inCollection c \<longleftrightarrow> mk_in_collection m"
  by (cases "get k") (auto simp: asset_seen_def scriptFetchCoreAsset_def parseCoreAsset_def UPDATE_AUTHORITY_COLLECTION_def split: if_splits)

lemma list_right_ok:
  assumes "asset_seen (oe_account e (pp_asset p)) m"
  shows "snd (list_right e p (scriptFetchCoreAsset (oe_account e) (pp_asset p))) = Inr () \<longleftrightarrow>
    check_seller_of (oe_wallet e) p (mk_asset_owner m) (oe_registry e) = Inr ()"
  by (cases "scriptFetchCoreAsset (oe_account e) (pp_asset p)")
    (auto simp: seen_owner [of "oe_account e" "pp_asset p", OF assms] list_right_def check_seller_of_def check_seller_def guardE_def snd_andThen snd_check is_partner_def)

text \<open>A deposit right after a listing needs the seller's own asset, outside a collection.\<close>

lemma deposit_after_list:
  assumes "handle_list cfg r key p seller now price m = Inr m1"
  shows "(\<exists>m2. handle_deposit_asset ord seller m1 = Inr m2) \<longleftrightarrow> mk_asset_owner m = Some seller \<and> \<not> mk_in_collection m"
    "handle_deposit_asset ord seller m1 = Inr m2 \<Longrightarrow> mk_asset_owner m2 = Some ord"
  using assms
  by (auto simp: handle_list_def handle_deposit_asset_def with_order_def need_def guardE_def errE_def transfer_v1_def
      bindE_eq_Inr split: sum.splits if_splits)

lemma price_positive: "parsePriceUsdc s = Some n \<Longrightarrow> 0 < n"
  by (auto simp: parsePriceUsdc_def Let_def split: option.splits if_splits)

lemma handle_list_ok:
  "(\<exists>m'. handle_list cfg r key p seller now price m = Inr m') \<longleftrightarrow>
     mk_order m = None \<and> 0 < price \<and> \<not> pp_void p \<and> pp_grade p \<noteq> GRADE_VOID \<and> check_seller_of seller p (mk_asset_owner m) r = Inr ()"
  by (cases "check_seller_of seller p (mk_asset_owner m) r") (auto simp: handle_list_def guardE_def need_def errE_def)

text \<open>What \<open>list-order\<close> sends, once the passport is found.\<close>

lemma list_order_sends:
  assumes "oe_passport e (list_passport e (list_serial argv)) = Some p"
  shows "Tx_calls cs \<in> set (fst (list_order e argv)) \<longleftrightarrow>
    SERIAL_RE (list_serial argv) \<and> \<not> (pp_void p \<or> pp_grade p = 4) \<and>
    snd (list_right e p (scriptFetchCoreAsset (oe_account e) (pp_asset p))) = Inr () \<and>
    (\<exists>price. parsePriceUsdc (or_empty (list_arg argv 1)) = Some price \<and>
      cs = [ix_list \<lparr>pr_lib = oe_lib e, pr_id = oe_escrow e\<rparr> (list_passport e (list_serial argv)) (oe_wallet e) price (pp_asset p)
              (registryPdaOf (oe_lib e) (oe_flacon e))] @
        (if (case scriptFetchCoreAsset (oe_account e) (pp_asset p) of Some c \<Rightarrow> \<not> cx_inCollection c \<and> ''--no-deposit'' \<notin> set argv | None \<Rightarrow> False)
         then [ix_depositAsset \<lparr>pr_lib = oe_lib e, pr_id = oe_escrow e\<rparr>
            (orderPdaOf (oe_lib e) (oe_escrow e) (list_passport e (list_serial argv)) (oe_wallet e)) (oe_wallet e) (pp_asset p)] else []))"
proof -
  have right: "set (fst (list_right e p c)) = {}" for c
    by (auto simp: list_right_def fst_andThen split: option.split sum.split)
  have unit: "(\<exists>x. snd r = Inr x \<and> Q) \<longleftrightarrow> snd r = Inr () \<and> Q" for r :: "(ops_sent, ops_error, unit) run" and Q by auto
  show ?thesis
    unfolding list_order_def Let_def
    by (simp add: log_simps assms right unit) blast
qed

text \<open>C24: \<open>list-order\<close> sends its transaction exactly when serial and price are well-formed and the escrow program would accept
  the listing, were there no open order of this passport and seller: the passport is not void, and the wallet owns the Core
  asset or is the still active issuer of a passport without one. What it sends starts with \<open>list\<close> at the price of the command
  line, which the program accepts exactly when there is no such order yet (the script does not look). The deposit follows
  exactly when it was not declined and the program accepts it after the listing; the asset then belongs to the order.\<close>

theorem list_order_accepted:
  assumes "oe_passport e (list_passport e (list_serial argv)) = Some p" "asset_seen (oe_account e (pp_asset p)) m"
  shows "(\<exists>cs. Tx_calls cs \<in> set (fst (list_order e argv))) = (SERIAL_RE (list_serial argv) \<and>
      (\<exists>price m1. parsePriceUsdc (or_empty (list_arg argv 1)) = Some price \<and>
        handle_list cfg (oe_registry e) key p (oe_wallet e) now (nat price) (m\<lparr>mk_order := None\<rparr>) = Inr m1)) \<and>
    (\<forall>cs. Tx_calls cs \<in> set (fst (list_order e argv)) \<longrightarrow> (\<exists>price. parsePriceUsdc (or_empty (list_arg argv 1)) = Some price \<and>
      hd cs = ix_list \<lparr>pr_lib = oe_lib e, pr_id = oe_escrow e\<rparr> (list_passport e (list_serial argv)) (oe_wallet e) price (pp_asset p)
          (registryPdaOf (oe_lib e) (oe_flacon e)) \<and>
      ((\<exists>m1. handle_list cfg (oe_registry e) key p (oe_wallet e) now (nat price) m = Inr m1) \<longleftrightarrow> mk_order m = None) \<and>
      (\<forall>m1. handle_list cfg (oe_registry e) key p (oe_wallet e) now (nat price) m = Inr m1 \<longrightarrow>
        (tl cs \<noteq> [] \<longleftrightarrow> ''--no-deposit'' \<notin> set argv \<and> (\<exists>m2. handle_deposit_asset ord (oe_wallet e) m1 = Inr m2)) \<and>
        (tl cs \<noteq> [] \<longrightarrow> tl cs = [ix_depositAsset \<lparr>pr_lib = oe_lib e, pr_id = oe_escrow e\<rparr>
            (orderPdaOf (oe_lib e) (oe_escrow e) (list_passport e (list_serial argv)) (oe_wallet e)) (oe_wallet e) (pp_asset p)] \<and>
          (\<exists>m2. handle_deposit_asset ord (oe_wallet e) m1 = Inr m2 \<and> mk_asset_owner m2 = Some ord)))))"
proof (intro conjI allI impI)
  note sends = list_order_sends [OF assms(1)]
  let ?core = "scriptFetchCoreAsset (oe_account e) (pp_asset p)"
  have right: "snd (list_right e p ?core) = Inr () \<longleftrightarrow>
      check_seller_of (oe_wallet e) p (mk_asset_owner m') (oe_registry e) = Inr ()" if "mk_asset_owner m' = mk_asset_owner m" for m'
    using list_right_ok [OF assms(2)] that by simp
  show "(\<exists>cs. Tx_calls cs \<in> set (fst (list_order e argv))) = (SERIAL_RE (list_serial argv) \<and>
      (\<exists>price m1. parsePriceUsdc (or_empty (list_arg argv 1)) = Some price \<and>
        handle_list cfg (oe_registry e) key p (oe_wallet e) now (nat price) (m\<lparr>mk_order := None\<rparr>) = Inr m1))"
    unfolding sends right [of "m\<lparr>mk_order := None\<rparr>", simplified] using price_positive by (auto simp: handle_list_ok)
  fix cs assume cs: "Tx_calls cs \<in> set (fst (list_order e argv))"
  then obtain price where price: "parsePriceUsdc (or_empty (list_arg argv 1)) = Some price"
    and list: "\<not> (pp_void p \<or> pp_grade p = 4)" "snd (list_right e p ?core) = Inr ()"
    and calls: "cs = [ix_list \<lparr>pr_lib = oe_lib e, pr_id = oe_escrow e\<rparr> (list_passport e (list_serial argv)) (oe_wallet e) price (pp_asset p)
              (registryPdaOf (oe_lib e) (oe_flacon e))] @
        (if (case ?core of Some c \<Rightarrow> \<not> cx_inCollection c \<and> ''--no-deposit'' \<notin> set argv | None \<Rightarrow> False)
         then [ix_depositAsset \<lparr>pr_lib = oe_lib e, pr_id = oe_escrow e\<rparr>
            (orderPdaOf (oe_lib e) (oe_escrow e) (list_passport e (list_serial argv)) (oe_wallet e)) (oe_wallet e) (pp_asset p)] else [])"
    unfolding sends by blast
  have one: "(\<exists>m1. handle_list cfg (oe_registry e) key p (oe_wallet e) now (nat price) m = Inr m1) \<longleftrightarrow> mk_order m = None"
    using list price_positive [OF price] right [of m] by (auto simp: handle_list_ok)
  have mine: "mk_asset_owner m = Some (oe_wallet e)" if "?core = Some c" for c
    using list(2) seen_owner [of "oe_account e" "pp_asset p", OF assms(2)] that by (simp add: list_right_def snd_check)
  have dep: "(case ?core of Some c \<Rightarrow> \<not> cx_inCollection c | None \<Rightarrow> False) \<longleftrightarrow> mk_asset_owner m = Some (oe_wallet e) \<and> \<not> mk_in_collection m"
    using mine seen_collection [of "oe_account e" "pp_asset p", OF assms(2)] seen_owner [of "oe_account e" "pp_asset p", OF assms(2)] by (auto split: option.splits)
  have "(tl cs \<noteq> [] \<longleftrightarrow> ''--no-deposit'' \<notin> set argv \<and> (\<exists>m2. handle_deposit_asset ord (oe_wallet e) m1 = Inr m2)) \<and>
      (tl cs \<noteq> [] \<longrightarrow> (\<exists>m2. handle_deposit_asset ord (oe_wallet e) m1 = Inr m2 \<and> mk_asset_owner m2 = Some ord))"
    if "handle_list cfg (oe_registry e) key p (oe_wallet e) now (nat price) m = Inr m1" for m1
    using deposit_after_list [OF that, of ord] dep calls by (auto split: option.splits if_splits)
  with price calls one show "\<exists>price. parsePriceUsdc (or_empty (list_arg argv 1)) = Some price \<and>
      hd cs = ix_list \<lparr>pr_lib = oe_lib e, pr_id = oe_escrow e\<rparr> (list_passport e (list_serial argv)) (oe_wallet e) price (pp_asset p)
          (registryPdaOf (oe_lib e) (oe_flacon e)) \<and>
      ((\<exists>m1. handle_list cfg (oe_registry e) key p (oe_wallet e) now (nat price) m = Inr m1) \<longleftrightarrow> mk_order m = None) \<and>
      (\<forall>m1. handle_list cfg (oe_registry e) key p (oe_wallet e) now (nat price) m = Inr m1 \<longrightarrow>
        (tl cs \<noteq> [] \<longleftrightarrow> ''--no-deposit'' \<notin> set argv \<and> (\<exists>m2. handle_deposit_asset ord (oe_wallet e) m1 = Inr m2)) \<and>
        (tl cs \<noteq> [] \<longrightarrow> tl cs = [ix_depositAsset \<lparr>pr_lib = oe_lib e, pr_id = oe_escrow e\<rparr>
            (orderPdaOf (oe_lib e) (oe_escrow e) (list_passport e (list_serial argv)) (oe_wallet e)) (oe_wallet e) (pp_asset p)] \<and>
          (\<exists>m2. handle_deposit_asset ord (oe_wallet e) m1 = Inr m2 \<and> mk_asset_owner m2 = Some ord)))"
    by (intro exI [of _ price]) (simp split: if_splits)
qed

section \<open>bind-chip\<close>

lemma parsed_kind:
  "parseBindChipArgs pk env argv = Inr a \<Longrightarrow> ba_kind a = 0 \<or> ba_kind a = 1"
  by (auto simp: parseBindChipArgs_def Let_def bindE_eq_Inr parse_kind_def split: if_splits)

lemma bind_asset_given:
  assumes "ba_asset a = Some k" "snd (bind_asset e a) = Inr k'"
  shows "k' = k \<and> map_option cx_owner (scriptFetchCoreAsset (oe_account e) k) = Some (oe_wallet e)"
  using assms
  by (cases "scriptFetchCoreAsset (oe_account e) k")
    (auto simp: bind_asset_def snd_andThen existingAssetProblem_def Let_def split: option.splits if_splits)

lemma bind_asset_log: "ba_asset a = Some k \<Longrightarrow> fst (bind_asset e a) = []"
  by (auto simp: bind_asset_def Let_def fst_andThen split: sum.splits option.splits)

lemma find_created_log [simp]: "fst (find_created e ix acc k w) = []"
  by (auto simp: find_created_def fst_andThen split: sum.split)

text \<open>Where each transaction of \<open>bind-chip\<close> comes from.\<close>

lemma bind_mint:
  "Tx_mint h b k \<in> set (fst (bind_passport e a)) \<Longrightarrow>
     oe_passport e (list_passport (ops_env.truncate e) (ba_serial a)) = None \<and> snd (bind_asset e a) = Inr k"
  by (auto simp: bind_passport_def bind_asset_def Let_def log_simps split: option.splits if_splits)

lemma bind_attach:
  "Tx_attach h k \<in> set (fst (bind_seal e a)) \<Longrightarrow>
     oe_seal e (bind_seal_address e (oe_sha256 e (uid_bytes (ba_uid a)))) = None \<and> k = ba_kind a"
  by (auto simp: bind_seal_def Let_def log_simps split: option.splits if_splits)

lemma bind_other:
  "Tx_mint h b k \<notin> set (fst (bind_seal e a))" "Tx_attach h j \<notin> set (fst (bind_passport e a))"
  by (auto simp: bind_seal_def bind_passport_def bind_asset_def Let_def log_simps split: option.splits if_splits prod.splits)

lemma bind_chip_log:
  assumes "parseBindChipArgs (oe_pk e) (oe_verifyEnv e) argv = Inr a" "l \<in> set (fst (bind_chip e argv))"
  shows "(oe_wallet e \<in> set (rg_partners (oe_registry e)) \<or> rg_authority (oe_registry e) = oe_wallet e) \<and>
    (l \<in> set (fst (bind_passport e a)) \<or> l \<in> set (fst (bind_seal e a)) \<or> (\<exists>v j. l = Posted_event v j))"
  using assms by (auto simp: bind_chip_def bind_checked_def log_simps split: prod.splits)

definition account_of :: "pubkey \<Rightarrow> account_info \<Rightarrow> raw_account" where
  "account_of k i = \<lparr>ra_key = k, ra_owner = ai_owner i, ra_data = ai_data i\<rparr>"

lemma mint_ok:
  assumes "oe_wallet e \<in> set (rg_partners r) \<or> rg_authority r = oe_wallet e" "core_asset_owner (ai_owner i) (ai_data i) = Some (oe_wallet e)"
  shows "mint_passport r (oe_wallet e) now h b k (account_of k i) = Inr
    \<lparr>pp_serial_hash = h, pp_binding_hash = b, pp_asset = k, pp_issuer = oe_wallet e, pp_grade = GRADE_A, pp_scan_count = 0,
     pp_seal_count = 0, pp_void = False, pp_created_at = now\<rparr>"
  using assms by (auto simp: mint_passport_def guardE_def is_partner_def account_of_def check_mint_asset_def)

lemma attach_ok:
  assumes "oe_wallet e \<in> set (rg_partners r) \<or> rg_authority r = oe_wallet e" "kind = 0 \<or> kind = 1"
    "pp_issuer p = oe_wallet e" "pp_seal_count p = 0" "pp_grade p = GRADE_A" "\<not> pp_void p"
  shows "\<exists>s. attach_seal r (oe_wallet e) now h (word_of_int kind) p = Inr s"
  using assms by (auto simp: attach_seal_def guardE_def may_manage_passport_def is_partner_def is_voided_def MAX_SEALS_PER_PASSPORT_def)

text \<open>Binding a chip to an existing Core asset never sends a transaction the flacon program refuses for its accounts: the
  mint it sends is accepted for the asset account as it is, and the seal it attaches is accepted on the passport just
  minted. It mints only a passport that is not there, and attaches only a seal that is not there.\<close>

theorem bind_chip_accepted:
  assumes "parseBindChipArgs (oe_pk e) (oe_verifyEnv e) argv = Inr a" "ba_asset a = Some k" "oe_account e k = Some i"
    "Tx_mint h b k' \<in> set (fst (bind_chip e argv))"
  shows "\<exists>p. mint_passport (oe_registry e) (oe_wallet e) now h b k' (account_of k i) = Inr p \<and>
    oe_passport e (list_passport (ops_env.truncate e) (ba_serial a)) = None \<and>
    (\<forall>h' kind. Tx_attach h' kind \<in> set (fst (bind_chip e argv)) \<longrightarrow>
      oe_seal e (bind_seal_address e (oe_sha256 e (uid_bytes (ba_uid a)))) = None \<and>
      (\<exists>s. attach_seal (oe_registry e) (oe_wallet e) later h' (word_of_int kind) p = Inr s))"
proof -
  note log = bind_chip_log [OF assms(1)]
  have partner: "oe_wallet e \<in> set (rg_partners (oe_registry e)) \<or> rg_authority (oe_registry e) = oe_wallet e"
    using log [OF assms(4)] by blast
  have m: "oe_passport e (list_passport (ops_env.truncate e) (ba_serial a)) = None" "snd (bind_asset e a) = Inr k'"
    using log [OF assms(4)] bind_other bind_mint by auto
  have k: "k' = k" "map_option cx_owner (parseCoreAsset (Some i)) = Some (oe_wallet e)"
    using bind_asset_given [OF assms(2) m(2)] assms(3) by (auto simp: scriptFetchCoreAsset_def)
  then have "core_asset_owner (ai_owner i) (ai_data i) = Some (oe_wallet e)"
    unfolding parseCoreAsset_owner by (simp split: if_splits)
  then obtain p where mint: "mint_passport (oe_registry e) (oe_wallet e) now h b k (account_of k i) = Inr p"
    and p: "pp_issuer p = oe_wallet e" "pp_seal_count p = 0" "pp_grade p = GRADE_A" "\<not> pp_void p"
    using mint_ok [OF partner] by (metis passport.select_convs)
  have "oe_seal e (bind_seal_address e (oe_sha256 e (uid_bytes (ba_uid a)))) = None \<and>
      (\<exists>s. attach_seal (oe_registry e) (oe_wallet e) later h' (word_of_int kind) p = Inr s)"
    if "Tx_attach h' kind \<in> set (fst (bind_chip e argv))" for h' kind
  proof -
    have s: "oe_seal e (bind_seal_address e (oe_sha256 e (uid_bytes (ba_uid a)))) = None" "kind = ba_kind a"
      using log [OF that] bind_other bind_attach by auto
    then show ?thesis using attach_ok [OF partner _ p] parsed_kind [OF assms(1)] by blast
  qed
  with mint m(1) k(1) show ?thesis by blast
qed

text \<open>Running \<open>bind-chip\<close> again for a bottle that is on the chain sends no transaction, only the two events.\<close>

lemma bind_chip_rerun:
  assumes "parseBindChipArgs (oe_pk e) (oe_verifyEnv e) argv = Inr a"
    "oe_passport e (list_passport (ops_env.truncate e) (ba_serial a)) = Some p"
    "oe_seal e (bind_seal_address e (oe_sha256 e (uid_bytes (ba_uid a)))) = Some s" "l \<in> set (fst (bind_chip e argv))"
  shows "\<exists>v j. l = Posted_event v j"
  using bind_chip_log [OF assms(1,4)] assms(2,3)
  by (auto simp: bind_passport_def bind_seal_def Let_def log_simps)

section \<open>seed-escrow\<close>

lemma window_range:
  "snd (dispute_window v) = Inr d \<Longrightarrow> MIN_DISPUTE_AFTER_S \<le> d \<and> d \<le> MAX_DISPUTE_AFTER_S"
  by (auto simp: dispute_window_def Let_def SCRIPT_MIN_DISPUTE_AFTER_S_def SCRIPT_MAX_DISPUTE_AFTER_S_def MIN_DISPUTE_AFTER_S_def
      MAX_DISPUTE_AFTER_S_def split: if_splits)

lemma window_log [simp]: "fst (dispute_window v) = []"
  by (simp add: dispute_window_def Let_def)

lemma spl_log: "l \<in> set (fst (spl_run r)) \<Longrightarrow> \<exists>t. l = Tx_spl t"
  by (auto simp: spl_run_def)

lemma config_log:
  "l \<in> set (fst (seed_config e d)) \<Longrightarrow> (\<exists>t. l = Tx_spl t) \<or> (\<exists>mint. l = Tx_init_config d mint \<and> se_config e = None) \<or>
     (\<exists>c. l = Tx_set_window d \<and> se_config e = Some c \<and> cf_admin c = oe_wallet e)"
  by (auto simp: seed_config_def Let_def log_simps dest: spl_log split: option.splits if_splits)

lemma top_up_log: "l \<in> set (fst (seed_top_up e mint)) \<Longrightarrow> \<exists>t. l = Tx_spl t"
  by (auto simp: seed_top_up_def Let_def log_simps dest: spl_log split: if_splits)

text \<open>Whatever dispute window the environment asks for, \<open>seed-escrow\<close> only ever sends one the escrow program accepts: a
  configuration it creates as upgrade authority, and a window it sets as the administrator, are never refused.\<close>

theorem seed_escrow_window:
  assumes "l \<in> set (fst (seed_escrow e))"
  shows "case l of
     Tx_init_config d mint \<Rightarrow> se_config e = None \<and>
       handle_init_config (Some (oe_wallet e)) (oe_wallet e) mint d None = Inr \<lparr>cf_admin = oe_wallet e, cf_usdc_mint = mint, cf_dispute_after_s = d\<rparr>
   | Tx_set_window d \<Rightarrow> (case se_config e of None \<Rightarrow> False
       | Some c \<Rightarrow> handle_set_dispute_window (oe_wallet e) d c = Inr (c\<lparr>cf_dispute_after_s := d\<rparr>))
   | Tx_spl t \<Rightarrow> True | _ \<Rightarrow> False"
proof -
  obtain d where d: "snd (dispute_window (se_window e)) = Inr d" "l \<in> set (fst (seed_config e d)) \<or> (\<exists>mint. l \<in> set (fst (seed_top_up e mint)))"
    using assms by (auto simp: seed_escrow_def log_simps)
  then show ?thesis
    using window_range [OF d(1)] config_log [of l e d] top_up_log [of l e]
    by (fastforce simp: handle_init_config_def handle_set_dispute_window_def need_def errE_def check_window_def guardE_def)
qed

section \<open>Instances\<close>

definition ops_registry :: registry where
  "ops_registry = \<lparr>rg_authority = [1], rg_server_keys = [], rg_partners = [], rg_sites = []\<rparr>"

definition ops_lib :: chain_lib where
  "ops_lib = \<lparr>cl_find = (\<lambda>s p. concat s @ p), cl_ata = (\<lambda>m o'. m @ o'), cl_system = [], cl_token = [], cl_sysvar_instructions = [], cl_program = []\<rparr>"

text \<open>A Core asset of the wallet, outside a collection.\<close>

definition demo_asset :: account_info where
  "demo_asset = \<lparr>ai_owner = MPL_CORE_PROGRAM_ID, ai_data = [1] @ replicate 32 7 @ [0]\<rparr>"

definition demo_ops :: ops_env where
  "demo_ops = \<lparr>oe_wallet = replicate 32 7, oe_lib = ops_lib, oe_flacon = [2], oe_escrow = [3], oe_sha256 = (\<lambda>b. b), oe_base58 = (\<lambda>_. []),
     oe_pk = (\<lambda>t. Some [9]), oe_verifyEnv = None, oe_account = (\<lambda>_. Some demo_asset),
     oe_passport = (\<lambda>_. Some \<lparr>pp_serial_hash = [], pp_binding_hash = [], pp_asset = [9], pp_issuer = [], pp_grade = GRADE_A, pp_scan_count = 0,
       pp_seal_count = 0, pp_void = False, pp_created_at = 0\<rparr>),
     oe_seal = (\<lambda>_. None), oe_registry = ops_registry\<lparr>rg_partners := [replicate 32 7]\<rparr>, oe_send = (\<lambda>_. Inr ''sig''), oe_post = (\<lambda>_ _. Inr JNull)\<rparr>"

lemma demo_core: "scriptFetchCoreAsset (oe_account demo_ops) k = Some \<lparr>cx_owner = replicate 32 7, cx_inCollection = False\<rparr>"
  by (simp add: scriptFetchCoreAsset_def demo_ops_def demo_asset_def parseCoreAsset_def KEY_ASSET_V1_def UPDATE_AUTHORITY_COLLECTION_def
      slice_def numeral_eq_Suc)

lemma demo_args:
  "list_serial [''SN-1'', ''480''] = ''SN-1''" "SERIAL_RE ''SN-1''" "parsePriceUsdc (or_empty (list_arg [''SN-1'', ''480''] 1)) = Some 480000000"
  by code_simp+

definition demo_ops_market :: market where
  "demo_ops_market = \<lparr>mk_order = None, mk_vault = None, mk_usdc = (\<lambda>_. 0), mk_asset_owner = Some (replicate 32 7), mk_in_collection = False\<rparr>"

theorem list_order_accepted_witness:
  "\<exists>p cs m1 m2. oe_passport demo_ops (list_passport demo_ops (list_serial [''SN-1'', ''480''])) = Some p \<and>
     Tx_calls cs \<in> set (fst (list_order demo_ops [''SN-1'', ''480''])) \<and>
     handle_list \<lparr>cf_admin = [], cf_usdc_mint = [], cf_dispute_after_s = 0\<rparr> (oe_registry demo_ops) [] p (oe_wallet demo_ops) 0
       480000000 demo_ops_market = Inr m1 \<and>
     handle_deposit_asset [5] (oe_wallet demo_ops) m1 = Inr m2 \<and> mk_asset_owner m2 = Some [5]"
proof -
  let ?cfg = "\<lparr>cf_admin = [], cf_usdc_mint = [], cf_dispute_after_s = 0\<rparr>" and ?argv = "[''SN-1'', ''480'']"
  obtain p where p: "oe_passport demo_ops (list_passport demo_ops (list_serial ?argv)) = Some p"
    "\<not> pp_void p" "pp_grade p = GRADE_A" by (simp add: demo_ops_def)
  have seen: "asset_seen (oe_account demo_ops (pp_asset p)) demo_ops_market"
    by (simp add: asset_seen_def demo_ops_market_def demo_ops_def demo_asset_def core_asset_owner_def is_core_asset_def numeral_eq_Suc)
  have m: "demo_ops_market\<lparr>mk_order := None\<rparr> = demo_ops_market" "mk_order demo_ops_market = None"
    "mk_asset_owner demo_ops_market = Some (oe_wallet demo_ops)" "\<not> mk_in_collection demo_ops_market"
    by (simp_all add: demo_ops_market_def demo_ops_def)
  have "\<exists>m. handle_list ?cfg (oe_registry demo_ops) [] p (oe_wallet demo_ops) 0 (nat 480000000) demo_ops_market = Inr m"
    using p(2,3) m by (simp add: handle_list_ok check_seller_of_def check_seller_def guardE_def)
  then obtain m1 where m1: "handle_list ?cfg (oe_registry demo_ops) [] p (oe_wallet demo_ops) 0 480000000 demo_ops_market = Inr m1" by auto
  note ok = list_order_accepted [OF p(1) seen, of ?cfg "[]" 0 "[5]", unfolded m(1) demo_args(2,3)]
  have "\<exists>cs. Tx_calls cs \<in> set (fst (list_order demo_ops ?argv))" using ok m1 demo_args by simp
  then obtain cs where cs: "Tx_calls cs \<in> set (fst (list_order demo_ops ?argv))" by blast
  have "\<exists>m2. handle_deposit_asset [5] (oe_wallet demo_ops) m1 = Inr m2" using deposit_after_list(1) [OF m1] m by blast
  then have "\<exists>m2. handle_deposit_asset [5] (oe_wallet demo_ops) m1 = Inr m2 \<and> mk_asset_owner m2 = Some [5]"
    using ok cs m1 by auto
  with p(1) cs m1 show ?thesis by blast
qed

definition demo_seed_escrow :: seed_escrow_env where
  "demo_seed_escrow = ops_env.extend demo_ops \<lparr>se_window = None, se_mintEnv = None,
     se_config = Some \<lparr>cf_admin = replicate 32 7, cf_usdc_mint = [], cf_dispute_after_s = 3600\<rparr>, se_ata_program = [], se_newMint = [],
     se_rent = Inr 0, se_mintAccount = (\<lambda>_. None), se_balance = (\<lambda>_. Inr ''0'')\<rparr>"

theorem seed_escrow_window_witness:
  "Tx_set_window 604800 \<in> set (fst (seed_escrow demo_seed_escrow)) \<and>
   handle_set_dispute_window (replicate 32 7) 604800 \<lparr>cf_admin = replicate 32 7, cf_usdc_mint = [], cf_dispute_after_s = 3600\<rparr> =
     Inr \<lparr>cf_admin = replicate 32 7, cf_usdc_mint = [], cf_dispute_after_s = 604800\<rparr>"
proof -
  have "snd (dispute_window (se_window demo_seed_escrow)) = Inr 604800"
    by (simp add: demo_seed_escrow_def ops_env.defs dispute_window_def DEFAULT_DISPUTE_AFTER_S_def SCRIPT_MIN_DISPUTE_AFTER_S_def
        SCRIPT_MAX_DISPUTE_AFTER_S_def)
  moreover have "Tx_set_window 604800 \<in> set (fst (seed_config demo_seed_escrow 604800))"
    by (simp add: seed_config_def demo_seed_escrow_def ops_env.defs demo_ops_def log_simps)
  ultimately have "Tx_set_window 604800 \<in> set (fst (seed_escrow demo_seed_escrow))" by (auto simp: seed_escrow_def log_simps)
  with seed_escrow_window [OF this] show ?thesis by (simp add: demo_seed_escrow_def ops_env.defs demo_ops_def)
qed

text \<open>A first run of \<open>bind-chip\<close> with an existing asset; the scripts read the IDL file, whose names are not in camel case.\<close>

definition script_idl :: idl where
  "script_idl = flacon_idl\<lparr>idl_accounts := [(''Passport'', [18, 61, 245, 239, 6, 15, 18, 34])]\<rparr>"

definition demo_bind :: bind_env where
  "demo_bind = ops_env.extend (demo_ops\<lparr>oe_passport := (\<lambda>_. None)\<rparr>) \<lparr>be_new = [8], be_search = (\<lambda>_ _. Inr []), be_idl = script_idl,
     be_created = (\<lambda>_ _. Inr None)\<rparr>"

definition demo_bind_argv :: "string list" where
  "demo_bind_argv = [''SN-1'', ''04112233445566'', ''Brand'', ''Name'', [], ''asset'']"

definition demo_bind_args :: bind_args where
  "demo_bind_args = \<lparr>ba_serial = ''SN-1'', ba_uid = ''04112233445566'', ba_brand = ''Brand'', ba_name = ''Name'', ba_batch = [],
     ba_asset = Some [9], ba_kind = 1, ba_verify = DEFAULT_VERIFY_URL\<rparr>"

lemma demo_parsed: "parseBindChipArgs (\<lambda>t. Some [9]) None demo_bind_argv = Inr demo_bind_args"
proof -
  have args: "arg_at demo_bind_argv 0 = Some ''SN-1''" "arg_at demo_bind_argv 1 = Some ''04112233445566''"
      "arg_at demo_bind_argv 2 = Some ''Brand''" "arg_at demo_bind_argv 3 = Some ''Name''" "arg_at demo_bind_argv 4 = Some []"
      "arg_at demo_bind_argv 5 = Some ''asset''" "arg_at demo_bind_argv 6 = None" "arg_at demo_bind_argv 7 = None"
    by (simp_all add: arg_at_def demo_bind_argv_def)
  have t: "js_trim ''SN-1'' = ''SN-1''" "js_trim ''Brand'' = ''Brand''" "js_trim ''Name'' = ''Name''"
    "UID_RE ''04112233445566''"
    "list_all (\<lambda>c. to_upper_char c = c) ''0123456''" "map to_upper_char ''04112233445566'' = ''04112233445566''" "verifyUrl None None = DEFAULT_VERIFY_URL"
    "http_rest DEFAULT_VERIFY_URL \<noteq> None" by code_simp+
  have "js_number ''1'' = jn 1" proof -
    have "show_nat 1 = ''1''" by code_simp
    then show ?thesis using number_show_nat [of 1] by simp
  qed
  then have k: "parse_kind None = Inr 1" by (simp add: parse_kind_def)
  show ?thesis
    by (simp add: parseBindChipArgs_def args t demo_args(2) k or_empty_def parse_asset_def demo_bind_args_def Let_def guardE_def t [simplified] del: One_nat_def)
qed

lemma demo_search: "passportsUsingAsset (\<lambda>_ _. Inr []) b58 pid script_idl k = Inr (Inr [])"
  by (simp add: passportsUsingAsset_def script_idl_def)

theorem bind_chip_accepted_witness:
  "\<exists>h b p. Tx_mint h b [9] \<in> set (fst (bind_chip demo_bind demo_bind_argv)) \<and>
     mint_passport (oe_registry demo_bind) (oe_wallet demo_bind) 0 h b [9] (account_of [9] demo_asset) = Inr p"
proof -
  have parsed: "parseBindChipArgs (oe_pk demo_bind) (oe_verifyEnv demo_bind) demo_bind_argv = Inr demo_bind_args"
    using demo_parsed by (simp add: demo_bind_def ops_env.defs demo_ops_def)
  have core: "scriptFetchCoreAsset (oe_account demo_bind) [9] = Some \<lparr>cx_owner = replicate 32 7, cx_inCollection = False\<rparr>"
    using demo_core [of "[9]"] by (simp add: demo_bind_def ops_env.defs)
  have wallet: "oe_wallet demo_bind = replicate 32 7" by (simp add: demo_bind_def ops_env.defs demo_ops_def)
  have found: "passportsUsingAsset (be_search demo_bind) (oe_base58 demo_bind) (oe_flacon demo_bind) (be_idl demo_bind) [9] = Inr (Inr [])"
    using demo_search by (simp add: demo_bind_def ops_env.defs)
  have partner: "oe_wallet demo_bind \<in> set (rg_partners (oe_registry demo_bind))" by (simp add: demo_bind_def ops_env.defs demo_ops_def)
  have none: "oe_passport demo_bind k = None" for k by (simp add: demo_bind_def ops_env.defs)
  have "snd (bind_asset demo_bind demo_bind_args) = Inr [9]"
    by (simp add: bind_asset_def demo_bind_args_def core found existingAssetProblem_def wallet snd_andThen Let_def)
  then have "\<exists>h b. Tx_mint h b [9] \<in> set (fst (bind_passport demo_bind demo_bind_args))"
    using none by (auto simp: bind_passport_def log_simps Let_def)
  then obtain h b where m: "Tx_mint h b [9] \<in> set (fst (bind_chip demo_bind demo_bind_argv))"
    using partner by (auto simp: bind_chip_def parsed bind_checked_def log_simps)
  from bind_chip_accepted [OF parsed _ _ m, of "[9]" demo_asset 0 0] obtain p where
    "mint_passport (oe_registry demo_bind) (oe_wallet demo_bind) 0 h b [9] (account_of [9] demo_asset) = Inr p"
    by (auto simp: demo_bind_args_def demo_bind_def ops_env.defs demo_ops_def)
  with m show ?thesis by blast
qed

end
