(* ===== verification/Order_Page.thy ===== *)
theory Order_Page
  imports Escrow_Client Web_Pending Web_Format Web_Verify_Api FV_Number
begin

text \<open>
  \<open>apps/web/src/components/order-detail.tsx\<close>: the page of one order as a state machine. The state is the component's
  \<open>useState\<close> and \<open>useRef\<close> values and the browser's storage; a handler that awaits something leaves a \<open>order_call\<close> with
  the values its closure captured and goes on with the answer. Answers of the RPC, the wallet and the verifier are
  arguments. \<open>base58\<close> is \<open>PublicKey.toBase58\<close>, \<open>date\<close> is \<open>fmtDate\<close> (Intl), times are seconds.
\<close>

section \<open>Data\<close>

record order_env =
  oe_prog :: program
  oe_sha256 :: "bytes \<Rightarrow> bytes"
  oe_base58 :: "pubkey \<Rightarrow> string"
  oe_pk :: "string \<Rightarrow> pubkey option"
  oe_date :: "int \<Rightarrow> string"
  oe_fmt :: "rat \<Rightarrow> string"
  oe_parse :: "string \<Rightarrow> json option"
  oe_pda :: string
  oe_contact :: "string option"

text \<open>The verifier's passport, as far as the page reads it.\<close>

record order_event = passport_event +
  oev_actor :: "string option"

record order_passport =
  opp_brand :: string
  opp_name :: string
  opp_grade :: int
  opp_void :: bool
  opp_seals :: "string list"
  opp_sealStatus :: seal_status
  opp_scanCount :: int
  opp_events :: "order_event list"

record scan_opt = step_scan +
  so_counter :: js_num
  so_fill :: "js_num option"
  so_seal :: pubkey
  so_pda :: pubkey
  so_label :: string

text \<open>What a landed action tells the verifier; a spec may depend on the order as it is afterwards.\<close>

type_synonym order_entry = "int \<times> (string \<times> json) list"

datatype entry_spec = No_entry | Entry order_entry | Entry_after "order_view option option \<Rightarrow> order_entry"

datatype order_press =
    Press_reserve | Press_cancel | Press_preShip | Press_ship | Press_receipt | Press_release
  | Press_releaseAfterTimeout | Press_refundNotShipped | Press_disputeSealDead | Press_adminRefund
  | Press_resolve bool | Press_close | Press_retry

text \<open>A running action: its label, the call to send, its entry, and the order, wallet and serial of the render it was pressed in.\<close>

record run_call =
  rc_label :: string
  rc_call :: "ix_call option"
  rc_entry :: entry_spec
  rc_before :: string
  rc_wallet :: "pubkey option"
  rc_serial :: "string option"

datatype order_call =
    C_load
  | C_send run_call
  | C_watch run_call string nat
  | C_flush run_call "json list"
  | C_retry run_call "json list"
  | C_reload run_call

record order_page =
  op_serial :: "string option"
  op_passport :: "order_passport option"
  op_order :: "order_view option option"
  op_orderRef :: "order_view option option"
  op_config :: "escrow_config_view option"
  op_deadSeal :: "pubkey option"
  op_scanChoice :: string
  op_busy :: "string option"
  op_error :: "string option"
  op_lastTx :: "string option"
  op_pending :: "json list"
  op_now :: rat
  op_wallet :: "pubkey option"
  op_store :: "kv_store option"
  op_calls :: "order_call list"
  op_landed :: "json list"
  op_settled :: "string list"

text \<open>Not code: \<open>op_landed\<close> are the entries of all landed actions, \<open>op_settled\<close> the signatures the verifier has.\<close>

definition opened :: "order_env \<Rightarrow> rat \<Rightarrow> pubkey option \<Rightarrow> kv_store option \<Rightarrow> order_page" where
  "opened e now w kv =
    \<lparr>op_serial = None, op_passport = None, op_order = None, op_orderRef = None, op_config = None, op_deadSeal = None,
     op_scanChoice = [], op_busy = None, op_error = None, op_lastTx = None, op_pending = loadPending (oe_parse e) (oe_pda e) kv,
     op_now = now, op_wallet = w, op_store = kv, op_calls = [C_load], op_landed = [], op_settled = []\<rparr>"

section \<open>Helpers of the module\<close>

definition alreadyRecorded :: "thrown \<Rightarrow> bool" where
  "alreadyRecorded e \<longleftrightarrow> (case th_error e of ApiErr a \<Rightarrow> ae_code a = Some ''event_confirmed'' | _ \<Rightarrow> False)"

definition ADMIN_CONTACT :: "order_env \<Rightarrow> string option" where
  "ADMIN_CONTACT e = (case oe_contact e of
     Some c \<Rightarrow> if starts_with c ''mailto:'' \<or> starts_with c ''https://'' then Some c else None | None \<Rightarrow> None)"

definition adminContactHref :: "order_env \<Rightarrow> string \<Rightarrow> string option" where
  "adminContactHref e orderPda = (case ADMIN_CONTACT e of
     Some c \<Rightarrow> if starts_with c ''mailto:'' \<and> CHR 0x3F \<notin> set c
       then Some (c @ [CHR 0x3F] @ ''subject='' @ encodeURIComponent (''FlaconVault order '' @ orderPda)) else Some c
   | None \<Rightarrow> None)"

text \<open>
  \<open>passportFor\<close>: the passport list (empty unless the verifier answers 2xx), the entry whose PDA is the order's passport,
  then that passport (None unless 2xx).
\<close>

definition passportFor ::
  "order_env \<Rightarrow> thrown + string list \<Rightarrow> (string \<Rightarrow> thrown + order_passport option) \<Rightarrow> pubkey \<Rightarrow>
   thrown + (string \<times> order_passport option) option" where
  "passportFor e serials fetch_passport k =
    bindE serials (\<lambda>list.
    case List.find (\<lambda>s. isValidSerial s \<and> passportPda (pr_lib (oe_prog e)) (serialHash (oe_sha256 e) s) = k) list of
      None \<Rightarrow> Inr None
    | Some s \<Rightarrow> bindE (fetch_passport s) (\<lambda>p. Inr (Some (s, p))))"

section \<open>Reading\<close>

text \<open>
  What \<open>load\<close> is answered: config and order (\<open>Promise.all\<close>), the passport list, the passport, the seal accounts; and
  whether React has committed the new state before the caller goes on.
\<close>

record load_answer =
  la_first :: "thrown + escrow_config_view option \<times> order_view option"
  la_serials :: "thrown + string list"
  la_passport :: "string \<Rightarrow> thrown + order_passport option"
  la_seals :: "thrown + (pubkey list \<Rightarrow> account_info option list)"
  la_committed :: bool

definition hex_error :: "proof_error \<Rightarrow> thrown" where
  "hex_error e = plain (OtherErr ''Error'' (case e of BadHex h \<Rightarrow> ''bad hex: '' @ h | _ \<Rightarrow> []))"

definition seal_states :: "order_env \<Rightarrow> load_answer \<Rightarrow> string list \<Rightarrow> thrown + seal_state list" where
  "seal_states e a hashes =
    (case fetchSealStates (pr_lib (oe_prog e)) (case la_seals a of Inr g \<Rightarrow> g | Inl _ \<Rightarrow> (\<lambda>_. [])) hashes of
       Inl pe \<Rightarrow> Inl (hex_error pe)
     | Inr ss \<Rightarrow> (case la_seals a of Inl x \<Rightarrow> if hashes = [] then Inr ss else Inl x | Inr _ \<Rightarrow> Inr ss))"

definition load_failed :: "thrown \<Rightarrow> order_page \<Rightarrow> order_page" where
  "load_failed x p = p\<lparr>op_error := Some (friendly (th_error x)),
     op_order := Some (case op_order p of Some v \<Rightarrow> v | None \<Rightarrow> None)\<rparr>"

definition loaded :: "order_env \<Rightarrow> load_answer \<Rightarrow> order_page \<Rightarrow> order_page" where
  "loaded e a p =
    (if oe_pk e (oe_pda e) = None then p\<lparr>op_order := Some None\<rparr>
     else case la_first a of
       Inl x \<Rightarrow> load_failed x p
     | Inr (cfg, ord) \<Rightarrow>
         let p = p\<lparr>op_config := cfg, op_order := Some ord\<rparr> in
         case ord of
           None \<Rightarrow> p
         | Some v \<Rightarrow>
             (case passportFor e (la_serials a) (la_passport a) (ix_passport v) of
                Inl x \<Rightarrow> load_failed x p
              | Inr found \<Rightarrow>
                  let pass = Option.bind found snd; p = p\<lparr>op_serial := map_option fst found, op_passport := pass\<rparr>
                  in case seal_states e a (case pass of Some q \<Rightarrow> opp_seals q | None \<Rightarrow> []) of
                       Inl x \<Rightarrow> load_failed x p
                     | Inr ss \<Rightarrow> p\<lparr>op_deadSeal :=
                         map_option sx_pda (List.find (\<lambda>s. sx_dead s \<and> sx_passport s = Some (ix_passport v)) ss)\<rparr>))"

text \<open>The effect after a render.\<close>

definition committed :: "order_page \<Rightarrow> order_page" where
  "committed p = p\<lparr>op_orderRef := op_order p\<rparr>"

section \<open>Derived values\<close>

definition shown_order :: "order_page \<Rightarrow> order_view option" where
  "shown_order p = Option.bind (op_order p) id"

definition of_view :: "order_view \<Rightarrow> order_like" where
  "of_view v = \<lparr>ol_state = ov_state v, ol_reservedAt = ov_reservedAt v, ol_shippedAt = ov_shippedAt v,
     ol_disputeAfterS = ov_disputeAfterS v, ol_assetDeposited = ix_assetDeposited v\<rparr>"

definition page_viewer :: "order_page \<Rightarrow> viewer" where
  "page_viewer p =
    (let me = op_wallet p in
     \<lparr>vw_isSeller = (case (shown_order p, me) of (Some v, Some k) \<Rightarrow> ix_seller v = k | _ \<Rightarrow> False),
      vw_isBuyer = (case (shown_order p, me) of (Some v, Some k) \<Rightarrow> ix_buyer v = Some k | _ \<Rightarrow> False),
      vw_isAdmin = (case (op_config p, me) of (Some c, Some k) \<Rightarrow> ec_admin c = k | _ \<Rightarrow> False),
      vw_sealDead = (op_deadSeal p \<noteq> None)\<rparr>)"

definition payload_number :: "order_event \<Rightarrow> string \<Rightarrow> js_num option" where
  "payload_number ev k = jnumber (jget (ev_payload ev) k)"

definition event_indicators :: "order_event \<Rightarrow> (js_num option \<times> js_num option) option" where
  "event_indicators ev = map_option (\<lambda>i. (jnumber (jget i ''heat''), jnumber (jget i ''humidity''))) (jget (ev_payload ev) ''indicators'')"

definition scan_counts :: "string \<Rightarrow> order_event \<Rightarrow> bool" where
  "scan_counts me ev \<longleftrightarrow> ev_type ev = member EventType ''SCAN'' \<and> oev_actor ev = Some me \<and> ev_status ev = Confirmed \<and>
     payload_number ev ''counter'' \<noteq> None \<and> set_text (ev_sealUidHash ev) \<noteq> None"

text \<open>\<open>DataView.setUint32\<close> truncates towards zero; NaN and the infinities become 0.\<close>

definition trunc_num :: "js_num \<Rightarrow> int" where
  "trunc_num n = (case n of Fin q \<Rightarrow> if q < 0 then - \<lfloor>- q\<rfloor> else \<lfloor>q\<rfloor> | _ \<Rightarrow> 0)"

definition scan_label :: "order_env \<Rightarrow> order_event \<Rightarrow> js_num \<Rightarrow> string option \<Rightarrow> string" where
  "scan_label e ev counter unusable = ''Counter '' @ num_text (oe_fmt e) counter @ ('' '' @ [CHR 0xC2, CHR 0xB7] @ '' '') @ oe_date e (ev_ts ev) @
     (case payload_number ev ''fill'' of Some f \<Rightarrow> ('' '' @ [CHR 0xC2, CHR 0xB7] @ '' fill level '') @ num_text (oe_fmt e) f @ '' %'' | None \<Rightarrow> []) @
     (case unusable of Some t \<Rightarrow> ('' '' @ [CHR 0xC2, CHR 0xB7] @ '' '') @ t @ '', cannot be recorded'' | None \<Rightarrow> [])"

definition scan_option :: "order_env \<Rightarrow> order_event \<Rightarrow> proof_error + scan_opt" where
  "scan_option e ev =
    bindE (hexToBytes (case ev_sealUidHash ev of Some h \<Rightarrow> h | None \<Rightarrow> [])) (\<lambda>uid.
    let L = pr_lib (oe_prog e); sl = sealPda L uid; counter = (case payload_number ev ''counter'' of Some c \<Rightarrow> c | None \<Rightarrow> jn 0);
        unusable = (case scanUsableForOrder (event_indicators ev) of Inl t \<Rightarrow> Some t | Inr _ \<Rightarrow> None);
        pda = scanPda L sl (trunc_num counter)
    in Inr \<lparr>ss_key = oe_base58 e pda, ss_ts = ev_ts ev, ss_unusable = unusable, so_counter = counter,
        so_fill = payload_number ev ''fill'', so_seal = sl, so_pda = pda, so_label = scan_label e ev counter unusable\<rparr>)"

text \<open>The connected wallet's anchored scans, newest first; a malformed seal hash makes the render throw.\<close>

definition myScans :: "order_env \<Rightarrow> order_page \<Rightarrow> proof_error + scan_opt list" where
  "myScans e p =
    (let evs = (case op_passport p of Some q \<Rightarrow> opp_events q | None \<Rightarrow> []) in
     case op_wallet p of
       None \<Rightarrow> Inr []
     | Some k \<Rightarrow> bindE (map_err (scan_option e) (filter (scan_counts (oe_base58 e k)) evs)) (\<lambda>ss. Inr (rev ss)))"

definition page_scan_step :: "order_page \<Rightarrow> order_scan_step option" where
  "page_scan_step p = (case shown_order p of
     Some v \<Rightarrow> if ov_state v = OrderState RESERVED then Some PreShip else if ov_state v = OrderState SHIPPED then Some Receipt else None
   | None \<Rightarrow> None)"

definition page_choice :: "order_page \<Rightarrow> scan_opt list \<Rightarrow> scan_opt scan_choice" where
  "page_choice p scans = stepScanChoice (map_option of_view (shown_order p)) (page_scan_step p) scans (op_scanChoice p)"

definition sellerScanCounter :: "order_env \<Rightarrow> order_page \<Rightarrow> json option" where
  "sellerScanCounter e p =
    (case List.find (\<lambda>ev. ev_type ev = member EventType ''SHIP'' \<and>
         (jget (ev_payload ev) ''order'' = Some (JStr (oe_pda e)) \<or> jget (ev_payload ev) ''order'' = None))
       (case op_passport p of Some q \<Rightarrow> opp_events q | None \<Rightarrow> []) of
       Some ev \<Rightarrow> jget (ev_payload ev) ''preShipScanCounter'' | None \<Rightarrow> None)"

text \<open>\<open>now > deadline\<close> for a whole deadline is \<open>ceiling now > deadline\<close>.\<close>

definition page_actions :: "order_page \<Rightarrow> escrow_action list" where
  "page_actions p = (case shown_order p of Some v \<Rightarrow> availableActions (of_view v) (page_viewer p) \<lceil>op_now p\<rceil> | None \<Rightarrow> [])"

definition snapshot :: "order_env \<Rightarrow> order_view option option \<Rightarrow> string" where
  "snapshot e ref = (case ref of
     Some (Some v) \<Rightarrow>
       let txt = (\<lambda>k. case k of Some x \<Rightarrow> oe_base58 e x | None \<Rightarrow> []) in
       show_int (ov_state v) @ '':'' @ txt (ix_buyer v) @ '':'' @ txt (ix_sellerScan v) @ '':'' @ txt (ov_buyerScan v)
   | _ \<Rightarrow> [])"

section \<open>Actions\<close>

fun press_label :: "order_press \<Rightarrow> string" where
  "press_label Press_reserve = ''reserve''" | "press_label Press_cancel = ''cancel''" | "press_label Press_preShip = ''preShip''"
| "press_label Press_ship = ''ship''" | "press_label Press_receipt = ''receipt''" | "press_label Press_release = ''release''"
| "press_label Press_releaseAfterTimeout = ''releaseAfterTimeout''" | "press_label Press_refundNotShipped = ''refundNotShipped''"
| "press_label Press_disputeSealDead = ''disputeSealDead''" | "press_label Press_adminRefund = ''adminRefund''"
| "press_label (Press_resolve toSeller) = (if toSeller then ''resolveSeller'' else ''resolveBuyer'')"
| "press_label Press_close = ''close''" | "press_label Press_retry = ''retry''"

text \<open>The call an action sends; None when building it throws.\<close>

definition act_call :: "order_env \<Rightarrow> order_page \<Rightarrow> scan_opt option \<Rightarrow> order_press \<Rightarrow> ix_call option" where
  "act_call e p chosen b =
    (case (shown_order p, op_wallet p) of
       (Some v, Some me) \<Rightarrow>
         let pr = oe_prog e; paid = (\<lambda>f. case op_config p of Some c \<Rightarrow> f (ec_usdcMint c) | None \<Rightarrow> None) in
         (case b of
            Press_reserve \<Rightarrow> paid (\<lambda>m. Some (app_reserve pr v me m None))
          | Press_preShip \<Rightarrow> map_option (\<lambda>s. ix_preShip pr v (so_pda s) (so_seal s)) chosen
          | Press_ship \<Rightarrow> Some (ix_ship pr v)
          | Press_receipt \<Rightarrow> map_option (\<lambda>s. ix_receipt pr v (so_pda s) (so_seal s)) chosen
          | Press_release \<Rightarrow> paid (ix_release pr v me)
          | Press_releaseAfterTimeout \<Rightarrow> paid (ix_releaseAfterTimeout pr v me)
          | Press_refundNotShipped \<Rightarrow> paid (\<lambda>m. ix_dispute pr v me m None)
          | Press_disputeSealDead \<Rightarrow> paid (\<lambda>m. ix_dispute pr v me m (op_deadSeal p))
          | Press_adminRefund \<Rightarrow> paid (\<lambda>m. ix_dispute pr v me m None)
          | Press_resolve toSeller \<Rightarrow> paid (\<lambda>m. ix_resolve pr v me m toSeller)
          | Press_cancel \<Rightarrow> Some (ix_cancel pr v)
          | Press_close \<Rightarrow> Some (ix_closeOrder pr v)
          | Press_retry \<Rightarrow> None)
     | _ \<Rightarrow> None)"

definition price_fields :: "order_view \<Rightarrow> (string \<times> json) list" where
  "price_fields v = [(''priceUsdc'', JNum (js_number (ov_priceUsdc v))), (''currency'', JStr ''USDC'')]"

definition passport_to :: "order_env \<Rightarrow> order_view \<Rightarrow> (string \<times> json) list" where
  "passport_to e v = (if ix_assetDeposited v
     then (case ix_buyer v of Some k \<Rightarrow> [(''passportTo'', JStr (oe_base58 e k))] | None \<Rightarrow> []) else [])"

definition release_entry :: "order_env \<Rightarrow> order_view \<Rightarrow> string option \<Rightarrow> entry_spec" where
  "release_entry e v reason = Entry (member EventType ''RELEASE'',
     price_fields v @ [(''to'', JStr (oe_base58 e (ix_seller v)))] @ opt_member ''reason'' reason @ passport_to e v)"

definition dispute_entry :: "string \<Rightarrow> entry_spec" where
  "dispute_entry reason = Entry (member EventType ''DISPUTE'', [(''reason'', JStr reason)])"

definition or_jnull :: "json option \<Rightarrow> json" where
  "or_jnull j = (if nullish j then JNull else the j)"

text \<open>The shipping scan's counter: of one of the own scans, else what the history says.\<close>

definition ship_counter :: "order_env \<Rightarrow> order_page \<Rightarrow> scan_opt list \<Rightarrow> order_view option option \<Rightarrow> json" where
  "ship_counter e p scans after =
    (case List.find (\<lambda>s. (case after of Some (Some o') \<Rightarrow> ix_sellerScan o' = Some (so_pda s) | _ \<Rightarrow> False)) scans of
       Some s \<Rightarrow> JNum (so_counter s) | None \<Rightarrow> or_jnull (sellerScanCounter e p))"

definition act_entry :: "order_env \<Rightarrow> order_page \<Rightarrow> scan_opt list \<Rightarrow> scan_opt option \<Rightarrow> order_press \<Rightarrow> entry_spec" where
  "act_entry e p scans chosen b =
    (case shown_order p of None \<Rightarrow> No_entry | Some v \<Rightarrow>
     (case b of
        Press_reserve \<Rightarrow> Entry (member EventType ''RESERVE'', price_fields v)
      | Press_ship \<Rightarrow> Entry_after (\<lambda>after. (member EventType ''SHIP'',
          [(''carrier'', JStr ''DHL''), (''preShipScanCounter'', ship_counter e p scans after)]))
      | Press_receipt \<Rightarrow> Entry_after (\<lambda>after. (member EventType ''RECEIVE'',
          [(''receiptScanCounter'', (case chosen of Some s \<Rightarrow> JNum (so_counter s) | None \<Rightarrow> JNull)),
           (''preShipScanCounter'', or_jnull (sellerScanCounter e p)),
           (''match'', JBool (case after of Some (Some o') \<Rightarrow> ov_state o' = OrderState RECEIPT_SCANNED | _ \<Rightarrow> False)),
           (''fillDelta'', JNull)]))
      | Press_release \<Rightarrow> release_entry e v None
      | Press_releaseAfterTimeout \<Rightarrow> release_entry e v (Some ''no receipt scan within the deadline'')
      | Press_refundNotShipped \<Rightarrow> dispute_entry ''not shipped within the deadline''
      | Press_disputeSealDead \<Rightarrow> dispute_entry ''Seal not responding''
      | Press_adminRefund \<Rightarrow> dispute_entry ''admin''
      | Press_resolve toSeller \<Rightarrow> if toSeller then release_entry e v (Some (''scans disagree '' @ [CHR 0xC2, CHR 0xB7] @ '' resolved by the escrow admin''))
          else dispute_entry (''scans disagree '' @ [CHR 0xC2, CHR 0xB7] @ '' refunded by the escrow admin'')
      | _ \<Rightarrow> No_entry))"

section \<open>Handlers\<close>

definition with_call :: "order_call \<Rightarrow> order_page \<Rightarrow> order_page" where
  "with_call c p = p\<lparr>op_calls := op_calls p @ [c]\<rparr>"

definition finished :: "order_page \<Rightarrow> order_page" where
  "finished p = p\<lparr>op_busy := None\<rparr>"

definition new_call :: "order_env \<Rightarrow> order_page \<Rightarrow> scan_opt list \<Rightarrow> order_press \<Rightarrow> run_call" where
  "new_call e p scans b = (let chosen = sc_chosen (page_choice p scans) in
    \<lparr>rc_label = press_label b, rc_call = act_call e p chosen b, rc_entry = act_entry e p scans chosen b,
     rc_before = snapshot e (op_order p), rc_wallet = op_wallet p, rc_serial = op_serial p\<rparr>)"

text \<open>What is stored for the order, as \<open>postAllPending\<close> reads it.\<close>

definition stored_entries :: "order_env \<Rightarrow> order_page \<Rightarrow> json list" where
  "stored_entries e p = loadPending (oe_parse e) (oe_pda e) (op_store p)"

text \<open>\<open>run\<close> up to its first await, and \<open>retryConfirmation\<close> up to its.\<close>

definition pressed_button :: "order_env \<Rightarrow> scan_opt list \<Rightarrow> order_press \<Rightarrow> order_page \<Rightarrow> order_page" where
  "pressed_button e scans b p =
    (let c = new_call e p scans b; p' = p\<lparr>op_busy := Some (press_label b), op_error := None\<rparr> in
     if b = Press_retry then (if op_pending p = [] then p else with_call (C_retry c (stored_entries e p)) p')
     else if op_wallet p = None then p else with_call (C_send c) p')"

definition sent_answer :: "run_call \<Rightarrow> thrown + string \<Rightarrow> order_page \<Rightarrow> order_page" where
  "sent_answer c r p = (case r of
     Inl x \<Rightarrow> finished (p\<lparr>op_error := Some (friendly (th_error x))\<rparr>)
   | Inr sig \<Rightarrow> with_call (C_watch c sig 0) (p\<lparr>op_lastTx := Some sig\<rparr>))"

definition entry_of :: "entry_spec \<Rightarrow> order_view option option \<Rightarrow> order_entry option" where
  "entry_of s after = (case s of No_entry \<Rightarrow> None | Entry x \<Rightarrow> Some x | Entry_after f \<Rightarrow> Some (f after))"

text \<open>The landed transaction is stored with its entry before anything is posted.\<close>

definition landing :: "order_env \<Rightarrow> run_call \<Rightarrow> string \<Rightarrow> order_page \<Rightarrow> order_page" where
  "landing e c sig p = (case entry_of (rc_entry c) (op_orderRef p) of
     None \<Rightarrow> finished p
   | Some (typ, payload) \<Rightarrow>
       let landed = JObj [(''sig'', JStr sig), (''type'', JNum (jn typ)), (''payload'', JObj payload)];
           (ps, kv) = rememberPending (oe_parse e) (oe_fmt e) (oe_pda e) landed (op_store p);
           p = p\<lparr>op_store := kv, op_pending := ps, op_landed := op_landed p @ [landed]\<rparr>
       in with_call (C_flush c (stored_entries e p)) p)"

definition WATCH_ROUNDS :: nat where "WATCH_ROUNDS = 8"

text \<open>One round of the loop that waits for the order to change; after the pause the last state has been rendered.\<close>

definition watch_answer :: "order_env \<Rightarrow> run_call \<Rightarrow> string \<Rightarrow> nat \<Rightarrow> load_answer \<Rightarrow> order_page \<Rightarrow> order_page" where
  "watch_answer e c sig n a p =
    (let p = loaded e a p; p = (if la_committed a then committed p else p) in
     if snapshot e (op_orderRef p) \<noteq> rc_before c then landing e c sig p
     else if Suc n < WATCH_ROUNDS then with_call (C_watch c sig (Suc n)) (committed p)
     else landing e c sig (committed p))"

text \<open>\<open>{ ...p.payload, order: orderPda }\<close>.\<close>

definition set_member :: "string \<Rightarrow> json \<Rightarrow> (string \<times> json) list \<Rightarrow> (string \<times> json) list" where
  "set_member k v fs = (if k \<in> fst ` set fs then map (\<lambda>(a, b). (a, if a = k then v else b)) fs else fs @ [(k, v)])"

definition obj_members :: "json option \<Rightarrow> (string \<times> json) list" where
  "obj_members j = (case j of Some (JObj fs) \<Rightarrow> fs | _ \<Rightarrow> [])"

definition UNKNOWN_PASSPORT :: thrown where
  "UNKNOWN_PASSPORT = plain (OtherErr ''Error'' ''The passport of this order is unknown to the verifier.'')"

definition entry_body :: "order_env \<Rightarrow> string \<Rightarrow> pubkey \<Rightarrow> json \<Rightarrow> (string \<times> json) list" where
  "entry_body e serial actor x = [(''serial'', JStr serial), (''type'', or_jnull (jget x ''type'')), (''txSig'', JStr (sig_of x)),
     (''actor'', JStr (oe_base58 e actor)), (''payload'', JObj (set_member ''order'' (JStr (oe_pda e)) (obj_members (jget x ''payload''))))]"

text \<open>\<open>postEvent\<close>; \<open>net body i\<close> is the verifier's answer to the i-th post of a body.\<close>

definition post_entry :: "order_env \<Rightarrow> run_call \<Rightarrow> (json \<Rightarrow> nat \<Rightarrow> js_error + json) \<Rightarrow> json \<Rightarrow> thrown option" where
  "post_entry e c net x = (case (rc_wallet c, set_text (rc_serial c)) of
     (Some k, Some serial) \<Rightarrow>
       (case fst (events net (entry_body e serial k x)) of Inl er \<Rightarrow> Some (plain er) | Inr _ \<Rightarrow> None)
   | _ \<Rightarrow> Some UNKNOWN_PASSPORT)"

text \<open>\<open>postAllPending\<close> after its posts: what is left is stored. The second part is its error.\<close>

definition flushed ::
  "order_env \<Rightarrow> run_call \<Rightarrow> json list \<Rightarrow> (json \<Rightarrow> nat \<Rightarrow> js_error + json) \<Rightarrow> order_page \<Rightarrow> order_page \<times> thrown option" where
  "flushed e c ps net p =
    (let (left, err) = flushPending ps (post_entry e c net) alreadyRecorded in
     (p\<lparr>op_store := savePending (oe_fmt e) (oe_pda e) left (op_store p), op_pending := left,
        op_settled := op_settled p @ map sig_of (filter (moot (post_entry e c net) alreadyRecorded) ps)\<rparr>, err))"

definition flush_answer ::
  "order_env \<Rightarrow> run_call \<Rightarrow> json list \<Rightarrow> (json \<Rightarrow> nat \<Rightarrow> js_error + json) \<Rightarrow> order_page \<Rightarrow> order_page" where
  "flush_answer e c ps net p = (let (p, err) = flushed e c ps net p in
     finished (case err of None \<Rightarrow> p
       | Some x \<Rightarrow> p\<lparr>op_error := Some (''The transaction is on chain, but the history entry failed: '' @ friendly (th_error x))\<rparr>))"

definition retry_answer ::
  "order_env \<Rightarrow> run_call \<Rightarrow> json list \<Rightarrow> (json \<Rightarrow> nat \<Rightarrow> js_error + json) \<Rightarrow> order_page \<Rightarrow> order_page" where
  "retry_answer e c ps net p = (let (p, err) = flushed e c ps net p in
     case err of None \<Rightarrow> with_call (C_reload c) p
     | Some x \<Rightarrow> finished
         (p\<lparr>op_error := Some (''The transaction is on chain, but the history entry failed again: '' @ friendly (th_error x))\<rparr>))"

end
