(* ===== verification/Order_View.thy ===== *)
theory Order_View
  imports Order_Page
begin

text \<open>
  What the order page shows (the JSX of \<open>order-detail.tsx\<close> as texts, links, buttons and the choice of a scan; layout left
  out) and what can happen to it. A button can be pressed exactly when the page shows it enabled.
\<close>

section \<open>The view\<close>

datatype order_ui =
    O_say string
  | O_link string string
  | O_button order_press string bool
  | O_pick string "(string \<times> string \<times> bool) list"
  | O_wallet

definition ui_if :: "bool \<Rightarrow> order_ui list \<Rightarrow> order_ui list" where
  "ui_if b xs = (if b then xs else [])"

definition idle :: "order_page \<Rightarrow> bool" where
  "idle p \<longleftrightarrow> op_busy p = None"

definition can :: "order_page \<Rightarrow> escrow_action \<Rightarrow> bool" where
  "can p a \<longleftrightarrow> a \<in> set (page_actions p)"

definition STEPS :: "int list" where
  "STEPS = map OrderState [LISTED, RESERVED, PRESHIP_SCANNED, SHIPPED, RECEIPT_SCANNED, RELEASED]"

definition state_text :: "int \<Rightarrow> string" where
  "state_text s = (case orderStateLabel s of Some t \<Rightarrow> t | None \<Rightarrow> [])"

definition amount_text :: "order_view \<Rightarrow> string" where
  "amount_text v = formatUsdc (ix_priceBase v) @ '' USDC''"

definition plural_s :: "int \<Rightarrow> string" where
  "plural_s n = (if n = 1 then [] else ''s'')"

definition shown_grade :: "order_passport \<Rightarrow> int" where
  "shown_grade q = (if opp_void q then 4 else opp_grade q)"

definition seal_text :: "seal_status \<Rightarrow> string" where
  "seal_text s = (case s of Seal_intact \<Rightarrow> ''responding'' | Seal_no_response \<Rightarrow> ''not responding'' | Seal_opened \<Rightarrow> ''opened'')"

definition header_view :: "order_env \<Rightarrow> order_page \<Rightarrow> order_ui list" where
  "header_view e p =
    [O_link ''/market'' ''Market''] @
    (case set_text (op_serial p) of Some s \<Rightarrow> [O_link (marketPassportPath s) s] | None \<Rightarrow> []) @
    [O_say (''order '' @ short 4 (Some (oe_pda e))),
     O_say (case op_passport p of Some q \<Rightarrow> opp_brand q @ ('' '' @ [CHR 0xC2, CHR 0xB7] @ '' '') @ opp_name q
       | None \<Rightarrow> (case op_serial p of Some s \<Rightarrow> s | None \<Rightarrow> ''Order''))] @
    (case (op_passport p, set_text (op_serial p)) of
       (Some q, Some s) \<Rightarrow> [O_say (''Grade '' @ gradeLetter (Some (shown_grade q)) @ ('' '' @ [CHR 0xC2, CHR 0xB7] @ '' '') @ show_int (opp_scanCount q) @
           ('' scans '' @ [CHR 0xC2, CHR 0xB7] @ '' seal '') @ seal_text (opp_sealStatus q)), O_link (passportPath s) ''View passport'']
     | _ \<Rightarrow> [])"

definition error_line :: "order_page \<Rightarrow> order_ui list" where
  "error_line p = (case set_text (op_error p) of Some t \<Rightarrow> [O_say t] | None \<Rightarrow> [])"

definition pending_view :: "order_page \<Rightarrow> order_ui list" where
  "pending_view p = (let sigs = map sig_of (op_pending p) in ui_if (sigs \<noteq> [])
     [O_say (if length sigs = 1
        then ''A transaction on chain ('' @ short 8 (Some (hd sigs)) @ '') is not in the passport history yet.''
        else show_nat (length sigs) @ '' transactions on chain ('' @ join '', '' (map (\<lambda>s. short 6 (Some s)) sigs) @
          '') are not in the passport history yet.''),
      O_button Press_retry ''Retry confirmation'' (idle p \<and> op_wallet p \<noteq> None)])"

definition last_tx_view :: "order_page \<Rightarrow> order_ui list" where
  "last_tx_view p = (case set_text (op_lastTx p) of
     Some s \<Rightarrow> [O_say ''Last transaction:'', O_link (txUrl s) (short 8 (Some s))] | None \<Rightarrow> [])"

text \<open>\<open>Math.round(s / n)\<close>.\<close>

definition round_div :: "int \<Rightarrow> int \<Rightarrow> int" where
  "round_div s n = (2 * s + n) div (2 * n)"

definition past :: "order_page \<Rightarrow> int \<Rightarrow> bool" where
  "past p t \<longleftrightarrow> \<lceil>op_now p\<rceil> > t"

definition deadline_text :: "order_env \<Rightarrow> order_page \<Rightarrow> order_view \<Rightarrow> string" where
  "deadline_text e p v =
    (let s = ov_state v; o' = of_view v; expired = (\<lambda>t. if past p t then ('' '' @ [CHR 0xC2, CHR 0xB7] @ '' expired'') else []) in
     if s = OrderState SHIPPED then ''Receipt scan by '' @ oe_date e (receiptDeadline o') @ expired (receiptDeadline o')
     else if s = OrderState RESERVED \<or> s = OrderState PRESHIP_SCANNED
     then ''Shipping by '' @ oe_date e (shipDeadline o') @ expired (shipDeadline o')
     else (if round_div (ov_disputeAfterS v) 3600 \<ge> 48 then show_int (round_div (ov_disputeAfterS v) 86400) @ '' days''
           else show_int (round_div (ov_disputeAfterS v) 3600) @ '' h'') @ '' to ship, then to scan on receipt'')"

definition key_text :: "order_env \<Rightarrow> pubkey option \<Rightarrow> string" where
  "key_text e k = (case k of Some x \<Rightarrow> short 4 (Some (oe_base58 e x)) | None \<Rightarrow> [CHR 0xE2, CHR 0x80, CHR 0x93])"

definition wallet_link :: "order_env \<Rightarrow> pubkey \<Rightarrow> order_ui" where
  "wallet_link e k = O_link (''/wallet/'' @ encodeURIComponent (oe_base58 e k)) (short 4 (Some (oe_base58 e k)))"

definition facts_view :: "order_env \<Rightarrow> order_page \<Rightarrow> order_view \<Rightarrow> order_ui list" where
  "facts_view e p v =
    [O_say (amount_text v), O_say (state_text (ov_state v))] @
    map (\<lambda>s. O_say (state_text s @ (if ov_state v \<ge> s \<and> ov_state v \<le> OrderState RELEASED then '' (reached)'' else []))) STEPS @
    [O_say ''Seller'', wallet_link e (ix_seller v), O_say ''Buyer'',
     (case ix_buyer v of Some k \<Rightarrow> wallet_link e k | None \<Rightarrow> O_say [CHR 0xE2, CHR 0x80, CHR 0x93]),
     O_say (''Listed '' @ oe_date e (ov_listedAt v)),
     O_say (''Shipping scan '' @ key_text e (ix_sellerScan v)), O_say (''Receipt scan '' @ key_text e (ov_buyerScan v)),
     O_say (''Deadline '' @ deadline_text e p v),
     O_say (''Core asset '' @ (if ix_assetDeposited v then ''held by the escrow, goes to the buyer on release'' else ''not in escrow custody''))]"

definition undecided_note :: "int \<Rightarrow> string option" where
  "undecided_note n = (if n > 0
     then Some ((if n = 1 then ''One scan'' else show_int n @ '' scans'') @
       '' of this wallet cannot be recorded: heat and humidity must both be read (intact or triggered). The escrow compares them between the shipping and the receipt scan, and an unreadable or missing value cannot be compared. Do a new scan with a sharp, glare-free photo of the card.'')
     else None)"

definition no_scan_label :: "order_page \<Rightarrow> scan_opt scan_choice \<Rightarrow> string" where
  "no_scan_label p c =
    (if sc_undecided c > 0 then ([CHR 0xE2, CHR 0x80, CHR 0x94] @ '' no scan with heat and humidity read '' @ [CHR 0xE2, CHR 0x80, CHR 0x94])
     else if sc_olderHidden c > 0
     then ([CHR 0xE2, CHR 0x80, CHR 0x94] @ '' no scan of this wallet after the '') @ (if page_scan_step p = Some Receipt then ''shipping'' else ''reservation'') @ ('' yet '' @ [CHR 0xE2, CHR 0x80, CHR 0x94])
     else ([CHR 0xE2, CHR 0x80, CHR 0x94] @ '' no anchored scan of this wallet yet '' @ [CHR 0xE2, CHR 0x80, CHR 0x94]))"

definition older_text :: "scan_opt scan_choice \<Rightarrow> string" where
  "older_text c = (if sc_olderHidden c > 0
     then '' ('' @ show_int (sc_olderHidden c) @ '' older scan'' @ (if sc_olderHidden c = 1 then '' is'' else ''s are'') @ '' not offered)'' else [])"

text \<open>The menu of a step's scans and the button that records the chosen one.\<close>

definition record_view :: "order_page \<Rightarrow> scan_opt scan_choice \<Rightarrow> order_press \<Rightarrow> string \<Rightarrow> order_ui list" where
  "record_view p c b label =
    [O_pick (case sc_chosen c of Some s \<Rightarrow> ss_key s | None \<Rightarrow> [])
       ((if sc_chosen c = None then [([], no_scan_label p c, False)] else []) @
        map (\<lambda>s. (ss_key s, so_label s, ss_unusable s \<noteq> None)) (sc_offered c)),
     O_button b label (idle p \<and> sc_chosen c \<noteq> None)] @
    (case undecided_note (sc_undecided c) of Some t \<Rightarrow> [O_say t] | None \<Rightarrow> [])"

definition admin_text :: "order_env \<Rightarrow> order_page \<Rightarrow> admin_reason \<times> int \<Rightarrow> string" where
  "admin_text e p r =
    (let late = (if past p (snd r) then '' (the deadline has passed: contact the admin at once)'' else []) in
     case fst r of
       SealDeadReason \<Rightarrow> ''After shipping only the escrow admin can refund this order. Contact the admin before '' @
         oe_date e (snd r) @ late @ ''.''
     | NotReceived \<Rightarrow> ''Without the bottle you cannot record a receipt scan, and after '' @ oe_date e (snd r) @
         '' anyone can release the USDC to the seller. Contact the escrow admin before then'' @ late @
         '': the admin can refund a shipped order.'')"

definition admin_view :: "order_env \<Rightarrow> order_page \<Rightarrow> order_view \<Rightarrow> order_ui list" where
  "admin_view e p v = (case buyerNeedsAdmin (of_view v) (page_viewer p) of
     None \<Rightarrow> []
   | Some r \<Rightarrow>
       [O_say (if fst r = SealDeadReason then ''The seal stopped responding after shipping.'' else ''Not received?''),
        O_say (admin_text e p r), O_say ''Escrow admin:'',
        (case op_config p of Some c \<Rightarrow> wallet_link e (ec_admin c) | None \<Rightarrow> O_say [CHR 0xE2, CHR 0x80, CHR 0x93])] @
       (case adminContactHref e (oe_pda e) of Some h \<Rightarrow> [O_link h ''Contact the escrow admin''] | None \<Rightarrow> []))"

text \<open>A button that pays out needs the configuration.\<close>

definition pay_button :: "order_page \<Rightarrow> escrow_action \<Rightarrow> order_press \<Rightarrow> string \<Rightarrow> order_ui list" where
  "pay_button p a b label = ui_if (can p a) [O_button b label (idle p \<and> op_config p \<noteq> None)]"

definition plain_button :: "order_page \<Rightarrow> escrow_action \<Rightarrow> order_press \<Rightarrow> string \<Rightarrow> order_ui list" where
  "plain_button p a b label = ui_if (can p a) [O_button b label (idle p)]"

definition buyer_buttons :: "order_env \<Rightarrow> order_page \<Rightarrow> order_view \<Rightarrow> order_ui list" where
  "buyer_buttons e p v = ui_if (can p A_reserve)
    [O_button Press_reserve ((''Reserve '' @ [CHR 0xC2, CHR 0xB7] @ '' '') @ amount_text v @ '' into the vault'') (idle p \<and> op_config p \<noteq> None),
     O_say (''Needs a funded USDC account (mint '' @
       (case op_config p of Some c \<Rightarrow> short 4 (Some (oe_base58 e (ec_usdcMint c))) | None \<Rightarrow> [CHR 0x3F]) @
       ''). The seller then has until the deadline to ship, otherwise you can take the USDC back.'')]"

definition scan_buttons :: "order_env \<Rightarrow> order_page \<Rightarrow> order_view \<Rightarrow> scan_opt scan_choice \<Rightarrow> order_ui list" where
  "scan_buttons e p v c =
    ui_if (can p A_preShip)
      ([O_say (''Do the shipping scan (tier 2, with photo), then record it here. The scan must come from this wallet, be anchored on chain and be made after the reservation'' @ older_text c @ ''.''),
        O_link ''/scan?role=1'' ''Do shipping scan''] @ record_view p c Press_preShip ''Record shipping scan'') @
    plain_button p A_ship Press_ship ''Mark as shipped'' @
    ui_if (can p A_receipt)
      ([O_say (''After receipt: do a scan (tier 2, with photo) and record it before '' @ oe_date e (receiptDeadline (of_view v)) @
          ''. Only scans made after shipping count'' @ older_text c @
          ''. Release happens when heat and humidity match and the fill level differs by at most '' @ show_int WEB_FILL_TOLERANCE @
          '' %. Without a receipt scan by the deadline the USDC goes to the seller.''),
        O_link ''/scan?role=2'' ''Do receipt scan''] @ record_view p c Press_receipt ''Record receipt scan'')"

definition payout_buttons :: "order_page \<Rightarrow> order_view \<Rightarrow> order_ui list" where
  "payout_buttons p v =
    pay_button p A_release Press_release
      ((''Release '' @ [CHR 0xC2, CHR 0xB7] @ '' USDC '' @ [CHR 0xE2, CHR 0x86, CHR 0x92] @ '' seller'') @ (if ix_assetDeposited v then ('', Core asset '' @ [CHR 0xE2, CHR 0x86, CHR 0x92] @ '' buyer'') else [])) @
    pay_button p A_releaseAfterTimeout Press_releaseAfterTimeout ''Release to the seller (no receipt scan in time)'' @
    pay_button p A_refundNotShipped Press_refundNotShipped (''Not shipped in time '' @ [CHR 0xC2, CHR 0xB7] @ '' USDC back to me'') @
    pay_button p A_disputeSealDead Press_disputeSealDead (''Seal not responding '' @ [CHR 0xC2, CHR 0xB7] @ '' USDC back to me'') @
    pay_button p A_adminRefund Press_adminRefund (''Admin refund '' @ [CHR 0xC2, CHR 0xB7] @ '' USDC back to buyer'') @
    ui_if (ov_state v = OrderState MISMATCH)
      (if can p A_resolve
       then O_say ''The receipt scan does not match the shipping scan. Decide after reviewing both scans:'' #
         pay_button p A_resolve (Press_resolve False) ''Refund the buyer'' @ pay_button p A_resolve (Press_resolve True) ''Pay the seller''
       else [O_say ''The scans disagree. The escrow admin reviews both scans and settles the order.'']) @
    plain_button p A_close Press_close ''Close order (reclaim rent, allows listing again)''"

definition waiting_view :: "order_env \<Rightarrow> order_page \<Rightarrow> order_view \<Rightarrow> order_ui list" where
  "waiting_view e p v =
    (let s = ov_state v; w = page_viewer p in
     ui_if (isTerminal s) (O_say ''Completed.'' # (case set_text (op_serial p) of
         Some t \<Rightarrow> [O_say ''The history is on the'', O_link (passportPath t) ''passport''] | None \<Rightarrow> [])) @
     ui_if ((s = OrderState RESERVED \<or> s = OrderState PRESHIP_SCANNED) \<and> \<not> vw_isSeller w \<and> \<not> can p A_refundNotShipped)
       [O_say (''Waiting for the seller to ship (deadline '' @ oe_date e (shipDeadline (of_view v)) @ '').'')] @
     ui_if (s = OrderState SHIPPED \<and> \<not> vw_isBuyer w \<and> \<not> can p A_releaseAfterTimeout)
       [O_say (''In transit. The buyer records the receipt scan by '' @ oe_date e (receiptDeadline (of_view v)) @ ''.'')])"

definition next_step_view :: "order_env \<Rightarrow> order_page \<Rightarrow> order_view \<Rightarrow> scan_opt scan_choice \<Rightarrow> order_ui list" where
  "next_step_view e p v c =
    (if op_wallet p = None then [O_wallet]
     else buyer_buttons e p v @ plain_button p A_cancel Press_cancel ''Withdraw listing'' @ scan_buttons e p v c @
       admin_view e p v @ payout_buttons p v @ waiting_view e p v)"

text \<open>The page; None when rendering throws.\<close>

definition order_page_view :: "order_env \<Rightarrow> order_page \<Rightarrow> order_ui list option" where
  "order_page_view e p = (case myScans e p of
     Inl _ \<Rightarrow> None
   | Inr scans \<Rightarrow> Some (case op_order p of
         None \<Rightarrow> [O_say (''Loading order '' @ [CHR 0xE2, CHR 0x80, CHR 0xA6])]
       | Some ord \<Rightarrow> header_view e p @ error_line p @ pending_view p @ last_tx_view p @
           (case ord of
              None \<Rightarrow> [O_say ''This order does not exist (any more).'', O_say ''Back to the'', O_link ''/market'' ''market'']
            | Some v \<Rightarrow> facts_view e p v @ [O_say ''Next step''] @ next_step_view e p v (page_choice p scans))))"

definition order_offers :: "order_env \<Rightarrow> order_page \<Rightarrow> order_press \<Rightarrow> bool" where
  "order_offers e p b \<longleftrightarrow> (case order_page_view e p of
     Some us \<Rightarrow> list_ex (\<lambda>u. case u of O_button x l on \<Rightarrow> x = b \<and> on | _ \<Rightarrow> False) us | None \<Rightarrow> False)"

section \<open>The orders of a passport\<close>

text \<open>\<open>PassportOrders\<close>: what the list answers, and what is shown: one open order directly, several as a list.\<close>

datatype passport_orders = Orders_loading | Orders_direct pubkey | Orders_list "order_ui list"

definition orders_answer :: "string \<Rightarrow> thrown + order_view list \<Rightarrow> order_view list \<times> string option" where
  "orders_answer serial r = (if \<not> isValidSerial serial then ([], None)
     else case r of Inl x \<Rightarrow> ([], Some (friendly (th_error x))) | Inr os \<Rightarrow> (os, None))"

definition order_row :: "order_env \<Rightarrow> order_view \<Rightarrow> order_ui list" where
  "order_row e v = [O_link (orderPath (oe_base58 e (ix_pubkey v)))
       (''seller '' @ short 4 (Some (oe_base58 e (ix_seller v))) @ ('' '' @ [CHR 0xC2, CHR 0xB7] @ '' listed '') @ oe_date e (ov_listedAt v)),
     O_say (amount_text v), O_say (state_text (ov_state v))]"

definition orders_view :: "order_env \<Rightarrow> string \<Rightarrow> (order_view list \<times> string option) option \<Rightarrow> passport_orders" where
  "orders_view e serial st = (case st of
     None \<Rightarrow> Orders_loading
   | Some (os, err) \<Rightarrow>
       (case filter (\<lambda>v. \<not> isTerminal (ov_state v)) os of
          [v] \<Rightarrow> Orders_direct (ix_pubkey v)
        | _ \<Rightarrow> Orders_list ([O_link ''/market'' ''Market'', O_say serial, O_say (''Orders for '' @ serial)] @
            (case set_text err of Some t \<Rightarrow> [O_say t] | None \<Rightarrow> []) @
            (if os = [] then [O_say ''No listing for this passport.'', O_say ''The owner of the bottle can list it in the'',
                O_link ''/market'' ''market'', O_link (passportPath serial) ''View passport'']
             else concat (map (order_row e) os)))))"

section \<open>Steps\<close>

text \<open>The answer to a call. A signature is never empty; a call that could not be built throws.\<close>

inductive order_answered :: "order_env \<Rightarrow> order_call \<Rightarrow> order_page \<Rightarrow> order_page \<Rightarrow> bool" for e where
  loads: "order_answered e C_load p (committed (loaded e a p))"
| sends: "rc_call c = None \<longrightarrow> isl r \<Longrightarrow> r \<noteq> Inr [] \<Longrightarrow> order_answered e (C_send c) p (sent_answer c r p)"
| watches: "order_answered e (C_watch c sig n) p (watch_answer e c sig n a p)"
| flushes: "order_answered e (C_flush c ps) p (flush_answer e c ps net p)"
| retries: "order_answered e (C_retry c ps) p (retry_answer e c ps net p)"
| reloads: "order_answered e (C_reload c) p (finished (committed (loaded e a p)))"

definition answered_call :: "order_call \<Rightarrow> order_page \<Rightarrow> order_page" where
  "answered_call c p = p\<lparr>op_calls := remove1 c (op_calls p)\<rparr>"

inductive order_step :: "order_env \<Rightarrow> order_page \<Rightarrow> order_page \<Rightarrow> bool" for e where
  press: "order_offers e p b \<Longrightarrow> myScans e p = Inr scans \<Longrightarrow> order_step e p (pressed_button e scans b p)"
| answer: "c \<in> set (op_calls p) \<Longrightarrow> order_answered e c (answered_call c p) p' \<Longrightarrow> order_step e p p'"
| choose: "order_step e p (p\<lparr>op_scanChoice := k\<rparr>)"
| clock: "order_step e p (p\<lparr>op_now := t\<rparr>)"
| wallet: "order_step e p (p\<lparr>op_wallet := w\<rparr>)"
| render: "order_step e p (committed p)"

inductive order_steps :: "order_env \<Rightarrow> order_page \<Rightarrow> order_page \<Rightarrow> bool" for e where
  refl: "order_steps e p p"
| next_step: "order_steps e p p' \<Longrightarrow> order_step e p' p'' \<Longrightarrow> order_steps e p p''"

definition order_reach :: "order_env \<Rightarrow> order_page \<Rightarrow> bool" where
  "order_reach e p \<longleftrightarrow> (\<exists>now w kv. order_steps e (opened e now w kv) p)"

end
