(* ===== verification/Order_Facts.thy ===== *)
theory Order_Facts
  imports Order_View
begin

text \<open>
  What the order page keeps and offers: the history entry of a landed action is stored until the verifier has it, the
  buttons are the actions the program accepts, and only usable own scans are recorded.
\<close>

section \<open>Which buttons are offered\<close>

definition enabled_in :: "order_ui list \<Rightarrow> order_press \<Rightarrow> bool" where
  "enabled_in us b \<longleftrightarrow> list_ex (\<lambda>u. case u of O_button x l on \<Rightarrow> x = b \<and> on | _ \<Rightarrow> False) us"

lemma enabled_in_simps [simp]:
  "\<not> enabled_in [] b"
  "enabled_in (us @ vs) b = (enabled_in us b \<or> enabled_in vs b)"
  "enabled_in (O_say s # us) b = enabled_in us b"
  "enabled_in (O_link h t # us) b = enabled_in us b"
  "enabled_in (O_pick k os # us) b = enabled_in us b"
  "enabled_in (O_wallet # us) b = enabled_in us b"
  "enabled_in (wallet_link e w # us) b = enabled_in us b"
  "enabled_in (O_button x l on # us) b = (x = b \<and> on \<or> enabled_in us b)"
  "enabled_in (ui_if c us) b = (c \<and> enabled_in us b)"
  by (auto simp: enabled_in_def ui_if_def wallet_link_def)

lemma enabled_in_case [simp]:
  "enabled_in ((case x of None \<Rightarrow> O_say s | Some k \<Rightarrow> wallet_link e k) # us) b = enabled_in us b"
  "enabled_in (map (\<lambda>s. O_say (f s)) xs) b = False"
  "enabled_in (case y of None \<Rightarrow> us | Some z \<Rightarrow> g z) b = (case y of None \<Rightarrow> enabled_in us b | Some z \<Rightarrow> enabled_in (g z) b)"
  "enabled_in (if c then us else vs) b = (if c then enabled_in us b else enabled_in vs b)"
  by (induction xs) (auto split: option.split)

lemma quiet_parts [simp]:
  "\<not> enabled_in (header_view e p) b" "\<not> enabled_in (error_line p) b" "\<not> enabled_in (last_tx_view p) b"
  "\<not> enabled_in (facts_view e p v) b" "\<not> enabled_in (admin_view e p v) b" "\<not> enabled_in (waiting_view e p v) b"
  by (auto simp: header_view_def error_line_def last_tx_view_def facts_view_def admin_view_def waiting_view_def Let_def
      split: option.splits)

text \<open>The action a button stands for.\<close>

fun press_action :: "order_press \<Rightarrow> escrow_action option" where
  "press_action Press_reserve = Some A_reserve" | "press_action Press_cancel = Some A_cancel"
| "press_action Press_preShip = Some A_preShip" | "press_action Press_ship = Some A_ship"
| "press_action Press_receipt = Some A_receipt" | "press_action Press_release = Some A_release"
| "press_action Press_releaseAfterTimeout = Some A_releaseAfterTimeout"
| "press_action Press_refundNotShipped = Some A_refundNotShipped"
| "press_action Press_disputeSealDead = Some A_disputeSealDead" | "press_action Press_adminRefund = Some A_adminRefund"
| "press_action (Press_resolve s) = Some A_resolve" | "press_action Press_close = Some A_close" | "press_action Press_retry = None"

definition moves_usdc :: "order_press \<Rightarrow> bool" where
  "moves_usdc b \<longleftrightarrow> b \<notin> {Press_cancel, Press_preShip, Press_ship, Press_receipt, Press_close, Press_retry}"

definition records_scan :: "order_press \<Rightarrow> bool" where
  "records_scan b \<longleftrightarrow> b = Press_preShip \<or> b = Press_receipt"

lemma record_view_enabled [simp]: "enabled_in (record_view p c x l) b \<longleftrightarrow> x = b \<and> idle p \<and> sc_chosen c \<noteq> None"
  by (auto simp: record_view_def split: option.splits)

lemma buttons_enabled [simp]:
  "enabled_in (pay_button p a x l) b \<longleftrightarrow> can p a \<and> x = b \<and> idle p \<and> op_config p \<noteq> None"
  "enabled_in (plain_button p a x l) b \<longleftrightarrow> can p a \<and> x = b \<and> idle p"
  by (auto simp: pay_button_def plain_button_def)

lemma can_state: "can p A_resolve \<Longrightarrow> shown_order p = Some v \<Longrightarrow> ov_state v = OrderState MISMATCH"
  by (auto simp: can_def page_actions_def availableActions_def Let_def of_view_def split: if_splits)

lemma next_step_enabled:
  assumes "shown_order p = Some v"
  shows "enabled_in (next_step_view e p v c) b \<longleftrightarrow> op_wallet p \<noteq> None \<and> idle p \<and>
    (\<exists>a. press_action b = Some a \<and> can p a) \<and> (moves_usdc b \<longrightarrow> op_config p \<noteq> None) \<and>
    (records_scan b \<longrightarrow> sc_chosen c \<noteq> None)"
  using can_state [OF _ assms]
  by (cases b) (auto simp: next_step_view_def buyer_buttons_def scan_buttons_def payout_buttons_def moves_usdc_def records_scan_def)

lemma pending_enabled: "enabled_in (pending_view p) b \<longleftrightarrow> b = Press_retry \<and> op_pending p \<noteq> [] \<and> idle p \<and> op_wallet p \<noteq> None"
  by (auto simp: pending_view_def Let_def)

lemma offers_enabled: "order_offers e p b \<longleftrightarrow> (\<exists>us. order_page_view e p = Some us \<and> enabled_in us b)"
  by (auto simp: order_offers_def enabled_in_def split: option.splits)

lemma offers_iff:
  assumes "myScans e p = Inr scans" "shown_order p = Some v"
  shows "order_offers e p b \<longleftrightarrow> idle p \<and> op_wallet p \<noteq> None \<and>
    (b = Press_retry \<and> op_pending p \<noteq> [] \<or>
     (\<exists>a. press_action b = Some a \<and> can p a) \<and> (moves_usdc b \<longrightarrow> op_config p \<noteq> None) \<and>
     (records_scan b \<longrightarrow> sc_chosen (page_choice p scans) \<noteq> None))"
proof -
  have "op_order p = Some (Some v)" using assms(2) by (auto simp: shown_order_def bind_eq_Some_conv)
  then have view: "order_page_view e p = Some (header_view e p @ error_line p @ pending_view p @ last_tx_view p @
      facts_view e p v @ [O_say ''Next step''] @ next_step_view e p v (page_choice p scans))"
    by (simp add: order_page_view_def assms(1))
  show ?thesis
    unfolding offers_enabled view by (auto simp: next_step_enabled [OF assms(2)] pending_enabled)
qed

lemma offers_idle: "order_offers e p b \<Longrightarrow> idle p \<and> op_wallet p \<noteq> None"
proof -
  assume a: "order_offers e p b"
  then obtain us where us: "order_page_view e p = Some us" "enabled_in us b" by (auto simp: offers_enabled)
  then obtain scans where s: "myScans e p = Inr scans" by (auto simp: order_page_view_def split: sum.splits)
  show ?thesis
  proof (cases "shown_order p")
    case (Some v)
    then show ?thesis using a offers_iff [OF s] by blast
  next
    case None
    then have "op_order p = None \<or> op_order p = Some None" by (cases "op_order p") (auto simp: shown_order_def)
    then show ?thesis using us s pending_enabled [of p b] by (auto simp: order_page_view_def)
  qed
qed

section \<open>What the buttons send\<close>

lemma press_not_retry: "press_action b = Some a \<Longrightarrow> b \<noteq> Press_retry"
  by auto

lemma actions_of_acc:
  assumes "shown_order p = Some (toView key o')" "op_wallet p = Some k" "op_config p = Some c" "ec_admin c = cf_admin cfg"
  shows "page_actions p = availableActions (like o') (viewer_of cfg o' k (op_deadSeal p \<noteq> None)) \<lceil>op_now p\<rceil>"
proof -
  have "of_view (toView key o') = like o'" by (simp add: of_view_def toView_def like_def)
  moreover have "page_viewer p = viewer_of cfg o' k (op_deadSeal p \<noteq> None)"
    by (simp add: page_viewer_def viewer_of_def assms toView_def nz_def)
  ultimately show ?thesis by (simp add: page_actions_def assms(1))
qed

lemma buyer_known:
  assumes "order_ok oid m o'" "a \<in> set (availableActions (like o') (viewer_of cfg o' k dead) now)"
    "a \<in> {A_release, A_releaseAfterTimeout, A_refundNotShipped, A_disputeSealDead, A_adminRefund, A_resolve}"
  shows "ix_buyer (toView key o') = Some (od_buyer o')"
proof -
  have "is_funded (od_state o')"
    using assms(2,3) unfolding offered_iff by (auto simp: is_funded_def admin_may_refund_def)
  then show ?thesis using assms(1) by (simp add: order_ok_def toView_def nz_def)
qed

lemma call_built:
  assumes "shown_order p = Some v" "op_wallet p = Some k" "op_config p = Some c" "b \<noteq> Press_retry"
    "records_scan b \<longrightarrow> chosen \<noteq> None" "moves_usdc b \<and> b \<noteq> Press_reserve \<longrightarrow> ix_buyer v \<noteq> None"
  shows "act_call e p chosen b \<noteq> None"
  using assms
  by (cases b) (auto simp: act_call_def moves_usdc_def records_scan_def ix_release_def ix_releaseAfterTimeout_def ix_dispute_def
      ix_resolve_def with_pre_def payoutRecipient_def Let_def)

text \<open>C35: the order page against the escrow program. When the page shows an order as it is on chain, with the configuration
  loaded, a button other than the retry is enabled exactly when nothing is running and the program accepts its action from
  the connected wallet at that time, and, for the two scan steps, a usable scan is there. Pressing it then sends a call:
  building it never throws.\<close>

theorem order_buttons_accepted:
  assumes "market_ok oid m" "mk_order m = Some o'" "times_ok o'" "cf_admin cfg \<noteq> od_buyer o'"
    "shown_order p = Some (toView key o')" "op_wallet p = Some k" "op_config p = Some c" "ec_admin c = cf_admin cfg"
    "myScans e p = Inr scans" "press_action b = Some a"
  shows "(order_offers e p b \<longleftrightarrow> op_busy p = None \<and> program_accepts oid cfg o' k (op_deadSeal p \<noteq> None) \<lceil>op_now p\<rceil> a \<and>
      (records_scan b \<longrightarrow> sc_chosen (page_choice p scans) \<noteq> None)) \<and>
    (order_offers e p b \<longrightarrow> rc_call (new_call e p scans b) \<noteq> None)"
proof -
  have ok: "order_ok oid m o'" by (rule market_ok_Some [OF assms(1,2)])
  have acts: "can p a \<longleftrightarrow> a \<in> set (availableActions (like o') (viewer_of cfg o' k (op_deadSeal p \<noteq> None)) \<lceil>op_now p\<rceil>)"
    by (simp add: can_def actions_of_acc [OF assms(5-8)])
  have accepts: "can p a \<longleftrightarrow> program_accepts oid cfg o' k (op_deadSeal p \<noteq> None) \<lceil>op_now p\<rceil> a"
    unfolding acts program_accepts_def
    using accepts_sound [OF _ _ _ assms(4)] accepts_complete [OF ok assms(3) _ assms(4)] easy_ok [OF ok] easy_simps(1) by blast
  have offers: "order_offers e p b \<longleftrightarrow> op_busy p = None \<and> can p a \<and> (records_scan b \<longrightarrow> sc_chosen (page_choice p scans) \<noteq> None)"
    unfolding offers_iff [OF assms(9,5)] using assms(6,7,10) by (auto simp: idle_def)
  have "rc_call (new_call e p scans b) \<noteq> None" if "order_offers e p b"
  proof -
    have "moves_usdc b \<and> b \<noteq> Press_reserve \<longrightarrow> ix_buyer (toView key o') \<noteq> None"
      using buyer_known [OF ok, of a cfg k] that offers acts assms(10) by (cases b) (auto simp: moves_usdc_def)
    then show ?thesis
      using call_built [OF assms(5-7), of b "sc_chosen (page_choice p scans)"] press_not_retry [OF assms(10)] that offers
      by (auto simp: new_call_def Let_def)
  qed
  then show ?thesis using offers accepts by blast
qed

lemma find_in: "List.find P xs = Some y \<Longrightarrow> y \<in> set xs"
  by (induction xs) (auto split: if_splits)

lemma chosen_usable:
  assumes "sc_chosen (stepScanChoice (Some o') (Some st) scans k) = Some s"
  shows "s \<in> set scans \<and> scanFitsStep o' st (ss_ts s) \<and> ss_unusable s = None"
proof -
  let ?us = "filter (\<lambda>s. ss_unusable s = None) (filter (\<lambda>s. scanFitsStep o' st (ss_ts s)) scans)"
  have "(case List.find (\<lambda>s. ss_key s = k) ?us of Some s \<Rightarrow> Some s | None \<Rightarrow> (case ?us of [] \<Rightarrow> None | u # _ \<Rightarrow> Some u)) = Some s"
    using assms by (simp add: stepScanChoice_def Let_def)
  then have "s \<in> set ?us"
    using find_in [of "\<lambda>s. ss_key s = k" ?us s] by (cases "List.find (\<lambda>s. ss_key s = k) ?us"; cases ?us) (auto simp del: filter_filter)
  then show ?thesis by simp
qed

lemma map_err_origin: "map_err f xs = Inr ys \<Longrightarrow> y \<in> set ys \<Longrightarrow> \<exists>x \<in> set xs. f x = Inr y"
  by (induction xs arbitrary: ys) (auto simp: bindE_eq_Inr)

lemma my_scan_origin:
  assumes "myScans e p = Inr scans" "s \<in> set scans"
  obtains k q ev where "op_wallet p = Some k" "op_passport p = Some q" "ev \<in> set (opp_events q)"
    "scan_counts (oe_base58 e k) ev" "scan_option e ev = Inr s"
proof -
  obtain k where k: "op_wallet p = Some k" using assms by (auto simp: myScans_def Let_def split: option.splits)
  then obtain ev where ev: "ev \<in> set (case op_passport p of Some q \<Rightarrow> opp_events q | None \<Rightarrow> [])" "scan_counts (oe_base58 e k) ev"
    "scan_option e ev = Inr s"
    using assms map_err_origin [of "scan_option e"] by (fastforce simp: myScans_def Let_def bindE_eq_Inr)
  then show ?thesis using that [OF k] by (cases "op_passport p") auto
qed

lemma scan_step_state:
  assumes "can p a" "a = A_preShip \<or> a = A_receipt" "shown_order p = Some v"
  shows "page_scan_step p = Some (if a = A_preShip then PreShip else Receipt)"
  using assms
  by (auto simp: can_def page_actions_def availableActions_def Let_def of_view_def page_scan_step_def isTerminal_def split: if_splits)

text \<open>C36: a scan step records only a usable scan of the connected wallet. The scan proof and the seal in the call are the
  addresses of one confirmed SCAN event of the passport, made by that wallet after the step it stands for, with heat and
  humidity both read.\<close>

theorem order_records_own_scan:
  assumes "order_offers e p b" "records_scan b" "myScans e p = Inr scans"
  shows "\<exists>v k ev q uid counter. shown_order p = Some v \<and> op_wallet p = Some k \<and> op_passport p = Some q \<and> ev \<in> set (opp_events q) \<and>
    ev_type ev = member EventType ''SCAN'' \<and> oev_actor ev = Some (oe_base58 e k) \<and> ev_status ev = Confirmed \<and>
    hexToBytes (the (ev_sealUidHash ev)) = Inr uid \<and> payload_number ev ''counter'' = Some counter \<and>
    scanUsableForOrder (event_indicators ev) = Inr () \<and>
    rc_call (new_call e p scans b) = (let sl = sealPda (pr_lib (oe_prog e)) uid; pda = scanPda (pr_lib (oe_prog e)) sl (trunc_num counter) in
      Some (if b = Press_preShip then ix_preShip (oe_prog e) v pda sl else ix_receipt (oe_prog e) v pda sl)) \<and>
    ev_ts ev \<ge> (if b = Press_preShip then ov_reservedAt v else ov_shippedAt v) - SCAN_TS_SKEW_S"
proof -
  have b: "b \<noteq> Press_retry" "press_action b = Some (if b = Press_preShip then A_preShip else A_receipt)" "b = Press_preShip \<or> b = Press_receipt"
    using assms(2) by (auto simp: records_scan_def)
  obtain v where v: "shown_order p = Some v"
    using assms(1) b(1) by (cases "shown_order p") (auto simp: offers_enabled order_page_view_def shown_order_def pending_enabled
        assms(3) bind_eq_None_conv split: option.splits)
  then obtain s where s: "sc_chosen (page_choice p scans) = Some s" and can: "can p (if b = Press_preShip then A_preShip else A_receipt)"
    using offers_iff [OF assms(3) v, of b] assms(1,2) b by auto
  define st where "st = (if b = Press_preShip then PreShip else Receipt)"
  have "page_scan_step p = Some st" using scan_step_state [OF can _ v] b(3) by (auto simp: st_def)
  then have fit: "s \<in> set scans" "scanFitsStep (of_view v) st (ss_ts s)" "ss_unusable s = None"
    using chosen_usable [of "of_view v" st scans "op_scanChoice p" s] s v by (auto simp: page_choice_def)
  obtain k q ev where ev: "op_wallet p = Some k" "op_passport p = Some q" "ev \<in> set (opp_events q)"
    "scan_counts (oe_base58 e k) ev" "scan_option e ev = Inr s"
    by (rule my_scan_origin [OF assms(3) fit(1)])
  obtain h counter where h: "ev_sealUidHash ev = Some h" "payload_number ev ''counter'' = Some counter"
    using ev(4) by (auto simp: scan_counts_def set_text_def split: option.splits if_splits)
  obtain uid where uid: "hexToBytes h = Inr uid" using ev(5) h by (auto simp: scan_option_def bindE_eq_Inr)
  define sl where "sl = sealPda (pr_lib (oe_prog e)) uid"
  define pda where "pda = scanPda (pr_lib (oe_prog e)) sl (trunc_num counter)"
  have so: "so_seal s = sl" "so_pda s = pda" "ss_ts s = ev_ts ev" "scanUsableForOrder (event_indicators ev) = Inr ()"
    using ev(5) fit(3) h uid by (auto simp: scan_option_def Let_def sl_def pda_def split: sum.splits)
  have "rc_call (new_call e p scans b) = Some (if b = Press_preShip then ix_preShip (oe_prog e) v pda sl else ix_receipt (oe_prog e) v pda sl)"
    using b(3) by (auto simp: new_call_def act_call_def v ev(1) s so Let_def)
  moreover have "ev_ts ev \<ge> (if b = Press_preShip then ov_reservedAt v else ov_shippedAt v) - SCAN_TS_SKEW_S"
    using fit(2) so(3) b(3) by (auto simp: scanFitsStep_def st_def of_view_def)
  ultimately show ?thesis
    using v ev(1-4) h uid so(4) unfolding scan_counts_def sl_def pda_def Let_def by fastforce
qed

end
