(* ===== verification/Order_Entries.thy ===== *)
theory Order_Entries
  imports Order_Facts
begin

text \<open>
  The history entries of the order page: what a landed action tells the verifier stays in the browser's storage until the
  verifier has it, through failed posts, retries, other actions and reloads of the page.
\<close>

section \<open>Steps and reloads\<close>

text \<open>A reload mounts the page again on the same storage; every call in flight is gone.\<close>

definition reloaded :: "order_env \<Rightarrow> rat \<Rightarrow> pubkey option \<Rightarrow> order_page \<Rightarrow> order_page" where
  "reloaded e t w p = (opened e t w (op_store p))\<lparr>op_landed := op_landed p, op_settled := op_settled p\<rparr>"

inductive order_life :: "order_env \<Rightarrow> order_page \<Rightarrow> order_page \<Rightarrow> bool" for e p where
  start: "order_life e p p"
| acts: "order_life e p p' \<Longrightarrow> order_step e p' p'' \<Longrightarrow> order_life e p p''"
| reload: "order_life e p p' \<Longrightarrow> order_life e p (reloaded e t w p')"

section \<open>The invariant\<close>

definition active :: "order_page \<Rightarrow> order_call list" where
  "active p = filter (\<lambda>c. c \<noteq> C_load) (op_calls p)"

definition call_ok :: "order_env \<Rightarrow> order_page \<Rightarrow> order_call \<Rightarrow> bool" where
  "call_ok e p c \<longleftrightarrow> (case c of C_watch r sig n \<Rightarrow> sig \<noteq> [] | C_flush r ps \<Rightarrow> ps = stored_entries e p
     | C_retry r ps \<Rightarrow> ps = stored_entries e p | _ \<Rightarrow> True)"

definition kept :: "order_env \<Rightarrow> order_page \<Rightarrow> bool" where
  "kept e p \<longleftrightarrow> (\<forall>x \<in> set (op_landed p). sig_of x \<in> sig_of ` set (stored_entries e p) \<or> sig_of x \<in> set (op_settled p))"

definition entries_inv :: "order_env \<Rightarrow> json set \<Rightarrow> order_page \<Rightarrow> bool" where
  "entries_inv e K p \<longleftrightarrow> (\<exists>s. op_store p = Some s \<and> kv_ok s) \<and> one_per_sig (stored_entries e p) \<and> set (stored_entries e p) \<subseteq> K \<and>
     op_pending p = stored_entries e p \<and> length (active p) \<le> 1 \<and> (op_busy p = None \<longrightarrow> active p = []) \<and>
     (\<forall>c \<in> set (active p). call_ok e p c) \<and> kept e p"

text \<open>Storage and calls of the parts that do not touch them.\<close>

lemma loaded_keeps [simp]:
  "op_store (loaded e a p) = op_store p" "op_calls (loaded e a p) = op_calls p" "op_busy (loaded e a p) = op_busy p"
  "op_pending (loaded e a p) = op_pending p" "op_landed (loaded e a p) = op_landed p" "op_settled (loaded e a p) = op_settled p"
  by (auto simp: loaded_def load_failed_def Let_def split: sum.splits option.splits prod.splits)

lemma committed_keeps [simp]:
  "op_store (committed p) = op_store p" "op_calls (committed p) = op_calls p" "op_busy (committed p) = op_busy p"
  "op_pending (committed p) = op_pending p" "op_landed (committed p) = op_landed p" "op_settled (committed p) = op_settled p"
  by (simp_all add: committed_def)

definition same_entries :: "order_page \<Rightarrow> order_page \<Rightarrow> bool" where
  "same_entries p p' \<longleftrightarrow> op_store p' = op_store p \<and> op_pending p' = op_pending p \<and> op_landed p' = op_landed p \<and> op_settled p' = op_settled p"

lemma same_stored: "same_entries p p' \<Longrightarrow> stored_entries e p' = stored_entries e p"
  by (simp add: same_entries_def stored_entries_def)

lemma same_call_ok: "same_entries p p' \<Longrightarrow> call_ok e p' c = call_ok e p c"
  by (simp add: call_ok_def same_stored split: order_call.split)

text \<open>A step that changes only calls and what is shown.\<close>

lemma inv_calls:
  assumes "entries_inv e K p" "same_entries p p'" "length (active p') \<le> 1" "op_busy p' = None \<longrightarrow> active p' = []"
    "\<forall>c \<in> set (active p'). call_ok e p c"
  shows "entries_inv e K p'"
  using assms same_call_ok [OF assms(2)] unfolding entries_inv_def kept_def same_stored [OF assms(2)]
  by (auto simp: same_entries_def)

lemma inv_same:
  assumes "entries_inv e K p" "same_entries p p'" "op_calls p' = op_calls p" "op_busy p' = op_busy p"
  shows "entries_inv e K p'"
  using assms by (intro inv_calls [OF assms(1,2)]) (auto simp: entries_inv_def active_def)

lemma active_with [simp]: "active (with_call c p) = active p @ (if c = C_load then [] else [c])"
  by (simp add: active_def with_call_def)

lemma with_call_keeps [simp]:
  "op_store (with_call c p) = op_store p" "op_pending (with_call c p) = op_pending p" "op_landed (with_call c p) = op_landed p"
  "op_settled (with_call c p) = op_settled p" "op_busy (with_call c p) = op_busy p" "stored_entries e (with_call c p) = stored_entries e p"
  by (simp_all add: with_call_def stored_entries_def)

lemma finished_keeps [simp]:
  "op_store (finished p) = op_store p" "op_pending (finished p) = op_pending p" "op_landed (finished p) = op_landed p"
  "op_settled (finished p) = op_settled p" "op_busy (finished p) = None" "op_calls (finished p) = op_calls p"
  "stored_entries e (finished p) = stored_entries e p"
  by (simp_all add: finished_def stored_entries_def)

lemma active_finished [simp]: "active (finished p) = active p" "active (p\<lparr>op_error := x\<rparr>) = active p"
  "active (p\<lparr>op_lastTx := y\<rparr>) = active p" "active (loaded e a p) = active p" "active (committed p) = active p"
  by (simp_all add: active_def)

text \<open>Of the calls that write, at most one is in flight.\<close>

lemma only_active:
  assumes "entries_inv e K p" "c \<in> set (op_calls p)" "c \<noteq> C_load"
  shows "active p = [c]" "active (answered_call c p) = []" "op_busy p \<noteq> None" "call_ok e p c"
proof -
  have c: "c \<in> set (active p)" using assms(2,3) by (simp add: active_def)
  moreover have "length (active p) \<le> 1" using assms(1) by (simp add: entries_inv_def)
  ultimately show a: "active p = [c]" by (cases "active p") auto
  show "op_busy p \<noteq> None" "call_ok e p c" using assms(1) a by (auto simp: entries_inv_def)
  have "length (filter (\<lambda>x. x \<noteq> C_load) (remove1 c (op_calls p))) = length (active p) - 1"
    using c assms(3) by (simp add: active_def filter_remove1 length_remove1)
  then show "active (answered_call c p) = []" using a by (simp add: answered_call_def active_def)
qed

lemma same_answered: "same_entries p (answered_call c p)" "op_busy (answered_call c p) = op_busy p"
  by (simp_all add: same_entries_def answered_call_def)

section \<open>Storing and posting\<close>

text \<open>\<open>JSON.parse\<close> reads back the lists of these entries.\<close>

definition readable :: "order_env \<Rightarrow> json set \<Rightarrow> bool" where
  "readable e K \<longleftrightarrow> (\<forall>ps. one_per_sig ps \<longrightarrow> set ps \<subseteq> K \<longrightarrow> reads_back (oe_parse e) (oe_fmt e) ps)"

lemma save_entries:
  assumes "readable e K" "kv_ok s" "one_per_sig ps" "set ps \<subseteq> K"
  obtains s' where "savePending (oe_fmt e) (oe_pda e) ps (Some s) = Some s'" "kv_ok s'"
    "loadPending (oe_parse e) (oe_pda e) (Some s') = ps"
proof -
  have r: "reads_back (oe_parse e) (oe_fmt e) ps" "list_all isPending ps" using assms by (auto simp: readable_def one_per_sig_def)
  note l = load_stored [OF assms(2) r]
  show ?thesis by (rule that [OF l(1) kv.store_ok [OF assms(2)]]) (use l(1,2) in simp)
qed

lemma with_sigs: "sig_of x \<in> sig_of ` set ps \<or> x = y \<Longrightarrow> sig_of x \<in> sig_of ` set (withPending ps y)"
proof -
  assume a: "sig_of x \<in> sig_of ` set ps \<or> x = y"
  have "abs_pending (withPending ps y) (sig_of x) \<noteq> None" using a abs_pending_None [of ps "sig_of x"] by (auto simp: with_abs)
  then show ?thesis by (simp add: abs_pending_None)
qed

lemma with_set: "set (withPending ps y) \<subseteq> insert y (set ps)"
  by (auto simp: withPending_def)

lemma inv_landing:
  assumes inv: "entries_inv e K p" and a: "active p = []" and sig: "sig \<noteq> []" and rd: "readable e K"
    and K: "set (op_landed (landing e c sig p)) \<subseteq> K" and busy: "op_busy p \<noteq> None"
  shows "entries_inv e K (landing e c sig p)"
proof (cases "entry_of (rc_entry c) (op_orderRef p)")
  case None
  then have "landing e c sig p = finished p" by (simp add: landing_def)
  then show ?thesis using inv_calls [OF inv, of "finished p"] a by (simp add: same_entries_def)
next
  case (Some x)
  obtain ty payload where x: "x = (ty, payload)" by (cases x)
  define landed where "landed = JObj [(''sig'', JStr sig), (''type'', JNum (jn ty)), (''payload'', JObj payload)]"
  obtain s where s: "op_store p = Some s" "kv_ok s" using inv by (auto simp: entries_inv_def)
  have st: "loadPending (oe_parse e) (oe_pda e) (Some s) = stored_entries e p" by (simp add: stored_entries_def s)
  define ps where "ps = withPending (stored_entries e p) landed"
  have L: "op_landed (landing e c sig p) = op_landed p @ [landed]"
    by (simp add: landing_def Some x landed_def rememberPending_def Let_def s)
  have "isPending landed" using sig by (simp add: isPending_def landed_def)
  moreover have "landed \<in> K" using K L by simp
  ultimately have ok: "one_per_sig ps" "set ps \<subseteq> K"
    using with_ok with_set [of "stored_entries e p" landed] inv unfolding ps_def by (auto simp: entries_inv_def)
  obtain s' where s': "savePending (oe_fmt e) (oe_pda e) ps (Some s) = Some s'" "kv_ok s'"
    "loadPending (oe_parse e) (oe_pda e) (Some s') = ps" by (rule save_entries [OF rd s(2) ok])
  define q where "q = p\<lparr>op_store := Some s', op_pending := ps, op_landed := op_landed p @ [landed]\<rparr>"
  have land: "landing e c sig p = with_call (C_flush c (stored_entries e q)) q"
    using s' by (simp add: landing_def Some x landed_def [symmetric] rememberPending_def Let_def s(1) st ps_def [symmetric] q_def)
  have q: "stored_entries e q = ps" "active q = []" using s'(3) a by (simp_all add: q_def stored_entries_def active_def)
  have "kept e q"
    using inv with_sigs [of _ "stored_entries e p" landed] unfolding kept_def q(1) entries_inv_def ps_def by (auto simp: q_def)
  moreover have "op_busy q \<noteq> None" "op_store q = Some s'" "op_pending q = ps" using busy by (simp_all add: q_def)
  ultimately show ?thesis using q ok s'(2) by (simp add: land entries_inv_def kept_def call_ok_def)
qed

lemma inv_flushed:
  assumes inv: "entries_inv e K p" and a: "active p = []" and ps: "ps = stored_entries e p" and rd: "readable e K"
    and busy: "op_busy p \<noteq> None" and fl: "flushed e c ps net p = (q, err)"
  shows "entries_inv e K q" "active q = []" "op_busy q \<noteq> None" "op_landed q = op_landed p"
proof -
  obtain s where s: "op_store p = Some s" "kv_ok s" using inv by (auto simp: entries_inv_def)
  have one: "one_per_sig ps" "set ps \<subseteq> K" using inv ps by (auto simp: entries_inv_def)
  define gone where "gone = moot (post_entry e c net) alreadyRecorded"
  define left where "left = filter (\<lambda>x. \<not> gone x) ps"
  have f: "fst (flushPending ps (post_entry e c net) alreadyRecorded) = left"
    using flush_leaves_failures [OF one(1)] by (simp add: left_def gone_def)
  have ok: "one_per_sig left" "set left \<subseteq> K"
    using one by (auto simp: left_def one_per_sig_def distinct_map_filter list_all_iff)
  obtain s' where s': "savePending (oe_fmt e) (oe_pda e) left (Some s) = Some s'" "kv_ok s'"
    "loadPending (oe_parse e) (oe_pda e) (Some s') = left" by (rule save_entries [OF rd s(2) ok])
  have q: "q = p\<lparr>op_store := Some s', op_pending := left, op_settled := op_settled p @ map sig_of (filter gone ps)\<rparr>"
    using fl f s'(1) s(1) by (simp add: flushed_def gone_def split: prod.splits)
  have st: "stored_entries e q = left" using s'(3) by (simp add: q stored_entries_def)
  show "active q = []" "op_busy q \<noteq> None" "op_landed q = op_landed p" using a busy by (simp_all add: q active_def)
  moreover have "kept e q"
    using inv unfolding kept_def st entries_inv_def ps [symmetric] by (force simp: q left_def image_iff)
  ultimately show "entries_inv e K q" using st ok s'(2) by (simp add: entries_inv_def) (simp add: q)
qed

section \<open>Every step\<close>

lemma same_finished: "same_entries p (finished p)" "same_entries p (loaded e a p)" "same_entries p (committed p)"
  "same_entries p (p\<lparr>op_error := x\<rparr>)" "same_entries p (p\<lparr>op_lastTx := y\<rparr>)" "same_entries p (with_call c p)"
  by (simp_all add: same_entries_def)

lemma inv_finished: "entries_inv e K p \<Longrightarrow> active p = [] \<Longrightarrow> entries_inv e K (finished p)"
  by (rule inv_calls [OF _ same_finished(1)]) simp_all

lemma inv_error:
  "entries_inv e K p \<Longrightarrow> entries_inv e K (p\<lparr>op_error := x\<rparr>)" "entries_inv e K p \<Longrightarrow> entries_inv e K (p\<lparr>op_lastTx := y\<rparr>)"
  by (rule inv_same; simp add: same_finished)+

lemma inv_rendered:
  "entries_inv e K p \<Longrightarrow> entries_inv e K (loaded e a p)" "entries_inv e K p \<Longrightarrow> entries_inv e K (committed p)"
  by (rule inv_same; simp add: same_finished)+

lemma inv_with_call:
  "entries_inv e K p \<Longrightarrow> active p = [] \<Longrightarrow> op_busy p \<noteq> None \<Longrightarrow> call_ok e p c \<Longrightarrow> entries_inv e K (with_call c p)"
  by (rule inv_calls [OF _ same_finished(6)]) (auto simp: call_ok_def split: order_call.split)

lemma inv_answered_call:
  assumes "entries_inv e K p" "c \<in> set (op_calls p)"
  shows "entries_inv e K (answered_call c p)"
proof -
  have "set (active (answered_call c p)) \<subseteq> set (active p)" "length (active (answered_call c p)) \<le> length (active p)"
    by (auto simp: active_def answered_call_def filter_remove1 length_remove1 dest: set_remove1_subset [THEN subsetD])
  then show ?thesis
    using assms(1) same_call_ok [OF same_answered(1) [of p c]] same_answered(2) [of c p]
    by (intro inv_calls [OF assms(1) same_answered(1)]) (auto simp: entries_inv_def)
qed

lemma landing_landed: "set (op_landed p) \<subseteq> set (op_landed (landing e c sig p))"
  by (auto simp: landing_def Let_def split: option.splits prod.splits)

lemma flushed_landed: "flushed e c ps net p = (q, err) \<Longrightarrow> op_landed q = op_landed p"
  by (auto simp: flushed_def split: prod.splits)

lemma answered_landed: "order_answered e c p p' \<Longrightarrow> set (op_landed p) \<subseteq> set (op_landed p')"
proof (induction rule: order_answered.induct)
  case (watches c sig n p a)
  show ?case using landing_landed [of "committed (loaded e a p)" e c sig] landing_landed [of "loaded e a p" e c sig]
      landing_landed [of "committed (committed (loaded e a p))" e c sig]
    by (simp add: watch_answer_def Let_def)
qed (auto simp: sent_answer_def flush_answer_def retry_answer_def flushed_landed split: sum.splits prod.splits option.splits)

definition after_flush :: "thrown option \<Rightarrow> order_page \<Rightarrow> order_page" where
  "after_flush err q = finished (case err of None \<Rightarrow> q
     | Some x \<Rightarrow> q\<lparr>op_error := Some (''The transaction is on chain, but the history entry failed: '' @ friendly (th_error x))\<rparr>)"

definition after_retry :: "run_call \<Rightarrow> thrown option \<Rightarrow> order_page \<Rightarrow> order_page" where
  "after_retry c err q = (case err of None \<Rightarrow> with_call (C_reload c) q
     | Some x \<Rightarrow> finished
         (q\<lparr>op_error := Some (''The transaction is on chain, but the history entry failed again: '' @ friendly (th_error x))\<rparr>))"

lemma after_eq:
  "flushed e c ps net p = (q, err) \<Longrightarrow> flush_answer e c ps net p = after_flush err q"
  "flushed e c ps net p = (q, err) \<Longrightarrow> retry_answer e c ps net p = after_retry c err q"
  unfolding flush_answer_def retry_answer_def after_flush_def after_retry_def by (simp_all split: option.split)

lemma inv_after:
  assumes "entries_inv e K q" "active q = []" "op_busy q \<noteq> None"
  shows "entries_inv e K (after_flush err q)" "entries_inv e K (after_retry c err q)"
  using assms
  by (auto simp: after_flush_def after_retry_def call_ok_def intro!: inv_finished inv_error inv_with_call split: option.split)

lemma inv_answer:
  assumes inv: "entries_inv e K p" and c: "c \<in> set (op_calls p)" and ans: "order_answered e c (answered_call c p) p'"
    and K: "set (op_landed p') \<subseteq> K" and rd: "readable e K"
  shows "entries_inv e K p'"
proof -
  let ?q = "answered_call c p"
  have q: "entries_inv e K ?q" by (rule inv_answered_call [OF inv c])
  have sole: "active ?q = []" "op_busy ?q \<noteq> None" "call_ok e ?q c" if "c \<noteq> C_load"
    using only_active [OF inv c that] same_answered(2) [of c p] same_call_ok [OF same_answered(1) [of p c]] by auto
  from ans show ?thesis
  proof cases
    case (loads a)
    then show ?thesis using q by (simp add: inv_rendered)
  next
    case (sends r x)
    then show ?thesis using q sole
      by (auto simp: sent_answer_def call_ok_def intro!: inv_finished inv_error inv_with_call
          split: sum.splits)
  next
    case (watches r sig n a)
    define q1 where "q1 = (let p = loaded e a ?q in if la_committed a then committed p else p)"
    have "entries_inv e K q1" "active q1 = []" "op_busy q1 \<noteq> None" "sig \<noteq> []"
      using q sole watches(1) by (auto simp: q1_def Let_def inv_rendered call_ok_def)
    moreover have "p' = (if snapshot e (op_orderRef q1) \<noteq> rc_before r then landing e r sig q1
       else if Suc n < WATCH_ROUNDS then with_call (C_watch r sig (Suc n)) (committed q1) else landing e r sig (committed q1))"
      using watches by (simp add: watch_answer_def q1_def Let_def)
    ultimately show ?thesis using K rd
      by (auto simp: call_ok_def inv_rendered intro!: inv_landing inv_with_call split: if_splits)
  next
    case (flushes r ps net)
    obtain q1 err where fl: "flushed e r ps net ?q = (q1, err)" by (cases "flushed e r ps net ?q")
    have ps: "ps = stored_entries e ?q" using sole flushes(1) by (simp add: call_ok_def)
    note f = inv_flushed [OF q sole(1) ps rd sole(2) fl]
    have "p' = after_flush err q1" using flushes(2) after_eq(1) [OF fl] by simp
    then show ?thesis using f flushes(1) by (simp add: inv_after)
  next
    case (retries r ps net)
    obtain q1 err where fl: "flushed e r ps net ?q = (q1, err)" by (cases "flushed e r ps net ?q")
    have ps: "ps = stored_entries e ?q" using sole retries(1) by (simp add: call_ok_def)
    note f = inv_flushed [OF q sole(1) ps rd sole(2) fl]
    have "p' = after_retry r err q1" using retries(2) after_eq(2) [OF fl] by simp
    then show ?thesis using f retries(1) by (simp add: inv_after)
  next
    case (reloads r a)
    then show ?thesis using q sole by (auto intro!: inv_finished inv_rendered)
  qed
qed

lemma inv_press:
  assumes inv: "entries_inv e K p" and off: "order_offers e p b"
  shows "entries_inv e K (pressed_button e scans b p)"
proof -
  have a: "active p = []" using offers_idle [OF off] inv by (simp add: entries_inv_def idle_def)
  let ?p = "p\<lparr>op_busy := Some (press_label b), op_error := None\<rparr>"
  have same: "same_entries p ?p" by (simp add: same_entries_def)
  have "active ?p = []" using a by (simp add: active_def)
  then have "entries_inv e K ?p" using inv_calls [OF inv same] by simp
  then show ?thesis
    using inv \<open>active ?p = []\<close> same_stored [OF same]
    by (auto simp: pressed_button_def Let_def call_ok_def intro!: inv_with_call)
qed

lemma step_landed: "order_step e p p' \<Longrightarrow> set (op_landed p) \<subseteq> set (op_landed p')"
proof (induction rule: order_step.induct)
  case (answer c p p')
  then show ?case using answered_landed [of e c "answered_call c p" p'] by (simp add: answered_call_def)
qed (auto simp: pressed_button_def Let_def)

lemma inv_step:
  assumes inv: "entries_inv e K p" and st: "order_step e p p'" and K: "set (op_landed p') \<subseteq> K" and rd: "readable e K"
  shows "entries_inv e K p'"
  using st
proof cases
  case (press b scans)
  then show ?thesis using inv_press [OF inv] by simp
next
  case (answer c)
  then show ?thesis using inv_answer [OF inv _ _ K rd] by blast
next
  case render
  then show ?thesis using inv_rendered(2) [OF inv] by simp
qed (auto intro!: inv_same [OF inv] simp: same_entries_def)

lemma inv_reloaded:
  assumes "entries_inv e K p"
  shows "entries_inv e K (reloaded e t w p)"
  using assms by (simp add: entries_inv_def reloaded_def opened_def stored_entries_def active_def kept_def)

lemma life_landed: "order_life e p p' \<Longrightarrow> set (op_landed p) \<subseteq> set (op_landed p')"
  by (induction rule: order_life.induct) (auto simp: reloaded_def dest: step_landed)

lemma inv_life:
  assumes "order_life e p p'" "entries_inv e K p" "set (op_landed p') \<subseteq> K" "readable e K"
  shows "entries_inv e K p'"
  using assms(1,3)
proof (induction rule: order_life.induct)
  case (acts p' p'')
  then show ?case using inv_step [OF _ _ _ assms(4)] step_landed by (meson subset_trans)
next
  case (reload p' t w)
  then show ?case using inv_reloaded by (simp add: reloaded_def)
qed (use assms(2) in simp)

section \<open>From the transaction to its entry\<close>

text \<open>The action \<open>c\<close> has landed as \<open>sig\<close> and the page waits for the order to show it; its entry is stored after that, if it has one.\<close>

definition watching :: "run_call \<Rightarrow> string \<Rightarrow> order_page \<Rightarrow> bool" where
  "watching c sig p \<longleftrightarrow> (\<exists>n. C_watch c sig n \<in> set (op_calls p))"

definition stored_once :: "run_call \<Rightarrow> string \<Rightarrow> order_page \<Rightarrow> bool" where
  "stored_once c sig p \<longleftrightarrow> rc_entry c = No_entry \<or> sig \<in> sig_of ` set (op_landed p)"

text \<open>The page was reloaded while it waited.\<close>

definition cut_short :: "order_env \<Rightarrow> run_call \<Rightarrow> string \<Rightarrow> order_page \<Rightarrow> order_page \<Rightarrow> bool" where
  "cut_short e c sig p p' \<longleftrightarrow> (\<exists>q t w. order_life e p q \<and> watching c sig q \<and> order_life e (reloaded e t w q) p')"

lemma with_call_calls [simp]: "op_calls (with_call d p) = op_calls p @ [d]"
  by (simp add: with_call_def)

lemma landing_calls: "set (op_calls p) \<subseteq> set (op_calls (landing e c sig p))"
  by (auto simp: landing_def Let_def split: option.splits prod.splits)

lemma flushed_calls: "flushed e c ps net p = (q, err) \<Longrightarrow> op_calls q = op_calls p"
  by (auto simp: flushed_def split: prod.splits)

lemma answered_keeps_calls: "order_answered e c p p' \<Longrightarrow> set (op_calls p) \<subseteq> set (op_calls p')"
proof (induction rule: order_answered.induct)
  case (watches c sig n p a)
  show ?case
    using landing_calls [of "loaded e a p" e c sig] landing_calls [of "committed (loaded e a p)" e c sig]
      landing_calls [of "committed (committed (loaded e a p))" e c sig]
    by (simp add: watch_answer_def Let_def subset_insertI)
qed (auto simp: sent_answer_def flush_answer_def retry_answer_def flushed_calls split: sum.splits prod.splits option.splits)

lemma landing_stored: "stored_once c sig (landing e c sig p)"
  by (cases "rc_entry c") (auto simp: stored_once_def landing_def entry_of_def Let_def rememberPending_def sig_of_def
      split: option.splits prod.splits)

lemma watch_goes_on: "watching c sig (watch_answer e c sig n a p) \<or> stored_once c sig (watch_answer e c sig n a p)"
  by (auto simp: watch_answer_def Let_def landing_stored watching_def)

lemma watching_step:
  assumes "order_step e p p'" "watching c sig p"
  shows "watching c sig p' \<or> stored_once c sig p'"
  using assms(1)
proof cases
  case (answer d)
  show ?thesis
  proof (cases "watching c sig (answered_call d p)")
    case True
    then show ?thesis using answered_keeps_calls [OF answer(2)] by (auto simp: watching_def)
  next
    case False
    with assms(2) obtain n where d: "d = C_watch c sig n" by (auto simp: watching_def answered_call_def) (metis in_set_remove1)
    from answer(2) [unfolded d] show ?thesis by cases (use watch_goes_on in auto)
  qed
qed (use assms(2) in \<open>auto simp: watching_def pressed_button_def Let_def committed_def\<close>)

lemma stored_life: "order_life e p p' \<Longrightarrow> stored_once c sig p \<Longrightarrow> stored_once c sig p'"
  using life_landed [of e p p'] by (auto simp: stored_once_def)

lemma watching_life:
  assumes "order_life e p p'" "watching c sig p"
  shows "watching c sig p' \<or> stored_once c sig p' \<or> cut_short e c sig p p'"
  using assms(1)
proof (induction rule: order_life.induct)
  case (acts q q')
  then show ?case
    using watching_step [OF acts(2), of c sig] stored_life [OF order_life.acts [OF order_life.start acts(2)], of c sig]
    by (auto simp: cut_short_def intro: order_life.acts)
next
  case (reload q t w)
  have "stored_once c sig (reloaded e t w q) = stored_once c sig q" by (simp add: stored_once_def reloaded_def)
  with reload show ?case unfolding cut_short_def by (metis order_life.reload order_life.start)
qed (use assms(2) in simp)

section \<open>Properties\<close>

lemma opened_inv:
  assumes "kv_ok s" "one_per_sig (loadPending (oe_parse e) (oe_pda e) (Some s))"
    "set (loadPending (oe_parse e) (oe_pda e) (Some s)) \<subseteq> K"
  shows "entries_inv e K (opened e t w (Some s))"
  using assms by (simp add: entries_inv_def opened_def stored_entries_def active_def kept_def)

text \<open>C34: no landed action is forgotten as long as its page is not left while it waits for the order to change. Over any presses,
  answers, failed posts, retries and reloads of one order page (the only tab of its order) on a working storage: from the
  moment an action has landed its page waits, for at most eight reads, until the order shows it, or the action's entry is in
  the stored list until the verifier has it (it answered the post, or that it holds the entry already), or the action has no
  entry, or the page was reloaded during that wait. The page shows exactly the stored list, and at most one action is running.\<close>

theorem order_entries_kept:
  assumes "order_life e (opened e t w (Some s)) p" "kv_ok s" "one_per_sig (loadPending (oe_parse e) (oe_pda e) (Some s))"
    "readable e (set (loadPending (oe_parse e) (oe_pda e) (Some s)) \<union> set (op_landed p))"
  shows "(\<forall>q c sig n. order_life e (opened e t w (Some s)) q \<longrightarrow> order_life e q p \<longrightarrow> C_watch c sig n \<in> set (op_calls q) \<longrightarrow>
      (\<exists>n'. C_watch c sig n' \<in> set (op_calls p)) \<or> sig \<in> sig_of ` set (stored_entries e p) \<or> sig \<in> set (op_settled p) \<or>
      rc_entry c = No_entry \<or> cut_short e c sig q p) \<and>
    (\<forall>x \<in> set (op_landed p). sig_of x \<in> sig_of ` set (stored_entries e p) \<or> sig_of x \<in> set (op_settled p)) \<and>
    op_pending p = stored_entries e p \<and> length (active p) \<le> 1 \<and> (op_busy p = None \<longrightarrow> active p = [])"
proof -
  have inv: "entries_inv e (set (loadPending (oe_parse e) (oe_pda e) (Some s)) \<union> set (op_landed p)) p"
    using inv_life [OF assms(1) opened_inv [OF assms(2,3)] _ assms(4)] by auto
  then have kept: "\<forall>x \<in> set (op_landed p). sig_of x \<in> sig_of ` set (stored_entries e p) \<or> sig_of x \<in> set (op_settled p)"
    by (simp add: entries_inv_def kept_def)
  moreover have "(\<exists>n'. C_watch c sig n' \<in> set (op_calls p)) \<or> sig \<in> sig_of ` set (stored_entries e p) \<or> sig \<in> set (op_settled p) \<or>
      rc_entry c = No_entry \<or> cut_short e c sig q p" if "order_life e q p" "C_watch c sig n \<in> set (op_calls q)" for q c sig n
  proof -
    have "watching c sig q" using that(2) by (auto simp: watching_def)
    from watching_life [OF that(1) this] consider "watching c sig p" | "rc_entry c = No_entry"
      | x where "x \<in> set (op_landed p)" "sig_of x = sig" | "cut_short e c sig q p"
      by (auto simp: stored_once_def)
    then show ?thesis by cases (use kept in \<open>auto simp: watching_def\<close>)
  qed
  moreover have "op_pending p = stored_entries e p" "length (active p) \<le> 1" "op_busy p = None \<longrightarrow> active p = []"
    using inv unfolding entries_inv_def by auto
  ultimately show ?thesis by blast
qed

section \<open>Where the page says more than it knows\<close>

text \<open>
  The entry of a receipt scan says \<open>match\<close> from the order as the last of eight reads showed it. When every read still
  shows the order before the scan (an RPC node that lags behind), the entry denies the match whatever the program found.
\<close>

theorem stale_receipt_denies_match:
  assumes "shown_order p = Some v" "ov_state v = OrderState SHIPPED" "op_orderRef q = Some (Some v)"
  shows "\<exists>payload. entry_of (rc_entry (new_call e p scans Press_receipt)) (op_orderRef q) = Some (member EventType ''RECEIVE'', payload) \<and>
    map_of payload ''match'' = Some (JBool False)"
  using assms by (simp add: new_call_def act_entry_def entry_of_def Let_def)

text \<open>
  A landed transaction is stored with its entry only when the page has seen the order change or has read it eight times.
  A reload before that leaves no entry.
\<close>

theorem reload_while_watching_forgets:
  assumes "r = Inr sig" "op_store p = Some s"
  shows "stored_entries e (reloaded e t w (sent_answer c r p)) = stored_entries e p \<and>
    op_calls (reloaded e t w (sent_answer c r p)) = [C_load]"
  using assms by (simp add: sent_answer_def reloaded_def opened_def with_call_def stored_entries_def)

text \<open>
  Two tabs of one order: while the first posts the entries it read, the second stores the entry of an action of its own and
  fails to post it. The first tab then writes back what was left of its own list, and the second tab's entry is gone.
\<close>

theorem other_tab_overwritten:
  assumes "readable e K" "kv_ok s" "one_per_sig ps" "set ps \<subseteq> K" "\<forall>x \<in> set ps. moot (post_entry e c net) alreadyRecorded x"
  shows "stored_entries e (fst (flushed e c ps net (p\<lparr>op_store := Some s\<rparr>))) = []"
proof -
  have left: "fst (flushPending ps (post_entry e c net) alreadyRecorded) = []"
    using flush_leaves_failures [OF assms(3)] assms(5) by simp
  have one: "one_per_sig []" by (simp add: one_per_sig_def)
  obtain s' where "savePending (oe_fmt e) (oe_pda e) [] (Some s) = Some s'" "loadPending (oe_parse e) (oe_pda e) (Some s') = []"
    by (rule save_entries [OF assms(1,2) one, of thesis]) auto
  moreover obtain err where "flushPending ps (post_entry e c net) alreadyRecorded = ([], err)"
    using left by (cases "flushPending ps (post_entry e c net) alreadyRecorded") simp
  ultimately show ?thesis by (simp add: flushed_def stored_entries_def)
qed

end
