(* ===== verification/Order_Demo.thy ===== *)
theory Order_Demo
  imports Order_Entries
begin

text \<open>Concrete order pages on which the properties of the order page hold.\<close>

section \<open>A page\<close>

definition demo_offer :: order_view where
  "demo_offer = demo_view\<lparr>ix_buyer := None, ix_sellerScan := None, ov_state := 0\<rparr>"

definition demo_reserve_entry :: json where
  "demo_reserve_entry = JObj [(''sig'', JStr ''sig''), (''type'', JNum (jn (member EventType ''RESERVE''))),
     (''payload'', JObj (price_fields demo_offer))]"

definition demo_oe :: order_env where
  "demo_oe = \<lparr>oe_prog = demo_prog, oe_sha256 = id, oe_base58 = (\<lambda>_. ''me''), oe_pk = (\<lambda>_. Some [5]), oe_date = (\<lambda>_. []), oe_fmt = (\<lambda>_. []),
     oe_parse = (\<lambda>t. if t = stringify (\<lambda>_. []) (JArr [demo_reserve_entry]) then Some (JArr [demo_reserve_entry])
       else if t = stringify (\<lambda>_. []) (JArr []) then Some (JArr []) else None),
     oe_pda = ''order'', oe_contact = None\<rparr>"

definition demo_econfig :: escrow_config_view where
  "demo_econfig = \<lparr>ec_admin = cf_admin demo_config, ec_usdcMint = [8], ec_disputeAfterS = 604800\<rparr>"

text \<open>The page as wallet \<open>k\<close> sees an order, without and with a passport.\<close>

definition demo_shows :: "order_view \<Rightarrow> pubkey \<Rightarrow> rat \<Rightarrow> order_passport option \<Rightarrow> order_page" where
  "demo_shows v k t q = (opened demo_oe t (Some k) (Some demo_kv))
     \<lparr>op_order := Some (Some v), op_config := Some demo_econfig, op_passport := q\<rparr>"

lemma demo_shows_simps [simp]:
  "shown_order (demo_shows v k t q) = Some v" "op_wallet (demo_shows v k t q) = Some k" "op_config (demo_shows v k t q) = Some demo_econfig"
  "op_busy (demo_shows v k t q) = None" "op_passport (demo_shows v k t q) = q" "op_deadSeal (demo_shows v k t q) = None"
  "op_now (demo_shows v k t q) = t" "op_scanChoice (demo_shows v k t q) = []"
  by (simp_all add: demo_shows_def opened_def shown_order_def)

lemma demo_no_scans [simp]: "myScans demo_oe (demo_shows v k t None) = Inr []"
  by (simp add: myScans_def)

theorem order_buttons_accepted_witness:
  "program_accepts [5] demo_config demo_order [2] False 700000 A_refundNotShipped \<and>
   rc_call (new_call demo_oe (demo_shows (toView [9] demo_order) [2] 700000 None) [] Press_refundNotShipped) \<noteq> None"
proof -
  let ?p = "demo_shows (toView [9] demo_order) [2] 700000 None"
  have t: "times_ok demo_order" by (simp add: times_ok_def demo_order_def MAX_DISPUTE_AFTER_S_def I64_MAX_def)
  have a: "cf_admin demo_config \<noteq> od_buyer demo_order" by (simp add: demo_market_defs)
  have m: "mk_order demo_reserved = Some demo_order" by (simp add: demo_reserved_def)
  have c: "ec_admin demo_econfig = cf_admin demo_config" by (simp add: demo_econfig_def)
  have "A_refundNotShipped \<in> set (availableActions (like demo_order) (viewer_of demo_config demo_order [2] False) 700000)"
    unfolding offered_iff by (simp add: demo_order_def effective_window_def MIN_DISPUTE_AFTER_S_def MAX_DISPUTE_AFTER_S_def)
  then have "can ?p A_refundNotShipped"
    by (simp add: can_def actions_of_acc [of ?p "[9]" demo_order "[2]" demo_econfig demo_config] c)
  then have "order_offers demo_oe ?p Press_refundNotShipped"
    by (subst offers_iff [where v = "toView [9] demo_order" and scans = "[]"]) (simp_all add: idle_def records_scan_def)
  with order_buttons_accepted [OF market_reach_ok [OF demo_reserved_reach] m t a, of ?p "[9]" "[2]" demo_econfig demo_oe "[]"
      Press_refundNotShipped A_refundNotShipped] c
  show ?thesis by simp
qed

definition demo_event :: order_event where
  "demo_event = \<lparr>ev_id = 1, ev_type = member EventType ''SCAN'', ev_ts = 1000, ev_actorLabel = None, ev_status = Confirmed,
     ev_sealUidHash = Some ''ab'',
     ev_payload = JObj [(''counter'', JNum (jn 7)), (''indicators'', JObj [(''heat'', JNum (jn 0)), (''humidity'', JNum (jn 0))])],
     oev_actor = Some ''me''\<rparr>"

definition demo_passport :: order_passport where
  "demo_passport = \<lparr>opp_brand = [], opp_name = [], opp_grade = 0, opp_void = False, opp_seals = [], opp_sealStatus = Seal_intact,
     opp_scanCount = 1, opp_events = [demo_event]\<rparr>"

lemma demo_order_scan: "\<exists>s. myScans demo_oe (demo_shows v k t (Some demo_passport)) = Inr [s] \<and> ss_ts s = 1000 \<and> ss_unusable s = None"
proof -
  have h: "hexToBytes ''ab'' = Inr [0xab]" by code_simp
  have u: "scanUsableForOrder (event_indicators demo_event) = Inr ()"
    by (simp add: event_indicators_def demo_event_def scanUsableForOrder_def indicatorProblem_def List.map_filter_def)
  have "scan_counts ''me'' demo_event" by (simp add: scan_counts_def demo_event_def payload_number_def set_text_def)
  moreover have "\<exists>s. scan_option demo_oe demo_event = Inr s \<and> ss_ts s = 1000 \<and> ss_unusable s = None"
    using u h by (simp add: scan_option_def Let_def) (simp add: demo_event_def h)
  ultimately show ?thesis by (auto simp: myScans_def demo_passport_def demo_oe_def)
qed

theorem order_records_own_scan_witness:
  "\<exists>pda sl scans. rc_call (new_call demo_oe (demo_shows (toView [9] demo_order) [1] 300 (Some demo_passport)) scans Press_preShip) =
     Some (ix_preShip demo_prog (toView [9] demo_order) pda sl)"
proof -
  let ?p = "demo_shows (toView [9] demo_order) [1] 300 (Some demo_passport)"
  obtain s where s: "myScans demo_oe ?p = Inr [s]" "ss_ts s = 1000" "ss_unusable s = None" using demo_order_scan by blast
  have c: "ec_admin demo_econfig = cf_admin demo_config" by (simp add: demo_econfig_def)
  have "A_preShip \<in> set (availableActions (like demo_order) (viewer_of demo_config demo_order [1] False) 300)"
    unfolding offered_iff by (simp add: demo_order_def)
  then have can: "can ?p A_preShip"
    by (simp add: can_def actions_of_acc [of ?p "[9]" demo_order "[1]" demo_econfig demo_config] c)
  have "page_scan_step ?p = Some PreShip" using scan_step_state [OF can] by simp
  then have "sc_chosen (page_choice ?p [s]) \<noteq> None"
    using s by (auto simp: page_choice_def stepScanChoice_def Let_def scanFitsStep_def of_view_def toView_def demo_order_def SCAN_TS_SKEW_S_def)
  then have "order_offers demo_oe ?p Press_preShip"
    using can by (subst offers_iff [where v = "toView [9] demo_order" and scans = "[s]"]) (simp_all add: idle_def moves_usdc_def s)
  from order_records_own_scan [OF this _ s(1)] show ?thesis
    by (auto simp: records_scan_def Let_def demo_oe_def)
qed

section \<open>A reservation whose entry is not posted yet\<close>

definition demo_answer :: "order_view \<Rightarrow> load_answer" where
  "demo_answer v = \<lparr>la_first = Inr (Some demo_econfig, Some v), la_serials = Inr [], la_passport = (\<lambda>_. Inr None),
     la_seals = Inr (\<lambda>_. []), la_committed = True\<rparr>"

definition demo_p0 :: order_page where "demo_p0 = opened demo_oe 0 (Some [3]) (Some demo_kv)"
definition demo_p1 :: order_page where "demo_p1 = committed (loaded demo_oe (demo_answer demo_offer) (answered_call C_load demo_p0))"
definition demo_call :: run_call where "demo_call = new_call demo_oe demo_p1 [] Press_reserve"
definition demo_p2 :: order_page where "demo_p2 = pressed_button demo_oe [] Press_reserve demo_p1"
definition demo_p3 :: order_page where "demo_p3 = sent_answer demo_call (Inr ''sig'') (answered_call (C_send demo_call) demo_p2)"
definition demo_p4 :: order_page where
  "demo_p4 = watch_answer demo_oe demo_call ''sig'' 0 (demo_answer (demo_offer\<lparr>ov_state := 1\<rparr>))
     (answered_call (C_watch demo_call ''sig'' 0) demo_p3)"

lemma demo_loaded: "loaded demo_oe (demo_answer v) p = p\<lparr>op_config := Some demo_econfig, op_order := Some (Some v), op_serial := None,
    op_passport := None, op_deadSeal := None\<rparr>"
  by (simp add: loaded_def demo_answer_def passportFor_def seal_states_def fetchSealStates_def demo_oe_def)

lemma demo_empty: "loadPending (oe_parse demo_oe) (oe_pda demo_oe) (Some demo_kv) = []"
  by (simp add: loadPending_def demo_kv_def getItem_def parsePending_def)

lemma demo_p1: "demo_p1 = demo_p0\<lparr>op_calls := [], op_config := Some demo_econfig, op_order := Some (Some demo_offer),
    op_orderRef := Some (Some demo_offer)\<rparr>"
  by (simp add: demo_p1_def demo_loaded committed_def answered_call_def demo_p0_def opened_def)

lemma demo_p2: "demo_p2 = demo_p1\<lparr>op_busy := Some ''reserve'', op_calls := [C_send demo_call]\<rparr>"
  by (simp add: demo_p2_def pressed_button_def demo_call_def [symmetric] with_call_def) (simp add: demo_p1 demo_p0_def opened_def)

lemma demo_p3: "demo_p3 = demo_p2\<lparr>op_lastTx := Some ''sig'', op_calls := [C_watch demo_call ''sig'' 0]\<rparr>"
  by (simp add: demo_p3_def sent_answer_def with_call_def answered_call_def demo_p2)

lemma demo_offered: "order_offers demo_oe demo_p1 Press_reserve" "myScans demo_oe demo_p1 = Inr []"
proof -
  show s: "myScans demo_oe demo_p1 = Inr []" by (simp add: myScans_def demo_p1 demo_p0_def opened_def)
  have v: "shown_order demo_p1 = Some demo_offer" by (simp add: shown_order_def demo_p1)
  have "can demo_p1 A_reserve"
    by (simp add: can_def page_actions_def v availableActions_def Let_def of_view_def page_viewer_def demo_offer_def)
      (simp add: demo_p1 demo_p0_def opened_def demo_view_def toView_def demo_order_def)
  then show "order_offers demo_oe demo_p1 Press_reserve"
    by (subst offers_iff [OF s v]) (simp add: idle_def records_scan_def, simp add: demo_p1 demo_p0_def opened_def)
qed

lemma demo_entry_of: "entry_of (rc_entry demo_call) r = Some (member EventType ''RESERVE'', price_fields demo_offer)"
  by (simp add: demo_call_def new_call_def act_entry_def Let_def entry_of_def shown_order_def demo_p1)

lemma demo_changed: "snapshot demo_oe (Some (Some (demo_offer\<lparr>ov_state := 1\<rparr>))) \<noteq> rc_before demo_call"
  by (simp add: demo_call_def new_call_def Let_def demo_p1 snapshot_def demo_offer_def show_int_def)

lemma demo_readable: "readable demo_oe {demo_reserve_entry}"
proof -
  have "ps = [] \<or> ps = [demo_reserve_entry]" if "one_per_sig ps" "set ps \<subseteq> {demo_reserve_entry}" for ps
  proof -
    have "distinct ps" using that(1) by (simp add: one_per_sig_def distinct_map)
    then have "length ps \<le> 1" using that(2) by (metis card.empty card_insert_disjoint card_mono distinct_card empty_iff finite.emptyI finite_insert One_nat_def)
    then show ?thesis using that(2) by (cases ps; cases "tl ps") auto
  qed
  moreover have "stringify (\<lambda>_. []) demo_reserve_entry \<noteq> []" by (simp add: demo_reserve_entry_def)
  ultimately show ?thesis unfolding readable_def reads_back_def by (fastforce simp: demo_oe_def)
qed

lemma demo_landing: "\<exists>q. demo_p4 = landing demo_oe demo_call ''sig'' q \<and> op_orderRef q = Some (Some (demo_offer\<lparr>ov_state := 1\<rparr>)) \<and>
    op_landed q = [] \<and> op_settled q = []"
proof -
  let ?q = "committed (loaded demo_oe (demo_answer (demo_offer\<lparr>ov_state := 1\<rparr>)) (answered_call (C_watch demo_call ''sig'' 0) demo_p3))"
  have ref: "op_orderRef ?q = Some (Some (demo_offer\<lparr>ov_state := 1\<rparr>))" by (simp add: committed_def demo_loaded)
  have "la_committed (demo_answer (demo_offer\<lparr>ov_state := 1\<rparr>))" by (simp add: demo_answer_def)
  then have "demo_p4 = landing demo_oe demo_call ''sig'' ?q" using demo_changed ref by (simp add: demo_p4_def watch_answer_def)
  moreover have "op_landed ?q = [] \<and> op_settled ?q = []"
    by (simp add: answered_call_def) (simp add: demo_p3 demo_p2 demo_p1 demo_p0_def opened_def)
  ultimately show ?thesis using ref by blast
qed

lemma demo_p4: "op_landed demo_p4 = [demo_reserve_entry]" "op_settled demo_p4 = []"
proof -
  obtain q where q: "demo_p4 = landing demo_oe demo_call ''sig'' q" "op_landed q = []" "op_settled q = []" using demo_landing by blast
  show "op_landed demo_p4 = [demo_reserve_entry]" "op_settled demo_p4 = []"
    unfolding q(1) using q(2,3) by (simp_all add: landing_def demo_entry_of rememberPending_def Let_def demo_reserve_entry_def)
qed

lemma demo_life: "order_life demo_oe demo_p0 demo_p4"
proof -
  have 1: "order_step demo_oe demo_p0 demo_p1"
    unfolding demo_p1_def by (rule order_step.answer [of C_load]) (simp_all add: demo_p0_def opened_def order_answered.loads)
  have 2: "order_step demo_oe demo_p1 demo_p2" unfolding demo_p2_def by (rule order_step.press [OF demo_offered])
  have 3: "order_step demo_oe demo_p2 demo_p3"
    unfolding demo_p3_def
    by (rule order_step.answer [of "C_send demo_call"], simp add: demo_p2, rule order_answered.sends)
      (simp_all add: demo_call_def new_call_def act_call_def Let_def shown_order_def demo_p1 demo_p0_def opened_def)
  have 4: "order_step demo_oe demo_p3 demo_p4"
    unfolding demo_p4_def by (rule order_step.answer, simp add: demo_p3, rule order_answered.watches)
  show ?thesis
    by (rule order_life.acts [OF order_life.acts [OF order_life.acts [OF order_life.acts [OF order_life.start 1] 2] 3] 4])
qed

theorem order_entries_kept_witness: "''sig'' \<in> sig_of ` set (stored_entries demo_oe demo_p4) \<and> op_pending demo_p4 = stored_entries demo_oe demo_p4"
proof -
  have kv: "kv_ok demo_kv" by (simp add: kv_ok_def demo_kv_def)
  have one: "one_per_sig (loadPending (oe_parse demo_oe) (oe_pda demo_oe) (Some demo_kv))" by (simp add: demo_empty one_per_sig_def)
  have rd: "readable demo_oe (set (loadPending (oe_parse demo_oe) (oe_pda demo_oe) (Some demo_kv)) \<union> set (op_landed demo_p4))"
    using demo_readable by (simp add: demo_empty demo_p4)
  show ?thesis
    using order_entries_kept [OF demo_life [unfolded demo_p0_def] kv one rd] by (simp add: demo_p4 demo_reserve_entry_def sig_of_def)
qed

end
