(* ===== verification/Certify_Page.thy ===== *)
theory Certify_Page
  imports Web_Send Web_Flacon Web_Verify_Api Escrow_Rules Web_Format
begin

text \<open>
  \<open>apps/web/src/components/certify-console.tsx\<close>: the console that mints an asset and a passport and attaches a seal. A
  handler is a function of the page at the press (its closure) and of what the RPC, the wallet and the verifier answer; it
  returns the page with what was sent appended. Umi, Web NFC and the card's SVG are parameters.
\<close>

section \<open>Data\<close>

datatype err_at = At_top | At_uid | At_core | At_mint | At_seal | At_scan

record cert_form =
  fm_serial :: string
  fm_brand :: string
  fm_name :: string
  fm_batch :: string
  fm_siteId :: int
  fm_kind :: int
  fm_uid :: string

record cert_registry =
  cg_authority :: pubkey
  cg_partners :: "pubkey list"
  cg_sites :: "(int \<times> string) list"

record cert_tag =
  ct_uid :: string
  ct_serial :: "string option"

text \<open>The two transactions of the console: arguments and accounts by name.\<close>

datatype cert_tx =
    Tx_mint_passport bytes bytes pubkey "(string \<times> pubkey) list"
  | Tx_attach_seal bytes int "(string \<times> pubkey) list"

datatype cert_sent = Sent_tx cert_tx | Sent_event "(string \<times> json) list"

record cert_page =
  cp_registry :: "cert_registry option option"
  cp_form :: cert_form
  cp_simTags :: "cert_tag list"
  cp_recent :: "(string \<times> int option) option"
  cp_simulator :: bool
  cp_demo :: bool
  cp_asset :: "(pubkey \<times> string) option"
  cp_coreTx :: "string option"
  cp_mintTx :: "string option"
  cp_sealTx :: "string option"
  cp_busy :: "string option"
  cp_error :: "(err_at \<times> string) option"
  cp_log :: "string list"
  cp_wallet :: "pubkey option"
  cp_canSign :: bool
  cp_sent :: "cert_sent list"

text \<open>\<open>getAccountInfo\<close>, Anchor's \<open>fetchNullable\<close> and \<open>registry.fetch\<close>, the search for a creating transaction, the wallet.\<close>

record cert_env =
  ce_lib :: chain_lib
  ce_sha256 :: "bytes \<Rightarrow> bytes"
  ce_base58 :: "pubkey \<Rightarrow> string"
  ce_verifyUrl :: string
  ce_program :: bool
  ce_devSim :: bool
  ce_info :: "pubkey \<Rightarrow> thrown + account_info option"
  ce_passport :: "pubkey \<Rightarrow> thrown + passport option"
  ce_seal :: "pubkey \<Rightarrow> thrown + seal option"
  ce_created :: "pubkey \<Rightarrow> tx_expectation \<Rightarrow> thrown + string option"
  ce_send :: "cert_tx \<Rightarrow> thrown + string"
  ce_net :: "json \<Rightarrow> nat \<Rightarrow> js_error + json"

definition initial_cert :: "cert_page" where
  "initial_cert = \<lparr>cp_registry = None, cp_form = \<lparr>fm_serial = ''SN-2026-000004'', fm_brand = [], fm_name = [], fm_batch = [],
       fm_siteId = 1, fm_kind = 1, fm_uid = []\<rparr>,
     cp_simTags = [], cp_recent = None, cp_simulator = False, cp_demo = False, cp_asset = None, cp_coreTx = None, cp_mintTx = None,
     cp_sealTx = None, cp_busy = None, cp_error = None, cp_log = [], cp_wallet = None, cp_canSign = False, cp_sent = []\<rparr>"

section \<open>Derived values\<close>

definition cert_error :: "string \<Rightarrow> thrown" where
  "cert_error t = plain (OtherErr ''Error'' t)"

definition set_error :: "err_at \<Rightarrow> string \<Rightarrow> cert_page \<Rightarrow> cert_page" where
  "set_error place t p = p\<lparr>cp_error := (if t \<noteq> [] then Some (place, t) else None)\<rparr>"

definition log_note :: "string \<Rightarrow> cert_page \<Rightarrow> cert_page" where
  "log_note t p = p\<lparr>cp_log := take 20 (t # cp_log p)\<rparr>"

definition cert_serial :: "cert_page \<Rightarrow> string" where
  "cert_serial p = normalizeSerial (fm_serial (cp_form p))"

definition serialOk :: "cert_page \<Rightarrow> bool" where
  "serialOk p = isValidSerial (cert_serial p)"

definition shown_registry :: "cert_page \<Rightarrow> cert_registry option" where
  "shown_registry p = Option.bind (cp_registry p) id"

definition isPartner :: "cert_page \<Rightarrow> bool" where
  "isPartner p \<longleftrightarrow> (case (shown_registry p, cp_wallet p) of
     (Some r, Some k) \<Rightarrow> k \<in> set (cg_partners r) \<or> cg_authority r = k | _ \<Rightarrow> False)"

definition site_label :: "cert_page \<Rightarrow> string option" where
  "site_label p = Option.bind (shown_registry p) (\<lambda>r. map_of (cg_sites r) (fm_siteId (cp_form p)))"

definition simOn :: "cert_env \<Rightarrow> cert_page \<Rightarrow> bool" where
  "simOn e p \<longleftrightarrow> ce_devSim e \<and> cp_demo p \<and> cp_simulator p"

text \<open>\<open>/^[0-9A-Fa-f]{14}$/\<close>\<close>

definition chip_uid :: "string \<Rightarrow> bool" where
  "chip_uid s \<longleftrightarrow> length s = 14 \<and> list_all is_hex s"

text \<open>\<open>labelOf\<close>: the text of a label without its trailing zero bytes; \<open>decode\<close> is \<open>TextDecoder.decode\<close>.\<close>

definition labelOf :: "(bytes \<Rightarrow> string) \<Rightarrow> bytes \<Rightarrow> string" where
  "labelOf decode b = rev (dropWhile (\<lambda>c. c = CHR 0x00) (rev (decode b)))"

definition loadRegistry ::
  "cert_env \<Rightarrow> (bytes \<Rightarrow> string) \<Rightarrow> thrown + pubkey \<times> pubkey list \<times> (int \<times> bytes) list \<Rightarrow> cert_page \<Rightarrow> cert_page" where
  "loadRegistry e decode r p =
    (if \<not> ce_program e \<or> \<not> cp_canSign p then p\<lparr>cp_registry := Some None\<rparr>
     else case r of
       Inl x \<Rightarrow> set_error At_top (''Registry unreadable: '' @ friendly (th_error x)) (p\<lparr>cp_registry := Some None\<rparr>)
     | Inr (a, ps, sites) \<Rightarrow> p\<lparr>cp_registry := Some (Some
         \<lparr>cg_authority = a, cg_partners = ps, cg_sites = map (\<lambda>(i, l). (i, labelOf decode l)) sites\<rparr>)\<rparr>)"

section \<open>The Core asset\<close>

definition begun :: "string \<Rightarrow> cert_page \<Rightarrow> cert_page" where
  "begun b p = p\<lparr>cp_busy := Some b, cp_error := None\<rparr>"

definition ended :: "cert_page \<Rightarrow> cert_page" where
  "ended p = p\<lparr>cp_busy := None\<rparr>"

definition short_sig :: "string \<Rightarrow> string" where
  "short_sig s = take 12 s @ [CHR 0xE2, CHR 0x80, CHR 0xA6]"

definition core_asset_at :: "cert_env \<Rightarrow> pubkey \<Rightarrow> thrown + core_asset_info option" where
  "core_asset_at e k = bindE (ce_info e k) (\<lambda>i. Inr (fetchCoreAsset (\<lambda>_. i) k))"

definition core_name :: "cert_page \<Rightarrow> string" where
  "core_name p = js_trim (fm_brand (cp_form p) @ '' '' @ fm_name (cp_form p) @ ('' '' @ [CHR 0xC2, CHR 0xB7] @ '' '') @ cert_serial p)"

text \<open>
  \<open>create\<close> is what Umi answers for the new signer \<open>k\<close> with the name and the URI: it throws, or gives the signature and,
  when the transaction failed, why. Nothing is asked before the serial is valid; \<open>keyed\<close> says whether the signer was made.
\<close>

definition mintCore ::
  "cert_env \<Rightarrow> pubkey \<Rightarrow> bool \<Rightarrow> (string \<Rightarrow> string \<Rightarrow> thrown + string \<times> string option) \<Rightarrow> cert_page \<Rightarrow> cert_page" where
  "mintCore e k keyed create p =
    (if cp_wallet p = None then p
     else
       let serial = cert_serial p; q = begun ''core'' p;
           res = (if \<not> serialOk p then Inl (cert_error (''Enter a valid serial number first (3'' @ [CHR 0xE2, CHR 0x80, CHR 0x93] @ ''64 characters: letters, digits, '' @ [CHR 0x27] @ ''.'' @ [CHR 0x27] @ '', '' @ [CHR 0x27] @ ''_'' @ [CHR 0x27] @ '', '' @ [CHR 0x27] @ ''-'' @ [CHR 0x27] @ ''); the asset is named after it.''))
             else bindE (create (core_name p) (coreAssetUri (ce_verifyUrl e) serial)) (\<lambda>(sig, err).
               case err of Some reason \<Rightarrow> Inl (plain (TxFailed sig reason)) | None \<Rightarrow> Inr sig))
       in ended (case res of
           Inr sig \<Rightarrow> log_note (''Core asset '' @ ce_base58 e k @ '' minted for '' @ serial @ ('' '' @ [CHR 0xC2, CHR 0xB7] @ '' '') @ short_sig sig)
             (q\<lparr>cp_asset := Some (k, serial), cp_coreTx := Some sig\<rparr>)
         | Inl x \<Rightarrow>
             if serialOk p \<and> keyed \<and> (case core_asset_at e k of Inr (Some _) \<Rightarrow> True | _ \<Rightarrow> False)
             then log_note (''Core asset '' @ ce_base58 e k @ '' is on chain (the confirmation failed, the asset is kept)'')
               (q\<lparr>cp_asset := Some (k, serial)\<rparr>)
             else set_error At_core (''Core mint failed: '' @ friendly (th_error x)) q))"

definition cert_airdrop :: "thrown + unit \<Rightarrow> cert_page \<Rightarrow> cert_page" where
  "cert_airdrop r p = (if cp_wallet p = None then p else ended (case r of
     Inl x \<Rightarrow> set_error At_top (''Airdrop: '' @ friendly (th_error x)) (begun ''airdrop'' p)
   | Inr _ \<Rightarrow> log_note ''1 SOL airdrop'' (begun ''airdrop'' p)))"

section \<open>The passport\<close>

text \<open>A passport or seal that is already on chain is taken up with the transaction that created it; else one is sent.\<close>

datatype mint_plan = Mint_found string pubkey bytes | Mint_new cert_tx pubkey bytes

definition mint_accounts :: "cert_env \<Rightarrow> pubkey \<Rightarrow> pubkey \<Rightarrow> pubkey \<Rightarrow> (string \<times> pubkey) list" where
  "mint_accounts e pda me asset = [(''registry'', registryPda (ce_lib e)), (''passport'', pda), (''issuer'', me),
     (''systemProgram'', cl_system (ce_lib e)), (''coreAsset'', asset)]"

definition creator :: "string \<Rightarrow> pubkey \<Rightarrow> tx_expectation" where
  "creator ix me = \<lparr>ex_programId = None, ex_instruction = [ix], ex_signer = Some me\<rparr>"

definition mint_found :: "cert_env \<Rightarrow> string \<Rightarrow> pubkey \<Rightarrow> pubkey \<Rightarrow> passport \<Rightarrow> thrown + mint_plan" where
  "mint_found e serial pda me x =
    (if pp_issuer x \<noteq> me then Inl (cert_error (''Passport '' @ serial @ '' already exists and belongs to another wallet ('' @
         take 8 (ce_base58 e (pp_issuer x)) @ ([CHR 0xE2, CHR 0x80, CHR 0xA6] @ '')'')))
     else bindE (ce_created e pda (creator ''mint_passport'' me)) (\<lambda>found.
       case set_text found of
         None \<Rightarrow> Inl (cert_error (''Passport '' @ serial @ '' is on chain, but its mint transaction was not found. Try again in a moment.''))
       | Some sig \<Rightarrow> Inr (Mint_found sig (pp_asset x) (pp_binding_hash x))))"

definition hex_thrown :: "proof_error + 'a \<Rightarrow> thrown + 'a" where
  "hex_thrown r = map_sum (\<lambda>_. cert_error ''bad uid'') id r"

definition mint_new :: "cert_env \<Rightarrow> string \<Rightarrow> pubkey \<Rightarrow> pubkey \<Rightarrow> cert_page \<Rightarrow> thrown + mint_plan" where
  "mint_new e serial pda me p =
    (case cp_asset p of
       None \<Rightarrow> Inl (cert_error ''Mint the Core asset first.'')
     | Some (asset, for_serial) \<Rightarrow>
         if for_serial \<noteq> serial then Inl (cert_error (''The Core asset in this page was minted for '' @ for_serial @
             ''. Mint a new Core asset for '' @ serial @ ''.''))
         else if \<not> chip_uid (fm_uid (cp_form p)) then Inl (cert_error ''UID of the first seal (7 bytes hex) is needed for the binding_hash'')
         else bindE (core_asset_at e asset) (\<lambda>core.
           case core of
             None \<Rightarrow> Inl (cert_error ''The Core asset is not visible on chain yet. Wait a few seconds and try again.'')
           | Some c \<Rightarrow>
               if cx_owner c \<noteq> me then Inl (cert_error (''The Core asset belongs to another wallet ('' @ take 8 (ce_base58 e (cx_owner c)) @
                   ([CHR 0xE2, CHR 0x80, CHR 0xA6] @ ''). Connect that wallet, or mint a new Core asset with this one.'')))
               else bindE (hex_thrown (uidHash (ce_sha256 e) (UidHex (fm_uid (cp_form p))))) (\<lambda>uh.
                 let bh = bindingHash (ce_sha256 e) serial (fm_batch (cp_form p)) uh
                 in Inr (Mint_new (Tx_mint_passport (serialHash (ce_sha256 e) serial) bh asset (mint_accounts e pda me asset)) asset bh))))"

definition plan_mint :: "cert_env \<Rightarrow> pubkey \<Rightarrow> cert_page \<Rightarrow> thrown + mint_plan" where
  "plan_mint e me p =
    (let serial = cert_serial p; pda = passportPda (ce_lib e) (serialHash (ce_sha256 e) serial) in
     if \<not> serialOk p
     then Inl (cert_error (''Serial number: 3'' @ [CHR 0xE2, CHR 0x80, CHR 0x93] @ ''64 characters, letters, digits, '' @ [CHR 0x27] @ ''.'' @ [CHR 0x27] @ '', '' @ [CHR 0x27] @ ''_'' @ [CHR 0x27] @ '' or '' @ [CHR 0x27] @ ''-'' @ [CHR 0x27] @ '' (the passport address is derived from it and can never change)''))
     else if js_trim (fm_brand (cp_form p)) = [] \<or> js_trim (fm_name (cp_form p)) = []
     then Inl (cert_error ''Brand and name must be filled in (they appear in the passport)'')
     else bindE (ce_passport e pda) (\<lambda>existing.
       case existing of Some x \<Rightarrow> mint_found e serial pda me x | None \<Rightarrow> mint_new e serial pda me p))"

definition sent_log :: "cert_sent \<Rightarrow> cert_page \<Rightarrow> cert_page" where
  "sent_log x p = p\<lparr>cp_sent := cp_sent p @ [x]\<rparr>"

definition mint_body :: "cert_env \<Rightarrow> pubkey \<Rightarrow> string \<Rightarrow> pubkey \<Rightarrow> bytes \<Rightarrow> cert_page \<Rightarrow> (string \<times> json) list" where
  "mint_body e me sig asset bh p =
    (let f = cp_form p in [(''serial'', JStr (cert_serial p)), (''type'', JNum (jn 0)), (''txSig'', JStr sig),
       (''actor'', JStr (ce_base58 e me)),
       (''payload'', JObj [(''brand'', JStr (fm_brand f)), (''name'', JStr (fm_name f)), (''batch'', JStr (fm_batch f)),
          (''asset'', JStr (ce_base58 e asset)), (''issuerLabel'', or_null (site_label p)), (''siteId'', JNum (jn (fm_siteId f))),
          (''bindingHash'', JStr (bytesToHex bh True))])])"

text \<open>The signature is shown before the entry is posted; a failed post keeps it.\<close>

definition posted :: "cert_env \<Rightarrow> err_at \<Rightarrow> (string \<times> json) list \<Rightarrow> string \<Rightarrow> cert_page \<Rightarrow> cert_page" where
  "posted e place body done p =
    (let q = sent_log (Sent_event body) p in
     case fst (events (ce_net e) body) of
       Inl x \<Rightarrow> set_error place (friendly x) q
     | Inr _ \<Rightarrow> log_note done q)"

definition mint_done :: "bool \<Rightarrow> string \<Rightarrow> string \<Rightarrow> string" where
  "mint_done recovered serial sig = (if recovered
     then ''Passport '' @ serial @ ('' was already on chain '' @ [CHR 0xC2, CHR 0xB7] @ '' log backfilled ('') @ short_sig sig @ '')''
     else ''mint_passport '' @ serial @ ('' '' @ [CHR 0xC2, CHR 0xB7] @ '' '') @ short_sig sig)"

definition mintPassport :: "cert_env \<Rightarrow> cert_page \<Rightarrow> cert_page" where
  "mintPassport e p = (case cp_wallet p of
     None \<Rightarrow> p
   | Some me \<Rightarrow>
       if \<not> cp_canSign p then p
       else let q = begun ''mint'' p; serial = cert_serial p in
         ended (case plan_mint e me p of
           Inl x \<Rightarrow> set_error At_mint (friendly (th_error x)) q
         | Inr (Mint_found sig asset bh) \<Rightarrow>
             posted e At_mint (mint_body e me sig asset bh p) (mint_done True serial sig)
               (q\<lparr>cp_asset := Some (asset, serial), cp_mintTx := Some sig\<rparr>)
         | Inr (Mint_new tx asset bh) \<Rightarrow>
             (case ce_send e tx of
                Inl x \<Rightarrow> set_error At_mint (friendly (th_error x)) (sent_log (Sent_tx tx) q)
              | Inr sig \<Rightarrow> posted e At_mint (mint_body e me sig asset bh p) (mint_done False serial sig)
                  (sent_log (Sent_tx tx) (q\<lparr>cp_mintTx := Some sig\<rparr>)))))"

section \<open>The seal\<close>

datatype seal_plan = Seal_found string | Seal_new cert_tx

definition seal_found :: "cert_env \<Rightarrow> pubkey \<Rightarrow> pubkey \<Rightarrow> pubkey \<Rightarrow> pubkey \<Rightarrow> thrown + seal_plan" where
  "seal_found e pass pda me on = (if on \<noteq> pass
     then Inl (cert_error (''This seal is already attached to another passport ('' @ take 8 (ce_base58 e on) @ ([CHR 0xE2, CHR 0x80, CHR 0xA6] @ '')'')))
     else bindE (ce_created e pda (creator ''attach_seal'' me)) (\<lambda>found.
       case set_text found of
         None \<Rightarrow> Inl (cert_error ''The seal is on chain, but its attach transaction (signed by this wallet) was not found. Try again in a moment.'')
       | Some sig \<Rightarrow> Inr (Seal_found sig)))"

definition attach_accounts :: "cert_env \<Rightarrow> pubkey \<Rightarrow> pubkey \<Rightarrow> pubkey \<Rightarrow> (string \<times> pubkey) list" where
  "attach_accounts e pass pda me = [(''registry'', registryPda (ce_lib e)), (''passport'', pass), (''seal'', pda), (''signer'', me),
     (''systemProgram'', cl_system (ce_lib e))]"

text \<open>Who may attach what to which passport. A decoded seal names its passport by serial hash (\<open>Program_Flacon\<close>).\<close>

definition attach_problem :: "cert_env \<Rightarrow> string \<Rightarrow> pubkey \<Rightarrow> cert_registry option \<Rightarrow> passport_chain option \<Rightarrow> string option" where
  "attach_problem e serial me reg chain = (case chain of
     None \<Rightarrow> Some (''Passport '' @ serial @ '' is not on chain yet. Mint it first.'')
   | Some c \<Rightarrow>
       if pc_issuer c \<noteq> me \<and> map_option cg_authority reg \<noteq> Some me
       then Some (''Only the issuer of '' @ serial @ '' ('' @ take 8 (ce_base58 e (pc_issuer c)) @
         ([CHR 0xE2, CHR 0x80, CHR 0xA6] @ '') or the registry authority can attach seals to it.''))
       else if pc_void c \<or> pc_grade c = 4 then Some (''Passport '' @ serial @ '' is VOID; it takes no new seals.'')
       else if pc_sealCount c \<ge> WEB_MAX_SEALS_PER_PASSPORT
       then Some (''Passport '' @ serial @ '' already has '' @ show_int WEB_MAX_SEALS_PER_PASSPORT @ '' seals (one box, one neck).'')
       else None)"

definition plan_seal :: "cert_env \<Rightarrow> pubkey \<Rightarrow> cert_page \<Rightarrow> thrown + seal_plan" where
  "plan_seal e me p =
    (if \<not> chip_uid (fm_uid (cp_form p)) then Inl (cert_error ''UID must be 7 bytes hex'')
     else if \<not> serialOk p
     then Inl (cert_error (''Enter the passport'' @ [CHR 0x27] @ ''s serial number (3'' @ [CHR 0xE2, CHR 0x80, CHR 0x93] @ ''64 characters: letters, digits, '' @ [CHR 0x27] @ ''.'' @ [CHR 0x27] @ '', '' @ [CHR 0x27] @ ''_'' @ [CHR 0x27] @ '', '' @ [CHR 0x27] @ ''-'' @ [CHR 0x27] @ '').''))
     else bindE (hex_thrown (uidHash (ce_sha256 e) (UidHex (fm_uid (cp_form p))))) (\<lambda>uh.
       let serial = cert_serial p; L = ce_lib e; pass = passportPda L (serialHash (ce_sha256 e) serial); pda = sealPda L uh in
       bindE (ce_seal e pda) (\<lambda>existing.
       case existing of
         Some s \<Rightarrow> seal_found e pass pda me (passportPda L (sl_passport s))
       | None \<Rightarrow> bindE (ce_info e pass) (\<lambda>i.
           case attach_problem e serial me (shown_registry p) (fetchPassportChain L (\<lambda>_. i) pass) of
             Some t \<Rightarrow> Inl (cert_error t)
           | None \<Rightarrow> Inr (Seal_new (Tx_attach_seal uh (fm_kind (cp_form p)) (attach_accounts e pass pda me)))))))"

definition upper_text :: "string \<Rightarrow> string" where
  "upper_text = map to_upper_char"

definition seal_body :: "cert_env \<Rightarrow> pubkey \<Rightarrow> string \<Rightarrow> cert_page \<Rightarrow> (string \<times> json) list" where
  "seal_body e me sig p =
    (let f = cp_form p in [(''serial'', JStr (cert_serial p)), (''type'', JNum (jn 1)), (''txSig'', JStr sig),
       (''actor'', JStr (ce_base58 e me)),
       (''payload'', JObj [(''uid'', JStr (upper_text (fm_uid f))), (''kind'', JNum (jn (fm_kind f))), (''siteId'', JNum (jn (fm_siteId f)))])])"

definition attachSeal :: "cert_env \<Rightarrow> cert_page \<Rightarrow> cert_page" where
  "attachSeal e p = (case cp_wallet p of
     None \<Rightarrow> p
   | Some me \<Rightarrow>
       if \<not> cp_canSign p then p
       else let q = begun ''seal'' p in
         ended (case plan_seal e me p of
           Inl x \<Rightarrow> set_error At_seal (friendly (th_error x)) q
         | Inr (Seal_found sig) \<Rightarrow>
             posted e At_seal (seal_body e me sig p) ((''Seal was already on chain '' @ [CHR 0xC2, CHR 0xB7] @ '' log backfilled ('') @ short_sig sig @ '')'')
               (q\<lparr>cp_sealTx := Some sig\<rparr>)
         | Inr (Seal_new tx) \<Rightarrow>
             (case ce_send e tx of
                Inl x \<Rightarrow> set_error At_seal (friendly (th_error x)) (sent_log (Sent_tx tx) q)
              | Inr sig \<Rightarrow> posted e At_seal (seal_body e me sig p)
                  (''attach_seal '' @ upper_text (fm_uid (cp_form p)) @ ('' '' @ [CHR 0xC2, CHR 0xB7] @ '' '') @ short_sig sig)
                  (sent_log (Sent_tx tx) (q\<lparr>cp_sealTx := Some sig\<rparr>)))))"

section \<open>Tags, NFC and the card\<close>

definition newSimTag :: "js_error + cert_tag \<Rightarrow> cert_page \<Rightarrow> cert_page" where
  "newSimTag r p = ended (case r of
     Inl x \<Rightarrow> set_error At_uid (friendly x) (begun ''tag'' p)
   | Inr t \<Rightarrow> log_note (''Virtual tag '' @ ct_uid t)
       ((begun ''tag'' p)\<lparr>cp_form := (cp_form p)\<lparr>fm_uid := ct_uid t\<rparr>, cp_simTags := cp_simTags p @ [t]\<rparr>))"

text \<open>\<open>readNfc\<close>: no reader, a refused scan, or ready; then a chip's serial number.\<close>

definition readNfc :: "bool \<Rightarrow> thrown + unit \<Rightarrow> cert_page \<Rightarrow> cert_page" where
  "readNfc supported r p =
    (if \<not> supported then set_error At_uid ''WebNFC only in Android Chrome'' p
     else case r of
       Inl x \<Rightarrow> set_error At_uid (''NFC: '' @ friendly (th_error x)) (p\<lparr>cp_error := None\<rparr>)
     | Inr _ \<Rightarrow> log_note (''NFC ready '' @ [CHR 0xE2, CHR 0x80, CHR 0x94] @ '' hold the chip to the phone (UID is taken over)'') (p\<lparr>cp_error := None\<rparr>))"

definition nfc_uid :: "string option \<Rightarrow> string" where
  "nfc_uid n = upper_text (filter (\<lambda>c. c \<noteq> CHR '':'') (case n of Some t \<Rightarrow> t | None \<Rightarrow> []))"

definition nfc_read :: "string option \<Rightarrow> cert_page \<Rightarrow> cert_page" where
  "nfc_read n p = (let uid = nfc_uid n in
     if length uid = 14 then log_note (''UID '' @ uid @ '' read via NFC'') (p\<lparr>cp_form := (cp_form p)\<lparr>fm_uid := uid\<rparr>\<rparr>)
     else set_error At_uid (''The chip did not report a 7-byte UID ('' @ (if uid \<noteq> [] then uid else ''none'') @
       (''). Press '' @ [CHR 0xE2, CHR 0x80, CHR 0x9C] @ ''Read UID via NFC'' @ [CHR 0xE2, CHR 0x80, CHR 0x9D] @ '' and try again.'')) p)"

text \<open>The file that is downloaded, or why not; \<open>draw\<close> is \<open>cardSvgForSerial\<close>.\<close>

definition printCard :: "thrown + string \<Rightarrow> (string \<Rightarrow> string \<Rightarrow> thrown + string) \<Rightarrow> cert_page \<Rightarrow> (string \<times> string) option \<times> cert_page" where
  "printCard template draw p =
    (let serial = cert_serial p; q = p\<lparr>cp_busy := Some ''print''\<rparr>;
         svg = bindE template (\<lambda>t. if \<not> serialOk p then Inl (cert_error ''Enter a valid serial number first.'') else draw t serial)
     in case svg of
          Inl x \<Rightarrow> (None, ended (set_error At_scan (friendly (th_error x)) q))
        | Inr s \<Rightarrow> (Some (''Insert-card_'' @ serial @ ''.svg'', s), ended q))"

section \<open>The view\<close>

datatype cert_press =
    P_reload | P_airdrop | P_nfc | P_last_tap string | P_new_tag | P_tag string | P_core | P_mint | P_seal_press | P_print

datatype cert_ui = V_say string | V_link string string | V_button cert_press string bool | V_input string string | V_wallet

definition v_if :: "bool \<Rightarrow> cert_ui list \<Rightarrow> cert_ui list" where
  "v_if b xs = (if b then xs else [])"

definition error_at :: "cert_page \<Rightarrow> err_at \<Rightarrow> cert_ui list" where
  "error_at p place = (case cp_error p of Some (q, t) \<Rightarrow> v_if (q = place) [V_say t] | None \<Rightarrow> [])"

definition quiet :: "cert_page \<Rightarrow> bool" where
  "quiet p \<longleftrightarrow> cp_busy p = None"

definition top_view :: "cert_env \<Rightarrow> cert_page \<Rightarrow> cert_ui list" where
  "top_view e p =
    [V_say (''Certification console '' @ [CHR 0xC2, CHR 0xB7] @ '' Vault / Partner''), V_say ''Birth certificate'',
     V_say ''Create the passport, mint the Core asset, attach the seal, then the first scan at tier 4 with photo. Only wallets on the partner whitelist of the registry account.'',
     V_wallet] @
    v_if (cp_registry p = None \<and> cp_wallet p \<noteq> None) [V_say (''Registry '' @ [CHR 0xE2, CHR 0x80, CHR 0xA6])] @
    (case shown_registry p of Some r \<Rightarrow> [V_say (if isPartner p then ''Partner wallet confirmed'' else ''Wallet is not a partner'')] | None \<Rightarrow> []) @
    (case cp_wallet p of Some k \<Rightarrow> [V_say (ce_base58 e k)] | None \<Rightarrow> []) @
    v_if (cp_registry p = Some None \<and> cp_wallet p \<noteq> None) [V_say (''Registry not found '' @ [CHR 0xE2, CHR 0x80, CHR 0x94] @ '' run scripts/seed-devnet.ts'')] @
    v_if (cp_wallet p \<noteq> None) [V_button P_reload ''Reload registry'' True] @
    v_if (cp_wallet p \<noteq> None \<and> cp_demo p) [V_button P_airdrop ''1 SOL airdrop (test)'' (quiet p)] @ error_at p At_top"

definition DEFAULT_SITES :: "(int \<times> string) list" where
  "DEFAULT_SITES = [(1, (''Parf'' @ [CHR 0xC3, CHR 0xBC] @ ''merie X, D'' @ [CHR 0xC3, CHR 0xBC] @ ''sseldorf'')), (2, ''FlaconVault Vault, Wickede'')]"

definition site_options :: "cert_page \<Rightarrow> string list" where
  "site_options p = map (\<lambda>(i, l). show_int i @ ('' '' @ [CHR 0xC2, CHR 0xB7] @ '' '') @ l) (case shown_registry p of Some r \<Rightarrow> cg_sites r | None \<Rightarrow> DEFAULT_SITES)"

definition form_view :: "cert_env \<Rightarrow> cert_page \<Rightarrow> cert_ui list" where
  "form_view e p =
    (let f = cp_form p in
     [V_input ''Serial number'' (fm_serial f)] @
     v_if (\<not> serialOk p) [V_say (''3'' @ [CHR 0xE2, CHR 0x80, CHR 0x93] @ ''64 characters: letters, digits, '' @ [CHR 0xE2, CHR 0x80, CHR 0x9C] @ ''.'' @ [CHR 0xE2, CHR 0x80, CHR 0x9D] @ '', '' @ [CHR 0xE2, CHR 0x80, CHR 0x9C] @ ''_'' @ [CHR 0xE2, CHR 0x80, CHR 0x9D] @ '', '' @ [CHR 0xE2, CHR 0x80, CHR 0x9C] @ ''-'' @ [CHR 0xE2, CHR 0x80, CHR 0x9D] @ '' (no spaces or '' @ [CHR 0xE2, CHR 0x80, CHR 0x9C] @ ''/'' @ [CHR 0xE2, CHR 0x80, CHR 0x9D] @ '').'')] @
     [V_input ''Site (site_id)'' (show_int (fm_siteId f))] @ map V_say (site_options p) @
     [V_input ''Brand'' (fm_brand f), V_input ''Name'' (fm_name f), V_input ''Batch'' (fm_batch f),
      V_input ''Seal'' (if fm_kind f = 1 then ''Neck'' else ''Box''), V_input ''Chip UID (7 bytes hex)'' (fm_uid f),
      V_button P_nfc ''Read UID via NFC'' True] @
     (case cp_recent p of Some (u, c) \<Rightarrow> [V_button (P_last_tap u) (''UID from the last tap: '' @ u) True] | None \<Rightarrow> []) @
     v_if (simOn e p) (V_button P_new_tag ''Create new virtual tag'' (quiet p) #
       map (\<lambda>t. V_button (P_tag (ct_uid t)) (ct_uid t) True) (filter (\<lambda>t. set_text (ct_serial t) = None) (cp_simTags p))) @
     error_at p At_uid)"

definition core_view :: "cert_env \<Rightarrow> cert_page \<Rightarrow> cert_ui list" where
  "core_view e p =
    [V_say (''1 '' @ [CHR 0xC2, CHR 0xB7] @ '' Core asset''), V_button P_core ''Mint Metaplex Core'' (quiet p \<and> cp_wallet p \<noteq> None)] @
    (case cp_asset p of
       Some (k, s) \<Rightarrow> [V_say (''Asset '' @ take 10 (ce_base58 e k) @ ([CHR 0xE2, CHR 0x80, CHR 0xA6] @ '' '' @ [CHR 0xC2, CHR 0xB7] @ '' for '') @ s @
         (if s \<noteq> cert_serial p then '' (serial changed: mint a new asset)'' else []))]
     | None \<Rightarrow> []) @
    v_if (cp_wallet p = None) [V_say ''Connect the wallet above first; the button then becomes active.''] @
    [V_say ''The passport only accepts a Metaplex Core asset; it is minted to this wallet and named after the serial number.''] @
    v_if (cp_busy p = Some ''core'') [V_say (''Waiting for confirmation in the wallet app '' @ [CHR 0xE2, CHR 0x80, CHR 0xA6] @ '' If Phantom does not open by itself: open the app, confirm the request, return to Chrome.'')] @
    error_at p At_core"

definition tx_link :: "string option \<Rightarrow> cert_ui list" where
  "tx_link t = (case set_text t of Some s \<Rightarrow> [V_link (txUrl s) (''tx '' @ take 10 s @ [CHR 0xE2, CHR 0x80, CHR 0xA6])] | None \<Rightarrow> [])"

definition passport_view :: "cert_page \<Rightarrow> cert_ui list" where
  "passport_view p =
    [V_say (''2 '' @ [CHR 0xC2, CHR 0xB7] @ '' Create passport (mint_passport)''), V_say (''binding_hash = sha256(serial '' @ [CHR 0xE2, CHR 0x80, CHR 0x96] @ '' batch '' @ [CHR 0xE2, CHR 0x80, CHR 0x96] @ '' uid_hash of the first seal)''),
     V_button P_mint ''Mint passport'' (quiet p \<and> isPartner p)] @ tx_link (cp_mintTx p) @
    v_if (cp_asset p = None \<and> set_text (cp_mintTx p) = None)
      [V_say ''No Core asset in this page yet. If the passport is already on chain, its asset is taken from there.''] @
    error_at p At_mint"

definition seal_section :: "cert_page \<Rightarrow> cert_ui list" where
  "seal_section p = [V_say (''3 '' @ [CHR 0xC2, CHR 0xB7] @ '' Attach seal (attach_seal)''), V_button P_seal_press ''Attach seal'' (quiet p \<and> isPartner p)] @
     tx_link (cp_sealTx p) @ error_at p At_seal"

definition birth_view :: "cert_page \<Rightarrow> cert_ui list" where
  "birth_view p =
    [V_say (''4 '' @ [CHR 0xC2, CHR 0xB7] @ '' First scan tier 4 (birth) with photo''), V_link (''/scan?role=4&tier=4&site='' @ show_int (fm_siteId (cp_form p))) ''Go to scan'',
     V_button P_print ''Print card with QR (SVG)'' (quiet p)] @
    v_if (set_text (cp_mintTx p) \<noteq> None \<and> serialOk p) [V_link (passportPath (cert_serial p)) ''View passport''] @ error_at p At_scan"

definition log_view :: "cert_page \<Rightarrow> cert_ui list" where
  "log_view p = V_say ''Log'' # (if cp_log p = [] then [V_say ''Nothing yet.''] else map V_say (cp_log p))"

definition cert_view :: "cert_env \<Rightarrow> cert_page \<Rightarrow> cert_ui list" where
  "cert_view e p = top_view e p @ form_view e p @ core_view e p @ passport_view p @ seal_section p @ birth_view p @ log_view p"

definition cert_offers :: "cert_env \<Rightarrow> cert_page \<Rightarrow> cert_press \<Rightarrow> bool" where
  "cert_offers e p b \<longleftrightarrow> list_ex (\<lambda>u. case u of V_button x l on \<Rightarrow> x = b \<and> on | _ \<Rightarrow> False) (cert_view e p)"

end
