(* ===== verification/Certify_Facts.thy ===== *)
theory Certify_Facts
  imports Certify_Page
begin

text \<open>
  The certification console against the flacon program: what its buttons send is what the program accepts for the accounts
  the page has just read, and a passport that is on chain already is taken up instead of minted again.
\<close>

section \<open>Which buttons are offered\<close>

definition button_in :: "cert_ui list \<Rightarrow> cert_press \<Rightarrow> bool" where
  "button_in us b \<longleftrightarrow> list_ex (\<lambda>u. case u of V_button x l on \<Rightarrow> x = b \<and> on | _ \<Rightarrow> False) us"

lemma button_in_simps [simp]:
  "\<not> button_in [] b" "button_in (us @ vs) b = (button_in us b \<or> button_in vs b)"
  "button_in (V_say s # us) b = button_in us b" "button_in (V_link h t # us) b = button_in us b"
  "button_in (V_input k w # us) b = button_in us b" "button_in (V_wallet # us) b = button_in us b"
  "button_in (V_button x l on # us) b = (x = b \<and> on \<or> button_in us b)"
  "button_in (v_if c us) b = (c \<and> button_in us b)" "\<not> button_in (map V_say ts) b"
  by (induction ts) (auto simp: button_in_def v_if_def)

lemma quiet_cert [simp]: "\<not> button_in (error_at p place) b" "\<not> button_in (tx_link t) b" "\<not> button_in (log_view p) b"
  by (auto simp: error_at_def tx_link_def log_view_def split: option.splits)

lemma tag_buttons: "button_in (map (\<lambda>t. V_button (P_tag (f t)) (f t) True) ts) b \<Longrightarrow> \<exists>u. b = P_tag u"
  by (induction ts) auto

lemma offers_partner:
  assumes "cert_offers e p b" "b = P_mint \<or> b = P_seal_press"
  shows "isPartner p \<and> cp_busy p = None"
proof -
  have "button_in (cert_view e p) b" using assms(1) by (simp add: cert_offers_def button_in_def)
  then show ?thesis using assms(2)
    by (auto simp: cert_view_def top_view_def form_view_def core_view_def passport_view_def seal_section_def birth_view_def Let_def
        quiet_def dest!: tag_buttons split: option.splits)
qed

section \<open>What is sent\<close>

lemma sent_keeps [simp]:
  "cp_sent (set_error place t p) = cp_sent p" "cp_sent (log_note t p) = cp_sent p" "cp_sent (ended p) = cp_sent p"
  "cp_sent (begun b p) = cp_sent p" "cp_sent (sent_log x p) = cp_sent p @ [x]"
  by (simp_all add: set_error_def log_note_def ended_def begun_def sent_log_def)

lemma sent_posted [simp]: "cp_sent (posted e place body done p) = cp_sent p @ [Sent_event body]"
  by (simp add: posted_def Let_def split: sum.split)

lemma mint_sends:
  assumes "Sent_tx tx \<in> set (cp_sent (mintPassport e p))" "Sent_tx tx \<notin> set (cp_sent p)"
  shows "\<exists>me asset bh. cp_wallet p = Some me \<and> plan_mint e me p = Inr (Mint_new tx asset bh)"
  using assms by (auto simp: mintPassport_def Let_def split: option.splits if_splits sum.splits mint_plan.splits)

lemma attach_sends:
  assumes "Sent_tx tx \<in> set (cp_sent (attachSeal e p))" "Sent_tx tx \<notin> set (cp_sent p)"
  shows "\<exists>me. cp_wallet p = Some me \<and> plan_seal e me p = Inr (Seal_new tx)"
  using assms by (auto simp: attachSeal_def Let_def split: option.splits if_splits sum.splits seal_plan.splits)

text \<open>Reads whose answer is looked at, and checks, as destruction rules.\<close>

lemma bind_case:
  "bindE r (\<lambda>x. case x of None \<Rightarrow> a | Some y \<Rightarrow> f y) = Inr z \<longleftrightarrow> r = Inr None \<and> a = Inr z \<or> (\<exists>y. r = Inr (Some y) \<and> f y = Inr z)"
  by (cases r) (auto split: option.split)

lemma bind_hex: "bindE (hex_thrown r) f = Inr z \<longleftrightarrow> (\<exists>y. r = Inr y \<and> f y = Inr z)"
  by (cases r) (simp_all add: hex_thrown_def)

lemma core_at:
  "core_asset_at e k = Inr (Some c) \<longleftrightarrow> (\<exists>a. ce_info e k = Inr (Some a) \<and> fetchCoreAsset (\<lambda>_. Some a) k = Some c)"
proof (cases "ce_info e k")
  case (Inr i)
  have "fetchCoreAsset (\<lambda>_. None) k = None" by (simp add: fetchCoreAsset_def)
  then show ?thesis using Inr by (cases i) (simp_all add: core_asset_at_def)
qed (simp add: core_asset_at_def)

lemma bind_check:
  "bindE r (\<lambda>i. case g i of Some t \<Rightarrow> Inl (h t) | None \<Rightarrow> Inr y) = Inr z \<longleftrightarrow> (\<exists>i. r = Inr i \<and> g i = None \<and> y = z)"
  by (cases r) (auto split: option.split)

lemma mint_found_not_new: "mint_found e serial pda me x \<noteq> Inr (Mint_new tx a b)"
  by (auto simp: mint_found_def bindE_eq_Inr split: option.splits)

lemma seal_found_not_new: "seal_found e pass pda me x \<noteq> Inr (Seal_new tx)"
  by (auto simp: seal_found_def bindE_eq_Inr split: option.splits)

lemma plan_mint_new:
  assumes "plan_mint e me p = Inr (Mint_new tx asset bh)"
  obtains i c uh where "isValidSerial (cert_serial p)"
    "ce_passport e (passportPda (ce_lib e) (serialHash (ce_sha256 e) (cert_serial p))) = Inr None"
    "cp_asset p = Some (asset, cert_serial p)" "ce_info e asset = Inr (Some i)"
    "fetchCoreAsset (\<lambda>_. Some i) asset = Some c" "cx_owner c = me"
    "uidHash (ce_sha256 e) (UidHex (fm_uid (cp_form p))) = Inr uh"
    "bh = bindingHash (ce_sha256 e) (cert_serial p) (fm_batch (cp_form p)) uh"
    "tx = Tx_mint_passport (serialHash (ce_sha256 e) (cert_serial p)) bh asset
       (mint_accounts e (passportPda (ce_lib e) (serialHash (ce_sha256 e) (cert_serial p))) me asset)"
  using assms
  by (cases "cp_asset p")
    (auto simp: plan_mint_def mint_new_def Let_def serialOk_def bind_case bind_hex core_at mint_found_not_new
      split: if_splits prod.splits option.splits)

lemma core_owner:
  "fetchCoreAsset (\<lambda>_. Some i) k = Some c \<Longrightarrow> core_asset_owner (ai_owner i) (ai_data i) = Some (cx_owner c)"
  by (cases "ai_data i") (auto simp: fetchCoreAsset_def core_asset_owner_def is_core_asset_def slice_def split: if_splits)

text \<open>The registry the page shows is the program's.\<close>

definition same_registry :: "cert_page \<Rightarrow> registry \<Rightarrow> bool" where
  "same_registry p r \<longleftrightarrow> (\<exists>g. shown_registry p = Some g \<and> cg_authority g = rg_authority r \<and> cg_partners g = rg_partners r)"

lemma partner_of:
  "same_registry p r \<Longrightarrow> isPartner p \<Longrightarrow> cp_wallet p = Some me \<Longrightarrow> rg_authority r = me \<or> is_partner r me"
  by (auto simp: same_registry_def isPartner_def is_partner_def)

section \<open>Running what is sent\<close>

text \<open>The state of the chain: every account as raw bytes, the registry, and the passports of the program decoded.\<close>

record chain_state =
  ch_accounts :: "pubkey \<Rightarrow> account_info option"
  ch_registry :: registry
  ch_passports :: "pubkey \<Rightarrow> passport option"

text \<open>An account that does not exist belongs to the system program and is empty.\<close>

definition raw_at :: "chain_lib \<Rightarrow> chain_state \<Rightarrow> pubkey \<Rightarrow> raw_account" where
  "raw_at L s k = (case ch_accounts s k of
     Some i \<Rightarrow> \<lparr>ra_key = k, ra_owner = ai_owner i, ra_data = ai_data i\<rparr>
   | None \<Rightarrow> \<lparr>ra_key = k, ra_owner = cl_system L, ra_data = []\<rparr>)"

text \<open>The account structs \<open>MintPassport\<close> and \<open>AttachSeal\<close> over the accounts a transaction names, signed by one wallet: seeds,
  new accounts, signer and system program as their constraints have them, then the handler on the accounts found there. None
  when a constraint fails or an account is missing.\<close>

definition run_mint :: "chain_lib \<Rightarrow> chain_state \<Rightarrow> 64 word \<Rightarrow> pubkey \<Rightarrow> cert_tx \<Rightarrow> (flacon_error + passport) option" where
  "run_mint L s now wallet tx = (case tx of
     Tx_mint_passport h bh asset accs \<Rightarrow>
       if map_of accs ''registry'' = Some (registryPda L) \<and> map_of accs ''passport'' = Some (passportPda L h) \<and>
          ch_accounts s (passportPda L h) = None \<and> map_of accs ''issuer'' = Some wallet \<and>
          map_of accs ''systemProgram'' = Some (cl_system L)
       then map_option (\<lambda>k. mint_passport (ch_registry s) wallet now h bh asset (raw_at L s k)) (map_of accs ''coreAsset'')
       else None
   | _ \<Rightarrow> None)"

definition run_attach :: "chain_lib \<Rightarrow> chain_state \<Rightarrow> 64 word \<Rightarrow> pubkey \<Rightarrow> cert_tx \<Rightarrow> (flacon_error + (seal \<times> passport)) option" where
  "run_attach L s now wallet tx = (case tx of
     Tx_attach_seal uh kind accs \<Rightarrow>
       if map_of accs ''registry'' = Some (registryPda L) \<and> map_of accs ''seal'' = Some (sealPda L uh) \<and>
          ch_accounts s (sealPda L uh) = None \<and> map_of accs ''signer'' = Some wallet \<and>
          map_of accs ''systemProgram'' = Some (cl_system L)
       then (case map_of accs ''passport'' of
           None \<Rightarrow> None
         | Some k \<Rightarrow> (case ch_passports s k of
             Some q \<Rightarrow> if k = passportPda L (pp_serial_hash q) then Some (attach_seal (ch_registry s) wallet now uh (word_of_int kind) q) else None
           | None \<Rightarrow> None))
       else None
   | _ \<Rightarrow> None)"

text \<open>The page reads the chain as it is when the transaction runs.\<close>

definition page_sees :: "cert_env \<Rightarrow> cert_page \<Rightarrow> chain_state \<Rightarrow> bool" where
  "page_sees e p s \<longleftrightarrow> same_registry p (ch_registry s) \<and> (\<forall>k i. ce_info e k = Inr i \<longrightarrow> ch_accounts s k = i) \<and>
     (\<forall>k. ce_passport e k = Inr None \<longrightarrow> ch_accounts s k = None) \<and> (\<forall>k. ce_seal e k = Inr None \<longrightarrow> ch_accounts s k = None)"

text \<open>C37: the passport the console mints is one the program accepts. When the enabled button \<open>Mint passport\<close> sends a
  transaction and the program runs it, wallet by the connected wallet, on the accounts it names and the chain the page has
  just read, it creates the passport: under the hash of the shown serial, with the wallet as issuer, bound to the Core asset
  the page minted for this serial and to the binding hash of serial, batch and first seal.\<close>

theorem certify_mint_accepted:
  assumes "cert_offers e p P_mint" "page_sees e p s" "Sent_tx tx \<in> set (cp_sent (mintPassport e p))" "Sent_tx tx \<notin> set (cp_sent p)"
  shows "\<exists>me asset uh m. cp_wallet p = Some me \<and> isValidSerial (cert_serial p) \<and> cp_asset p = Some (asset, cert_serial p) \<and>
    uidHash (ce_sha256 e) (UidHex (fm_uid (cp_form p))) = Inr uh \<and>
    run_mint (ce_lib e) s now me tx = Some (Inr m) \<and> pp_serial_hash m = serialHash (ce_sha256 e) (cert_serial p) \<and>
    pp_binding_hash m = bindingHash (ce_sha256 e) (cert_serial p) (fm_batch (cp_form p)) uh \<and>
    pp_asset m = asset \<and> pp_issuer m = me"
proof -
  obtain me asset bh where me: "cp_wallet p = Some me" and plan: "plan_mint e me p = Inr (Mint_new tx asset bh)"
    using mint_sends [OF assms(3,4)] by blast
  let ?h = "serialHash (ce_sha256 e) (cert_serial p)"
  obtain i c uh where i: "isValidSerial (cert_serial p)"
    "ce_passport e (passportPda (ce_lib e) ?h) = Inr None"
    "cp_asset p = Some (asset, cert_serial p)" "ce_info e asset = Inr (Some i)"
    "fetchCoreAsset (\<lambda>_. Some i) asset = Some c" "cx_owner c = me"
    "uidHash (ce_sha256 e) (UidHex (fm_uid (cp_form p))) = Inr uh"
    "bh = bindingHash (ce_sha256 e) (cert_serial p) (fm_batch (cp_form p)) uh"
    "tx = Tx_mint_passport ?h bh asset (mint_accounts e (passportPda (ce_lib e) ?h) me asset)"
    by (rule plan_mint_new [OF plan])
  have chain: "ch_accounts s (passportPda (ce_lib e) ?h) = None" "ch_accounts s asset = Some i" "same_registry p (ch_registry s)"
    using assms(2) i(2,4) unfolding page_sees_def by blast+
  have "rg_authority (ch_registry s) = me \<or> is_partner (ch_registry s) me"
    using partner_of [OF chain(3) _ me] offers_partner [OF assms(1)] by blast
  then have "\<exists>m. mint_passport (ch_registry s) me now ?h bh asset (raw_at (ce_lib e) s asset) = Inr m \<and>
      pp_serial_hash m = ?h \<and> pp_binding_hash m = bh \<and> pp_asset m = asset \<and> pp_issuer m = me"
    using core_owner [OF i(5)] i(6) by (simp add: mint_passport_def guardE_def check_mint_asset_def raw_at_def chain)
  then obtain m where m: "mint_passport (ch_registry s) me now ?h bh asset (raw_at (ce_lib e) s asset) = Inr m"
    "pp_serial_hash m = ?h" "pp_binding_hash m = bh" "pp_asset m = asset" "pp_issuer m = me" by blast
  have "run_mint (ce_lib e) s now me tx = Some (Inr m)"
    by (simp add: i(9) run_mint_def mint_accounts_def chain m(1))
  with me i(1,3,7,8) m show ?thesis by blast
qed

lemma plan_seal_new:
  assumes "plan_seal e me p = Inr (Seal_new tx)"
  obtains uh i c where "uidHash (ce_sha256 e) (UidHex (fm_uid (cp_form p))) = Inr uh" "ce_seal e (sealPda (ce_lib e) uh) = Inr None"
    "ce_info e (passportPda (ce_lib e) (serialHash (ce_sha256 e) (cert_serial p))) = Inr i"
    "fetchPassportChain (ce_lib e) (\<lambda>_. i) (passportPda (ce_lib e) (serialHash (ce_sha256 e) (cert_serial p))) = Some c"
    "pc_issuer c = me \<or> map_option cg_authority (shown_registry p) = Some me" "\<not> pc_void c" "pc_grade c \<noteq> 4" "pc_sealCount c < WEB_MAX_SEALS_PER_PASSPORT"
    "tx = Tx_attach_seal uh (fm_kind (cp_form p)) (attach_accounts e (passportPda (ce_lib e) (serialHash (ce_sha256 e) (cert_serial p))) (sealPda (ce_lib e) uh) me)"
  using assms
  by (auto simp: plan_seal_def Let_def bind_case bind_hex bind_check seal_found_not_new attach_problem_def
      split: if_splits option.splits)

text \<open>C38: the seal the console attaches is one the program accepts. When the enabled button \<open>Attach seal\<close> sends a transaction
  and the program runs it, wallet by the connected wallet, on the accounts it names and the chain the page has just read, in
  which the passport of the shown serial is \<open>q\<close> as the program writes it, it creates the seal of the entered chip and kind
  for exactly that passport.\<close>

theorem certify_seal_accepted:
  assumes "cert_offers e p P_seal_press" "page_sees e p s" "Sent_tx tx \<in> set (cp_sent (attachSeal e p))" "Sent_tx tx \<notin> set (cp_sent p)"
    "passport_sizes q" "length disc = 8" "fm_kind (cp_form p) = 0 \<or> fm_kind (cp_form p) = 1"
    "pp_serial_hash q = serialHash (ce_sha256 e) (cert_serial p)"
    "ch_passports s (passportPda (ce_lib e) (pp_serial_hash q)) = Some q"
    "ce_info e (passportPda (ce_lib e) (pp_serial_hash q)) =
       Inr (Some \<lparr>ai_owner = cl_program (ce_lib e), ai_data = borsh_passport disc bump q\<rparr>)"
  shows "\<exists>me uh sl q'. cp_wallet p = Some me \<and> uidHash (ce_sha256 e) (UidHex (fm_uid (cp_form p))) = Inr uh \<and>
    run_attach (ce_lib e) s now me tx = Some (Inr (sl, q')) \<and> sl_passport sl = serialHash (ce_sha256 e) (cert_serial p) \<and>
    sl_uid_hash sl = uh \<and> uint (sl_kind sl) = fm_kind (cp_form p)"
proof -
  obtain me where me: "cp_wallet p = Some me" and plan: "plan_seal e me p = Inr (Seal_new tx)"
    using attach_sends [OF assms(3,4)] by blast
  obtain uh i c where c: "uidHash (ce_sha256 e) (UidHex (fm_uid (cp_form p))) = Inr uh" "ce_seal e (sealPda (ce_lib e) uh) = Inr None"
    "ce_info e (passportPda (ce_lib e) (serialHash (ce_sha256 e) (cert_serial p))) = Inr i"
    "fetchPassportChain (ce_lib e) (\<lambda>_. i) (passportPda (ce_lib e) (serialHash (ce_sha256 e) (cert_serial p))) = Some c"
    "pc_issuer c = me \<or> map_option cg_authority (shown_registry p) = Some me" "\<not> pc_void c" "pc_grade c \<noteq> 4" "pc_sealCount c < WEB_MAX_SEALS_PER_PASSPORT"
    "tx = Tx_attach_seal uh (fm_kind (cp_form p)) (attach_accounts e (passportPda (ce_lib e) (serialHash (ce_sha256 e) (cert_serial p))) (sealPda (ce_lib e) uh) me)"
    by (rule plan_seal_new [OF plan])
  have chain: "ch_accounts s (sealPda (ce_lib e) uh) = None" "same_registry p (ch_registry s)"
    using assms(2) c(2) unfolding page_sees_def by blast+
  have q: "pc_issuer c = pp_issuer q" "pc_grade c = uint (pp_grade q)" "pc_sealCount c = uint (pp_seal_count q)" "pc_void c = pp_void q"
    using c(4) passport_account_read [OF assms(5,6), of "\<lambda>_. i"] c(3) assms(8,10) by auto
  have "rg_authority (ch_registry s) = me \<or> is_partner (ch_registry s) me"
    using partner_of [OF chain(2) _ me] offers_partner [OF assms(1)] by blast
  then have may: "may_manage_passport (ch_registry s) me q"
    using c(5) q(1) chain(2) by (auto simp: may_manage_passport_def same_registry_def)
  have grade: "\<not> is_voided q" using c(6,7) q by (auto simp: is_voided_def)
  have room: "pp_seal_count q < MAX_SEALS_PER_PASSPORT" "pp_seal_count q \<noteq> - 1"
  proof -
    have two: "uint (pp_seal_count q) < 2" using c(8) q(3) by (simp add: WEB_MAX_SEALS_PER_PASSPORT_def)
    then show "pp_seal_count q < MAX_SEALS_PER_PASSPORT" by (simp add: MAX_SEALS_PER_PASSPORT_def word_less_def)
    have "uint (- 1 :: byte) = 255" by (simp add: unsigned_minus_1_eq_mask mask_eq_exp_minus_1)
    with two show "pp_seal_count q \<noteq> - 1" by auto
  qed
  have "\<exists>sl q'. attach_seal (ch_registry s) me now uh (word_of_int (fm_kind (cp_form p))) q = Inr (sl, q') \<and>
      sl_passport sl = pp_serial_hash q \<and> sl_uid_hash sl = uh \<and> uint (sl_kind sl) = fm_kind (cp_form p)"
    using may grade room assms(7) by (auto simp: attach_seal_def guardE_def)
  then obtain sl q' where sl: "attach_seal (ch_registry s) me now uh (word_of_int (fm_kind (cp_form p))) q = Inr (sl, q')"
    "sl_passport sl = pp_serial_hash q" "sl_uid_hash sl = uh" "uint (sl_kind sl) = fm_kind (cp_form p)" by blast
  have "run_attach (ce_lib e) s now me tx = Some (Inr (sl, q'))"
    by (simp add: c(9) run_attach_def attach_accounts_def chain(1) assms(8)[symmetric] assms(9) sl(1))
  with me c(1) sl(2-4) assms(8) show ?thesis by auto
qed

section \<open>A console on which they apply\<close>

definition demo_me :: pubkey where "demo_me = replicate 32 1"

definition demo_core_account :: account_info where
  "demo_core_account = \<lparr>ai_owner = MPL_CORE_PROGRAM_ID, ai_data = 1 # replicate 33 1\<rparr>"

definition demo_passport_account :: account_info where
  "demo_passport_account = \<lparr>ai_owner = replicate 32 3, ai_data = borsh_passport (replicate 8 7) 255 demo_passport\<rparr>"

definition demo_ce :: cert_env where
  "demo_ce = \<lparr>ce_lib = sample_lib, ce_sha256 = (\<lambda>_. replicate 32 3), ce_base58 = (\<lambda>_. []), ce_verifyUrl = [], ce_program = True,
     ce_devSim = False, ce_info = (\<lambda>k. Inr (if k = [5] then Some demo_core_account else None)),
     ce_passport = (\<lambda>k. if k = [5] then Inl (cert_error []) else Inr None),
     ce_seal = (\<lambda>k. if k = [5] then Inl (cert_error []) else Inr None), ce_created = (\<lambda>_ _. Inr None),
     ce_send = (\<lambda>_. Inl (cert_error ''rejected'')), ce_net = (\<lambda>_ _. Inr JNull)\<rparr>"

definition demo_cp :: cert_page where
  "demo_cp = initial_cert\<lparr>cp_form := \<lparr>fm_serial = ''SN-1'', fm_brand = ''B'', fm_name = ''N'', fm_batch = [], fm_siteId = 1, fm_kind = 1,
       fm_uid = ''04A1B2C3D4E5F6''\<rparr>,
     cp_registry := Some (Some \<lparr>cg_authority = [9], cg_partners = [demo_me], cg_sites = []\<rparr>), cp_asset := Some ([5], ''SN-1''),
     cp_wallet := Some demo_me, cp_canSign := True\<rparr>"

definition demo_program_registry :: registry where
  "demo_program_registry = \<lparr>rg_authority = [9], rg_server_keys = [], rg_partners = [demo_me], rg_sites = []\<rparr>"

lemma demo_cert_facts:
  "cert_serial demo_cp = ''SN-1''" "isValidSerial ''SN-1''" "chip_uid ''04A1B2C3D4E5F6''" "js_trim ''B'' = ''B''" "js_trim ''N'' = ''N''"
  "\<exists>b. hexToBytes ''04A1B2C3D4E5F6'' = Inr b \<and> length b = 7"
proof -
  have "normalizeSerial ''SN-1'' = ''SN-1''" by code_simp
  then show "cert_serial demo_cp = ''SN-1''" by (simp add: cert_serial_def demo_cp_def initial_cert_def)
  show "isValidSerial ''SN-1''" "chip_uid ''04A1B2C3D4E5F6''" "js_trim ''B'' = ''B''" "js_trim ''N'' = ''N''" by code_simp+
  have "hexToBytes ''04A1B2C3D4E5F6'' = Inr [0x04, 0xA1, 0xB2, 0xC3, 0xD4, 0xE5, 0xF6]" by code_simp
  then show "\<exists>b. hexToBytes ''04A1B2C3D4E5F6'' = Inr b \<and> length b = 7" by simp
qed

lemma demo_cert_offers: "cert_offers demo_ce demo_cp P_mint" "cert_offers demo_ce demo_cp P_seal_press" "same_registry demo_cp demo_program_registry"
proof -
  have "isPartner demo_cp \<and> quiet demo_cp"
    by (simp add: isPartner_def shown_registry_def quiet_def demo_cp_def initial_cert_def)
  then have "button_in (passport_view demo_cp) P_mint" "button_in (seal_section demo_cp) P_seal_press"
    by (simp_all add: passport_view_def seal_section_def)
  then show "cert_offers demo_ce demo_cp P_mint" "cert_offers demo_ce demo_cp P_seal_press"
    by (simp_all add: cert_offers_def cert_view_def button_in_def)
  show "same_registry demo_cp demo_program_registry"
    by (simp add: same_registry_def shown_registry_def demo_cp_def initial_cert_def demo_program_registry_def)
qed

lemma demo_hash: "uidHash (\<lambda>_. replicate 32 3) (UidHex ''04A1B2C3D4E5F6'') = Inr (replicate 32 3)"
  using demo_cert_facts(6) by (auto simp: uidHash_def)

lemma demo_core_read: "fetchCoreAsset (\<lambda>_. Some demo_core_account) [5] = Some \<lparr>cx_owner = demo_me, cx_inCollection = False\<rparr>"
  by (simp add: fetchCoreAsset_def demo_core_account_def slice_def demo_me_def numeral_eq_Suc)

lemma demo_pdas:
  "passportPda sample_lib h \<noteq> [5]" "sealPda sample_lib h \<noteq> [5]" "sealPda sample_lib h \<noteq> passportPda sample_lib h'"
  by (simp_all add: passportPda_def sealPda_def sample_lib_def seed_of_def PDA_SEEDS_def utf8_def)

lemma demo_mint_sent: "\<exists>tx. Sent_tx tx \<in> set (cp_sent (mintPassport demo_ce demo_cp)) \<and> Sent_tx tx \<notin> set (cp_sent demo_cp)"
proof -
  have f: "cp_wallet demo_cp = Some demo_me" "cp_canSign demo_cp" "cp_sent demo_cp = []" "cp_asset demo_cp = Some ([5], ''SN-1'')"
    "fm_brand (cp_form demo_cp) = ''B''" "fm_name (cp_form demo_cp) = ''N''" "fm_uid (cp_form demo_cp) = ''04A1B2C3D4E5F6''"
    by (simp_all add: demo_cp_def initial_cert_def)
  have e: "ce_passport demo_ce (passportPda (ce_lib demo_ce) h) = Inr None" "ce_sha256 demo_ce = (\<lambda>_. replicate 32 3)" "ce_info demo_ce [5] = Inr (Some demo_core_account)"
    "ce_send demo_ce = (\<lambda>_. Inl (cert_error ''rejected''))" for h
    by (simp_all add: demo_ce_def demo_pdas)
  obtain tx a bh where "plan_mint demo_ce demo_me demo_cp = Inr (Mint_new tx a bh)"
    by (simp add: plan_mint_def mint_new_def f e serialOk_def demo_cert_facts(1-5) core_asset_at_def demo_core_read demo_hash hex_thrown_def Let_def)
  then have "cp_sent (mintPassport demo_ce demo_cp) = [Sent_tx tx]"
    by (simp add: mintPassport_def f e Let_def)
  then show ?thesis using f(3) by auto
qed

definition demo_chain :: chain_state where
  "demo_chain = \<lparr>ch_accounts = (\<lambda>k. if k = [5] then Some demo_core_account else None), ch_registry = demo_program_registry,
     ch_passports = Map.empty\<rparr>"

theorem certify_mint_accepted_witness:
  "\<exists>tx m. Sent_tx tx \<in> set (cp_sent (mintPassport demo_ce demo_cp)) \<and> run_mint sample_lib demo_chain 7 demo_me tx = Some (Inr m) \<and>
     pp_asset m = [5]"
proof -
  obtain tx where tx: "Sent_tx tx \<in> set (cp_sent (mintPassport demo_ce demo_cp))" "Sent_tx tx \<notin> set (cp_sent demo_cp)"
    using demo_mint_sent by blast
  have f: "cp_wallet demo_cp = Some demo_me" "cp_asset demo_cp = Some ([5], ''SN-1'')" "ce_lib demo_ce = sample_lib"
    by (simp_all add: demo_cp_def initial_cert_def demo_ce_def)
  have sees: "page_sees demo_ce demo_cp demo_chain"
    using demo_cert_offers(3) by (auto simp: page_sees_def demo_ce_def demo_chain_def split: if_splits)
  from certify_mint_accepted [OF demo_cert_offers(1) sees tx, of 7] tx(1) f show ?thesis by auto
qed

text \<open>The same console once the passport is on chain, before its first seal.\<close>

definition demo_pass :: pubkey where
  "demo_pass = passportPda sample_lib (replicate 32 3)"

definition demo_seal_ce :: cert_env where
  "demo_seal_ce = demo_ce\<lparr>ce_info := \<lambda>k. Inr (if k = demo_pass then Some demo_passport_account else if k = [5] then Some demo_core_account else None),
     ce_passport := \<lambda>k. if k = demo_pass then Inr (Some demo_passport) else if k = [5] then Inl (cert_error []) else Inr None,
     ce_seal := \<lambda>k. if k \<in> {demo_pass, [5]} then Inl (cert_error []) else Inr None\<rparr>"

definition demo_seal_chain :: chain_state where
  "demo_seal_chain = \<lparr>ch_accounts = (\<lambda>k. if k = demo_pass then Some demo_passport_account else if k = [5] then Some demo_core_account else None),
     ch_registry = demo_program_registry, ch_passports = [demo_pass \<mapsto> demo_passport]\<rparr>"

lemma demo_serial_hash: "serialHash (ce_sha256 demo_seal_ce) (cert_serial demo_cp) = replicate 32 3"
  by (simp add: serialHash_def demo_seal_ce_def demo_ce_def)

lemma demo_attach_sent: "\<exists>tx. Sent_tx tx \<in> set (cp_sent (attachSeal demo_seal_ce demo_cp)) \<and> Sent_tx tx \<notin> set (cp_sent demo_cp)"
proof -
  have f: "cp_wallet demo_cp = Some demo_me" "cp_canSign demo_cp" "cp_sent demo_cp = []" "fm_uid (cp_form demo_cp) = ''04A1B2C3D4E5F6''"
    by (simp_all add: demo_cp_def initial_cert_def)
  have e: "ce_seal demo_seal_ce (sealPda sample_lib h) = Inr None" "ce_sha256 demo_seal_ce = (\<lambda>_. replicate 32 3)" "ce_lib demo_seal_ce = sample_lib"
    "ce_send demo_seal_ce = (\<lambda>_. Inl (cert_error ''rejected''))" "ce_info demo_seal_ce demo_pass = Inr (Some demo_passport_account)" for h
    by (simp_all add: demo_seal_ce_def demo_ce_def demo_pass_def demo_pdas)
  have k: "passportPda sample_lib (serialHash (\<lambda>_. replicate 32 3) ''SN-1'') = demo_pass"
    by (simp add: serialHash_def demo_pass_def)
  have size: "passport_sizes demo_passport" by (simp add: passport_sizes_def demo_passport_def)
  have "attach_problem demo_seal_ce ''SN-1'' demo_me (shown_registry demo_cp) (fetchPassportChain sample_lib (\<lambda>_. Some demo_passport_account) k) = None" for k
    using passport_account_read [OF size, of "replicate 8 7" "\<lambda>_. Some demo_passport_account" k sample_lib 255]
    by (simp add: demo_passport_account_def sample_lib_def attach_problem_def demo_passport_def demo_me_def WEB_MAX_SEALS_PER_PASSPORT_def)
  then obtain tx where "plan_seal demo_seal_ce demo_me demo_cp = Inr (Seal_new tx)"
    by (simp add: plan_seal_def f e k serialOk_def demo_cert_facts demo_hash hex_thrown_def Let_def)
  then have "cp_sent (attachSeal demo_seal_ce demo_cp) = [Sent_tx tx]"
    by (simp add: attachSeal_def f e Let_def)
  then show ?thesis using f(3) by auto
qed

theorem certify_seal_accepted_witness:
  "\<exists>tx sl q'. Sent_tx tx \<in> set (cp_sent (attachSeal demo_seal_ce demo_cp)) \<and>
     run_attach sample_lib demo_seal_chain 7 demo_me tx = Some (Inr (sl, q')) \<and> sl_passport sl = replicate 32 3"
proof -
  obtain tx where tx: "Sent_tx tx \<in> set (cp_sent (attachSeal demo_seal_ce demo_cp))" "Sent_tx tx \<notin> set (cp_sent demo_cp)"
    using demo_attach_sent by blast
  have f: "cp_wallet demo_cp = Some demo_me" "fm_kind (cp_form demo_cp) = 1" "ce_lib demo_seal_ce = sample_lib"
    "pp_serial_hash demo_passport = replicate 32 3"
    by (simp_all add: demo_cp_def initial_cert_def demo_seal_ce_def demo_ce_def demo_passport_def)
  have sees: "page_sees demo_seal_ce demo_cp demo_seal_chain"
    using demo_cert_offers(3) by (auto simp: page_sees_def demo_seal_ce_def demo_ce_def demo_seal_chain_def split: if_splits)
  have offers: "cert_offers demo_seal_ce demo_cp P_seal_press"
  proof -
    have "isPartner demo_cp \<and> quiet demo_cp"
      by (simp add: isPartner_def shown_registry_def quiet_def demo_cp_def initial_cert_def)
    then have "button_in (seal_section demo_cp) P_seal_press" by (simp add: seal_section_def)
    then show ?thesis by (simp add: cert_offers_def cert_view_def button_in_def)
  qed
  have at: "passportPda (ce_lib demo_seal_ce) (pp_serial_hash demo_passport) = demo_pass" by (simp add: f demo_pass_def)
  have info: "ce_info demo_seal_ce (passportPda (ce_lib demo_seal_ce) (pp_serial_hash demo_passport)) =
      Inr (Some \<lparr>ai_owner = cl_program (ce_lib demo_seal_ce), ai_data = borsh_passport (replicate 8 7) 255 demo_passport\<rparr>)"
    unfolding at by (simp add: demo_seal_ce_def demo_ce_def demo_passport_account_def) (simp add: sample_lib_def)
  have "ch_passports demo_seal_chain (passportPda (ce_lib demo_seal_ce) (pp_serial_hash demo_passport)) = Some demo_passport"
    unfolding at by (simp add: demo_seal_chain_def)
  from certify_seal_accepted [OF offers sees tx _ _ _ _ this info, of 7] f tx(1) show ?thesis
    by (simp add: passport_sizes_def demo_serial_hash) (simp add: demo_passport_def, blast)
qed

end
