(* ===== verification/Image_Png.thy ===== *)
theory Image_Png
  imports FV_Codec
begin

text \<open>
  The PNG half of \<open>packages/vision/scripts/image-io.ts\<close>: decoding of 8-bit, not interlaced files with every row filter, and the
  encoder. zlib (\<open>inflateSync\<close>, \<open>deflateSync\<close>, \<open>crc32\<close>) is a parameter. Reading a byte past the end of a typed array gives
  \<open>undefined\<close>, which arithmetic and \<open>& 0xff\<close> turn into 0; \<open>readUInt32BE\<close> past the end throws.
\<close>

section \<open>Data\<close>

record rgba_image =
  im_width :: nat
  im_height :: nat
  im_data :: bytes

datatype image_error =
    Unsupported_format | Png_signature | Png_unsupported | Png_range | Png_inflate
  | Jpeg_samples | Jpeg_not_baseline | Jpeg_table | Jpeg_endless | Jpeg_component | Jpeg_code | Jpeg_no_data | Jpeg_colours

definition nth_opt :: "'a list \<Rightarrow> nat \<Rightarrow> 'a option" where
  "nth_opt xs i = (if i < length xs then Some (xs ! i) else None)"

definition sub_bytes :: "'a list \<Rightarrow> nat \<Rightarrow> nat \<Rightarrow> 'a list" where
  "sub_bytes xs i j = take (j - i) (drop i xs)"

section \<open>Big-endian numbers\<close>

definition be32 :: "nat \<Rightarrow> bytes" where
  "be32 n = map of_nat [n div 16777216 mod 256, n div 65536 mod 256, n div 256 mod 256, n mod 256]"

definition readUInt32BE :: "bytes \<Rightarrow> nat \<Rightarrow> nat option" where
  "readUInt32BE b p = (if p + 4 \<le> length b
     then Some (unat (b ! p) * 16777216 + unat (b ! (p + 1)) * 65536 + unat (b ! (p + 2)) * 256 + unat (b ! (p + 3))) else None)"

section \<open>Chunks\<close>

record png_head =
  ph_width :: nat
  ph_height :: nat
  ph_depth :: "byte option"
  ph_color :: "byte option"
  ph_interlace :: "byte option"
  ph_idat :: bytes

definition PNG_SIGNATURE :: bytes where
  "PNG_SIGNATURE = [0x89, 0x50, 0x4e, 0x47, 0x0d, 0x0a, 0x1a, 0x0a]"

definition IHDR :: bytes where "IHDR = [0x49, 0x48, 0x44, 0x52]"
definition IDAT :: bytes where "IDAT = [0x49, 0x44, 0x41, 0x54]"
definition IEND :: bytes where "IEND = [0x49, 0x45, 0x4e, 0x44]"

definition no_head :: png_head where
  "no_head = \<lparr>ph_width = 0, ph_height = 0, ph_depth = Some 0, ph_color = Some 0, ph_interlace = Some 0, ph_idat = []\<rparr>"

text \<open>One chunk: None when a length cannot be read.\<close>

definition png_chunk :: "bytes \<Rightarrow> bytes \<Rightarrow> png_head \<Rightarrow> png_head option" where
  "png_chunk typ body h =
    (if typ = IHDR then
       (case (readUInt32BE body 0, readUInt32BE body 4) of
          (Some w, Some ht) \<Rightarrow> Some (h\<lparr>ph_width := w, ph_height := ht, ph_depth := nth_opt body 8, ph_color := nth_opt body 9,
            ph_interlace := nth_opt body 12\<rparr>)
        | _ \<Rightarrow> None)
     else if typ = IDAT then Some (h\<lparr>ph_idat := ph_idat h @ body\<rparr>)
     else Some h)"

function png_chunks :: "bytes \<Rightarrow> nat \<Rightarrow> png_head \<Rightarrow> png_head option" where
  "png_chunks b p h =
    (if p + 8 \<le> length b then
       (case readUInt32BE b p of
          None \<Rightarrow> None
        | Some len \<Rightarrow>
            let typ = sub_bytes b (p + 4) (p + 8); body = sub_bytes b (p + 8) (p + 8 + len)
            in if typ = IEND then Some h
               else (case png_chunk typ body h of None \<Rightarrow> None | Some h' \<Rightarrow> png_chunks b (p + 12 + len) h'))
     else Some h)"
  by pat_completeness auto
termination
  by (relation "measure (\<lambda>(b, p, h). length b - p)") auto

declare png_chunks.simps [simp del]

section \<open>Row filters\<close>

definition channels_of :: "byte \<Rightarrow> nat option" where
  "channels_of c = map_of [(0, 1), (2, 3), (4, 2), (6, 4)] c"

definition paeth :: "int \<Rightarrow> int \<Rightarrow> int \<Rightarrow> int" where
  "paeth a up c = (let pp = a + up - c; pa = \<bar>pp - a\<bar>; pb = \<bar>pp - up\<bar>; pc = \<bar>pp - c\<bar>
     in if pa \<le> pb \<and> pa \<le> pc then a else if pb \<le> pc then up else c)"

text \<open>What a filter predicts from the byte to the left, above, and above left.\<close>

definition prediction :: "byte \<Rightarrow> byte \<Rightarrow> byte \<Rightarrow> byte \<Rightarrow> byte" where
  "prediction f a up c =
    (if f = 1 then a else if f = 2 then up else if f = 3 then word_of_int ((uint a + uint up) div 2)
     else if f = 4 then word_of_int (paeth (uint a) (uint up) (uint c)) else 0)"

text \<open>The neighbours of the byte that follows \<open>cur\<close> in its row.\<close>

definition left_of :: "nat \<Rightarrow> bytes \<Rightarrow> byte" where
  "left_of ch cur = (if length cur \<ge> ch then cur ! (length cur - ch) else 0)"

definition above_of :: "bytes option \<Rightarrow> bytes \<Rightarrow> byte" where
  "above_of prev cur = (case prev of Some r \<Rightarrow> r ! length cur | None \<Rightarrow> 0)"

definition above_left :: "nat \<Rightarrow> bytes option \<Rightarrow> bytes \<Rightarrow> byte" where
  "above_left ch prev cur = (case prev of Some r \<Rightarrow> if length cur \<ge> ch then r ! (length cur - ch) else 0 | None \<Rightarrow> 0)"

definition predicted :: "byte \<Rightarrow> nat \<Rightarrow> bytes option \<Rightarrow> bytes \<Rightarrow> byte" where
  "predicted f ch prev cur = prediction f (left_of ch cur) (above_of prev cur) (above_left ch prev cur)"

definition unfilter_byte :: "byte option \<Rightarrow> nat \<Rightarrow> bytes option \<Rightarrow> byte option \<Rightarrow> bytes \<Rightarrow> byte" where
  "unfilter_byte f ch prev x cur = (case x of
     None \<Rightarrow> 0 | Some v \<Rightarrow> v + (case f of Some g \<Rightarrow> predicted g ch prev cur | None \<Rightarrow> 0))"

fun unfilter_row :: "byte option \<Rightarrow> nat \<Rightarrow> bytes option \<Rightarrow> bytes \<Rightarrow> nat \<Rightarrow> bytes \<Rightarrow> bytes" where
  "unfilter_row f ch prev line 0 cur = cur"
| "unfilter_row f ch prev line (Suc n) cur =
     unfilter_row f ch prev line n (cur @ [unfilter_byte f ch prev (nth_opt line (length cur)) cur])"

text \<open>The rows of the image, from the first.\<close>

fun unfilter_rows :: "bytes \<Rightarrow> nat \<Rightarrow> nat \<Rightarrow> bytes option \<Rightarrow> nat \<Rightarrow> nat \<Rightarrow> bytes list" where
  "unfilter_rows raw stride ch prev y 0 = []"
| "unfilter_rows raw stride ch prev y (Suc n) =
    (let row = unfilter_row (nth_opt raw (y * (stride + 1))) ch prev
         (sub_bytes raw (y * (stride + 1) + 1) ((y + 1) * (stride + 1))) stride []
     in row # unfilter_rows raw stride ch (Some row) (y + 1) n)"

section \<open>Decoding and encoding\<close>

definition rgba_of :: "nat \<Rightarrow> bytes \<Rightarrow> nat \<Rightarrow> bytes" where
  "rgba_of ch px i =
    (let j = i * ch; grey = ch \<le> 2
     in [px ! j, if grey then px ! j else px ! (j + 1), if grey then px ! j else px ! (j + 2),
         if ch = 4 then px ! (j + 3) else if ch = 2 then px ! (j + 1) else 255])"

definition decodePng :: "(bytes \<Rightarrow> bytes option) \<Rightarrow> bytes \<Rightarrow> image_error + rgba_image" where
  "decodePng inflate b =
    (if take 8 b \<noteq> PNG_SIGNATURE then Inl Png_signature
     else case png_chunks b 8 no_head of
       None \<Rightarrow> Inl Png_range
     | Some h \<Rightarrow>
         (case Option.bind (ph_color h) channels_of of
            None \<Rightarrow> Inl Png_unsupported
          | Some ch \<Rightarrow>
              if ph_depth h \<noteq> Some 8 \<or> (ph_interlace h \<noteq> None \<and> ph_interlace h \<noteq> Some 0) then Inl Png_unsupported
              else case inflate (ph_idat h) of
                None \<Rightarrow> Inl Png_inflate
              | Some raw \<Rightarrow>
                  let px = concat (unfilter_rows raw (ph_width h * ch) ch None 0 (ph_height h))
                  in Inr \<lparr>im_width = ph_width h, im_height = ph_height h,
                          im_data = concat (map (rgba_of ch px) [0..<ph_width h * ph_height h])\<rparr>))"

definition png_piece :: "(bytes \<Rightarrow> 32 word) \<Rightarrow> bytes \<Rightarrow> bytes \<Rightarrow> bytes" where
  "png_piece crc32 typ body = be32 (length body) @ typ @ body @ be32 (unat (crc32 (typ @ body)))"

text \<open>None where a typed array or \<open>writeUInt32BE\<close> throws.\<close>

definition encodePng :: "(bytes \<Rightarrow> bytes) \<Rightarrow> (bytes \<Rightarrow> 32 word) \<Rightarrow> rgba_image \<Rightarrow> bytes option" where
  "encodePng deflate crc32 img =
    (let w = im_width img; h = im_height img;
         raw = concat (map (\<lambda>y. 0 # sub_bytes (im_data img) (y * w * 4) ((y + 1) * w * 4)) [0..<h])
     in if length (im_data img) < w * 4 * h \<or> w \<ge> 2 ^ 32 \<or> h \<ge> 2 ^ 32 \<or> length (deflate raw) \<ge> 2 ^ 32 then None
        else Some (PNG_SIGNATURE @ png_piece crc32 IHDR (be32 w @ be32 h @ [8, 6, 0, 0, 0]) @
          png_piece crc32 IDAT (deflate raw) @ png_piece crc32 IEND []))"

section \<open>Every row filter is undone\<close>

text \<open>The filters of the PNG standard, by byte position: each byte of a row less its prediction, from the byte one pixel
  before it, the byte above it and the byte one pixel before that, which are 0 outside the image. Paeth's predictor is the
  nearest of the three to their linear estimate, the first of the nearest in the order left, above, above left.\<close>

definition pixel_before :: "nat \<Rightarrow> bytes \<Rightarrow> nat \<Rightarrow> byte" where
  "pixel_before ch row i = (if i < ch then 0 else row ! (i - ch))"

definition nearest_of :: "int \<Rightarrow> byte list \<Rightarrow> byte" where
  "nearest_of p xs = hd (sort_key (\<lambda>x. \<bar>uint x - p\<bar>) xs)"

definition row_prediction :: "byte \<Rightarrow> nat \<Rightarrow> bytes \<Rightarrow> bytes \<Rightarrow> nat \<Rightarrow> byte" where
  "row_prediction f ch prior row i =
    (let l = pixel_before ch row i; u = prior ! i; ul = pixel_before ch prior i
     in if f = 1 then l
        else if f = 2 then u
        else if f = 3 then of_nat ((unat l + unat u) div 2)
        else if f = 4 then nearest_of (uint l + uint u - uint ul) [l, u, ul]
        else 0)"

definition filter_row :: "byte \<Rightarrow> nat \<Rightarrow> bytes option \<Rightarrow> bytes \<Rightarrow> bytes" where
  "filter_row f ch prev row =
    (let prior = (case prev of Some r \<Rightarrow> r | None \<Rightarrow> replicate (length row) 0)
     in map (\<lambda>i. row ! i - row_prediction f ch prior row i) [0..<length row])"

text \<open>The code predicts what the standard predicts.\<close>

lemma nearest_of_three:
  "nearest_of p [l, u, ul] =
    (if \<bar>uint l - p\<bar> \<le> \<bar>uint u - p\<bar> \<and> \<bar>uint l - p\<bar> \<le> \<bar>uint ul - p\<bar> then l
     else if \<bar>uint u - p\<bar> \<le> \<bar>uint ul - p\<bar> then u else ul)"
  by (simp add: nearest_of_def)

lemma nearest_is_paeth:
  "nearest_of (uint l + uint u - uint ul) [l, u, ul] = word_of_int (paeth (uint l) (uint u) (uint ul))"
  by (simp only: nearest_of_three paeth_def Let_def abs_minus_commute if_distrib[of word_of_int] word_of_int_uint)

lemma average_as_int: "of_nat ((unat l + unat u) div 2) = (word_of_int ((uint l + uint u) div 2) :: byte)"
proof -
  have "(uint l + uint u) div 2 = int ((unat l + unat u) div 2)" by (simp add: zdiv_int)
  then show ?thesis by (simp only: of_int_of_nat_eq)
qed

lemma predicted_as_standard:
  assumes "i < length row" "0 < ch" "case prev of Some r \<Rightarrow> length r = length row | None \<Rightarrow> True"
  shows "predicted f ch prev (take i row) =
    row_prediction f ch (case prev of Some r \<Rightarrow> r | None \<Rightarrow> replicate (length row) 0) row i"
proof -
  let ?prior = "case prev of Some r \<Rightarrow> r | None \<Rightarrow> replicate (length row) 0"
  have l: "left_of ch (take i row) = pixel_before ch row i"
    using assms by (auto simp: left_of_def pixel_before_def)
  have u: "above_of prev (take i row) = ?prior ! i"
    using assms by (auto simp: above_of_def split: option.splits)
  have ul: "above_left ch prev (take i row) = pixel_before ch ?prior i"
    using assms by (auto simp: above_left_def pixel_before_def split: option.splits)
  show ?thesis
    by (simp add: predicted_def prediction_def row_prediction_def Let_def l u ul nearest_is_paeth average_as_int)
qed

fun filter_rows :: "nat \<Rightarrow> bytes option \<Rightarrow> byte list \<Rightarrow> bytes list \<Rightarrow> bytes" where
  "filter_rows ch prev (f # fs) (row # rows) = f # filter_row f ch prev row @ filter_rows ch (Some row) fs rows"
| "filter_rows ch prev _ _ = []"

lemma length_filter_row [simp]: "length (filter_row f ch prev row) = length row"
  by (simp add: filter_row_def)

lemma unfilter_row_undoes:
  "0 < ch \<Longrightarrow> (case prev of Some r \<Rightarrow> length r = length row | None \<Rightarrow> True) \<Longrightarrow> length cur + n = length row \<Longrightarrow> cur = take (length cur) row \<Longrightarrow>
    unfilter_row (Some f) ch prev (filter_row f ch prev row) n cur = row"
proof (induction n arbitrary: cur)
  case (Suc n)
  let ?k = "length cur"
  have k: "?k < length row" using Suc.prems(3) by simp
  have cur: "take ?k row = cur" using Suc.prems(4) by simp
  have "unfilter_byte (Some f) ch prev (nth_opt (filter_row f ch prev row) ?k) cur = row ! ?k"
    using k predicted_as_standard[OF k Suc.prems(1,2), of f] by (simp add: unfilter_byte_def nth_opt_def filter_row_def cur)
  moreover have "cur @ [row ! ?k] = take (Suc ?k) row" by (simp add: take_Suc_conv_app_nth k cur)
  moreover have "unfilter_row (Some f) ch prev (filter_row f ch prev row) n (take (Suc ?k) row) = row"
    by (rule Suc.IH[OF Suc.prems(1,2)]) (use Suc.prems(3) k in auto)
  ultimately show ?case by simp
qed simp

lemma sub_bytes_drop:
  "drop p xs = ys @ zs \<Longrightarrow> q = p + length ys \<Longrightarrow> sub_bytes xs p q = ys"
  by (simp add: sub_bytes_def)

lemma nth_opt_drop: "drop p xs = y # ys \<Longrightarrow> nth_opt xs p = Some y"
  by (metis drop_all linorder_not_less list.distinct(1) nth_opt_def nth_via_drop)

lemma unfilter_rows_undo:
  "0 < ch \<Longrightarrow> (case prev of Some r \<Rightarrow> length r = stride | None \<Rightarrow> True) \<Longrightarrow> \<forall>row \<in> set rows. length row = stride \<Longrightarrow> length fs = length rows \<Longrightarrow>
    drop (y * (stride + 1)) raw = filter_rows ch prev fs rows \<Longrightarrow>
    unfilter_rows raw stride ch prev y (length rows) = rows"
proof (induction rows arbitrary: fs prev y)
  case (Cons row rows)
  obtain f fs' where fs: "fs = f # fs'" using Cons.prems(4) by (cases fs) auto
  have len: "length row = stride" using Cons.prems(3) by simp
  have prev: "case prev of Some r \<Rightarrow> length r = length row | None \<Rightarrow> True" 
    using Cons.prems(2) by (cases prev) (simp_all add: len)
  have d: "drop (y * (stride + 1)) raw = f # filter_row f ch prev row @ filter_rows ch (Some row) fs' rows"
    using Cons.prems(5) by (simp add: fs)
  have d1: "drop (y * (stride + 1) + 1) raw = filter_row f ch prev row @ filter_rows ch (Some row) fs' rows"
    using d by (metis Suc_eq_plus1 drop_Suc list.sel(3) tl_drop)
  have line: "sub_bytes raw (y * (stride + 1) + 1) ((y + 1) * (stride + 1)) = filter_row f ch prev row"
    by (rule sub_bytes_drop[OF d1]) (simp add: len)
  have d2: "drop ((y + 1) * (stride + 1)) raw = filter_rows ch (Some row) fs' rows"
  proof -
    have "drop (length (filter_row f ch prev row)) (drop (y * (stride + 1) + 1) raw) = filter_rows ch (Some row) fs' rows"
      by (simp only: d1) simp
    then show ?thesis by (simp add: len algebra_simps)
  qed
  have "unfilter_row (nth_opt raw (y * (stride + 1))) ch prev
      (sub_bytes raw (y * (stride + 1) + 1) ((y + 1) * (stride + 1))) stride [] = row"
    using unfilter_row_undoes[of ch row prev "[]" stride f, OF Cons.prems(1) prev] nth_opt_drop[OF d] line len by simp
  moreover have "unfilter_rows raw stride ch (Some row) (y + 1) (length rows) = rows"
    using Cons.IH[OF Cons.prems(1) _ _ _ d2] Cons.prems fs by simp
  ultimately show ?case by (simp add: Let_def)
qed simp

section \<open>Chunks are read back\<close>

lemma be32_digits:
  fixes n :: nat
  assumes "n < 4294967296"
  shows "n div 16777216 mod 256 * 16777216 + n div 65536 mod 256 * 65536 + n div 256 mod 256 * 256 + n mod 256 = n"
proof -
  have d: "n div 65536 = n div 256 div 256" "n div 16777216 = n div 256 div 256 div 256"
    by (simp_all add: div_mult2_eq[symmetric])
  have "n div 16777216 < 256" using assms by (simp add: less_mult_imp_div_less)
  then have "n div 256 div 256 div 256 mod 256 = n div 256 div 256 div 256" unfolding d by simp
  then show ?thesis
    unfolding d using div_mult_mod_eq[of n 256] div_mult_mod_eq[of "n div 256" 256] div_mult_mod_eq[of "n div 256 div 256" 256]
    by linarith
qed

lemma unat_low_byte: "unat (of_nat (k mod 256) :: byte) = k mod 256"
  by (simp only: unat_of_nat) simp

lemma readUInt32BE_be32:
  assumes "drop p b = be32 n @ rest" "n < 4294967296"
  shows "readUInt32BE b p = Some n"
proof -
  have l: "length (be32 n) = 4" by (simp add: be32_def)
  have "length (drop p b) \<ge> 4" using assms(1) l by simp
  then have p: "p + 4 \<le> length b" by simp
  have byte: "b ! (p + i) = be32 n ! i" if "i < 4" for i
    using nth_drop[of p b i] p that assms(1) l by (simp add: nth_append)
  have b: "b ! p = of_nat (n div 16777216 mod 256)" "b ! (p + 1) = of_nat (n div 65536 mod 256)"
    "b ! (p + 2) = of_nat (n div 256 mod 256)" "b ! (p + 3) = of_nat (n mod 256)"
    using byte[of 0] byte[of 1] byte[of 2] byte[of 3] by (simp_all only: be32_def) simp_all
  show ?thesis
    unfolding readUInt32BE_def b unat_low_byte be32_digits[OF assms(2)] using p by simp
qed

lemma png_piece_parts:
  "png_piece crc typ body @ rest = be32 (length body) @ typ @ body @ be32 (unat (crc (typ @ body))) @ rest"
  by (simp add: png_piece_def)

lemma png_chunks_piece:
  assumes "drop p b = png_piece crc typ body @ rest" "length typ = 4" "length body < 4294967296"
  shows "png_chunks b p h = (if typ = IEND then Some h
      else (case png_chunk typ body h of None \<Rightarrow> None | Some h' \<Rightarrow> png_chunks b (p + 12 + length body) h'))"
    and "drop (p + 12 + length body) b = rest"
proof -
  let ?crc = "be32 (unat (crc (typ @ body)))"
  have l: "length (be32 n) = 4" for n by (simp add: be32_def)
  have d: "drop p b = be32 (length body) @ typ @ body @ ?crc @ rest" using assms(1) by (simp add: png_piece_parts)
  have d4: "drop (p + 4) b = typ @ body @ ?crc @ rest"
    using arg_cong[OF d, of "drop 4"] l by (simp add: add.commute)
  have d8: "drop (p + 8) b = body @ ?crc @ rest"
    using arg_cong[OF d4, of "drop 4"] assms(2) by (simp add: add.commute)
  have "length (drop p b) \<ge> 8" using d l assms(2) by simp
  then have p: "p + 8 \<le> length b" by simp
  show "png_chunks b p h = (if typ = IEND then Some h
      else (case png_chunk typ body h of None \<Rightarrow> None | Some h' \<Rightarrow> png_chunks b (p + 12 + length body) h'))"
    using p readUInt32BE_be32[OF d assms(3)] sub_bytes_drop[OF d4, of "p + 8"] assms(2)
      sub_bytes_drop[OF d8, of "p + 8 + length body"]
    by (simp add: png_chunks.simps[of b p h] Let_def)
  show "drop (p + 12 + length body) b = rest"
    using arg_cong[OF d8, of "drop (length body + 4)"] l by (simp add: algebra_simps)
qed

section \<open>A file is decoded to its pixels\<close>

text \<open>A file as the standard has it, with 8 bits a sample, not interlaced, and without transparency by colour key (\<open>tRNS\<close>):
  a header, the compressed rows in any number of pieces among any other chunks, the end.\<close>

type_synonym chunk = "bytes \<times> bytes"

definition tRNS :: bytes where "tRNS = [0x74, 0x52, 0x4e, 0x53]"

definition png_file :: "(bytes \<Rightarrow> 32 word) \<Rightarrow> nat \<Rightarrow> nat \<Rightarrow> byte \<Rightarrow> chunk list \<Rightarrow> bytes" where
  "png_file crc w h color chunks = PNG_SIGNATURE @ png_piece crc IHDR (be32 w @ be32 h @ [8, color, 0, 0, 0]) @
     concat (map (\<lambda>(typ, body). png_piece crc typ body) chunks) @ png_piece crc IEND []"

definition chunk_ok :: "chunk \<Rightarrow> bool" where
  "chunk_ok = (\<lambda>(typ, body). length typ = 4 \<and> typ \<notin> {IHDR, IEND, tRNS} \<and> length body < 4294967296)"

definition compressed :: "chunk list \<Rightarrow> bytes" where
  "compressed chunks = concat (map snd (filter (\<lambda>(typ, body). typ = IDAT) chunks))"

lemmas png_types = IHDR_def IDAT_def IEND_def tRNS_def

lemma png_chunks_read:
  "drop p b = concat (map (\<lambda>(typ, body). png_piece crc typ body) chunks) @ png_piece crc IEND [] \<Longrightarrow>
    list_all chunk_ok chunks \<Longrightarrow> png_chunks b p h = Some (h\<lparr>ph_idat := ph_idat h @ compressed chunks\<rparr>)"
proof (induction chunks arbitrary: p h)
  case Nil
  have "drop p b = png_piece crc IEND [] @ []" using Nil.prems(1) by simp
  from png_chunks_piece(1)[OF this] show ?case by (simp add: png_types compressed_def)
next
  case (Cons c chunks)
  obtain t x where c: "c = (t, x)" by (cases c)
  have ok: "length t = 4" "length x < 4294967296" "t \<noteq> IHDR" "t \<noteq> IEND" using Cons.prems(2) by (simp_all add: c chunk_ok_def)
  have d: "drop p b = png_piece crc t x @ concat (map (\<lambda>(typ, body). png_piece crc typ body) chunks) @ png_piece crc IEND []"
    using Cons.prems(1) by (simp add: c)
  let ?h = "if t = IDAT then h\<lparr>ph_idat := ph_idat h @ x\<rparr> else h"
  have "png_chunks b p h = png_chunks b (p + 12 + length x) ?h"
    using png_chunks_piece(1)[OF d ok(1,2)] ok(3,4) by (simp add: png_chunk_def)
  also have "\<dots> = Some (?h\<lparr>ph_idat := ph_idat ?h @ compressed chunks\<rparr>)"
    using Cons.IH[OF png_chunks_piece(2)[OF d ok(1,2)]] Cons.prems(2) by simp
  finally show ?case by (simp add: c compressed_def)
qed

lemma png_file_read:
  assumes "list_all chunk_ok chunks" "w < 4294967296" "h < 4294967296"
  shows "png_chunks (png_file crc w h color chunks) 8 no_head =
    Some \<lparr>ph_width = w, ph_height = h, ph_depth = Some 8, ph_color = Some color, ph_interlace = Some 0, ph_idat = compressed chunks\<rparr>"
proof -
  let ?b = "png_file crc w h color chunks"
  let ?head = "be32 w @ be32 h @ [8, color, 0, 0, 0]"
  have be: "length (be32 n) = 4" for n by (simp add: be32_def)
  have d: "drop 8 ?b = png_piece crc IHDR ?head @ concat (map (\<lambda>(typ, body). png_piece crc typ body) chunks) @ png_piece crc IEND []"
    by (simp add: png_file_def PNG_SIGNATURE_def)
  have l: "length IHDR = 4" "length ?head < 4294967296" by (simp_all add: png_types be)
  have r: "readUInt32BE ?head 0 = Some w" "readUInt32BE ?head 4 = Some h"
    by (rule readUInt32BE_be32; simp add: assms be)+
  have i: "nth_opt ?head 8 = Some 8" "nth_opt ?head 9 = Some color" "nth_opt ?head 12 = Some 0"
    by (simp_all add: nth_opt_def be nth_append)
  have "png_chunk IHDR ?head no_head = Some \<lparr>ph_width = w, ph_height = h, ph_depth = Some 8, ph_color = Some color,
      ph_interlace = Some 0, ph_idat = []\<rparr>"
    by (simp add: png_chunk_def r i no_head_def del: append.simps)
  then show ?thesis
    using png_chunks_piece(1)[OF d l] png_chunks_read[OF png_chunks_piece(2)[OF d l] assms(1)] by (simp add: png_types)
qed

lemma decode_png_file:
  assumes "channels_of color = Some ch" "\<forall>row \<in> set rows. length row = w * ch" "length rows = h" "length fs = h"
    and "inflate (compressed chunks) = Some (filter_rows ch None fs rows)"
    and "list_all chunk_ok chunks" "w < 4294967296" "h < 4294967296"
  shows "decodePng inflate (png_file crc w h color chunks) =
    Inr \<lparr>im_width = w, im_height = h, im_data = concat (map (rgba_of ch (concat rows)) [0..<w * h])\<rparr>"
proof -
  have s: "take 8 (png_file crc w h color chunks) = PNG_SIGNATURE" by (simp add: png_file_def PNG_SIGNATURE_def)
  have "unfilter_rows (filter_rows ch None fs rows) (w * ch) ch None 0 (length rows) = rows"
    using assms(1,2) by (intro unfilter_rows_undo) (auto simp: assms channels_of_def split: if_splits)
  then show ?thesis
    using assms by (simp add: decodePng_def s png_file_read)
qed

text \<open>A pixel of the four colour types, as its four bytes.\<close>

fun pixel_rgba :: "bytes \<Rightarrow> bytes" where
  "pixel_rgba [grey] = [grey, grey, grey, 255]"
| "pixel_rgba [grey, alpha] = [grey, grey, grey, alpha]"
| "pixel_rgba [red, green, blue] = [red, green, blue, 255]"
| "pixel_rgba px = px"

lemma nth_of_pixel:
  "\<forall>p \<in> set ps. length p = ch \<Longrightarrow> i < length ps \<Longrightarrow> k < ch \<Longrightarrow> concat ps ! (i * ch + k) = ps ! i ! k"
proof (induction ps arbitrary: i)
  case (Cons p ps)
  then show ?case by (cases i) (simp_all add: nth_append add.assoc)
qed simp

lemma rgba_of_pixel:
  assumes "\<forall>p \<in> set ps. length p = ch" "channels_of color = Some ch" "i < length ps"
  shows "rgba_of ch (concat ps) i = pixel_rgba (ps ! i)"
proof -
  let ?p = "ps ! i"
  have l: "length ?p = ch" using assms(1,3) by simp
  have n: "concat ps ! (i * ch + k) = ?p ! k" if "k < ch" for k
    using nth_of_pixel[OF assms(1,3) that] .
  have z: "concat ps ! (i * ch) = ?p ! 0" if "0 < ch" using n[OF that] by simp
  consider "ch = 1" | "ch = 2" | "ch = 3" | "ch = 4" using assms(2) by (auto simp: channels_of_def split: if_splits)
  then show ?thesis
  proof cases
    case 1
    then show ?thesis using l z by (auto simp: rgba_of_def Let_def length_Suc_conv)
  next
    case 2
    then show ?thesis using l z n[of 1] by (auto simp: rgba_of_def Let_def length_Suc_conv eval_nat_numeral)
  next
    case 3
    then show ?thesis using l z n[of 1] n[of 2] by (auto simp: rgba_of_def Let_def length_Suc_conv eval_nat_numeral)
  next
    case 4
    then show ?thesis using l z n[of 1] n[of 2] n[of 3] by (auto simp: rgba_of_def Let_def length_Suc_conv eval_nat_numeral)
  qed
qed

lemma pixels_as_rgba:
  "\<forall>p \<in> set ps. length p = ch \<Longrightarrow> channels_of color = Some ch \<Longrightarrow>
    map (rgba_of ch (concat ps)) [0..<length ps] = map pixel_rgba ps"
  by (rule nth_equalityI) (simp_all add: rgba_of_pixel)

lemma length_of_rows: "\<forall>r \<in> set rows. length r = w \<Longrightarrow> length (concat rows) = w * length rows"
  by (induction rows) simp_all

text \<open>C40: every PNG file that keeps to the standard, has 8 bits a sample, is not interlaced and has no colour key is decoded to
  its pixels: whatever filter each row was written with (the predictors as the standard defines them), whatever the colour
  type of the four the reader takes (grey, grey with alpha, RGB, RGBA), in however many pieces the compressed rows come and
  whatever other chunks stand between the header and the end, \<open>decodePng\<close> gives the size of the header and, row by row, the
  four bytes of each pixel.\<close>

theorem png_file_decoded:
  assumes "channels_of color = Some ch" "\<forall>row \<in> set rows. length row = w \<and> (\<forall>px \<in> set row. length px = ch)"
    and "length rows = h" "length fs = h"
    and "inflate (compressed chunks) = Some (filter_rows ch None fs (map concat rows))"
    and "list_all chunk_ok chunks" "w < 4294967296" "h < 4294967296"
  shows "decodePng inflate (png_file crc w h color chunks) =
    Inr \<lparr>im_width = w, im_height = h, im_data = concat (map pixel_rgba (concat rows))\<rparr>"
proof -
  have px: "\<forall>p \<in> set (concat rows). length p = ch" using assms(2) by auto
  have n: "length (concat rows) = w * h" using length_of_rows assms(2,3) by blast
  have "\<forall>row \<in> set (map concat rows). length row = w * ch"
  proof -
    have "length (concat row) = w * ch" if "row \<in> set rows" for row
      using length_of_rows[of row ch] assms(2) that by (simp add: mult.commute)
    then show ?thesis by simp
  qed
  then have "decodePng inflate (png_file crc w h color chunks) =
    Inr \<lparr>im_width = w, im_height = h, im_data = concat (map (rgba_of ch (concat (map concat rows))) [0..<w * h])\<rparr>"
    by (intro decode_png_file) (use assms in simp_all)
  moreover have "concat (map concat rows) = concat (concat rows)" by (induction rows) simp_all
  ultimately show ?thesis using pixels_as_rgba[OF px assms(1)] n by simp
qed

lemma filter_none [simp]: "filter_row 0 ch prev row = row"
  by (rule nth_equalityI) (simp_all add: filter_row_def row_prediction_def Let_def)

lemma filter_rows_none:
  "filter_rows ch prev (replicate (length rows) 0) rows = concat (map (Cons 0) rows)"
  by (induction rows arbitrary: prev) simp_all

lemma rgba_of_full:
  "length px = n * 4 \<Longrightarrow> concat (map (rgba_of 4 px) [0..<n]) = px"
proof (induction n arbitrary: px)
  case (Suc n)
  obtain a b c d qs where q: "drop (n * 4) px = a # b # c # d # qs" "qs = []"
  proof -
    have "\<exists>a b c d. ys = [a, b, c, d]" if "length ys = 4" for ys :: bytes
      using that by (auto simp: eval_nat_numeral length_Suc_conv)
    moreover have "length (drop (n * 4) px) = 4" using Suc.prems by simp
    ultimately show ?thesis using that by metis
  qed
  let ?p = "take (n * 4) px"
  have px: "px = ?p @ [a, b, c, d]" using q append_take_drop_id[of "n * 4" px] by simp
  have l: "length ?p = n * 4" using Suc.prems by simp
  have last: "rgba_of 4 px n = [a, b, c, d]"
    using nth_append_length_plus[of ?p "[a, b, c, d]", unfolded l, folded px, of 0]
      nth_append_length_plus[of ?p "[a, b, c, d]", unfolded l, folded px, of 1]
      nth_append_length_plus[of ?p "[a, b, c, d]", unfolded l, folded px, of 2]
      nth_append_length_plus[of ?p "[a, b, c, d]", unfolded l, folded px, of 3] by (simp add: rgba_of_def Let_def)
  have "rgba_of 4 px i = rgba_of 4 ?p i" if "i < n" for i
    using that by (simp add: rgba_of_def)
  then have "map (rgba_of 4 px) [0..<n] = map (rgba_of 4 ?p) [0..<n]" by (intro map_cong) simp_all
  then have "concat (map (rgba_of 4 px) [0..<n]) = ?p" using Suc.IH[OF l] by (simp only:)
  then show ?case using px last by simp
qed simp

lemma sub_bytes_rows:
  "length xs = k * n \<Longrightarrow> concat (map (\<lambda>y. sub_bytes xs (y * k) ((y + 1) * k)) [0..<n]) = xs"
proof (induction n arbitrary: xs)
  case (Suc n)
  let ?p = "take (n * k) xs"
  have l: "length ?p = k * n" using Suc.prems by simp
  have "sub_bytes xs (y * k) ((y + 1) * k) = sub_bytes ?p (y * k) ((y + 1) * k)" if "y < n" for y
  proof -
    have "(y + 1) * k \<le> n * k" using that by (intro mult_le_mono1) simp
    then show ?thesis by (simp add: sub_bytes_def drop_take)
  qed
  then have "map (\<lambda>y. sub_bytes xs (y * k) ((y + 1) * k)) [0..<n] = map (\<lambda>y. sub_bytes ?p (y * k) ((y + 1) * k)) [0..<n]"
    by (intro map_cong) simp_all
  then have "concat (map (\<lambda>y. sub_bytes xs (y * k) ((y + 1) * k)) [0..<n]) = ?p"
    using Suc.IH[OF l] by (simp only:)
  moreover have "sub_bytes xs (n * k) ((n + 1) * k) = drop (n * k) xs" using Suc.prems by (simp add: sub_bytes_def)
  ultimately show ?case by simp
qed simp

text \<open>What \<open>encodePng\<close> writes, \<open>decodePng\<close> reads back, byte for byte, for every image whose sizes fit the format's 32-bit
  fields, over any compression that undoes itself.\<close>

theorem png_roundtrip:
  assumes "\<And>r. inflate (deflate r) = Some r"
    and "length (im_data img) = im_width img * 4 * im_height img"
    and "encodePng deflate crc img = Some b"
  shows "decodePng inflate b = Inr img"
proof -
  let ?w = "im_width img" and ?h = "im_height img"
  let ?rows = "map (\<lambda>y. sub_bytes (im_data img) (y * (?w * 4)) ((y + 1) * (?w * 4))) [0..<?h]"
  let ?raw = "concat (map (Cons 0) ?rows)"
  have raw: "concat (map (\<lambda>y. 0 # sub_bytes (im_data img) (y * ?w * 4) ((y + 1) * ?w * 4)) [0..<?h]) = ?raw"
    by (simp add: comp_def mult.assoc)
  have sizes: "?w < 4294967296" "?h < 4294967296" "length (deflate ?raw) < 4294967296"
    using assms(3) unfolding encodePng_def Let_def raw by (auto split: if_splits)
  have b: "b = png_file crc ?w ?h 6 [(IDAT, deflate ?raw)]"
    using assms(3) unfolding encodePng_def Let_def raw by (simp add: png_file_def split: if_splits)
  have rows: "\<forall>row \<in> set ?rows. length row = ?w * 4"
  proof -
    have "length (sub_bytes (im_data img) (y * (?w * 4)) ((y + 1) * (?w * 4))) = ?w * 4" if "y < ?h" for y
    proof -
      have "(y + 1) * (?w * 4) \<le> length (im_data img)"
        unfolding assms(2) using that by (subst mult.commute[of "?w * 4"], intro mult_le_mono1) simp
      then show ?thesis by (simp add: sub_bytes_def)
    qed
    then show ?thesis by simp
  qed
  have "filter_rows 4 None (replicate (length ?rows) 0) ?rows = ?raw" by (rule filter_rows_none)
  then have "decodePng inflate b =
      Inr \<lparr>im_width = ?w, im_height = ?h, im_data = concat (map (rgba_of 4 (concat ?rows)) [0..<?w * ?h])\<rparr>"
    unfolding b using decode_png_file[of 6 4 ?rows ?w ?h "replicate (length ?rows) 0" inflate "[(IDAT, deflate ?raw)]" crc] rows sizes assms(1)
    by (simp add: channels_of_def chunk_ok_def compressed_def png_types)
  moreover have "concat ?rows = im_data img" by (rule sub_bytes_rows) (simp add: assms(2))
  ultimately show ?thesis using rgba_of_full[of "im_data img" "?w * ?h"] assms(2) by (simp add: mult_ac)
qed

section \<open>On concrete files\<close>

text \<open>Stored without compression; a check value of zero.\<close>

definition stored :: "bytes \<Rightarrow> bytes option" where "stored xs = Some xs"

theorem png_file_decoded_witness:
  "decodePng stored (png_file (\<lambda>_. 0) 2 2 2
      [([0x67, 0x41, 0x4d, 0x41], [0, 0, 177, 143]), (IDAT, [4, 10, 20, 30, 1, 1]), (IDAT, [1, 3, 0, 10, 15, 1, 1, 4])]) =
    Inr \<lparr>im_width = 2, im_height = 2, im_data =
      concat (map pixel_rgba (concat [[[10, 20, 30], [11, 21, 31]], [[5, 20, 30], [9, 21, 34]]]))\<rparr>"
  by (rule png_file_decoded[where fs = "[4, 3]" and ch = 3]) (code_simp, simp, simp, simp, code_simp, simp_all add: chunk_ok_def png_types)

theorem png_roundtrip_witness:
  "\<exists>b. encodePng id (\<lambda>_. 0) \<lparr>im_width = 1, im_height = 2, im_data = [1, 2, 3, 4, 5, 6, 7, 8]\<rparr> = Some b \<and>
    decodePng stored b = Inr \<lparr>im_width = 1, im_height = 2, im_data = [1, 2, 3, 4, 5, 6, 7, 8]\<rparr>"
proof -
  let ?img = "\<lparr>im_width = 1, im_height = 2, im_data = [1, 2, 3, 4, 5, 6, 7, 8 :: byte]\<rparr>"
  obtain b where b: "encodePng id (\<lambda>_. 0) ?img = Some b"
    by (auto simp: encodePng_def Let_def sub_bytes_def upt_rec)
  have "decodePng stored b = Inr ?img"
    by (rule png_roundtrip[of stored id ?img, OF _ _ b]) (simp_all add: stored_def)
  then show ?thesis using b by blast
qed

end
