(* ===== verification/Image_Jpeg.thy ===== *)
theory Image_Jpeg
  imports Image_Png
begin

text \<open>
  The JPEG half of \<open>packages/vision/scripts/image-io.ts\<close>: Huffman tables, the bit reader, the entropy-coded blocks, the marker
  loop, and the conversion to RGBA. A byte past the end of the file reads as \<open>undefined\<close>, which shifts and sums turn into 0.
  Numbers are exact below \<open>2\<^sup>53\<close>, which every block of at most 11 bits per difference keeps; the inverse transform and the
  colour conversion are over the reals, without the rounding of doubles, and the transform is an argument of the decoder.
  \<open>Jpeg_endless\<close> is not an error of the code but a scan whose loop never ends.
\<close>

section \<open>Huffman tables\<close>

record huffman =
  hf_maxcode :: "int list"
  hf_valptr :: "nat list"
  hf_mincode :: "nat list"
  hf_values :: bytes

record huffman_build =
  hb_code :: nat
  hb_k :: nat
  hb_maxcode :: "int list"
  hb_valptr :: "nat list"
  hb_mincode :: "nat list"

definition huffman_length :: "bytes \<Rightarrow> nat \<Rightarrow> huffman_build \<Rightarrow> huffman_build" where
  "huffman_length counts len s =
    (let n = (case nth_opt counts (len - 1) of Some c \<Rightarrow> unat c | None \<Rightarrow> 0);
         s' = (if n \<noteq> 0 then s\<lparr>hb_valptr := (hb_valptr s)[len := hb_k s], hb_mincode := (hb_mincode s)[len := hb_code s],
                 hb_code := hb_code s + n, hb_k := hb_k s + n,
                 hb_maxcode := (hb_maxcode s)[len := int (hb_code s + n) - 1]\<rparr> else s)
     in s'\<lparr>hb_code := 2 * hb_code s'\<rparr>)"

definition no_codes :: huffman_build where
  "no_codes = \<lparr>hb_code = 0, hb_k = 0, hb_maxcode = replicate 17 (- 1), hb_valptr = replicate 17 0, hb_mincode = replicate 17 0\<rparr>"

definition buildHuffman :: "bytes \<Rightarrow> bytes \<Rightarrow> huffman" where
  "buildHuffman counts values =
    (let s = fold (huffman_length counts) [1..<17] no_codes
     in \<lparr>hf_maxcode = hb_maxcode s, hf_valptr = hb_valptr s, hf_mincode = hb_mincode s, hf_values = values\<rparr>)"

section \<open>The bit reader\<close>

record bit_reader =
  br_bits :: nat
  br_nbits :: nat
  br_pos :: nat

definition reader_at :: "nat \<Rightarrow> bit_reader" where
  "reader_at p = \<lparr>br_bits = 0, br_nbits = 0, br_pos = p\<rparr>"

definition next_byte :: "bytes \<Rightarrow> bit_reader \<Rightarrow> bit_reader" where
  "next_byte d r =
    (let b = (case nth_opt d (br_pos r) of Some v \<Rightarrow> unat v | None \<Rightarrow> 0)
     in if b = 255 then
          (if nth_opt d (br_pos r + 1) = Some 0 then \<lparr>br_bits = 255, br_nbits = 8, br_pos = br_pos r + 2\<rparr>
           else \<lparr>br_bits = 0, br_nbits = 8, br_pos = br_pos r\<rparr>)
        else \<lparr>br_bits = b, br_nbits = 8, br_pos = br_pos r + 1\<rparr>)"

definition read_bit :: "bytes \<Rightarrow> bit_reader \<Rightarrow> nat \<times> bit_reader" where
  "read_bit d r = (let r' = (if br_nbits r = 0 then next_byte d r else r); n = br_nbits r' - 1
     in (br_bits r' div 2 ^ n mod 2, r'\<lparr>br_nbits := n\<rparr>))"

text \<open>The accumulator is a 32-bit integer: \<open><<\<close> and \<open>|\<close> wrap.\<close>

fun receive_from :: "bytes \<Rightarrow> nat \<Rightarrow> 32 word \<Rightarrow> bit_reader \<Rightarrow> 32 word \<times> bit_reader" where
  "receive_from d 0 v r = (v, r)"
| "receive_from d (Suc n) v r = (case read_bit d r of (b, r') \<Rightarrow> receive_from d n (2 * v + of_nat b) r')"

definition receive :: "bytes \<Rightarrow> nat \<Rightarrow> bit_reader \<Rightarrow> int \<times> bit_reader" where
  "receive d n r = (case receive_from d n 0 r of (v, r') \<Rightarrow> (sint v, r'))"

text \<open>The value of a code: None past the end of the table's values.\<close>

definition huffman_value :: "huffman \<Rightarrow> nat \<Rightarrow> nat \<Rightarrow> byte option" where
  "huffman_value h len code = (let i = int (hf_valptr h ! len) + int code - int (hf_mincode h ! len)
     in if i < 0 then None else nth_opt (hf_values h) (nat i))"

function decode_from :: "bytes \<Rightarrow> huffman \<Rightarrow> nat \<Rightarrow> nat \<Rightarrow> bit_reader \<Rightarrow> image_error + (byte option \<times> bit_reader)" where
  "decode_from d h code len r =
    (if int code > hf_maxcode h ! len then
       (case read_bit d r of (b, r') \<Rightarrow> if len + 1 > 16 then Inl Jpeg_code else decode_from d h (2 * code + b) (len + 1) r')
     else Inr (huffman_value h len code, r))"
  by pat_completeness auto
termination
  by (relation "measure (\<lambda>(d, h, code, len, r). 17 - len)") auto

declare decode_from.simps [simp del]

text \<open>A missing table throws after its first bit.\<close>

definition decode_symbol :: "bytes \<Rightarrow> huffman option \<Rightarrow> bit_reader \<Rightarrow> image_error + (byte option \<times> bit_reader)" where
  "decode_symbol d t r = (case t of
     None \<Rightarrow> Inl Jpeg_table | Some h \<Rightarrow> (case read_bit d r of (b, r') \<Rightarrow> decode_from d h b 1 r'))"

function skip_to_restart :: "bytes \<Rightarrow> nat \<Rightarrow> nat" where
  "skip_to_restart d p =
    (if p + 1 < length d \<and> \<not> (d ! p = 255 \<and> d ! (p + 1) \<ge> 0xd0 \<and> d ! (p + 1) \<le> 0xd7) then skip_to_restart d (p + 1) else p)"
  by pat_completeness auto
termination
  by (relation "measure (\<lambda>(d, p). length d - p)") auto

declare skip_to_restart.simps [simp del]

definition restart :: "bytes \<Rightarrow> bit_reader \<Rightarrow> bit_reader" where
  "restart d r = r\<lparr>br_nbits := 0, br_pos := skip_to_restart d (br_pos r) + 2\<rparr>"

section \<open>Blocks\<close>

definition shl1 :: "nat \<Rightarrow> int" where
  "shl1 t = sint (push_bit (t mod 32) (1 :: 32 word))"

definition extend_value :: "int \<Rightarrow> nat \<Rightarrow> int" where
  "extend_value v t = (if v < shl1 (t - 1) then v - shl1 t + 1 else v)"

definition to_int32 :: "int \<Rightarrow> int" where
  "to_int32 n = sint (word_of_int n :: 32 word)"

definition NATURAL :: "nat list" where
  "NATURAL =
    [0, 1, 8, 16, 9, 2, 3, 10, 17, 24, 32, 25, 18, 11, 4, 5, 12, 19, 26, 33, 40, 48, 41, 34, 27, 20, 13, 6, 7, 14, 21, 28,
     35, 42, 49, 56, 57, 50, 43, 36, 29, 22, 15, 23, 30, 37, 44, 51, 58, 59, 52, 45, 38, 31, 39, 46, 53, 60, 61, 54, 47, 55, 62, 63]"

text \<open>The difference of the first coefficient, over its code: an undefined code reads no bits.\<close>

definition read_difference :: "bytes \<Rightarrow> byte option \<Rightarrow> bit_reader \<Rightarrow> int \<times> bit_reader" where
  "read_difference d t r = (case t of
     None \<Rightarrow> (0, r)
   | Some b \<Rightarrow> if b = 0 then (0, r) else (case receive d (unat b) r of (v, r') \<Rightarrow> (extend_value v (unat b), r')))"

function read_ac :: "bytes \<Rightarrow> huffman option \<Rightarrow> int list \<Rightarrow> nat \<Rightarrow> int list \<Rightarrow> bit_reader
    \<Rightarrow> image_error + (int list \<times> bit_reader)" where
  "read_ac d t q k coef r =
    (if k < 64 then
       (case decode_symbol d t r of
          Inl e \<Rightarrow> Inl e
        | Inr (sm, r1) \<Rightarrow>
            let rs = (case sm of Some b \<Rightarrow> unat b | None \<Rightarrow> 0); run = rs div 16; s = rs mod 16
            in if s = 0 then (if run = 15 then read_ac d t q (k + 16) coef r1 else Inr (coef, r1))
               else if k + run > 63 then Inr (coef, r1)
               else (case receive d s r1 of (v, r2) \<Rightarrow>
                 read_ac d t q (k + run + 1) (coef[NATURAL ! (k + run) := to_int32 (extend_value v s * q ! (k + run))]) r2))
     else Inr (coef, r))"
  by pat_completeness auto
termination
  by (relation "measure (\<lambda>(d, t, q, k, coef, r). 64 - k)") auto

declare read_ac.simps [simp del]

record jpeg_component =
  jc_id :: "byte option"
  jc_h :: nat
  jc_v :: nat
  jc_tq :: "byte option"
  jc_td :: nat
  jc_ta :: nat
  jc_pred :: int
  jc_bw :: nat
  jc_bh :: nat
  jc_plane :: bytes

record jpeg_tables =
  jt_qt :: "nat \<Rightarrow> int list option"
  jt_dc :: "nat \<Rightarrow> huffman option"
  jt_ac :: "nat \<Rightarrow> huffman option"

text \<open>The coefficients of a block, and the new prediction.\<close>

definition read_block :: "bytes \<Rightarrow> jpeg_tables \<Rightarrow> jpeg_component \<Rightarrow> bit_reader
    \<Rightarrow> image_error + (int list \<times> int \<times> bit_reader)" where
  "read_block d t c r = (case decode_symbol d (jt_dc t (jc_td c)) r of
     Inl e \<Rightarrow> Inl e
   | Inr (sm, r1) \<Rightarrow> (case read_difference d sm r1 of (df, r2) \<Rightarrow>
       (case Option.bind (map_option unat (jc_tq c)) (jt_qt t) of
          None \<Rightarrow> Inl Jpeg_table
        | Some q \<Rightarrow> let p = jc_pred c + df in
            (case read_ac d (jt_ac t (jc_ta c)) q 1 ((replicate 64 0)[0 := to_int32 (p * q ! 0)]) r2 of
               Inl e \<Rightarrow> Inl e | Inr (coef, r3) \<Rightarrow> Inr (coef, p, r3)))))"

text \<open>The 64 samples of a block, row by row; a write past the plane is dropped.\<close>

definition put_block :: "bytes \<Rightarrow> nat \<Rightarrow> nat \<Rightarrow> nat \<Rightarrow> bytes \<Rightarrow> bytes" where
  "put_block plane stride x0 y0 px =
    fold (\<lambda>i p. p[(y0 + i div 8) * stride + x0 + i mod 8 := px ! i]) [0..<64] plane"

section \<open>Scans\<close>

fun decode_blocks :: "(int list \<Rightarrow> bytes) \<Rightarrow> bytes \<Rightarrow> jpeg_tables \<Rightarrow> (nat \<times> nat \<times> nat) list
    \<Rightarrow> jpeg_component list \<Rightarrow> bit_reader \<Rightarrow> image_error + (jpeg_component list \<times> bit_reader)" where
  "decode_blocks tr d t [] cs r = Inr (cs, r)"
| "decode_blocks tr d t ((i, bx, by) # bs) cs r = (case read_block d t (cs ! i) r of
     Inl e \<Rightarrow> Inl e
   | Inr (coef, p, r') \<Rightarrow> decode_blocks tr d t bs (cs[i := (cs ! i)\<lparr>jc_pred := p,
       jc_plane := put_block (jc_plane (cs ! i)) (jc_bw (cs ! i) * 8) (bx * 8) (by * 8) (tr coef)\<rparr>]) r')"

text \<open>The blocks of one MCU: one block when the scan has a single component.\<close>

definition mcu_blocks :: "jpeg_component list \<Rightarrow> nat list \<Rightarrow> nat \<Rightarrow> nat \<Rightarrow> (nat \<times> nat \<times> nat) list" where
  "mcu_blocks cs scs perRow m = (let mx = m mod perRow; my = m div perRow in
     if length scs = 1 then [(hd scs, mx, my)]
     else concat (map (\<lambda>i. concat (map (\<lambda>v. map (\<lambda>h. (i, mx * jc_h (cs ! i) + h, my * jc_v (cs ! i) + v))
       [0..<jc_h (cs ! i)]) [0..<jc_v (cs ! i)])) scs))"

definition clear_preds :: "nat list \<Rightarrow> jpeg_component list \<Rightarrow> jpeg_component list" where
  "clear_preds scs cs = fold (\<lambda>i c. c[i := (c ! i)\<lparr>jc_pred := 0\<rparr>]) scs cs"

fun scan_mcus :: "(int list \<Rightarrow> bytes) \<Rightarrow> bytes \<Rightarrow> jpeg_tables \<Rightarrow> nat \<Rightarrow> nat list \<Rightarrow> nat \<Rightarrow> nat \<Rightarrow> nat
    \<Rightarrow> jpeg_component list \<Rightarrow> bit_reader \<Rightarrow> image_error + (jpeg_component list \<times> bit_reader)" where
  "scan_mcus tr d t ri scs perRow m 0 cs r = Inr (cs, r)"
| "scan_mcus tr d t ri scs perRow m (Suc n) cs r =
    (let again = ri \<noteq> 0 \<and> m > 0 \<and> m mod ri = 0;
         cs' = (if again then clear_preds scs cs else cs); r' = (if again then restart d r else r)
     in case decode_blocks tr d t (mcu_blocks cs' scs perRow m) cs' r' of
          Inl e \<Rightarrow> Inl e
        | Inr (cs2, r2) \<Rightarrow> scan_mcus tr d t ri scs perRow (m + 1) n cs2 r2)"

definition is_marker :: "byte \<Rightarrow> byte \<Rightarrow> bool" where
  "is_marker a b \<longleftrightarrow> a = 255 \<and> b \<noteq> 0 \<and> \<not> (b \<ge> 0xd0 \<and> b \<le> 0xd7)"

function next_marker :: "bytes \<Rightarrow> nat \<Rightarrow> nat" where
  "next_marker d p = (if p + 1 < length d \<and> \<not> is_marker (d ! p) (d ! (p + 1)) then next_marker d (p + 1) else p)"
  by pat_completeness auto
termination
  by (relation "measure (\<lambda>(d, p). length d - p)") auto

declare next_marker.simps [simp del]

record jpeg_frame =
  jf_tables :: jpeg_tables
  jf_comps :: "jpeg_component list"
  jf_width :: nat
  jf_height :: nat
  jf_hmax :: nat
  jf_vmax :: nat
  jf_mcusX :: nat
  jf_mcusY :: nat
  jf_restart :: nat
  jf_scanned :: bool

definition ceil_div :: "nat \<Rightarrow> nat \<Rightarrow> nat" where
  "ceil_div a b = (a + b - 1) div b"

text \<open>
  A sampling factor of 0 divides by 0: a single-component scan then has NaN blocks and decodes none, a scan of several has
  infinitely many, none of which reads a bit, and does not end.
\<close>

definition endless_scan :: "jpeg_frame \<Rightarrow> nat list \<Rightarrow> bool" where
  "endless_scan f scs \<longleftrightarrow> length scs \<noteq> 1 \<and> jf_comps f \<noteq> [] \<and> (jf_hmax f = 0 \<or> jf_vmax f = 0) \<and> jf_width f > 0 \<and> jf_height f > 0"

definition decodeScan :: "(int list \<Rightarrow> bytes) \<Rightarrow> bytes \<Rightarrow> nat \<Rightarrow> nat list \<Rightarrow> jpeg_frame
    \<Rightarrow> image_error + (jpeg_component list \<times> nat)" where
  "decodeScan tr d start scs f =
    (if endless_scan f scs then Inl Jpeg_endless
     else let c = jf_comps f ! hd scs;
              across = ceil_div (ceil_div (jf_width f * jc_h c) (jf_hmax f)) 8;
              down = ceil_div (ceil_div (jf_height f * jc_v c) (jf_vmax f)) 8;
              count = (if length scs = 1 then across * down else jf_mcusX f * jf_mcusY f);
              perRow = (if length scs = 1 then across else jf_mcusX f)
          in case scan_mcus tr d (jf_tables f) (jf_restart f) scs perRow 0 count (jf_comps f) (reader_at start) of
               Inl e \<Rightarrow> Inl e
             | Inr (cs, r) \<Rightarrow> Inr (cs, next_marker d (br_pos r)))"

section \<open>Markers\<close>

definition byte_or_0 :: "bytes \<Rightarrow> nat \<Rightarrow> nat" where
  "byte_or_0 d p = (case nth_opt d p of Some b \<Rightarrow> unat b | None \<Rightarrow> 0)"

definition jpeg_u16 :: "bytes \<Rightarrow> nat \<Rightarrow> nat" where
  "jpeg_u16 d p = byte_or_0 d p * 256 + byte_or_0 d (p + 1)"

function read_quant :: "bytes \<Rightarrow> nat \<Rightarrow> nat \<Rightarrow> (nat \<Rightarrow> int list option) \<Rightarrow> (nat \<Rightarrow> int list option)" where
  "read_quant d p stop qt =
    (if p < stop then
       let pq = byte_or_0 d p div 16; tq = byte_or_0 d p mod 16; n = (if pq \<noteq> 0 then 2 else 1);
           t = map (\<lambda>i. int (if pq \<noteq> 0 then jpeg_u16 d (p + 1 + n * i) else byte_or_0 d (p + 1 + n * i))) [0..<64]
       in read_quant d (p + 1 + 64 * n) stop (qt(tq := Some t))
     else qt)"
  by pat_completeness auto
termination
  by (relation "measure (\<lambda>(d, p, stop, qt). stop - p)") auto

function read_huffman :: "bytes \<Rightarrow> nat \<Rightarrow> nat \<Rightarrow> jpeg_tables \<Rightarrow> jpeg_tables" where
  "read_huffman d p stop t =
    (if p < stop then
       let tc = byte_or_0 d p div 16; th = byte_or_0 d p mod 16; counts = sub_bytes d (p + 1) (p + 17);
           n = sum_list (map unat counts); table = buildHuffman counts (sub_bytes d (p + 17) (p + 17 + n))
       in read_huffman d (p + 17 + n) stop
            (if tc = 0 then t\<lparr>jt_dc := (jt_dc t)(th := Some table)\<rparr> else t\<lparr>jt_ac := (jt_ac t)(th := Some table)\<rparr>)
     else t)"
  by pat_completeness auto
termination
  by (relation "measure (\<lambda>(d, p, stop, t). stop - p)") auto

declare read_quant.simps [simp del] read_huffman.simps [simp del]

definition frame_component :: "bytes \<Rightarrow> nat \<Rightarrow> jpeg_component" where
  "frame_component d b = \<lparr>jc_id = nth_opt d b, jc_h = byte_or_0 d (b + 1) div 16, jc_v = byte_or_0 d (b + 1) mod 16,
     jc_tq = nth_opt d (b + 2), jc_td = 0, jc_ta = 0, jc_pred = 0, jc_bw = 0, jc_bh = 0, jc_plane = []\<rparr>"

definition max_factor :: "nat list \<Rightarrow> nat" where
  "max_factor xs = fold max xs 0"

definition read_frame :: "bytes \<Rightarrow> nat \<Rightarrow> jpeg_frame \<Rightarrow> image_error + jpeg_frame" where
  "read_frame d seg f =
    (if byte_or_0 d seg \<noteq> 8 then Inl Jpeg_samples
     else let height = jpeg_u16 d (seg + 1); width = jpeg_u16 d (seg + 3);
              cs = map (\<lambda>i. frame_component d (seg + 6 + i * 3)) [0..<byte_or_0 d (seg + 5)];
              hmax = max_factor (map jc_h cs); vmax = max_factor (map jc_v cs);
              mcusX = ceil_div width (8 * hmax); mcusY = ceil_div height (8 * vmax);
              sized = (\<lambda>c. let bw = mcusX * jc_h c; bh = mcusY * jc_v c
                 in c\<lparr>jc_bw := bw, jc_bh := bh, jc_plane := replicate (bw * 8 * bh * 8) 0\<rparr>)
          in Inr (f\<lparr>jf_height := height, jf_width := width, jf_comps := map sized cs, jf_hmax := hmax, jf_vmax := vmax,
               jf_mcusX := mcusX, jf_mcusY := mcusY\<rparr>))"

definition index_of :: "('a \<Rightarrow> bool) \<Rightarrow> 'a list \<Rightarrow> nat option" where
  "index_of p xs = List.find (\<lambda>i. p (xs ! i)) [0..<length xs]"

fun scan_components :: "bytes \<Rightarrow> nat \<Rightarrow> nat \<Rightarrow> nat list \<Rightarrow> jpeg_component list \<Rightarrow> image_error + (nat list \<times> jpeg_component list)" where
  "scan_components d p 0 scs cs = Inr (scs, cs)"
| "scan_components d p (Suc n) scs cs = (case index_of (\<lambda>c. jc_id c = nth_opt d p) cs of
     None \<Rightarrow> Inl Jpeg_component
   | Some i \<Rightarrow> scan_components d (p + 2) n (scs @ [i])
       (cs[i := (cs ! i)\<lparr>jc_td := byte_or_0 d (p + 1) div 16, jc_ta := byte_or_0 d (p + 1) mod 16, jc_pred := 0\<rparr>]))"

definition empty_frame :: jpeg_frame where
  "empty_frame = \<lparr>jf_tables = \<lparr>jt_qt = \<lambda>_. None, jt_dc = \<lambda>_. None, jt_ac = \<lambda>_. None\<rparr>, jf_comps = [], jf_width = 0, jf_height = 0,
     jf_hmax = 1, jf_vmax = 1, jf_mcusX = 0, jf_mcusY = 0, jf_restart = 0, jf_scanned = False\<rparr>"

section \<open>The reader never goes back\<close>

lemma read_bit_forward: "read_bit d r = (b, r') \<Longrightarrow> br_pos r \<le> br_pos r'"
  by (auto simp: read_bit_def next_byte_def Let_def split: if_splits option.splits)

lemma receive_from_forward: "receive_from d n v r = (w, r') \<Longrightarrow> br_pos r \<le> br_pos r'"
  by (induction d n v r rule: receive_from.induct) (auto split: prod.splits dest: read_bit_forward)

lemma receive_forward: "receive d n r = (w, r') \<Longrightarrow> br_pos r \<le> br_pos r'"
  by (auto simp: receive_def split: prod.splits dest: receive_from_forward)

lemma decode_from_forward: "decode_from d h c len r = Inr (x, r') \<Longrightarrow> br_pos r \<le> br_pos r'"
proof (induction d h c len r rule: decode_from.induct)
  case (1 d h c len r)
  obtain b r1 where b: "read_bit d r = (b, r1)" by fastforce
  from b have "br_pos r \<le> br_pos r1" by (rule read_bit_forward)
  with 1 b show ?case by (fastforce simp: decode_from.simps[of d h c len r] split: if_splits)
qed

lemma decode_symbol_forward: "decode_symbol d t r = Inr (x, r') \<Longrightarrow> br_pos r \<le> br_pos r'"
  by (auto simp: decode_symbol_def split: option.splits prod.splits dest!: decode_from_forward read_bit_forward)

lemma read_difference_forward: "read_difference d t r = (x, r') \<Longrightarrow> br_pos r \<le> br_pos r'"
  by (auto simp: read_difference_def split: option.splits if_splits prod.splits dest: receive_forward)

lemma read_ac_forward: "read_ac d t q k coef r = Inr (x, r') \<Longrightarrow> br_pos r \<le> br_pos r'"
proof (induction d t q k coef r rule: read_ac.induct)
  case (1 d t q k coef r)
  show ?case
  proof (cases "k < 64")
    case True
    obtain sm r1 where s: "decode_symbol d t r = Inr (sm, r1)"
      using 1(3) True by (subst (asm) read_ac.simps) (auto split: sum.splits)
    let ?rs = "case sm of Some b \<Rightarrow> unat b | None \<Rightarrow> 0"
    have p: "br_pos r \<le> br_pos r1" using s by (rule decode_symbol_forward)
    obtain v r2 where v: "receive d (?rs mod 16) r1 = (v, r2)" by fastforce
    have p2: "br_pos r1 \<le> br_pos r2" using v by (rule receive_forward)
    note step = 1(3)[unfolded read_ac.simps[of d t q k coef r] s Let_def]
    note ih = 1(1)[OF True s refl refl refl refl] 1(2)[OF True s refl refl refl refl _ _ v[symmetric]]
    show ?thesis
      using step True ih p p2 v by (auto simp: Let_def split: if_splits intro: order_trans)
  qed (use 1(3) in \<open>simp add: read_ac.simps\<close>)
qed

lemma read_block_forward: "read_block d t c r = Inr (x, p, r') \<Longrightarrow> br_pos r \<le> br_pos r'"
  by (auto simp: read_block_def Let_def split: sum.splits prod.splits option.splits
      dest!: decode_symbol_forward read_difference_forward read_ac_forward)

lemma decode_blocks_forward: "decode_blocks tr d t bs cs r = Inr (cs', r') \<Longrightarrow> br_pos r \<le> br_pos r'"
proof (induction tr d t bs cs r rule: decode_blocks.induct)
  case (2 tr d t i bx by' bs cs r)
  then show ?case by (fastforce split: sum.splits prod.splits dest: read_block_forward)
qed simp

lemma skip_to_restart_forward: "p \<le> skip_to_restart d p"
proof (induction d p rule: skip_to_restart.induct)
  case (1 d p)
  then show ?case by (auto simp: skip_to_restart.simps[of d p])
qed

lemma next_marker_forward: "p \<le> next_marker d p"
proof (induction d p rule: next_marker.induct)
  case (1 d p)
  then show ?case by (auto simp: next_marker.simps[of d p])
qed

lemma restart_forward: "br_pos r \<le> br_pos (restart d r)"
  using skip_to_restart_forward[of "br_pos r" d] by (simp add: restart_def)

lemma scan_mcus_forward: "scan_mcus tr d t ri scs perRow m n cs r = Inr (cs', r') \<Longrightarrow> br_pos r \<le> br_pos r'"
proof (induction n arbitrary: m cs r)
  case (Suc n)
  then show ?case
    by (auto simp: Let_def split: sum.splits if_splits prod.splits dest!: decode_blocks_forward
        intro: order_trans[OF restart_forward] order_trans) 
qed simp

lemma decodeScan_forward: "decodeScan tr d start scs f = Inr (cs, p) \<Longrightarrow> start \<le> p"
  by (auto simp: decodeScan_def Let_def reader_at_def split: if_splits sum.splits prod.splits
      dest!: scan_mcus_forward intro: order_trans[OF _ next_marker_forward])

section \<open>The file\<close>

text \<open>The segment between a marker and its end: a start of scan carries on at the marker after its data.\<close>

definition marker_segment :: "(int list \<Rightarrow> bytes) \<Rightarrow> bytes \<Rightarrow> nat \<Rightarrow> nat \<Rightarrow> jpeg_frame \<Rightarrow> image_error + (jpeg_frame \<times> nat)" where
  "marker_segment tr d pos marker f =
    (let seg = pos + 4; stop = pos + 2 + jpeg_u16 d (pos + 2); t = jf_tables f in
     if marker = 0xdb then Inr (f\<lparr>jf_tables := t\<lparr>jt_qt := read_quant d seg stop (jt_qt t)\<rparr>\<rparr>, stop)
     else if marker = 0xc4 then Inr (f\<lparr>jf_tables := read_huffman d seg stop t\<rparr>, stop)
     else if marker = 0xdd then Inr (f\<lparr>jf_restart := jpeg_u16 d seg\<rparr>, stop)
     else if marker = 0xc0 \<or> marker = 0xc1 then
       (case read_frame d seg f of Inl e \<Rightarrow> Inl e | Inr f' \<Rightarrow> Inr (f', stop))
     else if marker \<ge> 0xc2 \<and> marker \<le> 0xcf \<and> marker \<noteq> 0xc4 \<and> marker \<noteq> 0xc8 \<and> marker \<noteq> 0xcc then Inl Jpeg_not_baseline
     else if marker = 0xda then
       (case scan_components d (seg + 1) (byte_or_0 d seg) [] (jf_comps f) of
          Inl e \<Rightarrow> Inl e
        | Inr (scs, cs) \<Rightarrow>
            (case decodeScan tr d stop scs (f\<lparr>jf_comps := cs\<rparr>) of
               Inl e \<Rightarrow> Inl e
             | Inr (cs', p) \<Rightarrow> Inr (f\<lparr>jf_comps := cs', jf_scanned := True\<rparr>, p)))
     else Inr (f, stop))"

lemma marker_segment_forward: "marker_segment tr d pos marker f = Inr (f', p) \<Longrightarrow> pos < p"
  by (auto simp: marker_segment_def Let_def split: if_splits sum.splits prod.splits dest!: decodeScan_forward)

function decode_markers :: "(int list \<Rightarrow> bytes) \<Rightarrow> bytes \<Rightarrow> nat \<Rightarrow> jpeg_frame \<Rightarrow> image_error + jpeg_frame" where
  "decode_markers tr d pos f =
    (if pos < length d then
       if d ! pos \<noteq> 0xff then decode_markers tr d (pos + 1) f
       else let marker = byte_or_0 d (pos + 1) in
         if marker = 0xff then decode_markers tr d (pos + 1) f
         else if marker = 0xd9 then Inr f
         else if marker = 0xd8 \<or> (marker \<ge> 0xd0 \<and> marker \<le> 0xd7) \<or> marker = 1 then decode_markers tr d (pos + 2) f
         else (case marker_segment tr d pos marker f of
           Inl e \<Rightarrow> Inl e | Inr (f', p) \<Rightarrow> decode_markers tr d p f')
     else Inr f)"
  by pat_completeness auto
termination
  by (relation "measure (\<lambda>(tr, d, pos, f). length d - pos)") (auto intro!: diff_less_mono2 dest: marker_segment_forward)

declare decode_markers.simps [simp del]

section \<open>Colours\<close>

text \<open>What a \<open>Uint8ClampedArray\<close> stores of a number: clamped, halves to even.\<close>

definition clamp8 :: "real \<Rightarrow> byte" where
  "clamp8 x = (if x \<le> 0 then 0 else if x \<ge> 255 then 255
     else let n = \<lfloor>x\<rfloor>; r = x - of_int n
       in word_of_int (if r < 1 / 2 then n else if r > 1 / 2 then n + 1 else if even n then n else n + 1))"

definition sample :: "nat \<Rightarrow> nat \<Rightarrow> jpeg_component \<Rightarrow> nat \<Rightarrow> nat \<Rightarrow> byte option" where
  "sample hmax vmax c x y = (if hmax = 0 \<or> vmax = 0 then None
     else nth_opt (jc_plane c) (y * jc_v c div vmax * jc_bw c * 8 + x * jc_h c div hmax))"

text \<open>An undefined sample makes the value NaN, which is stored as 0.\<close>

definition grey_pixel :: "byte option \<Rightarrow> bytes" where
  "grey_pixel s = (let g = (case s of Some b \<Rightarrow> b | None \<Rightarrow> 0) in [g, g, g, 255])"

definition ycc_pixel :: "byte option \<Rightarrow> byte option \<Rightarrow> byte option \<Rightarrow> bytes" where
  "ycc_pixel Y Cb Cr =
    (let num = (\<lambda>b. real (unat b)) in
     [case (Y, Cr) of (Some y, Some r) \<Rightarrow> clamp8 (num y + 1402 / 1000 * (num r - 128)) | _ \<Rightarrow> 0,
      case (Y, Cb, Cr) of (Some y, Some b, Some r) \<Rightarrow>
        clamp8 (num y - 344136 / 1000000 * (num b - 128) - 714136 / 1000000 * (num r - 128)) | _ \<Rightarrow> 0,
      case (Y, Cb) of (Some y, Some b) \<Rightarrow> clamp8 (num y + 1772 / 1000 * (num b - 128)) | _ \<Rightarrow> 0,
      255])"

definition toRgba :: "jpeg_component list \<Rightarrow> nat \<Rightarrow> nat \<Rightarrow> nat \<Rightarrow> nat \<Rightarrow> image_error + rgba_image" where
  "toRgba cs w h hmax vmax =
    (let s = (\<lambda>k x y. sample hmax vmax (cs ! k) x y);
         pixels = (\<lambda>px. Inr \<lparr>im_width = w, im_height = h, im_data = concat (map (\<lambda>y. concat (map (\<lambda>x. px x y) [0..<w])) [0..<h])\<rparr>)
     in if length cs = 1 then pixels (\<lambda>x y. grey_pixel (s 0 x y))
        else if length cs = 3 then pixels (\<lambda>x y. ycc_pixel (s 0 x y) (s 1 x y) (s 2 x y))
        else Inl Jpeg_colours)"

section \<open>The inverse transform\<close>

definition COS :: "nat \<Rightarrow> nat \<Rightarrow> real" where
  "COS x u = (if u = 0 then sqrt (1 / 2) else 1) * cos ((2 * real x + 1) * real u * pi / 16) / 2"

definition idct_row :: "int list \<Rightarrow> nat \<Rightarrow> nat \<Rightarrow> real" where
  "idct_row coef v x = (\<Sum>u = 0..<8. COS x u * of_int (coef ! (v * 8 + u)))"

definition idct_sample :: "int list \<Rightarrow> nat \<Rightarrow> nat \<Rightarrow> byte" where
  "idct_sample coef y x = clamp8 (of_int \<lfloor>(\<Sum>v = 0..<8. COS y v * idct_row coef v x) + 128 + 1 / 2\<rfloor>)"

definition idct :: "int list \<Rightarrow> bytes" where
  "idct coef = map (\<lambda>i. idct_sample coef (i div 8) (i mod 8)) [0..<64]"

definition decode_jpeg :: "(int list \<Rightarrow> bytes) \<Rightarrow> bytes \<Rightarrow> image_error + rgba_image" where
  "decode_jpeg tr d = (case decode_markers tr d 2 empty_frame of
     Inl e \<Rightarrow> Inl e
   | Inr f \<Rightarrow> if \<not> jf_scanned f \<or> jf_width f = 0 \<or> jf_height f = 0 then Inl Jpeg_no_data
       else toRgba (jf_comps f) (jf_width f) (jf_height f) (jf_hmax f) (jf_vmax f))"

definition decodeJpeg :: "bytes \<Rightarrow> image_error + rgba_image" where
  "decodeJpeg d = decode_jpeg idct d"

definition decodeImage :: "(bytes \<Rightarrow> bytes option) \<Rightarrow> bytes \<Rightarrow> image_error + rgba_image" where
  "decodeImage inflate b =
    (if take 2 b = [0xff, 0xd8] then decodeJpeg b
     else if take 4 b = [0x89, 0x50, 0x4e, 0x47] then decodePng inflate b
     else Inl Unsupported_format)"

end
