(* ===== verification/Jpeg_Facts.thy ===== *)
theory Jpeg_Facts
  imports Image_Jpeg "HOL-Library.Log_Nat"
begin

text \<open>
  The entropy coding of \<open>packages/vision/scripts/image-io.ts\<close> undoes the coding of the JPEG specification: byte stuffing, canonical
  Huffman codes, amplitudes, runs of zeros, zig-zag order. The encoder here is the specification's, not the program's.
\<close>

section \<open>Bits\<close>

text \<open>Reading the bits \<open>bs\<close> takes the reader from \<open>r\<close> to \<open>r'\<close>.\<close>

fun bits_ahead :: "bytes \<Rightarrow> bit_reader \<Rightarrow> nat list \<Rightarrow> bit_reader \<Rightarrow> bool" where
  "bits_ahead d r [] r' \<longleftrightarrow> r = r'"
| "bits_ahead d r (b # bs) r' \<longleftrightarrow> fst (read_bit d r) = b \<and> bits_ahead d (snd (read_bit d r)) bs r'"

lemma bits_ahead_append: "bits_ahead d r (xs @ ys) r' \<longleftrightarrow> (\<exists>m. bits_ahead d r xs m \<and> bits_ahead d m ys r')"
  by (induction xs arbitrary: r) auto

fun digits :: "nat \<Rightarrow> nat \<Rightarrow> nat list" where
  "digits 0 v = []"
| "digits (Suc n) v = digits n (v div 2) @ [v mod 2]"

definition number :: "nat \<Rightarrow> nat list \<Rightarrow> nat" where
  "number a bs = foldl (\<lambda>a b. 2 * a + b) a bs"

lemma number_simps [simp]:
  "number a [] = a" "number a (b # bs) = number (2 * a + b) bs" "number a (xs @ ys) = number (number a xs) ys"
  by (simp_all add: number_def)

lemma length_digits [simp]: "length (digits n v) = n"
  by (induction n arbitrary: v) auto

lemma number_of_digits: "number a (digits n v) = a * 2 ^ n + v mod 2 ^ n"
proof (induction n arbitrary: v)
  case (Suc n)
  have "v mod (2 * 2 ^ n) = 2 * (v div 2 mod 2 ^ n) + v mod 2" by (simp add: mod_mult2_eq)
  then show ?case using Suc by (simp add: algebra_simps)
qed simp

definition byte_bits :: "byte \<Rightarrow> nat list" where
  "byte_bits b = digits 8 (unat b)"

text \<open>Byte stuffing: a 255 of the data is followed by a 0.\<close>

definition stuff_byte :: "byte \<Rightarrow> bytes" where
  "stuff_byte b = (if b = 255 then [255, 0] else [b])"

lemma read_bit_inside:
  "br_nbits r = Suc n \<Longrightarrow> read_bit d r = (br_bits r div 2 ^ n mod 2, r\<lparr>br_nbits := n\<rparr>)"
  by (simp add: read_bit_def)

lemma digits_ahead:
  "br_nbits r = n \<Longrightarrow> bits_ahead d r (map (\<lambda>i. br_bits r div 2 ^ i mod 2) (rev [0..<n])) (r\<lparr>br_nbits := 0\<rparr>)"
proof (induction n arbitrary: r)
  case (Suc n)
  then show ?case using Suc.IH[of "r\<lparr>br_nbits := n\<rparr>"] by (simp add: read_bit_inside)
qed simp

lemma digits_map: "digits n v = map (\<lambda>i. v div 2 ^ i mod 2) (rev [0..<n])"
proof (induction n arbitrary: v)
  case (Suc n)
  have "rev [0..<Suc n] = map Suc (rev [0..<n]) @ [0]"
    by (simp add: upt_conv_Cons map_Suc_upt[symmetric] rev_map del: upt_Suc)
  then show ?case using Suc by (simp add: div_mult2_eq)
qed simp

lemma byte_ahead:
  assumes "br_nbits r = 0" "drop (br_pos r) d = stuff_byte b @ rest"
  shows "\<exists>r'. bits_ahead d r (byte_bits b) r' \<and> br_nbits r' = 0 \<and> br_pos r' = br_pos r + length (stuff_byte b)"
proof -
  let ?m = "next_byte d r"
  have e0: "nth_opt d (br_pos r) = Some b"
    using assms(2) nth_opt_drop[of "br_pos r" d b] by (auto simp: stuff_byte_def split: if_splits)
  have e1: "nth_opt d (br_pos r + 1) = Some 0" if "b = 255"
  proof -
    have "drop (br_pos r + 1) d = 0 # rest"
      using arg_cong[OF assms(2), of "drop 1"] that by (simp add: stuff_byte_def add.commute)
    then show ?thesis by (rule nth_opt_drop)
  qed
  have b: "unat b = 255 \<longleftrightarrow> b = 255" by (simp add: word_eq_iff_unsigned[where 'a = nat and v = b])
  have m: "br_bits ?m = unat b" "br_nbits ?m = 8" "br_pos ?m = br_pos r + length (stuff_byte b)"
    using e0 e1 b by (auto simp: next_byte_def stuff_byte_def Let_def)
  have "read_bit d r = read_bit d ?m" using assms(1) m(2) by (simp add: read_bit_def)
  then have "bits_ahead d r (byte_bits b) x = bits_ahead d ?m (byte_bits b) x" for x
    by (simp add: byte_bits_def digits_map upt_rec)
  moreover have "bits_ahead d ?m (byte_bits b) (?m\<lparr>br_nbits := 0\<rparr>)"
    using digits_ahead[OF m(2), of d] by (simp only: byte_bits_def digits_map m(1))
  ultimately show ?thesis using m(3) by auto
qed

lemma stuffed_ahead:
  "br_nbits r = 0 \<Longrightarrow> drop (br_pos r) d = concat (map stuff_byte xs) @ rest \<Longrightarrow>
    \<exists>r'. bits_ahead d r (concat (map byte_bits xs)) r' \<and> br_nbits r' = 0 \<and>
      br_pos r' = br_pos r + length (concat (map stuff_byte xs))"
proof (induction xs arbitrary: r)
  case (Cons x xs)
  obtain m where m: "bits_ahead d r (byte_bits x) m" "br_nbits m = 0" "br_pos m = br_pos r + length (stuff_byte x)"
    using byte_ahead[of r d x "concat (map stuff_byte xs) @ rest"] Cons.prems by auto
  have "drop (br_pos m) d = concat (map stuff_byte xs) @ rest"
    using arg_cong[OF Cons.prems(2), of "drop (length (stuff_byte x))"] m(3) by (simp add: add.commute)
  then obtain r' where "bits_ahead d m (concat (map byte_bits xs)) r'" "br_nbits r' = 0"
      "br_pos r' = br_pos m + length (concat (map stuff_byte xs))"
    using Cons.IH[OF m(2)] by auto
  then show ?case using m by (auto simp: bits_ahead_append)
qed simp

section \<open>Amplitudes\<close>

lemma receive_from_bits:
  "bits_ahead d r bs r' \<Longrightarrow> receive_from d (length bs) (of_nat v) r = (of_nat (number v bs), r')"
proof (induction bs arbitrary: r v)
  case (Cons b bs)
  then show ?case using Cons.IH[of "snd (read_bit d r)" "2 * v + b"] by (simp add: case_prod_beta)
qed simp

lemma sint_of_nat_small: "v < 2 ^ 31 \<Longrightarrow> sint (of_nat v :: 32 word) = int v"
  by (simp add: signed_of_nat signed_take_bit_int_eq_self)

lemma receive_bits:
  assumes "bits_ahead d r (digits n v) r'" "v < 2 ^ n" "n < 32"
  shows "receive d n r = (int v, r')"
proof -
  have "v < 2 ^ 31"
  proof -
    have "(2::nat) ^ n \<le> 2 ^ 31" using assms(3) by (intro power_increasing) auto
    then show ?thesis using assms(2) by linarith
  qed
  then have "sint (of_nat v :: 32 word) = int v" by (rule sint_of_nat_small)
  then show ?thesis
    using receive_from_bits[OF assms(1), of 0] assms(2) by (simp add: receive_def number_of_digits)
qed

text \<open>The size category and the amplitude bits of a difference or coefficient.\<close>

definition category :: "int \<Rightarrow> nat" where
  "category x = floorlog 2 (nat \<bar>x\<bar>)"

definition amplitude :: "int \<Rightarrow> nat" where
  "amplitude x = nat (if x < 0 then x + 2 ^ category x - 1 else x)"

lemma category_bounds: "x \<noteq> 0 \<Longrightarrow> 2 ^ (category x - 1) \<le> \<bar>x\<bar> \<and> \<bar>x\<bar> < 2 ^ category x"
  using floorlog_bounds[of "nat \<bar>x\<bar>" 2] by (auto simp: category_def) 

lemma shl1_small:
  assumes "t < 31"
  shows "shl1 t = 2 ^ t"
proof -
  have "push_bit t (1 :: 32 word) = of_nat (2 ^ t)" by (simp add: push_bit_eq_mult)
  moreover have "(2::nat) ^ t < 2 ^ 31" using assms by (intro power_strict_increasing) auto
  then have "sint (of_nat (2 ^ t) :: 32 word) = int (2 ^ t)"
    by (rule sint_of_nat_small)
  ultimately show ?thesis using assms by (simp add: shl1_def)
qed

lemma amplitude_less: "x \<noteq> 0 \<Longrightarrow> amplitude x < 2 ^ category x"
  using category_bounds[of x] by (auto simp: amplitude_def nat_less_iff)

lemma extend_amplitude:
  assumes "x \<noteq> 0" "category x < 31"
  shows "extend_value (int (amplitude x)) (category x) = x"
proof -
  note b = category_bounds[OF assms(1)]
  have c: "category x \<noteq> 0" using b assms(1) by (metis less_one power_0 zabs_less_one_iff)
  then have p: "(2::int) ^ category x = 2 * 2 ^ (category x - 1)"
    by (metis One_nat_def Suc_diff_1 bot_nat_0.not_eq_extremum power_Suc)
  show ?thesis
    using b p c assms by (auto simp: extend_value_def amplitude_def shl1_small)
qed

section \<open>Canonical codes\<close>

text \<open>How many codes have a length, the first of them, and the place of its value.\<close>

definition codes_of :: "bytes \<Rightarrow> nat \<Rightarrow> nat" where
  "codes_of counts len = (case nth_opt counts (len - 1) of Some c \<Rightarrow> unat c | None \<Rightarrow> 0)"

fun first_code :: "bytes \<Rightarrow> nat \<Rightarrow> nat" where
  "first_code counts 0 = 0"
| "first_code counts (Suc len) = 2 * (first_code counts len + (if len = 0 then 0 else codes_of counts len))"

fun first_value :: "bytes \<Rightarrow> nat \<Rightarrow> nat" where
  "first_value counts 0 = 0"
| "first_value counts (Suc len) = first_value counts len + (if len = 0 then 0 else codes_of counts len)"

definition built_to :: "bytes \<Rightarrow> nat \<Rightarrow> huffman_build \<Rightarrow> bool" where
  "built_to counts n s \<longleftrightarrow> hb_code s = first_code counts n \<and> hb_k s = first_value counts n \<and>
     length (hb_maxcode s) = 17 \<and> length (hb_valptr s) = 17 \<and> length (hb_mincode s) = 17 \<and>
     (\<forall>l. 1 \<le> l \<and> l < n \<longrightarrow> (if codes_of counts l = 0 then hb_maxcode s ! l = - 1
        else hb_maxcode s ! l = int (first_code counts l + codes_of counts l) - 1 \<and>
          hb_valptr s ! l = first_value counts l \<and> hb_mincode s ! l = first_code counts l)) \<and>
     (\<forall>l. n \<le> l \<and> l < 17 \<longrightarrow> hb_maxcode s ! l = - 1)"

lemma built_start: "built_to counts 1 no_codes"
  by (simp add: built_to_def no_codes_def del: replicate.simps)

lemma huffman_length_codes:
  "huffman_length counts len s = (if codes_of counts len = 0 then s\<lparr>hb_code := 2 * hb_code s\<rparr>
     else s\<lparr>hb_valptr := (hb_valptr s)[len := hb_k s], hb_mincode := (hb_mincode s)[len := hb_code s],
       hb_maxcode := (hb_maxcode s)[len := int (hb_code s + codes_of counts len) - 1],
       hb_code := 2 * (hb_code s + codes_of counts len), hb_k := hb_k s + codes_of counts len\<rparr>)"
  by (simp add: huffman_length_def codes_of_def Let_def)

lemma built_step:
  assumes "built_to counts n s" "1 \<le> n" "n < 17"
  shows "built_to counts (Suc n) (huffman_length counts n s)"
  using assms by (auto simp: built_to_def huffman_length_codes nth_list_update less_Suc_eq)

lemma built_all: "m \<le> 16 \<Longrightarrow> built_to counts (m + 1) (fold (huffman_length counts) [1..<m + 1] no_codes)"
proof (induction m)
  case (Suc m)
  then show ?case using built_step[of counts "m + 1"] by simp
qed (use built_start in simp)

lemma built_table:
  "\<exists>s. built_to counts 17 s \<and> buildHuffman counts vals =
    \<lparr>hf_maxcode = hb_maxcode s, hf_valptr = hb_valptr s, hf_mincode = hb_mincode s, hf_values = vals\<rparr>"
  using built_all[of 16 counts] by (auto simp: buildHuffman_def Let_def)

lemma first_code_grows:
  assumes "1 \<le> l" "l \<le> m"
  shows "2 ^ (m - l) * (first_code counts l + (if l < m then codes_of counts l else 0)) \<le> first_code counts m"
  using assms(2)
proof (induction m)
  case (Suc m)
  show ?case
  proof (cases "l = Suc m")
    case False
    with Suc have le: "l \<le> m" "Suc m - l = Suc (m - l)" by auto
    have "2 ^ (m - l) * (first_code counts l + codes_of counts l) \<le> first_code counts m + codes_of counts m"
    proof (cases "l = m")
      case False
      then show ?thesis using Suc.IH le by (simp add: trans_le_add1)
    qed simp
    then show ?thesis using le assms(1) False by (auto simp: algebra_simps)
  qed simp
qed (use assms in simp)

text \<open>The code of the \<open>j\<close>th value of a length, and what the reader makes of it.\<close>

definition code_bits :: "bytes \<Rightarrow> nat \<Rightarrow> nat \<Rightarrow> nat list" where
  "code_bits counts len j = digits len (first_code counts len + j)"

lemma digits_take: "n \<le> m \<Longrightarrow> take n (digits m v) = digits n (v div 2 ^ (m - n))"
proof (induction m arbitrary: v)
  case (Suc m)
  show ?case
  proof (cases "n = Suc m")
    case True
    then show ?thesis by (metis length_digits diff_self_eq_0 div_by_1 order_refl power_0 take_all)
  next
    case False
    then have "n \<le> m" using Suc.prems by simp
    then show ?thesis using Suc.IH[of "v div 2"] by (simp add: Suc_diff_le div_mult2_eq)
  qed
qed simp

lemma decode_from_code:
  assumes t: "built_to counts 17 s" and l: "len + n \<le> 16" "1 \<le> len"
    and j: "j < codes_of counts (len + n)"
    and v: "v = first_code counts (len + n) + j"
    and h: "h = \<lparr>hf_maxcode = hb_maxcode s, hf_valptr = hb_valptr s, hf_mincode = hb_mincode s, hf_values = vals\<rparr>"
    and ahead: "bits_ahead d r (digits n v) r'"
  shows "decode_from d h (v div 2 ^ n) len r = Inr (nth_opt vals (first_value counts (len + n) + j), r')"
  using l j v ahead
proof (induction n arbitrary: len r)
  case 0
  then have "int v \<le> hb_maxcode s ! len" "hb_valptr s ! len = first_value counts len" "hb_mincode s ! len = first_code counts len"
    using t by (auto simp: built_to_def)
  then show ?case using 0 by (simp add: decode_from.simps h huffman_value_def nat_int_add)
next
  case (Suc n)
  let ?c = "v div 2 ^ Suc n"
  have more: "int ?c > hb_maxcode s ! len"
  proof (cases "codes_of counts len = 0")
    case False
    have "2 ^ Suc n * (first_code counts len + codes_of counts len) \<le> first_code counts (len + Suc n)"
      using first_code_grows[of len "len + Suc n" counts] Suc.prems by simp
    then have "first_code counts len + codes_of counts len \<le> ?c"
      using Suc.prems(4) by (simp add: less_eq_div_iff_mult_less_eq mult.commute)
    moreover have "hb_maxcode s ! len = int (first_code counts len + codes_of counts len) - 1"
      using t False Suc.prems by (simp add: built_to_def)
    ultimately show ?thesis by simp
  qed (use t Suc.prems in \<open>simp add: built_to_def\<close>)
  have ds: "digits (Suc n) v = (v div 2 ^ n mod 2) # digits n v"
    by (simp add: digits_map)
  obtain r1 where b: "read_bit d r = (v div 2 ^ n mod 2, r1)" "bits_ahead d r1 (digits n v) r'"
    using Suc.prems(5) unfolding ds by (cases "read_bit d r") auto
  have c: "2 * ?c + v div 2 ^ n mod 2 = v div 2 ^ n"
    by (metis div_mult2_eq mult.commute mult_div_mod_eq power_Suc)
  have "decode_from d h (v div 2 ^ n) (len + 1) r1 = Inr (nth_opt vals (first_value counts (len + 1 + n) + j), r')"
    by (rule Suc.IH) (use Suc.prems b in auto)
  moreover have "decode_from d h ?c len r = decode_from d h (v div 2 ^ n) (len + 1) r1"
    unfolding decode_from.simps[of d h ?c len r] using more Suc.prems(1) b c by (simp add: h)
  ultimately show ?case by (simp only: add_Suc_right add_Suc Suc_eq_plus1[symmetric])
qed

lemma symbol_decoded:
  assumes "1 \<le> len" "len \<le> 16" "j < codes_of counts len" "first_code counts len + j < 2 ^ len"
    and "bits_ahead d r (code_bits counts len j) r'"
  shows "decode_symbol d (Some (buildHuffman counts vals)) r = Inr (nth_opt vals (first_value counts len + j), r')"
proof -
  obtain s where s: "built_to counts 17 s" "buildHuffman counts vals =
    \<lparr>hf_maxcode = hb_maxcode s, hf_valptr = hb_valptr s, hf_mincode = hb_mincode s, hf_values = vals\<rparr>"
    using built_table by blast
  obtain n where n: "len = Suc n" using assms(1) by (cases len) auto
  let ?v = "first_code counts len + j"
  have ds: "digits len ?v = (?v div 2 ^ n) # digits n ?v"
  proof -
    have "?v div 2 ^ n < 2" using assms(4) n by (simp add: less_mult_imp_div_less)
    then show ?thesis by (simp add: n digits_map)
  qed
  obtain r1 where b: "read_bit d r = (?v div 2 ^ n, r1)" "bits_ahead d r1 (digits n ?v) r'"
    using assms(5) unfolding code_bits_def ds by (cases "read_bit d r") auto
  have "decode_from d (buildHuffman counts vals) (?v div 2 ^ n) 1 r1 = Inr (nth_opt vals (first_value counts (1 + n) + j), r')"
    by (rule decode_from_code[OF s(1) _ _ _ _ s(2) b(2)]) (use assms n in auto)
  then show ?thesis using b(1) by (simp add: decode_symbol_def n)
qed

text \<open>The table is a prefix code: the codes of each length fit it.\<close>

definition prefix_codes :: "bytes \<Rightarrow> bool" where
  "prefix_codes counts \<longleftrightarrow> (\<forall>len \<in> set [1..<17]. first_code counts len + codes_of counts len \<le> 2 ^ len)"

definition code_of :: "bytes \<Rightarrow> bytes \<Rightarrow> byte \<Rightarrow> nat list option" where
  "code_of counts vals sm = map_option (\<lambda>(len, j). code_bits counts len j)
     (List.find (\<lambda>(len, j). nth_opt vals (first_value counts len + j) = Some sm)
       (concat (map (\<lambda>len. map (Pair len) [0..<codes_of counts len]) [1..<17])))"

definition decodes :: "huffman option \<Rightarrow> (byte \<Rightarrow> nat list option) \<Rightarrow> bool" where
  "decodes t c \<longleftrightarrow> (\<forall>sm bs d r r'. c sm = Some bs \<longrightarrow> bits_ahead d r bs r' \<longrightarrow> decode_symbol d t r = Inr (Some sm, r'))"

lemma code_of_decodes:
  assumes "prefix_codes counts"
  shows "decodes (Some (buildHuffman counts vals)) (code_of counts vals)"
  unfolding decodes_def
proof (intro allI impI)
  fix sm bs d r r'
  assume "code_of counts vals sm = Some bs" and ahead: "bits_ahead d r bs r'"
  then obtain len j where bs: "bs = code_bits counts len j"
    and f: "List.find (\<lambda>(len, j). nth_opt vals (first_value counts len + j) = Some sm)
       (concat (map (\<lambda>len. map (Pair len) [0..<codes_of counts len]) [1..<17])) = Some (len, j)"
    by (auto simp: code_of_def)
  then have v: "nth_opt vals (first_value counts len + j) = Some sm" and l: "len \<in> set [1..<17]" "j < codes_of counts len"
    by (auto simp: find_Some_iff in_set_conv_nth[symmetric] dest!: nth_mem)
  have "first_code counts len + codes_of counts len \<le> 2 ^ len" using assms l(1) by (simp add: prefix_codes_def)
  then show "decode_symbol d (Some (buildHuffman counts vals)) r = Inr (Some sm, r')"
    using symbol_decoded[of len j counts d r r' vals] l ahead bs v by auto
qed

section \<open>The coding of a block\<close>

text \<open>Runs of zeros and amplitudes, with the end-of-block code unless the last coefficient is not 0.\<close>

fun ac_code :: "(byte \<Rightarrow> nat list option) \<Rightarrow> nat \<Rightarrow> int list \<Rightarrow> nat list option" where
  "ac_code c run [] = (if run = 0 then Some [] else c 0)"
| "ac_code c run (x # xs) = (if x = 0 then ac_code c (run + 1) xs
     else map_option concat (those (replicate (run div 16) (c 0xf0) @
       [c (of_nat (run mod 16 * 16 + category x)), Some (digits (category x) (amplitude x)), ac_code c 0 xs])))"

definition block_code :: "(byte \<Rightarrow> nat list option) \<Rightarrow> (byte \<Rightarrow> nat list option) \<Rightarrow> int \<Rightarrow> int list \<Rightarrow> nat list option" where
  "block_code dc ac diff xs = map_option concat (those
     [dc (of_nat (category diff)), Some (digits (category diff) (amplitude diff)), ac_code ac 0 xs])"

fun placed :: "int list \<Rightarrow> nat \<Rightarrow> int list \<Rightarrow> int list \<Rightarrow> int list" where
  "placed q k [] coef = coef"
| "placed q k (x # xs) coef = placed q (k + 1) xs (if x = 0 then coef else coef[NATURAL ! k := to_int32 (x * q ! k)])"

lemma those_append: "those (xs @ ys) = (case those xs of None \<Rightarrow> None | Some as \<Rightarrow> map_option ((@) as) (those ys))"
  by (induction xs; cases "those ys") (auto simp: option.map_comp comp_def split: option.splits)

lemma those_replicate: "those (replicate n (Some z)) = Some (replicate n z)"
  by (induction n) auto

lemma zero_runs_read:
  assumes t: "decodes t c" and z: "c 0xf0 = Some z"
  shows "bits_ahead d r (concat (replicate n z)) m \<Longrightarrow> k + 16 * n < 64 \<Longrightarrow>
    read_ac d t q k coef r = read_ac d t q (k + 16 * n) coef m"
proof (induction n arbitrary: k r)
  case (Suc n)
  obtain r1 where r1: "bits_ahead d r z r1" "bits_ahead d r1 (concat (replicate n z)) m"
    using Suc.prems(1) by (auto simp: bits_ahead_append)
  have "decode_symbol d t r = Inr (Some 0xf0, r1)" using t z r1(1) by (auto simp: decodes_def)
  then have "read_ac d t q k coef r = read_ac d t q (k + 16) coef r1"
    using Suc.prems(2) by (simp add: read_ac.simps[of d t q k coef r])
  also have "\<dots> = read_ac d t q (k + 16 + 16 * n) coef m" by (rule Suc.IH[OF r1(2)]) (use Suc.prems(2) in simp)
  finally show ?case by (simp add: algebra_simps)
qed simp

lemma symbol_parts:
  assumes "run < 16" "s < 16"
  shows "unat (of_nat (run * 16 + s) :: byte) div 16 = run" "unat (of_nat (run * 16 + s) :: byte) mod 16 = s"
  using assms by (simp_all only: unat_of_nat) simp_all

lemma table_decodesD: "decodes t c \<Longrightarrow> c sm = Some bs \<Longrightarrow> bits_ahead d r bs r' \<Longrightarrow> decode_symbol d t r = Inr (Some sm, r')"
  by (simp add: decodes_def)

lemma coefficient_read:
  assumes t: "decodes t c" and x: "x \<noteq> 0" "category x < 16" and k: "k + run < 64" "run < 16"
    and y: "c (of_nat (run * 16 + category x)) = Some y"
    and ahead: "bits_ahead d r (y @ digits (category x) (amplitude x)) m"
  shows "read_ac d t q k coef r = read_ac d t q (k + run + 1) (coef[NATURAL ! (k + run) := to_int32 (x * q ! (k + run))]) m"
proof -
  have s: "category x \<noteq> 0" using category_bounds[OF x(1)] x(1) by (auto dest: order.strict_trans2)
  obtain r1 where r1: "bits_ahead d r y r1" "bits_ahead d r1 (digits (category x) (amplitude x)) m"
    using ahead by (auto simp: bits_ahead_append)
  have v: "receive d (category x) r1 = (int (amplitude x), m)"
    using receive_bits[OF r1(2)] amplitude_less[OF x(1)] x(2) by simp
  show ?thesis
    using table_decodesD[OF t y r1(1)] k s x v extend_amplitude[OF x(1)]
    by (simp add: read_ac.simps[of d t q k coef r] Let_def symbol_parts del: of_nat_add of_nat_mult)
qed

lemma ac_code_parts:
  assumes "ac_code c run (x # xs) = Some bs" "x \<noteq> 0"
  shows "\<exists>z y w. (run div 16 \<noteq> 0 \<longrightarrow> c 0xf0 = Some z) \<and> c (of_nat (run mod 16 * 16 + category x)) = Some y \<and>
    ac_code c 0 xs = Some w \<and> bs = concat (replicate (run div 16) z) @ (y @ digits (category x) (amplitude x)) @ w"
proof (cases "run div 16")
  case 0
  then show ?thesis using assms by (auto split: option.splits)
next
  case (Suc n)
  then obtain z where z: "c 0xf0 = Some z" using assms by (auto split: option.splits)
  show ?thesis
    using assms by (auto simp: z those_append those_replicate simp del: of_nat_add of_nat_mult split: option.splits)
qed

lemma ac_read:
  "decodes t c \<Longrightarrow> ac_code c run xs = Some bs \<Longrightarrow> bits_ahead d r bs r' \<Longrightarrow> k + run + length xs = 64 \<Longrightarrow>
    \<forall>x \<in> set xs. category x < 16 \<Longrightarrow> read_ac d t q k coef r = Inr (placed q (k + run) xs coef, r')"
proof (induction c run xs arbitrary: bs k coef r rule: ac_code.induct)
  case (1 c run)
  show ?case
  proof (cases "run = 0")
    case False
    then have "decode_symbol d t r = Inr (Some 0, r')" using 1 table_decodesD[of t c 0 bs] by simp
    then show ?thesis using False 1 by (simp add: read_ac.simps[of d t q k coef r])
  qed (use 1 in \<open>simp add: read_ac.simps\<close>)
next
  case (2 c run x xs)
  show ?case
  proof (cases "x = 0")
    case True
    then show ?thesis using 2(1)[OF True] 2(3-) by simp
  next
    case False
    let ?n = "run div 16" and ?run = "run mod 16"
    obtain z y w where zs: "?n \<noteq> 0 \<longrightarrow> c 0xf0 = Some z" and y: "c (of_nat (?run * 16 + category x)) = Some y"
      and w: "ac_code c 0 xs = Some w"
      and bs: "bs = concat (replicate ?n z) @ (y @ digits (category x) (amplitude x)) @ w"
      using ac_code_parts[OF 2(4) False] by blast
    obtain r1 m where r1: "bits_ahead d r (concat (replicate ?n z)) r1"
        "bits_ahead d r1 (y @ digits (category x) (amplitude x)) m" "bits_ahead d m w r'"
      using 2(5) unfolding bs bits_ahead_append[of d r "concat (replicate ?n z)"] bits_ahead_append[of d _ "y @ digits (category x) (amplitude x)"]
      by blast
    have k: "k + 16 * ?n + ?run = k + run" by simp
    have "read_ac d t q k coef r = read_ac d t q (k + 16 * ?n) coef r1"
    proof (cases "?n = 0")
      case False
      then show ?thesis using zero_runs_read[OF 2(3) _ r1(1)] zs 2(6) k by simp
    qed (use r1(1) in simp)
    also have "\<dots> = read_ac d t q (k + run + 1) (coef[NATURAL ! (k + run) := to_int32 (x * q ! (k + run))]) m"
      using coefficient_read[OF 2(3) False _ _ _ y r1(2), of "k + 16 * ?n"] 2(6,7) unfolding k by simp
    also have "\<dots> = Inr (placed q (k + run) (x # xs) coef, r')"
      using 2(2)[OF False 2(3) w r1(3), of "k + run + 1"] 2(6,7) False by simp
    finally show ?thesis .
  qed
qed

lemma block_read:
  assumes "decodes (jt_dc t (jc_td c)) dc" "decodes (jt_ac t (jc_ta c)) ac"
    and "block_code dc ac diff xs = Some bs" "bits_ahead d r bs r'" "length xs = 63"
    and "\<forall>x \<in> set (diff # xs). category x < 16" "jc_tq c = Some i" "jt_qt t (unat i) = Some q"
  shows "read_block d t c r = Inr (placed q 1 xs ((replicate 64 0)[0 := to_int32 ((jc_pred c + diff) * q ! 0)]), jc_pred c + diff, r')"
proof -
  obtain y w where y: "dc (of_nat (category diff)) = Some y" and w: "ac_code ac 0 xs = Some w"
    and bs: "bs = y @ digits (category diff) (amplitude diff) @ w"
    using assms(3) by (auto simp: block_code_def split: option.splits)
  obtain r1 r2 where r: "bits_ahead d r y r1" "bits_ahead d r1 (digits (category diff) (amplitude diff)) r2" "bits_ahead d r2 w r'"
    using assms(4) unfolding bs bits_ahead_append by blast
  have u: "unat (of_nat (category diff) :: byte) = category diff" using assms(6) by (simp add: unat_of_nat)
  have z: "(of_nat (category diff) :: byte) = 0 \<longleftrightarrow> category diff = 0" by (metis u unat_eq_zero)
  have "read_difference d (Some (of_nat (category diff))) r1 = (diff, r2)"
  proof (cases "diff = 0")
    case True
    then show ?thesis using r(2) by (simp add: read_difference_def category_def floorlog_def)
  next
    case False
    then have "category diff \<noteq> 0" using category_bounds[OF False] by (auto dest: order.strict_trans2)
    then show ?thesis
      using receive_bits[OF r(2) amplitude_less[OF False]] extend_amplitude[OF False] assms(6) u z by (simp add: read_difference_def)
  qed
  then show ?thesis
    using table_decodesD[OF assms(1) y r(1)] ac_read[OF assms(2) w r(3), of 1] assms(5-8) by (simp add: read_block_def Let_def)
qed

section \<open>A block is read back\<close>

text \<open>The zig-zag order of the standard, as the walk over the 8 by 8 block it is: along each diagonal, up on the even ones
  and down on the odd ones, turning at the edges. The block is stored row by row.\<close>

fun zigzag_next :: "nat \<times> nat \<Rightarrow> nat \<times> nat" where
  "zigzag_next (y, x) =
    (if even (y + x) then (if x = 7 then (y + 1, x) else if y = 0 then (y, x + 1) else (y - 1, x + 1))
     else (if y = 7 then (y, x + 1) else if x = 0 then (y + 1, x) else (y + 1, x - 1)))"

definition zigzag :: "nat \<Rightarrow> nat" where
  "zigzag k = (case (zigzag_next ^^ k) (0, 0) of (y, x) \<Rightarrow> 8 * y + x)"

fun zigzag_walk :: "nat \<Rightarrow> nat \<times> nat \<Rightarrow> nat list" where
  "zigzag_walk 0 yx = []"
| "zigzag_walk (Suc n) yx = (case yx of (y, x) \<Rightarrow> 8 * y + x) # zigzag_walk n (zigzag_next yx)"

lemma zigzag_walk_nth: "k < n \<Longrightarrow> zigzag_walk n yx ! k = (case (zigzag_next ^^ k) yx of (y, x) \<Rightarrow> 8 * y + x)"
  by (induction n yx arbitrary: k rule: zigzag_walk.induct) (auto simp: nth_Cons' funpow_Suc_right simp del: funpow.simps(2) zigzag_next.simps gr0_conv_Suc
      split: nat.split dest: gr0_implies_Suc)

lemma NATURAL_walk: "zigzag_walk 64 (0, 0) = NATURAL"
  by code_simp

lemma NATURAL_zigzag: "k < 64 \<Longrightarrow> NATURAL ! k = zigzag k"
  using zigzag_walk_nth[of k 64 "(0, 0)"] by (simp only: NATURAL_walk zigzag_def)

lemma NATURAL_permutes: "distinct NATURAL" "set NATURAL \<subseteq> {..<64}" "length NATURAL = 64" "NATURAL ! 0 = 0"
  by (simp_all add: NATURAL_def)

lemma NATURAL_index:
  assumes "i < 64" "k < 64"
  shows "NATURAL ! i < 64" "NATURAL ! i = NATURAL ! k \<longleftrightarrow> i = k"
proof -
  have "NATURAL ! i \<in> {..<64}" using assms(1) NATURAL_permutes by (intro subsetD[OF NATURAL_permutes(2)] nth_mem) simp
  then show "NATURAL ! i < 64" by simp
  show "NATURAL ! i = NATURAL ! k \<longleftrightarrow> i = k" using assms NATURAL_permutes by (simp add: nth_eq_iff_index_eq)
qed

lemma placed_nth:
  "length coef = 64 \<Longrightarrow> k + length xs \<le> 64 \<Longrightarrow> i < 64 \<Longrightarrow>
    placed q k xs coef ! (NATURAL ! i) = (if k \<le> i \<and> i < k + length xs \<and> xs ! (i - k) \<noteq> 0
      then to_int32 (xs ! (i - k) * q ! i) else coef ! (NATURAL ! i))"
proof (induction q k xs coef rule: placed.induct)
  case (2 q k x xs coef)
  then show ?case
    using NATURAL_index[of i k] NATURAL_index[of k k]
    by (cases "i = k") (auto simp: nth_Cons' nth_list_update)
qed simp

lemma placed_length: "length (placed q k xs coef) = length coef"
  by (induction q k xs coef rule: placed.induct) auto

lemma to_int32_id: "\<bar>n\<bar> < 2 ^ 31 \<Longrightarrow> to_int32 n = n"
  by (simp add: to_int32_def signed_of_int signed_take_bit_int_eq_self)

text \<open>C39: a block coded as the JPEG specification has it is read back exactly: whatever prefix code the two tables of the file
  describe, whatever 64 coefficients the block holds (in zig-zag order, the first as a difference), with the bits packed in
  bytes and every 255 followed by a 0, \<open>block\<close> of \<open>decodeScan\<close> takes exactly the bits of the block and gives each coefficient,
  times its quantisation step, at its place in the row-major block, which is where the walk \<open>zigzag\<close> of the standard stands
  after as many steps, and the new prediction.\<close>

theorem jpeg_block_roundtrip:
  assumes "prefix_codes dcounts" "prefix_codes acounts"
    and "jt_dc t (jc_td c) = Some (buildHuffman dcounts dvals)" "jt_ac t (jc_ta c) = Some (buildHuffman acounts avals)"
    and "jc_tq c = Some i" "jt_qt t (unat i) = Some q"
    and "length zz = 64" "\<forall>x \<in> set ((hd zz - jc_pred c) # tl zz). category x < 16" "\<forall>k < 64. \<bar>zz ! k * q ! k\<bar> < 2 ^ 31"
    and "block_code (code_of dcounts dvals) (code_of acounts avals) (hd zz - jc_pred c) (tl zz) = Some bs"
    and "concat (map byte_bits xs) = bs @ pad" "drop p d = concat (map stuff_byte xs) @ rest"
  shows "\<exists>coef r. read_block d t c (reader_at p) = Inr (coef, hd zz, r) \<and> bits_ahead d (reader_at p) bs r \<and>
    length coef = 64 \<and> (\<forall>k < 64. coef ! zigzag k = zz ! k * q ! k)"
proof -
  obtain r where r: "bits_ahead d (reader_at p) bs r"
    using stuffed_ahead[of "reader_at p" d xs rest] assms(11,12) by (auto simp: reader_at_def bits_ahead_append)
  obtain x ys where zz: "zz = x # ys" "length ys = 63" using assms(7) by (cases zz) auto
  let ?start = "(replicate 64 (0::int))[0 := to_int32 (x * q ! 0)]"
  let ?coef = "placed q 1 ys ?start"
  have "read_block d t c (reader_at p) = Inr (?coef, x, r)"
    using block_read[of t c "code_of dcounts dvals" "code_of acounts avals" "x - jc_pred c" ys bs d "reader_at p" r i q]
      assms code_of_decodes r zz by simp
  moreover have "?coef ! (NATURAL ! k) = zz ! k * q ! k" if k: "k < 64" for k
  proof -
    have "\<bar>zz ! k * q ! k\<bar> < 2 ^ 31" using assms(9) k by blast
    then have "to_int32 (zz ! k * q ! k) = zz ! k * q ! k" by (rule to_int32_id)
    then show ?thesis
      using placed_nth[of ?start 1 ys k q] zz k NATURAL_index[of k 0] NATURAL_permutes(4)
      by (cases "k = 0") (auto simp: nth_Cons' nth_list_update)
  qed
  ultimately show ?thesis using r zz by (auto simp: placed_length NATURAL_zigzag[symmetric])
qed

section \<open>A block with one coefficient is flat\<close>

lemma COS_0: "COS x 0 = sqrt (1 / 2) / 2"
  by (simp add: COS_def)

theorem idct_flat: "idct (a # replicate 63 0) = replicate 64 (clamp8 (of_int \<lfloor>a / 8 + 128 + 1 / 2\<rfloor>))"
proof -
  have c: "(a # replicate 63 0) ! n = (if n = 0 then a else 0)" if "n < 64" for n
    using that by (cases n) auto
  have up: "{0..<8::nat} = {0, 1, 2, 3, 4, 5, 6, 7}" by auto
  have row: "idct_row (a # replicate 63 0) v x = (if v = 0 then sqrt (1 / 2) / 2 * a else 0)" if "v < 8" for v x
    using that unfolding idct_row_def up by (simp add: c COS_0 del: nth_Cons_numeral nth_Cons_0)
  have sq: "sqrt (1 / 2) * (sqrt (1 / 2) * r) = r / 2" for r
    unfolding mult.assoc[symmetric] real_sqrt_mult_self by simp
  have "idct_sample (a # replicate 63 0) y x = clamp8 (of_int \<lfloor>a / 8 + 128 + 1 / 2\<rfloor>)" for y x
    unfolding idct_sample_def up by (simp add: row COS_0 sq)
  then show ?thesis by (simp add: idct_def map_replicate_const)
qed

text \<open>Three codes; a block of 3, 0, -1 and zeros, then a stuffed byte.\<close>

definition dc_counts :: bytes where "dc_counts = [1, 0, 0, 0, 0, 0, 0, 0, 0, 0, 0, 0, 0, 0, 0, 0]"
definition ac_counts :: bytes where "ac_counts = [1, 1, 0, 0, 0, 0, 0, 0, 0, 0, 0, 0, 0, 0, 0, 0]"

definition sample_component :: jpeg_component where
  "sample_component = \<lparr>jc_id = Some 1, jc_h = 1, jc_v = 1, jc_tq = Some 0, jc_td = 0, jc_ta = 0, jc_pred = 0, jc_bw = 1, jc_bh = 1,
     jc_plane = replicate 64 0\<rparr>"

definition sample_tables :: jpeg_tables where
  "sample_tables = \<lparr>jt_qt = (\<lambda>_. Some (replicate 64 2)), jt_dc = (\<lambda>_. Some (buildHuffman dc_counts [2])),
     jt_ac = (\<lambda>_. Some (buildHuffman ac_counts [0, 0x11]))\<rparr>"

definition sample_block :: "int list" where
  "sample_block = [3, 0, - 1] @ replicate 61 0"

lemma first_code_numeral:
  "first_code counts (numeral n) = 2 * (first_code counts (pred_numeral n) +
     (if pred_numeral n = 0 then 0 else codes_of counts (pred_numeral n)))"
  by (simp add: numeral_eq_Suc)

lemma code_lengths: "[1..<17] = [1, 2, 3, 4, 5, 6, 7, 8, 9, 10, 11, 12, 13, 14, 15, 16]"
  by (simp add: upt_rec)

theorem jpeg_block_roundtrip_witness:
  "\<exists>coef r. read_block [0x71, 255, 0] sample_tables sample_component (reader_at 0) = Inr (coef, hd sample_block, r) \<and>
    bits_ahead [0x71, 255, 0] (reader_at 0) [0, 1, 1, 1, 0, 0, 0] r \<and>
    length coef = 64 \<and> (\<forall>k < 64. coef ! zigzag k = sample_block ! k * replicate 64 2 ! k)"
proof (rule jpeg_block_roundtrip[where dcounts = dc_counts and acounts = ac_counts and dvals = "[2]" and avals = "[0, 0x11]"
      and i = 0 and xs = "[0x71, 255]" and pad = "replicate 9 1" and rest = "[]"])
  show "prefix_codes dc_counts" "prefix_codes ac_counts"
    unfolding prefix_codes_def code_lengths
    by (simp_all add: codes_of_def nth_opt_def dc_counts_def ac_counts_def first_code_numeral)
  show "length sample_block = 64" by (simp add: sample_block_def)
  show "\<forall>x \<in> set ((hd sample_block - jc_pred sample_component) # tl sample_block). category x < 16" by code_simp
  show "\<forall>k < 64. \<bar>sample_block ! k * replicate 64 2 ! k\<bar> < 2 ^ 31"
    by (auto simp: sample_block_def nth_append nth_Cons' )
  show "block_code (code_of dc_counts [2]) (code_of ac_counts [0, 0x11]) (hd sample_block - jc_pred sample_component) (tl sample_block) =
    Some [0, 1, 1, 1, 0, 0, 0]" by code_simp
  show "concat (map byte_bits [0x71, 255]) = [0, 1, 1, 1, 0, 0, 0] @ replicate 9 1" by code_simp
  show "drop 0 [0x71, 255, 0] = concat (map stuff_byte [0x71, 255]) @ []" by (simp add: stuff_byte_def)
qed (simp_all add: sample_tables_def sample_component_def)

end
