(* ===== verification/Market_Page.thy ===== *)
theory Market_Page
  imports Escrow_Client Web_Pending Web_Flacon Web_Verify_Api Web_Format FV_Number
begin

text \<open>
  \<open>apps/web/src/components/market-list.tsx\<close>: the market page, which lists a bottle and shows the orders. A handler is a
  function of the page at the press (its closure) and of what the RPC, the wallet and the verifier answer; it returns the page
  with what was sent appended.
\<close>

section \<open>Data\<close>

record market_item =
  mi_serial :: string
  mi_brand :: string
  mi_name :: string
  mi_grade :: int
  mi_void :: bool

text \<open>\<open>PendingList\<close>: a landed listing whose LIST event has not reached the verifier.\<close>

record pending_list =
  pl_sig :: string
  pl_serial :: string
  pl_priceBase :: int
  pl_order :: string

datatype market_sent = Sent_calls "ix_call list" | Sent_list "(string \<times> json) list"

record market_page =
  mp_passports :: "market_item list"
  mp_orders :: "order_view list option"
  mp_configOk :: "bool option"
  mp_serial :: string
  mp_price :: string
  mp_busy :: bool
  mp_error :: "string option"
  mp_notice :: "string option"
  mp_pending :: "pending_list option"
  mp_wallet :: "pubkey option"
  mp_store :: "kv_store option"
  mp_sent :: "market_sent list"

text \<open>\<open>getAccountInfo\<close>, the wallet with \<open>sendAsV0\<close>, the verifier's \<open>/api/events\<close>; \<open>me_fmt\<close> and \<open>me_parse\<close> write and read JSON.\<close>

record market_env =
  me_prog :: program
  me_sha256 :: "bytes \<Rightarrow> bytes"
  me_base58 :: "pubkey \<Rightarrow> string"
  me_fmt :: "rat \<Rightarrow> string"
  me_parse :: "string \<Rightarrow> json option"
  me_info :: "pubkey \<Rightarrow> thrown + account_info option"
  me_send :: "ix_call list \<Rightarrow> thrown + string"
  me_net :: "json \<Rightarrow> nat \<Rightarrow> js_error + json"

definition initial_market :: "pubkey option \<Rightarrow> kv_store option \<Rightarrow> market_page" where
  "initial_market w kv = \<lparr>mp_passports = [], mp_orders = None, mp_configOk = None, mp_serial = [], mp_price = ''480'', mp_busy = False,
     mp_error = None, mp_notice = None, mp_pending = None, mp_wallet = w, mp_store = kv, mp_sent = []\<rparr>"

definition listPayload :: "pending_list \<Rightarrow> (string \<times> json) list" where
  "listPayload p = [(''priceUsdc'', JNum (js_number (formatUsdc (pl_priceBase p)))), (''currency'', JStr ''USDC''),
     (''market'', JStr ''flaconvault'')]"

definition market_passport :: "market_env \<Rightarrow> string \<Rightarrow> pubkey" where
  "market_passport e serial = passportPda (pr_lib (me_prog e)) (serialHash (me_sha256 e) serial)"

text \<open>\<open>serialByPassport\<close>: a \<open>Map\<close>, so the last entry of an address counts.\<close>

definition serialByPassport :: "market_env \<Rightarrow> market_page \<Rightarrow> pubkey \<Rightarrow> market_item option" where
  "serialByPassport e p k =
    List.find (\<lambda>x. market_passport e (mi_serial x) = k) (rev (filter (\<lambda>x. isValidSerial (mi_serial x)) (mp_passports p)))"

definition market_price :: "market_page \<Rightarrow> int option" where
  "market_price p = parsePriceUsdc (mp_price p)"

section \<open>Reading\<close>

text \<open>What \<open>load\<close> is answered, in order: the passport list (empty unless 2xx), whether the config exists, the orders.\<close>

record market_answer =
  ma_list :: "thrown + market_item list"
  ma_config :: "thrown + bool"
  ma_orders :: "thrown + order_view list"

definition market_failed :: "thrown \<Rightarrow> market_page \<Rightarrow> market_page" where
  "market_failed x p = p\<lparr>mp_error := set_text (Some (friendly (th_error x))), mp_orders := Some []\<rparr>"

definition market_load :: "market_answer \<Rightarrow> market_page \<Rightarrow> market_page" where
  "market_load a p = (case ma_list a of
     Inl x \<Rightarrow> market_failed x p
   | Inr xs \<Rightarrow> let p1 = p\<lparr>mp_passports := xs\<rparr> in
       (case ma_config a of
          Inl x \<Rightarrow> market_failed x p1
        | Inr c \<Rightarrow> let p2 = p1\<lparr>mp_configOk := Some c\<rparr> in
            (case ma_orders a of
               Inl x \<Rightarrow> market_failed x p2
             | Inr os \<Rightarrow> p2\<lparr>mp_orders := Some os\<rparr>)))"

section \<open>Listing\<close>

definition market_error :: "string \<Rightarrow> thrown" where
  "market_error t = plain (OtherErr ''Error'' t)"

definition list_body :: "market_env \<Rightarrow> pubkey \<Rightarrow> pending_list \<Rightarrow> (string \<times> json) list" where
  "list_body e me p = [(''serial'', JStr (pl_serial p)), (''type'', JNum (jn (member EventType ''LIST''))), (''txSig'', JStr (pl_sig p)),
     (''actor'', JStr (me_base58 e me)), (''payload'', JObj (listPayload p @ [(''order'', JStr (pl_order p))]))]"

text \<open>\<open>postList\<close>: without a wallet it does nothing; a post that fails throws and keeps the entry.\<close>

definition postList :: "market_env \<Rightarrow> pending_list \<Rightarrow> market_page \<Rightarrow> (js_error option) \<times> market_page" where
  "postList e x p = (case mp_wallet p of
     None \<Rightarrow> (None, p)
   | Some me \<Rightarrow>
       let body = list_body e me x; q = p\<lparr>mp_sent := mp_sent p @ [Sent_list body]\<rparr> in
       (case fst (events (me_net e) body) of
          Inl err \<Rightarrow> (Some err, q)
        | Inr _ \<Rightarrow> (None, q\<lparr>mp_store := snd (forgetPending (me_parse e) (me_fmt e) (pl_order x) (pl_sig x) (mp_store p)),
            mp_pending := None\<rparr>)))"

definition market_begun :: "market_page \<Rightarrow> market_page" where
  "market_begun p = p\<lparr>mp_busy := True, mp_error := None\<rparr>"

definition market_retry :: "market_env \<Rightarrow> market_answer \<Rightarrow> market_page \<Rightarrow> market_page" where
  "market_retry e a p = (case mp_pending p of
     None \<Rightarrow> p
   | Some x \<Rightarrow> (case postList e x (market_begun p) of
       (None, q) \<Rightarrow> (market_load a q)\<lparr>mp_busy := False\<rparr>
     | (Some err, q) \<Rightarrow> q\<lparr>mp_busy := False, mp_error := Some (''The listing is on chain, but the history entry failed: '' @ friendly err)\<rparr>))"

text \<open>Who may list, as the page has it: the owner of the Core asset, or the issuer when there is none.\<close>

definition list_refused :: "pubkey \<Rightarrow> passport_chain \<Rightarrow> core_asset_info option \<Rightarrow> string option" where
  "list_refused seller c core = (case core of
     Some k \<Rightarrow> if cx_owner k = seller then None
       else Some (''Only the owner of this bottle'' @ [CHR 0x27] @ ''s Core asset can list it. Connect that wallet.'')
   | None \<Rightarrow> if pc_issuer c = seller then None else Some ''Only the issuer of this passport can list it. Connect that wallet.'')"

definition deposits :: "core_asset_info option \<Rightarrow> bool" where
  "deposits core \<longleftrightarrow> (case core of Some k \<Rightarrow> \<not> cx_inCollection k | None \<Rightarrow> False)"

definition plan_list :: "market_env \<Rightarrow> pubkey \<Rightarrow> market_page \<Rightarrow> thrown + (ix_call list \<times> bool \<times> int)" where
  "plan_list e seller p =
    (if \<not> isValidSerial (mp_serial p) then Inl (market_error ''This serial number cannot be listed (invalid format).'')
     else case market_price p of
       None \<Rightarrow> Inl (market_error ''Enter a price in USDC greater than 0, with at most 6 decimals (for example 480 or 480.50).'')
     | Some price \<Rightarrow>
         let L = pr_lib (me_prog e); k = market_passport e (mp_serial p) in
         bindE (me_info e k) (\<lambda>i.
         case fetchPassportChain L (\<lambda>_. i) k of
           None \<Rightarrow> Inl (market_error ''This passport is not on chain (yet).'')
         | Some c \<Rightarrow>
             if pc_void c \<or> pc_grade c = 4 then Inl (market_error ''This passport is VOID and cannot be listed.'')
             else bindE (me_info e (pc_asset c)) (\<lambda>j.
               let core = fetchCoreAsset (\<lambda>_. j) (pc_asset c) in
               case list_refused seller c core of
                 Some t \<Rightarrow> Inl (market_error t)
               | None \<Rightarrow> Inr ([app_list (me_prog e) k seller price (pc_asset c)] @
                   (if deposits core then [ix_depositAsset (me_prog e) (orderPdaOf L (pr_id (me_prog e)) k seller) seller (pc_asset c)] else []),
                   deposits core, price))))"

definition list_entry :: "market_env \<Rightarrow> pubkey \<Rightarrow> market_page \<Rightarrow> string \<Rightarrow> int \<Rightarrow> pending_list" where
  "list_entry e seller p sig price = \<lparr>pl_sig = sig, pl_serial = mp_serial p, pl_priceBase = price,
     pl_order = me_base58 e (orderPdaOf (pr_lib (me_prog e)) (pr_id (me_prog e)) (market_passport e (mp_serial p)) seller)\<rparr>"

definition remembered_list :: "pending_list \<Rightarrow> json" where
  "remembered_list x = JObj [(''sig'', JStr (pl_sig x)), (''type'', JNum (jn (member EventType ''LIST''))), (''payload'', JObj (listPayload x))]"

text \<open>The listing landed: it is stored before its event is posted.\<close>

definition list_landed :: "market_env \<Rightarrow> market_answer \<Rightarrow> pending_list \<Rightarrow> bool \<Rightarrow> market_page \<Rightarrow> market_page" where
  "list_landed e a x deposit p =
    (let q = p\<lparr>mp_pending := Some x,
           mp_store := snd (rememberPending (me_parse e) (me_fmt e) (pl_order x) (remembered_list x) (mp_store p)),
           mp_notice := Some (if deposit then (''Listed. The bottle'' @ [CHR 0x27] @ ''s Core asset is now held by the escrow and goes to the buyer on release.'') else ''Listed.'')\<rparr>
     in case postList e x q of
          (None, q') \<Rightarrow> market_load a q'
        | (Some err, q') \<Rightarrow> q'\<lparr>mp_error := set_text (Some (friendly err))\<rparr>)"

definition market_list :: "market_env \<Rightarrow> market_answer \<Rightarrow> market_page \<Rightarrow> market_page" where
  "market_list e a p = (case mp_wallet p of
     None \<Rightarrow> p
   | Some seller \<Rightarrow>
       if mp_serial p = [] then p
       else let q = (market_begun p)\<lparr>mp_notice := None\<rparr>
         in (case plan_list e seller p of
            Inl x \<Rightarrow> q\<lparr>mp_error := set_text (Some (friendly (th_error x)))\<rparr>
          | Inr (calls, deposit, price) \<Rightarrow>
              let q' = q\<lparr>mp_sent := mp_sent q @ [Sent_calls calls]\<rparr> in
              (case me_send e calls of
                 Inl x \<Rightarrow> q'\<lparr>mp_error := set_text (Some (friendly (th_error x)))\<rparr>
               | Inr sig \<Rightarrow> list_landed e a (list_entry e seller p sig price) deposit q'))\<lparr>mp_busy := False\<rparr>)"

section \<open>The view\<close>

datatype market_press = Press_list | Press_retry_list

datatype market_ui =
    M_say string | M_link string string | M_button market_press string bool | M_input string string bool
  | M_pick string "(string \<times> string) list" | M_grade "int option" | M_pill "Escrow_Client.tone" string | M_wallet

definition m_if :: "bool \<Rightarrow> market_ui list \<Rightarrow> market_ui list" where
  "m_if b xs = (if b then xs else [])"

definition notices_view :: "market_page \<Rightarrow> market_ui list" where
  "notices_view p =
    m_if (mp_configOk p = Some False) [M_say ''The market is not set up on this network yet.''] @
    (case mp_error p of Some t \<Rightarrow> [M_say t] | None \<Rightarrow> []) @
    (case (mp_notice p, mp_error p) of (Some t, None) \<Rightarrow> [M_say t] | _ \<Rightarrow> []) @
    (case (mp_pending p, mp_error p) of
       (Some x, Some _) \<Rightarrow> [M_button Press_retry_list ''Retry confirmation'' (\<not> mp_busy p), M_say ''This browser remembers it: the'',
         M_link (orderPath (pl_order x)) ''order page'', M_say ''offers the retry later too.'']
     | _ \<Rightarrow> [])"

definition listable :: "market_item \<Rightarrow> bool" where
  "listable x \<longleftrightarrow> \<not> mi_void x \<and> \<not> isTestPassport (Some (mi_brand x)) \<and> isValidSerial (mi_serial x)"

definition market_form_view :: "market_page \<Rightarrow> market_ui list" where
  "market_form_view p =
    [M_say ''Create listing (owner of the bottle)'',
     M_pick (mp_serial p) (([], ([CHR 0xE2, CHR 0x80, CHR 0x94] @ '' Choose passport '' @ [CHR 0xE2, CHR 0x80, CHR 0x94])) #
       map (\<lambda>x. (mi_serial x, mi_serial x @ ('' '' @ [CHR 0xC2, CHR 0xB7] @ '' '') @ mi_brand x @ '' '' @ mi_name x)) (filter listable (mp_passports p))),
     M_input ''Price'' (mp_price p) (market_price p = None), M_say ''USDC'',
     (if mp_wallet p = None then M_wallet
      else M_button Press_list ''List'' (\<not> mp_busy p \<and> mp_serial p \<noteq> [] \<and> mp_configOk p \<noteq> Some False \<and> market_price p \<noteq> None))] @
    m_if (market_price p = None) [M_say ''Price: a number greater than 0 with at most 6 decimals (dot as separator).''] @
    [M_say (''Only the wallet that owns the bottle'' @ [CHR 0xE2, CHR 0x80, CHR 0x99] @ ''s Core asset can list it.'')]"

definition offer_view :: "market_env \<Rightarrow> market_page \<Rightarrow> order_view \<Rightarrow> market_ui list" where
  "offer_view e p v =
    (let item = serialByPassport e p (ix_passport v); key = short 4 (Some (me_base58 e (ix_passport v))) in
     [M_link (orderPath (me_base58 e (ix_pubkey v))) [],
      M_grade (map_option (\<lambda>x. if mi_void x then 4 else mi_grade x) item),
      M_say (case item of Some x \<Rightarrow> mi_brand x @ ('' '' @ [CHR 0xC2, CHR 0xB7] @ '' '') @ mi_name x | None \<Rightarrow> key),
      M_say ((case item of Some x \<Rightarrow> mi_serial x | None \<Rightarrow> key) @ ('' '' @ [CHR 0xC2, CHR 0xB7] @ '' seller '') @ short 4 (Some (me_base58 e (ix_seller v))) @
        (case ix_buyer v of Some b \<Rightarrow> ('' '' @ [CHR 0xC2, CHR 0xB7] @ '' buyer '') @ short 4 (Some (me_base58 e b)) | None \<Rightarrow> [])),
      M_say (formatUsdc (ix_priceBase v) @ '' USDC''),
      M_pill (orderStateTone (ov_state v)) (case orderStateLabel (ov_state v) of Some t \<Rightarrow> t | None \<Rightarrow> [])])"

definition offers_view :: "market_env \<Rightarrow> market_page \<Rightarrow> market_ui list" where
  "offers_view e p = M_say ''Offers'' # (case mp_orders p of
     None \<Rightarrow> [M_say (''Loading orders '' @ [CHR 0xE2, CHR 0x80, CHR 0xA6])]
   | Some [] \<Rightarrow> [M_say ''No listings yet.'']
   | Some os \<Rightarrow> concat (map (offer_view e p) os))"

definition market_view :: "market_env \<Rightarrow> market_page \<Rightarrow> market_ui list" where
  "market_view e p =
    [M_say (''Market '' @ [CHR 0xC2, CHR 0xB7] @ '' escrow in devnet USDC''), M_say ''Handover with escrow'',
     M_say (''Listing '' @ [CHR 0xE2, CHR 0x86, CHR 0x92] @ '' reservation (USDC in the vault) '' @ [CHR 0xE2, CHR 0x86, CHR 0x92] @ '' shipping scan '' @ [CHR 0xE2, CHR 0x86, CHR 0x92] @ '' shipped '' @ [CHR 0xE2, CHR 0x86, CHR 0x92] @ '' receipt scan '' @ [CHR 0xE2, CHR 0x86, CHR 0x92] @ '' release. Money only moves when the seller'' @ [CHR 0xE2, CHR 0x80, CHR 0x99] @ ''s scan before shipping and the buyer'' @ [CHR 0xE2, CHR 0x80, CHR 0x99] @ ''s scan after receipt agree.'')] @
    notices_view p @ market_form_view p @ offers_view e p"

definition market_offers :: "market_env \<Rightarrow> market_page \<Rightarrow> market_press \<Rightarrow> bool" where
  "market_offers e p b \<longleftrightarrow> (\<exists>t. M_button b t True \<in> set (market_view e p))"

end
