(* ===== verification/Market_Facts.thy ===== *)
theory Market_Facts
  imports Market_Page Ops_Facts Certify_Facts
begin

text \<open>
  The market page against the escrow program: what the button \<open>List\<close> sends, and when the program takes it.
\<close>

section \<open>What is sent\<close>

lemma sent_post [simp]: "postList e x p = (r, q) \<Longrightarrow> Sent_calls cs \<in> set (mp_sent q) \<longleftrightarrow> Sent_calls cs \<in> set (mp_sent p)"
  by (auto simp: postList_def Let_def split: option.splits sum.splits)

lemma sent_load [simp]: "mp_sent (market_load a p) = mp_sent p"
  by (simp add: market_load_def market_failed_def Let_def split: sum.split)

lemma sent_landed: "Sent_calls cs \<in> set (mp_sent (list_landed e a x d p)) \<longleftrightarrow> Sent_calls cs \<in> set (mp_sent p)"
  by (auto simp: list_landed_def Let_def split: prod.splits option.splits dest: sent_post)

lemma list_sends:
  assumes "Sent_calls cs \<in> set (mp_sent (market_list e a p))" "Sent_calls cs \<notin> set (mp_sent p)"
  shows "\<exists>seller d price. mp_wallet p = Some seller \<and> plan_list e seller p = Inr (cs, d, price)"
  using assms by (auto simp: market_list_def market_begun_def Let_def sent_landed split: option.splits if_splits sum.splits)

lemma plan_list_sends:
  assumes "plan_list e seller p = Inr (cs, d, price)"
  obtains i c j where "isValidSerial (mp_serial p)" "parsePriceUsdc (mp_price p) = Some price"
    "me_info e (market_passport e (mp_serial p)) = Inr i"
    "fetchPassportChain (pr_lib (me_prog e)) (\<lambda>_. i) (market_passport e (mp_serial p)) = Some c"
    "\<not> pc_void c" "pc_grade c \<noteq> 4" "me_info e (pc_asset c) = Inr j"
    "list_refused seller c (fetchCoreAsset (\<lambda>_. j) (pc_asset c)) = None"
    "cs = app_list (me_prog e) (market_passport e (mp_serial p)) seller price (pc_asset c) #
      (if deposits (fetchCoreAsset (\<lambda>_. j) (pc_asset c))
       then [ix_depositAsset (me_prog e) (orderPdaOf (pr_lib (me_prog e)) (pr_id (me_prog e)) (market_passport e (mp_serial p)) seller) seller (pc_asset c)]
       else [])"
  using assms
  by (auto simp: plan_list_def Let_def bindE_eq_Inr market_price_def split: if_splits option.splits)

lemma app_seen:
  assumes "asset_seen i m"
  shows "map_option cx_owner (fetchCoreAsset (\<lambda>_. i) k) = mk_asset_owner m"
    "fetchCoreAsset (\<lambda>_. i) k = Some c \<Longrightarrow> cx_inCollection c \<longleftrightarrow> mk_in_collection m"
proof -
  have f: "scriptFetchCoreAsset (\<lambda>_. i) k = fetchCoreAsset (\<lambda>_. i) k"
    using core_asset_readers_agree[of "\<lambda>_. i" k] by (simp add: scriptFetchCoreAsset_def)
  show "map_option cx_owner (fetchCoreAsset (\<lambda>_. i) k) = mk_asset_owner m"
    using seen_owner[of "\<lambda>_. i" k m] assms by (simp add: f)
  show "fetchCoreAsset (\<lambda>_. i) k = Some c \<Longrightarrow> cx_inCollection c \<longleftrightarrow> mk_in_collection m"
    using seen_collection[of "\<lambda>_. i" k m c] assms by (simp add: f)
qed

text \<open>C30: the listing the market page sends is the one shown, for the connected wallet and the passport of the chosen serial, at
  the price of the form. The escrow program accepts it exactly when this seller has no open order of the passport and either
  the bottle has a Core asset or the issuer is still an active partner or the authority; the page asks for neither. The deposit
  is sent with it exactly when the program accepts it after the listing, that is for the seller's own Core asset outside a
  collection, and the order owns the asset then.\<close>

theorem market_list_accepted:
  assumes "Sent_calls cs \<in> set (mp_sent (market_list e a p))" "Sent_calls cs \<notin> set (mp_sent p)"
    and "passport_sizes q" "length disc = 8"
    and "me_info e (market_passport e (mp_serial p)) =
      Inr (Some \<lparr>ai_owner = cl_program (pr_lib (me_prog e)), ai_data = borsh_passport disc bump q\<rparr>)"
    and "me_info e (pp_asset q) = Inr i" "asset_seen i m"
  shows "\<exists>seller price. mp_wallet p = Some seller \<and> parsePriceUsdc (mp_price p) = Some price \<and>
    hd cs = app_list (me_prog e) (market_passport e (mp_serial p)) seller price (pp_asset q) \<and>
    ((\<exists>m'. handle_list cfg r key q seller now (nat price) m = Inr m') \<longleftrightarrow>
      mk_order m = None \<and> (mk_asset_owner m \<noteq> None \<or> rg_authority r = seller \<or> is_partner r seller)) \<and>
    (\<forall>m'. handle_list cfg r key q seller now (nat price) m = Inr m' \<longrightarrow>
      (tl cs \<noteq> [] \<longleftrightarrow> (\<exists>m2. handle_deposit_asset ord seller m' = Inr m2)) \<and>
      (tl cs \<noteq> [] \<longrightarrow> tl cs = [ix_depositAsset (me_prog e)
          (orderPdaOf (pr_lib (me_prog e)) (pr_id (me_prog e)) (market_passport e (mp_serial p)) seller) seller (pp_asset q)] \<and>
        (\<exists>m2. handle_deposit_asset ord seller m' = Inr m2 \<and> mk_asset_owner m2 = Some ord)))"
proof -
  obtain seller d price where w: "mp_wallet p = Some seller" and plan: "plan_list e seller p = Inr (cs, d, price)"
    using list_sends[OF assms(1,2)] by blast
  let ?key = "market_passport e (mp_serial p)"
  obtain i' c j where c: "parsePriceUsdc (mp_price p) = Some price" "me_info e ?key = Inr i'"
    "fetchPassportChain (pr_lib (me_prog e)) (\<lambda>_. i') ?key = Some c" "\<not> pc_void c" "pc_grade c \<noteq> 4" "me_info e (pc_asset c) = Inr j"
    "list_refused seller c (fetchCoreAsset (\<lambda>_. j) (pc_asset c)) = None"
    "cs = app_list (me_prog e) ?key seller price (pc_asset c) #
      (if deposits (fetchCoreAsset (\<lambda>_. j) (pc_asset c))
       then [ix_depositAsset (me_prog e) (orderPdaOf (pr_lib (me_prog e)) (pr_id (me_prog e)) ?key seller) seller (pc_asset c)] else [])"
    by (rule plan_list_sends[OF plan])
  have q: "pc_asset c = pp_asset q" "pc_issuer c = pp_issuer q" "pc_grade c = uint (pp_grade q)" "pc_void c = pp_void q"
    using c(3) passport_account_read[OF assms(3,4), of "\<lambda>_. i'"] c(2) assms(5) by auto
  have j: "j = i" using c(6) q(1) assms(6) by simp
  note seen = app_seen[OF assms(7), of "pc_asset c", folded j]
  have grade: "\<not> pp_void q" "pp_grade q \<noteq> GRADE_VOID" using c(4,5) q by auto
  have right: "mk_asset_owner m = Some seller \<or> mk_asset_owner m = None \<and> pp_issuer q = seller"
    using c(7) seen(1) q(2) by (auto simp: list_refused_def split: option.splits if_splits)
  have ok: "(\<exists>m'. handle_list cfg r key q seller now (nat price) m = Inr m') \<longleftrightarrow>
      mk_order m = None \<and> (mk_asset_owner m \<noteq> None \<or> rg_authority r = seller \<or> is_partner r seller)"
    using right grade price_positive[OF c(1)]
    by (auto simp: handle_list_ok check_seller_of_def check_seller_def guardE_def)
  have dep: "deposits (fetchCoreAsset (\<lambda>_. j) (pc_asset c)) \<longleftrightarrow> mk_asset_owner m = Some seller \<and> \<not> mk_in_collection m"
    using seen right by (auto simp: deposits_def split: option.splits)
  have "(tl cs \<noteq> [] \<longleftrightarrow> (\<exists>m2. handle_deposit_asset ord seller m' = Inr m2)) \<and>
      (tl cs \<noteq> [] \<longrightarrow> (\<exists>m2. handle_deposit_asset ord seller m' = Inr m2 \<and> mk_asset_owner m2 = Some ord))"
    if "handle_list cfg r key q seller now (nat price) m = Inr m'" for m'
    using deposit_after_list[OF that, of ord] dep c(8) by (auto split: if_splits)
  with w c(1,8) q(1) ok show ?thesis by (intro exI[of _ seller] exI[of _ price]) (simp split: if_splits)
qed

section \<open>A page on which it applies\<close>

definition demo_market :: market_env where
  "demo_market = \<lparr>me_prog = \<lparr>pr_lib = sample_lib, pr_id = replicate 32 4\<rparr>, me_sha256 = (\<lambda>_. replicate 32 0), me_base58 = (\<lambda>_. []),
     me_fmt = (\<lambda>_. []), me_parse = (\<lambda>_. None),
     me_info = (\<lambda>k. Inr (if k = replicate 32 8 then Some demo_core_account else Some demo_passport_account)),
     me_send = (\<lambda>_. Inl (market_error ''rejected'')), me_net = (\<lambda>_ _. Inr JNull)\<rparr>"

definition demo_listing :: market_page where
  "demo_listing = (initial_market (Some demo_me) None)\<lparr>mp_serial := ''SN-1''\<rparr>"

lemma demo_market_facts:
  "isValidSerial ''SN-1''" "parsePriceUsdc ''480'' = Some 480000000"
  "market_passport demo_market ''SN-1'' \<noteq> replicate 32 8"
proof -
  show "isValidSerial ''SN-1''" "parsePriceUsdc ''480'' = Some 480000000" by code_simp+
  have "hd (market_passport demo_market ''SN-1'') = of_char (CHR ''p'')"
    by (simp add: market_passport_def demo_market_def passportPda_def sample_lib_def seed_of_def PDA_SEEDS_def utf8_def)
  then show "market_passport demo_market ''SN-1'' \<noteq> replicate 32 8" by (auto simp: hd_replicate)
qed

lemma demo_listing_sent:
  "\<exists>cs. Sent_calls cs \<in> set (mp_sent (market_list demo_market a demo_listing)) \<and> Sent_calls cs \<notin> set (mp_sent demo_listing)"
proof -
  let ?k = "market_passport demo_market ''SN-1''"
  have f: "mp_wallet demo_listing = Some demo_me" "mp_serial demo_listing = ''SN-1''" "mp_sent demo_listing = []" "mp_price demo_listing = ''480''"
    by (simp_all add: demo_listing_def initial_market_def)
  have e: "me_info demo_market ?k = Inr (Some demo_passport_account)" "me_info demo_market (replicate 32 8) = Inr (Some demo_core_account)"
    "pr_lib (me_prog demo_market) = sample_lib" "me_send demo_market = (\<lambda>_. Inl (market_error ''rejected''))"
    using demo_market_facts(3) by (simp_all add: demo_market_def)
  have size: "passport_sizes demo_passport" by (simp add: passport_sizes_def demo_passport_def)
  have c: "fetchPassportChain sample_lib (\<lambda>_. Some demo_passport_account) ?k = Some \<lparr>pc_pubkey = ?k, pc_asset = replicate 32 8,
      pc_issuer = replicate 32 1, pc_grade = uint GRADE_A, pc_scanCount = 0, pc_sealCount = 1, pc_void = False\<rparr>"
    using passport_account_read [OF size, of "replicate 8 7" "\<lambda>_. Some demo_passport_account" ?k sample_lib 255]
    by (simp add: demo_passport_account_def sample_lib_def demo_passport_def)
  have core: "fetchCoreAsset (\<lambda>_. Some demo_core_account) (replicate 32 8) = Some \<lparr>cx_owner = demo_me, cx_inCollection = False\<rparr>"
    by (simp add: fetchCoreAsset_def demo_core_account_def slice_def demo_me_def numeral_eq_Suc)
  obtain cs d where "plan_list demo_market demo_me demo_listing = Inr (cs, d, 480000000)"
    using f e c core demo_market_facts by (auto simp: plan_list_def Let_def market_price_def list_refused_def)
  then have "mp_sent (market_list demo_market a demo_listing) = [Sent_calls cs]"
    by (simp add: market_list_def f e market_begun_def Let_def)
  then show ?thesis using f(3) by auto
qed

definition demo_market_state :: market where
  "demo_market_state = \<lparr>mk_order = None, mk_vault = None, mk_usdc = (\<lambda>_. 0), mk_asset_owner = Some demo_me, mk_in_collection = False\<rparr>"

theorem market_list_accepted_witness:
  "\<exists>m m2. handle_list \<lparr>cf_admin = [], cf_usdc_mint = [], cf_dispute_after_s = 0\<rparr> demo_program_registry [] demo_passport demo_me 0 480000000
       demo_market_state = Inr m \<and>
     handle_deposit_asset [5] demo_me m = Inr m2 \<and> mk_asset_owner m2 = Some [5]"
proof -
  let ?a = "\<lparr>ma_list = Inr [], ma_config = Inr True, ma_orders = Inr []\<rparr>"
  obtain cs where cs: "Sent_calls cs \<in> set (mp_sent (market_list demo_market ?a demo_listing))" "Sent_calls cs \<notin> set (mp_sent demo_listing)"
    using demo_listing_sent by blast
  have f: "mp_wallet demo_listing = Some demo_me" "mp_serial demo_listing = ''SN-1''" "mp_price demo_listing = ''480''"
    by (simp_all add: demo_listing_def initial_market_def)
  have size: "passport_sizes demo_passport" by (simp add: passport_sizes_def demo_passport_def)
  have e: "me_info demo_market (market_passport demo_market (mp_serial demo_listing)) =
      Inr (Some \<lparr>ai_owner = cl_program (pr_lib (me_prog demo_market)), ai_data = borsh_passport (replicate 8 7) 255 demo_passport\<rparr>)"
    "me_info demo_market (pp_asset demo_passport) = Inr (Some demo_core_account)"
    using demo_market_facts(3) f(2)
    by (simp_all add: demo_market_def demo_passport_account_def demo_passport_def) (simp add: sample_lib_def)
  have seen: "asset_seen (Some demo_core_account) demo_market_state"
    by (simp add: asset_seen_def demo_market_state_def core_asset_owner_def is_core_asset_def demo_core_account_def demo_me_def numeral_eq_Suc)
  have m: "mk_order demo_market_state = None" "mk_asset_owner demo_market_state = Some demo_me" "\<not> mk_in_collection demo_market_state"
    by (simp_all add: demo_market_state_def)
  obtain m1 where m1: "handle_list \<lparr>cf_admin = [], cf_usdc_mint = [], cf_dispute_after_s = 0\<rparr> demo_program_registry [] demo_passport demo_me 0
      480000000 demo_market_state = Inr m1"
    using market_list_accepted [OF cs size _ e seen, of "\<lparr>cf_admin = [], cf_usdc_mint = [], cf_dispute_after_s = 0\<rparr>" demo_program_registry "[]" 0 "[5]"]
      f demo_market_facts(2) m by auto
  then show ?thesis using deposit_after_list [OF m1, of "[5]"] m by blast
qed

end
