(* ===== verification/Public_Pages.thy ===== *)
theory Public_Pages
  imports Web_Format Web_Small Web_Flacon Web_Handoff
begin

text \<open>
  The pages anyone can open: the passport (\<open>app/p/[serial]/page.tsx\<close>) with its timeline (\<open>components/timeline.tsx\<close>) and live
  check (\<open>components/live-check.tsx\<close>), the landing of a tap (\<open>app/t/page.tsx\<close>, \<open>components/tap-gate.tsx\<close>), a wallet's record
  (\<open>app/wallet/[pubkey]/page.tsx\<close>) and the addresses of the market's pages. A page is what it shows, as texts and links;
  \<open>date\<close> is \<open>fmtDate\<close> (Intl), \<open>fmt\<close> writes a number.
\<close>

section \<open>decodeURIComponent\<close>

text \<open>The byte of an escape; the bytes of \<open>n\<close> escapes; whether they are one UTF-8 character.\<close>

definition pct :: "string \<Rightarrow> nat option" where
  "pct s = (case s of
     c # h # l # _ \<Rightarrow> if c = CHR 0x25 \<and> is_hex h \<and> is_hex l then Some (16 * hex_val h + hex_val l) else None
   | _ \<Rightarrow> None)"

fun pcts :: "nat \<Rightarrow> string \<Rightarrow> nat list option" where
  "pcts 0 s = Some []"
| "pcts (Suc n) s = (case pct s of None \<Rightarrow> None | Some b \<Rightarrow> map_option ((#) b) (pcts n (drop 3 s)))"

definition utf8_len :: "nat \<Rightarrow> nat option" where
  "utf8_len a = (if a < 128 then Some 1 else if 194 \<le> a \<and> a \<le> 223 then Some 2 else if 224 \<le> a \<and> a \<le> 239 then Some 3
     else if 240 \<le> a \<and> a \<le> 244 then Some 4 else None)"

definition utf8_char :: "nat list \<Rightarrow> bool" where
  "utf8_char bs \<longleftrightarrow> (case bs of
     [] \<Rightarrow> False
   | a # cs \<Rightarrow> utf8_len a = Some (length bs) \<and> list_all (\<lambda>x. 128 \<le> x \<and> x < 192) cs \<and>
       (a = 224 \<longrightarrow> hd cs \<ge> 160) \<and> (a = 237 \<longrightarrow> hd cs < 160) \<and> (a = 240 \<longrightarrow> hd cs \<ge> 144) \<and> (a = 244 \<longrightarrow> hd cs < 144))"

text \<open>None is the \<open>URIError\<close> of a malformed escape.\<close>

function decode_uri :: "string \<Rightarrow> string option" where
  "decode_uri s = (case s of
     [] \<Rightarrow> Some []
   | c # cs \<Rightarrow>
       if c \<noteq> CHR 0x25 then map_option ((#) c) (decode_uri cs)
       else (case pct s of None \<Rightarrow> None | Some a \<Rightarrow>
         (case utf8_len a of None \<Rightarrow> None | Some n \<Rightarrow>
           (case pcts n s of None \<Rightarrow> None | Some bs \<Rightarrow>
             if utf8_char bs then map_option ((@) (map char_of bs)) (decode_uri (drop (3 * n) s)) else None))))"
  by pat_completeness auto
termination
  by (relation "measure length") (auto simp: utf8_len_def split: if_splits)

declare decode_uri.simps [simp del]

definition safeDecode :: "string \<Rightarrow> string" where
  "safeDecode s = (case decode_uri s of Some t \<Rightarrow> t | None \<Rightarrow> s)"

text \<open>The address \<open>OrderDetail\<close> and the serial \<open>PassportOrders\<close> are given, and the titles of those pages.\<close>

definition order_route :: "string \<Rightarrow> string \<times> string" where
  "order_route param = (safeDecode param, ''Order '' @ [CHR 0xC2, CHR 0xB7] @ '' '' @ take 8 (safeDecode param) @ [CHR 0xE2, CHR 0x80, CHR 0xA6])"

definition orders_route :: "string \<Rightarrow> string \<times> string" where
  "orders_route param = (safeDecode param, (''Market '' @ [CHR 0xC2, CHR 0xB7] @ '' '') @ safeDecode param)"

section \<open>What a page shows\<close>

datatype page_ui =
    U_say string | U_link string string | U_pill tone string | U_lamp tone | U_grade "int option" | U_bar int
  | U_field string bool | U_live string int "int option"

datatype shown_page = Not_found | Unavailable string string | Shown "page_ui list" | Replaced string

definition u_if :: "bool \<Rightarrow> page_ui list \<Rightarrow> page_ui list" where
  "u_if b us = (if b then us else [])"

definition u_some :: "'a option \<Rightarrow> ('a \<Rightarrow> page_ui list) \<Rightarrow> page_ui list" where
  "u_some x f = (case x of Some y \<Rightarrow> f y | None \<Rightarrow> [])"

text \<open>\<open>Unavailable\<close>: what could not be loaded, and the address that tries again.\<close>

definition unavailable_view :: "string \<Rightarrow> string \<Rightarrow> page_ui list" where
  "unavailable_view what again =
    [U_say ''Temporarily unavailable'', U_say ''The verification server did not answer'',
     U_say (what @ '' could not be loaded right now. This says nothing about the bottle: try again in a moment.''),
     U_link again ''Try again'', U_link ''/'' ''Back to home'']"

section \<open>The timeline\<close>

record public_event = passport_event +
  pe_actor :: "string option"
  pe_txSig :: "string option"
  pe_arBundle :: "string option"
  pe_arMedia :: "string option"
  pe_gradeAfter :: "int option"
  pe_country :: "string option"
  pe_city :: "string option"

definition arUrl :: "string \<Rightarrow> string" where
  "arUrl s = (if starts_with s ''ar://'' then ''https://gateway.irys.xyz/'' @ drop 5 s else s)"

definition statusBadge :: "event_status \<Rightarrow> string option" where
  "statusBadge s = (case s of Pending \<Rightarrow> Some ''awaiting confirmation'' | Reported \<Rightarrow> Some (''reported '' @ [CHR 0xC2, CHR 0xB7] @ '' unverified'') | _ \<Rightarrow> None)"

definition hiddenNote :: "nat \<Rightarrow> int \<Rightarrow> page_ui list" where
  "hiddenNote failed reports =
    u_if (failed > 0 \<or> reports > 0) [U_say (join_with '' and ''
      ((if failed > 0 then [show_nat failed @ '' failed '' @ (if failed = 1 then ''attempt'' else ''attempts'')] else []) @
       (if reports > 0 then [show_int reports @ '' older unverified '' @ (if reports = 1 then ''report'' else ''reports'')] else [])) @
      '' not shown'')]"

definition event_place :: "public_event \<Rightarrow> string option" where
  "event_place e = set_text (case pe_city e of Some c \<Rightarrow> Some c | None \<Rightarrow> pe_country e)"

definition actor_link :: "public_event \<Rightarrow> page_ui list" where
  "actor_link e = u_some (set_text (pe_actor e)) (\<lambda>a. [U_link (''/wallet/'' @ encodeURIComponent a)
     (case ev_actorLabel e of Some l \<Rightarrow> l | None \<Rightarrow> take 4 a @ [CHR 0xE2, CHR 0x80, CHR 0xA6] @ drop (length a - 4) a)])"

definition event_view :: "(int \<Rightarrow> string) \<Rightarrow> (rat \<Rightarrow> string) \<Rightarrow> public_event \<Rightarrow> page_ui list" where
  "event_view date fmt e = (case eventLine fmt (passport_event.truncate e) of (title, details) \<Rightarrow>
     [U_say (date (ev_ts e)), U_say title] @ u_some (statusBadge (ev_status e)) (\<lambda>b. [U_say b]) @ map U_say details @
     actor_link e @ u_some (event_place e) (\<lambda>l. [U_say l]) @
     u_some (pe_gradeAfter e) (\<lambda>g. [U_say ''Grade'', U_grade (Some g)]) @
     u_some (set_text (pe_txSig e)) (\<lambda>s. u_if (\<not> isSeedEvent (passport_event.truncate e)) [U_link (txUrl s) ''tx'']) @
     u_some (set_text (pe_arMedia e)) (\<lambda>s. [U_link (arUrl s) ''Photo'']) @
     u_some (set_text (pe_arBundle e)) (\<lambda>s. [U_link (arUrl s) ''Bundle'']))"

text \<open>The entries that are shown are those of \<open>visibleEvents\<close>, by their id.\<close>

definition timeline_view :: "(int \<Rightarrow> string) \<Rightarrow> (rat \<Rightarrow> string) \<Rightarrow> public_event list \<Rightarrow> page_ui list" where
  "timeline_view date fmt es =
    (let v = visibleEvents (map passport_event.truncate es); note = hiddenNote (ve_failed v) (ve_reportsHidden v);
         shown = filter (\<lambda>e. passport_event.truncate e \<in> set (ve_shown v)) es
     in (if shown = [] then [U_say ''No entries yet.''] else concat (map (event_view date fmt) shown)) @ note)"

section \<open>The live check\<close>

datatype live_state =
    Live_idle | Live_loading | Live_ok chain_passport string | Live_missing string | Live_error string

record live_env =
  le_lib :: chain_lib
  le_base58 :: "pubkey \<Rightarrow> string"
  le_message :: "proof_error \<Rightarrow> string"

text \<open>\<open>info\<close> is what \<open>getAccountInfo\<close> answers for the passport's address; an exception is its message.\<close>

definition live_run :: "live_env \<Rightarrow> (pubkey \<Rightarrow> string + account_info option) \<Rightarrow> string \<Rightarrow> live_state" where
  "live_run e info hash = (case hexToBytes hash of
     Inl x \<Rightarrow> Live_error (le_message e x)
   | Inr h \<Rightarrow>
       let pda = passportPda (le_lib e) h in
       (case info pda of
          Inl t \<Rightarrow> Live_error t
        | Inr i \<Rightarrow>
            (case Option.bind i (\<lambda>a. if ai_owner a = cl_program (le_lib e) then decodePassportAccount (ai_data a) else None) of
               Some d \<Rightarrow> Live_ok d (le_base58 e pda)
             | None \<Rightarrow> Live_missing (le_base58 e pda))))"

definition counted :: "int \<Rightarrow> string \<Rightarrow> string" where
  "counted n w = show_int n @ '' '' @ w @ (if n = 1 then [] else ''s'')"

definition live_view :: "bool \<Rightarrow> int \<Rightarrow> int option \<Rightarrow> live_state \<Rightarrow> page_ui list" where
  "live_view deployed server_grade server_count st =
    (if \<not> deployed then [U_say ''Live check: program not yet deployed to devnet.'']
     else U_say ''Check live on-chain'' # (case st of
         Live_ok d pda \<Rightarrow>
           let v = liveCheckVerdict d server_grade server_count in
           [U_lamp (if lc_matches v then Tone_ok else Tone_warn),
            U_say (''Passport PDA read: Grade '' @
              (case GradeName (if cp_void d then 4 else cp_grade d) of Some n \<Rightarrow> n | None \<Rightarrow> []) @ ('' '' @ [CHR 0xC2, CHR 0xB7] @ '' '') @
              show_int (cp_scanCount d) @ '' anchored '' @ (if cp_scanCount d = 1 then ''scan'' else ''scans'') @ ('' '' @ [CHR 0xC2, CHR 0xB7] @ '' '') @
              counted (cp_sealCount d) ''seal'' @ (if cp_void d then ('' '' @ [CHR 0xC2, CHR 0xB7] @ '' VOID'') else []) @ ('' '' @ [CHR 0xC2, CHR 0xB7] @ '' '') @ lc_text v)] @
           u_if (pda \<noteq> []) [U_link (addrUrl pda) ''Explorer'']
       | Live_missing pda \<Rightarrow> [U_say (''No passport account at '' @ pda @ ('' '' @ [CHR 0xE2, CHR 0x80, CHR 0x94] @ '' this passport is not on-chain yet.''))]
       | Live_error t \<Rightarrow> [U_say (''RPC error: '' @ t)]
       | _ \<Rightarrow> []))"

section \<open>The passport page\<close>

record public_seal =
  us_uidHash :: string
  us_kind :: int
  us_lastCounter :: int
  us_dead :: bool
  us_attachedAt :: int

record public_latest =
  ul_heat :: int
  ul_humidity :: int
  ul_uv :: int
  ul_heatLevels :: "int list"
  ul_fill :: int
  ul_ts :: int
  ul_review :: bool

record public_passport =
  up_serial :: string
  up_serialHash :: string
  up_brand :: string
  up_name :: string
  up_batch :: string
  up_asset :: "string option"
  up_issuer :: "string option"
  up_issuerLabel :: "string option"
  up_grade :: int
  up_void :: bool
  up_createdAt :: int
  up_seals :: "public_seal list"
  up_sealStatus :: seal_status
  up_scanCount :: int
  up_attesters :: int
  up_certified :: int
  up_counter :: int
  up_onChain :: "int option"
  up_latest :: "public_latest option"
  up_events :: "public_event list"

definition shown_grade_of :: "public_passport \<Rightarrow> int" where
  "shown_grade_of p = (if up_void p then member Grade ''VOID'' else up_grade p)"

definition latest_indicator :: "public_passport \<Rightarrow> (public_latest \<Rightarrow> int) \<Rightarrow> int" where
  "latest_indicator p f = (case up_latest p of Some l \<Rightarrow> f l | None \<Rightarrow> 3)"

definition stripRead :: "public_passport \<Rightarrow> bool" where
  "stripRead p \<longleftrightarrow> (case up_latest p of
     Some l \<Rightarrow> ul_heat l = member Indicator ''INTACT'' \<or> ul_heat l = member Indicator ''TRIGGERED'' | None \<Rightarrow> False)"

definition head_view :: "(int \<Rightarrow> string) \<Rightarrow> public_passport \<Rightarrow> page_ui list" where
  "head_view date p =
    [U_say ((''Passport '' @ [CHR 0xC2, CHR 0xB7] @ '' '') @ up_serial p), U_say (up_brand p @ ('' '' @ [CHR 0xC2, CHR 0xB7] @ '' '') @ up_name p),
     U_say (''Batch '' @ (if up_batch p \<noteq> [] then up_batch p else [CHR 0xE2, CHR 0x80, CHR 0x93]) @
       (case set_text (up_issuerLabel p) of Some l \<Rightarrow> ('' '' @ [CHR 0xC2, CHR 0xB7] @ '' Registered by '') @ l | None \<Rightarrow> []) @ ('' '' @ [CHR 0xC2, CHR 0xB7] @ '' since '') @ date (up_createdAt p)),
     U_pill (snd (sealStatusText (up_sealStatus p))) (fst (sealStatusText (up_sealStatus p)))] @
    u_if (up_attesters p > 0) [U_pill Tone_none (''Witnessed by '' @ counted (up_attesters p) ''wallet'' @ '', '' @
      show_int (up_certified p) @ '' of them certified'')] @
    [U_grade (Some (shown_grade_of p)), U_say (''Grade '' @ gradeLetter (Some (shown_grade_of p))),
     U_say (show_int (up_scanCount p) @ ('' scans '' @ [CHR 0xC2, CHR 0xB7] @ '' Counter '') @ show_int (up_counter p))] @
    u_some (gradeSentence (shown_grade_of p)) (\<lambda>t. [U_say t])"

definition indicator_view :: "indicator_kind \<Rightarrow> int \<Rightarrow> page_ui list" where
  "indicator_view k c = (case indicatorText k c of (label, detail, t) \<Rightarrow> [U_lamp t, U_say label, U_say detail])"

definition passport_reading_view :: "(int \<Rightarrow> string) \<Rightarrow> public_passport \<Rightarrow> page_ui list" where
  "passport_reading_view date p =
    indicator_view Heat (latest_indicator p ul_heat) @ indicator_view Humidity (latest_indicator p ul_humidity) @
    indicator_view Uv (latest_indicator p ul_uv) @ [U_say ''Fill level''] @
    (case up_latest p of
       Some l \<Rightarrow> [U_bar (ul_fill l), U_say (show_int (ul_fill l) @ ('' % '' @ [CHR 0xC2, CHR 0xB7] @ '' last '') @ date (ul_ts l))]
     | None \<Rightarrow> [U_say ''no scan yet''])"

definition heat_field :: "public_passport \<Rightarrow> public_latest \<Rightarrow> nat \<Rightarrow> int \<Rightarrow> page_ui" where
  "heat_field p l i c = U_field (show_int c @ ('' '' @ [CHR 0xC2, CHR 0xB0] @ ''C'')) (stripRead p \<and> i < length (ul_heatLevels l) \<and> ul_heatLevels l ! i = 1)"

definition strip_view :: "public_passport \<Rightarrow> page_ui list" where
  "strip_view p = u_some (up_latest p) (\<lambda>l.
     [U_say (''Heat strip '' @ [CHR 0xC2, CHR 0xB7] @ '' six fields, 40 '' @ [CHR 0xC2, CHR 0xB0] @ ''C is the one read'')] @ u_if (ul_review l) [U_pill Tone_none ''Review recommended''] @
     map (\<lambda>(i, c). heat_field p l i c) (enumerate 0 HEAT_FIELDS_C) @
     [U_say (if stripRead p then (''Only the 40 '' @ [CHR 0xC2, CHR 0xB0] @ ''C field is evaluated; the others are shown for context.'')
       else ''The strip was not read on the last scan, so no field is shown as changed.'')])"

definition seal_row :: "(int \<Rightarrow> string) \<Rightarrow> public_seal \<Rightarrow> page_ui list" where
  "seal_row date s =
    [U_lamp (if us_dead s then Tone_bad else Tone_ok), U_say (if us_kind s = 0 then ''Box'' else ''Neck''),
     U_say ([CHR 0xE2, CHR 0x80, CHR 0xA6] @ drop (length (us_uidHash s) - 8) (us_uidHash s)), U_say (''Counter '' @ show_int (us_lastCounter s)),
     U_say (''since '' @ date (us_attachedAt s))] @ u_if (us_dead s) [U_say ''not responding'']"

definition chain_view :: "public_passport \<Rightarrow> page_ui list" where
  "chain_view p =
    [U_say (''serial_hash '' @ short 10 (Some (up_serialHash p))),
     (case set_text (up_asset p) of Some a \<Rightarrow> U_link (addrUrl a) (short 4 (Some a)) | None \<Rightarrow> U_say (''Asset '' @ [CHR 0xE2, CHR 0x80, CHR 0x93])),
     (case set_text (up_issuer p) of
        Some k \<Rightarrow> U_link (''/wallet/'' @ encodeURIComponent k) (case up_issuerLabel p of Some l \<Rightarrow> l | None \<Rightarrow> short 4 (Some k))
      | None \<Rightarrow> U_say (''Issuer '' @ [CHR 0xE2, CHR 0x80, CHR 0x93])),
     U_say ''This passport is publicly readable, without a wallet and without login.'']"

definition public_passport_view :: "(int \<Rightarrow> string) \<Rightarrow> (rat \<Rightarrow> string) \<Rightarrow> public_passport \<Rightarrow> page_ui list" where
  "public_passport_view date fmt p =
    head_view date p @ passport_reading_view date p @ strip_view p @
    [U_say ''History'', U_say ''Birth, sealing, every scan, every change of owner'',
     U_live (up_serialHash p) (shown_grade_of p) (up_onChain p)] @
    timeline_view date fmt (up_events p) @ [U_say ''Seals''] @ concat (map (seal_row date) (up_seals p)) @
    [U_say ''On-chain''] @ chain_view p"

definition passport_page ::
  "(int \<Rightarrow> string) \<Rightarrow> (rat \<Rightarrow> string) \<Rightarrow> (string \<Rightarrow> fetch_error + public_passport fetch_response) \<Rightarrow> string \<Rightarrow> shown_page" where
  "passport_page date fmt fetch param =
    (let serial = safeDecode param in
     case getPassport fetch serial of
       Api_missing \<Rightarrow> Not_found
     | Api_error _ \<Rightarrow> Unavailable (''Passport '' @ serial) (passportHref serial)
     | Api_ok p \<Rightarrow> Shown (public_passport_view date fmt p))"

section \<open>The landing of a tap\<close>

record tap_view =
  tv_verdict :: string
  tv_sealDead :: "bool option"
  tv_serial :: "string option"
  tv_counter :: "int option"
  tv_uid :: "string option"

text \<open>NXP TagWriter's mirror: \<open>/^([0-9a-f]{14})x([0-9a-f]{6})x([0-9a-f]{16})$/i\<close>\<close>

definition landing_tag_writer :: "string \<Rightarrow> (string \<times> string \<times> string) option" where
  "landing_tag_writer s =
    (let u = take 14 s; c = take 6 (drop 15 s); m = drop 22 s; x = (\<lambda>ch. ch = CHR ''x'' \<or> ch = CHR ''X'') in
     if length s = 38 \<and> list_all is_hex u \<and> x (s ! 14) \<and> list_all is_hex c \<and> x (s ! 21) \<and> list_all is_hex m then Some (u, c, m) else None)"

definition tag_query :: "(string \<Rightarrow> string option) \<Rightarrow> tag_params option" where
  "tag_query q =
    (let (uid, ctr, cmac) = (case landing_tag_writer (case q ''uid'' of Some u \<Rightarrow> u | None \<Rightarrow> []) of
           Some (u, c, m) \<Rightarrow> (Some u, Some c, Some m) | None \<Rightarrow> (q ''uid'', q ''ctr'', q ''cmac''))
     in if set_text (q ''tap'') \<noteq> None then None
        else (case (set_text (q ''picc_data''), set_text cmac) of
          (Some p, Some m) \<Rightarrow> Some \<lparr>tp_uid = [], tp_ctr = [], tp_cmac = m, tp_piccData = Some p, tp_enc = q ''enc''\<rparr>
        | (_, mac) \<Rightarrow> (case (set_text uid, set_text ctr, mac) of
            (Some u, Some c, Some m) \<Rightarrow> Some \<lparr>tp_uid = u, tp_ctr = c, tp_cmac = m, tp_piccData = None, tp_enc = None\<rparr>
          | _ \<Rightarrow> None)))"

text \<open>\<open>TapGate\<close>: the tap is handed over to a running scan, or the verifier's address replaces the page.\<close>

definition tap_gate :: "scan_session option \<Rightarrow> bool \<Rightarrow> string \<Rightarrow> tag_params \<Rightarrow> tag_params option \<times> shown_page" where
  "tap_gate session owned verifyUrl params = (case tapGateAction params session owned verifyUrl of
     Verify url \<Rightarrow> (None, Replaced url)
   | Handoff back \<Rightarrow> (Some params, Shown ([U_say ''Scan in progress'', U_say ''Tap handed over''] @ (case back of
         Some b \<Rightarrow> [U_say ''The tap was handed over to your running scan session. The scan continues in a moment.'', U_link b ''Back to scan'']
       | None \<Rightarrow> [U_say ''The tap was handed over to the scan running in your other tab. Return to that tab to continue; you can close this one.'']))))"

text \<open>The scan page replaces the notice after 1.5 s when this tab owns the session.\<close>

definition gate_leaves :: "gate_action \<Rightarrow> string option" where
  "gate_leaves a = (case a of Verify url \<Rightarrow> Some url | Handoff back \<Rightarrow> back)"

definition no_tap_view :: "bool \<Rightarrow> page_ui list" where
  "no_tap_view sim =
    [U_say ''Tag landing'', U_say ''No tap found'',
     U_say (''This page is opened by the seal. Hold a seal to your phone'' @ (if sim then ('' '' @ [CHR 0xE2, CHR 0x80, CHR 0x94] @ '' or play a tap in the simulator'') else []) @ ''.''),
     (if sim then U_link ''/dev'' ''Open simulator'' else U_link ''/'' ''Back to home'')]"

definition tap_result_view :: "tap_view \<Rightarrow> string option \<Rightarrow> string option \<Rightarrow> page_ui list" where
  "tap_result_view t tap k =
    (case tapLanding (tv_verdict t) (tv_sealDead t) tap k of (verdict, condition) \<Rightarrow>
     (case verdictText verdict (tv_counter t) of (title, tn, hint) \<Rightarrow>
       [U_say ''Seal checked'', U_lamp tn, U_say title, U_say hint] @
       u_some (set_text (tv_serial t)) (\<lambda>s. [U_say (''Passport '' @ s @
         (case tv_counter t of Some c \<Rightarrow> ('' '' @ [CHR 0xC2, CHR 0xB7] @ '' Counter '') @ show_int c | None \<Rightarrow> []))]) @
       u_some (set_text (tv_uid t)) (\<lambda>u. U_say (''Chip UID '' @ map to_upper_char u) #
         u_if (tv_verdict t = ''UNREGISTERED'') [U_link ''/certify'' ''/certify'']) @
       u_some (set_text (tv_serial t)) (\<lambda>s. [U_link (passportHref s) ''View passport with history'']) @
       u_some condition (\<lambda>c. [U_link c (''Check condition '' @ [CHR 0xC2, CHR 0xB7] @ '' Photograph the card'')]) @
       u_if (set_text (tv_serial t) = None) [U_link ''/'' ''Back to home'']))"

text \<open>\<open>gate\<close> is what \<open>TapGate\<close> does with raw parameters; \<open>health\<close> whether the verifier says it runs its simulator.\<close>

definition tap_page ::
  "(tag_params \<Rightarrow> shown_page) \<Rightarrow> bool \<Rightarrow> (string \<Rightarrow> fetch_error + bool fetch_response) \<Rightarrow> (string \<Rightarrow> fetch_error + tap_view fetch_response)
   \<Rightarrow> (string \<Rightarrow> string option) \<Rightarrow> shown_page" where
  "tap_page gate devSim health fetch q =
    (case tag_query q of
       Some params \<Rightarrow> gate params
     | None \<Rightarrow>
         let res = map_option (getTap fetch) (set_text (q ''tap'')); tap = (case q ''tap'' of Some t \<Rightarrow> t | None \<Rightarrow> []) in
         (case res of
            Some (Api_error _) \<Rightarrow> Unavailable ''The result of this tap'' (''/t?tap='' @ encodeURIComponent tap @
              (case set_text (q ''k'') of Some k \<Rightarrow> ''&k='' @ encodeURIComponent k | None \<Rightarrow> []))
          | Some (Api_ok t) \<Rightarrow> Shown (tap_result_view t (q ''tap'') (q ''k''))
          | _ \<Rightarrow> Shown (no_tap_view (devSim \<and> getHealth health = Api_ok True))))"

text \<open>\<open>RememberTap\<close>: the last tap kept for the certification console; a tap without a UID clears it.\<close>

definition rememberTap :: "tap_view \<Rightarrow> (string \<times> string option \<times> int option) option" where
  "rememberTap t = (case set_text (tv_uid t) of
     Some u \<Rightarrow> Some (map to_upper_char u, tv_serial t, tv_counter t) | None \<Rightarrow> None)"

definition tap_title :: "tap_view api_result option \<Rightarrow> string" where
  "tap_title t = (case t of Some (Api_ok _) \<Rightarrow> ''Seal checked'' | _ \<Rightarrow> ''Seal check'')"

section \<open>The record of a wallet\<close>

record attester =
  at_label :: "string option"
  at_isPartner :: bool
  at_firstSeen :: "int option"
  at_scanCount :: int
  at_certified :: int
  at_agree :: int
  at_compare :: int
  at_agreeRate :: "rat option"
  at_escrowsOk :: int
  at_escrowsDisputed :: int
  at_recent :: "string list"

definition attester_facts :: "(int \<Rightarrow> string) \<Rightarrow> attester \<Rightarrow> (string \<times> string) list" where
  "attester_facts date a =
    (let escrows = at_escrowsOk a + at_escrowsDisputed a in
     [(''Since'', case at_firstSeen a of Some t \<Rightarrow> if t \<noteq> 0 then date t else [CHR 0xE2, CHR 0x80, CHR 0x93] | None \<Rightarrow> [CHR 0xE2, CHR 0x80, CHR 0x93]),
      (''Scans'', show_int (at_scanCount a)), (''Certified scans'', show_int (at_certified a)),
      (''Agreement rate'', case at_agreeRate a of None \<Rightarrow> [CHR 0xE2, CHR 0x80, CHR 0x93]
         | Some r \<Rightarrow> show_int \<lfloor>r * 100 + 1 / 2\<rfloor> @ '' % ('' @ show_int (at_agree a) @ ''/'' @ show_int (at_compare a) @ '')''),
      (''Escrows without dispute'', if escrows > 0 then show_int (at_escrowsOk a) @ '' / '' @ show_int escrows else [CHR 0xE2, CHR 0x80, CHR 0x93]),
      (''Role verified'', if at_isPartner a then ([CHR 0xE2, CHR 0x9C, CHR 0x93] @ '' Partner'') else [CHR 0xE2, CHR 0x80, CHR 0x93])])"

definition wallet_page :: "(int \<Rightarrow> string) \<Rightarrow> (string \<Rightarrow> fetch_error + attester fetch_response) \<Rightarrow> string \<Rightarrow> shown_page" where
  "wallet_page date fetch param =
    (let k = safeDecode param; head = (\<lambda>l. [U_say ''Attester'', U_say (case l of Some t \<Rightarrow> t | None \<Rightarrow> short 6 (Some k)), U_say k]) in
     case getAttester fetch k of
       Api_error _ \<Rightarrow> Unavailable ((''This wallet'' @ [CHR 0x27] @ ''s record'')) (''/wallet/'' @ encodeURIComponent k)
     | Api_missing \<Rightarrow> Shown (head None @ [U_say ''No metrics for this wallet yet.''])
     | Api_ok a \<Rightarrow> Shown (head (at_label a) @ map (\<lambda>(n, v). U_say (n @ '' '' @ v)) (attester_facts date a) @
         u_if (at_recent a \<noteq> []) (U_say ''Recently witnessed'' # map (\<lambda>s. U_link (passportHref s) s) (at_recent a))))"

end
