(* ===== verification/Public_Facts.thy ===== *)
theory Public_Facts
  imports Public_Pages
begin

text \<open>
  The public pages: the live check reads what the program wrote, an outage never denies a bottle, and the links of the
  application lead to what they name.
\<close>

section \<open>Links\<close>

lemma hex_upper_facts:
  assumes "n < 16"
  shows "is_hex (hex_upper n)" "hex_val (hex_upper n) = n"
  using assms by (auto simp: hex_upper_def is_hex_def is_digit_def hex_val_def code_char_of)

lemma pct_percent: "pct (percent c @ s) = Some (code c)"
  using code_bound[of c] by (simp add: pct_def percent_def hex_upper_facts less_mult_imp_div_less)

lemma pcts_percent: "pcts (length cs) (concat (map percent cs) @ s) = Some (map code cs)"
proof (induction cs)
  case (Cons c cs)
  have d: "drop 3 (percent c @ t) = t" for t by (simp add: percent_def)
  show ?case
    by (simp only: list.map concat.simps append_assoc length_Cons pcts.simps pct_percent d Cons option.case) simp
qed simp

lemma length_percent: "length (concat (map percent cs)) = 3 * length cs"
  by (induction cs) (simp_all add: percent_def)

text \<open>A text as JavaScript holds it: whole UTF-8 characters.\<close>

definition utf8_text :: "string \<Rightarrow> nat list list \<Rightarrow> bool" where
  "utf8_text s gs \<longleftrightarrow> (\<forall>g \<in> set gs. utf8_char g) \<and> s = concat (map (map char_of) gs)"

lemma utf8_char_cases:
  assumes "utf8_char g"
  obtains a where "g = [a]" "a < 128"
  | "length g > 1" "\<forall>x \<in> set g. 128 \<le> x \<and> x < 256"
proof (cases g)
  case (Cons a cs)
  note len = assms[unfolded utf8_char_def Cons, simplified]
  show ?thesis
  proof (cases "a < 128")
    case True
    then have "cs = []" using len by (auto simp: utf8_len_def)
    with True Cons show ?thesis using that(1) by blast
  next
    case False
    then have a: "194 \<le> a" "a < 256" "length cs > 0" using len by (auto simp: utf8_len_def split: if_splits)
    have "128 \<le> x \<and> x < 256" if "x \<in> set cs" for x using len that by (force simp: list_all_iff)
    then show ?thesis using a Cons by (intro that(2)) auto
  qed
qed (use assms in \<open>simp add: utf8_char_def\<close>)

lemma unreserved_ascii: "uri_unreserved c \<Longrightarrow> code c < 128 \<and> c \<noteq> CHR 0x25"
  by (auto simp: uri_unreserved_def char_class_simps code_def)

lemma encode_append: "encodeURIComponent (s @ t) = encodeURIComponent s @ encodeURIComponent t"
  by (simp add: encodeURIComponent_def)

lemma decode_escapes:
  assumes "utf8_char g"
  shows "decode_uri (concat (map percent (map char_of g)) @ s) = map_option ((@) (map char_of g)) (decode_uri s)"
proof -
  obtain a cs where g: "g = a # cs" using assms by (cases g) (auto simp: utf8_char_def)
  have small: "\<forall>x \<in> set g. x < 256" by (rule utf8_char_cases[OF assms]) auto
  then have codes: "map code (map char_of g) = g" by (simp add: comp_def code_char_of map_idI)
  have a: "code (char_of a :: char) = a" using small g by (simp add: code_char_of)
  have len: "utf8_len a = Some (length g)" using assms g by (simp add: utf8_char_def)
  have p: "pct (concat (map percent (map char_of g)) @ s) = Some a"
    using pct_percent[of "char_of a"] a by (simp add: g)
  have ps: "pcts (length g) (concat (map percent (map char_of g)) @ s) = Some g"
    using pcts_percent[of "map char_of g" s] codes by simp
  have "length (concat (map percent (map char_of g :: string))) = 3 * length g"
    using length_percent[of "map char_of g"] by simp
  then have d: "drop (3 * length g) (concat (map percent (map char_of g)) @ s) = s" by simp
  obtain t where t: "concat (map percent (map char_of g)) @ s = CHR 0x25 # t"
    by (simp add: g percent_def)
  show ?thesis
    unfolding decode_uri.simps[of "concat (map percent (map char_of g)) @ s"]
    using p ps d assms len unfolding t by simp
qed

lemma decode_group:
  assumes "utf8_char g"
  shows "decode_uri (encodeURIComponent (map char_of g) @ s) = map_option ((@) (map char_of g)) (decode_uri s)"
proof (cases "\<exists>a. g = [a] \<and> uri_unreserved (char_of a)")
  case True
  then obtain a where g: "g = [a]" "uri_unreserved (char_of a)" by blast
  then show ?thesis
    using unreserved_ascii[OF g(2)]
    by (cases "decode_uri s") (simp_all add: encodeURIComponent_def decode_uri.simps[of "char_of a # s"])
next
  case False
  have "\<not> uri_unreserved (char_of x)" if "x \<in> set g" for x
  proof (rule utf8_char_cases[OF assms])
    show ?thesis if "g = [a]" "a < 128" for a using False \<open>x \<in> set g\<close> that by auto
    show ?thesis if "length g > 1" "\<forall>x \<in> set g. 128 \<le> x \<and> x < 256"
      using unreserved_ascii[of "char_of x"] code_char_of[of x] that(2) \<open>x \<in> set g\<close> by auto
  qed
  then have "encodeURIComponent (map char_of g) = concat (map percent (map char_of g))"
    unfolding encodeURIComponent_def by (auto intro!: arg_cong[of _ _ concat] simp: comp_def)
  then show ?thesis using decode_escapes[OF assms] by simp
qed

lemma decode_encode: "utf8_text s gs \<Longrightarrow> decode_uri (encodeURIComponent s) = Some s"
proof (induction gs arbitrary: s)
  case Nil
  then show ?case by (simp add: utf8_text_def encodeURIComponent_def decode_uri.simps)
next
  case (Cons g gs)
  let ?t = "concat (map (map char_of) gs)"
  have "utf8_char g" "utf8_text ?t gs" "s = map char_of g @ ?t" using Cons.prems by (auto simp: utf8_text_def)
  then show ?case using Cons.IH[of ?t] by (simp add: encode_append decode_group)
qed

text \<open>The application's routes that take a parameter, as Next.js reads them off the directory \<open>app/\<close>: \<open>p/[serial]\<close>,
  \<open>market/[serial]\<close>, \<open>market/o/[order]\<close> and \<open>wallet/[pubkey]\<close>. A bracketed directory takes one non-empty segment of the path,
  undecoded; the segments \<open>.\<close> and \<open>..\<close> never reach the server, the browser resolves them.\<close>

fun path_segments :: "string \<Rightarrow> string list" where
  "path_segments [] = [[]]"
| "path_segments (c # cs) = (if c = CHR ''/'' then [] # path_segments cs
     else (case path_segments cs of [] \<Rightarrow> [[c]] | x # xs \<Rightarrow> (c # x) # xs))"

datatype app_page = At_passport string | At_orders string | At_order string | At_wallet string

definition route_param :: "string \<Rightarrow> bool" where
  "route_param x \<longleftrightarrow> x \<notin> {'''', ''.'', ''..''}"

definition app_route :: "string \<Rightarrow> app_page option" where
  "app_route path = (case path_segments path of
     [r, d, x] \<Rightarrow>
       if r \<noteq> '''' \<or> \<not> route_param x then None
       else if d = ''p'' then Some (At_passport x) else if d = ''market'' then Some (At_orders x)
       else if d = ''wallet'' then Some (At_wallet x) else None
   | [r, d, o', x] \<Rightarrow> if r = '''' \<and> d = ''market'' \<and> o' = ''o'' \<and> route_param x then Some (At_order x) else None
   | _ \<Rightarrow> None)"

lemma segments_param: "CHR ''/'' \<notin> set x \<Longrightarrow> path_segments x = [x]"
  by (induction x) auto

lemma hex_upper_slash: "n < 16 \<Longrightarrow> hex_upper n \<noteq> CHR ''/''"
  using hex_upper_facts(1)[of n] by (auto simp: is_hex_def is_digit_def code_def)

lemma encode_slash: "CHR ''/'' \<notin> set (encodeURIComponent s)"
proof -
  have "CHR ''/'' \<notin> set (percent c)" for c
    using code_bound[of c] hex_upper_slash[of "code c div 16"] hex_upper_slash[of "code c mod 16"]
    by (auto simp: percent_def less_mult_imp_div_less)
  moreover have "\<not> uri_unreserved (CHR ''/'')" by code_simp
  ultimately show ?thesis by (auto simp: encodeURIComponent_def)
qed

lemma encode_param:
  assumes "utf8_text s gs" "route_param s"
  shows "route_param (encodeURIComponent s)"
proof -
  have "decode_uri '''' = Some ''''" "decode_uri ''.'' = Some ''.''" "decode_uri ''..'' = Some ''..''"
    by (simp_all add: decode_uri.simps)
  then show ?thesis using decode_encode[OF assms(1)] assms(2) by (auto simp: route_param_def)
qed

text \<open>C33: the links of the application lead to what they name. For every text an order's address, a serial or a wallet can be
  (not empty and none of the two dot segments a browser resolves), the route of \<open>orderPath\<close> is the order page, that of
  \<open>marketPassportPath\<close> the page of a passport's orders, that of \<open>passportHref\<close> and \<open>passportPath\<close> the passport page and that of the
  timeline's link the wallet page; each of these pages decodes its parameter to exactly that text, and a parameter that is no
  URI text at all is taken as it stands instead of failing the page.\<close>

theorem page_links_resolve:
  assumes "utf8_text s gs" "route_param s"
  shows "(\<exists>x. app_route (orderPath s) = Some (At_order x) \<and> fst (order_route x) = s) \<and>
    (\<exists>x. app_route (marketPassportPath s) = Some (At_orders x) \<and> fst (orders_route x) = s) \<and>
    (\<exists>x. app_route (passportHref s) = Some (At_passport x) \<and> safeDecode x = s) \<and>
    (\<exists>x. app_route (passportPath s) = Some (At_passport x) \<and> safeDecode x = s) \<and>
    (pe_actor ev = Some s \<longrightarrow> (\<exists>href t x. actor_link ev = [U_link href t] \<and>
      app_route href = Some (At_wallet x) \<and> safeDecode x = s)) \<and>
    (decode_uri p = None \<longrightarrow> safeDecode p = p)"
proof -
  let ?e = "encodeURIComponent s"
  have d: "safeDecode ?e = s" using decode_encode[OF assms(1)] by (simp add: safeDecode_def)
  note seg = segments_param[OF encode_slash, of s] encode_param[OF assms]
  have routes: "app_route (orderPath s) = Some (At_order ?e)" "app_route (marketPassportPath s) = Some (At_orders ?e)"
    "app_route (passportHref s) = Some (At_passport ?e)" "app_route (passportPath s) = Some (At_passport ?e)"
    "app_route (''/wallet/'' @ ?e) = Some (At_wallet ?e)"
    using seg by (simp_all add: app_route_def orderPath_def marketPassportPath_def passportHref_def passportPath_def)
  have "\<exists>t. actor_link ev = [U_link (''/wallet/'' @ ?e) t]" if "pe_actor ev = Some s"
    using that assms(2) by (auto simp: actor_link_def u_some_def set_text_def route_param_def split: list.split)
  with routes d show ?thesis by (fastforce simp: order_route_def orders_route_def safeDecode_def[of p])
qed

section \<open>The live check\<close>

text \<open>C31: the live check reads the account the program wrote and judges the server by it: for the passport whose account is at the
  address of the given hash it shows the program's grade, scan and seal counts and void flag, and it says that the server
  matches exactly when the server shows the effective grade (VOID when the passport is void) and, if it reports a number of
  anchored scans, the program's number.\<close>

theorem live_check_agrees:
  assumes "passport_sizes q" "hexToBytes hash = Inr h"
    and "info (passportPda (le_lib e) h) =
      Inr (Some \<lparr>ai_owner = cl_program (le_lib e), ai_data = borsh_passport PASSPORT_DISCRIMINATOR bump q\<rparr>)"
  shows "\<exists>d. live_run e info hash = Live_ok d (le_base58 e (passportPda (le_lib e) h)) \<and>
    cp_grade d = uint (pp_grade q) \<and> cp_scanCount d = uint (pp_scan_count q) \<and> cp_sealCount d = uint (pp_seal_count q) \<and>
    cp_void d = pp_void q \<and>
    (lc_matches (liveCheckVerdict d g n) \<longleftrightarrow>
      g = (if pp_void q then 4 else uint (pp_grade q)) \<and> (n = None \<or> n = Some (uint (pp_scan_count q))))"
proof -
  let ?d = "borsh_passport PASSPORT_DISCRIMINATOR bump q"
  have d: "length ?d = 152" "take 8 ?d = PASSPORT_DISCRIMINATOR" "?d ! 136 = pp_grade q" "slice 137 141 ?d = le_bytes 4 (unat (pp_scan_count q))"
    "?d ! 141 = pp_seal_count q" "?d ! 142 = (if pp_void q then 1 else 0)"
    using assms(1) by (simp_all add: borsh_passport_def passport_sizes_def slice_def nth_append PASSPORT_DISCRIMINATOR_def del: le_bytes.simps)
  obtain c where c: "decodePassportAccount ?d = Some c" "cp_grade c = uint (pp_grade q)" "cp_scanCount c = uint (pp_scan_count q)"
    "cp_sealCount c = uint (pp_seal_count q)" "cp_void c = pp_void q"
    using d by (simp add: decodePassportAccount_def Let_def le_val_word32 del: le_bytes.simps)
  have "live_run e info hash = Live_ok c (le_base58 e (passportPda (le_lib e) h))"
    using assms(2,3) c(1) by (simp add: live_run_def)
  moreover have "member Grade ''VOID'' = 4" by code_simp
  then have "lc_matches (liveCheckVerdict c g n) \<longleftrightarrow>
      g = (if pp_void q then 4 else uint (pp_grade q)) \<and> (n = None \<or> n = Some (uint (pp_scan_count q)))"
    using c by (auto simp: liveCheckVerdict_def Let_def split: option.splits)
  ultimately show ?thesis using c by blast
qed

section \<open>What the pages say when the verifier does not answer\<close>

lemma api_ok: "api_get r = Api_ok x \<longleftrightarrow> (\<exists>a. r = Inr a \<and> 200 \<le> fr_status a \<and> fr_status a \<le> 299 \<and> fr_json a = Inr x)"
  by (auto simp: api_get_def fetch_failed_def split: sum.splits)

definition field_on :: "page_ui list \<Rightarrow> bool" where
  "field_on us \<longleftrightarrow> list_ex (\<lambda>u. case u of U_field t on \<Rightarrow> on | _ \<Rightarrow> False) us"

lemma field_on_simps [simp]:
  "\<not> field_on []" "field_on (us @ vs) \<longleftrightarrow> field_on us \<or> field_on vs" "field_on (U_say t # us) = field_on us"
  "field_on (U_link h t # us) = field_on us" "field_on (U_pill c t # us) = field_on us" "field_on (U_lamp c # us) = field_on us"
  "field_on (U_grade g # us) = field_on us" "field_on (U_bar n # us) = field_on us" "field_on (U_live x y z # us) = field_on us"
  "field_on (u_if b us) \<longleftrightarrow> b \<and> field_on us" "\<not> field_on (map U_say ts)"
  "field_on (concat xs) \<longleftrightarrow> (\<exists>us \<in> set xs. field_on us)"
  by (induction ts; induction xs) (auto simp: field_on_def u_if_def list_ex_iff)

lemma field_on_some [simp]: "field_on (u_some x f) \<longleftrightarrow> (\<exists>y. x = Some y \<and> field_on (f y))"
  by (cases x) (simp_all add: u_some_def)

lemma field_parts [simp]:
  "\<not> field_on (head_view date p)" "\<not> field_on (indicator_view k c)" "\<not> field_on (seal_row date r)" "\<not> field_on (hiddenNote m n)"
  "\<not> field_on (event_view date fmt ev)" "\<not> field_on (chain_view p)"
  by (auto simp: head_view_def indicator_view_def seal_row_def hiddenNote_def event_view_def actor_link_def chain_view_def
      split: prod.split option.split)

lemma field_timeline [simp]: "\<not> field_on (timeline_view date fmt es)"
  by (simp add: timeline_view_def Let_def)

lemma field_reading [simp]: "\<not> field_on (passport_reading_view date p)"
  by (simp add: passport_reading_view_def split: option.split)

lemma strip_fields: "field_on (map (\<lambda>(i, c). heat_field p l i c) xs) \<Longrightarrow> stripRead p"
  by (induction xs) (auto simp: field_on_def heat_field_def)

lemma field_passport: "field_on (public_passport_view date fmt p) \<Longrightarrow> stripRead p"
  by (auto simp: public_passport_view_def strip_view_def dest: strip_fields)

lemma live_tap: "effectiveVerdict v dead = ''VALID'' \<longleftrightarrow> v = ''VALID'' \<and> dead \<noteq> Some True"
  by (auto simp: effectiveVerdict_def)

lemma scan_links:
  assumes "U_link (''/scan'' @ x) l \<in> set (tap_result_view t tap k)"
  shows "tv_verdict t = ''VALID'' \<and> tv_sealDead t \<noteq> Some True"
proof -
  obtain v c where c: "tapLanding (tv_verdict t) (tv_sealDead t) tap k = (v, c)" by fastforce
  then have "c \<noteq> None"
    using assms by (auto simp: tap_result_view_def u_some_def u_if_def passportHref_def split: prod.splits option.splits if_splits)
  then show ?thesis using c by (auto simp: tapLanding_def Let_def live_tap split: if_splits)
qed

text \<open>C32: the public pages claim nothing the verifier did not answer. A passport "does not exist" exactly when the verifier
  answers 404 for it, so never during an outage; a field of the heat strip is shown as changed only when the strip was read; the
  landing of a valid tap id says "no tap found" only after a 404; and it offers the condition check only for a tap the verifier
  answered as VALID on a seal that is not dead.\<close>

theorem public_pages_honest:
  shows "(passport_page date fmt fetch param = Not_found \<longleftrightarrow>
      (\<exists>a. fetch (''/api/passport/'' @ encodeURIComponent (safeDecode param)) = Inr a \<and> fr_status a = 404)) \<and>
    (passport_page date fmt fetch param = Shown us \<longrightarrow> field_on us \<longrightarrow>
      (\<exists>p l. getPassport fetch (safeDecode param) = Api_ok p \<and> up_latest p = Some l \<and>
        (ul_heat l = member Indicator ''INTACT'' \<or> ul_heat l = member Indicator ''TRIGGERED''))) \<and>
    (tag_query q = None \<longrightarrow> set_text (q ''tap'') = Some i \<longrightarrow> validTapId (Some i) \<longrightarrow>
      tap_page gate sim health fetcht q = Shown (no_tap_view b) \<longrightarrow>
      (\<exists>a. fetcht (''/api/tap/'' @ encodeURIComponent i) = Inr a \<and> fr_status a = 404)) \<and>
    (tag_query q = None \<longrightarrow> tap_page gate sim health fetcht q = Shown vs \<longrightarrow> U_link (''/scan'' @ x) l \<in> set vs \<longrightarrow>
      (\<exists>i t. q ''tap'' = Some i \<and> getTap fetcht i = Api_ok t \<and> tv_verdict t = ''VALID'' \<and> tv_sealDead t \<noteq> Some True))"
proof -
  have missing: "passport_page date fmt fetch param = Not_found \<longleftrightarrow> getPassport fetch (safeDecode param) = Api_missing"
    by (simp add: passport_page_def Let_def split: api_result.split)
  have strip: "\<exists>p l. getPassport fetch (safeDecode param) = Api_ok p \<and> up_latest p = Some l \<and>
      (ul_heat l = member Indicator ''INTACT'' \<or> ul_heat l = member Indicator ''TRIGGERED'')"
    if us: "passport_page date fmt fetch param = Shown us" "field_on us"
  proof -
    obtain p where p: "getPassport fetch (safeDecode param) = Api_ok p" "us = public_passport_view date fmt p"
      using us(1) unfolding passport_page_def Let_def by (cases "getPassport fetch (safeDecode param)") auto
    then have "stripRead p" using us(2) field_passport by blast
    then show ?thesis using p(1) by (auto simp: stripRead_def split: option.splits)
  qed
  have quiet: "no_tap_view b \<noteq> tap_result_view t tap k" for b t tap k
    by (auto simp: no_tap_view_def tap_result_view_def split: prod.split)
  have no_scan: "U_link (''/scan'' @ x) l \<notin> set (no_tap_view b)" for b by (simp add: no_tap_view_def)
  have tap: "\<exists>a. fetcht (''/api/tap/'' @ encodeURIComponent i) = Inr a \<and> fr_status a = 404"
    if "tag_query q = None" "set_text (q ''tap'') = Some i" "validTapId (Some i)" "tap_page gate sim health fetcht q = Shown (no_tap_view b)"
    using that quiet[of b] by (auto simp: tap_page_def Let_def getTap_def missing_iff[symmetric] dest: sym split: api_result.splits)
  have link: "\<exists>i t. q ''tap'' = Some i \<and> getTap fetcht i = Api_ok t \<and> tv_verdict t = ''VALID'' \<and> tv_sealDead t \<noteq> Some True"
    if q: "tag_query q = None" "tap_page gate sim health fetcht q = Shown vs" "U_link (''/scan'' @ x) l \<in> set vs"
  proof -
    obtain i t where "set_text (q ''tap'') = Some i" "getTap fetcht i = Api_ok t" "vs = tap_result_view t (q ''tap'') (q ''k'')"
      using q no_scan by (auto simp: tap_page_def Let_def split: option.splits api_result.splits)
    then show ?thesis using scan_links q(3) by (force simp: set_text_def split: option.splits list.splits)
  qed
  show ?thesis using missing strip tap link by (auto simp: getPassport_def missing_iff)
qed

section \<open>Pages on which they apply\<close>

definition demo_live :: live_env where
  "demo_live = \<lparr>le_lib = sample_lib, le_base58 = (\<lambda>_. ''pda''), le_message = (\<lambda>_. [])\<rparr>"

definition demo_info :: "pubkey \<Rightarrow> string + account_info option" where
  "demo_info k = Inr (Some \<lparr>ai_owner = replicate 32 3, ai_data = borsh_passport PASSPORT_DISCRIMINATOR 255 Flacon_History.demo_passport\<rparr>)"

theorem live_check_agrees_witness:
  "\<exists>d. live_run demo_live demo_info ''ab'' = Live_ok d ''pda'' \<and> lc_matches (liveCheckVerdict d (uint GRADE_A) (Some 0))"
proof -
  have size: "passport_sizes Flacon_History.demo_passport" by (simp add: passport_sizes_def Flacon_History.demo_passport_def)
  have h: "hexToBytes ''ab'' = Inr [0xab]" by code_simp
  have i: "demo_info (passportPda (le_lib demo_live) [0xab]) =
      Inr (Some \<lparr>ai_owner = cl_program (le_lib demo_live), ai_data = borsh_passport PASSPORT_DISCRIMINATOR 255 Flacon_History.demo_passport\<rparr>)"
    by (simp add: demo_info_def demo_live_def sample_lib_def)
  show ?thesis
    using live_check_agrees[of Flacon_History.demo_passport "''ab''" "[0xab]" demo_info demo_live 255 "uint GRADE_A" "Some 0", OF size h i]
    by (auto simp: demo_live_def Flacon_History.demo_passport_def)
qed

theorem page_links_resolve_witness:
  "\<exists>x. app_route (orderPath [CHR ''a'', CHR ''/'', CHR 0xC3, CHR 0xBC]) = Some (At_order x) \<and>
     fst (order_route x) = [CHR ''a'', CHR ''/'', CHR 0xC3, CHR 0xBC]"
proof -
  have "utf8_text [CHR ''a'', CHR ''/'', CHR 0xC3, CHR 0xBC] [[97], [47], [0xC3, 0xBC]]"
    "route_param [CHR ''a'', CHR ''/'', CHR 0xC3, CHR 0xBC]"
    unfolding utf8_text_def route_param_def by code_simp+
  then show ?thesis by (rule page_links_resolve[THEN conjunct1])
qed

definition demo_tap :: tap_view where
  "demo_tap = \<lparr>tv_verdict = ''VALID'', tv_sealDead = None, tv_serial = None, tv_counter = Some 1, tv_uid = None\<rparr>"

definition demo_tap_query :: "string \<Rightarrow> string option" where
  "demo_tap_query k = (if k = ''tap'' then Some ''7'' else None)"

definition demo_tap_fetch :: "string \<Rightarrow> fetch_error + tap_view fetch_response" where
  "demo_tap_fetch u = Inr \<lparr>fr_status = 200, fr_json = Inr demo_tap\<rparr>"

theorem public_pages_honest_witness:
  "\<exists>us i t. tap_page (\<lambda>_. Not_found) False (\<lambda>_. Inr \<lparr>fr_status = 200, fr_json = Inr True\<rparr>) demo_tap_fetch demo_tap_query = Shown us \<and>
     demo_tap_query ''tap'' = Some i \<and> getTap demo_tap_fetch i = Api_ok t \<and> tv_verdict t = ''VALID''"
proof -
  let ?page = "tap_page (\<lambda>_. Not_found) False (\<lambda>_. Inr \<lparr>fr_status = 200, fr_json = Inr True\<rparr>) demo_tap_fetch demo_tap_query"
  have raw: "tag_query demo_tap_query = None" by (simp add: tag_query_def demo_tap_query_def landing_tag_writer_def set_text_def)
  have "validTapId (Some ''7'')" by code_simp
  then have "getTap demo_tap_fetch ''7'' = Api_ok demo_tap"
    by (simp add: getTap_def demo_tap_fetch_def api_get_def)
  then have page: "?page = Shown (tap_result_view demo_tap (Some ''7'') None)"
    using raw by (simp add: tap_page_def demo_tap_query_def set_text_def)
  have "tapLanding ''VALID'' None (Some ''7'') None = (''VALID'', Some ''/scan'')"
    by (simp add: tapLanding_def effectiveVerdict_def set_text_def)
  moreover obtain a b c where "verdictText ''VALID'' (Some 1) = (a, b, c)" by (rule prod_cases3)
  ultimately obtain l where "U_link (''/scan'' @ []) l \<in> set (tap_result_view demo_tap (Some ''7'') None)"
    by (auto simp: tap_result_view_def demo_tap_def u_some_def)
  from public_pages_honest[THEN conjunct2, THEN conjunct2, THEN conjunct2, rule_format, OF raw page this]
  show ?thesis using page by blast
qed

end
