(* ===== verification/Dev_Page.thy ===== *)
theory Dev_Page
  imports Web_Format Web_Small Web_Errors Web_Verify_Api
begin

text \<open>
  \<open>apps/web/src/components/dev-console.tsx\<close>: the switch of the demo mode and the console of the seal simulator. A handler is
  a function of the page and of what the verifier answers; \<open>dp_sent\<close> keeps the requests a press sends, in order. The times of
  the log and the layout are left out.
\<close>

section \<open>DemoSwitch\<close>

text \<open>The stored flag after the query parameter, and whether the address bar is cleaned.\<close>

definition demo_query :: "string option \<Rightarrow> (bool \<times> bool) option" where
  "demo_query q = (if q = Some ''1'' then Some (True, True) else if q = Some ''0'' then Some (False, True) else None)"

definition local_host :: "string \<Rightarrow> bool" where
  "local_host h \<longleftrightarrow> h \<in> {''localhost'', ''127.0.0.1'', ''[::1]''}"

datatype dev_press =
    D_refresh | D_create | D_tap string | D_kill string | D_revive string | D_open_reset | D_reset | D_cancel

datatype dev_ui = D_say string | D_link string string | D_button dev_press string bool | D_lamp tone | D_pick string "(string \<times> string) list"

definition demo_switch_view :: "bool option \<Rightarrow> bool \<Rightarrow> dev_ui list" where
  "demo_switch_view on localhost = (case on of
     None \<Rightarrow> []
   | Some b \<Rightarrow>
       if localhost then [D_say ''Demo mode is always on for localhost.'']
       else [D_say (''Demo mode '' @ (if b then ''on'' else ''off'') @ '' in this browser''),
         D_say ''Demo mode shows the dev wallets (keys in plain text in this browser, signing without a prompt), the burner wallet, airdrop buttons, test images and virtual taps. Never use these wallets for anything of value.'',
         D_link (if b then ''/dev?demo=0'' else ''/dev?demo=1'') (if b then ''Switch demo mode off'' else ''Switch demo mode on'')])"

section \<open>The console\<close>

record console_tag =
  sg_uid :: string
  sg_serial :: "string option"
  sg_kind :: "int option"
  sg_counter :: int
  sg_alive :: bool

record tap_result =
  tr_responds :: bool
  tr_ctr :: "int option"
  tr_cmac :: "string option"
  tr_url :: "string option"

record dev_health =
  dh_keyId :: int
  dh_pubkey :: string
  dh_simulator :: bool
  dh_program :: "string option"

datatype health_state = H_unknown | H_down | H_up dev_health

record dev_log =
  dl_text :: string
  dl_url :: "string option"
  dl_tone :: tone

record dev_page =
  dp_health :: health_state
  dp_tags :: "console_tag list"
  dp_passports :: "(string \<times> string \<times> string) list"
  dp_serial :: string
  dp_kind :: int
  dp_busy :: "string option"
  dp_log :: "dev_log list"
  dp_error :: "string option"
  dp_resetOpen :: bool
  dp_token :: string
  dp_sent :: "(string \<times> json option \<times> string option) list"

definition initial_dev :: dev_page where
  "initial_dev = \<lparr>dp_health = H_unknown, dp_tags = [], dp_passports = [], dp_serial = [], dp_kind = 1, dp_busy = None, dp_log = [],
     dp_error = None, dp_resetOpen = False, dp_token = [], dp_sent = []\<rparr>"

definition push :: "string \<Rightarrow> tone \<Rightarrow> string option \<Rightarrow> dev_page \<Rightarrow> dev_page" where
  "push t tn url p = p\<lparr>dp_log := take 30 (\<lparr>dl_text = t, dl_url = url, dl_tone = tn\<rparr> # dp_log p)\<rparr>"

text \<open>A request: its path, its body (None is a GET), and the \<open>x-admin-token\<close> of its header.\<close>

definition asked_for :: "string \<Rightarrow> json option \<Rightarrow> string option \<Rightarrow> dev_page \<Rightarrow> dev_page" where
  "asked_for path body token p = p\<lparr>dp_sent := dp_sent p @ [(path, body, token)]\<rparr>"

text \<open>What \<open>refresh\<close> is answered: the health, then tags and passports together (\<open>Promise.all\<close>).\<close>

record dev_answer =
  da_health :: "js_error + dev_health"
  da_lists :: "js_error + console_tag list \<times> (string \<times> string \<times> string) list"

definition refresh :: "dev_answer \<Rightarrow> dev_page \<Rightarrow> dev_page" where
  "refresh a p =
    (let p0 = asked_for ''/health'' None None p in
     case da_health a of
       Inl x \<Rightarrow> p0\<lparr>dp_health := H_down, dp_error := Some (friendly x)\<rparr>
     | Inr h \<Rightarrow>
         let p1 = p0\<lparr>dp_health := H_up h\<rparr> in
         if \<not> dh_simulator h then p1
         else let p2 = asked_for ''/api/passports'' None None (asked_for ''/api/dev/tags'' None None p1) in
           (case da_lists a of
              Inl x \<Rightarrow> p2\<lparr>dp_error := Some (friendly x)\<rparr>
            | Inr (ts, ps) \<Rightarrow> p2\<lparr>dp_tags := ts, dp_passports := ps, dp_error := None\<rparr>))"

text \<open>\<open>run\<close>: the request of a press, what it does with the answer, and a refresh at the end, whatever happened.\<close>

definition dev_run :: "string \<Rightarrow> string \<Rightarrow> json option \<Rightarrow> string option \<Rightarrow> js_error + 'a \<Rightarrow> ('a \<Rightarrow> dev_page \<Rightarrow> dev_page) \<Rightarrow> dev_answer \<Rightarrow> dev_page \<Rightarrow> dev_page" where
  "dev_run label path body token r done a p =
    (let q = asked_for path body token (p\<lparr>dp_busy := Some label\<rparr>)
     in refresh a ((case r of Inl x \<Rightarrow> push (''Error: '' @ friendly x) Tone_bad None q | Inr v \<Rightarrow> done v q)\<lparr>dp_busy := None\<rparr>))"

definition createTag :: "js_error + console_tag \<Rightarrow> dev_answer \<Rightarrow> dev_page \<Rightarrow> dev_page" where
  "createTag r a p = dev_run ''create'' ''/api/dev/tag''
     (Some (JObj ((if dp_serial p \<noteq> [] then [(''serial'', JStr (dp_serial p))] else []) @ [(''kind'', JNum (jn (dp_kind p)))]))) None r
     (\<lambda>t. push (''Tag '' @ sg_uid t @ '' created'' @ (case set_text (sg_serial t) of
         Some s \<Rightarrow> ('' '' @ [CHR 0xC2, CHR 0xB7] @ '' seal on '') @ s | None \<Rightarrow> ('' '' @ [CHR 0xC2, CHR 0xB7] @ '' unregistered''))) Tone_ok None) a p"

definition uid_body :: "string \<Rightarrow> json option" where
  "uid_body uid = Some (JObj [(''uid'', JStr uid)])"

definition or_undefined :: "string option \<Rightarrow> string" where
  "or_undefined t = (case t of Some s \<Rightarrow> s | None \<Rightarrow> ''undefined'')"

definition dev_tap :: "string \<Rightarrow> js_error + tap_result \<Rightarrow> dev_answer \<Rightarrow> dev_page \<Rightarrow> dev_page" where
  "dev_tap uid r a p = dev_run (''tap-'' @ uid) ''/api/dev/tap'' (uid_body uid) None r
     (\<lambda>t. if tr_responds t
       then push (''Tap '' @ uid @ ('' '' @ [CHR 0xC2, CHR 0xB7] @ '' counter '') @ or_undefined (map_option show_int (tr_ctr t)) @ ('' '' @ [CHR 0xC2, CHR 0xB7] @ '' CMAC '') @
         or_undefined (tr_cmac t)) Tone_ok (tr_url t)
       else push (''Tap '' @ uid @ ('' '' @ [CHR 0xC2, CHR 0xB7] @ '' seal not responding'')) Tone_bad (tr_url t)) a p"

definition dev_kill :: "string \<Rightarrow> js_error + unit \<Rightarrow> dev_answer \<Rightarrow> dev_page \<Rightarrow> dev_page" where
  "dev_kill uid r a p = dev_run (''kill-'' @ uid) ''/api/dev/kill'' (uid_body uid) None r
     (\<lambda>_. push (''Antenna of '' @ uid @ '' separated'') Tone_bad None) a p"

definition dev_revive :: "string \<Rightarrow> js_error + unit \<Rightarrow> dev_answer \<Rightarrow> dev_page \<Rightarrow> dev_page" where
  "dev_revive uid r a p = dev_run (''revive-'' @ uid) ''/api/dev/revive'' (uid_body uid) None r
     (\<lambda>_. push (uid @ '' responds again'') Tone_ok None) a p"

text \<open>The token goes into the request's header; the page keeps it only as long as it is open.\<close>

definition dev_reset :: "js_error + unit \<Rightarrow> dev_answer \<Rightarrow> dev_page \<Rightarrow> dev_page" where
  "dev_reset r a p = dev_run ''reset'' ''/api/dev/reset'' (Some (JObj [])) (Some (js_trim (dp_token p))) r
     (\<lambda>_ q. push ''Database reset and re-seeded'' Tone_none None (q\<lparr>dp_resetOpen := False, dp_log := []\<rparr>)) a p"

section \<open>The view\<close>

definition d_if :: "bool \<Rightarrow> dev_ui list \<Rightarrow> dev_ui list" where
  "d_if b us = (if b then us else [])"

definition dev_free :: "dev_page \<Rightarrow> bool" where
  "dev_free p \<longleftrightarrow> dp_busy p = None"

definition new_tag_view :: "dev_page \<Rightarrow> dev_ui list" where
  "new_tag_view p =
    [D_say ''New virtual seal'',
     D_pick (dp_serial p) (([], ([CHR 0xE2, CHR 0x80, CHR 0x94] @ '' unregistered '' @ [CHR 0xE2, CHR 0x80, CHR 0x94])) # map (\<lambda>(s, b, n). (s, s @ ('' '' @ [CHR 0xC2, CHR 0xB7] @ '' '') @ b @ '' '' @ n)) (dp_passports p)),
     D_pick (show_int (dp_kind p)) [(''1'', ''Neck''), (''0'', ''Box'')], D_button D_create ''Create'' (dev_free p)]"

definition tag_row :: "dev_page \<Rightarrow> console_tag \<Rightarrow> dev_ui list" where
  "tag_row p t =
    [D_lamp (if sg_alive t then Tone_ok else Tone_bad), D_say (sg_uid t),
     (case set_text (sg_serial t) of Some s \<Rightarrow> D_link (passportHref s) s | None \<Rightarrow> D_say ''unregistered''),
     D_say ((case sg_kind t of Some k \<Rightarrow> if k = 0 then ('' '' @ [CHR 0xC2, CHR 0xB7] @ '' Box'') else ('' '' @ [CHR 0xC2, CHR 0xB7] @ '' Neck'') | None \<Rightarrow> []) @ ('' '' @ [CHR 0xC2, CHR 0xB7] @ '' counter '') @ show_int (sg_counter t)),
     D_button (D_tap (sg_uid t)) ''Tap'' (dev_free p),
     (if sg_alive t then D_button (D_kill (sg_uid t)) ''Kill'' (dev_free p) else D_button (D_revive (sg_uid t)) ''Revive'' (dev_free p))]"

definition server_line :: "dev_health \<Rightarrow> dev_page \<Rightarrow> dev_ui list" where
  "server_line h p =
    [D_say (''Server-Key #'' @ show_int (dh_keyId h) @ ('' '' @ [CHR 0xC2, CHR 0xB7] @ '' '') @ take 16 (dh_pubkey h) @ ([CHR 0xE2, CHR 0x80, CHR 0xA6] @ '' '' @ [CHR 0xC2, CHR 0xB7] @ '' program '') @
       (case set_text (dh_program h) of Some k \<Rightarrow> take 8 k @ [CHR 0xE2, CHR 0x80, CHR 0xA6] | None \<Rightarrow> ''not set''))] @
    d_if (\<not> dp_resetOpen p) [D_button D_open_reset ''Reset + Seed'' (dev_free p)]"

definition reset_view :: "string \<Rightarrow> dev_page \<Rightarrow> dev_ui list" where
  "reset_view url p = d_if (dp_resetOpen p)
    [D_say ''Wipe the database and load the demo seed again'',
     D_say ''The verifier asks for its admin token (FV_ADMIN_TOKEN) and refuses every reset while none is set. The token stays in this page only and is gone on reload.'',
     D_button D_reset ''Reset + Seed'' (dev_free p \<and> js_trim (dp_token p) \<noteq> []), D_button D_cancel ''Cancel'' (dev_free p),
     D_say (''From a shell: curl -X POST '' @ url @ (''/api/dev/reset -H '' @ [CHR 0x22] @ ''x-admin-token: $FV_ADMIN_TOKEN'' @ [CHR 0x22]))]"

text \<open>\<open>/^https?:\/\/[^/]+/\<close> cut off.\<close>

definition after_host :: "string \<Rightarrow> string" where
  "after_host u =
    (let r = (if starts_with u ''https://'' then Some (drop 8 u) else if starts_with u ''http://'' then Some (drop 7 u) else None)
     in case r of Some t \<Rightarrow> if t \<noteq> [] \<and> hd t \<noteq> CHR ''/'' then dropWhile (\<lambda>c. c \<noteq> CHR ''/'') t else u | None \<Rightarrow> u)"

definition dev_log_view :: "dev_page \<Rightarrow> dev_ui list" where
  "dev_log_view p = D_say ''Recent taps'' #
    (if dp_log p = [] then [D_say (''A tap creates a SUN URL here. '' @ [CHR 0xE2, CHR 0x80, CHR 0x9C] @ ''Open in /t'' @ [CHR 0xE2, CHR 0x80, CHR 0x9D] @ '' calls it the way a phone would.'')]
     else concat (map (\<lambda>l. [D_lamp (dl_tone l), D_say (dl_text l)] @ (case set_text (dl_url l) of
        Some u \<Rightarrow> [D_link u ''Open in /t'', D_say (after_host u)] | None \<Rightarrow> [])) (dp_log p)))"

definition dev_view :: "string \<Rightarrow> dev_page \<Rightarrow> dev_ui list" where
  "dev_view url p = (case dp_health p of
     H_unknown \<Rightarrow> [D_say (''Connecting to '' @ url @ ('' '' @ [CHR 0xE2, CHR 0x80, CHR 0xA6]))]
   | H_down \<Rightarrow> [D_say ''Verification server unreachable'',
       D_say (url @ ('' '' @ [CHR 0xE2, CHR 0x80, CHR 0x94] @ '' start it with cd apps/verify && uv run uvicorn fv.main:app --port 8787'') @
         (case set_text (dp_error p) of Some t \<Rightarrow> '' ('' @ t @ '')'' | None \<Rightarrow> [])), D_button D_refresh ''Try again'' True]
   | H_up h \<Rightarrow>
       if \<not> dh_simulator h then [D_say ''Simulator disabled on this server'',
         D_say (''The verification server at '' @ url @ '' is running with FV_DEV_SIMULATOR off, so it accepts only real seals. Virtual seals are available on a local verifier.'')]
       else new_tag_view p @ concat (map (tag_row p) (dp_tags p)) @ d_if (dp_tags p = []) [D_say ''No virtual tags yet.''] @
         server_line h p @ reset_view url p @ dev_log_view p)"

definition dev_pressed :: "string \<Rightarrow> dev_page \<Rightarrow> dev_press \<Rightarrow> bool" where
  "dev_pressed url p b \<longleftrightarrow> (\<exists>t. D_button b t True \<in> set (dev_view url p))"

section \<open>What may be asked\<close>

text \<open>The simulator's routes exist only on a verifier that runs it: no button offers them before its health said so, and a
  refresh asks for them only after the health it has just read did.\<close>

lemma sim_buttons: "dev_pressed url p b \<Longrightarrow> b \<noteq> D_refresh \<Longrightarrow> \<exists>h. dp_health p = H_up h \<and> dh_simulator h"
  by (auto simp: dev_pressed_def dev_view_def split: health_state.splits if_splits)

lemma refresh_asks:
  assumes "(''/api/dev/tags'', None, None) \<in> set (dp_sent (refresh a p))" "(''/api/dev/tags'', None, None) \<notin> set (dp_sent p)"
  shows "\<exists>h. da_health a = Inr h \<and> dh_simulator h"
  using assms by (auto simp: refresh_def asked_for_def Let_def split: sum.splits if_splits prod.splits)

text \<open>A reset needs the token that is typed in, and leaves a log that holds only the reset.\<close>

lemma reset_needs_token: "dev_pressed url p D_reset \<Longrightarrow> js_trim (dp_token p) \<noteq> [] \<and> dp_resetOpen p"
  by (auto simp: dev_pressed_def dev_view_def new_tag_view_def tag_row_def server_line_def reset_view_def dev_log_view_def d_if_def
      split: health_state.splits if_splits option.splits)

lemma reset_clears: "dp_log (dev_reset (Inr ()) a p) = [\<lparr>dl_text = ''Database reset and re-seeded'', dl_url = None, dl_tone = Tone_none\<rparr>]"
  by (simp add: dev_reset_def dev_run_def refresh_def asked_for_def push_def Let_def split: sum.split)

end
