(* ===== verification/Spec2Isabelle.thy ===== *)
theory Spec2Isabelle
  imports Flacon_History Escrow_Market Escrow_Client Idl_Facts Idl_Errors Web_Flacon Web_Errors
    Blink_Facts Vision_Demo Proof_Canonical Web_Pending Web_Scan
    Flacon_Registry Script_Facts Seed_Facts Web_Small Scan_Live Ops_Facts Order_Demo Certify_Facts Jpeg_Facts Market_Facts Public_Facts Dev_Page
begin

text \<open>
  Verification development for FlaconVault.

  \<^bold>\<open>The program.\<close> A sealed bottle has a passport on Solana. A person taps the NFC seal, photographs an indicator
  card and gets a server signature over a 152-byte scan message; the flacon program checks that signature and
  stores the scan, the escrow program sells a passport against USDC and uses the scans as evidence. The code is
  TypeScript (packages \<open>proof\<close> and \<open>vision\<close>, the Next.js application \<open>apps/web\<close>) and Rust (the two programs).

  \<^bold>\<open>Theories and sources.\<close>

  \<^item> \<open>FV_Prelude\<close>, \<open>FV_Text\<close>, \<open>FV_Number\<close>, \<open>FV_Codec\<close>, \<open>FV_Json\<close>: errors as sums (\<open>bindE\<close>, \<open>guardE\<close>), bytes, JavaScript
    strings and numbers, the conversion \<open>Number(text)\<close> with its rounding, little-endian codecs, JSON values and \<open>JSON.stringify\<close>.
  \<^item> \<open>Proof_Enums\<close>, \<open>Proof_Bytes\<close>, \<open>Proof_Message\<close>, \<open>Proof_Grade\<close>, \<open>Proof_Canonical\<close>: \<open>packages/proof/src\<close>.
    Tables, hex and hashes, the scan message with its parser, grades and heat masks, canonical JSON.
  \<^item> \<open>Idl_Types\<close>, \<open>Flacon_Idl\<close>, \<open>Escrow_Idl\<close>, \<open>Idl_Facts\<close>, \<open>Idl_Errors\<close>: \<open>packages/proof/src/idl\<close> and what the
    rest of the code relies on in them.
  \<^item> \<open>Program_Flacon\<close>, \<open>Flacon_Agreement\<close>, \<open>Flacon_History\<close>: the handlers of \<open>programs/flacon\<close>, their agreement
    with the TypeScript message and grade rule, and the reachable states of the registry. \<open>Flacon_Registry\<close>: the
    administration of server keys, partners and sites (\<open>registry_admin.rs\<close>, \<open>init_registry.rs\<close>).
  \<^item> \<open>Escrow_Program\<close>, \<open>Escrow_Rules\<close>, \<open>Escrow_Market\<close>, \<open>Escrow_Client\<close>: \<open>programs/escrow\<close>, the page's rules
    (\<open>lib/escrow-rules.ts\<close>), the reachable states of an order and of its money, the instruction builders
    (\<open>lib/escrow-ix.ts\<close>, \<open>lib/escrow.ts\<close>).
  \<^item> \<open>Web_Flacon\<close>, \<open>Web_Errors\<close>: \<open>lib/flacon.ts\<close> and \<open>lib/errors.ts\<close>.
  \<^item> \<open>Web_Tx\<close>, \<open>Web_Send\<close>: \<open>lib/send-tx.ts\<close>. Sending and confirming a transaction, finding the one that created
    an account. \<open>tx_matcher\<close> is the contract of a test on transactions.
  \<^item> \<open>Web_Blink\<close>, \<open>Blink_Facts\<close>: \<open>lib/blink-confirm.ts\<close> and the two routes of \<open>api/actions/verify-buy\<close>.
  \<^item> \<open>Web_Pending\<close>: \<open>lib/pending-events.ts\<close>. \<open>key_value\<close> is the contract of the browser's storage.
  \<^item> \<open>Web_Handoff\<close>, \<open>Web_Verify_Api\<close>, \<open>Web_Format\<close>, \<open>Web_Scan\<close>: \<open>lib/handoff.ts\<close>, \<open>verify-api.ts\<close>,
    \<open>format.ts\<close>, \<open>anchor-scan.ts\<close> and \<open>scan-steps.ts\<close>, the path of one scan through the page.
  \<^item> \<open>Web_Small\<close>: \<open>lib/wallet-links.ts\<close>, \<open>config.ts\<close>, \<open>api.ts\<close>, \<open>demo.ts\<close>, \<open>dev-wallet.ts\<close>, \<open>retry.ts\<close>, \<open>cn.ts\<close> and
    \<open>middleware.ts\<close>.
  \<^item> \<open>Scan_Page\<close>, \<open>Scan_Flow\<close>, \<open>Scan_Facts\<close>, \<open>Scan_Requests\<close>, \<open>Scan_Live\<close>: \<open>components/scan-flow.tsx\<close>, the page itself as a
    state machine over its handlers, the answers they wait for and the buttons the view offers.
  \<^item> \<open>Script_Cli\<close>, \<open>Script_Facts\<close>, \<open>Script_Seed\<close>, \<open>Seed_Facts\<close>: \<open>scripts/lib/cli.ts\<close> and the scripts that administer the
    registry and seed a cluster, run against the model of the program.
  \<^item> \<open>Script_Core\<close>, \<open>Script_Ops\<close>, \<open>Ops_Facts\<close>: \<open>scripts/lib/core.ts\<close> and \<open>spl.ts\<close> beside \<open>programs/escrow/src/mpl_core.rs\<close>, and
    \<open>list-order.ts\<close>, \<open>bind-chip.ts\<close>, \<open>seed-passports.ts\<close>, \<open>core-transfer.ts\<close>, \<open>seed-escrow.ts\<close>, \<open>fund-dev-wallet.ts\<close> as logs of
    what they send.
  \<^item> \<open>Order_Page\<close>, \<open>Order_View\<close>, \<open>Order_Facts\<close>, \<open>Order_Entries\<close>, \<open>Order_Demo\<close>: \<open>components/order-detail.tsx\<close>. The handlers
    split at their awaits, the view as texts and buttons, the history entries the page owes the verifier.
  \<^item> \<open>Certify_Page\<close>, \<open>Certify_Facts\<close>: \<open>components/certify-console.tsx\<close>, minting a passport and attaching a seal, and the
    account structs \<open>MintPassport\<close> and \<open>AttachSeal\<close> of the program that run what it sends.
  \<^item> \<open>Market_Page\<close>, \<open>Market_Facts\<close>: \<open>components/market-list.tsx\<close>. \<open>Public_Pages\<close>, \<open>Public_Facts\<close>: the pages \<open>app/p/[serial]\<close>, \<open>app/t\<close>,
    \<open>app/wallet/[pubkey]\<close> and the market's routes, with \<open>timeline.tsx\<close>, \<open>live-check.tsx\<close>, \<open>tap-gate.tsx\<close>, \<open>badges.tsx\<close> and
    \<open>decodeURIComponent\<close>. \<open>Dev_Page\<close>: \<open>components/dev-console.tsx\<close>.
  \<^item> \<open>Image_Png\<close>, \<open>Image_Jpeg\<close>, \<open>Jpeg_Facts\<close>: \<open>packages/vision/scripts/image-io.ts\<close>. PNG over zlib as a parameter; baseline JPEG.
  \<^item> \<open>Vision_Color\<close>, \<open>Vision_Frame\<close>, \<open>Vision_Verdict\<close>, \<open>Vision_Card\<close>, \<open>Vision_Combine\<close>: \<open>packages/vision/src\<close>.
    Colours and white balance, the card window, the verdicts on measured fields, a card read from one image,
    and the majority over several. \<open>Vision_Demo\<close>: a card that is read to the end.

  \<^bold>\<open>How state and calls appear.\<close> A program account is a record, a handler a function from the accounts to an
  error or the accounts after it; histories are inductive relations over the handlers. What the web code asks of
  others (wallet, RPC, verifier, storage, clock, SHA-256, the curve, PDA derivation, OpenCV) is an argument: a
  function of the call, or of its number where the answer may change. An exception is the left side of a sum.
  Strings are their UTF-8 bytes; JavaScript numbers are rationals with NaN and the infinities (\<open>js_num\<close>),
  measurements of the card are reals, so rounding is left out there. Words keep their width in the Rust programs.

  \<^bold>\<open>What the lemmas show.\<close>

  \<^item> Codecs: round trips and every error branch of the message, hex, heat masks, prices and accounts; agreement of
    the TypeScript and Rust builders and grade rules; the canonical text of a bundle determines it.
  \<^item> Programs: an accepted scan was signed by a valid server key for the arguments the message carries (tier, role, heat
    levels, site and bundle hash are not in it), the grade stored for it is the TypeScript rule's, scan proofs are never overwritten, bad grades
    stay, an order's money is in its vault while it is funded and ends with the seller or the buyer.
  \<^item> Clients: the page offers what the program accepts, instructions match the IDL, errors are explained by the
    program's own entries.
  \<^item> Sending: a signature is reported exactly when it landed, the creating transaction is found, a scan is anchored
    once over any presses, pending history entries refine a map, posting ends after six posts.
  \<^item> Tabs: \<open>tab_step\<close> interleaves the storage accesses of all tabs with time; a handed-over tap is taken once unless a tab was
    suspended between its last check and its deletion.
  \<^item> Scan page: whatever answers arrive in whatever order, only VALID scans reach the anchor step; without a resume
    link every request is one the program accepts and a free scan can be carried to its end from every page, the one a failed
    transaction left included; what a refused restart shows.
  \<^item> Order page: an enabled button is an action the program accepts, only an own usable scan is recorded, a history entry is
    stored, once the page has stopped watching the order, until the verifier has it; what a stale read, a reload while it
    watches or a second tab loses. Certification console: the program, run on the transactions it sends with the accounts they
    name, mints and attaches. Market page and \<open>list-order\<close>: when the program takes the listing and its deposit.
  \<^item> Public pages: they deny a bottle only after a 404, the live check reads what the program wrote, links resolve, in the
    routes of the app directory, to the page they name.
  \<^item> Images: PNG files of the supported kind (8 bits a sample, not interlaced, no colour key) and coded JPEG blocks, written as
    the standards have them, are read back, whatever row filters, other chunks, code tables and byte stuffing they use.
  \<^item> Registry and scripts: a revoked key never signs again, the plans of the scripts are accepted by the program, and
    seeding converges.
  \<^item> Blink callback: its rate (and how often a full table was emptied), that it answers, and what it makes the verifier record.
  \<^item> Card: a decided indicator rests on a card measured under its located label, on a balanced, consistent and glare-free reading, and
    after several frames on a majority of all of them.

  \<^bold>\<open>Bounds and fuel.\<close> Loops are structural or have a measure: at most five retries of an event, five status polls,
  1000 signatures in pages of 250, two label rounds, three anchor rounds. \<open>post_until\<close> and \<open>landed_tx\<close> wait on a
  clock and are partial functions; they are shown to return on clocks that move on with each pause.

  \<^bold>\<open>Not modelled.\<close> The Python verifier \<open>apps/verify\<close> (another language, seen through its answers); layout, icons and times
  of React components; \<open>vision-lab.tsx\<close> (canvas drawing for operators), the static pages; \<open>vision/src/synth.ts\<close> and \<open>calibrate.ts\<close> (test images), the events
  \<open>seed-passports.ts\<close> posts; rent and account allocation in the programs; OpenCV, zod, web3.js and Anchor themselves.
\<close>

end
